(* ===== verification/Prelude.thy ===== *)
theory Prelude
  imports Main "HOL-Library.Word" "HOL-Library.Product_Lexorder"
    "HOL-Library.Char_ord" "HOL-Library.List_Lexorder"
begin

text \<open>
  Shared vocabulary of the development: results of calls that may raise, the Python text
  primitives the services use (\<open>strip\<close>, \<open>lower\<close>, regular-expression character classes),
  UUIDs and their canonical text, instants, and the relational primitives by which the
  services read and write PostgreSQL tables (a table is the list of its rows in insertion order).
  A Python \<open>str\<close> is a \<open>string\<close>, one \<open>char\<close> per code point; code points above 255 are not
  represented.
\<close>

section \<open>Fact collections\<close>

named_theorems frame_simps \<open>what an operation leaves unchanged\<close>
named_theorems table_simps \<open>reading tables after an update\<close>
named_theorems shape_simps \<open>definitions whose unfolding exposes the branches of an operation\<close>

section \<open>Calls that may raise\<close>

text \<open>A call returns \<open>Inr\<close> its value or raises \<open>Inl\<close> its exception; \<open>bindE\<close> continues with the
  value and propagates the exception; \<open>mapErr\<close> translates one exception into another.\<close>

definition bindE :: "'e + 'a \<Rightarrow> ('a \<Rightarrow> 'e + 'b) \<Rightarrow> 'e + 'b" where
  "bindE r k = (case r of Inl e \<Rightarrow> Inl e | Inr x \<Rightarrow> k x)"

definition mapErr :: "('e \<Rightarrow> 'f) \<Rightarrow> 'e + 'a \<Rightarrow> 'f + 'a" where
  "mapErr h r = (case r of Inl e \<Rightarrow> Inl (h e) | Inr x \<Rightarrow> Inr x)"

definition require :: "bool \<Rightarrow> 'e \<Rightarrow> 'e + unit" where
  "require b e = (if b then Inr () else Inl e)"

lemma bindE_simps [simp]: "bindE (Inl e) k = Inl e" "bindE (Inr x) k = k x"
  by (simp_all add: bindE_def)

lemma bindE_eq_Inr: "bindE r k = Inr y \<longleftrightarrow> (\<exists>x. r = Inr x \<and> k x = Inr y)"
  by (cases r) auto

lemma bindE_eq_Inl: "bindE r k = Inl e \<longleftrightarrow> r = Inl e \<or> (\<exists>x. r = Inr x \<and> k x = Inl e)"
  by (cases r) auto

lemma mapErr_simps [simp]: "mapErr h (Inl e) = Inl (h e)" "mapErr h (Inr x) = Inr x"
  by (simp_all add: mapErr_def)

lemma mapErr_eq_Inr [simp]: "mapErr h r = Inr y \<longleftrightarrow> r = Inr y"
  by (cases r) auto

lemma require_eq_Inr [simp]: "require b e = Inr u \<longleftrightarrow> b"
  by (simp add: require_def)

lemma require_eq_Inl [simp]: "require b e = Inl e' \<longleftrightarrow> \<not> b \<and> e' = e"
  by (auto simp: require_def)

lemma require_simps [simp]: "require True e = Inr ()" "require False e = Inl e"
  by (simp_all add: require_def)

lemmas resultE = bindE_eq_Inr bindE_eq_Inl

section \<open>Python text\<close>

abbreviation codept :: "char \<Rightarrow> nat" where
  "codept c \<equiv> of_char c"

definition is_space :: "char \<Rightarrow> bool" where
  "is_space c \<longleftrightarrow> (9 \<le> codept c \<and> codept c \<le> 13) \<or> (28 \<le> codept c \<and> codept c \<le> 32) \<or> codept c = 133 \<or> codept c = 160"

definition strip :: "string \<Rightarrow> string" where
  "strip s = rev (dropWhile is_space (rev (dropWhile is_space s)))"

text \<open>PostgreSQL's one-argument \<open>btrim\<close> removes blanks only.\<close>

definition btrim :: "string \<Rightarrow> string" where
  "btrim s = rev (dropWhile (\<lambda>c. c = CHR '' '') (rev (dropWhile (\<lambda>c. c = CHR '' '') s)))"

definition is_lower :: "char \<Rightarrow> bool" where
  "is_lower c \<longleftrightarrow> 97 \<le> codept c \<and> codept c \<le> 122"

definition is_upper :: "char \<Rightarrow> bool" where
  "is_upper c \<longleftrightarrow> 65 \<le> codept c \<and> codept c \<le> 90"

definition is_digit :: "char \<Rightarrow> bool" where
  "is_digit c \<longleftrightarrow> 48 \<le> codept c \<and> codept c \<le> 57"

definition is_alnum :: "char \<Rightarrow> bool" where
  "is_alnum c \<longleftrightarrow> is_lower c \<or> is_upper c \<or> is_digit c"

definition is_hex_lower :: "char \<Rightarrow> bool" where
  "is_hex_lower c \<longleftrightarrow> is_digit c \<or> (97 \<le> codept c \<and> codept c \<le> 102)"

text \<open>The regular expression \<open>^[0-9a-f]{64}$\<close> under \<open>fullmatch\<close>.\<close>

definition sha256_hex :: "string \<Rightarrow> bool" where
  "sha256_hex s \<longleftrightarrow> length s = 64 \<and> list_all is_hex_lower s"

text \<open>The regular expression \<open>^[A-Za-z0-9_.:-]{1,80}$\<close> under \<open>fullmatch\<close>.\<close>

definition safe_code_char :: "char \<Rightarrow> bool" where
  "safe_code_char c \<longleftrightarrow> is_alnum c \<or> c \<in> set ''_.:-''"

definition safe_code_pattern :: "string \<Rightarrow> bool" where
  "safe_code_pattern s \<longleftrightarrow> 1 \<le> length s \<and> length s \<le> 80 \<and> list_all safe_code_char s"

text \<open>\<open>text.split(d)\<close> for a one-character separator.\<close>

fun split_on :: "char \<Rightarrow> string \<Rightarrow> string list" where
  "split_on d [] = [[]]"
| "split_on d (c # cs) =
     (if c = d then [] # split_on d cs
      else (case split_on d cs of w # ws \<Rightarrow> (c # w) # ws | [] \<Rightarrow> [[c]]))"

text \<open>\<open>text.lower()\<close> on the ASCII letters; the letters above are not used in what the code lowers
  and compares.\<close>

definition ascii_lower :: "string \<Rightarrow> string" where
  "ascii_lower s = map (\<lambda>c. if is_upper c then char_of (codept c + 32) else c) s"

definition starts_with :: "string \<Rightarrow> string \<Rightarrow> bool" where
  "starts_with p s \<longleftrightarrow> take (length p) s = p"

lemma dropWhile_hd_False: "dropWhile P xs = y # ys \<Longrightarrow> \<not> P y"
  by (induction xs) (auto split: if_splits)

lemma dropWhile_id: "xs = [] \<or> \<not> P (hd xs) \<Longrightarrow> dropWhile P xs = xs"
  by (cases xs) auto

lemma hd_dropWhile_rev: 
  assumes "xs = [] \<or> \<not> P (hd xs)"
  shows "rev (dropWhile P (rev xs)) = [] \<or> \<not> P (hd (rev (dropWhile P (rev xs))))"
proof -
  have "rev xs = takeWhile P (rev xs) @ dropWhile P (rev xs)" by simp
  then have "xs = rev (dropWhile P (rev xs)) @ rev (takeWhile P (rev xs))"
    by (metis rev_append rev_rev_ident)
  with assms show ?thesis
    by (metis append_is_Nil_conv hd_append2)
qed

lemma strip_idem [simp]: "strip (strip s) = strip s"
proof -
  let ?a = "dropWhile is_space s"
  have "?a = [] \<or> \<not> is_space (hd ?a)"
    by (cases ?a) (auto dest: dropWhile_hd_False)
  then have "strip s = [] \<or> \<not> is_space (hd (strip s))"
    unfolding strip_def by (rule hd_dropWhile_rev)
  then have left: "dropWhile is_space (strip s) = strip s" by (rule dropWhile_id)
  have "dropWhile is_space (rev (strip s)) = rev (strip s)"
    by (simp add: strip_def dropWhile_idem)
  with left show ?thesis by (simp add: strip_def [of "strip s"])
qed

lemma length_strip_le: "length (strip s) \<le> length s"
  by (simp add: strip_def) (metis le_trans length_dropWhile_le length_rev)

lemma dropWhile_mono_pred:
  assumes "dropWhile P xs = xs" "\<And>c. Q c \<Longrightarrow> P c"
  shows "dropWhile Q xs = xs"
proof (cases xs)
  case (Cons a ys)
  have "\<not> P a"
  proof
    assume "P a"
    with assms(1) Cons have "dropWhile P ys = a # ys" by simp
    then have "length (dropWhile P ys) = Suc (length ys)" by simp
    with length_dropWhile_le [of P ys] show False by simp
  qed
  with assms(2) Cons show ?thesis by auto
qed simp

lemma is_space_blank: "is_space CHR '' ''"
  by (simp add: is_space_def)

lemma btrim_strip [simp]: "btrim (strip s) = strip s"
proof -
  have "dropWhile is_space (strip s) = strip s"
    by (metis strip_idem dropWhile_idem strip_def rev_rev_ident dropWhile_eq_self_iff hd_dropWhile_rev)
  then have l: "dropWhile (\<lambda>c. c = CHR '' '') (strip s) = strip s"
    by (rule dropWhile_mono_pred) (simp add: is_space_blank)
  have "dropWhile is_space (rev (strip s)) = rev (strip s)"
    by (simp add: strip_def dropWhile_idem)
  then have r: "dropWhile (\<lambda>c. c = CHR '' '') (rev (strip s)) = rev (strip s)"
    by (rule dropWhile_mono_pred) (simp add: is_space_blank)
  from l r show ?thesis by (simp add: btrim_def)
qed

section \<open>UUIDs, instants\<close>

text \<open>\<open>uuid.UUID\<close> is a 128-bit value; PostgreSQL orders UUIDs byte by byte, that is as unsigned
  integers.\<close>

datatype uuid = UUID (uuid_word: "128 word")

instantiation uuid :: linorder
begin

definition less_eq_uuid :: "uuid \<Rightarrow> uuid \<Rightarrow> bool" where
  "less_eq_uuid a b \<longleftrightarrow> uuid_word a \<le> uuid_word b"

definition less_uuid :: "uuid \<Rightarrow> uuid \<Rightarrow> bool" where
  "less_uuid a b \<longleftrightarrow> uuid_word a < uuid_word b"

instance
  by standard (auto simp: less_eq_uuid_def less_uuid_def uuid.expand)

end

text \<open>\<open>str(uuid)\<close>: 32 lowercase hexadecimal digits grouped 8-4-4-4-12.\<close>

definition hex_digit :: "nat \<Rightarrow> char" where
  "hex_digit d = (if d < 10 then char_of (48 + d) else char_of (87 + d))"

fun hex_digits :: "nat \<Rightarrow> nat \<Rightarrow> string" where
  "hex_digits 0 n = []"
| "hex_digits (Suc k) n = hex_digits k (n div 16) @ [hex_digit (n mod 16)]"

definition uuid_hex :: "uuid \<Rightarrow> string" where
  "uuid_hex u = hex_digits 32 (unat (uuid_word u))"

definition uuid_str :: "uuid \<Rightarrow> string" where
  "uuid_str u = (let h = uuid_hex u in
     take 8 h @ ''-'' @ take 4 (drop 8 h) @ ''-'' @ take 4 (drop 12 h) @ ''-'' @
     take 4 (drop 16 h) @ ''-'' @ drop 20 h)"

lemma length_hex_digits [simp]: "length (hex_digits k n) = k"
  by (induction k arbitrary: n) auto

lemma code_hex_digit: "d < 16 \<Longrightarrow> codept (hex_digit d) = (if d < 10 then 48 + d else 87 + d)"
  by (auto simp: hex_digit_def)

lemma hex_digit_inj: "d < 16 \<Longrightarrow> e < 16 \<Longrightarrow> hex_digit d = hex_digit e \<Longrightarrow> d = e"
  by (drule arg_cong [of _ _ codept]) (auto simp: code_hex_digit split: if_splits)

lemma hex_digits_inj:
  "hex_digits k m = hex_digits k n \<Longrightarrow> m < 16 ^ k \<Longrightarrow> n < 16 ^ k \<Longrightarrow> m = n"
proof (induction k arbitrary: m n)
  case (Suc k)
  from Suc.prems have "m div 16 = n div 16"
    by (intro Suc.IH) (auto simp: div_less_iff_less_mult mult.commute)
  moreover from Suc.prems have "m mod 16 = n mod 16"
    by (intro hex_digit_inj) auto
  ultimately show ?case by (metis div_mult_mod_eq)
qed simp

lemma uuid_hex_inj: "uuid_hex u = uuid_hex v \<Longrightarrow> u = v"
proof -
  assume eq: "uuid_hex u = uuid_hex v"
  have bound: "unat (uuid_word w) < 16 ^ 32" for w
  proof -
    have "unat (uuid_word w) < 2 ^ LENGTH(128)" by (rule unsigned_less)
    then show ?thesis by simp
  qed
  have "unat (uuid_word u) = unat (uuid_word v)"
    using eq bound [of u] bound [of v] unfolding uuid_hex_def by (rule hex_digits_inj)
  then have "uuid_word u = uuid_word v" by (simp only: word_unat_eq_iff)
  then show "u = v" by (rule uuid.expand)
qed

lemma length_uuid_hex [simp]: "length (uuid_hex u) = 32"
  by (simp add: uuid_hex_def)

lemma uuid_str_inj: "uuid_str u = uuid_str v \<longleftrightarrow> u = v"
proof
  assume eq: "uuid_str u = uuid_str v"
  let ?h = "uuid_hex u" and ?g = "uuid_hex v"
  from eq have parts: "take 8 ?h = take 8 ?g" "take 4 (drop 8 ?h) = take 4 (drop 8 ?g)"
    "take 4 (drop 12 ?h) = take 4 (drop 12 ?g)" "take 4 (drop 16 ?h) = take 4 (drop 16 ?g)"
    "drop 20 ?h = drop 20 ?g"
    by (simp_all add: uuid_str_def Let_def)
  have glue: "drop k h = take 4 (drop k h) @ drop (k + 4) h" for k :: nat and h :: string
    by (metis append_take_drop_id drop_drop add.commute)
  from parts(4,5) have "drop 16 ?h = drop 16 ?g"
    using glue [of 16 ?h] glue [of 16 ?g] by simp
  with parts(3) have "drop 12 ?h = drop 12 ?g"
    using glue [of 12 ?h] glue [of 12 ?g] by simp
  with parts(2) have "drop 8 ?h = drop 8 ?g"
    using glue [of 8 ?h] glue [of 8 ?g] by simp
  with parts(1) have "?h = ?g" by (metis append_take_drop_id)
  then show "u = v" by (rule uuid_hex_inj)
qed simp

text \<open>An instant is the number of microseconds since the epoch; a Python \<open>datetime\<close> given by a
  caller is naive or carries the UTC offset of its zone.\<close>

type_synonym instant = int

datatype datetime = Naive int | Aware (local_micros: int) (utc_offset: int)

definition to_utc :: "datetime \<Rightarrow> instant option" where
  "to_utc d = (case d of Naive _ \<Rightarrow> None | Aware l off \<Rightarrow> Some (l - off))"

section \<open>Tables\<close>

text \<open>
  \<open>find P t\<close> is \<open>select(...).where(P)\<close> read by \<open>scalar_one_or_none\<close> (the selections it is used
  for are on a primary or unique key); \<open>first_by k t\<close> is \<open>order_by(k).limit(1)\<close> read by \<open>first\<close>;
  \<open>put_row\<close> is the \<open>UPDATE\<close> by primary key that flushes a changed row.
\<close>

definition first_by :: "('r \<Rightarrow> 'k::linorder) \<Rightarrow> 'r list \<Rightarrow> 'r option" where
  "first_by k t = (case sort_key k t of [] \<Rightarrow> None | r # _ \<Rightarrow> Some r)"

definition put_row :: "('r \<Rightarrow> 'k) \<Rightarrow> 'r \<Rightarrow> 'r list \<Rightarrow> 'r list" where
  "put_row key r t = map (\<lambda>x. if key x = key r then r else x) t"

lemma first_by_None [simp]: "first_by k t = None \<longleftrightarrow> t = []"
  by (auto simp: first_by_def split: list.splits dest: arg_cong [of _ _ set])

lemma first_by_Some:
  assumes "first_by k t = Some r"
  shows "r \<in> set t" "\<forall>x\<in>set t. k r \<le> k x"
proof -
  from assms obtain rs where rs: "sort_key k t = r # rs"
    by (auto simp: first_by_def split: list.splits)
  then have "set (r # rs) = set t" by (metis set_sort)
  then show "r \<in> set t" by auto
  have "sorted (map k (r # rs))" using rs by (metis sorted_sort_key)
  then have "\<forall>x\<in>set (r # rs). k r \<le> k x" by auto
  with \<open>set (r # rs) = set t\<close> show "\<forall>x\<in>set t. k r \<le> k x" by simp
qed

lemma find_SomeD: "find P t = Some r \<Longrightarrow> r \<in> set t \<and> P r"
  by (induction t) (auto split: if_splits)

lemma find_NoneD: "find P t = None \<Longrightarrow> x \<in> set t \<Longrightarrow> \<not> P x"
  by (auto simp: find_None_iff)

lemma find_append: "find P (t @ u) = (case find P t of None \<Rightarrow> find P u | Some r \<Rightarrow> Some r)"
  by (induction t) auto

lemma find_unique:
  assumes "r \<in> set t" "P r" "\<And>x. x \<in> set t \<Longrightarrow> P x \<Longrightarrow> x = r"
  shows "find P t = Some r"
proof (cases "find P t")
  case None
  with assms(1,2) show ?thesis by (auto dest: find_NoneD)
next
  case (Some x)
  with assms(3) show ?thesis by (auto dest: find_SomeD)
qed

lemma find_key:
  assumes "distinct (map key t)" "r \<in> set t"
  shows "find (\<lambda>x. key x = key r) t = Some r"
  using assms by (intro find_unique) (auto dest: distinct_map [THEN iffD1] inj_onD)

lemma find_scope:
  assumes "distinct (map key t)"
  shows "find (\<lambda>x. key x = k \<and> Q x) t =
    (case find (\<lambda>x. key x = k) t of None \<Rightarrow> None | Some x \<Rightarrow> if Q x then Some x else None)"
  using assms
proof (induction t)
  case (Cons a t)
  have "find (\<lambda>x. key x = key a) t = None"
    using Cons.prems by (auto simp: find_None_iff image_iff)
  with Cons show ?case by (cases "key a = k") auto
qed simp

lemma map_key_put_row [table_simps]: "map key (put_row key r t) = map key t"
  by (auto simp: put_row_def)

lemma length_put_row [table_simps]: "length (put_row key r t) = length t"
  by (simp add: put_row_def)

lemma set_put_row:
  "x \<in> set (put_row key r t) \<longleftrightarrow>
     (x = r \<and> (\<exists>y\<in>set t. key y = key r)) \<or> (x \<in> set t \<and> key x \<noteq> key r)"
  by (auto simp: put_row_def)

lemma set_put_rowD: "x \<in> set (put_row key r t) \<Longrightarrow> x = r \<or> x \<in> set t"
  by (auto simp: put_row_def)

lemma map_put_row_same:
  assumes "\<And>x. x \<in> set t \<Longrightarrow> key x = key r \<Longrightarrow> f x = f r"
  shows "map f (put_row key r t) = map f t"
  using assms by (auto simp: put_row_def)

lemma find_put_row_same:
  assumes "find (\<lambda>x. key x = k) t \<noteq> None" "key r = k"
  shows "find (\<lambda>x. key x = k) (put_row key r t) = Some r"
  using assms by (induction t) (auto simp: put_row_def)

lemma find_put_row_other:
  assumes "\<And>x. x \<in> set t \<Longrightarrow> key x = key r \<Longrightarrow> \<not> P x" "\<not> P r"
  shows "find P (put_row key r t) = find P t"
  using assms by (induction t) (auto simp: put_row_def)

lemma find_put_row_hit:
  assumes "find P t = Some m" "key r = key m" "P r"
  shows "find P (put_row key r t) = Some r"
  using assms(1)
proof (induction t)
  case (Cons a t)
  show ?case
  proof (cases "key a = key r")
    case True
    then show ?thesis using assms(3) by (simp add: put_row_def)
  next
    case False
    with Cons.prems assms(2) have "\<not> P a" "find P t = Some m" by (auto split: if_splits)
    with Cons.IH False show ?thesis by (simp add: put_row_def)
  qed
qed simp

lemma put_row_absent: "(\<And>x. x \<in> set t \<Longrightarrow> key x \<noteq> key r) \<Longrightarrow> put_row key r t = t"
  by (induction t) (auto simp: put_row_def)

text \<open>Rewriting a row so that it leaves a class of rows makes the class smaller: the measure of
  the services' claim loops.\<close>

lemma count_put_row_less:
  assumes "r0 \<in> set t" "P r0" "key r = key r0" "\<not> P r"
  shows "length (filter P (put_row key r t)) < length (filter P t)"
proof -
  have le: "length (filter P (put_row key r u)) \<le> length (filter P u)" for u
    using assms(4) by (induction u) (auto simp: put_row_def)
  show ?thesis
    using assms(1)
  proof (induction t)
    case (Cons a u)
    show ?case
    proof (cases "a = r0")
      case True
      then show ?thesis using le [of u] assms by (simp add: put_row_def)
    next
      case False
      with Cons show ?thesis using assms(4) by (auto simp: put_row_def)
    qed
  qed simp
qed

end
