(* ===== verification/Json.thy ===== *)
theory Json
  imports Prelude
begin

text \<open>
  The values the services pass to \<open>json.dumps\<close>, the text it produces (separators
  \<open>(",", ":")\<close>, keys sorted, with or without \<open>ensure_ascii\<close>), and the fact every idempotency
  check rests on: the canonical text determines the value, so two commands have the same text
  exactly when they are the same command.
\<close>

section \<open>Values\<close>

text \<open>What a caller can put into a payload. \<open>PFloat\<close> holds the \<open>repr\<close> of a finite float,
  \<open>PNonFinite\<close> is NaN or an infinity (refused by \<open>allow_nan=False\<close>), \<open>POther\<close> any object
  \<open>json\<close> cannot serialise. Keys of a mapping are strings, integers or
  an object that \<open>json\<close> refuses as a key (\<open>KOther\<close>); keys that are floats, booleans or \<open>None\<close> are not
  represented.\<close>

datatype pykey = KStr string | KInt int | KOther

datatype pyval =
    PNone
  | PBool bool
  | PInt int
  | PFloat string
  | PNonFinite
  | PStr string
  | PList "pyval list"
  | PTuple "pyval list"
  | PDict "(pykey \<times> pyval) list"
  | POther

datatype json =
    JNull
  | JBool bool
  | JInt int
  | JFloat string
  | JStr string
  | JArr "json list"
  | JObj "(string \<times> json) list"

section \<open>Text of a JSON value\<close>

fun nat_str :: "nat \<Rightarrow> string" where
  "nat_str n = (if n < 10 then [char_of (48 + n)] else nat_str (n div 10) @ [char_of (48 + n mod 10)])"

declare nat_str.simps [simp del]

definition int_str :: "int \<Rightarrow> string" where
  "int_str i = (if i < 0 then CHR ''-'' # nat_str (nat (- i)) else nat_str (nat i))"

definition short_escape :: "char \<Rightarrow> char option" where
  "short_escape c =
     (if codept c = 34 then Some (CHR 0x22) else if codept c = 92 then Some (CHR 0x5C)
      else if codept c = 10 then Some (CHR ''n'') else if codept c = 13 then Some (CHR ''r'')
      else if codept c = 9 then Some (CHR ''t'') else if codept c = 12 then Some (CHR ''f'')
      else if codept c = 8 then Some (CHR ''b'') else None)"

text \<open>One character of a JSON string; \<open>asc\<close> is \<open>ensure_ascii\<close>.\<close>

definition escape_char :: "bool \<Rightarrow> char \<Rightarrow> string" where
  "escape_char asc c =
     (case short_escape c of
        Some e \<Rightarrow> [CHR 0x5C, e]
      | None \<Rightarrow>
          if codept c < 32 \<or> (asc \<and> 126 < codept c) then CHR 0x5C # CHR ''u'' # hex_digits 4 (codept c)
          else [c])"

definition quote :: "bool \<Rightarrow> string \<Rightarrow> string" where
  "quote asc s = CHR 0x22 # concat (map (escape_char asc) s) @ [CHR 0x22]"

fun dumps :: "bool \<Rightarrow> json \<Rightarrow> string"
  and dumps_elems :: "bool \<Rightarrow> json list \<Rightarrow> string"
  and dumps_fields :: "bool \<Rightarrow> (string \<times> json) list \<Rightarrow> string" where
  "dumps asc JNull = ''null''"
| "dumps asc (JBool b) = (if b then ''true'' else ''false'')"
| "dumps asc (JInt i) = int_str i"
| "dumps asc (JFloat t) = t"
| "dumps asc (JStr s) = quote asc s"
| "dumps asc (JArr xs) = ''['' @ dumps_elems asc xs @ '']''"
| "dumps asc (JObj kvs) = ''{'' @ dumps_fields asc kvs @ ''}''"
| "dumps_elems asc [] = ''''"
| "dumps_elems asc (x # xs) = dumps asc x @ (if xs = [] then '''' else '','' @ dumps_elems asc xs)"
| "dumps_fields asc [] = ''''"
| "dumps_fields asc (kv # kvs) =
     quote asc (fst kv) @ '':'' @ dumps asc (snd kv) @
     (if kvs = [] then '''' else '','' @ dumps_fields asc kvs)"

text \<open>\<open>len(text.encode())\<close>: code points from 128 to 255 take two bytes in UTF-8.\<close>

definition utf8_length :: "string \<Rightarrow> nat" where
  "utf8_length s = sum_list (map (\<lambda>c. if codept c < 128 then 1 else 2) s)"

section \<open>Serialising a Python value\<close>

text \<open>\<open>json.loads(json.dumps(value, sort_keys=True, allow_nan=False))\<close>: tuples become arrays,
  integer keys become their decimal text, items are sorted by key before the keys are converted
  (so a mapping that mixes string and integer keys raises \<open>TypeError\<close>); \<open>None\<close> stands for the
  \<open>TypeError\<close> or \<open>ValueError\<close>.\<close>

definition str_keys :: "(pykey \<times> 'a) list \<Rightarrow> string list option" where
  "str_keys kvs = those (map (\<lambda>kv. case fst kv of KStr k \<Rightarrow> Some k | _ \<Rightarrow> None) kvs)"

definition int_keys :: "(pykey \<times> 'a) list \<Rightarrow> int list option" where
  "int_keys kvs = those (map (\<lambda>kv. case fst kv of KInt k \<Rightarrow> Some k | _ \<Rightarrow> None) kvs)"

definition sorted_items :: "(pykey \<times> 'a) list \<Rightarrow> json list \<Rightarrow> json option" where
  "sorted_items kvs js =
     (case str_keys kvs of
        Some ks \<Rightarrow> Some (JObj (sort_key fst (zip ks js)))
      | None \<Rightarrow>
          (case int_keys kvs of
             Some ks \<Rightarrow> Some (JObj (map (\<lambda>(k, j). (int_str k, j)) (sort_key fst (zip ks js))))
           | None \<Rightarrow> None))"

fun to_json :: "pyval \<Rightarrow> json option"
  and to_json_list :: "pyval list \<Rightarrow> json list option"
  and to_json_items :: "(pykey \<times> pyval) list \<Rightarrow> json list option" where
  "to_json PNone = Some JNull"
| "to_json (PBool b) = Some (JBool b)"
| "to_json (PInt i) = Some (JInt i)"
| "to_json (PFloat t) = Some (JFloat t)"
| "to_json PNonFinite = None"
| "to_json (PStr s) = Some (JStr s)"
| "to_json (PList xs) = map_option JArr (to_json_list xs)"
| "to_json (PTuple xs) = map_option JArr (to_json_list xs)"
| "to_json (PDict kvs) = Option.bind (to_json_items kvs) (sorted_items kvs)"
| "to_json POther = None"
| "to_json_list [] = Some []"
| "to_json_list (x # xs) =
     (case to_json x of None \<Rightarrow> None | Some j \<Rightarrow> map_option (\<lambda>js. j # js) (to_json_list xs))"
| "to_json_items [] = Some []"
| "to_json_items (kv # kvs) =
     (case to_json (snd kv) of None \<Rightarrow> None | Some j \<Rightarrow> map_option (\<lambda>js. j # js) (to_json_items kvs))"

text \<open>Field of an object, as \<open>payload[key]\<close> and \<open>key in payload\<close> read it.\<close>

definition field :: "string \<Rightarrow> (string \<times> json) list \<Rightarrow> json option" where
  "field k kvs = map_of kvs k"

text \<open>\<open>{**d, key: value}\<close>, and the truth value of \<open>d.get(key)\<close>.\<close>

fun dict_set :: "string \<Rightarrow> json \<Rightarrow> (string \<times> json) list \<Rightarrow> (string \<times> json) list" where
  "dict_set k v [] = [(k, v)]"
| "dict_set k v (kv # kvs) = (if fst kv = k then (k, v) # kvs else kv # dict_set k v kvs)"

definition json_truthy :: "json option \<Rightarrow> bool" where
  "json_truthy v = (case v of
     None \<Rightarrow> False | Some JNull \<Rightarrow> False | Some (JBool b) \<Rightarrow> b | Some (JInt i) \<Rightarrow> i \<noteq> 0
   | Some (JFloat t) \<Rightarrow> t \<noteq> ''0.0'' \<and> t \<noteq> ''-0.0'' | Some (JStr t) \<Rightarrow> t \<noteq> [] | Some (JArr xs) \<Rightarrow> xs \<noteq> []
   | Some (JObj kvs) \<Rightarrow> kvs \<noteq> [])"

lemma field_dict_set: "field j (dict_set k v kvs) = (if j = k then Some v else field j kvs)"
  by (induction kvs) (auto simp: field_def)

section \<open>Commands\<close>

text \<open>The canonical text of a command: the literal's items sorted by key.\<close>

definition canonical :: "bool \<Rightarrow> (string \<times> json) list \<Rightarrow> string" where
  "canonical asc kvs = dumps asc (JObj (sort_key fst kvs))"

definition opt_json :: "('a \<Rightarrow> json) \<Rightarrow> 'a option \<Rightarrow> json" where
  "opt_json f v = (case v of None \<Rightarrow> JNull | Some x \<Rightarrow> f x)"

definition uuid_json :: "uuid \<Rightarrow> json" where
  "uuid_json u = JStr (uuid_str u)"

lemma uuid_json_inj [simp]: "uuid_json u = uuid_json v \<longleftrightarrow> u = v"
  by (simp add: uuid_json_def uuid_str_inj)

lemma opt_json_inj:
  assumes "\<And>x y. f x = f y \<longleftrightarrow> x = y" "\<And>x. f x \<noteq> JNull"
  shows "opt_json f v = opt_json f w \<longleftrightarrow> v = w"
  using assms by (auto simp: opt_json_def split: option.splits) (metis assms(2))+

lemma opt_uuid_json_inj [simp]: "opt_json uuid_json v = opt_json uuid_json w \<longleftrightarrow> v = w"
  by (rule opt_json_inj) (auto simp: uuid_json_def uuid_str_inj)

lemma opt_str_json_inj [simp]: "opt_json JStr v = opt_json JStr w \<longleftrightarrow> v = w"
  by (rule opt_json_inj) auto

lemma opt_int_json_inj [simp]: "opt_json JInt v = opt_json JInt w \<longleftrightarrow> v = w"
  by (rule opt_json_inj) auto

section \<open>The text determines the value\<close>

text \<open>Floats are compared by their \<open>repr\<close>, whose grammar the model does not carry: the
  injectivity statements are about values without floats.\<close>

fun float_free :: "json \<Rightarrow> bool" where
  "float_free (JFloat t) = False"
| "float_free (JArr xs) = list_all float_free xs"
| "float_free (JObj kvs) = list_all (\<lambda>kv. float_free (snd kv)) kvs"
| "float_free _ = True"

lemma float_free_opt [simp]:
  "(\<And>x. float_free (f x)) \<Longrightarrow> float_free (opt_json f v)" "float_free (uuid_json u)"
  by (auto simp: opt_json_def uuid_json_def split: option.splits)

definition delim :: "string \<Rightarrow> bool" where
  "delim r \<longleftrightarrow> r = [] \<or> hd r \<in> {CHR '','', CHR '']'', CHR ''}''}"

lemma is_digit_char [simp]: "d < 10 \<Longrightarrow> is_digit (char_of (48 + d :: nat))"
  by (simp add: is_digit_def)

lemma nat_str_nonempty [simp]: "nat_str n \<noteq> []"
  by (subst nat_str.simps) simp

lemma nat_str_digits: "list_all is_digit (nat_str n)"
proof (induction n rule: nat_str.induct)
  case (1 n)
  then show ?case
    by (subst nat_str.simps) auto
qed

lemma nat_str_inj: "nat_str m = nat_str n \<Longrightarrow> m = n"
proof (induction m arbitrary: n rule: nat_str.induct)
  case (1 m)
  have single: "(nat_str k = [c]) \<Longrightarrow> k < 10" for k c
    by (subst (asm) nat_str.simps) (auto split: if_splits)
  show ?case
  proof (cases "m < 10")
    case True
    with "1.prems" have "n < 10"
      by (intro single [of n "char_of (48 + m)"]) (simp add: nat_str.simps [of m])
    with True "1.prems" have "char_of (48 + m) = (char_of (48 + n) :: char)"
      by (simp add: nat_str.simps [of m] nat_str.simps [of n])
    then have "codept (char_of (48 + m) :: char) = codept (char_of (48 + n) :: char)" by simp
    with True \<open>n < 10\<close> show ?thesis by simp
  next
    case False
    with "1.prems" have "\<not> n < 10"
      using single [of m "char_of (48 + n)"] by (auto simp: nat_str.simps [of n])
    with False "1.prems" have parts: "nat_str (m div 10) = nat_str (n div 10)"
      "char_of (48 + m mod 10) = (char_of (48 + n mod 10) :: char)"
      by (simp_all add: nat_str.simps [of m] nat_str.simps [of n])
    from parts(2) have "codept (char_of (48 + m mod 10) :: char) = codept (char_of (48 + n mod 10) :: char)"
      by simp
    then have "m mod 10 = n mod 10" by simp
    moreover from "1.IH" [OF False parts(1)] have "m div 10 = n div 10" .
    ultimately show ?thesis by (metis div_mult_mod_eq)
  qed
qed

lemma delim_no_digit: "delim r \<Longrightarrow> takeWhile is_digit r = []"
  by (cases r) (auto simp: delim_def is_digit_def)

lemma takeWhile_nat_str: "delim r \<Longrightarrow> takeWhile is_digit (nat_str n @ r) = nat_str n"
proof -
  assume "delim r"
  then have "takeWhile is_digit r = []" by (rule delim_no_digit)
  moreover have "\<forall>c\<in>set (nat_str n). is_digit c"
    using nat_str_digits [of n] by (simp add: list_all_iff)
  ultimately show ?thesis by (simp add: takeWhile_append2)
qed

lemma nat_str_append_inj:
  assumes "nat_str m @ r = nat_str n @ q" "delim r" "delim q"
  shows "m = n \<and> r = q"
proof -
  from assms have "nat_str m = nat_str n" by (metis takeWhile_nat_str)
  with assms(1) show ?thesis by (auto dest: nat_str_inj)
qed

lemma hd_nat_str: "is_digit (hd (nat_str n))"
  using nat_str_digits [of n] by (cases "nat_str n") auto

lemma nat_str_no_minus: "nat_str n @ x \<noteq> CHR ''-'' # y"
  using hd_nat_str [of n] by (cases "nat_str n") (auto simp: is_digit_def)

lemma int_str_append_inj:
  assumes eq: "int_str i @ r = int_str j @ q" and d: "delim r" "delim q"
  shows "i = j \<and> r = q"
proof -
  consider (neg) "i < 0" "j < 0" | (pos) "\<not> i < 0" "\<not> j < 0"
    | (np) "i < 0" "\<not> j < 0" | (pn) "\<not> i < 0" "j < 0"
    by blast
  then show ?thesis
  proof cases
    case neg
    with eq have "nat_str (nat (- i)) @ r = nat_str (nat (- j)) @ q" by (simp add: int_str_def)
    from nat_str_append_inj [OF this d] neg show ?thesis by auto
  next
    case pos
    with eq have "nat_str (nat i) @ r = nat_str (nat j) @ q" by (simp add: int_str_def)
    from nat_str_append_inj [OF this d] pos show ?thesis by auto
  next
    case np
    with eq have "nat_str (nat j) @ q = CHR ''-'' # nat_str (nat (- i)) @ r"
      by (simp add: int_str_def)
    then show ?thesis by (simp add: nat_str_no_minus)
  next
    case pn
    with eq have "nat_str (nat i) @ r = CHR ''-'' # nat_str (nat (- j)) @ q"
      by (simp add: int_str_def)
    then show ?thesis by (simp add: nat_str_no_minus)
  qed
qed

lemma code_injectD: "codept c = codept d \<Longrightarrow> c = d"
  by (metis char_of_char)

lemma short_escape_inj: "short_escape c = Some e \<Longrightarrow> short_escape d = Some e \<Longrightarrow> c = d"
  by (rule code_injectD) (auto simp: short_escape_def simp del: of_char_eq_iff split: if_splits)

lemma short_escape_not_u: "short_escape c \<noteq> Some (CHR ''u'')"
  by (auto simp: short_escape_def)

lemma escape_plain: "escape_char asc c = [c] \<or> (\<exists>t. escape_char asc c = CHR 0x5C # t)"
  by (auto simp: escape_char_def split: option.splits)

lemma escape_plain_char: "escape_char asc c = [d] \<Longrightarrow> c = d \<and> d \<noteq> CHR 0x5C \<and> d \<noteq> CHR 0x22"
  by (auto simp: escape_char_def short_escape_def split: option.splits if_splits)

lemma escape_special:
  assumes "escape_char asc c = CHR 0x5C # t"
  shows "(\<exists>e. short_escape c = Some e \<and> t = [e]) \<or>
    (short_escape c = None \<and> t = CHR ''u'' # hex_digits 4 (codept c))"
  using assms
  by (auto simp: escape_char_def split: option.splits if_splits) (auto simp: short_escape_def)

lemma code_less_256: "codept c < 256"
  by (cases c) (simp add: of_char_Char)

lemma escape_char_append_inj:
  assumes eq: "escape_char asc c @ x = escape_char asc d @ y"
  shows "c = d \<and> x = y"
proof -
  have plain_special: "c = d \<and> x = y"
    if "escape_char asc c = [c]" "escape_char asc d = CHR 0x5C # t"
      "escape_char asc c @ x = escape_char asc d @ y" for c d x y t
    using that escape_plain_char [OF that(1)] by auto
  consider (pp) "escape_char asc c = [c]" "escape_char asc d = [d]"
    | (ps) t where "escape_char asc c = [c]" "escape_char asc d = CHR 0x5C # t"
    | (sp) t where "escape_char asc d = [d]" "escape_char asc c = CHR 0x5C # t"
    | (ss) t u where "escape_char asc c = CHR 0x5C # t" "escape_char asc d = CHR 0x5C # u"
    using escape_plain by metis
  then show ?thesis
  proof cases
    case pp
    then show ?thesis using eq by simp
  next
    case ps
    then show ?thesis using plain_special [OF ps eq] by simp
  next
    case sp
    then show ?thesis using plain_special [OF sp eq [symmetric]] by simp
  next
    case ss
    have tu: "t @ x = u @ y" using eq ss by simp
    show ?thesis
    proof (cases "short_escape c")
      case (Some e)
      then have "t = [e]" using escape_special [OF ss(1)] by simp
      with tu have "short_escape d \<noteq> None"
        using escape_special [OF ss(2)] short_escape_not_u [of c] Some by auto
      then obtain e' where e': "short_escape d = Some e'" by blast
      then have "u = [e']" using escape_special [OF ss(2)] by simp
      with tu \<open>t = [e]\<close> e' Some show ?thesis by (auto intro: short_escape_inj)
    next
      case None
      then have t: "t = CHR ''u'' # hex_digits 4 (codept c)" using escape_special [OF ss(1)] by simp
      with tu have "short_escape d = None"
        using escape_special [OF ss(2)] short_escape_not_u [of d] by auto
      then have "u = CHR ''u'' # hex_digits 4 (codept d)" using escape_special [OF ss(2)] by simp
      with t tu have hx: "hex_digits 4 (codept c) = hex_digits 4 (codept d)" "x = y" by simp_all
      have "codept k < 16 ^ 4" for k :: char by (rule less_trans [OF code_less_256]) simp
      with hx(1) have "codept c = codept d" using hex_digits_inj by blast
      with hx(2) show ?thesis by simp
    qed
  qed
qed

lemma escape_char_not_quote: "escape_char asc c @ x \<noteq> CHR 0x22 # y"
  using escape_plain [of asc c] escape_plain_char [of asc c c] by auto

lemma quote_append_inj: "quote asc s @ r = quote asc t @ q \<Longrightarrow> s = t \<and> r = q"
proof -
  have aux: "concat (map (escape_char asc) s) @ CHR 0x22 # r = concat (map (escape_char asc) t) @ CHR 0x22 # q
    \<Longrightarrow> s = t \<and> r = q"
  proof (induction s arbitrary: t)
    case Nil
    then show ?case
      using escape_char_not_quote [symmetric] by (cases t) auto
  next
    case (Cons c s)
    show ?case
    proof (cases t)
      case Nil
      with Cons.prems show ?thesis by (simp add: escape_char_not_quote)
    next
      case (Cons d u)
      with Cons.prems have "c = d \<and> concat (map (escape_char asc) s) @ CHR 0x22 # r =
          concat (map (escape_char asc) u) @ CHR 0x22 # q"
        by (intro escape_char_append_inj [of asc]) simp
      with Cons.IH Cons show ?thesis by auto
    qed
  qed
  assume "quote asc s @ r = quote asc t @ q"
  then show ?thesis by (intro aux) (simp add: quote_def)
qed

lemma int_str_ConsD: "int_str i @ r = c # x \<Longrightarrow> is_digit c \<or> c = CHR ''-''"
  using hd_nat_str [of "nat i"] nat_str_nonempty [of "nat i"]
  by (cases "nat_str (nat i)") (auto simp: int_str_def split: if_splits)

lemma not_digits [simp]: "\<not> is_digit CHR ''n''" "\<not> is_digit CHR ''t''" "\<not> is_digit CHR ''f''"
  "\<not> is_digit CHR 0x22" "\<not> is_digit CHR ''[''" "\<not> is_digit CHR ''{''" "\<not> is_digit CHR '']''"
  by (simp_all add: is_digit_def)

lemma int_str_ne_Cons [simp]:
  assumes "\<not> is_digit c" "c \<noteq> CHR ''-''"
  shows "int_str i @ r \<noteq> c # x" "c # x \<noteq> int_str i @ r"
  using assms int_str_ConsD [of i r c x] by (auto dest: sym)

lemma dumps_not_bracket: "float_free v \<Longrightarrow> dumps asc v @ r \<noteq> CHR '']'' # q"
  by (cases v) (auto simp: quote_def)

text \<open>Arrays and objects are read up to their closing bracket, so the induction carries a
  statement for each of the three printing functions.\<close>

definition elems_tail :: "bool \<Rightarrow> json list \<Rightarrow> string \<Rightarrow> string" where
  "elems_tail asc zs p = (if zs = [] then [] else CHR '','' # dumps_elems asc zs) @ CHR '']'' # p"

definition fields_tail :: "bool \<Rightarrow> (string \<times> json) list \<Rightarrow> string \<Rightarrow> string" where
  "fields_tail asc zs p = (if zs = [] then [] else CHR '','' # dumps_fields asc zs) @ CHR ''}'' # p"

lemma delim_tails [simp]: "delim (elems_tail asc zs p)" "delim (fields_tail asc zs' p)"
  by (simp_all add: delim_def elems_tail_def fields_tail_def)

lemma dumps_inj_aux:
  shows "float_free v \<Longrightarrow> float_free w \<Longrightarrow> dumps asc v @ r = dumps asc w @ q \<Longrightarrow> delim r \<Longrightarrow>
      delim q \<Longrightarrow> v = w \<and> r = q"
    and "list_all float_free vs \<Longrightarrow> list_all float_free ws \<Longrightarrow>
      dumps_elems asc vs @ CHR '']'' # r = dumps_elems asc ws @ CHR '']'' # q \<Longrightarrow> vs = ws \<and> r = q"
    and "list_all (\<lambda>kv. float_free (snd kv)) ks \<Longrightarrow> list_all (\<lambda>kv. float_free (snd kv)) ls \<Longrightarrow>
      dumps_fields asc ks @ CHR ''}'' # r = dumps_fields asc ls @ CHR ''}'' # q \<Longrightarrow> ks = ls \<and> r = q"
proof (induction asc v and asc vs and asc ks arbitrary: w r q and ws r q and ls r q
    rule: dumps_dumps_elems_dumps_fields.induct)
  case (1 asc)
  then show ?case by (cases w) (auto simp: quote_def split: if_splits)
next
  case (2 asc b)
  then show ?case by (cases w) (auto simp: quote_def split: if_splits)
next
  case (3 asc i)
  then show ?case
    by (cases w) (auto simp: quote_def dest: int_str_append_inj split: if_splits)
next
  case (4 asc t)
  then show ?case by simp
next
  case (5 asc s)
  show ?case
  proof (cases w)
    case (JStr t)
    with "5.prems" show ?thesis using quote_append_inj [of asc s r t q] by simp
  qed (use "5.prems" in \<open>auto simp: quote_def split: if_splits\<close>)
next
  case (6 asc xs)
  show ?case
  proof (cases w)
    case (JArr ys)
    with "6.prems" show ?thesis using "6.IH" [of ys r q] by simp
  qed (use "6.prems" in \<open>auto simp: quote_def split: if_splits\<close>)
next
  case (7 asc kvs)
  show ?case
  proof (cases w)
    case (JObj ls)
    with "7.prems" show ?thesis using "7.IH" [of ls r q] by simp
  qed (use "7.prems" in \<open>auto simp: quote_def split: if_splits\<close>)
next
  case (8 asc)
  then show ?case
    using dumps_not_bracket [of "hd ws" asc] by (cases ws) (simp_all, metis)
next
  case (9 asc x xs)
  show ?case
  proof (cases ws)
    case Nil
    with "9.prems" show ?thesis by (simp add: dumps_not_bracket)
  next
    case (Cons y ys)
    from "9.prems" Cons have eq: "dumps asc x @ elems_tail asc xs r = dumps asc y @ elems_tail asc ys q"
      by (simp add: elems_tail_def split: if_splits)
    have xy: "x = y \<and> elems_tail asc xs r = elems_tail asc ys q"
      by (rule "9.IH"(1) [OF _ _ eq]) (use "9.prems" Cons in simp_all)
    have "xs = ys \<and> r = q"
    proof (cases "xs = [] \<or> ys = []")
      case True
      with xy show ?thesis by (auto simp: elems_tail_def split: if_splits)
    next
      case False
      with xy have tail: "dumps_elems asc xs @ CHR '']'' # r = dumps_elems asc ys @ CHR '']'' # q"
        by (simp add: elems_tail_def)
      show ?thesis by (rule "9.IH"(2) [OF _ _ _ tail]) (use "9.prems" Cons False in simp_all)
    qed
    with xy Cons show ?thesis by simp
  qed
next
  case (10 asc)
  then show ?case by (cases ls) (auto simp: quote_def)
next
  case (11 asc kv kvs)
  show ?case
  proof (cases ls)
    case Nil
    with "11.prems" show ?thesis by (simp add: quote_def)
  next
    case (Cons lw lws)
    from "11.prems" Cons have "quote asc (fst kv) @ CHR '':'' # dumps asc (snd kv) @ fields_tail asc kvs r =
        quote asc (fst lw) @ CHR '':'' # dumps asc (snd lw) @ fields_tail asc lws q"
      by (simp add: fields_tail_def split: if_splits)
    then have k: "fst kv = fst lw"
      and eq: "dumps asc (snd kv) @ fields_tail asc kvs r = dumps asc (snd lw) @ fields_tail asc lws q"
      by (auto dest: quote_append_inj)
    have v: "snd kv = snd lw \<and> fields_tail asc kvs r = fields_tail asc lws q"
      by (rule "11.IH"(1) [OF _ _ eq]) (use "11.prems" Cons in simp_all)
    have "kvs = lws \<and> r = q"
    proof (cases "kvs = [] \<or> lws = []")
      case True
      with v show ?thesis by (auto simp: fields_tail_def split: if_splits)
    next
      case False
      with v have tail: "dumps_fields asc kvs @ CHR ''}'' # r = dumps_fields asc lws @ CHR ''}'' # q"
        by (simp add: fields_tail_def)
      show ?thesis by (rule "11.IH"(2) [OF _ _ _ tail]) (use "11.prems" Cons False in simp_all)
    qed
    with k v Cons show ?thesis by (simp add: prod_eq_iff)
  qed
qed

text \<open>The text of a value without floats determines the value.\<close>

lemma dumps_inj: "float_free v \<Longrightarrow> float_free w \<Longrightarrow> dumps asc v = dumps asc w \<Longrightarrow> v = w"
  using dumps_inj_aux(1) [of v w asc "[]" "[]"] by (simp add: delim_def)

lemma same_keys_eqI:
  assumes "map fst kvs = map fst ls" "distinct (map fst kvs)" "set kvs = set ls"
  shows "kvs = ls"
proof (rule nth_equalityI)
  from assms(1) show len: "length kvs = length ls" by (metis length_map)
  fix i assume i: "i < length kvs"
  then have "ls ! i \<in> set kvs" using assms(3) len by simp
  then obtain j where j: "j < length kvs" "ls ! i = kvs ! j" by (metis in_set_conv_nth)
  have "map fst kvs ! i = map fst kvs ! j"
    using assms(1) i j len by (metis nth_map)
  with assms(2) i j(1) have "i = j" by (simp only: nth_eq_iff_index_eq length_map)
  with j show "kvs ! i = ls ! i" by simp
qed

text \<open>Two commands of the same shape have the same canonical text only if they agree in every
  field.\<close>

lemma canonical_inj:
  assumes "canonical asc kvs = canonical asc ls" "map fst kvs = map fst ls"
    "distinct (map fst kvs)" "list_all (\<lambda>kv. float_free (snd kv)) kvs"
    "list_all (\<lambda>kv. float_free (snd kv)) ls"
  shows "kvs = ls"
proof -
  have "JObj (sort_key fst kvs) = JObj (sort_key fst ls)"
    using assms(1,4,5) by (intro dumps_inj [of _ _ asc]) (auto simp: canonical_def list_all_iff)
  then have "set kvs = set ls" by (metis json.inject(6) set_sort)
  with assms(2,3) show ?thesis by (rule same_keys_eqI)
qed

end
