(* ===== verification/Schema.thy ===== *)
theory Schema
  imports Json
begin

text \<open>
  The persistent state: one record per ORM class of \<open>app/models\<close>, one field per column, and the
  database as the record of its tables. Columns whose values a CHECK constraint enumerates are
  datatypes; the remaining CHECK constraints are the predicates \<open>..._checks\<close>, which the services'
  theorems show every written row satisfies. Not represented: \<open>updated_at\<close> (maintained by the
  server, read by no modelled operation), indexes, foreign keys and display columns of reference
  tables.
\<close>

section \<open>Enumerations\<close>

datatype control_mode = Automated | Paused | Human | Closed

datatype outbound_status =
  OutQueued | OutDispatching | OutAccepted | OutDelivered | OutRead | OutFailed | OutUnknown | OutCancelled

datatype sender_type = ByAutomation | ByOperator | BySystem

datatype outbound_kind = KText | KImage | KDocument | KTemplate | KInteractive

datatype delivery_event_type =
  DEnqueued | DClaimed | DAccepted | DDelivered | DRead | DFailed | DUnknown | DCancelled

datatype delivery_actor = AutomationActor | OperatorActor | SystemActor | WorkerActor | ProviderActor

datatype resolution_action = ConfirmDelivered | ConfirmNotDelivered

datatype evidence_source = ProviderApi | ProviderConsole

datatype not_delivered_reason =
  ProviderConfirmedNotDelivered | ProviderRecordNotFound | OperatorVerifiedNotDelivered

datatype execution_status =
  ExAccepted | ExQueued | ExRunning | ExCompleted | ExFailed | ExBlocked | ExCancelled

datatype visibility = Public | Internal

datatype control_event_type = PausedEv | TakenOver | Reassigned | Resumed | ClosedEv

datatype inbound_status =
  InQueued | InProcessing | InCompleted | InRoutedToHuman | InIgnored | InReviewRequired | InCancelled

datatype inbound_phase =
  PhAccepted | PhLegacyQuarantined | PhClaimed | PhInboundRecorded | PhProviderEffect
  | PhTranscription | PhAgentEffect | PhOutboxEffect | PhTerminal

datatype inbound_event_type =
  IeAccepted | IeLegacyCompletedMigrated | IeLegacyQuarantined | IeClaimed | IePhaseAdvanced
  | IeCompleted | IeRoutedToHuman | IeReviewRequired | IeRequeued | IeCancelled | IeAcknowledged

datatype inbound_actor = InSystem | InWorker | InOperator

datatype opportunity_stage =
  StNew | StQualified | StProposalRequested | StProposalPreparing | StProposalSent | StNegotiation
  | StMeetingScheduled | StWon | StLost | StPaused

text \<open>The text of the enumerations whose value reaches a payload, a hash or a text column.\<close>

fun mode_value :: "control_mode \<Rightarrow> string" where
  "mode_value Automated = ''automated''"
| "mode_value Paused = ''paused''"
| "mode_value Human = ''human''"
| "mode_value Closed = ''closed''"

fun sender_value :: "sender_type \<Rightarrow> string" where
  "sender_value ByAutomation = ''automation''"
| "sender_value ByOperator = ''operator''"
| "sender_value BySystem = ''system''"

fun kind_value :: "outbound_kind \<Rightarrow> string" where
  "kind_value KText = ''text''"
| "kind_value KImage = ''image''"
| "kind_value KDocument = ''document''"
| "kind_value KTemplate = ''template''"
| "kind_value KInteractive = ''interactive''"

fun action_value :: "resolution_action \<Rightarrow> string" where
  "action_value ConfirmDelivered = ''confirm_delivered''"
| "action_value ConfirmNotDelivered = ''confirm_not_delivered''"

fun source_value :: "evidence_source \<Rightarrow> string" where
  "source_value ProviderApi = ''provider_api''"
| "source_value ProviderConsole = ''provider_console''"

fun reason_value :: "not_delivered_reason \<Rightarrow> string" where
  "reason_value ProviderConfirmedNotDelivered = ''provider_confirmed_not_delivered''"
| "reason_value ProviderRecordNotFound = ''provider_record_not_found''"
| "reason_value OperatorVerifiedNotDelivered = ''operator_verified_not_delivered''"

fun stage_value :: "opportunity_stage \<Rightarrow> string" where
  "stage_value StNew = ''new''"
| "stage_value StQualified = ''qualified''"
| "stage_value StProposalRequested = ''proposal_requested''"
| "stage_value StProposalPreparing = ''proposal_preparing''"
| "stage_value StProposalSent = ''proposal_sent''"
| "stage_value StNegotiation = ''negotiation''"
| "stage_value StMeetingScheduled = ''meeting_scheduled''"
| "stage_value StWon = ''won''"
| "stage_value StLost = ''lost''"
| "stage_value StPaused = ''paused''"

lemma sender_value_inj [simp]: "sender_value a = sender_value b \<longleftrightarrow> a = b"
  by (cases a; cases b) auto

lemma kind_value_inj [simp]: "kind_value a = kind_value b \<longleftrightarrow> a = b"
  by (cases a; cases b) auto

lemma action_value_inj [simp]: "action_value a = action_value b \<longleftrightarrow> a = b"
  by (cases a; cases b) auto

lemma source_value_inj [simp]: "source_value a = source_value b \<longleftrightarrow> a = b"
  by (cases a; cases b) auto

lemma reason_value_inj [simp]: "reason_value a = reason_value b \<longleftrightarrow> a = b"
  by (cases a; cases b) auto

lemma stage_value_inj [simp]: "stage_value a = stage_value b \<longleftrightarrow> a = b"
  by (cases a; cases b) auto

section \<open>Conversations (models/platform.py, conversation_event.py, conversation_control.py)\<close>

record conversation =
  cv_id :: uuid
  cv_created_at :: instant
  cv_agent_id :: uuid
  cv_automation_agent_id :: uuid
  cv_automation_version :: int
  cv_principal_id :: uuid
  cv_channel :: string
  cv_external_thread_id :: string
  cv_route_key :: string
  cv_channel_route_id :: "uuid option"
  cv_status :: string
  cv_control_mode :: control_mode
  cv_control_version :: int
  cv_next_outbound_sequence :: int
  cv_next_event_sequence :: int
  cv_assigned_admin_id :: "uuid option"
  cv_control_changed_at :: instant
  cv_control_reason :: "string option"
  cv_summary :: "string option"
  cv_consent_version :: "string option"
  cv_transcript_consent :: bool
  cv_attributes :: json

definition conversation_checks :: "conversation \<Rightarrow> bool" where
  "conversation_checks c \<longleftrightarrow>
     cv_control_version c \<ge> 0 \<and>
     cv_automation_version c \<ge> 0 \<and>
     (cv_control_mode c \<noteq> Human \<or> cv_assigned_admin_id c \<noteq> None) \<and>
     cv_next_outbound_sequence c > 0 \<and>
     cv_next_event_sequence c > 0"

record chat_message =
  cm_id :: uuid
  cm_created_at :: instant
  cm_conversation_id :: uuid
  cm_client_message_id :: string
  cm_role :: string
  cm_content :: string
  cm_status :: string
  cm_tool_names :: "string list"
  cm_metadata :: "(string \<times> json) list"

record execution =
  ex_id :: uuid
  ex_created_at :: instant
  ex_request_id :: string
  ex_conversation_id :: uuid
  ex_inbound_message_id :: uuid
  ex_status :: execution_status
  ex_control_version :: int
  ex_automation_agent_id :: uuid
  ex_automation_version :: int
  ex_client_message_id :: "string option"
  ex_input_hash :: "string option"
  ex_queue_sequence :: "int option"
  ex_attempt_count :: int
  ex_available_at :: instant
  ex_lease_owner :: "string option"
  ex_lease_expires_at :: "instant option"
  ex_output_message_id :: "uuid option"
  ex_tools_used :: "string list"
  ex_usage :: "(string \<times> json) list"
  ex_error_code :: "string option"
  ex_duration_ms :: "int option"

definition execution_checks :: "execution \<Rightarrow> bool" where
  "execution_checks e \<longleftrightarrow>
     ex_control_version e \<ge> 0 \<and>
     ex_automation_version e \<ge> 0 \<and>
     ex_attempt_count e \<ge> 0 \<and>
     (ex_lease_owner e = None) = (ex_lease_expires_at e = None) \<and>
     ((ex_client_message_id e = None \<and> ex_input_hash e = None \<and> ex_queue_sequence e = None) \<or>
      (ex_client_message_id e \<noteq> None \<and>
       (\<exists>h. ex_input_hash e = Some h \<and> length h = 64) \<and>
       (\<exists>n. ex_queue_sequence e = Some n \<and> n > 0))) \<and>
     (case ex_lease_owner e of None \<Rightarrow> True | Some w \<Rightarrow> length w > 0)"

record conv_event =
  ev_id :: uuid
  ev_conversation_id :: uuid
  ev_agent_id :: uuid
  ev_sequence :: int
  ev_event_type :: string
  ev_visibility :: visibility
  ev_payload :: "(string \<times> json) list"
  ev_created_at :: instant

record control_event =
  ce_id :: uuid
  ce_conversation_id :: uuid
  ce_agent_id :: uuid
  ce_actor_admin_id :: uuid
  ce_event_type :: control_event_type
  ce_from_mode :: control_mode
  ce_to_mode :: control_mode
  ce_from_assigned_admin_id :: "uuid option"
  ce_to_assigned_admin_id :: "uuid option"
  ce_control_version :: int
  ce_reason :: "string option"
  ce_created_at :: instant

definition control_event_checks :: "control_event \<Rightarrow> bool" where
  "control_event_checks e \<longleftrightarrow> ce_control_version e > 0"

record assignment_event =
  ae_id :: uuid
  ae_conversation_id :: uuid
  ae_routing_agent_id :: uuid
  ae_from_automation_agent_id :: uuid
  ae_to_automation_agent_id :: uuid
  ae_automation_version :: int
  ae_applied :: bool
  ae_trigger :: string
  ae_opportunity_id :: "uuid option"
  ae_actor_agent_id :: "uuid option"
  ae_actor_admin_id :: "uuid option"
  ae_correlation_id :: string
  ae_idempotency_key :: string
  ae_command_hash :: string
  ae_reason :: "string option"
  ae_created_at :: instant

definition assignment_event_checks :: "assignment_event \<Rightarrow> bool" where
  "assignment_event_checks e \<longleftrightarrow>
     ae_automation_version e \<ge> 0 \<and>
     (if ae_applied e
      then ae_from_automation_agent_id e \<noteq> ae_to_automation_agent_id e \<and> ae_automation_version e > 0
      else ae_from_automation_agent_id e = ae_to_automation_agent_id e) \<and>
     (ae_actor_agent_id e \<noteq> None) \<noteq> (ae_actor_admin_id e \<noteq> None) \<and>
     sha256_hex (ae_command_hash e) \<and>
     length (btrim (ae_trigger e)) > 0 \<and>
     length (btrim (ae_correlation_id e)) > 0 \<and>
     length (btrim (ae_idempotency_key e)) > 0"

section \<open>Routing configuration and identities (models/agent_runtime.py, agent_profile.py, admin_user.py)\<close>

record channel_route =
  rt_id :: uuid
  rt_channel :: string
  rt_version :: int
  rt_route_key :: string
  rt_connection_id :: uuid
  rt_agent_id :: uuid
  rt_is_active :: bool

record channel_connection =
  cn_id :: uuid
  cn_channel :: string
  cn_adapter_key :: string
  cn_version :: int
  cn_is_active :: bool
  cn_name :: string
  cn_external_account_id :: "string option"
  cn_settings :: json
  cn_encrypted_credentials :: "string option"

definition route_checks :: "channel_route \<Rightarrow> bool" where
  "route_checks r \<longleftrightarrow>
     rt_channel r \<in> {''web'', ''whatsapp'', ''email'', ''instagram_dm'', ''facebook_messenger''} \<and>
     rt_version r \<ge> 0 \<and>
     1 \<le> length (rt_route_key r) \<and> length (rt_route_key r) \<le> 120 \<and>
     (is_lower (hd (rt_route_key r)) \<or> is_digit (hd (rt_route_key r))) \<and>
     list_all (\<lambda>c. is_lower c \<or> is_digit c \<or> c \<in> set ''._:-'') (tl (rt_route_key r))"

definition connection_checks :: "channel_connection \<Rightarrow> bool" where
  "connection_checks c \<longleftrightarrow>
     (cn_channel c, cn_adapter_key c) \<in>
       {(''web'', ''web_builtin''), (''whatsapp'', ''meta_whatsapp_cloud''), (''email'', ''email''),
        (''instagram_dm'', ''meta_instagram_graph''), (''facebook_messenger'', ''meta_messenger_graph'')} \<and>
     cn_version c \<ge> 0"

record agent_profile =
  ag_id :: uuid
  ag_is_active :: bool

record admin_user =
  ad_id :: uuid
  ad_role :: string
  ad_is_active :: bool

text \<open>\<open>permissions\<close> is a JSON column: any JSON value can be stored in it.\<close>

record admin_role =
  ro_key :: string
  ro_permissions :: json
  ro_is_active :: bool

end
