(* ===== verification/SchemaDelivery.thy ===== *)
theory SchemaDelivery
  imports Schema
begin

text \<open>
  The durable queues: outbound messages with their attempts, delivery events and operator
  resolutions (\<open>models/outbound.py\<close>), and the inbound jobs of external channels with their
  receipts (\<open>models/channel_inbound.py\<close>).
\<close>

section \<open>Outbound delivery\<close>

record outbound =
  om_id :: uuid
  om_created_at :: instant
  om_conversation_id :: uuid
  om_agent_id :: uuid
  om_channel_route_id :: uuid
  om_channel :: "string option"
  om_adapter_key :: "string option"
  om_connection_id :: "uuid option"
  om_route_version :: "int option"
  om_connection_version :: "int option"
  om_chat_message_id :: "uuid option"
  om_kind :: outbound_kind
  om_payload :: "(string \<times> json) list"
  om_destination :: string
  om_sender_type :: sender_type
  om_sender_admin_id :: "uuid option"
  om_control_version :: int
  om_automation_agent_id :: "uuid option"
  om_automation_version :: "int option"
  om_sequence :: int
  om_idempotency_key :: string
  om_payload_hash :: string
  om_correlation_id :: string
  om_status :: outbound_status
  om_provider_message_id :: "string option"
  om_last_attempt_number :: int
  om_resolution_version :: int
  om_locked_by :: "string option"
  om_locked_at :: "instant option"
  om_accepted_at :: "instant option"
  om_delivered_at :: "instant option"

definition is_jstr :: "json option \<Rightarrow> bool" where
  "is_jstr v \<longleftrightarrow> (case v of Some (JStr _) \<Rightarrow> True | _ \<Rightarrow> False)"

definition is_jarr :: "json option \<Rightarrow> bool" where
  "is_jarr v \<longleftrightarrow> (case v of Some (JArr _) \<Rightarrow> True | _ \<Rightarrow> False)"

text \<open>\<open>ck_outbound_message_payload_shape\<close>.\<close>

definition payload_shape :: "outbound_kind \<Rightarrow> (string \<times> json) list \<Rightarrow> bool" where
  "payload_shape k p = (case k of
     KText \<Rightarrow> is_jstr (field ''text'' p)
   | KImage \<Rightarrow> is_jstr (field ''storage_key'' p) \<and> is_jstr (field ''name'' p) \<and> is_jstr (field ''mime'' p)
   | KDocument \<Rightarrow> is_jstr (field ''storage_key'' p) \<and> is_jstr (field ''name'' p) \<and> is_jstr (field ''mime'' p)
   | KTemplate \<Rightarrow> is_jstr (field ''template_key'' p) \<and> is_jstr (field ''language'' p)
   | KInteractive \<Rightarrow> is_jstr (field ''body'' p) \<and> is_jarr (field ''actions'' p))"

definition outbound_checks :: "outbound \<Rightarrow> bool" where
  "outbound_checks m \<longleftrightarrow>
     payload_shape (om_kind m) (om_payload m) \<and>
     om_control_version m \<ge> 0 \<and>
     (case om_automation_version m of None \<Rightarrow> True | Some v \<Rightarrow> v \<ge> 0) \<and>
     om_sequence m > 0 \<and> om_last_attempt_number m \<ge> 0 \<and>
     om_resolution_version m \<ge> 0 \<and>
     (om_automation_agent_id m = None) = (om_automation_version m = None) \<and>
     ((om_channel m = None \<and> om_adapter_key m = None \<and> om_connection_id m = None \<and>
       om_route_version m = None \<and> om_connection_version m = None) \<or>
      (om_channel m \<noteq> None \<and> om_adapter_key m \<noteq> None \<and> om_connection_id m \<noteq> None \<and>
       om_route_version m \<noteq> None \<and> om_connection_version m \<noteq> None)) \<and>
     (case om_route_version m of None \<Rightarrow> True | Some v \<Rightarrow> v \<ge> 0) \<and>
     (case om_connection_version m of None \<Rightarrow> True | Some v \<Rightarrow> v \<ge> 0) \<and>
     (om_status m \<notin> {OutQueued, OutDispatching} \<or> om_channel m \<noteq> None) \<and>
     length (om_idempotency_key m) > 0 \<and> length (om_destination m) > 0 \<and>
     length (om_correlation_id m) > 0 \<and> length (om_payload_hash m) = 64 \<and>
     (om_sender_type m = ByOperator) = (om_sender_admin_id m \<noteq> None) \<and>
     (if om_status m = OutDispatching then om_locked_by m \<noteq> None \<and> om_locked_at m \<noteq> None
      else om_locked_by m = None \<and> om_locked_at m = None) \<and>
     (om_status m \<notin> {OutAccepted, OutDelivered, OutRead} \<or> om_provider_message_id m \<noteq> None)"

record attempt =
  at_id :: uuid
  at_outbound_message_id :: uuid
  at_attempt_number :: int
  at_worker_id :: string
  at_control_version :: int
  at_created_at :: instant

definition attempt_checks :: "attempt \<Rightarrow> bool" where
  "attempt_checks a \<longleftrightarrow>
     at_attempt_number a > 0 \<and> at_control_version a \<ge> 0 \<and> length (at_worker_id a) > 0"

record delivery_event =
  de_id :: uuid
  de_outbound_message_id :: uuid
  de_attempt_id :: "uuid option"
  de_event_type :: delivery_event_type
  de_from_status :: "outbound_status option"
  de_to_status :: outbound_status
  de_actor_type :: delivery_actor
  de_actor_id :: "string option"
  de_safe_code :: "string option"
  de_created_at :: instant

text \<open>The text of a status as an event type (\<open>event_type=message.status\<close>).\<close>

fun status_event :: "outbound_status \<Rightarrow> delivery_event_type" where
  "status_event OutQueued = DEnqueued"
| "status_event OutDispatching = DClaimed"
| "status_event OutAccepted = DAccepted"
| "status_event OutDelivered = DDelivered"
| "status_event OutRead = DRead"
| "status_event OutFailed = DFailed"
| "status_event OutUnknown = DUnknown"
| "status_event OutCancelled = DCancelled"

definition delivery_event_checks :: "delivery_event \<Rightarrow> bool" where
  "delivery_event_checks e \<longleftrightarrow>
     (de_actor_type e \<in> {OperatorActor, WorkerActor} \<longrightarrow> de_actor_id e \<noteq> None) \<and>
     (case de_safe_code e of None \<Rightarrow> True | Some c \<Rightarrow> safe_code_pattern c) \<and>
     de_event_type e = status_event (de_to_status e)"

record resolution =
  rs_id :: uuid
  rs_outbound_message_id :: uuid
  rs_resolution_version :: int
  rs_action :: resolution_action
  rs_provider_message_hash :: "string option"
  rs_provider_message_suffix :: "string option"
  rs_evidence_source :: "evidence_source option"
  rs_reason_code :: "not_delivered_reason option"
  rs_actor_admin_id :: uuid
  rs_idempotency_key :: string
  rs_command_hash :: string
  rs_correlation_id :: string
  rs_created_at :: instant

definition resolution_checks :: "resolution \<Rightarrow> bool" where
  "resolution_checks r \<longleftrightarrow>
     rs_resolution_version r > 0 \<and>
     (case rs_action r of
        ConfirmDelivered \<Rightarrow>
          (\<exists>h. rs_provider_message_hash r = Some h \<and> sha256_hex h) \<and>
          (\<exists>t. rs_provider_message_suffix r = Some t \<and> 1 \<le> length t \<and> length t \<le> 6) \<and>
          rs_evidence_source r \<noteq> None \<and> rs_reason_code r = None
      | ConfirmNotDelivered \<Rightarrow>
          rs_provider_message_hash r = None \<and> rs_provider_message_suffix r = None \<and>
          rs_evidence_source r = None \<and> rs_reason_code r \<noteq> None) \<and>
     length (btrim (rs_idempotency_key r)) > 0 \<and>
     length (btrim (rs_correlation_id r)) > 0 \<and>
     sha256_hex (rs_command_hash r)"

section \<open>Inbound jobs of external channels\<close>

record inbound_job =
  ij_id :: uuid
  ij_created_at :: instant
  ij_channel :: string
  ij_adapter_key :: string
  ij_adapter_version :: int
  ij_route_id :: uuid
  ij_route_version :: int
  ij_route_key_snapshot :: string
  ij_connection_id :: uuid
  ij_connection_version :: int
  ij_routing_agent_id :: uuid
  ij_provider_message_id :: string
  ij_thread_key :: "string option"
  ij_payload_ciphertext :: "string option"
  ij_payload_hash :: "string option"
  ij_legacy_payload :: "json option"
  ij_status :: inbound_status
  ij_phase :: inbound_phase
  ij_state_version :: int
  ij_attempts :: int
  ij_lease_owner :: "string option"
  ij_lease_expires_at :: "instant option"
  ij_safe_code :: "string option"
  ij_conversation_id :: "uuid option"
  ij_control_version :: "int option"
  ij_automation_agent_id :: "uuid option"
  ij_automation_version :: "int option"
  ij_terminal_at :: "instant option"
  ij_legacy_max_attempts :: int

definition inbound_job_checks :: "inbound_job \<Rightarrow> bool" where
  "inbound_job_checks j \<longleftrightarrow>
     ij_channel j \<in> {''whatsapp'', ''email'', ''instagram_dm'', ''facebook_messenger''} \<and>
     ij_state_version j \<ge> 0 \<and> ij_attempts j \<ge> 0 \<and>
     ij_route_version j \<ge> 0 \<and> ij_connection_version j \<ge> 0 \<and> ij_adapter_version j > 0 \<and>
     (case ij_thread_key j of None \<Rightarrow> True | Some k \<Rightarrow> sha256_hex k) \<and>
     (case ij_payload_hash j of None \<Rightarrow> True | Some h \<Rightarrow> sha256_hex h) \<and>
     (ij_payload_ciphertext j = None) = (ij_payload_hash j = None) \<and>
     (ij_status j \<notin> {InQueued, InProcessing} \<or>
      (ij_thread_key j \<noteq> None \<and> ij_payload_ciphertext j \<noteq> None \<and> ij_legacy_payload j = None)) \<and>
     (if ij_status j = InProcessing then ij_lease_owner j \<noteq> None \<and> ij_lease_expires_at j \<noteq> None
      else ij_lease_owner j = None \<and> ij_lease_expires_at j = None)"

record inbound_event =
  ie_id :: uuid
  ie_job_id :: uuid
  ie_event_type :: inbound_event_type
  ie_from_status :: "inbound_status option"
  ie_to_status :: inbound_status
  ie_state_version :: int
  ie_phase :: inbound_phase
  ie_actor_type :: inbound_actor
  ie_actor_admin_id :: "uuid option"
  ie_safe_code :: "string option"
  ie_correlation_id :: "string option"
  ie_idempotency_key :: "string option"
  ie_command_hash :: "string option"
  ie_channel :: string
  ie_adapter_key :: string
  ie_adapter_version :: int
  ie_route_id :: uuid
  ie_route_version :: int
  ie_connection_id :: uuid
  ie_connection_version :: int
  ie_routing_agent_id :: uuid
  ie_conversation_id :: "uuid option"
  ie_control_version :: "int option"
  ie_automation_agent_id :: "uuid option"
  ie_automation_version :: "int option"
  ie_created_at :: instant

definition inbound_event_checks :: "inbound_event \<Rightarrow> bool" where
  "inbound_event_checks e \<longleftrightarrow>
     ie_state_version e \<ge> 0 \<and>
     (ie_actor_type e = InOperator) = (ie_actor_admin_id e \<noteq> None) \<and>
     (case ie_command_hash e of None \<Rightarrow> True | Some h \<Rightarrow> sha256_hex h)"

end
