(* ===== verification/SchemaCrm.thy ===== *)
theory SchemaCrm
  imports Schema
begin

text \<open>
  The commercial tables the opportunity service reads and writes: contacts
  (\<open>models/contact.py\<close>) with their points and consent records, opportunities with their stage, ownership and link evidence
  (\<open>models/opportunity.py\<close>), and the follow-up tasks with their events (\<open>models/follow_up.py\<close>).
\<close>

datatype contact_status = ContactProvisional | ContactActive | ContactArchived

record contact =
  ct_id :: uuid
  ct_principal_id :: uuid
  ct_created_by_agent_id :: uuid
  ct_status :: contact_status
  ct_company_name :: "string option"
  ct_job_title :: "string option"

text \<open>\<open>ChannelIdentity\<close> of \<open>models/platform.py\<close>.\<close>

record channel_identity =
  ci_id :: uuid
  ci_principal_id :: uuid
  ci_channel :: string
  ci_route_key :: string
  ci_external_subject :: string
  ci_verified :: bool
  ci_attributes :: json

record contact_point =
  cp_id :: uuid
  cp_created_at :: instant
  cp_contact_id :: uuid
  cp_kind :: string
  cp_ciphertext :: string
  cp_lookup_hmac :: string
  cp_masked_value :: string
  cp_verification_status :: string
  cp_source_conversation_id :: "uuid option"
  cp_source_channel_identity_id :: "uuid option"
  cp_verified_at :: "instant option"
  cp_revoked_at :: "instant option"

definition contact_point_checks :: "contact_point \<Rightarrow> bool" where
  "contact_point_checks p \<longleftrightarrow>
     cp_kind p \<in> {''email'', ''phone''} \<and>
     cp_verification_status p \<in> {''unverified'', ''pending'', ''verified'', ''revoked''} \<and>
     length (cp_lookup_hmac p) = 64 \<and>
     length (cp_ciphertext p) > 40 \<and> cp_ciphertext p \<noteq> cp_masked_value p \<and>
     (cp_verification_status p = ''verified'' \<longrightarrow> cp_verified_at p \<noteq> None) \<and>
     (cp_verification_status p = ''revoked'' \<longrightarrow> cp_revoked_at p \<noteq> None)"

datatype consent_purpose = ConversationStorage | QuoteDelivery | CommercialFollowUpConsent | Marketing

datatype consent_action = Grant | Revoke

record consent_record =
  cr_id :: uuid
  cr_principal_id :: uuid
  cr_contact_id :: "uuid option"
  cr_contact_point_id :: "uuid option"
  cr_agent_id :: uuid
  cr_purpose :: consent_purpose
  cr_action :: consent_action
  cr_policy_version :: string
  cr_channel :: string
  cr_target_channel :: "string option"
  cr_locale :: string
  cr_source_conversation_id :: "uuid option"
  cr_source_channel_identity_id :: "uuid option"
  cr_actor_admin_id :: "uuid option"
  cr_correlation_id :: string
  cr_idempotency_key :: string
  cr_command_hash :: string
  cr_occurred_at :: instant
  cr_expires_at :: "instant option"
  cr_created_at :: instant

text \<open>The regular expression \<open>^[a-z][a-z0-9_-]{0,39}$\<close>.\<close>

definition channel_text :: "string \<Rightarrow> bool" where
  "channel_text t \<longleftrightarrow> 1 \<le> length t \<and> length t \<le> 40 \<and> is_lower (hd t) \<and>
     list_all (\<lambda>c. is_lower c \<or> is_digit c \<or> c = CHR ''_'' \<or> c = CHR ''-'') (tl t)"

definition consent_checks :: "consent_record \<Rightarrow> bool" where
  "consent_checks r \<longleftrightarrow>
     length (btrim (cr_policy_version r)) > 0 \<and>
     length (btrim (cr_channel r)) > 0 \<and>
     (case cr_target_channel r of None \<Rightarrow> True | Some t \<Rightarrow> channel_text t) \<and>
     length (btrim (cr_locale r)) > 0 \<and>
     length (btrim (cr_correlation_id r)) > 0 \<and>
     length (btrim (cr_idempotency_key r)) > 0 \<and>
     length (cr_command_hash r) = 64 \<and>
     (case cr_expires_at r of None \<Rightarrow> True | Some t \<Rightarrow> t > cr_occurred_at r) \<and>
     (cr_action r = Revoke \<longrightarrow> cr_expires_at r = None) \<and>
     (cr_contact_point_id r \<noteq> None \<longrightarrow> cr_contact_id r \<noteq> None)"

record opportunity =
  op_id :: uuid
  op_created_at :: instant
  op_contact_id :: uuid
  op_created_by_agent_id :: uuid
  op_assigned_agent_id :: uuid
  op_assigned_operator_id :: "uuid option"
  op_stage :: opportunity_stage
  op_control_version :: int
  op_title :: string
  op_summary :: "string option"
  op_correlation_id :: string
  op_idempotency_key :: string
  op_command_hash :: string
  op_closed_at :: "instant option"

definition opportunity_checks :: "opportunity \<Rightarrow> bool" where
  "opportunity_checks p \<longleftrightarrow>
     op_control_version p \<ge> 0 \<and>
     length (btrim (op_title p)) > 0 \<and>
     sha256_hex (op_command_hash p) \<and>
     length (btrim (op_correlation_id p)) > 0 \<and>
     length (btrim (op_idempotency_key p)) > 0 \<and>
     (op_stage p \<in> {StWon, StLost}) = (op_closed_at p \<noteq> None)"

datatype stage_event_type = StageCreated | StageChanged

record stage_event =
  se_id :: uuid
  se_opportunity_id :: uuid
  se_assigned_agent_id :: uuid
  se_actor_operator_id :: "uuid option"
  se_event_type :: stage_event_type
  se_from_stage :: "opportunity_stage option"
  se_to_stage :: opportunity_stage
  se_control_version :: int
  se_reason :: "string option"
  se_correlation_id :: string
  se_idempotency_key :: string
  se_command_hash :: string
  se_created_at :: instant

definition stage_event_checks :: "stage_event \<Rightarrow> bool" where
  "stage_event_checks e \<longleftrightarrow>
     (case se_event_type e of
        StageCreated \<Rightarrow> se_control_version e = 0 \<and> se_from_stage e = None \<and> se_to_stage e = StNew
      | StageChanged \<Rightarrow> se_control_version e > 0 \<and>
          (\<exists>f. se_from_stage e = Some f \<and> f \<noteq> se_to_stage e)) \<and>
     sha256_hex (se_command_hash e) \<and>
     length (btrim (se_correlation_id e)) > 0 \<and>
     length (btrim (se_idempotency_key e)) > 0"

datatype ownership_event_type = OwnershipCreated | OwnershipReassigned

record ownership_event =
  we_id :: uuid
  we_opportunity_id :: uuid
  we_actor_agent_id :: uuid
  we_actor_operator_id :: "uuid option"
  we_event_type :: ownership_event_type
  we_from_agent_id :: "uuid option"
  we_to_agent_id :: uuid
  we_from_operator_id :: "uuid option"
  we_to_operator_id :: "uuid option"
  we_control_version :: int
  we_reason :: "string option"
  we_correlation_id :: string
  we_idempotency_key :: string
  we_command_hash :: string
  we_created_at :: instant

definition ownership_event_checks :: "ownership_event \<Rightarrow> bool" where
  "ownership_event_checks e \<longleftrightarrow>
     (case we_event_type e of
        OwnershipCreated \<Rightarrow> we_control_version e = 0 \<and> we_from_agent_id e = None
      | OwnershipReassigned \<Rightarrow> we_control_version e > 0 \<and> we_from_agent_id e \<noteq> None \<and>
          (we_from_agent_id e \<noteq> Some (we_to_agent_id e) \<or> we_from_operator_id e \<noteq> we_to_operator_id e)) \<and>
     sha256_hex (we_command_hash e) \<and>
     length (btrim (we_correlation_id e)) > 0 \<and>
     length (btrim (we_idempotency_key e)) > 0"

record conversation_link =
  ol_id :: uuid
  ol_opportunity_id :: uuid
  ol_conversation_id :: "uuid option"
  ol_linked_by_agent_id :: uuid
  ol_linked_by_operator_id :: "uuid option"
  ol_correlation_id :: string
  ol_idempotency_key :: string
  ol_command_hash :: string
  ol_created_at :: instant

section \<open>Follow-up tasks\<close>

datatype follow_up_kind = CommercialFollowUp | MeetingCoordination | ProposalReminder

datatype follow_up_status =
  FuScheduled | FuDispatchQueued | FuInProgress | FuCompleted | FuCancelled | FuReviewRequired

fun follow_up_status_value :: "follow_up_status \<Rightarrow> string" where
  "follow_up_status_value FuScheduled = ''scheduled''"
| "follow_up_status_value FuDispatchQueued = ''dispatch_queued''"
| "follow_up_status_value FuInProgress = ''in_progress''"
| "follow_up_status_value FuCompleted = ''completed''"
| "follow_up_status_value FuCancelled = ''cancelled''"
| "follow_up_status_value FuReviewRequired = ''review_required''"

record follow_up_task =
  ft_id :: uuid
  ft_created_at :: instant
  ft_updated_at :: instant
  ft_opportunity_id :: uuid
  ft_conversation_id :: "uuid option"
  ft_source_conversation_id :: "uuid option"
  ft_fifo_key :: "string option"
  ft_target_channel :: "string option"
  ft_contact_point_id :: "uuid option"
  ft_consent_record_id :: uuid
  ft_executed_consent_record_id :: "uuid option"
  ft_assigned_agent_id :: uuid
  ft_assigned_operator_id :: "uuid option"
  ft_quote_version_id :: "uuid option"
  ft_chat_message_id :: "uuid option"
  ft_outbound_message_id :: "uuid option"
  ft_had_chat_message_evidence :: bool
  ft_had_outbound_message_evidence :: bool
  ft_kind :: follow_up_kind
  ft_status :: follow_up_status
  ft_state_version :: int
  ft_scheduled_control_version :: "int option"
  ft_scheduled_automation_version :: "int option"
  ft_scheduled_policy_version :: "int option"
  ft_executed_policy_version :: "int option"
  ft_due_at :: instant
  ft_available_at :: instant
  ft_attempts :: int
  ft_max_attempts :: int
  ft_lease_owner :: "string option"
  ft_lease_expires_at :: "instant option"
  ft_note :: "string option"
  ft_last_safe_code :: "string option"
  ft_correlation_id :: string
  ft_idempotency_key :: string
  ft_command_hash :: string
  ft_review_required_at :: "instant option"
  ft_completed_at :: "instant option"
  ft_cancelled_at :: "instant option"

datatype follow_up_event_type = FuEvScheduled | FuEvTransitioned | FuEvDeferred | FuEvLegacyQuarantined

datatype follow_up_actor = FuAgent | FuOperator | FuWorker | FuSystem | FuMigration

record follow_up_event =
  fe_id :: uuid
  fe_task_id :: uuid
  fe_opportunity_id :: uuid
  fe_event_type :: follow_up_event_type
  fe_from_status :: "follow_up_status option"
  fe_to_status :: follow_up_status
  fe_state_version :: int
  fe_actor_type :: follow_up_actor
  fe_actor_agent_id :: "uuid option"
  fe_actor_admin_id :: "uuid option"
  fe_actor_worker_id :: "string option"
  fe_routing_agent_id :: "uuid option"
  fe_automation_agent_id :: "uuid option"
  fe_target_channel :: "string option"
  fe_control_version :: "int option"
  fe_automation_version :: "int option"
  fe_scheduled_policy_version :: "int option"
  fe_executed_policy_version :: "int option"
  fe_consent_record_id :: uuid
  fe_executed_consent_record_id :: "uuid option"
  fe_caused_by_consent_record_id :: "uuid option"
  fe_chat_message_id :: "uuid option"
  fe_outbound_message_id :: "uuid option"
  fe_source_conversation_id :: "uuid option"
  fe_had_chat_message_evidence :: bool
  fe_had_outbound_message_evidence :: bool
  fe_safe_code :: "string option"
  fe_correlation_id :: string
  fe_idempotency_key :: string
  fe_command_hash :: string
  fe_created_at :: instant

text \<open>The four UNIQUE constraints of the event table; NULLs are distinct.\<close>

definition unique_some :: "('r \<Rightarrow> 'k option) \<Rightarrow> 'r list \<Rightarrow> bool" where
  "unique_some key t \<longleftrightarrow> distinct (filter (\<lambda>k. k \<noteq> None) (map key t))"

definition follow_up_events_unique :: "follow_up_event list \<Rightarrow> bool" where
  "follow_up_events_unique t \<longleftrightarrow>
     distinct (map (\<lambda>e. (fe_task_id e, fe_state_version e)) t) \<and>
     distinct (map (\<lambda>e. (fe_task_id e, fe_idempotency_key e)) t) \<and>
     unique_some fe_chat_message_id t \<and>
     unique_some fe_outbound_message_id t"

end
