(* ===== verification/SchemaSales.thy ===== *)
theory SchemaSales
  imports SchemaCrm
begin

text \<open>
  The tables around the commercial dossier: quotes (\<open>models/quote.py\<close>), meetings with their slots and
  events (\<open>models/meeting.py\<close>), the automation and progression policies of an agent
  (\<open>models/commercial_automation_policy.py\<close>, \<open>models/commercial_progression_policy.py\<close>), the handoff
  routes with their receipts (\<open>models/agent_handoff_route.py\<close>), the identity-link claims with their
  events (\<open>models/identity_link_claim.py\<close>), and the tables of access grants, audit records and delivery
  statuses.
\<close>

section \<open>Automation policies\<close>

text \<open>A time of day is the number of microseconds since midnight.\<close>

record automation_policy =
  ap_id :: uuid
  ap_agent_id :: uuid
  ap_is_enabled :: bool
  ap_allowed_kinds :: "string list"
  ap_timezone :: string
  ap_quiet_hours_start :: "int option"
  ap_quiet_hours_end :: "int option"
  ap_min_interval_seconds :: int
  ap_max_attempts :: int
  ap_max_daily_tasks :: int
  ap_max_pending_tasks :: int
  ap_version :: int
  ap_updated_by_admin_id :: "uuid option"

fun follow_up_kind_value :: "follow_up_kind \<Rightarrow> string" where
  "follow_up_kind_value CommercialFollowUp = ''commercial_follow_up''"
| "follow_up_kind_value MeetingCoordination = ''meeting_coordination''"
| "follow_up_kind_value ProposalReminder = ''proposal_reminder''"

definition automation_policy_checks :: "automation_policy \<Rightarrow> bool" where
  "automation_policy_checks p \<longleftrightarrow>
     set (ap_allowed_kinds p) \<subseteq> {''commercial_follow_up'', ''meeting_coordination'', ''proposal_reminder''} \<and>
     length (btrim (ap_timezone p)) > 0 \<and>
     (ap_quiet_hours_start p = None) = (ap_quiet_hours_end p = None) \<and>
     (ap_quiet_hours_start p = None \<or> ap_quiet_hours_start p \<noteq> ap_quiet_hours_end p) \<and>
     ap_min_interval_seconds p \<ge> 0 \<and> ap_max_attempts p > 0 \<and> ap_max_daily_tasks p > 0 \<and>
     ap_max_pending_tasks p > 0 \<and> ap_version p \<ge> 0"

record progression_policy =
  gp_agent_id :: uuid
  gp_quote_request_action :: string
  gp_version :: int
  gp_updated_by_admin_id :: "uuid option"

section \<open>Quotes\<close>

datatype quote_status = QuoteUnavailable | QuoteReviewRequired | QuoteIssued | QuoteCancelled

record quote_request =
  qr_id :: uuid
  qr_opportunity_id :: uuid
  qr_requested_by_agent_id :: uuid
  qr_requested_by_operator_id :: "uuid option"
  qr_status :: quote_status
  qr_state_version :: int
  qr_requirements :: json
  qr_failure_code :: "string option"
  qr_correlation_id :: string
  qr_idempotency_key :: string
  qr_command_hash :: string

definition quote_request_checks :: "quote_request \<Rightarrow> bool" where
  "quote_request_checks r \<longleftrightarrow>
     qr_state_version r \<ge> 0 \<and>
     (case qr_requirements r of JObj _ \<Rightarrow> True | _ \<Rightarrow> False) \<and>
     (qr_status r \<in> {QuoteUnavailable, QuoteReviewRequired} \<longrightarrow> qr_failure_code r \<noteq> None) \<and>
     sha256_hex (qr_command_hash r) \<and> length (btrim (qr_correlation_id r)) > 0 \<and>
     length (btrim (qr_idempotency_key r)) > 0"

record quote_version =
  qv_id :: uuid
  qv_quote_request_id :: uuid
  qv_version :: int
  qv_status :: quote_status
  qv_authority_name :: string
  qv_authority_version :: string
  qv_external_reference :: string
  qv_content_hash :: string
  qv_correlation_id :: string
  qv_idempotency_key :: string
  qv_command_hash :: string
  qv_issued_at :: instant
  qv_created_at :: instant

definition quote_version_checks :: "quote_version \<Rightarrow> bool" where
  "quote_version_checks v \<longleftrightarrow>
     qv_version v > 0 \<and> qv_status v = QuoteIssued \<and>
     length (btrim (qv_authority_name v)) > 0 \<and> length (btrim (qv_authority_version v)) > 0 \<and>
     length (btrim (qv_external_reference v)) > 0 \<and>
     sha256_hex (qv_content_hash v) \<and> sha256_hex (qv_command_hash v) \<and>
     qv_issued_at v \<le> qv_created_at v \<and>
     length (btrim (qv_correlation_id v)) > 0 \<and> length (btrim (qv_idempotency_key v)) > 0"

section \<open>Meetings\<close>

datatype meeting_status =
    MtRequested | MtSlotsProposed | MtAwaitingResponse | MtSlotSelected | MtCalendarPending
  | MtScheduled | MtRescheduleRequested | MtCancelled | MtReviewRequired

fun meeting_status_value :: "meeting_status \<Rightarrow> string" where
  "meeting_status_value MtRequested = ''requested''"
| "meeting_status_value MtSlotsProposed = ''slots_proposed''"
| "meeting_status_value MtAwaitingResponse = ''awaiting_response''"
| "meeting_status_value MtSlotSelected = ''slot_selected''"
| "meeting_status_value MtCalendarPending = ''calendar_pending''"
| "meeting_status_value MtScheduled = ''scheduled''"
| "meeting_status_value MtRescheduleRequested = ''reschedule_requested''"
| "meeting_status_value MtCancelled = ''cancelled''"
| "meeting_status_value MtReviewRequired = ''review_required''"

record meeting =
  mt_id :: uuid
  mt_opportunity_id :: uuid
  mt_conversation_id :: "uuid option"
  mt_created_under_agent_id :: uuid
  mt_created_by_agent_id :: "uuid option"
  mt_created_by_admin_id :: "uuid option"
  mt_status :: meeting_status
  mt_state_version :: int
  mt_proposal_version :: int
  mt_selected_slot_id :: "uuid option"
  mt_correlation_id :: string
  mt_idempotency_key :: string
  mt_command_hash :: string

definition meeting_checks :: "meeting \<Rightarrow> bool" where
  "meeting_checks m \<longleftrightarrow>
     mt_state_version m \<ge> 0 \<and> mt_proposal_version m \<ge> 0 \<and>
     (mt_created_by_agent_id m = None) \<noteq> (mt_created_by_admin_id m = None) \<and>
     sha256_hex (mt_command_hash m) \<and> length (btrim (mt_correlation_id m)) > 0 \<and>
     length (btrim (mt_idempotency_key m)) > 0"

record meeting_slot =
  ms_id :: uuid
  ms_meeting_id :: uuid
  ms_proposal_version :: int
  ms_position :: int
  ms_starts_at :: instant
  ms_ends_at :: instant
  ms_timezone :: string
  ms_created_at :: instant

definition meeting_slot_checks :: "meeting_slot \<Rightarrow> bool" where
  "meeting_slot_checks l \<longleftrightarrow> ms_proposal_version l > 0 \<and> ms_position l > 0 \<and> ms_ends_at l > ms_starts_at l \<and>
     length (btrim (ms_timezone l)) > 0"

datatype meeting_event_type =
    MeCreated | MeSlotsProposed | MeAwaitingResponse | MeSlotSelected | MeScheduledManual
  | MeRescheduleRequested | MeCancelled | MeReviewRequired

record meeting_event =
  me_id :: uuid
  me_meeting_id :: uuid
  me_opportunity_id :: uuid
  me_conversation_id :: "uuid option"
  me_actor_agent_id :: "uuid option"
  me_actor_admin_id :: "uuid option"
  me_assigned_agent_id :: uuid
  me_assigned_operator_id :: "uuid option"
  me_routing_agent_id :: "uuid option"
  me_automation_agent_id :: "uuid option"
  me_event_type :: meeting_event_type
  me_from_status :: "meeting_status option"
  me_to_status :: meeting_status
  me_state_version :: int
  me_proposal_version :: int
  me_opportunity_control_version :: int
  me_slot_id :: "uuid option"
  me_conversation_control_version :: "int option"
  me_conversation_automation_version :: "int option"
  me_source_channel :: "string option"
  me_evidence_type :: "string option"
  me_evidence_reference :: "string option"
  me_reason :: "string option"
  me_safe_code :: "string option"
  me_correlation_id :: string
  me_idempotency_key :: string
  me_command_hash :: string
  me_created_at :: instant

text \<open>The column \<open>actor_type\<close> is derived by the only writer from the actor: an agent when there is one.
  The CHECK then says that exactly one actor is present.\<close>

definition meeting_event_checks :: "meeting_event \<Rightarrow> bool" where
  "meeting_event_checks e \<longleftrightarrow>
     (if me_event_type e = MeCreated
      then me_state_version e = 0 \<and> me_from_status e = None \<and> me_to_status e = MtRequested
      else me_state_version e > 0 \<and> me_from_status e \<noteq> None) \<and>
     me_proposal_version e \<ge> 0 \<and> me_opportunity_control_version e \<ge> 0 \<and>
     (me_actor_agent_id e = None) \<noteq> (me_actor_admin_id e = None) \<and>
     (me_routing_agent_id e = None) = (me_automation_agent_id e = None) \<and>
     (me_routing_agent_id e = None) = (me_conversation_control_version e = None) \<and>
     (me_routing_agent_id e = None) = (me_conversation_automation_version e = None) \<and>
     (me_routing_agent_id e = None) = (me_source_channel e = None) \<and>
     (case me_conversation_control_version e of None \<Rightarrow> True | Some n \<Rightarrow> n \<ge> 0) \<and>
     (case me_conversation_automation_version e of None \<Rightarrow> True | Some n \<Rightarrow> n \<ge> 0) \<and>
     (me_event_type e = MeScheduledManual \<longrightarrow> me_actor_admin_id e \<noteq> None \<and> me_evidence_type e \<noteq> None \<and>
        me_evidence_reference e \<noteq> None \<and> me_slot_id e \<noteq> None) \<and>
     sha256_hex (me_command_hash e) \<and> length (btrim (me_correlation_id e)) > 0 \<and>
     length (btrim (me_idempotency_key e)) > 0"

section \<open>Handoff routes\<close>

datatype handoff_trigger = QuoteRequested | ManualEscalation

record handoff_route =
  hr_id :: uuid
  hr_source_agent_id :: uuid
  hr_target_agent_id :: uuid
  hr_trigger :: handoff_trigger
  hr_is_active :: bool
  hr_control_version :: int
  hr_created_by_admin_id :: uuid
  hr_updated_by_admin_id :: uuid

datatype handoff_command = HandoffCreated | HandoffUpdated | HandoffDeactivated

record handoff_receipt =
  hc_id :: uuid
  hc_route_id :: uuid
  hc_source_agent_id :: uuid
  hc_actor_admin_id :: uuid
  hc_command_type :: handoff_command
  hc_trigger :: handoff_trigger
  hc_previous_target_agent_id :: "uuid option"
  hc_target_agent_id :: uuid
  hc_previous_is_active :: "bool option"
  hc_is_active :: bool
  hc_control_version :: int
  hc_applied :: bool
  hc_idempotency_key :: string
  hc_command_hash :: string

definition handoff_receipt_checks :: "handoff_receipt \<Rightarrow> bool" where
  "handoff_receipt_checks r \<longleftrightarrow>
     hc_source_agent_id r \<noteq> hc_target_agent_id r \<and>
     hc_previous_target_agent_id r \<noteq> Some (hc_source_agent_id r) \<and>
     hc_control_version r \<ge> 0 \<and> length (hc_command_hash r) = 64"

section \<open>Identity-link claims\<close>

datatype link_status = LinkPending | LinkVerified | LinkRejected | LinkRevoked | LinkExpired

fun link_status_value :: "link_status \<Rightarrow> string" where
  "link_status_value LinkPending = ''pending''"
| "link_status_value LinkVerified = ''verified''"
| "link_status_value LinkRejected = ''rejected''"
| "link_status_value LinkRevoked = ''revoked''"
| "link_status_value LinkExpired = ''expired''"

record link_claim =
  il_id :: uuid
  il_created_at :: instant
  il_updated_at :: instant
  il_agent_id :: uuid
  il_source_identity_id :: uuid
  il_target_identity_id :: uuid
  il_source_principal_id :: uuid
  il_target_principal_id :: uuid
  il_status :: link_status
  il_proof_method :: string
  il_proof_token_hash :: "string option"
  il_proof_expires_at :: instant
  il_proof_consumed_at :: "instant option"
  il_evidence_sha256 :: "string option"
  il_evidence_reference :: "string option"
  il_created_by_admin_id :: uuid
  il_verified_by_admin_id :: "uuid option"
  il_verified_at :: "instant option"
  il_rejected_at :: "instant option"
  il_revoked_at :: "instant option"
  il_expired_at :: "instant option"
  il_control_version :: int
  il_issue_idempotency_key :: string
  il_issue_command_hash :: string

definition link_claim_checks :: "link_claim \<Rightarrow> bool" where
  "link_claim_checks c \<longleftrightarrow>
     il_source_identity_id c \<noteq> il_target_identity_id c \<and> il_control_version c \<ge> 0 \<and>
     (case il_proof_token_hash c of None \<Rightarrow> True | Some h \<Rightarrow> length h = 64) \<and>
     (case il_evidence_sha256 c of None \<Rightarrow> True | Some h \<Rightarrow> length h = 64) \<and>
     (il_status c = LinkPending) = (il_proof_token_hash c \<noteq> None) \<and>
     length (il_issue_command_hash c) = 64"

datatype link_event_type = LeIssued | LeVerified | LeRejected | LeRevoked | LeExpired

record link_event =
  le_id :: uuid
  le_claim_id :: uuid
  le_agent_id :: uuid
  le_actor_admin_id :: uuid
  le_event_type :: link_event_type
  le_from_status :: "link_status option"
  le_to_status :: link_status
  le_control_version :: int
  le_idempotency_key :: string
  le_command_hash :: string
  le_created_at :: instant

definition link_event_checks :: "link_event \<Rightarrow> bool" where
  "link_event_checks e \<longleftrightarrow> le_control_version e \<ge> 0 \<and> length (le_command_hash e) = 64"

section \<open>Access grants, audit records and delivery statuses\<close>

text \<open>\<open>models/admin_agent_grant.py\<close>: the permissions of an administrator on one agent, a JSON list.
  \<open>models/audit_log.py\<close>: the columns the modelled services write; the others keep their defaults.
  \<open>models/message_status.py\<close>: the delivery status the provider reported for a message.\<close>

record admin_agent_grant =
  aa_id :: uuid
  aa_admin_user_id :: uuid
  aa_agent_id :: uuid
  aa_permissions :: json
  aa_is_active :: bool
  aa_created_by :: "string option"
  aa_updated_by :: "string option"

record audit_log =
  al_id :: uuid
  al_agent_id :: "uuid option"
  al_request_id :: uuid
  al_phone_number :: string
  al_channel :: string
  al_input_type :: string
  al_intent :: "string option"
  al_status :: string
  al_extra_metadata :: json

record message_status =
  mx_id :: uuid
  mx_meta_message_id :: string
  mx_phone :: string
  mx_recipient_name :: "string option"
  mx_kind :: string
  mx_context :: "string option"
  mx_status :: string
  mx_error_code :: "string option"
  mx_error_title :: "string option"
  mx_status_at :: "instant option"

definition message_status_checks :: "message_status \<Rightarrow> bool" where
  "message_status_checks m \<longleftrightarrow>
     length (mx_meta_message_id m) \<le> 128 \<and> length (mx_phone m) \<le> 20 \<and> length (mx_kind m) \<le> 20 \<and>
     length (mx_status m) \<le> 20 \<and> (case mx_recipient_name m of None \<Rightarrow> True | Some t \<Rightarrow> length t \<le> 120) \<and>
     (case mx_context m of None \<Rightarrow> True | Some t \<Rightarrow> length t \<le> 160) \<and>
     (case mx_error_code m of None \<Rightarrow> True | Some t \<Rightarrow> length t \<le> 20) \<and>
     (case mx_error_title m of None \<Rightarrow> True | Some t \<Rightarrow> length t \<le> 255)"

end
