(* ===== verification/Store.thy ===== *)
theory Store
  imports SchemaDelivery SchemaSales
begin

text \<open>
  The database as the record of its tables and the services of the environment an operation
  uses: the hash functions of \<open>hashlib\<close> and \<open>uuid\<close>, the supply of random UUIDs, the wall clock and
  the transaction timestamp (\<open>now()\<close> of PostgreSQL, the default of \<open>created_at\<close>). An operation
  runs inside one transaction: it returns the changed store, or raises, in which case its caller
  rolls back and the store is unchanged.
\<close>

record env =
  sha256 :: "string \<Rightarrow> string"
  uuid5 :: "uuid \<Rightarrow> string \<Rightarrow> uuid"
  uuid4 :: "nat \<Rightarrow> uuid"
  clock :: instant
  tx_now :: instant

record store =
  draws :: nat
  conversations :: "conversation list"
  chat_messages :: "chat_message list"
  executions :: "execution list"
  conv_events :: "conv_event list"
  control_events :: "control_event list"
  assignment_events :: "assignment_event list"
  routes :: "channel_route list"
  connections :: "channel_connection list"
  agents :: "agent_profile list"
  admins :: "admin_user list"
  roles :: "admin_role list"
  outbounds :: "outbound list"
  attempts :: "attempt list"
  delivery_events :: "delivery_event list"
  resolutions :: "resolution list"
  inbound_jobs :: "inbound_job list"
  inbound_events :: "inbound_event list"
  contacts :: "contact list"
  channel_identities :: "channel_identity list"
  contact_points :: "contact_point list"
  consent_records :: "consent_record list"
  opportunities :: "opportunity list"
  stage_events :: "stage_event list"
  ownership_events :: "ownership_event list"
  conversation_links :: "conversation_link list"
  follow_up_tasks :: "follow_up_task list"
  follow_up_events :: "follow_up_event list"
  automation_policies :: "automation_policy list"
  progression_policies :: "progression_policy list"
  quote_requests :: "quote_request list"
  quote_versions :: "quote_version list"
  meetings :: "meeting list"
  meeting_slots :: "meeting_slot list"
  meeting_events :: "meeting_event list"
  handoff_routes :: "handoff_route list"
  handoff_receipts :: "handoff_receipt list"
  link_claims :: "link_claim list"
  link_events :: "link_event list"
  admin_agent_grants :: "admin_agent_grant list"
  audit_logs :: "audit_log list"
  message_statuses :: "message_status list"

definition empty_store :: store where
  "empty_store = \<lparr>draws = 0, conversations = [], chat_messages = [], executions = [],
     conv_events = [], control_events = [], assignment_events = [], routes = [], connections = [],
     agents = [], admins = [], roles = [], outbounds = [], attempts = [], delivery_events = [],
     resolutions = [], inbound_jobs = [], inbound_events = [], contacts = [], channel_identities = [],
     contact_points = [], consent_records = [], opportunities = [],
     stage_events = [], ownership_events = [], conversation_links = [], follow_up_tasks = [],
     follow_up_events = [], automation_policies = [], progression_policies = [], quote_requests = [],
     quote_versions = [], meetings = [], meeting_slots = [], meeting_events = [], handoff_routes = [],
     handoff_receipts = [], link_claims = [], link_events = [], admin_agent_grants = [], audit_logs = [],
     message_statuses = []\<rparr>"

text \<open>\<open>uuid.uuid4()\<close>: the next random UUID.\<close>

definition fresh :: "env \<Rightarrow> store \<Rightarrow> uuid \<times> store" where
  "fresh E s = (uuid4 E (draws s), s\<lparr>draws := Suc (draws s)\<rparr>)"

text \<open>\<open>hashlib.sha256(canonical.encode()).hexdigest()\<close> of a command.\<close>

definition command_digest :: "env \<Rightarrow> bool \<Rightarrow> (string \<times> json) list \<Rightarrow> string" where
  "command_digest E asc kvs = sha256 E (canonical asc kvs)"

text \<open>What the operations rely on of SHA-256: a 64-digit lowercase hexadecimal text.\<close>

definition sha256_ok :: "env \<Rightarrow> bool" where
  "sha256_ok E \<longleftrightarrow> (\<forall>t. sha256_hex (sha256 E t))"

text \<open>Access to the conversation table shared by the services.\<close>

definition get_conversation :: "store \<Rightarrow> uuid \<Rightarrow> conversation option" where
  "get_conversation s cid = find (\<lambda>c. cv_id c = cid) (conversations s)"

definition scoped_conversation :: "store \<Rightarrow> uuid \<Rightarrow> uuid \<Rightarrow> conversation option" where
  "scoped_conversation s cid aid =
     find (\<lambda>c. cv_id c = cid \<and> cv_agent_id c = aid) (conversations s)"

definition put_conversation :: "conversation \<Rightarrow> store \<Rightarrow> store" where
  "put_conversation c s = s\<lparr>conversations := put_row cv_id c (conversations s)\<rparr>"

definition conversations_ok :: "store \<Rightarrow> bool" where
  "conversations_ok s \<longleftrightarrow> distinct (map cv_id (conversations s))"

lemma scoped_conversationD:
  "scoped_conversation s cid aid = Some c \<Longrightarrow>
     c \<in> set (conversations s) \<and> cv_id c = cid \<and> cv_agent_id c = aid"
  by (auto simp: scoped_conversation_def dest: find_SomeD)

lemma get_conversationD:
  "get_conversation s cid = Some c \<Longrightarrow> c \<in> set (conversations s) \<and> cv_id c = cid"
  by (auto simp: get_conversation_def dest: find_SomeD)

lemma get_put_conversation [table_simps]:
  assumes "get_conversation s (cv_id c) \<noteq> None"
  shows "get_conversation (put_conversation c s) (cv_id c) = Some c"
  using assms by (simp add: get_conversation_def put_conversation_def find_put_row_same)

lemma scoped_get:
  assumes "conversations_ok s"
  shows "scoped_conversation s cid aid =
    (case get_conversation s cid of None \<Rightarrow> None | Some c \<Rightarrow> if cv_agent_id c = aid then Some c else None)"
  unfolding scoped_conversation_def get_conversation_def 
  by (rule find_scope) (use assms in \<open>simp add: conversations_ok_def\<close>)

text \<open>Messages: \<open>db.get(ChatMessage, id)\<close>, and the insertion of a row under the primary key, the
  UNIQUE constraint (conversation, client message) and the width of \<open>client_message_id\<close>
  (\<open>String(255)\<close>); \<open>None\<close> is the database error.\<close>

definition get_message :: "store \<Rightarrow> uuid \<Rightarrow> chat_message option" where
  "get_message s mid = find (\<lambda>m. cm_id m = mid) (chat_messages s)"

definition insert_message :: "chat_message \<Rightarrow> store \<Rightarrow> store option" where
  "insert_message m s =
     (if list_ex (\<lambda>x. cm_id x = cm_id m \<or>
            (cm_conversation_id x = cm_conversation_id m \<and> cm_client_message_id x = cm_client_message_id m))
          (chat_messages s) \<or> 255 < length (cm_client_message_id m)
      then None else Some (s\<lparr>chat_messages := chat_messages s @ [m]\<rparr>))"

definition put_message :: "chat_message \<Rightarrow> store \<Rightarrow> store" where
  "put_message m s = s\<lparr>chat_messages := put_row cm_id m (chat_messages s)\<rparr>"

lemma insert_message_Some: "insert_message m s = Some s' \<longleftrightarrow>
    (\<forall>x\<in>set (chat_messages s). cm_id x \<noteq> cm_id m \<and>
       \<not> (cm_conversation_id x = cm_conversation_id m \<and> cm_client_message_id x = cm_client_message_id m)) \<and>
    length (cm_client_message_id m) \<le> 255 \<and> s' = s\<lparr>chat_messages := chat_messages s @ [m]\<rparr>"
  by (auto simp: insert_message_def list_ex_iff not_less)

lemma get_message_insert: "insert_message m s = Some s' \<Longrightarrow>
    get_message s' k = (if k = cm_id m then Some m else get_message s k)"
proof -
  assume i: "insert_message m s = Some s'"
  then have "get_message s (cm_id m) = None"
    by (auto simp: insert_message_Some get_message_def find_None_iff)
  with i show ?thesis
    by (auto simp: insert_message_Some get_message_def find_append split: option.splits)
qed

lemma get_messageD: "get_message s k = Some m \<Longrightarrow> m \<in> set (chat_messages s) \<and> cm_id m = k"
  by (auto simp: get_message_def dest: find_SomeD)

section \<open>Sample data\<close>

text \<open>An environment and a conversation at which the witnesses evaluate the operations.\<close>

definition sample_uuid :: "nat \<Rightarrow> uuid" where
  "sample_uuid n = UUID (of_nat n)"

definition sample_env :: env where
  "sample_env = \<lparr>sha256 = (\<lambda>t. replicate 64 (CHR ''a'')), uuid5 = (\<lambda>ns t. UUID 7),
     uuid4 = (\<lambda>n. UUID (1000 + of_nat n)), clock = 50, tx_now = 40\<rparr>"

definition sample_conversation :: conversation where
  "sample_conversation = \<lparr>cv_id = UUID 1, cv_created_at = 0, cv_agent_id = UUID 2,
     cv_automation_agent_id = UUID 2, cv_automation_version = 0, cv_principal_id = UUID 3,
     cv_channel = ''whatsapp'', cv_external_thread_id = ''5491100'', cv_route_key = ''main'',
     cv_channel_route_id = Some (UUID 4), cv_status = ''active'', cv_control_mode = Automated,
     cv_control_version = 0, cv_next_outbound_sequence = 1, cv_next_event_sequence = 1,
     cv_assigned_admin_id = None, cv_control_changed_at = 0, cv_control_reason = None,
     cv_summary = None, cv_consent_version = None, cv_transcript_consent = False,
     cv_attributes = JObj []\<rparr>"

definition sample_store :: store where
  "sample_store = empty_store\<lparr>conversations := [sample_conversation],
     routes := [\<lparr>rt_id = UUID 4, rt_channel = ''whatsapp'', rt_version = 1, rt_route_key = ''main'',
       rt_connection_id = UUID 5, rt_agent_id = UUID 2, rt_is_active = True\<rparr>],
     connections := [\<lparr>cn_id = UUID 5, cn_channel = ''whatsapp'', cn_adapter_key = ''meta_whatsapp_cloud'',
       cn_version = 1, cn_is_active = True, cn_name = ''main'', cn_external_account_id = Some ''10001'',
       cn_settings = JObj [], cn_encrypted_credentials = Some ''token''\<rparr>],
     agents := [\<lparr>ag_id = UUID 2, ag_is_active = True\<rparr>, \<lparr>ag_id = UUID 6, ag_is_active = True\<rparr>],
     admins := [\<lparr>ad_id = UUID 8, ad_role = ''operator'', ad_is_active = True\<rparr>,
       \<lparr>ad_id = UUID 9, ad_role = ''admin'', ad_is_active = True\<rparr>],
     roles := []\<rparr>"

lemmas sample_defs = sample_uuid_def sample_env_def sample_conversation_def sample_store_def empty_store_def

lemma sample_hash [simp]: "sha256_hex (replicate 64 (CHR ''a''))"
  by (simp add: sha256_hex_def list_all_iff is_hex_lower_def is_digit_def)

lemma sample_sha256_ok [simp]: "sha256_ok sample_env"
  by (simp add: sha256_ok_def sample_env_def)

end
