(* ===== verification/Contracts.thy ===== *)
theory Contracts
  imports Prelude
begin

text \<open>
  The interfaces the services share, stated once over an abstract state and interpreted on each
  service's own operations:
  \<^item> \<open>sequenced_log\<close>: an operation that allocates the next number of a counter and appends a row
    carrying it (conversation events, outbound sequences, control and automation epochs, the
    versions of opportunities); the numbers handed out are gap-free;
  \<^item> \<open>idempotent_command\<close>: an operation that files a receipt under the caller's key with the
    digest of the command (outbound and web enqueue, automation assignment, operator resolutions,
    opportunity commands); a retry answers from the receipt and changes nothing, another command
    under the same key conflicts;
  \<^item> \<open>fifo_lanes\<close>: a table of queued rows in lanes (outbound messages, web executions, inbound
    jobs), whose operations are sequences of the abstract steps of \<open>lane_step\<close>; no row is started
    while an earlier row of its lane is open.
\<close>

section \<open>Gap-free logs\<close>

definition gap_free :: "int \<Rightarrow> ('s \<Rightarrow> 'k \<Rightarrow> int option) \<Rightarrow> ('s \<Rightarrow> 'k \<Rightarrow> int list) \<Rightarrow> 's \<Rightarrow> bool" where
  "gap_free start nxt nums s \<longleftrightarrow>
     (\<forall>k n. nxt s k = Some n \<longrightarrow> start \<le> n \<and> nums s k = [start .. n - 1])"

locale sequenced_log =
  fixes start :: int
    and wf :: "'s \<Rightarrow> bool"
    and nxt :: "'s \<Rightarrow> 'k \<Rightarrow> int option"
    and nums :: "'s \<Rightarrow> 'k \<Rightarrow> int list"
    and append :: "'k \<Rightarrow> 's \<Rightarrow> 's \<Rightarrow> bool"
  assumes append_wf: "wf s \<Longrightarrow> append k s s' \<Longrightarrow> wf s'"
    and append_nxt: "wf s \<Longrightarrow> append k s s' \<Longrightarrow> \<exists>n. nxt s k = Some n \<and> nxt s' k = Some (n + 1)"
    and append_nums: "wf s \<Longrightarrow> append k s s' \<Longrightarrow> nxt s k = Some n \<Longrightarrow> nums s' k = nums s k @ [n]"
    and append_other: "wf s \<Longrightarrow> append k s s' \<Longrightarrow> j \<noteq> k \<Longrightarrow> nxt s' j = nxt s j \<and> nums s' j = nums s j"
begin

lemma append_gap_free:
  assumes "wf s" "append k s s'" "gap_free start nxt nums s"
  shows "gap_free start nxt nums s'"
  unfolding gap_free_def
proof (intro allI impI)
  fix j m assume m: "nxt s' j = Some m"
  show "start \<le> m \<and> nums s' j = [start .. m - 1]"
  proof (cases "j = k")
    case True
    from append_nxt [OF assms(1,2)] obtain n where n: "nxt s k = Some n" "nxt s' k = Some (n + 1)"
      by blast
    with m True have "m = n + 1" by simp
    moreover have "start \<le> n" "nums s k = [start .. n - 1]"
      using assms(3) n(1) by (auto simp: gap_free_def)
    moreover have "[start .. n] = [start .. n - 1] @ [n]"
      using \<open>start \<le> n\<close> by (simp add: upto_rec2)
    ultimately show ?thesis using append_nums [OF assms(1,2) n(1)] True by simp
  next
    case False
    with append_other [OF assms(1,2)] m assms(3) show ?thesis by (simp add: gap_free_def)
  qed
qed

text \<open>A run of successful appends, one key each.\<close>

inductive appends :: "'k list \<Rightarrow> 's \<Rightarrow> 's \<Rightarrow> bool" where
  appends_Nil: "appends [] s s"
| appends_Cons: "append k s t \<Longrightarrow> appends ks t u \<Longrightarrow> appends (k # ks) s u"

lemma appends_wf: "appends ks s s' \<Longrightarrow> wf s \<Longrightarrow> wf s'"
  by (induction rule: appends.induct) (auto intro: append_wf)

lemma appends_gap_free:
  "appends ks s s' \<Longrightarrow> wf s \<Longrightarrow> gap_free start nxt nums s \<Longrightarrow> gap_free start nxt nums s'"
  by (induction rule: appends.induct) (auto intro: append_wf append_gap_free)

lemma appends_counter:
  "appends ks s s' \<Longrightarrow> wf s \<Longrightarrow> nxt s k = Some n \<Longrightarrow>
     nxt s' k = Some (n + int (count_list ks k))"
proof (induction arbitrary: n rule: appends.induct)
  case (appends_Cons j s t ks u)
  have "wf t" using append_wf appends_Cons.prems(1) appends_Cons.hyps(1) by blast
  note IH = appends_Cons.IH [OF this]
  show ?case
  proof (cases "j = k")
    case True
    with appends_Cons.prems appends_Cons.hyps have "nxt t k = Some (n + 1)"
      using append_nxt by fastforce
    from IH [OF this] True show ?thesis by simp
  next
    case False
    with appends_Cons.prems appends_Cons.hyps have "nxt t k = Some n"
      using append_other by metis
    from IH [OF this] False show ?thesis by simp
  qed
qed simp

end

section \<open>Idempotent commands\<close>

locale idempotent_command =
  fixes run :: "'s \<Rightarrow> 'c \<Rightarrow> 'e + ('s \<times> 'r)"
    and valid :: "'s \<Rightarrow> 'c \<Rightarrow> bool"
    and receipt :: "'s \<Rightarrow> 'c \<Rightarrow> ('h \<times> 'r) option"
    and digest :: "'s \<Rightarrow> 'c \<Rightarrow> 'h"
    and conflict :: 'e
  assumes replay: "valid s c \<Longrightarrow> receipt s c = Some (digest s c, r) \<Longrightarrow> run s c = Inr (s, r)"
    and clash: "valid s c \<Longrightarrow> receipt s c = Some (h, r) \<Longrightarrow> h \<noteq> digest s c \<Longrightarrow> run s c = Inl conflict"
    and filed: "run s c = Inr (s', r) \<Longrightarrow>
      valid s c \<and> valid s' c \<and> digest s' c = digest s c \<and> receipt s' c = Some (digest s c, r)"
begin

text \<open>A retry of a command that succeeded returns the same result and leaves the state alone,
  any number of times.\<close>

lemma retry: "run s c = Inr (s', r) \<Longrightarrow> run s' c = Inr (s', r)"
  using filed [of s c s' r] replay [of s' c r] by simp

lemma retries: "run s c = Inr (s', r) \<Longrightarrow>
  ((\<lambda>x. bindE x (\<lambda>(t, _). run t c)) ^^ n) (Inr (s', r)) = Inr (s', r)"
  by (induction n) (auto simp: retry)

text \<open>Once a key is used, a command with another digest under the same key is refused.\<close>

lemma reuse_refused:
  assumes "run s c = Inr (s', r)" "valid s' d" "receipt s' d = receipt s' c" "digest s' d \<noteq> digest s' c"
  shows "run s' d = Inl conflict"
  using assms filed [OF assms(1)] clash [of s' d "digest s c" r] by auto

end

section \<open>First-in first-out lanes\<close>

text \<open>An abstract queue: rows with an identity, a lane and a position; a row is \<open>opened\<close> while it
  blocks its successors, \<open>active\<close> while a worker holds it. \<open>lane_step\<close> enqueues a row behind the
  active rows of its lane, starts a row that no open row of its lane precedes, or settles a row
  (which never opens or activates it).\<close>

definition lanes_ok :: "('r \<Rightarrow> 'l) \<Rightarrow> ('r \<Rightarrow> 'o::linorder) \<Rightarrow> ('r \<Rightarrow> bool) \<Rightarrow> ('r \<Rightarrow> bool) \<Rightarrow> 'r list \<Rightarrow> bool" where
  "lanes_ok lane pos active opened t \<longleftrightarrow>
     (\<forall>q\<in>set t. \<forall>r\<in>set t. lane q = lane r \<and> active r \<and> pos q < pos r \<longrightarrow> \<not> opened q)"

definition head_of_lane :: "('r \<Rightarrow> 'l) \<Rightarrow> ('r \<Rightarrow> 'o::linorder) \<Rightarrow> ('r \<Rightarrow> bool) \<Rightarrow> 'r list \<Rightarrow> 'r \<Rightarrow> bool" where
  "head_of_lane lane pos opened t r \<longleftrightarrow>
     list_all (\<lambda>q. \<not> (lane q = lane r \<and> pos q < pos r \<and> opened q)) t"

inductive lane_step ::
  "('r \<Rightarrow> 'i) \<Rightarrow> ('r \<Rightarrow> 'l) \<Rightarrow> ('r \<Rightarrow> 'o::linorder) \<Rightarrow> ('r \<Rightarrow> bool) \<Rightarrow> ('r \<Rightarrow> bool) \<Rightarrow>
     'r list \<Rightarrow> 'r list \<Rightarrow> bool"
  for key lane pos active opened where
  enqueue: "key n \<notin> key ` set t \<Longrightarrow> \<not> active n \<Longrightarrow>
      (\<And>r. r \<in> set t \<Longrightarrow> lane r = lane n \<Longrightarrow> active r \<Longrightarrow> pos r \<le> pos n) \<Longrightarrow>
      lane_step key lane pos active opened t (t @ [n])"
| start: "r \<in> set t \<Longrightarrow> opened r \<Longrightarrow> head_of_lane lane pos opened t r \<Longrightarrow>
      key r' = key r \<Longrightarrow> lane r' = lane r \<Longrightarrow> pos r' = pos r \<Longrightarrow>
      lane_step key lane pos active opened t (put_row key r' t)"
| settle: "r \<in> set t \<Longrightarrow> key r' = key r \<Longrightarrow> lane r' = lane r \<Longrightarrow> pos r' = pos r \<Longrightarrow>
      (opened r' \<Longrightarrow> opened r) \<Longrightarrow> (active r' \<Longrightarrow> active r) \<Longrightarrow>
      lane_step key lane pos active opened t (put_row key r' t)"

lemma lane_step_distinct:
  "lane_step key lane pos active opened t t' \<Longrightarrow> distinct (map key t) \<Longrightarrow> distinct (map key t')"
  by (induction rule: lane_step.induct) (auto simp: table_simps)

lemma same_key: "distinct (map key t) \<Longrightarrow> x \<in> set t \<Longrightarrow> y \<in> set t \<Longrightarrow> key x = key y \<Longrightarrow> x = y"
  by (metis distinct_map inj_onD)

lemma lane_step_ok:
  assumes "lane_step key lane pos active opened t t'" "distinct (map key t)"
    "lanes_ok lane pos active opened t"
  shows "lanes_ok lane pos active opened t'"
  using assms
proof (induction rule: lane_step.induct)
  case (enqueue n t)
  then show ?case by (fastforce simp: lanes_ok_def)
next
  case (start r t r')
  show ?case
    unfolding lanes_ok_def
  proof (intro ballI impI)
    fix q x assume q: "q \<in> set (put_row key r' t)" and x: "x \<in> set (put_row key r' t)"
      and rel: "lane q = lane x \<and> active x \<and> pos q < pos x"
    consider "x = r'" "q = r'" | "x = r'" "q \<in> set t" | "q = r'" "x \<in> set t" | "q \<in> set t" "x \<in> set t"
      using q x by (auto dest: set_put_rowD)
    then show "\<not> opened q"
    proof cases
      case 1
      with rel show ?thesis by simp
    next
      case 2
      with rel start.hyps show ?thesis by (auto simp: head_of_lane_def list_all_iff)
    next
      case 3
      with rel start have False by (auto simp: lanes_ok_def)
      then show ?thesis ..
    next
      case 4
      with rel start.prems show ?thesis by (auto simp: lanes_ok_def)
    qed
  qed
next
  case (settle r t r')
  have orig: "\<exists>y\<in>set t. lane y = lane x \<and> pos y = pos x \<and> (opened x \<longrightarrow> opened y) \<and> (active x \<longrightarrow> active y)"
    if "x \<in> set (put_row key r' t)" for x
    using that settle.hyps by (auto dest!: set_put_rowD)
  show ?case
    unfolding lanes_ok_def
  proof (intro ballI impI)
    fix q x assume "q \<in> set (put_row key r' t)" "x \<in> set (put_row key r' t)"
      and rel: "lane q = lane x \<and> active x \<and> pos q < pos x"
    then obtain q0 x0 where "q0 \<in> set t" "lane q0 = lane q" "pos q0 = pos q" "opened q \<longrightarrow> opened q0"
      "x0 \<in> set t" "lane x0 = lane x" "pos x0 = pos x" "active x \<longrightarrow> active x0"
      using orig by metis
    with rel settle.prems show "\<not> opened q" unfolding lanes_ok_def by metis
  qed
qed

lemma lane_steps_ok:
  assumes "(lane_step key lane pos active opened)\<^sup>*\<^sup>* t t'" "distinct (map key t)"
    "lanes_ok lane pos active opened t"
  shows "distinct (map key t') \<and> lanes_ok lane pos active opened t'"
  using assms
  by (induction rule: rtranclp_induct) (auto intro: lane_step_ok lane_step_distinct)

text \<open>Two active rows of a lane have the same position, so a lane whose positions are distinct has
  at most one active row.\<close>

lemma lanes_ok_exclusive:
  assumes "lanes_ok lane pos active opened t" "\<And>r. active r \<Longrightarrow> opened r"
    "q \<in> set t" "r \<in> set t" "active q" "active r" "lane q = lane r"
  shows "pos q = pos r"
  using assms unfolding lanes_ok_def by (metis linorder_neq_iff)

locale fifo_lanes =
  fixes rows :: "'s \<Rightarrow> 'r list"
    and key :: "'r \<Rightarrow> 'i"
    and lane :: "'r \<Rightarrow> 'l"
    and pos :: "'r \<Rightarrow> 'o::linorder"
    and active :: "'r \<Rightarrow> bool"
    and opened :: "'r \<Rightarrow> bool"
    and wf :: "'s \<Rightarrow> bool"
    and op :: "'s \<Rightarrow> 's \<Rightarrow> bool"
  assumes refines: "op s s' \<Longrightarrow> wf s \<Longrightarrow> (lane_step key lane pos active opened)\<^sup>*\<^sup>* (rows s) (rows s')"
    and op_wf: "op s s' \<Longrightarrow> wf s \<Longrightarrow> wf s'"
    and wf_distinct: "wf s \<Longrightarrow> distinct (map key (rows s))"
    and active_opened: "active r \<Longrightarrow> opened r"
begin

lemma op_ok: "op s s' \<Longrightarrow> wf s \<Longrightarrow> lanes_ok lane pos active opened (rows s) \<Longrightarrow>
    wf s' \<and> lanes_ok lane pos active opened (rows s')"
  using refines op_wf wf_distinct lane_steps_ok by blast

lemma ops_ok: "op\<^sup>*\<^sup>* s s' \<Longrightarrow> wf s \<Longrightarrow> lanes_ok lane pos active opened (rows s) \<Longrightarrow>
    wf s' \<and> lanes_ok lane pos active opened (rows s')"
  by (induction rule: rtranclp_induct) (auto dest: op_ok)

text \<open>Whatever sequence of operations runs, a row held by a worker has no open predecessor in its
  lane, and two rows of a lane held at once have the same position.\<close>

lemma ops_fifo:
  assumes "op\<^sup>*\<^sup>* s s'" "wf s" "lanes_ok lane pos active opened (rows s)"
    "q \<in> set (rows s')" "r \<in> set (rows s')" "lane q = lane r" "active r" "opened q"
  shows "pos r \<le> pos q"
  using ops_ok [OF assms(1-3)] assms(4-8) by (auto simp: lanes_ok_def not_less)

lemma ops_exclusive:
  assumes "op\<^sup>*\<^sup>* s s'" "wf s" "lanes_ok lane pos active opened (rows s)"
    "q \<in> set (rows s')" "r \<in> set (rows s')" "lane q = lane r" "active q" "active r"
  shows "pos q = pos r"
  using ops_ok [OF assms(1-3)] assms(4-8) active_opened
  by (intro lanes_ok_exclusive [of lane pos active opened "rows s'" q r]) auto

end

end
