(* ===== verification/OutboundPayload.thy ===== *)
theory OutboundPayload
  imports SchemaDelivery
begin

text \<open>
  Payload validation of \<open>services/outbound_delivery.py\<close>: one validator per message kind, run on the
  JSON round trip of what the caller passed. The lemmas show that an accepted payload satisfies the
  CHECK constraint of the table, is bounded, and names no file outside the storage root.
\<close>

datatype outbound_error =
    OutConversationNotFound
  | OutMessageNotFound
  | OutIdempotencyConflict
  | OutFence (fence_message: string) (fence_code: string)
  | OutClaimOwnership
  | OutInvalid string
  | OutIntegrity

definition max_outbound_bytes :: nat where "max_outbound_bytes = 65536"

text \<open>\<open>_mime_pattern\<close>: a type and a subtype of the allowed characters around one slash.\<close>

definition mime_word :: "string \<Rightarrow> bool" where
  "mime_word w \<longleftrightarrow> w \<noteq> [] \<and> is_alnum (hd w) \<and> list_all (\<lambda>c. is_alnum c \<or> c \<in> set ''!#$&^_.+-'') (tl w)"

definition mime_pattern :: "string \<Rightarrow> bool" where
  "mime_pattern t = (case split_on (CHR ''/'') t of [a, b] \<Rightarrow> mime_word a \<and> mime_word b | _ \<Rightarrow> False)"

definition require_exact_keys ::
  "(string \<times> json) list \<Rightarrow> string list \<Rightarrow> string list \<Rightarrow> outbound_error + unit" where
  "require_exact_keys p required optional =
     require (list_all (\<lambda>k. k \<in> set (map fst p)) required \<and>
              list_all (\<lambda>k. k \<in> set (required @ optional)) (map fst p))
       (OutInvalid ''invalid outbound payload fields'')"

text \<open>\<open>_require_text\<close>; the value is \<open>payload[key]\<close>, present after the key check.\<close>

definition require_text :: "json option \<Rightarrow> string \<Rightarrow> nat \<Rightarrow> bool \<Rightarrow> outbound_error + string" where
  "require_text v name max_length allow_empty =
     (case v of
        Some (JStr t) \<Rightarrow>
          if max_length < length t then Inl (OutInvalid (''invalid '' @ name))
          else if \<not> allow_empty \<and> strip t = [] then Inl (OutInvalid (''invalid '' @ name))
          else Inr t
      | _ \<Rightarrow> Inl (OutInvalid (''invalid '' @ name)))"

text \<open>The optional fields: \<open>if key in payload: self._require_text(..., allow_empty=True)\<close>.\<close>

definition optional_text ::
  "(string \<times> json) list \<Rightarrow> string \<Rightarrow> string \<Rightarrow> nat \<Rightarrow> outbound_error + unit" where
  "optional_text p key name max_length =
     (if field key p = None then Inr ()
      else bindE (require_text (field key p) name max_length True) (\<lambda>_. Inr ()))"

fun each :: "('a \<Rightarrow> 'e + unit) \<Rightarrow> 'a list \<Rightarrow> 'e + unit" where
  "each f [] = Inr ()"
| "each f (x # xs) = bindE (f x) (\<lambda>_. each f xs)"

definition validate_text_payload :: "(string \<times> json) list \<Rightarrow> outbound_error + unit" where
  "validate_text_payload p =
     bindE (require_exact_keys p [''text''] []) (\<lambda>_.
     bindE (require_text (field ''text'' p) ''text'' 16384 False) (\<lambda>_. Inr ()))"

definition validate_file_payload :: "outbound_kind \<Rightarrow> (string \<times> json) list \<Rightarrow> outbound_error + unit" where
  "validate_file_payload kind p =
     bindE (require_exact_keys p [''storage_key'', ''name'', ''mime''] [''caption'']) (\<lambda>_.
     bindE (require_text (field ''storage_key'' p) ''storage_key'' 500 False) (\<lambda>storage_key.
     if starts_with ''/'' storage_key \<or> ''..'' \<in> set (split_on (CHR ''/'') storage_key)
     then Inl (OutInvalid ''invalid storage_key'')
     else
     bindE (require_text (field ''name'' p) ''name'' 500 False) (\<lambda>_.
     bindE (require_text (field ''mime'' p) ''mime'' 160 False) (\<lambda>mime.
     if \<not> mime_pattern mime then Inl (OutInvalid ''invalid mime'')
     else if kind = KImage \<and> \<not> starts_with ''image/'' (ascii_lower mime)
     then Inl (OutInvalid ''image payload requires an image mime'')
     else optional_text p ''caption'' ''caption'' 4096))))"

definition validate_template_payload :: "(string \<times> json) list \<Rightarrow> outbound_error + unit" where
  "validate_template_payload p =
     bindE (require_exact_keys p [''template_key'', ''language''] [''parameters'']) (\<lambda>_.
     bindE (require_text (field ''template_key'' p) ''template_key'' 160 False) (\<lambda>_.
     bindE (require_text (field ''language'' p) ''language'' 35 False) (\<lambda>_.
     case (case field ''parameters'' p of None \<Rightarrow> JArr [] | Some v \<Rightarrow> v) of
       JArr parameters \<Rightarrow>
         if 100 < length parameters then Inl (OutInvalid ''invalid template parameters'')
         else each (\<lambda>parameter.
           bindE (require_text (Some parameter) ''template parameter'' 4096 True) (\<lambda>_. Inr ())) parameters
     | _ \<Rightarrow> Inl (OutInvalid ''invalid template parameters''))))"

definition validate_action :: "json \<Rightarrow> outbound_error + unit" where
  "validate_action action =
     (case action of
        JObj a \<Rightarrow>
          bindE (require_exact_keys a [''id'', ''label''] [''description'']) (\<lambda>_.
          bindE (require_text (field ''id'' a) ''action id'' 160 False) (\<lambda>_.
          bindE (require_text (field ''label'' a) ''action label'' 160 False) (\<lambda>_.
          optional_text a ''description'' ''action description'' 500)))
      | _ \<Rightarrow> Inl (OutInvalid ''invalid interactive action''))"

definition validate_interactive_payload :: "(string \<times> json) list \<Rightarrow> outbound_error + unit" where
  "validate_interactive_payload p =
     bindE (require_exact_keys p [''body'', ''actions''] [''header'', ''footer'']) (\<lambda>_.
     bindE (require_text (field ''body'' p) ''body'' 4096 False) (\<lambda>_.
     bindE (optional_text p ''header'' ''header'' 1024) (\<lambda>_.
     bindE (optional_text p ''footer'' ''footer'' 1024) (\<lambda>_.
     case field ''actions'' p of
       Some (JArr actions) \<Rightarrow>
         if actions = [] \<or> 20 < length actions then Inl (OutInvalid ''invalid interactive actions'')
         else each validate_action actions
     | _ \<Rightarrow> Inl (OutInvalid ''invalid interactive actions'')))))"

fun validate_payload :: "outbound_kind \<Rightarrow> (string \<times> json) list \<Rightarrow> outbound_error + unit" where
  "validate_payload KText p = validate_text_payload p"
| "validate_payload KImage p = validate_file_payload KImage p"
| "validate_payload KDocument p = validate_file_payload KDocument p"
| "validate_payload KTemplate p = validate_template_payload p"
| "validate_payload KInteractive p = validate_interactive_payload p"

text \<open>\<open>_normalize_payload\<close>. The kind is typed, so its \<open>invalid outbound kind\<close> branch is not
  reached.\<close>

definition normalize_outbound :: "outbound_kind \<Rightarrow> pyval \<Rightarrow> outbound_error + (string \<times> json) list" where
  "normalize_outbound kind payload =
     (case payload of
        PDict kvs \<Rightarrow>
          (case to_json payload of
             Some (JObj normalized) \<Rightarrow>
               if max_outbound_bytes < utf8_length (dumps False (JObj normalized))
               then Inl (OutInvalid ''outbound payload is too large'')
               else bindE (validate_payload kind normalized) (\<lambda>_. Inr normalized)
           | _ \<Rightarrow> Inl (OutInvalid ''outbound payload must be valid JSON''))
      | _ \<Rightarrow> Inl (OutInvalid ''outbound payload must be an object''))"

lemma require_text_Inr: "require_text v name n ae = Inr t \<Longrightarrow>
    v = Some (JStr t) \<and> length t \<le> n \<and> (ae \<or> strip t \<noteq> [])"
  by (auto simp: require_text_def split: option.splits json.splits if_splits)

lemma normalize_outboundD:
  assumes "normalize_outbound kind payload = Inr p"
  shows "to_json payload = Some (JObj p) \<and> utf8_length (dumps False (JObj p)) \<le> 65536 \<and>
    validate_payload kind p = Inr ()"
  using assms
  by (auto simp: normalize_outbound_def max_outbound_bytes_def bindE_eq_Inr
      split: pyval.splits option.splits json.splits if_splits)

lemma slash_head: "k \<noteq> [] \<Longrightarrow> \<not> starts_with ''/'' k \<Longrightarrow> hd k \<noteq> CHR ''/''"
  by (cases k) (auto simp: starts_with_def)

lemma strip_nonempty: "strip k \<noteq> [] \<Longrightarrow> k \<noteq> []"
  by (auto simp: strip_def)

lemma file_payload_fields:
  assumes "validate_file_payload kind p = Inr ()"
  shows "\<exists>k n m. field ''storage_key'' p = Some (JStr k) \<and> field ''name'' p = Some (JStr n) \<and>
    field ''mime'' p = Some (JStr m) \<and> strip k \<noteq> [] \<and> hd k \<noteq> CHR ''/'' \<and>
    ''..'' \<notin> set (split_on (CHR ''/'') k)"
proof -
  from assms obtain k n m where
    "require_text (field ''storage_key'' p) ''storage_key'' 500 False = Inr k"
    "\<not> starts_with ''/'' k" "''..'' \<notin> set (split_on (CHR ''/'') k)"
    "require_text (field ''name'' p) ''name'' 500 False = Inr n"
    "require_text (field ''mime'' p) ''mime'' 160 False = Inr m"
    unfolding validate_file_payload_def bindE_eq_Inr by (force split: if_splits simp: bindE_eq_Inr)
  then show ?thesis
    by (auto dest!: require_text_Inr dest: strip_nonempty slash_head)
qed

lemma text_payload_fields: "validate_text_payload p = Inr () \<Longrightarrow> is_jstr (field ''text'' p)"
  by (auto simp: validate_text_payload_def bindE_eq_Inr is_jstr_def dest!: require_text_Inr)

lemma template_payload_fields: "validate_template_payload p = Inr () \<Longrightarrow>
    is_jstr (field ''template_key'' p) \<and> is_jstr (field ''language'' p)"
  unfolding validate_template_payload_def bindE_eq_Inr
  by (elim exE conjE) (auto simp: is_jstr_def dest!: require_text_Inr)

lemma interactive_payload_fields:
  assumes "validate_interactive_payload p = Inr ()"
  shows "is_jstr (field ''body'' p) \<and> is_jarr (field ''actions'' p)"
proof -
  from assms obtain b where b: "require_text (field ''body'' p) ''body'' 4096 False = Inr b"
    unfolding validate_interactive_payload_def bindE_eq_Inr by blast
  moreover from assms have "is_jarr (field ''actions'' p)"
    unfolding validate_interactive_payload_def bindE_eq_Inr
    by (elim exE conjE) (auto simp: is_jarr_def split: option.splits json.splits)
  ultimately show ?thesis by (auto simp: is_jstr_def dest!: require_text_Inr)
qed

text \<open>A payload the service accepts has the shape the table's CHECK constraint asks of its
  kind, at most 65536 bytes of canonical text, and, for files, a relative storage key without a
  parent segment.\<close>

theorem accepted_payload_safe:
  assumes "normalize_outbound kind payload = Inr p"
  shows "payload_shape kind p \<and> utf8_length (dumps False (JObj p)) \<le> 65536 \<and>
    (kind \<in> {KImage, KDocument} \<longrightarrow>
      (\<exists>k. field ''storage_key'' p = Some (JStr k) \<and> strip k \<noteq> [] \<and> hd k \<noteq> CHR ''/'' \<and>
        ''..'' \<notin> set (split_on (CHR ''/'') k)))"
proof -
  have v: "validate_payload kind p = Inr ()" and size: "utf8_length (dumps False (JObj p)) \<le> 65536"
    using normalize_outboundD [OF assms] by blast+
  have files: "(kind = KImage \<or> kind = KDocument) \<longrightarrow>
      (\<exists>k n m. field ''storage_key'' p = Some (JStr k) \<and> field ''name'' p = Some (JStr n) \<and>
        field ''mime'' p = Some (JStr m) \<and> strip k \<noteq> [] \<and> hd k \<noteq> CHR ''/'' \<and>
        ''..'' \<notin> set (split_on (CHR ''/'') k))"
    using v file_payload_fields [of kind p] by (cases kind) auto
  moreover have "payload_shape kind p"
    using v files text_payload_fields [of p] template_payload_fields [of p] interactive_payload_fields [of p]
    by (cases kind) (auto simp: payload_shape_def is_jstr_def)
  ultimately show ?thesis using size by blast
qed

theorem accepted_payload_safe_witness:
  "payload_shape KDocument [(''mime'', JStr ''application/pdf''), (''name'', JStr ''q.pdf''), (''storage_key'', JStr ''a/q'')]"
proof -
  let ?p = "PDict [(KStr ''storage_key'', PStr ''a/q''), (KStr ''name'', PStr ''q.pdf''), (KStr ''mime'', PStr ''application/pdf'')]"
  have "normalize_outbound KDocument ?p =
      Inr [(''mime'', JStr ''application/pdf''), (''name'', JStr ''q.pdf''), (''storage_key'', JStr ''a/q'')]"
    by (simp add: normalize_outbound_def sorted_items_def str_keys_def max_outbound_bytes_def utf8_length_def
        quote_def escape_char_def short_escape_def validate_file_payload_def require_exact_keys_def
        field_def require_text_def strip_def is_space_def starts_with_def mime_pattern_def mime_word_def
        is_alnum_def is_lower_def is_upper_def is_digit_def optional_text_def)
  from accepted_payload_safe [OF this] show ?thesis by simp
qed

end
