(* ===== verification/OutboundDelivery.thy ===== *)
theory OutboundDelivery
  imports Store Contracts OutboundPayload
begin

text \<open>
  \<open>services/outbound_delivery.py\<close>: the durable outbound queue. A command is enqueued once per
  (conversation, idempotency key) behind the fence of the conversation's control and automation
  epochs; workers claim the head of a conversation, revalidate the fence just before provider I/O
  and record the outcome; a dispatch whose worker vanished becomes \<open>delivery_unknown\<close> and is never
  retried by the queue. The flush of a row checks the constraints of its table; a violation is the
  \<open>IntegrityError\<close> value \<open>OutIntegrity\<close>.
\<close>

section \<open>Fences\<close>

definition control_changed :: string where "control_changed = ''conversation_control_changed''"

definition automation_changed :: string where "automation_changed = ''conversation_automation_changed''"

definition route_unavailable :: string where "route_unavailable = ''route_configuration_unavailable''"

text \<open>\<open>_assert_sender_fence\<close>.\<close>

definition assert_sender_fence ::
  "conversation \<Rightarrow> sender_type \<Rightarrow> uuid option \<Rightarrow> int \<Rightarrow> uuid option \<Rightarrow> int option \<Rightarrow> outbound_error + unit" where
  "assert_sender_fence c sender admin version agent agent_version =
     (if cv_status c \<noteq> ''active'' \<or> cv_control_mode c = Closed \<or> cv_control_version c \<noteq> version
      then Inl (OutFence ''conversation control epoch changed'' control_changed)
      else if sender = ByOperator then
        (if cv_control_mode c \<noteq> Human \<or> admin = None \<or> cv_assigned_admin_id c \<noteq> admin
         then Inl (OutFence ''operator does not own this conversation'' control_changed)
         else Inr ())
      else if admin \<noteq> None
      then Inl (OutFence ''non-operator sender cannot impersonate an administrator'' control_changed)
      else if cv_control_mode c \<noteq> Automated
      then Inl (OutFence ''automation is blocked for this conversation'' control_changed)
      else if sender \<in> {ByAutomation, BySystem} \<and>
              (agent = None \<or> agent_version = None \<or>
               Some (cv_automation_agent_id c) \<noteq> agent \<or> Some (cv_automation_version c) \<noteq> agent_version)
      then Inl (OutFence ''conversation automation epoch changed'' automation_changed)
      else Inr ())"

text \<open>\<open>_assert_route_snapshot\<close>.\<close>

definition assert_route_snapshot :: "conversation \<Rightarrow> outbound \<Rightarrow> outbound_error + unit" where
  "assert_route_snapshot c m =
     require (cv_channel_route_id c = Some (om_channel_route_id m) \<and> om_channel m \<noteq> None \<and>
              om_adapter_key m \<noteq> None \<and> om_connection_id m \<noteq> None \<and>
              om_route_version m \<noteq> None \<and> om_connection_version m \<noteq> None)
       (OutFence ''conversation route changed'' control_changed)"

text \<open>Both fences of a claimed or claimable message, as \<open>claim_next\<close> and
  \<open>revalidate_claim_for_dispatch\<close> assert them.\<close>

definition assert_message_fence :: "conversation \<Rightarrow> outbound \<Rightarrow> outbound_error + unit" where
  "assert_message_fence c m =
     bindE (assert_route_snapshot c m) (\<lambda>_.
       assert_sender_fence c (om_sender_type m) (om_sender_admin_id m) (om_control_version m)
         (om_automation_agent_id m) (om_automation_version m))"

text \<open>\<open>_resolve_route_snapshot\<close>.\<close>

definition resolve_route_snapshot ::
  "store \<Rightarrow> conversation \<Rightarrow> outbound_error + (channel_route \<times> channel_connection)" where
  "resolve_route_snapshot s c =
     (case find (\<lambda>r. Some (rt_id r) = cv_channel_route_id c \<and> rt_agent_id r = cv_agent_id c \<and>
                     rt_channel r = cv_channel c \<and> rt_is_active r) (routes s) of
        None \<Rightarrow> Inl (OutFence ''outbound route is unavailable'' route_unavailable)
      | Some r \<Rightarrow>
          (case find (\<lambda>n. cn_id n = rt_connection_id r \<and> cn_channel n = rt_channel r \<and> cn_is_active n)
                  (connections s) of
             None \<Rightarrow> Inl (OutFence ''outbound connection is unavailable'' route_unavailable)
           | Some n \<Rightarrow> Inr (r, n)))"

section \<open>Commands\<close>

record outbound_command =
  oc_conversation_id :: uuid
  oc_agent_id :: uuid
  oc_chat_message_id :: "uuid option"
  oc_kind :: outbound_kind
  oc_payload :: pyval
  oc_sender_type :: sender_type
  oc_control_version :: int
  oc_automation_agent_id :: "uuid option"
  oc_automation_version :: "int option"
  oc_idempotency_key :: string
  oc_correlation_id :: string
  oc_sender_admin_id :: "uuid option"

text \<open>The literal \<open>_command_hash\<close> serialises.\<close>

definition outbound_literal ::
  "conversation \<Rightarrow> string \<Rightarrow> (string \<times> json) list \<Rightarrow> outbound_command \<Rightarrow> (string \<times> json) list" where
  "outbound_literal c destination payload cmd =
     [(''agent_id'', uuid_json (cv_agent_id c)),
      (''channel_route_id'', JStr (case cv_channel_route_id c of None \<Rightarrow> ''None'' | Some r \<Rightarrow> uuid_str r)),
      (''chat_message_id'', opt_json uuid_json (oc_chat_message_id cmd)),
      (''control_version'', JInt (oc_control_version cmd)),
      (''automation_agent_id'', opt_json uuid_json (oc_automation_agent_id cmd)),
      (''automation_version'', opt_json JInt (oc_automation_version cmd)),
      (''conversation_id'', uuid_json (cv_id c)),
      (''destination'', JStr destination),
      (''kind'', JStr (kind_value (oc_kind cmd))),
      (''payload'', JObj payload),
      (''sender_admin_id'', opt_json uuid_json (oc_sender_admin_id cmd)),
      (''sender_type'', JStr (sender_value (oc_sender_type cmd)))]"

definition outbound_hash ::
  "env \<Rightarrow> conversation \<Rightarrow> string \<Rightarrow> (string \<times> json) list \<Rightarrow> outbound_command \<Rightarrow> string" where
  "outbound_hash E c destination payload cmd =
     command_digest E False (outbound_literal c destination payload cmd)"

section \<open>Writing rows\<close>

text \<open>The UNIQUE constraints of \<open>outbound_messages\<close>: (conversation, sequence), (conversation,
  idempotency key), and (route, provider message) when the provider message is known.\<close>

definition outbound_clash :: "outbound \<Rightarrow> outbound \<Rightarrow> bool" where
  "outbound_clash m x \<longleftrightarrow>
     (om_conversation_id x = om_conversation_id m \<and>
        (om_sequence x = om_sequence m \<or> om_idempotency_key x = om_idempotency_key m)) \<or>
     (om_channel_route_id x = om_channel_route_id m \<and> om_provider_message_id m \<noteq> None \<and>
        om_provider_message_id x = om_provider_message_id m)"

definition insert_outbound :: "outbound \<Rightarrow> store \<Rightarrow> outbound_error + store" where
  "insert_outbound m s =
     (if list_ex (\<lambda>x. om_id x = om_id m \<or> outbound_clash m x) (outbounds s) \<or> \<not> outbound_checks m
      then Inl OutIntegrity else Inr (s\<lparr>outbounds := outbounds s @ [m]\<rparr>))"

definition update_outbound :: "outbound \<Rightarrow> store \<Rightarrow> outbound_error + store" where
  "update_outbound m s =
     (if list_ex (\<lambda>x. om_id x \<noteq> om_id m \<and> outbound_clash m x) (outbounds s) \<or> \<not> outbound_checks m
      then Inl OutIntegrity else Inr (s\<lparr>outbounds := put_row om_id m (outbounds s)\<rparr>))"

text \<open>\<open>_add_event\<close>.\<close>

definition add_delivery_event ::
  "env \<Rightarrow> outbound \<Rightarrow> uuid option \<Rightarrow> delivery_event_type \<Rightarrow> outbound_status option \<Rightarrow> outbound_status \<Rightarrow>
     delivery_actor \<Rightarrow> string option \<Rightarrow> string option \<Rightarrow> store \<Rightarrow> store" where
  "add_delivery_event E m attempt event_type from_status to_status actor_type actor_id safe_code s =
     (let (eid, s1) = fresh E s in
      s1\<lparr>delivery_events := delivery_events s1 @
        [\<lparr>de_id = eid, de_outbound_message_id = om_id m, de_attempt_id = attempt,
          de_event_type = event_type, de_from_status = from_status, de_to_status = to_status,
          de_actor_type = actor_type, de_actor_id = actor_id, de_safe_code = safe_code,
          de_created_at = tx_now E\<rparr>]\<rparr>)"

definition insert_attempt :: "env \<Rightarrow> outbound \<Rightarrow> string \<Rightarrow> store \<Rightarrow> outbound_error + (store \<times> attempt)" where
  "insert_attempt E m worker s =
     (let (aid, s1) = fresh E s;
          a = \<lparr>at_id = aid, at_outbound_message_id = om_id m, at_attempt_number = om_last_attempt_number m,
               at_worker_id = worker, at_control_version = om_control_version m, at_created_at = tx_now E\<rparr>
      in if list_ex (\<lambda>x. at_id x = at_id a \<or>
              (at_outbound_message_id x = at_outbound_message_id a \<and> at_attempt_number x = at_attempt_number a))
            (attempts s1) \<or> \<not> attempt_checks a
         then Inl OutIntegrity
         else Inr (s1\<lparr>attempts := attempts s1 @ [a]\<rparr>, a))"

definition sender_actor :: "sender_type \<Rightarrow> delivery_actor" where
  "sender_actor t = (case t of ByAutomation \<Rightarrow> AutomationActor | ByOperator \<Rightarrow> OperatorActor | BySystem \<Rightarrow> SystemActor)"

section \<open>Enqueue\<close>

definition get_scoped :: "store \<Rightarrow> uuid \<Rightarrow> uuid \<Rightarrow> outbound_error + conversation" where
  "get_scoped s cid aid =
     (case scoped_conversation s cid aid of None \<Rightarrow> Inl OutConversationNotFound | Some c \<Rightarrow> Inr c)"

definition outbound_receipt :: "store \<Rightarrow> uuid \<Rightarrow> string \<Rightarrow> outbound option" where
  "outbound_receipt s cid key =
     find (\<lambda>m. om_conversation_id m = cid \<and> om_idempotency_key m = key) (outbounds s)"

definition queued_message ::
  "env \<Rightarrow> uuid \<Rightarrow> conversation \<Rightarrow> channel_route \<Rightarrow> channel_connection \<Rightarrow> uuid \<Rightarrow> (string \<times> json) list \<Rightarrow>
     string \<Rightarrow> string \<Rightarrow> outbound_command \<Rightarrow> outbound" where
  "queued_message E mid c route connection channel_route_id payload destination command_hash cmd =
     \<lparr>om_id = mid, om_created_at = tx_now E, om_conversation_id = cv_id c, om_agent_id = oc_agent_id cmd,
      om_channel_route_id = channel_route_id, om_channel = Some (rt_channel route),
      om_adapter_key = Some (cn_adapter_key connection), om_connection_id = Some (cn_id connection),
      om_route_version = Some (rt_version route), om_connection_version = Some (cn_version connection),
      om_chat_message_id = oc_chat_message_id cmd, om_kind = oc_kind cmd, om_payload = payload,
      om_destination = destination, om_sender_type = oc_sender_type cmd,
      om_sender_admin_id = oc_sender_admin_id cmd, om_control_version = oc_control_version cmd,
      om_automation_agent_id = oc_automation_agent_id cmd,
      om_automation_version = oc_automation_version cmd, om_sequence = cv_next_outbound_sequence c,
      om_idempotency_key = strip (oc_idempotency_key cmd), om_payload_hash = command_hash,
      om_correlation_id = strip (oc_correlation_id cmd), om_status = OutQueued,
      om_provider_message_id = None, om_last_attempt_number = 0, om_resolution_version = 0,
      om_locked_by = None, om_locked_at = None, om_accepted_at = None, om_delivered_at = None\<rparr>"

text \<open>The checks of \<open>enqueue\<close> before the receipt is looked up: the identifiers, the normalised
  payload, the locked conversation, its route and destination, and the chat message.\<close>

definition outbound_target :: "conversation \<Rightarrow> outbound_error + (uuid \<times> string)" where
  "outbound_target c =
     (case cv_channel_route_id c of
        None \<Rightarrow> Inl (OutFence ''outbound delivery requires an explicit channel route'' control_changed)
      | Some route_id \<Rightarrow>
          let destination = strip (cv_external_thread_id c) in
          if destination = [] \<or> 255 < length destination then Inl (OutInvalid ''invalid outbound destination'')
          else Inr (route_id, destination))"

definition check_chat_message :: "store \<Rightarrow> conversation \<Rightarrow> uuid option \<Rightarrow> outbound_error + unit" where
  "check_chat_message s c message =
     (case message of
        None \<Rightarrow> Inr ()
      | Some message_id \<Rightarrow>
          (case get_message s message_id of
             None \<Rightarrow> Inl OutMessageNotFound
           | Some x \<Rightarrow> if cm_conversation_id x \<noteq> cv_id c then Inl OutMessageNotFound else Inr ()))"

definition prepare_enqueue ::
  "store \<Rightarrow> outbound_command \<Rightarrow> outbound_error + ((string \<times> json) list \<times> conversation \<times> uuid \<times> string)" where
  "prepare_enqueue s cmd = (
     let key = strip (oc_idempotency_key cmd); correlation = strip (oc_correlation_id cmd) in
     if key = [] \<or> 255 < length key then Inl (OutInvalid ''invalid idempotency key'')
     else if correlation = [] \<or> 120 < length correlation then Inl (OutInvalid ''invalid correlation id'')
     else
     bindE (normalize_outbound (oc_kind cmd) (oc_payload cmd)) (\<lambda>payload.
     bindE (get_scoped s (oc_conversation_id cmd) (oc_agent_id cmd)) (\<lambda>c.
     bindE (outbound_target c) (\<lambda>(route_id, destination).
     bindE (check_chat_message s c (oc_chat_message_id cmd)) (\<lambda>_.
       Inr (payload, c, route_id, destination))))))"

text \<open>\<open>enqueue\<close>: the result is the message and whether it is a duplicate.\<close>

definition enqueue_outbound :: "env \<Rightarrow> store \<Rightarrow> outbound_command \<Rightarrow> outbound_error + (store \<times> outbound \<times> bool)" where
  "enqueue_outbound E s cmd =
     bindE (prepare_enqueue s cmd) (\<lambda>(payload, c, route_id, destination).
     let command_hash = outbound_hash E c destination payload cmd in
     case outbound_receipt s (cv_id c) (strip (oc_idempotency_key cmd)) of
       Some existing \<Rightarrow>
         if om_payload_hash existing \<noteq> command_hash then Inl OutIdempotencyConflict
         else Inr (s, existing, True)
     | None \<Rightarrow>
         bindE (assert_sender_fence c (oc_sender_type cmd) (oc_sender_admin_id cmd) (oc_control_version cmd)
                  (oc_automation_agent_id cmd) (oc_automation_version cmd)) (\<lambda>_.
         bindE (resolve_route_snapshot s c) (\<lambda>(route, connection).
         let (mid, s1) = fresh E s;
             message = queued_message E mid c route connection route_id payload destination command_hash cmd;
             s2 = put_conversation (c\<lparr>cv_next_outbound_sequence := cv_next_outbound_sequence c + 1\<rparr>) s1
         in bindE (insert_outbound message s2) (\<lambda>s3.
            Inr (add_delivery_event E message None DEnqueued None OutQueued (sender_actor (oc_sender_type cmd))
                   (map_option uuid_str (oc_sender_admin_id cmd)) None s3, message, False)))))"

section \<open>Claims\<close>

definition blocking :: "outbound \<Rightarrow> bool" where
  "blocking m \<longleftrightarrow> om_status m \<in> {OutQueued, OutDispatching, OutUnknown}"

text \<open>\<open>_eligible_head_statement\<close> with \<open>FOR UPDATE SKIP LOCKED\<close>; \<open>locked\<close> are the rows other
  transactions hold.\<close>

definition eligible_head :: "(uuid \<Rightarrow> bool) \<Rightarrow> store \<Rightarrow> outbound option" where
  "eligible_head locked s =
     first_by (\<lambda>m. (om_created_at m, om_id m))
       (filter (\<lambda>m. om_status m = OutQueued \<and>
            \<not> list_ex (\<lambda>e. om_conversation_id e = om_conversation_id m \<and> om_sequence e < om_sequence m \<and> blocking e)
                (outbounds s) \<and> \<not> locked (om_id m))
         (outbounds s))"

definition latest_attempt :: "store \<Rightarrow> outbound \<Rightarrow> attempt option" where
  "latest_attempt s m =
     (if om_last_attempt_number m \<le> 0 then None
      else find (\<lambda>a. at_outbound_message_id a = om_id m \<and> at_attempt_number a = om_last_attempt_number m)
             (attempts s))"

text \<open>\<open>_cancel_stale_message\<close> and its flush.\<close>

definition cancel_stale_message ::
  "env \<Rightarrow> outbound \<Rightarrow> uuid option \<Rightarrow> string \<Rightarrow> store \<Rightarrow> outbound_error + (store \<times> outbound)" where
  "cancel_stale_message E m attempt code s = (
     let m' = m\<lparr>om_status := OutCancelled, om_locked_by := None, om_locked_at := None\<rparr> in
     bindE (update_outbound m' s) (\<lambda>s1.
       Inr (add_delivery_event E m' attempt DCancelled (Some (om_status m)) OutCancelled SystemActor None
              (Some code) s1, m')))"

text \<open>The body of the loop of \<open>claim_next\<close> once the fence holds.\<close>

definition start_dispatch ::
  "env \<Rightarrow> string \<Rightarrow> instant \<Rightarrow> outbound \<Rightarrow> store \<Rightarrow> outbound_error + (store \<times> outbound \<times> attempt)" where
  "start_dispatch E worker claimed_at m s = (
     let m' = m\<lparr>om_status := OutDispatching, om_last_attempt_number := om_last_attempt_number m + 1,
                om_locked_by := Some worker, om_locked_at := Some claimed_at\<rparr> in
     bindE (update_outbound m' s) (\<lambda>s1.
     bindE (insert_attempt E m' worker s1) (\<lambda>(s2, a).
       Inr (add_delivery_event E m' (Some (at_id a)) DClaimed (Some (om_status m)) OutDispatching WorkerActor
              (Some worker) None s2, m', a))))"

text \<open>Every turn of the loop cancels a queued message, so there are fewer of them.\<close>

lemma eligible_headD:
  assumes "eligible_head locked s = Some m"
  shows "m \<in> set (outbounds s) \<and> om_status m = OutQueued \<and> \<not> locked (om_id m) \<and>
    (\<forall>e\<in>set (outbounds s). om_conversation_id e = om_conversation_id m \<and> om_sequence e < om_sequence m \<longrightarrow> \<not> blocking e)"
  using first_by_Some(1) [OF assms [unfolded eligible_head_def]] by (auto simp: list_ex_iff)

lemma cancel_stale_Inr:
  "cancel_stale_message E m a code s = Inr (s1, m1) \<longleftrightarrow>
     m1 = m\<lparr>om_status := OutCancelled, om_locked_by := None, om_locked_at := None\<rparr> \<and>
     \<not> list_ex (\<lambda>x. om_id x \<noteq> om_id m1 \<and> outbound_clash m1 x) (outbounds s) \<and> outbound_checks m1 \<and>
     s1 = add_delivery_event E m1 a DCancelled (Some (om_status m)) OutCancelled SystemActor None (Some code)
            (s\<lparr>outbounds := put_row om_id m1 (outbounds s)\<rparr>)"
  by (auto simp: cancel_stale_message_def update_outbound_def Let_def)

lemma add_delivery_event_frame [frame_simps]:
  "outbounds (add_delivery_event E m a t f u ac ai code s) = outbounds s"
  "conversations (add_delivery_event E m a t f u ac ai code s) = conversations s"
  "attempts (add_delivery_event E m a t f u ac ai code s) = attempts s"
  "chat_messages (add_delivery_event E m a t f u ac ai code s) = chat_messages s"
  "routes (add_delivery_event E m a t f u ac ai code s) = routes s"
  "connections (add_delivery_event E m a t f u ac ai code s) = connections s"
  "resolutions (add_delivery_event E m a t f u ac ai code s) = resolutions s"
  "conv_events (add_delivery_event E m a t f u ac ai code s) = conv_events s"
  by (simp_all add: add_delivery_event_def fresh_def)

lemma cancel_stale_less:
  assumes "eligible_head locked s = Some m" "cancel_stale_message E m a code s = Inr (s1, m1)"
  shows "length (filter (\<lambda>m. om_status m = OutQueued) (outbounds s1)) <
    length (filter (\<lambda>m. om_status m = OutQueued) (outbounds s))"
  using eligible_headD [OF assms(1)] assms(2)
  by (auto simp: cancel_stale_Inr frame_simps intro!: count_put_row_less)

function claim_loop ::
  "env \<Rightarrow> (uuid \<Rightarrow> bool) \<Rightarrow> string \<Rightarrow> instant \<Rightarrow> store \<Rightarrow> outbound_error + (store \<times> (outbound \<times> attempt) option)" where
  "claim_loop E locked worker claimed_at s =
     (case eligible_head locked s of
        None \<Rightarrow> Inr (s, None)
      | Some m \<Rightarrow>
          (case get_scoped s (om_conversation_id m) (om_agent_id m) of
             Inl e \<Rightarrow> Inl e
           | Inr c \<Rightarrow>
               (case assert_message_fence c m of
                  Inl (OutFence msg code) \<Rightarrow>
                    (case cancel_stale_message E m None code s of
                       Inl e \<Rightarrow> Inl e
                     | Inr (s1, _) \<Rightarrow> claim_loop E locked worker claimed_at s1)
                | Inl e \<Rightarrow> Inl e
                | Inr _ \<Rightarrow>
                    (case start_dispatch E worker claimed_at m s of
                       Inl e \<Rightarrow> Inl e
                     | Inr (s1, m', a) \<Rightarrow> Inr (s1, Some (m', a))))))"
  by pat_completeness auto

termination
  by (relation "measure (\<lambda>(_, _, _, _, s). length (filter (\<lambda>m. om_status m = OutQueued) (outbounds s)))")
    (auto dest: cancel_stale_less)

declare claim_loop.simps [simp del]

definition normalize_worker :: "string \<Rightarrow> string \<Rightarrow> outbound_error + string" where
  "normalize_worker what t =
     (let w = strip t in
      if w = [] \<or> 120 < length w then Inl (OutInvalid (''invalid '' @ what)) else Inr w)"

text \<open>\<open>recover_stale_dispatches\<close>: a dispatch locked before \<open>stale_before\<close> may have reached the
  provider, so its outcome is unknown.\<close>

definition stale_dispatches :: "(uuid \<Rightarrow> bool) \<Rightarrow> instant \<Rightarrow> store \<Rightarrow> outbound list" where
  "stale_dispatches locked stale_before s =
     sort_key (\<lambda>m. (om_created_at m, om_id m))
       (filter (\<lambda>m. om_status m = OutDispatching \<and>
            (case om_locked_at m of None \<Rightarrow> False | Some t \<Rightarrow> t < stale_before) \<and> \<not> locked (om_id m))
         (outbounds s))"

definition recover_one :: "env \<Rightarrow> string \<Rightarrow> outbound \<Rightarrow> store \<Rightarrow> outbound_error + store" where
  "recover_one E actor m s = (
     let attempt = latest_attempt s m;
         m' = m\<lparr>om_status := OutUnknown, om_locked_by := None, om_locked_at := None\<rparr> in
     bindE (update_outbound m' s) (\<lambda>s1.
       Inr (add_delivery_event E m' (map_option at_id attempt) DUnknown (Some (om_status m)) OutUnknown
              WorkerActor (Some actor) (Some ''stale_dispatch'') s1)))"

fun recover_each :: "env \<Rightarrow> string \<Rightarrow> outbound list \<Rightarrow> store \<Rightarrow> outbound_error + store" where
  "recover_each E actor [] s = Inr s"
| "recover_each E actor (m # ms) s = bindE (recover_one E actor m s) (recover_each E actor ms)"

definition recover_stale_dispatches ::
  "env \<Rightarrow> (uuid \<Rightarrow> bool) \<Rightarrow> instant \<Rightarrow> string \<Rightarrow> store \<Rightarrow> outbound_error + (store \<times> nat)" where
  "recover_stale_dispatches E locked stale_before actor_id s =
     bindE (normalize_worker ''recovery actor id'' actor_id) (\<lambda>actor.
     let ms = stale_dispatches locked stale_before s in
     bindE (recover_each E actor ms s) (\<lambda>s1. Inr (s1, length ms)))"

text \<open>\<open>claim_next\<close>.\<close>

definition claim_next_outbound ::
  "env \<Rightarrow> (uuid \<Rightarrow> bool) \<Rightarrow> string \<Rightarrow> instant \<Rightarrow> instant option \<Rightarrow> store \<Rightarrow>
     outbound_error + (store \<times> (outbound \<times> attempt) option)" where
  "claim_next_outbound E locked worker_id stale_before now s =
     bindE (normalize_worker ''worker id'' worker_id) (\<lambda>worker.
     let claimed_at = (case now of Some t \<Rightarrow> t | None \<Rightarrow> clock E) in
     bindE (recover_stale_dispatches E locked stale_before worker s) (\<lambda>(s1, _).
       claim_loop E locked worker claimed_at s1))"

section \<open>Completing a claim\<close>

definition lock_owned_dispatch ::
  "store \<Rightarrow> uuid \<Rightarrow> uuid \<Rightarrow> string \<Rightarrow> outbound_error + (outbound \<times> attempt)" where
  "lock_owned_dispatch s mid aid worker =
     (case (find (\<lambda>m. om_id m = mid) (outbounds s), find (\<lambda>a. at_id a = aid) (attempts s)) of
        (Some m, Some a) \<Rightarrow>
          if at_outbound_message_id a \<noteq> mid \<or> at_worker_id a \<noteq> worker \<or> om_locked_by m \<noteq> Some worker \<or>
             om_status m \<noteq> OutDispatching
          then Inl OutClaimOwnership else Inr (m, a)
      | _ \<Rightarrow> Inl OutClaimOwnership)"

text \<open>\<open>revalidate_claim_for_dispatch\<close>; the result is the message to send, or \<open>None\<close> when the
  claim was cancelled.\<close>

definition revalidate_claim ::
  "env \<Rightarrow> uuid \<Rightarrow> uuid \<Rightarrow> string \<Rightarrow> store \<Rightarrow> outbound_error + (store \<times> outbound option)" where
  "revalidate_claim E mid aid worker_id s =
     bindE (normalize_worker ''worker id'' worker_id) (\<lambda>worker.
     bindE (lock_owned_dispatch s mid aid worker) (\<lambda>(m, a).
     bindE (get_scoped s (om_conversation_id m) (om_agent_id m)) (\<lambda>c.
     case assert_message_fence c m of
       Inl (OutFence msg code) \<Rightarrow>
         bindE (cancel_stale_message E m (Some (at_id a)) code s) (\<lambda>(s1, _). Inr (s1, None))
     | Inl e \<Rightarrow> Inl e
     | Inr _ \<Rightarrow> Inr (s, Some m))))"

definition cancel_claim ::
  "env \<Rightarrow> uuid \<Rightarrow> uuid \<Rightarrow> string \<Rightarrow> string \<Rightarrow> store \<Rightarrow> outbound_error + (store \<times> outbound)" where
  "cancel_claim E mid aid worker_id safe_code s =
     bindE (normalize_worker ''worker id'' worker_id) (\<lambda>worker.
     if \<not> safe_code_pattern safe_code then Inl (OutInvalid ''invalid safe result code'')
     else
     bindE (lock_owned_dispatch s mid aid worker) (\<lambda>(m, a).
       cancel_stale_message E m (Some (at_id a)) safe_code s))"

datatype dispatch_outcome = OutcomeAccepted | OutcomeFailed | OutcomeUnknown

fun outcome_status :: "dispatch_outcome \<Rightarrow> outbound_status" where
  "outcome_status OutcomeAccepted = OutAccepted"
| "outcome_status OutcomeFailed = OutFailed"
| "outcome_status OutcomeUnknown = OutUnknown"

definition check_outcome ::
  "dispatch_outcome \<Rightarrow> string option \<Rightarrow> string option \<Rightarrow> outbound_error + unit" where
  "check_outcome outcome provider_id safe_code =
     (if (case safe_code of None \<Rightarrow> False | Some c \<Rightarrow> \<not> safe_code_pattern c)
      then Inl (OutInvalid ''invalid safe result code'')
      else if outcome = OutcomeAccepted then
        (case provider_id of
           None \<Rightarrow> Inl (OutInvalid ''accepted delivery requires a provider message id'')
         | Some p \<Rightarrow> if p = [] \<or> 255 < length p
                     then Inl (OutInvalid ''accepted delivery requires a provider message id'') else Inr ())
      else if provider_id \<noteq> None
      then Inl (OutInvalid ''provider message id is valid only for accepted delivery'')
      else if safe_code = None
      then Inl (OutInvalid ''failed or uncertain delivery requires a safe result code'')
      else Inr ())"

definition outcome_row :: "dispatch_outcome \<Rightarrow> string option \<Rightarrow> instant \<Rightarrow> outbound \<Rightarrow> outbound" where
  "outcome_row outcome provider_id event_time m = (
     let m1 = m\<lparr>om_status := outcome_status outcome, om_locked_by := None, om_locked_at := None\<rparr> in
     if outcome = OutcomeAccepted
     then m1\<lparr>om_provider_message_id := provider_id, om_accepted_at := Some event_time\<rparr> else m1)"

definition record_dispatch_outcome ::
  "env \<Rightarrow> uuid \<Rightarrow> uuid \<Rightarrow> string \<Rightarrow> dispatch_outcome \<Rightarrow> string option \<Rightarrow> string option \<Rightarrow> instant option \<Rightarrow>
     store \<Rightarrow> outbound_error + (store \<times> outbound)" where
  "record_dispatch_outcome E mid aid worker_id outcome provider_message_id safe_code occurred_at s =
     bindE (normalize_worker ''worker id'' worker_id) (\<lambda>worker.
     let provider_id = map_option strip provider_message_id in
     bindE (check_outcome outcome provider_id safe_code) (\<lambda>_.
     bindE (lock_owned_dispatch s mid aid worker) (\<lambda>(m, a).
     let event_time = (case occurred_at of Some t \<Rightarrow> t | None \<Rightarrow> clock E);
         m' = outcome_row outcome provider_id event_time m
     in bindE (update_outbound m' s) (\<lambda>s1.
          Inr (add_delivery_event E m' (Some (at_id a)) (status_event (outcome_status outcome))
                 (Some (om_status m)) (outcome_status outcome) WorkerActor (Some worker) safe_code s1, m')))))"

end
