(* ===== verification/OutboundQueue.thy ===== *)
theory OutboundQueue
  imports OutboundDelivery
begin

text \<open>
  What the outbound queue promises. An abstract state machine (\<open>outbound_step\<close>) says how a message
  may move; every operation of \<open>OutboundDelivery\<close> is a sequence of its steps, so the invariants
  proved of the steps (constraints, numbering, one attempt per message, a gapless audit trail,
  first-in first-out per conversation) hold after any interleaving of operations.
\<close>

section \<open>The queue as a state machine\<close>

text \<open>What the operations above may do to a status, and what only an operator's resolution may do.\<close>

fun worker_edge :: "outbound_status \<Rightarrow> outbound_status \<Rightarrow> bool" where
  "worker_edge OutQueued t \<longleftrightarrow> t \<in> {OutDispatching, OutCancelled}"
| "worker_edge OutDispatching t \<longleftrightarrow> t \<in> {OutAccepted, OutFailed, OutUnknown, OutCancelled}"
| "worker_edge _ t \<longleftrightarrow> False"

definition resolution_edge :: "outbound_status \<Rightarrow> outbound_status \<Rightarrow> bool" where
  "resolution_edge f t \<longleftrightarrow> f = OutUnknown \<and> t \<in> {OutDelivered, OutCancelled}"

text \<open>The columns of a message that never change after it is enqueued.\<close>

definition command_part :: "outbound \<Rightarrow> outbound" where
  "command_part m = m\<lparr>om_status := OutQueued, om_provider_message_id := None, om_last_attempt_number := 0,
     om_resolution_version := 0, om_locked_by := None, om_locked_at := None, om_accepted_at := None,
     om_delivered_at := None\<rparr>"

definition attempts_of :: "store \<Rightarrow> uuid \<Rightarrow> attempt list" where
  "attempts_of s mid = filter (\<lambda>a. at_outbound_message_id a = mid) (attempts s)"

definition events_of :: "store \<Rightarrow> uuid \<Rightarrow> delivery_event list" where
  "events_of s mid = filter (\<lambda>e. de_outbound_message_id e = mid) (delivery_events s)"

text \<open>The three things that happen to the queue. Every operation is a sequence of these steps.\<close>

inductive outbound_step :: "store \<Rightarrow> store \<Rightarrow> bool" where
  enqueued: "c \<in> set (conversations s) \<Longrightarrow> om_conversation_id m = cv_id c \<Longrightarrow> om_agent_id m = cv_agent_id c \<Longrightarrow>
     om_sequence m = cv_next_outbound_sequence c \<Longrightarrow> om_status m = OutQueued \<Longrightarrow> om_last_attempt_number m = 0 \<Longrightarrow>
     outbound_checks m \<Longrightarrow> (\<And>x. x \<in> set (outbounds s) \<Longrightarrow> om_id x \<noteq> om_id m \<and> \<not> outbound_clash m x) \<Longrightarrow>
     outbounds s' = outbounds s @ [m] \<Longrightarrow> attempts s' = attempts s \<Longrightarrow>
     conversations s' = put_row cv_id (c\<lparr>cv_next_outbound_sequence := cv_next_outbound_sequence c + 1\<rparr>) (conversations s) \<Longrightarrow>
     delivery_events s' = delivery_events s @ [e] \<Longrightarrow> de_outbound_message_id e = om_id m \<Longrightarrow>
     de_from_status e = None \<Longrightarrow> de_to_status e = OutQueued \<Longrightarrow> outbound_step s s'"
| claimed: "m \<in> set (outbounds s) \<Longrightarrow> command_part m' = command_part m \<Longrightarrow> om_status m = OutQueued \<Longrightarrow>
     om_status m' = OutDispatching \<Longrightarrow> om_last_attempt_number m' = om_last_attempt_number m + 1 \<Longrightarrow>
     head_of_lane om_conversation_id om_sequence blocking (outbounds s) m \<Longrightarrow>
     outbound_checks m' \<Longrightarrow> (\<And>x. x \<in> set (outbounds s) \<Longrightarrow> om_id x \<noteq> om_id m' \<Longrightarrow> \<not> outbound_clash m' x) \<Longrightarrow>
     outbounds s' = put_row om_id m' (outbounds s) \<Longrightarrow>
     attempts s' = attempts s @ [a] \<Longrightarrow> at_outbound_message_id a = om_id m \<Longrightarrow>
     at_attempt_number a = om_last_attempt_number m' \<Longrightarrow> at_id a \<notin> at_id ` set (attempts s) \<Longrightarrow>
     conversations s' = conversations s \<Longrightarrow>
     delivery_events s' = delivery_events s @ [e] \<Longrightarrow> de_outbound_message_id e = om_id m \<Longrightarrow>
     de_from_status e = Some (om_status m) \<Longrightarrow> de_to_status e = om_status m' \<Longrightarrow> outbound_step s s'"
| settled: "m \<in> set (outbounds s) \<Longrightarrow> command_part m' = command_part m \<Longrightarrow>
     worker_edge (om_status m) (om_status m') \<or> resolution_edge (om_status m) (om_status m') \<Longrightarrow>
     om_status m' \<noteq> OutDispatching \<Longrightarrow> om_last_attempt_number m' = om_last_attempt_number m \<Longrightarrow>
     outbound_checks m' \<Longrightarrow> (\<And>x. x \<in> set (outbounds s) \<Longrightarrow> om_id x \<noteq> om_id m' \<Longrightarrow> \<not> outbound_clash m' x) \<Longrightarrow>
     outbounds s' = put_row om_id m' (outbounds s) \<Longrightarrow> attempts s' = attempts s \<Longrightarrow>
     conversations s' = conversations s \<Longrightarrow>
     delivery_events s' = delivery_events s @ [e] \<Longrightarrow> de_outbound_message_id e = om_id m \<Longrightarrow>
     de_from_status e = Some (om_status m) \<Longrightarrow> de_to_status e = om_status m' \<Longrightarrow> outbound_step s s'"
| elsewhere: "outbounds s' = outbounds s \<Longrightarrow> attempts s' = attempts s \<Longrightarrow>
     delivery_events s' = delivery_events s \<Longrightarrow>
     map (\<lambda>c. (cv_id c, cv_agent_id c, cv_next_outbound_sequence c)) (conversations s') =
     map (\<lambda>c. (cv_id c, cv_agent_id c, cv_next_outbound_sequence c)) (conversations s) \<Longrightarrow> outbound_step s s'"

text \<open>The last rule is the work of the other services between two operations of the queue: they may
  change a conversation's control and automation epochs, never its identity or its counter.\<close>

fun chain :: "outbound_status option \<Rightarrow> delivery_event list \<Rightarrow> outbound_status option \<Rightarrow> bool" where
  "chain p [] q \<longleftrightarrow> p = q"
| "chain p (e # es) q \<longleftrightarrow> de_from_status e = p \<and> chain (Some (de_to_status e)) es q"

lemma chain_snoc: "chain p (es @ [e]) q \<longleftrightarrow> chain p es (de_from_status e) \<and> q = Some (de_to_status e)"
  by (induction es arbitrary: p) auto

text \<open>The invariant of the queue.\<close>

definition rows_ok :: "store \<Rightarrow> bool" where
  "rows_ok s \<longleftrightarrow> distinct (map om_id (outbounds s)) \<and> list_all outbound_checks (outbounds s) \<and>
     (\<forall>m\<in>set (outbounds s). \<forall>x\<in>set (outbounds s). om_id x \<noteq> om_id m \<longrightarrow> \<not> outbound_clash m x)"

definition numbering_ok :: "store \<Rightarrow> bool" where
  "numbering_ok s \<longleftrightarrow> conversations_ok s \<and>
     (\<forall>m\<in>set (outbounds s). \<exists>c\<in>set (conversations s).
        cv_id c = om_conversation_id m \<and> cv_agent_id c = om_agent_id m \<and>
        om_sequence m < cv_next_outbound_sequence c)"

definition single_attempt :: "store \<Rightarrow> outbound \<Rightarrow> bool" where
  "single_attempt s m \<longleftrightarrow>
     (om_last_attempt_number m = 0 \<or> om_last_attempt_number m = 1) \<and>
     map at_attempt_number (attempts_of s (om_id m)) = (if om_last_attempt_number m = 0 then [] else [1]) \<and>
     (om_status m = OutQueued \<longrightarrow> om_last_attempt_number m = 0)"

definition attempts_ok :: "store \<Rightarrow> bool" where
  "attempts_ok s \<longleftrightarrow> distinct (map at_id (attempts s)) \<and>
     (\<forall>a\<in>set (attempts s). at_outbound_message_id a \<in> om_id ` set (outbounds s)) \<and>
     (\<forall>m\<in>set (outbounds s). single_attempt s m)"

definition trail_ok :: "store \<Rightarrow> bool" where
  "trail_ok s \<longleftrightarrow>
     (\<forall>e\<in>set (delivery_events s). de_outbound_message_id e \<in> om_id ` set (outbounds s)) \<and>
     (\<forall>m\<in>set (outbounds s). chain None (events_of s (om_id m)) (Some (om_status m)))"

definition outbound_inv :: "store \<Rightarrow> bool" where
  "outbound_inv s \<longleftrightarrow> rows_ok s \<and> numbering_ok s \<and> attempts_ok s \<and> trail_ok s \<and>
     lanes_ok om_conversation_id om_sequence (\<lambda>m. om_status m = OutDispatching) blocking (outbounds s)"

section \<open>The steps preserve the invariant\<close>

lemma outbound_clash_sym: "outbound_clash m x \<longleftrightarrow> outbound_clash x m"
  by (auto simp: outbound_clash_def)

lemma command_part_keys:
  assumes "command_part m' = command_part m"
  shows "om_id m' = om_id m" "om_conversation_id m' = om_conversation_id m" "om_agent_id m' = om_agent_id m"
    "om_sequence m' = om_sequence m" "om_idempotency_key m' = om_idempotency_key m"
    "om_payload_hash m' = om_payload_hash m" "om_payload m' = om_payload m"
    "om_channel_route_id m' = om_channel_route_id m" "om_created_at m' = om_created_at m"
  using assms by (auto simp: command_part_def dest: arg_cong [of _ _ om_id] arg_cong [of _ _ om_conversation_id]
      arg_cong [of _ _ om_agent_id] arg_cong [of _ _ om_sequence] arg_cong [of _ _ om_idempotency_key]
      arg_cong [of _ _ om_payload_hash] arg_cong [of _ _ om_payload] arg_cong [of _ _ om_channel_route_id]
      arg_cong [of _ _ om_created_at])

lemma rows_put:
  assumes "distinct (map om_id t)" "m \<in> set t" "om_id m' = om_id m"
  shows "x \<in> set (put_row om_id m' t) \<longleftrightarrow> x = m' \<or> (x \<in> set t \<and> x \<noteq> m)"
  using assms by (auto simp: set_put_row dest: same_key [OF assms(1)])

lemma step_rows_ok: "outbound_step s s' \<Longrightarrow> rows_ok s \<Longrightarrow> rows_ok s'"
proof (induction rule: outbound_step.induct)
  case (enqueued c s m s' e)
  have "om_id m \<notin> om_id ` set (outbounds s)" using enqueued.hyps(8) by force
  moreover have "\<forall>x\<in>set (outbounds s). \<not> outbound_clash m x \<and> \<not> outbound_clash x m"
    using enqueued.hyps(8) by (simp add: outbound_clash_sym [of _ m])
  ultimately show ?case
    using enqueued.prems enqueued.hyps(7) by (auto simp: rows_ok_def enqueued.hyps(9))
next
  case (claimed m s m' s' a e)
  note k = command_part_keys [OF claimed.hyps(2)]
  have "distinct (map om_id (outbounds s))" using claimed.prems by (simp add: rows_ok_def)
  note rows = rows_put [OF this claimed.hyps(1) k(1)]
  show ?case
    using claimed.prems claimed.hyps(7,8) k(1) claimed.hyps(1)
    by (auto simp: rows_ok_def claimed.hyps(9) rows table_simps list_all_iff
        outbound_clash_sym [of _ m'])
next
  case (settled m s m' s' e)
  note k = command_part_keys [OF settled.hyps(2)]
  have "distinct (map om_id (outbounds s))" using settled.prems by (simp add: rows_ok_def)
  note rows = rows_put [OF this settled.hyps(1) k(1)]
  show ?case
    using settled.prems settled.hyps(6,7) k(1) settled.hyps(1)
    by (auto simp: rows_ok_def settled.hyps(8) rows table_simps list_all_iff
        outbound_clash_sym [of _ m'])
qed (simp add: rows_ok_def)

lemma step_numbering_ok:
  assumes "outbound_step s s'" "numbering_ok s" "rows_ok s"
  shows "numbering_ok s'"
  using assms
proof (induction rule: outbound_step.induct)
  case (enqueued c s m s' e)
  let ?c = "c\<lparr>cv_next_outbound_sequence := cv_next_outbound_sequence c + 1\<rparr>"
  have ids: "distinct (map cv_id (conversations s))"
    using enqueued.prems by (simp add: numbering_ok_def conversations_ok_def)
  have new: "?c \<in> set (conversations s')"
    using enqueued.hyps(1) by (auto simp: enqueued.hyps(11) set_put_row)
  have old: "\<exists>d\<in>set (conversations s'). cv_id d = cv_id d0 \<and> cv_agent_id d = cv_agent_id d0 \<and>
      cv_next_outbound_sequence d0 \<le> cv_next_outbound_sequence d" if "d0 \<in> set (conversations s)" for d0
  proof (cases "cv_id d0 = cv_id c")
    case True
    then have "d0 = c" using same_key [OF ids that enqueued.hyps(1)] by simp
    then show ?thesis using new by (intro bexI [of _ ?c]) auto
  next
    case False
    then show ?thesis using that by (auto simp: enqueued.hyps(11) set_put_row intro!: bexI [of _ d0])
  qed
  have "conversations_ok s'" using ids by (simp add: conversations_ok_def enqueued.hyps(11) table_simps)
  moreover have "\<exists>d\<in>set (conversations s'). cv_id d = om_conversation_id x \<and> cv_agent_id d = om_agent_id x \<and>
      om_sequence x < cv_next_outbound_sequence d" if x: "x \<in> set (outbounds s')" for x
  proof (cases "x = m")
    case True
    then show ?thesis using enqueued.hyps(2-4) new by (intro bexI [of _ ?c]) auto
  next
    case False
    with x have "x \<in> set (outbounds s)" by (auto simp: enqueued.hyps(9))
    with enqueued.prems(1) obtain d0 where "d0 \<in> set (conversations s)" "cv_id d0 = om_conversation_id x"
      "cv_agent_id d0 = om_agent_id x" "om_sequence x < cv_next_outbound_sequence d0"
      by (auto simp: numbering_ok_def)
    with old [of d0] show ?thesis by force
  qed
  ultimately show ?case by (simp add: numbering_ok_def)
next
  case (claimed m s m' s' a e)
  note k = command_part_keys [OF claimed.hyps(2)]
  have "distinct (map om_id (outbounds s))" using claimed.prems by (simp add: rows_ok_def)
  note rows = rows_put [OF this claimed.hyps(1) k(1)]
  show ?case
    using claimed.prems(1) claimed.hyps(1) k
    by (auto simp: numbering_ok_def claimed.hyps(9,14) rows conversations_ok_def)
next
  case (settled m s m' s' e)
  note k = command_part_keys [OF settled.hyps(2)]
  have "distinct (map om_id (outbounds s))" using settled.prems by (simp add: rows_ok_def)
  note rows = rows_put [OF this settled.hyps(1) k(1)]
  show ?case
    using settled.prems(1) settled.hyps(1) k
    by (auto simp: numbering_ok_def settled.hyps(8,10) rows conversations_ok_def)
next
  case (elsewhere s' s)
  have "map fst (map (\<lambda>c. (cv_id c, cv_agent_id c, cv_next_outbound_sequence c)) (conversations s')) =
      map fst (map (\<lambda>c. (cv_id c, cv_agent_id c, cv_next_outbound_sequence c)) (conversations s))"
    using elsewhere.hyps(4) by simp
  then have "map cv_id (conversations s') = map cv_id (conversations s)" by (simp add: comp_def)
  moreover have same: "(\<lambda>c. (cv_id c, cv_agent_id c, cv_next_outbound_sequence c)) ` set (conversations s') =
      (\<lambda>c. (cv_id c, cv_agent_id c, cv_next_outbound_sequence c)) ` set (conversations s)"
    using arg_cong [OF elsewhere.hyps(4), of set] by simp
  have "\<exists>d\<in>set (conversations s'). cv_id d = cv_id c \<and> cv_agent_id d = cv_agent_id c \<and>
      cv_next_outbound_sequence d = cv_next_outbound_sequence c" if "c \<in> set (conversations s)" for c
  proof -
    have "(cv_id c, cv_agent_id c, cv_next_outbound_sequence c) \<in>
        (\<lambda>c. (cv_id c, cv_agent_id c, cv_next_outbound_sequence c)) ` set (conversations s')"
      unfolding same using that by (rule imageI)
    then show ?thesis by auto
  qed
  ultimately show ?case
    using elsewhere.prems(1) unfolding numbering_ok_def conversations_ok_def elsewhere.hyps(1)
    by (metis (no_types, opaque_lifting))
qed

lemma edge_not_queued: "worker_edge f t \<or> resolution_edge f t \<Longrightarrow> t \<noteq> OutQueued"
  by (cases f) (auto simp: resolution_edge_def)

lemma step_attempts_ok:
  assumes "outbound_step s s'" "attempts_ok s" "rows_ok s"
  shows "attempts_ok s'"
  using assms
proof (induction rule: outbound_step.induct)
  case (enqueued c s m s' e)
  have fresh: "om_id m \<notin> om_id ` set (outbounds s)" using enqueued.hyps(8) by force
  have "at_outbound_message_id a \<noteq> om_id m" if "a \<in> set (attempts s)" for a
    using that enqueued.prems(1) fresh unfolding attempts_ok_def by metis
  then have "attempts_of s (om_id m) = []"
    by (simp add: attempts_of_def filter_empty_conv)
  then have "single_attempt s' m"
    using enqueued.hyps(5,6,10) by (simp add: single_attempt_def attempts_of_def)
  moreover have "single_attempt s' x = single_attempt s x" for x
    by (simp add: single_attempt_def attempts_of_def enqueued.hyps(10))
  ultimately show ?case
    using enqueued.prems(1) by (auto simp: attempts_ok_def enqueued.hyps(9,10))
next
  case (claimed m s m' s' a e)
  note k = command_part_keys [OF claimed.hyps(2)]
  have dist: "distinct (map om_id (outbounds s))" using claimed.prems by (simp add: rows_ok_def)
  note rows = rows_put [OF dist claimed.hyps(1) k(1)]
  have "single_attempt s m" using claimed.prems(1) claimed.hyps(1) by (simp add: attempts_ok_def)
  then have "om_last_attempt_number m = 0" "attempts_of s (om_id m) = []"
    using claimed.hyps(3) by (auto simp: single_attempt_def)
  then have "single_attempt s' m'"
    using claimed.hyps(4,5,10,11,12) k(1) by (auto simp: single_attempt_def attempts_of_def)
  moreover have "single_attempt s' x = single_attempt s x" if "om_id x \<noteq> om_id m" for x
    using that by (simp add: single_attempt_def attempts_of_def claimed.hyps(10,11))
  moreover have "om_id x \<noteq> om_id m" if "x \<in> set (outbounds s)" "x \<noteq> m" for x
    using same_key [OF dist that(1) claimed.hyps(1)] that(2) by auto
  moreover have "om_id ` set (outbounds s') = om_id ` set (outbounds s)"
    unfolding claimed.hyps(9) by (metis image_set map_key_put_row)
  ultimately show ?case
    using claimed.prems(1) claimed.hyps(1,11,13)
    by (auto simp: attempts_ok_def claimed.hyps(9,10) rows)
next
  case (settled m s m' s' e)
  note k = command_part_keys [OF settled.hyps(2)]
  have dist: "distinct (map om_id (outbounds s))" using settled.prems by (simp add: rows_ok_def)
  note rows = rows_put [OF dist settled.hyps(1) k(1)]
  have "single_attempt s m" using settled.prems(1) settled.hyps(1) by (simp add: attempts_ok_def)
  then have "single_attempt s' m'"
    using settled.hyps(5,9) k(1) edge_not_queued [OF settled.hyps(3)]
    by (auto simp: single_attempt_def attempts_of_def)
  moreover have "single_attempt s' x = single_attempt s x" for x
    by (simp add: single_attempt_def attempts_of_def settled.hyps(9))
  moreover have "om_id ` set (outbounds s') = om_id ` set (outbounds s)"
    unfolding settled.hyps(8) by (metis image_set map_key_put_row)
  ultimately show ?case
    using settled.prems(1) by (auto simp: attempts_ok_def settled.hyps(8,9) rows)
qed (simp add: attempts_ok_def single_attempt_def attempts_of_def)

lemma step_trail_ok:
  assumes "outbound_step s s'" "trail_ok s" "rows_ok s"
  shows "trail_ok s'"
proof -
  have moved: "trail_ok s'"
    if m: "m \<in> set (outbounds s)" "om_id m' = om_id m" "outbounds s' = put_row om_id m' (outbounds s)"
      and e: "delivery_events s' = delivery_events s @ [e]" "de_outbound_message_id e = om_id m"
        "de_from_status e = Some (om_status m)" "de_to_status e = om_status m'" for m m' e
  proof -
    have dist: "distinct (map om_id (outbounds s))" using assms(3) by (simp add: rows_ok_def)
    note rows = rows_put [OF dist m(1,2)]
    have "om_id ` set (outbounds s') = om_id ` set (outbounds s)"
      unfolding m(3) by (metis image_set map_key_put_row)
    moreover have other: "om_id x \<noteq> om_id m" if "x \<in> set (outbounds s)" "x \<noteq> m" for x
      using same_key [OF dist that(1) m(1)] that(2) by auto
    moreover have "chain None (events_of s' (om_id x)) (Some (om_status x))"
      if "x \<in> set (outbounds s')" for x
    proof (cases "x = m'")
      case True
      have "chain None (events_of s (om_id m)) (Some (om_status m))"
        using assms(2) m(1) by (simp add: trail_ok_def)
      with True m(2) e show ?thesis by (simp add: events_of_def chain_snoc)
    next
      case False
      with that have x: "x \<in> set (outbounds s)" "x \<noteq> m" unfolding m(3) rows by auto
      with other have "om_id x \<noteq> om_id m" by blast
      with x(1) assms(2) e show ?thesis by (simp add: trail_ok_def events_of_def)
    qed
    ultimately show ?thesis
      using assms(2) m(1) e unfolding trail_ok_def by auto
  qed
  from assms(1) show ?thesis
  proof cases
    case (enqueued c m e)
    have fresh: "om_id m \<notin> om_id ` set (outbounds s)" using enqueued(8) by force
    have "de_outbound_message_id e \<noteq> om_id m" if "e \<in> set (delivery_events s)" for e
      using that assms(2) fresh unfolding trail_ok_def by metis
    then have "events_of s (om_id m) = []"
      by (simp add: events_of_def filter_empty_conv)
    moreover have "om_id x \<noteq> om_id m" if "x \<in> set (outbounds s)" for x
      using that fresh by (metis imageI)
    ultimately show ?thesis
      using assms(2) enqueued(5,9,12-15) by (auto simp: trail_ok_def events_of_def)
  next
    case (claimed m m' a e)
    show ?thesis by (rule moved [OF claimed(1) command_part_keys(1) [OF claimed(2)] claimed(9,15-18)])
  next
    case (settled m m' e)
    show ?thesis by (rule moved [OF settled(1) command_part_keys(1) [OF settled(2)] settled(8,11-14)])
  next
    case elsewhere
    then show ?thesis using assms(2) by (simp add: trail_ok_def events_of_def)
  qed
qed

lemma step_lane:
  assumes "outbound_step s s'" "rows_ok s" "numbering_ok s"
  shows "(lane_step om_id om_conversation_id om_sequence (\<lambda>m. om_status m = OutDispatching) blocking)\<^sup>*\<^sup>*
    (outbounds s) (outbounds s')"
  using assms(1)
proof cases
  case (enqueued c m e)
  have before: "om_sequence x \<le> om_sequence m"
    if x: "x \<in> set (outbounds s)" "om_conversation_id x = om_conversation_id m" for x
  proof -
    from assms(3) x(1) obtain d where d: "d \<in> set (conversations s)" "cv_id d = om_conversation_id x"
      "om_sequence x < cv_next_outbound_sequence d" by (auto simp: numbering_ok_def)
    have "d = c"
      using assms(3) same_key [of cv_id "conversations s" d c] d(1,2) enqueued(1,2) x(2)
      by (simp add: numbering_ok_def conversations_ok_def)
    with d(3) enqueued(4) show ?thesis by simp
  qed
  have "lane_step om_id om_conversation_id om_sequence (\<lambda>m. om_status m = OutDispatching) blocking
      (outbounds s) (outbounds s @ [m])"
    by (rule lane_step.enqueue) (use enqueued(5,8) before in force)+
  with enqueued(9) show ?thesis by simp
next
  case (claimed m m' a e)
  note k = command_part_keys [OF claimed(2)]
  have "lane_step om_id om_conversation_id om_sequence (\<lambda>m. om_status m = OutDispatching) blocking
      (outbounds s) (put_row om_id m' (outbounds s))"
    by (rule lane_step.start [OF claimed(1)]) (use claimed(3,6) k in \<open>simp_all add: blocking_def\<close>)
  with claimed(9) show ?thesis by simp
next
  case (settled m m' e)
  note k = command_part_keys [OF settled(2)]
  have "blocking m' \<Longrightarrow> blocking m"
    using settled(3) by (cases "om_status m") (auto simp: blocking_def resolution_edge_def)
  then have "lane_step om_id om_conversation_id om_sequence (\<lambda>m. om_status m = OutDispatching) blocking
      (outbounds s) (put_row om_id m' (outbounds s))"
    by (intro lane_step.settle [OF settled(1)]) (use settled(4) k in simp_all)
  with settled(8) show ?thesis by simp
qed simp

lemma step_outbound_inv: "outbound_step s s' \<Longrightarrow> outbound_inv s \<Longrightarrow> outbound_inv s'"
  unfolding outbound_inv_def
  using step_rows_ok step_numbering_ok step_attempts_ok step_trail_ok step_lane lane_steps_ok rows_ok_def
  by metis

lemma steps_outbound_inv: "outbound_step\<^sup>*\<^sup>* s s' \<Longrightarrow> outbound_inv s \<Longrightarrow> outbound_inv s'"
  by (induction rule: rtranclp_induct) (auto intro: step_outbound_inv)

section \<open>Every operation is a sequence of steps\<close>

lemma update_outbound_Inr:
  "update_outbound m s = Inr s' \<longleftrightarrow> outbound_checks m \<and>
     (\<forall>x\<in>set (outbounds s). om_id x \<noteq> om_id m \<longrightarrow> \<not> outbound_clash m x) \<and>
     s' = s\<lparr>outbounds := put_row om_id m (outbounds s)\<rparr>"
  by (auto simp: update_outbound_def list_ex_iff)

lemma insert_outbound_Inr:
  "insert_outbound m s = Inr s' \<longleftrightarrow> outbound_checks m \<and>
     (\<forall>x\<in>set (outbounds s). om_id x \<noteq> om_id m \<and> \<not> outbound_clash m x) \<and>
     s' = s\<lparr>outbounds := outbounds s @ [m]\<rparr>"
  by (auto simp: insert_outbound_def list_ex_iff)

lemma get_scopedD: "get_scoped s cid aid = Inr c \<Longrightarrow>
    c \<in> set (conversations s) \<and> cv_id c = cid \<and> cv_agent_id c = aid"
  by (auto simp: get_scoped_def split: option.splits dest: scoped_conversationD)

lemma add_delivery_event_events:
  "delivery_events (add_delivery_event E m a t f u ac ai cd s) = delivery_events s @
     [\<lparr>de_id = uuid4 E (draws s), de_outbound_message_id = om_id m, de_attempt_id = a, de_event_type = t,
       de_from_status = f, de_to_status = u, de_actor_type = ac, de_actor_id = ai, de_safe_code = cd,
       de_created_at = tx_now E\<rparr>]"
  by (simp add: add_delivery_event_def fresh_def)

text \<open>Cancelling, recovering and recording write one row and its event: a \<open>settled\<close> step.\<close>

lemma settle_refines:
  assumes "m \<in> set (outbounds s)" "command_part m' = command_part m"
    "worker_edge (om_status m) (om_status m') \<or> resolution_edge (om_status m) (om_status m')"
    "om_status m' \<noteq> OutDispatching" "om_last_attempt_number m' = om_last_attempt_number m"
    "update_outbound m' s = Inr s1"
    "s' = add_delivery_event E m' a t (Some (om_status m)) (om_status m') ac ai cd s1"
  shows "outbound_step s s'"
proof -
  note u = assms(6) [unfolded update_outbound_Inr]
  note k = command_part_keys [OF assms(2)]
  show ?thesis
  proof (rule outbound_step.settled [OF assms(1-5)])
    show "delivery_events s' = delivery_events s @
      [\<lparr>de_id = uuid4 E (draws s1), de_outbound_message_id = om_id m', de_attempt_id = a, de_event_type = t,
       de_from_status = Some (om_status m), de_to_status = om_status m', de_actor_type = ac, de_actor_id = ai,
       de_safe_code = cd, de_created_at = tx_now E\<rparr>]"
      using u by (simp add: assms(7) add_delivery_event_events)
  qed (use u k in \<open>auto simp: assms(7) frame_simps\<close>)
qed

lemma cancel_refines:
  assumes "cancel_stale_message E m a code s = Inr (s', m')" "m \<in> set (outbounds s)"
    "om_status m = OutQueued \<or> om_status m = OutDispatching"
  shows "outbound_step s s'"
  using assms
  by (auto simp: cancel_stale_message_def Let_def bindE_eq_Inr command_part_def
      intro!: settle_refines [where m' = m'])

lemma recover_one_refines:
  assumes "recover_one E actor m s = Inr s'" "m \<in> set (outbounds s)" "om_status m = OutDispatching"
  shows "outbound_step s s'"
proof -
  let ?m = "m\<lparr>om_status := OutUnknown, om_locked_by := None, om_locked_at := None\<rparr>"
  from assms(1) obtain s1 where "update_outbound ?m s = Inr s1"
    "s' = add_delivery_event E ?m (map_option at_id (latest_attempt s m)) DUnknown (Some (om_status m))
       (om_status ?m) WorkerActor (Some actor) (Some ''stale_dispatch'') s1"
    by (auto simp: recover_one_def Let_def bindE_eq_Inr)
  with assms(2,3) show ?thesis
    by (intro settle_refines [where m' = ?m]) (auto simp: command_part_def)
qed

lemma start_dispatch_refines:
  assumes "start_dispatch E worker at m s = Inr (s', m', a)" "eligible_head locked s = Some m"
  shows "outbound_step s s'"
proof -
  let ?m = "m\<lparr>om_status := OutDispatching, om_last_attempt_number := om_last_attempt_number m + 1,
    om_locked_by := Some worker, om_locked_at := Some at\<rparr>"
  from assms(1) obtain s1 s2 where u: "update_outbound ?m s = Inr s1"
    and i: "insert_attempt E ?m worker s1 = Inr (s2, a)" and m': "m' = ?m"
    and s': "s' = add_delivery_event E ?m (Some (at_id a)) DClaimed (Some (om_status m)) OutDispatching
      WorkerActor (Some worker) None s2"
    by (auto simp: start_dispatch_def Let_def bindE_eq_Inr)
  note head = eligible_headD [OF assms(2)]
  note u = u [unfolded update_outbound_Inr]
  from i have i: "s2 = s1\<lparr>draws := Suc (draws s1), attempts := attempts s1 @ [a]\<rparr>"
    "at_outbound_message_id a = om_id m" "at_attempt_number a = om_last_attempt_number m + 1"
    "at_id a \<notin> at_id ` set (attempts s1)"
    by (auto simp: insert_attempt_def fresh_def Let_def list_ex_iff split: if_splits)
  show ?thesis
  proof (rule outbound_step.claimed [of m s ?m])
    show "delivery_events s' = delivery_events s @
      [\<lparr>de_id = uuid4 E (draws s2), de_outbound_message_id = om_id m, de_attempt_id = Some (at_id a),
       de_event_type = DClaimed, de_from_status = Some (om_status m), de_to_status = OutDispatching,
       de_actor_type = WorkerActor, de_actor_id = Some worker, de_safe_code = None, de_created_at = tx_now E\<rparr>]"
      using u i by (simp add: s' add_delivery_event_events)
    show "head_of_lane om_conversation_id om_sequence blocking (outbounds s) m"
      using head by (auto simp: head_of_lane_def list_all_iff)
  qed (use u i head in \<open>auto simp: s' frame_simps command_part_def\<close>)
qed

lemma claim_loop_refines:
  "claim_loop E locked worker at s = Inr (s', r) \<Longrightarrow> outbound_step\<^sup>*\<^sup>* s s'"
proof (induction E locked worker at s rule: claim_loop.induct)
  case (1 E locked worker at s)
  show ?case
  proof (cases "eligible_head locked s")
    case None
    with "1.prems" show ?thesis by (simp add: claim_loop.simps)
  next
    case (Some m)
    note head = eligible_headD [OF Some]
    from "1.prems" Some obtain c where c: "get_scoped s (om_conversation_id m) (om_agent_id m) = Inr c"
      by (subst (asm) claim_loop.simps) (auto split: sum.splits)
    show ?thesis
    proof (cases "assert_message_fence c m")
      case (Inl e)
      with "1.prems" Some c obtain msg code where e: "e = OutFence msg code"
        by (subst (asm) claim_loop.simps) (auto split: outbound_error.splits)
      with "1.prems" Some c Inl obtain s1 m1 where x: "cancel_stale_message E m None code s = Inr (s1, m1)"
        and rest: "claim_loop E locked worker at s1 = Inr (s', r)"
        by (subst (asm) claim_loop.simps) (auto split: sum.splits)
      have "outbound_step s s1" using cancel_refines [OF x] head by simp
      moreover have "outbound_step\<^sup>*\<^sup>* s1 s'"
        using "1.IH" [OF Some c Inl e x refl rest] .
      ultimately show ?thesis by (rule converse_rtranclp_into_rtranclp)
    next
      case (Inr u)
      with "1.prems" Some c obtain m' a where "start_dispatch E worker at m s = Inr (s', m', a)"
        by (subst (asm) claim_loop.simps) (auto split: sum.splits)
      then show ?thesis using start_dispatch_refines [OF _ Some] by blast
    qed
  qed
qed

lemma recover_each_refines:
  "recover_each E actor ms s = Inr s' \<Longrightarrow> set ms \<subseteq> set (outbounds s) \<Longrightarrow> distinct (map om_id ms) \<Longrightarrow>
     (\<forall>m\<in>set ms. om_status m = OutDispatching) \<Longrightarrow> outbound_step\<^sup>*\<^sup>* s s'"
proof (induction ms arbitrary: s)
  case (Cons m ms)
  from Cons.prems(1) obtain s1 where one: "recover_one E actor m s = Inr s1"
    and rest: "recover_each E actor ms s1 = Inr s'" by (auto simp: bindE_eq_Inr)
  have step: "outbound_step s s1" using recover_one_refines [OF one] Cons.prems by simp
  have rows: "outbounds s1 = put_row om_id (m\<lparr>om_status := OutUnknown, om_locked_by := None, om_locked_at := None\<rparr>) (outbounds s)"
    using one by (auto simp: recover_one_def Let_def bindE_eq_Inr update_outbound_Inr frame_simps)
  have "x \<in> set (outbounds s1)" if "x \<in> set ms" for x
  proof -
    have "x \<in> set (outbounds s)" "om_id x \<noteq> om_id m"
      using that Cons.prems(2,3) by (auto simp: image_iff)
    then show ?thesis by (simp add: rows set_put_row)
  qed
  then have "set ms \<subseteq> set (outbounds s1)" by blast
  then have "outbound_step\<^sup>*\<^sup>* s1 s'"
    using Cons.IH [OF rest] Cons.prems(3,4) by simp
  with step show ?case by (rule converse_rtranclp_into_rtranclp)
qed simp

lemma stale_dispatches_rows:
  "distinct (map om_id (outbounds s)) \<Longrightarrow>
     set (stale_dispatches locked b s) \<subseteq> set (outbounds s) \<and>
     distinct (map om_id (stale_dispatches locked b s)) \<and>
     (\<forall>m\<in>set (stale_dispatches locked b s). om_status m = OutDispatching)"
  by (auto simp: stale_dispatches_def distinct_map inj_on_def)

lemma recover_stale_refines:
  assumes "recover_stale_dispatches E locked b actor s = Inr (s', n)" "rows_ok s"
  shows "outbound_step\<^sup>*\<^sup>* s s'"
  using assms stale_dispatches_rows [of s locked b]
  by (auto simp: recover_stale_dispatches_def Let_def bindE_eq_Inr rows_ok_def intro: recover_each_refines)

lemma claim_next_refines:
  assumes "claim_next_outbound E locked worker_id b now s = Inr (s', r)" "rows_ok s"
  shows "outbound_step\<^sup>*\<^sup>* s s'"
proof -
  from assms(1) obtain worker at s1 n where
    "recover_stale_dispatches E locked b worker s = Inr (s1, n)" "claim_loop E locked worker at s1 = Inr (s', r)"
    by (auto simp: claim_next_outbound_def Let_def bindE_eq_Inr)
  with assms(2) show ?thesis by (meson recover_stale_refines claim_loop_refines rtranclp_trans)
qed

lemma lock_owned_dispatchD:
  "lock_owned_dispatch s mid aid worker = Inr (m, a) \<Longrightarrow>
     m \<in> set (outbounds s) \<and> om_id m = mid \<and> om_status m = OutDispatching \<and> om_locked_by m = Some worker \<and>
     a \<in> set (attempts s) \<and> at_id a = aid \<and> at_outbound_message_id a = mid \<and> at_worker_id a = worker"
  by (auto simp: lock_owned_dispatch_def split: option.splits if_splits dest: find_SomeD)

lemma revalidate_refines:
  assumes "revalidate_claim E mid aid worker_id s = Inr (s', r)"
  shows "outbound_step\<^sup>*\<^sup>* s s'"
proof -
  from assms obtain worker m a c where l: "lock_owned_dispatch s mid aid worker = Inr (m, a)"
    and r: "(case assert_message_fence c m of
       Inl (OutFence msg code) \<Rightarrow>
         bindE (cancel_stale_message E m (Some (at_id a)) code s) (\<lambda>(s1, _). Inr (s1, None))
     | Inl e \<Rightarrow> Inl e
     | Inr _ \<Rightarrow> Inr (s, Some m)) = Inr (s', r)"
    by (auto simp: revalidate_claim_def bindE_eq_Inr)
  note d = lock_owned_dispatchD [OF l]
  from r consider "s' = s" | code m1 where "cancel_stale_message E m (Some (at_id a)) code s = Inr (s', m1)"
    by (auto simp: bindE_eq_Inr split: sum.splits outbound_error.splits)
  then show ?thesis
    using d by cases (auto dest: cancel_refines)
qed

lemma cancel_claim_refines:
  assumes "cancel_claim E mid aid worker_id safe_code s = Inr (s', m)"
  shows "outbound_step s s'"
  using assms
  by (auto simp: cancel_claim_def bindE_eq_Inr split: if_splits dest!: lock_owned_dispatchD
      dest: cancel_refines)

lemma record_outcome_refines:
  assumes "record_dispatch_outcome E mid aid worker_id outcome pid safe_code at s = Inr (s', m')"
  shows "outbound_step s s'"
proof -
  from assms obtain worker m a s1 t where l: "lock_owned_dispatch s mid aid worker = Inr (m, a)"
    and m': "m' = outcome_row outcome (map_option strip pid) t m"
    and u: "update_outbound m' s = Inr s1"
    and s': "s' = add_delivery_event E m' (Some (at_id a)) (status_event (outcome_status outcome))
        (Some (om_status m)) (outcome_status outcome) WorkerActor (Some worker) safe_code s1"
    by (auto simp: record_dispatch_outcome_def Let_def bindE_eq_Inr)
  note d = lock_owned_dispatchD [OF l]
  have st: "om_status m' = outcome_status outcome" by (simp add: m' outcome_row_def Let_def)
  have "worker_edge (om_status m) (om_status m')" "om_status m' \<noteq> OutDispatching"
    using d by (cases outcome; simp add: st)+
  moreover have "command_part m' = command_part m" "om_last_attempt_number m' = om_last_attempt_number m"
    by (simp_all add: m' outcome_row_def Let_def command_part_def)
  ultimately show ?thesis
    using d by (intro settle_refines [OF _ _ _ _ _ u s' [folded st]]) auto
qed

lemma prepare_enqueueD:
  assumes "prepare_enqueue s cmd = Inr (payload, c, rid, destination)"
  shows "c \<in> set (conversations s) \<and> cv_id c = oc_conversation_id cmd \<and> cv_agent_id c = oc_agent_id cmd \<and>
    cv_channel_route_id c = Some rid \<and> destination = strip (cv_external_thread_id c) \<and> destination \<noteq> [] \<and>
    normalize_outbound (oc_kind cmd) (oc_payload cmd) = Inr payload \<and>
    strip (oc_idempotency_key cmd) \<noteq> [] \<and> strip (oc_correlation_id cmd) \<noteq> []"
  using assms
  by (auto simp: prepare_enqueue_def outbound_target_def Let_def bindE_eq_Inr split: if_splits option.splits
      dest: get_scopedD)

text \<open>A first enqueue, spelled out.\<close>

lemma enqueue_new:
  assumes "enqueue_outbound E s cmd = Inr (s', m, False)"
  obtains payload c rid destination route connection where
    "prepare_enqueue s cmd = Inr (payload, c, rid, destination)"
    "outbound_receipt s (cv_id c) (strip (oc_idempotency_key cmd)) = None"
    "assert_sender_fence c (oc_sender_type cmd) (oc_sender_admin_id cmd) (oc_control_version cmd)
       (oc_automation_agent_id cmd) (oc_automation_version cmd) = Inr ()"
    "resolve_route_snapshot s c = Inr (route, connection)"
    "m = queued_message E (uuid4 E (draws s)) c route connection rid payload destination
       (outbound_hash E c destination payload cmd) cmd"
    "outbound_checks m" "\<forall>x\<in>set (outbounds s). om_id x \<noteq> om_id m \<and> \<not> outbound_clash m x"
    "outbounds s' = outbounds s @ [m]" "attempts s' = attempts s"
    "conversations s' = put_row cv_id (c\<lparr>cv_next_outbound_sequence := cv_next_outbound_sequence c + 1\<rparr>) (conversations s)"
    "chat_messages s' = chat_messages s" "routes s' = routes s" "connections s' = connections s"
    "delivery_events s' = delivery_events s @
      [\<lparr>de_id = uuid4 E (Suc (draws s)), de_outbound_message_id = om_id m, de_attempt_id = None,
        de_event_type = DEnqueued, de_from_status = None, de_to_status = OutQueued,
        de_actor_type = sender_actor (oc_sender_type cmd),
        de_actor_id = map_option uuid_str (oc_sender_admin_id cmd), de_safe_code = None,
        de_created_at = tx_now E\<rparr>]"
proof -
  from assms obtain payload c rid destination where
    p: "prepare_enqueue s cmd = Inr (payload, c, rid, destination)"
    by (auto simp: enqueue_outbound_def bindE_eq_Inr)
  from assms p have r: "outbound_receipt s (cv_id c) (strip (oc_idempotency_key cmd)) = None"
    by (auto simp: enqueue_outbound_def Let_def split: option.splits if_splits)
  from assms p r obtain route connection s3 where
    f: "assert_sender_fence c (oc_sender_type cmd) (oc_sender_admin_id cmd) (oc_control_version cmd)
       (oc_automation_agent_id cmd) (oc_automation_version cmd) = Inr ()"
    and rt: "resolve_route_snapshot s c = Inr (route, connection)"
    and m: "m = queued_message E (uuid4 E (draws s)) c route connection rid payload destination
       (outbound_hash E c destination payload cmd) cmd"
    and i: "insert_outbound m (put_conversation (c\<lparr>cv_next_outbound_sequence := cv_next_outbound_sequence c + 1\<rparr>)
       (s\<lparr>draws := Suc (draws s)\<rparr>)) = Inr s3"
    and s': "s' = add_delivery_event E m None DEnqueued None OutQueued (sender_actor (oc_sender_type cmd))
       (map_option uuid_str (oc_sender_admin_id cmd)) None s3"
    by (auto simp: enqueue_outbound_def Let_def bindE_eq_Inr fresh_def)
  note i = i [unfolded insert_outbound_Inr]
  show thesis
    by (rule that [OF p r f rt m])
      (use i in \<open>auto simp: s' frame_simps put_conversation_def add_delivery_event_events\<close>)
qed

lemma enqueue_refines:
  assumes "enqueue_outbound E s cmd = Inr (s', m, d)"
  shows "outbound_step\<^sup>*\<^sup>* s s'"
proof (cases d)
  case True
  with assms have "s' = s"
    by (auto simp: enqueue_outbound_def Let_def bindE_eq_Inr split: option.splits if_splits prod.splits)
  then show ?thesis by simp
next
  case False
  with assms have "enqueue_outbound E s cmd = Inr (s', m, False)" by simp
  then show ?thesis
  proof (cases rule: enqueue_new)
    case (1 payload c rid destination route connection)
    note p = prepare_enqueueD [OF 1(1)]
    have "outbound_step s s'"
      by (rule outbound_step.enqueued [of c s m, OF _ _ _ _ _ _ 1(6) _ 1(8,9,10,14)])
        (use p 1(7) in \<open>auto simp: 1(5) queued_message_def\<close>)
    then show ?thesis by blast
  qed
qed

section \<open>Any interleaving of operations\<close>

text \<open>One successful operation of the queue, by any worker or sender, or the work of another
  service that leaves the queue's tables alone.\<close>

inductive outbound_op :: "store \<Rightarrow> store \<Rightarrow> bool" where
  op_enqueue: "enqueue_outbound E s cmd = Inr (s', m, d) \<Longrightarrow> outbound_op s s'"
| op_claim: "claim_next_outbound E locked worker_id stale_before now s = Inr (s', r) \<Longrightarrow> outbound_op s s'"
| op_recover: "recover_stale_dispatches E locked stale_before actor_id s = Inr (s', n) \<Longrightarrow> outbound_op s s'"
| op_revalidate: "revalidate_claim E mid aid worker_id s = Inr (s', v) \<Longrightarrow> outbound_op s s'"
| op_cancel: "cancel_claim E mid aid worker_id safe_code s = Inr (s', m) \<Longrightarrow> outbound_op s s'"
| op_outcome: "record_dispatch_outcome E mid aid worker_id outcome pid safe_code' at s = Inr (s', m) \<Longrightarrow> outbound_op s s'"
| op_other: "outbounds s' = outbounds s \<Longrightarrow> attempts s' = attempts s \<Longrightarrow> delivery_events s' = delivery_events s \<Longrightarrow>
    map (\<lambda>c. (cv_id c, cv_agent_id c, cv_next_outbound_sequence c)) (conversations s') =
    map (\<lambda>c. (cv_id c, cv_agent_id c, cv_next_outbound_sequence c)) (conversations s) \<Longrightarrow> outbound_op s s'"

lemma outbound_op_refines: "outbound_op s s' \<Longrightarrow> rows_ok s \<Longrightarrow> outbound_step\<^sup>*\<^sup>* s s'"
proof (induction rule: outbound_op.induct)
  case (op_other s' s)
  then show ?case by (blast intro: outbound_step.elsewhere)
qed (auto dest: enqueue_refines claim_next_refines recover_stale_refines revalidate_refines
      cancel_claim_refines record_outcome_refines)

lemma steps_rows_numbering: "outbound_step\<^sup>*\<^sup>* s s' \<Longrightarrow> rows_ok s \<and> numbering_ok s \<Longrightarrow> rows_ok s' \<and> numbering_ok s'"
  by (induction rule: rtranclp_induct) (auto intro: step_rows_ok step_numbering_ok)

lemma steps_lane: "outbound_step\<^sup>*\<^sup>* s s' \<Longrightarrow> rows_ok s \<and> numbering_ok s \<Longrightarrow>
    (lane_step om_id om_conversation_id om_sequence (\<lambda>m. om_status m = OutDispatching) blocking)\<^sup>*\<^sup>*
      (outbounds s) (outbounds s')"
proof (induction rule: rtranclp_induct)
  case (step t u)
  then show ?case
    using step_lane [of t u] steps_rows_numbering [of s t] by (meson rtranclp_trans)
qed simp

interpretation outbound_lanes: fifo_lanes outbounds om_id om_conversation_id om_sequence
  "\<lambda>m. om_status m = OutDispatching" blocking "\<lambda>s. rows_ok s \<and> numbering_ok s" outbound_op
proof
  fix s s' assume op: "outbound_op s s'" and ok: "rows_ok s \<and> numbering_ok s"
  then have steps: "outbound_step\<^sup>*\<^sup>* s s'" by (blast intro: outbound_op_refines)
  show "(lane_step om_id om_conversation_id om_sequence (\<lambda>m. om_status m = OutDispatching) blocking)\<^sup>*\<^sup>*
      (outbounds s) (outbounds s')" by (rule steps_lane [OF steps ok])
  show "rows_ok s' \<and> numbering_ok s'" by (rule steps_rows_numbering [OF steps ok])
qed (auto simp: rows_ok_def blocking_def)

lemma ops_outbound_inv: "outbound_op\<^sup>*\<^sup>* s s' \<Longrightarrow> outbound_inv s \<Longrightarrow> outbound_inv s'"
proof (induction rule: rtranclp_induct)
  case (step t u)
  then show ?case using outbound_op_refines steps_outbound_inv outbound_inv_def by blast
qed simp

lemma outbound_inv_empty: "outbounds s = [] \<Longrightarrow> attempts s = [] \<Longrightarrow> delivery_events s = [] \<Longrightarrow>
    conversations_ok s \<Longrightarrow> outbound_inv s"
  by (simp add: outbound_inv_def rows_ok_def numbering_ok_def attempts_ok_def trail_ok_def lanes_ok_def)

text \<open>C1: first in, first out: whatever the workers, senders and other services do, a message being
  dispatched has no earlier message of its conversation queued, dispatching or of unknown outcome,
  and a conversation has at most one message being dispatched.\<close>

theorem outbound_fifo:
  assumes "outbound_inv s" "outbound_op\<^sup>*\<^sup>* s s'" "r \<in> set (outbounds s')" "om_status r = OutDispatching"
    "q \<in> set (outbounds s')" "om_conversation_id q = om_conversation_id r"
  shows "(om_sequence q < om_sequence r \<longrightarrow> om_status q \<notin> {OutQueued, OutDispatching, OutUnknown}) \<and>
    (om_status q = OutDispatching \<longrightarrow> q = r)"
proof -
  have wf: "rows_ok s \<and> numbering_ok s"
    and lanes: "lanes_ok om_conversation_id om_sequence (\<lambda>m. om_status m = OutDispatching) blocking (outbounds s)"
    using assms(1) by (auto simp: outbound_inv_def)
  have "om_sequence r \<le> om_sequence q" if "blocking q"
    by (rule outbound_lanes.ops_fifo [OF assms(2) wf lanes assms(5,3,6,4) that])
  moreover have "q = r" if d: "om_status q = OutDispatching"
  proof -
    have "om_sequence q = om_sequence r"
      by (rule outbound_lanes.ops_exclusive [OF assms(2) wf lanes assms(5,3,6) d assms(4)])
    then have clash: "outbound_clash q r" using assms(6) by (simp add: outbound_clash_def)
    have rows: "rows_ok s'" using ops_outbound_inv [OF assms(2,1)] by (simp add: outbound_inv_def)
    then have "om_id r = om_id q" using clash assms(3,5) by (auto simp: rows_ok_def)
    then show ?thesis using same_key [of om_id "outbounds s'" q r] rows assms(3,5) by (simp add: rows_ok_def)
  qed
  ultimately show ?thesis by (auto simp: blocking_def)
qed

text \<open>C5: at most one attempt: no message is ever handed to a worker twice, so the queue never
  sends a message again whose provider call may have succeeded; a queued message has no attempt.\<close>

theorem at_most_one_attempt:
  assumes "outbound_inv s" "outbound_op\<^sup>*\<^sup>* s s'" "m \<in> set (outbounds s')"
  shows "length (attempts_of s' (om_id m)) \<le> 1 \<and> (om_status m = OutQueued \<longrightarrow> attempts_of s' (om_id m) = [])"
proof -
  have "single_attempt s' m"
    using ops_outbound_inv [OF assms(2,1)] assms(3) by (simp add: outbound_inv_def attempts_ok_def)
  then have "map at_attempt_number (attempts_of s' (om_id m)) = (if om_last_attempt_number m = 0 then [] else [1])"
    "om_status m = OutQueued \<longrightarrow> om_last_attempt_number m = 0"
    by (auto simp: single_attempt_def)
  then show ?thesis by (auto split: if_splits)
qed

text \<open>The audit trail: the delivery events of a message link its first status to its current
  one, each event starting where the one before ended; no transition goes unrecorded.\<close>

theorem delivery_trail:
  assumes "outbound_inv s" "outbound_op\<^sup>*\<^sup>* s s'" "m \<in> set (outbounds s')"
  shows "chain None (events_of s' (om_id m)) (Some (om_status m))"
  using ops_outbound_inv [OF assms(2,1)] assms(3) by (simp add: outbound_inv_def trail_ok_def)

lemma step_final:
  assumes "outbound_step s s'" "rows_ok s" "m \<in> set (outbounds s)"
  shows "\<exists>m'\<in>set (outbounds s'). command_part m' = command_part m \<and>
    (om_status m \<notin> {OutQueued, OutDispatching, OutUnknown} \<longrightarrow> om_status m' = om_status m) \<and>
    (om_status m \<noteq> OutQueued \<longrightarrow> om_status m' \<noteq> OutQueued)"
proof -
  have moved: ?thesis if x: "x \<in> set (outbounds s)" "command_part x' = command_part x"
    "outbounds s' = put_row om_id x' (outbounds s)"
    "om_status x \<in> {OutQueued, OutDispatching, OutUnknown}" "om_status x' \<noteq> OutQueued" for x x'
  proof (cases "m = x")
    case True
    have "x' \<in> set (outbounds s')"
      using x(1) command_part_keys(1) [OF x(2)] unfolding x(3) set_put_row by force
    then show ?thesis using True x(2,4,5) by blast
  next
    case False
    have "distinct (map om_id (outbounds s))" using assms(2) by (simp add: rows_ok_def)
    then have "m \<in> set (outbounds s')"
      using rows_put [OF _ x(1) command_part_keys(1) [OF x(2)]] False assms(3) unfolding x(3) by simp
    then show ?thesis by blast
  qed
  from assms(1) show ?thesis
  proof cases
    case (settled x x' e)
    have "om_status x \<in> {OutQueued, OutDispatching, OutUnknown}"
      using settled(3) by (cases "om_status x") (auto simp: resolution_edge_def)
    then show ?thesis by (rule moved [OF settled(1,2,8) _ edge_not_queued [OF settled(3)]])
  next
    case (claimed x x' a e)
    show ?thesis by (rule moved [OF claimed(1,2,9)]) (use claimed(3,4) in simp_all)
  next
    case (enqueued c x e)
    then show ?thesis using assms(3) by (intro bexI [of _ m]) auto
  next
    case elsewhere
    then show ?thesis using assms(3) by (intro bexI [of _ m]) auto
  qed
qed

lemma steps_final:
  assumes "outbound_step\<^sup>*\<^sup>* s s'" "rows_ok s" "numbering_ok s" "m \<in> set (outbounds s)"
  shows "\<exists>m'\<in>set (outbounds s'). command_part m' = command_part m \<and>
    (om_status m \<notin> {OutQueued, OutDispatching, OutUnknown} \<longrightarrow> om_status m' = om_status m) \<and>
    (om_status m \<noteq> OutQueued \<longrightarrow> om_status m' \<noteq> OutQueued)"
  using assms
proof (induction rule: rtranclp_induct)
  case (step t u)
  then obtain m' where m': "m' \<in> set (outbounds t)" "command_part m' = command_part m"
    "om_status m \<notin> {OutQueued, OutDispatching, OutUnknown} \<longrightarrow> om_status m' = om_status m"
    "om_status m \<noteq> OutQueued \<longrightarrow> om_status m' \<noteq> OutQueued" by blast
  have "rows_ok t" using steps_rows_numbering [OF step.hyps(1)] step.prems by blast
  from step_final [OF step.hyps(2) this m'(1)] m'(2-4) show ?case by metis
qed blast

lemma ops_refine: "outbound_op\<^sup>*\<^sup>* s s' \<Longrightarrow> rows_ok s \<and> numbering_ok s \<Longrightarrow> outbound_step\<^sup>*\<^sup>* s s'"
proof (induction rule: rtranclp_induct)
  case (step t u)
  then show ?case using outbound_op_refines steps_rows_numbering by (meson rtranclp_trans)
qed simp

text \<open>Messages are never lost or rewritten: every message stays in the table with its command
  unchanged, one that left the queue never re-enters it, and one that was accepted, delivered,
  read, failed or cancelled keeps that status under the queue's operations.\<close>

theorem outbound_command_preserved:
  assumes "outbound_inv s" "outbound_op\<^sup>*\<^sup>* s s'" "m \<in> set (outbounds s)"
  shows "\<exists>m'\<in>set (outbounds s'). command_part m' = command_part m \<and>
    (om_status m \<notin> {OutQueued, OutDispatching, OutUnknown} \<longrightarrow> om_status m' = om_status m) \<and>
    (om_status m \<noteq> OutQueued \<longrightarrow> om_status m' \<noteq> OutQueued)"
proof -
  have wf: "rows_ok s \<and> numbering_ok s" using assms(1) by (simp add: outbound_inv_def)
  with steps_final [OF ops_refine [OF assms(2) wf]] assms(3) show ?thesis by blast
qed

end
