(* ===== verification/OutboundClaims.thy ===== *)
theory OutboundClaims
  imports OutboundQueue
begin

text \<open>
  What single operations of the outbound queue guarantee: a claim hands out the head of its
  conversation with the fences satisfied, a worker that is told there is nothing to do leaves no
  claimable message behind, on a well-formed queue a claim never fails, and enqueueing is idempotent
  in its key and answers a retry only to the same command.
\<close>

section \<open>Fences\<close>

text \<open>What the sender fence means: the conversation is active, in the sender's control epoch, and
  owned by the sender: the assigned operator of a human conversation, or the automation agent and
  epoch of an automated one.\<close>

lemma assert_sender_fence_Inr:
  "assert_sender_fence c t admin v agent av = Inr () \<longleftrightarrow>
     cv_status c = ''active'' \<and> cv_control_version c = v \<and>
     (if t = ByOperator
      then cv_control_mode c = Human \<and> admin \<noteq> None \<and> cv_assigned_admin_id c = admin
      else admin = None \<and> cv_control_mode c = Automated \<and>
        agent = Some (cv_automation_agent_id c) \<and> av = Some (cv_automation_version c))"
  by (cases t) (auto simp: assert_sender_fence_def)

lemma assert_sender_fence_Inl: "assert_sender_fence c t admin v agent av = Inl e \<Longrightarrow>
    \<exists>msg. e = OutFence msg control_changed \<or> e = OutFence msg automation_changed"
  by (auto simp: assert_sender_fence_def split: if_splits)

lemma assert_message_fence_Inl: "assert_message_fence c m = Inl e \<Longrightarrow>
    \<exists>msg. e = OutFence msg control_changed \<or> e = OutFence msg automation_changed"
  by (auto simp: assert_message_fence_def bindE_eq_Inl assert_route_snapshot_def
      dest: assert_sender_fence_Inl)

section \<open>The claim loop\<close>

lemma claim_loop_cases:
  assumes "claim_loop E locked worker at s = Inr (s', r)"
  shows "\<exists>t. outbound_step\<^sup>*\<^sup>* s t \<and> conversations t = conversations s \<and>
    (case r of
       None \<Rightarrow> s' = t \<and> eligible_head locked t = None
     | Some (m', a) \<Rightarrow> \<exists>m c. eligible_head locked t = Some m \<and>
         get_scoped t (om_conversation_id m) (om_agent_id m) = Inr c \<and> assert_message_fence c m = Inr () \<and>
         start_dispatch E worker at m t = Inr (s', m', a))"
  using assms
proof (induction E locked worker at s rule: claim_loop.induct)
  case (1 E locked worker at s)
  show ?case
  proof (cases "eligible_head locked s")
    case None
    with "1.prems" show ?thesis by (intro exI [of _ s]) (auto simp: claim_loop.simps)
  next
    case (Some m)
    from "1.prems" Some obtain c where c: "get_scoped s (om_conversation_id m) (om_agent_id m) = Inr c"
      by (subst (asm) claim_loop.simps) (auto split: sum.splits)
    show ?thesis
    proof (cases "assert_message_fence c m")
      case (Inl e)
      with "1.prems" Some c obtain msg code where e: "e = OutFence msg code"
        by (subst (asm) claim_loop.simps) (auto split: outbound_error.splits)
      with "1.prems" Some c Inl obtain s1 m1 where x: "cancel_stale_message E m None code s = Inr (s1, m1)"
        and rest: "claim_loop E locked worker at s1 = Inr (s', r)"
        by (subst (asm) claim_loop.simps) (auto split: sum.splits)
      have step: "outbound_step s s1" using cancel_refines [OF x] eligible_headD [OF Some] by simp
      have same: "conversations s1 = conversations s" using x by (simp add: cancel_stale_Inr frame_simps)
      from "1.IH" [OF Some c Inl e x refl rest] show ?thesis
        unfolding same using converse_rtranclp_into_rtranclp [of outbound_step, OF step] by blast
    next
      case (Inr u)
      with "1.prems" Some c obtain m' a where "start_dispatch E worker at m s = Inr (s', m', a)" "r = Some (m', a)"
        by (subst (asm) claim_loop.simps) (auto split: sum.splits)
      with Some c Inr show ?thesis by (intro exI [of _ s]) auto
    qed
  qed
qed

lemma start_dispatch_Inr:
  assumes "start_dispatch E worker at m s = Inr (s', m', a)"
  shows "m' = m\<lparr>om_status := OutDispatching, om_last_attempt_number := om_last_attempt_number m + 1,
      om_locked_by := Some worker, om_locked_at := Some at\<rparr> \<and>
    outbounds s' = put_row om_id m' (outbounds s) \<and> conversations s' = conversations s \<and>
    attempts s' = attempts s @ [a] \<and> at_outbound_message_id a = om_id m \<and> at_worker_id a = worker \<and>
    at_control_version a = om_control_version m"
  using assms
  by (auto simp: start_dispatch_def Let_def bindE_eq_Inr update_outbound_Inr insert_attempt_def fresh_def
      frame_simps split: if_splits)

lemma recover_one_conversations: "recover_one E actor m s = Inr s' \<Longrightarrow> conversations s' = conversations s"
  by (auto simp: recover_one_def Let_def bindE_eq_Inr update_outbound_Inr frame_simps)

lemma recover_each_conversations: "recover_each E actor ms s = Inr s' \<Longrightarrow> conversations s' = conversations s"
  by (induction ms arbitrary: s) (auto simp: bindE_eq_Inr dest!: recover_one_conversations)

lemma recover_stale_conversations:
  "recover_stale_dispatches E locked b actor s = Inr (s', n) \<Longrightarrow> conversations s' = conversations s"
  by (auto simp: recover_stale_dispatches_def Let_def bindE_eq_Inr dest: recover_each_conversations)

text \<open>A claimed message is the head of its conversation and its sender still owns the
  conversation: when \<open>claim_next\<close> hands out a message, it is marked dispatching by this worker with
  one recorded attempt, its route is the conversation's, no earlier message of the conversation is
  queued, dispatching or unknown, and both the control epoch and the automation epoch it was
  enqueued under are the conversation's current ones.\<close>

theorem claim_respects_fences:
  assumes "outbound_inv s" "claim_next_outbound E locked worker_id stale_before now s = Inr (s', Some (m, a))"
  shows "m \<in> set (outbounds s') \<and> om_status m = OutDispatching \<and> om_locked_by m = Some (strip worker_id) \<and>
    attempts_of s' (om_id m) = [a] \<and> \<not> locked (om_id m) \<and>
    (\<forall>q\<in>set (outbounds s'). om_conversation_id q = om_conversation_id m \<and> om_sequence q < om_sequence m \<longrightarrow>
       om_status q \<notin> {OutQueued, OutDispatching, OutUnknown}) \<and>
    (\<exists>c\<in>set (conversations s). cv_id c = om_conversation_id m \<and> cv_status c = ''active'' \<and>
       cv_channel_route_id c = Some (om_channel_route_id m) \<and> cv_control_version c = om_control_version m \<and>
       (if om_sender_type m = ByOperator
        then cv_control_mode c = Human \<and> cv_assigned_admin_id c = om_sender_admin_id m
        else cv_control_mode c = Automated \<and> om_automation_agent_id m = Some (cv_automation_agent_id c) \<and>
          om_automation_version m = Some (cv_automation_version c)))"
proof -
  from assms(2) obtain s1 n at where w: "normalize_worker ''worker id'' worker_id = Inr (strip worker_id)"
    and rec: "recover_stale_dispatches E locked stale_before (strip worker_id) s = Inr (s1, n)"
    and loop: "claim_loop E locked (strip worker_id) at s1 = Inr (s', Some (m, a))"
    by (auto simp: claim_next_outbound_def normalize_worker_def Let_def bindE_eq_Inr split: if_splits)
  from claim_loop_cases [OF loop] obtain t h c where t: "outbound_step\<^sup>*\<^sup>* s1 t" "conversations t = conversations s1"
    and h: "eligible_head locked t = Some h" and c: "get_scoped t (om_conversation_id h) (om_agent_id h) = Inr c"
    and f: "assert_message_fence c h = Inr ()" and d: "start_dispatch E (strip worker_id) at h t = Inr (s', m, a)"
    by auto
  have conv: "conversations t = conversations s" using t(2) recover_stale_conversations [OF rec] by simp
  note head = eligible_headD [OF h] and m = start_dispatch_Inr [OF d] and c = get_scopedD [OF c]
  have inv': "outbound_inv s'"
    using steps_outbound_inv [OF claim_next_refines [OF assms(2)] assms(1)] assms(1) by (simp add: outbound_inv_def)
  have "m \<in> set (outbounds s')" using m head by (auto simp: set_put_row)
  moreover from this inv' have "single_attempt s' m" by (simp add: outbound_inv_def attempts_ok_def)
  then have "length (attempts_of s' (om_id m)) \<le> 1" by (auto simp: single_attempt_def dest: arg_cong [of _ _ length] split: if_splits)
  then have "attempts_of s' (om_id m) = [a]" using m by (auto simp: attempts_of_def)
  moreover have "blocking q \<longrightarrow> \<not> om_sequence q < om_sequence m"
    if "q \<in> set (outbounds s')" "om_conversation_id q = om_conversation_id m" for q
    using that m head by (auto dest!: set_put_rowD)
  moreover have "\<exists>c\<in>set (conversations s). cv_id c = om_conversation_id m \<and> cv_status c = ''active'' \<and>
       cv_channel_route_id c = Some (om_channel_route_id m) \<and> cv_control_version c = om_control_version m \<and>
       (if om_sender_type m = ByOperator
        then cv_control_mode c = Human \<and> cv_assigned_admin_id c = om_sender_admin_id m
        else cv_control_mode c = Automated \<and> om_automation_agent_id m = Some (cv_automation_agent_id c) \<and>
          om_automation_version m = Some (cv_automation_version c))"
    using f c m conv
    by (intro bexI [of _ c])
      (auto simp: assert_message_fence_def bindE_eq_Inr assert_sender_fence_Inr assert_route_snapshot_def split: if_splits)
  ultimately show ?thesis using m head by (auto simp: blocking_def)
qed

text \<open>A worker that finds nothing leaves nothing claimable: when \<open>claim_next\<close> returns \<open>None\<close>,
  every message still queued is held by another transaction or waits behind an earlier message of
  its conversation; messages whose fence failed have been cancelled, not skipped.\<close>

theorem claim_none_exhausted:
  assumes "claim_next_outbound E locked worker_id stale_before now s = Inr (s', None)"
    "m \<in> set (outbounds s')" "om_status m = OutQueued" "\<not> locked (om_id m)"
  shows "\<exists>q\<in>set (outbounds s'). om_conversation_id q = om_conversation_id m \<and> om_sequence q < om_sequence m \<and>
    om_status q \<in> {OutQueued, OutDispatching, OutUnknown}"
proof -
  from assms(1) obtain worker at s1 where "claim_loop E locked worker at s1 = Inr (s', None)"
    by (auto simp: claim_next_outbound_def Let_def bindE_eq_Inr)
  from claim_loop_cases [OF this] have "eligible_head locked s' = None" by auto
  then have "filter (\<lambda>m. om_status m = OutQueued \<and>
            \<not> list_ex (\<lambda>e. om_conversation_id e = om_conversation_id m \<and> om_sequence e < om_sequence m \<and> blocking e)
                (outbounds s') \<and> \<not> locked (om_id m)) (outbounds s') = []"
    by (simp add: eligible_head_def)
  with assms(2-4) have "list_ex (\<lambda>e. om_conversation_id e = om_conversation_id m \<and> om_sequence e < om_sequence m \<and> blocking e)
                (outbounds s')"
    by (auto simp: filter_empty_conv)
  then show ?thesis by (auto simp: list_ex_iff blocking_def)
qed

section \<open>A claim does not fail\<close>

lemma update_rows_ok:
  assumes "rows_ok s" "m \<in> set (outbounds s)" "command_part m' = command_part m"
    "om_provider_message_id m' = om_provider_message_id m" "outbound_checks m'"
  shows "update_outbound m' s = Inr (s\<lparr>outbounds := put_row om_id m' (outbounds s)\<rparr>)"
proof -
  note k = command_part_keys [OF assms(3)]
  have "\<not> outbound_clash m' x" if "x \<in> set (outbounds s)" "om_id x \<noteq> om_id m'" for x
  proof -
    have "\<not> outbound_clash m x" using that assms(1,2) k(1) by (auto simp: rows_ok_def)
    then show ?thesis using k assms(4) by (simp add: outbound_clash_def)
  qed
  then show ?thesis using assms(5) by (simp add: update_outbound_Inr)
qed

lemma checks_settled: "outbound_checks m \<Longrightarrow> t \<in> {OutCancelled, OutUnknown, OutFailed} \<Longrightarrow>
    outbound_checks (m\<lparr>om_status := t, om_locked_by := None, om_locked_at := None\<rparr>)"
  by (auto simp: outbound_checks_def)

lemma checks_dispatching: "outbound_checks m \<Longrightarrow> om_status m = OutQueued \<Longrightarrow>
    outbound_checks (m\<lparr>om_status := OutDispatching, om_last_attempt_number := om_last_attempt_number m + 1,
      om_locked_by := Some w, om_locked_at := Some at\<rparr>)"
  by (auto simp: outbound_checks_def)

lemma numbering_conversation: "numbering_ok s \<Longrightarrow> m \<in> set (outbounds s) \<Longrightarrow>
    \<exists>c. get_scoped s (om_conversation_id m) (om_agent_id m) = Inr c"
  by (auto simp: numbering_ok_def get_scoped_def scoped_conversation_def find_None_iff split: option.splits)

definition fresh_attempts :: "env \<Rightarrow> store \<Rightarrow> bool" where
  "fresh_attempts E s \<longleftrightarrow> (\<forall>n\<ge>draws s. uuid4 E n \<notin> at_id ` set (attempts s))"

lemma add_delivery_event_draws: "draws (add_delivery_event E m a t f u ac ai cd s) = Suc (draws s)"
  by (simp add: add_delivery_event_def fresh_def)

lemma cancel_succeeds:
  assumes "outbound_inv s" "fresh_attempts E s" "eligible_head locked s = Some m"
  shows "\<exists>s1 m1. cancel_stale_message E m None code s = Inr (s1, m1) \<and> fresh_attempts E s1 \<and> outbound_inv s1"
proof -
  note h = eligible_headD [OF assms(3)]
  let ?m = "m\<lparr>om_status := OutCancelled, om_locked_by := None, om_locked_at := None\<rparr>"
  have rows: "rows_ok s" and "outbound_checks m"
    using assms(1) h by (auto simp: outbound_inv_def rows_ok_def list_all_iff)
  then have "update_outbound ?m s = Inr (s\<lparr>outbounds := put_row om_id ?m (outbounds s)\<rparr>)"
    using h by (intro update_rows_ok checks_settled) (auto simp: command_part_def)
  then obtain s1 where x: "cancel_stale_message E m None code s = Inr (s1, ?m)"
    and "draws s1 = Suc (draws s)" "attempts s1 = attempts s"
    by (auto simp: cancel_stale_message_def Let_def add_delivery_event_draws frame_simps)
  then have "fresh_attempts E s1" using assms(2) by (simp add: fresh_attempts_def)
  moreover have "outbound_inv s1"
    using step_outbound_inv [OF cancel_refines [OF x] assms(1)] h by simp
  ultimately show ?thesis using x by blast
qed

lemma start_succeeds:
  assumes "outbound_inv s" "fresh_attempts E s" "eligible_head locked s = Some m" "worker \<noteq> []"
  shows "\<exists>r. start_dispatch E worker at m s = Inr r"
proof -
  note h = eligible_headD [OF assms(3)]
  let ?m = "m\<lparr>om_status := OutDispatching, om_last_attempt_number := om_last_attempt_number m + 1,
      om_locked_by := Some worker, om_locked_at := Some at\<rparr>"
  have rows: "rows_ok s" and ck: "outbound_checks m" and single: "single_attempt s m"
    using assms(1) h by (auto simp: outbound_inv_def rows_ok_def attempts_ok_def list_all_iff)
  then have u: "update_outbound ?m s = Inr (s\<lparr>outbounds := put_row om_id ?m (outbounds s)\<rparr>)"
    using h by (intro update_rows_ok checks_dispatching) (auto simp: command_part_def)
  have "attempts_of s (om_id m) = []" using single h by (auto simp: single_attempt_def)
  then have none: "\<forall>x\<in>set (attempts s). at_outbound_message_id x \<noteq> om_id m"
    by (auto simp: attempts_of_def filter_empty_conv)
  have id: "\<forall>x\<in>set (attempts s). at_id x \<noteq> uuid4 E (draws s)"
    using assms(2) unfolding fresh_attempts_def by (metis imageI le_refl)
  have v: "om_control_version m \<ge> 0" "om_last_attempt_number m \<ge> 0" using ck by (auto simp: outbound_checks_def)
  show ?thesis
    using none id v assms(4)
    by (auto simp: start_dispatch_def Let_def u insert_attempt_def fresh_def list_ex_iff attempt_checks_def)
qed

lemma claim_loop_succeeds:
  "outbound_inv s \<Longrightarrow> fresh_attempts E s \<Longrightarrow> worker \<noteq> [] \<Longrightarrow> \<exists>r. claim_loop E locked worker at s = Inr r"
proof (induction E locked worker at s rule: claim_loop.induct)
  case (1 E locked worker at s)
  show ?case
  proof (cases "eligible_head locked s")
    case None
    then show ?thesis by (simp add: claim_loop.simps)
  next
    case (Some m)
    note h = eligible_headD [OF Some]
    obtain c where c: "get_scoped s (om_conversation_id m) (om_agent_id m) = Inr c"
      using numbering_conversation [of s m] "1.prems"(1) h unfolding outbound_inv_def by blast
    show ?thesis
    proof (cases "assert_message_fence c m")
      case (Inl e)
      then obtain msg code where e: "e = OutFence msg code" using assert_message_fence_Inl by blast
      obtain s1 m1 where x: "cancel_stale_message E m None code s = Inr (s1, m1)" "fresh_attempts E s1" "outbound_inv s1"
        using cancel_succeeds [OF "1.prems"(1,2) Some] by blast
      from "1.IH" [OF Some c Inl e x(1) refl x(3,2) "1.prems"(3)] show ?thesis
        by (subst claim_loop.simps) (simp add: Some c Inl e x(1))
    next
      case (Inr u)
      obtain s' m' a where "start_dispatch E worker at m s = Inr (s', m', a)"
        using start_succeeds [OF "1.prems"(1,2) Some "1.prems"(3)] by (metis surj_pair)
      then show ?thesis by (subst claim_loop.simps) (simp add: Some c Inr)
    qed
  qed
qed

lemma recover_each_succeeds:
  "outbound_inv s \<Longrightarrow> fresh_attempts E s \<Longrightarrow> set ms \<subseteq> set (outbounds s) \<Longrightarrow> distinct (map om_id ms) \<Longrightarrow>
     (\<forall>m\<in>set ms. om_status m = OutDispatching) \<Longrightarrow>
     \<exists>s'. recover_each E actor ms s = Inr s' \<and> outbound_inv s' \<and> fresh_attempts E s'"
proof (induction ms arbitrary: s)
  case (Cons m ms)
  let ?m = "m\<lparr>om_status := OutUnknown, om_locked_by := None, om_locked_at := None\<rparr>"
  have "rows_ok s" "outbound_checks m"
    using Cons.prems by (auto simp: outbound_inv_def rows_ok_def list_all_iff)
  then have u: "update_outbound ?m s = Inr (s\<lparr>outbounds := put_row om_id ?m (outbounds s)\<rparr>)"
    using Cons.prems by (intro update_rows_ok checks_settled) (auto simp: command_part_def)
  then obtain s1 where x: "recover_one E actor m s = Inr s1"
    and s1: "draws s1 = Suc (draws s)" "attempts s1 = attempts s" "outbounds s1 = put_row om_id ?m (outbounds s)"
    by (auto simp: recover_one_def Let_def add_delivery_event_draws frame_simps)
  have "outbound_inv s1"
    using step_outbound_inv [OF recover_one_refines [OF x] Cons.prems(1)] Cons.prems by simp
  moreover have "fresh_attempts E s1" using Cons.prems(2) s1 by (simp add: fresh_attempts_def)
  moreover have "set ms \<subseteq> set (outbounds s1)"
    using Cons.prems(3,4) unfolding s1(3) subset_iff set_put_row by (auto simp: image_iff)
  ultimately show ?case using Cons.IH [of s1] Cons.prems x by auto
qed auto

text \<open>Claiming is total: on a well-formed queue, for a worker name of 1 to 120 characters, the
  recovery and the claim loop end with a result; no constraint of the database is violated and no
  conversation is missing. The only assumption on the random identifiers is that those still to be
  drawn are not those of stored attempts.\<close>

theorem claim_next_total:
  assumes "outbound_inv s" "fresh_attempts E s" "strip worker_id \<noteq> []" "length (strip worker_id) \<le> 120"
  shows "\<exists>s' r. claim_next_outbound E locked worker_id stale_before now s = Inr (s', r) \<and> outbound_inv s'"
proof -
  have rows: "rows_ok s" using assms(1) by (simp add: outbound_inv_def)
  have stale: "set (stale_dispatches locked stale_before s) \<subseteq> set (outbounds s)"
    "distinct (map om_id (stale_dispatches locked stale_before s))"
    "\<forall>m\<in>set (stale_dispatches locked stale_before s). om_status m = OutDispatching"
    using stale_dispatches_rows [of s locked stale_before] rows by (auto simp: rows_ok_def)
  from recover_each_succeeds [OF assms(1,2) stale] obtain s1 where
    s1: "recover_each E (strip worker_id) (stale_dispatches locked stale_before s) s = Inr s1" "outbound_inv s1" "fresh_attempts E s1"
    by blast
  from claim_loop_succeeds [OF s1(2,3) assms(3)] obtain s' r where
    "claim_loop E locked (strip worker_id) (case now of Some t \<Rightarrow> t | None \<Rightarrow> clock E) s1 = Inr (s', r)"
    by (metis surj_pair)
  then have c: "claim_next_outbound E locked worker_id stale_before now s = Inr (s', r)"
    using assms(3,4) s1(1)
    by (simp add: claim_next_outbound_def normalize_worker_def recover_stale_dispatches_def Let_def)
  with steps_outbound_inv [OF claim_next_refines [OF c rows] assms(1)] show ?thesis by blast
qed

section \<open>Where a claimed message comes from\<close>

lemma recover_each_source: "recover_each E actor ms s = Inr s' \<Longrightarrow> x \<in> set (outbounds s') \<Longrightarrow>
    x \<in> set (outbounds s) \<or> (\<exists>m\<in>set ms. command_part m = command_part x)"
proof (induction ms arbitrary: s)
  case (Cons m ms)
  let ?m = "m\<lparr>om_status := OutUnknown, om_locked_by := None, om_locked_at := None\<rparr>"
  from Cons.prems(1) obtain s1 where s1: "recover_one E actor m s = Inr s1" "recover_each E actor ms s1 = Inr s'"
    by (auto simp: bindE_eq_Inr)
  have rows: "outbounds s1 = put_row om_id ?m (outbounds s)"
    using s1(1) by (auto simp: recover_one_def Let_def bindE_eq_Inr update_outbound_Inr frame_simps)
  have "command_part ?m = command_part m" by (simp add: command_part_def)
  with Cons.IH [OF s1(2) Cons.prems(2)] rows show ?case by (auto dest!: set_put_rowD)
qed simp

lemma claim_loop_source: "claim_loop E locked worker at s = Inr (s', r) \<Longrightarrow> x \<in> set (outbounds s') \<Longrightarrow>
    \<exists>y\<in>set (outbounds s). command_part y = command_part x"
proof (induction E locked worker at s rule: claim_loop.induct)
  case (1 E locked worker at s)
  show ?case
  proof (cases "eligible_head locked s")
    case None
    with "1.prems" show ?thesis by (auto simp: claim_loop.simps)
  next
    case (Some m)
    note h = eligible_headD [OF Some]
    from "1.prems"(1) Some obtain c where c: "get_scoped s (om_conversation_id m) (om_agent_id m) = Inr c"
      by (subst (asm) claim_loop.simps) (auto split: sum.splits)
    show ?thesis
    proof (cases "assert_message_fence c m")
      case (Inl e)
      with "1.prems" Some c obtain msg code where e: "e = OutFence msg code"
        by (subst (asm) claim_loop.simps) (auto split: outbound_error.splits)
      with "1.prems" Some c Inl obtain s1 m1 where x: "cancel_stale_message E m None code s = Inr (s1, m1)"
        and rest: "claim_loop E locked worker at s1 = Inr (s', r)"
        by (subst (asm) claim_loop.simps) (auto split: sum.splits)
      have "command_part m1 = command_part m" "outbounds s1 = put_row om_id m1 (outbounds s)"
        using x by (auto simp: cancel_stale_Inr command_part_def frame_simps)
      then have "\<exists>y\<in>set (outbounds s). command_part y = command_part z" if "z \<in> set (outbounds s1)" for z
        using that h by (auto dest!: set_put_rowD)
      with "1.IH" [OF Some c Inl e x refl rest "1.prems"(2)] show ?thesis by metis
    next
      case (Inr u)
      with "1.prems"(1) Some c obtain m' a where d: "start_dispatch E worker at m s = Inr (s', m', a)"
        by (subst (asm) claim_loop.simps) (auto split: sum.splits)
      then have "command_part m' = command_part m" "outbounds s' = put_row om_id m' (outbounds s)"
        using start_dispatch_Inr [OF d] by (auto simp: command_part_def)
      with "1.prems"(2) h show ?thesis by (auto dest!: set_put_rowD)
    qed
  qed
qed

lemma claim_next_source:
  assumes "claim_next_outbound E locked worker_id stale_before now s = Inr (s', r)" "x \<in> set (outbounds s')"
  shows "\<exists>y\<in>set (outbounds s). command_part y = command_part x"
proof -
  from assms(1) obtain actor worker at s1 where
    s1: "recover_each E actor (stale_dispatches locked stale_before s) s = Inr s1" "claim_loop E locked worker at s1 = Inr (s', r)"
    by (auto simp: claim_next_outbound_def recover_stale_dispatches_def Let_def bindE_eq_Inr)
  from claim_loop_source [OF s1(2) assms(2)] obtain y where y: "y \<in> set (outbounds s1)" "command_part y = command_part x" by blast
  have "m \<in> set (outbounds s)" if "m \<in> set (stale_dispatches locked stale_before s)" for m
    using that by (simp add: stale_dispatches_def)
  with recover_each_source [OF s1(1) y(1)] y(2) show ?thesis by metis
qed

lemma command_part_epochs: "command_part m' = command_part m \<Longrightarrow> om_control_version m' = om_control_version m"
  by (auto simp: command_part_def dest: arg_cong [of _ _ om_control_version])

end
