(* ===== verification/OutboundCommands.thy ===== *)
theory OutboundCommands
  imports OutboundClaims
begin

text \<open>
  Enqueueing as an idempotent command: the stored message is the receipt of its (conversation,
  idempotency key), and its payload hash the digest of the command. The digest covers every field
  that identifies a command, so a retry is answered only if it is the same command.
\<close>

section \<open>Receipts\<close>

definition run_enqueue :: "env \<Rightarrow> store \<Rightarrow> outbound_command \<Rightarrow> outbound_error + (store \<times> outbound)" where
  "run_enqueue E s cmd =
     (case enqueue_outbound E s cmd of Inl e \<Rightarrow> Inl e | Inr (s', m, _) \<Rightarrow> Inr (s', m))"

definition enqueue_prepared :: "store \<Rightarrow> outbound_command \<Rightarrow> bool" where
  "enqueue_prepared s cmd = (case prepare_enqueue s cmd of Inl _ \<Rightarrow> False | Inr _ \<Rightarrow> True)"

definition enqueue_digest :: "env \<Rightarrow> store \<Rightarrow> outbound_command \<Rightarrow> string" where
  "enqueue_digest E s cmd =
     (case prepare_enqueue s cmd of
        Inl _ \<Rightarrow> ''''
      | Inr (payload, c, _, destination) \<Rightarrow> outbound_hash E c destination payload cmd)"

definition enqueue_receipt :: "store \<Rightarrow> outbound_command \<Rightarrow> (string \<times> outbound) option" where
  "enqueue_receipt s cmd =
     map_option (\<lambda>m. (om_payload_hash m, m))
       (outbound_receipt s (oc_conversation_id cmd) (strip (oc_idempotency_key cmd)))"

lemma find_put_scoped:
  assumes "find (\<lambda>c. cv_id c = cid \<and> cv_agent_id c = aid) t = Some c" "cv_id d = cid" "cv_agent_id d = aid"
  shows "find (\<lambda>c. cv_id c = cid \<and> cv_agent_id c = aid) (put_row cv_id d t) = Some d"
  using assms by (induction t) (auto simp: put_row_def)

lemma prepare_after:
  assumes "prepare_enqueue s cmd = Inr (payload, c, rid, destination)"
    "conversations s' = put_row cv_id (c\<lparr>cv_next_outbound_sequence := n\<rparr>) (conversations s)"
    "chat_messages s' = chat_messages s"
  shows "prepare_enqueue s' cmd = Inr (payload, c\<lparr>cv_next_outbound_sequence := n\<rparr>, rid, destination)"
proof -
  from assms(1) have g: "get_scoped s (oc_conversation_id cmd) (oc_agent_id cmd) = Inr c"
    and rest: "outbound_target c = Inr (rid, destination)" "check_chat_message s c (oc_chat_message_id cmd) = Inr ()"
      "normalize_outbound (oc_kind cmd) (oc_payload cmd) = Inr payload"
    and keys: "strip (oc_idempotency_key cmd) \<noteq> []" "\<not> 255 < length (strip (oc_idempotency_key cmd))"
      "strip (oc_correlation_id cmd) \<noteq> []" "\<not> 120 < length (strip (oc_correlation_id cmd))"
    by (auto simp: prepare_enqueue_def Let_def bindE_eq_Inr split: if_splits)
  have "get_scoped s' (oc_conversation_id cmd) (oc_agent_id cmd) = Inr (c\<lparr>cv_next_outbound_sequence := n\<rparr>)"
    using g get_scopedD [OF g]
    by (simp add: get_scoped_def scoped_conversation_def assms(2) find_put_scoped split: option.splits)
  moreover have "outbound_target (c\<lparr>cv_next_outbound_sequence := n\<rparr>) = Inr (rid, destination)"
    using rest(1) by (auto simp: outbound_target_def Let_def split: option.splits if_splits)
  moreover have "check_chat_message s' (c\<lparr>cv_next_outbound_sequence := n\<rparr>) (oc_chat_message_id cmd) = Inr ()"
    using rest(2) by (auto simp: check_chat_message_def get_message_def assms(3) split: option.splits if_splits)
  ultimately show ?thesis using rest(3) keys by (simp add: prepare_enqueue_def Let_def)
qed

lemma hash_counter [simp]:
  "outbound_hash E (c\<lparr>cv_next_outbound_sequence := n\<rparr>) destination payload cmd = outbound_hash E c destination payload cmd"
  by (simp add: outbound_hash_def outbound_literal_def split: option.splits)

lemma enqueue_known:
  assumes "prepare_enqueue s cmd = Inr (payload, c, rid, destination)"
    "outbound_receipt s (oc_conversation_id cmd) (strip (oc_idempotency_key cmd)) = Some m"
  shows "enqueue_outbound E s cmd =
    (if om_payload_hash m \<noteq> outbound_hash E c destination payload cmd then Inl OutIdempotencyConflict
     else Inr (s, m, True))"
  using assms prepare_enqueueD [OF assms(1)] by (simp add: enqueue_outbound_def Let_def)

lemma enqueue_filed:
  assumes "enqueue_outbound E s cmd = Inr (s', m, d)"
  shows "\<exists>payload c c' rid destination.
    prepare_enqueue s cmd = Inr (payload, c, rid, destination) \<and>
    prepare_enqueue s' cmd = Inr (payload, c', rid, destination) \<and>
    outbound_hash E c' destination payload cmd = outbound_hash E c destination payload cmd \<and>
    outbound_receipt s' (oc_conversation_id cmd) (strip (oc_idempotency_key cmd)) = Some m \<and>
    om_payload_hash m = outbound_hash E c destination payload cmd \<and>
    cv_id c' = cv_id c \<and> cv_agent_id c' = cv_agent_id c"
proof (cases d)
  case True
  from assms obtain payload c rid destination where
    p: "prepare_enqueue s cmd = Inr (payload, c, rid, destination)"
    by (auto simp: enqueue_outbound_def bindE_eq_Inr)
  note pd = prepare_enqueueD [OF p]
  from assms p True have "outbound_receipt s (cv_id c) (strip (oc_idempotency_key cmd)) = Some m" "s' = s"
    "om_payload_hash m = outbound_hash E c destination payload cmd"
    by (auto simp: enqueue_outbound_def Let_def bindE_eq_Inr split: option.splits if_splits prod.splits)
  with p pd show ?thesis by auto
next
  case False
  with assms have "enqueue_outbound E s cmd = Inr (s', m, False)" by simp
  then show ?thesis
  proof (cases rule: enqueue_new)
    case (1 payload c rid destination route connection)
    note pd = prepare_enqueueD [OF 1(1)]
    from prepare_after [OF 1(1) 1(10) 1(11)] have
      "prepare_enqueue s' cmd = Inr (payload, c\<lparr>cv_next_outbound_sequence := cv_next_outbound_sequence c + 1\<rparr>, rid, destination)" .
    moreover have "outbound_receipt s' (oc_conversation_id cmd) (strip (oc_idempotency_key cmd)) = Some m"
      using 1(2) pd unfolding outbound_receipt_def 1(8) by (simp add: find_append 1(5) queued_message_def)
    ultimately show ?thesis using 1(1) by (auto simp: 1(5) queued_message_def)
  qed
qed

interpretation outbound_commands: idempotent_command "run_enqueue E" enqueue_prepared enqueue_receipt
  "enqueue_digest E" OutIdempotencyConflict for E
proof
  fix s cmd r
  assume v: "enqueue_prepared s cmd" and r: "enqueue_receipt s cmd = Some (enqueue_digest E s cmd, r)"
  then show "run_enqueue E s cmd = Inr (s, r)"
    by (auto simp: enqueue_prepared_def enqueue_receipt_def enqueue_digest_def run_enqueue_def enqueue_known
        split: sum.splits)
next
  fix s cmd h r
  assume "enqueue_prepared s cmd" "enqueue_receipt s cmd = Some (h, r)" "h \<noteq> enqueue_digest E s cmd"
  then show "run_enqueue E s cmd = Inl OutIdempotencyConflict"
    by (auto simp: enqueue_prepared_def enqueue_receipt_def enqueue_digest_def run_enqueue_def enqueue_known
        split: sum.splits)
next
  fix s cmd s' r assume "run_enqueue E s cmd = Inr (s', r)"
  then obtain d where "enqueue_outbound E s cmd = Inr (s', r, d)"
    by (auto simp: run_enqueue_def split: sum.splits prod.splits)
  from enqueue_filed [OF this]
  show "enqueue_prepared s cmd \<and> enqueue_prepared s' cmd \<and> enqueue_digest E s' cmd = enqueue_digest E s cmd \<and>
      enqueue_receipt s' cmd = Some (enqueue_digest E s cmd, r)"
    by (auto simp: enqueue_prepared_def enqueue_receipt_def enqueue_digest_def)
qed

text \<open>Enqueueing is idempotent: repeating a command that succeeded, any number of times, returns
  the stored message and changes nothing, whatever the clock and the random source do.\<close>

theorem enqueue_retry:
  assumes "run_enqueue E s cmd = Inr (s', m)"
  shows "((\<lambda>x. bindE x (\<lambda>(t, _). run_enqueue E t cmd)) ^^ n) (Inr (s', m)) = Inr (s', m)"
  using assms by (rule outbound_commands.retries)

section \<open>A retry is the same command\<close>

lemma outbound_literal_inj:
  assumes "outbound_literal c destination payload cmd = outbound_literal c' destination' payload' cmd'"
  shows "cv_agent_id c = cv_agent_id c' \<and> destination = destination' \<and> payload = payload' \<and>
    oc_chat_message_id cmd = oc_chat_message_id cmd' \<and> oc_control_version cmd = oc_control_version cmd' \<and>
    oc_automation_agent_id cmd = oc_automation_agent_id cmd' \<and>
    oc_automation_version cmd = oc_automation_version cmd' \<and> oc_kind cmd = oc_kind cmd' \<and>
    oc_sender_admin_id cmd = oc_sender_admin_id cmd' \<and> oc_sender_type cmd = oc_sender_type cmd'"
  using assms by (simp add: outbound_literal_def)

lemma outbound_hash_text:
  assumes "canonical False (outbound_literal c destination payload cmd) =
      canonical False (outbound_literal c' destination' payload' cmd')"
    "float_free (JObj payload)" "float_free (JObj payload')"
  shows "outbound_literal c destination payload cmd = outbound_literal c' destination' payload' cmd'"
proof (rule canonical_inj [OF assms(1)])
  have opt: "float_free (opt_json uuid_json x)" "float_free (opt_json JInt i)" for x i
    by (auto simp: opt_json_def uuid_json_def split: option.splits)
  show "list_all (\<lambda>kv. float_free (snd kv)) (outbound_literal c destination payload cmd)"
    "list_all (\<lambda>kv. float_free (snd kv)) (outbound_literal c' destination' payload' cmd')"
    using assms(2,3) opt by (simp_all add: outbound_literal_def uuid_json_def)
qed (simp_all add: outbound_literal_def)

text \<open>A duplicate is answered only to the command that created it: if SHA-256 does not collide
  on the texts of the two commands and neither payload holds a float, a command that is answered
  with an existing message has the kind, payload, chat message, sender, control epoch and
  automation epoch of the command that enqueued it.\<close>

theorem duplicate_is_same_command:
  assumes "enqueue_outbound E s cmd = Inr (s', m, d)" "enqueue_outbound E s' cmd' = Inr (t, m, True)"
    "prepare_enqueue s cmd = Inr (payload, c, rid, destination)"
    "prepare_enqueue s' cmd' = Inr (payload', c', rid', destination')"
    "float_free (JObj payload)" "float_free (JObj payload')"
    "sha256 E (canonical False (outbound_literal c destination payload cmd)) =
       sha256 E (canonical False (outbound_literal c' destination' payload' cmd')) \<longrightarrow>
     canonical False (outbound_literal c destination payload cmd) =
       canonical False (outbound_literal c' destination' payload' cmd')"
  shows "payload' = payload \<and> destination' = destination \<and> oc_kind cmd' = oc_kind cmd \<and>
    oc_chat_message_id cmd' = oc_chat_message_id cmd \<and> oc_sender_type cmd' = oc_sender_type cmd \<and>
    oc_sender_admin_id cmd' = oc_sender_admin_id cmd \<and> oc_control_version cmd' = oc_control_version cmd \<and>
    oc_automation_agent_id cmd' = oc_automation_agent_id cmd \<and>
    oc_automation_version cmd' = oc_automation_version cmd"
proof -
  have "om_payload_hash m = outbound_hash E c destination payload cmd"
    using enqueue_filed [OF assms(1)] assms(3) by auto
  moreover have "om_payload_hash m = outbound_hash E c' destination' payload' cmd'"
    using enqueue_filed [OF assms(2)] assms(4) by auto
  ultimately have "canonical False (outbound_literal c destination payload cmd) =
      canonical False (outbound_literal c' destination' payload' cmd')"
    using assms(7) by (simp add: outbound_hash_def command_digest_def)
  from outbound_literal_inj [OF outbound_hash_text [OF this assms(5,6)]] show ?thesis by simp
qed

section \<open>What a first enqueue stores\<close>

lemma resolve_route_snapshotD:
  assumes "resolve_route_snapshot s c = Inr (r, n)"
  shows "r \<in> set (routes s) \<and> Some (rt_id r) = cv_channel_route_id c \<and> rt_agent_id r = cv_agent_id c \<and>
    rt_channel r = cv_channel c \<and> rt_is_active r \<and>
    n \<in> set (connections s) \<and> cn_id n = rt_connection_id r \<and> cn_channel n = rt_channel r \<and> cn_is_active n"
  using assms by (auto simp: resolve_route_snapshot_def split: option.splits dest: find_SomeD)

text \<open>A first enqueue takes the next sequence of the conversation, behind the fence: the sender
  owns the conversation, the snapshot is that of an active route and connection of the
  conversation's agent and channel, the message is queued at the conversation's counter, which is
  advanced by one, and every other row is untouched.\<close>

theorem enqueue_first:
  assumes "outbound_inv s" "enqueue_outbound E s cmd = Inr (s', m, False)"
  shows "\<exists>c r n. c \<in> set (conversations s) \<and> cv_id c = oc_conversation_id cmd \<and> r \<in> set (routes s) \<and> rt_is_active r \<and>
    n \<in> set (connections s) \<and> cn_is_active n \<and> cv_channel_route_id c = Some (rt_id r) \<and>
    om_channel_route_id m = rt_id r \<and> om_channel m = Some (cv_channel c) \<and> om_connection_id m = Some (cn_id n) \<and>
    om_route_version m = Some (rt_version r) \<and> om_connection_version m = Some (cn_version n) \<and>
    assert_sender_fence c (oc_sender_type cmd) (oc_sender_admin_id cmd) (oc_control_version cmd)
      (oc_automation_agent_id cmd) (oc_automation_version cmd) = Inr () \<and>
    om_status m = OutQueued \<and> om_sequence m = cv_next_outbound_sequence c \<and>
    outbounds s' = outbounds s @ [m] \<and>
    get_conversation s' (cv_id c) = Some (c\<lparr>cv_next_outbound_sequence := om_sequence m + 1\<rparr>) \<and>
    (\<forall>k. k \<noteq> cv_id c \<longrightarrow> get_conversation s' k = get_conversation s k) \<and>
    (\<forall>q\<in>set (outbounds s). om_conversation_id q = om_conversation_id m \<longrightarrow> om_sequence q < om_sequence m)"
  using assms(2)
proof (cases rule: enqueue_new)
  case (1 payload c rid destination r n)
  note p = prepare_enqueueD [OF 1(1)] and route = resolve_route_snapshotD [OF 1(4)]
  have ok: "conversations_ok s" "numbering_ok s" using assms(1) by (auto simp: outbound_inv_def numbering_ok_def)
  let ?c = "c\<lparr>cv_next_outbound_sequence := cv_next_outbound_sequence c + 1\<rparr>"
  have "get_conversation s (cv_id c) \<noteq> None"
    using p by (auto simp: get_conversation_def find_None_iff)
  then have "get_conversation s' (cv_id c) = Some ?c"
    unfolding get_conversation_def 1(10) by (intro find_put_row_same) auto
  moreover have "get_conversation s' k = get_conversation s k" if "k \<noteq> cv_id c" for k
    unfolding get_conversation_def 1(10) using that by (intro find_put_row_other) auto
  moreover have "om_sequence q < om_sequence m"
    if q: "q \<in> set (outbounds s)" "om_conversation_id q = om_conversation_id m" for q
  proof -
    from ok(2) q(1) obtain d where d: "d \<in> set (conversations s)" "cv_id d = om_conversation_id q"
      "om_sequence q < cv_next_outbound_sequence d" by (auto simp: numbering_ok_def)
    have "cv_id d = cv_id c" using d(2) q(2) by (simp add: 1(5) queued_message_def)
    then have "d = c" using ok(1) d(1) p same_key [of cv_id "conversations s" d c] by (simp add: conversations_ok_def)
    with d(3) show ?thesis by (simp add: 1(5) queued_message_def)
  qed
  moreover have "om_channel_route_id m = rt_id r" using route p by (simp add: 1(5) queued_message_def)
  ultimately show ?thesis
    using p route 1(3,8) by (intro exI [of _ c] exI [of _ r] exI [of _ n]) (auto simp: 1(5) queued_message_def)
qed

definition config_checks :: "store \<Rightarrow> bool" where
  "config_checks s \<longleftrightarrow> list_all conversation_checks (conversations s) \<and> list_all route_checks (routes s) \<and>
     list_all connection_checks (connections s)"

text \<open>C34: an admissible command is always stored: when the checks, the fence and the route resolution
  pass and the key is new, \<open>enqueue\<close> succeeds, that is the new row violates no constraint of its
  table, over rows that satisfy their CHECK constraints, with an unused identifier for the new
  row, provided an operator's command names no automation epoch (the fence does not look at one).\<close>

theorem enqueue_admissible_succeeds:
  assumes "outbound_inv s" "config_checks s" "sha256_ok E" "uuid4 E (draws s) \<notin> om_id ` set (outbounds s)"
    "oc_sender_type cmd = ByOperator \<longrightarrow> oc_automation_agent_id cmd = None \<and> oc_automation_version cmd = None"
    "prepare_enqueue s cmd = Inr (payload, c, rid, destination)"
    "outbound_receipt s (oc_conversation_id cmd) (strip (oc_idempotency_key cmd)) = None"
    "assert_sender_fence c (oc_sender_type cmd) (oc_sender_admin_id cmd) (oc_control_version cmd)
       (oc_automation_agent_id cmd) (oc_automation_version cmd) = Inr ()"
    "resolve_route_snapshot s c = Inr (r, n)"
  shows "\<exists>s' m. enqueue_outbound E s cmd = Inr (s', m, False)"
proof -
  let ?m = "queued_message E (uuid4 E (draws s)) c r n rid payload destination
      (outbound_hash E c destination payload cmd) cmd"
  note p = prepare_enqueueD [OF assms(6)] and route = resolve_route_snapshotD [OF assms(9)]
  note fence = assms(8) [unfolded assert_sender_fence_Inr]
  have cc: "conversation_checks c" and rc: "route_checks r" and nc: "connection_checks n"
    using assms(2) p route by (auto simp: config_checks_def list_all_iff)
  have hash: "length (outbound_hash E c destination payload cmd) = 64"
    using assms(3) by (simp add: outbound_hash_def command_digest_def sha256_ok_def sha256_hex_def)
  have shape: "payload_shape (oc_kind cmd) payload" using p accepted_payload_safe by blast
  have "outbound_checks ?m"
    using fence p cc rc nc hash shape assms(5)
    by (cases "oc_sender_type cmd")
      (auto simp: outbound_checks_def queued_message_def conversation_checks_def route_checks_def connection_checks_def)
  moreover have "om_id x \<noteq> om_id ?m \<and> \<not> outbound_clash ?m x" if x: "x \<in> set (outbounds s)" for x
  proof -
    have ok: "conversations_ok s" "numbering_ok s" using assms(1) by (auto simp: outbound_inv_def numbering_ok_def)
    have "om_id x \<noteq> om_id ?m" using assms(4) x by (metis imageI queued_message_def outbound.select_convs(1))
    moreover have "om_idempotency_key x \<noteq> strip (oc_idempotency_key cmd)" if "om_conversation_id x = cv_id c"
      using assms(7) x that p by (auto simp: outbound_receipt_def find_None_iff)
    moreover have "om_sequence x \<noteq> cv_next_outbound_sequence c" if "om_conversation_id x = cv_id c"
    proof -
      from ok(2) x obtain d where d: "d \<in> set (conversations s)" "cv_id d = om_conversation_id x"
        "om_sequence x < cv_next_outbound_sequence d" by (auto simp: numbering_ok_def)
      with that ok(1) p have "d = c" using same_key [of cv_id "conversations s" d c] by (simp add: conversations_ok_def)
      with d(3) show ?thesis by simp
    qed
    ultimately show ?thesis by (auto simp: outbound_clash_def queued_message_def)
  qed
  ultimately have "insert_outbound ?m (put_conversation (c\<lparr>cv_next_outbound_sequence := cv_next_outbound_sequence c + 1\<rparr>)
      (s\<lparr>draws := Suc (draws s)\<rparr>)) \<noteq> Inl e" for e
    by (auto simp: insert_outbound_def list_ex_iff put_conversation_def)
  then obtain s3 where "insert_outbound ?m (put_conversation (c\<lparr>cv_next_outbound_sequence := cv_next_outbound_sequence c + 1\<rparr>)
      (s\<lparr>draws := Suc (draws s)\<rparr>)) = Inr s3"
    by (metis sum.exhaust)
  then show ?thesis using assms(6-9) p by (simp add: enqueue_outbound_def Let_def fresh_def)
qed

end
