(* ===== verification/OutboundWitnesses.thy ===== *)
theory OutboundWitnesses
  imports OutboundCommands
begin

text \<open>
  Concrete runs of the outbound queue: a conversation with a message to enqueue and a queue whose
  head is claimed, recovered and completed. They show that the hypotheses of the properties hold
  together on data the operations produce.
\<close>

definition sample_command :: outbound_command where
  "sample_command = \<lparr>oc_conversation_id = UUID 1, oc_agent_id = UUID 2, oc_chat_message_id = None,
     oc_kind = KText, oc_payload = PDict [(KStr ''text'', PStr ''hi'')], oc_sender_type = ByAutomation,
     oc_control_version = 0, oc_automation_agent_id = Some (UUID 2), oc_automation_version = Some 0,
     oc_idempotency_key = ''k1'', oc_correlation_id = ''c1'', oc_sender_admin_id = None\<rparr>"

definition sample_outbound :: "128 word \<Rightarrow> int \<Rightarrow> string \<Rightarrow> outbound" where
  "sample_outbound i n k = \<lparr>om_id = UUID i, om_created_at = n, om_conversation_id = UUID 1, om_agent_id = UUID 2,
     om_channel_route_id = UUID 4, om_channel = Some ''whatsapp'', om_adapter_key = Some ''meta_whatsapp_cloud'',
     om_connection_id = Some (UUID 5), om_route_version = Some 1, om_connection_version = Some 1,
     om_chat_message_id = None, om_kind = KText, om_payload = [(''text'', JStr ''hi'')],
     om_destination = ''5491100'', om_sender_type = ByAutomation, om_sender_admin_id = None,
     om_control_version = 0, om_automation_agent_id = Some (UUID 2), om_automation_version = Some 0,
     om_sequence = n, om_idempotency_key = k, om_payload_hash = replicate 64 (CHR ''a''),
     om_correlation_id = ''c1'', om_status = OutQueued, om_provider_message_id = None,
     om_last_attempt_number = 0, om_resolution_version = 0, om_locked_by = None, om_locked_at = None,
     om_accepted_at = None, om_delivered_at = None\<rparr>"

definition sample_enqueued_event :: "128 word \<Rightarrow> 128 word \<Rightarrow> delivery_event" where
  "sample_enqueued_event i m = \<lparr>de_id = UUID i, de_outbound_message_id = UUID m, de_attempt_id = None,
     de_event_type = DEnqueued, de_from_status = None, de_to_status = OutQueued,
     de_actor_type = AutomationActor, de_actor_id = None, de_safe_code = None, de_created_at = 0\<rparr>"

definition sample_queue :: store where
  "sample_queue = sample_store\<lparr>conversations := [sample_conversation\<lparr>cv_next_outbound_sequence := 3\<rparr>],
     outbounds := [sample_outbound 201 1 ''k1'', sample_outbound 202 2 ''k2''],
     delivery_events := [sample_enqueued_event 301 201, sample_enqueued_event 302 202]\<rparr>"

lemma sample_queue_inv: "outbound_inv sample_queue"
  unfolding outbound_inv_def
proof (intro conjI)
  show "rows_ok sample_queue"
    by (simp add: rows_ok_def sample_queue_def sample_outbound_def outbound_checks_def payload_shape_def
        is_jstr_def field_def outbound_clash_def)
  show "numbering_ok sample_queue"
    by (simp add: numbering_ok_def sample_queue_def sample_outbound_def conversations_ok_def sample_conversation_def)
  show "attempts_ok sample_queue"
    by (simp add: attempts_ok_def sample_queue_def single_attempt_def attempts_of_def sample_outbound_def
        sample_store_def empty_store_def)
  show "trail_ok sample_queue"
    by (simp add: trail_ok_def sample_queue_def events_of_def sample_outbound_def sample_enqueued_event_def)
  show "lanes_ok om_conversation_id om_sequence (\<lambda>m. om_status m = OutDispatching) blocking (outbounds sample_queue)"
    by (simp add: lanes_ok_def sample_queue_def sample_outbound_def)
qed

lemma sample_eligible: "eligible_head (\<lambda>_. False) sample_queue = Some (sample_outbound 201 1 ''k1'')"
  by (simp add: eligible_head_def first_by_def sample_queue_def sample_outbound_def blocking_def)

lemma sample_claim: "\<exists>s' m a. claim_next_outbound sample_env (\<lambda>_. False) ''w1'' 0 None sample_queue = Inr (s', Some (m, a)) \<and>
    m = sample_outbound 201 1 ''k1'' \<lparr>om_status := OutDispatching, om_last_attempt_number := 1,
      om_locked_by := Some ''w1'', om_locked_at := Some 50\<rparr> \<and> at_id a = UUID 1000 \<and> at_outbound_message_id a = UUID 201"
proof -
  let ?m = "sample_outbound 201 1 ''k1''"
  have scoped: "get_scoped sample_queue (UUID 1) (UUID 2) = Inr (sample_conversation\<lparr>cv_next_outbound_sequence := 3\<rparr>)"
    by (simp add: get_scoped_def scoped_conversation_def sample_queue_def sample_conversation_def)
  have fence: "assert_message_fence (sample_conversation\<lparr>cv_next_outbound_sequence := 3\<rparr>) ?m = Inr ()"
    by (simp add: assert_message_fence_def assert_route_snapshot_def assert_sender_fence_def
        sample_outbound_def sample_conversation_def)
  have worker: "normalize_worker n ''w1'' = Inr ''w1''" for n
    by (simp add: normalize_worker_def strip_def is_space_def)
  have stale: "stale_dispatches (\<lambda>_. False) 0 sample_queue = []"
    by (simp add: stale_dispatches_def sample_queue_def sample_outbound_def)
  have ids: "om_conversation_id ?m = UUID 1" "om_agent_id ?m = UUID 2" by (simp_all add: sample_outbound_def)
  show ?thesis
    apply (simp add: claim_next_outbound_def worker recover_stale_dispatches_def stale Let_def)
    apply (subst claim_loop.simps)
    apply (simp add: sample_eligible ids scoped fence)
    apply (simp add: start_dispatch_def update_outbound_def Let_def insert_attempt_def fresh_def
      attempt_checks_def sample_queue_def sample_outbound_def outbound_checks_def payload_shape_def is_jstr_def
      field_def outbound_clash_def sample_env_def sample_store_def empty_store_def)
    done
qed

lemma sample_claimed: "\<exists>s' m a. claim_next_outbound sample_env (\<lambda>_. False) ''w1'' 0 None sample_queue = Inr (s', Some (m, a)) \<and>
    om_id m = UUID 201 \<and> om_conversation_id m = UUID 1 \<and> om_sequence m = 1 \<and> om_status m = OutDispatching \<and>
    outbound_op\<^sup>*\<^sup>* sample_queue s' \<and> m \<in> set (outbounds s')"
proof -
  from sample_claim obtain s' m a where
    r: "claim_next_outbound sample_env (\<lambda>_. False) ''w1'' 0 None sample_queue = Inr (s', Some (m, a))"
    and m: "m = sample_outbound 201 1 ''k1'' \<lparr>om_status := OutDispatching, om_last_attempt_number := 1,
      om_locked_by := Some ''w1'', om_locked_at := Some 50\<rparr>" by blast
  have "outbound_op sample_queue s'" by (rule outbound_op.op_claim [OF r])
  moreover have "m \<in> set (outbounds s')"
  proof -
    from r obtain w at s1 n where
      rec: "recover_stale_dispatches sample_env (\<lambda>_. False) 0 w sample_queue = Inr (s1, n)"
      and loop: "claim_loop sample_env (\<lambda>_. False) w at s1 = Inr (s', Some (m, a))"
      by (auto simp: claim_next_outbound_def Let_def bindE_eq_Inr)
    from claim_loop_cases [OF loop] obtain t h where "eligible_head (\<lambda>_. False) t = Some h"
      "start_dispatch sample_env w at h t = Inr (s', m, a)" by auto
    then show ?thesis using start_dispatch_Inr eligible_headD by (fastforce simp: set_put_row)
  qed
  ultimately show ?thesis using r m by (auto simp: sample_outbound_def)
qed

lemma sample_command_prepared:
  "prepare_enqueue sample_store sample_command = Inr ([(''text'', JStr ''hi'')], sample_conversation, UUID 4, ''5491100'')"
  by (simp add: prepare_enqueue_def sample_command_def strip_def is_space_def normalize_outbound_def sorted_items_def
      str_keys_def max_outbound_bytes_def utf8_length_def quote_def escape_char_def short_escape_def
      validate_text_payload_def require_exact_keys_def require_text_def field_def get_scoped_def
      scoped_conversation_def sample_store_def empty_store_def sample_conversation_def outbound_target_def
      check_chat_message_def)

lemma sample_route: "\<exists>r n. resolve_route_snapshot sample_store sample_conversation = Inr (r, n)"
  by (simp add: resolve_route_snapshot_def sample_store_def sample_conversation_def)

lemma sample_store_inv: "outbound_inv sample_store" "config_checks sample_store"
  by (auto intro!: outbound_inv_empty simp: sample_store_def empty_store_def conversations_ok_def
      sample_conversation_def config_checks_def conversation_checks_def route_checks_def connection_checks_def is_lower_def)

theorem enqueue_admissible_succeeds_witness:
  "\<exists>s' m. enqueue_outbound sample_env sample_store sample_command = Inr (s', m, False)"
proof -
  from sample_route obtain r n where "resolve_route_snapshot sample_store sample_conversation = Inr (r, n)" by blast
  then show ?thesis
    by (intro enqueue_admissible_succeeds [OF sample_store_inv sample_sha256_ok _ _ sample_command_prepared])
      (simp_all add: sample_store_def empty_store_def sample_command_def outbound_receipt_def assert_sender_fence_def
        sample_conversation_def)
qed

lemma sample_enqueue: "\<exists>s' m. enqueue_outbound sample_env sample_store sample_command = Inr (s', m, False)"
proof -
  have hash: "outbound_hash sample_env c d p cmd = replicate 64 (CHR ''a'')" for c d p cmd
    by (simp add: outbound_hash_def command_digest_def sample_env_def)
  have rest: "resolve_route_snapshot sample_store sample_conversation = Inr (hd (routes sample_store), hd (connections sample_store))"
    "outbound_receipt sample_store k t = None" for k t
    by (simp_all add: resolve_route_snapshot_def sample_store_def empty_store_def sample_conversation_def outbound_receipt_def)
  show ?thesis
    unfolding enqueue_outbound_def
    by (simp add: sample_command_prepared Let_def hash rest, simp add: sample_command_def assert_sender_fence_def fresh_def
        insert_outbound_def put_conversation_def sample_store_def empty_store_def queued_message_def
        outbound_checks_def payload_shape_def is_jstr_def field_def strip_def is_space_def sample_conversation_def)
qed

theorem outbound_fifo_witness:
  "\<exists>s' r. outbound_op\<^sup>*\<^sup>* sample_queue s' \<and> r \<in> set (outbounds s') \<and> om_status r = OutDispatching \<and>
     (\<forall>q\<in>set (outbounds s'). om_conversation_id q = om_conversation_id r \<and> om_status q = OutDispatching \<longrightarrow> q = r)"
proof -
  from sample_claimed obtain s' m where m: "outbound_op\<^sup>*\<^sup>* sample_queue s'" "m \<in> set (outbounds s')" "om_status m = OutDispatching"
    by blast
  with outbound_fifo [OF sample_queue_inv m] show ?thesis by blast
qed

theorem at_most_one_attempt_witness:
  "\<exists>s' m. outbound_op\<^sup>*\<^sup>* sample_queue s' \<and> m \<in> set (outbounds s') \<and> om_status m = OutDispatching \<and> length (attempts_of s' (om_id m)) \<le> 1"
proof -
  from sample_claimed obtain s' m where m: "outbound_op\<^sup>*\<^sup>* sample_queue s'" "m \<in> set (outbounds s')" "om_status m = OutDispatching"
    by blast
  with at_most_one_attempt [OF sample_queue_inv m(1,2)] show ?thesis by blast
qed

theorem delivery_trail_witness:
  "\<exists>s' m. outbound_op\<^sup>*\<^sup>* sample_queue s' \<and> m \<in> set (outbounds s') \<and> om_id m = UUID 201 \<and>
     chain None (events_of s' (UUID 201)) (Some OutDispatching)"
proof -
  from sample_claimed obtain s' m where m: "outbound_op\<^sup>*\<^sup>* sample_queue s'" "m \<in> set (outbounds s')" "om_status m = OutDispatching"
    "om_id m = UUID 201" by blast
  with delivery_trail [OF sample_queue_inv m(1,2)] show ?thesis by auto
qed

theorem outbound_command_preserved_witness:
  "\<exists>s'. outbound_op\<^sup>*\<^sup>* sample_queue s' \<and>
     (\<exists>m'\<in>set (outbounds s'). command_part m' = command_part (sample_outbound 202 2 ''k2''))"
proof -
  from sample_claimed obtain s' where s': "outbound_op\<^sup>*\<^sup>* sample_queue s'" by blast
  have "sample_outbound 202 2 ''k2'' \<in> set (outbounds sample_queue)" by (simp add: sample_queue_def)
  with outbound_command_preserved [OF sample_queue_inv s'] s' show ?thesis by blast
qed

theorem claim_respects_fences_witness:
  "\<exists>s' m a. claim_next_outbound sample_env (\<lambda>_. False) ''w1'' 0 None sample_queue = Inr (s', Some (m, a)) \<and>
     attempts_of s' (om_id m) = [a]"
proof -
  from sample_claim obtain s' m a where
    r: "claim_next_outbound sample_env (\<lambda>_. False) ''w1'' 0 None sample_queue = Inr (s', Some (m, a))" by blast
  with claim_respects_fences [OF sample_queue_inv r] show ?thesis by blast
qed

definition sample_blocked_queue :: store where
  "sample_blocked_queue = sample_queue\<lparr>outbounds :=
     [(sample_outbound 201 1 ''k1'')\<lparr>om_status := OutUnknown\<rparr>, sample_outbound 202 2 ''k2'']\<rparr>"

theorem claim_none_exhausted_witness:
  "\<exists>q\<in>set (outbounds sample_blocked_queue). om_sequence q < 2 \<and> om_status q = OutUnknown"
proof -
  have "claim_next_outbound sample_env (\<lambda>_. False) ''w1'' 0 None sample_blocked_queue = Inr (sample_blocked_queue, None)"
    apply (simp add: claim_next_outbound_def normalize_worker_def strip_def is_space_def recover_stale_dispatches_def
        stale_dispatches_def sample_blocked_queue_def sample_outbound_def)
    apply (subst claim_loop.simps)
    apply (simp add: eligible_head_def sample_blocked_queue_def sample_outbound_def blocking_def first_by_def)
    done
  from claim_none_exhausted [OF this, of "sample_outbound 202 2 ''k2''"] show ?thesis
    by (auto simp: sample_blocked_queue_def sample_outbound_def)
qed

theorem claim_next_total_witness:
  "\<exists>s' r. claim_next_outbound sample_env (\<lambda>_. False) ''w1'' 9 None sample_queue = Inr (s', r) \<and> outbound_inv s'"
  by (rule claim_next_total [OF sample_queue_inv])
    (simp_all add: fresh_attempts_def sample_queue_def sample_store_def empty_store_def strip_def is_space_def)

theorem enqueue_retry_witness:
  "\<exists>s' m. run_enqueue sample_env sample_store sample_command = Inr (s', m) \<and>
     run_enqueue sample_env s' sample_command = Inr (s', m)"
proof -
  from sample_enqueue obtain s' m where "enqueue_outbound sample_env sample_store sample_command = Inr (s', m, False)" by blast
  then have r: "run_enqueue sample_env sample_store sample_command = Inr (s', m)" by (simp add: run_enqueue_def)
  from enqueue_retry [OF r, of 1] r show ?thesis by auto
qed

theorem enqueue_first_witness:
  "\<exists>s' m. enqueue_outbound sample_env sample_store sample_command = Inr (s', m, False) \<and> om_status m = OutQueued"
proof -
  from sample_enqueue obtain s' m where e: "enqueue_outbound sample_env sample_store sample_command = Inr (s', m, False)" by blast
  with enqueue_first [OF sample_store_inv(1) e] show ?thesis by blast
qed

theorem duplicate_is_same_command_witness:
  "\<exists>s' m. enqueue_outbound sample_env sample_store sample_command = Inr (s', m, False) \<and>
     enqueue_outbound sample_env s' sample_command = Inr (s', m, True) \<and> oc_kind sample_command = KText"
proof -
  from sample_enqueue obtain s' m where e: "enqueue_outbound sample_env sample_store sample_command = Inr (s', m, False)" by blast
  from enqueue_filed [OF e] obtain c' where
    p: "prepare_enqueue s' sample_command = Inr ([(''text'', JStr ''hi'')], c', UUID 4, ''5491100'')"
    and k: "outbound_receipt s' (oc_conversation_id sample_command) (strip (oc_idempotency_key sample_command)) = Some m"
      "om_payload_hash m = outbound_hash sample_env c' ''5491100'' [(''text'', JStr ''hi'')] sample_command"
      "cv_id c' = cv_id sample_conversation" "cv_agent_id c' = cv_agent_id sample_conversation"
      "outbound_hash sample_env c' ''5491100'' [(''text'', JStr ''hi'')] sample_command =
       outbound_hash sample_env sample_conversation ''5491100'' [(''text'', JStr ''hi'')] sample_command"
    by (auto simp: sample_command_prepared)
  have d: "enqueue_outbound sample_env s' sample_command = Inr (s', m, True)"
    using enqueue_known [OF p k(1)] k(2) by simp
  have "cv_channel_route_id c' = cv_channel_route_id sample_conversation"
    using prepare_enqueueD [OF p] by (simp add: sample_conversation_def)
  then have "outbound_literal c' t q sample_command = outbound_literal sample_conversation t q sample_command" for t q
    using k(3,4) by (simp add: outbound_literal_def)
  then have "oc_kind sample_command = oc_kind sample_command"
    using duplicate_is_same_command [OF e d sample_command_prepared p] by simp
  with e d show ?thesis by (auto simp: sample_command_def)
qed

end
