(* ===== verification/ConversationEvents.thy ===== *)
theory ConversationEvents
  imports Store Contracts
begin

text \<open>
  \<open>services/conversation_events.py\<close>: the append-only event log of a conversation. \<open>publish\<close>
  validates an event, allocates the next cursor of the conversation and appends the row;
  \<open>list_after\<close> reads a page after a cursor. The lemmas show that the cursors of a conversation are
  exactly 1, 2, 3, ... and that a page is a contiguous part of the log, so that a reader who
  follows the cursors misses and repeats nothing.
\<close>

datatype event_error = EventConversationNotFound | InvalidEvent string

fun visibility_value :: "visibility \<Rightarrow> string" where
  "visibility_value Public = ''public''"
| "visibility_value Internal = ''internal''"

text \<open>\<open>ConversationEventVisibility(text)\<close>; \<open>None\<close> is its \<open>ValueError\<close>.\<close>

definition visibility_of :: "string \<Rightarrow> visibility option" where
  "visibility_of t = (if t = ''public'' then Some Public else if t = ''internal'' then Some Internal else None)"

lemma visibility_of_value [simp]: "visibility_of (visibility_value v) = Some v"
  by (cases v) (auto simp: visibility_of_def)

section \<open>Validation\<close>

text \<open>The expression \<open>^[a-z][a-z0-9]*(?:\.[a-z0-9]+){1,5}$\<close>: two to six words separated by
  dots, the first of which starts with a letter.\<close>

definition event_word :: "string \<Rightarrow> bool" where
  "event_word w \<longleftrightarrow> w \<noteq> [] \<and> list_all (\<lambda>c. is_lower c \<or> is_digit c) w"

definition event_type_pattern :: "string \<Rightarrow> bool" where
  "event_type_pattern t = (let ws = split_on (CHR ''.'') t in
     2 \<le> length ws \<and> length ws \<le> 6 \<and> list_all event_word ws \<and> is_lower (hd (hd ws)))"

definition max_payload_bytes :: nat where "max_payload_bytes = 32768"

definition max_payload_depth :: nat where "max_payload_depth = 8"

fun assert_depth :: "nat \<Rightarrow> pyval \<Rightarrow> event_error + unit"
  and assert_depth_items :: "nat \<Rightarrow> (pykey \<times> pyval) list \<Rightarrow> event_error + unit"
  and assert_depth_elems :: "nat \<Rightarrow> pyval list \<Rightarrow> event_error + unit" where
  "assert_depth d v =
     (if max_payload_depth < d then Inl (InvalidEvent ''event payload is too deeply nested'')
      else case v of
          PDict kvs \<Rightarrow> assert_depth_items d kvs
        | PList xs \<Rightarrow> assert_depth_elems d xs
        | _ \<Rightarrow> Inr ())"
| "assert_depth_items d [] = Inr ()"
| "assert_depth_items d (kv # kvs) =
     (case fst kv of
        KStr k \<Rightarrow> bindE (assert_depth (d + 1) (snd kv)) (\<lambda>_. assert_depth_items d kvs)
      | _ \<Rightarrow> Inl (InvalidEvent ''event payload keys must be strings''))"
| "assert_depth_elems d [] = Inr ()"
| "assert_depth_elems d (x # xs) =
     bindE (assert_depth (d + 1) x) (\<lambda>_. assert_depth_elems d xs)"

declare assert_depth.simps [simp del]

definition normalize_payload :: "pyval \<Rightarrow> event_error + (string \<times> json) list" where
  "normalize_payload payload =
     (case payload of
        PDict kvs \<Rightarrow>
          bindE (assert_depth 1 payload) (\<lambda>_.
            case to_json payload of
              Some (JObj obj) \<Rightarrow>
                if max_payload_bytes < utf8_length (dumps False (JObj obj))
                then Inl (InvalidEvent ''event payload is too large'')
                else Inr obj
            | _ \<Rightarrow> Inl (InvalidEvent ''event payload must be valid JSON''))
      | _ \<Rightarrow> Inl (InvalidEvent ''event payload must be an object''))"

section \<open>Operations\<close>

text \<open>\<open>ConversationEventService.publish\<close>.\<close>

definition publish ::
  "env \<Rightarrow> uuid \<Rightarrow> uuid \<Rightarrow> string \<Rightarrow> string \<Rightarrow> pyval \<Rightarrow> store \<Rightarrow> event_error + (store \<times> conv_event)" where
  "publish E cid aid event_type vis payload s = (
     let normalized_type = strip event_type in
     if \<not> event_type_pattern normalized_type then Inl (InvalidEvent ''invalid event type'')
     else case visibility_of vis of
       None \<Rightarrow> Inl (InvalidEvent ''invalid event visibility'')
     | Some v \<Rightarrow>
         bindE (normalize_payload payload) (\<lambda>normalized.
         case scoped_conversation s cid aid of
           None \<Rightarrow> Inl EventConversationNotFound
         | Some c \<Rightarrow>
             let (eid, s1) = fresh E s;
                 event = \<lparr>ev_id = eid, ev_conversation_id = cv_id c, ev_agent_id = cv_agent_id c,
                   ev_sequence = cv_next_event_sequence c, ev_event_type = normalized_type,
                   ev_visibility = v, ev_payload = normalized, ev_created_at = tx_now E\<rparr>;
                 s2 = put_conversation (c\<lparr>cv_next_event_sequence := cv_next_event_sequence c + 1\<rparr>) s1
             in Inr (s2\<lparr>conv_events := conv_events s2 @ [event]\<rparr>, event)))"

text \<open>\<open>ConversationEventService.list_after\<close>.\<close>

definition list_after ::
  "store \<Rightarrow> uuid \<Rightarrow> uuid \<Rightarrow> int \<Rightarrow> int \<Rightarrow> string option \<Rightarrow> event_error + conv_event list" where
  "list_after s cid aid after limit vis = (
     if after < 0 then Inl (InvalidEvent ''event cursor cannot be negative'')
     else if \<not> (1 \<le> limit \<and> limit \<le> 500) then Inl (InvalidEvent ''event limit must be between 1 and 500'')
     else if scoped_conversation s cid aid = None then Inl EventConversationNotFound
     else
       let rows = filter (\<lambda>e. ev_conversation_id e = cid \<and> ev_agent_id e = aid \<and> ev_sequence e > after)
                    (conv_events s);
           page = (\<lambda>rs. take (nat limit) (sort_key ev_sequence rs))
       in case vis of
            None \<Rightarrow> Inr (page rows)
          | Some t \<Rightarrow>
              (case visibility_of t of
                 None \<Rightarrow> Inl (InvalidEvent ''invalid event visibility'')
               | Some v \<Rightarrow> Inr (page (filter (\<lambda>e. ev_visibility e = v) rows))))"

section \<open>The log of a conversation\<close>

definition conv_log :: "store \<Rightarrow> uuid \<Rightarrow> conv_event list" where
  "conv_log s cid = filter (\<lambda>e. ev_conversation_id e = cid) (conv_events s)"

definition next_event :: "store \<Rightarrow> uuid \<Rightarrow> int option" where
  "next_event s cid = map_option cv_next_event_sequence (get_conversation s cid)"

definition event_numbers :: "store \<Rightarrow> uuid \<Rightarrow> int list" where
  "event_numbers s cid = map ev_sequence (conv_log s cid)"

text \<open>The events of a conversation belong to its agent.\<close>

definition event_owner_ok :: "store \<Rightarrow> bool" where
  "event_owner_ok s \<longleftrightarrow> (\<forall>e\<in>set (conv_events s). \<forall>c\<in>set (conversations s).
     ev_conversation_id e = cv_id c \<longrightarrow> ev_agent_id e = cv_agent_id c)"

definition conv_event_checks :: "conv_event \<Rightarrow> bool" where
  "conv_event_checks e \<longleftrightarrow> ev_sequence e > 0 \<and> event_type_pattern (ev_event_type e)"

text \<open>What a successful publication does, and what it leaves alone.\<close>

lemma publish_Inr:
  "publish E cid aid ty vis payload s = Inr (s', e) \<longleftrightarrow>
     (\<exists>c v obj. event_type_pattern (strip ty) \<and> visibility_of vis = Some v \<and>
        normalize_payload payload = Inr obj \<and> scoped_conversation s cid aid = Some c \<and>
        e = \<lparr>ev_id = uuid4 E (draws s), ev_conversation_id = cid, ev_agent_id = aid,
             ev_sequence = cv_next_event_sequence c, ev_event_type = strip ty, ev_visibility = v,
             ev_payload = obj, ev_created_at = tx_now E\<rparr> \<and>
        s' = s\<lparr>draws := Suc (draws s),
               conversations := put_row cv_id (c\<lparr>cv_next_event_sequence := cv_next_event_sequence c + 1\<rparr>) (conversations s),
               conv_events := conv_events s @ [e]\<rparr>)"
proof (cases "scoped_conversation s cid aid")
  case None
  then show ?thesis by (auto simp: publish_def Let_def bindE_eq_Inr split: option.splits if_splits)
next
  case (Some c)
  moreover from Some have "cv_id c = cid" "cv_agent_id c = aid" by (auto dest: scoped_conversationD)
  ultimately show ?thesis
    by (cases "visibility_of vis"; cases "normalize_payload payload")
      (auto simp: publish_def fresh_def put_conversation_def Let_def split: if_splits)
qed

lemma publish_succeeds:
  assumes "event_type_pattern (strip ty)" "visibility_of vis = Some v" "normalize_payload payload = Inr obj"
    "scoped_conversation s cid aid = Some c"
  shows "\<exists>s' e. publish E cid aid ty vis payload s = Inr (s', e)"
  using assms by (auto simp: publish_Inr)

lemma publish_frame [frame_simps]:
  assumes "publish E cid aid ty vis payload s = Inr (s', e)"
  shows "chat_messages s' = chat_messages s" "executions s' = executions s"
    "control_events s' = control_events s" "assignment_events s' = assignment_events s"
    "routes s' = routes s" "connections s' = connections s" "agents s' = agents s"
    "admins s' = admins s" "roles s' = roles s" "outbounds s' = outbounds s"
    "attempts s' = attempts s" "delivery_events s' = delivery_events s"
    "resolutions s' = resolutions s" "inbound_jobs s' = inbound_jobs s"
    "inbound_events s' = inbound_events s"
  using assms by (auto simp: publish_Inr)

lemma publish_conversation:
  assumes "publish E cid aid ty vis payload s = Inr (s', e)" "conversations_ok s"
  shows "get_conversation s' k =
    (if k = cid then map_option (\<lambda>c. c\<lparr>cv_next_event_sequence := cv_next_event_sequence c + 1\<rparr>) (get_conversation s k)
     else get_conversation s k)"
proof -
  from assms obtain c where c: "scoped_conversation s cid aid = Some c"
    and s': "conversations s' = put_row cv_id (c\<lparr>cv_next_event_sequence := cv_next_event_sequence c + 1\<rparr>) (conversations s)"
    by (auto simp: publish_Inr)
  from c assms(2) have g: "get_conversation s cid = Some c"
    by (auto simp: scoped_get conversations_ok_def split: option.splits if_splits)
  then have "cv_id c = cid" by (auto dest: get_conversationD)
  show ?thesis
  proof (cases "k = cid")
    case True
    with g s' \<open>cv_id c = cid\<close> show ?thesis
      by (auto simp: get_conversation_def intro!: find_put_row_same)
  next
    case False
    then show ?thesis
      using s' \<open>cv_id c = cid\<close> by (auto simp: get_conversation_def intro!: find_put_row_other)
  qed
qed

lemma publish_conversations_ok:
  "publish E cid aid ty vis payload s = Inr (s', e) \<Longrightarrow> conversations_ok s \<Longrightarrow> conversations_ok s'"
  by (auto simp: publish_Inr conversations_ok_def table_simps)

text \<open>The event log is a gap-free log per conversation.\<close>

definition published :: "uuid \<Rightarrow> store \<Rightarrow> store \<Rightarrow> bool" where
  "published cid s s' \<longleftrightarrow> (\<exists>E aid ty vis payload e. publish E cid aid ty vis payload s = Inr (s', e))"

interpretation events: sequenced_log 1 conversations_ok next_event event_numbers published
proof
  fix s s' cid assume ok: "conversations_ok s" and p: "published cid s s'"
  then obtain E aid ty vis payload e where
    pub: "publish E cid aid ty vis payload s = Inr (s', e)" by (auto simp: published_def)
  note conv = publish_conversation [OF pub ok]
  show "conversations_ok s'" by (rule publish_conversations_ok [OF pub ok])
  from pub ok obtain c where c: "get_conversation s cid = Some c"
    and e: "ev_conversation_id e = cid" "ev_sequence e = cv_next_event_sequence c"
    and ev: "conv_events s' = conv_events s @ [e]"
    by (auto simp: publish_Inr conversations_ok_def scoped_get split: option.splits if_splits)
  show "\<exists>n. next_event s cid = Some n \<and> next_event s' cid = Some (n + 1)"
    using c by (simp add: next_event_def conv)
  show "event_numbers s' cid = event_numbers s cid @ [n]" if "next_event s cid = Some n" for n
    using that c e ev by (auto simp: next_event_def event_numbers_def conv_log_def)
  show "next_event s' j = next_event s j \<and> event_numbers s' j = event_numbers s j" if "j \<noteq> cid" for j
    using that e ev by (simp add: next_event_def event_numbers_def conv_log_def conv)
qed

section \<open>Reading the log\<close>

text \<open>The visible part of a log after a cursor.\<close>

definition visible_after :: "store \<Rightarrow> uuid \<Rightarrow> int \<Rightarrow> visibility option \<Rightarrow> conv_event list" where
  "visible_after s cid after vis =
     filter (\<lambda>e. after < ev_sequence e \<and> (case vis of None \<Rightarrow> True | Some v \<Rightarrow> ev_visibility e = v)) (conv_log s cid)"

lemma sorted_event_numbers:
  assumes "gap_free 1 next_event event_numbers s" "get_conversation s cid \<noteq> None"
  shows "sorted_wrt (<) (map ev_sequence (conv_log s cid))"
  using assms by (auto simp: gap_free_def next_event_def event_numbers_def)

lemma sorted_wrt_filter: "sorted_wrt R (map f xs) \<Longrightarrow> sorted_wrt R (map f (filter P xs))"
  by (induction xs) auto

lemma sort_key_strict: "sorted_wrt (<) (map f xs) \<Longrightarrow> sort_key f xs = xs"
  by (rule sort_key_id_if_sorted) (auto simp: strict_sorted_imp_sorted)

lemma sorted_after_last:
  fixes f :: "'a \<Rightarrow> 'b::linorder"
  assumes "sorted_wrt (<) (map f xs)" "take n xs \<noteq> []"
  shows "filter (\<lambda>x. f (last (take n xs)) < f x) xs = drop n xs"
proof -
  define q where "q = f (last (take n xs))"
  have split: "xs = take n xs @ drop n xs" by simp
  have before: "f x \<le> q" if "x \<in> set (take n xs)" for x
  proof -
    have "sorted_wrt (<) (map f (take n xs))"
      using assms(1) by (simp add: take_map [symmetric] sorted_wrt_take)
    then have "sorted (map f (take n xs))" by (rule strict_sorted_imp_sorted)
    then have "sorted (map f (butlast (take n xs) @ [last (take n xs)]))"
      using assms(2) by simp
    moreover have "x \<in> set (butlast (take n xs)) \<or> x = last (take n xs)"
      using that assms(2) by (metis append_butlast_last_id in_set_conv_decomp_last set_ConsD UnE set_append empty_iff empty_set)
    ultimately show ?thesis by (auto simp: sorted_append q_def)
  qed
  have after: "q < f x" if "x \<in> set (drop n xs)" for x
  proof -
    have "sorted_wrt (<) (map f (take n xs) @ map f (drop n xs))"
      using assms(1) by (metis append_take_drop_id map_append)
    then show ?thesis
      using that assms(2) by (auto simp: sorted_wrt_append q_def)
  qed
  have "filter (\<lambda>x. q < f x) xs = filter (\<lambda>x. q < f x) (take n xs) @ filter (\<lambda>x. q < f x) (drop n xs)"
    by (metis filter_append split)
  also have "filter (\<lambda>x. q < f x) (take n xs) = []"
    using before by (auto simp: filter_empty_conv not_less)
  also have "filter (\<lambda>x. q < f x) (drop n xs) = drop n xs"
    using after by (simp add: filter_id_conv)
  finally show ?thesis by (simp add: q_def)
qed

lemma list_after_visible:
  assumes "gap_free 1 next_event event_numbers s" "conversations_ok s" "event_owner_ok s"
    "list_after s cid aid after limit (map_option visibility_value vis) = Inr page"
  shows "page = take (nat limit) (visible_after s cid after vis) \<and> 1 \<le> limit \<and> 0 \<le> after \<and>
    sorted_wrt (<) (map ev_sequence (visible_after s cid after vis))"
proof -
  from assms(4) have args: "0 \<le> after" "1 \<le> limit" "scoped_conversation s cid aid \<noteq> None"
    by (auto simp: list_after_def split: if_splits)
  then obtain c where c: "scoped_conversation s cid aid = Some c" by blast
  then have g: "get_conversation s cid = Some c"
    using assms(2) by (auto simp: scoped_get conversations_ok_def split: option.splits if_splits)
  have own: "ev_agent_id e = aid" if "e \<in> set (conv_log s cid)" for e
    using that assms(3) scoped_conversationD [OF c] by (auto simp: event_owner_ok_def conv_log_def)
  have log: "sorted_wrt (<) (map ev_sequence (conv_log s cid))"
    using assms(1) g by (intro sorted_event_numbers) auto
  then have vis: "sorted_wrt (<) (map ev_sequence (visible_after s cid after vis))"
    unfolding visible_after_def by (rule sorted_wrt_filter)
  have rows: "filter (\<lambda>e. ev_conversation_id e = cid \<and> ev_agent_id e = aid \<and> after < ev_sequence e) (conv_events s) =
      filter (\<lambda>e. after < ev_sequence e) (conv_log s cid)"
    using own unfolding conv_log_def filter_filter by (intro filter_cong) auto
  have page: "page = take (nat limit) (sort_key ev_sequence (visible_after s cid after vis))"
    using assms(4) args c
    by (cases vis) (auto simp: list_after_def Let_def rows visible_after_def split: if_splits)
  show ?thesis using page vis args by (simp add: sort_key_strict)
qed

text \<open>C29: a page of \<open>list_after\<close> and the page read from the cursor of its last event are
  together the next events of the log, in order: following the cursors repeats and misses nothing,
  with and without a visibility filter.\<close>

lemma paging_complete:
  assumes "gap_free 1 next_event event_numbers s" "conversations_ok s" "event_owner_ok s"
    "list_after s cid aid after limit (map_option visibility_value vis) = Inr page" "page \<noteq> []"
    "list_after s cid aid (ev_sequence (last page)) limit (map_option visibility_value vis) = Inr page'"
  shows "page @ page' = take (2 * nat limit) (visible_after s cid after vis)"
proof -
  let ?L = "visible_after s cid after vis" and ?n = "nat limit"
  from list_after_visible [OF assms(1-4)] have p: "page = take ?n ?L"
    and sorted: "sorted_wrt (<) (map ev_sequence ?L)" by auto
  let ?q = "ev_sequence (last page)"
  from list_after_visible [OF assms(1-3,6)] have p': "page' = take ?n (visible_after s cid ?q vis)" by simp
  have "last page \<in> set page" using assms(5) by simp
  then have "last page \<in> set ?L" unfolding p by (rule in_set_takeD)
  then have "after < ?q" by (simp add: visible_after_def)
  then have "visible_after s cid ?q vis = filter (\<lambda>e. ?q < ev_sequence e) ?L"
    unfolding visible_after_def filter_filter by (intro filter_cong) auto
  also have "\<dots> = drop ?n ?L"
    using sorted_after_last [OF sorted, of ?n] assms(5) by (simp add: p)
  finally have "page' = take ?n (drop ?n ?L)" using p' by simp
  with p show ?thesis by (metis mult_2 take_add)
qed

section \<open>Publishing\<close>

text \<open>C30: publication hands out the next cursor and nothing else changes the numbering: after
  \<open>publish\<close> the cursors of every conversation are again 1, 2, ... without gap or repetition, the
  new event is the last of its conversation, satisfies the CHECK constraints of its table, and the
  logs of the other conversations are as before.\<close>

theorem publish_next_cursor:
  assumes "conversations_ok s" "gap_free 1 next_event event_numbers s"
    "publish E cid aid ty vis payload s = Inr (s', e)"
  shows "gap_free 1 next_event event_numbers s' \<and> conv_log s' cid = conv_log s cid @ [e] \<and>
    next_event s cid = Some (ev_sequence e) \<and> ev_sequence e = int (length (conv_log s cid)) + 1 \<and>
    conv_event_checks e \<and> (\<forall>k. k \<noteq> cid \<longrightarrow> conv_log s' k = conv_log s k)"
proof -
  from assms(3) have p: "published cid s s'" unfolding published_def by blast
  note gap = events.append_gap_free [OF assms(1) p assms(2)]
  from assms(1,3) obtain c where c: "get_conversation s cid = Some c"
    and e: "ev_conversation_id e = cid" "ev_sequence e = cv_next_event_sequence c"
      "event_type_pattern (ev_event_type e)"
    and ev: "conv_events s' = conv_events s @ [e]"
    by (auto simp: publish_Inr conversations_ok_def scoped_get split: option.splits if_splits)
  from c e have n: "next_event s cid = Some (ev_sequence e)" by (simp add: next_event_def)
  with assms(2) have "1 \<le> ev_sequence e" "event_numbers s cid = [1 .. ev_sequence e - 1]"
    by (auto simp: gap_free_def)
  moreover from this have "length (conv_log s cid) = length [1 .. ev_sequence e - 1]"
    by (metis event_numbers_def length_map)
  ultimately show ?thesis
    using gap n e ev by (auto simp: conv_log_def conv_event_checks_def)
qed

fun json_depth :: "json \<Rightarrow> nat" where
  "json_depth (JArr xs) = 1 + foldr max (map json_depth xs) 0"
| "json_depth (JObj kvs) = 1 + foldr max (map (\<lambda>kv. json_depth (snd kv)) kvs) 0"
| "json_depth _ = 1"

fun tuple_free :: "pyval \<Rightarrow> bool" where
  "tuple_free (PTuple xs) = False"
| "tuple_free (PList xs) = list_all tuple_free xs"
| "tuple_free (PDict kvs) = list_all (\<lambda>kv. tuple_free (snd kv)) kvs"
| "tuple_free _ = True"

lemma foldr_max_le: "foldr max xs (0::nat) \<le> n \<longleftrightarrow> (\<forall>x\<in>set xs. x \<le> n)"
  by (induction xs) auto

lemma sorted_items_JObj:
  assumes "sorted_items kvs js = Some j" "length js = length kvs"
  obtains obj where "j = JObj obj" "snd ` set obj = set js"
proof (cases "str_keys kvs")
  case (Some ks)
  then have "length ks = length kvs" unfolding str_keys_def
    by (induction kvs arbitrary: ks) (auto split: pykey.splits option.splits)
  with assms Some have "j = JObj (sort_key fst (zip ks js))" "snd ` set (sort_key fst (zip ks js)) = set js"
    by (simp_all add: sorted_items_def) (metis list.set_map map_snd_zip)
  then show thesis by (rule that)
next
  case None
  with assms(1) obtain ks where ks: "int_keys kvs = Some ks"
    by (auto simp: sorted_items_def split: option.splits)
  then have "length ks = length kvs" unfolding int_keys_def
    by (induction kvs arbitrary: ks) (auto split: pykey.splits option.splits)
  with assms(2) have "snd ` set (zip ks js) = set js" by (metis list.set_map map_snd_zip)
  moreover have "j = JObj (map (\<lambda>(k, v). (int_str k, v)) (sort_key fst (zip ks js)))"
    using assms(1) None ks by (simp add: sorted_items_def)
  ultimately show thesis
    by (intro that [of "map (\<lambda>(k, v). (int_str k, v)) (sort_key fst (zip ks js))"]) force+
qed

lemma length_to_json_items: "to_json_items kvs = Some js \<Longrightarrow> length js = length kvs"
  by (induction kvs arbitrary: js) (auto split: option.splits)

lemma assert_depth_json:
  "assert_depth d v = Inr () \<Longrightarrow> tuple_free v \<Longrightarrow> to_json v = Some j \<Longrightarrow> json_depth j + d \<le> 9"
  "assert_depth_items d kvs = Inr () \<Longrightarrow> list_all (\<lambda>kv. tuple_free (snd kv)) kvs \<Longrightarrow>
     to_json_items kvs = Some js \<Longrightarrow> \<forall>j\<in>set js. json_depth j + d + 1 \<le> 9"
  "assert_depth_elems d xs = Inr () \<Longrightarrow> list_all tuple_free xs \<Longrightarrow>
     to_json_list xs = Some js \<Longrightarrow> \<forall>j\<in>set js. json_depth j + d + 1 \<le> 9"
proof (induction d v and d kvs and d xs arbitrary: j and js and js
    rule: assert_depth_assert_depth_items_assert_depth_elems.induct)
  case (1 d v)
  from "1.prems"(1) have d: "d \<le> 8"
    by (subst (asm) assert_depth.simps) (auto simp: max_payload_depth_def split: if_splits)
  show ?case
  proof (cases v)
    case (PDict kvs)
    from "1.prems" PDict d obtain js where js: "to_json_items kvs = Some js" "sorted_items kvs js = Some j"
      and ok: "assert_depth_items d kvs = Inr ()"
      by (auto simp: assert_depth.simps max_payload_depth_def bind_eq_Some_conv)
    have le: "\<forall>j\<in>set js. json_depth j + d + 1 \<le> 9"
      by (rule "1.IH"(2) [OF _ PDict ok _ js(1)]) (use d "1.prems" PDict in \<open>auto simp: max_payload_depth_def\<close>)
    obtain obj where obj: "j = JObj obj" "snd ` set obj = set js"
      using sorted_items_JObj [OF js(2)] length_to_json_items [OF js(1)] by metis
    have "json_depth (snd kv) \<le> 8 - d" if "kv \<in> set obj" for kv
    proof -
      from that obj(2) have "snd kv \<in> set js" by blast
      with le have "json_depth (snd kv) + d + 1 \<le> 9" by blast
      with d show ?thesis by simp
    qed
    then have "foldr max (map (\<lambda>kv. json_depth (snd kv)) obj) 0 \<le> 8 - d"
      unfolding foldr_max_le by simp
    with obj d show ?thesis by simp
  next
    case (PList xs)
    from "1.prems" PList d obtain js where js: "to_json_list xs = Some js" "j = JArr js"
      and ok: "assert_depth_elems d xs = Inr ()"
      by (auto simp: assert_depth.simps max_payload_depth_def)
    have le: "\<forall>j\<in>set js. json_depth j + d + 1 \<le> 9"
      by (rule "1.IH"(1) [OF _ PList ok _ js(1)]) (use d "1.prems" PList in \<open>auto simp: max_payload_depth_def\<close>)
    have "foldr max (map json_depth js) 0 \<le> 8 - d"
      unfolding foldr_max_le using le by (auto simp: le_diff_conv2 d)
    with js d show ?thesis by simp
  qed (use "1.prems" d in auto)
next
  case (3 d kv kvs)
  then show ?case by (auto simp: bindE_eq_Inr split: pykey.splits option.splits)
next
  case (5 d x xs)
  then show ?case by (auto simp: bindE_eq_Inr split: option.splits)
qed auto

text \<open>A payload that contains no tuple is stored with at most eight levels of nesting, whatever
  the caller passed, and no stored payload exceeds 32768 bytes of canonical text.\<close>

theorem publish_payload_bounds:
  assumes "publish E cid aid ty vis payload s = Inr (s', e)"
  shows "utf8_length (dumps False (JObj (ev_payload e))) \<le> 32768 \<and>
    (tuple_free payload \<longrightarrow> json_depth (JObj (ev_payload e)) \<le> 8)"
proof -
  from assms have n: "normalize_payload payload = Inr (ev_payload e)" by (auto simp: publish_Inr)
  then obtain kvs where kvs: "payload = PDict kvs" "assert_depth 1 payload = Inr ()"
      "to_json payload = Some (JObj (ev_payload e))"
    and len: "\<not> max_payload_bytes < utf8_length (dumps False (JObj (ev_payload e)))"
    by (auto simp: normalize_payload_def bindE_eq_Inr split: pyval.splits option.splits json.splits if_splits)
  have "json_depth (JObj (ev_payload e)) + 1 \<le> 9" if "tuple_free payload"
    by (rule assert_depth_json(1) [OF kvs(2) that kvs(3)])
  with len show ?thesis by (auto simp: max_payload_bytes_def simp del: json_depth.simps)
qed

text \<open>A tuple hides what it contains from the depth check, and so does a key that is not a string:
  this payload nests eleven levels and is accepted.\<close>

definition deep_tuple :: pyval where
  "deep_tuple = PDict [(KStr ''a'', PTuple [PList [PList [PList [PList
     [PList [PList [PList [PList [PBool True]]]]]]]]])]"

text \<open>The depth limit does not hold for payloads with tuples.\<close>

theorem depth_check_skips_tuples:
  "(case normalize_payload deep_tuple of Inr obj \<Rightarrow> json_depth (JObj obj) | Inl _ \<Rightarrow> 0) = 11"
  by (simp add: deep_tuple_def normalize_payload_def assert_depth.simps max_payload_depth_def
      sorted_items_def str_keys_def max_payload_bytes_def utf8_length_def quote_def
      escape_char_def short_escape_def)

section \<open>Witnesses\<close>

definition sample_event :: "int \<Rightarrow> conv_event" where
  "sample_event n = \<lparr>ev_id = UUID (100 + of_int n), ev_conversation_id = UUID 1, ev_agent_id = UUID 2,
     ev_sequence = n, ev_event_type = ''chat.message'', ev_visibility = Public, ev_payload = [],
     ev_created_at = 0\<rparr>"

definition sample_log_store :: store where
  "sample_log_store = sample_store\<lparr>conversations := [sample_conversation\<lparr>cv_next_event_sequence := 4\<rparr>],
     conv_events := [sample_event 1, sample_event 2, sample_event 3]\<rparr>"

lemma sample_log_ok:
  "conversations_ok sample_log_store" "gap_free 1 next_event event_numbers sample_log_store"
  "event_owner_ok sample_log_store"
  by (auto simp: sample_log_store_def sample_event_def sample_defs conversations_ok_def gap_free_def
      next_event_def event_numbers_def conv_log_def get_conversation_def event_owner_ok_def upto.simps
      split: if_splits)

lemma sample_publish:
  "\<exists>s' e. publish sample_env (UUID 1) (UUID 2) '' chat.opened'' ''public'' (PDict []) sample_log_store = Inr (s', e)"
  by (rule publish_succeeds [where v = Public and obj = "[]" and c = "sample_conversation\<lparr>cv_next_event_sequence := 4\<rparr>"])
    (simp_all add: strip_def is_space_def event_type_pattern_def event_word_def is_lower_def is_digit_def
      visibility_of_def normalize_payload_def assert_depth.simps max_payload_depth_def sorted_items_def
      str_keys_def max_payload_bytes_def utf8_length_def scoped_conversation_def sample_log_store_def
      sample_defs)

theorem paging_complete_witness:
  "[sample_event 1, sample_event 2] @ [sample_event 3] = take (2 * nat 2) (visible_after sample_log_store (UUID 1) 0 (Some Public))"
  by (rule paging_complete [where page = "[sample_event 1, sample_event 2]" and page' = "[sample_event 3]"
        and limit = 2 and after = 0 and aid = "UUID 2" and vis = "Some Public", OF sample_log_ok(2,1,3)])
    code_simp+

theorem publish_next_cursor_witness:
  "\<exists>s' e. publish sample_env (UUID 1) (UUID 2) '' chat.opened'' ''public'' (PDict []) sample_log_store = Inr (s', e) \<and>
     ev_sequence e = 4"
proof -
  from sample_publish obtain s' e where p:
    "publish sample_env (UUID 1) (UUID 2) '' chat.opened'' ''public'' (PDict []) sample_log_store = Inr (s', e)" by blast
  have "next_event sample_log_store (UUID 1) = Some 4" by code_simp
  with publish_next_cursor [OF sample_log_ok(1,2) p] p show ?thesis by auto
qed

theorem publish_payload_bounds_witness:
  "\<exists>s' e. publish sample_env (UUID 1) (UUID 2) '' chat.opened'' ''public'' (PDict []) sample_log_store = Inr (s', e) \<and>
     json_depth (JObj (ev_payload e)) \<le> 8"
proof -
  from sample_publish obtain s' e where p:
    "publish sample_env (UUID 1) (UUID 2) '' chat.opened'' ''public'' (PDict []) sample_log_store = Inr (s', e)" by blast
  with publish_payload_bounds [OF p] show ?thesis by auto
qed

end
