(* ===== verification/ConversationControl.thy ===== *)
theory ConversationControl
  imports ConversationEvents OutboundCommands
begin

text \<open>
  \<open>services/conversation_control.py\<close> with \<open>services/admin_rbac.py\<close>: who owns a conversation. Every
  control change is an epoch: it advances the control version under an optimistic lock and appends
  one immutable event; an operator's reply is recorded once under a stable identifier and published
  (web) or enqueued (other channels) behind the operator's own fence.
\<close>

datatype persistence_cause =
    InvalidOperatorKey
  | OperatorKeyTaken
  | EventCause event_error
  | OutboundCause outbound_error

datatype control_error =
    CtlNotFound
  | CtlVersionConflict (expected_version: int) (actual_version: int)
  | CtlInvalidTransition string
  | CtlOperatorRequired
  | CtlPersistence persistence_cause
  | CtlAutomationBlocked control_mode
  | CtlEvent event_error
  | CtlIntegrity

section \<open>Permissions of administrators (services/admin_rbac.py)\<close>

definition permission_all :: string where "permission_all = ''*''"

definition conversations_manage :: string where "conversations_manage = ''conversations.manage''"

definition permissions_for_role :: "store \<Rightarrow> string \<Rightarrow> string list" where
  "permissions_for_role s role_key =
     (case find (\<lambda>r. ro_key r = role_key \<and> ro_is_active r) (roles s) of
        None \<Rightarrow> []
      | Some r \<Rightarrow>
          (case ro_permissions r of
             JArr values \<Rightarrow> List.map_filter (\<lambda>v. case v of JStr t \<Rightarrow> Some t | _ \<Rightarrow> None) values
           | _ \<Rightarrow> []))"

definition has_permission :: "store \<Rightarrow> string \<Rightarrow> string \<Rightarrow> bool" where
  "has_permission s role_key permission =
     (let permissions = permissions_for_role s role_key in
      permission_all \<in> set permissions \<or> permission \<in> set permissions)"

section \<open>Control epochs\<close>

fun allowed_transitions :: "control_mode \<Rightarrow> control_mode list" where
  "allowed_transitions Automated = [Paused, Human, Closed]"
| "allowed_transitions Paused = [Automated, Human, Closed]"
| "allowed_transitions Human = [Automated, Paused, Human, Closed]"
| "allowed_transitions Closed = []"

text \<open>\<open>_get_conversation\<close> and \<open>_assert_version\<close>.\<close>

definition control_conversation :: "store \<Rightarrow> uuid \<Rightarrow> uuid \<Rightarrow> control_error + conversation" where
  "control_conversation s cid aid =
     (case scoped_conversation s cid aid of None \<Rightarrow> Inl CtlNotFound | Some c \<Rightarrow> Inr c)"

definition assert_version :: "conversation \<Rightarrow> int \<Rightarrow> control_error + unit" where
  "assert_version c expected =
     require (cv_control_version c = expected) (CtlVersionConflict expected (cv_control_version c))"

definition resolve_target_admin ::
  "store \<Rightarrow> uuid \<Rightarrow> control_mode \<Rightarrow> uuid option \<Rightarrow> control_mode \<Rightarrow> uuid option \<Rightarrow>
     control_error + uuid option" where
  "resolve_target_admin s actor current_mode current_admin target_mode requested =
     (if target_mode = Human then
        let target = (case requested of Some r \<Rightarrow> r | None \<Rightarrow> actor) in
        if current_mode = Human \<and> Some target = current_admin
        then Inl (CtlInvalidTransition ''human control is already assigned to this operator'')
        else if target \<noteq> actor then
          (case find (\<lambda>a. ad_id a = target \<and> ad_is_active a) (admins s) of
             None \<Rightarrow> Inl (CtlInvalidTransition ''assigned operator does not exist or is inactive'')
           | Some a \<Rightarrow>
               if \<not> has_permission s (ad_role a) conversations_manage
               then Inl (CtlInvalidTransition ''assigned operator cannot manage conversations'')
               else Inr (Some target))
        else Inr (Some target)
      else if requested \<noteq> None
      then Inl (CtlInvalidTransition ''assigned_admin_id is only valid for human control'')
      else if target_mode = Paused then Inr current_admin
      else Inr None)"

definition control_event_kind ::
  "control_mode \<Rightarrow> control_mode \<Rightarrow> uuid option \<Rightarrow> uuid option \<Rightarrow> control_error + control_event_type" where
  "control_event_kind current_mode target_mode current_admin target_admin =
     (if target_mode = Paused then Inr PausedEv
      else if target_mode = Automated then Inr Resumed
      else if target_mode = Closed then Inr ClosedEv
      else if current_mode = Human then
        (if target_admin = current_admin
         then Inl (CtlInvalidTransition ''human control reassignment requires another operator'')
         else Inr Reassigned)
      else Inr TakenOver)"

definition control_row ::
  "env \<Rightarrow> conversation \<Rightarrow> control_mode \<Rightarrow> uuid option \<Rightarrow> string option \<Rightarrow> conversation" where
  "control_row E c target_mode target_admin reason =
     c\<lparr>cv_control_mode := target_mode, cv_control_version := cv_control_version c + 1,
       cv_assigned_admin_id := target_admin, cv_control_changed_at := clock E, cv_control_reason := reason,
       cv_status := (if target_mode = Closed then ''closed'' else cv_status c)\<rparr>"

text \<open>\<open>_apply_control_epoch\<close>.\<close>

definition apply_control_epoch ::
  "env \<Rightarrow> store \<Rightarrow> conversation \<Rightarrow> uuid \<Rightarrow> control_mode \<Rightarrow> uuid option \<Rightarrow> control_event_type \<Rightarrow> string option \<Rightarrow>
     control_error + (store \<times> conversation)" where
  "apply_control_epoch E s c actor target_mode target_admin event_type reason = (
     let c' = control_row E c target_mode target_admin reason;
         s1 = put_conversation c' s;
         (eid, s2) = fresh E s1;
         s3 = s2\<lparr>control_events := control_events s2 @
           [\<lparr>ce_id = eid, ce_conversation_id = cv_id c, ce_agent_id = cv_agent_id c, ce_actor_admin_id = actor,
             ce_event_type = event_type, ce_from_mode = cv_control_mode c, ce_to_mode = target_mode,
             ce_from_assigned_admin_id = cv_assigned_admin_id c, ce_to_assigned_admin_id = target_admin,
             ce_control_version = cv_control_version c + 1, ce_reason = reason, ce_created_at = tx_now E\<rparr>]\<rparr>
     in if list_ex (\<lambda>e. ce_conversation_id e = cv_id c \<and> ce_control_version e = cv_control_version c + 1) (control_events s) \<or>
           \<not> conversation_checks c'
        then Inl CtlIntegrity
        else if cv_channel c = ''web'' then
          bindE (mapErr CtlEvent
            (publish E (cv_id c) (cv_agent_id c) ''chat.control.changed'' ''public''
               (PDict [(KStr ''mode'', PStr (mode_value target_mode)), (KStr ''status'', PStr (cv_status c'))]) s3))
            (\<lambda>(s4, _). case get_conversation s4 (cv_id c) of
               None \<Rightarrow> Inl CtlNotFound | Some final \<Rightarrow> Inr (s4, final))
        else Inr (s3, c'))"

text \<open>\<open>transition\<close>.\<close>

definition transition ::
  "env \<Rightarrow> store \<Rightarrow> uuid \<Rightarrow> uuid \<Rightarrow> uuid \<Rightarrow> control_mode \<Rightarrow> int \<Rightarrow> uuid option \<Rightarrow> string option \<Rightarrow>
     control_error + (store \<times> conversation)" where
  "transition E s cid aid actor target_mode expected assigned reason =
     bindE (control_conversation s cid aid) (\<lambda>c.
     bindE (assert_version c expected) (\<lambda>_.
     if target_mode \<notin> set (allowed_transitions (cv_control_mode c))
     then Inl (CtlInvalidTransition (''cannot transition from '' @ mode_value (cv_control_mode c) @
                 '' to '' @ mode_value target_mode))
     else
     bindE (resolve_target_admin s actor (cv_control_mode c) (cv_assigned_admin_id c) target_mode assigned) (\<lambda>target.
     bindE (control_event_kind (cv_control_mode c) target_mode (cv_assigned_admin_id c) target) (\<lambda>kind.
       apply_control_epoch E s c actor target_mode target kind reason))))"

definition get_snapshot :: "store \<Rightarrow> uuid \<Rightarrow> uuid \<Rightarrow> control_error + conversation" where
  "get_snapshot s cid aid = control_conversation s cid aid"

definition list_control_events ::
  "store \<Rightarrow> uuid \<Rightarrow> uuid \<Rightarrow> nat \<Rightarrow> nat \<Rightarrow> control_error + control_event list" where
  "list_control_events s cid aid limit offset =
     bindE (control_conversation s cid aid) (\<lambda>_.
       Inr (take limit (drop offset (sort_key (\<lambda>e. (ce_control_version e, ce_created_at e))
         (filter (\<lambda>e. ce_conversation_id e = cid \<and> ce_agent_id e = aid) (control_events s))))))"

definition assert_automation_allowed ::
  "store \<Rightarrow> uuid \<Rightarrow> uuid \<Rightarrow> int option \<Rightarrow> control_error + conversation" where
  "assert_automation_allowed s cid aid expected =
     bindE (control_conversation s cid aid) (\<lambda>c.
     bindE (case expected of None \<Rightarrow> Inr () | Some v \<Rightarrow> assert_version c v) (\<lambda>_.
       if cv_control_mode c \<noteq> Automated then Inl (CtlAutomationBlocked (cv_control_mode c)) else Inr c))"

section \<open>Operator messages\<close>

definition find_public_operator_event :: "store \<Rightarrow> conversation \<Rightarrow> chat_message \<Rightarrow> conv_event option" where
  "find_public_operator_event s c m =
     first_by ev_sequence
       (filter (\<lambda>e. ev_conversation_id e = cv_id c \<and> ev_agent_id e = cv_agent_id c \<and>
            ev_event_type e = ''chat.message.completed'' \<and> ev_visibility e = Public \<and>
            field ''message_id'' (ev_payload e) = Some (JStr (uuid_str (cm_id m))))
         (conv_events s))"

definition operator_message :: "env \<Rightarrow> conversation \<Rightarrow> uuid \<Rightarrow> uuid \<Rightarrow> string \<Rightarrow> chat_message" where
  "operator_message E c mid actor content =
     \<lparr>cm_id = mid, cm_created_at = tx_now E, cm_conversation_id = cv_id c,
      cm_client_message_id = ''operator:'' @ uuid_str mid, cm_role = ''assistant'', cm_content = content,
      cm_status = ''completed'', cm_tool_names = [],
      cm_metadata = [(''origin'', JStr ''operator''), (''actor_admin_id'', uuid_json actor),
        (''control_version'', JInt (cv_control_version c))]\<rparr>"

text \<open>The message of an operator's reply: looked up under its stable identifier, or inserted.\<close>

definition operator_message_row ::
  "env \<Rightarrow> store \<Rightarrow> conversation \<Rightarrow> uuid \<Rightarrow> string \<Rightarrow> string \<Rightarrow> control_error + (store \<times> chat_message \<times> bool)" where
  "operator_message_row E s c actor key content = (
     let mid = uuid5 E (cv_id c) (''operator:'' @ uuid_str actor @ '':'' @ key) in
     case get_message s mid of
       None \<Rightarrow>
         (let m = operator_message E c mid actor content in
          case insert_message m s of None \<Rightarrow> Inl CtlIntegrity | Some s1 \<Rightarrow> Inr (s1, m, False))
     | Some m \<Rightarrow>
         if cm_content m \<noteq> content then Inl (CtlPersistence OperatorKeyTaken) else Inr (s, m, True))"

text \<open>The web branch: the reply is published once as a public event, whose identifier is kept in the
  message's metadata.\<close>

definition publish_operator_message ::
  "env \<Rightarrow> store \<Rightarrow> conversation \<Rightarrow> uuid \<Rightarrow> chat_message \<Rightarrow> bool \<Rightarrow> control_error + (store \<times> chat_message)" where
  "publish_operator_message E s c aid m duplicate =
     (if json_truthy (field ''public_event_id'' (cm_metadata m)) then Inr (s, m)
      else
      bindE
        (case (if duplicate then find_public_operator_event s c m else None) of
           Some e \<Rightarrow> Inr (s, e)
         | None \<Rightarrow>
             mapErr (\<lambda>e. CtlPersistence (EventCause e))
               (publish E (cv_id c) aid ''chat.message.completed'' ''public''
                 (PDict [(KStr ''message_id'', PStr (uuid_str (cm_id m))), (KStr ''content'', PStr (cm_content m)),
                         (KStr ''status'', PStr ''completed''), (KStr ''actor'', PStr ''human'')]) s))
        (\<lambda>(s1, e).
          let m' = m\<lparr>cm_metadata := dict_set ''public_event_id'' (uuid_json (ev_id e)) (cm_metadata m)\<rparr>
          in Inr (put_message m' s1, m')))"

definition operator_command ::
  "conversation \<Rightarrow> uuid \<Rightarrow> chat_message \<Rightarrow> uuid \<Rightarrow> string \<Rightarrow> string \<Rightarrow> outbound_command" where
  "operator_command c aid m actor key content =
     \<lparr>oc_conversation_id = cv_id c, oc_agent_id = aid, oc_chat_message_id = Some (cm_id m), oc_kind = KText,
      oc_payload = PDict [(KStr ''text'', PStr content)], oc_sender_type = ByOperator,
      oc_control_version = cv_control_version c, oc_automation_agent_id = None, oc_automation_version = None,
      oc_idempotency_key = ''operator:'' @ key, oc_correlation_id = ''operator:'' @ uuid_str (cm_id m),
      oc_sender_admin_id = Some actor\<rparr>"

definition enqueue_failure :: "outbound_error \<Rightarrow> control_error" where
  "enqueue_failure e = (if e = OutIntegrity then CtlIntegrity else CtlPersistence (OutboundCause e))"

text \<open>How the reply reaches the contact: published on the web, or a durable outbound message.\<close>

datatype delivery_result = Published | Outbound outbound_status

text \<open>\<open>record_operator_message\<close>; the result is the message, its delivery and whether it is a
  duplicate.\<close>

definition record_operator_message ::
  "env \<Rightarrow> store \<Rightarrow> uuid \<Rightarrow> uuid \<Rightarrow> uuid \<Rightarrow> string \<Rightarrow> int \<Rightarrow> string \<Rightarrow>
     control_error + (store \<times> chat_message \<times> delivery_result \<times> bool)" where
  "record_operator_message E s cid aid actor content expected idempotency_key =
     bindE (control_conversation s cid aid) (\<lambda>c.
     bindE (assert_version c expected) (\<lambda>_.
     if cv_control_mode c \<noteq> Human \<or> cv_assigned_admin_id c \<noteq> Some actor then Inl CtlOperatorRequired
     else
     let key = strip idempotency_key in
     if key = [] \<or> 220 < length key then Inl (CtlPersistence InvalidOperatorKey)
     else
     bindE (operator_message_row E s c actor key content) (\<lambda>(s1, m, duplicate).
     if cv_channel c = ''web''
     then bindE (publish_operator_message E s1 c aid m duplicate) (\<lambda>(s2, m'). Inr (s2, m', Published, duplicate))
     else bindE (mapErr enqueue_failure (enqueue_outbound E s1 (operator_command c aid m actor key content)))
            (\<lambda>(s2, out, duplicate'). Inr (s2, m, Outbound (om_status out), duplicate')))))"

section \<open>What a control epoch changes\<close>

lemma control_conversationD: "control_conversation s cid aid = Inr c \<Longrightarrow>
    scoped_conversation s cid aid = Some c \<and> c \<in> set (conversations s) \<and> cv_id c = cid \<and> cv_agent_id c = aid"
  by (auto simp: control_conversation_def split: option.splits dest: scoped_conversationD)

lemma assert_version_Inr [simp]: "assert_version c v = Inr u \<longleftrightarrow> cv_control_version c = v"
  by (simp add: assert_version_def)

lemma get_control_row:
  assumes "conversations_ok s" "scoped_conversation s cid aid = Some c" "cv_id d = cid" "conversations s' = put_row cv_id d (conversations s)"
  shows "get_conversation s' k = (if k = cid then Some d else get_conversation s k)"
proof -
  have "get_conversation s cid \<noteq> None"
    using scoped_conversationD [OF assms(2)] by (auto simp: get_conversation_def find_None_iff)
  then show ?thesis
    using assms(3,4) by (auto simp: get_conversation_def intro: find_put_row_same find_put_row_other)
qed

text \<open>The outcome of an applied epoch, whatever the channel.\<close>

lemma apply_control_epoch_Inr:
  assumes "apply_control_epoch E s c actor target_mode target kind reason = Inr (s', c')"
    "conversations_ok s" "scoped_conversation s cid aid = Some c"
  shows "\<exists>n e. c' = (control_row E c target_mode target reason)\<lparr>cv_next_event_sequence := n\<rparr> \<and>
    conversation_checks (control_row E c target_mode target reason) \<and>
    (\<forall>k. get_conversation s' k = (if k = cid then Some c' else get_conversation s k)) \<and> conversations_ok s' \<and>
    control_events s' = control_events s @ [e] \<and> ce_conversation_id e = cid \<and> ce_agent_id e = aid \<and>
    ce_actor_admin_id e = actor \<and> ce_event_type e = kind \<and> ce_from_mode e = cv_control_mode c \<and>
    ce_to_mode e = target_mode \<and> ce_from_assigned_admin_id e = cv_assigned_admin_id c \<and>
    ce_to_assigned_admin_id e = target \<and> ce_control_version e = cv_control_version c + 1 \<and> ce_reason e = reason \<and>
    outbounds s' = outbounds s \<and> attempts s' = attempts s \<and> delivery_events s' = delivery_events s \<and>
    executions s' = executions s \<and> chat_messages s' = chat_messages s"
proof -
  note cD = scoped_conversationD [OF assms(3)]
  let ?r = "control_row E c target_mode target reason"
  let ?e = "\<lparr>ce_id = uuid4 E (draws s), ce_conversation_id = cv_id c, ce_agent_id = cv_agent_id c, ce_actor_admin_id = actor,
             ce_event_type = kind, ce_from_mode = cv_control_mode c, ce_to_mode = target_mode,
             ce_from_assigned_admin_id = cv_assigned_admin_id c, ce_to_assigned_admin_id = target,
             ce_control_version = cv_control_version c + 1, ce_reason = reason, ce_created_at = tx_now E\<rparr>"
  let ?s3 = "(put_conversation ?r s)\<lparr>draws := Suc (draws s), control_events := control_events s @ [?e]\<rparr>"
  have r: "cv_id ?r = cid" "cv_agent_id ?r = aid" using cD by (simp_all add: control_row_def)
  have ok3: "conversations_ok ?s3"
    using assms(2) by (simp add: conversations_ok_def put_conversation_def table_simps)
  have get3: "get_conversation ?s3 k = (if k = cid then Some ?r else get_conversation s k)" for k
    by (rule get_control_row [OF assms(2,3) r(1)]) (simp add: put_conversation_def)
  have checks: "conversation_checks ?r"
    using assms(1) by (auto simp: apply_control_epoch_def Let_def fresh_def split: if_splits)
  show ?thesis
  proof (cases "cv_channel c = ''web''")
    case False
    with assms(1) have "s' = ?s3" "c' = ?r"
      by (auto simp: apply_control_epoch_def Let_def fresh_def put_conversation_def split: if_splits)
    with get3 ok3 checks cD show ?thesis
      by (intro exI [of _ "cv_next_event_sequence ?r"] exI [of _ ?e]) (auto simp: put_conversation_def)
  next
    case True
    with assms(1) obtain e where
      p: "publish E (cv_id c) (cv_agent_id c) ''chat.control.changed'' ''public''
         (PDict [(KStr ''mode'', PStr (mode_value target_mode)), (KStr ''status'', PStr (cv_status ?r))]) ?s3 = Inr (s', e)"
      and c': "get_conversation s' (cv_id c) = Some c'"
      by (auto simp: apply_control_epoch_def Let_def fresh_def put_conversation_def bindE_eq_Inr split: if_splits option.splits)
    have "control_events s' = control_events ?s3" "outbounds s' = outbounds s" "attempts s' = attempts s"
      "delivery_events s' = delivery_events s" "executions s' = executions s" "chat_messages s' = chat_messages s"
      using publish_frame [OF p] by (simp_all add: put_conversation_def)
    moreover note publish_conversation [OF p ok3] get3 c' publish_conversations_ok [OF p ok3] checks cD
    ultimately show ?thesis
      by (intro exI [of _ "cv_next_event_sequence ?r + 1"] exI [of _ ?e]) (auto split: if_splits)
  qed
qed

end
