(* ===== verification/ControlEpochs.thy ===== *)
theory ControlEpochs
  imports ConversationControl
begin

text \<open>
  What conversation control promises: epochs are serialised by an optimistic lock and recorded as a
  gap-free, linked history; a closed conversation stays closed; once a human takes over, nothing the
  automation had queued can still be dispatched; and an operator's reply is recorded once, by the
  operator who owns the conversation.
\<close>

section \<open>Transitions\<close>

lemma transition_Inr:
  assumes "transition E s cid aid actor target_mode expected assigned reason = Inr (s', c')"
  obtains c target kind where "control_conversation s cid aid = Inr c" "cv_control_version c = expected"
    "target_mode \<in> set (allowed_transitions (cv_control_mode c))"
    "resolve_target_admin s actor (cv_control_mode c) (cv_assigned_admin_id c) target_mode assigned = Inr target"
    "control_event_kind (cv_control_mode c) target_mode (cv_assigned_admin_id c) target = Inr kind"
    "apply_control_epoch E s c actor target_mode target kind reason = Inr (s', c')"
  using assms by (auto simp: transition_def bindE_eq_Inr split: if_splits)

lemma resolve_target_admin_Inr:
  assumes "resolve_target_admin s actor current_mode current_admin target_mode requested = Inr target"
  shows "(target_mode = Human \<longrightarrow> target \<noteq> None \<and> (current_mode = Human \<longrightarrow> target \<noteq> current_admin) \<and>
      (target = Some actor \<or>
       (\<exists>a\<in>set (admins s). Some (ad_id a) = target \<and> ad_is_active a \<and> has_permission s (ad_role a) conversations_manage))) \<and>
    (target_mode = Paused \<longrightarrow> target = current_admin) \<and>
    (target_mode = Automated \<or> target_mode = Closed \<longrightarrow> target = None)"
  using assms
  by (auto simp: resolve_target_admin_def Let_def split: if_splits option.splits dest!: find_SomeD)

lemma transition_effect:
  assumes "conversations_ok s" "transition E s cid aid actor target_mode expected assigned reason = Inr (s', c')"
  shows "\<exists>c e target. scoped_conversation s cid aid = Some c \<and> cv_control_version c = expected \<and>
    target_mode \<in> set (allowed_transitions (cv_control_mode c)) \<and>
    resolve_target_admin s actor (cv_control_mode c) (cv_assigned_admin_id c) target_mode assigned = Inr target \<and>
    c' = (control_row E c target_mode target reason)\<lparr>cv_next_event_sequence := cv_next_event_sequence c'\<rparr> \<and>
    conversation_checks (control_row E c target_mode target reason) \<and> conversations_ok s' \<and>
    (\<forall>k. get_conversation s' k = (if k = cid then Some c' else get_conversation s k)) \<and>
    control_events s' = control_events s @ [e] \<and> ce_conversation_id e = cid \<and> ce_agent_id e = aid \<and>
    ce_actor_admin_id e = actor \<and> ce_from_mode e = cv_control_mode c \<and> ce_to_mode e = target_mode \<and>
    ce_from_assigned_admin_id e = cv_assigned_admin_id c \<and> ce_to_assigned_admin_id e = target \<and>
    ce_control_version e = expected + 1 \<and> ce_reason e = reason \<and>
    outbounds s' = outbounds s \<and> attempts s' = attempts s \<and> delivery_events s' = delivery_events s \<and>
    executions s' = executions s \<and> chat_messages s' = chat_messages s"
  using assms(2)
proof (cases rule: transition_Inr)
  case (1 c target kind)
  have c: "scoped_conversation s cid aid = Some c" using control_conversationD [OF 1(1)] by blast
  from apply_control_epoch_Inr [OF 1(6) assms(1) c] obtain n e where
    "c' = (control_row E c target_mode target reason)\<lparr>cv_next_event_sequence := n\<rparr>" 
    "conversation_checks (control_row E c target_mode target reason)"
    "\<forall>k. get_conversation s' k = (if k = cid then Some c' else get_conversation s k)" "conversations_ok s'"
    "control_events s' = control_events s @ [e]" "ce_conversation_id e = cid" "ce_agent_id e = aid"
    "ce_actor_admin_id e = actor" "ce_from_mode e = cv_control_mode c"
    "ce_to_mode e = target_mode" "ce_from_assigned_admin_id e = cv_assigned_admin_id c"
    "ce_to_assigned_admin_id e = target" "ce_control_version e = cv_control_version c + 1" "ce_reason e = reason"
    "outbounds s' = outbounds s" "attempts s' = attempts s" "delivery_events s' = delivery_events s"
    "executions s' = executions s" "chat_messages s' = chat_messages s" by blast
  with c 1 show ?thesis by (intro exI [of _ c] exI [of _ e] exI [of _ target]) auto
qed

text \<open>A successful transition starts the next epoch and nothing else: it was requested for the
  current version, its target is reachable from the current mode, the conversation ends in the
  target mode with the version advanced by one and the assignment the target mode calls for (human:
  an operator, who if not the actor is active and may manage conversations; paused: unchanged;
  automated or closed: nobody), closing also ends the conversation, one event records the epoch, and
  every other conversation is untouched.\<close>

theorem transition_next_epoch:
  assumes "conversations_ok s" "transition E s cid aid actor target_mode expected assigned reason = Inr (s', c')"
  shows "\<exists>c e. scoped_conversation s cid aid = Some c \<and> cv_control_version c = expected \<and>
    target_mode \<in> set (allowed_transitions (cv_control_mode c)) \<and>
    scoped_conversation s' cid aid = Some c' \<and> cv_control_mode c' = target_mode \<and> cv_control_version c' = expected + 1 \<and>
    (case target_mode of
       Human \<Rightarrow> \<exists>a. cv_assigned_admin_id c' = Some a \<and>
         (a = actor \<or> (\<exists>u\<in>set (admins s). ad_id u = a \<and> ad_is_active u \<and> has_permission s (ad_role u) conversations_manage))
     | Paused \<Rightarrow> cv_assigned_admin_id c' = cv_assigned_admin_id c
     | _ \<Rightarrow> cv_assigned_admin_id c' = None) \<and>
    cv_status c' = (if target_mode = Closed then ''closed'' else cv_status c) \<and>
    control_events s' = control_events s @ [e] \<and> ce_conversation_id e = cid \<and> ce_actor_admin_id e = actor \<and>
    (ce_from_mode e, ce_to_mode e) = (cv_control_mode c, target_mode) \<and> ce_control_version e = expected + 1 \<and>
    (\<forall>k. k \<noteq> cid \<longrightarrow> get_conversation s' k = get_conversation s k)"
proof -
  from transition_effect [OF assms] obtain c e target where t: "scoped_conversation s cid aid = Some c"
    "cv_control_version c = expected" "target_mode \<in> set (allowed_transitions (cv_control_mode c))"
    "resolve_target_admin s actor (cv_control_mode c) (cv_assigned_admin_id c) target_mode assigned = Inr target"
    "c' = (control_row E c target_mode target reason)\<lparr>cv_next_event_sequence := cv_next_event_sequence c'\<rparr>"
    "conversations_ok s'" "\<forall>k. get_conversation s' k = (if k = cid then Some c' else get_conversation s k)"
    "control_events s' = control_events s @ [e]" "ce_conversation_id e = cid" "ce_actor_admin_id e = actor"
    "ce_from_mode e = cv_control_mode c" "ce_to_mode e = target_mode" "ce_control_version e = expected + 1"
    by blast
  have c': "cv_control_mode c' = target_mode" "cv_control_version c' = expected + 1" "cv_assigned_admin_id c' = target"
    "cv_status c' = (if target_mode = Closed then ''closed'' else cv_status c)" "cv_agent_id c' = aid"
    using t(2) scoped_conversationD [OF t(1)] by (subst t(5), simp add: control_row_def)+
  have "scoped_conversation s' cid aid = Some c'"
    using t(6,7) c'(5) by (simp add: scoped_get)
  with t c' resolve_target_admin_Inr [OF t(4)] show ?thesis
    by (intro exI [of _ c] exI [of _ e]) (cases target_mode; fastforce)
qed

text \<open>The optimistic lock: once a transition has succeeded for a version, every further
  transition requested for that version, by anyone and to any mode, is refused with the current
  version and changes nothing.\<close>

theorem transition_lost_race:
  assumes "conversations_ok s" "transition E s cid aid actor target_mode expected assigned reason = Inr (s', c')"
  shows "transition E' s' cid aid actor' target_mode' expected assigned' reason' =
    Inl (CtlVersionConflict expected (expected + 1))"
proof -
  from transition_effect [OF assms] obtain c target where t: "scoped_conversation s cid aid = Some c"
    "cv_control_version c = expected" 
    "c' = (control_row E c target_mode target reason)\<lparr>cv_next_event_sequence := cv_next_event_sequence c'\<rparr>"
    "conversations_ok s'" "\<forall>k. get_conversation s' k = (if k = cid then Some c' else get_conversation s k)"
    by blast
  have "cv_control_version c' = expected + 1" "cv_agent_id c' = aid"
    using t(2) scoped_conversationD [OF t(1)] by (subst t(3), simp add: control_row_def)+
  with t(4,5) have "control_conversation s' cid aid = Inr c'" "cv_control_version c' = expected + 1"
    by (simp_all add: control_conversation_def scoped_get)
  then show ?thesis by (simp add: transition_def assert_version_def)
qed

section \<open>The history of a conversation\<close>

definition control_log :: "store \<Rightarrow> uuid \<Rightarrow> control_event list" where
  "control_log s cid = filter (\<lambda>e. ce_conversation_id e = cid) (control_events s)"

definition next_epoch :: "store \<Rightarrow> uuid \<Rightarrow> int option" where
  "next_epoch s cid = map_option (\<lambda>c. cv_control_version c + 1) (get_conversation s cid)"

definition epoch_numbers :: "store \<Rightarrow> uuid \<Rightarrow> int list" where
  "epoch_numbers s cid = map ce_control_version (control_log s cid)"

definition transitioned :: "uuid \<Rightarrow> store \<Rightarrow> store \<Rightarrow> bool" where
  "transitioned cid s s' \<longleftrightarrow> (\<exists>E aid actor target_mode expected assigned reason c'.
     transition E s cid aid actor target_mode expected assigned reason = Inr (s', c'))"

lemma transition_log:
  assumes "conversations_ok s" "transition E s cid aid actor target_mode expected assigned reason = Inr (s', c')"
  shows "conversations_ok s' \<and> next_epoch s cid = Some (expected + 1) \<and> next_epoch s' cid = Some (expected + 2) \<and>
    epoch_numbers s' cid = epoch_numbers s cid @ [expected + 1] \<and>
    (\<forall>k. k \<noteq> cid \<longrightarrow> next_epoch s' k = next_epoch s k \<and> control_log s' k = control_log s k)"
proof -
  from transition_effect [OF assms] obtain c e target where t: "scoped_conversation s cid aid = Some c"
    "cv_control_version c = expected"
    "c' = (control_row E c target_mode target reason)\<lparr>cv_next_event_sequence := cv_next_event_sequence c'\<rparr>"
    "conversations_ok s'" "\<forall>k. get_conversation s' k = (if k = cid then Some c' else get_conversation s k)"
    "control_events s' = control_events s @ [e]" "ce_conversation_id e = cid" "ce_control_version e = expected + 1"
    by blast
  have "cv_control_version c' = expected + 1" using t(2) by (subst t(3), simp add: control_row_def)
  moreover have "get_conversation s cid = Some c"
    using t(1) assms(1) by (auto simp: scoped_get split: option.splits if_splits)
  ultimately show ?thesis
    using t by (simp add: next_epoch_def epoch_numbers_def control_log_def)
qed

interpretation epochs: sequenced_log 1 conversations_ok next_epoch epoch_numbers transitioned
proof
  fix s s' cid assume ok: "conversations_ok s" and "transitioned cid s s'"
  then obtain E aid actor target_mode expected assigned reason c' where
    t: "transition E s cid aid actor target_mode expected assigned reason = Inr (s', c')"
    by (auto simp: transitioned_def)
  note log = transition_log [OF ok t]
  show "conversations_ok s'" "\<exists>n. next_epoch s cid = Some n \<and> next_epoch s' cid = Some (n + 1)"
    using log by auto
  show "epoch_numbers s' cid = epoch_numbers s cid @ [n]" if "next_epoch s cid = Some n" for n
    using log that by auto
  show "next_epoch s' j = next_epoch s j \<and> epoch_numbers s' j = epoch_numbers s j" if "j \<noteq> cid" for j
    using log that by (simp add: epoch_numbers_def)
qed

fun control_chain ::
  "control_mode \<times> uuid option \<Rightarrow> control_event list \<Rightarrow> control_mode \<times> uuid option \<Rightarrow> bool" where
  "control_chain p [] q \<longleftrightarrow> p = q"
| "control_chain p (e # es) q \<longleftrightarrow> (ce_from_mode e, ce_from_assigned_admin_id e) = p \<and>
     ce_to_mode e \<in> set (allowed_transitions (ce_from_mode e)) \<and>
     control_chain (ce_to_mode e, ce_to_assigned_admin_id e) es q"

lemma control_chain_snoc: "control_chain p (es @ [e]) q \<longleftrightarrow>
    control_chain p es (ce_from_mode e, ce_from_assigned_admin_id e) \<and>
    ce_to_mode e \<in> set (allowed_transitions (ce_from_mode e)) \<and> q = (ce_to_mode e, ce_to_assigned_admin_id e)"
  by (induction es arbitrary: p) auto

text \<open>The history of every conversation, started automated and unassigned at version 0, leads to its
  present mode and assignment.\<close>

definition control_inv :: "store \<Rightarrow> bool" where
  "control_inv s \<longleftrightarrow> conversations_ok s \<and> gap_free 1 next_epoch epoch_numbers s \<and>
     (\<forall>cid c. get_conversation s cid = Some c \<longrightarrow>
        control_chain (Automated, None) (control_log s cid) (cv_control_mode c, cv_assigned_admin_id c) \<and>
        (cv_control_mode c = Closed \<longrightarrow> cv_status c = ''closed''))"

section \<open>Fencing the automation\<close>

text \<open>No message was enqueued under an epoch its conversation has not reached yet.\<close>

definition epochs_reached :: "store \<Rightarrow> bool" where
  "epochs_reached s \<longleftrightarrow> (\<forall>m\<in>set (outbounds s). \<forall>c\<in>set (conversations s).
     cv_id c = om_conversation_id m \<longrightarrow> om_control_version m \<le> cv_control_version c)"

lemma transition_outbound_inv:
  assumes "outbound_inv s" "transition E s cid aid actor target_mode expected assigned reason = Inr (s', c')"
  shows "outbound_inv s'"
proof -
  have ok: "conversations_ok s" "numbering_ok s" using assms(1) by (auto simp: outbound_inv_def numbering_ok_def)
  from transition_effect [OF ok(1) assms(2)] obtain c target where t: "scoped_conversation s cid aid = Some c"
    "c' = (control_row E c target_mode target reason)\<lparr>cv_next_event_sequence := cv_next_event_sequence c'\<rparr>"
    "conversations_ok s'" "\<forall>k. get_conversation s' k = (if k = cid then Some c' else get_conversation s k)"
    "outbounds s' = outbounds s" "attempts s' = attempts s" "delivery_events s' = delivery_events s"
    by blast
  have c': "cv_id c' = cid" "cv_agent_id c' = cv_agent_id c" "cv_next_outbound_sequence c' = cv_next_outbound_sequence c"
    using scoped_conversationD [OF t(1)] by (subst t(2), simp add: control_row_def)+
  have "\<exists>d\<in>set (conversations s'). cv_id d = om_conversation_id m \<and> cv_agent_id d = om_agent_id m \<and>
      om_sequence m < cv_next_outbound_sequence d" if m: "m \<in> set (outbounds s)" for m
  proof -
    from ok(2) m obtain d where d: "d \<in> set (conversations s)" "cv_id d = om_conversation_id m" "cv_agent_id d = om_agent_id m"
      "om_sequence m < cv_next_outbound_sequence d" by (auto simp: numbering_ok_def)
    then have g: "get_conversation s (om_conversation_id m) = Some d"
      using ok(1) find_key [of cv_id "conversations s" d] by (simp add: get_conversation_def conversations_ok_def)
    show ?thesis
    proof (cases "om_conversation_id m = cid")
      case True
      then have "d = c" using g t(1) ok(1) by (auto simp: scoped_get split: option.splits if_splits)
      moreover have "c' \<in> set (conversations s')" using t(4) get_conversationD [of s' cid c'] by simp
      ultimately show ?thesis using d c' True by (intro bexI [of _ c']) auto
    next
      case False
      then have "get_conversation s' (om_conversation_id m) = Some d" using g t(4) by simp
      then show ?thesis using d get_conversationD by blast
    qed
  qed
  then have "numbering_ok s'" using t(3,5) by (simp add: numbering_ok_def)
  then show ?thesis
    using assms(1) t(5-7)
    by (simp add: outbound_inv_def rows_ok_def attempts_ok_def single_attempt_def attempts_of_def trail_ok_def events_of_def)
qed


text \<open>The hypothesis on epochs is an invariant: an enqueued message carries the version the fence
  found, and a transition only raises it.\<close>

lemma enqueue_epochs_reached:
  assumes "outbound_inv s" "epochs_reached s" "enqueue_outbound E s cmd = Inr (s', m, False)"
  shows "epochs_reached s'"
  using assms(3)
proof (cases rule: enqueue_new)
  case (1 payload c rid destination r n)
  note p = prepare_enqueueD [OF 1(1)]
  have ids: "distinct (map cv_id (conversations s))"
    using assms(1) by (simp add: outbound_inv_def numbering_ok_def conversations_ok_def)
  have "cv_control_version c = oc_control_version cmd" using 1(3) by (simp add: assert_sender_fence_Inr)
  then have m: "om_control_version m = cv_control_version c" "om_conversation_id m = cv_id c"
    by (simp_all add: 1(5) queued_message_def)
  have same: "\<exists>d0\<in>set (conversations s). cv_id d0 = cv_id d \<and> cv_control_version d0 = cv_control_version d"
    if "d \<in> set (conversations s')" for d
    using that p by (auto simp: 1(10) dest!: set_put_rowD)
  show ?thesis
    unfolding epochs_reached_def
  proof (intro ballI impI)
    fix x d assume x: "x \<in> set (outbounds s')" and d: "d \<in> set (conversations s')" "cv_id d = om_conversation_id x"
    from same [OF d(1)] obtain d0 where d0: "d0 \<in> set (conversations s)" "cv_id d0 = cv_id d"
      "cv_control_version d0 = cv_control_version d" by blast
    show "om_control_version x \<le> cv_control_version d"
    proof (cases "x = m")
      case True
      then have "d0 = c" using d0 d(2) m(2) same_key [OF ids d0(1), of c] p by simp
      then show ?thesis using True m d0 by simp
    next
      case False
      with x have "x \<in> set (outbounds s)" by (simp add: 1(8))
      with assms(2) d0 d(2) show ?thesis unfolding epochs_reached_def by metis
    qed
  qed
qed

lemma transition_epochs_reached:
  assumes "conversations_ok s" "epochs_reached s"
    "transition E s cid aid actor target_mode expected assigned reason = Inr (s', c')"
  shows "epochs_reached s'"
  unfolding epochs_reached_def
proof (intro ballI impI)
  fix m d assume m: "m \<in> set (outbounds s')" and d: "d \<in> set (conversations s')" "cv_id d = om_conversation_id m"
  from transition_effect [OF assms(1,3)] obtain c target where t: "scoped_conversation s cid aid = Some c"
    "cv_control_version c = expected"
    "c' = (control_row E c target_mode target reason)\<lparr>cv_next_event_sequence := cv_next_event_sequence c'\<rparr>"
    "conversations_ok s'" "\<forall>k. get_conversation s' k = (if k = cid then Some c' else get_conversation s k)"
    "outbounds s' = outbounds s" by blast
  have v: "cv_control_version c' = expected + 1" using t(2) by (subst t(3), simp add: control_row_def)
  have g: "get_conversation s' (om_conversation_id m) = Some d"
    using t(4) d find_key [of cv_id "conversations s'" d] by (simp add: get_conversation_def conversations_ok_def)
  have le: "om_control_version m \<le> cv_control_version x" if "x \<in> set (conversations s)" "cv_id x = om_conversation_id m" for x
    using that assms(2) m t(6) by (auto simp: epochs_reached_def)
  show "om_control_version m \<le> cv_control_version d"
  proof (cases "om_conversation_id m = cid")
    case True
    then have "d = c'" using g t(5) by simp
    moreover have "om_control_version m \<le> cv_control_version c"
      using le [of c] scoped_conversationD [OF t(1)] True by simp
    ultimately show ?thesis using v t(2) by simp
  next
    case False
    then have "get_conversation s (om_conversation_id m) = Some d" using g t(5) by simp
    then show ?thesis using le [of d] get_conversationD by blast
  qed
qed

section \<open>Operator replies\<close>

lemma enqueue_effect:
  assumes "enqueue_outbound E s cmd = Inr (s', m, d)"
  shows "chat_messages s' = chat_messages s \<and>
    (\<forall>c. scoped_conversation s (oc_conversation_id cmd) (oc_agent_id cmd) = Some c \<longrightarrow>
      (\<exists>n. scoped_conversation s' (oc_conversation_id cmd) (oc_agent_id cmd) = Some (c\<lparr>cv_next_outbound_sequence := n\<rparr>)))"
proof (cases d)
  case True
  with assms have "s' = s"
    by (auto simp: enqueue_outbound_def Let_def bindE_eq_Inr split: option.splits if_splits prod.splits)
  then show ?thesis by (metis conversation.surjective conversation.update_convs(14))
next
  case False
  with assms have "enqueue_outbound E s cmd = Inr (s', m, False)" by simp
  then show ?thesis
  proof (cases rule: enqueue_new)
    case (1 payload c rid destination r n)
    note p = prepare_enqueueD [OF 1(1)]
    from 1(1) have "scoped_conversation s (oc_conversation_id cmd) (oc_agent_id cmd) = Some c"
      by (auto simp: prepare_enqueue_def get_scoped_def Let_def bindE_eq_Inr split: if_splits option.splits)
    moreover from this have "scoped_conversation s' (oc_conversation_id cmd) (oc_agent_id cmd) =
        Some (c\<lparr>cv_next_outbound_sequence := cv_next_outbound_sequence c + 1\<rparr>)"
      using p by (simp add: scoped_conversation_def 1(10) find_put_scoped)
    ultimately show ?thesis using 1(11) by auto
  qed
qed

definition reply_id :: "env \<Rightarrow> uuid \<Rightarrow> uuid \<Rightarrow> string \<Rightarrow> uuid" where
  "reply_id E cid actor key = uuid5 E cid (''operator:'' @ uuid_str actor @ '':'' @ key)"

lemma record_operator_message_Inr:
  assumes "record_operator_message E s cid aid actor content expected ikey = Inr (s', m, dr, dup)"
  obtains c s1 m1 dup1 where "control_conversation s cid aid = Inr c" "cv_control_version c = expected"
    "cv_control_mode c = Human" "cv_assigned_admin_id c = Some actor"
    "strip ikey \<noteq> []" "length (strip ikey) \<le> 220"
    "operator_message_row E s c actor (strip ikey) content = Inr (s1, m1, dup1)"
    "if cv_channel c = ''web'' then publish_operator_message E s1 c aid m1 dup1 = Inr (s', m) \<and> dr = Published \<and> dup = dup1
     else m = m1 \<and> (\<exists>out. enqueue_outbound E s1 (operator_command c aid m1 actor (strip ikey) content) = Inr (s', out, dup) \<and>
       dr = Outbound (om_status out))"
  using assms
  by (auto simp: record_operator_message_def Let_def bindE_eq_Inr not_less split: if_splits)

lemma operator_message_row_Inr:
  assumes "operator_message_row E s c actor key content = Inr (s1, m1, dup1)"
  shows "cm_id m1 = reply_id E (cv_id c) actor key \<and> cm_content m1 = content \<and>
    get_message s1 (cm_id m1) = Some m1 \<and> conversations s1 = conversations s \<and>
    (if dup1 then s1 = s else m1 = operator_message E c (reply_id E (cv_id c) actor key) actor content)"
proof -
  let ?id = "reply_id E (cv_id c) actor key"
  show ?thesis
  proof (cases "get_message s ?id")
    case None
    with assms have i: "insert_message m1 s = Some s1" and m1: "m1 = operator_message E c ?id actor content" "\<not> dup1"
      by (auto simp: operator_message_row_def reply_id_def Let_def split: option.splits)
    then have "cm_id m1 = ?id" "cm_content m1 = content" by (simp_all add: operator_message_def)
    with i m1 show ?thesis using get_message_insert [OF i, of ?id] by (simp add: insert_message_Some)
  next
    case (Some m)
    with assms have "m1 = m" "s1 = s" "dup1" "cm_content m = content"
      by (auto simp: operator_message_row_def reply_id_def Let_def split: if_splits)
    then show ?thesis using get_messageD [OF Some] Some by simp
  qed
qed

text \<open>Only the operator who owns the conversation can answer in it: a recorded reply was made in
  the conversation's current epoch, in human control, by the assigned operator; it is stored under
  an identifier determined by conversation, operator and key; and on a channel with an outbound
  queue, a reply recorded for the first time is queued under the operator's own fence.\<close>

theorem operator_reply_by_owner:
  assumes "record_operator_message E s cid aid actor content expected ikey = Inr (s', m, dr, dup)"
  shows "\<exists>c. scoped_conversation s cid aid = Some c \<and> cv_control_mode c = Human \<and>
    cv_assigned_admin_id c = Some actor \<and> cv_control_version c = expected \<and>
    cm_id m = reply_id E cid actor (strip ikey) \<and> cm_content m = content \<and>
    (cv_channel c \<noteq> ''web'' \<and> \<not> dup \<longrightarrow>
      (\<exists>out\<in>set (outbounds s'). om_status out = OutQueued \<and> om_chat_message_id out = Some (cm_id m) \<and>
         om_payload out = [(''text'', JStr content)] \<and> om_sender_type out = ByOperator \<and>
         om_sender_admin_id out = Some actor \<and> om_control_version out = expected))"
  using assms
proof (cases rule: record_operator_message_Inr)
  case (1 c s1 m1 dup1)
  note c = control_conversationD [OF 1(1)] and row = operator_message_row_Inr [OF 1(7)]
  have m: "cm_id m = cm_id m1" "cm_content m = cm_content m1"
    using 1(8) by (auto simp: publish_operator_message_def Let_def bindE_eq_Inr split: if_splits)
  have "\<exists>out\<in>set (outbounds s'). om_status out = OutQueued \<and> om_chat_message_id out = Some (cm_id m) \<and>
         om_payload out = [(''text'', JStr content)] \<and> om_sender_type out = ByOperator \<and>
         om_sender_admin_id out = Some actor \<and> om_control_version out = expected"
    if "cv_channel c \<noteq> ''web''" "\<not> dup"
  proof -
    let ?cmd = "operator_command c aid m1 actor (strip ikey) content"
    from 1(8) that obtain out where "enqueue_outbound E s1 ?cmd = Inr (s', out, False)" by auto
    then show ?thesis
    proof (cases rule: enqueue_new)
      case (1 payload c' rid destination r n)
      have "to_json (oc_payload ?cmd) = Some (JObj payload)"
        using prepare_enqueueD [OF 1(1)] normalize_outboundD by blast
      then have "payload = [(''text'', JStr content)]"
        by (simp add: operator_command_def sorted_items_def str_keys_def)
      with 1(5,8) m(1) \<open>cv_control_version c = expected\<close> show ?thesis
        by (intro bexI [of _ out]) (auto simp: queued_message_def operator_command_def)
    qed
  qed
  with 1 c row m show ?thesis by (intro exI [of _ c]) auto
qed

lemma uuid_str_nonempty [simp]: "uuid_str u \<noteq> []"
  by (simp add: uuid_str_def Let_def)

lemma reply_known:
  assumes "control_conversation s cid aid = Inr c" "cv_control_version c = expected" "cv_control_mode c = Human"
    "cv_assigned_admin_id c = Some actor" "strip ikey \<noteq> []" "length (strip ikey) \<le> 220" 
    "get_message s (reply_id E (cv_id c) actor (strip ikey)) = Some m" "cm_content m = content"
    "if cv_channel c = ''web'' then json_truthy (field ''public_event_id'' (cm_metadata m)) \<and> dr = Published
     else \<exists>out. enqueue_outbound E s (operator_command c aid m actor (strip ikey) content) = Inr (s, out, True) \<and>
       dr = Outbound (om_status out)"
  shows "record_operator_message E s cid aid actor content expected ikey = Inr (s, m, dr, True)"
proof -
  have "operator_message_row E s c actor (strip ikey) content = Inr (s, m, True)"
    using assms(7,8) by (simp add: operator_message_row_def reply_id_def Let_def)
  then show ?thesis
    using assms by (auto simp: record_operator_message_def publish_operator_message_def Let_def assert_version_def
        split: if_splits)
qed

lemma publish_scoped:
  assumes "publish E cid aid ty vis payload s = Inr (s', e)" "conversations_ok s" "scoped_conversation s cid aid = Some c"
  shows "scoped_conversation s' cid aid = Some (c\<lparr>cv_next_event_sequence := cv_next_event_sequence c + 1\<rparr>)"
proof -
  have "get_conversation s cid = Some c"
    using assms(2,3) by (auto simp: scoped_get split: option.splits if_splits)
  moreover have "cv_agent_id c = aid" using scoped_conversationD [OF assms(3)] by simp
  ultimately show ?thesis
    using publish_conversation [OF assms(1,2)] publish_conversations_ok [OF assms(1,2)] by (simp add: scoped_get)
qed

lemma get_put_message: "get_message s (cm_id m) \<noteq> None \<Longrightarrow> get_message (put_message m s) (cm_id m) = Some m"
  by (simp add: get_message_def put_message_def find_put_row_same)

text \<open>An operator's reply is recorded once: repeating the request that succeeded finds the
  message, its public event or its outbound message, and changes nothing, so an HTTP retry neither
  stores nor sends the reply a second time.\<close>

theorem operator_reply_retry:
  assumes "conversations_ok s" "record_operator_message E s cid aid actor content expected ikey = Inr (s', m, dr, dup)"
  shows "record_operator_message E s' cid aid actor content expected ikey = Inr (s', m, dr, True)"
  using assms(2)
proof (cases rule: record_operator_message_Inr)
  case (1 c s1 m1 dup1)
  note c = control_conversationD [OF 1(1)] and row = operator_message_row_Inr [OF 1(7)]
  have id: "cm_id m1 = reply_id E (cv_id c) actor (strip ikey)" and content: "cm_content m1 = content"
    and get1: "get_message s1 (cm_id m1) = Some m1" using row by auto
  have scoped1: "scoped_conversation s1 cid aid = Some c" and ok1: "conversations_ok s1"
    using c row assms(1) by (auto simp: scoped_conversation_def conversations_ok_def)
  show ?thesis
  proof (cases "cv_channel c = ''web''")
    case False
    let ?cmd = "operator_command c aid m1 actor (strip ikey) content"
    from False 1(8) obtain out where m: "m = m1" and e: "enqueue_outbound E s1 ?cmd = Inr (s', out, dup)"
      and dr: "dr = Outbound (om_status out)" by auto
    from enqueue_effect [OF e] scoped1 c obtain n where
      n: "scoped_conversation s' cid aid = Some (c\<lparr>cv_next_outbound_sequence := n\<rparr>)" "chat_messages s' = chat_messages s1"
      by (auto simp: operator_command_def)
    from enqueue_filed [OF e] have "enqueue_outbound E s' ?cmd = Inr (s', out, True)"
      using enqueue_known by fastforce
    then have again: "enqueue_outbound E s' (operator_command (c\<lparr>cv_next_outbound_sequence := n\<rparr>) aid m1 actor (strip ikey) content)
        = Inr (s', out, True)" by (simp add: operator_command_def)
    show ?thesis
      unfolding m
      by (rule reply_known [where c = "c\<lparr>cv_next_outbound_sequence := n\<rparr>"])
        (use n 1(2-6) id content get1 again dr False in \<open>auto simp: control_conversation_def get_message_def\<close>)
  next
    case True
    with 1(8) have p: "publish_operator_message E s1 c aid m1 dup1 = Inr (s', m)" and dr: "dr = Published" by auto
    show ?thesis
    proof (cases "json_truthy (field ''public_event_id'' (cm_metadata m1))")
      case truthy: True
      with p have "s' = s1" "m = m1" by (auto simp: publish_operator_message_def)
      then show ?thesis
        by (intro reply_known [where c = c])
          (use scoped1 1(2-6) id content get1 truthy True dr in \<open>auto simp: control_conversation_def\<close>)
    next
      case False
      with p obtain s2 e where s2: "s2 = s1 \<or> publish E (cv_id c) aid ''chat.message.completed'' ''public''
          (PDict [(KStr ''message_id'', PStr (uuid_str (cm_id m1))), (KStr ''content'', PStr (cm_content m1)),
                  (KStr ''status'', PStr ''completed''), (KStr ''actor'', PStr ''human'')]) s1 = Inr (s2, e)"
        and m: "m = m1\<lparr>cm_metadata := dict_set ''public_event_id'' (uuid_json (ev_id e)) (cm_metadata m1)\<rparr>"
        and s': "s' = put_message m s2"
        by (auto simp: publish_operator_message_def Let_def bindE_eq_Inr split: option.splits if_splits)
      obtain n where n: "scoped_conversation s2 cid aid = Some (c\<lparr>cv_next_event_sequence := n\<rparr>)"
        and msgs: "chat_messages s2 = chat_messages s1"
      proof (cases "s2 = s1")
        case True
        then show thesis using that [of "cv_next_event_sequence c"] scoped1 by simp
      next
        case False
        with s2 c have p: "publish E cid aid ''chat.message.completed'' ''public''
          (PDict [(KStr ''message_id'', PStr (uuid_str (cm_id m1))), (KStr ''content'', PStr (cm_content m1)),
                  (KStr ''status'', PStr ''completed''), (KStr ''actor'', PStr ''human'')]) s1 = Inr (s2, e)" by simp
        from that [OF publish_scoped [OF p ok1 scoped1]] publish_frame [OF p] show thesis by simp
      qed
      have idm: "cm_id m = cm_id m1" "cm_content m = content" using m content by simp_all
      have "get_message s2 (cm_id m) \<noteq> None" using get1 msgs idm by (simp add: get_message_def)
      then have got: "get_message s' (cm_id m) = Some m" unfolding s' by (rule get_put_message)
      have truthy: "json_truthy (field ''public_event_id'' (cm_metadata m))"
        by (simp add: m field_dict_set json_truthy_def uuid_json_def)
      have "scoped_conversation s' cid aid = Some (c\<lparr>cv_next_event_sequence := n\<rparr>)"
        using n by (simp add: s' scoped_conversation_def put_message_def)
      then show ?thesis
        by (intro reply_known [where c = "c\<lparr>cv_next_event_sequence := n\<rparr>"])
          (use 1(2-6) id idm got truthy True dr in \<open>auto simp: control_conversation_def\<close>)
    qed
  qed
qed

end
