(* ===== verification/ControlWitnesses.thy ===== *)
theory ControlWitnesses
  imports ControlEpochs OutboundWitnesses
begin

text \<open>Concrete runs of conversation control: an operator takes over a conversation whose automation
  has a queued message, and answers in it.\<close>

definition sample_two_conversations :: store where
  "sample_two_conversations = sample_store\<lparr>
     conversations := [sample_conversation\<lparr>cv_next_outbound_sequence := 2\<rparr>,
                       sample_conversation\<lparr>cv_id := UUID 11, cv_next_outbound_sequence := 2\<rparr>],
     outbounds := [sample_outbound 201 1 ''k1'', (sample_outbound 202 1 ''k1'')\<lparr>om_conversation_id := UUID 11, om_created_at := 2\<rparr>],
     delivery_events := [sample_enqueued_event 301 201, sample_enqueued_event 302 202]\<rparr>"

lemma sample_two_inv: "outbound_inv sample_two_conversations"
  unfolding outbound_inv_def
proof (intro conjI)
  show "rows_ok sample_two_conversations"
    by (simp add: rows_ok_def sample_two_conversations_def sample_outbound_def outbound_checks_def payload_shape_def
        is_jstr_def field_def outbound_clash_def)
  show "numbering_ok sample_two_conversations"
    by (simp add: numbering_ok_def sample_two_conversations_def sample_outbound_def conversations_ok_def sample_conversation_def)
  show "attempts_ok sample_two_conversations"
    by (simp add: attempts_ok_def sample_two_conversations_def single_attempt_def attempts_of_def sample_outbound_def
        sample_store_def empty_store_def)
  show "trail_ok sample_two_conversations"
    by (simp add: trail_ok_def sample_two_conversations_def events_of_def sample_outbound_def sample_enqueued_event_def)
  show "lanes_ok om_conversation_id om_sequence (\<lambda>m. om_status m = OutDispatching) blocking (outbounds sample_two_conversations)"
    by (simp add: lanes_ok_def sample_two_conversations_def sample_outbound_def)
qed

definition taken_over_row :: conversation where
  "taken_over_row = sample_conversation\<lparr>cv_next_outbound_sequence := 2, cv_control_mode := Human, cv_control_version := 1,
     cv_assigned_admin_id := Some (UUID 8), cv_control_changed_at := 50, cv_control_reason := None\<rparr>"

definition taken_over_store :: store where
  "taken_over_store = sample_two_conversations\<lparr>
     conversations := [taken_over_row, sample_conversation\<lparr>cv_id := UUID 11, cv_next_outbound_sequence := 2\<rparr>],
     draws := 1,
     control_events := [\<lparr>ce_id = UUID 1000, ce_conversation_id = UUID 1, ce_agent_id = UUID 2, ce_actor_admin_id = UUID 8,
       ce_event_type = TakenOver, ce_from_mode = Automated, ce_to_mode = Human, ce_from_assigned_admin_id = None,
       ce_to_assigned_admin_id = Some (UUID 8), ce_control_version = 1, ce_reason = None, ce_created_at = 40\<rparr>]\<rparr>"

lemma sample_transition:
  "transition sample_env sample_two_conversations (UUID 1) (UUID 2) (UUID 8) Human 0 None None =
     Inr (taken_over_store, taken_over_row)"
  by (simp add: transition_def control_conversation_def scoped_conversation_def sample_two_conversations_def
      taken_over_store_def taken_over_row_def sample_conversation_def resolve_target_admin_def control_event_kind_def
      apply_control_epoch_def control_row_def put_conversation_def put_row_def fresh_def Let_def sample_store_def
      empty_store_def sample_env_def conversation_checks_def assert_version_def)

lemma sample_two_ok: "conversations_ok sample_two_conversations"
  by (simp add: conversations_ok_def sample_two_conversations_def sample_conversation_def)

theorem transition_next_epoch_witness:
  "cv_control_version taken_over_row = 0 + 1 \<and>
   scoped_conversation taken_over_store (UUID 1) (UUID 2) = Some taken_over_row"
  using transition_next_epoch [OF sample_two_ok sample_transition] by auto

theorem transition_lost_race_witness:
  "transition sample_env taken_over_store (UUID 1) (UUID 2) (UUID 9) Closed 0 None None = Inl (CtlVersionConflict 0 1)"
  using transition_lost_race [OF sample_two_ok sample_transition] by simp

lemma sample_control_inv: "control_inv sample_two_conversations"
  by (auto simp: control_inv_def conversations_ok_def gap_free_def next_epoch_def epoch_numbers_def control_log_def
      get_conversation_def sample_two_conversations_def sample_conversation_def sample_store_def empty_store_def
      split: if_splits)


lemma sample_claim_other:
  "\<exists>s'' m a. claim_next_outbound sample_env (\<lambda>_. False) ''w1'' 0 None taken_over_store = Inr (s'', Some (m, a)) \<and>
     om_conversation_id m = UUID 11"
proof -
  let ?m1 = "sample_outbound 201 1 ''k1''"
  let ?m2 = "(sample_outbound 202 1 ''k1'')\<lparr>om_conversation_id := UUID 11, om_created_at := 2\<rparr>"
  let ?x1 = "?m1\<lparr>om_status := OutCancelled, om_locked_by := None, om_locked_at := None\<rparr>"
  have rows: "outbounds taken_over_store = [?m1, ?m2]"
    by (simp add: taken_over_store_def sample_two_conversations_def)
  have worker: "normalize_worker n ''w1'' = Inr ''w1''" for n
    by (simp add: normalize_worker_def strip_def is_space_def)
  have stale: "stale_dispatches (\<lambda>_. False) 0 taken_over_store = []"
    by (simp add: stale_dispatches_def rows sample_outbound_def)
  have h1: "eligible_head (\<lambda>_. False) taken_over_store = Some ?m1"
    by (simp add: eligible_head_def first_by_def rows sample_outbound_def blocking_def)
  have c1: "get_scoped taken_over_store (om_conversation_id ?m1) (om_agent_id ?m1) = Inr taken_over_row"
    by (simp add: get_scoped_def scoped_conversation_def taken_over_store_def taken_over_row_def sample_conversation_def
        sample_outbound_def)
  have f1: "assert_message_fence taken_over_row ?m1 = Inl (OutFence ''conversation control epoch changed'' control_changed)"
    by (simp add: assert_message_fence_def assert_route_snapshot_def assert_sender_fence_def taken_over_row_def
        sample_outbound_def sample_conversation_def)
  obtain s1 where x: "cancel_stale_message sample_env ?m1 None control_changed taken_over_store = Inr (s1, ?x1)"
    and s1: "outbounds s1 = [?x1, ?m2]" "conversations s1 = conversations taken_over_store" "attempts s1 = []"
    by (simp add: cancel_stale_message_def Let_def update_outbound_def rows frame_simps outbound_checks_def payload_shape_def
        is_jstr_def field_def outbound_clash_def sample_outbound_def put_row_def taken_over_store_def
        sample_two_conversations_def sample_store_def empty_store_def)
  have h2: "eligible_head (\<lambda>_. False) s1 = Some ?m2"
    by (simp add: eligible_head_def first_by_def s1 sample_outbound_def blocking_def)
  have c2: "get_scoped s1 (om_conversation_id ?m2) (om_agent_id ?m2) =
      Inr (sample_conversation\<lparr>cv_id := UUID 11, cv_next_outbound_sequence := 2\<rparr>)"
    by (simp add: get_scoped_def scoped_conversation_def s1 taken_over_store_def taken_over_row_def sample_conversation_def
        sample_outbound_def)
  have f2: "assert_message_fence (sample_conversation\<lparr>cv_id := UUID 11, cv_next_outbound_sequence := 2\<rparr>) ?m2 = Inr ()"
    by (simp add: assert_message_fence_def assert_route_snapshot_def assert_sender_fence_def
        sample_outbound_def sample_conversation_def)
  obtain r where d: "start_dispatch sample_env ''w1'' 50 ?m2 s1 = Inr r"
    by (simp add: start_dispatch_def update_outbound_def Let_def insert_attempt_def fresh_def
        attempt_checks_def s1 sample_outbound_def outbound_checks_def payload_shape_def is_jstr_def
        field_def outbound_clash_def)
  obtain s'' m a where r: "r = (s'', m, a)" by (cases r) auto
  have m: "om_conversation_id m = UUID 11" using start_dispatch_Inr [OF d [unfolded r]] by simp
  have at: "clock sample_env = 50" by (simp add: sample_env_def)
  have "claim_loop sample_env (\<lambda>_. False) ''w1'' 50 s1 = Inr (s'', Some (m, a))"
    by (subst claim_loop.simps, simp only: h2 option.case c2 f2 sum.case d r prod.case)
  then have "claim_loop sample_env (\<lambda>_. False) ''w1'' 50 taken_over_store = Inr (s'', Some (m, a))"
    by (subst claim_loop.simps, simp only: h1 option.case c1 f1 sum.case outbound_error.case x prod.case)
  then have "claim_next_outbound sample_env (\<lambda>_. False) ''w1'' 0 None taken_over_store = Inr (s'', Some (m, a))"
    by (simp add: claim_next_outbound_def worker recover_stale_dispatches_def stale Let_def at)
  with m show ?thesis by blast
qed


text \<open>The operator who took over answers.\<close>

lemma uuid_str_7: "uuid_str (UUID 7) = ''00000000-0000-0000-0000-000000000007''"
  by code_simp

lemma uuid_str_8: "uuid_str (UUID 8) = ''00000000-0000-0000-0000-000000000008''"
  by code_simp

lemma sample_reply: "\<exists>s' m dr.
  record_operator_message sample_env taken_over_store (UUID 1) (UUID 2) (UUID 8) ''hola'' 1 '' r1 '' = Inr (s', m, dr, False)"
proof -
  have hash: "outbound_hash sample_env c d p cmd = replicate 64 (CHR ''a'')" for c d p cmd
    by (simp add: outbound_hash_def command_digest_def sample_env_def)
  let ?m = "operator_message sample_env taken_over_row (UUID 7) (UUID 8) ''hola''"
  have row: "operator_message_row sample_env taken_over_store taken_over_row (UUID 8) ''r1'' ''hola'' =
      Inr (taken_over_store\<lparr>chat_messages := [?m]\<rparr>, ?m, False)"
    by (simp add: operator_message_row_def Let_def operator_message_def get_message_def insert_message_def uuid_str_7 sample_env_def
        taken_over_store_def sample_two_conversations_def sample_store_def empty_store_def)
  let ?s1 = "taken_over_store\<lparr>chat_messages := [?m]\<rparr>"
  let ?cmd = "operator_command taken_over_row (UUID 2) ?m (UUID 8) ''r1'' ''hola''"
  have prep: "prepare_enqueue ?s1 ?cmd = Inr ([(''text'', JStr ''hola'')], taken_over_row, UUID 4, ''5491100'')"
    by (simp add: prepare_enqueue_def operator_command_def operator_message_def strip_def is_space_def normalize_outbound_def sorted_items_def
      str_keys_def max_outbound_bytes_def utf8_length_def quote_def escape_char_def short_escape_def
      validate_text_payload_def require_exact_keys_def require_text_def field_def get_scoped_def
      scoped_conversation_def taken_over_store_def taken_over_row_def sample_conversation_def outbound_target_def
      check_chat_message_def get_message_def uuid_str_7)
  have route: "resolve_route_snapshot ?s1 taken_over_row = Inr (hd (routes sample_store), hd (connections sample_store))"
    by (simp add: resolve_route_snapshot_def taken_over_store_def taken_over_row_def sample_two_conversations_def
        sample_store_def sample_conversation_def)
  have new: "outbound_receipt ?s1 (cv_id taken_over_row) (strip (oc_idempotency_key ?cmd)) = None"
    by (simp add: outbound_receipt_def taken_over_store_def sample_two_conversations_def sample_outbound_def
        operator_command_def strip_def is_space_def)
  have fence: "assert_sender_fence taken_over_row (oc_sender_type ?cmd) (oc_sender_admin_id ?cmd) (oc_control_version ?cmd)
      (oc_automation_agent_id ?cmd) (oc_automation_version ?cmd) = Inr ()"
    by (simp add: operator_command_def taken_over_row_def sample_conversation_def assert_sender_fence_def)
  have e: "\<exists>s' out. enqueue_outbound sample_env ?s1 ?cmd = Inr (s', out, False)"
    by (simp only: enqueue_outbound_def prep bindE_simps prod.case Let_def new option.case fence route hash,
        simp add: fresh_def insert_outbound_def put_conversation_def queued_message_def outbound_checks_def
          payload_shape_def is_jstr_def field_def outbound_clash_def operator_command_def operator_message_def
          taken_over_store_def sample_two_conversations_def sample_outbound_def sample_env_def sample_store_def
          taken_over_row_def sample_conversation_def strip_def is_space_def uuid_str_7)
  have "control_conversation taken_over_store (UUID 1) (UUID 2) = Inr taken_over_row"
    by (simp add: control_conversation_def scoped_conversation_def taken_over_store_def taken_over_row_def sample_conversation_def)
  moreover have "cv_control_version taken_over_row = 1" "cv_control_mode taken_over_row = Human"
    "cv_assigned_admin_id taken_over_row = Some (UUID 8)" "cv_channel taken_over_row \<noteq> ''web''" "strip '' r1 '' = ''r1''"
    by (simp_all add: taken_over_row_def sample_conversation_def strip_def is_space_def)
  ultimately show ?thesis
    using e by (auto simp: record_operator_message_def assert_version_def row Let_def)
qed

theorem operator_reply_by_owner_witness:
  "\<exists>s' m dr. record_operator_message sample_env taken_over_store (UUID 1) (UUID 2) (UUID 8) ''hola'' 1 '' r1 '' = Inr (s', m, dr, False) \<and>
     cm_content m = ''hola''"
proof -
  from sample_reply obtain s' m dr where
    r: "record_operator_message sample_env taken_over_store (UUID 1) (UUID 2) (UUID 8) ''hola'' 1 '' r1 '' = Inr (s', m, dr, False)"
    by blast
  with operator_reply_by_owner [OF r] show ?thesis by auto
qed

theorem operator_reply_retry_witness:
  "\<exists>s' m dr. record_operator_message sample_env s' (UUID 1) (UUID 2) (UUID 8) ''hola'' 1 '' r1 '' = Inr (s', m, dr, True)"
proof -
  have ok: "conversations_ok taken_over_store"
    by (simp add: conversations_ok_def taken_over_store_def taken_over_row_def sample_conversation_def)
  from sample_reply obtain s' m dr where
    r: "record_operator_message sample_env taken_over_store (UUID 1) (UUID 2) (UUID 8) ''hola'' 1 '' r1 '' = Inr (s', m, dr, False)"
    by blast
  from operator_reply_retry [OF ok r] show ?thesis by blast
qed
end
