(* ===== verification/AutomationAssignment.thy ===== *)
theory AutomationAssignment
  imports ControlEpochs
begin

text \<open>
  \<open>services/conversation_automation_assignment.py\<close>: which agent profile automates a conversation.
  An assignment command is filed as a receipt under (conversation, idempotency key); when it changes
  the acting agent it advances the conversation's automation epoch, which fences everything the
  previous agent had queued.
\<close>

datatype assignment_error =
    AsgNotFound
  | AsgInvalid string
  | AsgClosed
  | AsgInactive string
  | AsgVersionConflict (asg_expected: int) (asg_actual: int)
  | AsgIdempotency
  | AsgIntegrity

record assign_command =
  ac_conversation_id :: uuid
  ac_routing_agent_id :: uuid
  ac_target_agent_id :: uuid
  ac_expected_version :: int
  ac_actor_agent_id :: "uuid option"
  ac_actor_admin_id :: "uuid option"
  ac_trigger :: string
  ac_opportunity_id :: "uuid option"
  ac_correlation_id :: string
  ac_idempotency_key :: string
  ac_reason :: "string option"
  ac_occurred_at :: "datetime option"

section \<open>Checks before the database is read\<close>

definition validate_actor :: "uuid option \<Rightarrow> uuid option \<Rightarrow> assignment_error + unit" where
  "validate_actor agent admin =
     require ((agent = None) \<noteq> (admin = None)) (AsgInvalid ''exactly one assignment actor is required'')"

definition asg_required_text :: "string \<Rightarrow> string \<Rightarrow> nat \<Rightarrow> assignment_error + string" where
  "asg_required_text value name max_length =
     (let t = strip value in if t = [] \<or> max_length < length t then Inl (AsgInvalid (''invalid '' @ name)) else Inr t)"

definition asg_optional_text :: "string option \<Rightarrow> nat \<Rightarrow> assignment_error + string option" where
  "asg_optional_text value max_length =
     (case value of
        None \<Rightarrow> Inr None
      | Some v \<Rightarrow>
          let t = strip v in
          if max_length < length t then Inl (AsgInvalid ''invalid reason'')
          else Inr (if t = [] then None else Some t))"

definition asg_aware_utc :: "datetime \<Rightarrow> assignment_error + instant" where
  "asg_aware_utc d =
     (case to_utc d of None \<Rightarrow> Inl (AsgInvalid ''occurred_at must be timezone-aware'') | Some t \<Rightarrow> Inr t)"

definition assign_literal :: "assign_command \<Rightarrow> string \<Rightarrow> string option \<Rightarrow> (string \<times> json) list" where
  "assign_literal cmd trigger reason =
     [(''actor_admin_id'', opt_json uuid_json (ac_actor_admin_id cmd)),
      (''actor_agent_id'', opt_json uuid_json (ac_actor_agent_id cmd)),
      (''conversation_id'', uuid_json (ac_conversation_id cmd)),
      (''expected_automation_version'', JInt (ac_expected_version cmd)),
      (''opportunity_id'', opt_json uuid_json (ac_opportunity_id cmd)),
      (''reason'', opt_json JStr reason),
      (''routing_agent_id'', uuid_json (ac_routing_agent_id cmd)),
      (''target_agent_id'', uuid_json (ac_target_agent_id cmd)),
      (''trigger'', JStr trigger)]"

record assign_normalized =
  an_trigger :: string
  an_correlation :: string
  an_key :: string
  an_reason :: "string option"
  an_event_time :: instant
  an_command_hash :: string

definition prepare_assign :: "env \<Rightarrow> assign_command \<Rightarrow> assignment_error + assign_normalized" where
  "prepare_assign E cmd =
     bindE (validate_actor (ac_actor_agent_id cmd) (ac_actor_admin_id cmd)) (\<lambda>_.
     if ac_expected_version cmd < 0
     then Inl (AsgInvalid ''expected_automation_version must be non-negative'')
     else
     bindE (asg_required_text (ac_trigger cmd) ''trigger'' 80) (\<lambda>trigger.
     bindE (asg_required_text (ac_correlation_id cmd) ''correlation_id'' 120) (\<lambda>correlation.
     bindE (asg_required_text (ac_idempotency_key cmd) ''idempotency_key'' 220) (\<lambda>key.
     bindE (asg_optional_text (ac_reason cmd) 1000) (\<lambda>reason.
     bindE (asg_aware_utc (case ac_occurred_at cmd of Some d \<Rightarrow> d | None \<Rightarrow> Aware (clock E) 0)) (\<lambda>event_time.
       Inr \<lparr>an_trigger = trigger, an_correlation = correlation, an_key = key, an_reason = reason,
            an_event_time = event_time,
            an_command_hash = command_digest E True (assign_literal cmd trigger reason)\<rparr>))))))"

section \<open>The command\<close>

definition assignment_receipt :: "store \<Rightarrow> uuid \<Rightarrow> string \<Rightarrow> assignment_event option" where
  "assignment_receipt s cid key =
     find (\<lambda>e. ae_conversation_id e = cid \<and> ae_idempotency_key e = key) (assignment_events s)"

definition assignment_replay ::
  "assignment_event \<Rightarrow> uuid \<Rightarrow> string \<Rightarrow> assignment_error + assignment_event" where
  "assignment_replay receipt routing_agent command_hash =
     (if ae_routing_agent_id receipt \<noteq> routing_agent then Inl AsgNotFound
      else if ae_command_hash receipt \<noteq> command_hash then Inl AsgIdempotency
      else Inr receipt)"

definition active_agent :: "store \<Rightarrow> uuid \<Rightarrow> bool" where
  "active_agent s aid = list_ex (\<lambda>a. ag_id a = aid \<and> ag_is_active a) (agents s)"

definition assert_active_agents :: "store \<Rightarrow> uuid \<Rightarrow> uuid \<Rightarrow> assignment_error + unit" where
  "assert_active_agents s routing target =
     (if \<not> active_agent s routing then Inl (AsgInactive ''routing agent is absent or inactive'')
      else if \<not> active_agent s target then Inl (AsgInactive ''target agent is absent or inactive'')
      else Inr ())"

text \<open>\<open>_assert_opportunity_assignment\<close>: the opportunity is assigned to the target agent and linked to
  the conversation.\<close>

definition assert_opportunity_assignment :: "store \<Rightarrow> uuid \<Rightarrow> uuid \<Rightarrow> uuid \<Rightarrow> assignment_error + unit" where
  "assert_opportunity_assignment s cid oid target =
     require (list_ex (\<lambda>p. op_id p = oid \<and> op_assigned_agent_id p = target) (opportunities s) \<and>
              list_ex (\<lambda>l. ol_opportunity_id l = oid \<and> ol_conversation_id l = Some cid) (conversation_links s))
       (AsgInvalid ''opportunity is not linked to the conversation and target agent'')"

definition assert_conversation_open :: "conversation \<Rightarrow> assignment_error + unit" where
  "assert_conversation_open c = require (cv_status c = ''active'' \<and> cv_control_mode c \<noteq> Closed) AsgClosed"

definition assert_automation_version :: "conversation \<Rightarrow> int \<Rightarrow> assignment_error + unit" where
  "assert_automation_version c expected =
     require (cv_automation_version c = expected) (AsgVersionConflict expected (cv_automation_version c))"

definition assigned_row :: "conversation \<Rightarrow> uuid \<Rightarrow> conversation" where
  "assigned_row c target =
     (if cv_automation_agent_id c \<noteq> target
      then c\<lparr>cv_automation_agent_id := target, cv_automation_version := cv_automation_version c + 1\<rparr> else c)"

definition new_assignment_event ::
  "env \<Rightarrow> conversation \<Rightarrow> assign_command \<Rightarrow> assign_normalized \<Rightarrow> assignment_event" where
  "new_assignment_event E c cmd n =
     \<lparr>ae_id = uuid5 E (cv_id c) (''automation-assignment:'' @ an_key n), ae_conversation_id = cv_id c,
      ae_routing_agent_id = cv_agent_id c, ae_from_automation_agent_id = cv_automation_agent_id c,
      ae_to_automation_agent_id = ac_target_agent_id cmd,
      ae_automation_version = cv_automation_version (assigned_row c (ac_target_agent_id cmd)),
      ae_applied = (cv_automation_agent_id c \<noteq> ac_target_agent_id cmd), ae_trigger = an_trigger n,
      ae_opportunity_id = ac_opportunity_id cmd, ae_actor_agent_id = ac_actor_agent_id cmd,
      ae_actor_admin_id = ac_actor_admin_id cmd, ae_correlation_id = an_correlation n,
      ae_idempotency_key = an_key n, ae_command_hash = an_command_hash n, ae_reason = an_reason n,
      ae_created_at = an_event_time n\<rparr>"

text \<open>The row's constraints: primary key, (conversation, key), (conversation, version) among applied
  events, and the CHECKs.\<close>

definition insert_assignment_event :: "assignment_event \<Rightarrow> store \<Rightarrow> assignment_error + store" where
  "insert_assignment_event e s =
     (if list_ex (\<lambda>x. ae_id x = ae_id e \<or>
           (ae_conversation_id x = ae_conversation_id e \<and>
            (ae_idempotency_key x = ae_idempotency_key e \<or>
             (ae_applied x \<and> ae_applied e \<and> ae_automation_version x = ae_automation_version e))))
         (assignment_events s) \<or> \<not> assignment_event_checks e
      then Inl AsgIntegrity else Inr (s\<lparr>assignment_events := assignment_events s @ [e]\<rparr>))"

text \<open>\<open>assign\<close>; the receipt is looked up before and after the conversation is locked. The result is the
  event and whether it is a duplicate.\<close>

definition assign ::
  "env \<Rightarrow> store \<Rightarrow> assign_command \<Rightarrow> assignment_error + (store \<times> assignment_event \<times> bool)" where
  "assign E s cmd =
     bindE (prepare_assign E cmd) (\<lambda>n.
     case assignment_receipt s (ac_conversation_id cmd) (an_key n) of
       Some receipt \<Rightarrow>
         bindE (assignment_replay receipt (ac_routing_agent_id cmd) (an_command_hash n)) (\<lambda>e. Inr (s, e, True))
     | None \<Rightarrow>
       (case scoped_conversation s (ac_conversation_id cmd) (ac_routing_agent_id cmd) of
          None \<Rightarrow> Inl AsgNotFound
        | Some c \<Rightarrow>
            bindE (assert_conversation_open c) (\<lambda>_.
            bindE (assert_active_agents s (ac_routing_agent_id cmd) (ac_target_agent_id cmd)) (\<lambda>_.
            bindE (case ac_opportunity_id cmd of
                     None \<Rightarrow> Inr ()
                   | Some oid \<Rightarrow> assert_opportunity_assignment s (cv_id c) oid (ac_target_agent_id cmd)) (\<lambda>_.
            bindE (assert_automation_version c (ac_expected_version cmd)) (\<lambda>_.
            let s1 = put_conversation (assigned_row c (ac_target_agent_id cmd)) s;
                e = new_assignment_event E c cmd n
            in bindE (insert_assignment_event e s1) (\<lambda>s2. Inr (s2, e, False))))))))"

section \<open>What an assignment does\<close>

lemma prepare_assign_Inr:
  assumes "prepare_assign E cmd = Inr n"
  shows "an_key n = strip (ac_idempotency_key cmd) \<and> an_key n \<noteq> [] \<and> an_trigger n = strip (ac_trigger cmd) \<and>
    an_trigger n \<noteq> [] \<and> an_correlation n = strip (ac_correlation_id cmd) \<and> an_correlation n \<noteq> [] \<and>
    (ac_actor_agent_id cmd = None) \<noteq> (ac_actor_admin_id cmd = None) \<and> 0 \<le> ac_expected_version cmd \<and>
    an_command_hash n = command_digest E True (assign_literal cmd (an_trigger n) (an_reason n))"
  using assms
  by (auto simp: prepare_assign_def validate_actor_def asg_required_text_def Let_def bindE_eq_Inr not_less split: if_splits)

lemma assignment_receiptD: "assignment_receipt s cid key = Some e \<Longrightarrow>
    e \<in> set (assignment_events s) \<and> ae_conversation_id e = cid \<and> ae_idempotency_key e = key"
  by (auto simp: assignment_receipt_def dest: find_SomeD)

lemma assign_cases:
  assumes "assign E s cmd = Inr (s', e, d)"
  obtains (replay) n where "prepare_assign E cmd = Inr n" "d" "s' = s"
      "assignment_receipt s (ac_conversation_id cmd) (an_key n) = Some e"
      "ae_routing_agent_id e = ac_routing_agent_id cmd" "ae_command_hash e = an_command_hash n"
  | (first) n c where "prepare_assign E cmd = Inr n" "\<not> d"
      "assignment_receipt s (ac_conversation_id cmd) (an_key n) = None"
      "scoped_conversation s (ac_conversation_id cmd) (ac_routing_agent_id cmd) = Some c"
      "cv_status c = ''active''" "cv_control_mode c \<noteq> Closed"
      "active_agent s (ac_routing_agent_id cmd)" "active_agent s (ac_target_agent_id cmd)"
      "\<forall>oid. ac_opportunity_id cmd = Some oid \<longrightarrow>
         assert_opportunity_assignment s (cv_id c) oid (ac_target_agent_id cmd) = Inr ()"
      "cv_automation_version c = ac_expected_version cmd"
      "e = new_assignment_event E c cmd n" "assignment_event_checks e"
      "s' = s\<lparr>conversations := put_row cv_id (assigned_row c (ac_target_agent_id cmd)) (conversations s),
              assignment_events := assignment_events s @ [e]\<rparr>"
proof -
  from assms obtain n where n: "prepare_assign E cmd = Inr n" by (auto simp: assign_def bindE_eq_Inr)
  show thesis
  proof (cases "assignment_receipt s (ac_conversation_id cmd) (an_key n)")
    case (Some r)
    with assms n show thesis
      by (intro replay [OF n]) (auto simp: assign_def bindE_eq_Inr assignment_replay_def split: if_splits)
  next
    case None
    with assms n obtain c where c: "scoped_conversation s (ac_conversation_id cmd) (ac_routing_agent_id cmd) = Some c"
      by (auto simp: assign_def split: option.splits)
    from assms n None c show thesis
      by (intro first [OF n _ None c])
        (auto simp: assign_def bindE_eq_Inr assert_conversation_open_def assert_active_agents_def
          assert_automation_version_def Let_def insert_assignment_event_def put_conversation_def
          split: if_splits option.splits)
  qed
qed

lemma assigned_row_same [simp]:
  "cv_id (assigned_row c t) = cv_id c" "cv_agent_id (assigned_row c t) = cv_agent_id c"
  "cv_control_version (assigned_row c t) = cv_control_version c" "cv_control_mode (assigned_row c t) = cv_control_mode c"
  "cv_assigned_admin_id (assigned_row c t) = cv_assigned_admin_id c" "cv_status (assigned_row c t) = cv_status c"
  "cv_next_outbound_sequence (assigned_row c t) = cv_next_outbound_sequence c"
  "cv_next_event_sequence (assigned_row c t) = cv_next_event_sequence c"
  "cv_automation_agent_id (assigned_row c t) = t"
  by (auto simp: assigned_row_def)

lemma assign_conversations:
  assumes "assign E s cmd = Inr (s', e, False)" "conversations_ok s"
  shows "conversations_ok s' \<and>
    (\<exists>c. scoped_conversation s (ac_conversation_id cmd) (ac_routing_agent_id cmd) = Some c \<and>
      (\<forall>k. get_conversation s' k =
        (if k = ac_conversation_id cmd then Some (assigned_row c (ac_target_agent_id cmd)) else get_conversation s k)))"
  using assms(1)
proof (cases rule: assign_cases)
  case (first n c)
  have "cv_id (assigned_row c (ac_target_agent_id cmd)) = ac_conversation_id cmd"
    using scoped_conversationD [OF first(4)] by simp
  then have "get_conversation s' k =
      (if k = ac_conversation_id cmd then Some (assigned_row c (ac_target_agent_id cmd)) else get_conversation s k)" for k
    using get_control_row [OF assms(2) first(4), of "assigned_row c (ac_target_agent_id cmd)" s' k] first(13) by simp
  moreover have "conversations_ok s'" using assms(2) first(13) by (simp add: conversations_ok_def table_simps)
  ultimately show ?thesis using first(4) by blast
qed simp

text \<open>A first assignment is an epoch: it is accepted only for the current automation version of
  an open conversation, between active agents, and for an opportunity only if it is linked to the
  conversation and assigned to the target; the target becomes the acting agent; the automation
  version advances by one exactly when the agent changes; control mode, human assignment and control
  version stay; the event records the change and satisfies its CHECK constraints.\<close>

theorem assign_next_epoch:
  assumes "conversations_ok s" "assign E s cmd = Inr (s', e, False)"
  shows "\<exists>c c'. scoped_conversation s (ac_conversation_id cmd) (ac_routing_agent_id cmd) = Some c \<and>
    get_conversation s' (ac_conversation_id cmd) = Some c' \<and>
    cv_status c = ''active'' \<and> cv_control_mode c \<noteq> Closed \<and> cv_automation_version c = ac_expected_version cmd \<and>
    active_agent s (ac_target_agent_id cmd) \<and>
    (\<forall>oid. ac_opportunity_id cmd = Some oid \<longrightarrow>
       (\<exists>p\<in>set (opportunities s). op_id p = oid \<and> op_assigned_agent_id p = ac_target_agent_id cmd)) \<and>
    cv_automation_agent_id c' = ac_target_agent_id cmd \<and>
    cv_automation_version c' = ac_expected_version cmd + (if ae_applied e then 1 else 0) \<and>
    ae_applied e = (cv_automation_agent_id c \<noteq> ac_target_agent_id cmd) \<and>
    ae_automation_version e = cv_automation_version c' \<and> ae_from_automation_agent_id e = cv_automation_agent_id c \<and>
    ae_to_automation_agent_id e = ac_target_agent_id cmd \<and> assignment_event_checks e \<and>
    cv_control_mode c' = cv_control_mode c \<and> cv_control_version c' = cv_control_version c \<and>
    cv_assigned_admin_id c' = cv_assigned_admin_id c \<and>
    (\<forall>k. k \<noteq> ac_conversation_id cmd \<longrightarrow> get_conversation s' k = get_conversation s k)"
  using assms(2)
proof (cases rule: assign_cases)
  case (first n c)
  note conv = assign_conversations [OF assms(2,1)]
  have "get_conversation s' (ac_conversation_id cmd) = Some (assigned_row c (ac_target_agent_id cmd))"
    "\<forall>k. k \<noteq> ac_conversation_id cmd \<longrightarrow> get_conversation s' k = get_conversation s k"
    using conv first(4) by auto
  with first show ?thesis
    by (intro exI [of _ c] exI [of _ "assigned_row c (ac_target_agent_id cmd)"])
      (auto simp: new_assignment_event_def assigned_row_def assert_opportunity_assignment_def list_ex_iff)
qed simp

section \<open>Assignments as idempotent commands\<close>

definition run_assign :: "env \<Rightarrow> store \<Rightarrow> assign_command \<Rightarrow> assignment_error + (store \<times> assignment_event)" where
  "run_assign E s cmd = (case assign E s cmd of Inl x \<Rightarrow> Inl x | Inr (s', e, _) \<Rightarrow> Inr (s', e))"

definition assign_receipt_of :: "env \<Rightarrow> store \<Rightarrow> assign_command \<Rightarrow> (string \<times> assignment_event) option" where
  "assign_receipt_of E s cmd =
     (case prepare_assign E cmd of
        Inl _ \<Rightarrow> None
      | Inr n \<Rightarrow> map_option (\<lambda>e. (ae_command_hash e, e)) (assignment_receipt s (ac_conversation_id cmd) (an_key n)))"

definition assign_digest :: "env \<Rightarrow> store \<Rightarrow> assign_command \<Rightarrow> string" where
  "assign_digest E s cmd = (case prepare_assign E cmd of Inl _ \<Rightarrow> '''' | Inr n \<Rightarrow> an_command_hash n)"

text \<open>The command is valid, and its key was not used under another routing agent.\<close>

definition assign_valid :: "env \<Rightarrow> store \<Rightarrow> assign_command \<Rightarrow> bool" where
  "assign_valid E s cmd =
     (case prepare_assign E cmd of
        Inl _ \<Rightarrow> False
      | Inr n \<Rightarrow> (case assignment_receipt s (ac_conversation_id cmd) (an_key n) of
                    None \<Rightarrow> True | Some e \<Rightarrow> ae_routing_agent_id e = ac_routing_agent_id cmd))"

interpretation assignments: idempotent_command "run_assign E" "assign_valid E" "assign_receipt_of E"
  "assign_digest E" AsgIdempotency for E
proof
  fix s cmd r
  assume "assign_valid E s cmd" "assign_receipt_of E s cmd = Some (assign_digest E s cmd, r)"
  then show "run_assign E s cmd = Inr (s, r)"
    by (auto simp: assign_valid_def assign_receipt_of_def assign_digest_def run_assign_def assign_def
        assignment_replay_def split: sum.splits)
next
  fix s cmd h r
  assume "assign_valid E s cmd" "assign_receipt_of E s cmd = Some (h, r)" "h \<noteq> assign_digest E s cmd"
  then show "run_assign E s cmd = Inl AsgIdempotency"
    by (auto simp: assign_valid_def assign_receipt_of_def assign_digest_def run_assign_def assign_def
        assignment_replay_def split: sum.splits)
next
  fix s cmd s' e assume "run_assign E s cmd = Inr (s', e)"
  then obtain d where a: "assign E s cmd = Inr (s', e, d)"
    by (auto simp: run_assign_def split: sum.splits prod.splits)
  then show "assign_valid E s cmd \<and> assign_valid E s' cmd \<and> assign_digest E s' cmd = assign_digest E s cmd \<and>
      assign_receipt_of E s' cmd = Some (assign_digest E s cmd, e)"
  proof (cases rule: assign_cases)
    case (replay n)
    then show ?thesis by (simp add: assign_valid_def assign_receipt_of_def assign_digest_def)
  next
    case (first n c)
    have "assignment_receipt s' (ac_conversation_id cmd) (an_key n) = Some e"
      using first(3,4) unfolding assignment_receipt_def first(13)
      by (auto simp: find_append first(11) new_assignment_event_def dest: scoped_conversationD)
    moreover have "ae_routing_agent_id e = ac_routing_agent_id cmd" "ae_command_hash e = an_command_hash n"
      using scoped_conversationD [OF first(4)] by (simp_all add: first(11) new_assignment_event_def)
    ultimately show ?thesis using first(1,3) by (simp add: assign_valid_def assign_receipt_of_def assign_digest_def)
  qed
qed

text \<open>Assignments are idempotent: repeating an assignment that succeeded, any number of times,
  returns the recorded event and changes nothing; in particular it never advances the epoch twice.\<close>

theorem assign_retry:
  assumes "run_assign E s cmd = Inr (s', e)"
  shows "((\<lambda>x. bindE x (\<lambda>(t, _). run_assign E t cmd)) ^^ n) (Inr (s', e)) = Inr (s', e)"
  using assms by (rule assignments.retries)

section \<open>Fencing the previous agent\<close>

text \<open>No message was enqueued under an automation epoch its conversation has not reached yet.\<close>

definition automation_reached :: "store \<Rightarrow> bool" where
  "automation_reached s \<longleftrightarrow> (\<forall>m\<in>set (outbounds s). \<forall>c\<in>set (conversations s). \<forall>v.
     cv_id c = om_conversation_id m \<and> om_automation_version m = Some v \<longrightarrow> v \<le> cv_automation_version c)"

lemma command_part_sender: "command_part m' = command_part m \<Longrightarrow>
    om_sender_type m' = om_sender_type m \<and> om_automation_version m' = om_automation_version m"
  by (auto simp: command_part_def dest: arg_cong [of _ _ om_sender_type] arg_cong [of _ _ om_automation_version])

lemma assign_step:
  assumes "assign E s cmd = Inr (s', e, d)" "conversations_ok s"
  shows "outbound_step s s'"
  using assms(1)
proof (cases rule: assign_cases)
  case (replay n)
  then show ?thesis by (auto intro: outbound_step.elsewhere)
next
  case (first n c)
  have "x = c" if "x \<in> set (conversations s)" "cv_id x = cv_id c" for x
    using that assms(2) scoped_conversationD [OF first(4)] same_key [of cv_id "conversations s" x c]
    by (simp add: conversations_ok_def)
  then have "map (\<lambda>c. (cv_id c, cv_agent_id c, cv_next_outbound_sequence c)) (conversations s') =
     map (\<lambda>c. (cv_id c, cv_agent_id c, cv_next_outbound_sequence c)) (conversations s)"
    unfolding first(13) by (auto intro!: map_put_row_same) (metis, metis)
  with first(13) show ?thesis by (intro outbound_step.elsewhere) auto
qed

text \<open>Handing a conversation to another agent fences the previous one: after an assignment that
  changed the agent, no worker is handed a message the automation enqueued before it, whichever
  agent is assigned next, because the automation version only grows.\<close>

theorem assignment_fences_queue:
  assumes "outbound_inv s" "automation_reached s" "assign E s cmd = Inr (s', e, False)" "ae_applied e"
    "claim_next_outbound E' locked worker_id stale_before now s' = Inr (s'', Some (m, a))"
    "om_conversation_id m = ac_conversation_id cmd"
  shows "om_sender_type m = ByOperator"
proof (rule ccontr)
  assume auto: "om_sender_type m \<noteq> ByOperator"
  have ok: "conversations_ok s" using assms(1) by (auto simp: outbound_inv_def numbering_ok_def)
  from assign_conversations [OF assms(3) ok] obtain c where ok': "conversations_ok s'"
    and c: "scoped_conversation s (ac_conversation_id cmd) (ac_routing_agent_id cmd) = Some c"
    "get_conversation s' (ac_conversation_id cmd) = Some (assigned_row c (ac_target_agent_id cmd))" by auto
  have same: "outbounds s' = outbounds s"
    and v: "cv_automation_version (assigned_row c (ac_target_agent_id cmd)) = cv_automation_version c + 1"
    using assms(3,4) c(1) by (cases rule: assign_cases; simp add: new_assignment_event_def assigned_row_def)+
  have inv: "outbound_inv s'" by (rule step_outbound_inv [OF assign_step [OF assms(3) ok] assms(1)])
  from claim_respects_fences [OF inv assms(5)] auto obtain d where
    d: "d \<in> set (conversations s')" "cv_id d = om_conversation_id m" "om_automation_version m = Some (cv_automation_version d)"
    by auto
  have "d = assigned_row c (ac_target_agent_id cmd)"
    using c(2) d(1,2) assms(6) ok' find_key [of cv_id "conversations s'" d]
    by (simp add: get_conversation_def conversations_ok_def)
  with d(3) v have mv: "om_automation_version m = Some (cv_automation_version c + 1)" by simp
  have "m \<in> set (outbounds s'')" using claim_respects_fences [OF inv assms(5)] by blast
  with claim_next_source [OF assms(5)] obtain y where y: "y \<in> set (outbounds s)" "command_part y = command_part m"
    using same by metis
  have "cv_id c = om_conversation_id y" "c \<in> set (conversations s)"
    using scoped_conversationD [OF c(1)] command_part_keys(2) [OF y(2)] assms(6) by simp_all
  moreover have "om_automation_version y = Some (cv_automation_version c + 1)"
    using command_part_sender [OF y(2)] mv by simp
  ultimately show False using assms(2) y(1) unfolding automation_reached_def by fastforce
qed

text \<open>The hypothesis is an invariant of assignments too: they only raise the version.\<close>

lemma assign_automation_reached:
  assumes "automation_reached s" "conversations_ok s" "assign E s cmd = Inr (s', e, d)"
  shows "automation_reached s'"
  using assms(3)
proof (cases rule: assign_cases)
  case (first n c)
  have old: "\<exists>x0\<in>set (conversations s). cv_id x0 = cv_id x \<and> cv_automation_version x0 \<le> cv_automation_version x"
    if "x \<in> set (conversations s')" for x
    using that scoped_conversationD [OF first(4)] unfolding first(13)
    by (auto dest!: set_put_rowD simp: assigned_row_def intro: bexI [of _ c])
  show ?thesis
    unfolding automation_reached_def
  proof (intro ballI allI impI)
    fix m x v assume m: "m \<in> set (outbounds s')" and x: "x \<in> set (conversations s')"
      and h: "cv_id x = om_conversation_id m \<and> om_automation_version m = Some v"
    from old [OF x] obtain x0 where "x0 \<in> set (conversations s)" "cv_id x0 = cv_id x"
      "cv_automation_version x0 \<le> cv_automation_version x" by blast
    moreover have "m \<in> set (outbounds s)" using m by (simp add: first(13))
    ultimately show "v \<le> cv_automation_version x" using h assms(1) unfolding automation_reached_def by fastforce
  qed
qed (use assms(1) in simp)

end
