(* ===== verification/AssignmentWitnesses.thy ===== *)
theory AssignmentWitnesses
  imports AutomationAssignment ControlWitnesses
begin

text \<open>Concrete runs of automation assignment: an administrator hands a conversation, held by an
  operator whose reply is queued, to another agent.\<close>

definition sample_assign :: assign_command where
  "sample_assign = \<lparr>ac_conversation_id = UUID 1, ac_routing_agent_id = UUID 2, ac_target_agent_id = UUID 6,
     ac_expected_version = 0, ac_actor_agent_id = None, ac_actor_admin_id = Some (UUID 9), ac_trigger = ''manual'',
     ac_opportunity_id = None, ac_correlation_id = ''c1'', ac_idempotency_key = ''k1'', ac_reason = None,
     ac_occurred_at = None\<rparr>"

definition held_row :: conversation where
  "held_row = sample_conversation\<lparr>cv_next_outbound_sequence := 2, cv_control_mode := Human,
     cv_assigned_admin_id := Some (UUID 8)\<rparr>"

definition operator_outbound :: outbound where
  "operator_outbound = (sample_outbound 201 1 ''k1'')\<lparr>om_sender_type := ByOperator, om_sender_admin_id := Some (UUID 8),
     om_automation_agent_id := None, om_automation_version := None\<rparr>"

definition held_store :: store where
  "held_store = sample_store\<lparr>conversations := [held_row], outbounds := [operator_outbound],
     delivery_events := [sample_enqueued_event 301 201]\<rparr>"

definition sample_assignment_event :: assignment_event where
  "sample_assignment_event = \<lparr>ae_id = UUID 7, ae_conversation_id = UUID 1, ae_routing_agent_id = UUID 2,
     ae_from_automation_agent_id = UUID 2, ae_to_automation_agent_id = UUID 6, ae_automation_version = 1,
     ae_applied = True, ae_trigger = ''manual'', ae_opportunity_id = None, ae_actor_agent_id = None,
     ae_actor_admin_id = Some (UUID 9), ae_correlation_id = ''c1'', ae_idempotency_key = ''k1'',
     ae_command_hash = replicate 64 (CHR ''a''), ae_reason = None, ae_created_at = 50\<rparr>"

definition handed_row :: conversation where
  "handed_row = held_row\<lparr>cv_automation_agent_id := UUID 6, cv_automation_version := 1\<rparr>"

definition handed_store :: store where
  "handed_store = held_store\<lparr>conversations := [handed_row], assignment_events := [sample_assignment_event]\<rparr>"

lemma sample_prepare_assign:
  "prepare_assign sample_env sample_assign =
     Inr \<lparr>an_trigger = ''manual'', an_correlation = ''c1'', an_key = ''k1'', an_reason = None, an_event_time = 50,
       an_command_hash = replicate 64 (CHR ''a'')\<rparr>"
  by (simp add: prepare_assign_def sample_assign_def validate_actor_def asg_required_text_def asg_optional_text_def
      asg_aware_utc_def to_utc_def Let_def strip_def is_space_def command_digest_def sample_env_def)

lemma sample_assign_runs: "assign sample_env held_store sample_assign = Inr (handed_store, sample_assignment_event, False)"
  by (simp only: assign_def sample_prepare_assign bindE_simps,
      simp add: assignment_receipt_def scoped_conversation_def sample_assign_def
      held_store_def held_row_def handed_store_def handed_row_def sample_assignment_event_def sample_conversation_def
      assert_conversation_open_def assert_active_agents_def active_agent_def assert_automation_version_def Let_def
      assigned_row_def put_conversation_def put_row_def insert_assignment_event_def new_assignment_event_def
      assignment_event_checks_def btrim_def sample_store_def
      empty_store_def sample_env_def)

lemma held_ok: "conversations_ok held_store"
  by (simp add: conversations_ok_def held_store_def)

theorem assign_next_epoch_witness:
  "\<exists>c'. get_conversation handed_store (UUID 1) = Some c' \<and> cv_automation_agent_id c' = UUID 6 \<and> cv_automation_version c' = 1"
  using assign_next_epoch [OF held_ok sample_assign_runs] by (auto simp: sample_assign_def sample_assignment_event_def)

theorem assign_retry_witness:
  "((\<lambda>x. bindE x (\<lambda>(t, _). run_assign sample_env t sample_assign)) ^^ 2) (Inr (handed_store, sample_assignment_event)) =
     Inr (handed_store, sample_assignment_event)"
  by (rule assign_retry [of _ held_store]) (simp add: run_assign_def sample_assign_runs)

lemma held_inv: "outbound_inv held_store"
  unfolding outbound_inv_def
proof (intro conjI)
  show "rows_ok held_store"
    by (simp add: rows_ok_def held_store_def operator_outbound_def sample_outbound_def outbound_checks_def
        payload_shape_def is_jstr_def field_def)
  show "numbering_ok held_store"
    by (simp add: numbering_ok_def held_store_def held_row_def operator_outbound_def sample_outbound_def
        conversations_ok_def sample_conversation_def)
  show "attempts_ok held_store"
    by (simp add: attempts_ok_def held_store_def operator_outbound_def single_attempt_def attempts_of_def
        sample_outbound_def sample_store_def empty_store_def)
  show "trail_ok held_store"
    by (simp add: trail_ok_def held_store_def operator_outbound_def events_of_def sample_outbound_def sample_enqueued_event_def)
  show "lanes_ok om_conversation_id om_sequence (\<lambda>m. om_status m = OutDispatching) blocking (outbounds held_store)"
    by (simp add: lanes_ok_def held_store_def)
qed

lemma handed_claim:
  "\<exists>s' m a. claim_next_outbound sample_env (\<lambda>_. False) ''w1'' 0 None handed_store = Inr (s', Some (m, a)) \<and>
     om_conversation_id m = UUID 1"
proof -
  have rows: "outbounds handed_store = [operator_outbound]" by (simp add: handed_store_def held_store_def)
  have worker: "normalize_worker n ''w1'' = Inr ''w1''" for n
    by (simp add: normalize_worker_def strip_def is_space_def)
  have stale: "stale_dispatches (\<lambda>_. False) 0 handed_store = []"
    by (simp add: stale_dispatches_def rows operator_outbound_def sample_outbound_def)
  have head: "eligible_head (\<lambda>_. False) handed_store = Some operator_outbound"
    by (simp add: eligible_head_def first_by_def rows operator_outbound_def sample_outbound_def)
  have scoped: "get_scoped handed_store (om_conversation_id operator_outbound) (om_agent_id operator_outbound) = Inr handed_row"
    by (simp add: get_scoped_def scoped_conversation_def handed_store_def handed_row_def held_row_def
        sample_conversation_def operator_outbound_def sample_outbound_def)
  have fence: "assert_message_fence handed_row operator_outbound = Inr ()"
    by (simp add: assert_message_fence_def assert_route_snapshot_def assert_sender_fence_def operator_outbound_def
        handed_row_def held_row_def sample_outbound_def sample_conversation_def)
  obtain r where d: "start_dispatch sample_env ''w1'' 50 operator_outbound handed_store = Inr r"
    by (simp add: start_dispatch_def update_outbound_def Let_def insert_attempt_def fresh_def
        attempt_checks_def rows operator_outbound_def sample_outbound_def outbound_checks_def payload_shape_def
        is_jstr_def field_def outbound_clash_def handed_store_def held_store_def sample_store_def empty_store_def)
  obtain s' m a where r: "r = (s', m, a)" by (cases r) auto
  have m: "om_conversation_id m = UUID 1"
    using start_dispatch_Inr [OF d [unfolded r]] by (simp add: operator_outbound_def sample_outbound_def)
  have "claim_loop sample_env (\<lambda>_. False) ''w1'' 50 handed_store = Inr (s', Some (m, a))"
    by (subst claim_loop.simps, simp only: head option.case scoped fence sum.case d r prod.case)
  then have "claim_next_outbound sample_env (\<lambda>_. False) ''w1'' 0 None handed_store = Inr (s', Some (m, a))"
    by (simp add: claim_next_outbound_def worker recover_stale_dispatches_def stale Let_def)
      (simp add: sample_env_def)
  with m show ?thesis by blast
qed

theorem assignment_fences_queue_witness:
  "\<exists>s' m a. claim_next_outbound sample_env (\<lambda>_. False) ''w1'' 0 None handed_store = Inr (s', Some (m, a)) \<and>
     om_sender_type m = ByOperator"
proof -
  from handed_claim obtain s' m a where
    c: "claim_next_outbound sample_env (\<lambda>_. False) ''w1'' 0 None handed_store = Inr (s', Some (m, a))"
    and m: "om_conversation_id m = UUID 1" by blast
  have "automation_reached held_store"
    by (simp add: automation_reached_def held_store_def operator_outbound_def)
  moreover have "ae_applied sample_assignment_event" by (simp add: sample_assignment_event_def)
  ultimately have "om_sender_type m = ByOperator"
    using m by (intro assignment_fences_queue [OF held_inv _ sample_assign_runs _ c]) (simp_all add: sample_assign_def)
  with c show ?thesis by blast
qed

end
