(* ===== verification/DeliveryResolution.thy ===== *)
theory DeliveryResolution
  imports OutboundClaims
begin

text \<open>
  \<open>services/outbound_delivery_resolution.py\<close>: an operator settles a message whose delivery is
  unknown, with evidence, exactly once; the message is never sent again. The definitions follow
  \<open>OutboundDeliveryResolutionService.resolve\<close> and its static helpers.
\<close>

datatype resolution_error =
    ResNotFound
  | ResVersionConflict
  | ResIdempotency
  | ResInvalid string
  | ResIntegrity

record resolve_command =
  rc_agent_id :: uuid
  rc_delivery_id :: uuid
  rc_admin_id :: uuid
  rc_action :: resolution_action
  rc_expected_version :: int
  rc_provider_message_id :: "string option"
  rc_evidence_source :: "evidence_source option"
  rc_reason_code :: "not_delivered_reason option"
  rc_idempotency_key :: string
  rc_correlation_id :: string

section \<open>Checks before the database is read\<close>

definition res_required_text :: "string \<Rightarrow> string \<Rightarrow> nat \<Rightarrow> resolution_error + string" where
  "res_required_text value name max_length =
     (let t = strip value in if t = [] \<or> max_length < length t then Inl (ResInvalid (''invalid '' @ name)) else Inr t)"

definition normalize_provider_reference :: "string option \<Rightarrow> resolution_error + string option" where
  "normalize_provider_reference value =
     (case value of
        None \<Rightarrow> Inr None
      | Some v \<Rightarrow>
          let t = strip v in
          if t = [] \<or> 255 < length t then Inl (ResInvalid ''invalid provider message id'') else Inr (Some t))"

definition provider_reference_hash :: "env \<Rightarrow> string option \<Rightarrow> string option" where
  "provider_reference_hash E value =
     (case value of None \<Rightarrow> None | Some v \<Rightarrow> if v = [] then None else Some (sha256 E v))"

text \<open>\<open>reference[-6:]\<close>.\<close>

definition provider_suffix :: "string option \<Rightarrow> string option" where
  "provider_suffix value =
     (case value of None \<Rightarrow> None | Some v \<Rightarrow> if v = [] then None else Some (drop (length v - 6) v))"

definition validate_evidence ::
  "resolution_action \<Rightarrow> string option \<Rightarrow> evidence_source option \<Rightarrow> not_delivered_reason option \<Rightarrow>
     resolution_error + unit" where
  "validate_evidence action reference source reason =
     (case action of
        ConfirmDelivered \<Rightarrow>
          if reference = None \<or> source = None
          then Inl (ResInvalid ''confirm_delivered requires provider evidence'')
          else require (reason = None) (ResInvalid ''confirm_delivered cannot include a non-delivery reason'')
      | ConfirmNotDelivered \<Rightarrow>
          if reference \<noteq> None \<or> source \<noteq> None
          then Inl (ResInvalid ''confirm_not_delivered cannot include delivery evidence'')
          else require (reason \<noteq> None) (ResInvalid ''confirm_not_delivered requires a reason code''))"

definition resolution_literal :: "resolve_command \<Rightarrow> string option \<Rightarrow> (string \<times> json) list" where
  "resolution_literal cmd reference =
     [(''action'', JStr (action_value (rc_action cmd))),
      (''admin_id'', uuid_json (rc_admin_id cmd)),
      (''agent_id'', uuid_json (rc_agent_id cmd)),
      (''delivery_id'', uuid_json (rc_delivery_id cmd)),
      (''evidence_source'', opt_json (\<lambda>v. JStr (source_value v)) (rc_evidence_source cmd)),
      (''expected_resolution_version'', JInt (rc_expected_version cmd)),
      (''provider_message_id'', opt_json JStr reference),
      (''reason_code'', opt_json (\<lambda>v. JStr (reason_value v)) (rc_reason_code cmd))]"

record prepared_resolution =
  pr_key :: string
  pr_correlation :: string
  pr_reference :: "string option"
  pr_command_hash :: string

definition prepare_resolution :: "env \<Rightarrow> resolve_command \<Rightarrow> resolution_error + prepared_resolution" where
  "prepare_resolution E cmd =
     bindE (res_required_text (rc_idempotency_key cmd) ''idempotency_key'' 220) (\<lambda>key.
     bindE (res_required_text (rc_correlation_id cmd) ''correlation_id'' 120) (\<lambda>correlation.
     bindE (normalize_provider_reference (rc_provider_message_id cmd)) (\<lambda>reference.
     bindE (validate_evidence (rc_action cmd) reference (rc_evidence_source cmd) (rc_reason_code cmd)) (\<lambda>_.
       Inr \<lparr>pr_key = key, pr_correlation = correlation, pr_reference = reference,
            pr_command_hash = command_digest E True (resolution_literal cmd reference)\<rparr>))))"

section \<open>The command\<close>

definition scoped_delivery :: "store \<Rightarrow> uuid \<Rightarrow> uuid \<Rightarrow> outbound option" where
  "scoped_delivery s did aid = find (\<lambda>m. om_id m = did \<and> om_agent_id m = aid) (outbounds s)"

definition resolution_receipt :: "store \<Rightarrow> uuid \<Rightarrow> string \<Rightarrow> resolution option" where
  "resolution_receipt s mid key =
     find (\<lambda>r. rs_outbound_message_id r = mid \<and> rs_idempotency_key r = key) (resolutions s)"

definition assert_provider_reference_available ::
  "store \<Rightarrow> outbound \<Rightarrow> string option \<Rightarrow> resolution_error + unit" where
  "assert_provider_reference_available s m reference =
     require (\<not> list_ex (\<lambda>x. om_channel_route_id x = om_channel_route_id m \<and>
         om_provider_message_id x = reference \<and> om_id x \<noteq> om_id m) (outbounds s))
       (ResInvalid ''provider reference belongs to another delivery'')"

text \<open>The row after the decision, and the code of its event.\<close>

definition resolved_row :: "env \<Rightarrow> outbound \<Rightarrow> resolution_action \<Rightarrow> string option \<Rightarrow> outbound" where
  "resolved_row E m action reference =
     (case action of
        ConfirmDelivered \<Rightarrow>
          m\<lparr>om_status := OutDelivered, om_provider_message_id := reference,
            om_accepted_at := (case om_accepted_at m of None \<Rightarrow> Some (clock E) | Some t \<Rightarrow> Some t),
            om_delivered_at := Some (clock E), om_resolution_version := om_resolution_version m + 1\<rparr>
      | ConfirmNotDelivered \<Rightarrow>
          m\<lparr>om_status := OutCancelled, om_resolution_version := om_resolution_version m + 1\<rparr>)"

definition resolution_code :: "resolution_action \<Rightarrow> string" where
  "resolution_code action =
     (case action of ConfirmDelivered \<Rightarrow> ''operator_confirmed_delivery''
                   | ConfirmNotDelivered \<Rightarrow> ''operator_confirmed_non_delivery'')"

definition new_resolution ::
  "env \<Rightarrow> uuid \<Rightarrow> outbound \<Rightarrow> resolve_command \<Rightarrow> prepared_resolution \<Rightarrow> resolution" where
  "new_resolution E i m cmd p =
     \<lparr>rs_id = i, rs_outbound_message_id = om_id m, rs_resolution_version = om_resolution_version m + 1,
      rs_action = rc_action cmd, rs_provider_message_hash = provider_reference_hash E (pr_reference p),
      rs_provider_message_suffix = provider_suffix (pr_reference p), rs_evidence_source = rc_evidence_source cmd,
      rs_reason_code = rc_reason_code cmd, rs_actor_admin_id = rc_admin_id cmd, rs_idempotency_key = pr_key p,
      rs_command_hash = pr_command_hash p, rs_correlation_id = pr_correlation p, rs_created_at = tx_now E\<rparr>"

definition insert_resolution :: "resolution \<Rightarrow> store \<Rightarrow> resolution_error + store" where
  "insert_resolution r s =
     (if list_ex (\<lambda>x. rs_id x = rs_id r \<or>
           (rs_outbound_message_id x = rs_outbound_message_id r \<and>
            (rs_resolution_version x = rs_resolution_version r \<or> rs_idempotency_key x = rs_idempotency_key r)))
         (resolutions s) \<or> \<not> resolution_checks r
      then Inl ResIntegrity else Inr (s\<lparr>resolutions := resolutions s @ [r]\<rparr>))"

text \<open>The writes of \<open>resolve\<close>: the message, its resolution and its delivery event.\<close>

definition apply_resolution ::
  "env \<Rightarrow> store \<Rightarrow> outbound \<Rightarrow> resolve_command \<Rightarrow> prepared_resolution \<Rightarrow>
     resolution_error + (store \<times> outbound \<times> resolution \<times> bool)" where
  "apply_resolution E s m cmd p =
     (let (rid, s1) = fresh E s;
          m' = resolved_row E m (rc_action cmd) (pr_reference p);
          r = new_resolution E rid m cmd p
      in bindE (mapErr (\<lambda>_. ResIntegrity) (update_outbound m' s1)) (\<lambda>s2.
         bindE (insert_resolution r s2) (\<lambda>s3.
           Inr (add_delivery_event E m' None (status_event (om_status m')) (Some (om_status m)) (om_status m')
                  OperatorActor (Some (uuid_str (rc_admin_id cmd))) (Some (resolution_code (rc_action cmd))) s3,
                m', r, True))))"

text \<open>\<open>resolve\<close>: the message, its resolution, and whether this call applied it.\<close>

definition resolve ::
  "env \<Rightarrow> store \<Rightarrow> resolve_command \<Rightarrow> resolution_error + (store \<times> outbound \<times> resolution \<times> bool)" where
  "resolve E s cmd =
     bindE (prepare_resolution E cmd) (\<lambda>p.
     case scoped_delivery s (rc_delivery_id cmd) (rc_agent_id cmd) of
       None \<Rightarrow> Inl ResNotFound
     | Some m \<Rightarrow>
         (case resolution_receipt s (om_id m) (pr_key p) of
            Some r \<Rightarrow>
              if rs_command_hash r \<noteq> pr_command_hash p then Inl ResIdempotency else Inr (s, m, r, False)
          | None \<Rightarrow>
              if om_resolution_version m \<noteq> rc_expected_version cmd then Inl ResVersionConflict
              else if om_status m \<noteq> OutUnknown then Inl (ResInvalid ''only an uncertain delivery can be resolved'')
              else
              bindE (if rc_action cmd = ConfirmDelivered
                     then assert_provider_reference_available s m (pr_reference p) else Inr ()) (\<lambda>_.
                apply_resolution E s m cmd p)))"

section \<open>What a resolution does\<close>

lemma scoped_deliveryD: "scoped_delivery s did aid = Some m \<Longrightarrow>
    m \<in> set (outbounds s) \<and> om_id m = did \<and> om_agent_id m = aid"
  by (auto simp: scoped_delivery_def dest: find_SomeD)

lemma prepare_resolution_Inr:
  assumes "prepare_resolution E cmd = Inr p"
  shows "pr_key p = strip (rc_idempotency_key cmd) \<and> pr_key p \<noteq> [] \<and> pr_correlation p \<noteq> [] \<and>
    btrim (pr_key p) = pr_key p \<and> btrim (pr_correlation p) = pr_correlation p \<and>
    pr_reference p \<noteq> Some [] \<and> validate_evidence (rc_action cmd) (pr_reference p) (rc_evidence_source cmd) (rc_reason_code cmd) = Inr () \<and>
    pr_command_hash p = command_digest E True (resolution_literal cmd (pr_reference p))"
  using assms
  by (auto simp: prepare_resolution_def res_required_text_def normalize_provider_reference_def Let_def bindE_eq_Inr
      split: if_splits option.splits)

lemma resolved_row_same [simp]:
  "command_part (resolved_row E m a ref) = command_part m" "om_id (resolved_row E m a ref) = om_id m"
  "om_agent_id (resolved_row E m a ref) = om_agent_id m"
  "om_last_attempt_number (resolved_row E m a ref) = om_last_attempt_number m"
  "om_resolution_version (resolved_row E m a ref) = om_resolution_version m + 1"
  "om_status (resolved_row E m a ref) = (if a = ConfirmDelivered then OutDelivered else OutCancelled)"
  by (cases a; simp add: resolved_row_def command_part_def)+

lemma resolve_cases:
  assumes "resolve E s cmd = Inr (s', m', r, applied)"
  obtains (replay) p where "prepare_resolution E cmd = Inr p" "\<not> applied" "s' = s"
      "scoped_delivery s (rc_delivery_id cmd) (rc_agent_id cmd) = Some m'"
      "resolution_receipt s (om_id m') (pr_key p) = Some r" "rs_command_hash r = pr_command_hash p"
  | (first) p m s2 where "prepare_resolution E cmd = Inr p" applied
      "scoped_delivery s (rc_delivery_id cmd) (rc_agent_id cmd) = Some m"
      "resolution_receipt s (om_id m) (pr_key p) = None"
      "om_resolution_version m = rc_expected_version cmd" "om_status m = OutUnknown"
      "m' = resolved_row E m (rc_action cmd) (pr_reference p)"
      "r = new_resolution E (uuid4 E (draws s)) m cmd p" "resolution_checks r"
      "update_outbound m' (s\<lparr>draws := Suc (draws s)\<rparr>) = Inr s2"
      "s' = add_delivery_event E m' None (status_event (om_status m')) (Some (om_status m)) (om_status m')
              OperatorActor (Some (uuid_str (rc_admin_id cmd))) (Some (resolution_code (rc_action cmd)))
              (s2\<lparr>resolutions := resolutions s @ [r]\<rparr>)"
proof -
  from assms obtain p where p: "prepare_resolution E cmd = Inr p" by (auto simp: resolve_def bindE_eq_Inr)
  from assms p obtain m where m: "scoped_delivery s (rc_delivery_id cmd) (rc_agent_id cmd) = Some m"
    by (auto simp: resolve_def split: option.splits)
  show thesis
  proof (cases "resolution_receipt s (om_id m) (pr_key p)")
    case (Some x)
    with assms p m show thesis by (intro replay [OF p]) (auto simp: resolve_def split: if_splits)
  next
    case None
    from assms p m None obtain s2 where f: "om_resolution_version m = rc_expected_version cmd" "om_status m = OutUnknown"
      "applied" "m' = resolved_row E m (rc_action cmd) (pr_reference p)"
      "r = new_resolution E (uuid4 E (draws s)) m cmd p" "resolution_checks r"
      "update_outbound m' (s\<lparr>draws := Suc (draws s)\<rparr>) = Inr s2"
      "s' = add_delivery_event E m' None (status_event (om_status m')) (Some (om_status m)) (om_status m')
              OperatorActor (Some (uuid_str (rc_admin_id cmd))) (Some (resolution_code (rc_action cmd)))
              (s2\<lparr>resolutions := resolutions s @ [r]\<rparr>)"
      by (auto simp: resolve_def apply_resolution_def fresh_def Let_def bindE_eq_Inr insert_resolution_def
          update_outbound_Inr split: if_splits)
    show thesis by (rule first [OF p f(3) m None f(1,2,4-8)])
  qed
qed

lemma resolve_writes:
  assumes "resolve E s cmd = Inr (s', m', r, True)"
  obtains p m where "prepare_resolution E cmd = Inr p" "m \<in> set (outbounds s)" "om_id m = rc_delivery_id cmd"
    "scoped_delivery s (rc_delivery_id cmd) (rc_agent_id cmd) = Some m"
    "om_resolution_version m = rc_expected_version cmd" "om_status m = OutUnknown"
    "m' = resolved_row E m (rc_action cmd) (pr_reference p)" "r = new_resolution E (uuid4 E (draws s)) m cmd p"
    "resolution_checks r" "outbound_checks m'"
    "\<forall>x\<in>set (outbounds s). om_id x \<noteq> om_id m' \<longrightarrow> \<not> outbound_clash m' x"
    "outbounds s' = put_row om_id m' (outbounds s)" "resolutions s' = resolutions s @ [r]"
    "attempts s' = attempts s" "conversations s' = conversations s"
    "delivery_events s' = delivery_events s @
      [\<lparr>de_id = uuid4 E (Suc (draws s)), de_outbound_message_id = om_id m', de_attempt_id = None,
        de_event_type = status_event (om_status m'), de_from_status = Some (om_status m), de_to_status = om_status m',
        de_actor_type = OperatorActor, de_actor_id = Some (uuid_str (rc_admin_id cmd)),
        de_safe_code = Some (resolution_code (rc_action cmd)), de_created_at = tx_now E\<rparr>]"
  using assms
proof (cases rule: resolve_cases)
  case (first p m s2)
  note d = scoped_deliveryD [OF first(3)] and u = first(10) [unfolded update_outbound_Inr]
  show thesis
    by (rule that [OF first(1) _ _ first(3,5-9)])
      (use d u in \<open>auto simp: first(11) frame_simps add_delivery_event_events simp del: resolved_row_same(6)\<close>)
qed simp

lemma resolve_step:
  assumes "resolve E s cmd = Inr (s', m', r, True)"
  shows "outbound_step s s'"
  using assms
proof (rule resolve_writes)
  fix p m assume w: "m \<in> set (outbounds s)" "om_status m = OutUnknown"
    "m' = resolved_row E m (rc_action cmd) (pr_reference p)" "outbound_checks m'"
    "\<forall>x\<in>set (outbounds s). om_id x \<noteq> om_id m' \<longrightarrow> \<not> outbound_clash m' x"
    "outbounds s' = put_row om_id m' (outbounds s)" "attempts s' = attempts s" "conversations s' = conversations s"
    "delivery_events s' = delivery_events s @
      [\<lparr>de_id = uuid4 E (Suc (draws s)), de_outbound_message_id = om_id m', de_attempt_id = None,
        de_event_type = status_event (om_status m'), de_from_status = Some (om_status m), de_to_status = om_status m',
        de_actor_type = OperatorActor, de_actor_id = Some (uuid_str (rc_admin_id cmd)),
        de_safe_code = Some (resolution_code (rc_action cmd)), de_created_at = tx_now E\<rparr>]"
  show "outbound_step s s'"
    by (rule outbound_step.settled [OF w(1) _ _ _ _ w(4) _ w(6-9)])
      (use w(2,3,5) in \<open>auto simp: resolution_edge_def\<close>)
qed

text \<open>An applied resolution settles an uncertain delivery and nothing else: the message was of
  unknown outcome and at the version the operator saw; it ends delivered with the provider's
  reference and time, or cancelled, and no longer blocks its conversation; no attempt is made and
  the queue's invariant is kept, so the delivery trail records the decision; the evidence row
  satisfies its CHECK constraints.\<close>

theorem resolution_settles:
  assumes "outbound_inv s" "resolve E s cmd = Inr (s', m', r, True)"
  shows "outbound_inv s' \<and> m' \<in> set (outbounds s') \<and> om_id m' = rc_delivery_id cmd \<and> \<not> blocking m' \<and>
    (case rc_action cmd of
       ConfirmDelivered \<Rightarrow> om_status m' = OutDelivered \<and> om_delivered_at m' = Some (clock E) \<and>
         (\<exists>ref. rc_provider_message_id cmd = Some ref \<and> om_provider_message_id m' = Some (strip ref))
     | ConfirmNotDelivered \<Rightarrow> om_status m' = OutCancelled) \<and>
    om_resolution_version m' = rc_expected_version cmd + 1 \<and> rs_resolution_version r = rc_expected_version cmd + 1 \<and>
    resolution_checks r \<and> attempts s' = attempts s \<and> resolutions s' = resolutions s @ [r] \<and>
    (\<exists>m\<in>set (outbounds s). om_id m = om_id m' \<and> om_status m = OutUnknown \<and> command_part m' = command_part m \<and>
       om_resolution_version m = rc_expected_version cmd) \<and>
    (\<forall>x. om_id x \<noteq> om_id m' \<longrightarrow> (x \<in> set (outbounds s') \<longleftrightarrow> x \<in> set (outbounds s)))"
  using assms(2)
proof (rule resolve_writes)
  fix p m assume w: "prepare_resolution E cmd = Inr p" "m \<in> set (outbounds s)" "om_id m = rc_delivery_id cmd"
    "om_resolution_version m = rc_expected_version cmd" "om_status m = OutUnknown"
    "m' = resolved_row E m (rc_action cmd) (pr_reference p)" "r = new_resolution E (uuid4 E (draws s)) m cmd p"
    "resolution_checks r" "outbounds s' = put_row om_id m' (outbounds s)" "resolutions s' = resolutions s @ [r]"
    "attempts s' = attempts s"
  have id: "om_id m' = om_id m" "command_part m' = command_part m" by (simp_all add: w(6))
  have "m' \<in> set (outbounds s')" using w(2) by (auto simp: w(9) id set_put_row)
  moreover have "x \<in> set (outbounds s') \<longleftrightarrow> x \<in> set (outbounds s)" if "om_id x \<noteq> om_id m'" for x
    using that by (auto simp: w(9) set_put_row)
  moreover have "case rc_action cmd of
       ConfirmDelivered \<Rightarrow> om_status m' = OutDelivered \<and> om_delivered_at m' = Some (clock E) \<and>
         (\<exists>ref. rc_provider_message_id cmd = Some ref \<and> om_provider_message_id m' = Some (strip ref))
     | ConfirmNotDelivered \<Rightarrow> om_status m' = OutCancelled"
    using w(1) by (cases "rc_action cmd")
      (auto simp: w(6) resolved_row_def prepare_resolution_def validate_evidence_def normalize_provider_reference_def
        Let_def bindE_eq_Inr split: if_splits option.splits)
  moreover have "\<not> blocking m'" by (simp add: w(6) blocking_def)
  ultimately show ?thesis
    using w id step_outbound_inv [OF resolve_step [OF assms(2)] assms(1)]
    by (auto simp: new_resolution_def intro!: bexI [of _ m])
qed

text \<open>C32: an uncertain delivery is resolved once: after an applied resolution, whatever the queue
  does meanwhile, no later command on the same delivery is applied, by any operator or under any
  key or expected version.\<close>

theorem resolved_once:
  assumes "outbound_inv s" "resolve E s cmd = Inr (s', m', r, True)" "outbound_op\<^sup>*\<^sup>* s' s''"
    "resolve E' s'' cmd' = Inr (s3, m3, r3, applied)" "rc_delivery_id cmd' = rc_delivery_id cmd"
  shows "\<not> applied"
proof
  assume "applied"
  have inv': "outbound_inv s'" by (rule step_outbound_inv [OF resolve_step [OF assms(2)] assms(1)])
  then have wf: "rows_ok s' \<and> numbering_ok s'" by (simp add: outbound_inv_def)
  have "m' \<in> set (outbounds s') \<and> om_id m' = rc_delivery_id cmd \<and> om_status m' \<in> {OutDelivered, OutCancelled}"
    using assms(2) by (rule resolve_writes) (auto simp: set_put_row)
  then have m': "m' \<in> set (outbounds s')" "om_id m' = rc_delivery_id cmd" "om_status m' \<in> {OutDelivered, OutCancelled}"
    by blast+
  from steps_final [OF ops_refine [OF assms(3) wf]] wf m'(1) obtain x where
    x: "x \<in> set (outbounds s'')" "command_part x = command_part m'" "om_status x = om_status m'"
    using m'(3) by fastforce
  from assms(4) \<open>applied\<close> have "resolve E' s'' cmd' = Inr (s3, m3, r3, True)" by simp
  then obtain m where m: "m \<in> set (outbounds s'')" "om_id m = rc_delivery_id cmd'" "om_status m = OutUnknown"
    by (rule resolve_writes) blast
  have "distinct (map om_id (outbounds s''))"
    using ops_outbound_inv [OF assms(3) inv'] by (simp add: outbound_inv_def rows_ok_def)
  then have "m = x"
    using same_key [where key = om_id, OF _ m(1) x(1)] m(2) command_part_keys(1) [OF x(2)] m'(2) assms(5) by simp
  with m(3) x(3) m'(3) show False by auto
qed

section \<open>Resolutions as idempotent commands\<close>

definition run_resolve :: "env \<Rightarrow> store \<Rightarrow> resolve_command \<Rightarrow> resolution_error + (store \<times> outbound \<times> resolution)" where
  "run_resolve E s cmd = (case resolve E s cmd of Inl x \<Rightarrow> Inl x | Inr (s', m, r, _) \<Rightarrow> Inr (s', m, r))"

definition resolve_receipt :: "env \<Rightarrow> store \<Rightarrow> resolve_command \<Rightarrow> (string \<times> outbound \<times> resolution) option" where
  "resolve_receipt E s cmd =
     (case prepare_resolution E cmd of
        Inl _ \<Rightarrow> None
      | Inr p \<Rightarrow> (case scoped_delivery s (rc_delivery_id cmd) (rc_agent_id cmd) of
                    None \<Rightarrow> None
                  | Some m \<Rightarrow> map_option (\<lambda>r. (rs_command_hash r, m, r)) (resolution_receipt s (om_id m) (pr_key p))))"

definition resolve_digest :: "env \<Rightarrow> store \<Rightarrow> resolve_command \<Rightarrow> string" where
  "resolve_digest E s cmd = (case prepare_resolution E cmd of Inl _ \<Rightarrow> '''' | Inr p \<Rightarrow> pr_command_hash p)"

definition resolve_valid :: "env \<Rightarrow> store \<Rightarrow> resolve_command \<Rightarrow> bool" where
  "resolve_valid E s cmd \<longleftrightarrow> (\<exists>p. prepare_resolution E cmd = Inr p)"

interpretation operator_resolutions: idempotent_command "run_resolve E" "resolve_valid E" "resolve_receipt E"
  "resolve_digest E" ResIdempotency for E
proof
  fix s cmd x
  assume "resolve_valid E s cmd" "resolve_receipt E s cmd = Some (resolve_digest E s cmd, x)"
  then show "run_resolve E s cmd = Inr (s, x)"
    by (auto simp: resolve_valid_def resolve_receipt_def resolve_digest_def run_resolve_def resolve_def
        split: option.splits)
next
  fix s cmd h x
  assume "resolve_valid E s cmd" "resolve_receipt E s cmd = Some (h, x)" "h \<noteq> resolve_digest E s cmd"
  then show "run_resolve E s cmd = Inl ResIdempotency"
    by (auto simp: resolve_valid_def resolve_receipt_def resolve_digest_def run_resolve_def resolve_def
        split: option.splits)
next
  fix s cmd s' x assume "run_resolve E s cmd = Inr (s', x)"
  then obtain m' r applied where x: "x = (m', r)" and a: "resolve E s cmd = Inr (s', m', r, applied)"
    by (auto simp: run_resolve_def split: sum.splits prod.splits)
  from a show "resolve_valid E s cmd \<and> resolve_valid E s' cmd \<and> resolve_digest E s' cmd = resolve_digest E s cmd \<and>
      resolve_receipt E s' cmd = Some (resolve_digest E s cmd, x)"
  proof (cases rule: resolve_cases)
    case (replay p)
    then show ?thesis by (simp add: x resolve_valid_def resolve_receipt_def resolve_digest_def)
  next
    case (first p m s2)
    note u = first(10) [unfolded update_outbound_Inr]
    have "outbounds s' = put_row om_id m' (outbounds s)" using u by (simp add: first(11) frame_simps)
    then have "scoped_delivery s' (rc_delivery_id cmd) (rc_agent_id cmd) = Some m'"
      using first(3) scoped_deliveryD [OF first(3)]
      by (simp add: scoped_delivery_def find_put_row_hit first(7))
    moreover have "resolution_receipt s' (om_id m') (pr_key p) = Some r"
      using first(4) u
      by (auto simp: first(7,8,11) resolution_receipt_def frame_simps find_append new_resolution_def)
    moreover have "rs_command_hash r = pr_command_hash p" by (simp add: first(8) new_resolution_def)
    ultimately show ?thesis
      using first(1) by (simp add: x resolve_valid_def resolve_receipt_def resolve_digest_def)
  qed
qed

text \<open>Resolutions are idempotent: repeating a resolution that succeeded, any number of times,
  returns the recorded evidence and changes nothing.\<close>

theorem resolution_retry:
  assumes "run_resolve E s cmd = Inr (s', x)"
  shows "((\<lambda>y. bindE y (\<lambda>(t, _). run_resolve E t cmd)) ^^ n) (Inr (s', x)) = Inr (s', x)"
  using assms by (rule operator_resolutions.retries)

end
