(* ===== verification/ResolutionWitnesses.thy ===== *)
theory ResolutionWitnesses
  imports DeliveryResolution OutboundWitnesses
begin

text \<open>A concrete resolution: the dispatch of a message went stale, its attempt's outcome is unknown,
  and an operator confirms with the provider's reference that it was delivered.\<close>

definition uncertain_outbound :: outbound where
  "uncertain_outbound = (sample_outbound 201 1 ''k1'')\<lparr>om_status := OutUnknown, om_last_attempt_number := 1\<rparr>"

definition uncertain_store :: store where
  "uncertain_store = sample_store\<lparr>conversations := [sample_conversation\<lparr>cv_next_outbound_sequence := 2\<rparr>],
     outbounds := [uncertain_outbound],
     attempts := [\<lparr>at_id = UUID 401, at_outbound_message_id = UUID 201, at_attempt_number = 1, at_worker_id = ''w1'',
       at_control_version = 0, at_created_at = 1\<rparr>],
     delivery_events := [sample_enqueued_event 301 201,
       (sample_enqueued_event 302 201)\<lparr>de_event_type := DClaimed, de_from_status := Some OutQueued, de_to_status := OutDispatching\<rparr>,
       (sample_enqueued_event 303 201)\<lparr>de_event_type := DUnknown, de_from_status := Some OutDispatching, de_to_status := OutUnknown\<rparr>]\<rparr>"

lemma uncertain_inv: "outbound_inv uncertain_store"
  unfolding outbound_inv_def
proof (intro conjI)
  show "rows_ok uncertain_store"
    by (simp add: rows_ok_def uncertain_store_def uncertain_outbound_def sample_outbound_def outbound_checks_def
        payload_shape_def is_jstr_def field_def)
  show "numbering_ok uncertain_store"
    by (simp add: numbering_ok_def uncertain_store_def uncertain_outbound_def sample_outbound_def
        conversations_ok_def sample_conversation_def)
  show "attempts_ok uncertain_store"
    by (simp add: attempts_ok_def uncertain_store_def uncertain_outbound_def single_attempt_def attempts_of_def
        sample_outbound_def)
  show "trail_ok uncertain_store"
    by (simp add: trail_ok_def uncertain_store_def uncertain_outbound_def events_of_def sample_outbound_def
        sample_enqueued_event_def)
  show "lanes_ok om_conversation_id om_sequence (\<lambda>m. om_status m = OutDispatching) blocking (outbounds uncertain_store)"
    by (simp add: lanes_ok_def uncertain_store_def)
qed

definition sample_resolve :: resolve_command where
  "sample_resolve = \<lparr>rc_agent_id = UUID 2, rc_delivery_id = UUID 201, rc_admin_id = UUID 8, rc_action = ConfirmDelivered,
     rc_expected_version = 0, rc_provider_message_id = Some '' wamid.1 '', rc_evidence_source = Some ProviderConsole,
     rc_reason_code = None, rc_idempotency_key = ''k1'', rc_correlation_id = ''c1''\<rparr>"

lemma sample_prepare_resolution:
  "prepare_resolution sample_env sample_resolve =
     Inr \<lparr>pr_key = ''k1'', pr_correlation = ''c1'', pr_reference = Some ''wamid.1'',
       pr_command_hash = replicate 64 (CHR ''a'')\<rparr>"
  by (simp add: prepare_resolution_def sample_resolve_def res_required_text_def normalize_provider_reference_def
      validate_evidence_def Let_def strip_def is_space_def command_digest_def sample_env_def)

lemma sample_resolve_runs: "\<exists>s' m' r. resolve sample_env uncertain_store sample_resolve = Inr (s', m', r, True)"
proof -
  have found: "scoped_delivery uncertain_store (rc_delivery_id sample_resolve) (rc_agent_id sample_resolve) = Some uncertain_outbound"
    by (simp add: scoped_delivery_def uncertain_store_def uncertain_outbound_def sample_outbound_def sample_resolve_def)
  have new: "resolution_receipt uncertain_store (om_id uncertain_outbound) k = None" for k
    by (simp add: resolution_receipt_def uncertain_store_def sample_store_def empty_store_def)
  have free: "assert_provider_reference_available uncertain_store uncertain_outbound ref = Inr ()" for ref
    by (simp add: assert_provider_reference_available_def uncertain_store_def)
  have "update_outbound (resolved_row sample_env uncertain_outbound ConfirmDelivered (Some ''wamid.1'')) s =
      Inr (s\<lparr>outbounds := put_row om_id (resolved_row sample_env uncertain_outbound ConfirmDelivered (Some ''wamid.1'')) (outbounds s)\<rparr>)"
    if "outbounds s = [uncertain_outbound]" for s
    using that
    by (simp add: update_outbound_def resolved_row_def uncertain_outbound_def sample_outbound_def outbound_checks_def
        payload_shape_def is_jstr_def field_def outbound_clash_def)
  moreover have "outbounds uncertain_store = [uncertain_outbound]" "resolutions uncertain_store = []"
    by (simp_all add: uncertain_store_def sample_store_def empty_store_def)
  moreover have "om_resolution_version uncertain_outbound = 0" "om_status uncertain_outbound = OutUnknown"
    "rc_expected_version sample_resolve = 0" "rc_action sample_resolve = ConfirmDelivered"
    by (simp_all add: uncertain_outbound_def sample_outbound_def sample_resolve_def)
  ultimately show ?thesis
    by (simp only: resolve_def sample_prepare_resolution bindE_simps found option.case new free if_True simp_thms,
        simp add: apply_resolution_def Let_def fresh_def insert_resolution_def new_resolution_def resolution_checks_def
          provider_reference_hash_def provider_suffix_def btrim_def)
      (simp add: sample_env_def sample_resolve_def)
qed

theorem resolution_settles_witness:
  "\<exists>s' m' r. resolve sample_env uncertain_store sample_resolve = Inr (s', m', r, True) \<and>
     om_status m' = OutDelivered \<and> om_provider_message_id m' = Some (strip '' wamid.1 '')"
proof -
  from sample_resolve_runs obtain s' m' r where
    r: "resolve sample_env uncertain_store sample_resolve = Inr (s', m', r, True)" by blast
  with resolution_settles [OF uncertain_inv r] show ?thesis by (simp add: sample_resolve_def)
qed

theorem resolved_once_witness:
  "\<exists>s' m r. resolve sample_env s' sample_resolve = Inr (s', m, r, False)"
proof -
  from sample_resolve_runs obtain s' m' r where
    r: "resolve sample_env uncertain_store sample_resolve = Inr (s', m', r, True)" by blast
  then have "run_resolve sample_env uncertain_store sample_resolve = Inr (s', m', r)" by (simp add: run_resolve_def)
  then have "run_resolve sample_env s' sample_resolve = Inr (s', m', r)" by (rule operator_resolutions.retry)
  then obtain d where d: "resolve sample_env s' sample_resolve = Inr (s', m', r, d)"
    by (auto simp: run_resolve_def split: sum.splits prod.splits)
  moreover have "\<not> d" by (rule resolved_once [OF uncertain_inv r _ d]) simp_all
  ultimately show ?thesis by auto
qed

theorem resolution_retry_witness:
  "\<exists>s' x. run_resolve sample_env uncertain_store sample_resolve = Inr (s', x) \<and>
     ((\<lambda>y. bindE y (\<lambda>(t, _). run_resolve sample_env t sample_resolve)) ^^ 2) (Inr (s', x)) = Inr (s', x)"
proof -
  from sample_resolve_runs obtain s' m' r where
    "resolve sample_env uncertain_store sample_resolve = Inr (s', m', r, True)" by blast
  then have r: "run_resolve sample_env uncertain_store sample_resolve = Inr (s', m', r)" by (simp add: run_resolve_def)
  from r resolution_retry [OF r, of 2] show ?thesis by blast
qed

end
