(* ===== verification/WebExecutionQueue.thy ===== *)
theory WebExecutionQueue
  imports ConversationEvents
begin

text \<open>
  \<open>services/web_execution_queue.py\<close>: the durable queue of web-chat executions. A message is accepted
  once per (conversation, client message) behind the conversation's control and automation epochs
  and takes the sequence of its public event; workers claim the first execution of a conversation
  under a lease, revalidate the claim before any effect and record the outcome; an execution whose
  lease expired is blocked, never run again.
\<close>

datatype web_error =
    WxConversationNotFound
  | WxIdempotency
  | WxBlocked (wx_message: string) (wx_code: string)
  | WxInvalid string
  | WxQueue string
  | WxOwnership
  | WxLeaseExpired
  | WxEvent event_error
  | WxIntegrity

datatype web_outcome = WebCompleted | WebFailed | WebBlocked

text \<open>\<open>WebExecutionOutcome(text)\<close>; \<open>None\<close> is its \<open>ValueError\<close>.\<close>

definition web_outcome_of :: "string \<Rightarrow> web_outcome option" where
  "web_outcome_of t =
     (if t = ''completed'' then Some WebCompleted else if t = ''failed'' then Some WebFailed
      else if t = ''blocked'' then Some WebBlocked else None)"

fun web_outcome_value :: "web_outcome \<Rightarrow> string" where
  "web_outcome_value WebCompleted = ''completed''"
| "web_outcome_value WebFailed = ''failed''"
| "web_outcome_value WebBlocked = ''blocked''"

fun web_outcome_status :: "web_outcome \<Rightarrow> execution_status" where
  "web_outcome_status WebCompleted = ExCompleted"
| "web_outcome_status WebFailed = ExFailed"
| "web_outcome_status WebBlocked = ExBlocked"

record web_command =
  wc_conversation_id :: uuid
  wc_agent_id :: uuid
  wc_client_message_id :: string
  wc_content :: string
  wc_locale :: string
  wc_available_at :: "instant option"

section \<open>Fences and rows\<close>

text \<open>\<open>_assert_automation\<close>; \<open>None\<close> leaves an epoch unchecked.\<close>

definition assert_automation ::
  "conversation \<Rightarrow> int option \<Rightarrow> uuid option \<Rightarrow> int option \<Rightarrow> web_error + unit" where
  "assert_automation c control agent automation =
     (if cv_status c \<noteq> ''active'' \<or> cv_control_mode c \<noteq> Automated \<or>
         (case control of None \<Rightarrow> False | Some v \<Rightarrow> cv_control_version c \<noteq> v)
      then Inl (WxBlocked ''conversation control epoch changed'' ''conversation_control_changed'')
      else if (case agent of None \<Rightarrow> False | Some a \<Rightarrow> cv_automation_agent_id c \<noteq> a) \<or>
              (case automation of None \<Rightarrow> False | Some v \<Rightarrow> cv_automation_version c \<noteq> v)
      then Inl (WxBlocked ''conversation automation epoch changed'' ''conversation_automation_changed'')
      else Inr ())"

definition assert_execution_current :: "conversation \<Rightarrow> execution \<Rightarrow> web_error + unit" where
  "assert_execution_current c x =
     assert_automation c (Some (ex_control_version x)) (Some (ex_automation_agent_id x)) (Some (ex_automation_version x))"

definition web_conversation :: "store \<Rightarrow> uuid \<Rightarrow> uuid \<Rightarrow> web_error + conversation" where
  "web_conversation s cid aid =
     (case scoped_conversation s cid aid of None \<Rightarrow> Inl WxConversationNotFound | Some c \<Rightarrow> Inr c)"

definition execution_conversation :: "store \<Rightarrow> uuid \<Rightarrow> web_error + conversation" where
  "execution_conversation s cid =
     (case get_conversation s cid of
        None \<Rightarrow> Inl (WxQueue ''execution conversation is unavailable'')
      | Some c \<Rightarrow> Inr c)"

text \<open>The UNIQUE constraints of \<open>chat_executions\<close>: request, inbound message, and per conversation the
  client message and the queue sequence (NULLs are distinct).\<close>

definition execution_clash :: "execution \<Rightarrow> execution \<Rightarrow> bool" where
  "execution_clash x y \<longleftrightarrow>
     ex_request_id y = ex_request_id x \<or> ex_inbound_message_id y = ex_inbound_message_id x \<or>
     (ex_conversation_id y = ex_conversation_id x \<and>
        ((ex_client_message_id x \<noteq> None \<and> ex_client_message_id y = ex_client_message_id x) \<or>
         (ex_queue_sequence x \<noteq> None \<and> ex_queue_sequence y = ex_queue_sequence x)))"

definition insert_execution :: "execution \<Rightarrow> store \<Rightarrow> web_error + store" where
  "insert_execution x s =
     (if list_ex (\<lambda>y. ex_id y = ex_id x \<or> execution_clash x y) (executions s) \<or> \<not> execution_checks x
      then Inl WxIntegrity else Inr (s\<lparr>executions := executions s @ [x]\<rparr>))"

definition update_execution :: "execution \<Rightarrow> store \<Rightarrow> web_error + store" where
  "update_execution x s =
     (if list_ex (\<lambda>y. ex_id y \<noteq> ex_id x \<and> execution_clash x y) (executions s) \<or> \<not> execution_checks x
      then Inl WxIntegrity else Inr (s\<lparr>executions := put_row ex_id x (executions s)\<rparr>))"

text \<open>\<open>_publish_execution_status\<close>; the payload is stored with its keys sorted.\<close>

definition publish_execution_status ::
  "env \<Rightarrow> conversation \<Rightarrow> execution \<Rightarrow> string \<Rightarrow> string option \<Rightarrow> store \<Rightarrow> web_error + (store \<times> conv_event)" where
  "publish_execution_status E c x status error_code s =
     mapErr WxEvent (publish E (cv_id c) (cv_agent_id c) ''chat.execution.changed'' ''public''
       (PDict ([(KStr ''execution_id'', PStr (uuid_str (ex_id x))), (KStr ''status'', PStr status)] @
               (case error_code of None \<Rightarrow> [] | Some e \<Rightarrow> [(KStr ''error_code'', PStr e)]))) s)"

section \<open>Enqueue\<close>

definition input_literal :: "string \<Rightarrow> string \<Rightarrow> (string \<times> json) list" where
  "input_literal content locale = [(''content'', JStr content), (''locale'', JStr locale)]"

definition input_hash :: "env \<Rightarrow> string \<Rightarrow> string \<Rightarrow> string" where
  "input_hash E content locale = command_digest E False (input_literal content locale)"

definition prepare_web :: "env \<Rightarrow> web_command \<Rightarrow> web_error + (string \<times> string \<times> instant \<times> string)" where
  "prepare_web E cmd =
     (let client = strip (wc_client_message_id cmd); locale = strip (wc_locale cmd); content = wc_content cmd in
      if client = [] \<or> 255 < length client then Inl (WxInvalid ''invalid client message id'')
      else if strip content = [] \<or> 16000 < length content then Inl (WxInvalid ''invalid web message content'')
      else if locale = [] \<or> 35 < length locale then Inl (WxInvalid ''invalid locale'')
      else Inr (client, locale, case wc_available_at cmd of Some t \<Rightarrow> t | None \<Rightarrow> clock E,
                input_hash E content locale))"

definition web_receipt :: "store \<Rightarrow> uuid \<Rightarrow> string \<Rightarrow> execution option" where
  "web_receipt s cid client =
     find (\<lambda>x. ex_conversation_id x = cid \<and> ex_client_message_id x = Some client) (executions s)"

text \<open>The answer to a duplicate: the stored execution, its inbound message and its event.\<close>

definition web_duplicate ::
  "store \<Rightarrow> conversation \<Rightarrow> execution \<Rightarrow> string \<Rightarrow> web_error + (execution \<times> chat_message \<times> conv_event)" where
  "web_duplicate s c x hash =
     (if ex_input_hash x \<noteq> Some hash then Inl WxIdempotency
      else case get_message s (ex_inbound_message_id x) of
        None \<Rightarrow> Inl (WxQueue ''stored execution has no inbound message'')
      | Some m \<Rightarrow>
          (case find (\<lambda>e. ev_conversation_id e = cv_id c \<and> Some (ev_sequence e) = ex_queue_sequence x) (conv_events s) of
             None \<Rightarrow> Inl (WxQueue ''stored execution has no accepted event'')
           | Some e \<Rightarrow> Inr (x, m, e)))"

definition inbound_web_message :: "env \<Rightarrow> uuid \<Rightarrow> conversation \<Rightarrow> string \<Rightarrow> string \<Rightarrow> string \<Rightarrow> chat_message" where
  "inbound_web_message E mid c client content locale =
     \<lparr>cm_id = mid, cm_created_at = tx_now E, cm_conversation_id = cv_id c, cm_client_message_id = client,
      cm_role = ''user'', cm_content = content, cm_status = ''accepted'', cm_tool_names = [],
      cm_metadata = [(''locale'', JStr locale)]\<rparr>"

definition queued_execution ::
  "env \<Rightarrow> uuid \<Rightarrow> string \<Rightarrow> conversation \<Rightarrow> uuid \<Rightarrow> string \<Rightarrow> string \<Rightarrow> int \<Rightarrow> instant \<Rightarrow> execution" where
  "queued_execution E xid request c mid client hash sequence available =
     \<lparr>ex_id = xid, ex_created_at = tx_now E, ex_request_id = request, ex_conversation_id = cv_id c,
      ex_inbound_message_id = mid, ex_status = ExQueued, ex_control_version = cv_control_version c,
      ex_automation_agent_id = cv_automation_agent_id c, ex_automation_version = cv_automation_version c,
      ex_client_message_id = Some client, ex_input_hash = Some hash, ex_queue_sequence = Some sequence,
      ex_attempt_count = 0, ex_available_at = available, ex_lease_owner = None, ex_lease_expires_at = None,
      ex_output_message_id = None, ex_tools_used = [], ex_usage = [], ex_error_code = None, ex_duration_ms = None\<rparr>"

definition create_web ::
  "env \<Rightarrow> store \<Rightarrow> conversation \<Rightarrow> string \<Rightarrow> string \<Rightarrow> string \<Rightarrow> instant \<Rightarrow> string \<Rightarrow>
     web_error + (store \<times> execution \<times> chat_message \<times> conv_event)" where
  "create_web E s c client content locale available hash =
     (let (mid, s1) = fresh E s; (xid, s2) = fresh E s1 in
      bindE (mapErr WxEvent (publish E (cv_id c) (cv_agent_id c) ''chat.message.accepted'' ''public''
               (PDict [(KStr ''client_message_id'', PStr client), (KStr ''execution_id'', PStr (uuid_str xid)),
                       (KStr ''message_id'', PStr (uuid_str mid)), (KStr ''status'', PStr ''accepted'')]) s2)) (\<lambda>(s3, e).
      let (rid, s4) = fresh E s3;
          m = inbound_web_message E mid c client content locale;
          x = queued_execution E xid (uuid_str rid) c mid client hash (ev_sequence e) available
      in case insert_message m s4 of
           None \<Rightarrow> Inl WxIntegrity
         | Some s5 \<Rightarrow> bindE (insert_execution x s5) (\<lambda>s6. Inr (s6, x, m, e))))"

text \<open>\<open>enqueue\<close>: the execution, its inbound message, its accepted event and whether it is a duplicate.\<close>

definition enqueue_web ::
  "env \<Rightarrow> store \<Rightarrow> web_command \<Rightarrow> web_error + (store \<times> (execution \<times> chat_message \<times> conv_event) \<times> bool)" where
  "enqueue_web E s cmd =
     bindE (prepare_web E cmd) (\<lambda>(client, locale, available, hash).
     bindE (web_conversation s (wc_conversation_id cmd) (wc_agent_id cmd)) (\<lambda>c.
     if cv_channel c \<noteq> ''web'' then Inl (WxInvalid ''web execution requires a web conversation'')
     else case web_receipt s (cv_id c) client of
       Some x \<Rightarrow> bindE (web_duplicate s c x hash) (\<lambda>r. Inr (s, r, True))
     | None \<Rightarrow>
         bindE (assert_automation c None None None) (\<lambda>_.
         bindE (create_web E s c client (wc_content cmd) locale available hash) (\<lambda>(s1, x, m, e).
           Inr (s1, (x, m, e), False)))))"

section \<open>Recovery\<close>

text \<open>\<open>recover_stale_leases\<close>; \<open>locked\<close> are the rows other transactions hold.\<close>

definition stale_leases :: "(uuid \<Rightarrow> bool) \<Rightarrow> instant \<Rightarrow> store \<Rightarrow> execution list" where
  "stale_leases locked now s =
     sort_key (\<lambda>x. (the (ex_lease_expires_at x), ex_id x))
       (filter (\<lambda>x. ex_status x = ExRunning \<and>
            (case ex_lease_expires_at x of None \<Rightarrow> False | Some t \<Rightarrow> t < now) \<and> \<not> locked (ex_id x))
         (executions s))"

definition stale_code :: string where "stale_code = ''stale_execution_lease''"

text \<open>An execution taken from its worker: blocked or cancelled with a code, without a lease.\<close>

definition blocked_row :: "execution \<Rightarrow> string \<Rightarrow> execution" where
  "blocked_row x code =
     x\<lparr>ex_status := ExBlocked, ex_error_code := Some code, ex_lease_owner := None, ex_lease_expires_at := None\<rparr>"

definition block_execution :: "env \<Rightarrow> conversation \<Rightarrow> execution \<Rightarrow> string \<Rightarrow> store \<Rightarrow> web_error + store" where
  "block_execution E c x code s =
     bindE (publish_execution_status E c x ''blocked'' (Some code) s) (\<lambda>(s1, _). update_execution (blocked_row x code) s1)"

fun recover_leases :: "env \<Rightarrow> execution list \<Rightarrow> store \<Rightarrow> web_error + store" where
  "recover_leases E [] s = Inr s"
| "recover_leases E (x # xs) s =
     bindE (execution_conversation s (ex_conversation_id x)) (\<lambda>c.
     bindE (block_execution E c x stale_code s) (recover_leases E xs))"

definition recover_stale_leases ::
  "env \<Rightarrow> (uuid \<Rightarrow> bool) \<Rightarrow> instant option \<Rightarrow> store \<Rightarrow> web_error + (store \<times> nat)" where
  "recover_stale_leases E locked now s =
     (let at = (case now of Some t \<Rightarrow> t | None \<Rightarrow> clock E); xs = stale_leases locked at s in
      bindE (recover_leases E xs s) (\<lambda>s1. Inr (s1, length xs)))"

section \<open>Claims\<close>

definition web_blocking :: "execution \<Rightarrow> bool" where
  "web_blocking x \<longleftrightarrow> ex_status x = ExQueued \<or> ex_status x = ExRunning"

text \<open>\<open>earlier_blocking\<close> of \<open>_eligible_statement\<close>.\<close>

definition earlier_execution :: "execution \<Rightarrow> execution \<Rightarrow> bool" where
  "earlier_execution e x \<longleftrightarrow> ex_conversation_id e = ex_conversation_id x \<and>
     (case (ex_queue_sequence e, ex_queue_sequence x) of
        (Some m, Some n) \<Rightarrow> m < n \<or> (m = n \<and> ex_id e < ex_id x)
      | _ \<Rightarrow> False)"

definition eligible_execution :: "(uuid \<Rightarrow> bool) \<Rightarrow> instant \<Rightarrow> store \<Rightarrow> execution option" where
  "eligible_execution locked now s =
     first_by (\<lambda>x. (ex_available_at x, ex_created_at x, ex_id x))
       (filter (\<lambda>x. ex_status x = ExQueued \<and> ex_available_at x \<le> now \<and> ex_queue_sequence x \<noteq> None \<and>
            \<not> list_ex (\<lambda>e. earlier_execution e x \<and> web_blocking e) (executions s) \<and> \<not> locked (ex_id x))
         (executions s))"

definition cancelled_row :: "execution \<Rightarrow> string \<Rightarrow> execution" where
  "cancelled_row x code = x\<lparr>ex_status := ExCancelled, ex_error_code := Some code\<rparr>"

definition cancel_execution :: "env \<Rightarrow> conversation \<Rightarrow> execution \<Rightarrow> string \<Rightarrow> store \<Rightarrow> web_error + store" where
  "cancel_execution E c x code s =
     bindE (publish_execution_status E c x ''cancelled'' (Some code) s) (\<lambda>(s1, _). update_execution (cancelled_row x code) s1)"

definition running_row :: "execution \<Rightarrow> string \<Rightarrow> instant \<Rightarrow> execution" where
  "running_row x worker expires =
     x\<lparr>ex_status := ExRunning, ex_attempt_count := ex_attempt_count x + 1, ex_lease_owner := Some worker,
       ex_lease_expires_at := Some expires\<rparr>"

definition start_execution ::
  "env \<Rightarrow> conversation \<Rightarrow> execution \<Rightarrow> string \<Rightarrow> instant \<Rightarrow> store \<Rightarrow> web_error + (store \<times> execution \<times> chat_message)" where
  "start_execution E c x worker expires s =
     bindE (publish_execution_status E c x ''running'' None s) (\<lambda>(s1, _).
     bindE (update_execution (running_row x worker expires) s1) (\<lambda>s2.
       case get_message s2 (ex_inbound_message_id x) of
         None \<Rightarrow> Inl (WxQueue ''claimed execution has no inbound message'')
       | Some m \<Rightarrow> Inr (s2, running_row x worker expires, m)))"

lemma eligible_executionD:
  assumes "eligible_execution locked now s = Some x"
  shows "x \<in> set (executions s) \<and> ex_status x = ExQueued \<and> ex_available_at x \<le> now \<and> ex_queue_sequence x \<noteq> None \<and>
    \<not> locked (ex_id x) \<and> (\<forall>e\<in>set (executions s). earlier_execution e x \<longrightarrow> \<not> web_blocking e)"
  using first_by_Some(1) [OF assms [unfolded eligible_execution_def]] by (auto simp: list_ex_iff)

lemma update_execution_Inr:
  "update_execution x s = Inr s' \<longleftrightarrow> execution_checks x \<and>
     (\<forall>y\<in>set (executions s). ex_id y \<noteq> ex_id x \<longrightarrow> \<not> execution_clash x y) \<and>
     s' = s\<lparr>executions := put_row ex_id x (executions s)\<rparr>"
  by (auto simp: update_execution_def list_ex_iff)

lemma publish_status_Inr:
  assumes "publish_execution_status E c x status code s = Inr (s1, e)"
  shows "publish E (cv_id c) (cv_agent_id c) ''chat.execution.changed'' ''public''
       (PDict ([(KStr ''execution_id'', PStr (uuid_str (ex_id x))), (KStr ''status'', PStr status)] @
               (case code of None \<Rightarrow> [] | Some e \<Rightarrow> [(KStr ''error_code'', PStr e)]))) s = Inr (s1, e)"
  using assms by (simp add: publish_execution_status_def)

lemma publish_executions: "publish E cid aid ty vis p s = Inr (s1, e) \<Longrightarrow> executions s1 = executions s"
  by (rule publish_frame(2))

lemma cancel_execution_Inr:
  assumes "cancel_execution E c x code s = Inr s'"
  obtains s1 e where "publish_execution_status E c x ''cancelled'' (Some code) s = Inr (s1, e)"
    "executions s1 = executions s" "update_execution (cancelled_row x code) s1 = Inr s'"
    "executions s' = put_row ex_id (cancelled_row x code) (executions s)"
proof -
  from assms obtain s1 e where p: "publish_execution_status E c x ''cancelled'' (Some code) s = Inr (s1, e)"
    and u: "update_execution (cancelled_row x code) s1 = Inr s'"
    by (auto simp: cancel_execution_def bindE_eq_Inr)
  have ex: "executions s1 = executions s" by (rule publish_executions [OF publish_status_Inr [OF p]])
  show thesis by (rule that [OF p ex u]) (use u ex in \<open>simp add: update_execution_Inr\<close>)
qed

lemma cancel_execution_less:
  assumes "eligible_execution locked now s = Some x" "cancel_execution E c x code s = Inr s'"
  shows "length (filter (\<lambda>x. ex_status x = ExQueued) (executions s')) <
    length (filter (\<lambda>x. ex_status x = ExQueued) (executions s))"
  using eligible_executionD [OF assms(1)] assms(2)
  by (auto simp: cancelled_row_def elim!: cancel_execution_Inr intro!: count_put_row_less)

text \<open>The loop of \<open>claim_next\<close>: an execution whose epochs changed is cancelled and the next one is
  tried, so there is one queued execution less in every turn.\<close>

function claim_web_loop ::
  "env \<Rightarrow> (uuid \<Rightarrow> bool) \<Rightarrow> string \<Rightarrow> instant \<Rightarrow> instant \<Rightarrow> store \<Rightarrow>
     web_error + (store \<times> (execution \<times> chat_message) option)" where
  "claim_web_loop E locked worker claimed_at duration s =
     (case eligible_execution locked claimed_at s of
        None \<Rightarrow> Inr (s, None)
      | Some x \<Rightarrow>
          (case execution_conversation s (ex_conversation_id x) of
             Inl e \<Rightarrow> Inl e
           | Inr c \<Rightarrow>
               (case assert_execution_current c x of
                  Inl (WxBlocked msg code) \<Rightarrow>
                    (case cancel_execution E c x code s of
                       Inl e \<Rightarrow> Inl e
                     | Inr s1 \<Rightarrow> claim_web_loop E locked worker claimed_at duration s1)
                | Inl e \<Rightarrow> Inl e
                | Inr _ \<Rightarrow>
                    (case start_execution E c x worker (claimed_at + duration) s of
                       Inl e \<Rightarrow> Inl e
                     | Inr (s1, x', m) \<Rightarrow> Inr (s1, Some (x', m))))))"
  by pat_completeness auto

termination
  by (relation "measure (\<lambda>(_, _, _, _, _, s). length (filter (\<lambda>x. ex_status x = ExQueued) (executions s)))")
    (auto dest: cancel_execution_less)

declare claim_web_loop.simps [simp del]

definition web_worker :: "string \<Rightarrow> web_error + string" where
  "web_worker t =
     (let w = strip t in if w = [] \<or> 120 < length w then Inl (WxInvalid ''invalid worker id'') else Inr w)"

definition claim_next_web ::
  "env \<Rightarrow> (uuid \<Rightarrow> bool) \<Rightarrow> string \<Rightarrow> instant \<Rightarrow> instant option \<Rightarrow> store \<Rightarrow>
     web_error + (store \<times> (execution \<times> chat_message) option)" where
  "claim_next_web E locked worker_id lease_duration now s =
     bindE (web_worker worker_id) (\<lambda>worker.
     if lease_duration \<le> 0 then Inl (WxInvalid ''lease duration must be positive'')
     else
     let claimed_at = (case now of Some t \<Rightarrow> t | None \<Rightarrow> clock E) in
     bindE (recover_stale_leases E locked (Some claimed_at) s) (\<lambda>(s1, _).
       claim_web_loop E locked worker claimed_at lease_duration s1))"

section \<open>Completing a claim\<close>

text \<open>The execution a worker still holds; shared by \<open>record_outcome\<close> and \<open>revalidate_claim\<close>.\<close>

definition owned_execution :: "store \<Rightarrow> uuid \<Rightarrow> string \<Rightarrow> web_error + execution" where
  "owned_execution s xid worker =
     (case find (\<lambda>x. ex_id x = xid) (executions s) of
        None \<Rightarrow> Inl WxOwnership
      | Some x \<Rightarrow>
          if ex_status x \<noteq> ExRunning \<or> ex_lease_owner x \<noteq> Some worker then Inl WxOwnership else Inr x)"

definition revalidate_web ::
  "env \<Rightarrow> uuid \<Rightarrow> string \<Rightarrow> instant option \<Rightarrow> store \<Rightarrow> web_error + (execution \<times> chat_message)" where
  "revalidate_web E xid worker_id now s =
     bindE (web_worker worker_id) (\<lambda>worker.
     bindE (owned_execution s xid worker) (\<lambda>x.
     let checked_at = (case now of Some t \<Rightarrow> t | None \<Rightarrow> clock E) in
     if (case ex_lease_expires_at x of None \<Rightarrow> True | Some t \<Rightarrow> t \<le> checked_at) then Inl WxLeaseExpired
     else
     bindE (execution_conversation s (ex_conversation_id x)) (\<lambda>c.
     bindE (assert_execution_current c x) (\<lambda>_.
       case get_message s (ex_inbound_message_id x) of
         None \<Rightarrow> Inl (WxQueue ''claimed execution has no inbound message'')
       | Some m \<Rightarrow> Inr (x, m)))))"

record web_result =
  wr_output_content :: "string option"
  wr_tools_used :: "string list option"
  wr_usage :: "(string \<times> json) list option"
  wr_safe_code :: "string option"
  wr_duration_ms :: "int option"

text \<open>The checks of \<open>record_outcome\<close> before the database is read.\<close>

definition check_web_result :: "string \<Rightarrow> web_result \<Rightarrow> web_error + web_outcome" where
  "check_web_result outcome r =
     (case web_outcome_of outcome of
        None \<Rightarrow> Inl (WxInvalid ''invalid execution outcome'')
      | Some t \<Rightarrow>
          if (case wr_duration_ms r of None \<Rightarrow> False | Some d \<Rightarrow> d < 0)
          then Inl (WxInvalid ''duration cannot be negative'')
          else if t = WebCompleted then
            (case wr_output_content r of
               None \<Rightarrow> Inl (WxInvalid ''completed execution requires output without an error code'')
             | Some content \<Rightarrow>
                 if strip content = [] \<or> 16000 < length content \<or> wr_safe_code r \<noteq> None
                 then Inl (WxInvalid ''completed execution requires output without an error code'') else Inr t)
          else if wr_output_content r \<noteq> None \<or>
                  (case wr_safe_code r of None \<Rightarrow> True | Some code \<Rightarrow> \<not> safe_code_pattern code)
          then Inl (WxInvalid ''failed or blocked execution requires a safe error code'')
          else Inr t)"

definition finished_row :: "execution \<Rightarrow> web_outcome \<Rightarrow> web_result \<Rightarrow> execution" where
  "finished_row x t r =
     x\<lparr>ex_status := web_outcome_status t, ex_error_code := wr_safe_code r, ex_duration_ms := wr_duration_ms r,
       ex_tools_used := (case wr_tools_used r of None \<Rightarrow> [] | Some ts \<Rightarrow> ts),
       ex_usage := (case wr_usage r of None \<Rightarrow> [] | Some u \<Rightarrow> u),
       ex_lease_owner := None, ex_lease_expires_at := None\<rparr>"

definition client_text :: "execution \<Rightarrow> string" where
  "client_text x = (case ex_client_message_id x of None \<Rightarrow> ''None'' | Some t \<Rightarrow> t)"

definition client_value :: "execution \<Rightarrow> pyval" where
  "client_value x = (case ex_client_message_id x of None \<Rightarrow> PNone | Some t \<Rightarrow> PStr t)"

definition output_message :: "env \<Rightarrow> uuid \<Rightarrow> execution \<Rightarrow> string \<Rightarrow> web_result \<Rightarrow> chat_message" where
  "output_message E mid x content r =
     \<lparr>cm_id = mid, cm_created_at = tx_now E, cm_conversation_id = ex_conversation_id x,
      cm_client_message_id = client_text x @ '':assistant'', cm_role = ''assistant'', cm_content = content,
      cm_status = ''completed'', cm_tool_names = (case wr_tools_used r of None \<Rightarrow> [] | Some ts \<Rightarrow> ts),
      cm_metadata = []\<rparr>"

text \<open>The completed branch: the answer is stored, linked and published.\<close>

definition complete_execution ::
  "env \<Rightarrow> conversation \<Rightarrow> execution \<Rightarrow> string \<Rightarrow> web_result \<Rightarrow> store \<Rightarrow> web_error + (store \<times> execution)" where
  "complete_execution E c x content r s =
     (let (mid, s1) = fresh E s; m = output_message E mid x content r in
      case insert_message m s1 of
        None \<Rightarrow> Inl WxIntegrity
      | Some s2 \<Rightarrow>
          bindE (update_execution x s2) (\<lambda>s3.
          bindE (mapErr WxEvent (publish E (cv_id c) (cv_agent_id c) ''chat.message.completed'' ''public''
                   (PDict [(KStr ''client_message_id'', client_value x), (KStr ''content'', PStr (cm_content m)),
                           (KStr ''execution_id'', PStr (uuid_str (ex_id x))),
                           (KStr ''message_id'', PStr (uuid_str (cm_id m))), (KStr ''status'', PStr ''completed'')]) s3)) (\<lambda>(s4, _).
          let x' = x\<lparr>ex_output_message_id := Some (cm_id m)\<rparr> in
          bindE (update_execution x' s4) (\<lambda>s5. Inr (s5, x')))))"

definition fail_execution ::
  "env \<Rightarrow> conversation \<Rightarrow> execution \<Rightarrow> web_outcome \<Rightarrow> web_result \<Rightarrow> store \<Rightarrow> web_error + (store \<times> execution)" where
  "fail_execution E c x t r s =
     bindE (update_execution x s) (\<lambda>s1.
     bindE (if t = WebFailed
            then mapErr WxEvent (publish E (cv_id c) (cv_agent_id c) ''chat.message.failed'' ''public''
                   (PDict [(KStr ''client_message_id'', client_value x),
                           (KStr ''error_code'', case wr_safe_code r of None \<Rightarrow> PNone | Some e \<Rightarrow> PStr e),
                           (KStr ''execution_id'', PStr (uuid_str (ex_id x))),
                           (KStr ''status'', PStr (web_outcome_value t))]) s1)
            else publish_execution_status E c x ''blocked'' (wr_safe_code r) s1)
       (\<lambda>(s2, _). Inr (s2, x)))"

text \<open>\<open>record_outcome\<close>: the execution, and whether its outcome was published (it is not when the
  conversation changed hands meanwhile).\<close>

definition record_web_outcome ::
  "env \<Rightarrow> uuid \<Rightarrow> string \<Rightarrow> string \<Rightarrow> web_result \<Rightarrow> store \<Rightarrow> web_error + (store \<times> execution \<times> bool)" where
  "record_web_outcome E xid worker_id outcome r s =
     bindE (web_worker worker_id) (\<lambda>worker.
     bindE (check_web_result outcome r) (\<lambda>t.
     bindE (owned_execution s xid worker) (\<lambda>x.
     bindE (execution_conversation s (ex_conversation_id x)) (\<lambda>c.
     case assert_execution_current c x of
       Inl (WxBlocked msg code) \<Rightarrow>
         bindE (block_execution E c x code s) (\<lambda>s1. Inr (s1, blocked_row x code, False))
     | Inl e \<Rightarrow> Inl e
     | Inr _ \<Rightarrow>
         (case get_message s (ex_inbound_message_id x) of
            None \<Rightarrow> Inl (WxQueue ''execution has no inbound message'')
          | Some m \<Rightarrow>
              let s1 = put_message (m\<lparr>cm_status := ''completed''\<rparr>) s; x1 = finished_row x t r in
              bindE (case (t, wr_output_content r) of
                       (WebCompleted, Some content) \<Rightarrow> complete_execution E c x1 content r s1
                     | _ \<Rightarrow> fail_execution E c x1 t r s1) (\<lambda>(s2, x2). Inr (s2, x2, True)))))))"

end
