(* ===== verification/WebExecutions.thy ===== *)
theory WebExecutions
  imports WebExecutionQueue
begin

text \<open>
  What the web-execution queue promises. \<open>web_step\<close> says how an execution may move; every operation
  of \<open>WebExecutionQueue\<close> is a sequence of its steps, so that under any interleaving of workers an
  execution runs at most once, behind every earlier execution of its conversation, and its answer is
  published only while the automation still owns the conversation.
\<close>

section \<open>The queue as a state machine\<close>

text \<open>The columns of an execution that never change after it is accepted.\<close>

definition request_part :: "execution \<Rightarrow> execution" where
  "request_part x = x\<lparr>ex_status := ExQueued, ex_attempt_count := 0, ex_lease_owner := None, ex_lease_expires_at := None,
     ex_output_message_id := None, ex_tools_used := [], ex_usage := [], ex_error_code := None, ex_duration_ms := None\<rparr>"

fun web_edge :: "execution_status \<Rightarrow> execution_status \<Rightarrow> bool" where
  "web_edge ExQueued t \<longleftrightarrow> t = ExCancelled"
| "web_edge ExRunning t \<longleftrightarrow> t \<in> {ExCompleted, ExFailed, ExBlocked}"
| "web_edge _ t \<longleftrightarrow> False"

text \<open>Conversations are never removed and their event counters never go back.\<close>

definition cursors_grow :: "store \<Rightarrow> store \<Rightarrow> bool" where
  "cursors_grow s s' \<longleftrightarrow> (conversations_ok s \<longrightarrow> conversations_ok s' \<and>
     (\<forall>c\<in>set (conversations s). \<exists>c'\<in>set (conversations s'). cv_id c' = cv_id c \<and>
        cv_next_event_sequence c \<le> cv_next_event_sequence c'))"

definition in_queue :: "execution \<Rightarrow> bool" where
  "in_queue x \<longleftrightarrow> web_blocking x \<and> ex_queue_sequence x \<noteq> None"

definition in_progress :: "execution \<Rightarrow> bool" where
  "in_progress x \<longleftrightarrow> ex_status x = ExRunning \<and> ex_queue_sequence x \<noteq> None"

definition queue_pos :: "execution \<Rightarrow> int" where
  "queue_pos x = (case ex_queue_sequence x of None \<Rightarrow> 0 | Some n \<Rightarrow> n)"

definition unclashed :: "execution \<Rightarrow> execution list \<Rightarrow> bool" where
  "unclashed x t \<longleftrightarrow> execution_checks x \<and> (\<forall>y\<in>set t. ex_id y \<noteq> ex_id x \<longrightarrow> \<not> execution_clash x y)"

inductive web_step :: "store \<Rightarrow> store \<Rightarrow> bool" where
  accepted: "c \<in> set (conversations s) \<Longrightarrow> ex_conversation_id x = cv_id c \<Longrightarrow>
     ex_queue_sequence x = Some (cv_next_event_sequence c) \<Longrightarrow>
     (\<And>d. d \<in> set (conversations s') \<Longrightarrow> cv_id d = cv_id c \<Longrightarrow> cv_next_event_sequence c < cv_next_event_sequence d) \<Longrightarrow>
     ex_status x = ExQueued \<Longrightarrow> ex_attempt_count x = 0 \<Longrightarrow> unclashed x (executions s) \<Longrightarrow>
     ex_id x \<notin> ex_id ` set (executions s) \<Longrightarrow> executions s' = executions s @ [x] \<Longrightarrow>
     cursors_grow s s' \<Longrightarrow> web_step s s'"
| started: "x \<in> set (executions s) \<Longrightarrow> request_part x' = request_part x \<Longrightarrow> ex_status x = ExQueued \<Longrightarrow>
     ex_queue_sequence x \<noteq> None \<Longrightarrow> (\<And>e. e \<in> set (executions s) \<Longrightarrow> earlier_execution e x \<Longrightarrow> \<not> web_blocking e) \<Longrightarrow>
     ex_status x' = ExRunning \<Longrightarrow> ex_attempt_count x' = ex_attempt_count x + 1 \<Longrightarrow>
     unclashed x' (executions s) \<Longrightarrow> executions s' = put_row ex_id x' (executions s) \<Longrightarrow>
     cursors_grow s s' \<Longrightarrow> web_step s s'"
| finished: "x \<in> set (executions s) \<Longrightarrow> request_part x' = request_part x \<Longrightarrow>
     web_edge (ex_status x) (ex_status x') \<or> (ex_status x' = ex_status x \<and> \<not> web_blocking x) \<Longrightarrow>
     ex_attempt_count x' = ex_attempt_count x \<Longrightarrow>
     unclashed x' (executions s) \<Longrightarrow> executions s' = put_row ex_id x' (executions s) \<Longrightarrow>
     cursors_grow s s' \<Longrightarrow> web_step s s'"
| outside: "executions s' = executions s \<Longrightarrow> cursors_grow s s' \<Longrightarrow> web_step s s'"

text \<open>The last rule is the work of the other services between two operations of the queue.\<close>

definition queue_rows_ok :: "store \<Rightarrow> bool" where
  "queue_rows_ok s \<longleftrightarrow> distinct (map ex_id (executions s)) \<and>
     (\<forall>x\<in>set (executions s). unclashed x (executions s))"

definition cursors_ok :: "store \<Rightarrow> bool" where
  "cursors_ok s \<longleftrightarrow> conversations_ok s \<and>
     (\<forall>x\<in>set (executions s). \<forall>n. ex_queue_sequence x = Some n \<longrightarrow>
        (\<exists>c\<in>set (conversations s). cv_id c = ex_conversation_id x \<and> n < cv_next_event_sequence c))"

definition runs_once :: "store \<Rightarrow> bool" where
  "runs_once s \<longleftrightarrow> (\<forall>x\<in>set (executions s). ex_queue_sequence x \<noteq> None \<longrightarrow>
     ex_attempt_count x \<le> 1 \<and> (ex_status x = ExQueued \<longrightarrow> ex_attempt_count x = 0))"

definition web_inv :: "store \<Rightarrow> bool" where
  "web_inv s \<longleftrightarrow> queue_rows_ok s \<and> cursors_ok s \<and> runs_once s \<and>
     lanes_ok ex_conversation_id queue_pos in_progress in_queue (executions s)"

lemma request_part_keys:
  assumes "request_part x' = request_part x"
  shows "ex_id x' = ex_id x" "ex_conversation_id x' = ex_conversation_id x" "ex_queue_sequence x' = ex_queue_sequence x"
    "ex_request_id x' = ex_request_id x" "ex_inbound_message_id x' = ex_inbound_message_id x"
    "ex_client_message_id x' = ex_client_message_id x" "queue_pos x' = queue_pos x"
proof -
  show "ex_id x' = ex_id x" "ex_conversation_id x' = ex_conversation_id x" "ex_queue_sequence x' = ex_queue_sequence x"
    "ex_request_id x' = ex_request_id x" "ex_inbound_message_id x' = ex_inbound_message_id x"
    "ex_client_message_id x' = ex_client_message_id x"
    using arg_cong [OF assms, of ex_id] arg_cong [OF assms, of ex_conversation_id] arg_cong [OF assms, of ex_queue_sequence]
      arg_cong [OF assms, of ex_request_id] arg_cong [OF assms, of ex_inbound_message_id]
      arg_cong [OF assms, of ex_client_message_id]
    by (simp_all add: request_part_def)
  then show "queue_pos x' = queue_pos x" by (simp add: queue_pos_def)
qed

lemma execution_clash_sym: "execution_clash x y \<longleftrightarrow> execution_clash y x"
  by (auto simp: execution_clash_def)

lemma execution_clash_part: "request_part x' = request_part x \<Longrightarrow> execution_clash x' y = execution_clash x y"
  using request_part_keys [of x' x] by (simp add: execution_clash_def)

lemma cursors_grow_refl [simp]: "cursors_grow s s"
  by (auto simp: cursors_grow_def)

lemma cursors_grow_trans: "cursors_grow s t \<Longrightarrow> cursors_grow t u \<Longrightarrow> cursors_grow s u"
  unfolding cursors_grow_def by (metis order_trans)

section \<open>The steps preserve the invariant\<close>

lemma put_queue_rows:
  assumes "queue_rows_ok s" "x \<in> set (executions s)" "request_part x' = request_part x" "unclashed x' (executions s)"
    "executions s' = put_row ex_id x' (executions s)"
  shows "queue_rows_ok s'" "y \<in> set (executions s') \<longleftrightarrow> y = x' \<or> (y \<in> set (executions s) \<and> y \<noteq> x)"
proof -
  note k = request_part_keys(1) [OF assms(3)]
  have d: "distinct (map ex_id (executions s))" using assms(1) by (simp add: queue_rows_ok_def)
  have rows: "y \<in> set (executions s') \<longleftrightarrow> y = x' \<or> (y \<in> set (executions s) \<and> y \<noteq> x)" for y
    using assms(2) k by (auto simp: assms(5) set_put_row dest: same_key [OF d])
  then show "y \<in> set (executions s') \<longleftrightarrow> y = x' \<or> (y \<in> set (executions s) \<and> y \<noteq> x)" .
  show "queue_rows_ok s'"
    unfolding queue_rows_ok_def
  proof (intro conjI ballI)
    show "distinct (map ex_id (executions s'))" using d by (simp add: assms(5) table_simps)
    fix y assume y: "y \<in> set (executions s')"
    show "unclashed y (executions s')"
    proof (cases "y = x'")
      case True
      then show ?thesis using assms(4) by (auto simp: unclashed_def rows)
    next
      case False
      with y have "y \<in> set (executions s)" by (simp add: rows)
      then show ?thesis using assms(1,4)
        by (auto simp: unclashed_def rows queue_rows_ok_def execution_clash_sym [of y x'])
    qed
  qed
qed

lemma step_queue_rows: "web_step s s' \<Longrightarrow> queue_rows_ok s \<Longrightarrow> queue_rows_ok s'"
proof (induction rule: web_step.induct)
  case (accepted c s x s')
  have rows: "set (executions s') = insert x (set (executions s))" by (simp add: accepted.hyps(9))
  have clash: "\<not> execution_clash x y" "\<not> execution_clash y x" if "y \<in> set (executions s)" for y
  proof -
    have "ex_id y \<noteq> ex_id x" using that accepted.hyps(8) by (metis imageI)
    then show "\<not> execution_clash x y" using that accepted.hyps(7) by (simp add: unclashed_def)
    then show "\<not> execution_clash y x" by (simp add: execution_clash_sym)
  qed
  have "unclashed y (executions s')" if "y \<in> set (executions s')" for y
    using that accepted.prems accepted.hyps(7) clash by (auto simp: rows queue_rows_ok_def unclashed_def)
  then show ?case using accepted.prems accepted.hyps(8) by (simp add: queue_rows_ok_def accepted.hyps(9))
next
  case (started x s x' s')
  show ?case by (rule put_queue_rows(1) [OF started.prems started.hyps(1,2,8,9)])
next
  case (finished x s x' s')
  show ?case by (rule put_queue_rows(1) [OF finished.prems finished.hyps(1,2,5,6)])
qed (simp add: queue_rows_ok_def)

lemma grown_conversation:
  assumes "cursors_grow s s'" "conversations_ok s"
    "\<exists>c\<in>set (conversations s). cv_id c = cid \<and> n < cv_next_event_sequence c"
  shows "\<exists>c\<in>set (conversations s'). cv_id c = cid \<and> n < cv_next_event_sequence c"
  using assms unfolding cursors_grow_def by (metis order_less_le_trans)

lemma step_cursors_ok:
  assumes "web_step s s'" "cursors_ok s" "queue_rows_ok s"
  shows "cursors_ok s'"
proof -
  have ok: "conversations_ok s" using assms(2) by (simp add: cursors_ok_def)
  have grow: "cursors_grow s s'" using assms(1) by cases
  then have ok': "conversations_ok s'" using ok by (simp add: cursors_grow_def)
  have kept: "\<exists>c\<in>set (conversations s'). cv_id c = ex_conversation_id y \<and> n < cv_next_event_sequence c"
    if "y \<in> set (executions s)" "ex_queue_sequence y = Some n" for y n
    using grown_conversation [OF grow ok] that assms(2) unfolding cursors_ok_def by metis
  have put: "cursors_ok s'" if h: "x \<in> set (executions s)" "request_part x' = request_part x" 
    "unclashed x' (executions s)" "executions s' = put_row ex_id x' (executions s)" for x x'
    unfolding cursors_ok_def
  proof (intro conjI ballI allI impI)
    fix y n assume y: "y \<in> set (executions s')" and n: "ex_queue_sequence y = Some n"
    then consider "y = x'" | "y \<in> set (executions s)"
      using put_queue_rows(2) [OF assms(3) h] by blast
    then show "\<exists>c\<in>set (conversations s'). cv_id c = ex_conversation_id y \<and> n < cv_next_event_sequence c"
    proof cases
      case 1
      with kept [OF h(1), of n] n request_part_keys [OF h(2)] show ?thesis by simp
    next
      case 2
      with kept n show ?thesis by blast
    qed
  qed (rule ok')
  from assms(1) show ?thesis
  proof cases
    case (accepted c x)
    have "\<exists>d\<in>set (conversations s'). cv_id d = cv_id c"
      using grow ok accepted(1) unfolding cursors_grow_def by blast
    then have "\<exists>d\<in>set (conversations s'). cv_id d = ex_conversation_id x \<and> cv_next_event_sequence c < cv_next_event_sequence d"
      using accepted(2,4) by auto
    then show ?thesis using kept ok' accepted(3,9) by (auto simp: cursors_ok_def)
  next
    case (started x x')
    show ?thesis by (rule put [OF started(1,2,8,9)])
  next
    case (finished x x')
    show ?thesis by (rule put [OF finished(1,2,5,6)])
  next
    case outside
    then show ?thesis using kept ok' by (auto simp: cursors_ok_def)
  qed
qed

lemma step_runs_once:
  assumes "web_step s s'" "runs_once s" "queue_rows_ok s"
  shows "runs_once s'"
  using assms(1)
proof cases
  case (accepted c x)
  then show ?thesis using assms(2) by (auto simp: runs_once_def)
next
  case (started x x')
  have "ex_attempt_count x = 0" using started(1,3,4) assms(2) by (auto simp: runs_once_def)
  then show ?thesis
    using assms(2) put_queue_rows(2) [OF assms(3) started(1,2,8,9)] started(6,7)
    unfolding runs_once_def by auto
next
  case (finished x x')
  have "ex_status x' \<noteq> ExQueued"
    using finished(3) by (cases "ex_status x") (auto simp: web_blocking_def)
  then show ?thesis
    using assms(2) put_queue_rows(2) [OF assms(3) finished(1,2,5,6)] finished(1,4) request_part_keys(3) [OF finished(2)]
    unfolding runs_once_def by (metis (no_types))
next
  case outside
  then show ?thesis using assms(2) by (simp add: runs_once_def)
qed

lemma step_web_lane:
  assumes "web_step s s'" "queue_rows_ok s" "cursors_ok s"
  shows "(lane_step ex_id ex_conversation_id queue_pos in_progress in_queue)\<^sup>*\<^sup>* (executions s) (executions s')"
  using assms(1)
proof cases
  case (accepted c x)
  have "queue_pos r \<le> queue_pos x" if r: "r \<in> set (executions s)" "ex_conversation_id r = ex_conversation_id x" "in_progress r" for r
  proof -
    from r obtain n where n: "ex_queue_sequence r = Some n" by (auto simp: in_progress_def)
    from assms(3) r(1) n obtain d where d: "d \<in> set (conversations s)" "cv_id d = ex_conversation_id r"
      "n < cv_next_event_sequence d" unfolding cursors_ok_def by blast
    have "d = c"
      using same_key [of cv_id "conversations s" d c] assms(3) d r(2) accepted(1,2)
      by (simp add: cursors_ok_def conversations_ok_def)
    then show ?thesis using d(3) n accepted(3) by (simp add: queue_pos_def)
  qed
  then have "lane_step ex_id ex_conversation_id queue_pos in_progress in_queue (executions s) (executions s @ [x])"
    by (intro lane_step.enqueue) (use accepted(5,8) in \<open>auto simp: in_progress_def\<close>)
  with accepted(9) show ?thesis by simp
next
  case (started x x')
  note k = request_part_keys [OF started(2)]
  have "\<not> (ex_conversation_id q = ex_conversation_id x \<and> queue_pos q < queue_pos x \<and> in_queue q)"
    if "q \<in> set (executions s)" for q
    using started(4,5) that
    by (auto simp: earlier_execution_def queue_pos_def in_queue_def split: option.splits)
  then have head: "head_of_lane ex_conversation_id queue_pos in_queue (executions s) x"
    by (simp add: head_of_lane_def list_all_iff)
  have "lane_step ex_id ex_conversation_id queue_pos in_progress in_queue (executions s) (put_row ex_id x' (executions s))"
    by (rule lane_step.start [OF started(1) _ head]) (use started(3,4) k in \<open>simp_all add: in_queue_def web_blocking_def\<close>)
  with started(9) show ?thesis by simp
next
  case (finished x x')
  note k = request_part_keys [OF finished(2)]
  have "in_queue x' \<Longrightarrow> in_queue x" "in_progress x' \<Longrightarrow> in_progress x"
    using finished(3) k by (cases "ex_status x"; auto simp: in_queue_def in_progress_def web_blocking_def)+
  then have "lane_step ex_id ex_conversation_id queue_pos in_progress in_queue (executions s) (put_row ex_id x' (executions s))"
    by (intro lane_step.settle [OF finished(1)]) (use k in simp_all)
  with finished(6) show ?thesis by simp
qed simp

lemma step_web_inv: "web_step s s' \<Longrightarrow> web_inv s \<Longrightarrow> web_inv s'"
  unfolding web_inv_def
  using step_queue_rows step_cursors_ok step_runs_once step_web_lane lane_steps_ok queue_rows_ok_def
  by metis

lemma steps_web_inv: "web_step\<^sup>*\<^sup>* s s' \<Longrightarrow> web_inv s \<Longrightarrow> web_inv s'"
  by (induction rule: rtranclp_induct) (auto intro: step_web_inv)

section \<open>Every operation is a sequence of steps\<close>

lemma advance_grows:
  assumes "c \<in> set (conversations s)"
    "conversations s' = put_row cv_id (c\<lparr>cv_next_event_sequence := cv_next_event_sequence c + 1\<rparr>) (conversations s)"
  shows "cursors_grow s s'"
  unfolding cursors_grow_def
proof (intro impI conjI ballI)
  assume ok: "conversations_ok s"
  then show "conversations_ok s'" by (simp add: conversations_ok_def assms(2) table_simps)
  fix d assume d: "d \<in> set (conversations s)"
  let ?r = "c\<lparr>cv_next_event_sequence := cv_next_event_sequence c + 1\<rparr>"
  show "\<exists>d'\<in>set (conversations s'). cv_id d' = cv_id d \<and> cv_next_event_sequence d \<le> cv_next_event_sequence d'"
  proof (cases "cv_id d = cv_id c")
    case True
    then have "d = c" using same_key [of cv_id "conversations s" d c] ok d assms(1) by (simp add: conversations_ok_def)
    moreover have "?r \<in> set (conversations s')" using assms(1) by (auto simp: assms(2) set_put_row)
    ultimately show ?thesis by (intro bexI [of _ ?r]) simp_all
  next
    case False
    then show ?thesis using d by (intro bexI [of _ d]) (auto simp: assms(2) set_put_row)
  qed
qed

lemma publish_grows:
  assumes "publish E cid aid ty vis p s = Inr (s', e)"
  shows "cursors_grow s s'"
proof -
  from assms obtain c where c: "scoped_conversation s cid aid = Some c"
    "conversations s' = put_row cv_id (c\<lparr>cv_next_event_sequence := cv_next_event_sequence c + 1\<rparr>) (conversations s)"
    unfolding publish_Inr by (elim exE conjE) simp
  show ?thesis by (rule advance_grows [OF _ c(2)]) (use scoped_conversationD [OF c(1)] in simp)
qed

lemma publish_status_grows:
  "publish_execution_status E c x status code s = Inr (s1, e) \<Longrightarrow> cursors_grow s s1 \<and> executions s1 = executions s"
  by (auto dest!: publish_status_Inr intro: publish_grows dest: publish_executions)

lemma cursors_grow_conversations:
  "cursors_grow s t \<Longrightarrow> conversations t' = conversations t \<Longrightarrow> cursors_grow s t'"
  by (simp add: cursors_grow_def conversations_ok_def)

lemma finish_refines:
  assumes "x \<in> set (executions s)" "request_part x' = request_part x"
    "web_edge (ex_status x) (ex_status x') \<or> (ex_status x' = ex_status x \<and> \<not> web_blocking x)"
    "ex_attempt_count x' = ex_attempt_count x" "executions s1 = executions s" "cursors_grow s s1"
    "update_execution x' s1 = Inr s'"
  shows "web_step s s'"
  using assms
  by (intro web_step.finished [OF assms(1-4)])
    (auto simp: update_execution_Inr unclashed_def intro: cursors_grow_conversations)

lemma block_refines:
  assumes "block_execution E c x code s = Inr s'" "x \<in> set (executions s)" "ex_status x = ExRunning"
  shows "web_step s s' \<and> executions s' = put_row ex_id (blocked_row x code) (executions s)"
proof -
  from assms(1) obtain s1 e where p: "publish_execution_status E c x ''blocked'' (Some code) s = Inr (s1, e)"
    and u: "update_execution (blocked_row x code) s1 = Inr s'"
    by (auto simp: block_execution_def bindE_eq_Inr)
  note g = publish_status_grows [OF p]
  have "web_step s s'"
    by (rule finish_refines [OF assms(2) _ _ _ _ _ u])
      (use g assms(3) in \<open>auto simp: blocked_row_def request_part_def\<close>)
  then show ?thesis using g u by (simp add: update_execution_Inr)
qed

lemma cancel_refines_web:
  assumes "cancel_execution E c x code s = Inr s'" "x \<in> set (executions s)" "ex_status x = ExQueued"
  shows "web_step s s'"
  using assms(1)
proof (rule cancel_execution_Inr)
  fix s1 e assume p: "publish_execution_status E c x ''cancelled'' (Some code) s = Inr (s1, e)"
    and u: "update_execution (cancelled_row x code) s1 = Inr s'"
  show "web_step s s'"
    by (rule finish_refines [OF assms(2) _ _ _ _ _ u])
      (use publish_status_grows [OF p] assms(3) in \<open>auto simp: cancelled_row_def request_part_def\<close>)
qed

lemma start_execution_Inr:
  assumes "start_execution E c x worker expires s = Inr (s', x', m)"
  obtains s1 e where "publish_execution_status E c x ''running'' None s = Inr (s1, e)"
    "update_execution (running_row x worker expires) s1 = Inr s'" "x' = running_row x worker expires"
    "get_message s' (ex_inbound_message_id x) = Some m"
  using assms by (auto simp: start_execution_def bindE_eq_Inr split: option.splits)

lemma start_refines_web:
  assumes "start_execution E c x worker expires s = Inr (s', x', m)" "eligible_execution locked now s = Some x"
  shows "web_step s s'"
  using assms(1)
proof (rule start_execution_Inr)
  fix s1 e assume p: "publish_execution_status E c x ''running'' None s = Inr (s1, e)"
    and u: "update_execution (running_row x worker expires) s1 = Inr s'"
  note g = publish_status_grows [OF p] and el = eligible_executionD [OF assms(2)]
  note u = u [unfolded update_execution_Inr]
  show "web_step s s'"
    by (rule web_step.started [of x s "running_row x worker expires"])
      (use el u g in \<open>auto simp: running_row_def request_part_def unclashed_def intro: cursors_grow_conversations\<close>)
qed

lemma claim_web_loop_refines:
  "claim_web_loop E locked worker claimed_at duration s = Inr (s', r) \<Longrightarrow> web_step\<^sup>*\<^sup>* s s'"
proof (induction E locked worker claimed_at duration s arbitrary: s' r rule: claim_web_loop.induct)
  case (1 E locked worker claimed_at duration s)
  show ?case
  proof (cases "eligible_execution locked claimed_at s")
    case None
    with "1.prems" show ?thesis by (simp add: claim_web_loop.simps)
  next
    case (Some x)
    note el = eligible_executionD [OF Some]
    from "1.prems" Some obtain c where c: "execution_conversation s (ex_conversation_id x) = Inr c"
      by (subst (asm) claim_web_loop.simps) (auto split: sum.splits)
    show ?thesis
    proof (cases "assert_execution_current c x")
      case (Inl e)
      with "1.prems" Some c obtain msg code s1 where e: "e = WxBlocked msg code"
        and s1: "cancel_execution E c x code s = Inr s1" "claim_web_loop E locked worker claimed_at duration s1 = Inr (s', r)"
        by (subst (asm) claim_web_loop.simps) (auto split: web_error.splits sum.splits)
      have "web_step\<^sup>*\<^sup>* s1 s'" by (rule "1.IH" [OF Some c Inl e s1])
      moreover have "web_step s s1" using cancel_refines_web [OF s1(1)] el by blast
      ultimately show ?thesis by (meson converse_rtranclp_into_rtranclp)
    next
      case (Inr u)
      with "1.prems" Some c obtain x' m where "start_execution E c x worker (claimed_at + duration) s = Inr (s', x', m)"
        by (subst (asm) claim_web_loop.simps) (auto split: sum.splits)
      from start_refines_web [OF this Some] show ?thesis by blast
    qed
  qed
qed

lemma recover_leases_refines:
  assumes "recover_leases E xs s = Inr s'" "distinct (map ex_id xs)"
    "\<And>x. x \<in> set xs \<Longrightarrow> x \<in> set (executions s) \<and> ex_status x = ExRunning"
  shows "web_step\<^sup>*\<^sup>* s s'"
  using assms
proof (induction xs arbitrary: s)
  case (Cons x xs)
  from Cons.prems(1) obtain c s1 where b: "block_execution E c x stale_code s = Inr s1" and r: "recover_leases E xs s1 = Inr s'"
    by (auto simp: bindE_eq_Inr)
  have st: "web_step s s1 \<and> executions s1 = put_row ex_id (blocked_row x stale_code) (executions s)"
    using block_refines [OF b] Cons.prems(3) [of x] by simp
  have "y \<in> set (executions s1) \<and> ex_status y = ExRunning" if "y \<in> set xs" for y
  proof -
    have "ex_id y \<noteq> ex_id (blocked_row x stale_code)"
      using that Cons.prems(2) by (simp add: blocked_row_def) (metis imageI)
    then show ?thesis using Cons.prems(3) [of y] that st by (simp add: set_put_row)
  qed
  then have "web_step\<^sup>*\<^sup>* s1 s'" using Cons.IH [OF r] Cons.prems(2) by simp
  with st show ?case by (meson converse_rtranclp_into_rtranclp)
qed simp

lemma recover_stale_refines_web:
  assumes "recover_stale_leases E locked now s = Inr (s', n)" "queue_rows_ok s"
  shows "web_step\<^sup>*\<^sup>* s s'"
proof -
  let ?xs = "stale_leases locked (case now of Some t \<Rightarrow> t | None \<Rightarrow> clock E) s"
  from assms(1) have r: "recover_leases E ?xs s = Inr s'"
    by (auto simp: recover_stale_leases_def Let_def bindE_eq_Inr)
  have "distinct (map ex_id (executions s))" using assms(2) by (simp add: queue_rows_ok_def)
  then have d: "distinct (map ex_id ?xs)"
    by (simp add: stale_leases_def distinct_map inj_on_def)
  show ?thesis by (rule recover_leases_refines [OF r d]) (simp add: stale_leases_def)
qed

lemma claim_next_web_refines:
  assumes "claim_next_web E locked worker_id duration now s = Inr (s', r)" "queue_rows_ok s"
  shows "web_step\<^sup>*\<^sup>* s s'"
proof -
  from assms(1) obtain worker s1 n at where
    "recover_stale_leases E locked (Some at) s = Inr (s1, n)" "claim_web_loop E locked worker at duration s1 = Inr (s', r)"
    by (auto simp: claim_next_web_def Let_def bindE_eq_Inr split: if_splits)
  with recover_stale_refines_web [OF this(1) assms(2)] claim_web_loop_refines [OF this(2)]
  show ?thesis by (meson rtranclp_trans)
qed

lemma owned_executionD: "owned_execution s xid worker = Inr x \<Longrightarrow>
    x \<in> set (executions s) \<and> ex_id x = xid \<and> ex_status x = ExRunning \<and> ex_lease_owner x = Some worker"
  by (auto simp: owned_execution_def split: option.splits if_splits dest: find_SomeD)

lemma finished_row_same [simp]:
  "request_part (finished_row x t r) = request_part x" "ex_id (finished_row x t r) = ex_id x"
  "ex_attempt_count (finished_row x t r) = ex_attempt_count x" "ex_status (finished_row x t r) = web_outcome_status t"
  "ex_conversation_id (finished_row x t r) = ex_conversation_id x"
  by (simp_all add: finished_row_def request_part_def)

lemma complete_execution_Inr:
  assumes "complete_execution E c x content r s = Inr (s', x')"
  obtains s2 s3 s4 e where "insert_message (output_message E (uuid4 E (draws s)) x content r) (s\<lparr>draws := Suc (draws s)\<rparr>) = Some s2"
    "update_execution x s2 = Inr s3"
    "publish E (cv_id c) (cv_agent_id c) ''chat.message.completed'' ''public''
       (PDict [(KStr ''client_message_id'', client_value x), (KStr ''content'', PStr content),
               (KStr ''execution_id'', PStr (uuid_str (ex_id x))),
               (KStr ''message_id'', PStr (uuid_str (uuid4 E (draws s)))), (KStr ''status'', PStr ''completed'')]) s3 = Inr (s4, e)"
    "x' = x\<lparr>ex_output_message_id := Some (uuid4 E (draws s))\<rparr>" "update_execution x' s4 = Inr s'"
  using assms
  by (auto simp: complete_execution_def Let_def fresh_def bindE_eq_Inr output_message_def split: option.splits)

lemma complete_refines:
  assumes "complete_execution E c x1 content r s1 = Inr (s', x2)" "x \<in> set (executions s)" "ex_status x = ExRunning"
    "x1 = finished_row x WebCompleted r" "executions s1 = executions s" "conversations s1 = conversations s"
  shows "web_step\<^sup>*\<^sup>* s s'"
  using assms(1)
proof (rule complete_execution_Inr)
  fix s2 s3 s4 e
  assume i: "insert_message (output_message E (uuid4 E (draws s1)) x1 content r) (s1\<lparr>draws := Suc (draws s1)\<rparr>) = Some s2"
    and u: "update_execution x1 s2 = Inr s3"
    and p: "publish E (cv_id c) (cv_agent_id c) ''chat.message.completed'' ''public''
       (PDict [(KStr ''client_message_id'', client_value x1), (KStr ''content'', PStr content),
               (KStr ''execution_id'', PStr (uuid_str (ex_id x1))),
               (KStr ''message_id'', PStr (uuid_str (uuid4 E (draws s1)))), (KStr ''status'', PStr ''completed'')]) s3 = Inr (s4, e)"
    and x2: "x2 = x1\<lparr>ex_output_message_id := Some (uuid4 E (draws s1))\<rparr>" and v: "update_execution x2 s4 = Inr s'"
  have s2: "executions s2 = executions s" "conversations s2 = conversations s"
    using i assms(5,6) by (simp_all add: insert_message_Some)
  have "web_step s s3"
    by (rule finish_refines [OF assms(2) _ _ _ s2(1) _ u])
      (use assms(3,4) s2(2) in \<open>auto intro: cursors_grow_conversations [OF cursors_grow_refl]\<close>)
  moreover have "web_step s3 s'"
  proof (rule finish_refines [OF _ _ _ _ _ _ v])
    show "x1 \<in> set (executions s3)"
      using u assms(2,4) s2(1) by (auto simp: update_execution_Inr set_put_row)
    show "request_part x2 = request_part x1" "ex_attempt_count x2 = ex_attempt_count x1"
      by (simp_all add: x2 request_part_def)
    show "web_edge (ex_status x1) (ex_status x2) \<or> ex_status x2 = ex_status x1 \<and> \<not> web_blocking x1"
      by (simp add: x2 assms(4) web_blocking_def)
  qed (use p in \<open>auto intro: publish_grows dest: publish_executions\<close>)
  ultimately show ?thesis by (meson converse_rtranclp_into_rtranclp r_into_rtranclp)
qed

lemma fail_execution_Inr:
  assumes "fail_execution E c x t r s = Inr (s', x')"
  shows "x' = x \<and> (\<exists>s1. update_execution x s = Inr s1 \<and> cursors_grow s1 s' \<and> executions s' = executions s1 \<and>
    chat_messages s' = chat_messages s1)"
proof -
  from assms obtain s1 where u: "update_execution x s = Inr s1" and x': "x' = x"
    and p: "\<exists>ty pl e. publish E (cv_id c) (cv_agent_id c) ty ''public'' pl s1 = Inr (s', e)"
    by (auto simp: fail_execution_def publish_execution_status_def bindE_eq_Inr split: if_splits)
  from p obtain ty pl e where "publish E (cv_id c) (cv_agent_id c) ty ''public'' pl s1 = Inr (s', e)" by blast
  from publish_grows [OF this] publish_executions [OF this] publish_frame(1) [OF this] u x' show ?thesis by blast
qed

text \<open>The cases of \<open>record_outcome\<close>.\<close>

lemma record_web_cases:
  assumes "record_web_outcome E xid worker_id outcome r s = Inr (s', x', pub)"
  obtains (lost) x c msg code where "\<not> pub" "owned_execution s xid (strip worker_id) = Inr x"
      "get_conversation s (ex_conversation_id x) = Some c" "assert_execution_current c x = Inl (WxBlocked msg code)"
      "block_execution E c x code s = Inr s'" "x' = blocked_row x code"
  | (answered) x c t m content where pub "owned_execution s xid (strip worker_id) = Inr x"
      "get_conversation s (ex_conversation_id x) = Some c" "assert_execution_current c x = Inr ()"
      "t = WebCompleted" "check_web_result outcome r = Inr t" "wr_output_content r = Some content"
      "get_message s (ex_inbound_message_id x) = Some m"
      "complete_execution E c (finished_row x t r) content r (put_message (m\<lparr>cm_status := ''completed''\<rparr>) s) = Inr (s', x')"
  | (failed) x c t m where pub "owned_execution s xid (strip worker_id) = Inr x"
      "get_conversation s (ex_conversation_id x) = Some c" "assert_execution_current c x = Inr ()"
      "t \<noteq> WebCompleted" "check_web_result outcome r = Inr t" "get_message s (ex_inbound_message_id x) = Some m"
      "fail_execution E c (finished_row x t r) t r (put_message (m\<lparr>cm_status := ''completed''\<rparr>) s) = Inr (s', x')"
proof -
  from assms obtain worker t x c where w: "worker = strip worker_id" and t: "check_web_result outcome r = Inr t"
    and x: "owned_execution s xid (strip worker_id) = Inr x"
    and c: "get_conversation s (ex_conversation_id x) = Some c"
    by (auto simp: record_web_outcome_def web_worker_def execution_conversation_def Let_def bindE_eq_Inr
        split: if_splits option.splits)
  have wk: "web_worker worker_id = Inr (strip worker_id)"
    using assms by (auto simp: record_web_outcome_def web_worker_def Let_def split: if_splits)
  show thesis
  proof (cases "assert_execution_current c x")
    case (Inl e)
    with assms t x c wk obtain msg code where e: "e = WxBlocked msg code"
      by (auto simp: record_web_outcome_def execution_conversation_def split: web_error.splits)
    with assms t x c wk Inl show thesis
      by (intro lost [OF _ x c Inl [unfolded e]])
        (auto simp: record_web_outcome_def execution_conversation_def bindE_eq_Inr)
  next
    case (Inr u)
    with assms t x c wk obtain m where m: "get_message s (ex_inbound_message_id x) = Some m"
      by (auto simp: record_web_outcome_def execution_conversation_def split: option.splits)
    have content: "\<exists>content. wr_output_content r = Some content" if "t = WebCompleted"
      using t that by (auto simp: check_web_result_def split: option.splits if_splits)
    show thesis
    proof (cases "t = WebCompleted")
      case True
      with content obtain content where ct: "wr_output_content r = Some content" by blast
      with assms t x c wk Inr m True show thesis
        by (intro answered [OF _ x c _ True t ct m])
          (auto simp: record_web_outcome_def execution_conversation_def Let_def bindE_eq_Inr)
    next
      case False
      with assms t x c wk Inr m show thesis
        by (intro failed [OF _ x c _ False t m])
          (cases t; auto simp: record_web_outcome_def execution_conversation_def Let_def bindE_eq_Inr)+
    qed
  qed
qed

lemma put_message_frame [simp]:
  "executions (put_message m s) = executions s" "conversations (put_message m s) = conversations s"
  "conv_events (put_message m s) = conv_events s" "draws (put_message m s) = draws s"
  by (simp_all add: put_message_def)

lemma record_web_refines:
  assumes "record_web_outcome E xid worker_id outcome r s = Inr (s', x', pub)"
  shows "web_step\<^sup>*\<^sup>* s s'"
  using assms
proof (cases rule: record_web_cases)
  case (lost x c msg code)
  then show ?thesis using block_refines [OF lost(5)] owned_executionD [OF lost(2)] by blast
next
  case (answered x c t m content)
  show ?thesis
    by (rule complete_refines [OF answered(9), of x s]) (use owned_executionD [OF answered(2)] answered(5) in simp_all)
next
  case (failed x c t m)
  let ?s1 = "put_message (m\<lparr>cm_status := ''completed''\<rparr>) s"
  from fail_execution_Inr [OF failed(8)] obtain s1 where u: "update_execution (finished_row x t r) ?s1 = Inr s1"
    and g: "cursors_grow s1 s'" "executions s' = executions s1" by blast
  have "web_step s s1"
    by (rule finish_refines [OF _ _ _ _ _ _ u])
      (use owned_executionD [OF failed(2)] failed(5) in
        \<open>cases t; auto intro: cursors_grow_conversations [OF cursors_grow_refl]\<close>)+
  moreover have "web_step s1 s'" by (rule web_step.outside) (use g in simp_all)
  ultimately show ?thesis by (meson converse_rtranclp_into_rtranclp r_into_rtranclp)
qed

lemma enqueue_web_new:
  assumes "enqueue_web E s cmd = Inr (s', (x, m, e), False)"
  obtains client lang available hash c where "prepare_web E cmd = Inr (client, lang, available, hash)"
    "scoped_conversation s (wc_conversation_id cmd) (wc_agent_id cmd) = Some c" "cv_channel c = ''web''"
    "web_receipt s (cv_id c) client = None" "assert_automation c None None None = Inr ()"
    "ev_conversation_id e = cv_id c" "ev_sequence e = cv_next_event_sequence c"
    "m = inbound_web_message E (uuid4 E (draws s)) c client (wc_content cmd) lang"
    "x = queued_execution E (uuid4 E (draws s + 1)) (uuid_str (uuid4 E (draws s + 3))) c (cm_id m) client hash
       (cv_next_event_sequence c) available"
    "unclashed x (executions s)" "ex_id x \<notin> ex_id ` set (executions s)"
    "executions s' = executions s @ [x]" "chat_messages s' = chat_messages s @ [m]" "get_message s' (cm_id m) = Some m"
    "conversations s' = put_row cv_id (c\<lparr>cv_next_event_sequence := cv_next_event_sequence c + 1\<rparr>) (conversations s)"
    "conv_events s' = conv_events s @ [e]"
proof -
  from assms obtain client lang available hash c where p: "prepare_web E cmd = Inr (client, lang, available, hash)"
    and c: "scoped_conversation s (wc_conversation_id cmd) (wc_agent_id cmd) = Some c" "cv_channel c = ''web''"
    by (auto simp: enqueue_web_def web_conversation_def bindE_eq_Inr split: if_splits option.splits)
  with assms have n: "web_receipt s (cv_id c) client = None" "assert_automation c None None None = Inr ()"
    and cr: "create_web E s c client (wc_content cmd) lang available hash = Inr (s', x, m, e)"
    by (auto simp: enqueue_web_def web_conversation_def bindE_eq_Inr split: option.splits)
  let ?s2 = "s\<lparr>draws := Suc (Suc (draws s))\<rparr>"
  from cr obtain s3 s5 where pub: "publish E (cv_id c) (cv_agent_id c) ''chat.message.accepted'' ''public''
               (PDict [(KStr ''client_message_id'', PStr client), (KStr ''execution_id'', PStr (uuid_str (uuid4 E (Suc (draws s))))),
                       (KStr ''message_id'', PStr (uuid_str (uuid4 E (draws s)))), (KStr ''status'', PStr ''accepted'')]) ?s2
             = Inr (s3, e)"
    and m: "m = inbound_web_message E (uuid4 E (draws s)) c client (wc_content cmd) lang"
    and x: "x = queued_execution E (uuid4 E (Suc (draws s))) (uuid_str (uuid4 E (draws s3))) c (cm_id m) client hash
       (ev_sequence e) available"
    and i: "insert_message m (s3\<lparr>draws := Suc (draws s3)\<rparr>) = Some s5" and j: "insert_execution x s5 = Inr s'"
    by (auto simp: create_web_def fresh_def Let_def bindE_eq_Inr inbound_web_message_def split: option.splits)
  have sc: "scoped_conversation ?s2 (cv_id c) (cv_agent_id c) = Some c"
    using c(1) scoped_conversationD [OF c(1)] by (simp add: scoped_conversation_def)
  from pub [unfolded publish_Inr] sc have e: "ev_conversation_id e = cv_id c" "ev_sequence e = cv_next_event_sequence c"
    and s3: "draws s3 = draws s + 3" "executions s3 = executions s" "chat_messages s3 = chat_messages s"
      "conversations s3 = put_row cv_id (c\<lparr>cv_next_event_sequence := cv_next_event_sequence c + 1\<rparr>) (conversations s)"
      "conv_events s3 = conv_events s @ [e]"
    by auto
  note i' = i [unfolded insert_message_Some]
  have j': "unclashed x (executions s)" "ex_id x \<notin> ex_id ` set (executions s)"
    "s' = s5\<lparr>executions := executions s @ [x]\<rparr>"
    using j i' s3(2) by (auto simp: insert_execution_def unclashed_def list_ex_iff split: if_splits)
  have g: "get_message s' (cm_id m) = Some m"
    using get_message_insert [OF i, of "cm_id m"] by (simp add: j'(3) get_message_def)
  show thesis
    by (rule that [OF p c n e m _ j'(1,2) _ _ g]) (use x e(2) s3 i' j'(3) in \<open>simp_all add: add.commute\<close>)
qed

lemma enqueue_web_duplicate:
  assumes "enqueue_web E s cmd = Inr (s', q, True)"
  obtains client lang available hash c x where "prepare_web E cmd = Inr (client, lang, available, hash)" "s' = s"
    "scoped_conversation s (wc_conversation_id cmd) (wc_agent_id cmd) = Some c" "cv_channel c = ''web''"
    "web_receipt s (cv_id c) client = Some x" "web_duplicate s c x hash = Inr q"
  using assms by (auto simp: enqueue_web_def web_conversation_def bindE_eq_Inr split: if_splits option.splits)

lemma enqueue_web_refines:
  assumes "enqueue_web E s cmd = Inr (s', q, d)"
  shows "web_step\<^sup>*\<^sup>* s s'"
proof (cases d)
  case True
  with assms have "enqueue_web E s cmd = Inr (s', q, True)" by simp
  then show ?thesis by (cases rule: enqueue_web_duplicate) simp
next
  case False
  obtain x m e where q: "q = (x, m, e)" by (cases q)
  with assms False have "enqueue_web E s cmd = Inr (s', (x, m, e), False)" by simp
  then show ?thesis
  proof (cases rule: enqueue_web_new)
    case (1 client lang available hash c)
    have in_c: "c \<in> set (conversations s)" using scoped_conversationD [OF 1(2)] by simp
    have "cursors_grow s s'" by (rule advance_grows [OF in_c 1(15)])
    then have "web_step s s'"
      by (intro web_step.accepted [OF in_c, of x s'])
        (use 1(9-12,15) in \<open>auto simp: queued_execution_def set_put_row\<close>)
    then show ?thesis by blast
  qed
qed

section \<open>Any interleaving of operations\<close>

inductive web_op :: "store \<Rightarrow> store \<Rightarrow> bool" where
  web_enqueue: "enqueue_web E s cmd = Inr (s', q, d) \<Longrightarrow> web_op s s'"
| web_claim: "claim_next_web E locked worker_id duration now s = Inr (s', r) \<Longrightarrow> web_op s s'"
| web_recover: "recover_stale_leases E locked now s = Inr (s', n) \<Longrightarrow> web_op s s'"
| web_outcome: "record_web_outcome E xid worker_id outcome r s = Inr (s', x, p) \<Longrightarrow> web_op s s'"
| web_other: "executions s' = executions s \<Longrightarrow> cursors_grow s s' \<Longrightarrow> web_op s s'"

lemma web_op_refines: "web_op s s' \<Longrightarrow> queue_rows_ok s \<Longrightarrow> web_step\<^sup>*\<^sup>* s s'"
proof (induction rule: web_op.induct)
  case (web_other s' s)
  then show ?case by (blast intro: web_step.outside)
qed (auto dest: enqueue_web_refines claim_next_web_refines recover_stale_refines_web record_web_refines)

lemma steps_queue_cursors: "web_step\<^sup>*\<^sup>* s s' \<Longrightarrow> queue_rows_ok s \<and> cursors_ok s \<Longrightarrow> queue_rows_ok s' \<and> cursors_ok s'"
  by (induction rule: rtranclp_induct) (auto intro: step_queue_rows step_cursors_ok)

lemma steps_web_lane: "web_step\<^sup>*\<^sup>* s s' \<Longrightarrow> queue_rows_ok s \<and> cursors_ok s \<Longrightarrow>
    (lane_step ex_id ex_conversation_id queue_pos in_progress in_queue)\<^sup>*\<^sup>* (executions s) (executions s')"
proof (induction rule: rtranclp_induct)
  case (step t u)
  then show ?case
    using step_web_lane [of t u] steps_queue_cursors [of s t] by (meson rtranclp_trans)
qed simp

interpretation web_lanes: fifo_lanes executions ex_id ex_conversation_id queue_pos in_progress in_queue
  "\<lambda>s. queue_rows_ok s \<and> cursors_ok s" web_op
proof
  fix s s' assume op: "web_op s s'" and ok: "queue_rows_ok s \<and> cursors_ok s"
  then have steps: "web_step\<^sup>*\<^sup>* s s'" by (blast intro: web_op_refines)
  show "(lane_step ex_id ex_conversation_id queue_pos in_progress in_queue)\<^sup>*\<^sup>* (executions s) (executions s')"
    by (rule steps_web_lane [OF steps ok])
  show "queue_rows_ok s' \<and> cursors_ok s'" by (rule steps_queue_cursors [OF steps ok])
qed (auto simp: queue_rows_ok_def in_queue_def in_progress_def web_blocking_def)

lemma ops_web_inv: "web_op\<^sup>*\<^sup>* s s' \<Longrightarrow> web_inv s \<Longrightarrow> web_inv s'"
proof (induction rule: rtranclp_induct)
  case (step t u)
  then show ?case using web_op_refines steps_web_inv web_inv_def by blast
qed simp


text \<open>An execution is started at most once: model and tool effects of a lost worker are never
  repeated, because a stale lease blocks the execution instead of queueing it again.\<close>

theorem web_runs_at_most_once:
  assumes "web_inv s" "web_op\<^sup>*\<^sup>* s s'" "x \<in> set (executions s')" "ex_queue_sequence x \<noteq> None"
  shows "ex_attempt_count x \<le> 1 \<and> (ex_status x = ExQueued \<longrightarrow> ex_attempt_count x = 0)"
  using ops_web_inv [OF assms(2,1)] assms(3,4) by (simp add: web_inv_def runs_once_def)

end
