(* ===== verification/WebAnswers.thy ===== *)
theory WebAnswers
  imports WebExecutions
begin

text \<open>
  Claims and answers of the web-execution queue: a worker is handed an execution, and its answer
  becomes public, only while the epochs the message was accepted under are current; a repeated
  message is answered from its first execution; and two limits of the service that do not agree
  with the limits of what it writes.
\<close>

section \<open>Claims\<close>

lemma assert_execution_current_Inr:
  "assert_execution_current c x = Inr u \<longleftrightarrow> cv_status c = ''active'' \<and> cv_control_mode c = Automated \<and>
     cv_control_version c = ex_control_version x \<and> cv_automation_agent_id c = ex_automation_agent_id x \<and>
     cv_automation_version c = ex_automation_version x"
  by (auto simp: assert_execution_current_def assert_automation_def)

lemma claim_web_loop_cases:
  assumes "claim_web_loop E locked worker claimed_at duration s = Inr (s', Some (x', m))" "conversations_ok s"
  shows "\<exists>t x c. conversations_ok t \<and> eligible_execution locked claimed_at t = Some x \<and> get_conversation t (ex_conversation_id x) = Some c \<and>
    assert_execution_current c x = Inr () \<and> start_execution E c x worker (claimed_at + duration) t = Inr (s', x', m)"
  using assms
proof (induction E locked worker claimed_at duration s arbitrary: s' x' m rule: claim_web_loop.induct)
  case (1 E locked worker claimed_at duration s)
  show ?case
  proof (cases "eligible_execution locked claimed_at s")
    case None
    with "1.prems" show ?thesis by (simp add: claim_web_loop.simps)
  next
    case (Some x)
    note el = eligible_executionD [OF Some]
    from "1.prems"(1) Some obtain c where c: "execution_conversation s (ex_conversation_id x) = Inr c"
      by (subst (asm) claim_web_loop.simps) (auto split: sum.splits)
    then have g: "get_conversation s (ex_conversation_id x) = Some c"
      by (auto simp: execution_conversation_def split: option.splits)
    show ?thesis
    proof (cases "assert_execution_current c x")
      case (Inl e)
      with "1.prems"(1) Some c obtain msg code s1 where e: "e = WxBlocked msg code"
        and s1: "cancel_execution E c x code s = Inr s1"
          "claim_web_loop E locked worker claimed_at duration s1 = Inr (s', Some (x', m))"
        by (subst (asm) claim_web_loop.simps) (auto split: web_error.splits sum.splits)
      have "cursors_grow s s1"
        using s1(1) by (rule cancel_execution_Inr)
          (auto dest!: publish_status_grows simp: update_execution_Inr intro: cursors_grow_conversations)
      then have "conversations_ok s1" using "1.prems"(2) by (simp add: cursors_grow_def)
      then show ?thesis by (rule "1.IH" [OF Some c Inl e s1])
    next
      case (Inr u)
      with "1.prems"(1) Some c have "start_execution E c x worker (claimed_at + duration) s = Inr (s', x', m)"
        by (subst (asm) claim_web_loop.simps) (auto split: sum.splits)
      with Some g Inr "1.prems"(2) show ?thesis by auto
    qed
  qed
qed

lemma recover_leases_ok: "recover_leases E xs s = Inr s' \<Longrightarrow> conversations_ok s \<Longrightarrow> conversations_ok s'"
proof (induction xs arbitrary: s)
  case (Cons x xs)
  then obtain c s1 s2 e where p: "publish_execution_status E c x ''blocked'' (Some stale_code) s = Inr (s1, e)"
    and u: "update_execution (blocked_row x stale_code) s1 = Inr s2" and r: "recover_leases E xs s2 = Inr s'"
    by (auto simp: block_execution_def bindE_eq_Inr)
  have "conversations_ok s1" using publish_status_grows [OF p] Cons.prems(2) by (simp add: cursors_grow_def)
  then show ?case by (intro Cons.IH [OF r]) (use u in \<open>simp add: update_execution_Inr conversations_ok_def\<close>)
qed simp

text \<open>A claim respects the epochs: the execution a worker is handed was queued and due, is now
  running under this worker's lease, which ends one lease duration after the claim, comes with its
  inbound message, and belongs to an active automated conversation whose control version, acting
  agent and automation version are those the message was accepted under.\<close>

theorem web_claim_fenced:
  assumes "conversations_ok s" "claim_next_web E locked worker_id duration (Some now) s = Inr (s', Some (x, m))"
  shows "x \<in> set (executions s') \<and> ex_status x = ExRunning \<and> ex_lease_owner x = Some (strip worker_id) \<and>
    ex_lease_expires_at x = Some (now + duration) \<and> 0 < duration \<and> ex_available_at x \<le> now \<and> \<not> locked (ex_id x) \<and>
    get_message s' (ex_inbound_message_id x) = Some m \<and>
    (\<exists>c. get_conversation s' (ex_conversation_id x) = Some c \<and> cv_status c = ''active'' \<and> cv_control_mode c = Automated \<and>
       cv_control_version c = ex_control_version x \<and> cv_automation_agent_id c = ex_automation_agent_id x \<and>
       cv_automation_version c = ex_automation_version x)"
proof -
  from assms(2) obtain s1 n where w: "0 < duration" and r: "recover_stale_leases E locked (Some now) s = Inr (s1, n)"
    and l: "claim_web_loop E locked (strip worker_id) now duration s1 = Inr (s', Some (x, m))"
    by (auto simp: claim_next_web_def web_worker_def Let_def bindE_eq_Inr not_le split: if_splits)
  have "conversations_ok s1"
    using r assms(1) by (auto simp: recover_stale_leases_def Let_def bindE_eq_Inr intro: recover_leases_ok)
  from claim_web_loop_cases [OF l this] obtain t y c where t: "conversations_ok t" "eligible_execution locked now t = Some y"
    "get_conversation t (ex_conversation_id y) = Some c" "assert_execution_current c y = Inr ()"
    "start_execution E c y (strip worker_id) (now + duration) t = Inr (s', x, m)" by blast
  note el = eligible_executionD [OF t(2)] and cur = t(4) [unfolded assert_execution_current_Inr]
  from t(5) show ?thesis
  proof (rule start_execution_Inr)
    fix s2 e assume p: "publish_execution_status E c y ''running'' None t = Inr (s2, e)"
      and u: "update_execution (running_row y (strip worker_id) (now + duration)) s2 = Inr s'"
      and x: "x = running_row y (strip worker_id) (now + duration)"
      and m: "get_message s' (ex_inbound_message_id y) = Some m"
    have cid: "cv_id c = ex_conversation_id y" using get_conversationD [OF t(3)] by simp
    have "get_conversation s2 (ex_conversation_id y) = Some (c\<lparr>cv_next_event_sequence := cv_next_event_sequence c + 1\<rparr>)"
      using publish_conversation [OF publish_status_Inr [OF p] t(1)] t(3) cid by simp
    then have "get_conversation s' (ex_conversation_id y) = Some (c\<lparr>cv_next_event_sequence := cv_next_event_sequence c + 1\<rparr>)"
      using u by (simp add: update_execution_Inr get_conversation_def)
    moreover have "x \<in> set (executions s')"
      using u el publish_status_grows [OF p] by (auto simp: x update_execution_Inr running_row_def set_put_row)
    ultimately show ?thesis using w el cur m by (auto simp: x running_row_def)
  qed
qed

section \<open>Answers\<close>

lemma publish_messages: "publish_execution_status E c x status code s = Inr (s1, e) \<Longrightarrow> chat_messages s1 = chat_messages s"
  by (auto dest!: publish_status_Inr intro: publish_frame(1))

lemma get_message_cong: "chat_messages s' = chat_messages s \<Longrightarrow> get_message s' k = get_message s k"
  by (simp add: get_message_def)

text \<open>C25: an answer becomes public only for its owner in its epoch: an outcome is accepted from the
  worker that holds the running execution; if the conversation changed hands meanwhile the execution
  is blocked and no message is written; otherwise the execution takes the outcome, loses its lease,
  and a completed one points to the stored answer.\<close>

theorem web_answer_fenced:
  assumes "record_web_outcome E xid worker_id outcome r s = Inr (s', x', pub)"
  shows "\<exists>x c. x \<in> set (executions s) \<and> ex_id x = xid \<and> ex_status x = ExRunning \<and> ex_lease_owner x = Some (strip worker_id) \<and>
    get_conversation s (ex_conversation_id x) = Some c \<and> ex_id x' = xid \<and> ex_lease_owner x' = None \<and> x' \<in> set (executions s') \<and>
    pub = (cv_status c = ''active'' \<and> cv_control_mode c = Automated \<and> cv_control_version c = ex_control_version x \<and>
       cv_automation_agent_id c = ex_automation_agent_id x \<and> cv_automation_version c = ex_automation_version x) \<and>
    (if pub then web_outcome_of outcome = Some WebCompleted \<and> ex_status x' = ExCompleted \<and>
         (\<exists>content answer. wr_output_content r = Some content \<and> ex_output_message_id x' = Some (cm_id answer) \<and>
            get_message s' (cm_id answer) = Some answer \<and> cm_content answer = content \<and> cm_role answer = ''assistant'') \<or>
       web_outcome_of outcome = Some WebFailed \<and> ex_status x' = ExFailed \<or>
       web_outcome_of outcome = Some WebBlocked \<and> ex_status x' = ExBlocked
     else ex_status x' = ExBlocked \<and> chat_messages s' = chat_messages s)"
  using assms
proof (cases rule: record_web_cases)
  case (lost x c msg code)
  note o = owned_executionD [OF lost(2)]
  from lost(5) obtain s1 e where p: "publish_execution_status E c x ''blocked'' (Some code) s = Inr (s1, e)"
    and u: "update_execution (blocked_row x code) s1 = Inr s'" by (auto simp: block_execution_def bindE_eq_Inr)
  have "\<not> (cv_status c = ''active'' \<and> cv_control_mode c = Automated \<and> cv_control_version c = ex_control_version x \<and>
       cv_automation_agent_id c = ex_automation_agent_id x \<and> cv_automation_version c = ex_automation_version x)"
    using lost(4) assert_execution_current_Inr [of c x "()"] by auto
  moreover have "x' \<in> set (executions s')" "chat_messages s' = chat_messages s"
    using o u publish_status_grows [OF p] publish_messages [OF p]
    by (auto simp: lost(6) update_execution_Inr blocked_row_def set_put_row)
  ultimately show ?thesis
    using o lost(1,3) by (intro exI [of _ x] exI [of _ c]) (auto simp: lost(6) blocked_row_def)
next
  case (answered x c t m content)
  note o = owned_executionD [OF answered(2)]
  have oc: "web_outcome_of outcome = Some WebCompleted"
    using answered(5,6) by (auto simp: check_web_result_def split: option.splits if_splits)
  from answered(9) show ?thesis
  proof (rule complete_execution_Inr)
    let ?s1 = "put_message (m\<lparr>cm_status := ''completed''\<rparr>) s" and ?x1 = "finished_row x t r"
    fix s2 s3 s4 e
    assume i: "insert_message (output_message E (uuid4 E (draws ?s1)) ?x1 content r) (?s1\<lparr>draws := Suc (draws ?s1)\<rparr>) = Some s2"
      and u: "update_execution ?x1 s2 = Inr s3"
      and p: "publish E (cv_id c) (cv_agent_id c) ''chat.message.completed'' ''public''
       (PDict [(KStr ''client_message_id'', client_value ?x1), (KStr ''content'', PStr content),
               (KStr ''execution_id'', PStr (uuid_str (ex_id ?x1))),
               (KStr ''message_id'', PStr (uuid_str (uuid4 E (draws ?s1)))), (KStr ''status'', PStr ''completed'')]) s3 = Inr (s4, e)"
      and x': "x' = ?x1\<lparr>ex_output_message_id := Some (uuid4 E (draws ?s1))\<rparr>" and v: "update_execution x' s4 = Inr s'"
    let ?a = "output_message E (uuid4 E (draws ?s1)) ?x1 content r"
    have s2: "get_message s2 (cm_id ?a) = Some ?a" using get_message_insert [OF i, of "cm_id ?a"] by simp
    have "chat_messages s' = chat_messages s2"
      using u v publish_frame(1) [OF p] by (simp add: update_execution_Inr)
    from get_message_cong [OF this, of "cm_id ?a"] s2 have a: "get_message s' (cm_id ?a) = Some ?a" by (rule trans)
    have "executions s4 = put_row ex_id ?x1 (executions s)"
      using u i publish_executions [OF p] by (simp add: update_execution_Inr insert_message_Some)
    moreover have "executions s' = put_row ex_id x' (executions s4)" using v by (simp add: update_execution_Inr)
    moreover have "?x1 \<in> set (put_row ex_id ?x1 (executions s))" using o by (auto simp: set_put_row)
    moreover have "ex_id x' = ex_id ?x1" by (simp add: x')
    ultimately have "x' \<in> set (executions s')" by (simp only: set_put_row [of x' ex_id x']) metis
    moreover have "\<exists>content answer. wr_output_content r = Some content \<and> ex_output_message_id x' = Some (cm_id answer) \<and>
        get_message s' (cm_id answer) = Some answer \<and> cm_content answer = content \<and> cm_role answer = ''assistant''"
      by (intro exI [of _ content] exI [of _ ?a], use a answered(7) in \<open>simp add: x' output_message_def\<close>)
    moreover have "ex_id x' = xid" "ex_lease_owner x' = None" "ex_status x' = ExCompleted"
      using o answered(5) by (simp_all add: x' finished_row_def)
    moreover have "cv_status c = ''active'' \<and> cv_control_mode c = Automated \<and> cv_control_version c = ex_control_version x \<and>
        cv_automation_agent_id c = ex_automation_agent_id x \<and> cv_automation_version c = ex_automation_version x"
      using answered(4) by (simp add: assert_execution_current_Inr)
    ultimately show ?thesis
      using o oc answered(1,3) by (intro exI [of _ x] exI [of _ c]) simp
  qed
next
  case (failed x c t m)
  note o = owned_executionD [OF failed(2)]
  have oc: "web_outcome_of outcome = Some t"
    using failed(5,6) by (auto simp: check_web_result_def split: option.splits if_splits)
  from fail_execution_Inr [OF failed(8)] obtain s1 where x': "x' = finished_row x t r"
    and u: "update_execution (finished_row x t r) (put_message (m\<lparr>cm_status := ''completed''\<rparr>) s) = Inr s1"
    and e: "executions s' = executions s1" by blast
  have "x' \<in> set (executions s')" using u o by (auto simp: x' e update_execution_Inr set_put_row)
  then show ?thesis
    using o oc failed(1,3,4,5)
    by (intro exI [of _ x] exI [of _ c], cases t)
      (auto simp: x' assert_execution_current_Inr finished_row_def)
qed

section \<open>Repeated messages\<close>

text \<open>A message is accepted once: repeating an enqueue that succeeded returns the stored execution,
  message and event, and changes nothing, so a client that retries never runs the agent twice.\<close>

theorem web_enqueue_retry:
  assumes "conversations_ok s" "gap_free 1 next_event event_numbers s" "enqueue_web E s cmd = Inr (s', q, False)"
  shows "enqueue_web E s' cmd = Inr (s', q, True)"
proof -
  obtain x m e where q: "q = (x, m, e)" by (cases q)
  with assms(3) have "enqueue_web E s cmd = Inr (s', (x, m, e), False)" by simp
  then show ?thesis
  proof (cases rule: enqueue_web_new)
    case (1 client lang available hash c)
    note c = scoped_conversationD [OF 1(2)]
    let ?c = "c\<lparr>cv_next_event_sequence := cv_next_event_sequence c + 1\<rparr>"
    have conv: "scoped_conversation s' (wc_conversation_id cmd) (wc_agent_id cmd) = Some ?c"
      using c 1(2) unfolding scoped_conversation_def 1(15) by (intro find_put_row_hit) auto
    have receipt: "web_receipt s' (cv_id ?c) client = Some x"
      using 1(4) by (simp add: web_receipt_def 1(12) find_append) (simp add: 1(9) queued_execution_def)
    have "get_conversation s (cv_id c) = Some c"
      using assms(1) 1(2) c by (auto simp: scoped_get split: option.splits if_splits)
    then have "event_numbers s (cv_id c) = [1 .. cv_next_event_sequence c - 1]"
      using assms(2) by (auto simp: gap_free_def next_event_def)
    then have "ev_sequence y < cv_next_event_sequence c" if "y \<in> set (conv_events s)" "ev_conversation_id y = cv_id c" for y
    proof -
      have "ev_sequence y \<in> set (event_numbers s (cv_id c))" using that by (simp add: event_numbers_def conv_log_def)
      with \<open>event_numbers s (cv_id c) = _\<close> show ?thesis by simp
    qed
    then have "find (\<lambda>y. ev_conversation_id y = cv_id c \<and> Some (ev_sequence y) = ex_queue_sequence x) (conv_events s) = None"
      by (force simp: find_None_iff 1(9) queued_execution_def)
    then have event: "find (\<lambda>y. ev_conversation_id y = cv_id ?c \<and> Some (ev_sequence y) = ex_queue_sequence x) (conv_events s') = Some e"
      using 1(6,7) by (simp add: 1(16) find_append) (simp add: 1(9) queued_execution_def)
    have "ex_inbound_message_id x = cm_id m" "ex_input_hash x = Some hash" by (simp_all add: 1(9) queued_execution_def)
    then have "web_duplicate s' ?c x hash = Inr (x, m, e)" using 1(14) event by (simp add: web_duplicate_def)
    then show ?thesis
      unfolding enqueue_web_def
      by (simp only: 1(1) bindE_simps prod.case web_conversation_def conv option.case receipt) (simp add: q 1(3))
  qed
qed

section \<open>Limits that disagree\<close>

lemma check_completed: "check_web_result ''completed'' r = Inr t \<Longrightarrow> t = WebCompleted"
  by (auto simp: check_web_result_def web_outcome_of_def split: option.splits if_splits)

lemma utf8_length_append [simp]: "utf8_length (a @ b) = utf8_length a + utf8_length b"
  by (simp add: utf8_length_def)

lemma utf8_length_Cons: "utf8_length (c # s) = (if codept c < 128 then 1 else 2) + utf8_length s"
  by (simp add: utf8_length_def)

lemma utf8_length_field: "(k, v) \<in> set kvs \<Longrightarrow> utf8_length (dumps asc v) \<le> utf8_length (dumps_fields asc kvs)"
  by (induction kvs) (auto simp: utf8_length_Cons)

lemma payload_too_large:
  assumes "assert_depth 1 (PDict kvs) = Inr ()" "to_json (PDict kvs) = Some (JObj obj)" "(k, JStr t) \<in> set obj"
    "32768 < utf8_length (quote False t)"
  shows "normalize_payload (PDict kvs) = Inl (InvalidEvent ''event payload is too large'')"
proof -
  have "utf8_length (quote False t) \<le> utf8_length (dumps False (JObj obj))"
    using utf8_length_field [OF assms(3), of False] by (simp add: utf8_length_Cons)
  then show ?thesis using assms(1,2,4) by (simp add: normalize_payload_def max_payload_bytes_def del: to_json.simps dumps.simps)
qed

lemma answer_too_large:
  assumes "32768 < utf8_length (quote False content)"
  shows "normalize_payload (PDict [(KStr ''client_message_id'', client_value x), (KStr ''content'', PStr content),
    (KStr ''execution_id'', PStr a), (KStr ''message_id'', PStr b), (KStr ''status'', PStr ''completed'')]) =
    Inl (InvalidEvent ''event payload is too large'')"
proof (rule payload_too_large [OF _ _ _ assms, where k = "''content''"])
  let ?p = "PDict [(KStr ''client_message_id'', client_value x), (KStr ''content'', PStr content),
    (KStr ''execution_id'', PStr a), (KStr ''message_id'', PStr b), (KStr ''status'', PStr ''completed'')]"
  let ?j = "case ex_client_message_id x of None \<Rightarrow> JNull | Some u \<Rightarrow> JStr u"
  have j: "to_json (client_value x) = Some ?j" by (simp add: client_value_def split: option.splits)
  show "assert_depth 1 ?p = Inr ()"
    by (simp add: assert_depth.simps max_payload_depth_def client_value_def split: option.splits)
  show "to_json ?p = Some (JObj [(''client_message_id'', ?j), (''content'', JStr content), (''execution_id'', JStr a),
      (''message_id'', JStr b), (''status'', JStr ''completed'')])"
    by (simp add: j sorted_items_def str_keys_def)
qed simp

text \<open>The 16000-character limit of an answer is not enough for it to be published: an answer
  whose JSON text takes more than 32768 bytes (characters outside the Latin range take three bytes or
  more, control characters six) passes the checks of \<open>record_outcome\<close>, and the publication of its
  event then refuses it with an error of the event log; where a shorter answer of the same worker is
  recorded, this one raises, the transaction is rolled back and the execution waits for its lease to
  expire.\<close>

theorem web_answer_may_exceed_event:
  assumes "record_web_outcome E xid worker_id ''completed'' r s = Inr (s', x', True)"
    "length content \<le> 16000" "strip content \<noteq> []" "32768 < utf8_length (quote False content)"
  shows "check_web_result ''completed'' (r\<lparr>wr_output_content := Some content\<rparr>) = Inr WebCompleted \<and>
    record_web_outcome E xid worker_id ''completed'' (r\<lparr>wr_output_content := Some content\<rparr>) s =
      Inl (WxEvent (InvalidEvent ''event payload is too large''))"
  using assms(1)
proof (cases rule: record_web_cases)
  case (answered x c t m old)
  let ?r = "r\<lparr>wr_output_content := Some content\<rparr>" and ?s1 = "put_message (m\<lparr>cm_status := ''completed''\<rparr>) s"
  have chk: "check_web_result ''completed'' ?r = Inr WebCompleted"
    using answered(5,6) assms(2,3) by (auto simp: check_web_result_def web_outcome_of_def split: option.splits if_splits)
  have row: "finished_row x t ?r = finished_row x t r" by (simp add: finished_row_def)
  from answered(9) have complete: "complete_execution E c (finished_row x t r) content ?r ?s1 =
      Inl (WxEvent (InvalidEvent ''event payload is too large''))"
  proof (rule complete_execution_Inr)
    fix s2 s3 s4 e
    assume i: "insert_message (output_message E (uuid4 E (draws ?s1)) (finished_row x t r) old r) (?s1\<lparr>draws := Suc (draws ?s1)\<rparr>) = Some s2"
      and u: "update_execution (finished_row x t r) s2 = Inr s3"
    let ?a = "output_message E (uuid4 E (draws ?s1)) (finished_row x t r) content ?r"
    have i': "\<exists>z. insert_message ?a (?s1\<lparr>draws := Suc (draws ?s1)\<rparr>) = Some z \<and> executions z = executions s2"
      using i by (auto simp: insert_message_Some output_message_def)
    then obtain z where z: "insert_message ?a (?s1\<lparr>draws := Suc (draws ?s1)\<rparr>) = Some z" "executions z = executions s2" by blast
    obtain y where y: "update_execution (finished_row x t r) z = Inr y"
      using u z(2) by (auto simp: update_execution_Inr)
    have "publish E (cv_id c) (cv_agent_id c) ''chat.message.completed'' ''public''
       (PDict [(KStr ''client_message_id'', client_value (finished_row x t r)), (KStr ''content'', PStr content),
               (KStr ''execution_id'', PStr (uuid_str (ex_id x))),
               (KStr ''message_id'', PStr (uuid_str (uuid4 E (draws ?s1)))), (KStr ''status'', PStr ''completed'')]) y =
       Inl (InvalidEvent ''event payload is too large'')"
      unfolding publish_def answer_too_large [OF assms(4)]
      by (simp add: event_type_pattern_def event_word_def strip_def is_space_def is_lower_def is_digit_def visibility_of_def)
    with z(1) y show ?thesis
      by (simp add: complete_execution_def fresh_def Let_def) (simp add: output_message_def)
  qed
  have wk: "web_worker worker_id = Inr (strip worker_id)"
    using assms(1) by (auto simp: record_web_outcome_def web_worker_def Let_def split: if_splits)
  have "record_web_outcome E xid worker_id ''completed'' ?r s = Inl (WxEvent (InvalidEvent ''event payload is too large''))"
    unfolding record_web_outcome_def
    by (simp only: wk bindE_simps chk answered(2) execution_conversation_def answered(3,4,8) option.case sum.case)
      (use answered(5) complete row in \<open>simp add: Let_def\<close>)
  with chk show ?thesis ..
qed (auto dest: check_completed)

text \<open>The client message of an accepted execution may have 255 characters, that of its answer is ten
  longer in a column of the same width: only shorter ones can ever be answered.\<close>

lemma answered_client_id_short:
  assumes "record_web_outcome E xid worker_id ''completed'' r s = Inr (s', x', True)"
  shows "length (client_text x') \<le> 245"
  using assms
proof (cases rule: record_web_cases)
  case (answered x c t m content)
  from answered(9) show ?thesis
    by (rule complete_execution_Inr) (auto simp: insert_message_Some output_message_def client_text_def)
qed (auto dest: check_completed)

end
