(* ===== verification/WebWitnesses.thy ===== *)
theory WebWitnesses
  imports WebAnswers
begin

text \<open>Concrete runs of the web-execution queue: a message is accepted, its execution claimed, and its
  answer recorded.\<close>

definition web_row :: conversation where
  "web_row = sample_conversation\<lparr>cv_channel := ''web'', cv_next_event_sequence := 2\<rparr>"

definition web_message :: chat_message where
  "web_message = \<lparr>cm_id = UUID 601, cm_created_at = 1, cm_conversation_id = UUID 1, cm_client_message_id = ''m1'',
     cm_role = ''user'', cm_content = ''hola'', cm_status = ''accepted'', cm_tool_names = [],
     cm_metadata = [(''locale'', JStr ''es'')]\<rparr>"

definition web_queued :: execution where
  "web_queued = \<lparr>ex_id = UUID 501, ex_created_at = 1, ex_request_id = ''r1'', ex_conversation_id = UUID 1,
     ex_inbound_message_id = UUID 601, ex_status = ExQueued, ex_control_version = 0, ex_automation_agent_id = UUID 2,
     ex_automation_version = 0, ex_client_message_id = Some ''m1'', ex_input_hash = Some (replicate 64 (CHR ''a'')),
     ex_queue_sequence = Some 1, ex_attempt_count = 0, ex_available_at = 1, ex_lease_owner = None,
     ex_lease_expires_at = None, ex_output_message_id = None, ex_tools_used = [], ex_usage = [], ex_error_code = None,
     ex_duration_ms = None\<rparr>"

definition web_store :: store where
  "web_store = sample_store\<lparr>conversations := [web_row], chat_messages := [web_message], executions := [web_queued]\<rparr>"

definition web_held_store :: store where
  "web_held_store = web_store\<lparr>executions := [running_row web_queued ''w1'' 110]\<rparr>"

lemma web_uuid_501: "uuid_str (UUID 501) = ''00000000-0000-0000-0000-0000000001f5''"
  by code_simp

lemma web_uuid_1000: "uuid_str (UUID 1000) = ''00000000-0000-0000-0000-0000000003e8''"
  by code_simp

lemma web_store_inv: "web_inv web_store"
  by (auto simp: web_inv_def queue_rows_ok_def unclashed_def execution_checks_def cursors_ok_def conversations_ok_def
      runs_once_def lanes_ok_def web_store_def web_queued_def web_row_def sample_conversation_def)

lemma web_store_ok: "conversations_ok web_store"
  using web_store_inv by (simp add: web_inv_def cursors_ok_def)

lemmas payload_eval = normalize_payload_def assert_depth.simps max_payload_depth_def sorted_items_def str_keys_def
  max_payload_bytes_def utf8_length_def quote_def escape_char_def short_escape_def

lemmas pattern_eval = event_type_pattern_def event_word_def strip_def is_space_def is_lower_def is_digit_def visibility_of_def

lemma web_status_published:
  "\<exists>s1 e. publish_execution_status sample_env web_row web_queued ''running'' None web_store = Inr (s1, e)"
proof -
  have "scoped_conversation web_store (UUID 1) (UUID 2) = Some web_row"
    by (simp add: scoped_conversation_def web_store_def web_row_def sample_conversation_def)
  then have "\<exists>s1 e. publish sample_env (UUID 1) (UUID 2) ''chat.execution.changed'' ''public''
      (PDict [(KStr ''execution_id'', PStr (uuid_str (UUID 501))), (KStr ''status'', PStr ''running'')]) web_store = Inr (s1, e)"
    by (intro publish_succeeds [where v = Public and c = web_row and
        obj = "[(''execution_id'', JStr ''00000000-0000-0000-0000-0000000001f5''), (''status'', JStr ''running'')]"])
      (simp_all add: pattern_eval payload_eval web_uuid_501)
  then show ?thesis
    by (simp add: publish_execution_status_def web_row_def web_queued_def sample_conversation_def)
qed

lemma web_claim_runs: "\<exists>s' x m. claim_next_web sample_env (\<lambda>_. False) ''w1'' 60 (Some 50) web_store = Inr (s', Some (x, m)) \<and>
    ex_queue_sequence x = Some 1 \<and> ex_conversation_id x = UUID 1"
proof -
  from web_status_published obtain s1 e where
    p: "publish_execution_status sample_env web_row web_queued ''running'' None web_store = Inr (s1, e)" by blast
  have s1: "executions s1 = [web_queued]" "chat_messages s1 = [web_message]"
    using publish_status_grows [OF p] publish_messages [OF p] by (simp_all add: web_store_def)
  have "update_execution (running_row web_queued ''w1'' 110) s1 = Inr (s1\<lparr>executions := [running_row web_queued ''w1'' 110]\<rparr>)"
    by (simp add: update_execution_Inr s1 execution_checks_def running_row_def web_queued_def put_row_def)
  then obtain s2 where start: "start_execution sample_env web_row web_queued ''w1'' 110 web_store =
      Inr (s2, running_row web_queued ''w1'' 110, web_message)"
    using p s1 by (auto simp: start_execution_def get_message_def web_queued_def web_message_def)
  have head: "eligible_execution (\<lambda>_. False) 50 web_store = Some web_queued"
    by (simp add: eligible_execution_def first_by_def web_store_def web_queued_def earlier_execution_def)
  have c: "execution_conversation web_store (ex_conversation_id web_queued) = Inr web_row"
    by (simp add: execution_conversation_def get_conversation_def web_store_def web_queued_def web_row_def sample_conversation_def)
  have f: "assert_execution_current web_row web_queued = Inr ()"
    by (simp add: assert_execution_current_Inr web_row_def web_queued_def sample_conversation_def)
  have w: "web_worker ''w1'' = Inr ''w1''" by (simp add: web_worker_def strip_def is_space_def)
  have stale: "stale_leases (\<lambda>_. False) 50 web_store = []"
    by (simp add: stale_leases_def web_store_def web_queued_def)
  have "claim_web_loop sample_env (\<lambda>_. False) ''w1'' 50 60 web_store = Inr (s2, Some (running_row web_queued ''w1'' 110, web_message))"
    by (subst claim_web_loop.simps) (simp add: head c f start)
  then show ?thesis
    by (simp add: claim_next_web_def w recover_stale_leases_def stale Let_def running_row_def) (simp add: web_queued_def)
qed

theorem web_claim_fenced_witness:
  "\<exists>s' x m. claim_next_web sample_env (\<lambda>_. False) ''w1'' 60 (Some 50) web_store = Inr (s', Some (x, m)) \<and>
     ex_lease_expires_at x = Some 110"
proof -
  from web_claim_runs obtain s' x m where
    c: "claim_next_web sample_env (\<lambda>_. False) ''w1'' 60 (Some 50) web_store = Inr (s', Some (x, m))" by blast
  with web_claim_fenced [OF web_store_ok c] show ?thesis by auto
qed


theorem web_runs_at_most_once_witness: "ex_attempt_count web_queued \<le> 1"
  using web_runs_at_most_once [OF web_store_inv rtranclp.rtrancl_refl, of web_queued]
  by (simp add: web_store_def web_queued_def)

section \<open>Recording the answer\<close>

definition web_answer :: web_result where
  "web_answer = \<lparr>wr_output_content = Some ''ok'', wr_tools_used = None, wr_usage = None, wr_safe_code = None, wr_duration_ms = Some 5\<rparr>"

lemma web_complete_runs:
  assumes s: "chat_messages s = [m]" "draws s = 0" "executions s = [y]" "conversations s = [web_row]" "conv_events s = []"
    and m: "cm_id m = UUID 601" "cm_client_message_id m = ''m1''"
    and x: "ex_id y = UUID 501" "ex_id x = UUID 501" "ex_client_message_id x = Some ''m1''" "execution_checks x"
      "execution_checks (x\<lparr>ex_output_message_id := Some (UUID 1000)\<rparr>)"
  shows "\<exists>s' x'. complete_execution sample_env web_row x ''ok'' web_answer s = Inr (s', x')"
proof -
  define t where "t = s\<lparr>draws := Suc 0\<rparr>"
  define a where "a = output_message sample_env (UUID 1000) x ''ok'' web_answer"
  have a: "cm_id a = UUID 1000" "cm_client_message_id a = ''m1:assistant''" "cm_content a = ''ok''"
    by (simp_all add: a_def output_message_def client_text_def x)
  have t: "chat_messages t = [m]" "executions t = [y]" "conversations t = [web_row]" "conv_events t = []"
    by (simp_all add: t_def s)
  define t2 where "t2 = t\<lparr>chat_messages := [m, a]\<rparr>"
  have i: "insert_message a t = Some t2"
    by (simp add: insert_message_Some t t2_def a m)
  have u: "update_execution x t2 = Inr (t2\<lparr>executions := [x]\<rparr>)"
    by (simp add: update_execution_Inr t t2_def x put_row_def)
  define t3 where "t3 = t2\<lparr>executions := [x]\<rparr>"
  have sc: "scoped_conversation t3 (UUID 1) (UUID 2) = Some web_row"
    by (simp add: scoped_conversation_def t3_def t2_def t web_row_def sample_conversation_def)
  have "\<exists>s4 e. publish sample_env (UUID 1) (UUID 2) ''chat.message.completed'' ''public''
       (PDict [(KStr ''client_message_id'', PStr ''m1''), (KStr ''content'', PStr ''ok''),
               (KStr ''execution_id'', PStr ''00000000-0000-0000-0000-0000000001f5''),
               (KStr ''message_id'', PStr ''00000000-0000-0000-0000-0000000003e8''), (KStr ''status'', PStr ''completed'')])
       t3 = Inr (s4, e)"
    by (intro publish_succeeds [where v = Public and c = web_row and
        obj = "[(''client_message_id'', JStr ''m1''), (''content'', JStr ''ok''),
          (''execution_id'', JStr ''00000000-0000-0000-0000-0000000001f5''),
          (''message_id'', JStr ''00000000-0000-0000-0000-0000000003e8''), (''status'', JStr ''completed'')]"])
      (simp_all add: pattern_eval payload_eval sc)
  then obtain s4 e where p: "publish sample_env (UUID 1) (UUID 2) ''chat.message.completed'' ''public''
       (PDict [(KStr ''client_message_id'', PStr ''m1''), (KStr ''content'', PStr ''ok''),
               (KStr ''execution_id'', PStr ''00000000-0000-0000-0000-0000000001f5''),
               (KStr ''message_id'', PStr ''00000000-0000-0000-0000-0000000003e8''), (KStr ''status'', PStr ''completed'')])
       t3 = Inr (s4, e)" by blast
  have s4: "executions s4 = [x]" using publish_executions [OF p] by (simp add: t3_def)
  have v: "\<exists>s5. update_execution (x\<lparr>ex_output_message_id := Some (UUID 1000)\<rparr>) s4 = Inr s5"
    using x(5) by (simp add: update_execution_Inr s4)
  have f: "fresh sample_env s = (UUID 1000, t)"
    by (simp add: fresh_def s t_def sample_env_def)
  have row_eqs: "cv_id web_row = UUID 1" "cv_agent_id web_row = UUID 2" "client_value x = PStr ''m1''"
    by (simp_all add: web_row_def sample_conversation_def client_value_def x)
  show ?thesis
    unfolding complete_execution_def f Let_def prod.case a_def [symmetric] i option.case u t3_def [symmetric] bindE_simps row_eqs a x(2) web_uuid_501
      web_uuid_1000 p mapErr_simps
    using v by (auto simp: bindE_simps)
qed

lemma web_record_runs: "\<exists>s' x'. record_web_outcome sample_env (UUID 501) ''w1'' ''completed'' web_answer web_held_store = Inr (s', x', True)"
proof -
  let ?x = "running_row web_queued ''w1'' 110" and ?m = "web_message\<lparr>cm_status := ''completed''\<rparr>"
  let ?x1 = "finished_row ?x WebCompleted web_answer" and ?s1 = "put_message ?m web_held_store"
  have w: "web_worker ''w1'' = Inr ''w1''" by (simp add: web_worker_def strip_def is_space_def)
  have chk: "check_web_result ''completed'' web_answer = Inr WebCompleted"
    by (simp add: check_web_result_def web_outcome_of_def web_answer_def strip_def is_space_def)
  have own: "owned_execution web_held_store (UUID 501) ''w1'' = Inr ?x"
    by (simp add: owned_execution_def web_held_store_def running_row_def web_queued_def)
  have c: "execution_conversation web_held_store (ex_conversation_id ?x) = Inr web_row"
    by (simp add: execution_conversation_def get_conversation_def web_held_store_def web_store_def web_queued_def
        running_row_def web_row_def sample_conversation_def)
  have f: "assert_execution_current web_row ?x = Inr ()"
    by (simp add: assert_execution_current_Inr web_row_def web_queued_def running_row_def sample_conversation_def)
  have m: "get_message web_held_store (ex_inbound_message_id ?x) = Some web_message"
    by (simp add: get_message_def web_held_store_def web_store_def web_queued_def running_row_def web_message_def)
  have "\<exists>s' x'. complete_execution sample_env web_row ?x1 ''ok'' web_answer ?s1 = Inr (s', x')"
    by (rule web_complete_runs [where m = ?m and y = ?x])
      (simp_all add: put_message_def put_row_def web_held_store_def web_store_def web_message_def sample_store_def empty_store_def
        execution_checks_def finished_row_def running_row_def web_queued_def)
  then show ?thesis
    by (simp only: record_web_outcome_def w bindE_simps chk own c f sum.case m option.case Let_def)
      (auto simp: web_answer_def)
qed

theorem web_answer_fenced_witness:
  "\<exists>s' x'. record_web_outcome sample_env (UUID 501) ''w1'' ''completed'' web_answer web_held_store = Inr (s', x', True) \<and>
     ex_status x' = ExCompleted"
proof -
  from web_record_runs obtain s' x' where
    r: "record_web_outcome sample_env (UUID 501) ''w1'' ''completed'' web_answer web_held_store = Inr (s', x', True)" by blast
  from web_answer_fenced [OF r] r show ?thesis by (auto simp: web_outcome_of_def)
qed

lemma strip_replicate: "\<not> is_space c \<Longrightarrow> strip (replicate n c) = replicate n c"
  by (simp add: strip_def dropWhile_replicate rev_replicate)

lemma quote_control: "utf8_length (quote False (replicate n (CHR 0x01))) = 6 * n + 2"
proof -
  have "utf8_length (escape_char False (CHR 0x01)) = 6"
    by code_simp
  then have "utf8_length (concat (map (escape_char False) (replicate n (CHR 0x01)))) = 6 * n"
    by (induction n) (auto simp: utf8_length_def)
  then show ?thesis by (simp add: quote_def utf8_length_Cons) (simp add: utf8_length_def)
qed

theorem web_answer_may_exceed_event_witness:
  "record_web_outcome sample_env (UUID 501) ''w1'' ''completed''
     (web_answer\<lparr>wr_output_content := Some (replicate 16000 (CHR 0x01))\<rparr>) web_held_store =
     Inl (WxEvent (InvalidEvent ''event payload is too large''))"
proof -
  from web_record_runs obtain s' x' where
    r: "record_web_outcome sample_env (UUID 501) ''w1'' ''completed'' web_answer web_held_store = Inr (s', x', True)" by blast
  have "strip (replicate 16000 (CHR 0x01)) = replicate 16000 (CHR 0x01)"
    by (rule strip_replicate) (simp add: is_space_def)
  then show ?thesis
    by (intro web_answer_may_exceed_event [OF r, THEN conjunct2]) (simp_all add: quote_control)
qed

section \<open>Accepting a message\<close>

definition open_store :: store where
  "open_store = sample_store\<lparr>conversations := [sample_conversation\<lparr>cv_channel := ''web'', cv_next_event_sequence := 1\<rparr>]\<rparr>"

definition open_command :: web_command where
  "open_command = \<lparr>wc_conversation_id = UUID 1, wc_agent_id = UUID 2, wc_client_message_id = ''m1'', wc_content = ''hola'',
     wc_locale = ''es'', wc_available_at = Some 1\<rparr>"

lemma web_uuid_1001: "uuid_str (UUID 1001) = ''00000000-0000-0000-0000-0000000003e9''"
  by code_simp

lemma open_store_ok: "conversations_ok open_store" "gap_free 1 next_event event_numbers open_store"
proof -
  show "conversations_ok open_store" by (simp add: open_store_def conversations_ok_def sample_conversation_def)
  have "get_conversation open_store cid = Some c \<Longrightarrow> cv_next_event_sequence c = 1" for cid c
    by (auto simp: open_store_def get_conversation_def split: if_splits)
  then show "gap_free 1 next_event event_numbers open_store"
    by (auto simp: gap_free_def next_event_def event_numbers_def conv_log_def open_store_def sample_store_def empty_store_def)
qed

lemma open_create:
  assumes c: "c = sample_conversation\<lparr>cv_channel := ''web'', cv_next_event_sequence := 1\<rparr>" and h: "length hash = 64"
  shows "\<exists>s' x m e. create_web sample_env open_store c ''m1'' ''hola'' ''es'' 1 hash = Inr (s', x, m, e)"
proof -
  define s2 where "s2 = open_store\<lparr>draws := 2\<rparr>"
  have fr: "fresh sample_env open_store = (UUID 1000, open_store\<lparr>draws := 1\<rparr>)"
    "fresh sample_env (open_store\<lparr>draws := 1\<rparr>) = (UUID 1001, s2)"
    by (simp_all add: fresh_def open_store_def sample_store_def empty_store_def sample_env_def s2_def)
  let ?p = "PDict [(KStr ''client_message_id'', PStr ''m1''), (KStr ''execution_id'', PStr ''00000000-0000-0000-0000-0000000003e9''),
      (KStr ''message_id'', PStr ''00000000-0000-0000-0000-0000000003e8''), (KStr ''status'', PStr ''accepted'')]"
  have sc: "scoped_conversation s2 (UUID 1) (UUID 2) = Some c"
    by (simp add: scoped_conversation_def s2_def open_store_def c sample_conversation_def)
  have "\<exists>s3 e. publish sample_env (UUID 1) (UUID 2) ''chat.message.accepted'' ''public'' ?p s2 = Inr (s3, e)"
    by (intro publish_succeeds [where v = Public and c = c and
        obj = "[(''client_message_id'', JStr ''m1''), (''execution_id'', JStr ''00000000-0000-0000-0000-0000000003e9''),
          (''message_id'', JStr ''00000000-0000-0000-0000-0000000003e8''), (''status'', JStr ''accepted'')]"])
      (simp_all add: pattern_eval payload_eval sc)
  then obtain s3 e where p: "publish sample_env (UUID 1) (UUID 2) ''chat.message.accepted'' ''public'' ?p s2 = Inr (s3, e)" by blast
  have s3: "executions s3 = []" "chat_messages s3 = []"
    using publish_frame(1,2) [OF p] by (simp_all add: s2_def open_store_def sample_store_def empty_store_def)
  have e: "ev_sequence e > 0"
    using p sc by (auto simp: publish_Inr Let_def c sample_conversation_def)
  have ids: "cv_id c = UUID 1" "cv_agent_id c = UUID 2" by (simp_all add: c sample_conversation_def)
  show ?thesis
    unfolding create_web_def fr Let_def prod.case ids web_uuid_1000 web_uuid_1001 p mapErr_simps bindE_simps
    using e h by (auto simp: fresh_def insert_message_def insert_execution_def s3 inbound_web_message_def queued_execution_def
        execution_checks_def c sample_conversation_def)
qed

lemma open_enqueue: "\<exists>s' q. enqueue_web sample_env open_store open_command = Inr (s', q, False)"
proof -
  define c where "c = sample_conversation\<lparr>cv_channel := ''web'', cv_next_event_sequence := 1\<rparr>"
  have prep: "prepare_web sample_env open_command = Inr (''m1'', ''es'', 1, input_hash sample_env ''hola'' ''es'')"
    by (simp add: prepare_web_def open_command_def Let_def strip_def is_space_def)
  have conv: "web_conversation open_store (UUID 1) (UUID 2) = Inr c"
    by (simp add: web_conversation_def scoped_conversation_def open_store_def c_def sample_conversation_def)
  have row: "cv_channel c = ''web''" "web_receipt open_store (cv_id c) ''m1'' = None" "assert_automation c None None None = Inr ()"
    by (simp_all add: c_def web_receipt_def open_store_def sample_store_def empty_store_def assert_automation_def sample_conversation_def)
  have cmd: "wc_conversation_id open_command = UUID 1" "wc_agent_id open_command = UUID 2" "wc_content open_command = ''hola''"
    by (simp_all add: open_command_def)
  have "length (input_hash sample_env ''hola'' ''es'') = 64"
    by (simp add: input_hash_def command_digest_def sample_env_def)
  then obtain s' x m e where k: "create_web sample_env open_store c ''m1'' ''hola'' ''es'' 1
      (input_hash sample_env ''hola'' ''es'') = Inr (s', x, m, e)"
    using open_create [OF c_def] by blast
  show ?thesis
    unfolding enqueue_web_def prep bindE_simps prod.case cmd conv row option.case k by simp
qed

theorem web_enqueue_retry_witness:
  "\<exists>s' q. enqueue_web sample_env open_store open_command = Inr (s', q, False) \<and>
     enqueue_web sample_env s' open_command = Inr (s', q, True)"
proof -
  from open_enqueue obtain s' q where r: "enqueue_web sample_env open_store open_command = Inr (s', q, False)" by blast
  with web_enqueue_retry [OF open_store_ok r] show ?thesis by blast
qed

end
