(* ===== verification/ChannelCatalog.thy ===== *)
theory ChannelCatalog
  imports Contracts Store
begin

text \<open>
  \<open>services/channel_catalog.py\<close>: the catalogue of channel adapters the code owns, their resolution,
  and the readiness of the persisted connections, projected from configuration and from the traffic
  in the message tables.
\<close>

section \<open>The adapters\<close>

record adapter_spec =
  sp_adapter_key :: string
  sp_channel :: string
  sp_implementation_status :: string
  sp_capabilities :: "string list"
  sp_credentials_required :: bool
  sp_version :: int
  sp_blocking_codes :: "string list"

definition is_implemented :: "adapter_spec \<Rightarrow> bool" where
  "is_implemented a \<longleftrightarrow> sp_implementation_status a = ''implemented''"

definition channel_adapters :: "adapter_spec list" where
  "channel_adapters =
    [\<lparr>sp_adapter_key = ''web_builtin'', sp_channel = ''web'', sp_implementation_status = ''implemented'',
      sp_capabilities = [''inbound_text'', ''outbound_text'', ''resumable_stream''], sp_credentials_required = False,
      sp_version = 1, sp_blocking_codes = []\<rparr>,
     \<lparr>sp_adapter_key = ''meta_whatsapp_cloud'', sp_channel = ''whatsapp'', sp_implementation_status = ''implemented'',
      sp_capabilities = [''inbound_text'', ''inbound_media'', ''outbound_text'', ''outbound_media'', ''delivery_receipts''],
      sp_credentials_required = True, sp_version = 1, sp_blocking_codes = []\<rparr>,
     \<lparr>sp_adapter_key = ''email'', sp_channel = ''email'', sp_implementation_status = ''planned'',
      sp_capabilities = [''inbound_text'', ''outbound_text''], sp_credentials_required = True, sp_version = 1,
      sp_blocking_codes = [''provider_required'']\<rparr>,
     \<lparr>sp_adapter_key = ''meta_instagram_graph'', sp_channel = ''instagram_dm'', sp_implementation_status = ''planned'',
      sp_capabilities = [''inbound_text'', ''outbound_text''], sp_credentials_required = True, sp_version = 1,
      sp_blocking_codes = [''blocked_external'']\<rparr>,
     \<lparr>sp_adapter_key = ''meta_messenger_graph'', sp_channel = ''facebook_messenger'',
      sp_implementation_status = ''planned'', sp_capabilities = [''inbound_text'', ''outbound_text''],
      sp_credentials_required = True, sp_version = 1, sp_blocking_codes = [''blocked_external'']\<rparr>]"

datatype catalog_error =
    CatAdapterUnknown
  | CatAdapterMismatch
  | CatAdapterNotImplemented
  | CatVersionConflict string

text \<open>The two dictionaries built from the tuple keep the last adapter of a key; the keys and the
  channels of the tuple are distinct.\<close>

definition resolve_channel_adapter :: "string \<Rightarrow> string option \<Rightarrow> catalog_error + adapter_spec" where
  "resolve_channel_adapter channel key =
     (case (case key of
              Some k \<Rightarrow> find (\<lambda>a. sp_adapter_key a = k) (rev channel_adapters)
            | None \<Rightarrow> find (\<lambda>a. sp_channel a = channel) (rev channel_adapters)) of
        None \<Rightarrow> Inl CatAdapterUnknown
      | Some a \<Rightarrow> if sp_channel a \<noteq> channel then Inl CatAdapterMismatch else Inr a)"

definition require_implemented_adapter :: "string \<Rightarrow> string option \<Rightarrow> catalog_error + adapter_spec" where
  "require_implemented_adapter channel key =
     bindE (resolve_channel_adapter channel key) (\<lambda>a.
       if \<not> is_implemented a then Inl CatAdapterNotImplemented else Inr a)"

definition require_version :: "int \<Rightarrow> int \<Rightarrow> string \<Rightarrow> catalog_error + unit" where
  "require_version current expected resource =
     (if current \<noteq> expected then Inl (CatVersionConflict (resource @ ''_version_conflict'')) else Inr ())"

lemma adapter_keys: "distinct (map sp_adapter_key channel_adapters)"
  by (simp add: channel_adapters_def)

lemma adapter_pairs: "map (\<lambda>a. (sp_channel a, sp_adapter_key a)) channel_adapters =
    [(''web'', ''web_builtin''), (''whatsapp'', ''meta_whatsapp_cloud''), (''email'', ''email''),
     (''instagram_dm'', ''meta_instagram_graph''), (''facebook_messenger'', ''meta_messenger_graph'')]"
  by (simp add: channel_adapters_def)

lemma resolve_by_key: "resolve_channel_adapter channel (Some k) = Inr a \<longleftrightarrow>
    a \<in> set channel_adapters \<and> sp_adapter_key a = k \<and> sp_channel a = channel"
proof -
  have d: "distinct (map sp_adapter_key (rev channel_adapters))"
    using adapter_keys by (simp only: rev_map [symmetric] distinct_rev)
  have "find (\<lambda>a. sp_adapter_key a = k) (rev channel_adapters) = Some a \<longleftrightarrow>
      a \<in> set channel_adapters \<and> sp_adapter_key a = k"
  proof
    assume "find (\<lambda>a. sp_adapter_key a = k) (rev channel_adapters) = Some a"
    from find_SomeD [OF this] show "a \<in> set channel_adapters \<and> sp_adapter_key a = k" by simp
  next
    assume a: "a \<in> set channel_adapters \<and> sp_adapter_key a = k"
    then have "a \<in> set (rev channel_adapters)" by simp
    from find_key [OF d this] a show "find (\<lambda>a. sp_adapter_key a = k) (rev channel_adapters) = Some a" by simp
  qed
  then show ?thesis by (auto simp only: resolve_channel_adapter_def option.case split: option.splits if_splits)
qed

lemma implemented_adapter: "require_implemented_adapter channel (Some k) = Inr a \<longleftrightarrow>
    a \<in> set channel_adapters \<and> sp_adapter_key a = k \<and> sp_channel a = channel \<and> is_implemented a"
  by (auto simp: require_implemented_adapter_def bindE_eq_Inr resolve_by_key)

text \<open>The catalogue and the database agree: the constraints of \<open>channel_connections\<close> accept
  exactly the pairs of channel and adapter that the catalogue resolves, so every stored connection has
  one adapter and every adapter can be stored.\<close>

theorem catalog_matches_database:
  "connection_checks c \<longleftrightarrow>
     cn_version c \<ge> 0 \<and> (\<exists>!a. resolve_channel_adapter (cn_channel c) (Some (cn_adapter_key c)) = Inr a)"
proof -
  have "(ch, k) \<in> set (map (\<lambda>a. (sp_channel a, sp_adapter_key a)) channel_adapters) \<longleftrightarrow>
      (\<exists>!a. resolve_channel_adapter ch (Some k) = Inr a)" for ch k
    unfolding resolve_by_key using same_key [where key = sp_adapter_key, OF adapter_keys] by auto
  then show ?thesis by (simp only: connection_checks_def adapter_pairs list.set) blast
qed

section \<open>Readiness\<close>

record readiness_report =
  rd_connection :: channel_connection
  rd_readiness :: string
  rd_adapter_implemented :: bool
  rd_settings_valid :: bool
  rd_credentials_state :: string
  rd_routing_state :: string
  rd_active_route_count :: nat
  rd_last_inbound_at :: "instant option"
  rd_last_outbound_at :: "instant option"
  rd_blocking_codes :: "string list"

text \<open>The regular expression \<open>^[0-9]{1,64}$\<close> under \<open>fullmatch\<close>.\<close>

definition meta_account_pattern :: "string \<Rightarrow> bool" where
  "meta_account_pattern t \<longleftrightarrow> 1 \<le> length t \<and> length t \<le> 64 \<and> list_all is_digit t"

definition settings_are_valid :: "channel_connection \<Rightarrow> adapter_spec \<Rightarrow> bool" where
  "settings_are_valid c a =
     (case cn_settings c of
        JObj _ \<Rightarrow>
          if sp_adapter_key a = ''meta_whatsapp_cloud''
          then (case cn_external_account_id c of None \<Rightarrow> False | Some t \<Rightarrow> t \<noteq> [] \<and> meta_account_pattern (strip t))
          else True
      | _ \<Rightarrow> False)"

definition credentials_state :: "channel_connection \<Rightarrow> adapter_spec \<Rightarrow> string" where
  "credentials_state c a =
     (if \<not> sp_credentials_required a then ''not_required''
      else if (case cn_encrypted_credentials c of None \<Rightarrow> False | Some t \<Rightarrow> t \<noteq> []) then ''stored_unverified''
      else ''missing'')"

definition routing_state :: "channel_connection \<Rightarrow> channel_route list \<Rightarrow> string" where
  "routing_state c rs =
     (if list_ex (\<lambda>r. rt_channel r \<noteq> cn_channel c \<or> rt_connection_id r \<noteq> cn_id c) rs then ''inconsistent''
      else if list_ex rt_is_active rs then ''active''
      else if rs \<noteq> [] then ''inactive''
      else ''not_configured'')"

definition configuration_codes :: "channel_connection \<Rightarrow> adapter_spec \<Rightarrow> channel_route list \<Rightarrow> string list" where
  "configuration_codes c a rs =
     sp_blocking_codes a @
     (if is_implemented a then [] else [''adapter_not_implemented'']) @
     (if cn_is_active c then [] else [''connection_disabled'']) @
     (if settings_are_valid c a then [] else [''settings_invalid'']) @
     (if credentials_state c a = ''missing'' then [''credentials_missing''] else []) @
     (if routing_state c rs = ''not_configured'' then [''route_missing'']
      else if routing_state c rs = ''inactive'' then [''route_inactive'']
      else if routing_state c rs = ''inconsistent'' then [''route_inconsistent'']
      else [])"

definition readiness_label :: "channel_connection \<Rightarrow> adapter_spec \<Rightarrow> channel_route list \<Rightarrow> bool \<Rightarrow> string" where
  "readiness_label c a rs has_traffic =
     (let blocked = (\<not> settings_are_valid c a \<or> credentials_state c a = ''missing'' \<or> routing_state c rs \<noteq> ''active'') in
      if \<not> is_implemented a then ''not_implemented''
      else if \<not> cn_is_active c then ''disabled''
      else if blocked \<and> has_traffic then ''degraded''
      else if blocked then ''configuration_required''
      else if has_traffic then ''traffic_observed''
      else ''configured_unverified'')"

text \<open>\<open>tuple(dict.fromkeys(codes))\<close> keeps the first occurrence of each code.\<close>

definition first_occurrences :: "'a list \<Rightarrow> 'a list" where
  "first_occurrences xs = rev (remdups (rev xs))"

definition connection_readiness ::
  "channel_connection \<Rightarrow> channel_route list \<Rightarrow> instant option \<Rightarrow> instant option \<Rightarrow> catalog_error + readiness_report" where
  "connection_readiness c rs inbound outbound =
     bindE (resolve_channel_adapter (cn_channel c) (Some (cn_adapter_key c))) (\<lambda>a.
     let label = readiness_label c a rs (inbound \<noteq> None \<or> outbound \<noteq> None);
         codes = configuration_codes c a rs @ (if label = ''configured_unverified'' then [''traffic_not_observed''] else [])
     in Inr \<lparr>rd_connection = c, rd_readiness = label, rd_adapter_implemented = is_implemented a,
          rd_settings_valid = settings_are_valid c a, rd_credentials_state = credentials_state c a,
          rd_routing_state = routing_state c rs, rd_active_route_count = length (filter rt_is_active rs),
          rd_last_inbound_at = inbound, rd_last_outbound_at = outbound, rd_blocking_codes = first_occurrences codes\<rparr>)"

text \<open>\<open>func.max(...)\<close> over a group: NULL for no row.\<close>

definition latest :: "instant list \<Rightarrow> instant option" where
  "latest xs = (if xs = [] then None else Some (Max (set xs)))"

definition web_inbound_evidence :: "store \<Rightarrow> uuid \<Rightarrow> instant option" where
  "web_inbound_evidence s cid =
     latest (concat (map (\<lambda>r. concat (map (\<lambda>c.
         map cm_created_at (filter (\<lambda>m. cm_conversation_id m = cv_id c \<and> cm_role m = ''user'') (chat_messages s)))
       (filter (\<lambda>c. cv_channel_route_id c = Some (rt_id r)) (conversations s))))
     (filter (\<lambda>r. rt_channel r = ''web'' \<and> rt_connection_id r = cid) (routes s))))"

definition external_inbound_evidence :: "store \<Rightarrow> uuid \<Rightarrow> instant option" where
  "external_inbound_evidence s cid =
     latest (map ij_created_at (filter (\<lambda>j. ij_connection_id j = cid) (inbound_jobs s)))"

definition settled_at :: "outbound \<Rightarrow> instant option" where
  "settled_at m = (case om_delivered_at m of Some t \<Rightarrow> Some t | None \<Rightarrow> om_accepted_at m)"

definition whatsapp_outbound_evidence :: "store \<Rightarrow> uuid \<Rightarrow> instant option" where
  "whatsapp_outbound_evidence s cid =
     latest (concat (map (\<lambda>r.
         List.map_filter (\<lambda>m. if om_channel_route_id m = rt_id r then settled_at m else None) (outbounds s))
       (filter (\<lambda>r. rt_channel r = ''whatsapp'' \<and> rt_connection_id r = cid) (routes s))))"

definition list_readiness :: "store \<Rightarrow> catalog_error + readiness_report list" where
  "list_readiness s =
     foldr (\<lambda>c rest. bindE (connection_readiness c
             (filter (\<lambda>r. rt_connection_id r = cn_id c) (routes s))
             (if cn_channel c = ''web'' then web_inbound_evidence s (cn_id c) else external_inbound_evidence s (cn_id c))
             (if cn_channel c = ''whatsapp'' then whatsapp_outbound_evidence s (cn_id c) else None)) (\<lambda>r.
           bindE rest (\<lambda>rs. Inr (r # rs))))
       (sort_key cn_name (connections s)) (Inr [])"

lemma first_occurrences_simps [simp]: "first_occurrences xs = [] \<longleftrightarrow> xs = []" "first_occurrences [x] = [x]"
  "set (first_occurrences xs) = set xs"
  by (auto simp: first_occurrences_def)

lemma implemented_unblocked: "a \<in> set channel_adapters \<Longrightarrow> sp_blocking_codes a = [] \<longleftrightarrow> is_implemented a"
  by (auto simp: channel_adapters_def is_implemented_def)

lemma configuration_codes_Nil: "a \<in> set channel_adapters \<Longrightarrow> configuration_codes c a rs = [] \<longleftrightarrow>
    is_implemented a \<and> cn_is_active c \<and> settings_are_valid c a \<and> credentials_state c a \<noteq> ''missing'' \<and>
    routing_state c rs = ''active''"
  by (auto simp: configuration_codes_def implemented_unblocked routing_state_def)

lemma configuration_code_names: "a \<in> set channel_adapters \<Longrightarrow> ''traffic_not_observed'' \<notin> set (configuration_codes c a rs)"
  by (auto simp: configuration_codes_def channel_adapters_def split: if_splits)

lemma routing_active: "routing_state c rs = ''active'' \<longleftrightarrow>
    (\<forall>r\<in>set rs. rt_channel r = cn_channel c \<and> rt_connection_id r = cn_id c) \<and> (\<exists>r\<in>set rs. rt_is_active r)"
  by (auto simp: routing_state_def list_ex_iff)

text \<open>The readiness label and the blocking codes tell the same story: nothing blocks a connection
  exactly when traffic was observed on it, the only code of a connection that is configured but
  untested is that no traffic was seen, and in both cases the connection is active, its adapter
  implemented and an active route of its channel leads to it.\<close>

theorem readiness_explained:
  assumes "connection_readiness c rs inbound outbound = Inr r"
  shows "(rd_blocking_codes r = [] \<longleftrightarrow> rd_readiness r = ''traffic_observed'') \<and>
    (rd_blocking_codes r = [''traffic_not_observed''] \<longleftrightarrow> rd_readiness r = ''configured_unverified'') \<and>
    (rd_readiness r \<in> {''traffic_observed'', ''configured_unverified''} \<longrightarrow>
       cn_is_active c \<and> rd_adapter_implemented r \<and>
       (\<exists>q\<in>set rs. rt_is_active q \<and> rt_channel q = cn_channel c \<and> rt_connection_id q = cn_id c))"
proof -
  from assms obtain a where a: "a \<in> set channel_adapters"
    and r: "rd_readiness r = readiness_label c a rs (inbound \<noteq> None \<or> outbound \<noteq> None)"
      "rd_adapter_implemented r = is_implemented a"
      "rd_blocking_codes r = first_occurrences (configuration_codes c a rs @
         (if rd_readiness r = ''configured_unverified'' then [''traffic_not_observed''] else []))"
    by (auto simp: connection_readiness_def bindE_eq_Inr resolve_by_key Let_def)
  let ?ready = "configuration_codes c a rs = []"
  have label: "rd_readiness r = ''traffic_observed'' \<longleftrightarrow> ?ready \<and> (inbound \<noteq> None \<or> outbound \<noteq> None)"
    "rd_readiness r = ''configured_unverified'' \<longleftrightarrow> ?ready \<and> \<not> (inbound \<noteq> None \<or> outbound \<noteq> None)"
    unfolding r(1) configuration_codes_Nil [OF a] by (auto simp: readiness_label_def Let_def)
  have codes: "rd_blocking_codes r = [''traffic_not_observed''] \<longleftrightarrow> rd_readiness r = ''configured_unverified''"
  proof
    assume eq: "rd_blocking_codes r = [''traffic_not_observed'']"
    then have "''traffic_not_observed'' \<in> set (rd_blocking_codes r)" by simp
    with configuration_code_names [OF a, of c rs] show "rd_readiness r = ''configured_unverified''"
      by (auto simp: r(3) split: if_splits)
  qed (use label(2) in \<open>simp add: r(3)\<close>)
  have none: "rd_blocking_codes r = [] \<longleftrightarrow> rd_readiness r = ''traffic_observed''"
    using label by (auto simp: r(3))
  show ?thesis
    using none codes label by (auto simp: r(2) configuration_codes_Nil [OF a] routing_active)
qed

theorem readiness_explained_witness:
  "\<exists>r. connection_readiness (hd (connections sample_store)) (routes sample_store) (Some 1) None = Inr r \<and>
     rd_readiness r = ''traffic_observed'' \<and> rd_blocking_codes r = []"
proof -
  let ?c = "hd (connections sample_store)"
  obtain r where r: "connection_readiness ?c (routes sample_store) (Some 1) None = Inr r"
    by (simp add: connection_readiness_def resolve_channel_adapter_def channel_adapters_def sample_store_def Let_def)
  then have "rd_readiness r = ''traffic_observed''"
    by (auto simp: connection_readiness_def resolve_channel_adapter_def channel_adapters_def sample_store_def Let_def
        readiness_label_def settings_are_valid_def meta_account_pattern_def strip_def is_space_def is_digit_def
        credentials_state_def routing_state_def is_implemented_def)
  with readiness_explained [OF r] r show ?thesis by blast
qed

end
