(* ===== verification/JsonParse.thy ===== *)
theory JsonParse
  imports Json
begin

text \<open>
  \<open>json.loads\<close> on the texts \<open>json.dumps\<close> writes: the scanner of Python's \<open>json\<close> module with its
  white space, escapes, numbers and duplicate keys (the last value wins, in the first position). A
  number with a fraction or an exponent is kept as its literal; escapes above \<open>\u00ff\<close> name code
  points that \<open>string\<close> does not represent and are refused. Reading what was written gives the value
  back.
\<close>

section \<open>Strings\<close>

definition is_json_space :: "char \<Rightarrow> bool" where
  "is_json_space c \<longleftrightarrow> codept c = 32 \<or> codept c = 9 \<or> codept c = 10 \<or> codept c = 13"

definition skip_ws :: "string \<Rightarrow> string" where
  "skip_ws = dropWhile is_json_space"

definition expect :: "char \<Rightarrow> string \<Rightarrow> string option" where
  "expect c s = (case s of [] \<Rightarrow> None | d # r \<Rightarrow> if d = c then Some r else None)"

definition hex_value :: "char \<Rightarrow> nat option" where
  "hex_value c =
     (if is_digit c then Some (codept c - 48)
      else if 97 \<le> codept c \<and> codept c \<le> 102 then Some (codept c - 87)
      else if 65 \<le> codept c \<and> codept c \<le> 70 then Some (codept c - 55)
      else None)"

fun read_hex :: "nat \<Rightarrow> nat \<Rightarrow> string \<Rightarrow> (nat \<times> string) option" where
  "read_hex 0 n s = Some (n, s)"
| "read_hex (Suc k) n [] = None"
| "read_hex (Suc k) n (c # s) = (case hex_value c of None \<Rightarrow> None | Some d \<Rightarrow> read_hex k (16 * n + d) s)"

definition short_unescape :: "char \<Rightarrow> char option" where
  "short_unescape e =
     (if e = CHR 0x22 \<or> e = CHR 0x5C \<or> e = CHR ''/'' then Some e
      else if e = CHR ''n'' then Some (char_of (10 :: nat)) else if e = CHR ''r'' then Some (char_of (13 :: nat))
      else if e = CHR ''t'' then Some (char_of (9 :: nat)) else if e = CHR ''f'' then Some (char_of (12 :: nat))
      else if e = CHR ''b'' then Some (char_of (8 :: nat)) else None)"

definition unescape :: "string \<Rightarrow> (char \<times> string) option" where
  "unescape s =
     (case s of
        [] \<Rightarrow> None
      | e # r \<Rightarrow>
          if e = CHR ''u''
          then (case read_hex 4 0 r of None \<Rightarrow> None | Some (n, r') \<Rightarrow> if n < 256 then Some (char_of n, r') else None)
          else map_option (\<lambda>c. (c, r)) (short_unescape e))"

lemma read_hex_length: "read_hex k n s = Some (m, r) \<Longrightarrow> length r \<le> length s"
  by (induction k n s arbitrary: m r rule: read_hex.induct) (auto split: option.splits intro: le_SucI)

lemma unescape_length: "unescape s = Some (c, r) \<Longrightarrow> length r < length s"
  by (auto simp: unescape_def split: list.splits if_splits option.splits dest: read_hex_length)

text \<open>The rest of a string after its opening quote; characters below a blank must be escaped.\<close>

function read_string :: "string \<Rightarrow> (string \<times> string) option" where
  "read_string [] = None"
| "read_string (c # r) =
     (if c = CHR 0x22 then Some ([], r)
      else if c = CHR 0x5C then
        (case unescape r of
           None \<Rightarrow> None
         | Some (d, r') \<Rightarrow> map_option (\<lambda>(t, q). (d # t, q)) (read_string r'))
      else if codept c < 32 then None
      else map_option (\<lambda>(t, q). (c # t, q)) (read_string r))"
  by pat_completeness auto

termination
  by (relation "measure length") (auto dest: unescape_length)

section \<open>Numbers\<close>

definition nat_of_digits :: "string \<Rightarrow> nat" where
  "nat_of_digits = foldl (\<lambda>n c. 10 * n + (codept c - 48)) 0"

text \<open>The integer part \<open>0|[1-9]\d*\<close>, and the optional parts \<open>\.\d+\<close> and \<open>[eE][-+]?\d+\<close>.\<close>

definition read_integer :: "string \<Rightarrow> (string \<times> string) option" where
  "read_integer s =
     (let ds = takeWhile is_digit s in
      if ds = [] then None
      else if hd ds = CHR ''0'' then Some (''0'', tl s)
      else Some (ds, dropWhile is_digit s))"

definition read_digits :: "string \<Rightarrow> string \<Rightarrow> (string \<times> string) option" where
  "read_digits mark s =
     (let ds = takeWhile is_digit s in if ds = [] then None else Some (mark @ ds, dropWhile is_digit s))"

definition read_fraction :: "string \<Rightarrow> string \<times> string" where
  "read_fraction s =
     (case expect (CHR ''.'') s of
        None \<Rightarrow> ([], s)
      | Some r \<Rightarrow> (case read_digits ''.'' r of None \<Rightarrow> ([], s) | Some p \<Rightarrow> p))"

definition read_exponent :: "string \<Rightarrow> string \<times> string" where
  "read_exponent s =
     (case s of
        [] \<Rightarrow> ([], s)
      | e # r \<Rightarrow>
          if e = CHR ''e'' \<or> e = CHR ''E''
          then (case (case r of
                        [] \<Rightarrow> None
                      | d # q \<Rightarrow> if d = CHR ''+'' \<or> d = CHR ''-'' then read_digits [e, d] q else read_digits [e] r) of
                  None \<Rightarrow> ([], s)
                | Some p \<Rightarrow> p)
          else ([], s))"

definition read_number :: "string \<Rightarrow> (json \<times> string) option" where
  "read_number s =
     (let (neg, t) = (case expect (CHR ''-'') s of Some r \<Rightarrow> (True, r) | None \<Rightarrow> (False, s)) in
      case read_integer t of
        None \<Rightarrow> None
      | Some (ds, r1) \<Rightarrow>
          let (fraction, r2) = read_fraction r1; (exponent, r3) = read_exponent r2 in
          if fraction = [] \<and> exponent = []
          then Some (JInt (if neg then - int (nat_of_digits ds) else int (nat_of_digits ds)), r3)
          else Some (JFloat ((if neg then ''-'' else []) @ ds @ fraction @ exponent), r3))"

section \<open>Values\<close>

definition read_literal :: "string \<Rightarrow> (json \<times> string) option" where
  "read_literal s =
     (if starts_with ''null'' s then Some (JNull, drop 4 s)
      else if starts_with ''true'' s then Some (JBool True, drop 4 s)
      else if starts_with ''false'' s then Some (JBool False, drop 5 s)
      else if starts_with ''NaN'' s then Some (JFloat ''NaN'', drop 3 s)
      else if starts_with ''Infinity'' s then Some (JFloat ''Infinity'', drop 8 s)
      else if starts_with ''-Infinity'' s then Some (JFloat ''-Infinity'', drop 9 s)
      else read_number s)"

text \<open>A dictionary from its pairs in order.\<close>

definition dict_of :: "(string \<times> json) list \<Rightarrow> (string \<times> json) list" where
  "dict_of kvs = foldl (\<lambda>d kv. dict_set (fst kv) (snd kv) d) [] kvs"

text \<open>The fuel bounds the nesting; the length of the text is enough.\<close>

fun parse_value :: "nat \<Rightarrow> string \<Rightarrow> (json \<times> string) option"
  and parse_elems :: "nat \<Rightarrow> string \<Rightarrow> (json list \<times> string) option"
  and parse_fields :: "nat \<Rightarrow> string \<Rightarrow> ((string \<times> json) list \<times> string) option" where
  "parse_value 0 s = None"
| "parse_value (Suc n) s =
     (case expect (CHR 0x22) s of
        Some r \<Rightarrow> map_option (\<lambda>(t, q). (JStr t, q)) (read_string r)
      | None \<Rightarrow>
     (case expect (CHR ''{'') s of
        Some r \<Rightarrow>
          (case expect (CHR ''}'') (skip_ws r) of
             Some q \<Rightarrow> Some (JObj [], q)
           | None \<Rightarrow> map_option (\<lambda>(kvs, q). (JObj (dict_of kvs), q)) (parse_fields n (skip_ws r)))
      | None \<Rightarrow>
     (case expect (CHR ''['') s of
        Some r \<Rightarrow>
          (case expect (CHR '']'') (skip_ws r) of
             Some q \<Rightarrow> Some (JArr [], q)
           | None \<Rightarrow> map_option (\<lambda>(vs, q). (JArr vs, q)) (parse_elems n (skip_ws r)))
      | None \<Rightarrow> read_literal s)))"
| "parse_elems 0 s = None"
| "parse_elems (Suc n) s =
     (case parse_value n s of
        None \<Rightarrow> None
      | Some (v, r) \<Rightarrow>
     (case expect (CHR '','') (skip_ws r) of
        Some q \<Rightarrow> map_option (\<lambda>(vs, p). (v # vs, p)) (parse_elems n (skip_ws q))
      | None \<Rightarrow> map_option (\<lambda>q. ([v], q)) (expect (CHR '']'') (skip_ws r))))"
| "parse_fields 0 s = None"
| "parse_fields (Suc n) s =
     (case Option.bind (expect (CHR 0x22) s) read_string of
        None \<Rightarrow> None
      | Some (k, r) \<Rightarrow>
     (case Option.bind (expect (CHR '':'') (skip_ws r)) (\<lambda>q. parse_value n (skip_ws q)) of
        None \<Rightarrow> None
      | Some (v, r1) \<Rightarrow>
     (case expect (CHR '','') (skip_ws r1) of
        Some q \<Rightarrow> map_option (\<lambda>(kvs, p). ((k, v) # kvs, p)) (parse_fields n (skip_ws q))
      | None \<Rightarrow> map_option (\<lambda>q. ([(k, v)], q)) (expect (CHR ''}'') (skip_ws r1)))))"

definition loads :: "string \<Rightarrow> json option" where
  "loads s =
     (case parse_value (Suc (length s)) (skip_ws s) of
        None \<Rightarrow> None
      | Some (v, r) \<Rightarrow> if skip_ws r = [] then Some v else None)"

section \<open>Reading back what was written\<close>

text \<open>Objects have distinct keys, as Python dictionaries do.\<close>

fun proper_json :: "json \<Rightarrow> bool" where
  "proper_json (JFloat t) = False"
| "proper_json (JArr xs) = list_all proper_json xs"
| "proper_json (JObj kvs) = (distinct (map fst kvs) \<and> list_all (\<lambda>kv. proper_json (snd kv)) kvs)"
| "proper_json _ = True"

lemma proper_float_free: "proper_json v \<Longrightarrow> float_free v"
  by (induction v rule: proper_json.induct) (auto simp: list_all_iff)

lemma expect_Cons [simp]: "expect c (d # r) = (if d = c then Some r else None)" "expect c [] = None"
  by (simp_all add: expect_def)

lemma skip_ws_Cons: "\<not> is_json_space c \<Longrightarrow> skip_ws (c # r) = c # r"
  by (simp add: skip_ws_def)

lemma hex_value_digit: "d < 16 \<Longrightarrow> hex_value (hex_digit d) = Some d"
  by (auto simp: hex_value_def is_digit_def code_hex_digit split: if_splits)

lemma read_hex_append: "read_hex k n (hex_digits k m @ r) = Some (16 ^ k * n + m mod 16 ^ k, r)"
proof (induction k arbitrary: n m r)
  case (Suc k)
  have step: "read_hex (Suc j) a (t @ [hex_digit d] @ r) = (case read_hex j a t of Some (b, []) \<Rightarrow> Some (16 * b + d, r) | _ \<Rightarrow> None)"
    if "length t = j" "d < 16" "\<forall>c\<in>set t. hex_value c \<noteq> None" for j a t d r
    using that
  proof (induction j arbitrary: a t)
    case 0
    then show ?case by (simp add: hex_value_digit)
  next
    case (Suc j)
    then obtain c u where t: "t = c # u" by (cases t) auto
    with Suc.prems obtain x where "hex_value c = Some x" by auto
    with Suc t show ?case by (auto split: option.splits)
  qed
  have digits: "\<forall>c\<in>set (hex_digits k m). hex_value c \<noteq> None" for k m
    by (induction k arbitrary: m) (auto simp: hex_value_digit)
  have "read_hex (Suc k) n (hex_digits (Suc k) m @ r) =
      (case read_hex k n (hex_digits k (m div 16)) of Some (b, []) \<Rightarrow> Some (16 * b + m mod 16, r) | _ \<Rightarrow> None)"
    using step [of "hex_digits k (m div 16)" k "m mod 16" n r] digits by simp
  also have "read_hex k n (hex_digits k (m div 16)) = Some (16 ^ k * n + m div 16 mod 16 ^ k, [])"
    using Suc [of n "m div 16" "[]"] by simp
  finally show ?case by (simp add: mod_mult2_eq algebra_simps)
qed simp

lemma short_unescape_escape: "short_escape c = Some e \<Longrightarrow> short_unescape e = Some c \<and> e \<noteq> CHR ''u''"
proof -
  assume e: "short_escape c = Some e"
  have code: "c = char_of (codept c)" by simp
  show ?thesis
    using e by (auto simp: short_escape_def short_unescape_def split: if_splits intro: code_injectD)
qed

lemma unescape_escape: "escape_char asc c = CHR 0x5C # t \<Longrightarrow> unescape (t @ r) = Some (c, r)"
proof (drule escape_special, elim disjE exE conjE)
  fix e assume "short_escape c = Some e" "t = [e]"
  then show ?thesis using short_unescape_escape [of c e] by (simp add: unescape_def)
next
  assume "t = CHR ''u'' # hex_digits 4 (codept c)"
  moreover have "codept c < 16 ^ 4" by (rule less_trans [OF code_less_256]) simp
  ultimately show ?thesis
    using read_hex_append [of 4 0 "codept c" r] code_less_256 [of c] by (simp add: unescape_def)
qed

lemma escape_plain_unescaped: "escape_char asc c = [c] \<Longrightarrow> \<not> codept c < 32"
  by (auto simp: escape_char_def split: option.splits if_splits)

lemma read_string_quote: "read_string (concat (map (escape_char asc) s) @ CHR 0x22 # r) = Some (s, r)"
proof (induction s)
  case (Cons c s)
  consider "escape_char asc c = [c]" | t where "escape_char asc c = CHR 0x5C # t" using escape_plain by blast
  then show ?case
  proof cases
    case 1
    with Cons escape_plain_char [OF 1] escape_plain_unescaped [OF 1] show ?thesis by simp
  next
    case 2
    with Cons show ?thesis by (simp add: unescape_escape [OF 2, of "concat (map (escape_char asc) s) @ CHR 0x22 # r"])
  qed
qed simp

lemma nat_of_digits_append: "nat_of_digits (ds @ [c]) = 10 * nat_of_digits ds + (codept c - 48)"
  by (simp add: nat_of_digits_def)

lemma nat_of_digits_nat_str [simp]: "nat_of_digits (nat_str n) = n"
proof (induction n rule: nat_str.induct)
  case (1 n)
  show ?case
  proof (cases "n < 10")
    case True
    then show ?thesis by (subst nat_str.simps) (simp add: nat_of_digits_def)
  next
    case False
    then show ?thesis using 1 by (subst nat_str.simps) (simp add: nat_of_digits_append)
  qed
qed

lemma nat_str_no_leading_zero: "n > 0 \<Longrightarrow> hd (nat_str n) \<noteq> CHR ''0''"
proof (induction n rule: nat_str.induct)
  case (1 n)
  show ?case
  proof (cases "n < 10")
    case True
    then have "codept (char_of (48 + n)) = 48 + n" by simp
    with 1(2) True show ?thesis by (subst nat_str.simps) (auto dest: arg_cong [of _ _ codept])
  next
    case False
    then have "n div 10 > 0" by simp
    with 1 False show ?thesis by (subst nat_str.simps) simp
  qed
qed

lemma nat_str_zero: "nat_str 0 = ''0''"
  by code_simp

lemma read_integer_nat_str: "delim r \<Longrightarrow> read_integer (nat_str n @ r) = Some (nat_str n, r)"
proof -
  assume d: "delim r"
  have tw: "takeWhile is_digit (nat_str n @ r) = nat_str n" by (rule takeWhile_nat_str [OF d])
  then have dw: "dropWhile is_digit (nat_str n @ r) = r" by (metis same_append_eq takeWhile_dropWhile_id)
  show ?thesis
  proof (cases "n = 0")
    case True
    with tw show ?thesis by (simp add: read_integer_def nat_str_zero)
  next
    case False
    with tw dw nat_str_no_leading_zero [of n] show ?thesis by (simp add: read_integer_def Let_def)
  qed
qed

lemma delim_plain: "delim r \<Longrightarrow> read_fraction r = ([], r) \<and> read_exponent r = ([], r)"
  by (cases r) (auto simp: delim_def read_fraction_def read_exponent_def)

lemma read_number_int_str: "delim r \<Longrightarrow> read_number (int_str i @ r) = Some (JInt i, r)"
proof -
  assume d: "delim r"
  note i = read_integer_nat_str [OF d] delim_plain [OF d]
  show ?thesis
  proof (cases "i < 0")
    case True
    with i show ?thesis by (simp add: int_str_def read_number_def Let_def)
  next
    case False
    obtain c t where c: "nat_str (nat i) = c # t" using nat_str_nonempty by (cases "nat_str (nat i)") auto
    then have "c \<noteq> CHR ''-''" using hd_nat_str [of "nat i"] by (auto simp: is_digit_def)
    with c have "expect (CHR ''-'') (nat_str (nat i) @ r) = None" by simp
    with False i show ?thesis by (simp add: int_str_def read_number_def Let_def)
  qed
qed

text \<open>The first character of a text decides what is read.\<close>

definition plain_start :: "char \<Rightarrow> bool" where
  "plain_start c \<longleftrightarrow> \<not> is_json_space c \<and> c \<noteq> CHR '']'' \<and> c \<noteq> CHR ''}'' \<and> c \<noteq> CHR '',''"

lemma dumps_start: "float_free v \<Longrightarrow> \<exists>c t. dumps asc v = c # t \<and> plain_start c"
proof (cases v)
  case (JInt i)
  obtain c t where c: "int_str i = c # t"
    using nat_str_nonempty by (cases "int_str i") (auto simp: int_str_def split: if_splits)
  with int_str_ConsD [of i "[]"] have "is_digit c \<or> c = CHR ''-''" by simp
  then have "plain_start c" by (auto simp: plain_start_def is_json_space_def is_digit_def)
  with c JInt show ?thesis by simp
qed (auto simp: plain_start_def is_json_space_def quote_def)

lemma skip_dumps: "float_free v \<Longrightarrow> skip_ws (dumps asc v @ r) = dumps asc v @ r"
  using dumps_start [of v asc] by (auto simp: plain_start_def skip_ws_Cons)

lemma expect_dumps: "float_free v \<Longrightarrow> c \<in> {CHR '']'', CHR ''}'', CHR '',''} \<Longrightarrow> expect c (dumps asc v @ r) = None"
  using dumps_start [of v asc] by (auto simp: plain_start_def)

lemma skip_delims [simp]: "skip_ws (CHR '','' # r) = CHR '','' # r" "skip_ws (CHR '']'' # r) = CHR '']'' # r"
  "skip_ws (CHR ''}'' # r) = CHR ''}'' # r" "skip_ws (CHR '':'' # r) = CHR '':'' # r"
  "skip_ws (CHR 0x22 # r) = CHR 0x22 # r" "skip_ws [] = []"
  by (simp_all add: skip_ws_def is_json_space_def)

lemma parse_int: "delim r \<Longrightarrow> parse_value (Suc n) (int_str i @ r) = Some (JInt i, r)"
proof -
  assume d: "delim r"
  obtain c t where c: "int_str i = c # t"
    using nat_str_nonempty by (cases "int_str i") (auto simp: int_str_def split: if_splits)
  with int_str_ConsD [of i "[]"] have start: "is_digit c \<or> c = CHR ''-''" by simp
  have other: "a \<noteq> c \<Longrightarrow> \<not> starts_with (a # p) (c # t @ r)" for a p
    by (simp add: starts_with_def)
  from start have "c \<noteq> CHR 0x22" "c \<noteq> CHR ''{''" "c \<noteq> CHR ''[''" "c \<noteq> CHR ''n''" "c \<noteq> CHR ''t''" "c \<noteq> CHR ''f''"
      "c \<noteq> CHR ''N''" "c \<noteq> CHR ''I''"
    by (auto simp: is_digit_def)
  moreover have "\<not> starts_with ''-Infinity'' (c # (t @ r))"
  proof
    assume "starts_with ''-Infinity'' (c # t @ r)"
    then have "c = CHR ''-''" by (simp add: starts_with_def)
    with c have tt: "t = nat_str (nat (- i))"
      using hd_nat_str [of "nat i"] by (auto simp: int_str_def is_digit_def split: if_splits)
    from hd_nat_str [of "nat (- i)"] nat_str_nonempty [of "nat (- i)"] obtain d u where t: "t = d # u" "is_digit d"
      unfolding tt [symmetric] by (cases t) auto
    with \<open>starts_with _ _\<close> have "d = CHR ''I''" by (simp add: starts_with_def)
    with t(2) show False by (simp add: is_digit_def)
  qed
  ultimately have "parse_value (Suc n) (c # t @ r) = read_number (c # t @ r)"
    using other [of "CHR ''n''" "''ull''"] other [of "CHR ''t''" "''rue''"] other [of "CHR ''f''" "''alse''"]
      other [of "CHR ''N''" "''aN''"] other [of "CHR ''I''" "''nfinity''"]
    by (simp add: read_literal_def)
  with read_number_int_str [OF d, of i] c show ?thesis by simp
qed

lemma dict_of_distinct: "distinct (map fst kvs) \<Longrightarrow> dict_of kvs = kvs"
proof -
  have set_new: "k \<notin> fst ` set d \<Longrightarrow> dict_set k v d = d @ [(k, v)]" for k v d
    by (induction d) auto
  have "distinct (map fst (d @ kvs)) \<Longrightarrow> foldl (\<lambda>d kv. dict_set (fst kv) (snd kv) d) d kvs = d @ kvs" for d
  proof (induction kvs arbitrary: d)
    case (Cons kv kvs)
    have "dict_set (fst kv) (snd kv) d = d @ [kv]" using Cons.prems by (subst set_new) auto
    with Cons.IH [of "d @ [kv]"] Cons.prems show ?case by simp
  qed simp
  then show "distinct (map fst kvs) \<Longrightarrow> dict_of kvs = kvs" by (simp add: dict_of_def)
qed

lemma parse_dumps:
  shows "proper_json v \<Longrightarrow> delim r \<Longrightarrow> length (dumps asc v) \<le> n \<Longrightarrow> parse_value n (dumps asc v @ r) = Some (v, r)"
    and "list_all proper_json vs \<Longrightarrow> vs \<noteq> [] \<Longrightarrow> length (dumps_elems asc vs) < n \<Longrightarrow>
      parse_elems n (dumps_elems asc vs @ CHR '']'' # r) = Some (vs, r)"
    and "list_all (\<lambda>kv. proper_json (snd kv)) kvs \<Longrightarrow> kvs \<noteq> [] \<Longrightarrow> length (dumps_fields asc kvs) < n \<Longrightarrow>
      parse_fields n (dumps_fields asc kvs @ CHR ''}'' # r) = Some (kvs, r)"
proof (induction asc v and asc vs and asc kvs arbitrary: n r and n r and n r
    rule: dumps_dumps_elems_dumps_fields.induct)
  case (1 asc)
  then show ?case by (cases n) (simp_all add: read_literal_def starts_with_def)
next
  case (2 asc b)
  then show ?case by (cases n; cases b) (simp_all add: read_literal_def starts_with_def)
next
  case (3 asc i)
  have "int_str i \<noteq> []" using nat_str_nonempty by (simp add: int_str_def)
  with 3 obtain m where "n = Suc m" by (cases n) auto
  with 3 show ?case by (simp add: parse_int del: parse_value.simps)
next
  case (5 asc s)
  then show ?case by (cases n) (simp_all add: quote_def read_string_quote)
next
  case (6 asc xs)
  then obtain m where n: "n = Suc m" by (cases n) auto
  show ?case
  proof (cases "xs = []")
    case False
    then obtain x ys where xs: "xs = x # ys" by (cases xs) auto
    with 6(2) have x: "float_free x" by (simp add: proper_float_free)
    have "skip_ws (dumps_elems asc xs @ CHR '']'' # r) = dumps_elems asc xs @ CHR '']'' # r"
      "expect (CHR '']'') (dumps_elems asc xs @ CHR '']'' # r) = None"
      by (simp_all add: xs skip_dumps [OF x] expect_dumps [OF x])
    with 6 n False show ?thesis by simp
  qed (simp add: n)
next
  case (7 asc kvs)
  then obtain m where n: "n = Suc m" by (cases n) auto
  show ?case
  proof (cases "kvs = []")
    case False
    then obtain kv ls where kvs: "kvs = kv # ls" by (cases kvs) auto
    have "skip_ws (dumps_fields asc kvs @ CHR ''}'' # r) = dumps_fields asc kvs @ CHR ''}'' # r"
      "expect (CHR ''}'') (dumps_fields asc kvs @ CHR ''}'' # r) = None"
      by (simp_all add: kvs quote_def)
    with 7 n False show ?thesis by (simp add: dict_of_distinct)
  qed (simp add: n dict_of_def)
next
  case (9 asc x xs)
  then obtain m where n: "n = Suc m" by (cases n) auto
  show ?case
  proof (cases "xs = []")
    case True
    with 9 n show ?thesis by (simp add: delim_def)
  next
    case False
    then obtain y ys where ys: "xs = y # ys" by (cases xs) auto
    with 9 have y: "float_free y" by (simp add: proper_float_free)
    have "skip_ws (dumps_elems asc xs @ CHR '']'' # r) = dumps_elems asc xs @ CHR '']'' # r"
      by (simp add: ys skip_dumps [OF y])
    with 9 n False show ?thesis by (simp add: delim_def)
  qed
next
  case (11 asc kv kvs)
  then obtain m where n: "n = Suc m" by (cases n) auto
  have v: "float_free (snd kv)" using 11 by (simp add: proper_float_free)
  have sk: "skip_ws (dumps asc (snd kv) @ q) = dumps asc (snd kv) @ q" for q by (rule skip_dumps [OF v])
  have str: "read_string (concat (map (escape_char asc) (fst kv)) @ CHR 0x22 # q) = Some (fst kv, q)" for q
    by (rule read_string_quote)
  show ?case
  proof (cases "kvs = []")
    case True
    with 11 n show ?thesis by (simp add: delim_def quote_def str sk)
  next
    case False
    then obtain y ys where ys: "kvs = y # ys" by (cases kvs) auto
    have "skip_ws (dumps_fields asc kvs @ CHR ''}'' # r) = dumps_fields asc kvs @ CHR ''}'' # r"
      by (simp add: ys quote_def)
    with 11 n False show ?thesis by (simp add: delim_def quote_def str sk)
  qed
qed simp_all

theorem loads_dumps: "proper_json v \<Longrightarrow> loads (dumps asc v) = Some v"
  using parse_dumps(1) [of v "[]" asc "Suc (length (dumps asc v))"] skip_dumps [OF proper_float_free, of v asc "[]"]
  by (simp add: loads_def delim_def)

end
