(* ===== verification/InboundPayload.thy ===== *)
theory InboundPayload
  imports JsonParse
begin

text \<open>
  The payload of an inbound job: the message envelope of \<open>schemas/inbound.py\<close>, its storage form and
  the reader of the current and the legacy form (\<open>services/inbound.py\<close>), and its protection at rest
  (\<open>services/inbound_crypto.py\<close>). Fernet, HMAC-SHA256 and the key files are parameters (\<open>crypto\<close>), and
  so is what Pydantic accepts as the text of a UUID or of a timestamp (\<open>validators\<close>).
\<close>

section \<open>The envelope\<close>

datatype content_type = CtText | CtAudio | CtImage | CtVideo | CtFile

fun content_value :: "content_type \<Rightarrow> string" where
  "content_value CtText = ''text''"
| "content_value CtAudio = ''audio''"
| "content_value CtImage = ''image''"
| "content_value CtVideo = ''video''"
| "content_value CtFile = ''file''"

definition content_type_of :: "json \<Rightarrow> content_type option" where
  "content_type_of v =
     (if v = JStr ''text'' then Some CtText else if v = JStr ''audio'' then Some CtAudio
      else if v = JStr ''image'' then Some CtImage else if v = JStr ''video'' then Some CtVideo
      else if v = JStr ''file'' then Some CtFile else None)"

record envelope =
  en_correlation_id :: uuid
  en_channel :: string
  en_route_key :: string
  en_route_id :: uuid
  en_connection_id :: uuid
  en_provider_message_id :: string
  en_thread_id :: string
  en_sender_id :: string
  en_content :: string
  en_content_type :: content_type
  en_timestamp :: instant
  en_reply_to :: "string option"
  en_media_id :: "string option"
  en_interaction_id :: "string option"

record validators =
  parse_uuid :: "json \<Rightarrow> uuid option"
  parse_datetime :: "json \<Rightarrow> datetime option"

text \<open>\<open>strip_whitespace\<close> trims Unicode white space.\<close>

definition is_white :: "char \<Rightarrow> bool" where
  "is_white c \<longleftrightarrow> (9 \<le> codept c \<and> codept c \<le> 13) \<or> codept c = 32 \<or> codept c = 133 \<or> codept c = 160"

definition trim :: "string \<Rightarrow> string" where
  "trim s = rev (dropWhile is_white (rev (dropWhile is_white s)))"

text \<open>\<open>ProviderIdentifier\<close>: trimmed, 1 to 255 characters, no control character.\<close>

definition provider_identifier :: "string \<Rightarrow> string option" where
  "provider_identifier t =
     (let u = trim t in
      if 1 \<le> length u \<and> length u \<le> 255 \<and> list_all (\<lambda>c. 32 \<le> codept c \<and> codept c \<noteq> 127) u then Some u else None)"

definition json_identifier :: "json \<Rightarrow> string option" where
  "json_identifier v = (case v of JStr t \<Rightarrow> provider_identifier t | _ \<Rightarrow> None)"

definition optional_identifier :: "json option \<Rightarrow> string option option" where
  "optional_identifier v =
     (case v of None \<Rightarrow> Some None | Some JNull \<Rightarrow> Some None | Some j \<Rightarrow> map_option Some (json_identifier j))"

text \<open>\<open>InboundReplyContext | None\<close>: a single required field, no extra ones.\<close>

definition reply_context :: "json option \<Rightarrow> string option option" where
  "reply_context v =
     (case v of
        None \<Rightarrow> Some None
      | Some JNull \<Rightarrow> Some None
      | Some (JObj [kv]) \<Rightarrow> if fst kv = ''provider_message_id'' then map_option Some (json_identifier (snd kv)) else None
      | _ \<Rightarrow> None)"

definition route_key_pattern :: "string \<Rightarrow> bool" where
  "route_key_pattern t \<longleftrightarrow> 1 \<le> length t \<and> length t \<le> 120 \<and> (is_lower (hd t) \<or> is_digit (hd t)) \<and>
     list_all (\<lambda>c. is_lower c \<or> is_digit c \<or> c \<in> set ''._:-'') (tl t)"

definition channel_pattern :: "string \<Rightarrow> bool" where
  "channel_pattern t \<longleftrightarrow> 1 \<le> length t \<and> length t \<le> 40 \<and> is_lower (hd t) \<and>
     list_all (\<lambda>c. is_lower c \<or> is_digit c \<or> c = CHR ''_'' \<or> c = CHR ''-'') (tl t)"

definition bounded_content :: "json \<Rightarrow> string option" where
  "bounded_content v = (case v of JStr t \<Rightarrow> if length t \<le> 16000 then Some t else None | _ \<Rightarrow> None)"

text \<open>The constructor \<open>InboundMessageEnvelope(...)\<close>; \<open>None\<close> is its validation error, also when an
  argument could not be read.\<close>

definition make_envelope ::
  "uuid option \<Rightarrow> string \<Rightarrow> string \<Rightarrow> uuid \<Rightarrow> uuid \<Rightarrow> string \<Rightarrow> json option \<Rightarrow> json option \<Rightarrow> json option \<Rightarrow>
     content_type option \<Rightarrow> datetime option \<Rightarrow> string option option \<Rightarrow> json option \<Rightarrow> json option \<Rightarrow> envelope option" where
  "make_envelope corr channel route_key route_id connection_id provider thread sender content ctype stamp reply media interaction =
     Option.bind corr (\<lambda>c.
     if \<not> channel_pattern channel then None else
     Option.bind (provider_identifier provider) (\<lambda>p.
     Option.bind (Option.bind thread json_identifier) (\<lambda>t.
     Option.bind (Option.bind sender json_identifier) (\<lambda>sd.
     Option.bind (Option.bind content bounded_content) (\<lambda>body.
     Option.bind ctype (\<lambda>ct.
     Option.bind (Option.bind stamp to_utc) (\<lambda>ts.
     Option.bind reply (\<lambda>r.
     Option.bind (optional_identifier media) (\<lambda>md.
     Option.bind (optional_identifier interaction) (\<lambda>ia.
       Some \<lparr>en_correlation_id = c, en_channel = channel, en_route_key = route_key, en_route_id = route_id,
         en_connection_id = connection_id, en_provider_message_id = p, en_thread_id = t, en_sender_id = sd,
         en_content = body, en_content_type = ct, en_timestamp = ts, en_reply_to = r, en_media_id = md,
         en_interaction_id = ia\<rparr>))))))))))"

section \<open>Storage form\<close>

text \<open>\<open>datetime.isoformat()\<close> of a UTC timestamp, from the microseconds since the epoch.\<close>

definition pad_left :: "nat \<Rightarrow> int \<Rightarrow> string" where
  "pad_left k n = (let t = nat_str (nat n) in replicate (k - length t) (CHR ''0'') @ t)"

definition civil_date :: "int \<Rightarrow> int \<times> int \<times> int" where
  "civil_date days =
     (let z = days + 719468; era = z div 146097; doe = z mod 146097;
          yoe = (doe - doe div 1460 + doe div 36524 - doe div 146096) div 365;
          doy = doe - (365 * yoe + yoe div 4 - yoe div 100);
          mp = (5 * doy + 2) div 153;
          d = doy - (153 * mp + 2) div 5 + 1;
          m = (if mp < 10 then mp + 3 else mp - 9);
          y = yoe + era * 400
      in (if m \<le> 2 then y + 1 else y, m, d))"

definition isoformat_utc :: "instant \<Rightarrow> string" where
  "isoformat_utc t =
     (let secs = t div 1000000; micros = t mod 1000000; sod = secs mod 86400;
          (y, m, d) = civil_date (secs div 86400)
      in pad_left 4 y @ ''-'' @ pad_left 2 m @ ''-'' @ pad_left 2 d @ ''T'' @
         pad_left 2 (sod div 3600) @ '':'' @ pad_left 2 (sod div 60 mod 60) @ '':'' @ pad_left 2 (sod mod 60) @
         (if micros = 0 then [] else ''.'' @ pad_left 6 micros) @ ''+00:00'')"

definition dump_inbound_payload :: "envelope \<Rightarrow> (string \<times> json) list" where
  "dump_inbound_payload m =
     [(''schema_version'', JStr ''1''), (''correlation_id'', uuid_json (en_correlation_id m)),
      (''channel'', JStr (en_channel m)), (''provider_thread_id'', JStr (en_thread_id m)),
      (''provider_sender_id'', JStr (en_sender_id m)), (''content'', JStr (en_content m)),
      (''content_type'', JStr (content_value (en_content_type m))),
      (''timestamp'', JStr (isoformat_utc (en_timestamp m)))] @
     (case en_reply_to m of None \<Rightarrow> []
      | Some r \<Rightarrow> [(''reply_context'', JObj [(''provider_message_id'', JStr r)])]) @
     (case en_media_id m of None \<Rightarrow> [] | Some r \<Rightarrow> [(''provider_media_id'', JStr r)]) @
     (case en_interaction_id m of None \<Rightarrow> [] | Some r \<Rightarrow> [(''interaction_id'', JStr r)])"

datatype payload_error = PayloadInvalid string | PayloadRouteInvalid

definition load_legacy ::
  "(string \<times> json) list \<Rightarrow> string \<Rightarrow> uuid \<Rightarrow> uuid \<Rightarrow> string \<Rightarrow> uuid \<Rightarrow> instant \<Rightarrow> envelope option" where
  "load_legacy p route_key route_id connection_id provider corr stamp =
     (let sender = field ''phone_number'' p; quoted = field ''quoted_id'' p in
      make_envelope (Some corr) ''whatsapp'' route_key route_id connection_id provider sender sender (field ''content'' p)
        (Option.bind (field ''input_type'' p) content_type_of) (Some (Aware stamp 0))
        (if json_truthy quoted then map_option Some (Option.bind quoted json_identifier) else Some None)
        (field ''audio_media_id'' p) (field ''interactive_id'' p))"

definition load_inbound_payload ::
  "validators \<Rightarrow> (string \<times> json) list \<Rightarrow> string \<Rightarrow> string \<Rightarrow> uuid \<Rightarrow> uuid \<Rightarrow> string \<Rightarrow> uuid \<Rightarrow> instant \<Rightarrow>
     payload_error + envelope" where
  "load_inbound_payload V p channel route_key route_id connection_id provider corr stamp =
     (if \<not> route_key_pattern route_key then Inl PayloadRouteInvalid
      else if field ''schema_version'' p = None then
        (case load_legacy p route_key route_id connection_id provider corr stamp of
           None \<Rightarrow> Inl (PayloadInvalid ''invalid inbound payload'') | Some m \<Rightarrow> Inr m)
      else if field ''schema_version'' p \<noteq> Some (JStr ''1'')
      then Inl (PayloadInvalid ''unsupported inbound payload version'')
      else if field ''channel'' p \<noteq> Some (JStr channel)
      then Inl (PayloadInvalid ''inbound payload channel does not match its route'')
      else
        (case make_envelope (Option.bind (field ''correlation_id'' p) (parse_uuid V)) channel route_key route_id connection_id
                provider (field ''provider_thread_id'' p) (field ''provider_sender_id'' p) (field ''content'' p)
                (Option.bind (field ''content_type'' p) content_type_of)
                (Option.bind (field ''timestamp'' p) (parse_datetime V))
                (reply_context (field ''reply_context'' p)) (field ''provider_media_id'' p) (field ''interaction_id'' p) of
           None \<Rightarrow> Inl (PayloadInvalid ''invalid inbound payload'') | Some m \<Rightarrow> Inr m))"

section \<open>Protection at rest\<close>

text \<open>The key files are their bytes (\<open>None\<close> is an \<open>OSError\<close>); \<open>fernet_decrypt\<close> returns \<open>None\<close> for an
  invalid token.\<close>

record crypto =
  encryption_key_file :: "string option"
  lookup_key_file :: "string option"
  fernet_key_ok :: "string \<Rightarrow> bool"
  fernet_encrypt :: "string \<Rightarrow> string \<Rightarrow> string"
  fernet_decrypt :: "string \<Rightarrow> string \<Rightarrow> string option"
  hmac_sha256 :: "string \<Rightarrow> string \<Rightarrow> string"

definition is_byte_space :: "char \<Rightarrow> bool" where
  "is_byte_space c \<longleftrightarrow> (9 \<le> codept c \<and> codept c \<le> 13) \<or> codept c = 32"

definition read_key :: "string option \<Rightarrow> string + string" where
  "read_key file =
     (case file of
        None \<Rightarrow> Inl ''inbound data key is unavailable''
      | Some bytes \<Rightarrow>
          let key = rev (dropWhile is_byte_space (rev (dropWhile is_byte_space bytes))) in
          if key = [] then Inl ''inbound data key is empty'' else Inr key)"

definition fernet_key :: "crypto \<Rightarrow> string + string" where
  "fernet_key C =
     bindE (read_key (encryption_key_file C)) (\<lambda>key.
       if fernet_key_ok C key then Inr key else Inl ''contact encryption key is invalid'')"

definition keyed_digest :: "crypto \<Rightarrow> string \<Rightarrow> string \<Rightarrow> string + string" where
  "keyed_digest C namespace text =
     bindE (read_key (lookup_key_file C)) (\<lambda>key.
     bindE (read_key (encryption_key_file C)) (\<lambda>encryption_key.
       if length key < 32 then Inl ''contact lookup HMAC key is too short''
       else if key = encryption_key then Inl ''inbound encryption and HMAC keys must differ''
       else Inr (hmac_sha256 C key (namespace @ [CHR 0x00] @ text))))"

definition protect :: "crypto \<Rightarrow> (string \<times> json) list \<Rightarrow> string + (string \<times> string)" where
  "protect C payload =
     (let text = canonical False payload in
      bindE (fernet_key C) (\<lambda>key.
      bindE (keyed_digest C ''payload-integrity'' text) (\<lambda>hash. Inr (fernet_encrypt C key text, hash))))"

definition reveal :: "crypto \<Rightarrow> string \<Rightarrow> string \<Rightarrow> string + (string \<times> json) list" where
  "reveal C ciphertext hash =
     bindE (fernet_key C) (\<lambda>key.
     case fernet_decrypt C key ciphertext of
       None \<Rightarrow> Inl ''inbound payload could not be decrypted''
     | Some text \<Rightarrow>
         bindE (keyed_digest C ''payload-integrity'' text) (\<lambda>expected.
           if expected \<noteq> hash then Inl ''inbound payload integrity check failed''
           else case loads text of
             None \<Rightarrow> Inl ''inbound payload is not valid JSON''
           | Some (JObj kvs) \<Rightarrow> Inr kvs
           | Some _ \<Rightarrow> Inl ''inbound payload must be a JSON object''))"

definition thread_key :: "crypto \<Rightarrow> string \<Rightarrow> string \<Rightarrow> string \<Rightarrow> string + string" where
  "thread_key C channel route_id thread_id =
     keyed_digest C ''thread-fifo'' (channel @ [CHR 0x00] @ route_id @ [CHR 0x00] @ thread_id)"

section \<open>What is stored can be read back\<close>

definition optional_ok :: "string option \<Rightarrow> bool" where
  "optional_ok v = (case v of None \<Rightarrow> True | Some t \<Rightarrow> provider_identifier t = Some t)"

definition envelope_ok :: "envelope \<Rightarrow> bool" where
  "envelope_ok m \<longleftrightarrow> channel_pattern (en_channel m) \<and> route_key_pattern (en_route_key m) \<and>
     provider_identifier (en_provider_message_id m) = Some (en_provider_message_id m) \<and>
     provider_identifier (en_thread_id m) = Some (en_thread_id m) \<and>
     provider_identifier (en_sender_id m) = Some (en_sender_id m) \<and> length (en_content m) \<le> 16000 \<and>
     optional_ok (en_reply_to m) \<and> optional_ok (en_media_id m) \<and> optional_ok (en_interaction_id m)"

lemma dropWhile_both_idem:
  fixes s :: "'a list" and P :: "'a \<Rightarrow> bool"
  defines "t \<equiv> rev (dropWhile P (rev (dropWhile P s)))"
  shows "rev (dropWhile P (rev (dropWhile P t))) = t"
proof -
  let ?a = "dropWhile P s"
  have "?a = [] \<or> \<not> P (hd ?a)" by (cases ?a) (auto dest: dropWhile_hd_False)
  then have "t = [] \<or> \<not> P (hd t)" unfolding t_def by (rule hd_dropWhile_rev)
  then have "dropWhile P t = t" by (rule dropWhile_id)
  moreover have "dropWhile P (rev t) = rev t" by (simp add: t_def dropWhile_idem)
  ultimately show ?thesis by simp
qed

lemma trim_idem [simp]: "trim (trim s) = trim s"
  unfolding trim_def by (rule dropWhile_both_idem)

lemma provider_identifier_idem: "provider_identifier t = Some u \<Longrightarrow> provider_identifier u = Some u"
  by (auto simp: provider_identifier_def Let_def split: if_splits)

lemma json_identifier_idem: "json_identifier v = Some u \<Longrightarrow> provider_identifier u = Some u"
  by (auto simp: json_identifier_def split: json.splits dest: provider_identifier_idem)

lemma optional_identifier_ok: "optional_identifier v = Some u \<Longrightarrow> optional_ok u"
  by (auto simp: optional_identifier_def optional_ok_def split: option.splits json.splits dest: json_identifier_idem)

lemma reply_context_ok: "reply_context v = Some u \<Longrightarrow> optional_ok u"
  by (auto simp: reply_context_def optional_ok_def split: option.splits json.splits list.splits if_splits
      dest: json_identifier_idem)

lemma bounded_content_length: "bounded_content v = Some t \<Longrightarrow> length t \<le> 16000"
  by (auto simp: bounded_content_def split: json.splits if_splits)

lemma make_envelope_ok:
  assumes "make_envelope corr channel rk rid cid provider thread sender content ctype stamp reply media interaction = Some m"
    "route_key_pattern rk" "\<And>r. reply = Some r \<Longrightarrow> optional_ok r"
  shows "envelope_ok m \<and> en_channel m = channel \<and> en_route_key m = rk \<and> en_route_id m = rid \<and> en_connection_id m = cid \<and>
    provider_identifier provider = Some (en_provider_message_id m)"
  using assms
  by (auto simp: make_envelope_def envelope_ok_def bind_eq_Some_conv split: if_splits
      dest: bounded_content_length provider_identifier_idem json_identifier_idem optional_identifier_ok)

text \<open>C35: whatever bytes were stored, current or legacy, a payload that is accepted becomes a well-formed
  envelope of the route the job was authenticated for: trimmed identifiers without control characters,
  bounded content, and the route, connection and provider message id of the job's own columns.\<close>

theorem loaded_envelope_ok:
  assumes "load_inbound_payload V p channel rk rid cid provider corr stamp = Inr m"
  shows "envelope_ok m \<and> en_route_key m = rk \<and> en_route_id m = rid \<and> en_connection_id m = cid \<and>
    provider_identifier provider = Some (en_provider_message_id m) \<and> en_channel m \<in> {channel, ''whatsapp''}"
proof -
  have legacy: "optional_ok r"
    if "(if json_truthy q then map_option Some (Option.bind q json_identifier) else Some None) = Some r" for q r
    using that by (auto simp: optional_ok_def bind_eq_Some_conv split: if_splits dest: json_identifier_idem)
  from assms have rk: "route_key_pattern rk" by (auto simp: load_inbound_payload_def split: if_splits)
  from assms consider "load_legacy p rk rid cid provider corr stamp = Some m"
    | corr' thread sender content ctype ts media ia where "make_envelope corr' channel rk rid cid provider thread sender content
        ctype ts (reply_context (field ''reply_context'' p)) media ia = Some m"
    by (auto simp: load_inbound_payload_def split: if_splits option.splits)
  then show ?thesis
  proof cases
    case 1
    note m = make_envelope_ok [OF 1 [unfolded load_legacy_def Let_def] rk legacy]
    show ?thesis using m by simp
  next
    case 2
    show ?thesis using make_envelope_ok [OF 2 rk reply_context_ok] by simp
  qed
qed

lemma map_of_sorted: "distinct (map fst kvs) \<Longrightarrow> map_of (sort_key fst kvs) = map_of kvs"
  by (rule map_of_eqI) (auto simp: map_of_eq_Some_iff distinct_map distinct_sort intro: inj_on_subset)

lemma dump_keys: "distinct (map fst (dump_inbound_payload m))"
  by (auto simp: dump_inbound_payload_def split: option.splits)

lemma dump_proper: "proper_json (JObj (sort_key fst (dump_inbound_payload m)))"
  using dump_keys [of m]
  by (auto simp: dump_inbound_payload_def uuid_json_def list_all_iff distinct_map distinct_sort split: option.splits)

lemma content_type_of_value [simp]: "content_type_of (JStr (content_value t)) = Some t"
  by (cases t) (simp_all add: content_type_of_def)

lemma load_dump:
  assumes "envelope_ok m" "parse_uuid V (uuid_json (en_correlation_id m)) = Some (en_correlation_id m)"
    "parse_datetime V (JStr (isoformat_utc (en_timestamp m))) = Some (Aware (en_timestamp m) 0)"
    "map_of p = map_of (dump_inbound_payload m)"
  shows "load_inbound_payload V p (en_channel m) (en_route_key m) (en_route_id m) (en_connection_id m)
    (en_provider_message_id m) corr stamp = Inr m"
  using assms(1-3) unfolding load_inbound_payload_def field_def assms(4)
  by (cases m) (auto simp: envelope_ok_def optional_ok_def dump_inbound_payload_def make_envelope_def bounded_content_def
      json_identifier_def optional_identifier_def reply_context_def to_utc_def split: option.splits)

lemma reveal_protect:
  assumes "protect C p = Inr (text, hash)" "proper_json (JObj (sort_key fst p))"
    "\<And>k t. fernet_key_ok C k \<Longrightarrow> fernet_decrypt C k (fernet_encrypt C k t) = Some t"
  shows "reveal C text hash = Inr (sort_key fst p)"
proof -
  from assms(1) obtain key where key: "fernet_key C = Inr key" and cipher: "text = fernet_encrypt C key (canonical False p)"
    and hash: "keyed_digest C ''payload-integrity'' (canonical False p) = Inr hash"
    by (auto simp: protect_def Let_def bindE_eq_Inr)
  from key have "fernet_key_ok C key" by (auto simp: fernet_key_def bindE_eq_Inr split: if_splits)
  with key hash loads_dumps [OF assms(2), of False] show ?thesis
    by (simp add: reveal_def cipher assms(3) canonical_def)
qed

text \<open>C33: an accepted message survives its storage: a well-formed envelope that was serialised,
  encrypted and fingerprinted when it arrived is the envelope the worker reads when it opens the job
  (given that Fernet decrypts what it encrypted and Pydantic reads back the UUID and the timestamp).\<close>

theorem payload_roundtrip:
  assumes "protect C (dump_inbound_payload m) = Inr (text, hash)" "envelope_ok m"
    "\<And>k t. fernet_key_ok C k \<Longrightarrow> fernet_decrypt C k (fernet_encrypt C k t) = Some t"
    "parse_uuid V (uuid_json (en_correlation_id m)) = Some (en_correlation_id m)"
    "parse_datetime V (JStr (isoformat_utc (en_timestamp m))) = Some (Aware (en_timestamp m) 0)"
  shows "\<exists>p. reveal C text hash = Inr p \<and>
    load_inbound_payload V p (en_channel m) (en_route_key m) (en_route_id m) (en_connection_id m)
      (en_provider_message_id m) corr stamp = Inr m"
  using reveal_protect [OF assms(1) dump_proper assms(3)]
    load_dump [OF assms(2,4,5) map_of_sorted [OF dump_keys]] by blast

section \<open>Concrete payloads\<close>

definition sample_envelope :: envelope where
  "sample_envelope = \<lparr>en_correlation_id = UUID 7, en_channel = ''whatsapp'', en_route_key = ''main'', en_route_id = UUID 4,
     en_connection_id = UUID 5, en_provider_message_id = ''wamid.1'', en_thread_id = ''5989'', en_sender_id = ''5989'',
     en_content = ''hola'', en_content_type = CtText, en_timestamp = 0, en_reply_to = Some ''wamid.0'', en_media_id = None,
     en_interaction_id = None\<rparr>"

definition sample_crypto :: crypto where
  "sample_crypto = \<lparr>encryption_key_file = Some ''k'', lookup_key_file = Some (replicate 32 (CHR ''h'')),
     fernet_key_ok = (\<lambda>_. True), fernet_encrypt = (\<lambda>_ t. t), fernet_decrypt = (\<lambda>_ t. Some t),
     hmac_sha256 = (\<lambda>_ _. replicate 64 (CHR ''a''))\<rparr>"

definition sample_validators :: validators where
  "sample_validators = \<lparr>parse_uuid = (\<lambda>v. if v = uuid_json (UUID 7) then Some (UUID 7) else None),
     parse_datetime = (\<lambda>v. if v = JStr (isoformat_utc 0) then Some (Aware 0 0) else None)\<rparr>"

lemmas identifier_eval = provider_identifier_def trim_def is_white_def Let_def

lemma sample_envelope_ok: "envelope_ok sample_envelope"
  by (simp add: envelope_ok_def sample_envelope_def channel_pattern_def route_key_pattern_def is_lower_def is_digit_def
      optional_ok_def identifier_eval)

lemma sample_digest: "keyed_digest sample_crypto namespace t = Inr (replicate 64 (CHR ''a''))"
proof -
  have "read_key (Some (replicate 32 (CHR ''h''))) = Inr (replicate 32 (CHR ''h''))" "read_key (Some ''k'') = Inr ''k''"
    by (simp_all add: read_key_def is_byte_space_def dropWhile_replicate rev_replicate Let_def)
  moreover have "replicate 32 (CHR ''h'') \<noteq> ''k''" by (auto dest: arg_cong [of _ _ length])
  ultimately show ?thesis by (simp add: keyed_digest_def sample_crypto_def)
qed

lemma sample_fernet: "fernet_key sample_crypto = Inr ''k''"
  by (simp add: fernet_key_def sample_crypto_def read_key_def is_byte_space_def)

lemma sample_protect: "protect sample_crypto p = Inr (canonical False p, replicate 64 (CHR ''a''))"
  by (simp add: protect_def sample_digest sample_fernet Let_def) (simp add: sample_crypto_def)

theorem payload_roundtrip_witness:
  "\<exists>p. reveal sample_crypto (canonical False (dump_inbound_payload sample_envelope)) (replicate 64 (CHR ''a'')) = Inr p \<and>
     load_inbound_payload sample_validators p ''whatsapp'' ''main'' (UUID 4) (UUID 5) ''wamid.1'' (UUID 1) 0 = Inr sample_envelope"
  using payload_roundtrip [OF sample_protect sample_envelope_ok, of sample_validators "UUID 1" 0]
  by (simp add: sample_crypto_def sample_validators_def sample_envelope_def)

definition legacy_payload :: "(string \<times> json) list" where
  "legacy_payload = [(''phone_number'', JStr '' 5989 ''), (''content'', JStr ''hola''), (''input_type'', JStr ''text'')]"

theorem loaded_envelope_ok_witness:
  "\<exists>m. load_inbound_payload sample_validators legacy_payload ''whatsapp'' ''main'' (UUID 4) (UUID 5) ''wamid.1'' (UUID 1) 0 = Inr m \<and>
     envelope_ok m \<and> en_thread_id m = ''5989''"
proof -
  have "route_key_pattern ''main''" by (simp add: route_key_pattern_def is_lower_def is_digit_def)
  then obtain m where m: "load_inbound_payload sample_validators legacy_payload ''whatsapp'' ''main'' (UUID 4) (UUID 5)
      ''wamid.1'' (UUID 1) 0 = Inr m" and t: "en_thread_id m = ''5989''"
    by (simp add: load_inbound_payload_def legacy_payload_def field_def load_legacy_def make_envelope_def channel_pattern_def
        is_lower_def json_identifier_def identifier_eval bounded_content_def content_type_of_def to_utc_def json_truthy_def
        optional_identifier_def)
  from loaded_envelope_ok [OF m] m t show ?thesis by blast
qed

end
