(* ===== verification/ChannelInbound.thy ===== *)
theory ChannelInbound
  imports InboundPayload ChannelCatalog
begin

text \<open>
  \<open>services/channel_inbound.py\<close>: the durable ingress of external channels. An authenticated batch is
  stored in one transaction, one job per provider message; a worker claims the first job of a thread
  under a lease, records every phase before its external effect and closes the job; a job whose lease
  expired, whose conversation changed hands or whose processing failed waits for a human.
\<close>

section \<open>Failures\<close>

datatype inbound_failure =
    IfValue string
  | IfUnavailable string
  | IfOwnership
  | IfCrypto string
  | IfRuntime string
  | IfPayload payload_error
  | IfCatalog catalog_error
  | IfIntegrity
  | IfOther string

text \<open>\<open>type(exc).__name__\<close>; \<open>IfOther\<close> is any other exception by its name.\<close>

fun failure_name :: "inbound_failure \<Rightarrow> string" where
  "failure_name (IfValue _) = ''ValueError''"
| "failure_name (IfUnavailable _) = ''ChannelInboundUnavailable''"
| "failure_name IfOwnership = ''ChannelInboundOwnershipLost''"
| "failure_name (IfCrypto _) = ''InboundCryptoError''"
| "failure_name (IfRuntime _) = ''AgentRuntimeUnavailable''"
| "failure_name (IfPayload (PayloadInvalid _)) = ''InboundPayloadError''"
| "failure_name (IfPayload PayloadRouteInvalid) = ''ValidationError''"
| "failure_name (IfCatalog CatAdapterNotImplemented) = ''ChannelAdapterUnavailable''"
| "failure_name (IfCatalog (CatVersionConflict _)) = ''ChannelVersionConflict''"
| "failure_name (IfCatalog _) = ''ChannelCatalogError''"
| "failure_name IfIntegrity = ''IntegrityError''"
| "failure_name (IfOther name) = name"

definition safe_error_code :: "inbound_failure \<Rightarrow> string" where
  "safe_error_code e =
     (case e of
        IfRuntime _ \<Rightarrow> ''route_snapshot_changed''
      | IfCrypto _ \<Rightarrow> ''payload_unavailable''
      | _ \<Rightarrow> take 80 (''processing_'' @ failure_name e))"

section \<open>Rows and receipts\<close>

definition external_channel :: "string \<Rightarrow> bool" where
  "external_channel ch \<longleftrightarrow> ch \<in> {''whatsapp'', ''email'', ''instagram_dm'', ''facebook_messenger''}"

definition inbound_blocking :: "inbound_status \<Rightarrow> bool" where
  "inbound_blocking st \<longleftrightarrow> st \<in> {InQueued, InProcessing, InReviewRequired}"

definition zero_effect :: "inbound_phase \<Rightarrow> bool" where
  "zero_effect p \<longleftrightarrow> p \<in> {PhAccepted, PhLegacyQuarantined, PhClaimed, PhInboundRecorded}"

definition inbound_terminal :: "inbound_status \<Rightarrow> bool" where
  "inbound_terminal st \<longleftrightarrow> st \<in> {InCompleted, InRoutedToHuman, InIgnored, InCancelled}"

text \<open>\<open>build_channel_inbound_event\<close>.\<close>

definition build_inbound_event ::
  "env \<Rightarrow> uuid \<Rightarrow> inbound_job \<Rightarrow> inbound_event_type \<Rightarrow> inbound_status option \<Rightarrow> inbound_actor \<Rightarrow> uuid option \<Rightarrow>
     string option \<Rightarrow> string option \<Rightarrow> string option \<Rightarrow> inbound_event" where
  "build_inbound_event E eid j ty from_status actor admin key hash corr =
     \<lparr>ie_id = eid, ie_job_id = ij_id j, ie_event_type = ty, ie_from_status = from_status, ie_to_status = ij_status j,
      ie_state_version = ij_state_version j, ie_phase = ij_phase j, ie_actor_type = actor, ie_actor_admin_id = admin,
      ie_safe_code = ij_safe_code j, ie_correlation_id = corr, ie_idempotency_key = key, ie_command_hash = hash,
      ie_channel = ij_channel j, ie_adapter_key = ij_adapter_key j, ie_adapter_version = ij_adapter_version j,
      ie_route_id = ij_route_id j, ie_route_version = ij_route_version j, ie_connection_id = ij_connection_id j,
      ie_connection_version = ij_connection_version j, ie_routing_agent_id = ij_routing_agent_id j,
      ie_conversation_id = ij_conversation_id j, ie_control_version = ij_control_version j,
      ie_automation_agent_id = ij_automation_agent_id j, ie_automation_version = ij_automation_version j,
      ie_created_at = tx_now E\<rparr>"

text \<open>The constraints of \<open>channel_inbound_events\<close>: one receipt per job and version, one per job and
  idempotency key.\<close>

definition event_clash :: "inbound_event \<Rightarrow> inbound_event \<Rightarrow> bool" where
  "event_clash e x \<longleftrightarrow> ie_id x = ie_id e \<or>
     (ie_job_id x = ie_job_id e \<and>
        (ie_state_version x = ie_state_version e \<or>
         (ie_idempotency_key e \<noteq> None \<and> ie_idempotency_key x = ie_idempotency_key e)))"

definition insert_inbound_event :: "inbound_event \<Rightarrow> store \<Rightarrow> inbound_failure + store" where
  "insert_inbound_event e s =
     (if \<not> inbound_event_checks e \<or> list_ex (event_clash e) (inbound_events s) then Inl IfIntegrity
      else Inr (s\<lparr>inbound_events := inbound_events s @ [e]\<rparr>))"

definition update_inbound_job :: "inbound_job \<Rightarrow> store \<Rightarrow> inbound_failure + store" where
  "update_inbound_job j s =
     (if \<not> inbound_job_checks j then Inl IfIntegrity
      else Inr (s\<lparr>inbound_jobs := put_row ij_id j (inbound_jobs s)\<rparr>))"

text \<open>A changed job and its receipt, flushed together.\<close>

definition save_transition ::
  "env \<Rightarrow> inbound_job \<Rightarrow> inbound_event_type \<Rightarrow> inbound_status option \<Rightarrow> inbound_actor \<Rightarrow> store \<Rightarrow> inbound_failure + store" where
  "save_transition E j ty from_status actor s =
     bindE (update_inbound_job j s) (\<lambda>s1.
     let (eid, s2) = fresh E s1 in
     insert_inbound_event (build_inbound_event E eid j ty from_status actor None None None None) s2)"

section \<open>Accepting a batch\<close>

definition message_matches_route :: "envelope \<Rightarrow> channel_route \<Rightarrow> channel_connection \<Rightarrow> bool" where
  "message_matches_route m r n \<longleftrightarrow> en_channel m = rt_channel r \<and> en_route_key m = rt_route_key r \<and>
     en_route_id m = rt_id r \<and> en_connection_id m = cn_id n"

definition inbound_row ::
  "env \<Rightarrow> uuid \<Rightarrow> envelope \<Rightarrow> channel_route \<Rightarrow> channel_connection \<Rightarrow> adapter_spec \<Rightarrow> string \<Rightarrow> string \<Rightarrow> string \<Rightarrow> inbound_job" where
  "inbound_row E jid m r n a ciphertext hash thread =
     \<lparr>ij_id = jid, ij_created_at = tx_now E, ij_channel = rt_channel r, ij_adapter_key = sp_adapter_key a,
      ij_adapter_version = sp_version a, ij_route_id = rt_id r, ij_route_version = rt_version r,
      ij_route_key_snapshot = rt_route_key r, ij_connection_id = cn_id n, ij_connection_version = cn_version n,
      ij_routing_agent_id = rt_agent_id r, ij_provider_message_id = en_provider_message_id m, ij_thread_key = Some thread,
      ij_payload_ciphertext = Some ciphertext, ij_payload_hash = Some hash, ij_legacy_payload = None,
      ij_status = InQueued, ij_phase = PhAccepted, ij_state_version = 0, ij_attempts = 0, ij_lease_owner = None,
      ij_lease_expires_at = None, ij_safe_code = None, ij_conversation_id = None, ij_control_version = None,
      ij_automation_agent_id = None, ij_automation_version = None, ij_terminal_at = None, ij_legacy_max_attempts = 1\<rparr>"

fun batch_rows ::
  "env \<Rightarrow> crypto \<Rightarrow> channel_route \<Rightarrow> channel_connection \<Rightarrow> adapter_spec \<Rightarrow> envelope list \<Rightarrow> store \<Rightarrow>
     inbound_failure + (inbound_job list \<times> store)" where
  "batch_rows E C r n a [] s = Inr ([], s)"
| "batch_rows E C r n a (m # ms) s =
     (if \<not> message_matches_route m r n
      then Inl (IfValue ''inbound message does not match its authenticated route'')
      else
      bindE (mapErr (\<lambda>_. IfUnavailable ''authenticated channel batch could not be protected'')
               (protect C (dump_inbound_payload m))) (\<lambda>(ciphertext, hash).
      let (jid, s1) = fresh E s in
      bindE (mapErr IfCrypto (thread_key C (rt_channel r) (uuid_str (rt_id r)) (en_thread_id m))) (\<lambda>thread.
      bindE (batch_rows E C r n a ms s1) (\<lambda>(rows, s2).
        Inr (inbound_row E jid m r n a ciphertext hash thread # rows, s2)))))"

text \<open>\<open>INSERT ... ON CONFLICT (channel_route_id, provider_message_id) DO NOTHING RETURNING id\<close>.\<close>

definition same_delivery :: "inbound_job \<Rightarrow> inbound_job \<Rightarrow> bool" where
  "same_delivery j x \<longleftrightarrow> ij_route_id x = ij_route_id j \<and> ij_provider_message_id x = ij_provider_message_id j"

fun insert_jobs :: "inbound_job list \<Rightarrow> store \<Rightarrow> (uuid list \<times> store) option" where
  "insert_jobs [] s = Some ([], s)"
| "insert_jobs (j # js) s =
     (if \<not> inbound_job_checks j then None
      else if list_ex (same_delivery j) (inbound_jobs s) then insert_jobs js s
      else if list_ex (\<lambda>x. ij_id x = ij_id j) (inbound_jobs s) then None
      else map_option (\<lambda>(ids, s'). (ij_id j # ids, s')) (insert_jobs js (s\<lparr>inbound_jobs := inbound_jobs s @ [j]\<rparr>)))"

text \<open>\<open>_event_from_snapshot\<close> for each inserted row.\<close>

fun accept_events :: "env \<Rightarrow> uuid list \<Rightarrow> inbound_job list \<Rightarrow> store \<Rightarrow> inbound_failure + store" where
  "accept_events E ids [] s = Inr s"
| "accept_events E ids (j # js) s =
     (if ij_id j \<in> set ids then
        let (eid, s1) = fresh E s in
        bindE (insert_inbound_event (build_inbound_event E eid j IeAccepted None InSystem None None None None) s1)
          (accept_events E ids js)
      else accept_events E ids js s)"

text \<open>The transaction: rows, receipts, commit.\<close>

definition persist_batch :: "env \<Rightarrow> inbound_job list \<Rightarrow> store \<Rightarrow> inbound_failure + (store \<times> uuid list \<times> nat)" where
  "persist_batch E rows s =
     (case insert_jobs rows s of
        None \<Rightarrow> Inl (IfUnavailable ''authenticated channel batch could not be persisted'')
      | Some (ids, s1) \<Rightarrow>
          (case accept_events E ids rows s1 of
             Inl _ \<Rightarrow> Inl (IfUnavailable ''authenticated channel batch could not be persisted'')
           | Inr s2 \<Rightarrow> Inr (s2, ids, length rows - length ids)))"

definition enqueue_batch ::
  "env \<Rightarrow> crypto \<Rightarrow> envelope list \<Rightarrow> channel_route \<Rightarrow> channel_connection \<Rightarrow> adapter_spec \<Rightarrow> store \<Rightarrow>
     inbound_failure + (store \<times> uuid list \<times> nat)" where
  "enqueue_batch E C messages r n a s =
     (if messages = [] then Inr (s, [], 0)
      else if rt_channel r = ''web'' \<or> \<not> external_channel (rt_channel r)
      then Inl (IfValue ''durable external ingress does not accept web chat'')
      else if \<not> is_implemented a \<or> sp_channel a \<noteq> rt_channel r
      then Inl (IfValue ''channel adapter is not executable'')
      else if rt_connection_id r \<noteq> cn_id n \<or> cn_channel n \<noteq> rt_channel r \<or> cn_adapter_key n \<noteq> sp_adapter_key a
      then Inl (IfValue ''channel route snapshot is inconsistent'')
      else bindE (batch_rows E C r n a messages s) (\<lambda>(rows, s1). persist_batch E rows s1))"

section \<open>Claiming\<close>

text \<open>\<open>_transition\<close>.\<close>

definition transitioned_job ::
  "env \<Rightarrow> inbound_job \<Rightarrow> inbound_status \<Rightarrow> inbound_phase \<Rightarrow> string option \<Rightarrow> inbound_job" where
  "transitioned_job E j st ph code =
     (let j1 = j\<lparr>ij_status := st, ij_phase := ph, ij_state_version := ij_state_version j + 1, ij_safe_code := code,
                 ij_lease_owner := None, ij_lease_expires_at := None\<rparr>
      in if inbound_terminal st
         then j1\<lparr>ij_payload_ciphertext := None, ij_payload_hash := None, ij_legacy_payload := None,
                 ij_terminal_at := Some (clock E)\<rparr>
         else j1)"

definition transition_job ::
  "env \<Rightarrow> inbound_job \<Rightarrow> inbound_status \<Rightarrow> inbound_phase \<Rightarrow> inbound_event_type \<Rightarrow> string option \<Rightarrow> inbound_actor \<Rightarrow> store \<Rightarrow>
     inbound_failure + store" where
  "transition_job E j st ph ty code actor s =
     save_transition E (transitioned_job E j st ph code) ty (Some (ij_status j)) actor s"

definition expired_job :: "(uuid \<Rightarrow> bool) \<Rightarrow> instant \<Rightarrow> store \<Rightarrow> inbound_job option" where
  "expired_job locked now s =
     first_by (\<lambda>j. the (ij_lease_expires_at j))
       (filter (\<lambda>j. ij_status j = InProcessing \<and> (case ij_lease_expires_at j of None \<Rightarrow> False | Some t \<Rightarrow> t < now) \<and>
            \<not> locked (ij_id j)) (inbound_jobs s))"

text \<open>\<open>has_earlier_blocker\<close>.\<close>

definition earlier_blocker :: "inbound_job \<Rightarrow> inbound_job \<Rightarrow> bool" where
  "earlier_blocker e j \<longleftrightarrow> ij_thread_key e \<noteq> None \<and> ij_thread_key e = ij_thread_key j \<and> inbound_blocking (ij_status e) \<and>
     (ij_created_at e < ij_created_at j \<or> (ij_created_at e = ij_created_at j \<and> ij_id e < ij_id j))"

definition claimable_job :: "(uuid \<Rightarrow> bool) \<Rightarrow> store \<Rightarrow> inbound_job option" where
  "claimable_job locked s =
     first_by (\<lambda>j. (ij_created_at j, ij_id j))
       (filter (\<lambda>j. ij_status j = InQueued \<and> ij_thread_key j \<noteq> None \<and>
            \<not> list_ex (\<lambda>e. earlier_blocker e j) (inbound_jobs s) \<and> \<not> locked (ij_id j)) (inbound_jobs s))"

definition claimed_job :: "inbound_job \<Rightarrow> string \<Rightarrow> instant \<Rightarrow> inbound_job" where
  "claimed_job j worker expires =
     j\<lparr>ij_status := InProcessing, ij_phase := PhClaimed, ij_state_version := ij_state_version j + 1,
       ij_attempts := ij_attempts j + 1, ij_lease_owner := Some worker, ij_lease_expires_at := Some expires,
       ij_safe_code := None\<rparr>"

text \<open>\<open>_claim_job\<close>: an expired lease is settled first, and nothing is claimed in that turn.\<close>

definition claim_job ::
  "env \<Rightarrow> (uuid \<Rightarrow> bool) \<Rightarrow> string \<Rightarrow> instant \<Rightarrow> store \<Rightarrow> inbound_failure + (store \<times> uuid option)" where
  "claim_job E locked worker lease s =
     (case expired_job locked (clock E) s of
        Some j \<Rightarrow>
          bindE (transition_job E j InReviewRequired (ij_phase j) IeReviewRequired (Some ''lease_expired'') InSystem s)
            (\<lambda>s1. Inr (s1, None))
      | None \<Rightarrow>
          (case claimable_job locked s of
             None \<Rightarrow> Inr (s, None)
           | Some j \<Rightarrow>
               bindE (save_transition E (claimed_job j worker (clock E + lease)) IeClaimed (Some InQueued) InWorker s)
                 (\<lambda>s1. Inr (s1, Some (ij_id j)))))"

section \<open>The phases of an execution\<close>

definition owned_job :: "store \<Rightarrow> uuid \<Rightarrow> string \<Rightarrow> inbound_failure + inbound_job" where
  "owned_job s jid worker =
     (case find (\<lambda>j. ij_id j = jid \<and> ij_status j = InProcessing \<and> ij_lease_owner j = Some worker) (inbound_jobs s) of
        None \<Rightarrow> Inl IfOwnership | Some j \<Rightarrow> Inr j)"

definition bind_conversation :: "(uuid \<times> int \<times> uuid \<times> int) option \<Rightarrow> inbound_job \<Rightarrow> inbound_job" where
  "bind_conversation b j =
     (case b of
        None \<Rightarrow> j
      | Some (conversation, control, agent, automation) \<Rightarrow>
          j\<lparr>ij_conversation_id := Some conversation, ij_control_version := Some control,
            ij_automation_agent_id := Some agent, ij_automation_version := Some automation\<rparr>)"

text \<open>\<open>_advance\<close>.\<close>

definition advance_phase ::
  "env \<Rightarrow> uuid \<Rightarrow> string \<Rightarrow> inbound_phase \<Rightarrow> (uuid \<times> int \<times> uuid \<times> int) option \<Rightarrow> store \<Rightarrow> inbound_failure + store" where
  "advance_phase E jid worker ph b s =
     bindE (owned_job s jid worker) (\<lambda>j.
       save_transition E ((bind_conversation b j)\<lparr>ij_phase := ph, ij_state_version := ij_state_version j + 1\<rparr>)
         IePhaseAdvanced (Some (ij_status j)) InWorker s)"

definition inbound_recorded ::
  "env \<Rightarrow> uuid \<Rightarrow> string \<Rightarrow> uuid \<Rightarrow> int \<Rightarrow> uuid \<Rightarrow> int \<Rightarrow> store \<Rightarrow> inbound_failure + store" where
  "inbound_recorded E jid worker conversation control agent automation s =
     advance_phase E jid worker PhInboundRecorded (Some (conversation, control, agent, automation)) s"

definition before_external_effect :: "env \<Rightarrow> uuid \<Rightarrow> string \<Rightarrow> inbound_phase \<Rightarrow> store \<Rightarrow> inbound_failure + store" where
  "before_external_effect E jid worker ph s =
     (if ph \<notin> {PhProviderEffect, PhTranscription, PhAgentEffect, PhOutboxEffect}
      then Inl (IfValue ''unsupported inbound lifecycle phase'')
      else advance_phase E jid worker ph None s)"

section \<open>Opening and closing a job\<close>

definition route_snapshot_current :: "inbound_job \<Rightarrow> channel_route \<Rightarrow> channel_connection \<Rightarrow> adapter_spec \<Rightarrow> bool" where
  "route_snapshot_current j r n a \<longleftrightarrow>
     rt_channel r = ij_channel j \<and> rt_version r = ij_route_version j \<and> rt_route_key r = ij_route_key_snapshot j \<and>
     rt_connection_id r = ij_connection_id j \<and> rt_agent_id r = ij_routing_agent_id j \<and> rt_is_active r \<and>
     cn_channel n = ij_channel j \<and> cn_version n = ij_connection_version j \<and> cn_adapter_key n = ij_adapter_key j \<and>
     cn_is_active n \<and> sp_version a = ij_adapter_version j"

text \<open>\<open>_process_job\<close> up to the message it hands to the pipeline.\<close>

definition open_job :: "crypto \<Rightarrow> validators \<Rightarrow> store \<Rightarrow> uuid \<Rightarrow> string \<Rightarrow> inbound_failure + (inbound_job \<times> envelope)" where
  "open_job C V s jid worker =
     bindE (owned_job s jid worker) (\<lambda>j.
     case (find (\<lambda>r. rt_id r = ij_route_id j) (routes s), find (\<lambda>n. cn_id n = ij_connection_id j) (connections s)) of
       (Some r, Some n) \<Rightarrow>
         bindE (mapErr IfCatalog (require_implemented_adapter (ij_channel j) (Some (ij_adapter_key j)))) (\<lambda>a.
         if \<not> route_snapshot_current j r n a then Inl (IfRuntime ''channel route snapshot changed'')
         else if ij_channel j \<noteq> ''whatsapp'' then Inl (IfRuntime ''channel adapter execution is unavailable'')
         else if ij_legacy_payload j \<noteq> None then Inl (IfCrypto ''legacy inbound payload remains quarantined'')
         else
           (case (ij_payload_ciphertext j, ij_payload_hash j) of
              (Some c, Some h) \<Rightarrow>
                if c = [] \<or> h = [] then Inl (IfCrypto ''encrypted inbound payload is unavailable'')
                else
                  bindE (mapErr IfCrypto (reveal C c h)) (\<lambda>p.
                  bindE (mapErr IfPayload (load_inbound_payload V p (ij_channel j) (ij_route_key_snapshot j) (ij_route_id j)
                     (ij_connection_id j) (ij_provider_message_id j) (ij_id j) (ij_created_at j))) (\<lambda>m. Inr (j, m)))
            | _ \<Rightarrow> Inl (IfCrypto ''encrypted inbound payload is unavailable'')))
     | _ \<Rightarrow> Inl IfOwnership)"

text \<open>\<open>_execution_epoch_is_current\<close>.\<close>

definition epoch_current :: "store \<Rightarrow> uuid \<Rightarrow> bool" where
  "epoch_current s jid =
     (case find (\<lambda>j. ij_id j = jid) (inbound_jobs s) of
        None \<Rightarrow> False
      | Some j \<Rightarrow>
          (case Option.bind (ij_conversation_id j) (get_conversation s) of
             None \<Rightarrow> ij_phase j = PhAccepted \<or> ij_phase j = PhClaimed
           | Some c \<Rightarrow> cv_control_mode c = Automated \<and> Some (cv_control_version c) = ij_control_version j \<and>
               Some (cv_automation_agent_id c) = ij_automation_agent_id j \<and>
               Some (cv_automation_version c) = ij_automation_version j))"

definition current_phase :: "store \<Rightarrow> uuid \<Rightarrow> inbound_phase" where
  "current_phase s jid =
     (case find (\<lambda>j. ij_id j = jid) (inbound_jobs s) of None \<Rightarrow> PhAccepted | Some j \<Rightarrow> ij_phase j)"

definition transition_owned ::
  "env \<Rightarrow> uuid \<Rightarrow> string \<Rightarrow> inbound_status \<Rightarrow> inbound_event_type \<Rightarrow> string option \<Rightarrow> store \<Rightarrow> inbound_failure + store" where
  "transition_owned E jid worker st ty code s =
     bindE (owned_job s jid worker) (\<lambda>j.
       transition_job E j st (if inbound_terminal st then PhTerminal else ij_phase j) ty code InWorker s)"

text \<open>How the processing of a claimed job ended: it returned, the automation no longer owns the
  conversation, or it raised.\<close>

datatype process_result = ProcDone | ProcBlocked | ProcRaised inbound_failure

definition send_to_review :: "env \<Rightarrow> uuid \<Rightarrow> string \<Rightarrow> string \<Rightarrow> store \<Rightarrow> inbound_failure + store" where
  "send_to_review E jid worker code s = transition_owned E jid worker InReviewRequired IeReviewRequired (Some code) s"

definition finish_job :: "env \<Rightarrow> uuid \<Rightarrow> string \<Rightarrow> process_result \<Rightarrow> store \<Rightarrow> inbound_failure + store" where
  "finish_job E jid worker result s =
     (case result of
        ProcDone \<Rightarrow>
          (case (if \<not> epoch_current s jid then send_to_review E jid worker ''conversation_epoch_changed'' s
                 else transition_owned E jid worker InCompleted IeCompleted None s) of
             Inr s1 \<Rightarrow> Inr s1
           | Inl e \<Rightarrow> send_to_review E jid worker (safe_error_code e) s)
      | ProcBlocked \<Rightarrow>
          if zero_effect (current_phase s jid)
          then transition_owned E jid worker InRoutedToHuman IeRoutedToHuman (Some ''automation_not_owner'') s
          else send_to_review E jid worker ''ownership_changed_after_effect'' s
      | ProcRaised e \<Rightarrow> send_to_review E jid worker (safe_error_code e) s)"

text \<open>\<open>run_once\<close>; \<open>process\<close> is the runtime resolution and the message pipeline, which work on the
  store between the claim and the end of the job.\<close>

definition run_once ::
  "env \<Rightarrow> crypto \<Rightarrow> validators \<Rightarrow> (uuid \<Rightarrow> bool) \<Rightarrow> string \<Rightarrow> instant \<Rightarrow>
     (inbound_job \<Rightarrow> envelope \<Rightarrow> store \<Rightarrow> store \<times> process_result) \<Rightarrow> store \<Rightarrow> inbound_failure + (store \<times> bool)" where
  "run_once E C V locked worker lease process s =
     bindE (claim_job E locked worker lease s) (\<lambda>(s1, claimed).
     case claimed of
       None \<Rightarrow> Inr (s1, False)
     | Some jid \<Rightarrow>
         let (s2, result) = (case open_job C V s1 jid worker of Inl e \<Rightarrow> (s1, ProcRaised e) | Inr (j, m) \<Rightarrow> process j m s1) in
         bindE (finish_job E jid worker result s2) (\<lambda>s3. Inr (s3, True)))"

end
