(* ===== verification/InboundReview.thy ===== *)
theory InboundReview
  imports ChannelInbound
begin

text \<open>
  \<open>services/channel_inbound_review.py\<close>: what an operator can do with a job of the external ingress. A
  job under review may be queued again while no external effect has started, cancelled or
  acknowledged; every command names the version it acted on and is filed under its idempotency key in
  the receipts of the job.
\<close>

datatype review_error =
    RvNotFound
  | RvVersion
  | RvIdempotency
  | RvInvalid string
  | RvPayload payload_error
  | RvCrypto string
  | RvIntegrity

datatype review_action = ActRequeue | ActCancel | ActAcknowledge

fun review_action_value :: "review_action \<Rightarrow> string" where
  "review_action_value ActRequeue = ''requeue''"
| "review_action_value ActCancel = ''cancel''"
| "review_action_value ActAcknowledge = ''acknowledge''"

record review_command =
  rc_agent_id :: uuid
  rc_job_id :: uuid
  rc_admin_id :: uuid
  rc_expected_version :: int
  rc_correlation_id :: string
  rc_idempotency_key :: string

definition requeue_phase :: "inbound_phase \<Rightarrow> bool" where
  "requeue_phase p \<longleftrightarrow> p \<in> {PhAccepted, PhLegacyQuarantined, PhClaimed}"

definition review_literal :: "review_action \<Rightarrow> int \<Rightarrow> uuid \<Rightarrow> (string \<times> json) list" where
  "review_literal a version jid =
     [(''action'', JStr (review_action_value a)), (''expected_version'', JInt version), (''job_id'', uuid_json jid)]"

definition review_hash :: "env \<Rightarrow> review_action \<Rightarrow> int \<Rightarrow> uuid \<Rightarrow> string" where
  "review_hash E a version jid = command_digest E True (review_literal a version jid)"

text \<open>\<open>_get\<close>, and the row \<open>_command_context\<close> locks.\<close>

definition scoped_job :: "store \<Rightarrow> uuid \<Rightarrow> uuid \<Rightarrow> inbound_job option" where
  "scoped_job s aid jid = find (\<lambda>j. ij_id j = jid \<and> ij_routing_agent_id j = aid) (inbound_jobs s)"

definition get_job :: "store \<Rightarrow> uuid \<Rightarrow> uuid \<Rightarrow> review_error + inbound_job" where
  "get_job s aid jid = (case scoped_job s aid jid of None \<Rightarrow> Inl RvNotFound | Some j \<Rightarrow> Inr j)"

definition job_timeline :: "store \<Rightarrow> uuid \<Rightarrow> uuid \<Rightarrow> review_error + inbound_event list" where
  "job_timeline s aid jid =
     bindE (get_job s aid jid) (\<lambda>_.
       Inr (sort_key (\<lambda>e. (ie_state_version e, ie_created_at e)) (filter (\<lambda>e. ie_job_id e = jid) (inbound_events s))))"

definition job_receipt :: "store \<Rightarrow> uuid \<Rightarrow> string \<Rightarrow> inbound_event option" where
  "job_receipt s jid key = find (\<lambda>e. ie_job_id e = jid \<and> ie_idempotency_key e = Some key) (inbound_events s)"

text \<open>\<open>_command_context\<close>: the job and whether the command was already applied.\<close>

definition command_context :: "env \<Rightarrow> review_action \<Rightarrow> review_command \<Rightarrow> store \<Rightarrow> review_error + (inbound_job \<times> bool)" where
  "command_context E a cmd s =
     (let key = strip (rc_idempotency_key cmd); corr = strip (rc_correlation_id cmd) in
      if key = [] \<or> corr = [] then Inl (RvInvalid ''idempotency and correlation identifiers are required'')
      else case scoped_job s (rc_agent_id cmd) (rc_job_id cmd) of
        None \<Rightarrow> Inl RvNotFound
      | Some j \<Rightarrow>
          (case job_receipt s (ij_id j) key of
             Some e \<Rightarrow>
               if ie_command_hash e \<noteq> Some (review_hash E a (rc_expected_version cmd) (rc_job_id cmd)) then Inl RvIdempotency
               else Inr (j, True)
           | None \<Rightarrow> if ij_state_version j \<noteq> rc_expected_version cmd then Inl RvVersion else Inr (j, False)))"

text \<open>\<open>_apply_command\<close>: the decided job and its receipt.\<close>

definition decided_job :: "env \<Rightarrow> inbound_job \<Rightarrow> inbound_status \<Rightarrow> inbound_phase \<Rightarrow> string option \<Rightarrow> inbound_job" where
  "decided_job E j st ph code =
     (let j1 = j\<lparr>ij_status := st, ij_phase := ph, ij_safe_code := code, ij_state_version := ij_state_version j + 1,
                 ij_lease_owner := None, ij_lease_expires_at := None\<rparr>
      in if st = InCancelled \<or> st = InIgnored then j1\<lparr>ij_terminal_at := Some (clock E)\<rparr> else j1)"

definition apply_command ::
  "env \<Rightarrow> review_action \<Rightarrow> review_command \<Rightarrow> inbound_job \<Rightarrow> inbound_status \<Rightarrow> inbound_phase \<Rightarrow> inbound_event_type \<Rightarrow>
     string option \<Rightarrow> store \<Rightarrow> review_error + (store \<times> inbound_job)" where
  "apply_command E a cmd j st ph ty code s =
     (let j1 = decided_job E j st ph code in
      bindE (mapErr (\<lambda>_. RvIntegrity) (update_inbound_job j1 s)) (\<lambda>s1.
      let (eid, s2) = fresh E s1 in
      bindE (mapErr (\<lambda>_. RvIntegrity) (insert_inbound_event
               (build_inbound_event E eid j1 ty (Some (ij_status j)) InOperator (Some (rc_admin_id cmd))
                  (Some (strip (rc_idempotency_key cmd)))
                  (Some (review_hash E a (ij_state_version j1 - 1) (ij_id j)))
                  (Some (strip (rc_correlation_id cmd)))) s2)) (\<lambda>s3. Inr (s3, j1))))"

text \<open>The legacy payload of a quarantined job, a JSON object, is converted when the job is queued again.\<close>

definition converted_job :: "crypto \<Rightarrow> validators \<Rightarrow> inbound_job \<Rightarrow> review_error + inbound_job" where
  "converted_job C V j =
     (case ij_legacy_payload j of
        None \<Rightarrow> Inr j
      | Some payload \<Rightarrow>
          let p = (case payload of JObj kvs \<Rightarrow> kvs | _ \<Rightarrow> []) in
          bindE (mapErr RvPayload (load_inbound_payload V p (ij_channel j) (ij_route_key_snapshot j) (ij_route_id j)
                   (ij_connection_id j) (ij_provider_message_id j) (ij_id j) (ij_created_at j))) (\<lambda>m.
          bindE (mapErr RvCrypto (protect C (dump_inbound_payload m))) (\<lambda>(ciphertext, hash).
          bindE (mapErr RvCrypto (thread_key C (ij_channel j) (uuid_str (ij_route_id j)) (en_thread_id m))) (\<lambda>thread.
            Inr (j\<lparr>ij_payload_ciphertext := Some ciphertext, ij_payload_hash := Some hash, ij_thread_key := Some thread,
                   ij_legacy_payload := None\<rparr>)))))"

definition present :: "string option \<Rightarrow> bool" where
  "present v = (case v of None \<Rightarrow> False | Some t \<Rightarrow> t \<noteq> [])"

definition requeue_job ::
  "env \<Rightarrow> crypto \<Rightarrow> validators \<Rightarrow> review_command \<Rightarrow> store \<Rightarrow> review_error + (store \<times> inbound_job)" where
  "requeue_job E C V cmd s =
     bindE (command_context E ActRequeue cmd s) (\<lambda>(j, replayed).
     if replayed then Inr (s, j)
     else if ij_status j \<noteq> InReviewRequired \<or> \<not> requeue_phase (ij_phase j)
     then Inl (RvInvalid ''inbound job cannot be requeued after an external effect'')
     else
       bindE (converted_job C V j) (\<lambda>j1.
       if \<not> present (ij_payload_ciphertext j1) \<or> \<not> present (ij_payload_hash j1) \<or> \<not> present (ij_thread_key j1)
       then Inl (RvInvalid ''inbound payload cannot be made executable'')
       else apply_command E ActRequeue cmd j1 InQueued PhAccepted IeRequeued None s))"

text \<open>\<open>_terminal_command\<close>; the payload is erased after the receipt is written.\<close>

definition terminal_command ::
  "env \<Rightarrow> review_action \<Rightarrow> inbound_status \<Rightarrow> inbound_event_type \<Rightarrow> inbound_status set \<Rightarrow> review_command \<Rightarrow> store \<Rightarrow>
     review_error + (store \<times> inbound_job)" where
  "terminal_command E a st ty allowed cmd s =
     bindE (command_context E a cmd s) (\<lambda>(j, replayed).
     if replayed then Inr (s, j)
     else if ij_status j \<notin> allowed
     then Inl (RvInvalid (''inbound job cannot be resolved with '' @ review_action_value a))
     else
       bindE (apply_command E a cmd j st PhTerminal ty (Some (review_action_value a)) s) (\<lambda>(s1, j1).
       let j2 = j1\<lparr>ij_payload_ciphertext := None, ij_payload_hash := None, ij_legacy_payload := None\<rparr> in
       bindE (mapErr (\<lambda>_. RvIntegrity) (update_inbound_job j2 s1)) (\<lambda>s2. Inr (s2, j2))))"

definition cancel_job :: "env \<Rightarrow> review_command \<Rightarrow> store \<Rightarrow> review_error + (store \<times> inbound_job)" where
  "cancel_job E cmd s = terminal_command E ActCancel InCancelled IeCancelled {InQueued, InReviewRequired} cmd s"

definition acknowledge_job :: "env \<Rightarrow> review_command \<Rightarrow> store \<Rightarrow> review_error + (store \<times> inbound_job)" where
  "acknowledge_job E cmd s = terminal_command E ActAcknowledge InIgnored IeAcknowledged {InReviewRequired} cmd s"

text \<open>The three commands behind one signature.\<close>

definition review_job ::
  "env \<Rightarrow> crypto \<Rightarrow> validators \<Rightarrow> review_action \<Rightarrow> review_command \<Rightarrow> store \<Rightarrow> review_error + (store \<times> inbound_job)" where
  "review_job E C V a cmd s =
     (case a of
        ActRequeue \<Rightarrow> requeue_job E C V cmd s
      | ActCancel \<Rightarrow> cancel_job E cmd s
      | ActAcknowledge \<Rightarrow> acknowledge_job E cmd s)"

end
