(* ===== verification/InboundQueue.thy ===== *)
theory InboundQueue
  imports InboundReview
begin

text \<open>
  What the ingress of external channels promises. \<open>inbound_step\<close> says how a job and its receipts may
  move; every operation of the workers, of their lifecycle recorder and of the operators is a sequence
  of its steps. Under any interleaving the jobs of a thread run one at a time and in order, a job that
  may have had an external effect is never handed out again, its receipts are a gap-free history, and
  a closed job keeps no payload.
\<close>

section \<open>The ingress as a state machine\<close>

type_synonym inbound_tables = "inbound_job list \<times> inbound_event list"

definition tables :: "store \<Rightarrow> inbound_tables" where
  "tables s = (inbound_jobs s, inbound_events s)"

definition job_pos :: "inbound_job \<Rightarrow> instant \<times> uuid" where
  "job_pos j = (ij_created_at j, ij_id j)"

definition job_open :: "inbound_job \<Rightarrow> bool" where
  "job_open j \<longleftrightarrow> ij_thread_key j \<noteq> None \<and> inbound_blocking (ij_status j)"

definition job_active :: "inbound_job \<Rightarrow> bool" where
  "job_active j \<longleftrightarrow> ij_thread_key j \<noteq> None \<and> ij_status j = InProcessing"

text \<open>The columns that never change after a message is accepted.\<close>

definition delivery_part :: "inbound_job \<Rightarrow> inbound_job" where
  "delivery_part j = j\<lparr>ij_payload_ciphertext := None, ij_payload_hash := None, ij_legacy_payload := None,
     ij_status := InQueued, ij_phase := PhAccepted, ij_state_version := 0, ij_attempts := 0, ij_lease_owner := None,
     ij_lease_expires_at := None, ij_safe_code := None, ij_conversation_id := None, ij_control_version := None,
     ij_automation_agent_id := None, ij_automation_version := None, ij_terminal_at := None\<rparr>"

definition job_closed :: "inbound_job \<Rightarrow> bool" where
  "job_closed j \<longleftrightarrow> ij_phase j = PhTerminal \<and> ij_payload_ciphertext j = None \<and> ij_payload_hash j = None \<and>
     ij_legacy_payload j = None"

definition inbound_edge :: "inbound_job \<Rightarrow> inbound_job \<Rightarrow> bool" where
  "inbound_edge j j' \<longleftrightarrow>
     (case ij_status j of
        InQueued \<Rightarrow>
          (ij_status j' = InProcessing \<and> ij_phase j' = PhClaimed \<and> ij_attempts j' = ij_attempts j + 1) \<or>
          (ij_status j' = InCancelled \<and> ij_attempts j' = ij_attempts j \<and> job_closed j')
      | InProcessing \<Rightarrow> ij_attempts j' = ij_attempts j \<and>
          ((ij_status j' = InProcessing \<and> \<not> requeue_phase (ij_phase j')) \<or>
           (ij_status j' = InReviewRequired \<and> ij_phase j' = ij_phase j) \<or>
           (ij_status j' \<in> {InCompleted, InRoutedToHuman} \<and> job_closed j'))
      | InReviewRequired \<Rightarrow> ij_attempts j' = ij_attempts j \<and>
          ((ij_status j' = InQueued \<and> requeue_phase (ij_phase j) \<and> ij_phase j' = PhAccepted) \<or>
           (ij_status j' \<in> {InCancelled, InIgnored} \<and> job_closed j'))
      | _ \<Rightarrow> False)"

definition receipt_for :: "inbound_status option \<Rightarrow> inbound_job \<Rightarrow> inbound_event \<Rightarrow> bool" where
  "receipt_for from_status j e \<longleftrightarrow> ie_job_id e = ij_id j \<and> ie_from_status e = from_status \<and> ie_to_status e = ij_status j \<and>
     ie_state_version e = ij_state_version j \<and> ie_phase e = ij_phase j"

inductive inbound_step :: "uuid \<Rightarrow> inbound_tables \<Rightarrow> inbound_tables \<Rightarrow> bool" where
  accepted: "ij_id j \<notin> ij_id ` set js \<Longrightarrow> ij_status j = InQueued \<Longrightarrow> ij_phase j = PhAccepted \<Longrightarrow>
     ij_state_version j = 0 \<Longrightarrow> (\<And>r. r \<in> set js \<Longrightarrow> ij_thread_key r = ij_thread_key j \<Longrightarrow> job_active r \<Longrightarrow>
       job_pos r \<le> job_pos j) \<Longrightarrow> receipt_for None j e \<Longrightarrow>
     inbound_step (ij_id j) (js, es) (js @ [j], es @ [e])"
| moved: "j \<in> set js \<Longrightarrow> delivery_part j' = delivery_part j \<Longrightarrow> ij_state_version j' = ij_state_version j + 1 \<Longrightarrow>
     inbound_edge j j' \<Longrightarrow>
     (ij_status j = InQueued \<Longrightarrow> ij_status j' = InProcessing \<Longrightarrow> \<forall>q\<in>set js. \<not> earlier_blocker q j) \<Longrightarrow>
     receipt_for (Some (ij_status j)) j' e \<Longrightarrow>
     inbound_step (ij_id j) (js, es) (put_row ij_id j' js, es @ [e])"

definition job_rows_ok :: "inbound_tables \<Rightarrow> bool" where
  "job_rows_ok t \<longleftrightarrow> distinct (map ij_id (fst t))"

definition queued_fresh :: "inbound_tables \<Rightarrow> bool" where
  "queued_fresh t \<longleftrightarrow> (\<forall>j\<in>set (fst t). ij_status j = InQueued \<longrightarrow> ij_phase j = PhAccepted)"

definition closed_erased :: "inbound_tables \<Rightarrow> bool" where
  "closed_erased t \<longleftrightarrow> (\<forall>j\<in>set (fst t). inbound_terminal (ij_status j) \<longrightarrow> job_closed j)"

text \<open>The receipts of a job in the order they were written.\<close>

definition receipts :: "inbound_tables \<Rightarrow> uuid \<Rightarrow> inbound_event list" where
  "receipts t jid = filter (\<lambda>e. ie_job_id e = jid) (snd t)"

fun receipt_chain :: "inbound_status option \<Rightarrow> inbound_event list \<Rightarrow> inbound_status option \<Rightarrow> bool" where
  "receipt_chain p [] q \<longleftrightarrow> p = q"
| "receipt_chain p (e # es) q \<longleftrightarrow> ie_from_status e = p \<and> receipt_chain (Some (ie_to_status e)) es q"

definition next_version :: "inbound_tables \<Rightarrow> uuid \<Rightarrow> int option" where
  "next_version t jid = Some (case find (\<lambda>j. ij_id j = jid) (fst t) of None \<Rightarrow> 0 | Some j \<Rightarrow> ij_state_version j + 1)"

definition receipt_versions :: "inbound_tables \<Rightarrow> uuid \<Rightarrow> int list" where
  "receipt_versions t jid = map ie_state_version (receipts t jid)"

definition receipts_tell :: "inbound_tables \<Rightarrow> bool" where
  "receipts_tell t \<longleftrightarrow> (\<forall>j\<in>set (fst t). receipt_chain None (receipts t (ij_id j)) (Some (ij_status j)) \<and>
     receipts t (ij_id j) \<noteq> [] \<and> ie_phase (last (receipts t (ij_id j))) = ij_phase j)"

definition inbound_inv :: "inbound_tables \<Rightarrow> bool" where
  "inbound_inv t \<longleftrightarrow> job_rows_ok t \<and> queued_fresh t \<and> closed_erased t \<and> gap_free 0 next_version receipt_versions t \<and>
     receipts_tell t \<and> lanes_ok ij_thread_key job_pos job_active job_open (fst t)"

section \<open>The steps preserve the invariant\<close>

lemma delivery_part_keys:
  assumes "delivery_part j' = delivery_part j"
  shows "ij_id j' = ij_id j" "ij_created_at j' = ij_created_at j" "ij_thread_key j' = ij_thread_key j" "job_pos j' = job_pos j"
proof -
  show k: "ij_id j' = ij_id j" "ij_created_at j' = ij_created_at j" "ij_thread_key j' = ij_thread_key j"
    using arg_cong [OF assms, of ij_id] arg_cong [OF assms, of ij_created_at] arg_cong [OF assms, of ij_thread_key]
    by (simp_all add: delivery_part_def)
  then show "job_pos j' = job_pos j" by (simp add: job_pos_def)
qed

lemma moved_rows:
  assumes "job_rows_ok (js, es)" "j \<in> set js" "delivery_part j' = delivery_part j"
  shows "x \<in> set (put_row ij_id j' js) \<longleftrightarrow> x = j' \<or> (x \<in> set js \<and> x \<noteq> j)"
  using assms(2) delivery_part_keys(1) [OF assms(3)] assms(1)
  by (auto simp: set_put_row job_rows_ok_def dest: same_key [where key = ij_id])

lemma step_job_rows: "inbound_step k t t' \<Longrightarrow> job_rows_ok t \<Longrightarrow> job_rows_ok t'"
  by (induction rule: inbound_step.induct) (auto simp: job_rows_ok_def table_simps)

lemma step_queued_fresh: "inbound_step k t t' \<Longrightarrow> queued_fresh t \<Longrightarrow> queued_fresh t'"
proof (induction rule: inbound_step.induct)
  case (moved j js j' e es)
  have "ij_status j' = InQueued \<longrightarrow> ij_phase j' = PhAccepted"
    using moved.hyps(4) by (auto simp: inbound_edge_def split: inbound_status.splits)
  with moved.prems show ?case by (auto simp: queued_fresh_def dest!: set_put_rowD)
qed (auto simp: queued_fresh_def)

lemma step_closed_erased: "inbound_step k t t' \<Longrightarrow> closed_erased t \<Longrightarrow> closed_erased t'"
proof (induction rule: inbound_step.induct)
  case (moved j js j' e es)
  have "inbound_terminal (ij_status j') \<longrightarrow> job_closed j'"
    using moved.hyps(4) by (auto simp: inbound_edge_def inbound_terminal_def split: inbound_status.splits)
  with moved.prems show ?case by (auto simp: closed_erased_def dest!: set_put_rowD)
qed (auto simp: closed_erased_def inbound_terminal_def)

lemma edge_open: "inbound_edge j j' \<Longrightarrow> inbound_blocking (ij_status j)"
  by (auto simp: inbound_edge_def inbound_blocking_def split: inbound_status.splits)

lemma earlier_blocker_iff: "ij_thread_key j \<noteq> None \<Longrightarrow>
    earlier_blocker q j \<longleftrightarrow> ij_thread_key q = ij_thread_key j \<and> job_pos q < job_pos j \<and> job_open q"
  by (auto simp: earlier_blocker_def job_pos_def job_open_def less_prod_def less_le_not_le)

lemma job_step_lane:
  assumes "inbound_step k t t'"
  shows "lane_step ij_id ij_thread_key job_pos job_active job_open (fst t) (fst t')"
  using assms
proof (induction rule: inbound_step.induct)
  case (accepted j js e es)
  show ?case
  proof (simp only: fst_conv, rule lane_step.enqueue)
    show "\<not> job_active j" using accepted.hyps(2) by (simp add: job_active_def)
  qed (use accepted.hyps in auto)
next
  case (moved j js j' e es)
  note k = delivery_part_keys [OF moved.hyps(2)]
  show ?case
  proof (cases "ij_status j = InQueued \<and> ij_status j' = InProcessing \<and> ij_thread_key j \<noteq> None")
    case True
    with moved.hyps(5) have "head_of_lane ij_thread_key job_pos job_open js j"
      using earlier_blocker_iff [of j] by (auto simp: head_of_lane_def list_all_iff)
    moreover have "job_open j" using True by (simp add: job_open_def inbound_blocking_def)
    ultimately show ?thesis
      unfolding fst_conv using lane_step.start [OF moved.hyps(1) _ _ k(1,3,4)] by blast
  next
    case False
    show ?thesis
    proof (simp only: fst_conv, rule lane_step.settle [OF moved.hyps(1) k(1,3,4)])
      show "job_open j" if "job_open j'" using that edge_open [OF moved.hyps(4)] by (simp add: job_open_def k)
      show "job_active j" if "job_active j'"
        using that False moved.hyps(4) by (auto simp: job_active_def k inbound_edge_def split: inbound_status.splits)
    qed
  qed
qed

lemma receipt_chain_snoc: "receipt_chain p (es @ [e]) q \<longleftrightarrow> receipt_chain p es (ie_from_status e) \<and> q = Some (ie_to_status e)"
  by (induction es arbitrary: p) auto

text \<open>The receipts of a job are a log numbered by its versions.\<close>

lemma find_put_other: "ij_id j' \<noteq> i \<Longrightarrow> find (\<lambda>x. ij_id x = i) (put_row ij_id j' js) = find (\<lambda>x. ij_id x = i) js"
  by (rule find_put_row_other) auto

lemma missing_job: "ij_id j \<notin> ij_id ` set js \<Longrightarrow> find (\<lambda>x. ij_id x = ij_id j) js = None"
  by (auto simp: find_None_iff) (metis imageI)

interpretation receipt_log: sequenced_log 0 job_rows_ok next_version receipt_versions inbound_step
proof
  fix k t t' assume wf: "job_rows_ok t" and step: "inbound_step k t t'"
  show "job_rows_ok t'" by (rule step_job_rows [OF step wf])
  have found: "find (\<lambda>x. ij_id x = ij_id j) js = Some j" if "job_rows_ok (js, es)" "j \<in> set js" for j js es
    using that find_key [of ij_id js j] by (simp add: job_rows_ok_def)
  show "\<exists>n. next_version t k = Some n \<and> next_version t' k = Some (n + 1)"
    using step wf
  proof cases
    case (accepted j js e es)
    then show ?thesis by (simp add: next_version_def missing_job find_append)
  next
    case (moved j js j' e es)
    have "find (\<lambda>x. ij_id x = ij_id j) (put_row ij_id j' js) = Some j'"
      using found [of js es j] wf moved delivery_part_keys(1) [of j' j] by (intro find_put_row_same) simp_all
    with moved(1-4,6) found [of js es j] wf show ?thesis by (simp add: next_version_def)
  qed
  show "receipt_versions t' k = receipt_versions t k @ [n]" if n: "next_version t k = Some n" for n
    using step wf
  proof cases
    case (accepted j js e es)
    with n show ?thesis by (simp add: receipt_versions_def receipts_def receipt_for_def next_version_def missing_job)
  next
    case (moved j js j' e es)
    with n wf found [of js es j] delivery_part_keys(1) [of j' j] show ?thesis
      by (simp add: receipt_versions_def receipts_def receipt_for_def next_version_def)
  qed
  show "next_version t' i = next_version t i \<and> receipt_versions t' i = receipt_versions t i" if "i \<noteq> k" for i
    using step
  proof cases
    case (accepted j js e es)
    with that show ?thesis
      by (auto simp: receipt_versions_def receipts_def receipt_for_def next_version_def find_append split: option.splits)
  next
    case (moved j js j' e es)
    with that delivery_part_keys(1) [of j' j] show ?thesis
      by (simp add: receipt_versions_def receipts_def receipt_for_def next_version_def find_put_other)
  qed
qed

lemma step_receipts_tell:
  assumes "inbound_step k t t'" "job_rows_ok t" "gap_free 0 next_version receipt_versions t" "receipts_tell t"
  shows "receipts_tell t'"
  using assms(1)
proof cases
  case (accepted j js e es)
  have "next_version t (ij_id j) = Some 0"
    using accepted(2,4) by (simp add: next_version_def missing_job)
  with assms(3) have "receipt_versions t (ij_id j) = [0 .. 0 - 1]" unfolding gap_free_def by blast
  then have "receipts t (ij_id j) = []" by (simp add: receipt_versions_def)
  with accepted assms(4) show ?thesis
    by (auto simp: receipts_tell_def receipts_def receipt_for_def)
next
  case (moved j js j' e es)
  note k = delivery_part_keys(1) [OF moved(5)]
  have old: "receipt_chain None (receipts t (ij_id j)) (Some (ij_status j))"
    using assms(4) moved by (simp add: receipts_tell_def)
  have rows: "x \<in> set (fst t') \<Longrightarrow> x = j' \<or> (x \<in> set js \<and> ij_id x \<noteq> ij_id j)" for x
    using moved k by (auto simp: set_put_row)
  show ?thesis
    unfolding receipts_tell_def
  proof
    fix x assume "x \<in> set (fst t')"
    from rows [OF this] show "receipt_chain None (receipts t' (ij_id x)) (Some (ij_status x)) \<and>
        receipts t' (ij_id x) \<noteq> [] \<and> ie_phase (last (receipts t' (ij_id x))) = ij_phase x"
    proof (elim disjE conjE)
      assume "x = j'"
      with old moved k show ?thesis by (simp add: receipts_def receipt_for_def receipt_chain_snoc)
    next
      assume "x \<in> set js" "ij_id x \<noteq> ij_id j"
      with assms(4) moved k show ?thesis by (simp add: receipts_tell_def receipts_def receipt_for_def)
    qed
  qed
qed

lemma step_inbound_inv: "inbound_step k t t' \<Longrightarrow> inbound_inv t \<Longrightarrow> inbound_inv t'"
  unfolding inbound_inv_def
  using step_job_rows step_queued_fresh step_closed_erased step_receipts_tell receipt_log.append_gap_free
    lane_step_ok [OF job_step_lane] by (metis job_rows_ok_def)

definition inbound_steps :: "inbound_tables \<Rightarrow> inbound_tables \<Rightarrow> bool" where
  "inbound_steps = (\<lambda>t t'. \<exists>k. inbound_step k t t')\<^sup>*\<^sup>*"

lemma inbound_steps_refl [simp]: "inbound_steps t t"
  by (simp add: inbound_steps_def)

lemma inbound_steps_one: "inbound_step k t t' \<Longrightarrow> inbound_steps t t'"
  unfolding inbound_steps_def by blast

lemma inbound_steps_trans: "inbound_steps t u \<Longrightarrow> inbound_steps u v \<Longrightarrow> inbound_steps t v"
  unfolding inbound_steps_def by (rule rtranclp_trans)

lemma inbound_steps_inv: "inbound_steps t t' \<Longrightarrow> inbound_inv t \<Longrightarrow> inbound_inv t'"
  unfolding inbound_steps_def by (induction rule: rtranclp_induct) (auto intro: step_inbound_inv)

lemma inbound_steps_rows: "inbound_steps t t' \<Longrightarrow> job_rows_ok t \<Longrightarrow> job_rows_ok t'"
  unfolding inbound_steps_def by (induction rule: rtranclp_induct) (auto intro: step_job_rows)

lemma inbound_steps_lane: "inbound_steps t t' \<Longrightarrow>
    (lane_step ij_id ij_thread_key job_pos job_active job_open)\<^sup>*\<^sup>* (fst t) (fst t')"
  unfolding inbound_steps_def
  by (induction rule: rtranclp_induct) (auto intro: rtranclp.rtrancl_into_rtrancl job_step_lane)

end
