(* ===== verification/InboundOps.thy ===== *)
theory InboundOps
  imports InboundQueue
begin

text \<open>
  The operations of the ingress as steps of \<open>InboundQueue\<close>, and what follows for any interleaving of
  webhooks, workers and operators.
\<close>

section \<open>One transition\<close>

lemma insert_event_Inr: "insert_inbound_event e s = Inr s' \<longleftrightarrow> inbound_event_checks e \<and>
    (\<forall>x\<in>set (inbound_events s). \<not> event_clash e x) \<and> s' = s\<lparr>inbound_events := inbound_events s @ [e]\<rparr>"
  by (auto simp: insert_inbound_event_def list_ex_iff)

lemma update_job_Inr: "update_inbound_job j s = Inr s' \<longleftrightarrow> inbound_job_checks j \<and>
    s' = s\<lparr>inbound_jobs := put_row ij_id j (inbound_jobs s)\<rparr>"
  by (auto simp: update_inbound_job_def)

lemma receipt_for_built: "receipt_for from_status j (build_inbound_event E eid j ty from_status actor adm key hash corr)"
  by (simp add: receipt_for_def build_inbound_event_def)

lemma save_transition_Inr:
  assumes "save_transition E j ty from_status actor s = Inr s'"
  obtains e where "receipt_for from_status j e" "inbound_job_checks j"
    "tables s' = (put_row ij_id j (inbound_jobs s), inbound_events s @ [e])"
proof -
  let ?e = "build_inbound_event E (uuid4 E (draws s)) j ty from_status actor None None None None"
  from assms have "inbound_job_checks j" "tables s' = (put_row ij_id j (inbound_jobs s), inbound_events s @ [?e])"
    by (auto simp: save_transition_def bindE_eq_Inr update_job_Inr fresh_def insert_event_Inr tables_def)
  then show thesis by (rule that [OF receipt_for_built])
qed

lemma save_refines:
  assumes "save_transition E j' ty (Some (ij_status j)) actor s = Inr s'" "j \<in> set (inbound_jobs s)"
    "delivery_part j' = delivery_part j" "ij_state_version j' = ij_state_version j + 1" "inbound_edge j j'"
    "ij_status j = InQueued \<Longrightarrow> ij_status j' = InProcessing \<Longrightarrow> \<forall>q\<in>set (inbound_jobs s). \<not> earlier_blocker q j"
  shows "inbound_steps (tables s) (tables s')"
proof -
  from assms(1) obtain e where "receipt_for (Some (ij_status j)) j' e"
    "tables s' = (put_row ij_id j' (inbound_jobs s), inbound_events s @ [e])"
    by (rule save_transition_Inr)
  with inbound_step.moved [OF assms(2-6), of e "inbound_events s"] show ?thesis
    by (intro inbound_steps_one) (simp add: tables_def)
qed

lemma transition_refines:
  assumes "transition_job E j st ph ty code actor s = Inr s'" "j \<in> set (inbound_jobs s)" "ij_status j = InProcessing"
    "st = InReviewRequired \<and> ph = ij_phase j \<or> st \<in> {InCompleted, InRoutedToHuman} \<and> ph = PhTerminal"
  shows "inbound_steps (tables s) (tables s')"
  by (rule save_refines [OF assms(1) [unfolded transition_job_def] assms(2)])
    (use assms(3,4) in \<open>auto simp: transitioned_job_def delivery_part_def inbound_edge_def inbound_terminal_def job_closed_def
      Let_def\<close>)

section \<open>The worker\<close>

lemma owned_job_Inr: "owned_job s jid worker = Inr j \<Longrightarrow>
    j \<in> set (inbound_jobs s) \<and> ij_id j = jid \<and> ij_status j = InProcessing \<and> ij_lease_owner j = Some worker"
  by (auto simp: owned_job_def split: option.splits dest: find_SomeD)

lemma expired_jobD: "expired_job locked now s = Some j \<Longrightarrow> j \<in> set (inbound_jobs s) \<and> ij_status j = InProcessing"
  using first_by_Some(1) by (fastforce simp: expired_job_def)

lemma claimable_jobD:
  assumes "claimable_job locked s = Some j"
  shows "j \<in> set (inbound_jobs s) \<and> ij_status j = InQueued \<and> ij_thread_key j \<noteq> None \<and> \<not> locked (ij_id j) \<and>
    (\<forall>q\<in>set (inbound_jobs s). \<not> earlier_blocker q j)"
  using first_by_Some(1) [OF assms [unfolded claimable_job_def]] by (auto simp: list_ex_iff)

lemma claim_refines:
  assumes "claim_job E locked worker lease s = Inr (s', r)"
  shows "inbound_steps (tables s) (tables s')"
proof (cases "expired_job locked (clock E) s")
  case (Some j)
  with assms have "transition_job E j InReviewRequired (ij_phase j) IeReviewRequired (Some ''lease_expired'') InSystem s = Inr s'"
    by (auto simp: claim_job_def bindE_eq_Inr)
  then show ?thesis using expired_jobD [OF Some] by (intro transition_refines) auto
next
  case None
  show ?thesis
  proof (cases "claimable_job locked s")
    case (Some j)
    note d = claimable_jobD [OF Some]
    from assms None Some have save: "save_transition E (claimed_job j worker (clock E + lease)) IeClaimed (Some (ij_status j)) InWorker s = Inr s'"
      using d by (auto simp: claim_job_def bindE_eq_Inr)
    show ?thesis
      by (rule save_refines [OF save]) (use d in \<open>auto simp: claimed_job_def delivery_part_def inbound_edge_def\<close>)
  qed (use assms None in \<open>simp add: claim_job_def\<close>)
qed

lemma bind_conversation_part [simp]:
  "delivery_part (bind_conversation b j) = delivery_part j" "ij_status (bind_conversation b j) = ij_status j"
  "ij_attempts (bind_conversation b j) = ij_attempts j"
  by (auto simp: bind_conversation_def delivery_part_def split: option.splits)

lemma advance_refines:
  assumes "advance_phase E jid worker ph b s = Inr s'" "\<not> requeue_phase ph"
  shows "inbound_steps (tables s) (tables s')"
proof -
  from assms(1) obtain j where j: "owned_job s jid worker = Inr j"
    and save: "save_transition E ((bind_conversation b j)\<lparr>ij_phase := ph, ij_state_version := ij_state_version j + 1\<rparr>)
         IePhaseAdvanced (Some (ij_status j)) InWorker s = Inr s'"
    by (auto simp: advance_phase_def bindE_eq_Inr)
  have part: "delivery_part (x\<lparr>ij_phase := ph, ij_state_version := v\<rparr>) = delivery_part x" for x v
    by (simp add: delivery_part_def)
  show ?thesis
    by (rule save_refines [OF save]) (use owned_job_Inr [OF j] assms(2) in \<open>auto simp: part inbound_edge_def\<close>)
qed

lemma recorded_refines: "inbound_recorded E jid worker c v a w s = Inr s' \<Longrightarrow> inbound_steps (tables s) (tables s')"
  unfolding inbound_recorded_def by (rule advance_refines) (auto simp: requeue_phase_def)

lemma effect_refines: "before_external_effect E jid worker ph s = Inr s' \<Longrightarrow> inbound_steps (tables s) (tables s')"
  by (rule advance_refines [of E jid worker ph None]) (auto simp: before_external_effect_def requeue_phase_def split: if_splits)

lemma transition_owned_refines:
  assumes "transition_owned E jid worker st ty code s = Inr s'" "st \<in> {InReviewRequired, InCompleted, InRoutedToHuman}"
  shows "inbound_steps (tables s) (tables s')"
proof -
  from assms(1) obtain j where j: "owned_job s jid worker = Inr j"
    and t: "transition_job E j st (if inbound_terminal st then PhTerminal else ij_phase j) ty code InWorker s = Inr s'"
    by (auto simp: transition_owned_def bindE_eq_Inr)
  show ?thesis
    by (rule transition_refines [OF t]) (use owned_job_Inr [OF j] assms(2) in \<open>auto simp: inbound_terminal_def\<close>)
qed

lemma finish_refines_inbound: "finish_job E jid worker result s = Inr s' \<Longrightarrow> inbound_steps (tables s) (tables s')"
  by (auto simp: finish_job_def send_to_review_def split: process_result.splits if_splits sum.splits
      intro: transition_owned_refines)

section \<open>The webhook\<close>

definition fresh_row :: "env \<Rightarrow> inbound_job \<Rightarrow> bool" where
  "fresh_row E j \<longleftrightarrow> ij_status j = InQueued \<and> ij_phase j = PhAccepted \<and> ij_state_version j = 0 \<and> ij_attempts j = 0 \<and>
     ij_created_at j = tx_now E"

lemma batch_rows_fresh:
  "batch_rows E C r n a ms s = Inr (rows, s') \<Longrightarrow> tables s' = tables s \<and> list_all (fresh_row E) rows \<and> length rows = length ms \<and>
     map ij_provider_message_id rows = map en_provider_message_id ms \<and> list_all (\<lambda>j. ij_route_id j = rt_id r) rows"
proof (induction ms arbitrary: s rows)
  case (Cons m ms)
  then obtain c h th js where "batch_rows E C r n a ms (s\<lparr>draws := Suc (draws s)\<rparr>) = Inr (js, s')"
    "rows = inbound_row E (uuid4 E (draws s)) m r n a c h th # js"
    by (auto simp: bindE_eq_Inr fresh_def split: if_splits)
  with Cons.IH [OF this(1)] show ?case by (simp add: fresh_row_def inbound_row_def tables_def)
qed (simp add: tables_def)

lemma insert_jobs_Some:
  assumes "insert_jobs rows s = Some (ids, s')"
  shows "\<exists>ins. inbound_jobs s' = inbound_jobs s @ ins \<and> inbound_events s' = inbound_events s \<and> ids = map ij_id ins \<and>
    set ins \<subseteq> set rows \<and> (\<forall>x\<in>set ins. ij_id x \<notin> ij_id ` set (inbound_jobs s)) \<and> distinct ids \<and>
    (distinct (map ij_id (filter (\<lambda>j. ij_id j \<in> set ids) rows)) \<longrightarrow> filter (\<lambda>j. ij_id j \<in> set ids) rows = ins)"
  using assms
proof (induction rows arbitrary: s ids)
  case (Cons j js)
  show ?case
  proof (cases "list_ex (same_delivery j) (inbound_jobs s)")
    case True
    with Cons.prems have "insert_jobs js s = Some (ids, s')" by (auto split: if_splits)
    from Cons.IH [OF this] obtain ins where ins: "inbound_jobs s' = inbound_jobs s @ ins" "inbound_events s' = inbound_events s"
      "ids = map ij_id ins" "set ins \<subseteq> set js" "\<forall>x\<in>set ins. ij_id x \<notin> ij_id ` set (inbound_jobs s)" "distinct ids"
      "distinct (map ij_id (filter (\<lambda>j. ij_id j \<in> set ids) js)) \<longrightarrow> filter (\<lambda>j. ij_id j \<in> set ids) js = ins" by blast
    have all: "filter (\<lambda>j. ij_id j \<in> set ids) (j # js) = ins"
      if d: "distinct (map ij_id (filter (\<lambda>j. ij_id j \<in> set ids) (j # js)))"
    proof (cases "ij_id j \<in> set ids")
      case True
      with d have "ij_id j \<notin> ij_id ` set (filter (\<lambda>j. ij_id j \<in> set ids) js)"
        "distinct (map ij_id (filter (\<lambda>j. ij_id j \<in> set ids) js))" by auto
      moreover from this(2) ins(7) have "filter (\<lambda>j. ij_id j \<in> set ids) js = ins" by blast
      moreover have "ij_id j \<in> ij_id ` set ins" using True ins(3) by simp
      ultimately show ?thesis by simp
    qed (use d ins(7) in simp)
    have "set ins \<subseteq> set (j # js)" using ins(4) by auto
    with ins(1,2,3,5,6) all show ?thesis by blast
  next
    case False
    with Cons.prems obtain ids' where i: "insert_jobs js (s\<lparr>inbound_jobs := inbound_jobs s @ [j]\<rparr>) = Some (ids', s')"
      and ids: "ids = ij_id j # ids'" and new: "\<forall>x\<in>set (inbound_jobs s). ij_id x \<noteq> ij_id j"
      by (auto simp: list_ex_iff split: if_splits)
    from Cons.IH [OF i, simplified] obtain ins where ins: "inbound_jobs s' = inbound_jobs s @ j # ins"
      "inbound_events s' = inbound_events s" "ids' = map ij_id ins" "set ins \<subseteq> set js"
      "\<forall>x\<in>set ins. ij_id x \<notin> insert (ij_id j) (ij_id ` set (inbound_jobs s))" "distinct ids'"
      "distinct (map ij_id (filter (\<lambda>j. ij_id j \<in> set ids') js)) \<longrightarrow> filter (\<lambda>j. ij_id j \<in> set ids') js = ins"
      unfolding insert_iff by blast
    have all: "filter (\<lambda>j. ij_id j \<in> set ids) (j # js) = j # ins"
      if d: "distinct (map ij_id (filter (\<lambda>j. ij_id j \<in> set ids) (j # js)))"
    proof -
      have "filter (\<lambda>x. ij_id x \<in> set ids) js = filter (\<lambda>x. ij_id x \<in> set ids') js"
        by (rule filter_cong) (use d ids in \<open>auto simp: image_iff\<close>)
      with d ids ins(7) show ?thesis by simp
    qed
    have "distinct ids" "\<forall>x\<in>set (j # ins). ij_id x \<notin> ij_id ` set (inbound_jobs s)"
      using ins(3,5,6) ids new by (auto simp: image_iff)
    moreover have "inbound_jobs s' = inbound_jobs s @ (j # ins)" "ids = map ij_id (j # ins)" "set (j # ins) \<subseteq> set (j # js)"
      using ins(1,3,4) ids by auto
    ultimately show ?thesis using ins(2) all by blast
  qed
qed simp

lemma accept_events_Inr:
  assumes "accept_events E ids rows s = Inr s'" "list_all (\<lambda>j. ij_state_version j = 0) rows"
  shows "\<exists>evs. inbound_events s' = inbound_events s @ evs \<and> inbound_jobs s' = inbound_jobs s \<and>
    list_all2 (receipt_for None) (filter (\<lambda>j. ij_id j \<in> set ids) rows) evs \<and>
    distinct (map ij_id (filter (\<lambda>j. ij_id j \<in> set ids) rows)) \<and>
    (\<forall>j\<in>set (filter (\<lambda>j. ij_id j \<in> set ids) rows). \<forall>x\<in>set (inbound_events s).
       \<not> (ie_job_id x = ij_id j \<and> ie_state_version x = 0))"
  using assms
proof (induction rows arbitrary: s)
  case (Cons j js)
  show ?case
  proof (cases "ij_id j \<in> set ids")
    case True
    let ?e = "build_inbound_event E (uuid4 E (draws s)) j IeAccepted None InSystem None None None None"
    let ?s1 = "s\<lparr>draws := Suc (draws s), inbound_events := inbound_events s @ [?e]\<rparr>"
    from Cons.prems True have rest: "accept_events E ids js ?s1 = Inr s'"
      and clash: "\<forall>x\<in>set (inbound_events s). \<not> event_clash ?e x"
      by (auto simp: fresh_def bindE_eq_Inr insert_event_Inr)
    have r: "receipt_for None j ?e" by (rule receipt_for_built)
    from Cons.IH [OF rest] Cons.prems(2) obtain evs where evs: "inbound_events s' = inbound_events ?s1 @ evs"
      "inbound_jobs s' = inbound_jobs s" "list_all2 (receipt_for None) (filter (\<lambda>j. ij_id j \<in> set ids) js) evs"
      "distinct (map ij_id (filter (\<lambda>j. ij_id j \<in> set ids) js))"
      "\<forall>j\<in>set (filter (\<lambda>j. ij_id j \<in> set ids) js). \<forall>x\<in>set (inbound_events ?s1).
         \<not> (ie_job_id x = ij_id j \<and> ie_state_version x = 0)" by auto
    have v: "ie_job_id ?e = ij_id j" "ie_state_version ?e = 0"
      using r Cons.prems(2) by (simp_all add: receipt_for_def)
    have old: "\<forall>x\<in>set (inbound_events s). \<not> (ie_job_id x = ij_id j \<and> ie_state_version x = 0)"
      using clash v by (auto simp: event_clash_def)
    have "\<forall>x\<in>set (filter (\<lambda>j. ij_id j \<in> set ids) js). ij_id x \<noteq> ij_id j"
      using evs(5) v by fastforce
    with evs r old True show ?thesis
      by (intro exI [of _ "?e # evs"]) auto
  next
    case False
    with Cons show ?thesis by simp
  qed
qed simp

lemma accepted_steps:
  assumes "list_all2 (receipt_for None) ins evs" "list_all (fresh_row E) ins" "distinct (map ij_id ins)"
    "\<forall>x\<in>set ins. ij_id x \<notin> ij_id ` set js" "\<forall>r\<in>set js. ij_status r = InProcessing \<longrightarrow> ij_created_at r < tx_now E"
  shows "inbound_steps (js, es) (js @ ins, es @ evs)"
  using assms
proof (induction ins evs arbitrary: js es rule: list_all2_induct)
  case (Cons j ins e evs)
  have "inbound_step (ij_id j) (js, es) (js @ [j], es @ [e])"
    by (rule inbound_step.accepted)
      (use Cons in \<open>auto simp: fresh_row_def job_active_def job_pos_def less_eq_prod_def\<close>)
  moreover have "inbound_steps (js @ [j], es @ [e]) ((js @ [j]) @ ins, (es @ [e]) @ evs)"
    by (rule Cons.IH) (use Cons.prems in \<open>auto simp: fresh_row_def image_iff\<close>)
  ultimately show ?case using inbound_steps_trans [OF inbound_steps_one] by fastforce
qed simp

lemma persist_batch_Inr:
  assumes "persist_batch E rows s = Inr (s', ids, dups)"
  shows "\<exists>s1. insert_jobs rows s = Some (ids, s1) \<and> accept_events E ids rows s1 = Inr s' \<and> dups = length rows - length ids"
  using assms by (cases "insert_jobs rows s") (auto simp: persist_batch_def split: sum.splits)

lemma enqueue_batch_cases:
  assumes "enqueue_batch E C ms r n a s = Inr (s', ids, dups)" "ms \<noteq> []"
  obtains rows s1 ins evs where "batch_rows E C r n a ms s = Inr (rows, s1)" "tables s1 = tables s"
    "list_all (fresh_row E) rows" "ins = filter (\<lambda>j. ij_id j \<in> set ids) rows" "ids = map ij_id ins" "distinct ids"
    "\<forall>x\<in>set ins. ij_id x \<notin> ij_id ` set (inbound_jobs s)" "inbound_jobs s' = inbound_jobs s @ ins"
    "inbound_events s' = inbound_events s @ evs" "list_all2 (receipt_for None) ins evs" "dups = length ms - length ids"
    "insert_jobs rows s1 \<noteq> None"
proof -
  from assms obtain rows s1 where b: "batch_rows E C r n a ms s = Inr (rows, s1)"
    and p: "persist_batch E rows s1 = Inr (s', ids, dups)"
    by (auto simp: enqueue_batch_def bindE_eq_Inr split: if_splits)
  from persist_batch_Inr [OF p] obtain s2 where i: "insert_jobs rows s1 = Some (ids, s2)"
    and e: "accept_events E ids rows s2 = Inr s'" and d: "dups = length rows - length ids" by blast
  note f = batch_rows_fresh [OF b]
  then have zero: "list_all (\<lambda>j. ij_state_version j = 0) rows" by (auto simp: fresh_row_def list_all_iff)
  from accept_events_Inr [OF e zero] obtain evs where evs: "inbound_events s' = inbound_events s2 @ evs"
    "inbound_jobs s' = inbound_jobs s2" "list_all2 (receipt_for None) (filter (\<lambda>j. ij_id j \<in> set ids) rows) evs"
    "distinct (map ij_id (filter (\<lambda>j. ij_id j \<in> set ids) rows))" by blast
  from insert_jobs_Some [OF i] evs(4) obtain ins where ins: "inbound_jobs s2 = inbound_jobs s1 @ ins"
    "inbound_events s2 = inbound_events s1" "ids = map ij_id ins" "\<forall>x\<in>set ins. ij_id x \<notin> ij_id ` set (inbound_jobs s1)"
    "distinct ids" "filter (\<lambda>j. ij_id j \<in> set ids) rows = ins" by blast
  show thesis
    by (rule that [OF b _ _ ins(6) [symmetric] ins(3,5)]) (use f ins evs d i in \<open>auto simp: tables_def\<close>)
qed

lemma enqueue_batch_refines:
  assumes "enqueue_batch E C ms r n a s = Inr (s', ids, dups)"
    "\<forall>j\<in>set (inbound_jobs s). ij_status j = InProcessing \<longrightarrow> ij_created_at j < tx_now E"
  shows "inbound_steps (tables s) (tables s')"
proof (cases "ms = []")
  case True
  with assms(1) show ?thesis by (simp add: enqueue_batch_def)
next
  case False
  from assms(1) False show ?thesis
  proof (cases rule: enqueue_batch_cases)
    case (1 rows s1 ins evs)
    have "list_all (fresh_row E) ins" using 1(3,4) by (auto simp: list_all_iff)
    from accepted_steps [OF 1(10) this _ 1(7) assms(2), of "inbound_events s"] 1(5,6,8,9)
    show ?thesis by (simp add: tables_def)
  qed
qed

section \<open>The operators\<close>

lemma scoped_jobD: "scoped_job s aid jid = Some j \<Longrightarrow> j \<in> set (inbound_jobs s) \<and> ij_id j = jid \<and> ij_routing_agent_id j = aid"
  by (auto simp: scoped_job_def dest: find_SomeD)

lemma command_context_Inr:
  assumes "command_context E a cmd s = Inr (j, replayed)"
  shows "scoped_job s (rc_agent_id cmd) (rc_job_id cmd) = Some j \<and> strip (rc_idempotency_key cmd) \<noteq> [] \<and>
    strip (rc_correlation_id cmd) \<noteq> [] \<and>
    (if replayed
     then \<exists>e. job_receipt s (ij_id j) (strip (rc_idempotency_key cmd)) = Some e \<and>
            ie_command_hash e = Some (review_hash E a (rc_expected_version cmd) (rc_job_id cmd))
     else job_receipt s (ij_id j) (strip (rc_idempotency_key cmd)) = None \<and> ij_state_version j = rc_expected_version cmd)"
  using assms by (auto simp: command_context_def Let_def split: if_splits option.splits)

lemma apply_command_Inr:
  assumes "apply_command E a cmd j st ph ty code s = Inr (s', j1)"
  obtains e where "j1 = decided_job E j st ph code" "receipt_for (Some (ij_status j)) j1 e"
    "tables s' = (put_row ij_id j1 (inbound_jobs s), inbound_events s @ [e])"
    "ie_idempotency_key e = Some (strip (rc_idempotency_key cmd))"
    "ie_command_hash e = Some (review_hash E a (ij_state_version j) (ij_id j))"
proof -
  let ?j = "decided_job E j st ph code"
  let ?e = "build_inbound_event E (uuid4 E (draws s)) ?j ty (Some (ij_status j)) InOperator (Some (rc_admin_id cmd))
      (Some (strip (rc_idempotency_key cmd))) (Some (review_hash E a (ij_state_version ?j - 1) (ij_id j)))
      (Some (strip (rc_correlation_id cmd)))"
  from assms have j1: "j1 = ?j" and t: "tables s' = (put_row ij_id ?j (inbound_jobs s), inbound_events s @ [?e])"
    by (auto simp: apply_command_def Let_def bindE_eq_Inr update_job_Inr fresh_def insert_event_Inr tables_def)
  have "ij_state_version ?j - 1 = ij_state_version j" by (simp add: decided_job_def Let_def)
  then show thesis
    by (intro that [OF j1, of ?e]) (use j1 t in \<open>simp_all add: receipt_for_built, simp_all add: build_inbound_event_def\<close>)
qed

lemma decided_part: "delivery_part (decided_job E j st ph code) = delivery_part j"
  "ij_state_version (decided_job E j st ph code) = ij_state_version j + 1" "ij_status (decided_job E j st ph code) = st"
  "ij_phase (decided_job E j st ph code) = ph" "ij_attempts (decided_job E j st ph code) = ij_attempts j"
  by (simp_all add: decided_job_def delivery_part_def Let_def)

lemma decided_id [simp]: "ij_id (decided_job E j st ph code) = ij_id j"
  by (rule delivery_part_keys(1) [OF decided_part(1)])

lemma put_row_twice: "key r' = key r \<Longrightarrow> put_row key r' (put_row key r t) = put_row key r' t"
  by (auto simp: put_row_def)

lemma requeue_cases:
  assumes "requeue_job E C V cmd s = Inr (s', j')" "\<forall>j\<in>set (inbound_jobs s). ij_id j = rc_job_id cmd \<longrightarrow> ij_legacy_payload j = None"
  obtains (replay) "command_context E ActRequeue cmd s = Inr (j', True)" "s' = s"
  | (applied) j where "command_context E ActRequeue cmd s = Inr (j, False)" "ij_status j = InReviewRequired"
      "requeue_phase (ij_phase j)" "apply_command E ActRequeue cmd j InQueued PhAccepted IeRequeued None s = Inr (s', j')"
proof -
  from assms(1) obtain j r where c: "command_context E ActRequeue cmd s = Inr (j, r)"
    by (auto simp: requeue_job_def bindE_eq_Inr)
  have "scoped_job s (rc_agent_id cmd) (rc_job_id cmd) = Some j" using command_context_Inr [OF c] by simp
  from scoped_jobD [OF this] assms(2) have "ij_legacy_payload j = None" by blast
  then have "converted_job C V j = Inr j" by (simp add: converted_job_def)
  show thesis
  proof (cases r)
    case True
    show thesis by (rule replay) (use assms(1) c True in \<open>simp_all add: requeue_job_def\<close>)
  next
    case False
    show thesis
      by (rule applied [of j])
        (use assms(1) c False \<open>converted_job C V j = Inr j\<close> in \<open>simp_all add: requeue_job_def split: if_splits\<close>)
  qed
qed

lemma terminal_cases:
  assumes "terminal_command E a st ty allowed cmd s = Inr (s', j')"
  obtains (replay) "command_context E a cmd s = Inr (j', True)" "s' = s"
  | (applied) j s1 j1 where "command_context E a cmd s = Inr (j, False)" "ij_status j \<in> allowed"
      "apply_command E a cmd j st PhTerminal ty (Some (review_action_value a)) s = Inr (s1, j1)"
      "j' = j1\<lparr>ij_payload_ciphertext := None, ij_payload_hash := None, ij_legacy_payload := None\<rparr>"
      "tables s' = (put_row ij_id j' (inbound_jobs s1), inbound_events s1)"
proof -
  from assms obtain j r where c: "command_context E a cmd s = Inr (j, r)"
    by (auto simp: terminal_command_def bindE_eq_Inr)
  show thesis
  proof (cases r)
    case True
    show thesis by (rule replay) (use assms c True in \<open>simp_all add: terminal_command_def\<close>)
  next
    case False
    let ?run = "apply_command E a cmd j st PhTerminal ty (Some (review_action_value a)) s"
    from assms c False have ok: "ij_status j \<in> allowed" by (simp add: terminal_command_def split: if_splits)
    obtain s1 j1 where run: "?run = Inr (s1, j1)"
      using assms c False ok by (cases ?run) (auto simp: terminal_command_def)
    let ?j = "j1\<lparr>ij_payload_ciphertext := None, ij_payload_hash := None, ij_legacy_payload := None\<rparr>"
    from assms c False ok run have "bindE (mapErr (\<lambda>_. RvIntegrity) (update_inbound_job ?j s1)) (\<lambda>s2. Inr (s2, ?j)) = Inr (s', j')"
      by (simp add: terminal_command_def Let_def)
    then have "j' = ?j" "tables s' = (put_row ij_id ?j (inbound_jobs s1), inbound_events s1)"
      by (auto simp: bindE_eq_Inr update_job_Inr tables_def)
    with c False ok run show thesis by (intro applied) simp_all
  qed
qed

lemma review_refines:
  assumes "review_job E C V a cmd s = Inr (s', j')"
    "\<forall>j\<in>set (inbound_jobs s). ij_id j = rc_job_id cmd \<longrightarrow> ij_legacy_payload j = None"
  shows "inbound_steps (tables s) (tables s')"
proof -
  have closing: "inbound_steps (tables s) (tables s')"
    if t: "terminal_command E b st ty allowed cmd s = Inr (s', j')" and
      st: "st = InCancelled \<and> allowed = {InQueued, InReviewRequired} \<or> st = InIgnored \<and> allowed = {InReviewRequired}"
    for b st ty allowed
    using t
  proof (cases rule: terminal_cases)
    case (applied j s1 j1)
    have j: "j \<in> set (inbound_jobs s)" using command_context_Inr [OF applied(1)] scoped_jobD by blast
    from apply_command_Inr [OF applied(3)] obtain e where e: "j1 = decided_job E j st PhTerminal (Some (review_action_value b))"
      "receipt_for (Some (ij_status j)) j1 e" "tables s1 = (put_row ij_id j1 (inbound_jobs s), inbound_events s @ [e])" by blast
    have part: "delivery_part j' = delivery_part j" by (simp add: applied(4) e(1) delivery_part_def decided_job_def Let_def)
    have edge: "inbound_edge j j'"
      using applied(2) st by (auto simp: inbound_edge_def applied(4) e(1) decided_part job_closed_def)
    have "ij_status j' \<noteq> InProcessing" using st by (auto simp: applied(4) e(1) decided_part)
    moreover have "receipt_for (Some (ij_status j)) j' e" using e(2) by (simp add: receipt_for_def applied(4))
    ultimately have "inbound_step (ij_id j) (tables s) (put_row ij_id j' (inbound_jobs s), inbound_events s @ [e])"
      using inbound_step.moved [OF j part _ edge, of e "inbound_events s"]
      by (simp add: tables_def applied(4) e(1) decided_part)
    moreover have "tables s' = (put_row ij_id j' (inbound_jobs s), inbound_events s @ [e])"
      using applied(5) e(3) by (simp add: tables_def put_row_twice applied(4) e(1))
    ultimately show ?thesis by (simp add: inbound_steps_one)
  qed simp
  have queued: "inbound_steps (tables s) (tables s')" if r: "requeue_job E C V cmd s = Inr (s', j')"
    using r assms(2)
  proof (cases rule: requeue_cases)
    case (applied j)
    have j: "j \<in> set (inbound_jobs s)" using command_context_Inr [OF applied(1)] scoped_jobD by blast
    from apply_command_Inr [OF applied(4)] obtain e where e: "j' = decided_job E j InQueued PhAccepted None"
      "receipt_for (Some (ij_status j)) j' e" "tables s' = (put_row ij_id j' (inbound_jobs s), inbound_events s @ [e])" by blast
    have "inbound_edge j j'" using applied(2,3) by (simp add: inbound_edge_def e(1) decided_part)
    from inbound_step.moved [OF j _ _ this _ e(2), of "inbound_events s"] show ?thesis
      by (intro inbound_steps_one) (simp add: tables_def [of s] e(1,3) decided_part)
  qed simp
  from assms(1) closing queued show ?thesis
    by (auto simp: review_job_def cancel_job_def acknowledge_job_def split: review_action.splits)
qed

section \<open>Any interleaving of operations\<close>

text \<open>A webhook is later than the jobs being processed: its transaction began after theirs was
  accepted. Converting a quarantined legacy payload is a migration and not part of the interleaving.\<close>

inductive inbound_op :: "store \<Rightarrow> store \<Rightarrow> bool" where
  webhook: "enqueue_batch E C ms r n a s = Inr (s', ids, dups) \<Longrightarrow>
     (\<forall>j\<in>set (inbound_jobs s). ij_status j = InProcessing \<longrightarrow> ij_created_at j < tx_now E) \<Longrightarrow> inbound_op s s'"
| claims: "claim_job E locked worker lease s = Inr (s', c) \<Longrightarrow> inbound_op s s'"
| records: "inbound_recorded E jid worker cid v aid w s = Inr s' \<Longrightarrow> inbound_op s s'"
| begins_effect: "before_external_effect E jid worker ph s = Inr s' \<Longrightarrow> inbound_op s s'"
| finishes: "finish_job E jid worker result s = Inr s' \<Longrightarrow> inbound_op s s'"
| decides: "review_job E C V act cmd s = Inr (s', j) \<Longrightarrow>
     (\<forall>x\<in>set (inbound_jobs s). ij_id x = rc_job_id cmd \<longrightarrow> ij_legacy_payload x = None) \<Longrightarrow> inbound_op s s'"
| other_services: "tables s' = tables s \<Longrightarrow> inbound_op s s'"

lemma inbound_op_refines: "inbound_op s s' \<Longrightarrow> inbound_steps (tables s) (tables s')"
  by (induction rule: inbound_op.induct)
    (auto intro: enqueue_batch_refines claim_refines recorded_refines effect_refines finish_refines_inbound review_refines)

lemma inbound_ops_steps: "inbound_op\<^sup>*\<^sup>* s s' \<Longrightarrow> inbound_steps (tables s) (tables s')"
  by (induction rule: rtranclp_induct) (auto intro: inbound_steps_trans inbound_op_refines)

interpretation inbound_lanes: fifo_lanes inbound_jobs ij_id ij_thread_key job_pos job_active job_open
  "\<lambda>s. job_rows_ok (tables s)" inbound_op
proof
  fix s s' assume "inbound_op s s'" and ok: "job_rows_ok (tables s)"
  then have steps: "inbound_steps (tables s) (tables s')" by (blast intro: inbound_op_refines)
  from inbound_steps_lane [OF steps]
  show "(lane_step ij_id ij_thread_key job_pos job_active job_open)\<^sup>*\<^sup>* (inbound_jobs s) (inbound_jobs s')"
    by (simp add: tables_def)
  show "job_rows_ok (tables s')" by (rule inbound_steps_rows [OF steps ok])
qed (auto simp: job_rows_ok_def tables_def job_open_def job_active_def inbound_blocking_def)

end
