(* ===== verification/InboundPromises.thy ===== *)
theory InboundPromises
  imports InboundOps Contracts
begin

text \<open>
  The promises of the external ingress, over any interleaving of its operations: order, at most one
  run once effects are possible, a complete history, redelivered webhooks and repeated operator
  commands; and the order that a batch does not keep.
\<close>

section \<open>Order\<close>


section \<open>Effects\<close>

definition past_recording :: "inbound_job \<Rightarrow> bool" where
  "past_recording j \<longleftrightarrow> \<not> requeue_phase (ij_phase j)"

lemma step_past_recording:
  assumes "inbound_step k t t'" "job_rows_ok t" "queued_fresh t" "j \<in> set (fst t)" "past_recording j"
  shows "\<exists>j'\<in>set (fst t'). ij_id j' = ij_id j \<and> past_recording j' \<and> ij_attempts j' = ij_attempts j"
  using assms(1)
proof cases
  case (accepted x js e es)
  then show ?thesis using assms(4,5) by auto
next
  case (moved x js x' e es)
  have rows: "y \<in> set (fst t') \<longleftrightarrow> y = x' \<or> (y \<in> set js \<and> y \<noteq> x)" for y
    using moved_rows [of js es x x' y] assms(2) moved by simp
  show ?thesis
  proof (cases "j = x")
    case True
    have q: "ij_status j \<noteq> InQueued"
      using assms(3,4,5) by (auto simp: queued_fresh_def past_recording_def requeue_phase_def)
    have "past_recording x' \<and> ij_attempts x' = ij_attempts x"
      using moved(7) assms(5) q True
      by (auto simp: inbound_edge_def past_recording_def job_closed_def requeue_phase_def split: inbound_status.splits)
    then show ?thesis using rows True delivery_part_keys(1) [OF moved(5)] by auto
  next
    case False
    then show ?thesis using rows assms(4,5) moved by auto
  qed
qed

lemma steps_past_recording:
  assumes "inbound_steps t t'" "inbound_inv t" "j \<in> set (fst t)" "past_recording j"
  shows "\<exists>j'\<in>set (fst t'). ij_id j' = ij_id j \<and> past_recording j' \<and> ij_attempts j' = ij_attempts j"
  using assms(1) unfolding inbound_steps_def
proof (induction rule: rtranclp_induct)
  case base
  then show ?case using assms(3,4) by blast
next
  case (step u v)
  from step.hyps(1) have "inbound_inv u"
    using inbound_steps_inv [of t u] assms(2) by (simp add: inbound_steps_def)
  then show ?case using step step_past_recording unfolding inbound_inv_def by metis
qed

text \<open>C6: once a job recorded its message or began an external effect (a provider call, a transcription,
  the agent, the outbox) it is never queued or handed to a worker again, however its lease ends and
  whatever operators decide: effects are not repeated.\<close>

theorem inbound_effects_once:
  assumes "inbound_inv (tables s)" "inbound_op\<^sup>*\<^sup>* s s'" "j \<in> set (inbound_jobs s)" "\<not> requeue_phase (ij_phase j)"
    "j' \<in> set (inbound_jobs s')" "ij_id j' = ij_id j"
  shows "ij_attempts j' = ij_attempts j \<and> ij_status j' \<noteq> InQueued \<and> \<not> requeue_phase (ij_phase j')"
proof -
  note steps = inbound_ops_steps [OF assms(2)]
  have inv: "inbound_inv (tables s')" by (rule inbound_steps_inv [OF steps assms(1)])
  from steps_past_recording [OF steps assms(1), of j] assms(3,4) obtain x where
    x: "x \<in> set (inbound_jobs s')" "ij_id x = ij_id j" "past_recording x" "ij_attempts x = ij_attempts j"
    by (auto simp: tables_def past_recording_def)
  have "x = j'"
    using inv x(1,2) assms(5,6) same_key [of ij_id "inbound_jobs s'" x j'] by (simp add: inbound_inv_def job_rows_ok_def tables_def)
  with x inv show ?thesis
    by (auto simp: past_recording_def inbound_inv_def queued_fresh_def tables_def requeue_phase_def)
qed

section \<open>History\<close>

text \<open>Every job has a complete history: its receipts are numbered by its versions without a gap,
  each starts from the status the previous one reached, the last one shows the job's current status
  and phase, and a closed job keeps no payload, encrypted or legacy.\<close>

theorem inbound_history:
  assumes "inbound_inv (tables s)" "inbound_op\<^sup>*\<^sup>* s s'" "j \<in> set (inbound_jobs s')"
  shows "map ie_state_version (receipts (tables s') (ij_id j)) = [0 .. ij_state_version j] \<and>
    receipt_chain None (receipts (tables s') (ij_id j)) (Some (ij_status j)) \<and>
    ie_phase (last (receipts (tables s') (ij_id j))) = ij_phase j \<and>
    (inbound_terminal (ij_status j) \<longrightarrow>
       ij_payload_ciphertext j = None \<and> ij_payload_hash j = None \<and> ij_legacy_payload j = None)"
proof -
  have inv: "inbound_inv (tables s')" by (rule inbound_steps_inv [OF inbound_ops_steps [OF assms(2)] assms(1)])
  then have rows: "distinct (map ij_id (inbound_jobs s'))" and gap: "gap_free 0 next_version receipt_versions (tables s')"
    by (simp_all add: inbound_inv_def job_rows_ok_def tables_def)
  have "next_version (tables s') (ij_id j) = Some (ij_state_version j + 1)"
    using find_key [OF rows assms(3)] by (simp add: next_version_def tables_def)
  with gap have "receipt_versions (tables s') (ij_id j) = [0 .. ij_state_version j]"
    unfolding gap_free_def by fastforce
  then show ?thesis
    using inv assms(3) by (auto simp: inbound_inv_def receipt_versions_def receipts_tell_def closed_erased_def job_closed_def tables_def)
qed

section \<open>Redelivery\<close>

lemma batch_rows_again:
  "batch_rows E C r n a ms s = Inr (rows, s1) \<Longrightarrow> \<exists>rows' t1. batch_rows E2 C r n a ms t = Inr (rows', t1) \<and>
     tables t1 = tables t \<and> list_all2 (\<lambda>j j'. same_delivery j' j \<and> inbound_job_checks j' = inbound_job_checks j) rows rows'"
proof (induction ms arbitrary: s rows s1 t)
  case (Cons m ms)
  then obtain c h th js where p: "message_matches_route m r n" "protect C (dump_inbound_payload m) = Inr (c, h)"
    "thread_key C (rt_channel r) (uuid_str (rt_id r)) (en_thread_id m) = Inr th"
    "batch_rows E C r n a ms (s\<lparr>draws := Suc (draws s)\<rparr>) = Inr (js, s1)"
    "rows = inbound_row E (uuid4 E (draws s)) m r n a c h th # js"
    by (auto simp: bindE_eq_Inr fresh_def split: if_splits)
  from Cons.IH [OF p(4), of "t\<lparr>draws := Suc (draws t)\<rparr>"] obtain rows' t1 where
    "batch_rows E2 C r n a ms (t\<lparr>draws := Suc (draws t)\<rparr>) = Inr (rows', t1)" "tables t1 = tables t"
    "list_all2 (\<lambda>j j'. same_delivery j' j \<and> inbound_job_checks j' = inbound_job_checks j) js rows'"
    by (auto simp: tables_def)
  with p show ?case
    by (intro exI [of _ "inbound_row E2 (uuid4 E2 (draws t)) m r n a c h th # rows'"] exI [of _ t1])
      (simp add: fresh_def same_delivery_def inbound_row_def inbound_job_checks_def)
qed simp

lemma insert_jobs_covers: "insert_jobs rows s = Some (ids, s') \<Longrightarrow>
    set (inbound_jobs s) \<subseteq> set (inbound_jobs s') \<and>
    (\<forall>j\<in>set rows. inbound_job_checks j \<and> (\<exists>x\<in>set (inbound_jobs s'). same_delivery j x))"
proof (induction rows arbitrary: s ids)
  case (Cons j js)
  show ?case
  proof (cases "list_ex (same_delivery j) (inbound_jobs s)")
    case True
    with Cons show ?thesis by (fastforce simp: list_ex_iff split: if_splits)
  next
    case False
    with Cons.prems obtain ids' where "insert_jobs js (s\<lparr>inbound_jobs := inbound_jobs s @ [j]\<rparr>) = Some (ids', s')"
      and c: "inbound_job_checks j" by (auto split: if_splits)
    from Cons.IH [OF this(1)] c show ?thesis by (auto simp: same_delivery_def)
  qed
qed simp

lemma insert_jobs_known: "\<forall>j\<in>set rows. inbound_job_checks j \<and> (\<exists>x\<in>set (inbound_jobs s). same_delivery j x) \<Longrightarrow>
    insert_jobs rows s = Some ([], s)"
  by (induction rows) (auto simp: list_ex_iff)

lemma accept_nothing: "accept_events E [] rows s = Inr s"
  by (induction rows) auto

lemma list_all2_preimage: "list_all2 P xs ys \<Longrightarrow> y \<in> set ys \<Longrightarrow> \<exists>x\<in>set xs. P x y"
  by (induction rule: list_all2_induct) auto

text \<open>Webhooks can be delivered again: a batch that was accepted, sent again, succeeds, accepts
  nothing, counts every message as a duplicate and leaves jobs and receipts as they are.\<close>

theorem redelivery_ignored:
  assumes "enqueue_batch E C ms r n a s = Inr (s', ids, dups)"
  shows "\<exists>s''. enqueue_batch E2 C ms r n a s' = Inr (s'', [], length ms) \<and>
    inbound_jobs s'' = inbound_jobs s' \<and> inbound_events s'' = inbound_events s'"
proof (cases "ms = []")
  case True
  then show ?thesis by (simp add: enqueue_batch_def)
next
  case False
  from assms False obtain rows s1 where b: "batch_rows E C r n a ms s = Inr (rows, s1)"
    and p: "persist_batch E rows s1 = Inr (s', ids, dups)"
    and guards: "\<And>X. enqueue_batch X C ms r n a s' = bindE (batch_rows X C r n a ms s') (\<lambda>(rows, s1). persist_batch X rows s1)"
    by (auto simp: enqueue_batch_def bindE_eq_Inr split: if_splits)
  from persist_batch_Inr [OF p] obtain s2 where i: "insert_jobs rows s1 = Some (ids, s2)"
    and e: "accept_events E ids rows s2 = Inr s'" by blast
  have zero: "list_all (\<lambda>j. ij_state_version j = 0) rows"
    using batch_rows_fresh [OF b] by (auto simp: fresh_row_def list_all_iff)
  have jobs: "inbound_jobs s' = inbound_jobs s2" using accept_events_Inr [OF e zero] by blast
  from batch_rows_again [OF b, of E2 s'] obtain rows' t1 where again: "batch_rows E2 C r n a ms s' = Inr (rows', t1)"
    "tables t1 = tables s'" "list_all2 (\<lambda>j j'. same_delivery j' j \<and> inbound_job_checks j' = inbound_job_checks j) rows rows'"
    by blast
  have "\<forall>j\<in>set rows'. inbound_job_checks j \<and> (\<exists>x\<in>set (inbound_jobs t1). same_delivery j x)"
  proof
    fix j' assume "j' \<in> set rows'"
    then obtain j where "j \<in> set rows" "same_delivery j' j" "inbound_job_checks j' = inbound_job_checks j"
      using list_all2_preimage [OF again(3)] by blast
    from insert_jobs_covers [OF i] this(1) obtain x where "x \<in> set (inbound_jobs s2)" "same_delivery j x" "inbound_job_checks j"
      by blast
    moreover have "inbound_jobs t1 = inbound_jobs s2" using again(2) jobs by (simp add: tables_def)
    ultimately show "inbound_job_checks j' \<and> (\<exists>x\<in>set (inbound_jobs t1). same_delivery j' x)"
      using \<open>same_delivery j' j\<close> \<open>inbound_job_checks j' = inbound_job_checks j\<close> by (auto simp: same_delivery_def)
  qed
  then have "persist_batch E2 rows' t1 = Inr (t1, [], length rows')"
    by (simp add: persist_batch_def insert_jobs_known accept_nothing)
  moreover have "length rows' = length ms"
    using again(3) batch_rows_fresh [OF b] by (auto dest: list_all2_lengthD)
  ultimately show ?thesis using again(1,2) by (simp add: guards tables_def)
qed

section \<open>The order inside a batch\<close>

text \<open>The rows of a batch share the timestamp of its transaction, so the random identifiers decide.\<close>

lemma batch_of_two:
  assumes "batch_rows E C r n a [m1, m2] s = Inr (rows, s1)" "en_thread_id m1 = en_thread_id m2"
  obtains r1 r2 k where "rows = [r1, r2]" "ij_thread_key r1 = Some k" "ij_thread_key r2 = Some k"
    "fresh_row E r1" "fresh_row E r2"
  using assms by (auto simp: bindE_eq_Inr fresh_def inbound_row_def fresh_row_def split: if_splits)

text \<open>C36: a worker does not follow the order of a webhook: two messages of one thread accepted in the
  same batch have the same creation time, and when the random identifier of the second is the smaller
  one the worker claims the second message first.\<close>

theorem batch_reorders:
  assumes "enqueue_batch E C [m1, m2] r n a s = Inr (s', [i1, i2], 0)" "inbound_jobs s = []"
    "en_thread_id m1 = en_thread_id m2" "i2 < i1" "claim_job E2 (\<lambda>_. False) worker lease s' = Inr (s'', c)"
  shows "c = Some i2"
proof -
  from assms(1) show ?thesis
  proof (rule enqueue_batch_cases)
    fix rows s1 ins evs
    assume b: "batch_rows E C r n a [m1, m2] s = Inr (rows, s1)" and ins: "ins = filter (\<lambda>j. ij_id j \<in> set [i1, i2]) rows"
      and ids: "[i1, i2] = map ij_id ins" and jobs: "inbound_jobs s' = inbound_jobs s @ ins"
    from batch_of_two [OF b assms(3)] obtain r1 r2 k where rows: "rows = [r1, r2]" "ij_thread_key r1 = Some k"
      "ij_thread_key r2 = Some k" "fresh_row E r1" "fresh_row E r2" .
    have len: "length ins = 2" using arg_cong [OF ids, of length] by simp
    have all: "ins = [r1, r2]"
      using ins len rows(1) by (auto split: if_splits)
    then have id: "ij_id r1 = i1" "ij_id r2 = i2" using ids by auto
    have j: "inbound_jobs s' = [r1, r2]" using jobs all assms(2) by simp
    have "expired_job (\<lambda>_. False) (clock E2) s' = None"
      using rows(4,5) by (simp add: expired_job_def j fresh_row_def)
    moreover have "earlier_blocker r2 r1" "\<not> earlier_blocker r1 r2" "\<not> earlier_blocker r1 r1" "\<not> earlier_blocker r2 r2"
      using rows assms(4) id by (auto simp: earlier_blocker_def fresh_row_def inbound_blocking_def)
    then have "claimable_job (\<lambda>_. False) s' = Some r2"
      using rows by (simp add: claimable_job_def j fresh_row_def first_by_def)
    ultimately show ?thesis
      using assms(5) id by (auto simp: claim_job_def bindE_eq_Inr)
  qed simp
qed

section \<open>Repeated operator commands\<close>

definition review_valid :: "review_command \<Rightarrow> store \<Rightarrow> bool" where
  "review_valid cmd s \<longleftrightarrow> strip (rc_idempotency_key cmd) \<noteq> [] \<and> strip (rc_correlation_id cmd) \<noteq> [] \<and>
     scoped_job s (rc_agent_id cmd) (rc_job_id cmd) \<noteq> None"

definition review_receipt :: "review_command \<Rightarrow> store \<Rightarrow> (string option \<times> inbound_job) option" where
  "review_receipt cmd s =
     (case scoped_job s (rc_agent_id cmd) (rc_job_id cmd) of
        None \<Rightarrow> None
      | Some j \<Rightarrow> map_option (\<lambda>e. (ie_command_hash e, j)) (job_receipt s (ij_id j) (strip (rc_idempotency_key cmd))))"

lemma replayed_context:
  assumes "review_valid cmd s" "review_receipt cmd s = Some (h, j)"
  shows "command_context E a cmd s =
    (if h = Some (review_hash E a (rc_expected_version cmd) (rc_job_id cmd)) then Inr (j, True) else Inl RvIdempotency)"
  using assms by (auto simp: review_valid_def review_receipt_def command_context_def Let_def split: option.splits)

lemma review_replay: "command_context E a cmd s = Inr (j, True) \<Longrightarrow> review_job E C V a cmd s = Inr (s, j)"
  by (cases a) (simp_all add: review_job_def requeue_job_def cancel_job_def acknowledge_job_def terminal_command_def)

lemma review_clash: "command_context E a cmd s = Inl e \<Longrightarrow> review_job E C V a cmd s = Inl e"
  by (cases a) (simp_all add: review_job_def requeue_job_def cancel_job_def acknowledge_job_def terminal_command_def)

lemma converted_job_keys: "converted_job C V j = Inr j1 \<Longrightarrow>
    ij_id j1 = ij_id j \<and> ij_routing_agent_id j1 = ij_routing_agent_id j \<and> ij_state_version j1 = ij_state_version j"
  by (auto simp: converted_job_def bindE_eq_Inr split: option.splits)

text \<open>What an applied command leaves: the decided job in its place and a receipt under the key.\<close>

definition review_written :: "env \<Rightarrow> review_action \<Rightarrow> review_command \<Rightarrow> inbound_job \<Rightarrow> store \<Rightarrow> store \<Rightarrow> inbound_job \<Rightarrow> bool" where
  "review_written E a cmd j s s' j' \<longleftrightarrow> ij_id j' = ij_id j \<and> ij_routing_agent_id j' = ij_routing_agent_id j \<and>
     inbound_jobs s' = put_row ij_id j' (inbound_jobs s) \<and>
     (\<exists>e. inbound_events s' = inbound_events s @ [e] \<and> ie_job_id e = ij_id j \<and>
        ie_idempotency_key e = Some (strip (rc_idempotency_key cmd)) \<and>
        ie_command_hash e = Some (review_hash E a (ij_state_version j) (ij_id j)))"

lemma apply_written:
  assumes "apply_command E a cmd j1 st ph ty code s = Inr (s', j')" "ij_id j1 = ij_id j"
    "ij_routing_agent_id j1 = ij_routing_agent_id j" "ij_state_version j1 = ij_state_version j"
  shows "review_written E a cmd j s s' j'"
proof -
  from apply_command_Inr [OF assms(1)] obtain e where e: "j' = decided_job E j1 st ph code"
    "receipt_for (Some (ij_status j1)) j' e" "tables s' = (put_row ij_id j' (inbound_jobs s), inbound_events s @ [e])"
    "ie_idempotency_key e = Some (strip (rc_idempotency_key cmd))"
    "ie_command_hash e = Some (review_hash E a (ij_state_version j1) (ij_id j1))" by blast
  moreover have "ij_id j' = ij_id j" "ij_routing_agent_id j' = ij_routing_agent_id j"
    using e(1) assms(2,3) by (simp_all add: decided_job_def Let_def)
  ultimately show ?thesis using assms(2,4) by (simp add: review_written_def tables_def receipt_for_def)
qed

lemma review_applied:
  assumes "review_job E C V a cmd s = Inr (s', j')" "command_context E a cmd s = Inr (j, False)"
  shows "review_written E a cmd j s s' j'"
proof -
  have closing: "review_written E a cmd j s s' j'" if "terminal_command E a st ty allowed cmd s = Inr (s', j')" for st ty allowed
    using that
  proof (cases rule: terminal_cases)
    case (applied x s1 j1)
    with assms(2) have x: "x = j" by simp
    have w: "review_written E a cmd j s s1 j1" by (rule apply_written [OF applied(3)]) (simp_all add: x)
    have "put_row ij_id j' (put_row ij_id j1 (inbound_jobs s)) = put_row ij_id j' (inbound_jobs s)"
      by (rule put_row_twice) (simp add: applied(4))
    with w applied(5) show ?thesis by (simp add: review_written_def tables_def applied(4))
  qed (use assms(2) in simp)
  show ?thesis
  proof (cases a)
    case ActRequeue
    with assms obtain j1 where cv: "converted_job C V j = Inr j1"
      and ap: "apply_command E a cmd j1 InQueued PhAccepted IeRequeued None s = Inr (s', j')"
      by (auto simp: review_job_def requeue_job_def bindE_eq_Inr split: if_splits)
    show ?thesis by (rule apply_written [OF ap]) (use converted_job_keys [OF cv] in auto)
  qed (use assms(1) closing in \<open>auto simp: review_job_def cancel_job_def acknowledge_job_def\<close>)
qed

interpretation inbound_reviews: idempotent_command "\<lambda>s cmd. review_job E C V a cmd s" "\<lambda>s cmd. review_valid cmd s"
  "\<lambda>s cmd. review_receipt cmd s" "\<lambda>s cmd. Some (review_hash E a (rc_expected_version cmd) (rc_job_id cmd))" RvIdempotency
  for E C V a
proof
  fix s and cmd :: review_command and r
  assume "review_valid cmd s" "review_receipt cmd s = Some (Some (review_hash E a (rc_expected_version cmd) (rc_job_id cmd)), r)"
  then show "review_job E C V a cmd s = Inr (s, r)" by (intro review_replay) (simp add: replayed_context)
next
  fix s and cmd :: review_command and h r
  assume "review_valid cmd s" "review_receipt cmd s = Some (h, r)"
    "h \<noteq> Some (review_hash E a (rc_expected_version cmd) (rc_job_id cmd))"
  then show "review_job E C V a cmd s = Inl RvIdempotency" by (intro review_clash) (simp add: replayed_context)
next
  fix s and cmd :: review_command and s' r
  let ?d = "Some (review_hash E a (rc_expected_version cmd) (rc_job_id cmd))"
  assume run: "review_job E C V a cmd s = Inr (s', r)"
  then obtain j replayed where c: "command_context E a cmd s = Inr (j, replayed)"
    using review_clash by (cases "command_context E a cmd s") auto
  note ctx = command_context_Inr [OF c]
  show "review_valid cmd s \<and> review_valid cmd s' \<and> ?d = ?d \<and> review_receipt cmd s' = Some (?d, r)"
  proof (cases replayed)
    case True
    with run c have "s' = s" "r = j" using review_replay [of E a cmd s j C V] by auto
    with ctx True show ?thesis by (auto simp: review_valid_def review_receipt_def)
  next
    case False
    with c run have w: "review_written E a cmd j s s' r" by (intro review_applied) auto
    have sc: "scoped_job s (rc_agent_id cmd) (rc_job_id cmd) = Some j" using ctx by simp
    have "find (\<lambda>x. ij_id x = rc_job_id cmd \<and> ij_routing_agent_id x = rc_agent_id cmd) (put_row ij_id r (inbound_jobs s)) = Some r"
      by (rule find_put_row_hit [OF sc [unfolded scoped_job_def]])
        (use w scoped_jobD [OF sc] in \<open>simp_all add: review_written_def\<close>)
    then have "scoped_job s' (rc_agent_id cmd) (rc_job_id cmd) = Some r"
      using w by (simp add: scoped_job_def review_written_def)
    moreover have "job_receipt s' (ij_id r) (strip (rc_idempotency_key cmd)) \<noteq> None \<and>
        (\<forall>e. job_receipt s' (ij_id r) (strip (rc_idempotency_key cmd)) = Some e \<longrightarrow> ie_command_hash e = ?d)"
      using w ctx False scoped_jobD [OF sc]
      by (auto simp: review_written_def job_receipt_def find_append)
    ultimately show ?thesis using ctx by (auto simp: review_valid_def review_receipt_def)
  qed
qed

text \<open>An operator command on a job can be repeated: requeue, cancel or acknowledge sent again under
  the same key returns the job as it is and changes nothing.\<close>

theorem review_retry:
  "review_job E C V a cmd s = Inr (s', j) \<Longrightarrow> review_job E C V a cmd s' = Inr (s', j)"
  by (rule inbound_reviews.retry)


end
