(* ===== verification/InboundWitnesses.thy ===== *)
theory InboundWitnesses
  imports InboundPromises
begin

text \<open>Concrete runs of the external ingress: a webhook with two messages, a worker, an operator.\<close>

definition wa_row :: "uuid \<Rightarrow> instant \<Rightarrow> inbound_job" where
  "wa_row jid at = \<lparr>ij_id = jid, ij_created_at = at, ij_channel = ''whatsapp'', ij_adapter_key = ''meta_whatsapp_cloud'',
     ij_adapter_version = 1, ij_route_id = UUID 4, ij_route_version = 1, ij_route_key_snapshot = ''main'',
     ij_connection_id = UUID 5, ij_connection_version = 1, ij_routing_agent_id = UUID 2, ij_provider_message_id = ''wamid.1'',
     ij_thread_key = Some (replicate 64 (CHR ''a'')), ij_payload_ciphertext = Some ''c'',
     ij_payload_hash = Some (replicate 64 (CHR ''a'')), ij_legacy_payload = None, ij_status = InQueued, ij_phase = PhAccepted,
     ij_state_version = 0, ij_attempts = 0, ij_lease_owner = None, ij_lease_expires_at = None, ij_safe_code = None,
     ij_conversation_id = None, ij_control_version = None, ij_automation_agent_id = None, ij_automation_version = None,
     ij_terminal_at = None, ij_legacy_max_attempts = 1\<rparr>"

definition wa_receipt :: "uuid \<Rightarrow> inbound_job \<Rightarrow> inbound_event" where
  "wa_receipt eid j = build_inbound_event sample_env eid j IeAccepted None InSystem None None None None"

definition wa_store :: store where
  "wa_store = sample_store\<lparr>inbound_jobs := [wa_row (UUID 701) 1, (wa_row (UUID 702) 2)\<lparr>ij_provider_message_id := ''wamid.2''\<rparr>],
     inbound_events := [wa_receipt (UUID 801) (wa_row (UUID 701) 1), wa_receipt (UUID 802) (wa_row (UUID 702) 2)]\<rparr>"

lemmas wa_defs = wa_store_def wa_row_def wa_receipt_def build_inbound_event_def

lemma wa_store_inv: "inbound_inv (tables wa_store)"
proof -
  have gap: "gap_free 0 next_version receipt_versions (tables wa_store)"
    unfolding gap_free_def
  proof (intro allI impI)
    fix jid n assume "next_version (tables wa_store) jid = Some n"
    then show "0 \<le> n \<and> receipt_versions (tables wa_store) jid = [0 .. n - 1]"
      by (cases "jid = UUID 701"; cases "jid = UUID 702")
        (auto simp: next_version_def receipt_versions_def receipts_def tables_def wa_defs)
  qed
  have tell: "receipts_tell (tables wa_store)"
    by (simp add: receipts_tell_def receipts_def tables_def wa_defs)
  show ?thesis
    using gap tell
    by (simp add: inbound_inv_def job_rows_ok_def queued_fresh_def closed_erased_def inbound_terminal_def lanes_ok_def job_active_def
        tables_def) (simp add: wa_defs)
qed

lemma wa_claim: "\<exists>s'. claim_job sample_env (\<lambda>_. False) ''w1'' 60 wa_store = Inr (s', Some (UUID 701)) \<and>
    inbound_jobs s' = [claimed_job (wa_row (UUID 701) 1) ''w1'' (clock sample_env + 60),
      (wa_row (UUID 702) 2)\<lparr>ij_provider_message_id := ''wamid.2''\<rparr>]"
proof -
  have none: "expired_job (\<lambda>_. False) (clock sample_env) wa_store = None"
    by (simp add: expired_job_def wa_store_def wa_row_def)
  have head: "claimable_job (\<lambda>_. False) wa_store = Some (wa_row (UUID 701) 1)"
    by (simp add: claimable_job_def wa_store_def first_by_def earlier_blocker_def inbound_blocking_def) (simp add: wa_row_def)
  have checks: "inbound_job_checks (claimed_job (wa_row (UUID 701) 1) ''w1'' t)" for t
    by (simp add: inbound_job_checks_def claimed_job_def wa_row_def)
  show ?thesis
    by (simp add: claim_job_def none head save_transition_def update_job_Inr [THEN iffD2] update_inbound_job_def checks fresh_def
        insert_inbound_event_def)
      (simp add: inbound_event_checks_def event_clash_def put_row_def claimed_job_def sample_defs wa_defs)
qed


theorem inbound_history_witness:
  "\<exists>s' j. inbound_op\<^sup>*\<^sup>* wa_store s' \<and> j \<in> set (inbound_jobs s') \<and> ij_state_version j = 1 \<and>
     map ie_state_version (receipts (tables s') (ij_id j)) = [0, 1]"
proof -
  let ?j = "claimed_job (wa_row (UUID 701) 1) ''w1'' (clock sample_env + 60)"
  from wa_claim obtain s' where c: "claim_job sample_env (\<lambda>_. False) ''w1'' 60 wa_store = Inr (s', Some (UUID 701))"
    and js: "inbound_jobs s' = [?j, (wa_row (UUID 702) 2)\<lparr>ij_provider_message_id := ''wamid.2''\<rparr>]" by blast
  have op: "inbound_op\<^sup>*\<^sup>* wa_store s'" using inbound_op.claims [OF c] by (rule r_into_rtranclp)
  have j: "?j \<in> set (inbound_jobs s')" "ij_state_version ?j = 1"
    by (simp_all add: js claimed_job_def wa_row_def)
  have "map ie_state_version (receipts (tables s') (ij_id ?j)) = [0 .. ij_state_version ?j]"
    using inbound_history [OF wa_store_inv op j(1)] by (rule conjunct1)
  also have "\<dots> = [0, 1]" unfolding j(2) by (simp add: upto.simps)
  finally have versions: "map ie_state_version (receipts (tables s') (ij_id ?j)) = [0, 1]" .
  show ?thesis by (intro exI [of _ s'] exI [of _ ?j] conjI op j versions)
qed


section \<open>Effects\<close>

definition wa_running :: inbound_job where
  "wa_running = (claimed_job (wa_row (UUID 701) 1) ''w1'' 110)\<lparr>ij_phase := PhAgentEffect, ij_state_version := 2\<rparr>"

definition wa_running_store :: store where
  "wa_running_store = sample_store\<lparr>inbound_jobs := [wa_running], inbound_events :=
     [wa_receipt (UUID 801) (wa_row (UUID 701) 1),
      build_inbound_event sample_env (UUID 802) (claimed_job (wa_row (UUID 701) 1) ''w1'' 110) IeClaimed (Some InQueued) InWorker
        None None None None,
      build_inbound_event sample_env (UUID 803) wa_running IePhaseAdvanced (Some InProcessing) InWorker None None None None]\<rparr>"

lemmas wa_running_defs = wa_running_store_def wa_running_def claimed_job_def wa_defs

lemma wa_running_inv: "inbound_inv (tables wa_running_store)"
proof -
  have gap: "gap_free 0 next_version receipt_versions (tables wa_running_store)"
    unfolding gap_free_def
  proof (intro allI impI)
    fix jid n assume "next_version (tables wa_running_store) jid = Some n"
    then show "0 \<le> n \<and> receipt_versions (tables wa_running_store) jid = [0 .. n - 1]"
      by (cases "jid = UUID 701")
        (auto simp: next_version_def receipt_versions_def receipts_def tables_def wa_running_defs upto.simps)
  qed
  have tell: "receipts_tell (tables wa_running_store)"
    by (simp add: receipts_tell_def receipts_def tables_def wa_running_defs)
  show ?thesis
    using gap tell
    by (simp add: inbound_inv_def job_rows_ok_def queued_fresh_def closed_erased_def inbound_terminal_def lanes_ok_def tables_def)
      (simp add: wa_running_defs)
qed

lemma wa_fails: "\<exists>s' j. finish_job sample_env (UUID 701) ''w1'' (ProcRaised (IfOther ''TimeoutError'')) wa_running_store = Inr s' \<and>
    inbound_jobs s' = [j] \<and> ij_id j = UUID 701"
proof -
  have own: "owned_job wa_running_store (UUID 701) ''w1'' = Inr wa_running"
    by (simp add: owned_job_def wa_running_defs)
  have checks: "inbound_job_checks (transitioned_job sample_env wa_running InReviewRequired ph code)" for ph code
    by (simp add: inbound_job_checks_def transitioned_job_def wa_running_def claimed_job_def wa_row_def inbound_terminal_def Let_def)
  show ?thesis
    by (simp add: finish_job_def send_to_review_def transition_owned_def own transition_job_def save_transition_def
        update_inbound_job_def checks fresh_def insert_inbound_event_def)
      (simp add: inbound_event_checks_def event_clash_def put_row_def transitioned_job_def inbound_terminal_def Let_def
        sample_defs wa_running_defs)
qed

theorem inbound_effects_once_witness:
  "\<exists>s' j. finish_job sample_env (UUID 701) ''w1'' (ProcRaised (IfOther ''TimeoutError'')) wa_running_store = Inr s' \<and>
     j \<in> set (inbound_jobs s') \<and> ij_attempts j = 1 \<and> ij_status j \<noteq> InQueued"
proof -
  from wa_fails obtain s' j where f: "finish_job sample_env (UUID 701) ''w1'' (ProcRaised (IfOther ''TimeoutError'')) wa_running_store = Inr s'"
    and j: "inbound_jobs s' = [j]" "ij_id j = UUID 701" by blast
  have op: "inbound_op\<^sup>*\<^sup>* wa_running_store s'" using inbound_op.finishes [OF f] by (rule r_into_rtranclp)
  have "ij_attempts j = ij_attempts wa_running \<and> ij_status j \<noteq> InQueued \<and> \<not> requeue_phase (ij_phase j)"
    by (rule inbound_effects_once [OF wa_running_inv op])
      (simp_all add: j wa_running_store_def, simp_all add: wa_running_def claimed_job_def wa_row_def requeue_phase_def)
  moreover have "ij_attempts wa_running = 1" by (simp add: wa_running_def claimed_job_def wa_row_def)
  ultimately show ?thesis using f j by auto
qed

section \<open>An operator\<close>

definition wa_command :: review_command where
  "wa_command = \<lparr>rc_agent_id = UUID 2, rc_job_id = UUID 701, rc_admin_id = UUID 8, rc_expected_version = 0,
     rc_correlation_id = ''c1'', rc_idempotency_key = ''k1''\<rparr>"

lemma wa_cancel: "\<exists>s' j. review_job sample_env sample_crypto sample_validators ActCancel wa_command wa_store = Inr (s', j)"
proof -
  have ctx: "command_context sample_env ActCancel wa_command wa_store = Inr (wa_row (UUID 701) 1, False)"
    by (simp add: command_context_def wa_command_def strip_def is_space_def scoped_job_def job_receipt_def wa_defs)
  have checks: "inbound_job_checks (decided_job sample_env (wa_row (UUID 701) 1) InCancelled PhTerminal code)"
    "inbound_job_checks ((decided_job sample_env (wa_row (UUID 701) 1) InCancelled PhTerminal code)\<lparr>ij_payload_ciphertext := None,
       ij_payload_hash := None, ij_legacy_payload := None\<rparr>)" for code
    by (simp_all add: inbound_job_checks_def decided_job_def wa_row_def Let_def)
  show ?thesis
    by (simp add: review_job_def cancel_job_def terminal_command_def ctx apply_command_def update_inbound_job_def checks fresh_def
        insert_inbound_event_def Let_def)
      (simp add: inbound_event_checks_def review_hash_def command_digest_def event_clash_def decided_job_def Let_def sample_defs wa_defs)
qed

theorem review_retry_witness:
  "\<exists>s' j. review_job sample_env sample_crypto sample_validators ActCancel wa_command wa_store = Inr (s', j) \<and>
     review_job sample_env sample_crypto sample_validators ActCancel wa_command s' = Inr (s', j)"
proof -
  from wa_cancel obtain s' j where r: "review_job sample_env sample_crypto sample_validators ActCancel wa_command wa_store = Inr (s', j)" by blast
  with review_retry [OF r] show ?thesis by blast
qed

section \<open>A webhook with two messages\<close>

text \<open>Here every random identifier is smaller than the one before.\<close>

definition falling_env :: env where
  "falling_env = sample_env\<lparr>uuid4 := (\<lambda>n. UUID (1000 - of_nat n))\<rparr>"

definition wa_adapter :: adapter_spec where
  "wa_adapter = channel_adapters ! 1"

definition wa_batch :: "envelope list" where
  "wa_batch = [sample_envelope, sample_envelope\<lparr>en_provider_message_id := ''wamid.2''\<rparr>]"

definition wa_batch_row :: "env \<Rightarrow> nat \<Rightarrow> envelope \<Rightarrow> inbound_job" where
  "wa_batch_row E n m = inbound_row E (uuid4 E n) m (hd (routes sample_store)) (hd (connections sample_store)) wa_adapter
     (canonical False (dump_inbound_payload m)) (replicate 64 (CHR ''a'')) (replicate 64 (CHR ''a''))"

lemma wa_batch_rows: "batch_rows E sample_crypto (hd (routes sample_store)) (hd (connections sample_store)) wa_adapter wa_batch sample_store =
    Inr ([wa_batch_row E 0 (wa_batch ! 0), wa_batch_row E 1 (wa_batch ! 1)], sample_store\<lparr>draws := 2\<rparr>)"
  by (simp add: wa_batch_def message_matches_route_def sample_envelope_def sample_defs sample_protect thread_key_def sample_digest
      fresh_def wa_batch_row_def)

definition wa_first :: inbound_job where
  "wa_first = wa_batch_row falling_env 0 (wa_batch ! 0)"

definition wa_second :: inbound_job where
  "wa_second = wa_batch_row falling_env 1 (wa_batch ! 1)"

definition wa_accepted :: "uuid \<Rightarrow> inbound_job \<Rightarrow> inbound_event" where
  "wa_accepted eid j = build_inbound_event falling_env eid j IeAccepted None InSystem None None None None"

definition wa_batch_store :: store where
  "wa_batch_store = sample_store\<lparr>draws := 4, inbound_jobs := [wa_first, wa_second],
     inbound_events := [wa_accepted (UUID 998) wa_first, wa_accepted (UUID 997) wa_second]\<rparr>"

lemma wa_pair: "ij_id wa_first = UUID 1000" "ij_id wa_second = UUID 999" "\<not> same_delivery wa_second wa_first"
  "ij_state_version wa_first = 0" "ij_state_version wa_second = 0" "inbound_job_checks wa_first" "inbound_job_checks wa_second"
  by (simp_all add: wa_first_def wa_second_def wa_batch_row_def inbound_row_def falling_env_def wa_batch_def sample_envelope_def
      same_delivery_def inbound_job_checks_def sample_store_def wa_adapter_def channel_adapters_def)

lemma wa_batch_runs: "enqueue_batch falling_env sample_crypto wa_batch (hd (routes sample_store)) (hd (connections sample_store))
    wa_adapter sample_store = Inr (wa_batch_store, [UUID 1000, UUID 999], 0)"
proof -
  have rows: "batch_rows falling_env sample_crypto (hd (routes sample_store)) (hd (connections sample_store)) wa_adapter wa_batch
      sample_store = Inr ([wa_first, wa_second], sample_store\<lparr>draws := 2\<rparr>)"
    by (simp only: wa_batch_rows wa_first_def wa_second_def)
  have ins: "insert_jobs [wa_first, wa_second] (sample_store\<lparr>draws := 2\<rparr>) =
      Some ([UUID 1000, UUID 999], sample_store\<lparr>draws := 2, inbound_jobs := [wa_first, wa_second]\<rparr>)"
    using wa_pair by (simp add: sample_store_def empty_store_def)
  have ev: "accept_events falling_env [UUID 1000, UUID 999] [wa_first, wa_second]
      (sample_store\<lparr>draws := 2, inbound_jobs := [wa_first, wa_second]\<rparr>) = Inr wa_batch_store"
    using wa_pair by (simp add: fresh_def insert_inbound_event_def event_clash_def inbound_event_checks_def build_inbound_event_def
        sample_store_def empty_store_def wa_batch_store_def wa_accepted_def falling_env_def sample_env_def)
  have guards: "wa_batch \<noteq> []" "rt_channel (hd (routes sample_store)) = ''whatsapp''" "is_implemented wa_adapter"
    "sp_channel wa_adapter = ''whatsapp''" "rt_connection_id (hd (routes sample_store)) = cn_id (hd (connections sample_store))"
    "cn_channel (hd (connections sample_store)) = ''whatsapp''" "cn_adapter_key (hd (connections sample_store)) = sp_adapter_key wa_adapter"
    by (simp_all add: wa_batch_def sample_store_def wa_adapter_def channel_adapters_def is_implemented_def)
  show ?thesis
    by (simp add: enqueue_batch_def guards external_channel_def rows persist_batch_def ins ev del: insert_jobs.simps accept_events.simps)
qed

theorem redelivery_ignored_witness:
  "\<exists>s''. enqueue_batch sample_env sample_crypto wa_batch (hd (routes sample_store)) (hd (connections sample_store)) wa_adapter
     wa_batch_store = Inr (s'', [], 2) \<and> inbound_jobs s'' = [wa_first, wa_second]"
proof -
  have "length wa_batch = 2" "inbound_jobs wa_batch_store = [wa_first, wa_second]"
    by (simp_all add: wa_batch_def wa_batch_store_def)
  with redelivery_ignored [OF wa_batch_runs, of sample_env] show ?thesis by auto
qed

lemma wa_second_claimed: "\<exists>s' c. claim_job sample_env (\<lambda>_. False) ''w1'' 60 wa_batch_store = Inr (s', c)"
proof -
  have st: "ij_status wa_first = InQueued" "ij_status wa_second = InQueued"
    by (simp_all add: wa_first_def wa_second_def wa_batch_row_def inbound_row_def)
  have none: "expired_job (\<lambda>_. False) (clock sample_env) wa_batch_store = None"
    by (simp add: expired_job_def wa_batch_store_def st)
  have head: "claimable_job (\<lambda>_. False) wa_batch_store = Some wa_second"
    by (simp add: claimable_job_def wa_batch_store_def first_by_def earlier_blocker_def inbound_blocking_def st wa_pair)
      (simp add: wa_first_def wa_second_def wa_batch_row_def inbound_row_def less_uuid_def)
  have checks: "inbound_job_checks (claimed_job wa_second ''w1'' t)" for t
    by (simp add: inbound_job_checks_def claimed_job_def wa_second_def wa_batch_row_def inbound_row_def sample_store_def
        wa_adapter_def channel_adapters_def)
  show ?thesis
    by (simp add: claim_job_def none head save_transition_def update_inbound_job_def checks fresh_def insert_inbound_event_def)
      (simp add: inbound_event_checks_def event_clash_def claimed_job_def wa_pair wa_batch_store_def build_inbound_event_def
        wa_accepted_def sample_env_def)
qed

theorem batch_reorders_witness:
  "\<exists>s'. claim_job sample_env (\<lambda>_. False) ''w1'' 60 wa_batch_store = Inr (s', Some (UUID 999)) \<and> hd wa_batch = sample_envelope \<and>
     ij_provider_message_id (hd (inbound_jobs wa_batch_store)) = en_provider_message_id sample_envelope \<and>
     ij_id (hd (inbound_jobs wa_batch_store)) = UUID 1000"
proof -
  from wa_second_claimed obtain s' c where c: "claim_job sample_env (\<lambda>_. False) ''w1'' 60 wa_batch_store = Inr (s', c)" by blast
  have "c = Some (UUID 999)"
    by (rule batch_reorders [OF wa_batch_runs [unfolded wa_batch_def] _ _ _ c])
      (simp_all add: sample_store_def empty_store_def sample_envelope_def less_uuid_def)
  with c show ?thesis
    by (simp add: wa_batch_def wa_batch_store_def wa_pair) (simp add: wa_first_def wa_batch_row_def inbound_row_def wa_batch_def)
qed

end
