(* ===== verification/CommandPolicy.thy ===== *)
theory CommandPolicy
  imports Store "HOL-Library.Multiset"
begin

text \<open>
  \<open>services/commercial/_command_policy.py\<close>: the normalisation every commercial command shares. The
  exception classes a service passes to the constructor are the first arguments: \<open>invalid\<close> builds its
  validation error from a message, \<open>conflict\<close> is its idempotency error.
\<close>

definition policy_required_text :: "(string \<Rightarrow> 'e) \<Rightarrow> string \<Rightarrow> string \<Rightarrow> nat \<Rightarrow> 'e + string" where
  "policy_required_text invalid value name max_length =
     (let t = strip value in if t = [] \<or> max_length < length t then Inl (invalid (''invalid '' @ name)) else Inr t)"

definition policy_optional_text :: "(string \<Rightarrow> 'e) \<Rightarrow> string option \<Rightarrow> nat \<Rightarrow> 'e + string option" where
  "policy_optional_text invalid value max_length =
     (case value of
        None \<Rightarrow> Inr None
      | Some v \<Rightarrow>
          let t = strip v in
          if max_length < length t then Inl (invalid ''optional text is too long'')
          else Inr (if t = [] then None else Some t))"

definition policy_aware_utc :: "(string \<Rightarrow> 'e) \<Rightarrow> datetime \<Rightarrow> string \<Rightarrow> 'e + instant" where
  "policy_aware_utc invalid d name =
     (case to_utc d of None \<Rightarrow> Inl (invalid (name @ '' must include a timezone'')) | Some t \<Rightarrow> Inr t)"

text \<open>\<open>enum_type(value)\<close>: the member with that value among the members of the enumeration.\<close>

definition policy_enum_value :: "(string \<Rightarrow> 'e) \<Rightarrow> ('a \<Rightarrow> string) \<Rightarrow> 'a list \<Rightarrow> string \<Rightarrow> string \<Rightarrow> 'e + 'a" where
  "policy_enum_value invalid val members v name =
     (case find (\<lambda>m. val m = v) members of None \<Rightarrow> Inl (invalid (''invalid '' @ name)) | Some m \<Rightarrow> Inr m)"

definition policy_command_hash :: "env \<Rightarrow> (string \<times> json) list \<Rightarrow> string" where
  "policy_command_hash E payload = command_digest E True payload"

definition policy_assert_hash :: "'e \<Rightarrow> string \<Rightarrow> string \<Rightarrow> 'e + unit" where
  "policy_assert_hash conflict actual expected =
     (if \<not> sha256_hex actual \<or> actual \<noteq> expected then Inl conflict else Inr ())"

lemma policy_required_text_Inr [simp]: "policy_required_text invalid v name n = Inr t \<longleftrightarrow>
    t = strip v \<and> t \<noteq> [] \<and> length t \<le> n"
  by (auto simp: policy_required_text_def Let_def not_less)

lemma policy_optional_text_Inr: "policy_optional_text invalid v n = Inr t \<longleftrightarrow>
    (case v of None \<Rightarrow> t = None
       | Some x \<Rightarrow> length (strip x) \<le> n \<and> t = (if strip x = [] then None else Some (strip x)))"
  by (auto simp: policy_optional_text_def Let_def not_less split: option.splits)

lemma policy_enum_value_Inr: "inj val \<Longrightarrow> set members = UNIV \<Longrightarrow>
    policy_enum_value invalid val members v name = Inr m \<longleftrightarrow> val m = v"
proof -
  assume a: "inj val" "set members = UNIV"
  have "find (\<lambda>x. val x = v) members = Some m" if "val m = v"
    by (rule find_unique) (use a that in \<open>auto dest: injD\<close>)
  then show ?thesis by (auto simp: policy_enum_value_def split: option.splits dest: find_SomeD)
qed

lemma policy_assert_hash_Inr [simp]: "policy_assert_hash e actual expected = Inr u \<longleftrightarrow>
    sha256_hex actual \<and> actual = expected"
  by (auto simp: policy_assert_hash_def)

lemma policy_command_hash_hex [simp]: "sha256_ok E \<Longrightarrow> sha256_hex (policy_command_hash E payload)"
  by (simp add: policy_command_hash_def command_digest_def sha256_ok_def)

section \<open>Results\<close>

text \<open>The result of a command without the flag that tells a first execution from a retry.\<close>

definition forget :: "'e + ('s \<times> 'r \<times> bool) \<Rightarrow> 'e + ('s \<times> 'r)" where
  "forget r = bindE r (\<lambda>(s, x, _). Inr (s, x))"

lemma forget_Inr: "forget r = Inr (s, x) \<longleftrightarrow> (\<exists>b. r = Inr (s, x, b))"
  by (cases r) (auto simp: forget_def)

section \<open>Evidence trails\<close>

text \<open>\<open>links ts a b\<close>: the transitions \<open>ts\<close>, each from a state that may be absent, lead from \<open>a\<close> to \<open>b\<close>.\<close>

fun links :: "('a option \<times> 'a) list \<Rightarrow> 'a option \<Rightarrow> 'a option \<Rightarrow> bool" where
  "links [] a b \<longleftrightarrow> a = b"
| "links (t # ts) a b \<longleftrightarrow> fst t = a \<and> links ts (Some (snd t)) b"

lemma links_snoc [simp]: "links (ts @ [t]) a b \<longleftrightarrow> links ts a (fst t) \<and> b = Some (snd t)"
  by (induction ts arbitrary: a) auto

lemma sort_snoc: "(\<And>x. x \<in> set xs \<Longrightarrow> x \<le> n) \<Longrightarrow> sort (xs @ [n]) = sort xs @ [n :: 'a :: linorder]"
  by (intro properties_for_sort) (auto simp: sorted_append)

lemma sort_insert_left: "(\<And>x. x \<in> set (xs @ ys) \<Longrightarrow> x \<le> n) \<Longrightarrow>
    sort ((xs @ [n]) @ ys) = sort (xs @ ys) @ [n :: 'a :: linorder]"
  by (intro properties_for_sort) (auto simp: sorted_append)

lemma ball_put_row: "(\<forall>x\<in>set (put_row key r t). P x) \<longleftrightarrow>
    ((\<exists>y\<in>set t. key y = key r) \<longrightarrow> P r) \<and> (\<forall>x\<in>set t. key x \<noteq> key r \<longrightarrow> P x)"
  by (auto simp: put_row_def)

end
