(* ===== verification/FollowUpTables.thy ===== *)
theory FollowUpTables
  imports CommandPolicy
begin

text \<open>
  The constraints of \<open>models/follow_up.py\<close> and the writes the commercial services make under them:
  the flush of a changed task and the insertion of a task or an event; \<open>None\<close> is the database error.
\<close>

definition target_channel_ok :: "string option \<Rightarrow> bool" where
  "target_channel_ok ch = (case ch of None \<Rightarrow> True | Some t \<Rightarrow> channel_text t)"

definition filled :: "string option \<Rightarrow> bool" where
  "filled v = (case v of None \<Rightarrow> False | Some t \<Rightarrow> length (btrim t) > 0)"

definition non_negative :: "int option \<Rightarrow> bool" where
  "non_negative v = (case v of None \<Rightarrow> True | Some n \<Rightarrow> n \<ge> 0)"

definition active_status :: "follow_up_status \<Rightarrow> bool" where
  "active_status st \<longleftrightarrow> st \<in> {FuScheduled, FuDispatchQueued, FuInProgress}"

definition follow_up_task_checks :: "follow_up_task \<Rightarrow> bool" where
  "follow_up_task_checks t \<longleftrightarrow>
     ft_state_version t \<ge> 0 \<and> ft_attempts t \<ge> 0 \<and> ft_max_attempts t > 0 \<and> ft_attempts t \<le> ft_max_attempts t \<and>
     (ft_status t = FuCompleted) = (ft_completed_at t \<noteq> None) \<and>
     (ft_status t = FuCancelled) = (ft_cancelled_at t \<noteq> None) \<and>
     (ft_status t = FuReviewRequired) = (ft_review_required_at t \<noteq> None) \<and>
     (ft_status t = FuReviewRequired \<longrightarrow> filled (ft_last_safe_code t)) \<and>
     (ft_lease_owner t = None) = (ft_lease_expires_at t = None) \<and>
     (ft_status t = FuInProgress) = (ft_lease_owner t \<noteq> None \<and> ft_lease_expires_at t \<noteq> None) \<and>
     (active_status (ft_status t) \<longrightarrow>
        ft_conversation_id t \<noteq> None \<and> filled (ft_fifo_key t) \<and> filled (ft_target_channel t) \<and>
        ft_scheduled_control_version t \<noteq> None \<and> ft_scheduled_automation_version t \<noteq> None \<and>
        ft_scheduled_policy_version t \<noteq> None) \<and>
     non_negative (ft_scheduled_control_version t) \<and> non_negative (ft_scheduled_automation_version t) \<and>
     non_negative (ft_scheduled_policy_version t) \<and> non_negative (ft_executed_policy_version t) \<and>
     target_channel_ok (ft_target_channel t) \<and>
     (ft_kind t = ProposalReminder \<longrightarrow> ft_quote_version_id t \<noteq> None \<or>
        ft_status t \<in> {FuReviewRequired, FuCompleted, FuCancelled}) \<and>
     sha256_hex (ft_command_hash t) \<and> length (btrim (ft_correlation_id t)) > 0 \<and>
     length (btrim (ft_idempotency_key t)) > 0"

definition follow_up_event_checks :: "follow_up_event \<Rightarrow> bool" where
  "follow_up_event_checks e \<longleftrightarrow>
     (case fe_event_type e of
        FuEvScheduled \<Rightarrow> fe_state_version e = 0 \<and> fe_from_status e = None \<and> fe_to_status e = FuScheduled
      | FuEvTransitioned \<Rightarrow> fe_state_version e > 0 \<and> fe_from_status e \<noteq> None \<and> fe_from_status e \<noteq> Some (fe_to_status e)
      | FuEvDeferred \<Rightarrow> fe_state_version e > 0 \<and> fe_from_status e = Some FuScheduled \<and> fe_to_status e = FuScheduled
      | FuEvLegacyQuarantined \<Rightarrow> fe_state_version e > 0 \<and>
          fe_from_status e \<in> {Some FuScheduled, Some FuInProgress} \<and> fe_to_status e = FuReviewRequired) \<and>
     (case fe_actor_type e of
        FuAgent \<Rightarrow> fe_actor_agent_id e \<noteq> None \<and> fe_actor_admin_id e = None \<and> fe_actor_worker_id e = None
      | FuOperator \<Rightarrow> fe_actor_agent_id e = None \<and> fe_actor_admin_id e \<noteq> None \<and> fe_actor_worker_id e = None
      | FuWorker \<Rightarrow> fe_actor_agent_id e = None \<and> fe_actor_admin_id e = None \<and> filled (fe_actor_worker_id e)
      | _ \<Rightarrow> fe_actor_agent_id e = None \<and> fe_actor_admin_id e = None \<and> fe_actor_worker_id e = None) \<and>
     (fe_event_type e = FuEvLegacyQuarantined \<or> fe_safe_code e = Some ''legacy_follow_up_context_unknown'' \<or>
        (fe_routing_agent_id e \<noteq> None \<and> fe_automation_agent_id e \<noteq> None \<and> filled (fe_target_channel e) \<and>
         fe_control_version e \<noteq> None \<and> fe_automation_version e \<noteq> None \<and> fe_scheduled_policy_version e \<noteq> None)) \<and>
     non_negative (fe_control_version e) \<and> non_negative (fe_automation_version e) \<and>
     non_negative (fe_scheduled_policy_version e) \<and> non_negative (fe_executed_policy_version e) \<and>
     target_channel_ok (fe_target_channel e) \<and>
     (fe_safe_code e = None \<or> filled (fe_safe_code e)) \<and>
     sha256_hex (fe_command_hash e) \<and> length (btrim (fe_correlation_id e)) > 0 \<and>
     length (btrim (fe_idempotency_key e)) > 0"

definition task_message_clash :: "follow_up_task \<Rightarrow> follow_up_task \<Rightarrow> bool" where
  "task_message_clash t x \<longleftrightarrow> ft_id x \<noteq> ft_id t \<and>
     ((ft_chat_message_id t \<noteq> None \<and> ft_chat_message_id x = ft_chat_message_id t) \<or>
      (ft_outbound_message_id t \<noteq> None \<and> ft_outbound_message_id x = ft_outbound_message_id t))"

definition update_follow_up_task :: "follow_up_task \<Rightarrow> store \<Rightarrow> store option" where
  "update_follow_up_task t s =
     (if \<not> follow_up_task_checks t \<or> list_ex (task_message_clash t) (follow_up_tasks s) then None
      else Some (s\<lparr>follow_up_tasks := put_row ft_id t (follow_up_tasks s)\<rparr>))"

definition insert_follow_up_task :: "follow_up_task \<Rightarrow> store \<Rightarrow> store option" where
  "insert_follow_up_task t s =
     (if \<not> follow_up_task_checks t \<or>
         list_ex (\<lambda>x. ft_id x = ft_id t \<or> task_message_clash t x \<or>
           (ft_opportunity_id x = ft_opportunity_id t \<and> ft_idempotency_key x = ft_idempotency_key t)) (follow_up_tasks s)
      then None else Some (s\<lparr>follow_up_tasks := follow_up_tasks s @ [t]\<rparr>))"

definition follow_up_event_clash :: "follow_up_event \<Rightarrow> follow_up_event \<Rightarrow> bool" where
  "follow_up_event_clash e x \<longleftrightarrow> fe_id x = fe_id e \<or>
     (fe_task_id x = fe_task_id e \<and>
        (fe_state_version x = fe_state_version e \<or> fe_idempotency_key x = fe_idempotency_key e)) \<or>
     (fe_chat_message_id e \<noteq> None \<and> fe_chat_message_id x = fe_chat_message_id e) \<or>
     (fe_outbound_message_id e \<noteq> None \<and> fe_outbound_message_id x = fe_outbound_message_id e)"

definition insert_follow_up_event :: "follow_up_event \<Rightarrow> store \<Rightarrow> store option" where
  "insert_follow_up_event e s =
     (if \<not> follow_up_event_checks e \<or> list_ex (follow_up_event_clash e) (follow_up_events s) then None
      else Some (s\<lparr>follow_up_events := follow_up_events s @ [e]\<rparr>))"

lemma update_follow_up_task_Some: "update_follow_up_task t s = Some s' \<longleftrightarrow>
    follow_up_task_checks t \<and> (\<forall>x\<in>set (follow_up_tasks s). \<not> task_message_clash t x) \<and>
    s' = s\<lparr>follow_up_tasks := put_row ft_id t (follow_up_tasks s)\<rparr>"
  by (auto simp: update_follow_up_task_def list_ex_iff)

lemma insert_follow_up_event_Some: "insert_follow_up_event e s = Some s' \<longleftrightarrow>
    follow_up_event_checks e \<and> (\<forall>x\<in>set (follow_up_events s). \<not> follow_up_event_clash e x) \<and>
    s' = s\<lparr>follow_up_events := follow_up_events s @ [e]\<rparr>"
  by (auto simp: insert_follow_up_event_def list_ex_iff)

end
