(* ===== verification/Opportunities.thy ===== *)
theory Opportunities
  imports FollowUpTables
begin

text \<open>
  \<open>services/commercial/opportunities.py\<close>: the commercial dossier of a contact. It is created from a
  conversation that proves access to the contact, moves between stages until it is won or lost, changes
  owner, and is linked to further conversations; every stage or owner change starts the next epoch and
  leaves an event, and a change of owner takes the active follow-ups of the dossier out of the
  scheduler's hands.
\<close>

section \<open>Errors and commands\<close>

datatype opportunity_error =
    OppNotFound
  | OppVersionConflict
  | OppIdempotency
  | OppInvalid string
  | OppIntegrity

definition terminal_stage :: "opportunity_stage \<Rightarrow> bool" where
  "terminal_stage st \<longleftrightarrow> st \<in> {StWon, StLost}"

definition opportunity_reassigned :: string where "opportunity_reassigned = ''opportunity_reassigned''"

definition reassignable :: "follow_up_status \<Rightarrow> bool" where
  "reassignable st \<longleftrightarrow> st \<in> {FuScheduled, FuDispatchQueued, FuInProgress}"

definition opportunity_stages :: "opportunity_stage list" where
  "opportunity_stages = [StNew, StQualified, StProposalRequested, StProposalPreparing, StProposalSent, StNegotiation,
     StMeetingScheduled, StWon, StLost, StPaused]"

record create_command =
  co_contact_id :: uuid
  co_source_conversation_id :: uuid
  co_created_by_agent_id :: uuid
  co_assigned_agent_id :: uuid
  co_assigned_operator_id :: "uuid option"
  co_title :: string
  co_summary :: "string option"
  co_correlation_id :: string
  co_idempotency_key :: string

record stage_command =
  sg_opportunity_id :: uuid
  sg_actor_agent_id :: uuid
  sg_actor_operator_id :: "uuid option"
  sg_target_stage :: string
  sg_expected_version :: int
  sg_reason :: "string option"
  sg_correlation_id :: string
  sg_idempotency_key :: string
  sg_occurred_at :: "datetime option"

record reassign_command =
  ra_opportunity_id :: uuid
  ra_actor_agent_id :: uuid
  ra_actor_operator_id :: "uuid option"
  ra_assigned_agent_id :: uuid
  ra_assigned_operator_id :: "uuid option"
  ra_expected_version :: int
  ra_reason :: "string option"
  ra_correlation_id :: string
  ra_idempotency_key :: string

record link_command =
  lk_opportunity_id :: uuid
  lk_conversation_id :: uuid
  lk_actor_agent_id :: uuid
  lk_actor_operator_id :: "uuid option"
  lk_correlation_id :: string
  lk_idempotency_key :: string

definition opp_required_text :: "string \<Rightarrow> string \<Rightarrow> nat \<Rightarrow> opportunity_error + string" where
  "opp_required_text = policy_required_text OppInvalid"

definition opp_optional_text :: "string option \<Rightarrow> nat \<Rightarrow> opportunity_error + string option" where
  "opp_optional_text = policy_optional_text OppInvalid"

definition opp_assert_hash :: "string \<Rightarrow> string \<Rightarrow> opportunity_error + unit" where
  "opp_assert_hash = policy_assert_hash OppIdempotency"

section \<open>Reads and guards\<close>

text \<open>\<open>_load_contact\<close>.\<close>

definition load_contact :: "store \<Rightarrow> uuid \<Rightarrow> opportunity_error + contact" where
  "load_contact s cid =
     (case find (\<lambda>c. ct_id c = cid) (contacts s) of
        None \<Rightarrow> Inl (OppInvalid ''commercial contact is unavailable'')
      | Some c \<Rightarrow> if ct_status c = ContactArchived then Inl (OppInvalid ''commercial contact is unavailable'') else Inr c)"

text \<open>\<open>_assert_active_assignment\<close>.\<close>

definition assert_active_assignment :: "store \<Rightarrow> uuid \<Rightarrow> uuid option \<Rightarrow> opportunity_error + unit" where
  "assert_active_assignment s aid operator =
     (case find (\<lambda>a. ag_id a = aid) (agents s) of
        None \<Rightarrow> Inl (OppInvalid ''assigned agent is unavailable'')
      | Some a \<Rightarrow>
          if \<not> ag_is_active a then Inl (OppInvalid ''assigned agent is unavailable'')
          else
            (case operator of
               None \<Rightarrow> Inr ()
             | Some oid \<Rightarrow>
                 (case find (\<lambda>u. ad_id u = oid) (admins s) of
                    None \<Rightarrow> Inl (OppInvalid ''assigned operator is unavailable'')
                  | Some u \<Rightarrow>
                      if \<not> ad_is_active u then Inl (OppInvalid ''assigned operator is unavailable'') else Inr ())))"

text \<open>\<open>_load_for_update\<close>.\<close>

definition load_opportunity :: "store \<Rightarrow> uuid \<Rightarrow> opportunity_error + opportunity" where
  "load_opportunity s oid =
     (case find (\<lambda>p. op_id p = oid) (opportunities s) of None \<Rightarrow> Inl OppNotFound | Some p \<Rightarrow> Inr p)"

text \<open>\<open>_assert_owner\<close>, \<open>_assert_version\<close>.\<close>

definition assert_owner :: "opportunity \<Rightarrow> uuid \<Rightarrow> uuid option \<Rightarrow> opportunity_error + unit" where
  "assert_owner p agent operator =
     (if op_assigned_agent_id p \<noteq> agent then Inl OppNotFound
      else if op_assigned_operator_id p \<noteq> None \<and> op_assigned_operator_id p \<noteq> operator then Inl OppNotFound
      else Inr ())"

definition assert_opportunity_version :: "opportunity \<Rightarrow> int \<Rightarrow> opportunity_error + unit" where
  "assert_opportunity_version p expected =
     (if expected < 0 \<or> op_control_version p \<noteq> expected then Inl OppVersionConflict else Inr ())"

definition lock_owned :: "store \<Rightarrow> uuid \<Rightarrow> uuid \<Rightarrow> uuid option \<Rightarrow> opportunity_error + opportunity" where
  "lock_owned s oid agent operator =
     bindE (load_opportunity s oid) (\<lambda>p. bindE (assert_owner p agent operator) (\<lambda>_. Inr p))"

section \<open>Writes\<close>

text \<open>The constraints of the four tables of \<open>models/opportunity.py\<close>.\<close>

definition link_checks :: "conversation_link \<Rightarrow> bool" where
  "link_checks l \<longleftrightarrow> sha256_hex (ol_command_hash l) \<and> length (btrim (ol_correlation_id l)) > 0 \<and>
     length (btrim (ol_idempotency_key l)) > 0"

definition insert_opportunity :: "opportunity \<Rightarrow> store \<Rightarrow> opportunity_error + store" where
  "insert_opportunity p s =
     (if \<not> opportunity_checks p \<or>
         list_ex (\<lambda>x. op_id x = op_id p \<or>
           (op_created_by_agent_id x = op_created_by_agent_id p \<and> op_idempotency_key x = op_idempotency_key p))
           (opportunities s)
      then Inl OppIntegrity else Inr (s\<lparr>opportunities := opportunities s @ [p]\<rparr>))"

definition update_opportunity :: "opportunity \<Rightarrow> store \<Rightarrow> opportunity_error + store" where
  "update_opportunity p s =
     (if \<not> opportunity_checks p then Inl OppIntegrity
      else Inr (s\<lparr>opportunities := put_row op_id p (opportunities s)\<rparr>))"

definition insert_stage_event :: "stage_event \<Rightarrow> store \<Rightarrow> opportunity_error + store" where
  "insert_stage_event e s =
     (if \<not> stage_event_checks e \<or>
         list_ex (\<lambda>x. se_id x = se_id e \<or> (se_opportunity_id x = se_opportunity_id e \<and>
           (se_control_version x = se_control_version e \<or> se_idempotency_key x = se_idempotency_key e))) (stage_events s)
      then Inl OppIntegrity else Inr (s\<lparr>stage_events := stage_events s @ [e]\<rparr>))"

definition insert_ownership_event :: "ownership_event \<Rightarrow> store \<Rightarrow> opportunity_error + store" where
  "insert_ownership_event e s =
     (if \<not> ownership_event_checks e \<or>
         list_ex (\<lambda>x. we_id x = we_id e \<or> (we_opportunity_id x = we_opportunity_id e \<and>
           (we_control_version x = we_control_version e \<or> we_idempotency_key x = we_idempotency_key e)))
           (ownership_events s)
      then Inl OppIntegrity else Inr (s\<lparr>ownership_events := ownership_events s @ [e]\<rparr>))"

definition insert_link :: "conversation_link \<Rightarrow> store \<Rightarrow> opportunity_error + store" where
  "insert_link l s =
     (if \<not> link_checks l \<or>
         list_ex (\<lambda>x. ol_id x = ol_id l \<or> (ol_opportunity_id x = ol_opportunity_id l \<and>
           ((ol_conversation_id l \<noteq> None \<and> ol_conversation_id x = ol_conversation_id l) \<or>
            ol_idempotency_key x = ol_idempotency_key l))) (conversation_links s)
      then Inl OppIntegrity else Inr (s\<lparr>conversation_links := conversation_links s @ [l]\<rparr>))"

text \<open>\<open>_new_conversation_link\<close>; its digest is the one \<open>link_conversation\<close> compares.\<close>

definition link_literal :: "uuid \<Rightarrow> uuid option \<Rightarrow> uuid \<Rightarrow> uuid \<Rightarrow> (string \<times> json) list" where
  "link_literal agent operator cid oid =
     [(''actor_agent_id'', uuid_json agent), (''actor_operator_id'', opt_json uuid_json operator),
      (''conversation_id'', uuid_json cid), (''opportunity_id'', uuid_json oid)]"

definition new_conversation_link ::
  "env \<Rightarrow> opportunity \<Rightarrow> conversation \<Rightarrow> uuid \<Rightarrow> uuid option \<Rightarrow> string \<Rightarrow> string \<Rightarrow> conversation_link" where
  "new_conversation_link E p c agent operator correlation key =
     \<lparr>ol_id = uuid5 E (op_id p) (''conversation:'' @ uuid_str (cv_id c)), ol_opportunity_id = op_id p,
      ol_conversation_id = Some (cv_id c), ol_linked_by_agent_id = agent, ol_linked_by_operator_id = operator,
      ol_correlation_id = correlation, ol_idempotency_key = key,
      ol_command_hash = policy_command_hash E (link_literal agent operator (cv_id c) (op_id p)),
      ol_created_at = tx_now E\<rparr>"

section \<open>Creating a dossier\<close>

definition create_literal :: "create_command \<Rightarrow> string \<Rightarrow> string option \<Rightarrow> (string \<times> json) list" where
  "create_literal cmd title summary =
     [(''assigned_agent_id'', uuid_json (co_assigned_agent_id cmd)),
      (''assigned_operator_id'', opt_json uuid_json (co_assigned_operator_id cmd)),
      (''contact_id'', uuid_json (co_contact_id cmd)),
      (''source_conversation_id'', uuid_json (co_source_conversation_id cmd)),
      (''summary'', opt_json JStr summary),
      (''title'', JStr title)]"

record prepared_create =
  pc_title :: string
  pc_summary :: "string option"
  pc_correlation :: string
  pc_key :: string
  pc_contact :: contact
  pc_conversation :: conversation
  pc_command_hash :: string

definition prepare_create :: "env \<Rightarrow> store \<Rightarrow> create_command \<Rightarrow> opportunity_error + prepared_create" where
  "prepare_create E s cmd =
     bindE (opp_required_text (co_title cmd) ''title'' 200) (\<lambda>title.
     bindE (opp_optional_text (co_summary cmd) 8000) (\<lambda>summary.
     bindE (opp_required_text (co_correlation_id cmd) ''correlation_id'' 120) (\<lambda>correlation.
     bindE (opp_required_text (co_idempotency_key cmd) ''idempotency_key'' 220) (\<lambda>key.
     bindE (assert_active_assignment s (co_assigned_agent_id cmd) (co_assigned_operator_id cmd)) (\<lambda>_.
     bindE (load_contact s (co_contact_id cmd)) (\<lambda>contact.
     case get_conversation s (co_source_conversation_id cmd) of
       None \<Rightarrow> Inl (OppInvalid ''source conversation does not prove contact access'')
     | Some c \<Rightarrow>
         if cv_agent_id c \<noteq> co_created_by_agent_id cmd \<or> cv_principal_id c \<noteq> ct_principal_id contact
         then Inl (OppInvalid ''source conversation does not prove contact access'')
         else Inr \<lparr>pc_title = title, pc_summary = summary, pc_correlation = correlation, pc_key = key,
                pc_contact = contact, pc_conversation = c,
                pc_command_hash = policy_command_hash E (create_literal cmd title summary)\<rparr>))))))"

definition created_opportunity :: "env \<Rightarrow> create_command \<Rightarrow> prepared_create \<Rightarrow> opportunity" where
  "created_opportunity E cmd p =
     \<lparr>op_id = uuid5 E (co_created_by_agent_id cmd) (''opportunity:'' @ pc_key p), op_created_at = tx_now E,
      op_contact_id = ct_id (pc_contact p), op_created_by_agent_id = co_created_by_agent_id cmd,
      op_assigned_agent_id = co_assigned_agent_id cmd, op_assigned_operator_id = co_assigned_operator_id cmd,
      op_stage = StNew, op_control_version = 0, op_title = pc_title p, op_summary = pc_summary p,
      op_correlation_id = pc_correlation p, op_idempotency_key = pc_key p, op_command_hash = pc_command_hash p,
      op_closed_at = None\<rparr>"

definition first_stage_event :: "env \<Rightarrow> create_command \<Rightarrow> prepared_create \<Rightarrow> opportunity \<Rightarrow> stage_event" where
  "first_stage_event E cmd p o1 =
     \<lparr>se_id = uuid5 E (op_id o1) ''stage:0'', se_opportunity_id = op_id o1,
      se_assigned_agent_id = co_assigned_agent_id cmd, se_actor_operator_id = co_assigned_operator_id cmd,
      se_event_type = StageCreated, se_from_stage = None, se_to_stage = StNew, se_control_version = 0,
      se_reason = None, se_correlation_id = pc_correlation p, se_idempotency_key = pc_key p,
      se_command_hash = policy_command_hash E
        [(''event_type'', JStr ''created''), (''opportunity_id'', uuid_json (op_id o1)), (''to_stage'', JStr (stage_value StNew))],
      se_created_at = tx_now E\<rparr>"

definition first_ownership_event :: "env \<Rightarrow> create_command \<Rightarrow> prepared_create \<Rightarrow> opportunity \<Rightarrow> ownership_event" where
  "first_ownership_event E cmd p o1 =
     \<lparr>we_id = uuid5 E (op_id o1) ''ownership:0'', we_opportunity_id = op_id o1,
      we_actor_agent_id = co_created_by_agent_id cmd, we_actor_operator_id = co_assigned_operator_id cmd,
      we_event_type = OwnershipCreated, we_from_agent_id = None, we_to_agent_id = co_assigned_agent_id cmd,
      we_from_operator_id = None, we_to_operator_id = co_assigned_operator_id cmd, we_control_version = 0,
      we_reason = None, we_correlation_id = pc_correlation p, we_idempotency_key = pc_key p,
      we_command_hash = policy_command_hash E
        [(''event_type'', JStr ''created''), (''opportunity_id'', uuid_json (op_id o1)),
         (''to_agent_id'', uuid_json (co_assigned_agent_id cmd)),
         (''to_operator_id'', opt_json uuid_json (co_assigned_operator_id cmd))],
      we_created_at = tx_now E\<rparr>"

definition create_receipt :: "store \<Rightarrow> uuid \<Rightarrow> string \<Rightarrow> opportunity option" where
  "create_receipt s agent key =
     find (\<lambda>p. op_created_by_agent_id p = agent \<and> op_idempotency_key p = key) (opportunities s)"

definition create_opportunity ::
  "env \<Rightarrow> create_command \<Rightarrow> store \<Rightarrow> opportunity_error + (store \<times> opportunity \<times> bool)" where
  "create_opportunity E cmd s =
     bindE (prepare_create E s cmd) (\<lambda>p.
     case create_receipt s (co_created_by_agent_id cmd) (pc_key p) of
       Some x \<Rightarrow> bindE (opp_assert_hash (op_command_hash x) (pc_command_hash p)) (\<lambda>_. Inr (s, x, False))
     | None \<Rightarrow>
         let o1 = created_opportunity E cmd p in
         bindE (insert_opportunity o1 s) (\<lambda>s1.
         bindE (insert_stage_event (first_stage_event E cmd p o1) s1) (\<lambda>s2.
         bindE (insert_ownership_event (first_ownership_event E cmd p o1) s2) (\<lambda>s3.
         bindE (insert_link (new_conversation_link E o1 (pc_conversation p) (co_created_by_agent_id cmd)
                  (co_assigned_operator_id cmd) (pc_correlation p) (pc_key p)) s3) (\<lambda>s4.
           Inr (s4, o1, True))))))"

section \<open>Moving between stages\<close>

definition stage_literal :: "stage_command \<Rightarrow> opportunity_stage \<Rightarrow> string option \<Rightarrow> (string \<times> json) list" where
  "stage_literal cmd target reason =
     [(''actor_agent_id'', uuid_json (sg_actor_agent_id cmd)),
      (''actor_operator_id'', opt_json uuid_json (sg_actor_operator_id cmd)),
      (''expected_version'', JInt (sg_expected_version cmd)),
      (''opportunity_id'', uuid_json (sg_opportunity_id cmd)),
      (''reason'', opt_json JStr reason),
      (''target_stage'', JStr (stage_value target))]"

record prepared_stage =
  ps_target :: opportunity_stage
  ps_reason :: "string option"
  ps_correlation :: string
  ps_key :: string
  ps_event_time :: instant
  ps_command_hash :: string

definition prepare_stage :: "env \<Rightarrow> stage_command \<Rightarrow> opportunity_error + prepared_stage" where
  "prepare_stage E cmd =
     bindE (policy_enum_value OppInvalid stage_value opportunity_stages (sg_target_stage cmd) ''stage'') (\<lambda>target.
     bindE (opp_optional_text (sg_reason cmd) 8000) (\<lambda>reason.
     bindE (opp_required_text (sg_correlation_id cmd) ''correlation_id'' 120) (\<lambda>correlation.
     bindE (opp_required_text (sg_idempotency_key cmd) ''idempotency_key'' 220) (\<lambda>key.
     bindE (policy_aware_utc OppInvalid (case sg_occurred_at cmd of Some d \<Rightarrow> d | None \<Rightarrow> Aware (clock E) 0) ''occurred_at'')
       (\<lambda>event_time.
       Inr \<lparr>ps_target = target, ps_reason = reason, ps_correlation = correlation, ps_key = key,
            ps_event_time = event_time, ps_command_hash = policy_command_hash E (stage_literal cmd target reason)\<rparr>)))))"

definition stage_receipt :: "store \<Rightarrow> uuid \<Rightarrow> string \<Rightarrow> stage_event option" where
  "stage_receipt s oid key = find (\<lambda>e. se_opportunity_id e = oid \<and> se_idempotency_key e = key) (stage_events s)"

definition staged_opportunity :: "opportunity \<Rightarrow> opportunity_stage \<Rightarrow> instant \<Rightarrow> opportunity" where
  "staged_opportunity o1 target event_time =
     (let o2 = o1\<lparr>op_control_version := op_control_version o1 + 1, op_stage := target\<rparr>
      in if terminal_stage target then o2\<lparr>op_closed_at := Some event_time\<rparr> else o2)"

definition new_stage_event :: "env \<Rightarrow> stage_command \<Rightarrow> prepared_stage \<Rightarrow> opportunity \<Rightarrow> opportunity \<Rightarrow> stage_event" where
  "new_stage_event E cmd p o1 o2 =
     \<lparr>se_id = uuid5 E (op_id o2) (''stage:'' @ int_str (op_control_version o2)), se_opportunity_id = op_id o2,
      se_assigned_agent_id = op_assigned_agent_id o2, se_actor_operator_id = sg_actor_operator_id cmd,
      se_event_type = StageChanged, se_from_stage = Some (op_stage o1), se_to_stage = ps_target p,
      se_control_version = op_control_version o2, se_reason = ps_reason p, se_correlation_id = ps_correlation p,
      se_idempotency_key = ps_key p, se_command_hash = ps_command_hash p, se_created_at = ps_event_time p\<rparr>"

definition transition_stage ::
  "env \<Rightarrow> stage_command \<Rightarrow> store \<Rightarrow> opportunity_error + (store \<times> opportunity \<times> bool)" where
  "transition_stage E cmd s =
     bindE (prepare_stage E cmd) (\<lambda>p.
     bindE (load_opportunity s (sg_opportunity_id cmd)) (\<lambda>o1.
     case stage_receipt s (op_id o1) (ps_key p) of
       Some e \<Rightarrow>
         if se_assigned_agent_id e \<noteq> sg_actor_agent_id cmd then Inl OppNotFound
         else bindE (opp_assert_hash (se_command_hash e) (ps_command_hash p)) (\<lambda>_. Inr (s, o1, False))
     | None \<Rightarrow>
         bindE (assert_owner o1 (sg_actor_agent_id cmd) (sg_actor_operator_id cmd)) (\<lambda>_.
         bindE (assert_opportunity_version o1 (sg_expected_version cmd)) (\<lambda>_.
         if terminal_stage (op_stage o1) then Inl (OppInvalid ''a closed opportunity cannot change stage'')
         else if ps_target p = StNew \<or> ps_target p = op_stage o1
         then Inl (OppInvalid ''invalid opportunity stage transition'')
         else
           let o2 = staged_opportunity o1 (ps_target p) (ps_event_time p) in
           bindE (update_opportunity o2 s) (\<lambda>s1.
           bindE (insert_stage_event (new_stage_event E cmd p o1 o2) s1) (\<lambda>s2. Inr (s2, o2, True)))))))"

section \<open>Changing owner\<close>

definition reassign_literal :: "reassign_command \<Rightarrow> string option \<Rightarrow> (string \<times> json) list" where
  "reassign_literal cmd reason =
     [(''actor_agent_id'', uuid_json (ra_actor_agent_id cmd)),
      (''actor_operator_id'', opt_json uuid_json (ra_actor_operator_id cmd)),
      (''assigned_agent_id'', uuid_json (ra_assigned_agent_id cmd)),
      (''assigned_operator_id'', opt_json uuid_json (ra_assigned_operator_id cmd)),
      (''expected_version'', JInt (ra_expected_version cmd)),
      (''opportunity_id'', uuid_json (ra_opportunity_id cmd)),
      (''reason'', opt_json JStr reason)]"

record prepared_reassign =
  pa_reason :: "string option"
  pa_correlation :: string
  pa_key :: string
  pa_command_hash :: string

definition prepare_reassign :: "env \<Rightarrow> store \<Rightarrow> reassign_command \<Rightarrow> opportunity_error + prepared_reassign" where
  "prepare_reassign E s cmd =
     bindE (opp_optional_text (ra_reason cmd) 8000) (\<lambda>reason.
     bindE (opp_required_text (ra_correlation_id cmd) ''correlation_id'' 120) (\<lambda>correlation.
     bindE (opp_required_text (ra_idempotency_key cmd) ''idempotency_key'' 220) (\<lambda>key.
     bindE (assert_active_assignment s (ra_assigned_agent_id cmd) (ra_assigned_operator_id cmd)) (\<lambda>_.
       Inr \<lparr>pa_reason = reason, pa_correlation = correlation, pa_key = key,
            pa_command_hash = policy_command_hash E (reassign_literal cmd reason)\<rparr>))))"

definition ownership_receipt :: "store \<Rightarrow> uuid \<Rightarrow> string \<Rightarrow> ownership_event option" where
  "ownership_receipt s oid key =
     find (\<lambda>e. we_opportunity_id e = oid \<and> we_idempotency_key e = key) (ownership_events s)"

text \<open>The inner join of the active tasks of the dossier with their conversations, in the order of the
  task identifiers.\<close>

definition active_follow_ups :: "store \<Rightarrow> uuid \<Rightarrow> (follow_up_task \<times> conversation) list" where
  "active_follow_ups s oid =
     List.map_filter (\<lambda>t. Option.bind (ft_conversation_id t) (\<lambda>cid. map_option (Pair t) (get_conversation s cid)))
       (sort_key ft_id (filter (\<lambda>t. ft_opportunity_id t = oid \<and> reassignable (ft_status t)) (follow_up_tasks s)))"

definition suspended_task :: "env \<Rightarrow> follow_up_task \<Rightarrow> follow_up_task" where
  "suspended_task E t =
     t\<lparr>ft_state_version := ft_state_version t + 1, ft_status := FuReviewRequired,
       ft_review_required_at := Some (clock E), ft_lease_owner := None, ft_lease_expires_at := None,
       ft_last_safe_code := Some opportunity_reassigned, ft_updated_at := tx_now E\<rparr>"

definition suspension_event ::
  "env \<Rightarrow> reassign_command \<Rightarrow> string \<Rightarrow> uuid \<Rightarrow> uuid \<Rightarrow> follow_up_task \<times> conversation \<Rightarrow> follow_up_event" where
  "suspension_event E cmd correlation oid ownership_id tc =
     (let t = fst tc; c = snd tc; t1 = suspended_task E t;
          key = ''opportunity-reassigned:'' @ uuid_str ownership_id
      in \<lparr>fe_id = uuid5 E (ft_id t) (''follow-up-event:'' @ key), fe_task_id = ft_id t, fe_opportunity_id = oid,
          fe_event_type = FuEvTransitioned, fe_from_status = Some (ft_status t), fe_to_status = FuReviewRequired,
          fe_state_version = ft_state_version t1,
          fe_actor_type = (if ra_actor_operator_id cmd \<noteq> None then FuOperator else FuAgent),
          fe_actor_agent_id = (if ra_actor_operator_id cmd \<noteq> None then None else Some (ra_actor_agent_id cmd)),
          fe_actor_admin_id = ra_actor_operator_id cmd, fe_actor_worker_id = None,
          fe_routing_agent_id = Some (cv_agent_id c), fe_automation_agent_id = Some (ft_assigned_agent_id t),
          fe_target_channel = ft_target_channel t, fe_control_version = ft_scheduled_control_version t,
          fe_automation_version = ft_scheduled_automation_version t,
          fe_scheduled_policy_version = ft_scheduled_policy_version t,
          fe_executed_policy_version = ft_executed_policy_version t, fe_consent_record_id = ft_consent_record_id t,
          fe_executed_consent_record_id = ft_executed_consent_record_id t, fe_caused_by_consent_record_id = None,
          fe_chat_message_id = ft_chat_message_id t, fe_outbound_message_id = ft_outbound_message_id t,
          fe_source_conversation_id =
            (case ft_source_conversation_id t of Some i \<Rightarrow> Some i | None \<Rightarrow> ft_conversation_id t),
          fe_had_chat_message_evidence = (ft_had_chat_message_evidence t \<or> ft_chat_message_id t \<noteq> None),
          fe_had_outbound_message_evidence = (ft_had_outbound_message_evidence t \<or> ft_outbound_message_id t \<noteq> None),
          fe_safe_code = Some opportunity_reassigned, fe_correlation_id = correlation, fe_idempotency_key = key,
          fe_command_hash = policy_command_hash E
            [(''from_status'', JStr (follow_up_status_value (ft_status t))),
             (''opportunity_ownership_event_id'', uuid_json ownership_id),
             (''safe_code'', JStr opportunity_reassigned), (''task_id'', uuid_json (ft_id t)),
             (''to_status'', JStr ''review_required'')],
          fe_created_at = clock E\<rparr>)"

fun suspend_follow_ups ::
  "env \<Rightarrow> reassign_command \<Rightarrow> string \<Rightarrow> uuid \<Rightarrow> uuid \<Rightarrow> (follow_up_task \<times> conversation) list \<Rightarrow> store \<Rightarrow>
     opportunity_error + store" where
  "suspend_follow_ups E cmd correlation oid wid [] s = Inr s"
| "suspend_follow_ups E cmd correlation oid wid (tc # tcs) s =
     (case update_follow_up_task (suspended_task E (fst tc)) s of
        None \<Rightarrow> Inl OppIntegrity
      | Some s1 \<Rightarrow>
          (case insert_follow_up_event (suspension_event E cmd correlation oid wid tc) s1 of
             None \<Rightarrow> Inl OppIntegrity
           | Some s2 \<Rightarrow> suspend_follow_ups E cmd correlation oid wid tcs s2))"

definition ownership_event_id :: "env \<Rightarrow> opportunity \<Rightarrow> uuid" where
  "ownership_event_id E o1 = uuid5 E (op_id o1) (''ownership:'' @ int_str (op_control_version o1 + 1))"

definition reassigned_opportunity :: "reassign_command \<Rightarrow> opportunity \<Rightarrow> opportunity" where
  "reassigned_opportunity cmd o1 =
     o1\<lparr>op_control_version := op_control_version o1 + 1, op_assigned_agent_id := ra_assigned_agent_id cmd,
        op_assigned_operator_id := ra_assigned_operator_id cmd\<rparr>"

definition new_ownership_event :: "env \<Rightarrow> reassign_command \<Rightarrow> prepared_reassign \<Rightarrow> opportunity \<Rightarrow> ownership_event" where
  "new_ownership_event E cmd p o1 =
     \<lparr>we_id = ownership_event_id E o1, we_opportunity_id = op_id o1, we_actor_agent_id = ra_actor_agent_id cmd,
      we_actor_operator_id = ra_actor_operator_id cmd, we_event_type = OwnershipReassigned,
      we_from_agent_id = Some (op_assigned_agent_id o1), we_to_agent_id = ra_assigned_agent_id cmd,
      we_from_operator_id = op_assigned_operator_id o1, we_to_operator_id = ra_assigned_operator_id cmd,
      we_control_version = op_control_version o1 + 1, we_reason = pa_reason p, we_correlation_id = pa_correlation p,
      we_idempotency_key = pa_key p, we_command_hash = pa_command_hash p, we_created_at = clock E\<rparr>"

definition reassign ::
  "env \<Rightarrow> reassign_command \<Rightarrow> store \<Rightarrow> opportunity_error + (store \<times> opportunity \<times> bool)" where
  "reassign E cmd s =
     bindE (prepare_reassign E s cmd) (\<lambda>p.
     bindE (load_opportunity s (ra_opportunity_id cmd)) (\<lambda>o1.
     case ownership_receipt s (op_id o1) (pa_key p) of
       Some e \<Rightarrow>
         if we_actor_agent_id e \<noteq> ra_actor_agent_id cmd then Inl OppNotFound
         else bindE (opp_assert_hash (we_command_hash e) (pa_command_hash p)) (\<lambda>_. Inr (s, o1, False))
     | None \<Rightarrow>
         bindE (assert_owner o1 (ra_actor_agent_id cmd) (ra_actor_operator_id cmd)) (\<lambda>_.
         bindE (assert_opportunity_version o1 (ra_expected_version cmd)) (\<lambda>_.
         if op_assigned_agent_id o1 = ra_assigned_agent_id cmd \<and> op_assigned_operator_id o1 = ra_assigned_operator_id cmd
         then Inl (OppInvalid ''opportunity assignment is unchanged'')
         else
           bindE (suspend_follow_ups E cmd (pa_correlation p) (op_id o1) (ownership_event_id E o1)
                    (active_follow_ups s (op_id o1)) s) (\<lambda>s1.
           bindE (update_opportunity (reassigned_opportunity cmd o1) s1) (\<lambda>s2.
           bindE (insert_ownership_event (new_ownership_event E cmd p o1) s2) (\<lambda>s3.
             Inr (s3, reassigned_opportunity cmd o1, True))))))))"

section \<open>Linking conversations\<close>

definition link_receipt :: "store \<Rightarrow> uuid \<Rightarrow> string \<Rightarrow> conversation_link option" where
  "link_receipt s oid key = find (\<lambda>l. ol_opportunity_id l = oid \<and> ol_idempotency_key l = key) (conversation_links s)"

definition linked_conversation :: "store \<Rightarrow> uuid \<Rightarrow> uuid \<Rightarrow> conversation_link option" where
  "linked_conversation s oid cid =
     find (\<lambda>l. ol_opportunity_id l = oid \<and> ol_conversation_id l = Some cid) (conversation_links s)"

definition link_conversation ::
  "env \<Rightarrow> link_command \<Rightarrow> store \<Rightarrow> opportunity_error + (store \<times> conversation_link \<times> bool)" where
  "link_conversation E cmd s =
     bindE (opp_required_text (lk_correlation_id cmd) ''correlation_id'' 120) (\<lambda>correlation.
     bindE (opp_required_text (lk_idempotency_key cmd) ''idempotency_key'' 220) (\<lambda>key.
     bindE (load_opportunity s (lk_opportunity_id cmd)) (\<lambda>o1.
     bindE (assert_owner o1 (lk_actor_agent_id cmd) (lk_actor_operator_id cmd)) (\<lambda>_.
     let hash = policy_command_hash E
           (link_literal (lk_actor_agent_id cmd) (lk_actor_operator_id cmd) (lk_conversation_id cmd) (op_id o1)) in
     case link_receipt s (op_id o1) key of
       Some l \<Rightarrow> bindE (opp_assert_hash (ol_command_hash l) hash) (\<lambda>_. Inr (s, l, False))
     | None \<Rightarrow>
         bindE (load_contact s (op_contact_id o1)) (\<lambda>contact.
         case get_conversation s (lk_conversation_id cmd) of
           None \<Rightarrow> Inl (OppInvalid ''conversation does not belong to the current agent and opportunity contact'')
         | Some c \<Rightarrow>
             if cv_principal_id c \<noteq> ct_principal_id contact \<or> cv_agent_id c \<noteq> lk_actor_agent_id cmd
             then Inl (OppInvalid ''conversation does not belong to the current agent and opportunity contact'')
             else if linked_conversation s (op_id o1) (cv_id c) \<noteq> None then Inl OppIdempotency
             else
               let l = new_conversation_link E o1 c (lk_actor_agent_id cmd) (lk_actor_operator_id cmd) correlation key in
               bindE (insert_link l s) (\<lambda>s1. Inr (s1, l, True)))))))"

end
