(* ===== verification/OpportunityHistory.thy ===== *)
theory OpportunityHistory
  imports Opportunities Contracts
begin

text \<open>
  The evidence of a dossier. An abstract machine over the opportunities and their two event tables
  opens a dossier, moves its stage or moves its owner; every operation of the service is such a step
  (or leaves the three tables alone). The machine keeps the trail: the stage events lead from nothing
  to the current stage, the ownership events to the current owner, and the epochs \<open>1..n\<close> of a dossier
  are carried by exactly one event each, of either table.
\<close>

section \<open>The machine\<close>

type_synonym dossier_tables = "opportunity list \<times> stage_event list \<times> ownership_event list"

definition dossiers :: "store \<Rightarrow> dossier_tables" where
  "dossiers s = (opportunities s, stage_events s, ownership_events s)"

definition owner_of :: "opportunity \<Rightarrow> uuid \<times> uuid option" where
  "owner_of p = (op_assigned_agent_id p, op_assigned_operator_id p)"

definition stage_move :: "stage_event \<Rightarrow> opportunity_stage option \<times> opportunity_stage" where
  "stage_move e = (se_from_stage e, se_to_stage e)"

definition owner_move :: "ownership_event \<Rightarrow> (uuid \<times> uuid option) option \<times> (uuid \<times> uuid option)" where
  "owner_move e = (map_option (\<lambda>a. (a, we_from_operator_id e)) (we_from_agent_id e), (we_to_agent_id e, we_to_operator_id e))"

definition stage_moves :: "stage_event list \<Rightarrow> uuid \<Rightarrow> (opportunity_stage option \<times> opportunity_stage) list" where
  "stage_moves es oid = map stage_move (filter (\<lambda>e. se_opportunity_id e = oid) es)"

definition owner_moves :: "ownership_event list \<Rightarrow> uuid \<Rightarrow> ((uuid \<times> uuid option) option \<times> (uuid \<times> uuid option)) list" where
  "owner_moves es oid = map owner_move (filter (\<lambda>e. we_opportunity_id e = oid) es)"

text \<open>The epochs of a dossier that an event carries, creation apart.\<close>

definition stage_epochs :: "stage_event list \<Rightarrow> uuid \<Rightarrow> int list" where
  "stage_epochs es oid =
     map se_control_version (filter (\<lambda>e. se_opportunity_id e = oid \<and> se_event_type e = StageChanged) es)"

definition owner_epochs :: "ownership_event list \<Rightarrow> uuid \<Rightarrow> int list" where
  "owner_epochs es oid =
     map we_control_version (filter (\<lambda>e. we_opportunity_id e = oid \<and> we_event_type e = OwnershipReassigned) es)"

definition dossier_epochs :: "dossier_tables \<Rightarrow> uuid \<Rightarrow> int list" where
  "dossier_epochs t oid = (case t of (_, ss, ws) \<Rightarrow> sort (stage_epochs ss oid @ owner_epochs ws oid))"

definition dossier_next :: "dossier_tables \<Rightarrow> uuid \<Rightarrow> int option" where
  "dossier_next t oid = map_option (\<lambda>p. op_control_version p + 1) (find (\<lambda>p. op_id p = oid) (fst t))"

inductive epoch_step :: "uuid \<Rightarrow> dossier_tables \<Rightarrow> dossier_tables \<Rightarrow> bool" where
  staged: "p \<in> set ps \<Longrightarrow> \<not> terminal_stage (op_stage p) \<Longrightarrow> target \<noteq> StNew \<Longrightarrow> target \<noteq> op_stage p \<Longrightarrow>
      p' = staged_opportunity p target at \<Longrightarrow>
      se_opportunity_id e = op_id p \<Longrightarrow> se_event_type e = StageChanged \<Longrightarrow>
      stage_move e = (Some (op_stage p), target) \<Longrightarrow> se_control_version e = op_control_version p + 1 \<Longrightarrow>
      epoch_step (op_id p) (ps, ss, ws) (put_row op_id p' ps, ss @ [e], ws)"
| moved: "p \<in> set ps \<Longrightarrow> p' = reassigned_opportunity cmd p \<Longrightarrow> owner_of p' \<noteq> owner_of p \<Longrightarrow>
      we_opportunity_id e = op_id p \<Longrightarrow> we_event_type e = OwnershipReassigned \<Longrightarrow>
      owner_move e = (Some (owner_of p), owner_of p') \<Longrightarrow> we_control_version e = op_control_version p + 1 \<Longrightarrow>
      epoch_step (op_id p) (ps, ss, ws) (put_row op_id p' ps, ss, ws @ [e])"

inductive dossier_step :: "dossier_tables \<Rightarrow> dossier_tables \<Rightarrow> bool" where
  opened: "op_id p \<notin> op_id ` set ps \<Longrightarrow> op_control_version p = 0 \<Longrightarrow> op_stage p = StNew \<Longrightarrow> op_closed_at p = None \<Longrightarrow>
      se_opportunity_id e = op_id p \<Longrightarrow> se_event_type e = StageCreated \<Longrightarrow> stage_move e = (None, StNew) \<Longrightarrow>
      we_opportunity_id w = op_id p \<Longrightarrow> we_event_type w = OwnershipCreated \<Longrightarrow> owner_move w = (None, owner_of p) \<Longrightarrow>
      dossier_step (ps, ss, ws) (ps @ [p], ss @ [e], ws @ [w])"
| advanced: "epoch_step oid t t' \<Longrightarrow> dossier_step t t'"

section \<open>Well-formed tables\<close>

definition dossier_wf :: "dossier_tables \<Rightarrow> bool" where
  "dossier_wf t \<longleftrightarrow> (case t of (ps, ss, ws) \<Rightarrow>
     distinct (map op_id ps) \<and>
     (\<forall>e\<in>set ss. se_opportunity_id e \<in> op_id ` set ps) \<and> (\<forall>e\<in>set ws. we_opportunity_id e \<in> op_id ` set ps) \<and>
     (\<forall>p\<in>set ps. \<forall>v\<in>set (stage_epochs ss (op_id p) @ owner_epochs ws (op_id p)). v \<le> op_control_version p))"

lemma staged_same [simp]: "op_id (staged_opportunity p st t) = op_id p"
  "op_control_version (staged_opportunity p st t) = op_control_version p + 1"
  "op_stage (staged_opportunity p st t) = st" "owner_of (staged_opportunity p st t) = owner_of p"
  "op_created_by_agent_id (staged_opportunity p st t) = op_created_by_agent_id p"
  "op_idempotency_key (staged_opportunity p st t) = op_idempotency_key p"
  by (simp_all add: staged_opportunity_def owner_of_def Let_def)

lemma reassigned_same [simp]: "op_id (reassigned_opportunity cmd p) = op_id p"
  "op_control_version (reassigned_opportunity cmd p) = op_control_version p + 1"
  "op_stage (reassigned_opportunity cmd p) = op_stage p" "op_closed_at (reassigned_opportunity cmd p) = op_closed_at p"
  "owner_of (reassigned_opportunity cmd p) = (ra_assigned_agent_id cmd, ra_assigned_operator_id cmd)"
  "op_created_by_agent_id (reassigned_opportunity cmd p) = op_created_by_agent_id p"
  "op_idempotency_key (reassigned_opportunity cmd p) = op_idempotency_key p"
  by (simp_all add: reassigned_opportunity_def owner_of_def)

text \<open>What both kinds of step do to the rows: the row of the dossier takes the next epoch.\<close>

lemma epoch_step_rows:
  assumes "epoch_step k (ps, ss, ws) (ps', ss', ws')"
  obtains p p' where "p \<in> set ps" "op_id p = k" "op_id p' = k" "op_control_version p' = op_control_version p + 1"
    "ps' = put_row op_id p' ps"
    "(\<exists>e. ss' = ss @ [e] \<and> ws' = ws \<and> se_opportunity_id e = k \<and> se_event_type e = StageChanged \<and>
        se_control_version e = op_control_version p + 1) \<or>
     (\<exists>e. ss' = ss \<and> ws' = ws @ [e] \<and> we_opportunity_id e = k \<and> we_event_type e = OwnershipReassigned \<and>
        we_control_version e = op_control_version p + 1)"
  using assms
proof (cases rule: epoch_step.cases)
  case (staged p target p' at e)
  then show thesis by (intro that [of p p']) auto
next
  case (moved p p' cmd e)
  then show thesis by (intro that [of p p']) auto
qed

lemma epochs_after:
  assumes "epoch_step k (ps, ss, ws) (ps', ss', ws')" "j \<noteq> k"
  shows "stage_epochs ss' j = stage_epochs ss j \<and> owner_epochs ws' j = owner_epochs ws j"
  using assms(1) by (rule epoch_step_rows) (use assms(2) in \<open>auto simp: stage_epochs_def owner_epochs_def\<close>)

lemma epochs_added:
  assumes "(\<exists>e. ss' = ss @ [e] \<and> ws' = ws \<and> se_opportunity_id e = k \<and> se_event_type e = StageChanged \<and>
        se_control_version e = n) \<or>
     (\<exists>e. ss' = ss \<and> ws' = ws @ [e] \<and> we_opportunity_id e = k \<and> we_event_type e = OwnershipReassigned \<and>
        we_control_version e = n)"
  shows "(stage_epochs ss' k = stage_epochs ss k @ [n] \<and> owner_epochs ws' k = owner_epochs ws k) \<or>
     (stage_epochs ss' k = stage_epochs ss k \<and> owner_epochs ws' k = owner_epochs ws k @ [n])"
  using assms by (elim disjE exE conjE) (simp_all add: stage_epochs_def owner_epochs_def)

lemma dossier_wf_bound: "dossier_wf (ps, ss, ws) \<Longrightarrow> p \<in> set ps \<Longrightarrow> op_id p = k \<Longrightarrow>
    v \<in> set (stage_epochs ss k @ owner_epochs ws k) \<Longrightarrow> v \<le> op_control_version p"
  unfolding dossier_wf_def by auto

lemma find_row: "distinct (map op_id ps) \<Longrightarrow> p \<in> set ps \<Longrightarrow> find (\<lambda>x. op_id x = op_id p) ps = Some p"
  by (rule find_key)

lemma epoch_step_wf:
  assumes "dossier_wf t" "epoch_step k t t'"
  shows "dossier_wf t'"
proof -
  obtain ps ss ws ps' ss' ws' where t: "t = (ps, ss, ws)" "t' = (ps', ss', ws')" by (cases t; cases t') auto
  from assms(2) [unfolded t] show ?thesis
  proof (rule epoch_step_rows)
    fix p p' assume p: "p \<in> set ps" "op_id p = k" "op_id p' = k" "op_control_version p' = op_control_version p + 1"
      "ps' = put_row op_id p' ps"
      and new: "(\<exists>e. ss' = ss @ [e] \<and> ws' = ws \<and> se_opportunity_id e = k \<and> se_event_type e = StageChanged \<and>
        se_control_version e = op_control_version p + 1) \<or>
       (\<exists>e. ss' = ss \<and> ws' = ws @ [e] \<and> we_opportunity_id e = k \<and> we_event_type e = OwnershipReassigned \<and>
        we_control_version e = op_control_version p + 1)"
    have ids: "map op_id ps' = map op_id ps" by (simp add: p(5) table_simps)
    then have img: "op_id ` set ps' = op_id ` set ps" by (metis set_map)
    have bound: "v \<le> op_control_version x"
      if x: "x \<in> set ps'" and v: "v \<in> set (stage_epochs ss' (op_id x) @ owner_epochs ws' (op_id x))" for x v
    proof (cases "op_id x = k")
      case True
      with x p(3,5) have "x = p'" by (auto simp: set_put_row)
      moreover have "v \<le> op_control_version p + 1"
        using epochs_added [OF new] v True dossier_wf_bound [OF assms(1) [unfolded t(1)] p(1,2), of v] by auto
      ultimately show ?thesis using p(4) by simp
    next
      case False
      with x p(3,5) have "x \<in> set ps" by (auto simp: set_put_row)
      moreover note epochs_after [OF assms(2) [unfolded t] False]
      ultimately show ?thesis using v assms(1) by (auto simp: t dossier_wf_def)
    qed
    show "dossier_wf t'"
      unfolding t(2) dossier_wf_def prod.case
    proof (intro conjI ballI)
      show "distinct (map op_id ps')" using assms(1) ids by (simp add: t dossier_wf_def)
      show "se_opportunity_id e \<in> op_id ` set ps'" if "e \<in> set ss'" for e
        using that new assms(1) p(1,2) unfolding img by (auto simp: t dossier_wf_def)
      show "we_opportunity_id e \<in> op_id ` set ps'" if "e \<in> set ws'" for e
        using that new assms(1) p(1,2) unfolding img by (auto simp: t dossier_wf_def)
    qed (rule bound)
  qed
qed

interpretation dossier_log: sequenced_log 1 dossier_wf dossier_next dossier_epochs epoch_step
proof
  fix t k t' assume wf: "dossier_wf t" and step: "epoch_step k t t'"
  show "dossier_wf t'" using wf step by (rule epoch_step_wf)
  obtain ps ss ws ps' ss' ws' where t: "t = (ps, ss, ws)" "t' = (ps', ss', ws')" by (cases t; cases t') auto
  from step [unfolded t] obtain p p' where p: "p \<in> set ps" "op_id p = k" "op_id p' = k"
    "op_control_version p' = op_control_version p + 1" "ps' = put_row op_id p' ps"
    and new: "(\<exists>e. ss' = ss @ [e] \<and> ws' = ws \<and> se_opportunity_id e = k \<and> se_event_type e = StageChanged \<and>
        se_control_version e = op_control_version p + 1) \<or>
     (\<exists>e. ss' = ss \<and> ws' = ws @ [e] \<and> we_opportunity_id e = k \<and> we_event_type e = OwnershipReassigned \<and>
        we_control_version e = op_control_version p + 1)"
    by (rule epoch_step_rows) blast
  have found: "find (\<lambda>x. op_id x = k) ps = Some p"
    using wf find_row [of ps p] p(1,2) by (simp add: t dossier_wf_def)
  show "\<exists>n. dossier_next t k = Some n \<and> dossier_next t' k = Some (n + 1)"
    using found find_put_row_same [of op_id k ps p'] p(3,4,5) by (simp add: t dossier_next_def)
  have bound: "v \<le> op_control_version p + 1" if "v \<in> set (stage_epochs ss k @ owner_epochs ws k)" for v
    using dossier_wf_bound [OF wf [unfolded t(1)] p(1,2) that] by simp
  show "dossier_epochs t' k = dossier_epochs t k @ [n]" if "dossier_next t k = Some n" for n
  proof -
    from that found have n: "n = op_control_version p + 1" by (simp add: t dossier_next_def)
    from epochs_added [OF new] show ?thesis
    proof (elim disjE conjE)
      assume "stage_epochs ss' k = stage_epochs ss k @ [op_control_version p + 1]" "owner_epochs ws' k = owner_epochs ws k"
      with sort_insert_left [of "stage_epochs ss k" "owner_epochs ws k" n] bound show ?thesis
        by (simp add: t dossier_epochs_def n)
    next
      assume "stage_epochs ss' k = stage_epochs ss k" "owner_epochs ws' k = owner_epochs ws k @ [op_control_version p + 1]"
      with sort_snoc [of "stage_epochs ss k @ owner_epochs ws k" n] bound show ?thesis
        by (simp add: t dossier_epochs_def n)
    qed
  qed
  show "dossier_next t' j = dossier_next t j \<and> dossier_epochs t' j = dossier_epochs t j" if "j \<noteq> k" for j
    using find_put_row_other [of ps op_id p' "\<lambda>x. op_id x = j"] that p(3,5) epochs_after [OF step [unfolded t] that]
    by (auto simp: t dossier_next_def dossier_epochs_def)
qed

section \<open>The invariant\<close>

definition trails_tell :: "dossier_tables \<Rightarrow> bool" where
  "trails_tell t \<longleftrightarrow> (case t of (ps, ss, ws) \<Rightarrow> \<forall>p\<in>set ps.
     links (stage_moves ss (op_id p)) None (Some (op_stage p)) \<and> links (owner_moves ws (op_id p)) None (Some (owner_of p)))"

definition dossier_inv :: "dossier_tables \<Rightarrow> bool" where
  "dossier_inv t \<longleftrightarrow> dossier_wf t \<and> gap_free 1 dossier_next dossier_epochs t \<and> trails_tell t"

lemma moves_snoc [simp]:
  "stage_moves (ss @ [e]) k = stage_moves ss k @ (if se_opportunity_id e = k then [stage_move e] else [])"
  "owner_moves (ws @ [w]) k = owner_moves ws k @ (if we_opportunity_id w = k then [owner_move w] else [])"
  by (simp_all add: stage_moves_def owner_moves_def)

lemma no_moves: "k \<notin> se_opportunity_id ` set ss \<Longrightarrow> stage_moves ss k = []"
  "k \<notin> we_opportunity_id ` set ws \<Longrightarrow> owner_moves ws k = []"
  by (auto simp: stage_moves_def owner_moves_def filter_empty_conv)

lemma epoch_step_inv:
  assumes "dossier_inv t" "epoch_step k t t'"
  shows "dossier_inv t'"
proof -
  from assms(1) have wf: "dossier_wf t" and gap: "gap_free 1 dossier_next dossier_epochs t"
    by (simp_all add: dossier_inv_def)
  note epoch_step_wf [OF wf assms(2)] dossier_log.append_gap_free [OF wf assms(2) gap]
  moreover have "trails_tell t'" using assms(2,1) by (cases rule: epoch_step.cases)
      (simp_all add: dossier_inv_def trails_tell_def ball_put_row)
  ultimately show ?thesis by (simp add: dossier_inv_def)
qed

lemma opened_inv:
  assumes inv: "dossier_inv (ps, ss, ws)" and p: "op_id p \<notin> op_id ` set ps" "op_control_version p = 0" "op_stage p = StNew"
    and e: "se_opportunity_id e = op_id p" "se_event_type e = StageCreated" "stage_move e = (None, StNew)"
    and w: "we_opportunity_id w = op_id p" "we_event_type w = OwnershipCreated" "owner_move w = (None, owner_of p)"
  shows "dossier_inv (ps @ [p], ss @ [e], ws @ [w])"
proof -
  from inv have wf: "dossier_wf (ps, ss, ws)" and gap: "gap_free 1 dossier_next dossier_epochs (ps, ss, ws)"
    by (simp_all add: dossier_inv_def)
  have none: "op_id p \<notin> se_opportunity_id ` set ss" "op_id p \<notin> we_opportunity_id ` set ws"
    using wf p(1) by (auto simp: dossier_wf_def)
  have epochs: "stage_epochs (ss @ [e]) k = stage_epochs ss k" "owner_epochs (ws @ [w]) k = owner_epochs ws k" for k
    by (simp_all add: stage_epochs_def owner_epochs_def e w)
  have empty: "stage_epochs ss (op_id p) = []" "owner_epochs ws (op_id p) = []"
    using none by (auto simp: stage_epochs_def owner_epochs_def filter_empty_conv image_iff)
  have "dossier_wf (ps @ [p], ss @ [e], ws @ [w])"
    unfolding dossier_wf_def prod.case epochs using wf p e(1) w(1) empty by (auto simp: dossier_wf_def)
  moreover have "gap_free 1 dossier_next dossier_epochs (ps @ [p], ss @ [e], ws @ [w])"
    unfolding gap_free_def
  proof (intro allI impI)
    fix k n assume n: "dossier_next (ps @ [p], ss @ [e], ws @ [w]) k = Some n"
    show "1 \<le> n \<and> dossier_epochs (ps @ [p], ss @ [e], ws @ [w]) k = [1..n - 1]"
    proof (cases "find (\<lambda>x. op_id x = k) ps")
      case None
      with n have "k = op_id p" "n = 1" by (auto simp: dossier_next_def find_append p split: if_splits)
      then show ?thesis using empty by (simp add: dossier_epochs_def epochs)
    next
      case (Some x)
      with n have "dossier_next (ps, ss, ws) k = Some n" by (simp add: dossier_next_def find_append)
      with gap show ?thesis by (simp add: gap_free_def dossier_epochs_def epochs)
    qed
  qed
  moreover have "stage_moves ss (op_id p) = []" "owner_moves ws (op_id p) = []" using no_moves none by blast+
  ultimately show ?thesis
    using inv p e w by (auto simp: dossier_inv_def trails_tell_def image_iff)
qed

lemma dossier_step_inv: "dossier_step t t' \<Longrightarrow> dossier_inv t \<Longrightarrow> dossier_inv t'"
  by (induction rule: dossier_step.induct) (auto intro: opened_inv epoch_step_inv)

text \<open>A closed dossier keeps its stage and its closing time.\<close>

lemma dossier_step_closed:
  assumes "dossier_step (ps, ss, ws) (ps', ss', ws')" "p \<in> set ps" "terminal_stage (op_stage p)"
    "distinct (map op_id ps)"
  shows "\<exists>p'\<in>set ps'. op_id p' = op_id p \<and> op_stage p' = op_stage p \<and> op_closed_at p' = op_closed_at p"
  using assms(1)
proof (cases rule: dossier_step.cases)
  case (opened x e w)
  then show ?thesis using assms(2) by auto
next
  case (advanced k)
  then show ?thesis
  proof (cases rule: epoch_step.cases)
    case (staged x target x' at e)
    have "x \<noteq> p" using staged assms(3) by auto
    then have "op_id p \<noteq> op_id x" using same_key [where key = op_id, OF assms(4)] staged assms(2) by auto
    with staged assms(2) show ?thesis by (intro bexI [of _ p]) (auto simp: set_put_row)
  next
    case (moved x x' cmd e)
    show ?thesis
    proof (cases "op_id p = op_id x")
      case True
      then have "p = x" using same_key [where key = op_id, OF assms(4)] moved assms(2) by auto
      with moved show ?thesis by (intro bexI [of _ x']) (auto simp: set_put_row)
    next
      case False
      with moved assms(2) show ?thesis by (intro bexI [of _ p]) (auto simp: set_put_row)
    qed
  qed
qed

end
