(* ===== verification/OpportunityOps.thy ===== *)
theory OpportunityOps
  imports OpportunityHistory
begin

text \<open>
  The operations of the opportunity service as steps of the dossier machine, and what they promise:
  the trail of every dossier, the finality of a closed one, the suspension of its follow-ups when it
  changes owner, and the idempotency of the commands.
\<close>

section \<open>The operations by cases\<close>

lemma insert_opportunity_Inr: "insert_opportunity p s = Inr s' \<longleftrightarrow> opportunity_checks p \<and>
    (\<forall>x\<in>set (opportunities s). op_id x \<noteq> op_id p \<and>
       \<not> (op_created_by_agent_id x = op_created_by_agent_id p \<and> op_idempotency_key x = op_idempotency_key p)) \<and>
    s' = s\<lparr>opportunities := opportunities s @ [p]\<rparr>"
  by (auto simp: insert_opportunity_def list_ex_iff)

lemma update_opportunity_Inr: "update_opportunity p s = Inr s' \<longleftrightarrow> opportunity_checks p \<and>
    s' = s\<lparr>opportunities := put_row op_id p (opportunities s)\<rparr>"
  by (auto simp: update_opportunity_def)

lemma insert_stage_event_Inr: "insert_stage_event e s = Inr s' \<longleftrightarrow> stage_event_checks e \<and>
    (\<forall>x\<in>set (stage_events s). se_id x \<noteq> se_id e \<and> \<not> (se_opportunity_id x = se_opportunity_id e \<and>
       (se_control_version x = se_control_version e \<or> se_idempotency_key x = se_idempotency_key e))) \<and>
    s' = s\<lparr>stage_events := stage_events s @ [e]\<rparr>"
  by (auto simp: insert_stage_event_def list_ex_iff)

lemma insert_ownership_event_Inr: "insert_ownership_event e s = Inr s' \<longleftrightarrow> ownership_event_checks e \<and>
    (\<forall>x\<in>set (ownership_events s). we_id x \<noteq> we_id e \<and> \<not> (we_opportunity_id x = we_opportunity_id e \<and>
       (we_control_version x = we_control_version e \<or> we_idempotency_key x = we_idempotency_key e))) \<and>
    s' = s\<lparr>ownership_events := ownership_events s @ [e]\<rparr>"
  by (auto simp: insert_ownership_event_def list_ex_iff)

lemma insert_link_Inr: "insert_link l s = Inr s' \<longleftrightarrow> link_checks l \<and>
    (\<forall>x\<in>set (conversation_links s). ol_id x \<noteq> ol_id l \<and> \<not> (ol_opportunity_id x = ol_opportunity_id l \<and>
       ((ol_conversation_id l \<noteq> None \<and> ol_conversation_id x = ol_conversation_id l) \<or>
        ol_idempotency_key x = ol_idempotency_key l))) \<and>
    s' = s\<lparr>conversation_links := conversation_links s @ [l]\<rparr>"
  by (auto simp: insert_link_def list_ex_iff)

lemma load_opportunityD: "load_opportunity s oid = Inr p \<Longrightarrow> p \<in> set (opportunities s) \<and> op_id p = oid"
  by (auto simp: load_opportunity_def split: option.splits dest: find_SomeD)

lemma assert_owner_Inr [simp]: "assert_owner p agent operator = Inr u \<longleftrightarrow> op_assigned_agent_id p = agent \<and>
    (op_assigned_operator_id p = None \<or> op_assigned_operator_id p = operator)"
  by (auto simp: assert_owner_def)

lemma assert_opportunity_version_Inr [simp]: "assert_opportunity_version p v = Inr u \<longleftrightarrow>
    0 \<le> v \<and> op_control_version p = v"
  by (auto simp: assert_opportunity_version_def)

lemma opp_assert_hash_Inr [simp]: "opp_assert_hash a b = Inr u \<longleftrightarrow> sha256_hex a \<and> a = b"
  by (simp add: opp_assert_hash_def)

lemma create_cases:
  assumes "create_opportunity E cmd s = Inr (s', x, b)"
  obtains (replay) pr where "prepare_create E s cmd = Inr pr" "\<not> b" "s' = s"
      "create_receipt s (co_created_by_agent_id cmd) (pc_key pr) = Some x" "op_command_hash x = pc_command_hash pr"
      "sha256_hex (op_command_hash x)"
  | (first) pr where "prepare_create E s cmd = Inr pr" b "x = created_opportunity E cmd pr"
      "create_receipt s (co_created_by_agent_id cmd) (pc_key pr) = None"
      "opportunity_checks x" "op_id x \<notin> op_id ` set (opportunities s)"
      "s' = s\<lparr>opportunities := opportunities s @ [x], stage_events := stage_events s @ [first_stage_event E cmd pr x],
         ownership_events := ownership_events s @ [first_ownership_event E cmd pr x],
         conversation_links := conversation_links s @ [new_conversation_link E x (pc_conversation pr)
           (co_created_by_agent_id cmd) (co_assigned_operator_id cmd) (pc_correlation pr) (pc_key pr)]\<rparr>"
proof -
  from assms obtain pr where pr: "prepare_create E s cmd = Inr pr" by (auto simp: create_opportunity_def bindE_eq_Inr)
  show thesis
  proof (cases "create_receipt s (co_created_by_agent_id cmd) (pc_key pr)")
    case (Some y)
    with assms pr show thesis by (intro replay [OF pr]) (auto simp: create_opportunity_def bindE_eq_Inr)
  next
    case None
    from assms pr None have f: "b" "x = created_opportunity E cmd pr" "opportunity_checks x"
      "\<forall>y\<in>set (opportunities s). op_id y \<noteq> op_id x"
      "s' = s\<lparr>opportunities := opportunities s @ [x], stage_events := stage_events s @ [first_stage_event E cmd pr x],
         ownership_events := ownership_events s @ [first_ownership_event E cmd pr x],
         conversation_links := conversation_links s @ [new_conversation_link E x (pc_conversation pr)
           (co_created_by_agent_id cmd) (co_assigned_operator_id cmd) (pc_correlation pr) (pc_key pr)]\<rparr>"
      by (auto simp: create_opportunity_def Let_def bindE_eq_Inr insert_opportunity_Inr insert_stage_event_Inr
          insert_ownership_event_Inr insert_link_Inr)
    then have "op_id x \<notin> op_id ` set (opportunities s)" by (metis imageE)
    with f show thesis by (intro first [OF pr f(1,2) None])
  qed
qed

lemma transition_cases:
  assumes "transition_stage E cmd s = Inr (s', x, b)"
  obtains (replay) pr e where "prepare_stage E cmd = Inr pr" "\<not> b" "s' = s"
      "load_opportunity s (sg_opportunity_id cmd) = Inr x" "stage_receipt s (op_id x) (ps_key pr) = Some e"
      "se_assigned_agent_id e = sg_actor_agent_id cmd" "se_command_hash e = ps_command_hash pr" "sha256_hex (se_command_hash e)"
  | (first) pr o1 where "prepare_stage E cmd = Inr pr" b "load_opportunity s (sg_opportunity_id cmd) = Inr o1"
      "stage_receipt s (op_id o1) (ps_key pr) = None" "assert_owner o1 (sg_actor_agent_id cmd) (sg_actor_operator_id cmd) = Inr ()"
      "assert_opportunity_version o1 (sg_expected_version cmd) = Inr ()" "\<not> terminal_stage (op_stage o1)"
      "ps_target pr \<noteq> StNew" "ps_target pr \<noteq> op_stage o1"
      "x = staged_opportunity o1 (ps_target pr) (ps_event_time pr)" "opportunity_checks x"
      "stage_event_checks (new_stage_event E cmd pr o1 x)"
      "s' = s\<lparr>opportunities := put_row op_id x (opportunities s),
         stage_events := stage_events s @ [new_stage_event E cmd pr o1 x]\<rparr>"
proof -
  from assms obtain pr o1 where pr: "prepare_stage E cmd = Inr pr" "load_opportunity s (sg_opportunity_id cmd) = Inr o1"
    by (auto simp: transition_stage_def bindE_eq_Inr)
  show thesis
  proof (cases "stage_receipt s (op_id o1) (ps_key pr)")
    case (Some e)
    with assms pr show thesis
      by (intro replay [OF pr(1)]) (auto simp: transition_stage_def bindE_eq_Inr split: if_splits)
  next
    case None
    with assms pr show thesis
      by (intro first [OF pr(1) _ pr(2) None])
        (auto simp: transition_stage_def bindE_eq_Inr Let_def update_opportunity_Inr insert_stage_event_Inr split: if_splits)
  qed
qed

section \<open>Suspending follow-ups\<close>

lemma suspend_frame:
  "suspend_follow_ups E cmd c oid wid tcs s = Inr s1 \<Longrightarrow>
     \<exists>ts. s1 = s\<lparr>follow_up_tasks := ts,
       follow_up_events := follow_up_events s @ map (suspension_event E cmd c oid wid) tcs\<rparr>"
proof (induction tcs arbitrary: s)
  case Nil
  then show ?case by (intro exI [of _ "follow_up_tasks s"]) simp
next
  case (Cons tc tcs)
  from Cons.prems obtain t2 e2 where s2: "t2 = suspended_task E (fst tc)" "e2 = suspension_event E cmd c oid wid tc"
    "suspend_follow_ups E cmd c oid wid tcs
       (s\<lparr>follow_up_tasks := put_row ft_id t2 (follow_up_tasks s), follow_up_events := follow_up_events s @ [e2]\<rparr>) = Inr s1"
    by (auto simp: update_follow_up_task_Some insert_follow_up_event_Some split: option.splits)
  from Cons.IH [OF s2(3)] s2(2) show ?case by simp
qed

lemma suspend_fails: "suspend_follow_ups E cmd c oid wid tcs s = Inl x \<Longrightarrow> x = OppIntegrity"
  by (induction tcs arbitrary: s) (auto split: option.splits)

lemma suspended_same [simp]: "ft_id (suspended_task E t) = ft_id t" "ft_opportunity_id (suspended_task E t) = ft_opportunity_id t"
  "ft_status (suspended_task E t) = FuReviewRequired" "ft_state_version (suspended_task E t) = ft_state_version t + 1"
  by (simp_all add: suspended_task_def)

lemma suspend_tasks:
  assumes "suspend_follow_ups E cmd c oid wid tcs s = Inr s1" "distinct (map ft_id (follow_up_tasks s))"
    "distinct (map (ft_id \<circ> fst) tcs)" "\<forall>tc\<in>set tcs. fst tc \<in> set (follow_up_tasks s)"
  shows "follow_up_tasks s1 =
    map (\<lambda>t. if ft_id t \<in> (ft_id \<circ> fst) ` set tcs then suspended_task E t else t) (follow_up_tasks s)"
  using assms
proof (induction tcs arbitrary: s)
  case (Cons tc tcs)
  define t1 where "t1 = suspended_task E (fst tc)"
  define s2 where "s2 = s\<lparr>follow_up_tasks := put_row ft_id t1 (follow_up_tasks s),
     follow_up_events := follow_up_events s @ [suspension_event E cmd c oid wid tc]\<rparr>"
  have run: "suspend_follow_ups E cmd c oid wid tcs s2 = Inr s1"
    using Cons.prems(1) by (auto simp: s2_def t1_def update_follow_up_task_Some insert_follow_up_event_Some split: option.splits)
  have tasks: "follow_up_tasks s2 = map (\<lambda>t. if ft_id t = ft_id (fst tc) then suspended_task E t else t) (follow_up_tasks s)"
    using same_key [where key = ft_id, OF Cons.prems(2)] Cons.prems(4) by (auto simp: s2_def t1_def put_row_def)
  have rest: "fst x \<in> set (follow_up_tasks s2)" if "x \<in> set tcs" for x
  proof -
    have "ft_id (fst x) \<noteq> ft_id (fst tc)" using that Cons.prems(3) by (auto simp: image_iff)
    then show ?thesis using that Cons.prems(4) by (auto simp: s2_def t1_def set_put_row)
  qed
  have "distinct (map ft_id (follow_up_tasks s2))" using Cons.prems(2) by (simp add: s2_def table_simps)
  with Cons.IH [OF run this] Cons.prems(3) rest show ?case by (simp add: tasks image_iff comp_def)
qed simp

lemma suspend_clash:
  assumes "tc \<in> set tcs" "x \<in> set (follow_up_events s)" "ft_outbound_message_id (fst tc) = Some m"
    "fe_outbound_message_id x = Some m"
  shows "suspend_follow_ups E cmd c oid wid tcs s = Inl OppIntegrity"
proof (cases "suspend_follow_ups E cmd c oid wid tcs s")
  case (Inl e)
  then show ?thesis using suspend_fails by blast
next
  case (Inr s1)
  then have False using assms
  proof (induction tcs arbitrary: s)
    case (Cons a tcs)
    define s2 where "s2 = s\<lparr>follow_up_tasks := put_row ft_id (suspended_task E (fst a)) (follow_up_tasks s),
       follow_up_events := follow_up_events s @ [suspension_event E cmd c oid wid a]\<rparr>"
    from Cons.prems(1) have run: "suspend_follow_ups E cmd c oid wid tcs s2 = Inr s1"
      and free: "\<forall>y\<in>set (follow_up_events s). \<not> follow_up_event_clash (suspension_event E cmd c oid wid a) y"
      by (auto simp: s2_def update_follow_up_task_Some insert_follow_up_event_Some split: option.splits)
    have "follow_up_event_clash (suspension_event E cmd c oid wid tc) x"
      using Cons.prems(4,5) by (simp add: follow_up_event_clash_def suspension_event_def Let_def)
    with free Cons.prems(2,3) have "tc \<in> set tcs" by auto
    with Cons.IH [OF run] Cons.prems(3-5) show False by (simp add: s2_def)
  qed simp
  then show ?thesis ..
qed

lemma reassign_cases:
  assumes "reassign E cmd s = Inr (s', x, b)"
  obtains (replay) pr e where "prepare_reassign E s cmd = Inr pr" "\<not> b" "s' = s"
      "load_opportunity s (ra_opportunity_id cmd) = Inr x" "ownership_receipt s (op_id x) (pa_key pr) = Some e"
      "we_actor_agent_id e = ra_actor_agent_id cmd" "we_command_hash e = pa_command_hash pr" "sha256_hex (we_command_hash e)"
  | (first) pr o1 s1 where "prepare_reassign E s cmd = Inr pr" b "load_opportunity s (ra_opportunity_id cmd) = Inr o1"
      "ownership_receipt s (op_id o1) (pa_key pr) = None" "assert_owner o1 (ra_actor_agent_id cmd) (ra_actor_operator_id cmd) = Inr ()"
      "assert_opportunity_version o1 (ra_expected_version cmd) = Inr ()"
      "owner_of o1 \<noteq> (ra_assigned_agent_id cmd, ra_assigned_operator_id cmd)"
      "suspend_follow_ups E cmd (pa_correlation pr) (op_id o1) (ownership_event_id E o1) (active_follow_ups s (op_id o1)) s = Inr s1"
      "x = reassigned_opportunity cmd o1" "opportunity_checks x"
      "ownership_event_checks (new_ownership_event E cmd pr o1)"
      "s' = s1\<lparr>opportunities := put_row op_id x (opportunities s),
         ownership_events := ownership_events s @ [new_ownership_event E cmd pr o1]\<rparr>"
proof -
  from assms obtain pr o1 where pr: "prepare_reassign E s cmd = Inr pr" "load_opportunity s (ra_opportunity_id cmd) = Inr o1"
    by (auto simp: reassign_def bindE_eq_Inr)
  show thesis
  proof (cases "ownership_receipt s (op_id o1) (pa_key pr)")
    case (Some e)
    with assms pr show thesis
      by (intro replay [OF pr(1)]) (auto simp: reassign_def bindE_eq_Inr split: if_splits)
  next
    case None
    from assms pr None obtain s1 where f: b "assert_owner o1 (ra_actor_agent_id cmd) (ra_actor_operator_id cmd) = Inr ()"
      "assert_opportunity_version o1 (ra_expected_version cmd) = Inr ()"
      "owner_of o1 \<noteq> (ra_assigned_agent_id cmd, ra_assigned_operator_id cmd)"
      "suspend_follow_ups E cmd (pa_correlation pr) (op_id o1) (ownership_event_id E o1) (active_follow_ups s (op_id o1)) s = Inr s1"
      "x = reassigned_opportunity cmd o1" "opportunity_checks x" "ownership_event_checks (new_ownership_event E cmd pr o1)"
      "s' = s1\<lparr>opportunities := put_row op_id x (opportunities s1),
         ownership_events := ownership_events s1 @ [new_ownership_event E cmd pr o1]\<rparr>"
      by (auto simp: reassign_def bindE_eq_Inr Let_def update_opportunity_Inr insert_ownership_event_Inr owner_of_def
          split: if_splits)
    from suspend_frame [OF f(5)] have "opportunities s1 = opportunities s" "ownership_events s1 = ownership_events s"
      by auto
    with f show thesis by (intro first [OF pr(1) f(1) pr(2) None]) simp_all
  qed
qed

lemma link_cases:
  assumes "link_conversation E cmd s = Inr (s', l, b)"
  obtains (replay) o1 where "\<not> b" "s' = s" "load_opportunity s (lk_opportunity_id cmd) = Inr o1"
      "link_receipt s (op_id o1) (strip (lk_idempotency_key cmd)) = Some l"
  | (first) o1 c where b "load_opportunity s (lk_opportunity_id cmd) = Inr o1"
      "assert_owner o1 (lk_actor_agent_id cmd) (lk_actor_operator_id cmd) = Inr ()"
      "get_conversation s (lk_conversation_id cmd) = Some c" "cv_agent_id c = lk_actor_agent_id cmd"
      "s' = s\<lparr>conversation_links := conversation_links s @ [l]\<rparr>"
      "l = new_conversation_link E o1 c (lk_actor_agent_id cmd) (lk_actor_operator_id cmd)
         (strip (lk_correlation_id cmd)) (strip (lk_idempotency_key cmd))"
proof -
  from assms obtain o1 where o1: "load_opportunity s (lk_opportunity_id cmd) = Inr o1"
    by (auto simp: link_conversation_def bindE_eq_Inr)
  show thesis
  proof (cases "link_receipt s (op_id o1) (strip (lk_idempotency_key cmd))")
    case (Some l1)
    with assms o1 show thesis
      by (intro replay [OF _ _ o1]) (auto simp: link_conversation_def bindE_eq_Inr opp_required_text_def)
  next
    case None
    from assms o1 None obtain c where c: "get_conversation s (lk_conversation_id cmd) = Some c"
      by (auto simp: link_conversation_def bindE_eq_Inr opp_required_text_def split: option.splits)
    with assms o1 None show thesis
      by (intro first [OF _ o1 _ c])
        (auto simp: link_conversation_def bindE_eq_Inr opp_required_text_def Let_def insert_link_Inr split: if_splits)
  qed
qed

section \<open>Every operation is a step\<close>

inductive opportunity_op :: "store \<Rightarrow> store \<Rightarrow> bool" where
  op_created: "create_opportunity E cc s = Inr (s', x, b) \<Longrightarrow> opportunity_op s s'"
| op_staged: "transition_stage E sc s = Inr (s', x, b) \<Longrightarrow> opportunity_op s s'"
| op_reassigned: "reassign E rc s = Inr (s', x, b) \<Longrightarrow> opportunity_op s s'"
| op_linked: "link_conversation E lc s = Inr (s', l, b) \<Longrightarrow> opportunity_op s s'"

lemma create_step:
  assumes "create_opportunity E cmd s = Inr (s', x, b)"
  shows "dossier_step\<^sup>=\<^sup>= (dossiers s) (dossiers s')"
  using assms
proof (cases rule: create_cases)
  case (first pr)
  have "dossier_step (dossiers s) (opportunities s @ [x], stage_events s @ [first_stage_event E cmd pr x],
      ownership_events s @ [first_ownership_event E cmd pr x])"
    unfolding dossiers_def by (rule dossier_step.opened [OF first(6)])
      (simp_all add: first(3) created_opportunity_def first_stage_event_def first_ownership_event_def stage_move_def
        owner_move_def owner_of_def)
  then show ?thesis by (simp add: first(7) dossiers_def)
qed simp

lemma transition_step:
  assumes "transition_stage E cmd s = Inr (s', x, True)"
  shows "epoch_step (sg_opportunity_id cmd) (dossiers s) (dossiers s')"
  using assms
proof (cases rule: transition_cases)
  case (first pr o1)
  note o1 = load_opportunityD [OF first(3)]
  have "epoch_step (op_id o1) (dossiers s) (put_row op_id x (opportunities s),
      stage_events s @ [new_stage_event E cmd pr o1 x], ownership_events s)"
    unfolding dossiers_def
    by (rule epoch_step.staged [OF _ first(7,8,9,10)]) (simp_all add: o1 first(10) new_stage_event_def stage_move_def)
  then show ?thesis using o1 by (simp add: first(13) dossiers_def)
qed simp

lemma reassign_step:
  assumes "reassign E cmd s = Inr (s', x, True)"
  shows "epoch_step (ra_opportunity_id cmd) (dossiers s) (dossiers s')"
  using assms
proof (cases rule: reassign_cases)
  case (first pr o1 s1)
  note o1 = load_opportunityD [OF first(3)]
  have "epoch_step (op_id o1) (dossiers s) (put_row op_id x (opportunities s),
      stage_events s, ownership_events s @ [new_ownership_event E cmd pr o1])"
    unfolding dossiers_def
    by (rule epoch_step.moved [OF _ first(9)])
      (use first(7) o1 in \<open>auto simp: first(9) new_ownership_event_def owner_move_def owner_of_def reassigned_opportunity_def\<close>)
  then show ?thesis using o1 suspend_frame [OF first(8)] by (auto simp: first(12) dossiers_def)
qed simp

lemma opportunity_op_step: "opportunity_op s s' \<Longrightarrow> dossier_step\<^sup>=\<^sup>= (dossiers s) (dossiers s')"
proof (induction rule: opportunity_op.induct)
  case (op_created E cc s s' x b)
  then show ?case by (rule create_step)
next
  case (op_staged E sc s s' x b)
  then show ?case
  proof (cases b)
    case True
    with op_staged have "transition_stage E sc s = Inr (s', x, True)" by simp
    from dossier_step.advanced [OF transition_step [OF this]] show ?thesis by simp
  next
    case False
    with op_staged have "s' = s" by (cases rule: transition_cases) auto
    then show ?thesis by simp
  qed
next
  case (op_reassigned E rc s s' x b)
  then show ?case
  proof (cases b)
    case True
    with op_reassigned have "reassign E rc s = Inr (s', x, True)" by simp
    from dossier_step.advanced [OF reassign_step [OF this]] show ?thesis by simp
  next
    case False
    with op_reassigned have "s' = s" by (cases rule: reassign_cases) auto
    then show ?thesis by simp
  qed
next
  case (op_linked E lc s s' l b)
  then show ?case by (cases rule: link_cases) (auto simp: dossiers_def)
qed

lemma opportunity_ops_steps: "opportunity_op\<^sup>*\<^sup>* s s' \<Longrightarrow> dossier_step\<^sup>*\<^sup>* (dossiers s) (dossiers s')"
proof (induction rule: rtranclp_induct)
  case (step y z)
  from opportunity_op_step [OF step(2)] have "dossier_step\<^sup>*\<^sup>* (dossiers y) (dossiers z)" by auto
  with step(3) show ?case by (rule rtranclp_trans)
qed simp

lemma dossier_steps_inv: "dossier_step\<^sup>*\<^sup>* t t' \<Longrightarrow> dossier_inv t \<Longrightarrow> dossier_inv t'"
  by (induction rule: rtranclp_induct) (auto intro: dossier_step_inv)

end
