(* ===== verification/OpportunityPromises.thy ===== *)
theory OpportunityPromises
  imports OpportunityOps
begin

text \<open>
  What the opportunity service promises, over any sequence of its operations.
\<close>

section \<open>Trail and finality\<close>

text \<open>C28: the evidence of a dossier is complete: whatever commands run, its stage events lead from
  nothing to its current stage, its ownership events to its current owner, and each of its epochs
  \<open>1..n\<close> is carried by exactly one event of either table.\<close>

theorem opportunity_trail:
  assumes "dossier_inv (dossiers s)" "opportunity_op\<^sup>*\<^sup>* s s'" "p \<in> set (opportunities s')"
  shows "links (stage_moves (stage_events s') (op_id p)) None (Some (op_stage p)) \<and>
    links (owner_moves (ownership_events s') (op_id p)) None (Some (op_assigned_agent_id p, op_assigned_operator_id p)) \<and>
    sort (stage_epochs (stage_events s') (op_id p) @ owner_epochs (ownership_events s') (op_id p)) =
      [1..op_control_version p]"
proof -
  have inv: "dossier_inv (dossiers s')"
    using dossier_steps_inv [OF opportunity_ops_steps [OF assms(2)] assms(1)] .
  then have "distinct (map op_id (opportunities s'))" by (simp add: dossier_inv_def dossier_wf_def dossiers_def)
  then have "dossier_next (dossiers s') (op_id p) = Some (op_control_version p + 1)"
    using find_row [OF _ assms(3)] by (simp add: dossier_next_def dossiers_def)
  with inv have "dossier_epochs (dossiers s') (op_id p) = [1..op_control_version p]"
    by (auto simp: dossier_inv_def gap_free_def)
  with inv assms(3) show ?thesis by (simp add: dossier_inv_def trails_tell_def dossiers_def dossier_epochs_def owner_of_def)
qed

lemma dossier_steps_closed:
  assumes "dossier_step\<^sup>*\<^sup>* t t'" "dossier_inv t" "p \<in> set (fst t)" "terminal_stage (op_stage p)"
  shows "\<exists>p'\<in>set (fst t'). op_id p' = op_id p \<and> op_stage p' = op_stage p \<and> op_closed_at p' = op_closed_at p"
  using assms(1)
proof (induction rule: rtranclp_induct)
  case base
  with assms(3) show ?case by blast
next
  case (step y z)
  from step.IH obtain q where q: "q \<in> set (fst y)" "op_id q = op_id p" "op_stage q = op_stage p" "op_closed_at q = op_closed_at p"
    by blast
  have "dossier_inv y" using dossier_steps_inv step.hyps(1) assms(2) by blast
  then have "distinct (map op_id (fst y))" by (auto simp: dossier_inv_def dossier_wf_def)
  with dossier_step_closed [of "fst y" "fst (snd y)" "snd (snd y)" "fst z" "fst (snd z)" "snd (snd z)" q] step.hyps(2) q assms(4)
  show ?case by simp
qed

text \<open>A dossier that was won or lost stays so: no later command of any agent or operator changes
  its stage or its closing time.\<close>

theorem closed_dossier_final:
  assumes "dossier_inv (dossiers s)" "p \<in> set (opportunities s)" "op_stage p = StWon \<or> op_stage p = StLost"
    "opportunity_op\<^sup>*\<^sup>* s s'"
  shows "\<exists>p'\<in>set (opportunities s'). op_id p' = op_id p \<and> op_stage p' = op_stage p \<and> op_closed_at p' = op_closed_at p"
  using dossier_steps_closed [OF opportunity_ops_steps [OF assms(4)] assms(1)] assms(2,3)
  by (simp add: dossiers_def terminal_stage_def)

section \<open>Follow-ups of a reassigned dossier\<close>

lemma set_map_filter: "y \<in> set (List.map_filter f xs) \<longleftrightarrow> (\<exists>x\<in>set xs. f x = Some y)"
  by (induction xs) (auto simp: map_filter_simps split: option.splits)

lemma suspension_event_simps [simp]:
  "fe_task_id (suspension_event E cmd co oid w tc) = ft_id (fst tc)"
  "fe_from_status (suspension_event E cmd co oid w tc) = Some (ft_status (fst tc))"
  "fe_to_status (suspension_event E cmd co oid w tc) = FuReviewRequired"
  "fe_state_version (suspension_event E cmd co oid w tc) = ft_state_version (fst tc) + 1"
  by (simp_all add: suspension_event_def Let_def)

lemma active_follow_ups_iff: "(t, c) \<in> set (active_follow_ups s oid) \<longleftrightarrow> t \<in> set (follow_up_tasks s) \<and>
    ft_opportunity_id t = oid \<and> reassignable (ft_status t) \<and>
    (\<exists>cid. ft_conversation_id t = Some cid \<and> get_conversation s cid = Some c)"
  by (auto simp: active_follow_ups_def set_map_filter bind_eq_Some_conv)

lemma map_filter_ids: "(\<And>x y. f x = Some y \<Longrightarrow> g y = k x) \<Longrightarrow> distinct (map k xs) \<Longrightarrow>
    distinct (map g (List.map_filter f xs)) \<and> g ` set (List.map_filter f xs) \<subseteq> k ` set xs"
  by (induction xs) (auto simp: map_filter_simps split: option.splits)

lemma active_follow_ups_ids: "distinct (map ft_id (follow_up_tasks s)) \<Longrightarrow>
    distinct (map (ft_id \<circ> fst) (active_follow_ups s oid))"
proof -
  assume "distinct (map ft_id (follow_up_tasks s))"
  then have "distinct (map ft_id (sort_key ft_id (filter (\<lambda>t. ft_opportunity_id t = oid \<and> reassignable (ft_status t)) (follow_up_tasks s))))"
    by (simp add: distinct_map inj_on_def)
  then show ?thesis
    unfolding active_follow_ups_def
    by (rule map_filter_ids [where k = ft_id and g = "ft_id \<circ> fst", THEN conjunct1, rotated])
      (auto simp: bind_eq_Some_conv)
qed

text \<open>When a dossier changes owner its follow-ups are taken from the scheduler: each of its active
  tasks waits for review with the code of the reassignment and one more version, and its event records
  the status it had; the tasks of other dossiers and the settled ones are untouched.\<close>

theorem reassign_suspends:
  assumes "reassign E cmd s = Inr (s', x, True)" "distinct (map ft_id (follow_up_tasks s))"
    "\<forall>t\<in>set (follow_up_tasks s). reassignable (ft_status t) \<longrightarrow>
       (\<exists>cid c. ft_conversation_id t = Some cid \<and> get_conversation s cid = Some c)"
  shows "follow_up_tasks s' =
      map (\<lambda>t. if ft_opportunity_id t = ra_opportunity_id cmd \<and> reassignable (ft_status t)
        then suspended_task E t else t) (follow_up_tasks s) \<and>
    (\<forall>t\<in>set (follow_up_tasks s). ft_opportunity_id t = ra_opportunity_id cmd \<and> reassignable (ft_status t) \<longrightarrow>
       (\<exists>e\<in>set (follow_up_events s'). fe_task_id e = ft_id t \<and> fe_from_status e = Some (ft_status t) \<and>
          fe_to_status e = FuReviewRequired \<and> fe_state_version e = ft_state_version t + 1)) \<and>
    op_assigned_agent_id x = ra_assigned_agent_id cmd \<and> op_assigned_operator_id x = ra_assigned_operator_id cmd"
  using assms(1)
proof (cases rule: reassign_cases)
  case (first pr o1 s1)
  let ?oid = "ra_opportunity_id cmd"
  let ?act = "active_follow_ups s ?oid"
  have o1: "op_id o1 = ?oid" using load_opportunityD [OF first(3)] by simp
  note run = first(8) [unfolded o1]
  have sub: "\<forall>tc\<in>set ?act. fst tc \<in> set (follow_up_tasks s)" by (auto simp: active_follow_ups_iff)
  have hit: "(\<exists>c. (t, c) \<in> set ?act) \<longleftrightarrow> ft_opportunity_id t = ?oid \<and> reassignable (ft_status t)"
    if "t \<in> set (follow_up_tasks s)" for t
    using that assms(3) by (auto simp: active_follow_ups_iff)
  have ids: "ft_id t \<in> (ft_id \<circ> fst) ` set ?act \<longleftrightarrow> ft_opportunity_id t = ?oid \<and> reassignable (ft_status t)"
    if t: "t \<in> set (follow_up_tasks s)" for t
  proof
    assume "ft_id t \<in> (ft_id \<circ> fst) ` set ?act"
    then obtain u c where u: "(u, c) \<in> set ?act" "ft_id u = ft_id t" by auto
    then have "u = t" using same_key [where key = ft_id, OF assms(2)] t sub by force
    with u hit [OF t] show "ft_opportunity_id t = ?oid \<and> reassignable (ft_status t)" by blast
  next
    assume "ft_opportunity_id t = ?oid \<and> reassignable (ft_status t)"
    with hit [OF t] obtain c where "(t, c) \<in> set ?act" by blast
    then show "ft_id t \<in> (ft_id \<circ> fst) ` set ?act" by force
  qed
  have tasks: "follow_up_tasks s' = map (\<lambda>t. if ft_opportunity_id t = ?oid \<and> reassignable (ft_status t)
      then suspended_task E t else t) (follow_up_tasks s)"
    using suspend_tasks [OF run assms(2) active_follow_ups_ids [OF assms(2)] sub] ids by (simp add: first(12))
  have evs: "follow_up_events s' = follow_up_events s @
      map (suspension_event E cmd (pa_correlation pr) ?oid (ownership_event_id E o1)) ?act"
    using suspend_frame [OF run] by (auto simp: first(12))
  have event: "\<exists>e\<in>set (follow_up_events s'). fe_task_id e = ft_id t \<and> fe_from_status e = Some (ft_status t) \<and>
      fe_to_status e = FuReviewRequired \<and> fe_state_version e = ft_state_version t + 1"
    if t: "t \<in> set (follow_up_tasks s)" "ft_opportunity_id t = ?oid \<and> reassignable (ft_status t)" for t
  proof -
    from hit [OF t(1)] t(2) obtain c where "(t, c) \<in> set ?act" by blast
    then show ?thesis
      by (intro bexI [of _ "suspension_event E cmd (pa_correlation pr) ?oid (ownership_event_id E o1) (t, c)"])
        (simp_all add: evs)
  qed
  show ?thesis
    using tasks event by (simp add: first(9) reassigned_opportunity_def)
qed simp

text \<open>A dossier whose follow-up is being delivered cannot change owner: the event of the
  reassignment repeats the outbound message of the task, which is unique over all follow-up events, and
  the event of the dispatch already holds it, so an otherwise admissible command ends in an integrity
  error.\<close>

theorem reassign_blocked_by_dispatch:
  assumes "prepare_reassign E s cmd = Inr pr" "load_opportunity s (ra_opportunity_id cmd) = Inr o1"
    "ownership_receipt s (op_id o1) (pa_key pr) = None"
    "assert_owner o1 (ra_actor_agent_id cmd) (ra_actor_operator_id cmd) = Inr ()"
    "assert_opportunity_version o1 (ra_expected_version cmd) = Inr ()"
    "(op_assigned_agent_id o1, op_assigned_operator_id o1) \<noteq> (ra_assigned_agent_id cmd, ra_assigned_operator_id cmd)"
    "t \<in> set (follow_up_tasks s)" "ft_opportunity_id t = ra_opportunity_id cmd" "ft_status t = FuDispatchQueued"
    "ft_conversation_id t = Some cid" "get_conversation s cid = Some c" "ft_outbound_message_id t = Some m"
    "e \<in> set (follow_up_events s)" "fe_outbound_message_id e = Some m"
  shows "reassign E cmd s = Inl OppIntegrity"
proof -
  have "(t, c) \<in> set (active_follow_ups s (op_id o1))"
    using assms load_opportunityD [OF assms(2)] by (simp add: active_follow_ups_iff reassignable_def)
  from suspend_clash [OF this assms(13) _ assms(14)] assms(12)
  have "suspend_follow_ups E cmd c' (op_id o1) w (active_follow_ups s (op_id o1)) s = Inl OppIntegrity" for c' w
    by simp
  moreover have "\<not> (op_assigned_agent_id o1 = ra_assigned_agent_id cmd \<and> op_assigned_operator_id o1 = ra_assigned_operator_id cmd)"
    using assms(6) by simp
  ultimately show ?thesis
    by (simp only: reassign_def assms(1-5) bindE_simps option.case if_False)
qed

end
