(* ===== verification/OpportunityRetries.thy ===== *)
theory OpportunityRetries
  imports OpportunityPromises
begin

text \<open>
  The commands of the opportunity service as idempotent commands: their receipts are the dossier
  itself, its stage events and its ownership events.
\<close>

section \<open>Creation\<close>

definition create_valid :: "env \<Rightarrow> store \<Rightarrow> create_command \<Rightarrow> bool" where
  "create_valid E s cmd \<longleftrightarrow> (\<exists>pr. prepare_create E s cmd = Inr pr \<and> sha256_hex (pc_command_hash pr))"

definition create_digest :: "env \<Rightarrow> store \<Rightarrow> create_command \<Rightarrow> string" where
  "create_digest E s cmd = (case prepare_create E s cmd of Inl _ \<Rightarrow> [] | Inr pr \<Rightarrow> pc_command_hash pr)"

definition create_filed :: "env \<Rightarrow> store \<Rightarrow> create_command \<Rightarrow> (string \<times> opportunity) option" where
  "create_filed E s cmd = (case prepare_create E s cmd of
     Inl _ \<Rightarrow> None | Inr pr \<Rightarrow> map_option (\<lambda>x. (op_command_hash x, x)) (create_receipt s (co_created_by_agent_id cmd) (pc_key pr)))"

lemma active_assignment_cong:
  "agents s' = agents s \<Longrightarrow> admins s' = admins s \<Longrightarrow>
     assert_active_assignment s' a operator = assert_active_assignment s a operator"
  by (simp add: assert_active_assignment_def split: option.split)

lemma prepare_create_cong:
  assumes "agents s' = agents s" "admins s' = admins s" "contacts s' = contacts s" "conversations s' = conversations s"
  shows "prepare_create E s' cmd = prepare_create E s cmd"
  using assms
  by (simp add: prepare_create_def active_assignment_cong [OF assms(1,2)] load_contact_def get_conversation_def cong: option.case_cong)

interpretation creations: idempotent_command "\<lambda>s c. forget (create_opportunity E c s)" "create_valid E" "create_filed E"
  "create_digest E" OppIdempotency for E
proof
  fix s cmd x
  assume "create_valid E s cmd" "create_filed E s cmd = Some (create_digest E s cmd, x)"
  then show "forget (create_opportunity E cmd s) = Inr (s, x)"
    by (auto simp: create_valid_def create_filed_def create_digest_def create_opportunity_def forget_def
        opp_assert_hash_def policy_assert_hash_def)
next
  fix s cmd h x
  assume "create_valid E s cmd" "create_filed E s cmd = Some (h, x)" "h \<noteq> create_digest E s cmd"
  then show "forget (create_opportunity E cmd s) = Inl OppIdempotency"
    by (auto simp: create_valid_def create_filed_def create_digest_def create_opportunity_def forget_def
        opp_assert_hash_def policy_assert_hash_def)
next
  fix s cmd s' x assume "forget (create_opportunity E cmd s) = Inr (s', x)"
  then obtain b where "create_opportunity E cmd s = Inr (s', x, b)" by (auto simp: forget_Inr)
  then show "create_valid E s cmd \<and> create_valid E s' cmd \<and> create_digest E s' cmd = create_digest E s cmd \<and>
      create_filed E s' cmd = Some (create_digest E s cmd, x)"
  proof (cases rule: create_cases)
    case (replay pr)
    then show ?thesis by (simp add: create_valid_def create_digest_def create_filed_def)
  next
    case (first pr)
    have prep: "prepare_create E s' cmd = Inr pr"
      using prepare_create_cong [of s' s E cmd] first(1) by (simp add: first(7))
    have "create_receipt s' (co_created_by_agent_id cmd) (pc_key pr) = Some x"
      using first(4) by (simp add: create_receipt_def first(7) find_append) (simp add: first(3) created_opportunity_def)
    moreover have "op_command_hash x = pc_command_hash pr" by (simp add: first(3) created_opportunity_def)
    moreover have "sha256_hex (op_command_hash x)" using first(5) by (simp add: opportunity_checks_def)
    ultimately show ?thesis using prep first(1) by (simp add: create_valid_def create_digest_def create_filed_def)
  qed
qed

section \<open>Stage transitions\<close>

definition stage_valid :: "env \<Rightarrow> store \<Rightarrow> stage_command \<Rightarrow> bool" where
  "stage_valid E s cmd \<longleftrightarrow> (\<exists>pr x. prepare_stage E cmd = Inr pr \<and> load_opportunity s (sg_opportunity_id cmd) = Inr x \<and>
     sha256_hex (ps_command_hash pr) \<and>
     (\<forall>e. stage_receipt s (op_id x) (ps_key pr) = Some e \<longrightarrow> se_assigned_agent_id e = sg_actor_agent_id cmd))"

definition stage_digest :: "env \<Rightarrow> store \<Rightarrow> stage_command \<Rightarrow> string" where
  "stage_digest E s cmd = (case prepare_stage E cmd of Inl _ \<Rightarrow> [] | Inr pr \<Rightarrow> ps_command_hash pr)"

definition stage_filed :: "env \<Rightarrow> store \<Rightarrow> stage_command \<Rightarrow> (string \<times> opportunity) option" where
  "stage_filed E s cmd = (case (prepare_stage E cmd, load_opportunity s (sg_opportunity_id cmd)) of
     (Inr pr, Inr x) \<Rightarrow> map_option (\<lambda>e. (se_command_hash e, x)) (stage_receipt s (op_id x) (ps_key pr)) | _ \<Rightarrow> None)"

lemma load_put: "load_opportunity s oid = Inr o1 \<Longrightarrow> op_id x = op_id o1 \<Longrightarrow>
    opportunities s' = put_row op_id x (opportunities s) \<Longrightarrow> load_opportunity s' oid = Inr x"
  using find_put_row_same [of op_id oid "opportunities s" x]
  by (auto simp: load_opportunity_def split: option.splits dest: find_SomeD)

interpretation stage_commands: idempotent_command "\<lambda>s c. forget (transition_stage E c s)" "stage_valid E" "stage_filed E"
  "stage_digest E" OppIdempotency for E
proof
  fix s cmd x
  assume "stage_valid E s cmd" "stage_filed E s cmd = Some (stage_digest E s cmd, x)"
  then show "forget (transition_stage E cmd s) = Inr (s, x)"
    by (auto simp: stage_valid_def stage_filed_def stage_digest_def transition_stage_def forget_def
        opp_assert_hash_def policy_assert_hash_def)
next
  fix s cmd h x
  assume "stage_valid E s cmd" "stage_filed E s cmd = Some (h, x)" "h \<noteq> stage_digest E s cmd"
  then show "forget (transition_stage E cmd s) = Inl OppIdempotency"
    by (auto simp: stage_valid_def stage_filed_def stage_digest_def transition_stage_def forget_def
        opp_assert_hash_def policy_assert_hash_def)
next
  fix s cmd s' x assume "forget (transition_stage E cmd s) = Inr (s', x)"
  then obtain b where "transition_stage E cmd s = Inr (s', x, b)" by (auto simp: forget_Inr)
  then show "stage_valid E s cmd \<and> stage_valid E s' cmd \<and> stage_digest E s' cmd = stage_digest E s cmd \<and>
      stage_filed E s' cmd = Some (stage_digest E s cmd, x)"
  proof (cases rule: transition_cases)
    case (replay pr e)
    then show ?thesis by (simp add: stage_valid_def stage_digest_def stage_filed_def)
  next
    case (first pr o1)
    have "load_opportunity s' (sg_opportunity_id cmd) = Inr x"
      by (rule load_put [OF first(3)]) (simp_all add: first(10,13))
    moreover have "stage_receipt s' (op_id x) (ps_key pr) = Some (new_stage_event E cmd pr o1 x)"
      using first(4) by (simp add: stage_receipt_def first(13) find_append)
        (simp add: first(10) new_stage_event_def)
    moreover have "se_command_hash (new_stage_event E cmd pr o1 x) = ps_command_hash pr"
      "se_assigned_agent_id (new_stage_event E cmd pr o1 x) = sg_actor_agent_id cmd"
      using first(5) by (simp_all add: new_stage_event_def first(10) staged_opportunity_def Let_def)
    moreover have "sha256_hex (ps_command_hash pr)"
      using first(12) by (simp add: stage_event_checks_def new_stage_event_def)
    ultimately show ?thesis using first(1,3,4) by (simp add: stage_valid_def stage_digest_def stage_filed_def)
  qed
qed

section \<open>Changes of owner\<close>

definition reassign_valid :: "env \<Rightarrow> store \<Rightarrow> reassign_command \<Rightarrow> bool" where
  "reassign_valid E s cmd \<longleftrightarrow> (\<exists>pr x. prepare_reassign E s cmd = Inr pr \<and>
     load_opportunity s (ra_opportunity_id cmd) = Inr x \<and> sha256_hex (pa_command_hash pr) \<and>
     (\<forall>e. ownership_receipt s (op_id x) (pa_key pr) = Some e \<longrightarrow> we_actor_agent_id e = ra_actor_agent_id cmd))"

definition reassign_digest :: "env \<Rightarrow> store \<Rightarrow> reassign_command \<Rightarrow> string" where
  "reassign_digest E s cmd = (case prepare_reassign E s cmd of Inl _ \<Rightarrow> [] | Inr pr \<Rightarrow> pa_command_hash pr)"

definition reassign_filed :: "env \<Rightarrow> store \<Rightarrow> reassign_command \<Rightarrow> (string \<times> opportunity) option" where
  "reassign_filed E s cmd = (case (prepare_reassign E s cmd, load_opportunity s (ra_opportunity_id cmd)) of
     (Inr pr, Inr x) \<Rightarrow> map_option (\<lambda>e. (we_command_hash e, x)) (ownership_receipt s (op_id x) (pa_key pr)) | _ \<Rightarrow> None)"

interpretation reassignments: idempotent_command "\<lambda>s c. forget (reassign E c s)" "reassign_valid E" "reassign_filed E"
  "reassign_digest E" OppIdempotency for E
proof
  fix s cmd x
  assume "reassign_valid E s cmd" "reassign_filed E s cmd = Some (reassign_digest E s cmd, x)"
  then show "forget (reassign E cmd s) = Inr (s, x)"
    by (auto simp: reassign_valid_def reassign_filed_def reassign_digest_def reassign_def forget_def
        opp_assert_hash_def policy_assert_hash_def)
next
  fix s cmd h x
  assume "reassign_valid E s cmd" "reassign_filed E s cmd = Some (h, x)" "h \<noteq> reassign_digest E s cmd"
  then show "forget (reassign E cmd s) = Inl OppIdempotency"
    by (auto simp: reassign_valid_def reassign_filed_def reassign_digest_def reassign_def forget_def
        opp_assert_hash_def policy_assert_hash_def)
next
  fix s cmd s' x assume "forget (reassign E cmd s) = Inr (s', x)"
  then obtain b where "reassign E cmd s = Inr (s', x, b)" by (auto simp: forget_Inr)
  then show "reassign_valid E s cmd \<and> reassign_valid E s' cmd \<and> reassign_digest E s' cmd = reassign_digest E s cmd \<and>
      reassign_filed E s' cmd = Some (reassign_digest E s cmd, x)"
  proof (cases rule: reassign_cases)
    case (replay pr e)
    then show ?thesis by (simp add: reassign_valid_def reassign_digest_def reassign_filed_def)
  next
    case (first pr o1 s1)
    note fr = suspend_frame [OF first(8)]
    have same: "agents s' = agents s" "admins s' = admins s" using fr by (auto simp: first(12))
    have prep: "prepare_reassign E s' cmd = Inr pr"
      using first(1) by (simp add: prepare_reassign_def active_assignment_cong [OF same])
    have "load_opportunity s' (ra_opportunity_id cmd) = Inr x"
      by (rule load_put [OF first(3)]) (simp_all add: first(9,12))
    moreover have "ownership_receipt s' (op_id x) (pa_key pr) = Some (new_ownership_event E cmd pr o1)"
      using first(4) by (simp add: ownership_receipt_def first(9,12) find_append) (simp add: new_ownership_event_def)
    moreover have "we_command_hash (new_ownership_event E cmd pr o1) = pa_command_hash pr"
      "we_actor_agent_id (new_ownership_event E cmd pr o1) = ra_actor_agent_id cmd"
      by (simp_all add: new_ownership_event_def)
    moreover have "sha256_hex (pa_command_hash pr)"
      using first(11) by (simp add: ownership_event_checks_def new_ownership_event_def)
    ultimately show ?thesis using prep first(1,3,4)
      by (simp add: reassign_valid_def reassign_digest_def reassign_filed_def)
  qed
qed

text \<open>A command that succeeded answers its repetitions from its receipt.\<close>

lemma opportunity_retries:
  "forget (create_opportunity E cc s) = Inr (s', x) \<Longrightarrow> forget (create_opportunity E cc s') = Inr (s', x)"
  "forget (transition_stage E sc s) = Inr (s', x) \<Longrightarrow> forget (transition_stage E sc s') = Inr (s', x)"
  "forget (reassign E rc s) = Inr (s', x) \<Longrightarrow> forget (reassign E rc s') = Inr (s', x)"
  by (rule creations.retry stage_commands.retry reassignments.retry, assumption)+

end
