(* ===== verification/OpportunityWitnesses.thy ===== *)
theory OpportunityWitnesses
  imports OpportunityRetries
begin

text \<open>A concrete dossier: it is won, handed to another agent with a scheduled follow-up, and refused a
  new owner while a follow-up is being delivered.\<close>

definition deal_hash :: string where "deal_hash = replicate 64 (CHR ''a'')"

definition deal_row :: opportunity where
  "deal_row = \<lparr>op_id = UUID 50, op_created_at = 1, op_contact_id = UUID 60, op_created_by_agent_id = UUID 2,
     op_assigned_agent_id = UUID 2, op_assigned_operator_id = None, op_stage = StNew, op_control_version = 0,
     op_title = ''deal'', op_summary = None, op_correlation_id = ''c0'', op_idempotency_key = ''k0'',
     op_command_hash = deal_hash, op_closed_at = None\<rparr>"

definition deal_stage :: stage_event where
  "deal_stage = \<lparr>se_id = UUID 51, se_opportunity_id = UUID 50, se_assigned_agent_id = UUID 2, se_actor_operator_id = None,
     se_event_type = StageCreated, se_from_stage = None, se_to_stage = StNew, se_control_version = 0, se_reason = None,
     se_correlation_id = ''c0'', se_idempotency_key = ''k0'', se_command_hash = deal_hash, se_created_at = 1\<rparr>"

definition deal_owner :: ownership_event where
  "deal_owner = \<lparr>we_id = UUID 52, we_opportunity_id = UUID 50, we_actor_agent_id = UUID 2, we_actor_operator_id = None,
     we_event_type = OwnershipCreated, we_from_agent_id = None, we_to_agent_id = UUID 2, we_from_operator_id = None,
     we_to_operator_id = None, we_control_version = 0, we_reason = None, we_correlation_id = ''c0'',
     we_idempotency_key = ''k0'', we_command_hash = deal_hash, we_created_at = 1\<rparr>"

definition deal_task :: follow_up_task where
  "deal_task = \<lparr>ft_id = UUID 70, ft_created_at = 0, ft_updated_at = 0, ft_opportunity_id = UUID 50, ft_conversation_id = Some (UUID 1),
     ft_source_conversation_id = None, ft_fifo_key = Some ''f'', ft_target_channel = Some ''whatsapp'',
     ft_contact_point_id = None, ft_consent_record_id = UUID 80, ft_executed_consent_record_id = None,
     ft_assigned_agent_id = UUID 2, ft_assigned_operator_id = None, ft_quote_version_id = None, ft_chat_message_id = None,
     ft_outbound_message_id = None, ft_had_chat_message_evidence = False, ft_had_outbound_message_evidence = False,
     ft_kind = CommercialFollowUp, ft_status = FuScheduled, ft_state_version = 0, ft_scheduled_control_version = Some 0,
     ft_scheduled_automation_version = Some 0, ft_scheduled_policy_version = Some 0, ft_executed_policy_version = None,
     ft_due_at = 90, ft_available_at = 90, ft_attempts = 0, ft_max_attempts = 3, ft_lease_owner = None,
     ft_lease_expires_at = None, ft_note = None, ft_last_safe_code = None, ft_correlation_id = ''c0'',
     ft_idempotency_key = ''k0'', ft_command_hash = deal_hash, ft_review_required_at = None, ft_completed_at = None,
     ft_cancelled_at = None\<rparr>"

definition deal_store :: "follow_up_task list \<Rightarrow> follow_up_event list \<Rightarrow> store" where
  "deal_store tasks evs = sample_store\<lparr>opportunities := [deal_row], stage_events := [deal_stage],
     ownership_events := [deal_owner], follow_up_tasks := tasks, follow_up_events := evs\<rparr>"

lemma deal_tables [simp]: "opportunities (deal_store ts es) = [deal_row]" "stage_events (deal_store ts es) = [deal_stage]"
  "ownership_events (deal_store ts es) = [deal_owner]" "follow_up_tasks (deal_store ts es) = ts"
  "follow_up_events (deal_store ts es) = es"
  by (simp_all add: deal_store_def)

lemma deal_evidence: "stage_epochs [deal_stage] k = []" "owner_epochs [deal_owner] k = []"
  "stage_moves [deal_stage] (UUID 50) = [(None, StNew)]" "owner_moves [deal_owner] (UUID 50) = [(None, (UUID 2, None))]"
  "se_opportunity_id deal_stage = UUID 50" "we_opportunity_id deal_owner = UUID 50" "op_id deal_row = UUID 50"
  "op_stage deal_row = StNew" "op_control_version deal_row = 0" "owner_of deal_row = (UUID 2, None)"
  "se_control_version deal_stage = 0" "we_control_version deal_owner = 0"
  by (simp_all add: stage_epochs_def owner_epochs_def stage_moves_def owner_moves_def stage_move_def owner_move_def
      deal_stage_def deal_owner_def deal_row_def owner_of_def)

lemma deal_inv: "dossier_inv (dossiers (deal_store tasks evs))"
  by (simp add: dossier_inv_def dossier_wf_def gap_free_def trails_tell_def dossiers_def dossier_next_def
      dossier_epochs_def deal_evidence)

definition win_command :: stage_command where
  "win_command = \<lparr>sg_opportunity_id = UUID 50, sg_actor_agent_id = UUID 2, sg_actor_operator_id = None,
     sg_target_stage = ''won'', sg_expected_version = 0, sg_reason = None, sg_correlation_id = ''c1'',
     sg_idempotency_key = ''k1'', sg_occurred_at = None\<rparr>"

lemma win_prepared: "prepare_stage sample_env win_command =
    Inr \<lparr>ps_target = StWon, ps_reason = None, ps_correlation = ''c1'', ps_key = ''k1'', ps_event_time = 50,
      ps_command_hash = deal_hash\<rparr>"
  by (simp add: prepare_stage_def win_command_def policy_enum_value_def opportunity_stages_def opp_optional_text_def
      policy_optional_text_def opp_required_text_def policy_required_text_def policy_aware_utc_def to_utc_def Let_def
      strip_def is_space_def policy_command_hash_def command_digest_def sample_env_def deal_hash_def)

definition won_row :: opportunity where
  "won_row = deal_row\<lparr>op_control_version := 1, op_stage := StWon, op_closed_at := Some 50\<rparr>"

lemma deal_win: "\<exists>s'. transition_stage sample_env win_command (deal_store [] []) = Inr (s', won_row, True) \<and>
    opportunities s' = [won_row] \<and> stage_events s' = [deal_stage, new_stage_event sample_env win_command
      \<lparr>ps_target = StWon, ps_reason = None, ps_correlation = ''c1'', ps_key = ''k1'', ps_event_time = 50,
        ps_command_hash = deal_hash\<rparr> deal_row won_row]"
proof -
  have load: "load_opportunity (deal_store [] []) (sg_opportunity_id win_command) = Inr deal_row"
    by (simp add: load_opportunity_def deal_evidence win_command_def)
  have new: "stage_receipt (deal_store [] []) (UUID 50) ''k1'' = None"
    by (simp add: stage_receipt_def deal_stage_def)
  have own: "assert_owner deal_row (sg_actor_agent_id win_command) (sg_actor_operator_id win_command) = Inr ()"
    "assert_opportunity_version deal_row (sg_expected_version win_command) = Inr ()"
    by (simp_all add: deal_row_def win_command_def)
  have apart: "se_id deal_stage = UUID 51" "se_idempotency_key deal_stage = ''k0''" by (simp_all add: deal_stage_def)
  have row: "staged_opportunity deal_row StWon 50 = won_row"
    by (simp add: staged_opportunity_def terminal_stage_def won_row_def deal_row_def)
  have ok: "opportunity_checks won_row"
    by (simp add: opportunity_checks_def won_row_def deal_row_def deal_hash_def btrim_def)
  let ?e = "new_stage_event sample_env win_command
      \<lparr>ps_target = StWon, ps_reason = None, ps_correlation = ''c1'', ps_key = ''k1'', ps_event_time = 50,
        ps_command_hash = deal_hash\<rparr> deal_row won_row"
  have ev: "stage_event_checks ?e" "se_id ?e = UUID 7" "se_control_version ?e = 1" "se_idempotency_key ?e = ''k1''"
    by (simp_all add: stage_event_checks_def new_stage_event_def deal_hash_def btrim_def sample_env_def won_row_def deal_row_def)
  have put: "put_row op_id won_row [deal_row] = [won_row]" by (simp add: put_row_def won_row_def)
  show ?thesis
    unfolding transition_stage_def win_prepared
    by (simp add: load new own deal_evidence row Let_def update_opportunity_def ok insert_stage_event_def ev put apart
        terminal_stage_def del: assert_owner_Inr assert_opportunity_version_Inr)
qed

theorem opportunity_trail_witness:
  "\<exists>s'. opportunity_op (deal_store [] []) s' \<and> won_row \<in> set (opportunities s') \<and>
     links (stage_moves (stage_events s') (UUID 50)) None (Some StWon) \<and>
     sort (stage_epochs (stage_events s') (UUID 50) @ owner_epochs (ownership_events s') (UUID 50)) = [1..1]"
proof -
  from deal_win obtain s' where s': "transition_stage sample_env win_command (deal_store [] []) = Inr (s', won_row, True)"
    "opportunities s' = [won_row]" by blast
  have op: "opportunity_op (deal_store [] []) s'" using s'(1) by (rule opportunity_op.op_staged)
  have row: "won_row \<in> set (opportunities s')" by (simp add: s'(2))
  from opportunity_trail [OF deal_inv r_into_rtranclp [of opportunity_op, OF op] row] op row show ?thesis
    by (intro exI [of _ s']) (simp add: won_row_def deal_row_def)
qed

theorem closed_dossier_final_witness:
  "\<exists>s'. opportunity_op (deal_store [] []) s' \<and>
     (\<exists>p'\<in>set (opportunities s'). op_id p' = UUID 50 \<and> op_stage p' = StWon \<and> op_closed_at p' = Some 50)"
proof -
  from deal_win obtain s' where s': "transition_stage sample_env win_command (deal_store [] []) = Inr (s', won_row, True)"
    "opportunities s' = [won_row]" by blast
  have op: "opportunity_op (deal_store [] []) s'" using s'(1) by (rule opportunity_op.op_staged)
  have inv: "dossier_inv (dossiers s')"
    using dossier_steps_inv [OF opportunity_ops_steps [OF r_into_rtranclp [of opportunity_op, OF op]] deal_inv] .
  have row: "won_row \<in> set (opportunities s')" "op_stage won_row = StWon \<or> op_stage won_row = StLost"
    by (simp_all add: s'(2) won_row_def)
  have "forget (transition_stage sample_env win_command s') = Inr (s', won_row)"
    by (rule stage_commands.retry [where s = "deal_store [] []"]) (auto simp: forget_Inr s'(1))
  then obtain b where "transition_stage sample_env win_command s' = Inr (s', won_row, b)" by (auto simp: forget_Inr)
  then have "opportunity_op s' s'" by (rule opportunity_op.op_staged)
  from closed_dossier_final [OF inv row r_into_rtranclp [of opportunity_op, OF this]] op show ?thesis
    by (auto simp: won_row_def deal_row_def)
qed

section \<open>Handing the dossier over\<close>

definition hand_command :: reassign_command where
  "hand_command = \<lparr>ra_opportunity_id = UUID 50, ra_actor_agent_id = UUID 2, ra_actor_operator_id = None,
     ra_assigned_agent_id = UUID 6, ra_assigned_operator_id = None, ra_expected_version = 0, ra_reason = None,
     ra_correlation_id = ''c2'', ra_idempotency_key = ''k2''\<rparr>"

definition hand_prepared :: prepared_reassign where
  "hand_prepared = \<lparr>pa_reason = None, pa_correlation = ''c2'', pa_key = ''k2'', pa_command_hash = deal_hash\<rparr>"

lemma hand_prepares: "prepare_reassign sample_env (deal_store ts es) hand_command = Inr hand_prepared"
  by (simp add: prepare_reassign_def hand_command_def hand_prepared_def opp_optional_text_def policy_optional_text_def
      opp_required_text_def policy_required_text_def strip_def is_space_def policy_command_hash_def command_digest_def
      sample_env_def deal_hash_def assert_active_assignment_def deal_store_def sample_store_def)

lemma hand_guards:
  "load_opportunity (deal_store ts es) (ra_opportunity_id hand_command) = Inr deal_row"
  "ownership_receipt (deal_store ts es) (op_id deal_row) (pa_key hand_prepared) = None"
  "assert_owner deal_row (ra_actor_agent_id hand_command) (ra_actor_operator_id hand_command) = Inr ()"
  "assert_opportunity_version deal_row (ra_expected_version hand_command) = Inr ()"
  "(op_assigned_agent_id deal_row, op_assigned_operator_id deal_row) \<noteq>
     (ra_assigned_agent_id hand_command, ra_assigned_operator_id hand_command)"
  "get_conversation (deal_store ts es) (UUID 1) = Some sample_conversation"
  by (simp_all add: load_opportunity_def hand_command_def hand_prepared_def ownership_receipt_def deal_owner_def
      deal_row_def get_conversation_def deal_store_def sample_store_def sample_conversation_def)

definition hand_event :: follow_up_event where
  "hand_event = suspension_event sample_env hand_command ''c2'' (UUID 50) (UUID 7) (deal_task, sample_conversation)"

lemma text_filled [simp]: "filled (Some (c # t)) \<longleftrightarrow> length (btrim (c # t)) > 0"
  by (simp add: filled_def)

lemma hand_whatsapp: "target_channel_ok (Some ''whatsapp'')"
  by code_simp

lemma hand_task_ok: "follow_up_task_checks (suspended_task sample_env deal_task)"
  by (simp add: follow_up_task_checks_def suspended_task_def deal_task_def active_status_def opportunity_reassigned_def
      non_negative_def hand_whatsapp btrim_def deal_hash_def)

lemma hand_apart: "\<not> task_message_clash (suspended_task sample_env deal_task) deal_task"
  by (simp add: task_message_clash_def suspended_task_def)

lemma hand_event_ok: "follow_up_event_checks hand_event"
  by (simp add: follow_up_event_checks_def hand_event_def suspension_event_def Let_def suspended_task_def deal_task_def
      hand_command_def opportunity_reassigned_def non_negative_def hand_whatsapp btrim_def policy_command_hash_def
      command_digest_def sample_env_def)

lemma deal_active: "active_follow_ups (deal_store [deal_task] es) (UUID 50) = [(deal_task, sample_conversation)]"
  by (simp add: active_follow_ups_def deal_task_def reassignable_def map_filter_simps hand_guards(6))

lemma hand_runs: "\<exists>s' x. reassign sample_env hand_command (deal_store [deal_task] []) = Inr (s', x, True)"
proof -
  have wid: "ownership_event_id sample_env deal_row = UUID 7" by (simp add: ownership_event_id_def sample_env_def)
  have sus: "\<exists>ts. suspend_follow_ups sample_env hand_command ''c2'' (UUID 50) (UUID 7) [(deal_task, sample_conversation)]
      (deal_store [deal_task] []) = Inr ((deal_store [deal_task] [])\<lparr>follow_up_tasks := ts, follow_up_events := [hand_event]\<rparr>)"
    by (intro exI [of _ "put_row ft_id (suspended_task sample_env deal_task) [deal_task]"])
      (simp add: update_follow_up_task_def hand_task_ok hand_apart insert_follow_up_event_def hand_event_def [symmetric] hand_event_ok)
  have row: "opportunity_checks (reassigned_opportunity hand_command deal_row)"
    by (simp add: opportunity_checks_def reassigned_opportunity_def deal_row_def deal_hash_def btrim_def)
  have ev: "ownership_event_checks (new_ownership_event sample_env hand_command hand_prepared deal_row)"
    "we_id (new_ownership_event sample_env hand_command hand_prepared deal_row) = UUID 7"
    "we_control_version (new_ownership_event sample_env hand_command hand_prepared deal_row) = 1"
    "we_idempotency_key (new_ownership_event sample_env hand_command hand_prepared deal_row) = ''k2''"
    by (simp_all add: ownership_event_checks_def new_ownership_event_def wid)
      (simp_all add: hand_command_def hand_prepared_def deal_hash_def btrim_def deal_row_def)
  have apart: "we_id deal_owner = UUID 52" "we_idempotency_key deal_owner = ''k0''" by (simp_all add: deal_owner_def)
  have corr: "pa_correlation hand_prepared = ''c2''" by (simp add: hand_prepared_def)
  have change: "\<not> (op_assigned_agent_id deal_row = ra_assigned_agent_id hand_command \<and>
      op_assigned_operator_id deal_row = ra_assigned_operator_id hand_command)" using hand_guards(5) by simp
  from sus obtain ts where run: "suspend_follow_ups sample_env hand_command ''c2'' (UUID 50) (UUID 7)
      [(deal_task, sample_conversation)] (deal_store [deal_task] []) =
      Inr ((deal_store [deal_task] [])\<lparr>follow_up_tasks := ts, follow_up_events := [hand_event]\<rparr>)" by blast
  show ?thesis
    by (simp only: reassign_def hand_prepares hand_guards(1-4) hand_guards(2) [unfolded deal_evidence(7)] bindE_simps option.case change if_False corr wid
        deal_evidence(7) deal_active run)
      (simp add: update_opportunity_def row insert_ownership_event_def ev apart deal_evidence)
qed

theorem reassign_suspends_witness:
  "\<exists>s' x. reassign sample_env hand_command (deal_store [deal_task] []) = Inr (s', x, True) \<and>
     follow_up_tasks s' = [suspended_task sample_env deal_task]"
proof -
  from hand_runs obtain s' x where r: "reassign sample_env hand_command (deal_store [deal_task] []) = Inr (s', x, True)"
    by blast
  from reassign_suspends [OF r] hand_guards(6) r show ?thesis
    by (intro exI [of _ s'] exI [of _ x]) (simp add: deal_task_def hand_command_def reassignable_def sample_env_def)
qed

section \<open>A follow-up in delivery\<close>

definition sent_task :: follow_up_task where
  "sent_task = deal_task\<lparr>ft_status := FuDispatchQueued, ft_state_version := 2, ft_outbound_message_id := Some (UUID 90)\<rparr>"

definition sent_event :: follow_up_event where
  "sent_event = hand_event\<lparr>fe_id := UUID 71, fe_from_status := Some FuInProgress, fe_to_status := FuDispatchQueued,
     fe_state_version := 2, fe_actor_type := FuWorker, fe_actor_agent_id := None, fe_actor_worker_id := Some ''w'',
     fe_outbound_message_id := Some (UUID 90), fe_safe_code := None, fe_idempotency_key := ''queued''\<rparr>"

theorem reassign_blocked_by_dispatch_witness:
  "follow_up_task_checks sent_task \<and> follow_up_event_checks sent_event \<and>
     reassign sample_env hand_command (deal_store [sent_task] [sent_event]) = Inl OppIntegrity"
proof (intro conjI)
  show "follow_up_task_checks sent_task"
    by (simp add: follow_up_task_checks_def sent_task_def deal_task_def active_status_def non_negative_def hand_whatsapp
        btrim_def deal_hash_def)
  show "follow_up_event_checks sent_event"
    by (simp add: follow_up_event_checks_def sent_event_def hand_event_def suspension_event_def Let_def deal_task_def
        hand_command_def non_negative_def hand_whatsapp btrim_def policy_command_hash_def command_digest_def sample_env_def)
  show "reassign sample_env hand_command (deal_store [sent_task] [sent_event]) = Inl OppIntegrity"
    by (rule reassign_blocked_by_dispatch [OF hand_prepares hand_guards(1-5),
          where t = sent_task and cid = "UUID 1" and c = sample_conversation and m = "UUID 90" and e = sent_event])
      (simp_all add: hand_guards(6) sent_task_def sent_event_def deal_task_def hand_command_def)
qed

end
