(* ===== verification/Contacts.thy ===== *)
theory Contacts
  imports InboundPayload CommandPolicy
begin

text \<open>
  Contacts and their points: \<open>services/commercial/contact_crypto.py\<close> (normalisation, encryption, keyed
  lookup digests and masks of an e-mail address or a telephone number) and
  \<open>services/commercial/contacts.py\<close> (the contact of a principal, its points, and the evidence by which
  a conversation and a channel identity prove access to them). Key files, Fernet and HMAC are the
  parameters of \<open>crypto\<close>; the address Pydantic's \<open>EmailStr\<close> makes of a text is the parameter \<open>email\<close>
  (\<open>None\<close> is its validation error).
\<close>

section \<open>Errors\<close>

datatype contact_error =
    ContactNotFound string
  | ContactSourceMismatch string
  | ContactSemanticConflict
  | ContactCryptoUnavailable string
  | ContactDecryptFailed
  | InvalidContactPointValue string
  | InvalidFingerprintNamespace
  | ContactMaskFailed
  | ContactIntegrity

section \<open>Normalisation\<close>

text \<open>\<open>text.casefold()\<close> of the letters up to code point 255, whose case pairs lie 32 apart; the sharp s
  becomes \<open>ss\<close>. (The micro sign folds to a Greek letter beyond the range; it stays as it is here.)\<close>

definition fold_char :: "char \<Rightarrow> string" where
  "fold_char c =
     (if is_upper c \<or> (192 \<le> codept c \<and> codept c \<le> 222 \<and> codept c \<noteq> 215) then [char_of (codept c + 32)]
      else if codept c = 223 then ''ss'' else [c])"

definition casefold :: "string \<Rightarrow> string" where
  "casefold s = concat (map fold_char s)"

text \<open>\<open>re.sub(r"[\\s().-]", "", candidate)\<close> and \<open>^\\+[1-9][0-9]{7,14}$\<close> under \<open>fullmatch\<close>.\<close>

definition phone_separator :: "char \<Rightarrow> bool" where
  "phone_separator c \<longleftrightarrow> is_space c \<or> c \<in> set ''().-''"

definition compact_phone :: "string \<Rightarrow> string" where
  "compact_phone s = filter (\<lambda>c. \<not> phone_separator c) s"

definition e164 :: "string \<Rightarrow> bool" where
  "e164 s \<longleftrightarrow> (case s of
     p # d # ds \<Rightarrow> p = CHR ''+'' \<and> is_digit d \<and> d \<noteq> CHR ''0'' \<and> list_all is_digit ds \<and>
       7 \<le> length ds \<and> length ds \<le> 14
   | _ \<Rightarrow> False)"

definition normalize_point :: "(string \<Rightarrow> string option) \<Rightarrow> string \<Rightarrow> string \<Rightarrow> contact_error + string" where
  "normalize_point email kind v =
     (let candidate = strip v in
      if kind = ''email'' then
        (case email candidate of
           None \<Rightarrow> Inl (InvalidContactPointValue ''invalid email contact point'')
         | Some address \<Rightarrow> Inr (casefold address))
      else if kind = ''phone'' then
        (let compact = compact_phone candidate in
         if \<not> e164 compact then Inl (InvalidContactPointValue ''phone contact points must use explicit E.164 format'')
         else Inr compact)
      else Inl (InvalidContactPointValue ''unsupported contact point kind''))"

text \<open>\<open>_mask\<close>; \<open>None\<close> is the exception of an address without \<open>@\<close> or without a domain.\<close>

definition rsplit_at :: "char \<Rightarrow> string \<Rightarrow> (string \<times> string) option" where
  "rsplit_at d s =
     (let tail = rev (takeWhile (\<lambda>c. c \<noteq> d) (rev s)) in
      if length tail = length s then None else Some (take (length s - length tail - 1) s, tail))"

definition partition_at :: "char \<Rightarrow> string \<Rightarrow> string \<times> bool \<times> string" where
  "partition_at d s = (takeWhile (\<lambda>c. c \<noteq> d) s, d \<in> set s, tl (dropWhile (\<lambda>c. c \<noteq> d) s))"

definition mask_point :: "string \<Rightarrow> string \<Rightarrow> string option" where
  "mask_point kind t =
     (if kind = ''phone'' then
        Some (take 2 t @ replicate (max (length t - 6) 4) (CHR ''*'') @ drop (length t - 4) t)
      else
        (case rsplit_at (CHR ''@'') t of
           None \<Rightarrow> None
         | Some (local, domain) \<Rightarrow>
             let (name, separator, suffix) = partition_at (CHR ''.'') domain;
                 masked_local = (if 1 < length local then take 1 local @ ''***'' else ''***'')
             in if name = [] then None
                else Some (masked_local @ ''@'' @ take 1 name @ ''***'' @ (if separator then ''.'' @ suffix else []))))"

section \<open>Protection\<close>

definition contact_key :: "string option \<Rightarrow> string \<Rightarrow> contact_error + string" where
  "contact_key file label =
     (case file of
        None \<Rightarrow> Inl (ContactCryptoUnavailable (label @ '' key is unavailable''))
      | Some bytes \<Rightarrow>
          let key = rev (dropWhile is_byte_space (rev (dropWhile is_byte_space bytes))) in
          if key = [] then Inl (ContactCryptoUnavailable (label @ '' key is empty'')) else Inr key)"

definition contact_fernet :: "crypto \<Rightarrow> contact_error + string" where
  "contact_fernet C =
     bindE (contact_key (encryption_key_file C) ''contact encryption'') (\<lambda>key.
       if fernet_key_ok C key then Inr key
       else Inl (ContactCryptoUnavailable ''contact encryption key is invalid''))"

definition contact_lookup_key :: "crypto \<Rightarrow> contact_error + string" where
  "contact_lookup_key C =
     bindE (contact_key (lookup_key_file C) ''contact lookup HMAC'') (\<lambda>key.
       if length key < 32
       then Inl (ContactCryptoUnavailable ''contact lookup HMAC key must contain at least 32 bytes'')
       else bindE (contact_key (encryption_key_file C) ''contact encryption'') (\<lambda>encryption_key.
         if key = encryption_key
         then Inl (ContactCryptoUnavailable ''contact encryption and lookup HMAC keys must be distinct'')
         else Inr key))"

definition contact_digest :: "crypto \<Rightarrow> string \<Rightarrow> contact_error + string" where
  "contact_digest C t = bindE (contact_lookup_key C) (\<lambda>key. Inr (hmac_sha256 C key t))"

record protected_point =
  pp_ciphertext :: string
  pp_lookup_hmac :: string
  pp_masked_value :: string

definition protect_point ::
  "crypto \<Rightarrow> (string \<Rightarrow> string option) \<Rightarrow> string \<Rightarrow> string \<Rightarrow> contact_error + protected_point" where
  "protect_point C email kind v =
     bindE (normalize_point email kind v) (\<lambda>t.
     bindE (contact_fernet C) (\<lambda>key.
     bindE (contact_digest C t) (\<lambda>lookup.
     case mask_point kind t of
       None \<Rightarrow> Inl ContactMaskFailed
     | Some masked \<Rightarrow> Inr \<lparr>pp_ciphertext = fernet_encrypt C key t, pp_lookup_hmac = lookup, pp_masked_value = masked\<rparr>)))"

definition decrypt_point :: "crypto \<Rightarrow> string \<Rightarrow> contact_error + string" where
  "decrypt_point C ciphertext =
     bindE (contact_fernet C) (\<lambda>key.
       if \<not> list_all (\<lambda>c. codept c < 128) ciphertext then Inl ContactDecryptFailed
       else (case fernet_decrypt C key ciphertext of None \<Rightarrow> Inl ContactDecryptFailed | Some t \<Rightarrow> Inr t))"

definition lookup_point ::
  "crypto \<Rightarrow> (string \<Rightarrow> string option) \<Rightarrow> string \<Rightarrow> string \<Rightarrow> contact_error + string" where
  "lookup_point C email kind v = bindE (normalize_point email kind v) (contact_digest C)"

definition contact_fingerprint :: "crypto \<Rightarrow> string \<Rightarrow> string \<Rightarrow> contact_error + string" where
  "contact_fingerprint C namespace payload =
     (let n = strip namespace in
      if n = [] \<or> 80 < length n then Inl InvalidFingerprintNamespace
      else bindE (contact_lookup_key C) (\<lambda>key. Inr (hmac_sha256 C key (n @ [CHR 0x00] @ payload))))"

section \<open>Evidence\<close>

definition contact_by_id :: "store \<Rightarrow> uuid \<Rightarrow> contact_error + contact" where
  "contact_by_id s cid =
     (case find (\<lambda>c. ct_id c = cid) (contacts s) of
        None \<Rightarrow> Inl (ContactNotFound ''contact not found'') | Some c \<Rightarrow> Inr c)"

definition assert_agent_principal_scope :: "store \<Rightarrow> uuid \<Rightarrow> uuid \<Rightarrow> contact_error + unit" where
  "assert_agent_principal_scope s aid pid =
     (if list_ex (\<lambda>c. cv_agent_id c = aid \<and> cv_principal_id c = pid) (conversations s) then Inr ()
      else Inl (ContactNotFound ''principal not found for agent''))"

definition validate_contact_source ::
  "store \<Rightarrow> uuid \<Rightarrow> uuid \<Rightarrow> uuid \<Rightarrow> uuid \<Rightarrow> contact_error + (conversation \<times> channel_identity)" where
  "validate_contact_source s aid pid cid iid =
     (case (get_conversation s cid, find (\<lambda>i. ci_id i = iid) (channel_identities s)) of
        (Some c, Some i) \<Rightarrow>
          if cv_agent_id c \<noteq> aid \<or> cv_principal_id c \<noteq> pid
          then Inl (ContactSourceMismatch ''source conversation does not match agent and principal'')
          else if ci_principal_id i \<noteq> pid
          then Inl (ContactSourceMismatch ''source channel identity does not match principal'')
          else if ci_channel i \<noteq> cv_channel c \<or> ci_route_key i \<noteq> cv_route_key c
          then Inl (ContactSourceMismatch ''source channel identity does not match conversation route'')
          else Inr (c, i)
      | _ \<Rightarrow> Inl (ContactSourceMismatch ''contact source evidence was not found''))"

definition contact_text :: "string option \<Rightarrow> string option" where
  "contact_text v = (case v of None \<Rightarrow> None | Some t \<Rightarrow> if strip t = [] then None else Some (strip t))"

section \<open>Operations\<close>

text \<open>The insertions under the constraints of \<open>models/contact.py\<close>: the primary key, one contact per
  principal, one point per contact, kind and digest, and the widths of the text columns.\<close>

definition fits :: "nat \<Rightarrow> string option \<Rightarrow> bool" where
  "fits n v = (case v of None \<Rightarrow> True | Some t \<Rightarrow> length t \<le> n)"

definition insert_contact :: "contact \<Rightarrow> store \<Rightarrow> contact_error + store" where
  "insert_contact c s =
     (if \<not> fits 200 (ct_company_name c) \<or> \<not> fits 160 (ct_job_title c) \<or>
         list_ex (\<lambda>x. ct_id x = ct_id c \<or> ct_principal_id x = ct_principal_id c) (contacts s)
      then Inl ContactIntegrity else Inr (s\<lparr>contacts := contacts s @ [c]\<rparr>))"

definition insert_contact_point :: "contact_point \<Rightarrow> store \<Rightarrow> contact_error + store" where
  "insert_contact_point p s =
     (if \<not> contact_point_checks p \<or> 255 < length (cp_masked_value p) \<or>
         list_ex (\<lambda>x. cp_id x = cp_id p \<or> (cp_contact_id x = cp_contact_id p \<and> cp_kind x = cp_kind p \<and>
           cp_lookup_hmac x = cp_lookup_hmac p)) (contact_points s)
      then Inl ContactIntegrity else Inr (s\<lparr>contact_points := contact_points s @ [p]\<rparr>))"

record contact_source =
  cs_agent_id :: uuid
  cs_principal_id :: uuid
  cs_conversation_id :: uuid
  cs_channel_identity_id :: uuid

definition ensure_contact ::
  "env \<Rightarrow> contact_source \<Rightarrow> string option \<Rightarrow> string option \<Rightarrow> store \<Rightarrow> contact_error + (store \<times> contact \<times> bool)" where
  "ensure_contact E src company job s =
     bindE (validate_contact_source s (cs_agent_id src) (cs_principal_id src) (cs_conversation_id src)
              (cs_channel_identity_id src)) (\<lambda>_.
     let co = contact_text company; jt = contact_text job in
     case find (\<lambda>c. ct_principal_id c = cs_principal_id src) (contacts s) of
       Some c \<Rightarrow>
         if (co \<noteq> None \<and> ct_company_name c \<noteq> co) \<or> (jt \<noteq> None \<and> ct_job_title c \<noteq> jt)
         then Inl ContactSemanticConflict else Inr (s, c, False)
     | None \<Rightarrow>
         let (i, s1) = fresh E s;
             c = \<lparr>ct_id = i, ct_principal_id = cs_principal_id src, ct_created_by_agent_id = cs_agent_id src,
                  ct_status = ContactProvisional, ct_company_name = co, ct_job_title = jt\<rparr>
         in bindE (insert_contact c s1) (\<lambda>s2. Inr (s2, c, True)))"

definition add_contact_point ::
  "env \<Rightarrow> crypto \<Rightarrow> (string \<Rightarrow> string option) \<Rightarrow> uuid \<Rightarrow> uuid \<Rightarrow> string \<Rightarrow> string \<Rightarrow> uuid \<Rightarrow> uuid \<Rightarrow> store \<Rightarrow>
     contact_error + (store \<times> contact_point \<times> bool)" where
  "add_contact_point E C email aid cid kind v conv ident s =
     bindE (contact_by_id s cid) (\<lambda>contact.
     bindE (validate_contact_source s aid (ct_principal_id contact) conv ident) (\<lambda>_.
     bindE (protect_point C email kind v) (\<lambda>prot.
     case find (\<lambda>p. cp_contact_id p = ct_id contact \<and> cp_kind p = kind \<and> cp_lookup_hmac p = pp_lookup_hmac prot)
            (contact_points s) of
       Some p \<Rightarrow> Inr (s, p, False)
     | None \<Rightarrow>
         let (i, s1) = fresh E s;
             p = \<lparr>cp_id = i, cp_created_at = tx_now E, cp_contact_id = ct_id contact, cp_kind = kind,
                  cp_ciphertext = pp_ciphertext prot, cp_lookup_hmac = pp_lookup_hmac prot,
                  cp_masked_value = pp_masked_value prot, cp_verification_status = ''unverified'',
                  cp_source_conversation_id = Some conv, cp_source_channel_identity_id = Some ident,
                  cp_verified_at = None, cp_revoked_at = None\<rparr>
         in bindE (insert_contact_point p s1) (\<lambda>s2. Inr (s2, p, True)))))"

definition find_contact_points ::
  "crypto \<Rightarrow> (string \<Rightarrow> string option) \<Rightarrow> contact_source \<Rightarrow> string \<Rightarrow> string \<Rightarrow> store \<Rightarrow>
     contact_error + contact_point list" where
  "find_contact_points C email src kind v s =
     bindE (validate_contact_source s (cs_agent_id src) (cs_principal_id src) (cs_conversation_id src)
              (cs_channel_identity_id src)) (\<lambda>_.
     bindE (lookup_point C email kind v) (\<lambda>lookup.
       Inr (sort_key (\<lambda>p. (cp_created_at p, cp_id p))
         (filter (\<lambda>p. cp_kind p = kind \<and> cp_lookup_hmac p = lookup \<and>
            list_ex (\<lambda>c. ct_id c = cp_contact_id p \<and> ct_principal_id c = cs_principal_id src) (contacts s))
            (contact_points s)))))"

end
