(* ===== verification/Consents.thy ===== *)
theory Consents
  imports Contacts Contracts
begin

text \<open>
  \<open>services/commercial/consents.py\<close>: the append-only evidence of commercial consent. \<open>record_consent\<close>
  files a grant or a revocation under the caller's key, \<open>effective_consent\<close> answers whether a purpose
  is authorised at an instant, \<open>effective_targets_for_point\<close> summarises the targets of a contact point.
  (\<open>consent_scope.py\<close> is the advisory lock that serialises the commands of a scope; an operation here
  runs alone.)
\<close>

section \<open>Commands and their normalisation\<close>

datatype consent_error =
    ConsentContact contact_error
  | ConsentSubjectMismatch string
  | ConsentIdempotency
  | InvalidConsent string
  | ConsentIntegrity

fun purpose_value :: "consent_purpose \<Rightarrow> string" where
  "purpose_value ConversationStorage = ''conversation_storage''"
| "purpose_value QuoteDelivery = ''quote_delivery''"
| "purpose_value CommercialFollowUpConsent = ''commercial_follow_up''"
| "purpose_value Marketing = ''marketing''"

fun consent_action_value :: "consent_action \<Rightarrow> string" where
  "consent_action_value Grant = ''grant''"
| "consent_action_value Revoke = ''revoke''"

definition purposes :: "consent_purpose list" where
  "purposes = [ConversationStorage, QuoteDelivery, CommercialFollowUpConsent, Marketing]"

definition consent_enum :: "('a \<Rightarrow> string) \<Rightarrow> 'a list \<Rightarrow> string \<Rightarrow> string \<Rightarrow> consent_error + 'a" where
  "consent_enum val members v name =
     (case find (\<lambda>m. val m = v) members of
        None \<Rightarrow> Inl (InvalidConsent (''invalid consent '' @ name)) | Some m \<Rightarrow> Inr m)"

definition consent_text :: "string \<Rightarrow> string \<Rightarrow> nat \<Rightarrow> consent_error + string" where
  "consent_text v name max_length =
     (let t = strip v in
      if t = [] \<or> max_length < length t then Inl (InvalidConsent (''invalid consent '' @ name)) else Inr t)"

text \<open>\<open>str.isalpha\<close> and \<open>str.isalnum\<close> on the code points up to 255.\<close>

definition py_isalpha :: "char \<Rightarrow> bool" where
  "py_isalpha c \<longleftrightarrow> is_lower c \<or> is_upper c \<or> codept c \<in> {170, 181, 186} \<or>
     (192 \<le> codept c \<and> codept c \<noteq> 215 \<and> codept c \<noteq> 247)"

definition py_isalnum :: "char \<Rightarrow> bool" where
  "py_isalnum c \<longleftrightarrow> py_isalpha c \<or> is_digit c \<or> codept c \<in> {178, 179, 185, 188, 189, 190}"

definition optional_channel :: "string option \<Rightarrow> string \<Rightarrow> consent_error + string option" where
  "optional_channel v name =
     (case v of
        None \<Rightarrow> Inr None
      | Some raw \<Rightarrow>
          bindE (consent_text raw name 40) (\<lambda>t.
          let n = casefold t in
          if \<not> py_isalpha (hd n) \<or> \<not> list_all (\<lambda>c. py_isalnum c \<or> c \<in> set ''_-'') n
          then Inl (InvalidConsent (''invalid consent '' @ name)) else Inr (Some n)))"

definition consent_utc :: "datetime \<Rightarrow> string \<Rightarrow> consent_error + instant" where
  "consent_utc d name =
     (case to_utc d of
        None \<Rightarrow> Inl (InvalidConsent (''consent '' @ name @ '' must include a timezone'')) | Some t \<Rightarrow> Inr t)"

definition optional_utc :: "datetime option \<Rightarrow> string \<Rightarrow> consent_error + instant option" where
  "optional_utc d name =
     (case d of None \<Rightarrow> Inr None | Some x \<Rightarrow> bindE (consent_utc x name) (\<lambda>t. Inr (Some t)))"

record consent_scope =
  sc_routing_agent_id :: uuid
  sc_principal_id :: uuid
  sc_purpose :: consent_purpose
  sc_source_conversation_id :: uuid
  sc_target_channel :: string
  sc_contact_point_id :: uuid

definition target_scope ::
  "uuid \<Rightarrow> uuid \<Rightarrow> consent_purpose \<Rightarrow> uuid option \<Rightarrow> string option \<Rightarrow> uuid option \<Rightarrow> consent_scope option" where
  "target_scope aid pid purpose conv target point =
     (case (conv, target, point) of
        (Some c, Some t, Some p) \<Rightarrow>
          Some \<lparr>sc_routing_agent_id = aid, sc_principal_id = pid, sc_purpose = purpose, sc_source_conversation_id = c,
            sc_target_channel = t, sc_contact_point_id = p\<rparr>
      | _ \<Rightarrow> None)"

section \<open>Recording\<close>

record consent_command =
  cc_agent_id :: uuid
  cc_principal_id :: uuid
  cc_purpose :: string
  cc_action :: string
  cc_policy_version :: string
  cc_channel :: string
  cc_target_channel :: "string option"
  cc_locale :: string
  cc_source_conversation_id :: uuid
  cc_source_channel_identity_id :: "uuid option"
  cc_correlation_id :: string
  cc_idempotency_key :: string
  cc_contact_id :: "uuid option"
  cc_contact_point_id :: "uuid option"
  cc_actor_admin_id :: "uuid option"
  cc_expires_at :: "datetime option"
  cc_occurred_at :: "datetime option"

record prepared_consent =
  pn_purpose :: consent_purpose
  pn_action :: consent_action
  pn_policy :: string
  pn_channel :: string
  pn_target :: "string option"
  pn_locale :: string
  pn_correlation :: string
  pn_key :: string
  pn_event_time :: instant
  pn_expiration :: "instant option"

definition normalize_consent :: "env \<Rightarrow> consent_command \<Rightarrow> consent_error + prepared_consent" where
  "normalize_consent E cmd =
     bindE (consent_enum purpose_value purposes (cc_purpose cmd) ''purpose'') (\<lambda>purpose.
     bindE (consent_enum consent_action_value [Grant, Revoke] (cc_action cmd) ''action'') (\<lambda>action.
     bindE (consent_text (cc_policy_version cmd) ''policy_version'' 80) (\<lambda>policy.
     bindE (consent_text (cc_channel cmd) ''channel'' 30) (\<lambda>channel.
     bindE (optional_channel (cc_target_channel cmd) ''target_channel'') (\<lambda>target.
     bindE (consent_text (cc_locale cmd) ''locale'' 20) (\<lambda>locale.
     bindE (consent_text (cc_correlation_id cmd) ''correlation_id'' 120) (\<lambda>correlation.
     bindE (consent_text (cc_idempotency_key cmd) ''idempotency_key'' 220) (\<lambda>key.
     bindE (consent_utc (case cc_occurred_at cmd of Some d \<Rightarrow> d | None \<Rightarrow> Aware (clock E) 0) ''occurred_at'') (\<lambda>event_time.
     bindE (optional_utc (cc_expires_at cmd) ''expires_at'') (\<lambda>expiration.
     bindE (require (\<not> (action = Revoke \<and> expiration \<noteq> None)) (InvalidConsent ''revocations cannot expire'')) (\<lambda>_.
     bindE (require (case expiration of None \<Rightarrow> True | Some t \<Rightarrow> event_time < t)
              (InvalidConsent ''consent expiration must be in the future'')) (\<lambda>_.
     bindE (require (\<not> (purpose = CommercialFollowUpConsent \<and> (target = None \<or> cc_contact_point_id cmd = None)))
              (InvalidConsent ''commercial follow-up consent requires an exact delivery target'')) (\<lambda>_.
       Inr \<lparr>pn_purpose = purpose, pn_action = action, pn_policy = policy, pn_channel = casefold channel,
            pn_target = target, pn_locale = locale, pn_correlation = correlation, pn_key = key,
            pn_event_time = event_time, pn_expiration = expiration\<rparr>)))))))))))))"

definition consent_source :: "store \<Rightarrow> consent_command \<Rightarrow> consent_action \<Rightarrow> consent_error + conversation" where
  "consent_source s cmd action =
     (case cc_source_channel_identity_id cmd of
        None \<Rightarrow>
          if action \<noteq> Revoke then Inl (InvalidConsent ''consent grant requires source identity evidence'')
          else (case get_conversation s (cc_source_conversation_id cmd) of
                  None \<Rightarrow> Inl (ConsentContact (ContactSourceMismatch ''consent source conversation does not match subject''))
                | Some c \<Rightarrow>
                    if cv_agent_id c \<noteq> cc_agent_id cmd \<or> cv_principal_id c \<noteq> cc_principal_id cmd
                    then Inl (ConsentContact (ContactSourceMismatch ''consent source conversation does not match subject''))
                    else Inr c)
      | Some i \<Rightarrow>
          mapErr ConsentContact
            (bindE (validate_contact_source s (cc_agent_id cmd) (cc_principal_id cmd) (cc_source_conversation_id cmd) i)
              (\<lambda>(c, _). Inr c)))"

definition consent_subject :: "store \<Rightarrow> consent_command \<Rightarrow> consent_error + unit" where
  "consent_subject s cmd =
     bindE (case cc_contact_id cmd of
              None \<Rightarrow> Inr None
            | Some cid \<Rightarrow>
                bindE (mapErr ConsentContact (contact_by_id s cid)) (\<lambda>c.
                  if ct_principal_id c \<noteq> cc_principal_id cmd
                  then Inl (ConsentSubjectMismatch ''contact does not belong to principal'') else Inr (Some c)))
       (\<lambda>contact.
         case cc_contact_point_id cmd of
           None \<Rightarrow> Inr ()
         | Some pid \<Rightarrow>
             (case contact of
                None \<Rightarrow> Inl (ConsentSubjectMismatch ''contact point consent requires a contact'')
              | Some c \<Rightarrow>
                  (case find (\<lambda>p. cp_id p = pid) (contact_points s) of
                     None \<Rightarrow> Inl (ConsentSubjectMismatch ''contact point does not belong to contact'')
                   | Some p \<Rightarrow>
                       if cp_contact_id p \<noteq> ct_id c
                       then Inl (ConsentSubjectMismatch ''contact point does not belong to contact'')
                       else Inr ())))"

definition consent_literal :: "consent_command \<Rightarrow> prepared_consent \<Rightarrow> (string \<times> json) list" where
  "consent_literal cmd n =
     [(''action'', JStr (consent_action_value (pn_action n))),
      (''agent_id'', uuid_json (cc_agent_id cmd)),
      (''channel'', JStr (pn_channel n)),
      (''target_channel'', opt_json JStr (pn_target n)),
      (''contact_id'', opt_json uuid_json (cc_contact_id cmd)),
      (''contact_point_id'', opt_json uuid_json (cc_contact_point_id cmd)),
      (''expires_at'', opt_json (\<lambda>t. JStr (isoformat_utc t)) (pn_expiration n)),
      (''locale'', JStr (pn_locale n)),
      (''policy_version'', JStr (pn_policy n)),
      (''principal_id'', uuid_json (cc_principal_id cmd)),
      (''purpose'', JStr (purpose_value (pn_purpose n))),
      (''source_channel_identity_id'', opt_json uuid_json (cc_source_channel_identity_id cmd)),
      (''source_conversation_id'', uuid_json (cc_source_conversation_id cmd))]"

definition consent_command_hash :: "env \<Rightarrow> consent_command \<Rightarrow> prepared_consent \<Rightarrow> string" where
  "consent_command_hash E cmd n = command_digest E True (consent_literal cmd n)"

definition new_consent :: "env \<Rightarrow> consent_command \<Rightarrow> prepared_consent \<Rightarrow> consent_record" where
  "new_consent E cmd n =
     \<lparr>cr_id = uuid5 E (cc_agent_id cmd) (''consent:'' @ pn_key n), cr_principal_id = cc_principal_id cmd,
      cr_contact_id = cc_contact_id cmd, cr_contact_point_id = cc_contact_point_id cmd, cr_agent_id = cc_agent_id cmd,
      cr_purpose = pn_purpose n, cr_action = pn_action n, cr_policy_version = pn_policy n, cr_channel = pn_channel n,
      cr_target_channel = pn_target n, cr_locale = pn_locale n,
      cr_source_conversation_id = Some (cc_source_conversation_id cmd),
      cr_source_channel_identity_id = cc_source_channel_identity_id cmd, cr_actor_admin_id = cc_actor_admin_id cmd,
      cr_correlation_id = pn_correlation n, cr_idempotency_key = pn_key n,
      cr_command_hash = consent_command_hash E cmd n, cr_occurred_at = pn_event_time n,
      cr_expires_at = pn_expiration n, cr_created_at = tx_now E\<rparr>"

definition insert_consent :: "consent_record \<Rightarrow> store \<Rightarrow> consent_error + store" where
  "insert_consent r s =
     (if \<not> consent_checks r \<or> 30 < length (cr_channel r) \<or>
         list_ex (\<lambda>x. cr_id x = cr_id r \<or> (cr_agent_id x = cr_agent_id r \<and> cr_idempotency_key x = cr_idempotency_key r))
           (consent_records s)
      then Inl ConsentIntegrity else Inr (s\<lparr>consent_records := consent_records s @ [r]\<rparr>))"

text \<open>Everything before the lookup of the receipt.\<close>

definition prepare_consent :: "env \<Rightarrow> store \<Rightarrow> consent_command \<Rightarrow> consent_error + prepared_consent" where
  "prepare_consent E s cmd =
     bindE (normalize_consent E cmd) (\<lambda>n.
     bindE (consent_source s cmd (pn_action n)) (\<lambda>c.
     bindE (if cv_channel c \<noteq> pn_channel n
            then Inl (ConsentContact (ContactSourceMismatch ''consent channel does not match source conversation''))
            else consent_subject s cmd) (\<lambda>_. Inr n)))"

definition consent_receipt :: "store \<Rightarrow> uuid \<Rightarrow> string \<Rightarrow> consent_record option" where
  "consent_receipt s aid key =
     find (\<lambda>r. cr_agent_id r = aid \<and> cr_idempotency_key r = key) (consent_records s)"

definition record_consent ::
  "env \<Rightarrow> consent_command \<Rightarrow> store \<Rightarrow> consent_error + (store \<times> consent_record \<times> bool)" where
  "record_consent E cmd s =
     bindE (prepare_consent E s cmd) (\<lambda>n.
     case consent_receipt s (cc_agent_id cmd) (pn_key n) of
       Some x \<Rightarrow>
         if cr_command_hash x \<noteq> consent_command_hash E cmd n then Inl ConsentIdempotency else Inr (s, x, False)
     | None \<Rightarrow>
         let r = new_consent E cmd n in bindE (insert_consent r s) (\<lambda>s1. Inr (s1, r, True)))"

section \<open>Reading\<close>

text \<open>\<open>order_by(occurred_at.desc(), created_at.desc(), id.desc())\<close>.\<close>

definition consent_order :: "consent_record \<Rightarrow> instant \<times> instant \<times> uuid" where
  "consent_order r = (cr_occurred_at r, cr_created_at r, cr_id r)"

definition newest_first :: "consent_record list \<Rightarrow> consent_record list" where
  "newest_first rs = rev (sort_key consent_order rs)"

definition consent_applies :: "instant \<Rightarrow> consent_record \<Rightarrow> bool" where
  "consent_applies at r \<longleftrightarrow> cr_action r = Grant \<and> (case cr_expires_at r of None \<Rightarrow> True | Some t \<Rightarrow> at < t)"

definition point_of_principal :: "store \<Rightarrow> uuid \<Rightarrow> uuid \<Rightarrow> consent_error + unit" where
  "point_of_principal s point pid =
     (case Option.bind (find (\<lambda>p. cp_id p = point) (contact_points s))
             (\<lambda>p. find (\<lambda>c. ct_id c = cp_contact_id p) (contacts s)) of
        None \<Rightarrow> Inl (ConsentSubjectMismatch ''contact point does not belong to principal'')
      | Some c \<Rightarrow>
          if ct_principal_id c \<noteq> pid
          then Inl (ConsentSubjectMismatch ''contact point does not belong to principal'') else Inr ())"

record consent_query =
  cq_agent_id :: uuid
  cq_principal_id :: uuid
  cq_purpose :: string
  cq_contact_point_id :: "uuid option"
  cq_source_conversation_id :: "uuid option"
  cq_target_channel :: "string option"
  cq_at :: "datetime option"

definition consent_filter :: "consent_query \<Rightarrow> consent_purpose \<Rightarrow> string option \<Rightarrow> consent_record \<Rightarrow> bool" where
  "consent_filter q purpose target r \<longleftrightarrow>
     cr_agent_id r = cq_agent_id q \<and> cr_principal_id r = cq_principal_id q \<and> cr_purpose r = purpose \<and>
     cr_contact_point_id r = cq_contact_point_id q \<and>
     (target_scope (cq_agent_id q) (cq_principal_id q) purpose (cq_source_conversation_id q) target
        (cq_contact_point_id q) \<noteq> None \<longrightarrow>
      cr_source_conversation_id r = cq_source_conversation_id q \<and> cr_target_channel r = target)"

definition latest_consent :: "consent_query \<Rightarrow> consent_purpose \<Rightarrow> string option \<Rightarrow> store \<Rightarrow> consent_record option" where
  "latest_consent q purpose target s =
     (case newest_first (filter (consent_filter q purpose target) (consent_records s)) of [] \<Rightarrow> None | r # _ \<Rightarrow> Some r)"

definition effective_consent ::
  "env \<Rightarrow> consent_query \<Rightarrow> store \<Rightarrow> consent_error + (bool \<times> consent_record option)" where
  "effective_consent E q s =
     bindE (consent_enum purpose_value purposes (cq_purpose q) ''purpose'') (\<lambda>purpose.
     bindE (optional_channel (cq_target_channel q) ''target_channel'') (\<lambda>target.
     bindE (require (\<not> (purpose = CommercialFollowUpConsent \<and>
              (cq_source_conversation_id q = None \<or> target = None \<or> cq_contact_point_id q = None)))
              (InvalidConsent ''commercial follow-up authorization requires an exact scope'')) (\<lambda>_.
     bindE (require ((cq_source_conversation_id q = None) = (target = None))
              (InvalidConsent ''target-scoped consent requires source conversation and target channel'')) (\<lambda>_.
     bindE (mapErr ConsentContact (assert_agent_principal_scope s (cq_agent_id q) (cq_principal_id q))) (\<lambda>_.
     bindE (case cq_contact_point_id q of None \<Rightarrow> Inr () | Some p \<Rightarrow> point_of_principal s p (cq_principal_id q)) (\<lambda>_.
     bindE (consent_utc (case cq_at q of Some d \<Rightarrow> d | None \<Rightarrow> Aware (clock E) 0) ''at'') (\<lambda>at.
       let r = latest_consent q purpose target s in
       Inr (case r of None \<Rightarrow> False | Some x \<Rightarrow> consent_applies at x, r))))))))"

text \<open>\<open>latest.setdefault(key, record)\<close> over the records, newest first.\<close>

definition scope_key :: "consent_record \<Rightarrow> uuid option \<times> string option" where
  "scope_key r = (cr_source_conversation_id r, cr_target_channel r)"

fun latest_scopes ::
  "consent_record list \<Rightarrow> ((uuid option \<times> string option) \<times> consent_record) list \<Rightarrow>
     ((uuid option \<times> string option) \<times> consent_record) list" where
  "latest_scopes [] d = d"
| "latest_scopes (r # rs) d =
     latest_scopes rs (case map_of d (scope_key r) of None \<Rightarrow> d @ [(scope_key r, r)] | Some _ \<Rightarrow> d)"

definition effective_targets_for_point ::
  "env \<Rightarrow> uuid \<Rightarrow> uuid \<Rightarrow> string \<Rightarrow> uuid \<Rightarrow> datetime option \<Rightarrow> store \<Rightarrow> consent_error + string set" where
  "effective_targets_for_point E aid pid purpose point at s =
     bindE (consent_enum purpose_value purposes purpose ''purpose'') (\<lambda>purpose.
     bindE (mapErr ConsentContact (assert_agent_principal_scope s aid pid)) (\<lambda>_.
     bindE (point_of_principal s point pid) (\<lambda>_.
     bindE (consent_utc (case at of Some d \<Rightarrow> d | None \<Rightarrow> Aware (clock E) 0) ''at'') (\<lambda>at.
       let records = newest_first (filter (\<lambda>r. cr_agent_id r = aid \<and> cr_principal_id r = pid \<and> cr_purpose r = purpose \<and>
             cr_contact_point_id r = Some point \<and> cr_source_conversation_id r \<noteq> None \<and> cr_target_channel r \<noteq> None)
             (consent_records s))
       in Inr (set (List.map_filter cr_target_channel
            (filter (consent_applies at) (map snd (latest_scopes records [])))))))))"

end
