(* ===== verification/FollowUps.thy ===== *)
theory FollowUps
  imports Opportunities Consents ChannelCatalog
begin

text \<open>
  \<open>services/commercial/follow_ups.py\<close>: the durable registration of commercial follow-ups. A task is
  scheduled under an effective consent for its exact scope, moves through its life cycle by operator
  transitions, is deferred by the worker, and is taken out of the queue when the consent is revoked. Every
  change starts the next version of the task and leaves an event.
\<close>

section \<open>Errors and helpers\<close>

datatype follow_up_error =
    FuInvalid string
  | FuVersionConflict
  | FuIdempotency
  | FuConsentRequired
  | FuNotFound
  | FuOpportunity opportunity_error
  | FuConsent consent_error
  | FuIntegrity

definition fu_text :: "string \<Rightarrow> string \<Rightarrow> nat \<Rightarrow> follow_up_error + string" where
  "fu_text = policy_required_text FuInvalid"

definition fu_utc :: "datetime \<Rightarrow> string \<Rightarrow> follow_up_error + instant" where
  "fu_utc = policy_aware_utc FuInvalid"

definition fu_assert_hash :: "string \<Rightarrow> string \<Rightarrow> follow_up_error + unit" where
  "fu_assert_hash = policy_assert_hash FuIdempotency"

definition given_or_now :: "env \<Rightarrow> datetime option \<Rightarrow> datetime" where
  "given_or_now E d = (case d of Some x \<Rightarrow> x | None \<Rightarrow> Aware (clock E) 0)"

definition follow_up_statuses :: "follow_up_status list" where
  "follow_up_statuses = [FuScheduled, FuDispatchQueued, FuInProgress, FuCompleted, FuCancelled, FuReviewRequired]"

definition follow_up_kinds :: "follow_up_kind list" where
  "follow_up_kinds = [CommercialFollowUp, MeetingCoordination, ProposalReminder]"

definition fu_target_channel :: "string \<Rightarrow> follow_up_error + string" where
  "fu_target_channel v =
     bindE (fu_text v ''target_channel'' 40) (\<lambda>t.
       if channel_text (ascii_lower t) then Inr (ascii_lower t) else Inl (FuInvalid ''invalid target_channel''))"

definition assert_opportunity_open :: "opportunity \<Rightarrow> follow_up_error + unit" where
  "assert_opportunity_open p =
     (if terminal_stage (op_stage p) then Inl (FuInvalid ''commercial opportunity is closed'') else Inr ())"

definition assert_dispatchable :: "conversation \<Rightarrow> opportunity \<Rightarrow> follow_up_error + unit" where
  "assert_dispatchable c p =
     (if cv_status c \<noteq> ''active'' \<or> cv_control_mode c \<noteq> Automated
      then Inl (FuInvalid ''scheduled follow-up requires an active automated conversation'')
      else if cv_automation_agent_id c \<noteq> op_assigned_agent_id p
      then Inl (FuInvalid ''conversation acting agent must own the commercial opportunity'') else Inr ())"

definition linked_conversations :: "store \<Rightarrow> uuid \<Rightarrow> uuid list" where
  "linked_conversations s oid =
     List.map_filter ol_conversation_id (filter (\<lambda>l. ol_opportunity_id l = oid) (conversation_links s))"

definition resolve_linked_conversation :: "store \<Rightarrow> uuid \<Rightarrow> uuid option \<Rightarrow> follow_up_error + conversation" where
  "resolve_linked_conversation s oid cid =
     bindE (case cid of
              None \<Rightarrow>
                (case linked_conversations s oid of
                   [x] \<Rightarrow> Inr x
                 | _ \<Rightarrow> Inl (FuInvalid ''follow-up requires exactly one linked conversation or an explicit one''))
            | Some c \<Rightarrow>
                if c \<in> set (linked_conversations s oid) then Inr c
                else Inl (FuInvalid ''follow-up conversation is not linked to the opportunity''))
       (\<lambda>i. case get_conversation s i of
              None \<Rightarrow> Inl (FuInvalid ''follow-up conversation is unavailable'') | Some c \<Rightarrow> Inr c)"

definition task_conversation :: "store \<Rightarrow> follow_up_task \<Rightarrow> conversation option" where
  "task_conversation s t = Option.bind (ft_conversation_id t) (get_conversation s)"

definition resolve_quote_version :: "store \<Rightarrow> uuid \<Rightarrow> follow_up_kind \<Rightarrow> uuid option \<Rightarrow> follow_up_error + quote_version option" where
  "resolve_quote_version s oid kind qid =
     (if kind \<noteq> ProposalReminder then
        (if qid \<noteq> None then Inl (FuInvalid ''quote_version_id is only valid for proposal reminders'') else Inr None)
      else
        (case qid of
           None \<Rightarrow> Inl (FuInvalid ''proposal reminder requires an issued quote version'')
         | Some q \<Rightarrow>
             (case find (\<lambda>v. qv_id v = q \<and> qv_status v = QuoteIssued \<and>
                      list_ex (\<lambda>r. qr_id r = qv_quote_request_id v \<and> qr_opportunity_id r = oid) (quote_requests s))
                    (quote_versions s) of
                None \<Rightarrow> Inl (FuInvalid ''proposal reminder requires an issued quote version'')
              | Some v \<Rightarrow> Inr (Some v))))"

definition fu_contact :: "store \<Rightarrow> uuid \<Rightarrow> follow_up_error + contact" where
  "fu_contact s cid =
     (case find (\<lambda>c. ct_id c = cid) (contacts s) of
        None \<Rightarrow> Inl (FuInvalid ''commercial contact is unavailable'')
      | Some c \<Rightarrow> if ct_status c = ContactArchived then Inl (FuInvalid ''commercial contact is unavailable'') else Inr c)"

definition fu_contact_point :: "store \<Rightarrow> contact \<Rightarrow> uuid option \<Rightarrow> follow_up_error + contact_point" where
  "fu_contact_point s c pid =
     (case Option.bind pid (\<lambda>i. find (\<lambda>p. cp_id p = i) (contact_points s)) of
        None \<Rightarrow> Inl (FuInvalid ''follow-up contact point is unavailable'')
      | Some p \<Rightarrow>
          if cp_contact_id p \<noteq> ct_id c \<or> cp_verification_status p \<noteq> ''verified''
          then Inl (FuInvalid ''follow-up contact point is unavailable'') else Inr p)"

text \<open>\<open>{"email": "email", "whatsapp": "phone"}.get(target_channel)\<close>.\<close>

definition expected_kind :: "string option \<Rightarrow> string option" where
  "expected_kind t =
     (if t = Some ''email'' then Some ''email'' else if t = Some ''whatsapp'' then Some ''phone'' else None)"

text \<open>\<open>re.sub(r"\D", "", value)\<close>.\<close>

definition digits_of :: "string \<Rightarrow> string" where
  "digits_of s = filter is_digit s"

definition assert_point_matches :: "contact_point \<Rightarrow> string option \<Rightarrow> follow_up_error + unit" where
  "assert_point_matches p target =
     (if expected_kind target \<noteq> Some (cp_kind p)
      then Inl (FuInvalid ''follow-up contact point does not match target channel'') else Inr ())"

definition follow_up_query :: "uuid \<Rightarrow> uuid \<Rightarrow> uuid \<Rightarrow> uuid \<Rightarrow> string option \<Rightarrow> datetime option \<Rightarrow> consent_query" where
  "follow_up_query aid pid point cid target at =
     \<lparr>cq_agent_id = aid, cq_principal_id = pid, cq_purpose = ''commercial_follow_up'', cq_contact_point_id = Some point,
      cq_source_conversation_id = Some cid, cq_target_channel = target, cq_at = at\<rparr>"

text \<open>\<open>effective\<close> and the check both callers make of it.\<close>

definition require_consent :: "env \<Rightarrow> consent_query \<Rightarrow> store \<Rightarrow> follow_up_error + consent_record" where
  "require_consent E q s =
     bindE (mapErr FuConsent (effective_consent E q s)) (\<lambda>(granted, r).
       case r of None \<Rightarrow> Inl FuConsentRequired | Some x \<Rightarrow> if granted then Inr x else Inl FuConsentRequired)"

section \<open>Automation policies\<close>

definition default_policy :: "env \<Rightarrow> uuid \<Rightarrow> automation_policy" where
  "default_policy E aid =
     \<lparr>ap_id = uuid5 E aid ''commercial-automation-policy'', ap_agent_id = aid, ap_is_enabled = False,
      ap_allowed_kinds = [], ap_timezone = ''UTC'', ap_quiet_hours_start = None, ap_quiet_hours_end = None,
      ap_min_interval_seconds = 3600, ap_max_attempts = 3, ap_max_daily_tasks = 25, ap_max_pending_tasks = 100,
      ap_version = 0, ap_updated_by_admin_id = None\<rparr>"

definition stored_policy :: "store \<Rightarrow> uuid \<Rightarrow> automation_policy option" where
  "stored_policy s aid = find (\<lambda>p. ap_agent_id p = aid) (automation_policies s)"

definition ensure_policy :: "env \<Rightarrow> uuid \<Rightarrow> store \<Rightarrow> follow_up_error + (store \<times> automation_policy)" where
  "ensure_policy E aid s =
     (case stored_policy s aid of
        Some p \<Rightarrow> Inr (s, p)
      | None \<Rightarrow>
          let p = default_policy E aid in
          if list_ex (\<lambda>x. ap_id x = ap_id p) (automation_policies s) then Inl FuIntegrity
          else Inr (s\<lparr>automation_policies := automation_policies s @ [p]\<rparr>, p))"

text \<open>\<open>get_policy\<close>: the stored policy, or the disabled defaults that are not stored. A view has the fields
  of the row without its identity and its author.\<close>

record policy_view =
  vw_agent_id :: uuid
  vw_is_enabled :: bool
  vw_allowed_kinds :: "string list"
  vw_timezone :: string
  vw_quiet_hours_start :: "int option"
  vw_quiet_hours_end :: "int option"
  vw_min_interval_seconds :: int
  vw_max_attempts :: int
  vw_max_daily_tasks :: int
  vw_max_pending_tasks :: int
  vw_version :: int

definition policy_view_of :: "automation_policy option \<Rightarrow> uuid \<Rightarrow> policy_view" where
  "policy_view_of stored aid =
     (case stored of
        None \<Rightarrow>
          \<lparr>vw_agent_id = aid, vw_is_enabled = False, vw_allowed_kinds = [], vw_timezone = ''UTC'',
           vw_quiet_hours_start = None, vw_quiet_hours_end = None, vw_min_interval_seconds = 3600,
           vw_max_attempts = 3, vw_max_daily_tasks = 25, vw_max_pending_tasks = 100, vw_version = 0\<rparr>
      | Some p \<Rightarrow>
          \<lparr>vw_agent_id = ap_agent_id p, vw_is_enabled = ap_is_enabled p, vw_allowed_kinds = ap_allowed_kinds p,
           vw_timezone = ap_timezone p, vw_quiet_hours_start = ap_quiet_hours_start p,
           vw_quiet_hours_end = ap_quiet_hours_end p, vw_min_interval_seconds = ap_min_interval_seconds p,
           vw_max_attempts = ap_max_attempts p, vw_max_daily_tasks = ap_max_daily_tasks p,
           vw_max_pending_tasks = ap_max_pending_tasks p, vw_version = ap_version p\<rparr>)"

definition get_policy :: "uuid \<Rightarrow> store \<Rightarrow> policy_view" where
  "get_policy aid s = policy_view_of (stored_policy s aid) aid"

record policy_settings =
  st_is_enabled :: bool
  st_allowed_kinds :: "string list"
  st_timezone :: string
  st_quiet_hours_start :: "int option"
  st_quiet_hours_end :: "int option"
  st_min_interval_seconds :: int
  st_max_attempts :: int
  st_max_daily_tasks :: int
  st_max_pending_tasks :: int

fun each_kind :: "string list \<Rightarrow> follow_up_error + string list" where
  "each_kind [] = Inr []"
| "each_kind (k # ks) =
     bindE (policy_enum_value FuInvalid follow_up_kind_value follow_up_kinds k ''follow-up kind'') (\<lambda>m.
     bindE (each_kind ks) (\<lambda>ms. Inr (follow_up_kind_value m # ms)))"

text \<open>\<open>known\<close> are the keys of the time-zone database (\<open>ZoneInfo(key)\<close> does not raise).\<close>

definition configure_policy ::
  "env \<Rightarrow> (string \<Rightarrow> bool) \<Rightarrow> uuid \<Rightarrow> uuid \<Rightarrow> int \<Rightarrow> policy_settings \<Rightarrow> store \<Rightarrow> follow_up_error + (store \<times> policy_view)" where
  "configure_policy E known aid admin expected v s =
     bindE (require (\<not> expected < 0) FuVersionConflict) (\<lambda>_.
     bindE (each_kind (st_allowed_kinds v)) (\<lambda>kinds.
     bindE (fu_text (st_timezone v) ''timezone'' 64) (\<lambda>zone.
     bindE (require (known zone) (FuInvalid ''invalid timezone'')) (\<lambda>_.
     bindE (require ((st_quiet_hours_start v = None) = (st_quiet_hours_end v = None))
              (FuInvalid ''quiet hours start and end must be configured together'')) (\<lambda>_.
     bindE (require (\<not> (st_quiet_hours_start v \<noteq> None \<and> st_quiet_hours_start v = st_quiet_hours_end v))
              (FuInvalid ''quiet hours cannot cover zero time'')) (\<lambda>_.
     bindE (require (0 \<le> st_min_interval_seconds v \<and> st_min_interval_seconds v \<le> 2678400)
              (FuInvalid ''invalid min_interval_seconds'')) (\<lambda>_.
     bindE (require (1 \<le> st_max_attempts v \<and> st_max_attempts v \<le> 20) (FuInvalid ''invalid max_attempts'')) (\<lambda>_.
     bindE (require (1 \<le> st_max_daily_tasks v \<and> st_max_daily_tasks v \<le> 10000)
              (FuInvalid ''invalid max_daily_tasks'')) (\<lambda>_.
     bindE (require (1 \<le> st_max_pending_tasks v \<and> st_max_pending_tasks v \<le> 100000)
              (FuInvalid ''invalid max_pending_tasks'')) (\<lambda>_.
     bindE (ensure_policy E aid s) (\<lambda>(s1, p).
       if ap_version p \<noteq> expected then Inl FuVersionConflict
       else
         let p1 = p\<lparr>ap_is_enabled := st_is_enabled v, ap_allowed_kinds := sort (remdups kinds), ap_timezone := zone,
                ap_quiet_hours_start := st_quiet_hours_start v, ap_quiet_hours_end := st_quiet_hours_end v,
                ap_min_interval_seconds := st_min_interval_seconds v, ap_max_attempts := st_max_attempts v,
                ap_max_daily_tasks := st_max_daily_tasks v, ap_max_pending_tasks := st_max_pending_tasks v,
                ap_updated_by_admin_id := Some admin, ap_version := ap_version p + 1\<rparr>
         in if \<not> automation_policy_checks p1 then Inl FuIntegrity
            else Inr (s1\<lparr>automation_policies := put_row ap_id p1 (automation_policies s1)\<rparr>,
                   policy_view_of (Some p1) aid))))))))))))"

section \<open>Events\<close>

text \<open>\<open>_event\<close>: it copies the identifiers of the task's messages.\<close>

definition task_event ::
  "env \<Rightarrow> follow_up_task \<Rightarrow> follow_up_event_type \<Rightarrow> follow_up_status option \<Rightarrow> follow_up_status \<Rightarrow> uuid option \<Rightarrow>
     uuid option \<Rightarrow> string option \<Rightarrow> uuid option \<Rightarrow> string \<Rightarrow> string \<Rightarrow> string \<Rightarrow> string option \<Rightarrow> uuid option \<Rightarrow>
     follow_up_event" where
  "task_event E t etype from_status to_status agent operator worker routing correlation key hash safe_code caused =
     (let by_worker = (case worker of None \<Rightarrow> False | Some w \<Rightarrow> w \<noteq> [])
      in \<lparr>fe_id = uuid5 E (ft_id t) (''follow-up-event:'' @ key), fe_task_id = ft_id t,
          fe_opportunity_id = ft_opportunity_id t, fe_event_type = etype, fe_from_status = from_status,
          fe_to_status = to_status, fe_state_version = ft_state_version t,
          fe_actor_type = (if by_worker then FuWorker else if operator \<noteq> None then FuOperator else FuAgent),
          fe_actor_agent_id = (if by_worker \<or> operator \<noteq> None then None else agent),
          fe_actor_admin_id = operator, fe_actor_worker_id = worker, fe_routing_agent_id = routing,
          fe_automation_agent_id = Some (ft_assigned_agent_id t), fe_target_channel = ft_target_channel t,
          fe_control_version = ft_scheduled_control_version t,
          fe_automation_version = ft_scheduled_automation_version t,
          fe_scheduled_policy_version = ft_scheduled_policy_version t,
          fe_executed_policy_version = ft_executed_policy_version t,
          fe_consent_record_id = ft_consent_record_id t,
          fe_executed_consent_record_id = ft_executed_consent_record_id t,
          fe_caused_by_consent_record_id = caused, fe_chat_message_id = ft_chat_message_id t,
          fe_outbound_message_id = ft_outbound_message_id t,
          fe_source_conversation_id =
            (case ft_source_conversation_id t of Some i \<Rightarrow> Some i | None \<Rightarrow> ft_conversation_id t),
          fe_had_chat_message_evidence = (ft_had_chat_message_evidence t \<or> ft_chat_message_id t \<noteq> None),
          fe_had_outbound_message_evidence = (ft_had_outbound_message_evidence t \<or> ft_outbound_message_id t \<noteq> None),
          fe_safe_code = safe_code, fe_correlation_id = correlation, fe_idempotency_key = key,
          fe_command_hash = hash, fe_created_at = tx_now E\<rparr>)"

text \<open>\<open>flush\<close> of a changed task with its event.\<close>

definition flush_task :: "follow_up_task \<Rightarrow> follow_up_event \<Rightarrow> store \<Rightarrow> follow_up_error + store" where
  "flush_task t e s =
     (case Option.bind (update_follow_up_task t s) (insert_follow_up_event e) of
        None \<Rightarrow> Inl FuIntegrity | Some s' \<Rightarrow> Inr s')"

definition task_receipt :: "store \<Rightarrow> uuid \<Rightarrow> string \<Rightarrow> follow_up_event option" where
  "task_receipt s tid key = find (\<lambda>e. fe_task_id e = tid \<and> fe_idempotency_key e = key) (follow_up_events s)"

definition get_task :: "store \<Rightarrow> uuid \<Rightarrow> follow_up_task option" where
  "get_task s tid = find (\<lambda>t. ft_id t = tid) (follow_up_tasks s)"

end
