(* ===== verification/ContactPromises.thy ===== *)
theory ContactPromises
  imports Consents
begin

text \<open>
  What the contact service promises: the uniqueness of contacts and points survives its operations, a
  stored value is read back as the normalised text, and a point is found again by any spelling of its
  value, alone.
\<close>

section \<open>Normalised values\<close>

lemma strip_no_space: "list_all (\<lambda>c. \<not> is_space c) s \<Longrightarrow> strip s = s"
proof -
  assume a: "list_all (\<lambda>c. \<not> is_space c) s"
  have d: "dropWhile is_space t = t" if "list_all (\<lambda>c. \<not> is_space c) t" for t
    using that by (cases t) auto
  from a show ?thesis by (simp add: strip_def d)
qed

lemma e164_no_separator: "e164 s \<Longrightarrow> list_all (\<lambda>c. \<not> phone_separator c) s"
proof -
  have digits: "\<not> phone_separator c" if "is_digit c" for c
    using that by (auto simp: phone_separator_def is_digit_def is_space_def)
  have plus: "\<not> phone_separator (CHR ''+'')" by (simp add: phone_separator_def is_space_def)
  show "e164 s \<Longrightarrow> list_all (\<lambda>c. \<not> phone_separator c) s"
    using digits plus by (auto simp: e164_def list_all_iff split: list.splits)
qed

text \<open>Normalising a telephone number again changes nothing.\<close>

lemma normalize_phone_idem:
  assumes "normalize_point email ''phone'' v = Inr t"
  shows "e164 t \<and> normalize_point email ''phone'' t = Inr t"
proof -
  from assms have e: "e164 t" by (auto simp: normalize_point_def Let_def split: if_splits)
  from e164_no_separator [OF e] have "list_all (\<lambda>c. \<not> is_space c) t"
    by (auto simp: list_all_iff phone_separator_def)
  then have "strip t = t" by (rule strip_no_space)
  moreover have "compact_phone t = t"
    using e164_no_separator [OF e] by (simp add: compact_phone_def filter_id_conv list_all_iff)
  ultimately show ?thesis using e by (simp add: normalize_point_def Let_def)
qed

lemma fold_char_idem: "concat (map fold_char (fold_char c)) = fold_char c"
proof -
  have up: "\<not> is_upper d \<and> \<not> (192 \<le> codept d \<and> codept d \<le> 222 \<and> codept d \<noteq> 215) \<and> codept d \<noteq> 223"
    if "codept d = codept c + 32" "is_upper c \<or> (192 \<le> codept c \<and> codept c \<le> 222 \<and> codept c \<noteq> 215)" for d
    using that by (auto simp: is_upper_def)
  have code: "codept (char_of (codept c + 32)) = codept c + 32"
    if "is_upper c \<or> (192 \<le> codept c \<and> codept c \<le> 222)"
    using that by (auto simp: is_upper_def)
  show ?thesis
  proof (cases "is_upper c \<or> (192 \<le> codept c \<and> codept c \<le> 222 \<and> codept c \<noteq> 215)")
    case True
    let ?d = "char_of (codept c + 32) :: char"
    have "codept ?d = codept c + 32" using code True by auto
    from up [OF this True] have "fold_char ?d = [?d]" by (simp add: fold_char_def)
    moreover have "fold_char c = [?d]" using True by (simp add: fold_char_def)
    ultimately show ?thesis by simp
  next
    case False
    then show ?thesis by (auto simp: fold_char_def is_upper_def)
  qed
qed

lemma casefold_idem [simp]: "casefold (casefold s) = casefold s"
proof (induction s)
  case (Cons c s)
  have "casefold (fold_char c @ casefold s) = fold_char c @ casefold s"
    using Cons fold_char_idem [of c] by (simp add: casefold_def)
  then show ?case by (simp add: casefold_def)
qed (simp add: casefold_def)

text \<open>What is protected can be decrypted, and is looked up by the digest it was stored under.\<close>

lemma protect_point_readable:
  assumes "protect_point C email kind v = Inr prot"
    "\<And>k t. fernet_key_ok C k \<Longrightarrow> fernet_decrypt C k (fernet_encrypt C k t) = Some t"
    "\<And>k t. list_all (\<lambda>c. codept c < 128) (fernet_encrypt C k t)"
  shows "\<exists>t. normalize_point email kind v = Inr t \<and> decrypt_point C (pp_ciphertext prot) = Inr t \<and>
    lookup_point C email kind v = Inr (pp_lookup_hmac prot)"
proof -
  from assms(1) obtain t key where t: "normalize_point email kind v = Inr t" and key: "contact_fernet C = Inr key"
    and cipher: "pp_ciphertext prot = fernet_encrypt C key t" and digest: "contact_digest C t = Inr (pp_lookup_hmac prot)"
    by (auto simp: protect_point_def bindE_eq_Inr split: option.splits)
  from key have ok: "fernet_key_ok C key" by (auto simp: contact_fernet_def bindE_eq_Inr split: if_splits)
  from t key digest show ?thesis
    by (simp add: decrypt_point_def cipher assms(3) assms(2) [OF ok] lookup_point_def)
qed

section \<open>Uniqueness\<close>

definition point_value :: "contact_point \<Rightarrow> uuid \<times> string \<times> string" where
  "point_value p = (cp_contact_id p, cp_kind p, cp_lookup_hmac p)"

definition contacts_wf :: "store \<Rightarrow> bool" where
  "contacts_wf s \<longleftrightarrow>
     distinct (map ct_id (contacts s)) \<and> distinct (map ct_principal_id (contacts s)) \<and>
     distinct (map cp_id (contact_points s)) \<and> distinct (map point_value (contact_points s)) \<and>
     list_all contact_point_checks (contact_points s)"

lemma ensure_contact_cases [consumes 1, case_names known new]:
  assumes "ensure_contact E src company job s = Inr (s', c, b)"
  obtains "b = False" "s' = s" "c \<in> set (contacts s)" "ct_principal_id c = cs_principal_id src"
  | "b = True" "s' = s\<lparr>draws := Suc (draws s), contacts := contacts s @ [c]\<rparr>"
    "\<forall>x\<in>set (contacts s). ct_id x \<noteq> ct_id c \<and> ct_principal_id x \<noteq> ct_principal_id c"
    "ct_principal_id c = cs_principal_id src"
  using assms
  by (auto simp: ensure_contact_def bindE_eq_Inr Let_def fresh_def insert_contact_def list_ex_iff split: option.splits if_splits
      dest: find_SomeD)

lemma add_point_cases [consumes 1, case_names known new]:
  assumes "add_contact_point E C email aid cid kind v conv ident s = Inr (s', p, b)"
  obtains c prot where "b = False" "s' = s" "contact_by_id s cid = Inr c" "protect_point C email kind v = Inr prot"
      "p \<in> set (contact_points s)" "point_value p = (ct_id c, kind, pp_lookup_hmac prot)"
  | c prot where "b = True" "s' = s\<lparr>draws := Suc (draws s), contact_points := contact_points s @ [p]\<rparr>"
      "contact_by_id s cid = Inr c" "protect_point C email kind v = Inr prot"
      "point_value p = (ct_id c, kind, pp_lookup_hmac prot)" "contact_point_checks p"
      "\<forall>x\<in>set (contact_points s). cp_id x \<noteq> cp_id p \<and> point_value x \<noteq> point_value p"
proof -
  from assms obtain c ev prot where c: "contact_by_id s cid = Inr c"
      and ev: "validate_contact_source s aid (ct_principal_id c) conv ident = Inr ev"
      and prot: "protect_point C email kind v = Inr prot"
    by (auto simp: add_contact_point_def bindE_eq_Inr)
  show thesis
  proof (cases "find (\<lambda>p. cp_contact_id p = ct_id c \<and> cp_kind p = kind \<and> cp_lookup_hmac p = pp_lookup_hmac prot)
      (contact_points s)")
    case (Some q)
    with assms c ev prot have "q = p" "s' = s" "\<not> b" by (auto simp: add_contact_point_def)
    with find_SomeD [OF Some] show thesis by (intro that(1) [OF _ _ c prot]) (auto simp: point_value_def)
  next
    case None
    with assms c ev prot show thesis
      by (intro that(2) [OF _ _ c prot])
        (auto simp: add_contact_point_def Let_def fresh_def insert_contact_point_def list_ex_iff point_value_def
          bindE_eq_Inr split: if_splits)
  qed
qed

inductive contact_op :: "store \<Rightarrow> store \<Rightarrow> bool" where
  ensure: "ensure_contact E src company job s = Inr (s', c, b) \<Longrightarrow> contact_op s s'"
| add_point: "add_contact_point E C email aid cid kind v conv ident s = Inr (s', p, b) \<Longrightarrow> contact_op s s'"

lemma contact_op_wf: "contact_op s s' \<Longrightarrow> contacts_wf s \<Longrightarrow> contacts_wf s'"
proof (induction rule: contact_op.induct)
  case (ensure E src company job s s' c b)
  from ensure.hyps show ?case
    by (cases rule: ensure_contact_cases) (use ensure.prems in \<open>auto simp: contacts_wf_def\<close>)
next
  case (add_point E C email aid cid kind v conv ident s s' p b)
  from add_point.hyps show ?case
    by (cases rule: add_point_cases) (use add_point.prems in \<open>auto simp: contacts_wf_def\<close>)
qed

lemma contact_ops_wf: "contact_op\<^sup>*\<^sup>* s s' \<Longrightarrow> contacts_wf s \<Longrightarrow> contacts_wf s'"
  by (induction rule: rtranclp_induct) (auto intro: contact_op_wf)

section \<open>Finding a point again\<close>

lemma filter_unique:
  assumes "distinct (map key t)" "p \<in> set t" "P p" "\<And>x. x \<in> set t \<Longrightarrow> P x \<Longrightarrow> key x = key p"
  shows "filter P t = [p]"
proof -
  have only: "x = p" if "x \<in> set t" "P x" for x
    using same_key [OF assms(1) that(1) assms(2)] assms(4) that by simp
  have "distinct t" using assms(1) by (simp add: distinct_map)
  then have d: "distinct (filter P t)" by simp
  have members: "set (filter P t) = {p}"
    unfolding set_filter using only assms(2,3) by blast
  show ?thesis
  proof (cases "filter P t")
    case (Cons x xs)
    with members have "x = p" "set xs \<subseteq> {p}" by auto
    with d Cons have "set xs = {}" by (metis distinct.simps(2) subset_singletonD singletonI)
    with Cons \<open>x = p\<close> show ?thesis by simp
  qed (use members in simp)
qed

text \<open>A contact point that was added, now or earlier, is found by every spelling of its value that
  normalises alike, under the principal of its contact, and it is the only point found: whatever other
  contacts share the value, and however often it is added again.\<close>

theorem contact_point_found:
  assumes "contacts_wf s" "add_contact_point E C email aid cid kind v conv ident s = Inr (s', p, b)"
    "normalize_point email kind v' = normalize_point email kind v"
    "contact_by_id s' cid = Inr c" "ct_principal_id c = cs_principal_id src"
    "validate_contact_source s' (cs_agent_id src) (cs_principal_id src) (cs_conversation_id src)
       (cs_channel_identity_id src) = Inr evidence"
  shows "find_contact_points C email src kind v' s' = Inr [p]"
proof -
  have wf: "contacts_wf s'" using contact_op.add_point [OF assms(2)] assms(1) by (rule contact_op_wf)
  obtain prot where prot: "protect_point C email kind v = Inr prot" and p: "p \<in> set (contact_points s')"
      and val: "point_value p = (ct_id c, kind, pp_lookup_hmac prot)"
    using assms(2,4) by (cases rule: add_point_cases) (auto simp: contact_by_id_def)
  from prot have lookup: "lookup_point C email kind v' = Inr (pp_lookup_hmac prot)"
    unfolding lookup_point_def assms(3)
    by (auto simp: protect_point_def bindE_eq_Inr split: option.splits)
  have c: "c \<in> set (contacts s')" using assms(4) by (auto simp: contact_by_id_def dest: find_SomeD split: option.splits)
  have only: "ct_id x = ct_id c" if "x \<in> set (contacts s')" "ct_principal_id x = cs_principal_id src" for x
    using wf c that assms(5) same_key [of ct_principal_id "contacts s'" x c] by (auto simp: contacts_wf_def)
  have "filter (\<lambda>q. cp_kind q = kind \<and> cp_lookup_hmac q = pp_lookup_hmac prot \<and>
      list_ex (\<lambda>c. ct_id c = cp_contact_id q \<and> ct_principal_id c = cs_principal_id src) (contacts s')) (contact_points s') = [p]"
  proof (rule filter_unique [of point_value])
    show "distinct (map point_value (contact_points s'))" using wf by (simp add: contacts_wf_def)
    show "p \<in> set (contact_points s')" by (rule p)
    show "cp_kind p = kind \<and> cp_lookup_hmac p = pp_lookup_hmac prot \<and>
        list_ex (\<lambda>c. ct_id c = cp_contact_id p \<and> ct_principal_id c = cs_principal_id src) (contacts s')"
      using val c assms(5) by (auto simp: point_value_def list_ex_iff)
  next
    fix q :: contact_point assume "cp_kind q = kind \<and> cp_lookup_hmac q = pp_lookup_hmac prot \<and>
        list_ex (\<lambda>c. ct_id c = cp_contact_id q \<and> ct_principal_id c = cs_principal_id src) (contacts s')"
    then show "point_value q = point_value p" using only val by (auto simp: point_value_def list_ex_iff)
  qed
  then show ?thesis using assms(6) lookup by (simp add: find_contact_points_def)
qed

end
