(* ===== verification/ConsentPromises.thy ===== *)
theory ConsentPromises
  imports ContactPromises
begin

text \<open>
  What the consent service promises: recording is an idempotent command over an append-only table, a
  revocation holds until a newer grant, and the summary of a contact point agrees with the
  authorisation of each of its exact scopes.
\<close>

section \<open>Recording\<close>

lemma record_cases [consumes 1, case_names replay first]:
  assumes "record_consent E cmd s = Inr (s', r, b)"
  obtains n where "b = False" "s' = s" "prepare_consent E s cmd = Inr n"
      "consent_receipt s (cc_agent_id cmd) (pn_key n) = Some r" "cr_command_hash r = consent_command_hash E cmd n"
  | n where "b = True" "prepare_consent E s cmd = Inr n" "consent_receipt s (cc_agent_id cmd) (pn_key n) = None"
      "r = new_consent E cmd n" "s' = s\<lparr>consent_records := consent_records s @ [r]\<rparr>" "consent_checks r"
  using assms
  by (auto simp: record_consent_def bindE_eq_Inr insert_consent_def Let_def split: option.splits if_splits)

lemma consents_frame [simp]:
  "get_conversation (s\<lparr>consent_records := rs\<rparr>) = get_conversation s"
  "contact_by_id (s\<lparr>consent_records := rs\<rparr>) = contact_by_id s"
  "validate_contact_source (s\<lparr>consent_records := rs\<rparr>) = validate_contact_source s"
  by (simp_all add: fun_eq_iff get_conversation_def contact_by_id_def validate_contact_source_def)

lemma prepare_consent_append [simp]:
  "prepare_consent E (s\<lparr>consent_records := rs\<rparr>) cmd = prepare_consent E s cmd"
proof -
  have "consent_source (s\<lparr>consent_records := rs\<rparr>) cmd a = consent_source s cmd a" for a
    by (simp add: consent_source_def cong: option.case_cong)
  moreover have "consent_subject (s\<lparr>consent_records := rs\<rparr>) cmd = consent_subject s cmd"
    by (simp add: consent_subject_def cong: option.case_cong)
  ultimately show ?thesis by (simp add: prepare_consent_def cong: if_cong)
qed

definition consent_valid :: "env \<Rightarrow> store \<Rightarrow> consent_command \<Rightarrow> bool" where
  "consent_valid E s cmd \<longleftrightarrow> (\<exists>n. prepare_consent E s cmd = Inr n)"

definition consent_digest :: "env \<Rightarrow> store \<Rightarrow> consent_command \<Rightarrow> string" where
  "consent_digest E s cmd = (case prepare_consent E s cmd of Inl _ \<Rightarrow> [] | Inr n \<Rightarrow> consent_command_hash E cmd n)"

definition consent_filed :: "env \<Rightarrow> store \<Rightarrow> consent_command \<Rightarrow> (string \<times> consent_record) option" where
  "consent_filed E s cmd = (case prepare_consent E s cmd of
     Inl _ \<Rightarrow> None | Inr n \<Rightarrow> map_option (\<lambda>r. (cr_command_hash r, r)) (consent_receipt s (cc_agent_id cmd) (pn_key n)))"

interpretation consent_commands: idempotent_command "\<lambda>s c. forget (record_consent E c s)" "consent_valid E"
  "consent_filed E" "consent_digest E" ConsentIdempotency for E
proof
  fix s cmd r
  assume "consent_valid E s cmd" "consent_filed E s cmd = Some (consent_digest E s cmd, r)"
  then show "forget (record_consent E cmd s) = Inr (s, r)"
    by (auto simp: consent_valid_def consent_filed_def consent_digest_def record_consent_def forget_def)
next
  fix s cmd h r
  assume "consent_valid E s cmd" "consent_filed E s cmd = Some (h, r)" "h \<noteq> consent_digest E s cmd"
  then show "forget (record_consent E cmd s) = Inl ConsentIdempotency"
    by (auto simp: consent_valid_def consent_filed_def consent_digest_def record_consent_def forget_def)
next
  fix s cmd s' r assume "forget (record_consent E cmd s) = Inr (s', r)"
  then obtain b where "record_consent E cmd s = Inr (s', r, b)" by (auto simp: forget_Inr)
  then show "consent_valid E s cmd \<and> consent_valid E s' cmd \<and> consent_digest E s' cmd = consent_digest E s cmd \<and>
      consent_filed E s' cmd = Some (consent_digest E s cmd, r)"
  proof (cases rule: record_cases)
    case (replay n)
    then show ?thesis by (simp add: consent_valid_def consent_digest_def consent_filed_def)
  next
    case (first n)
    from first(3) have "consent_receipt s' (cc_agent_id cmd) (pn_key n) = Some r"
      by (simp add: consent_receipt_def first(5) find_append) (simp add: first(4) new_consent_def)
    moreover have "cr_command_hash r = consent_command_hash E cmd n" by (simp add: first(4) new_consent_def)
    ultimately show ?thesis using first(2) by (simp add: consent_valid_def consent_digest_def consent_filed_def first(5))
  qed
qed

text \<open>Recording, by any caller at any time, only appends.\<close>

inductive consent_op :: "store \<Rightarrow> store \<Rightarrow> bool" where
  record_consent: "record_consent E cmd s = Inr (s', r, b) \<Longrightarrow> consent_op s s'"

lemma consent_ops_append: "consent_op\<^sup>*\<^sup>* s s' \<Longrightarrow> set (consent_records s) \<subseteq> set (consent_records s')"
proof (induction rule: rtranclp_induct)
  case (step s1 s2)
  from step.hyps(2) have "set (consent_records s1) \<subseteq> set (consent_records s2)"
    by (cases rule: consent_op.cases) (auto elim: record_cases)
  with step.IH show ?case by blast
qed simp

section \<open>The newest record\<close>

lemma newest_first_hd:
  assumes "newest_first rs = r # rest"
  shows "r \<in> set rs" "\<forall>x\<in>set rs. consent_order x \<le> consent_order r"
proof -
  from assms have rev: "sort_key consent_order rs = rev rest @ [r]" by (simp add: newest_first_def)
  have "set (sort_key consent_order rs) = set rs" by simp
  with rev show "r \<in> set rs" by auto
  have "sorted (map consent_order (sort_key consent_order rs))" by simp
  with rev have "\<forall>x\<in>set (sort_key consent_order rs). consent_order x \<le> consent_order r"
    by (auto simp: sorted_append)
  then show "\<forall>x\<in>set rs. consent_order x \<le> consent_order r" by simp
qed

lemma newest_first_Nil [simp]: "newest_first rs = [] \<longleftrightarrow> rs = []"
  by (simp add: newest_first_def) (metis length_0_conv length_sort)

lemma newest_first_filter: "newest_first (filter P rs) = filter P (newest_first rs)"
  by (simp add: newest_first_def filter_sort [symmetric] rev_filter)

lemma set_newest_first [simp]: "set (newest_first rs) = set rs"
  by (simp add: newest_first_def)

lemma latest_consent_Some:
  assumes "latest_consent q p t s = Some r"
  shows "r \<in> set (consent_records s) \<and> consent_filter q p t r \<and>
    (\<forall>x\<in>set (consent_records s). consent_filter q p t x \<longrightarrow> consent_order x \<le> consent_order r)"
  using assms newest_first_hd [of "filter (consent_filter q p t) (consent_records s)" r]
  by (auto simp: latest_consent_def split: list.splits)

lemma consent_enum_purpose [simp]:
  "consent_enum purpose_value purposes v name = Inr p \<longleftrightarrow> purpose_value p = v"
proof -
  have "find (\<lambda>m. purpose_value m = purpose_value p) purposes = Some p" for p
    by (cases p) (simp_all add: purposes_def)
  then show ?thesis by (auto simp: consent_enum_def split: option.splits dest: find_SomeD)
qed

text \<open>The query asks about the scope of a record.\<close>

definition query_covers :: "consent_query \<Rightarrow> consent_record \<Rightarrow> bool" where
  "query_covers q r \<longleftrightarrow> purpose_value (cr_purpose r) = cq_purpose q \<and>
     (case optional_channel (cq_target_channel q) ''target_channel'' of
        Inl _ \<Rightarrow> False | Inr t \<Rightarrow> consent_filter q (cr_purpose r) t r)"

lemma purpose_value_inj: "purpose_value p = purpose_value q \<Longrightarrow> p = q"
  by (cases p; cases q) auto

text \<open>An effective consent is an unexpired grant, the newest record of the scope that is asked about.\<close>

lemma effective_granted:
  assumes "effective_consent E q s = Inr (True, g)"
  shows "\<exists>r at. g = Some r \<and> r \<in> set (consent_records s) \<and> query_covers q r \<and> cr_action r = Grant \<and>
    consent_utc (case cq_at q of Some d \<Rightarrow> d | None \<Rightarrow> Aware (clock E) 0) ''at'' = Inr at \<and> consent_applies at r \<and>
    (\<forall>x\<in>set (consent_records s). query_covers q x \<longrightarrow> consent_order x \<le> consent_order r)"
proof -
  from assms obtain p t at r where p: "purpose_value p = cq_purpose q"
      and t: "optional_channel (cq_target_channel q) ''target_channel'' = Inr t"
      and at: "consent_utc (case cq_at q of Some d \<Rightarrow> d | None \<Rightarrow> Aware (clock E) 0) ''at'' = Inr at"
      and r: "latest_consent q p t s = Some r" "g = Some r" "consent_applies at r"
    by (auto simp: effective_consent_def bindE_eq_Inr Let_def split: option.splits)
  have filt: "query_covers q x \<longleftrightarrow> consent_filter q p t x" for x
  proof (cases "cr_purpose x = p")
    case True
    then show ?thesis using p by (simp add: query_covers_def t)
  next
    case False
    then show ?thesis using p purpose_value_inj [of "cr_purpose x" p]
      by (auto simp: query_covers_def t consent_filter_def)
  qed
  from latest_consent_Some [OF r(1)] r at show ?thesis
    by (auto simp: filt consent_applies_def)
qed


section \<open>The summary of a contact point\<close>

lemma latest_scopes_map: "map_of (latest_scopes rs d) k =
    (case map_of d k of Some x \<Rightarrow> Some x | None \<Rightarrow> find (\<lambda>r. scope_key r = k) rs)"
  by (induction rs d rule: latest_scopes.induct) (auto simp: map_add_Some_iff split: option.splits)

lemma latest_scopes_distinct: "distinct (map fst d) \<Longrightarrow> distinct (map fst (latest_scopes rs d))"
proof (induction rs d rule: latest_scopes.induct)
  case (2 r rs d)
  have "distinct (map fst (d @ [(scope_key r, r)]))" if "map_of d (scope_key r) = None"
    using that 2(2) by (auto simp: map_of_eq_None_iff)
  with 2 show ?case by (auto split: option.splits)
qed simp

lemma latest_scopes_keys: "(k, r) \<in> set (latest_scopes rs d) \<Longrightarrow> (k, r) \<in> set d \<or> k = scope_key r"
proof (induction rs d rule: latest_scopes.induct)
  case (2 x rs d)
  from 2 show ?case by (cases "map_of d (scope_key x)") auto
qed simp

lemma latest_scopes_members:
  "r \<in> snd ` set (latest_scopes rs []) \<longleftrightarrow> find (\<lambda>x. scope_key x = scope_key r) rs = Some r"
proof -
  have "r \<in> snd ` set (latest_scopes rs []) \<longleftrightarrow> (scope_key r, r) \<in> set (latest_scopes rs [])"
    using latest_scopes_keys [of _ r rs "[]"] by (force simp: image_iff)
  also have "\<dots> \<longleftrightarrow> map_of (latest_scopes rs []) (scope_key r) = Some r"
    by (rule map_of_eq_Some_iff [OF latest_scopes_distinct, symmetric]) simp
  finally show ?thesis by (simp add: latest_scopes_map)
qed

lemma find_hd_filter: "find P xs = (case filter P xs of [] \<Rightarrow> None | x # _ \<Rightarrow> Some x)"
  by (induction xs) auto

lemma fold_plain: "\<not> is_upper c \<Longrightarrow> codept c < 192 \<Longrightarrow> fold_char c = [c]"
  by (simp add: fold_char_def)

lemma casefold_plain: "list_all (\<lambda>c. \<not> is_upper c \<and> codept c < 192) t \<Longrightarrow> casefold t = t"
  by (induction t) (auto simp: casefold_def fold_plain)

lemma channel_text_normal: "channel_text t \<Longrightarrow> optional_channel (Some t) name = Inr (Some t)"
proof -
  assume a: "channel_text t"
  then obtain c u where t: "t = c # u" by (cases t) (auto simp: channel_text_def)
  have plain: "list_all (\<lambda>c. is_lower c \<or> is_digit c \<or> c = CHR ''_'' \<or> c = CHR ''-'') t"
    using a by (auto simp: channel_text_def t)
  have "list_all (\<lambda>c. \<not> is_space c) t"
    using plain by (rule list.pred_mono_strong) (auto simp: is_space_def is_lower_def is_digit_def)
  then have s: "strip t = t" by (rule strip_no_space)
  have "list_all (\<lambda>c. \<not> is_upper c \<and> codept c < 192) t"
    using plain by (rule list.pred_mono_strong) (auto simp: is_upper_def is_lower_def is_digit_def)
  then have f: "casefold t = t" by (rule casefold_plain)
  have "list_all (\<lambda>c. py_isalnum c \<or> c \<in> set ''_-'') t"
    using plain by (rule list.pred_mono_strong) (auto simp: py_isalnum_def py_isalpha_def)
  moreover have "py_isalpha c" using a by (auto simp: channel_text_def t py_isalpha_def)
  moreover have "length t \<le> 40" "t \<noteq> []" using a t by (auto simp: channel_text_def)
  ultimately show ?thesis
    by (simp add: optional_channel_def consent_text_def s f Let_def) (simp add: t)
qed

lemma map_filter_members: "v \<in> set (List.map_filter f xs) \<longleftrightarrow> (\<exists>x\<in>set xs. f x = Some v)"
  by (induction xs) (auto simp: List.map_filter_simps split: option.splits)

definition target_query :: "uuid \<Rightarrow> uuid \<Rightarrow> string \<Rightarrow> uuid \<Rightarrow> datetime option \<Rightarrow> uuid \<Rightarrow> string \<Rightarrow> consent_query" where
  "target_query aid pid purpose point at cid t =
     \<lparr>cq_agent_id = aid, cq_principal_id = pid, cq_purpose = purpose, cq_contact_point_id = Some point,
      cq_source_conversation_id = Some cid, cq_target_channel = Some t, cq_at = at\<rparr>"

text \<open>C37: The summary of a contact point, though computed in one pass over all its records, lists
  exactly the channels for which some conversation authorises the purpose at that instant.\<close>

theorem targets_are_effective:
  assumes "effective_targets_for_point E aid pid purpose point at s = Inr T" "list_all consent_checks (consent_records s)"
  shows "t \<in> T \<longleftrightarrow> channel_text t \<and>
    (\<exists>cid g. effective_consent E (target_query aid pid purpose point at cid t) s = Inr (True, g))"
proof -
  from assms(1) obtain p instant where p: "purpose_value p = purpose"
      and scope: "assert_agent_principal_scope s aid pid = Inr ()" and pt: "point_of_principal s point pid = Inr ()"
      and at: "consent_utc (case at of Some d \<Rightarrow> d | None \<Rightarrow> Aware (clock E) 0) ''at'' = Inr instant"
    by (auto simp: effective_targets_for_point_def bindE_eq_Inr)
  have enum: "consent_enum purpose_value purposes purpose ''purpose'' = Inr p" using p by simp
  define base :: "consent_record \<Rightarrow> bool" where "base = (\<lambda>r. cr_agent_id r = aid \<and> cr_principal_id r = pid \<and> cr_purpose r = p \<and>
      cr_contact_point_id r = Some point \<and> cr_source_conversation_id r \<noteq> None \<and> cr_target_channel r \<noteq> None)"
  define records where "records = newest_first (filter base (consent_records s))"
  have T: "T = set (List.map_filter cr_target_channel (filter (consent_applies instant) (map snd (latest_scopes records []))))"
    using assms(1) by (simp add: effective_targets_for_point_def records_def base_def Let_def enum at scope pt)
  have eff: "effective_consent E (target_query aid pid purpose point at cid t) s = Inr (True, g) \<longleftrightarrow>
      (\<exists>r. find (\<lambda>x. scope_key x = (Some cid, Some t)) records = Some r \<and> g = Some r \<and> consent_applies instant r)"
    if "channel_text t" for cid g
  proof -
    let ?q = "target_query aid pid purpose point at cid t"
    have filt: "consent_filter ?q p (Some t) = (\<lambda>r. scope_key r = (Some cid, Some t) \<and> base r)"
      by (rule ext) (auto simp: consent_filter_def target_query_def target_scope_def scope_key_def base_def)
    have "latest_consent ?q p (Some t) s = find (\<lambda>x. scope_key x = (Some cid, Some t)) records"
      by (simp add: latest_consent_def find_hd_filter records_def filt newest_first_filter conj_commute)
    then show ?thesis
      using channel_text_normal [OF that, of "''target_channel''"]
      by (auto simp: effective_consent_def target_query_def Let_def enum at scope pt split: option.splits)
  qed
  have member: "t \<in> T \<longleftrightarrow> (\<exists>r cid. find (\<lambda>x. scope_key x = (Some cid, Some t)) records = Some r \<and> consent_applies instant r)"
  proof
    assume "t \<in> T"
    then obtain r where r: "r \<in> snd ` set (latest_scopes records [])" "consent_applies instant r" "cr_target_channel r = Some t"
      by (auto simp: T map_filter_members)
    then have f: "find (\<lambda>x. scope_key x = scope_key r) records = Some r" by (simp add: latest_scopes_members)
    then have "base r" using find_SomeD [OF f] by (simp add: records_def)
    then obtain cid where "scope_key r = (Some cid, Some t)" using r(3) by (auto simp: base_def scope_key_def)
    with f r(2) show "\<exists>r cid. find (\<lambda>x. scope_key x = (Some cid, Some t)) records = Some r \<and> consent_applies instant r"
      by auto
  next
    assume "\<exists>r cid. find (\<lambda>x. scope_key x = (Some cid, Some t)) records = Some r \<and> consent_applies instant r"
    then obtain r cid where r: "find (\<lambda>x. scope_key x = (Some cid, Some t)) records = Some r" "consent_applies instant r"
      by blast
    then have k: "scope_key r = (Some cid, Some t)" by (auto dest: find_SomeD)
    then have "r \<in> snd ` set (latest_scopes records [])" using r(1) by (simp add: latest_scopes_members)
    with r(2) k show "t \<in> T" by (auto simp: T map_filter_members scope_key_def)
  qed
  have is_channel: "channel_text t" if "find (\<lambda>x. scope_key x = (Some cid, Some t)) records = Some r" for r cid
    using find_SomeD [OF that] assms(2)
    by (auto simp: records_def scope_key_def list_all_iff consent_checks_def split: option.splits)
  show ?thesis using member eff is_channel by blast
qed

end
