(* ===== verification/FollowUpDispatch.thy ===== *)
theory FollowUpDispatch
  imports FollowUps OutboundClaims ConsentPromises
begin

text \<open>
  \<open>services/outbound_follow_up.py\<close> and \<open>services/outbound_dispatcher.py\<close>: the last transaction before a
  message leaves. The dispatcher revalidates the claim and the route of the message, and when a follow-up
  task stands behind it, its target and its consent, then hands the message to the adapter of the channel
  and records the outcome. The adapters are a parameter: \<open>None\<close> is an adapter that raised.
\<close>

section \<open>Authorisation of a follow-up\<close>

datatype authorization_error =
    DispatchBlocked string
  | AuthConsent consent_error
  | AuthIntegrity

record follow_up_graph =
  fg_task :: follow_up_task
  fg_opportunity :: opportunity
  fg_source :: conversation
  fg_delivery :: conversation
  fg_contact :: contact
  fg_point :: contact_point

definition find_linked_task :: "store \<Rightarrow> uuid \<Rightarrow> follow_up_task option" where
  "find_linked_task s mid = find (\<lambda>t. ft_outbound_message_id t = Some mid) (follow_up_tasks s)"

definition authorization_changed :: string where "authorization_changed = ''follow_up_authorization_changed''"

definition load_dispatch_graph :: "store \<Rightarrow> follow_up_task \<Rightarrow> outbound \<Rightarrow> authorization_error + follow_up_graph" where
  "load_dispatch_graph s t m =
     (let graph =
        Option.bind (find (\<lambda>p. op_id p = ft_opportunity_id t) (opportunities s)) (\<lambda>p.
        Option.bind (task_conversation s t) (\<lambda>source.
        Option.bind (get_conversation s (om_conversation_id m)) (\<lambda>delivery.
        Option.bind (find (\<lambda>c. ct_id c = op_contact_id p) (contacts s)) (\<lambda>contact.
        Option.bind (Option.bind (ft_contact_point_id t) (\<lambda>i. find (\<lambda>q. cp_id q = i) (contact_points s))) (\<lambda>point.
          Some \<lparr>fg_task = t, fg_opportunity = p, fg_source = source, fg_delivery = delivery, fg_contact = contact,
            fg_point = point\<rparr>)))))
      in case graph of None \<Rightarrow> Inl (DispatchBlocked authorization_changed) | Some g \<Rightarrow> Inr g)"

definition matches_destination :: "string \<Rightarrow> string \<Rightarrow> string \<Rightarrow> bool" where
  "matches_destination channel target destination =
     (if channel = ''email'' then casefold target = casefold (strip destination)
      else if channel = ''whatsapp''
      then digits_of target \<noteq> [] \<and> digits_of target = digits_of destination
      else False)"

definition task_and_target_hold :: "follow_up_graph \<Rightarrow> outbound \<Rightarrow> bool" where
  "task_and_target_hold g m \<longleftrightarrow>
     (let t = fg_task g; source = fg_source g; delivery = fg_delivery g in
      ft_status t \<in> {FuDispatchQueued, FuInProgress} \<and>
      ft_outbound_message_id t = Some (om_id m) \<and>
      ft_target_channel t = om_channel m \<and>
      Some (ft_assigned_agent_id t) = om_automation_agent_id m \<and>
      ft_conversation_id t = Some (cv_id source) \<and>
      om_conversation_id m = cv_id delivery \<and>
      cv_agent_id source = om_agent_id m \<and>
      cv_agent_id delivery = cv_agent_id source \<and>
      cv_principal_id delivery = cv_principal_id source \<and>
      cv_status source = ''active'' \<and>
      cv_control_mode source = Automated \<and>
      Some (cv_control_version source) = ft_scheduled_control_version t \<and>
      cv_automation_agent_id source = ft_assigned_agent_id t \<and>
      Some (cv_automation_version source) = ft_scheduled_automation_version t \<and>
      op_assigned_agent_id (fg_opportunity g) = ft_assigned_agent_id t \<and>
      \<not> terminal_stage (op_stage (fg_opportunity g)) \<and>
      ct_principal_id (fg_contact g) = cv_principal_id source \<and>
      cp_contact_id (fg_point g) = ct_id (fg_contact g) \<and>
      cp_verification_status (fg_point g) = ''verified'')"

definition assert_task_and_target :: "crypto \<Rightarrow> follow_up_graph \<Rightarrow> outbound \<Rightarrow> authorization_error + unit" where
  "assert_task_and_target C g m =
     (if \<not> task_and_target_hold g m then Inl (DispatchBlocked authorization_changed)
      else if expected_kind (ft_target_channel (fg_task g)) \<noteq> Some (cp_kind (fg_point g))
      then Inl (DispatchBlocked authorization_changed)
      else
        (case decrypt_point C (cp_ciphertext (fg_point g)) of
           Inl _ \<Rightarrow> Inl (DispatchBlocked ''follow_up_contact_unavailable'')
         | Inr target \<Rightarrow>
             if (case ft_target_channel (fg_task g) of None \<Rightarrow> False | Some ch \<Rightarrow> matches_destination ch target (om_destination m))
             then Inr () else Inl (DispatchBlocked authorization_changed)))"

definition dispatch_query :: "follow_up_graph \<Rightarrow> consent_query" where
  "dispatch_query g =
     follow_up_query (cv_agent_id (fg_source g)) (ct_principal_id (fg_contact g)) (cp_id (fg_point g)) (cv_id (fg_source g))
       (ft_target_channel (fg_task g)) None"

definition revalidate_follow_up :: "env \<Rightarrow> crypto \<Rightarrow> outbound \<Rightarrow> store \<Rightarrow> authorization_error + store" where
  "revalidate_follow_up E C m s =
     (case find_linked_task s (om_id m) of
        None \<Rightarrow> Inr s
      | Some t \<Rightarrow>
          bindE (load_dispatch_graph s t m) (\<lambda>g.
          bindE (require (ft_target_channel t \<noteq> None) (DispatchBlocked authorization_changed)) (\<lambda>_.
          bindE (assert_task_and_target C g m) (\<lambda>_.
          bindE (mapErr AuthConsent (effective_consent E (dispatch_query g) s)) (\<lambda>(granted, r).
          case r of
            None \<Rightarrow> Inl (DispatchBlocked ''follow_up_consent_missing'')
          | Some x \<Rightarrow>
              if \<not> granted then Inl (DispatchBlocked ''follow_up_consent_missing'')
              else
                (case update_follow_up_task (t\<lparr>ft_executed_consent_record_id := Some (cr_id x), ft_updated_at := tx_now E\<rparr>) s of
                   None \<Rightarrow> Inl AuthIntegrity | Some s1 \<Rightarrow> Inr s1))))))"

section \<open>Dispatch of a claim\<close>

datatype provider_result = ProviderAccepted string | ProviderRejected string | ProviderUnknown string | ProviderOther

fun result_fields :: "provider_result \<Rightarrow> dispatch_outcome \<times> string option \<times> string option" where
  "result_fields (ProviderAccepted pid) = (OutcomeAccepted, Some pid, None)"
| "result_fields (ProviderRejected code) = (OutcomeFailed, None, Some code)"
| "result_fields (ProviderUnknown code) = (OutcomeUnknown, None, Some code)"
| "result_fields ProviderOther = (OutcomeUnknown, None, Some ''adapter_contract_error'')"

type_synonym adapter = "outbound \<Rightarrow> channel_route \<Rightarrow> channel_connection \<Rightarrow> provider_result option"

text \<open>\<open>_build_adapter_registry\<close>; the errors are the \<open>ValueError\<close>s of the constructor.\<close>

fun build_adapter_registry :: "(string \<times> adapter) list \<Rightarrow> (string \<times> adapter) list \<Rightarrow> string + (string \<times> adapter) list" where
  "build_adapter_registry [] registry = Inr registry"
| "build_adapter_registry ((k, a) # rest) registry =
     (let key = strip k in
      if key = [] then Inl ''outbound adapter key cannot be empty''
      else if map_of registry key \<noteq> None then Inl (''duplicate outbound adapter key: '' @ key)
      else build_adapter_registry rest (registry @ [(key, a)]))"

definition load_route_and_connection :: "store \<Rightarrow> outbound \<Rightarrow> (channel_route \<times> channel_connection) option" where
  "load_route_and_connection s m =
     Option.bind (find (\<lambda>r. rt_id r = om_channel_route_id m \<and> rt_agent_id r = om_agent_id m \<and>
           Some (rt_channel r) = om_channel m \<and> Some (rt_connection_id r) = om_connection_id m \<and>
           Some (rt_version r) = om_route_version m \<and> rt_is_active r) (routes s)) (\<lambda>r.
     Option.bind (find (\<lambda>n. Some (cn_id n) = om_connection_id m \<and> Some (cn_channel n) = om_channel m \<and>
           Some (cn_adapter_key n) = om_adapter_key m \<and> Some (cn_version n) = om_connection_version m \<and>
           cn_is_active n) (connections s)) (\<lambda>n. Some (r, n)))"

datatype dispatch_error = DispatchOutbound outbound_error | DispatchConsent consent_error | DispatchIntegrity

definition cancel_dispatch ::
  "env \<Rightarrow> uuid \<Rightarrow> uuid \<Rightarrow> string \<Rightarrow> string \<Rightarrow> store \<Rightarrow> dispatch_error + (store \<times> outbound option)" where
  "cancel_dispatch E mid aid worker code s =
     bindE (mapErr DispatchOutbound (cancel_claim E mid aid worker code s)) (\<lambda>(s1, _). Inr (s1, None))"

text \<open>The result is the message that was handed to its adapter, if any.\<close>

definition dispatch_claim ::
  "env \<Rightarrow> crypto \<Rightarrow> (string \<times> adapter) list \<Rightarrow> string \<Rightarrow> uuid \<Rightarrow> uuid \<Rightarrow> store \<Rightarrow>
     dispatch_error + (store \<times> outbound option)" where
  "dispatch_claim E C adapters worker mid aid s =
     bindE (mapErr DispatchOutbound (revalidate_claim E mid aid worker s)) (\<lambda>(s1, message).
     case message of
       None \<Rightarrow> Inr (s1, None)
     | Some m \<Rightarrow>
         (case load_route_and_connection s1 m of
            None \<Rightarrow> cancel_dispatch E mid aid worker ''route_snapshot_changed'' s1
          | Some (route, connection) \<Rightarrow>
              (case Option.bind (om_adapter_key m) (map_of adapters) of
                 None \<Rightarrow> cancel_dispatch E mid aid worker ''adapter_unavailable'' s1
               | Some deliver \<Rightarrow>
                   (case revalidate_follow_up E C m s1 of
                      Inl (DispatchBlocked code) \<Rightarrow> cancel_dispatch E mid aid worker code s1
                    | Inl (AuthConsent e) \<Rightarrow> Inl (DispatchConsent e)
                    | Inl AuthIntegrity \<Rightarrow> Inl DispatchIntegrity
                    | Inr s2 \<Rightarrow>
                        let result = (case deliver m route connection of
                              None \<Rightarrow> ProviderUnknown ''adapter_unhandled_error'' | Some r \<Rightarrow> r);
                            (outcome, provider_id, code) = result_fields result
                        in bindE (mapErr DispatchOutbound
                             (record_dispatch_outcome E mid aid worker outcome provider_id code None s2)) (\<lambda>(s3, _).
                             Inr (s3, Some m))))))"

section \<open>What stands behind a message that leaves\<close>

lemma revalidate_follow_up_Inr:
  assumes "revalidate_follow_up E C m s = Inr s'" "find_linked_task s (om_id m) = Some t"
  shows "\<exists>g target ch r. load_dispatch_graph s t m = Inr g \<and> task_and_target_hold g m \<and>
    ft_target_channel t = Some ch \<and> decrypt_point C (cp_ciphertext (fg_point g)) = Inr target \<and>
    matches_destination ch target (om_destination m) \<and>
    effective_consent E (dispatch_query g) s = Inr (True, Some r) \<and>
    s' = s\<lparr>follow_up_tasks := put_row ft_id
      (t\<lparr>ft_executed_consent_record_id := Some (cr_id r), ft_updated_at := tx_now E\<rparr>) (follow_up_tasks s)\<rparr>"
proof -
  from assms obtain g where g: "load_dispatch_graph s t m = Inr g" and ok: "assert_task_and_target C g m = Inr ()"
      and rest: "bindE (mapErr AuthConsent (effective_consent E (dispatch_query g) s)) (\<lambda>(granted, r).
          case r of None \<Rightarrow> Inl (DispatchBlocked ''follow_up_consent_missing'')
          | Some x \<Rightarrow> if \<not> granted then Inl (DispatchBlocked ''follow_up_consent_missing'')
              else (case update_follow_up_task (t\<lparr>ft_executed_consent_record_id := Some (cr_id x), ft_updated_at := tx_now E\<rparr>) s of
                   None \<Rightarrow> Inl AuthIntegrity | Some s1 \<Rightarrow> Inr s1)) = Inr s'"
    by (auto simp: revalidate_follow_up_def bindE_eq_Inr)
  from g have "fg_task g = t" by (auto simp: load_dispatch_graph_def Let_def bind_eq_Some_conv split: option.splits)
  with ok obtain ch target where "task_and_target_hold g m" "ft_target_channel t = Some ch"
      "decrypt_point C (cp_ciphertext (fg_point g)) = Inr target" "matches_destination ch target (om_destination m)"
    by (auto simp: assert_task_and_target_def split: if_splits sum.splits option.splits)
  moreover from rest obtain r where "effective_consent E (dispatch_query g) s = Inr (True, Some r)"
      "s' = s\<lparr>follow_up_tasks := put_row ft_id
        (t\<lparr>ft_executed_consent_record_id := Some (cr_id r), ft_updated_at := tx_now E\<rparr>) (follow_up_tasks s)\<rparr>"
    by (auto simp: bindE_eq_Inr update_follow_up_task_Some split: option.splits if_splits)
  ultimately show ?thesis using g by blast
qed

lemma revalidate_claim_sends:
  assumes "revalidate_claim E mid aid worker s = Inr (s1, Some m)"
  shows "s1 = s \<and> om_id m = mid"
proof -
  have id: "om_id x = mid" if "lock_owned_dispatch s mid aid w = Inr (x, y)" for w x y
    using that by (auto simp: lock_owned_dispatch_def split: option.splits if_splits dest: find_SomeD)
  from assms obtain w x a c where lock: "lock_owned_dispatch s mid aid w = Inr (x, a)"
    and fence: "(case assert_message_fence c x of
       Inl (OutFence msg code) \<Rightarrow> bindE (cancel_stale_message E x (Some (at_id a)) code s) (\<lambda>(s1, _). Inr (s1, None))
     | Inl e \<Rightarrow> Inl e | Inr _ \<Rightarrow> Inr (s, Some x)) = Inr (s1, Some m)"
    by (auto simp: revalidate_claim_def bindE_eq_Inr)
  from fence have "s1 = s \<and> m = x"
    by (cases "assert_message_fence c x") (auto simp: bindE_eq_Inr split: outbound_error.splits)
  with id [OF lock] show ?thesis by simp
qed

lemma cancel_dispatch_none [simp]: "cancel_dispatch E mid aid worker code s \<noteq> Inr (s', Some m)"
  by (auto simp: cancel_dispatch_def bindE_eq_Inr)

lemma record_outcome_tasks: "record_dispatch_outcome E mid aid worker outcome pid code at s = Inr (s', m) \<Longrightarrow>
    follow_up_tasks s' = follow_up_tasks s"
  by (auto simp: record_dispatch_outcome_def bindE_eq_Inr Let_def update_outbound_def add_delivery_event_def fresh_def
      split: if_splits)

lemma dispatch_sends:
  assumes "dispatch_claim E C adapters worker mid aid s = Inr (s', Some m)"
  shows "\<exists>s2. om_id m = mid \<and> revalidate_follow_up E C m s = Inr s2 \<and> follow_up_tasks s' = follow_up_tasks s2"
proof -
  from assms obtain s1 sent where rc: "revalidate_claim E mid aid worker s = Inr (s1, sent)"
    by (cases "revalidate_claim E mid aid worker s") (auto simp: dispatch_claim_def)
  with assms obtain m1 where s1: "revalidate_claim E mid aid worker s = Inr (s1, Some m1)"
    by (cases sent) (auto simp: dispatch_claim_def)
  from revalidate_claim_sends [OF s1] have "s1 = s" "om_id m1 = mid" by simp_all
  moreover obtain s2 outcome pid code x where "revalidate_follow_up E C m1 s1 = Inr s2" "m1 = m"
      "record_dispatch_outcome E mid aid worker outcome pid code None s2 = Inr (s', x)"
    using assms s1
    by (cases "revalidate_follow_up E C m1 s1")
      (auto simp: dispatch_claim_def bindE_eq_Inr Let_def split: option.splits authorization_error.splits prod.splits)
  ultimately show ?thesis using record_outcome_tasks by blast
qed

lemma dispatched_under_consent_aux:
  assumes "dispatch_claim E C adapters worker mid aid s = Inr (s', Some m)" "find_linked_task s mid = Some t"
  shows "\<exists>g r ch target. load_dispatch_graph s t m = Inr g \<and> task_and_target_hold g m \<and>
    effective_consent E (dispatch_query g) s = Inr (True, Some r) \<and>
    ft_target_channel t = Some ch \<and> decrypt_point C (cp_ciphertext (fg_point g)) = Inr target \<and>
    matches_destination ch target (om_destination m) \<and>
    (\<exists>t'\<in>set (follow_up_tasks s'). ft_id t' = ft_id t \<and> ft_executed_consent_record_id t' = Some (cr_id r))"
proof -
  from dispatch_sends [OF assms(1)] obtain s2 where m: "om_id m = mid" and s2: "revalidate_follow_up E C m s = Inr s2"
      and tasks: "follow_up_tasks s' = follow_up_tasks s2" by blast
  from revalidate_follow_up_Inr [OF s2] assms(2) m obtain g target ch r where
    "load_dispatch_graph s t m = Inr g" "task_and_target_hold g m" "ft_target_channel t = Some ch"
    "decrypt_point C (cp_ciphertext (fg_point g)) = Inr target" "matches_destination ch target (om_destination m)"
    "effective_consent E (dispatch_query g) s = Inr (True, Some r)"
    "s2 = s\<lparr>follow_up_tasks := put_row ft_id
      (t\<lparr>ft_executed_consent_record_id := Some (cr_id r), ft_updated_at := tx_now E\<rparr>) (follow_up_tasks s)\<rparr>" by blast
  moreover have "t \<in> set (follow_up_tasks s)" using assms(2) by (auto simp: find_linked_task_def dest: find_SomeD)
  moreover have "t\<lparr>ft_executed_consent_record_id := Some (cr_id r), ft_updated_at := tx_now E\<rparr> \<in> set (follow_up_tasks s')"
    using calculation by (auto simp: tasks set_put_row)
  then have "\<exists>t'\<in>set (follow_up_tasks s'). ft_id t' = ft_id t \<and> ft_executed_consent_record_id t' = Some (cr_id r)"
    by (rule bexI [rotated]) simp
  ultimately show ?thesis by blast
qed

text \<open>A message that a follow-up task stands behind is handed to its adapter only while that task is in
  delivery and an unexpired consent for its exact scope (agent, principal, point, conversation and channel)
  is effective, to the number or address of the verified point; the consent relied on is written to the task
  in the same transaction.\<close>

theorem dispatched_under_consent:
  assumes "dispatch_claim E C adapters worker mid aid s = Inr (s', Some m)" "find_linked_task s mid = Some t"
  shows "\<exists>g r ch target. load_dispatch_graph s t m = Inr g \<and> task_and_target_hold g m \<and>
    effective_consent E (dispatch_query g) s = Inr (True, Some r) \<and>
    ft_target_channel t = Some ch \<and> decrypt_point C (cp_ciphertext (fg_point g)) = Inr target \<and>
    matches_destination ch target (om_destination m) \<and>
    (\<exists>t'\<in>set (follow_up_tasks s'). ft_id t' = ft_id t \<and> ft_executed_consent_record_id t' = Some (cr_id r))"
  using dispatched_under_consent_aux [OF assms] .

text \<open>C20: Once the newest record of a task's scope is a revocation, its message is not handed to any
  adapter, whatever was queued, claimed or scheduled before.\<close>

theorem revoked_never_dispatched:
  assumes "find_linked_task s mid = Some t" "load_dispatch_graph s t m = Inr g"
    "r \<in> set (consent_records s)" "cr_action r = Revoke" "query_covers (dispatch_query g) r"
    "\<forall>x\<in>set (consent_records s). query_covers (dispatch_query g) x \<and> x \<noteq> r \<longrightarrow> consent_order x < consent_order r"
  shows "dispatch_claim E C adapters worker mid aid s \<noteq> Inr (s', Some m)"
proof
  assume "dispatch_claim E C adapters worker mid aid s = Inr (s', Some m)"
  from dispatched_under_consent_aux [OF this assms(1)] assms(2) obtain x where
    "effective_consent E (dispatch_query g) s = Inr (True, Some x)" by auto
  from effective_granted [OF this] have x: "x \<in> set (consent_records s)" "query_covers (dispatch_query g) x"
      "cr_action x = Grant" "consent_order r \<le> consent_order x"
    using assms(3,5) by auto
  with assms(4) have "x \<noteq> r" by auto
  with assms(6) x show False by fastforce
qed

end
