(* ===== verification/ConsentWitnesses.thy ===== *)
theory ConsentWitnesses
  imports ConsentPromises
begin

text \<open>A concrete contact: a telephone number is stored and found again under another spelling, and a
  follow-up consent is granted, revoked and granted again.\<close>

definition crm_env :: env where
  "crm_env = sample_env\<lparr>uuid5 := (\<lambda>ns t. UUID (of_nat (length t)))\<rparr>"

definition vault :: crypto where
  "vault = \<lparr>encryption_key_file = Some ''k'', lookup_key_file = Some (replicate 32 (CHR ''h'')),
     fernet_key_ok = (\<lambda>_. True), fernet_encrypt = (\<lambda>_ t. replicate 40 (CHR ''g'') @ t),
     fernet_decrypt = (\<lambda>_ t. Some (drop 40 t)), hmac_sha256 = (\<lambda>_ _. replicate 64 (CHR ''a''))\<rparr>"

definition crm_identity :: channel_identity where
  "crm_identity = \<lparr>ci_id = UUID 20, ci_principal_id = UUID 3, ci_channel = ''whatsapp'', ci_route_key = ''main'',
     ci_external_subject = ''5491100'', ci_verified = True, ci_attributes = JObj []\<rparr>"

definition crm_contact :: contact where
  "crm_contact = \<lparr>ct_id = UUID 60, ct_principal_id = UUID 3, ct_created_by_agent_id = UUID 2,
     ct_status = ContactActive, ct_company_name = None, ct_job_title = None\<rparr>"

definition crm_point :: contact_point where
  "crm_point = \<lparr>cp_id = UUID 61, cp_created_at = 1, cp_contact_id = UUID 60, cp_kind = ''phone'',
     cp_ciphertext = replicate 40 (CHR ''g'') @ ''+5491100'', cp_lookup_hmac = replicate 64 (CHR ''b''),
     cp_masked_value = ''+5****1100'', cp_verification_status = ''verified'', cp_source_conversation_id = Some (UUID 1),
     cp_source_channel_identity_id = Some (UUID 20), cp_verified_at = Some 1, cp_revoked_at = None\<rparr>"

definition crm_store :: store where
  "crm_store = sample_store\<lparr>channel_identities := [crm_identity], contacts := [crm_contact], contact_points := [crm_point]\<rparr>"

definition crm_source :: contact_source where
  "crm_source = \<lparr>cs_agent_id = UUID 2, cs_principal_id = UUID 3, cs_conversation_id = UUID 1, cs_channel_identity_id = UUID 20\<rparr>"

lemma crm_wf: "contacts_wf crm_store"
  by code_simp

lemma crm_adds: "case add_contact_point crm_env vault (\<lambda>_. None) (UUID 2) (UUID 60) ''phone'' '' +598 (99) 123-456 '' (UUID 1) (UUID 20)
    crm_store of Inl _ \<Rightarrow> False | Inr _ \<Rightarrow> True"
  by code_simp

lemma crm_spelling: "normalize_point (\<lambda>_. None) ''phone'' ''+598.99.123456'' =
    normalize_point (\<lambda>_. None) ''phone'' '' +598 (99) 123-456 ''"
  by code_simp

theorem contact_point_found_witness:
  "\<exists>s' p b. add_contact_point crm_env vault (\<lambda>_. None) (UUID 2) (UUID 60) ''phone'' '' +598 (99) 123-456 '' (UUID 1) (UUID 20)
       crm_store = Inr (s', p, b) \<and>
     find_contact_points vault (\<lambda>_. None) crm_source ''phone'' ''+598.99.123456'' s' = Inr [p]"
proof -
  from crm_adds obtain s' p b where add: "add_contact_point crm_env vault (\<lambda>_. None) (UUID 2) (UUID 60) ''phone''
      '' +598 (99) 123-456 '' (UUID 1) (UUID 20) crm_store = Inr (s', p, b)"
    by (auto split: sum.splits)
  have ev: "\<exists>e. validate_contact_source crm_store (UUID 2) (UUID 3) (UUID 1) (UUID 20) = Inr e"
    by (simp add: validate_contact_source_def crm_store_def get_conversation_def sample_store_def sample_conversation_def
        crm_identity_def)
  have c: "contact_by_id crm_store (UUID 60) = Inr crm_contact"
    by (simp add: contact_by_id_def crm_store_def crm_contact_def)
  from add have "contact_by_id s' = contact_by_id crm_store \<and> validate_contact_source s' = validate_contact_source crm_store"
    by (cases rule: add_point_cases)
      (auto simp: fun_eq_iff contact_by_id_def validate_contact_source_def get_conversation_def)
  with ev c obtain e where e: "contact_by_id s' (UUID 60) = Inr crm_contact"
      "validate_contact_source s' (UUID 2) (UUID 3) (UUID 1) (UUID 20) = Inr e" by auto
  have "find_contact_points vault (\<lambda>_. None) crm_source ''phone'' ''+598.99.123456'' s' = Inr [p]"
    by (rule contact_point_found [OF crm_wf add crm_spelling e(1)])
      (simp_all add: crm_contact_def crm_source_def e(2))
  with add show ?thesis by blast
qed

section \<open>Granted, revoked, granted again\<close>

definition consent_cmd :: "string \<Rightarrow> string \<Rightarrow> int \<Rightarrow> consent_command" where
  "consent_cmd act key at = \<lparr>cc_agent_id = UUID 2, cc_principal_id = UUID 3, cc_purpose = ''commercial_follow_up'',
     cc_action = act, cc_policy_version = ''v1'', cc_channel = ''whatsapp'', cc_target_channel = Some ''whatsapp'',
     cc_locale = ''es'', cc_source_conversation_id = UUID 1, cc_source_channel_identity_id = Some (UUID 20),
     cc_correlation_id = ''c1'', cc_idempotency_key = key, cc_contact_id = Some (UUID 60),
     cc_contact_point_id = Some (UUID 61), cc_actor_admin_id = None, cc_expires_at = None,
     cc_occurred_at = Some (Aware at 0)\<rparr>"

definition consent_row :: "consent_action \<Rightarrow> string \<Rightarrow> int \<Rightarrow> consent_record" where
  "consent_row act key at = \<lparr>cr_id = UUID (of_nat (8 + length key)), cr_principal_id = UUID 3,
     cr_contact_id = Some (UUID 60), cr_contact_point_id = Some (UUID 61), cr_agent_id = UUID 2,
     cr_purpose = CommercialFollowUpConsent, cr_action = act, cr_policy_version = ''v1'', cr_channel = ''whatsapp'',
     cr_target_channel = Some ''whatsapp'', cr_locale = ''es'', cr_source_conversation_id = Some (UUID 1),
     cr_source_channel_identity_id = Some (UUID 20), cr_actor_admin_id = None, cr_correlation_id = ''c1'',
     cr_idempotency_key = key, cr_command_hash = replicate 64 (CHR ''a''), cr_occurred_at = at, cr_expires_at = None,
     cr_created_at = 40\<rparr>"

definition consent_store :: "consent_record list \<Rightarrow> store" where
  "consent_store rs = crm_store\<lparr>consent_records := rs\<rparr>"

definition granted_row :: consent_record where "granted_row = consent_row Grant ''k'' 10"
definition revoked_row :: consent_record where "revoked_row = consent_row Revoke ''kk'' 20"
definition regranted_row :: consent_record where "regranted_row = consent_row Grant ''kkk'' 30"

definition consent_note :: "consent_action \<Rightarrow> string \<Rightarrow> int \<Rightarrow> prepared_consent" where
  "consent_note act key at = \<lparr>pn_purpose = CommercialFollowUpConsent, pn_action = act, pn_policy = ''v1'',
     pn_channel = ''whatsapp'', pn_target = Some ''whatsapp'', pn_locale = ''es'', pn_correlation = ''c1'', pn_key = key,
     pn_event_time = at, pn_expiration = None\<rparr>"

lemma consent_hash: "consent_command_hash crm_env cmd n = replicate 64 (CHR ''a'')"
  by (simp add: consent_command_hash_def command_digest_def crm_env_def sample_env_def)

lemma whatsapp_text: "channel_text ''whatsapp''" "casefold ''whatsapp'' = ''whatsapp''"
proof -
  show "channel_text ''whatsapp''" by code_simp
  show "casefold ''whatsapp'' = ''whatsapp''" by (rule casefold_plain) code_simp
qed

lemma consent_texts [simp]: "strip ''v1'' = ''v1''" "strip ''whatsapp'' = ''whatsapp''" "strip ''es'' = ''es''"
  "strip ''c1'' = ''c1''" "strip ''kk'' = ''kk''" "strip ''kkk'' = ''kkk''"
  by (simp_all add: strip_def is_space_def)

lemma consent_actions: "consent_enum consent_action_value [Grant, Revoke] (consent_action_value a) ''action'' = Inr a"
  by (cases a) (simp_all add: consent_enum_def)

lemma consent_purposes: "consent_enum purpose_value purposes ''commercial_follow_up'' ''purpose'' = Inr CommercialFollowUpConsent"
  by simp

lemma consent_notes:
  "normalize_consent crm_env (consent_cmd ''revoke'' ''kk'' 20) = Inr (consent_note Revoke ''kk'' 20)"
  "normalize_consent crm_env (consent_cmd ''grant'' ''kkk'' 30) = Inr (consent_note Grant ''kkk'' 30)"
  using consent_actions [of Grant] consent_actions [of Revoke]
  by (simp_all add: normalize_consent_def consent_cmd_def consent_note_def consent_purposes whatsapp_text
      channel_text_normal [OF whatsapp_text(1)] consent_text_def consent_utc_def optional_utc_def to_utc_def)

lemma crm_evidence:
  "validate_contact_source (consent_store rs) (UUID 2) (UUID 3) (UUID 1) (UUID 20) = Inr (sample_conversation, crm_identity)"
  "contact_by_id (consent_store rs) (UUID 60) = Inr crm_contact"
  "find (\<lambda>p. cp_id p = UUID 61) (contact_points (consent_store rs)) = Some crm_point"
  "point_of_principal (consent_store rs) (UUID 61) (UUID 3) = Inr ()"
  "assert_agent_principal_scope (consent_store rs) (UUID 2) (UUID 3) = Inr ()"
  by (simp_all add: validate_contact_source_def get_conversation_def contact_by_id_def point_of_principal_def
      assert_agent_principal_scope_def consent_store_def crm_store_def sample_store_def)
    (simp_all add: sample_conversation_def crm_identity_def crm_contact_def crm_point_def)

lemma consent_cmd_fields: "cc_agent_id (consent_cmd act key at) = UUID 2" "cc_principal_id (consent_cmd act key at) = UUID 3"
  "cc_source_channel_identity_id (consent_cmd act key at) = Some (UUID 20)"
  "cc_source_conversation_id (consent_cmd act key at) = UUID 1" "cc_contact_id (consent_cmd act key at) = Some (UUID 60)"
  "cc_contact_point_id (consent_cmd act key at) = Some (UUID 61)"
  by (simp_all add: consent_cmd_def)

lemma consent_prepares:
  "prepare_consent crm_env (consent_store rs) (consent_cmd ''revoke'' ''kk'' 20) = Inr (consent_note Revoke ''kk'' 20)"
  "prepare_consent crm_env (consent_store rs) (consent_cmd ''grant'' ''kkk'' 30) = Inr (consent_note Grant ''kkk'' 30)"
  by (simp_all add: prepare_consent_def consent_notes consent_source_def consent_subject_def consent_cmd_fields crm_evidence)
    (simp_all add: sample_conversation_def crm_contact_def crm_point_def consent_note_def)

lemma consent_rows:
  "new_consent crm_env (consent_cmd act key at) (consent_note a key at) = consent_row a key at"
  by (simp add: new_consent_def consent_hash) (simp add: consent_cmd_def consent_note_def consent_row_def crm_env_def sample_env_def)

lemma consent_row_checks: "length (btrim key) > 0 \<Longrightarrow> consent_checks (consent_row a key at)"
proof -
  have "channel_text ''whatsapp''" "length (btrim ''v1'') > 0" "length (btrim ''whatsapp'') > 0" "length (btrim ''es'') > 0"
    "length (btrim ''c1'') > 0" by code_simp+
  then show "length (btrim key) > 0 \<Longrightarrow> ?thesis" by (simp add: consent_checks_def consent_row_def)
qed

lemma row_fields [simp]: "cr_agent_id (consent_row a key at) = UUID 2" "cr_idempotency_key (consent_row a key at) = key"
  "cr_id (consent_row a key at) = UUID (of_nat (8 + length key))" "cr_channel (consent_row a key at) = ''whatsapp''"
  by (simp_all add: consent_row_def)

lemma consent_tables [simp]: "consent_records (consent_store rs) = rs"
  "consent_store rs\<lparr>consent_records := rs'\<rparr> = consent_store rs'"
  by (simp_all add: consent_store_def)

lemma consent_note_key [simp]: "pn_key (consent_note a key at) = key"
  by (simp add: consent_note_def)

lemma consent_steps:
  "record_consent crm_env (consent_cmd ''revoke'' ''kk'' 20) (consent_store [granted_row]) =
     Inr (consent_store [granted_row, revoked_row], revoked_row, True)"
  "record_consent crm_env (consent_cmd ''grant'' ''kkk'' 30) (consent_store [granted_row, revoked_row]) =
     Inr (consent_store [granted_row, revoked_row, regranted_row], regranted_row, True)"
  by (simp_all add: record_consent_def consent_prepares consent_rows consent_receipt_def insert_consent_def consent_row_checks
      btrim_def granted_row_def revoked_row_def regranted_row_def consent_cmd_fields Let_def)

definition whatsapp_query :: consent_query where
  "whatsapp_query = target_query (UUID 2) (UUID 3) ''commercial_follow_up'' (UUID 61) (Some (Aware 50 0)) (UUID 1) ''whatsapp''"

lemma crm_query_fields: "cq_purpose whatsapp_query = ''commercial_follow_up''" "cq_target_channel whatsapp_query = Some ''whatsapp''"
  "cq_agent_id whatsapp_query = UUID 2" "cq_principal_id whatsapp_query = UUID 3"
  "cq_source_conversation_id whatsapp_query = Some (UUID 1)" "cq_contact_point_id whatsapp_query = Some (UUID 61)"
  "cq_at whatsapp_query = Some (Aware 50 0)"
  by (simp_all add: whatsapp_query_def target_query_def)

lemma crm_rows_asked: "consent_filter whatsapp_query CommercialFollowUpConsent (Some ''whatsapp'') (consent_row a key at)"
  by (simp add: consent_filter_def crm_query_fields) (simp add: consent_row_def)

lemma row_purpose: "cr_purpose (consent_row a key at) = CommercialFollowUpConsent"
  by (simp add: consent_row_def)

lemma crm_order: "consent_order (consent_row a key at) = (at, 40, UUID (of_nat (8 + length key)))"
  by (simp add: consent_order_def) (simp add: consent_row_def)

lemma consent_effect:
  "effective_consent crm_env whatsapp_query (consent_store [granted_row, revoked_row, regranted_row]) =
     Inr (True, Some regranted_row)"
  "query_covers whatsapp_query revoked_row" "consent_order granted_row < consent_order revoked_row"
proof -
  have "newest_first [granted_row, revoked_row, regranted_row] = [regranted_row, revoked_row, granted_row]"
    unfolding newest_first_def granted_row_def revoked_row_def regranted_row_def
    by (subst sort_key_id_if_sorted) (simp_all add: crm_order)
  then have "latest_consent whatsapp_query CommercialFollowUpConsent (Some ''whatsapp'')
      (consent_store [granted_row, revoked_row, regranted_row]) = Some regranted_row"
    by (simp add: latest_consent_def granted_row_def revoked_row_def regranted_row_def crm_rows_asked)
  moreover have "consent_applies 50 regranted_row"
    by (simp add: consent_applies_def regranted_row_def consent_row_def)
  ultimately show "effective_consent crm_env whatsapp_query (consent_store [granted_row, revoked_row, regranted_row]) =
      Inr (True, Some regranted_row)"
    by (simp add: effective_consent_def crm_query_fields consent_purposes channel_text_normal [OF whatsapp_text(1)] crm_evidence
        consent_utc_def to_utc_def)
  show "query_covers whatsapp_query revoked_row"
    by (simp add: query_covers_def crm_query_fields channel_text_normal [OF whatsapp_text(1)] revoked_row_def row_purpose
        crm_rows_asked)
  show "consent_order granted_row < consent_order revoked_row"
    by (simp add: granted_row_def revoked_row_def crm_order)
qed


lemma consent_summary: "\<exists>T. effective_targets_for_point crm_env (UUID 2) (UUID 3) ''commercial_follow_up'' (UUID 61)
    (Some (Aware 50 0)) (consent_store [granted_row, revoked_row, regranted_row]) = Inr T"
  by (simp add: effective_targets_for_point_def consent_purposes crm_evidence consent_utc_def to_utc_def)

theorem targets_are_effective_witness:
  "\<exists>T. effective_targets_for_point crm_env (UUID 2) (UUID 3) ''commercial_follow_up'' (UUID 61) (Some (Aware 50 0))
     (consent_store [granted_row, revoked_row, regranted_row]) = Inr T \<and> ''whatsapp'' \<in> T"
proof -
  from consent_summary obtain T where T: "effective_targets_for_point crm_env (UUID 2) (UUID 3) ''commercial_follow_up'' (UUID 61)
    (Some (Aware 50 0)) (consent_store [granted_row, revoked_row, regranted_row]) = Inr T" by blast
  have "list_all consent_checks (consent_records (consent_store [granted_row, revoked_row, regranted_row]))"
    by (simp add: granted_row_def revoked_row_def regranted_row_def consent_row_checks btrim_def)
  from targets_are_effective [OF T this, of "''whatsapp''"] consent_effect(1) whatsapp_text(1) T show ?thesis
    by (auto simp: whatsapp_query_def)
qed

end
