(* ===== verification/DispatchWitnesses.thy ===== *)
theory DispatchWitnesses
  imports FollowUpDispatch ConsentWitnesses OpportunityWitnesses OutboundWitnesses
begin

text \<open>A follow-up of the sample contact is in delivery: its message is handed to the adapter under the
  consent, and refused once the consent is revoked.\<close>

definition call_task :: follow_up_task where
  "call_task = deal_task\<lparr>ft_status := FuDispatchQueued, ft_state_version := 2, ft_contact_point_id := Some (UUID 61),
     ft_consent_record_id := cr_id granted_row, ft_outbound_message_id := Some (UUID 201),
     ft_source_conversation_id := Some (UUID 1)\<rparr>"

definition call_message :: outbound where
  "call_message = (sample_outbound 201 1 ''k1'')\<lparr>om_status := OutDispatching, om_last_attempt_number := 1,
     om_locked_by := Some ''w1'', om_locked_at := Some 45\<rparr>"

definition call_attempt :: attempt where
  "call_attempt = \<lparr>at_id = UUID 400, at_outbound_message_id = UUID 201, at_attempt_number = 1, at_worker_id = ''w1'',
     at_control_version = 0, at_created_at = 45\<rparr>"

definition call_store :: "consent_record list \<Rightarrow> store" where
  "call_store rs = (consent_store rs)\<lparr>opportunities := [deal_row], follow_up_tasks := [call_task],
     outbounds := [call_message], attempts := [call_attempt]\<rparr>"

definition call_graph :: follow_up_graph where
  "call_graph = \<lparr>fg_task = call_task, fg_opportunity = deal_row, fg_source = sample_conversation,
     fg_delivery = sample_conversation, fg_contact = crm_contact, fg_point = crm_point\<rparr>"

definition one_adapter :: "(string \<times> adapter) list" where
  "one_adapter = [(''meta_whatsapp_cloud'', \<lambda>_ _ _. Some (ProviderAccepted ''wamid''))]"

lemma call_tables [simp]: "opportunities (call_store rs) = [deal_row]" "follow_up_tasks (call_store rs) = [call_task]"
  "outbounds (call_store rs) = [call_message]" "attempts (call_store rs) = [call_attempt]"
  "consent_records (call_store rs) = rs" "conversations (call_store rs) = [sample_conversation]"
  "contacts (call_store rs) = [crm_contact]" "contact_points (call_store rs) = [crm_point]"
  "routes (call_store rs) = routes sample_store" "connections (call_store rs) = connections sample_store"
  by (simp_all add: call_store_def consent_store_def crm_store_def sample_store_def)

lemma call_task_fields: "ft_id call_task = UUID 70" "ft_opportunity_id call_task = UUID 50"
  "ft_conversation_id call_task = Some (UUID 1)" "ft_contact_point_id call_task = Some (UUID 61)"
  "ft_target_channel call_task = Some ''whatsapp''" "ft_status call_task = FuDispatchQueued"
  "ft_outbound_message_id call_task = Some (UUID 201)" "ft_assigned_agent_id call_task = UUID 2"
  "ft_scheduled_control_version call_task = Some 0" "ft_scheduled_automation_version call_task = Some 0"
  by (simp_all add: call_task_def deal_task_def)

lemma call_message_fields: "om_id call_message = UUID 201" "om_conversation_id call_message = UUID 1"
  "om_agent_id call_message = UUID 2" "om_channel call_message = Some ''whatsapp''"
  "om_adapter_key call_message = Some ''meta_whatsapp_cloud''" "om_destination call_message = ''5491100''"
  "om_automation_agent_id call_message = Some (UUID 2)" "om_channel_route_id call_message = UUID 4"
  "om_connection_id call_message = Some (UUID 5)" "om_route_version call_message = Some 1"
  "om_connection_version call_message = Some 1" "om_status call_message = OutDispatching" "om_locked_by call_message = Some ''w1''"
  by (simp_all add: call_message_def sample_outbound_def)

lemma call_linked: "find_linked_task (call_store rs) (UUID 201) = Some call_task"
  by (simp add: find_linked_task_def call_task_fields)

lemma call_loads: "load_dispatch_graph (call_store rs) call_task call_message = Inr call_graph"
  by (simp add: load_dispatch_graph_def Let_def task_conversation_def get_conversation_def call_task_fields call_message_fields
      call_graph_def) (simp add: deal_row_def sample_conversation_def crm_contact_def crm_point_def)

lemma call_holds: "task_and_target_hold call_graph call_message"
  by (simp add: task_and_target_hold_def Let_def call_graph_def call_task_fields call_message_fields terminal_stage_def)
    (simp add: deal_row_def sample_conversation_def crm_contact_def crm_point_def terminal_stage_def)

lemma call_number: "decrypt_point vault (cp_ciphertext crm_point) = Inr ''+5491100''"
  "matches_destination ''whatsapp'' ''+5491100'' ''5491100''"
proof -
  show "decrypt_point vault (cp_ciphertext crm_point) = Inr ''+5491100''" by code_simp
  show "matches_destination ''whatsapp'' ''+5491100'' ''5491100''"
    by (simp add: matches_destination_def digits_of_def is_digit_def)
qed

lemma call_target: "assert_task_and_target vault call_graph call_message = Inr ()"
proof -
  have "fg_task call_graph = call_task" "fg_point call_graph = crm_point" by (simp_all add: call_graph_def)
  moreover have "cp_kind crm_point = ''phone''" by (simp add: crm_point_def)
  ultimately show ?thesis
    by (simp add: assert_task_and_target_def call_holds call_number call_task_fields call_message_fields expected_kind_def)
qed

lemma call_query: "dispatch_query call_graph = whatsapp_query\<lparr>cq_at := None\<rparr>"
  by (simp add: dispatch_query_def follow_up_query_def call_graph_def whatsapp_query_def target_query_def call_task_fields)
    (simp add: sample_conversation_def crm_contact_def crm_point_def)

lemma call_fields: "cq_purpose (dispatch_query call_graph) = ''commercial_follow_up''"
  "cq_target_channel (dispatch_query call_graph) = Some ''whatsapp''"
  "cq_agent_id (dispatch_query call_graph) = UUID 2" "cq_principal_id (dispatch_query call_graph) = UUID 3"
  "cq_source_conversation_id (dispatch_query call_graph) = Some (UUID 1)"
  "cq_contact_point_id (dispatch_query call_graph) = Some (UUID 61)" "cq_at (dispatch_query call_graph) = None"
  by (simp_all add: call_query crm_query_fields)

lemma call_asked: "consent_filter (dispatch_query call_graph) CommercialFollowUpConsent (Some ''whatsapp'') (consent_row a key at)"
  by (simp add: consent_filter_def call_fields) (simp add: consent_row_def)

lemma call_evidence: "point_of_principal (call_store rs) (UUID 61) (UUID 3) = Inr ()"
  "assert_agent_principal_scope (call_store rs) (UUID 2) (UUID 3) = Inr ()"
  by (simp_all add: point_of_principal_def assert_agent_principal_scope_def)
    (simp_all add: sample_conversation_def crm_contact_def crm_point_def)

lemma call_granted: "effective_consent crm_env (dispatch_query call_graph) (call_store [granted_row]) = Inr (True, Some granted_row)"
proof -
  have "latest_consent (dispatch_query call_graph) CommercialFollowUpConsent (Some ''whatsapp'') (call_store [granted_row]) =
      Some granted_row"
    by (simp add: latest_consent_def newest_first_def granted_row_def call_asked)
  moreover have "consent_applies t granted_row" for t
    by (simp add: consent_applies_def granted_row_def consent_row_def)
  ultimately show ?thesis
    by (simp add: effective_consent_def call_fields consent_purposes channel_text_normal [OF whatsapp_text(1)] call_evidence
        consent_utc_def to_utc_def)
qed

lemma call_claim: "revalidate_claim crm_env (UUID 201) (UUID 400) ''w1'' (call_store rs) = Inr (call_store rs, Some call_message)"
proof -
  have lock: "lock_owned_dispatch (call_store rs) (UUID 201) (UUID 400) ''w1'' = Inr (call_message, call_attempt)"
    by (simp add: lock_owned_dispatch_def call_message_fields call_attempt_def)
  have conv: "get_scoped (call_store rs) (UUID 1) (UUID 2) = Inr sample_conversation"
    by (simp add: get_scoped_def scoped_conversation_def sample_conversation_def)
  have fence: "assert_message_fence sample_conversation call_message = Inr ()"
    by (simp add: assert_message_fence_def assert_route_snapshot_def assert_sender_fence_def call_message_def
        sample_outbound_def sample_conversation_def)
  show ?thesis
    by (simp add: revalidate_claim_def normalize_worker_def strip_def is_space_def lock call_message_fields conv fence)
qed

lemma call_route: "\<exists>r n. load_route_and_connection (call_store rs) call_message = Some (r, n)"
  by (simp add: load_route_and_connection_def call_message_fields) (simp add: sample_store_def)

lemma call_checks: "follow_up_task_checks (call_task\<lparr>ft_executed_consent_record_id := c, ft_updated_at := u\<rparr>)"
  by (simp add: follow_up_task_checks_def call_task_def deal_task_def active_status_def non_negative_def hand_whatsapp
      btrim_def deal_hash_def)

lemma call_accepted: "\<exists>s'. record_dispatch_outcome crm_env (UUID 201) (UUID 400) ''w1'' OutcomeAccepted (Some ''wamid'') None None
    ((call_store rs)\<lparr>follow_up_tasks := ts\<rparr>) = Inr (s', call_message\<lparr>om_status := OutAccepted, om_locked_by := None,
      om_locked_at := None, om_provider_message_id := Some ''wamid'', om_accepted_at := Some 50\<rparr>)"
proof -
  have lock: "lock_owned_dispatch ((call_store rs)\<lparr>follow_up_tasks := ts\<rparr>) (UUID 201) (UUID 400) ''w1'' =
      Inr (call_message, call_attempt)"
    by (simp add: lock_owned_dispatch_def call_message_fields call_attempt_def)
  have ok: "check_outcome OutcomeAccepted (Some ''wamid'') None = Inr ()"
    by (simp add: check_outcome_def)
  have texts: "strip ''wamid'' = ''wamid''" "strip ''w1'' = ''w1''" by (simp_all add: strip_def is_space_def)
  show ?thesis
    by (simp add: record_dispatch_outcome_def normalize_worker_def texts lock ok Let_def update_outbound_def)
      (simp add: outcome_row_def call_message_def sample_outbound_def
        outbound_checks_def payload_shape_def is_jstr_def field_def crm_env_def sample_env_def)
qed

lemma call_dispatches: "\<exists>s'. dispatch_claim crm_env vault one_adapter ''w1'' (UUID 201) (UUID 400) (call_store [granted_row]) =
    Inr (s', Some call_message)"
proof -
  from call_route [of "[granted_row]"] obtain r n where route: "load_route_and_connection (call_store [granted_row]) call_message = Some (r, n)" by blast
  have auth: "\<exists>ts. revalidate_follow_up crm_env vault call_message (call_store [granted_row]) =
      Inr ((call_store [granted_row])\<lparr>follow_up_tasks := ts\<rparr>)"
    by (simp add: revalidate_follow_up_def call_linked call_message_fields call_loads call_task_fields call_target call_granted
        update_follow_up_task_def call_checks task_message_clash_def) (rule exI, rule refl)
  then obtain ts where ts: "revalidate_follow_up crm_env vault call_message (call_store [granted_row]) =
      Inr ((call_store [granted_row])\<lparr>follow_up_tasks := ts\<rparr>)" by blast
  from call_accepted [where rs = "[granted_row]" and ts = ts] show ?thesis
    by (auto simp: dispatch_claim_def call_claim route call_message_fields one_adapter_def ts)
qed

theorem dispatched_under_consent_witness:
  "\<exists>s'. dispatch_claim crm_env vault one_adapter ''w1'' (UUID 201) (UUID 400) (call_store [granted_row]) = Inr (s', Some call_message) \<and>
     (\<exists>t'\<in>set (follow_up_tasks s'). ft_id t' = UUID 70 \<and> ft_executed_consent_record_id t' = Some (cr_id granted_row))"
proof -
  from call_dispatches obtain s' where s': "dispatch_claim crm_env vault one_adapter ''w1'' (UUID 201) (UUID 400)
      (call_store [granted_row]) = Inr (s', Some call_message)" by blast
  from dispatched_under_consent [OF s' call_linked] s' show ?thesis
    by (auto simp: call_loads call_granted call_task_fields)
qed

theorem revoked_never_dispatched_witness:
  "\<nexists>s'. dispatch_claim crm_env vault one_adapter ''w1'' (UUID 201) (UUID 400) (call_store [granted_row, revoked_row]) =
     Inr (s', Some call_message)"
proof (rule notI, elim exE, erule revoked_never_dispatched [OF call_linked call_loads, THEN notE, rotated -1])
  show "revoked_row \<in> set (consent_records (call_store [granted_row, revoked_row]))" by simp
  show "cr_action revoked_row = Revoke" by (simp add: revoked_row_def consent_row_def)
  show "query_covers (dispatch_query call_graph) revoked_row"
    by (simp add: query_covers_def call_fields channel_text_normal [OF whatsapp_text(1)] revoked_row_def row_purpose call_asked)
  show "\<forall>x\<in>set (consent_records (call_store [granted_row, revoked_row])). query_covers (dispatch_query call_graph) x \<and>
      x \<noteq> revoked_row \<longrightarrow> consent_order x < consent_order revoked_row"
    using consent_effect(3) by simp
qed

end
