(* ===== verification/Ledger.thy ===== *)
theory Ledger
  imports Contracts
begin

text \<open>
  The pattern most services of the platform share: a table of rows that carry a version and a status, and
  an append-only table of events. A row enters at the first version with an event; every change starts its
  next version, follows an edge and leaves the event of that version; a note changes neither version nor
  status. The laws of such a service are proved once: its events number the versions without a gap, lead
  from nothing to the current status, and a status without outgoing edge is final. Follow-up tasks,
  meetings, identity-link claims and handoff routes are instances.
\<close>

record ('r, 'i, 'p, 't, 'e) ledger =
  row_key :: "'r \<Rightarrow> 'i"
  row_part :: "'r \<Rightarrow> 'p"
  row_version :: "'r \<Rightarrow> int"
  row_status :: "'r \<Rightarrow> 't"
  event_key :: "'e \<Rightarrow> 'i"
  event_version :: "'e \<Rightarrow> int"
  event_from :: "'e \<Rightarrow> 't option"
  event_to :: "'e \<Rightarrow> 't"
  first_version :: int
  admits :: "'r list \<Rightarrow> 'r \<Rightarrow> bool"
  edge :: "'r list \<Rightarrow> 'r \<Rightarrow> 'r \<Rightarrow> bool"

definition event_tells :: "('r, 'i, 'p, 't, 'e) ledger \<Rightarrow> 't option \<Rightarrow> 'r \<Rightarrow> 'e \<Rightarrow> bool" where
  "event_tells L from_status r e \<longleftrightarrow> event_key L e = row_key L r \<and> event_from L e = from_status \<and>
     event_to L e = row_status L r \<and> event_version L e = row_version L r"

inductive ledger_step :: "('r, 'i, 'p, 't, 'e) ledger \<Rightarrow> 'i \<Rightarrow> 'r list \<times> 'e list \<Rightarrow> 'r list \<times> 'e list \<Rightarrow> bool"
  for L where
  registered: "row_key L r \<notin> row_key L ` set rs \<Longrightarrow> row_version L r = first_version L \<Longrightarrow> admits L rs r \<Longrightarrow>
     event_tells L None r e \<Longrightarrow> ledger_step L (row_key L r) (rs, es) (rs @ [r], es @ [e])"
| moved: "r \<in> set rs \<Longrightarrow> row_key L r' = row_key L r \<Longrightarrow> row_part L r' = row_part L r \<Longrightarrow>
     row_version L r' = row_version L r + 1 \<Longrightarrow> edge L rs r r' \<Longrightarrow> event_tells L (Some (row_status L r)) r' e \<Longrightarrow>
     ledger_step L (row_key L r) (rs, es) (put_row (row_key L) r' rs, es @ [e])"

inductive ledger_note :: "('r, 'i, 'p, 't, 'e) ledger \<Rightarrow> 'r list \<times> 'e list \<Rightarrow> 'r list \<times> 'e list \<Rightarrow> bool"
  for L where
  noted: "r \<in> set rs \<Longrightarrow> row_key L r' = row_key L r \<Longrightarrow> row_part L r' = row_part L r \<Longrightarrow>
     row_version L r' = row_version L r \<Longrightarrow> row_status L r' = row_status L r \<Longrightarrow>
     ledger_note L (rs, es) (put_row (row_key L) r' rs, es)"

definition ledger_move :: "('r, 'i, 'p, 't, 'e) ledger \<Rightarrow> 'r list \<times> 'e list \<Rightarrow> 'r list \<times> 'e list \<Rightarrow> bool" where
  "ledger_move L x x' \<longleftrightarrow> (\<exists>k. ledger_step L k x x') \<or> ledger_note L x x'"

definition ledger_moves :: "('r, 'i, 'p, 't, 'e) ledger \<Rightarrow> 'r list \<times> 'e list \<Rightarrow> 'r list \<times> 'e list \<Rightarrow> bool" where
  "ledger_moves L = (ledger_move L)\<^sup>*\<^sup>*"

section \<open>The invariant\<close>

definition ledger_rows :: "('r, 'i, 'p, 't, 'e) ledger \<Rightarrow> 'r list \<times> 'e list \<Rightarrow> bool" where
  "ledger_rows L x \<longleftrightarrow> distinct (map (row_key L) (fst x))"

definition row_events :: "('r, 'i, 'p, 't, 'e) ledger \<Rightarrow> 'r list \<times> 'e list \<Rightarrow> 'i \<Rightarrow> 'e list" where
  "row_events L x k = filter (\<lambda>e. event_key L e = k) (snd x)"

fun event_path :: "('r, 'i, 'p, 't, 'e) ledger \<Rightarrow> 't option \<Rightarrow> 'e list \<Rightarrow> 't option \<Rightarrow> bool" where
  "event_path L p [] q \<longleftrightarrow> p = q"
| "event_path L p (e # es) q \<longleftrightarrow> event_from L e = p \<and> event_path L (Some (event_to L e)) es q"

definition next_row_version :: "('r, 'i, 'p, 't, 'e) ledger \<Rightarrow> 'r list \<times> 'e list \<Rightarrow> 'i \<Rightarrow> int option" where
  "next_row_version L x k =
     Some (case find (\<lambda>r. row_key L r = k) (fst x) of None \<Rightarrow> first_version L | Some r \<Rightarrow> row_version L r + 1)"

definition event_versions :: "('r, 'i, 'p, 't, 'e) ledger \<Rightarrow> 'r list \<times> 'e list \<Rightarrow> 'i \<Rightarrow> int list" where
  "event_versions L x k = map (event_version L) (row_events L x k)"

definition events_lead :: "('r, 'i, 'p, 't, 'e) ledger \<Rightarrow> 'r list \<times> 'e list \<Rightarrow> bool" where
  "events_lead L x \<longleftrightarrow>
     (\<forall>r\<in>set (fst x). event_path L None (row_events L x (row_key L r)) (Some (row_status L r)))"

definition ledger_inv :: "('r, 'i, 'p, 't, 'e) ledger \<Rightarrow> 'r list \<times> 'e list \<Rightarrow> bool" where
  "ledger_inv L x \<longleftrightarrow>
     ledger_rows L x \<and> gap_free (first_version L) (next_row_version L) (event_versions L) x \<and> events_lead L x"

lemma ledger_inv_empty: "ledger_inv L ([], [])"
  by (simp add: ledger_inv_def ledger_rows_def gap_free_def next_row_version_def event_versions_def row_events_def events_lead_def)

lemma step_ledger_rows: "ledger_step L k x x' \<Longrightarrow> ledger_rows L x \<Longrightarrow> ledger_rows L x'"
  by (induction rule: ledger_step.induct) (auto simp: ledger_rows_def table_simps)

lemma event_path_snoc: "event_path L p (es @ [e]) q \<longleftrightarrow> event_path L p es (event_from L e) \<and> q = Some (event_to L e)"
  by (induction es arbitrary: p) auto

lemma find_put_elsewhere: "row_key L r \<noteq> k \<Longrightarrow>
    find (\<lambda>x. row_key L x = k) (put_row (row_key L) r rs) = find (\<lambda>x. row_key L x = k) rs"
  by (rule find_put_row_other) auto

lemma missing_row: "row_key L r \<notin> row_key L ` set rs \<Longrightarrow> find (\<lambda>x. row_key L x = row_key L r) rs = None"
  by (auto simp: find_None_iff) (metis imageI)

lemma found_row: "ledger_rows L (rs, es) \<Longrightarrow> r \<in> set rs \<Longrightarrow> find (\<lambda>x. row_key L x = row_key L r) rs = Some r"
  using find_key [of "row_key L" rs r] by (simp add: ledger_rows_def)

lemma found_put_row: "ledger_rows L (rs, es) \<Longrightarrow> r \<in> set rs \<Longrightarrow> row_key L r' = row_key L r \<Longrightarrow>
    find (\<lambda>x. row_key L x = row_key L r) (put_row (row_key L) r' rs) = Some r'"
  using found_row [of L rs es r] by (intro find_put_row_same) simp_all

interpretation ledger_log: sequenced_log "first_version L" "ledger_rows L" "next_row_version L" "event_versions L" "ledger_step L"
  for L :: "('r, 'i, 'p, 't, 'e) ledger"
proof
  fix k :: 'i and x x' :: "'r list \<times> 'e list"
  assume wf: "ledger_rows L x" and step: "ledger_step L k x x'"
  show "ledger_rows L x'" by (rule step_ledger_rows [OF step wf])
  show "\<exists>n. next_row_version L x k = Some n \<and> next_row_version L x' k = Some (n + 1)"
    using step wf
  proof cases
    case (registered r rs e es)
    then show ?thesis by (simp add: next_row_version_def missing_row find_append)
  next
    case (moved r rs r' e es)
    with wf found_put_row [of L rs es r r'] found_row [of L rs es r] show ?thesis by (simp add: next_row_version_def)
  qed
  show "event_versions L x' k = event_versions L x k @ [n]" if n: "next_row_version L x k = Some n" for n
    using step wf
  proof cases
    case (registered r rs e es)
    with n show ?thesis by (simp add: event_versions_def row_events_def event_tells_def next_row_version_def missing_row)
  next
    case (moved r rs r' e es)
    with n wf found_row [of L rs es r] show ?thesis
      by (simp add: event_versions_def row_events_def event_tells_def next_row_version_def)
  qed
  show "next_row_version L x' i = next_row_version L x i \<and> event_versions L x' i = event_versions L x i" if "i \<noteq> k" for i
    using step
  proof cases
    case (registered r rs e es)
    with that show ?thesis
      by (auto simp: event_versions_def row_events_def event_tells_def next_row_version_def find_append split: option.splits)
  next
    case (moved r rs r' e es)
    with that show ?thesis
      by (simp add: event_versions_def row_events_def event_tells_def next_row_version_def find_put_elsewhere)
  qed
qed

lemma step_events_lead:
  assumes "ledger_step L k x x'" "ledger_rows L x"
    "gap_free (first_version L) (next_row_version L) (event_versions L) x" "events_lead L x"
  shows "events_lead L x'"
  using assms(1)
proof cases
  case (registered r rs e es)
  have "next_row_version L x (row_key L r) = Some (first_version L)"
    using registered by (simp add: next_row_version_def missing_row)
  with assms(3) have "event_versions L x (row_key L r) = [first_version L .. first_version L - 1]"
    unfolding gap_free_def by blast
  then have "row_events L x (row_key L r) = []" by (simp add: event_versions_def)
  with registered assms(4) show ?thesis by (auto simp: events_lead_def row_events_def event_tells_def)
next
  case (moved r rs r' e es)
  have old: "event_path L None (row_events L x (row_key L r)) (Some (row_status L r))"
    using assms(4) moved by (simp add: events_lead_def)
  have rows: "y \<in> set (fst x') \<Longrightarrow> y = r' \<or> (y \<in> set rs \<and> row_key L y \<noteq> row_key L r)" for y
    using moved by (auto simp: set_put_row)
  show ?thesis
    unfolding events_lead_def
  proof
    fix y assume "y \<in> set (fst x')"
    from rows [OF this] show "event_path L None (row_events L x' (row_key L y)) (Some (row_status L y))"
    proof (elim disjE conjE)
      assume "y = r'"
      with old moved show ?thesis by (simp add: row_events_def event_tells_def event_path_snoc)
    next
      assume "y \<in> set rs" "row_key L y \<noteq> row_key L r"
      with assms(4) moved show ?thesis by (simp add: events_lead_def row_events_def event_tells_def)
    qed
  qed
qed

lemma note_keeps:
  assumes "ledger_note L x x'" "ledger_rows L x"
  shows "ledger_rows L x'" "next_row_version L x' = next_row_version L x" "event_versions L x' = event_versions L x"
    "events_lead L x \<Longrightarrow> events_lead L x'"
proof -
  from assms(1) obtain r rs r' es where x: "x = (rs, es)" "x' = (put_row (row_key L) r' rs, es)" "r \<in> set rs"
    and same: "row_key L r' = row_key L r" "row_version L r' = row_version L r" "row_status L r' = row_status L r"
    by cases blast
  show "ledger_rows L x'" using assms(2) by (simp add: x ledger_rows_def table_simps)
  show "next_row_version L x' = next_row_version L x"
  proof
    fix i show "next_row_version L x' i = next_row_version L x i"
      using found_put_row [OF assms(2) [unfolded x(1)] x(3) same(1)] found_row [OF assms(2) [unfolded x(1)] x(3)] same
      by (cases "i = row_key L r") (simp_all add: x next_row_version_def find_put_elsewhere)
  qed
  show "event_versions L x' = event_versions L x" by (simp add: fun_eq_iff x event_versions_def row_events_def)
  show "events_lead L x'" if "events_lead L x"
    using that same x(3) by (fastforce simp: events_lead_def x row_events_def set_put_row)
qed

lemma ledger_move_inv:
  assumes "ledger_move L x x'" "ledger_inv L x"
  shows "ledger_inv L x'"
proof -
  from assms(2) have inv: "ledger_rows L x" "gap_free (first_version L) (next_row_version L) (event_versions L) x"
    "events_lead L x" by (simp_all add: ledger_inv_def)
  from assms(1) show ?thesis
    unfolding ledger_move_def
  proof (elim disjE exE)
    fix k assume step: "ledger_step L k x x'"
    show ?thesis
      unfolding ledger_inv_def
      using step_ledger_rows [OF step] step_events_lead [OF step] ledger_log.append_gap_free [OF _ step] inv by simp
  next
    assume note': "ledger_note L x x'"
    from note_keeps [OF this inv(1)] inv show ?thesis by (simp add: ledger_inv_def gap_free_def)
  qed
qed

lemma ledger_move_rows: "ledger_move L x x' \<Longrightarrow> ledger_rows L x \<Longrightarrow> ledger_rows L x'"
  unfolding ledger_move_def by (elim disjE exE) (erule (1) step_ledger_rows, erule (1) note_keeps(1))

lemma ledger_moves_refl [simp]: "ledger_moves L x x"
  by (simp add: ledger_moves_def)

lemma ledger_moves_step: "ledger_step L k x x' \<Longrightarrow> ledger_moves L x x'"
  unfolding ledger_moves_def ledger_move_def by blast

lemma ledger_moves_note: "ledger_note L x x' \<Longrightarrow> ledger_moves L x x'"
  unfolding ledger_moves_def ledger_move_def by blast

lemma ledger_moves_trans: "ledger_moves L x y \<Longrightarrow> ledger_moves L y z \<Longrightarrow> ledger_moves L x z"
  unfolding ledger_moves_def by (rule rtranclp_trans)

lemma ledger_moves_inv: "ledger_moves L x x' \<Longrightarrow> ledger_inv L x \<Longrightarrow> ledger_inv L x'"
  unfolding ledger_moves_def by (induction rule: rtranclp_induct) (auto intro: ledger_move_inv)

lemma ledger_moves_rows: "ledger_moves L x x' \<Longrightarrow> ledger_rows L x \<Longrightarrow> ledger_rows L x'"
  unfolding ledger_moves_def by (induction rule: rtranclp_induct) (auto intro: ledger_move_rows)

section \<open>Final rows\<close>

definition row_final :: "('r, 'i, 'p, 't, 'e) ledger \<Rightarrow> 't \<Rightarrow> bool" where
  "row_final L st \<longleftrightarrow> (\<forall>rs r r'. edge L rs r r' \<longrightarrow> row_status L r \<noteq> st)"

lemma move_keeps_row:
  assumes "ledger_move L x x'" "ledger_rows L x" "r \<in> set (fst x)"
  shows "\<exists>r'\<in>set (fst x'). row_key L r' = row_key L r \<and> row_part L r' = row_part L r \<and>
    (row_final L (row_status L r) \<longrightarrow> row_status L r' = row_status L r \<and> row_version L r' = row_version L r)"
proof -
  have other: "r \<in> set (put_row (row_key L) q' rs)"
    if "x = (rs, es)" "q \<in> set rs" "row_key L q' = row_key L q" "q \<noteq> r" for q q' rs es
  proof -
    have "row_key L r \<noteq> row_key L q"
      using that assms(2,3) same_key [of "row_key L" rs r q] by (auto simp: ledger_rows_def)
    with that assms(3) show ?thesis by (auto simp: set_put_row)
  qed
  from assms(1) show ?thesis
    unfolding ledger_move_def
  proof (elim disjE exE)
    fix k assume "ledger_step L k x x'"
    then show ?thesis
    proof cases
      case (registered q rs e es)
      then show ?thesis using assms(3) by auto
    next
      case (moved q rs q' e es)
      show ?thesis
      proof (cases "q = r")
        case True
        have "q' \<in> set (fst x')" using moved by (auto simp: set_put_row)
        moreover have "\<not> row_final L (row_status L r)" using moved True by (auto simp: row_final_def)
        ultimately show ?thesis using moved True by blast
      next
        case False
        with moved other show ?thesis by fastforce
      qed
    qed
  next
    assume "ledger_note L x x'"
    then show ?thesis
    proof cases
      case (noted q rs q' es)
      show ?thesis
      proof (cases "q = r")
        case True
        have "q' \<in> set (fst x')" using noted by (auto simp: set_put_row)
        with noted True show ?thesis by blast
      next
        case False
        with noted other show ?thesis by fastforce
      qed
    qed
  qed
qed

lemma moves_keep_row:
  assumes "ledger_moves L x x'" "ledger_rows L x" "r \<in> set (fst x)"
  shows "\<exists>r'\<in>set (fst x'). row_key L r' = row_key L r \<and> row_part L r' = row_part L r \<and>
    (row_final L (row_status L r) \<longrightarrow> row_status L r' = row_status L r \<and> row_version L r' = row_version L r)"
  using assms(1) unfolding ledger_moves_def
proof (induction rule: rtranclp_induct)
  case base
  then show ?case using assms(3) by blast
next
  case (step y z)
  have "ledger_rows L y" using step.hyps(1) assms(2) ledger_moves_rows unfolding ledger_moves_def by blast
  with step.IH move_keeps_row [OF step.hyps(2)] show ?case by metis
qed

section \<open>Services that keep a ledger\<close>

text \<open>A service keeps a ledger when each of its operations is a sequence of the moves.\<close>

locale ledger_service =
  fixes L :: "('r, 'i, 'p, 't, 'e) ledger"
    and tables :: "'s \<Rightarrow> 'r list \<times> 'e list"
    and op :: "'s \<Rightarrow> 's \<Rightarrow> bool"
  assumes op_moves: "op s s' \<Longrightarrow> ledger_rows L (tables s) \<Longrightarrow> ledger_moves L (tables s) (tables s')"
begin

lemma ops_move: "op\<^sup>*\<^sup>* s s' \<Longrightarrow> ledger_rows L (tables s) \<Longrightarrow> ledger_moves L (tables s) (tables s')"
  by (induction rule: rtranclp_induct) (auto intro: ledger_moves_trans op_moves ledger_moves_rows)

text \<open>The events of a row lead from nothing to its status, one per version.\<close>

lemma ops_trail:
  assumes "op\<^sup>*\<^sup>* s s'" "ledger_inv L (tables s)" "r \<in> set (fst (tables s'))"
  shows "event_path L None (row_events L (tables s') (row_key L r)) (Some (row_status L r))"
    "event_versions L (tables s') (row_key L r) = [first_version L .. row_version L r]"
proof -
  have "ledger_rows L (tables s)" using assms(2) by (simp add: ledger_inv_def)
  from ledger_moves_inv [OF ops_move [OF assms(1) this] assms(2)] have inv: "ledger_rows L (tables s')"
    "gap_free (first_version L) (next_row_version L) (event_versions L) (tables s')" "events_lead L (tables s')"
    by (simp_all add: ledger_inv_def)
  from inv(3) assms(3) show "event_path L None (row_events L (tables s') (row_key L r)) (Some (row_status L r))"
    by (simp add: events_lead_def)
  have "next_row_version L (tables s') (row_key L r) = Some (row_version L r + 1)"
    using found_row [of L "fst (tables s')" "snd (tables s')" r] inv(1) assms(3) by (simp add: next_row_version_def)
  with inv(2) show "event_versions L (tables s') (row_key L r) = [first_version L .. row_version L r]"
    by (auto simp: gap_free_def)
qed

text \<open>Rows are never lost and keep their fixed columns, and a row in a final status keeps it.\<close>

lemma ops_keep:
  assumes "op\<^sup>*\<^sup>* s s'" "ledger_inv L (tables s)" "r \<in> set (fst (tables s))"
  shows "\<exists>r'\<in>set (fst (tables s')). row_key L r' = row_key L r \<and> row_part L r' = row_part L r \<and>
    (row_final L (row_status L r) \<longrightarrow> row_status L r' = row_status L r \<and> row_version L r' = row_version L r)"
  using moves_keep_row [OF ops_move [OF assms(1)] _ assms(3)] assms(2) by (simp add: ledger_inv_def)

end

end
