(* ===== verification/FollowUpExecution.thy ===== *)
theory FollowUpExecution
  imports FollowUps OutboundDelivery
begin

text \<open>
  \<open>services/commercial/follow_up_execution.py\<close> and the runner of \<open>workers/follow_ups.py\<close>: a worker claims
  the earliest due task of a conversation under the timing policy of its agent, revalidates everything the
  task was scheduled under, enqueues one outbound message, and later projects the outcome of that message
  back into the task. What is uncertain goes to review, never back to the queue. The time-zone database is
  a parameter.
\<close>

section \<open>Zones and errors\<close>

text \<open>A zone reads an instant as local wall time, and a wall time (the first of two equal ones) as an
  instant; both in microseconds. \<open>zones key = None\<close> is the \<open>ZoneInfoNotFoundError\<close> of \<open>ZoneInfo(key)\<close>.\<close>

record zone =
  to_local :: "int \<Rightarrow> int"
  from_local :: "int \<Rightarrow> int"

definition day_length :: int where "day_length = 86400000000"

datatype run_error =
    RunInvalid string
  | RunZone string
  | RunConsent consent_error
  | RunIntegrity

definition run_worker :: "string \<Rightarrow> run_error + string" where
  "run_worker v =
     (let w = strip v in if w = [] \<or> 120 < length w then Inl (RunInvalid ''invalid follow-up worker id'') else Inr w)"

definition run_utc :: "datetime \<Rightarrow> run_error + instant" where
  "run_utc d =
     (case to_utc d of None \<Rightarrow> Inl (RunInvalid ''follow-up timestamps must be timezone-aware'') | Some t \<Rightarrow> Inr t)"

section \<open>Events and reviews\<close>

definition worker_event ::
  "env \<Rightarrow> follow_up_task \<Rightarrow> follow_up_event_type \<Rightarrow> follow_up_status \<Rightarrow> follow_up_status \<Rightarrow> string \<Rightarrow> uuid option \<Rightarrow>
     string option \<Rightarrow> instant \<Rightarrow> bool \<Rightarrow> follow_up_event" where
  "worker_event E t etype from_status to_status worker routing code event_time include_outbound =
     (let key = ''worker:'' @ int_str (ft_state_version t) @ '':'' @ follow_up_status_value to_status;
          hash = command_digest E True
            [(''from_status'', JStr (follow_up_status_value from_status)), (''safe_code'', opt_json JStr code),
             (''state_version'', JInt (ft_state_version t)), (''task_id'', uuid_json (ft_id t)),
             (''to_status'', JStr (follow_up_status_value to_status))]
      in \<lparr>fe_id = uuid5 E (ft_id t) (''follow-up-event:'' @ key), fe_task_id = ft_id t,
          fe_opportunity_id = ft_opportunity_id t, fe_event_type = etype, fe_from_status = Some from_status,
          fe_to_status = to_status, fe_state_version = ft_state_version t, fe_actor_type = FuWorker,
          fe_actor_agent_id = None, fe_actor_admin_id = None, fe_actor_worker_id = Some worker,
          fe_routing_agent_id = routing, fe_automation_agent_id = Some (ft_assigned_agent_id t),
          fe_target_channel = ft_target_channel t, fe_control_version = ft_scheduled_control_version t,
          fe_automation_version = ft_scheduled_automation_version t,
          fe_scheduled_policy_version = ft_scheduled_policy_version t,
          fe_executed_policy_version = ft_executed_policy_version t,
          fe_consent_record_id = ft_consent_record_id t,
          fe_executed_consent_record_id = ft_executed_consent_record_id t, fe_caused_by_consent_record_id = None,
          fe_chat_message_id = ft_chat_message_id t,
          fe_outbound_message_id = (if include_outbound then ft_outbound_message_id t else None),
          fe_source_conversation_id =
            (case ft_source_conversation_id t of Some i \<Rightarrow> Some i | None \<Rightarrow> ft_conversation_id t),
          fe_had_chat_message_evidence = (ft_had_chat_message_evidence t \<or> ft_chat_message_id t \<noteq> None),
          fe_had_outbound_message_evidence = (ft_had_outbound_message_evidence t \<or> ft_outbound_message_id t \<noteq> None),
          fe_safe_code = code, fe_correlation_id = ft_correlation_id t, fe_idempotency_key = key,
          fe_command_hash = hash, fe_created_at = event_time\<rparr>)"

definition save_task :: "follow_up_task \<Rightarrow> follow_up_event \<Rightarrow> store \<Rightarrow> run_error + store" where
  "save_task t e s = mapErr (\<lambda>_. RunIntegrity) (flush_task t e s)"

definition reviewed_task :: "env \<Rightarrow> string \<Rightarrow> instant \<Rightarrow> follow_up_task \<Rightarrow> follow_up_task" where
  "reviewed_task E code event_time t =
     t\<lparr>ft_status := FuReviewRequired, ft_state_version := ft_state_version t + 1, ft_lease_owner := None,
       ft_lease_expires_at := None, ft_review_required_at := Some event_time, ft_last_safe_code := Some code,
       ft_updated_at := tx_now E\<rparr>"

definition move_to_review ::
  "env \<Rightarrow> follow_up_task \<Rightarrow> string \<Rightarrow> string \<Rightarrow> instant \<Rightarrow> uuid option \<Rightarrow> store \<Rightarrow> run_error + store" where
  "move_to_review E t worker code event_time routing s =
     (let agent = (case routing of Some a \<Rightarrow> Some a | None \<Rightarrow> map_option cv_agent_id (task_conversation s t));
          t1 = reviewed_task E code event_time t
      in save_task t1
           (worker_event E t1 FuEvTransitioned (ft_status t) FuReviewRequired worker agent (Some code) event_time False) s)"

section \<open>Recovery of expired leases\<close>

definition lease_order :: "follow_up_task \<Rightarrow> instant \<times> uuid" where
  "lease_order t = (the (ft_lease_expires_at t), ft_id t)"

definition expired_leases :: "(uuid \<Rightarrow> bool) \<Rightarrow> instant \<Rightarrow> store \<Rightarrow> follow_up_task list" where
  "expired_leases locked event_time s =
     sort_key lease_order
       (filter (\<lambda>t. ft_status t = FuInProgress \<and>
            (case ft_lease_expires_at t of None \<Rightarrow> False | Some x \<Rightarrow> x \<le> event_time) \<and> \<not> locked (ft_id t))
         (follow_up_tasks s))"

fun review_each :: "env \<Rightarrow> string \<Rightarrow> string \<Rightarrow> instant \<Rightarrow> follow_up_task list \<Rightarrow> store \<Rightarrow> run_error + store" where
  "review_each E worker code event_time [] s = Inr s"
| "review_each E worker code event_time (t # ts) s =
     bindE (move_to_review E t worker code event_time None s) (review_each E worker code event_time ts)"

definition recover_expired_leases ::
  "env \<Rightarrow> (uuid \<Rightarrow> bool) \<Rightarrow> string \<Rightarrow> datetime option \<Rightarrow> store \<Rightarrow> run_error + (store \<times> int)" where
  "recover_expired_leases E locked worker_id now s =
     bindE (run_worker worker_id) (\<lambda>worker.
     bindE (run_utc (given_or_now E now)) (\<lambda>event_time.
     let ts = expired_leases locked event_time s
     in bindE (review_each E worker ''follow_up_lease_expired'' event_time ts s) (\<lambda>s1. Inr (s1, int (length ts)))))"

section \<open>Timing\<close>

definition quiet_hours_end ::
  "(string \<Rightarrow> zone option) \<Rightarrow> automation_policy \<Rightarrow> instant \<Rightarrow> run_error + instant option" where
  "quiet_hours_end zones p now =
     (case (ap_quiet_hours_start p, ap_quiet_hours_end p) of
        (Some start, Some stop) \<Rightarrow>
          (case zones (ap_timezone p) of
             None \<Rightarrow> Inl (RunZone (ap_timezone p))
           | Some z \<Rightarrow>
               let local = to_local z now; date = local div day_length; clock_time = local mod day_length;
                   ends = (\<lambda>d. Inr (Some (from_local z (d * day_length + stop))))
               in if start < stop then (if \<not> (start \<le> clock_time \<and> clock_time < stop) then Inr None else ends date)
                  else if clock_time \<ge> start then ends (date + 1)
                  else if clock_time < stop then ends date
                  else Inr None)
      | _ \<Rightarrow> Inr None)"

definition local_day_bounds ::
  "(string \<Rightarrow> zone option) \<Rightarrow> automation_policy \<Rightarrow> instant \<Rightarrow> run_error + (instant \<times> instant)" where
  "local_day_bounds zones p now =
     (case zones (ap_timezone p) of
        None \<Rightarrow> Inl (RunZone (ap_timezone p))
      | Some z \<Rightarrow>
          let date = to_local z now div day_length
          in Inr (from_local z (date * day_length), from_local z ((date + 1) * day_length)))"

definition lane_claims :: "store \<Rightarrow> string option \<Rightarrow> follow_up_event list" where
  "lane_claims s fifo =
     filter (\<lambda>e. fe_to_status e = FuInProgress \<and>
         list_ex (\<lambda>t. ft_id t = fe_task_id e \<and> ft_fifo_key t \<noteq> None \<and> ft_fifo_key t = fifo) (follow_up_tasks s))
       (follow_up_events s)"

definition last_claim_at :: "store \<Rightarrow> string option \<Rightarrow> instant option" where
  "last_claim_at s fifo =
     (case map fe_created_at (lane_claims s fifo) of [] \<Rightarrow> None | x # xs \<Rightarrow> Some (fold max xs x))"

definition claimed_today :: "store \<Rightarrow> uuid \<Rightarrow> instant \<Rightarrow> instant \<Rightarrow> int" where
  "claimed_today s aid day_start next_day =
     int (length (filter (\<lambda>e. fe_automation_agent_id e = Some aid \<and> fe_to_status e = FuInProgress \<and>
         day_start \<le> fe_created_at e \<and> fe_created_at e < next_day) (follow_up_events s)))"

definition daily_deferral ::
  "(string \<Rightarrow> zone option) \<Rightarrow> store \<Rightarrow> follow_up_task \<Rightarrow> automation_policy \<Rightarrow> instant \<Rightarrow>
     run_error + (instant \<times> string) option" where
  "daily_deferral zones s t p now =
     bindE (local_day_bounds zones p now) (\<lambda>(day_start, next_day).
       if ap_max_daily_tasks p \<le> claimed_today s (ft_assigned_agent_id t) day_start next_day
       then Inr (Some (next_day, ''follow_up_daily_limit'')) else Inr None)"

definition deferred_until ::
  "(string \<Rightarrow> zone option) \<Rightarrow> store \<Rightarrow> follow_up_task \<Rightarrow> automation_policy \<Rightarrow> instant \<Rightarrow>
     run_error + (instant \<times> string) option" where
  "deferred_until zones s t p now =
     bindE (quiet_hours_end zones p now) (\<lambda>quiet.
     case quiet of
       Some stop \<Rightarrow> Inr (Some (stop, ''follow_up_quiet_hours''))
     | None \<Rightarrow>
         (case last_claim_at s (ft_fifo_key t) of
            None \<Rightarrow> daily_deferral zones s t p now
          | Some x \<Rightarrow>
              let interval_end = x + ap_min_interval_seconds p * 1000000
              in if now < interval_end then Inr (Some (interval_end, ''follow_up_min_interval''))
                 else daily_deferral zones s t p now))"

definition policy_failure :: "follow_up_task \<Rightarrow> automation_policy option \<Rightarrow> string option" where
  "policy_failure t p =
     (case p of
        None \<Rightarrow> Some ''follow_up_policy_missing''
      | Some q \<Rightarrow>
          if Some (ap_version q) \<noteq> ft_scheduled_policy_version t then Some ''follow_up_policy_changed''
          else if \<not> ap_is_enabled q then Some ''follow_up_policy_disabled''
          else if follow_up_kind_value (ft_kind t) \<notin> set (ap_allowed_kinds q) then Some ''follow_up_kind_disabled''
          else None)"

section \<open>Claiming\<close>

text \<open>A task is blocked by an earlier active task of its conversation; tasks without a key are in no lane.\<close>

definition task_pos :: "follow_up_task \<Rightarrow> instant \<times> instant \<times> uuid" where
  "task_pos t = (ft_due_at t, ft_created_at t, ft_id t)"

definition blocking_task :: "follow_up_task \<Rightarrow> follow_up_task \<Rightarrow> bool" where
  "blocking_task q t \<longleftrightarrow>
     ft_fifo_key q \<noteq> None \<and> ft_fifo_key q = ft_fifo_key t \<and>
     ft_status q \<in> {FuScheduled, FuDispatchQueued, FuInProgress, FuReviewRequired} \<and>
     (ft_due_at q < ft_due_at t \<or> (ft_due_at q = ft_due_at t \<and> ft_created_at q < ft_created_at t) \<or>
      (ft_due_at q = ft_due_at t \<and> ft_created_at q = ft_created_at t \<and> ft_id q < ft_id t))"

definition eligible_task :: "(uuid \<Rightarrow> bool) \<Rightarrow> instant \<Rightarrow> store \<Rightarrow> follow_up_task option" where
  "eligible_task locked now s =
     first_by task_pos
       (filter (\<lambda>t. ft_status t = FuScheduled \<and> ft_due_at t \<le> now \<and> ft_available_at t \<le> now \<and>
            \<not> list_ex (\<lambda>q. blocking_task q t) (follow_up_tasks s) \<and> \<not> locked (ft_id t))
         (follow_up_tasks s))"

definition deferred_task :: "env \<Rightarrow> instant \<Rightarrow> string \<Rightarrow> follow_up_task \<Rightarrow> follow_up_task" where
  "deferred_task E available code t =
     t\<lparr>ft_available_at := available, ft_executed_policy_version := ft_scheduled_policy_version t,
       ft_last_safe_code := Some code, ft_state_version := ft_state_version t + 1, ft_updated_at := tx_now E\<rparr>"

definition defer_task ::
  "env \<Rightarrow> follow_up_task \<Rightarrow> string \<Rightarrow> instant \<Rightarrow> string \<Rightarrow> instant \<Rightarrow> uuid \<Rightarrow> store \<Rightarrow> run_error + store" where
  "defer_task E t worker available code event_time routing s =
     (let t1 = deferred_task E available code t
      in save_task t1
           (worker_event E t1 FuEvDeferred FuScheduled FuScheduled worker (Some routing) (Some code) event_time False) s)"

record claimed_follow_up =
  fc_task_id :: uuid
  fc_state_version :: int
  fc_worker_id :: string
  fc_lease_expires_at :: instant

definition claimed_task :: "env \<Rightarrow> automation_policy \<Rightarrow> string \<Rightarrow> instant \<Rightarrow> follow_up_task \<Rightarrow> follow_up_task" where
  "claimed_task E p worker expires t =
     t\<lparr>ft_status := FuInProgress, ft_state_version := ft_state_version t + 1, ft_attempts := ft_attempts t + 1,
       ft_executed_policy_version := Some (ap_version p), ft_lease_owner := Some worker,
       ft_lease_expires_at := Some expires, ft_last_safe_code := None, ft_updated_at := tx_now E\<rparr>"

definition start_task ::
  "env \<Rightarrow> automation_policy \<Rightarrow> string \<Rightarrow> instant \<Rightarrow> instant \<Rightarrow> uuid \<Rightarrow> follow_up_task \<Rightarrow> store \<Rightarrow>
     run_error + (store \<times> claimed_follow_up)" where
  "start_task E p worker lease event_time routing t s =
     (let t1 = claimed_task E p worker (event_time + lease) t
      in bindE (save_task t1
             (worker_event E t1 FuEvTransitioned (ft_status t) FuInProgress worker (Some routing) None event_time False) s)
           (\<lambda>s1. Inr (s1, \<lparr>fc_task_id = ft_id t1, fc_state_version = ft_state_version t1, fc_worker_id = worker,
                          fc_lease_expires_at = event_time + lease\<rparr>)))"

text \<open>One turn of the \<open>while True\<close>: it returns, or it disposes of the head and tries again.\<close>

datatype claim_turn = TurnDone "claimed_follow_up option" | TurnAgain

definition again :: "run_error + store \<Rightarrow> run_error + (store \<times> claim_turn)" where
  "again r = bindE r (\<lambda>s. Inr (s, TurnAgain))"

definition claim_step ::
  "env \<Rightarrow> (string \<Rightarrow> zone option) \<Rightarrow> (uuid \<Rightarrow> bool) \<Rightarrow> string \<Rightarrow> instant \<Rightarrow> instant \<Rightarrow> store \<Rightarrow>
     run_error + (store \<times> claim_turn)" where
  "claim_step E zones locked worker lease event_time s =
     (case eligible_task locked event_time s of
        None \<Rightarrow> Inr (s, TurnDone None)
      | Some t \<Rightarrow>
          (case task_conversation s t of
             None \<Rightarrow> again (move_to_review E t worker ''legacy_follow_up_context_unknown'' event_time None s)
           | Some c \<Rightarrow>
               (case policy_failure t (stored_policy s (ft_assigned_agent_id t)) of
                  Some code \<Rightarrow> again (move_to_review E t worker code event_time (Some (cv_agent_id c)) s)
                | None \<Rightarrow>
                    (let p = the (stored_policy s (ft_assigned_agent_id t)) in
                     bindE (deferred_until zones s t p event_time) (\<lambda>deferral.
                     case deferral of
                       Some (available, code) \<Rightarrow>
                         again (defer_task E t worker available code event_time (cv_agent_id c) s)
                     | None \<Rightarrow>
                         if min (ft_max_attempts t) (ap_max_attempts p) \<le> ft_attempts t
                         then again (move_to_review E t worker ''follow_up_attempt_limit_reached'' event_time
                                       (Some (cv_agent_id c)) s)
                         else bindE (start_task E p worker lease event_time (cv_agent_id c) t s) (\<lambda>(s1, claim).
                                Inr (s1, TurnDone (Some claim))))))))"

partial_function (option) claim_turns ::
  "env \<Rightarrow> (string \<Rightarrow> zone option) \<Rightarrow> (uuid \<Rightarrow> bool) \<Rightarrow> string \<Rightarrow> instant \<Rightarrow> instant \<Rightarrow> store \<Rightarrow>
     (run_error + (store \<times> claimed_follow_up option)) option" where
  "claim_turns E zones locked worker lease event_time s =
     (case claim_step E zones locked worker lease event_time s of
        Inl e \<Rightarrow> Some (Inl e)
      | Inr (s1, turn) \<Rightarrow>
          (case turn of
             TurnDone claim \<Rightarrow> Some (Inr (s1, claim))
           | TurnAgain \<Rightarrow> claim_turns E zones locked worker lease event_time s1))"

text \<open>\<open>None\<close> when the loop does not return.\<close>

definition claim_next_follow_up ::
  "env \<Rightarrow> (string \<Rightarrow> zone option) \<Rightarrow> (uuid \<Rightarrow> bool) \<Rightarrow> string \<Rightarrow> instant \<Rightarrow> datetime option \<Rightarrow> store \<Rightarrow>
     (run_error + (store \<times> claimed_follow_up option)) option" where
  "claim_next_follow_up E zones locked worker_id lease now s =
     (case run_worker worker_id of
        Inl e \<Rightarrow> Some (Inl e)
      | Inr worker \<Rightarrow>
          if lease \<le> 0 then Some (Inl (RunInvalid ''follow-up lease duration must be positive''))
          else
            (case run_utc (given_or_now E now) of
               Inl e \<Rightarrow> Some (Inl e)
             | Inr event_time \<Rightarrow> claim_turns E zones locked worker lease event_time s))"

section \<open>Enqueueing the delivery\<close>

record execution_graph =
  xg_task :: follow_up_task
  xg_opportunity :: opportunity
  xg_source :: conversation
  xg_contact :: contact
  xg_point :: contact_point
  xg_policy :: automation_policy

text \<open>\<open>_ExecutionBlocked\<close>, or an exception of the consent service, which is not caught.\<close>

datatype execution_stop = StopBlocked string | StopConsent consent_error

definition owned_claim :: "store \<Rightarrow> claimed_follow_up \<Rightarrow> follow_up_task option" where
  "owned_claim s k =
     find (\<lambda>t. ft_id t = fc_task_id k \<and> ft_status t = FuInProgress \<and> ft_state_version t = fc_state_version k \<and>
        ft_lease_owner t = Some (fc_worker_id k) \<and> ft_lease_expires_at t = Some (fc_lease_expires_at k)) (follow_up_tasks s)"

definition load_execution_graph :: "store \<Rightarrow> follow_up_task \<Rightarrow> execution_stop + execution_graph" where
  "load_execution_graph s t =
     (let graph =
        Option.bind (find (\<lambda>p. op_id p = ft_opportunity_id t) (opportunities s)) (\<lambda>p.
        Option.bind (task_conversation s t) (\<lambda>source.
        Option.bind (find (\<lambda>c. ct_id c = op_contact_id p) (contacts s)) (\<lambda>contact.
        Option.bind (Option.bind (ft_contact_point_id t) (\<lambda>i. find (\<lambda>q. cp_id q = i) (contact_points s))) (\<lambda>point.
        Option.bind (stored_policy s (ft_assigned_agent_id t)) (\<lambda>policy.
          Some \<lparr>xg_task = t, xg_opportunity = p, xg_source = source, xg_contact = contact, xg_point = point,
            xg_policy = policy\<rparr>)))))
      in case graph of None \<Rightarrow> Inl (StopBlocked ''follow_up_execution_context_changed'') | Some g \<Rightarrow> Inr g)"

definition issued_quote :: "store \<Rightarrow> uuid \<Rightarrow> uuid option \<Rightarrow> bool" where
  "issued_quote s oid qid =
     list_ex (\<lambda>v. Some (qv_id v) = qid \<and> qv_status v = QuoteIssued \<and>
         list_ex (\<lambda>r. qr_id r = qv_quote_request_id v \<and> qr_opportunity_id r = oid) (quote_requests s)) (quote_versions s)"

definition execution_query :: "execution_graph \<Rightarrow> instant \<Rightarrow> consent_query" where
  "execution_query g now =
     follow_up_query (cv_agent_id (xg_source g)) (ct_principal_id (xg_contact g)) (cp_id (xg_point g)) (cv_id (xg_source g))
       (ft_target_channel (xg_task g)) (Some (Aware now 0))"

definition execution_failure :: "store \<Rightarrow> execution_graph \<Rightarrow> string option" where
  "execution_failure s g =
     (let t = xg_task g; source = xg_source g; p = xg_opportunity g; contact = xg_contact g; point = xg_point g in
      case policy_failure t (Some (xg_policy g)) of
        Some code \<Rightarrow> Some code
      | None \<Rightarrow>
          if op_assigned_agent_id p \<noteq> ft_assigned_agent_id t \<or> op_assigned_operator_id p \<noteq> ft_assigned_operator_id t \<or>
             terminal_stage (op_stage p)
          then Some ''follow_up_opportunity_changed''
          else if cv_status source \<noteq> ''active'' \<or> cv_control_mode source \<noteq> Automated \<or>
             Some (cv_control_version source) \<noteq> ft_scheduled_control_version t
          then Some ''follow_up_control_changed''
          else if cv_automation_agent_id source \<noteq> ft_assigned_agent_id t \<or>
             Some (cv_automation_version source) \<noteq> ft_scheduled_automation_version t
          then Some ''follow_up_automation_changed''
          else if ct_status contact = ContactArchived \<or> ct_principal_id contact \<noteq> cv_principal_id source \<or>
             cp_contact_id point \<noteq> ct_id contact \<or> cp_verification_status point \<noteq> ''verified''
          then Some ''follow_up_contact_changed''
          else if expected_kind (ft_target_channel t) = None then Some ''follow_up_channel_unsupported''
          else if expected_kind (ft_target_channel t) \<noteq> Some (cp_kind point) then Some ''follow_up_contact_changed''
          else if ft_kind t = ProposalReminder \<and> \<not> issued_quote s (op_id p) (ft_quote_version_id t)
          then Some ''follow_up_quote_evidence_changed''
          else None)"

definition assert_execution_allowed ::
  "env \<Rightarrow> store \<Rightarrow> execution_graph \<Rightarrow> instant \<Rightarrow> execution_stop + unit" where
  "assert_execution_allowed E s g now =
     (case execution_failure s g of
        Some code \<Rightarrow> Inl (StopBlocked code)
      | None \<Rightarrow>
          bindE (mapErr StopConsent (effective_consent E (execution_query g now) s)) (\<lambda>(granted, r).
            require (granted \<and> r \<noteq> None) (StopBlocked ''follow_up_consent_missing'')))"

definition delivery_conversations :: "store \<Rightarrow> execution_graph \<Rightarrow> string \<Rightarrow> string \<Rightarrow> conversation list" where
  "delivery_conversations s g channel target =
     filter (\<lambda>c. cv_agent_id c = cv_agent_id (xg_source g) \<and> cv_principal_id c = ct_principal_id (xg_contact g) \<and>
         cv_channel c = channel \<and> cv_status c = ''active'' \<and> cv_control_mode c = Automated \<and>
         cv_automation_agent_id c = ft_assigned_agent_id (xg_task g) \<and> cv_channel_route_id c \<noteq> None \<and>
         digits_of (cv_external_thread_id c) = target) (conversations s)"

definition usable_route :: "store \<Rightarrow> conversation \<Rightarrow> string \<Rightarrow> execution_stop + channel_connection" where
  "usable_route s c channel =
     (case Option.bind (cv_channel_route_id c) (\<lambda>i. find (\<lambda>r. rt_id r = i) (routes s)) of
        None \<Rightarrow> Inl (StopBlocked ''follow_up_route_unavailable'')
      | Some r \<Rightarrow>
          (case find (\<lambda>k. cn_id k = rt_connection_id r) (connections s) of
             None \<Rightarrow> Inl (StopBlocked ''follow_up_route_unavailable'')
           | Some k \<Rightarrow>
               if \<not> rt_is_active r \<or> \<not> cn_is_active k \<or> rt_agent_id r \<noteq> cv_agent_id c \<or> rt_channel r \<noteq> channel \<or>
                  cn_channel k \<noteq> channel
               then Inl (StopBlocked ''follow_up_route_unavailable'') else Inr k))"

definition resolve_delivery_conversation :: "crypto \<Rightarrow> store \<Rightarrow> execution_graph \<Rightarrow> execution_stop + conversation" where
  "resolve_delivery_conversation C s g =
     (if ft_target_channel (xg_task g) \<noteq> Some ''whatsapp'' then Inl (StopBlocked ''follow_up_channel_not_implemented'')
      else
        (case decrypt_point C (cp_ciphertext (xg_point g)) of
           Inl _ \<Rightarrow> Inl (StopBlocked ''follow_up_contact_unavailable'')
         | Inr target \<Rightarrow>
             if digits_of target = [] then Inl (StopBlocked ''follow_up_contact_unavailable'')
             else
               (case delivery_conversations s g ''whatsapp'' (digits_of target) of
                  [c] \<Rightarrow>
                    bindE (usable_route s c ''whatsapp'') (\<lambda>k.
                    case require_implemented_adapter ''whatsapp'' (Some (cn_adapter_key k)) of
                      Inl _ \<Rightarrow> Inl (StopBlocked ''follow_up_channel_not_implemented'') | Inr _ \<Rightarrow> Inr c)
                | _ \<Rightarrow> Inl (StopBlocked ''follow_up_target_conversation_unavailable''))))"

text \<open>\<open>_compose_message\<close>; the kinds of the table are the keys of its dictionary.\<close>

fun compose_message :: "follow_up_kind \<Rightarrow> string" where
  "compose_message CommercialFollowUp =
     ''Hola, retomamos tu consulta para saber si necesit'' @ [CHR 0xE1] @ ''s ayuda con el pr'' @ [CHR 0xF3] @ ''ximo paso.''"
| "compose_message MeetingCoordination =
     ''Hola, podemos coordinar una reuni'' @ [CHR 0xF3] @ ''n para continuar. '' @ [CHR 0xBF] @ ''Qu'' @ [CHR 0xE9] @
     '' disponibilidad te resulta conveniente?''"
| "compose_message ProposalReminder =
     ''Hola, queremos confirmar si pudiste revisar la propuesta enviada. Si quer'' @ [CHR 0xE9] @
     ''s, coordinamos el pr'' @ [CHR 0xF3] @ ''ximo paso.''"

definition delivery_key :: "uuid \<Rightarrow> string" where
  "delivery_key tid = ''follow-up:'' @ uuid_str tid @ '':delivery''"

definition delivery_command :: "follow_up_task \<Rightarrow> conversation \<Rightarrow> outbound_command" where
  "delivery_command t c =
     \<lparr>oc_conversation_id = cv_id c, oc_agent_id = cv_agent_id c, oc_chat_message_id = None, oc_kind = KText,
      oc_payload = PDict [(KStr ''text'', PStr (compose_message (ft_kind t)))], oc_sender_type = ByAutomation,
      oc_control_version = cv_control_version c, oc_automation_agent_id = Some (ft_assigned_agent_id t),
      oc_automation_version = Some (cv_automation_version c), oc_idempotency_key = delivery_key (ft_id t),
      oc_correlation_id = ft_correlation_id t, oc_sender_admin_id = None\<rparr>"

definition queued_task :: "env \<Rightarrow> uuid \<Rightarrow> follow_up_task \<Rightarrow> follow_up_task" where
  "queued_task E mid t =
     t\<lparr>ft_outbound_message_id := Some mid, ft_had_outbound_message_evidence := True, ft_status := FuDispatchQueued,
       ft_state_version := ft_state_version t + 1, ft_lease_owner := None, ft_lease_expires_at := None,
       ft_last_safe_code := None, ft_updated_at := tx_now E\<rparr>"

text \<open>The \<open>try\<close> block; \<open>Inl code\<close> of the result is an exception its handlers turn into a review.\<close>

definition try_enqueue ::
  "env \<Rightarrow> crypto \<Rightarrow> follow_up_task \<Rightarrow> instant \<Rightarrow> store \<Rightarrow>
     run_error + (string + (store \<times> execution_graph \<times> outbound \<times> bool))" where
  "try_enqueue E C t now s =
     (case bindE (load_execution_graph s t) (\<lambda>g.
           bindE (assert_execution_allowed E s g now) (\<lambda>_.
           bindE (resolve_delivery_conversation C s g) (\<lambda>c. Inr (g, c)))) of
        Inl (StopBlocked code) \<Rightarrow> Inr (Inl code)
      | Inl (StopConsent e) \<Rightarrow> Inl (RunConsent e)
      | Inr (g, c) \<Rightarrow>
          (case enqueue_outbound E s (delivery_command t c) of
             Inl OutIntegrity \<Rightarrow> Inl RunIntegrity
           | Inl _ \<Rightarrow> Inr (Inl ''follow_up_route_unavailable'')
           | Inr (s1, m, duplicate) \<Rightarrow> Inr (Inr (s1, g, m, duplicate))))"

text \<open>The result is \<open>FollowUpExecutionResult\<close>: whether a task was processed, and its safe code.\<close>

definition review_result ::
  "env \<Rightarrow> follow_up_task \<Rightarrow> string \<Rightarrow> string \<Rightarrow> instant \<Rightarrow> store \<Rightarrow> run_error + (store \<times> bool \<times> string option)" where
  "review_result E t worker code now s =
     bindE (move_to_review E t worker code now None s) (\<lambda>s1. Inr (s1, True, Some code))"

text \<open>The end of \<open>enqueue_claim\<close>, after the \<open>try\<close> block.\<close>

definition queue_delivery ::
  "env \<Rightarrow> claimed_follow_up \<Rightarrow> follow_up_task \<Rightarrow> instant \<Rightarrow> store \<times> execution_graph \<times> outbound \<times> bool \<Rightarrow>
     run_error + (store \<times> bool \<times> string option)" where
  "queue_delivery E k t now q =
     (case q of (s1, g, m, duplicate) \<Rightarrow>
        if duplicate \<and> ft_outbound_message_id t \<notin> {None, Some (om_id m)}
        then review_result E t (fc_worker_id k) ''follow_up_outbound_conflict'' now s1
        else
          let t1 = queued_task E (om_id m) t
          in bindE (save_task t1 (worker_event E t1 FuEvTransitioned (ft_status t) FuDispatchQueued (fc_worker_id k)
                 (Some (cv_agent_id (xg_source g))) None now True) s1) (\<lambda>s2. Inr (s2, True, None)))"

definition enqueue_claim ::
  "env \<Rightarrow> crypto \<Rightarrow> claimed_follow_up \<Rightarrow> datetime option \<Rightarrow> store \<Rightarrow> run_error + (store \<times> bool \<times> string option)" where
  "enqueue_claim E C k at s =
     bindE (run_utc (given_or_now E at)) (\<lambda>now.
     case owned_claim s k of
       None \<Rightarrow> Inr (s, False, None)
     | Some t \<Rightarrow>
         if (case ft_lease_expires_at t of None \<Rightarrow> True | Some x \<Rightarrow> x \<le> now)
         then review_result E t (fc_worker_id k) ''follow_up_lease_expired'' now s
         else
           bindE (try_enqueue E C t now s) (\<lambda>r.
           case r of
             Inl code \<Rightarrow> review_result E t (fc_worker_id k) code now s
           | Inr q \<Rightarrow> queue_delivery E k t now q))"

definition mark_claim_error :: "env \<Rightarrow> claimed_follow_up \<Rightarrow> datetime option \<Rightarrow> store \<Rightarrow> run_error + (store \<times> bool)" where
  "mark_claim_error E k at s =
     (case owned_claim s k of
        None \<Rightarrow> Inr (s, False)
      | Some t \<Rightarrow>
          bindE (run_utc (given_or_now E at)) (\<lambda>now.
          bindE (move_to_review E t (fc_worker_id k) ''follow_up_worker_error'' now None s) (\<lambda>s1. Inr (s1, True))))"

section \<open>Reconciliation\<close>

definition delivered_status :: "outbound_status \<Rightarrow> bool" where
  "delivered_status st \<longleftrightarrow> st \<in> {OutAccepted, OutDelivered, OutRead}"

fun failed_code :: "outbound_status \<Rightarrow> string option" where
  "failed_code OutCancelled = Some ''follow_up_outbound_cancelled''"
| "failed_code OutUnknown = Some ''follow_up_delivery_unknown''"
| "failed_code OutFailed = Some ''follow_up_outbound_failed''"
| "failed_code _ = None"

definition task_message :: "store \<Rightarrow> follow_up_task \<Rightarrow> outbound option" where
  "task_message s t = Option.bind (ft_outbound_message_id t) (\<lambda>i. find (\<lambda>m. om_id m = i) (outbounds s))"

definition reconcilable :: "(uuid \<Rightarrow> bool) \<Rightarrow> store \<Rightarrow> follow_up_task option" where
  "reconcilable locked s =
     first_by (\<lambda>t. (ft_updated_at t, ft_id t))
       (filter (\<lambda>t. ft_status t = FuDispatchQueued \<and> \<not> locked (ft_id t) \<and>
            (ft_outbound_message_id t = None \<or>
             (case task_message s t of
                None \<Rightarrow> False | Some m \<Rightarrow> delivered_status (om_status m) \<or> failed_code (om_status m) \<noteq> None)))
         (follow_up_tasks s))"

definition completed_task :: "env \<Rightarrow> instant \<Rightarrow> follow_up_task \<Rightarrow> follow_up_task" where
  "completed_task E now t =
     t\<lparr>ft_status := FuCompleted, ft_state_version := ft_state_version t + 1, ft_completed_at := Some now,
       ft_last_safe_code := None, ft_updated_at := tx_now E\<rparr>"

definition reconcile_code :: "outbound option \<Rightarrow> string" where
  "reconcile_code message =
     (case message of
        None \<Rightarrow> ''follow_up_outbound_missing''
      | Some m \<Rightarrow>
          if delivered_status (om_status m) then ''follow_up_consent_evidence_missing''
          else (case failed_code (om_status m) of None \<Rightarrow> ''follow_up_outbound_state_unknown'' | Some code \<Rightarrow> code))"

definition reconcile_next ::
  "env \<Rightarrow> (uuid \<Rightarrow> bool) \<Rightarrow> string \<Rightarrow> datetime option \<Rightarrow> store \<Rightarrow> run_error + (store \<times> bool \<times> string option)" where
  "reconcile_next E locked worker_id at s =
     bindE (run_worker worker_id) (\<lambda>worker.
     bindE (run_utc (given_or_now E at)) (\<lambda>now.
     case reconcilable locked s of
       None \<Rightarrow> Inr (s, False, None)
     | Some t \<Rightarrow>
         let message = task_message s t in
         if (case message of None \<Rightarrow> False | Some m \<Rightarrow> delivered_status (om_status m)) \<and>
            ft_executed_consent_record_id t \<noteq> None
         then
           (case task_conversation s t of
              None \<Rightarrow> review_result E t worker ''legacy_follow_up_context_unknown'' now s
            | Some c \<Rightarrow>
                let t1 = completed_task E now t
                in bindE (save_task t1 (worker_event E t1 FuEvTransitioned (ft_status t) FuCompleted worker
                       (Some (cv_agent_id c)) None now False) s) (\<lambda>s1. Inr (s1, True, None)))
         else review_result E t worker (reconcile_code message) now s))"

section \<open>The runner\<close>

text \<open>\<open>run_once\<close>: the claim commits before its delivery is prepared; an exception there is answered in a
  transaction of its own. The environments are those of the three transactions; \<open>None\<close> when the claim
  does not return. The exception that leaves \<open>run_once\<close> comes with the store that was committed before it.\<close>

definition run_follow_ups_once ::
  "env \<Rightarrow> env \<Rightarrow> env \<Rightarrow> crypto \<Rightarrow> (string \<Rightarrow> zone option) \<Rightarrow> (uuid \<Rightarrow> bool) \<Rightarrow> string \<Rightarrow> instant \<Rightarrow> store \<Rightarrow>
     (run_error \<times> store + (store \<times> bool)) option" where
  "run_follow_ups_once E1 E2 E3 C zones locked worker lease s =
     (case bindE (recover_expired_leases E1 locked worker None s) (\<lambda>(s1, recovered).
           bindE (reconcile_next E1 locked worker None s1) (\<lambda>(s2, processed, _). Inr (s2, recovered, processed))) of
        Inl e \<Rightarrow> Some (Inl (e, s))
      | Inr (s2, recovered, processed) \<Rightarrow>
          if processed then Some (Inr (s2, True))
          else
            (case claim_next_follow_up E1 zones locked worker lease None s2 of
               None \<Rightarrow> None
             | Some (Inl e) \<Rightarrow> Some (Inl (e, s))
             | Some (Inr (s3, None)) \<Rightarrow> Some (Inr (s3, recovered > 0))
             | Some (Inr (s3, Some k)) \<Rightarrow>
                 (case enqueue_claim E2 C k None s3 of
                    Inr (s4, _) \<Rightarrow> Some (Inr (s4, True))
                  | Inl _ \<Rightarrow>
                      (case mark_claim_error E3 k None s3 of
                         Inl e \<Rightarrow> Some (Inl (e, s3))
                       | Inr (s4, _) \<Rightarrow> Some (Inr (s4, True))))))"

end
