(* ===== verification/FollowUpQueue.thy ===== *)
theory FollowUpQueue
  imports Ledger FollowUpExecution
begin

text \<open>
  The follow-up tasks and their events as a ledger. A task is registered at version 0; every later change
  starts its next version, follows an edge of the life cycle and leaves the event of that version; the
  dispatcher may note the consent it relied on without a new version. The lanes of the conversations are
  kept first in first out by these moves.
\<close>

definition task_tables :: "store \<Rightarrow> follow_up_task list \<times> follow_up_event list" where
  "task_tables s = (follow_up_tasks s, follow_up_events s)"

definition task_open :: "follow_up_task \<Rightarrow> bool" where
  "task_open t \<longleftrightarrow> ft_fifo_key t \<noteq> None \<and>
     ft_status t \<in> {FuScheduled, FuDispatchQueued, FuInProgress, FuReviewRequired}"

definition task_running :: "follow_up_task \<Rightarrow> bool" where
  "task_running t \<longleftrightarrow> ft_fifo_key t \<noteq> None \<and> ft_status t \<in> {FuDispatchQueued, FuInProgress}"

text \<open>The columns that no operation changes.\<close>

definition task_part where
  "task_part t = (ft_created_at t, ft_opportunity_id t, ft_conversation_id t, ft_fifo_key t, ft_target_channel t,
     ft_contact_point_id t, ft_quote_version_id t, ft_kind t, ft_due_at t, ft_note t, ft_idempotency_key t, ft_command_hash t)"

fun task_edge :: "follow_up_status \<Rightarrow> follow_up_status \<Rightarrow> bool" where
  "task_edge FuScheduled st \<longleftrightarrow> st \<in> {FuScheduled, FuInProgress, FuCancelled, FuReviewRequired}"
| "task_edge FuInProgress st \<longleftrightarrow> st \<in> {FuDispatchQueued, FuCompleted, FuCancelled, FuReviewRequired}"
| "task_edge FuDispatchQueued st \<longleftrightarrow> st \<in> {FuCompleted, FuCancelled, FuReviewRequired}"
| "task_edge FuReviewRequired st \<longleftrightarrow> st \<in> {FuScheduled, FuCancelled}"
| "task_edge _ st \<longleftrightarrow> False"

definition task_ledger where
  "task_ledger =
     \<lparr>row_key = ft_id, row_part = task_part, row_version = ft_state_version, row_status = ft_status,
      event_key = fe_task_id, event_version = fe_state_version, event_from = fe_from_status, event_to = fe_to_status,
      first_version = 0,
      admits = (\<lambda>ts t. ft_status t = FuScheduled \<and>
        (\<forall>r\<in>set ts. ft_fifo_key r = ft_fifo_key t \<and> task_running r \<longrightarrow> task_pos r \<le> task_pos t)),
      edge = (\<lambda>ts t t'. task_edge (ft_status t) (ft_status t') \<and>
        (ft_status t = FuScheduled \<and> ft_status t' = FuInProgress \<longrightarrow> (\<forall>q\<in>set ts. \<not> blocking_task q t)))\<rparr>"

lemma task_ledger_simps [simp]: "row_key task_ledger = ft_id" "row_part task_ledger = task_part"
  "row_version task_ledger = ft_state_version" "row_status task_ledger = ft_status" "event_key task_ledger = fe_task_id"
  "event_version task_ledger = fe_state_version" "event_from task_ledger = fe_from_status" "event_to task_ledger = fe_to_status"
  "first_version task_ledger = 0"
  "admits task_ledger ts t \<longleftrightarrow> ft_status t = FuScheduled \<and>
     (\<forall>r\<in>set ts. ft_fifo_key r = ft_fifo_key t \<and> task_running r \<longrightarrow> task_pos r \<le> task_pos t)"
  "edge task_ledger ts t t' \<longleftrightarrow> task_edge (ft_status t) (ft_status t') \<and>
     (ft_status t = FuScheduled \<and> ft_status t' = FuInProgress \<longrightarrow> (\<forall>q\<in>set ts. \<not> blocking_task q t))"
  by (simp_all add: task_ledger_def)

lemma task_final: "row_final task_ledger FuCompleted" "row_final task_ledger FuCancelled"
  by (auto simp: row_final_def elim: task_edge.elims)

section \<open>Lanes\<close>

lemma task_part_keys:
  assumes "task_part t' = task_part t" "ft_id t' = ft_id t"
  shows "ft_fifo_key t' = ft_fifo_key t" "task_pos t' = task_pos t"
  using assms by (simp_all add: task_part_def task_pos_def)

lemma edge_opens: "task_edge a b \<Longrightarrow> a \<in> {FuScheduled, FuDispatchQueued, FuInProgress, FuReviewRequired}"
  by (cases a) auto

lemma edge_runs: "task_edge a b \<Longrightarrow> b \<in> {FuDispatchQueued, FuInProgress} \<Longrightarrow>
    a \<in> {FuDispatchQueued, FuInProgress} \<or> a = FuScheduled \<and> b = FuInProgress"
  by (cases a) auto

lemma blocking_task_iff: "ft_fifo_key t \<noteq> None \<Longrightarrow>
    blocking_task q t \<longleftrightarrow> ft_fifo_key q = ft_fifo_key t \<and> task_pos q < task_pos t \<and> task_open q"
  by (auto simp: blocking_task_def task_pos_def task_open_def less_prod_def less_le_not_le)

lemma task_step_lane:
  assumes "ledger_step task_ledger k x x'"
  shows "lane_step ft_id ft_fifo_key task_pos task_running task_open (fst x) (fst x')"
  using assms
proof cases
  case (registered t ts e es)
  show ?thesis
    unfolding registered fst_conv
    by (rule lane_step.enqueue) (use registered in \<open>auto simp: task_running_def\<close>)
next
  case (moved t ts t' e es)
  have id: "ft_id t' = ft_id t" using moved by simp
  have part: "task_part t' = task_part t" using moved by simp
  note k = id task_part_keys [OF part id]
  show ?thesis
  proof (cases "ft_status t = FuScheduled \<and> ft_status t' = FuInProgress \<and> ft_fifo_key t \<noteq> None")
    case True
    with moved(8) have "head_of_lane ft_fifo_key task_pos task_open ts t"
      using blocking_task_iff [of t] by (auto simp: head_of_lane_def list_all_iff)
    moreover have "task_open t" using True by (simp add: task_open_def)
    ultimately show ?thesis
      unfolding moved fst_conv task_ledger_simps using lane_step.start [OF moved(4) _ _ k] by blast
  next
    case False
    have edge: "task_edge (ft_status t) (ft_status t')" using moved by simp
    show ?thesis
      unfolding moved fst_conv task_ledger_simps
    proof (rule lane_step.settle [OF moved(4) k])
      show "task_open t" if "task_open t'"
        using that edge_opens [OF edge] by (auto simp: task_open_def k)
      show "task_running t" if "task_running t'"
        using that edge_runs [OF edge] False by (auto simp: task_running_def k)
    qed
  qed
qed

lemma task_note_lane:
  assumes "ledger_note task_ledger x x'"
  shows "lane_step ft_id ft_fifo_key task_pos task_running task_open (fst x) (fst x')"
  using assms
proof cases
  case (noted t ts t' es)
  have k: "ft_id t' = ft_id t" "ft_fifo_key t' = ft_fifo_key t" "task_pos t' = task_pos t"
    using noted task_part_keys [of t' t] by simp_all
  show ?thesis
    unfolding noted fst_conv task_ledger_simps
    by (rule lane_step.settle [OF noted(3) k]) (use noted in \<open>auto simp: task_open_def task_running_def k\<close>)
qed

lemma task_move_lane: "ledger_move task_ledger x x' \<Longrightarrow>
    lane_step ft_id ft_fifo_key task_pos task_running task_open (fst x) (fst x')"
  unfolding ledger_move_def by (elim disjE exE) (erule task_step_lane, erule task_note_lane)

lemma task_moves_lane: "ledger_moves task_ledger x x' \<Longrightarrow>
    (lane_step ft_id ft_fifo_key task_pos task_running task_open)\<^sup>*\<^sup>* (fst x) (fst x')"
  unfolding ledger_moves_def
  by (induction rule: rtranclp_induct) (auto intro: rtranclp.rtrancl_into_rtrancl task_move_lane)

section \<open>One change of a task\<close>

definition task_moves :: "store \<Rightarrow> store \<Rightarrow> bool" where
  "task_moves s s' \<longleftrightarrow> ledger_moves task_ledger (task_tables s) (task_tables s')"

lemma task_moves_refl [simp]: "task_moves s s"
  by (simp add: task_moves_def)

lemma task_moves_trans: "task_moves s u \<Longrightarrow> task_moves u v \<Longrightarrow> task_moves s v"
  unfolding task_moves_def by (rule ledger_moves_trans)

lemma task_moves_frame: "follow_up_tasks s' = follow_up_tasks s \<Longrightarrow> follow_up_events s' = follow_up_events s \<Longrightarrow>
    task_moves s s'"
  by (simp add: task_moves_def task_tables_def)

lemma flush_task_Inr: "flush_task t e s = Inr s' \<longleftrightarrow> follow_up_task_checks t \<and>
    (\<forall>x\<in>set (follow_up_tasks s). \<not> task_message_clash t x) \<and> follow_up_event_checks e \<and>
    (\<forall>x\<in>set (follow_up_events s). \<not> follow_up_event_clash e x) \<and>
    s' = s\<lparr>follow_up_tasks := put_row ft_id t (follow_up_tasks s), follow_up_events := follow_up_events s @ [e]\<rparr>"
  by (auto simp: flush_task_def update_follow_up_task_def insert_follow_up_event_def list_ex_iff split: option.splits)

lemma flush_moves:
  assumes "flush_task t' e s = Inr s'" "t \<in> set (follow_up_tasks s)" "ft_id t' = ft_id t" "task_part t' = task_part t"
    "ft_state_version t' = ft_state_version t + 1" "task_edge (ft_status t) (ft_status t')"
    "event_tells task_ledger (Some (ft_status t)) t' e"
    "ft_status t = FuScheduled \<Longrightarrow> ft_status t' = FuInProgress \<Longrightarrow> \<forall>q\<in>set (follow_up_tasks s). \<not> blocking_task q t"
  shows "task_moves s s'"
proof -
  have "ledger_step task_ledger (ft_id t) (follow_up_tasks s, follow_up_events s)
      (put_row ft_id t' (follow_up_tasks s), follow_up_events s @ [e])"
    using ledger_step.moved [where L = task_ledger and r = t and r' = t' and rs = "follow_up_tasks s" and e = e] assms
    by simp
  with assms(1) show ?thesis
    unfolding task_moves_def task_tables_def by (auto simp: flush_task_Inr intro: ledger_moves_step)
qed

end
