(* ===== verification/FollowUpCommands.thy ===== *)
theory FollowUpCommands
  imports FollowUps
begin

text \<open>
  The commands of \<open>services/commercial/follow_ups.py\<close>: scheduling, the operator transitions (cancel,
  requeue, resolution of a review), the deferral by the worker, and the revocation of a consent with the
  quarantine of the work that relied on it.
\<close>

section \<open>Scheduling\<close>

record schedule_command =
  sd_opportunity_id :: uuid
  sd_actor_agent_id :: uuid
  sd_actor_operator_id :: "uuid option"
  sd_contact_point_id :: uuid
  sd_kind :: string
  sd_due_at :: datetime
  sd_note :: "string option"
  sd_correlation_id :: string
  sd_idempotency_key :: string
  sd_conversation_id :: "uuid option"
  sd_target_channel :: "string option"
  sd_quote_version_id :: "uuid option"
  sd_now :: "datetime option"

record prepared_schedule =
  pz_kind :: follow_up_kind
  pz_due :: instant
  pz_effective_at :: instant
  pz_note :: "string option"
  pz_correlation :: string
  pz_key :: string
  pz_opportunity :: opportunity
  pz_hash :: string

definition schedule_literal :: "schedule_command \<Rightarrow> follow_up_kind \<Rightarrow> instant \<Rightarrow> string option \<Rightarrow> uuid \<Rightarrow> (string \<times> json) list" where
  "schedule_literal cmd kind due note oid =
     [(''contact_point_id'', uuid_json (sd_contact_point_id cmd)),
      (''conversation_id'', opt_json uuid_json (sd_conversation_id cmd)),
      (''due_at'', JStr (isoformat_utc due)),
      (''kind'', JStr (follow_up_kind_value kind)),
      (''note'', opt_json JStr note),
      (''opportunity_id'', uuid_json oid),
      (''quote_version_id'', opt_json uuid_json (sd_quote_version_id cmd)),
      (''target_channel'', opt_json JStr (sd_target_channel cmd))]"

definition prepare_schedule :: "env \<Rightarrow> store \<Rightarrow> schedule_command \<Rightarrow> follow_up_error + prepared_schedule" where
  "prepare_schedule E s cmd =
     bindE (policy_enum_value FuInvalid follow_up_kind_value follow_up_kinds (sd_kind cmd) ''follow-up kind'') (\<lambda>kind.
     bindE (fu_utc (sd_due_at cmd) ''due_at'') (\<lambda>due.
     bindE (fu_utc (given_or_now E (sd_now cmd)) ''now'') (\<lambda>at.
     bindE (require (\<not> due \<le> at) (FuInvalid ''follow-up due_at must be future'')) (\<lambda>_.
     bindE (policy_optional_text FuInvalid (sd_note cmd) 8000) (\<lambda>note.
     bindE (fu_text (sd_correlation_id cmd) ''correlation_id'' 120) (\<lambda>correlation.
     bindE (fu_text (sd_idempotency_key cmd) ''idempotency_key'' 220) (\<lambda>key.
     bindE (mapErr FuOpportunity (lock_owned s (sd_opportunity_id cmd) (sd_actor_agent_id cmd) (sd_actor_operator_id cmd))) (\<lambda>p.
     bindE (assert_opportunity_open p) (\<lambda>_.
       Inr \<lparr>pz_kind = kind, pz_due = due, pz_effective_at = at, pz_note = note, pz_correlation = correlation, pz_key = key,
            pz_opportunity = p, pz_hash = policy_command_hash E (schedule_literal cmd kind due note (op_id p))\<rparr>)))))))))"

text \<open>What the task is registered under: conversation, target channel, quote, point and consent.\<close>

record schedule_grounds =
  gr_conversation :: conversation
  gr_target :: string
  gr_quote :: "quote_version option"
  gr_contact :: contact
  gr_point :: contact_point
  gr_consent :: consent_record

definition schedule_grounds_of ::
  "env \<Rightarrow> store \<Rightarrow> schedule_command \<Rightarrow> prepared_schedule \<Rightarrow> follow_up_error + schedule_grounds" where
  "schedule_grounds_of E s cmd n =
     (let p = pz_opportunity n in
      bindE (resolve_linked_conversation s (op_id p) (sd_conversation_id cmd)) (\<lambda>c.
      bindE (assert_dispatchable c p) (\<lambda>_.
      bindE (fu_target_channel (case sd_target_channel cmd of
               None \<Rightarrow> cv_channel c | Some t \<Rightarrow> if t = [] then cv_channel c else t)) (\<lambda>target.
      bindE (resolve_quote_version s (op_id p) (pz_kind n) (sd_quote_version_id cmd)) (\<lambda>qv.
      bindE (fu_contact s (op_contact_id p)) (\<lambda>contact.
      bindE (fu_contact_point s contact (Some (sd_contact_point_id cmd))) (\<lambda>point.
      bindE (assert_point_matches point (Some target)) (\<lambda>_.
      bindE (require_consent E (follow_up_query (cv_agent_id c) (ct_principal_id contact) (cp_id point) (cv_id c)
               (Some target) (Some (Aware (pz_effective_at n) 0))) s) (\<lambda>consent.
        Inr \<lparr>gr_conversation = c, gr_target = target, gr_quote = qv, gr_contact = contact, gr_point = point,
             gr_consent = consent\<rparr>)))))))))"

definition pending_status :: "follow_up_status \<Rightarrow> bool" where
  "pending_status st \<longleftrightarrow> st \<in> {FuScheduled, FuDispatchQueued, FuInProgress, FuReviewRequired}"

definition pending_tasks :: "store \<Rightarrow> uuid \<Rightarrow> int" where
  "pending_tasks s aid =
     int (length (filter (\<lambda>t. ft_assigned_agent_id t = aid \<and> pending_status (ft_status t)) (follow_up_tasks s)))"

definition scheduled_task :: "env \<Rightarrow> prepared_schedule \<Rightarrow> schedule_grounds \<Rightarrow> automation_policy \<Rightarrow> follow_up_task" where
  "scheduled_task E n g pol =
     (let p = pz_opportunity n; c = gr_conversation g in
      \<lparr>ft_id = uuid5 E (op_id p) (''follow-up:'' @ pz_key n), ft_created_at = tx_now E, ft_updated_at = tx_now E,
       ft_opportunity_id = op_id p, ft_conversation_id = Some (cv_id c), ft_source_conversation_id = Some (cv_id c),
       ft_fifo_key = Some (''conversation:'' @ uuid_str (cv_id c)), ft_target_channel = Some (gr_target g),
       ft_contact_point_id = Some (cp_id (gr_point g)), ft_consent_record_id = cr_id (gr_consent g),
       ft_executed_consent_record_id = None, ft_assigned_agent_id = op_assigned_agent_id p,
       ft_assigned_operator_id = op_assigned_operator_id p, ft_quote_version_id = map_option qv_id (gr_quote g),
       ft_chat_message_id = None, ft_outbound_message_id = None, ft_had_chat_message_evidence = False,
       ft_had_outbound_message_evidence = False, ft_kind = pz_kind n, ft_status = FuScheduled, ft_state_version = 0,
       ft_scheduled_control_version = Some (cv_control_version c),
       ft_scheduled_automation_version = Some (cv_automation_version c),
       ft_scheduled_policy_version = Some (ap_version pol), ft_executed_policy_version = None,
       ft_due_at = pz_due n, ft_available_at = pz_due n, ft_attempts = 0, ft_max_attempts = ap_max_attempts pol,
       ft_lease_owner = None, ft_lease_expires_at = None, ft_note = pz_note n, ft_last_safe_code = None,
       ft_correlation_id = pz_correlation n, ft_idempotency_key = pz_key n, ft_command_hash = pz_hash n,
       ft_review_required_at = None, ft_completed_at = None, ft_cancelled_at = None\<rparr>)"

definition schedule_receipt :: "store \<Rightarrow> uuid \<Rightarrow> string \<Rightarrow> follow_up_task option" where
  "schedule_receipt s oid key =
     find (\<lambda>t. ft_opportunity_id t = oid \<and> ft_idempotency_key t = key) (follow_up_tasks s)"

definition schedule_follow_up ::
  "env \<Rightarrow> schedule_command \<Rightarrow> store \<Rightarrow> follow_up_error + (store \<times> follow_up_task \<times> bool)" where
  "schedule_follow_up E cmd s =
     bindE (prepare_schedule E s cmd) (\<lambda>n.
     case schedule_receipt s (op_id (pz_opportunity n)) (pz_key n) of
       Some t \<Rightarrow> bindE (fu_assert_hash (ft_command_hash t) (pz_hash n)) (\<lambda>_. Inr (s, t, False))
     | None \<Rightarrow>
         bindE (schedule_grounds_of E s cmd n) (\<lambda>g.
         bindE (ensure_policy E (op_assigned_agent_id (pz_opportunity n)) s) (\<lambda>(s1, pol).
         if pending_tasks s1 (op_assigned_agent_id (pz_opportunity n)) \<ge> ap_max_pending_tasks pol
         then Inl (FuInvalid ''commercial automation pending task limit reached'')
         else
           let t = scheduled_task E n g pol;
               e = task_event E t FuEvScheduled None FuScheduled (Some (sd_actor_agent_id cmd)) (sd_actor_operator_id cmd)
                     None (Some (cv_agent_id (gr_conversation g))) (pz_correlation n) (pz_key n) (pz_hash n) None None
           in case Option.bind (insert_follow_up_task t s1) (insert_follow_up_event e) of
                None \<Rightarrow> Inl FuIntegrity | Some s2 \<Rightarrow> Inr (s2, t, True))))"

section \<open>Operator transitions\<close>

record transition_command =
  tn_task_id :: uuid
  tn_actor_agent_id :: uuid
  tn_actor_operator_id :: "uuid option"
  tn_target_status :: string
  tn_expected_version :: int
  tn_correlation_id :: string
  tn_idempotency_key :: string
  tn_safe_code :: "string option"
  tn_occurred_at :: "datetime option"
  tn_allowed_sources :: "follow_up_status list option"
  tn_require_readiness :: bool

record prepared_transition =
  pt_target :: follow_up_status
  pt_event_time :: instant
  pt_correlation :: string
  pt_key :: string
  pt_safe_code :: "string option"
  pt_hash :: string

definition transition_literal :: "transition_command \<Rightarrow> follow_up_status \<Rightarrow> string option \<Rightarrow> (string \<times> json) list" where
  "transition_literal cmd target safe_code =
     [(''expected_version'', JInt (tn_expected_version cmd)),
      (''safe_code'', opt_json JStr safe_code),
      (''target_status'', JStr (follow_up_status_value target)),
      (''task_id'', uuid_json (tn_task_id cmd))]"

definition prepare_task_transition :: "env \<Rightarrow> transition_command \<Rightarrow> follow_up_error + prepared_transition" where
  "prepare_task_transition E cmd =
     bindE (policy_enum_value FuInvalid follow_up_status_value follow_up_statuses (tn_target_status cmd) ''follow-up status'') (\<lambda>target.
     bindE (fu_utc (given_or_now E (tn_occurred_at cmd)) ''occurred_at'') (\<lambda>event_time.
     bindE (fu_text (tn_correlation_id cmd) ''correlation_id'' 120) (\<lambda>correlation.
     bindE (fu_text (tn_idempotency_key cmd) ''idempotency_key'' 220) (\<lambda>key.
     bindE (policy_optional_text FuInvalid (tn_safe_code cmd) 80) (\<lambda>safe_code.
       Inr \<lparr>pt_target = target, pt_event_time = event_time, pt_correlation = correlation, pt_key = key,
            pt_safe_code = safe_code, pt_hash = policy_command_hash E (transition_literal cmd target safe_code)\<rparr>)))))"

definition consent_scope_for_task :: "store \<Rightarrow> uuid \<Rightarrow> consent_scope option" where
  "consent_scope_for_task s tid =
     Option.bind (get_task s tid) (\<lambda>t.
     Option.bind (find (\<lambda>p. op_id p = ft_opportunity_id t) (opportunities s)) (\<lambda>p.
     Option.bind (find (\<lambda>c. ct_id c = op_contact_id p) (contacts s)) (\<lambda>c.
     Option.bind (task_conversation s t) (\<lambda>v.
       target_scope (cv_agent_id v) (ct_principal_id c) CommercialFollowUpConsent (Some (cv_id v)) (ft_target_channel t)
         (ft_contact_point_id t)))))"

fun allowed_targets :: "follow_up_status \<Rightarrow> follow_up_status list" where
  "allowed_targets FuScheduled = [FuCancelled, FuReviewRequired]"
| "allowed_targets FuDispatchQueued = [FuCancelled, FuReviewRequired]"
| "allowed_targets FuInProgress = [FuCompleted, FuCancelled, FuReviewRequired]"
| "allowed_targets FuReviewRequired = [FuScheduled, FuCancelled]"
| "allowed_targets FuCompleted = []"
| "allowed_targets FuCancelled = []"

text \<open>\<open>_assert_delivery_route_available\<close>: exactly one automated conversation of the principal on the target
  channel reaches the number of the point, over an active route and connection with an implemented adapter.\<close>

definition delivery_candidates :: "store \<Rightarrow> conversation \<Rightarrow> uuid \<Rightarrow> string \<Rightarrow> uuid \<Rightarrow> (conversation \<times> channel_route \<times> channel_connection) list" where
  "delivery_candidates s source pid channel acting =
     List.map_filter (\<lambda>c.
       Option.bind (cv_channel_route_id c) (\<lambda>rid.
       Option.bind (find (\<lambda>r. rt_id r = rid) (routes s)) (\<lambda>r.
       Option.bind (find (\<lambda>k. cn_id k = rt_connection_id r) (connections s)) (\<lambda>k.
         if cv_agent_id c = cv_agent_id source \<and> cv_principal_id c = pid \<and> cv_channel c = channel \<and>
            cv_status c = ''active'' \<and> cv_control_mode c = Automated \<and> cv_automation_agent_id c = acting \<and>
            rt_agent_id r = cv_agent_id source \<and> rt_channel r = channel \<and> rt_is_active r \<and>
            cn_channel k = channel \<and> cn_is_active k
         then Some (c, r, k) else None))))
       (conversations s)"

definition assert_delivery_route ::
  "crypto \<Rightarrow> store \<Rightarrow> follow_up_task \<Rightarrow> conversation \<Rightarrow> uuid \<Rightarrow> contact_point \<Rightarrow> uuid \<Rightarrow> follow_up_error + unit" where
  "assert_delivery_route C s t source pid point acting =
     (if ft_target_channel t \<noteq> Some ''whatsapp'' then Inl (FuInvalid ''follow-up target channel is not implemented'')
      else
        (case decrypt_point C (cp_ciphertext point) of
           Inl _ \<Rightarrow> Inl (FuInvalid ''follow-up contact point is unavailable'')
         | Inr number \<Rightarrow>
             if digits_of number = [] then Inl (FuInvalid ''follow-up contact point is unavailable'')
             else
               (case filter (\<lambda>(c, _). digits_of (cv_external_thread_id c) = digits_of number)
                       (delivery_candidates s source pid ''whatsapp'' acting) of
                  [(c, r, k)] \<Rightarrow>
                    (case require_implemented_adapter (rt_channel r) (Some (cn_adapter_key k)) of
                       Inl _ \<Rightarrow> Inl (FuInvalid ''follow-up delivery route is unavailable'') | Inr _ \<Rightarrow> Inr ())
                | _ \<Rightarrow> Inl (FuInvalid ''follow-up delivery route is unavailable''))))"

definition assert_quote_still_issued :: "store \<Rightarrow> follow_up_task \<Rightarrow> follow_up_error + unit" where
  "assert_quote_still_issued s t =
     (if ft_kind t \<noteq> ProposalReminder then Inr ()
      else bindE (resolve_quote_version s (ft_opportunity_id t) ProposalReminder (ft_quote_version_id t)) (\<lambda>_. Inr ()))"

text \<open>The branch of \<open>transition\<close> that returns a task to the queue.\<close>

definition reschedule ::
  "env \<Rightarrow> crypto \<Rightarrow> bool \<Rightarrow> opportunity \<Rightarrow> instant \<Rightarrow> follow_up_task \<Rightarrow> store \<Rightarrow> follow_up_error + (store \<times> follow_up_task)" where
  "reschedule E C readiness p event_time t s =
     bindE (assert_opportunity_open p) (\<lambda>_.
     case task_conversation s t of
       None \<Rightarrow> Inl (FuInvalid ''legacy follow-up requires an explicit replacement task'')
     | Some c \<Rightarrow>
         bindE (assert_dispatchable c p) (\<lambda>_.
         bindE (fu_contact s (op_contact_id p)) (\<lambda>contact.
         bindE (fu_contact_point s contact (ft_contact_point_id t)) (\<lambda>point.
         bindE (assert_point_matches point (ft_target_channel t)) (\<lambda>_.
         bindE (require_consent E (follow_up_query (cv_agent_id c) (ct_principal_id contact) (cp_id point) (cv_id c)
                  (ft_target_channel t) (Some (Aware event_time 0))) s) (\<lambda>consent.
         bindE (assert_quote_still_issued s t) (\<lambda>_.
         bindE (ensure_policy E (op_assigned_agent_id p) s) (\<lambda>(s1, pol).
         bindE (if readiness then
                  bindE (require (ap_is_enabled pol \<and> follow_up_kind_value (ft_kind t) \<in> set (ap_allowed_kinds pol))
                           (FuInvalid ''commercial automation policy does not allow this follow-up'')) (\<lambda>_.
                    assert_delivery_route C s1 t c (ct_principal_id contact) point (op_assigned_agent_id p))
                else Inr ()) (\<lambda>_.
           Inr (s1, t\<lparr>ft_consent_record_id := cr_id consent,
                      ft_scheduled_control_version := Some (cv_control_version c),
                      ft_scheduled_automation_version := Some (cv_automation_version c),
                      ft_assigned_agent_id := op_assigned_agent_id p,
                      ft_assigned_operator_id := op_assigned_operator_id p,
                      ft_scheduled_policy_version := Some (ap_version pol), ft_executed_policy_version := None,
                      ft_available_at := max (ft_due_at t) event_time, ft_review_required_at := None,
                      ft_last_safe_code := None\<rparr>))))))))))"

definition transition_body ::
  "env \<Rightarrow> crypto \<Rightarrow> transition_command \<Rightarrow> prepared_transition \<Rightarrow> opportunity \<Rightarrow> follow_up_task \<Rightarrow> store \<Rightarrow>
     follow_up_error + (store \<times> follow_up_task)" where
  "transition_body E C cmd n p t s =
     (case pt_target n of
        FuScheduled \<Rightarrow> reschedule E C (tn_require_readiness cmd) p (pt_event_time n) t s
      | FuReviewRequired \<Rightarrow>
          Inr (s, t\<lparr>ft_review_required_at := Some (pt_event_time n),
                    ft_last_safe_code := Some (case pt_safe_code n of Some c \<Rightarrow> c | None \<Rightarrow> ''manual_review_required'')\<rparr>)
      | FuCancelled \<Rightarrow>
          Inr (s, t\<lparr>ft_cancelled_at := Some (pt_event_time n),
                    ft_last_safe_code :=
                      (if ft_last_safe_code t = None \<and> task_conversation s t = None
                       then Some ''legacy_follow_up_context_unknown'' else ft_last_safe_code t)\<rparr>)
      | FuCompleted \<Rightarrow> Inr (s, t\<lparr>ft_completed_at := Some (pt_event_time n)\<rparr>)
      | _ \<Rightarrow> Inr (s, t))"

definition settled_task :: "env \<Rightarrow> follow_up_status \<Rightarrow> follow_up_task \<Rightarrow> follow_up_task" where
  "settled_task E target t =
     t\<lparr>ft_lease_owner := None, ft_lease_expires_at := None, ft_status := target,
       ft_state_version := ft_state_version t + 1, ft_updated_at := tx_now E\<rparr>"

definition transition_task ::
  "env \<Rightarrow> crypto \<Rightarrow> transition_command \<Rightarrow> store \<Rightarrow> follow_up_error + (store \<times> follow_up_task)" where
  "transition_task E C cmd s =
     bindE (prepare_task_transition E cmd) (\<lambda>n.
     bindE (require (\<not> (pt_target n = FuScheduled \<and> consent_scope_for_task s (tn_task_id cmd) = None))
              (FuInvalid ''legacy follow-up requires an explicit replacement task'')) (\<lambda>_.
     case get_task s (tn_task_id cmd) of
       None \<Rightarrow> Inl FuNotFound
     | Some t \<Rightarrow>
         bindE (mapErr FuOpportunity (lock_owned s (ft_opportunity_id t) (tn_actor_agent_id cmd) (tn_actor_operator_id cmd))) (\<lambda>p.
         case task_receipt s (ft_id t) (pt_key n) of
           Some e \<Rightarrow> bindE (fu_assert_hash (fe_command_hash e) (pt_hash n)) (\<lambda>_. Inr (s, t))
         | None \<Rightarrow>
             bindE (require (\<not> (tn_expected_version cmd < 0 \<or> ft_state_version t \<noteq> tn_expected_version cmd)) FuVersionConflict) (\<lambda>_.
             bindE (require (case tn_allowed_sources cmd of None \<Rightarrow> True | Some sources \<Rightarrow> ft_status t \<in> set sources)
                      (FuInvalid ''follow-up is not eligible for this operation'')) (\<lambda>_.
             bindE (require (pt_target n \<in> set (allowed_targets (ft_status t)))
                      (FuInvalid ''invalid follow-up status transition'')) (\<lambda>_.
             bindE (require (\<not> (pt_target n = FuCompleted \<and> (ft_executed_consent_record_id t = None \<or>
                        (ft_chat_message_id t = None \<and> ft_outbound_message_id t = None))))
                      (FuInvalid ''completed follow-up requires consent and output evidence'')) (\<lambda>_.
             bindE (transition_body E C cmd n p t s) (\<lambda>(s1, t1).
               let t2 = settled_task E (pt_target n) t1;
                   e = task_event E t2 FuEvTransitioned (Some (ft_status t)) (pt_target n) (Some (tn_actor_agent_id cmd))
                         (tn_actor_operator_id cmd) None (map_option cv_agent_id (task_conversation s t)) (pt_correlation n)
                         (pt_key n) (pt_hash n) (ft_last_safe_code t2) None
               in bindE (flush_task t2 e s1) (\<lambda>s2. Inr (s2, t2))))))))))"

record task_review_command =
  vc_task_id :: uuid
  vc_actor_agent_id :: uuid
  vc_actor_operator_id :: uuid
  vc_expected_version :: int
  vc_correlation_id :: string
  vc_idempotency_key :: string
  vc_occurred_at :: "datetime option"

definition operator_transition :: "task_review_command \<Rightarrow> string \<Rightarrow> follow_up_status list \<Rightarrow> bool \<Rightarrow> transition_command" where
  "operator_transition cmd target sources readiness =
     \<lparr>tn_task_id = vc_task_id cmd, tn_actor_agent_id = vc_actor_agent_id cmd,
      tn_actor_operator_id = Some (vc_actor_operator_id cmd), tn_target_status = target,
      tn_expected_version = vc_expected_version cmd, tn_correlation_id = vc_correlation_id cmd,
      tn_idempotency_key = vc_idempotency_key cmd, tn_safe_code = None, tn_occurred_at = vc_occurred_at cmd,
      tn_allowed_sources = Some sources, tn_require_readiness = readiness\<rparr>"

definition cancel_task :: "env \<Rightarrow> crypto \<Rightarrow> task_review_command \<Rightarrow> store \<Rightarrow> follow_up_error + (store \<times> follow_up_task)" where
  "cancel_task E C cmd s =
     transition_task E C (operator_transition cmd ''cancelled'' [FuScheduled, FuReviewRequired] False) s"

definition requeue_task :: "env \<Rightarrow> crypto \<Rightarrow> task_review_command \<Rightarrow> store \<Rightarrow> follow_up_error + (store \<times> follow_up_task)" where
  "requeue_task E C cmd s = transition_task E C (operator_transition cmd ''scheduled'' [FuReviewRequired] True) s"

definition resolve_review :: "env \<Rightarrow> crypto \<Rightarrow> task_review_command \<Rightarrow> string \<Rightarrow> store \<Rightarrow> follow_up_error + (store \<times> follow_up_task)" where
  "resolve_review E C cmd resolution s =
     (if resolution = ''requeue'' then requeue_task E C cmd s
      else if resolution \<noteq> ''cancel'' then Inl (FuInvalid ''unsupported review resolution'')
      else transition_task E C (operator_transition cmd ''cancelled'' [FuReviewRequired] False) s)"

section \<open>Deferral\<close>

record defer_command =
  dc_task_id :: uuid
  dc_worker_id :: string
  dc_available_at :: datetime
  dc_expected_version :: int
  dc_correlation_id :: string
  dc_idempotency_key :: string
  dc_safe_code :: string
  dc_occurred_at :: "datetime option"

definition defer_scheduled :: "env \<Rightarrow> defer_command \<Rightarrow> store \<Rightarrow> follow_up_error + (store \<times> follow_up_task)" where
  "defer_scheduled E cmd s =
     bindE (fu_utc (given_or_now E (dc_occurred_at cmd)) ''occurred_at'') (\<lambda>event_time.
     bindE (fu_utc (dc_available_at cmd) ''available_at'') (\<lambda>available.
     bindE (require (\<not> available \<le> event_time) (FuInvalid ''deferred follow-up available_at must be future'')) (\<lambda>_.
     bindE (fu_text (dc_worker_id cmd) ''worker_id'' 120) (\<lambda>worker.
     bindE (fu_text (dc_safe_code cmd) ''safe_code'' 80) (\<lambda>safe_code.
     bindE (fu_text (dc_correlation_id cmd) ''correlation_id'' 120) (\<lambda>correlation.
     bindE (fu_text (dc_idempotency_key cmd) ''idempotency_key'' 220) (\<lambda>key.
     let hash = policy_command_hash E
           [(''available_at'', JStr (isoformat_utc available)), (''expected_version'', JInt (dc_expected_version cmd)),
            (''safe_code'', JStr safe_code), (''task_id'', uuid_json (dc_task_id cmd))]
     in case get_task s (dc_task_id cmd) of
          None \<Rightarrow> Inl FuNotFound
        | Some t \<Rightarrow>
            (case task_receipt s (ft_id t) key of
               Some e \<Rightarrow> bindE (fu_assert_hash (fe_command_hash e) hash) (\<lambda>_. Inr (s, t))
             | None \<Rightarrow>
                 bindE (require (\<not> (dc_expected_version cmd < 0 \<or> ft_state_version t \<noteq> dc_expected_version cmd)) FuVersionConflict) (\<lambda>_.
                 bindE (require (ft_status t = FuScheduled) (FuInvalid ''only a scheduled follow-up can be deferred'')) (\<lambda>_.
                 bindE (ensure_policy E (ft_assigned_agent_id t) s) (\<lambda>(s1, pol).
                 case task_conversation s1 t of
                   None \<Rightarrow> Inl (FuInvalid ''follow-up conversation is unavailable'')
                 | Some c \<Rightarrow>
                     let t1 = t\<lparr>ft_available_at := available, ft_executed_policy_version := Some (ap_version pol),
                                ft_last_safe_code := Some safe_code, ft_state_version := ft_state_version t + 1,
                                ft_updated_at := tx_now E\<rparr>;
                         e = task_event E t1 FuEvDeferred (Some FuScheduled) FuScheduled None None (Some worker)
                               (Some (cv_agent_id c)) correlation key hash (Some safe_code) None
                     in bindE (flush_task t1 e s1) (\<lambda>s2. Inr (s2, t1)))))))))))))"

section \<open>Revocation\<close>

record revoke_command =
  rv_routing_agent_id :: uuid
  rv_actor_admin_id :: uuid
  rv_source_conversation_id :: uuid
  rv_contact_point_id :: uuid
  rv_target_channel :: string
  rv_policy_version :: string
  rv_correlation_id :: string
  rv_idempotency_key :: string
  rv_occurred_at :: "datetime option"

definition relies_on_scope :: "uuid \<Rightarrow> uuid \<Rightarrow> uuid \<Rightarrow> uuid \<Rightarrow> string \<Rightarrow> consent_record \<Rightarrow> bool" where
  "relies_on_scope aid pid cid point target r \<longleftrightarrow>
     cr_agent_id r = aid \<and> cr_principal_id r = pid \<and> cr_purpose r = CommercialFollowUpConsent \<and>
     cr_source_conversation_id r = Some cid \<and> cr_contact_point_id r = Some point \<and>
     (cr_target_channel r = Some target \<or> cr_target_channel r = None)"

definition revoked_work :: "store \<Rightarrow> uuid \<Rightarrow> uuid \<Rightarrow> uuid \<Rightarrow> uuid \<Rightarrow> string \<Rightarrow> (follow_up_task \<times> consent_record) list" where
  "revoked_work s aid pid cid point target =
     List.map_filter (\<lambda>t. map_option (Pair t)
         (find (\<lambda>r. cr_id r = ft_consent_record_id t \<and> relies_on_scope aid pid cid point target r) (consent_records s)))
       (sort_key ft_id (filter (\<lambda>t. active_status (ft_status t)) (follow_up_tasks s)))"

definition exact_scope :: "uuid \<Rightarrow> uuid \<Rightarrow> string \<Rightarrow> follow_up_task \<times> consent_record \<Rightarrow> bool" where
  "exact_scope cid point target tr \<longleftrightarrow>
     ft_conversation_id (fst tr) = Some cid \<and> ft_contact_point_id (fst tr) = Some point \<and>
     ft_target_channel (fst tr) = Some target \<and> cr_target_channel (snd tr) = Some target"

definition quarantine_target :: "bool \<Rightarrow> follow_up_status \<Rightarrow> follow_up_status" where
  "quarantine_target exact st = (if exact \<and> st = FuScheduled then FuCancelled else FuReviewRequired)"

definition quarantine_code :: "bool \<Rightarrow> follow_up_status \<Rightarrow> string" where
  "quarantine_code exact st =
     (if exact \<and> st = FuScheduled then ''commercial_consent_revoked''
      else if exact then ''commercial_consent_revoked_delivery_uncertain'' else ''commercial_consent_scope_ambiguous'')"

definition quarantined_task :: "env \<Rightarrow> bool \<Rightarrow> instant \<Rightarrow> follow_up_task \<Rightarrow> follow_up_task" where
  "quarantined_task E exact at t =
     (let t1 = (if exact \<and> ft_status t = FuScheduled then t\<lparr>ft_cancelled_at := Some at\<rparr>
                else t\<lparr>ft_review_required_at := Some at\<rparr>)
      in t1\<lparr>ft_status := quarantine_target exact (ft_status t), ft_state_version := ft_state_version t + 1,
            ft_lease_owner := None, ft_lease_expires_at := None,
            ft_last_safe_code := Some (quarantine_code exact (ft_status t)), ft_updated_at := tx_now E\<rparr>)"

definition quarantine_event :: "env \<Rightarrow> bool \<Rightarrow> instant \<Rightarrow> uuid \<Rightarrow> uuid \<Rightarrow> uuid \<Rightarrow> string \<Rightarrow> follow_up_task \<Rightarrow> follow_up_event" where
  "quarantine_event E exact at aid admin rid correlation t =
     (let to_status = quarantine_target exact (ft_status t); code = quarantine_code exact (ft_status t) in
      task_event E (quarantined_task E exact at t) FuEvTransitioned (Some (ft_status t)) to_status None (Some admin) None
        (Some aid) correlation (''consent-revocation:'' @ uuid_str rid @ '':'' @ uuid_str (ft_id t))
        (policy_command_hash E
           [(''revocation_record_id'', uuid_json rid), (''safe_code'', JStr code), (''task_id'', uuid_json (ft_id t)),
            (''to_status'', JStr (follow_up_status_value to_status))])
        (Some code) (Some rid))"

fun quarantine_work ::
  "env \<Rightarrow> (follow_up_task \<times> consent_record \<Rightarrow> bool) \<Rightarrow> instant \<Rightarrow> uuid \<Rightarrow> uuid \<Rightarrow> uuid \<Rightarrow> string \<Rightarrow>
     (follow_up_task \<times> consent_record) list \<Rightarrow> store \<Rightarrow> follow_up_error + (store \<times> int \<times> int)" where
  "quarantine_work E exact at aid admin rid correlation [] s = Inr (s, 0, 0)"
| "quarantine_work E exact at aid admin rid correlation (tr # rows) s =
     bindE (flush_task (quarantined_task E (exact tr) at (fst tr))
              (quarantine_event E (exact tr) at aid admin rid correlation (fst tr)) s) (\<lambda>s1.
     bindE (quarantine_work E exact at aid admin rid correlation rows s1) (\<lambda>(s2, cancelled, reviewed).
       if quarantine_target (exact tr) (ft_status (fst tr)) = FuCancelled
       then Inr (s2, cancelled + 1, reviewed) else Inr (s2, cancelled, reviewed + 1)))"

definition revocation_command ::
  "revoke_command \<Rightarrow> conversation \<Rightarrow> contact_point \<Rightarrow> contact \<Rightarrow> consent_record \<Rightarrow> string \<Rightarrow> string \<Rightarrow> string \<Rightarrow> instant \<Rightarrow> consent_command" where
  "revocation_command cmd c point contact current target correlation key at =
     \<lparr>cc_agent_id = rv_routing_agent_id cmd, cc_principal_id = cv_principal_id c, cc_purpose = ''commercial_follow_up'',
      cc_action = ''revoke'', cc_policy_version = rv_policy_version cmd, cc_channel = cr_channel current,
      cc_target_channel = Some target, cc_locale = cr_locale current, cc_source_conversation_id = cv_id c,
      cc_source_channel_identity_id = cr_source_channel_identity_id current, cc_correlation_id = correlation,
      cc_idempotency_key = key, cc_contact_id = Some (ct_id contact), cc_contact_point_id = Some (cp_id point),
      cc_actor_admin_id = Some (rv_actor_admin_id cmd), cc_expires_at = None, cc_occurred_at = Some (Aware at 0)\<rparr>"

definition principal_contact_point :: "store \<Rightarrow> uuid \<Rightarrow> uuid \<Rightarrow> follow_up_error + (contact \<times> contact_point)" where
  "principal_contact_point s pid point =
     (case Option.bind (find (\<lambda>p. cp_id p = point) (contact_points s))
             (\<lambda>p. map_option (\<lambda>c. (c, p))
                (find (\<lambda>c. ct_id c = cp_contact_id p \<and> ct_principal_id c = pid) (contacts s))) of
        None \<Rightarrow> Inl FuNotFound | Some cp \<Rightarrow> Inr cp)"

record revocation_outcome =
  ro_record :: consent_record
  ro_created :: bool
  ro_cancelled :: int
  ro_review_required :: int

definition revoke_follow_up_consent ::
  "env \<Rightarrow> revoke_command \<Rightarrow> store \<Rightarrow> follow_up_error + (store \<times> revocation_outcome)" where
  "revoke_follow_up_consent E cmd s =
     bindE (fu_utc (given_or_now E (rv_occurred_at cmd)) ''occurred_at'') (\<lambda>at.
     bindE (fu_target_channel (rv_target_channel cmd)) (\<lambda>target.
     bindE (fu_text (rv_correlation_id cmd) ''correlation_id'' 120) (\<lambda>correlation.
     bindE (fu_text (rv_idempotency_key cmd) ''idempotency_key'' 220) (\<lambda>key.
     case get_conversation s (rv_source_conversation_id cmd) of
       None \<Rightarrow> Inl FuNotFound
     | Some c \<Rightarrow>
         if cv_agent_id c \<noteq> rv_routing_agent_id cmd then Inl FuNotFound else
         bindE (principal_contact_point s (cv_principal_id c) (rv_contact_point_id cmd)) (\<lambda>(contact, point).
         bindE (assert_point_matches point (Some target)) (\<lambda>_.
         bindE (mapErr FuConsent (effective_consent E (follow_up_query (rv_routing_agent_id cmd) (cv_principal_id c)
                  (cp_id point) (cv_id c) (Some target) (Some (Aware at 0))) s)) (\<lambda>(_, current).
         case current of
           None \<Rightarrow> Inl FuNotFound
         | Some r \<Rightarrow>
             bindE (mapErr FuConsent (record_consent E (revocation_command cmd c point contact r target correlation key at) s))
               (\<lambda>(s1, rev, created).
             bindE (quarantine_work E (exact_scope (cv_id c) (cp_id point) target) at (rv_routing_agent_id cmd)
                      (rv_actor_admin_id cmd) (cr_id rev) correlation
                      (revoked_work s1 (rv_routing_agent_id cmd) (cv_principal_id c) (cv_id c) (cp_id point) target) s1)
               (\<lambda>(s2, cancelled, reviewed).
               Inr (s2, \<lparr>ro_record = rev, ro_created = created, ro_cancelled = cancelled,
                         ro_review_required = reviewed\<rparr>)))))))))) "

end
