(* ===== verification/FollowUpOps.thy ===== *)
theory FollowUpOps
  imports FollowUpQueue FollowUpCommands FollowUpDispatch OpportunityOps
begin

text \<open>
  The operations on follow-up tasks (the service, the worker, the dispatcher and the reassignment of an
  opportunity) as moves of the ledger of \<open>FollowUpQueue\<close>.
\<close>

abbreviation task_rows :: "store \<Rightarrow> bool" where
  "task_rows s \<equiv> distinct (map ft_id (follow_up_tasks s))"

lemma task_rows_iff: "ledger_rows task_ledger (task_tables s) \<longleftrightarrow> task_rows s"
  by (simp add: ledger_rows_def task_tables_def)

lemma get_taskD: "get_task s tid = Some t \<Longrightarrow> t \<in> set (follow_up_tasks s) \<and> ft_id t = tid"
  by (auto simp: get_task_def dest: find_SomeD)

lemma worker_event_tells: "event_tells task_ledger (Some st) t (worker_event E t ty st (ft_status t) w r c at b)"
  by (simp add: event_tells_def worker_event_def Let_def)

lemma task_event_tells: "event_tells task_ledger from_status t (task_event E t ty from_status (ft_status t) a p w r co key h c x)"
  by (simp add: event_tells_def task_event_def Let_def)

lemma save_task_Inr: "save_task t e s = Inr s' \<longleftrightarrow> flush_task t e s = Inr s'"
  by (cases "flush_task t e s") (simp_all add: save_task_def)

lemma flush_others:
  assumes "flush_task t' e s = Inr s'" "task_rows s"
  shows "task_rows s'" "x \<in> set (follow_up_tasks s) \<Longrightarrow> ft_id x \<noteq> ft_id t' \<Longrightarrow> x \<in> set (follow_up_tasks s')"
  using assms by (auto simp: flush_task_Inr table_simps set_put_row)

section \<open>The worker\<close>

lemma reviewed_fields [simp]: "ft_id (reviewed_task E c at t) = ft_id t" "task_part (reviewed_task E c at t) = task_part t"
  "ft_state_version (reviewed_task E c at t) = ft_state_version t + 1" "ft_status (reviewed_task E c at t) = FuReviewRequired"
  by (simp_all add: reviewed_task_def task_part_def)

lemma review_Inr:
  assumes "move_to_review E t w code at r s = Inr s'"
  shows "\<exists>e. flush_task (reviewed_task E code at t) e s = Inr s' \<and>
    event_tells task_ledger (Some (ft_status t)) (reviewed_task E code at t) e"
  using assms worker_event_tells [of "ft_status t" "reviewed_task E code at t"]
  by (auto simp: move_to_review_def Let_def save_task_Inr)

lemma review_moves:
  assumes "move_to_review E t w code at r s = Inr s'" "t \<in> set (follow_up_tasks s)"
    "ft_status t \<in> {FuScheduled, FuInProgress, FuDispatchQueued}"
  shows "task_moves s s' \<and> follow_up_tasks s' = put_row ft_id (reviewed_task E code at t) (follow_up_tasks s)"
proof -
  from review_Inr [OF assms(1)] obtain e where e: "flush_task (reviewed_task E code at t) e s = Inr s'"
    "event_tells task_ledger (Some (ft_status t)) (reviewed_task E code at t) e" by blast
  have "task_moves s s'" by (rule flush_moves [OF e(1) assms(2) _ _ _ _ e(2)]) (use assms(3) in auto)
  with e(1) show ?thesis by (auto simp: flush_task_Inr)
qed

lemma review_each_moves:
  assumes "review_each E w code at ts s = Inr s'" "task_rows s" "distinct (map ft_id ts)" "set ts \<subseteq> set (follow_up_tasks s)"
    "\<forall>t\<in>set ts. ft_status t \<in> {FuScheduled, FuInProgress, FuDispatchQueued}"
  shows "task_moves s s'"
  using assms
proof (induction ts arbitrary: s)
  case (Cons t ts)
  from Cons.prems(1) obtain s1 where s1: "move_to_review E t w code at None s = Inr s1" "review_each E w code at ts s1 = Inr s'"
    by (auto simp: bindE_eq_Inr)
  have m: "task_moves s s1" "follow_up_tasks s1 = put_row ft_id (reviewed_task E code at t) (follow_up_tasks s)"
    using review_moves [OF s1(1)] Cons.prems(4,5) by simp_all
  have "task_moves s1 s'"
  proof (rule Cons.IH [OF s1(2)])
    show "task_rows s1" using Cons.prems(2) by (simp add: m(2) table_simps)
    show "set ts \<subseteq> set (follow_up_tasks s1)"
    proof
      fix x assume "x \<in> set ts"
      then have "x \<in> set (follow_up_tasks s)" "ft_id x \<noteq> ft_id t" using Cons.prems(3,4) by (auto simp: image_iff)
      then show "x \<in> set (follow_up_tasks s1)" by (simp add: m(2) set_put_row)
    qed
  qed (use Cons.prems in auto)
  with m(1) show ?case by (rule task_moves_trans)
qed simp

lemma recover_moves:
  assumes "recover_expired_leases E locked w now s = Inr (s', n)" "task_rows s"
  shows "task_moves s s'"
proof -
  from assms(1) obtain worker at where r: "review_each E worker ''follow_up_lease_expired'' at (expired_leases locked at s) s = Inr s'"
    by (auto simp: recover_expired_leases_def bindE_eq_Inr Let_def)
  show ?thesis
    by (rule review_each_moves [OF r assms(2)]) (use assms(2) in \<open>auto simp: expired_leases_def distinct_map_filter distinct_map
      intro: inj_on_subset\<close>)
qed

lemma eligibleD:
  assumes "eligible_task locked now s = Some t"
  shows "t \<in> set (follow_up_tasks s)" "ft_status t = FuScheduled" "ft_due_at t \<le> now" "ft_available_at t \<le> now"
    "\<forall>q\<in>set (follow_up_tasks s). \<not> blocking_task q t" "\<not> locked (ft_id t)"
  using first_by_Some(1) [OF assms [unfolded eligible_task_def]] by (auto simp: list_ex_iff)

lemma defer_moves:
  assumes "defer_task E t w av code at r s = Inr s'" "t \<in> set (follow_up_tasks s)" "ft_status t = FuScheduled"
  shows "task_moves s s'"
proof -
  let ?t = "deferred_task E av code t"
  have f: "ft_status ?t = FuScheduled" "ft_id ?t = ft_id t" "task_part ?t = task_part t" "ft_state_version ?t = ft_state_version t + 1"
    using assms(3) by (simp_all add: deferred_task_def task_part_def)
  have "flush_task ?t (worker_event E ?t FuEvDeferred FuScheduled FuScheduled w (Some r) (Some code) at False) s = Inr s'"
    using assms(1) by (simp add: defer_task_def Let_def save_task_Inr)
  from flush_moves [OF this assms(2) f(2,3,4)] worker_event_tells [of FuScheduled ?t] f assms(3) show ?thesis by simp
qed

lemma start_moves:
  assumes "start_task E p w lease at r t s = Inr (s', k)" "t \<in> set (follow_up_tasks s)" "ft_status t = FuScheduled"
    "\<forall>q\<in>set (follow_up_tasks s). \<not> blocking_task q t"
  shows "task_moves s s'"
proof -
  let ?t = "claimed_task E p w (at + lease) t"
  have f: "ft_status ?t = FuInProgress" "ft_id ?t = ft_id t" "task_part ?t = task_part t" "ft_state_version ?t = ft_state_version t + 1"
    by (simp_all add: claimed_task_def task_part_def)
  have "flush_task ?t (worker_event E ?t FuEvTransitioned (ft_status t) FuInProgress w (Some r) None at False) s = Inr s'"
    using assms(1) by (auto simp: start_task_def Let_def save_task_Inr bindE_eq_Inr)
  from flush_moves [OF this assms(2) f(2,3,4)] worker_event_tells [of "ft_status t" ?t] f assms(3,4) show ?thesis by simp
qed

lemma again_Inr: "again r = Inr (s', turn) \<longleftrightarrow> r = Inr s' \<and> turn = TurnAgain"
  by (auto simp: again_def bindE_eq_Inr)

text \<open>What one turn did: it found nothing, disposed of the head, or claimed it.\<close>

lemma claim_step_cases:
  assumes "claim_step E zones locked w lease at s = Inr (s', turn)"
  obtains (nothing) "eligible_task locked at s = None" "turn = TurnDone None" "s' = s"
  | (reviewed) t code r where "eligible_task locked at s = Some t" "turn = TurnAgain" "move_to_review E t w code at r s = Inr s'"
  | (deferred) t c p av code where "eligible_task locked at s = Some t" "turn = TurnAgain" "task_conversation s t = Some c"
      "stored_policy s (ft_assigned_agent_id t) = Some p" "policy_failure t (Some p) = None"
      "deferred_until zones s t p at = Inr (Some (av, code))" "defer_task E t w av code at (cv_agent_id c) s = Inr s'"
  | (claimed) t c p k where "eligible_task locked at s = Some t" "turn = TurnDone (Some k)" "task_conversation s t = Some c"
      "stored_policy s (ft_assigned_agent_id t) = Some p" "policy_failure t (Some p) = None"
      "deferred_until zones s t p at = Inr None" "ft_attempts t < min (ft_max_attempts t) (ap_max_attempts p)"
      "start_task E p w lease at (cv_agent_id c) t s = Inr (s', k)"
proof (cases "eligible_task locked at s")
  case None
  show thesis by (rule nothing) (use assms None in \<open>auto simp: claim_step_def\<close>)
next
  case (Some t)
  note t = Some
  show thesis
  proof (cases "task_conversation s t")
    case None
    with assms t show thesis by (intro reviewed [OF t]) (auto simp: claim_step_def again_Inr)
  next
    case (Some c)
    note c = Some
    show thesis
    proof (cases "policy_failure t (stored_policy s (ft_assigned_agent_id t))")
      case (Some code)
      with assms t c show thesis by (intro reviewed [OF t]) (auto simp: claim_step_def again_Inr)
    next
      case None
      then obtain p where p: "stored_policy s (ft_assigned_agent_id t) = Some p" "policy_failure t (Some p) = None"
        by (cases "stored_policy s (ft_assigned_agent_id t)") (auto simp: policy_failure_def)
      with assms t c obtain d where d: "deferred_until zones s t p at = Inr d"
        by (auto simp: claim_step_def Let_def bindE_eq_Inr)
      show thesis
      proof (cases d)
        case (Some ac)
        obtain av code where ac: "ac = (av, code)" by (cases ac)
        show thesis
          by (rule deferred [OF t _ c p, of av code]) (use assms t c p d Some ac in \<open>auto simp: claim_step_def Let_def again_Inr\<close>)
      next
        case None
        show thesis
        proof (cases "min (ft_max_attempts t) (ap_max_attempts p) \<le> ft_attempts t")
          case True
          show thesis
            by (rule reviewed [OF t]) (use assms t c p d None True in \<open>auto simp: claim_step_def Let_def again_Inr\<close>)
        next
          case False
          with assms t c p d None obtain k where k: "turn = TurnDone (Some k)" "start_task E p w lease at (cv_agent_id c) t s = Inr (s', k)"
            by (auto simp: claim_step_def Let_def bindE_eq_Inr simp del: min_le_iff_disj)
          with False d None show thesis by (intro claimed [OF t k(1) c p _ _ k(2)]) auto
        qed
      qed
    qed
  qed
qed

lemma claim_step_moves:
  assumes "claim_step E zones locked w lease at s = Inr (s', turn)"
  shows "task_moves s s'"
  using assms
proof (cases rule: claim_step_cases)
  case (reviewed t code r)
  with eligibleD(1,2) [OF reviewed(1)] show ?thesis using review_moves [OF reviewed(3)] by simp
next
  case (deferred t c p av code)
  with eligibleD(1,2) [OF deferred(1)] show ?thesis using defer_moves [OF deferred(7)] by simp
next
  case (claimed t c p k)
  with eligibleD(1,2,5) [OF claimed(1)] show ?thesis using start_moves [OF claimed(8)] by simp
qed simp

definition retries where
  "retries E zones locked w lease at s s' \<longleftrightarrow> claim_step E zones locked w lease at s = Inr (s', TurnAgain)"

text \<open>A claim that returns is a number of disposals and one last turn.\<close>

lemma claim_turns_run:
  assumes "claim_turns E zones locked w lease at s = Some (Inr (s', k))"
  shows "\<exists>u. (retries E zones locked w lease at)\<^sup>*\<^sup>* s u \<and> claim_step E zones locked w lease at u = Inr (s', TurnDone k)"
proof -
  have "\<forall>s' k. r = Inr (s', k) \<longrightarrow> (\<exists>u. (retries E zones locked w lease at)\<^sup>*\<^sup>* s u \<and>
      claim_step E zones locked w lease at u = Inr (s', TurnDone k))"
    if "claim_turns E zones locked w lease at s = Some r" for r
  proof (rule claim_turns.raw_induct [where P = "\<lambda>E zones locked w lease at s r. \<forall>s' k. r = Inr (s', k) \<longrightarrow>
      (\<exists>u. (retries E zones locked w lease at)\<^sup>*\<^sup>* s u \<and> claim_step E zones locked w lease at u = Inr (s', TurnDone k))", OF _ that])
    fix turns E zones locked w lease at s r
    assume ih: "\<And>E zones locked w lease at s r. turns E zones locked w lease at s = Some r \<Longrightarrow>
        \<forall>s' k. r = Inr (s', k) \<longrightarrow> (\<exists>u. (retries E zones locked w lease at)\<^sup>*\<^sup>* s u \<and>
          claim_step E zones locked w lease at u = Inr (s', TurnDone k))"
      and body: "(case claim_step E zones locked w lease at s of Inl e \<Rightarrow> Some (Inl e)
          | Inr (s1, TurnDone claim) \<Rightarrow> Some (Inr (s1, claim))
          | Inr (s1, TurnAgain) \<Rightarrow> turns E zones locked w lease at s1) = Some r"
    show "\<forall>s' k. r = Inr (s', k) \<longrightarrow> (\<exists>u. (retries E zones locked w lease at)\<^sup>*\<^sup>* s u \<and>
        claim_step E zones locked w lease at u = Inr (s', TurnDone k))"
    proof (intro allI impI)
      fix s' k assume r: "r = Inr (s', k)"
      with body obtain s1 turn where step: "claim_step E zones locked w lease at s = Inr (s1, turn)"
        by (auto split: sum.splits)
      show "\<exists>u. (retries E zones locked w lease at)\<^sup>*\<^sup>* s u \<and> claim_step E zones locked w lease at u = Inr (s', TurnDone k)"
      proof (cases turn)
        case (TurnDone k')
        with body step r show ?thesis by (intro exI [of _ s]) simp
      next
        case TurnAgain
        with body step have "turns E zones locked w lease at s1 = Some r" by simp
        from ih [OF this] r obtain u where "(retries E zones locked w lease at)\<^sup>*\<^sup>* s1 u"
          "claim_step E zones locked w lease at u = Inr (s', TurnDone k)" by auto
        moreover have "retries E zones locked w lease at s s1" using step TurnAgain by (simp add: retries_def)
        ultimately show ?thesis by (meson converse_rtranclp_into_rtranclp)
      qed
    qed
  qed
  from this [OF assms] show ?thesis by simp
qed

lemma retries_moves: "(retries E zones locked w lease at)\<^sup>*\<^sup>* s u \<Longrightarrow> task_moves s u"
  by (induction rule: rtranclp_induct) (auto simp: retries_def intro: task_moves_trans claim_step_moves)

lemma claim_next_cases:
  assumes "claim_next_follow_up E zones locked w lease now s = Some (Inr (s', k))"
  obtains worker at u where "run_worker w = Inr worker" "run_utc (given_or_now E now) = Inr at" "0 < lease"
    "(retries E zones locked worker lease at)\<^sup>*\<^sup>* s u" "claim_step E zones locked worker lease at u = Inr (s', TurnDone k)"
proof -
  from assms obtain worker at where c: "run_worker w = Inr worker" "run_utc (given_or_now E now) = Inr at" "0 < lease"
    "claim_turns E zones locked worker lease at s = Some (Inr (s', k))"
    by (auto simp: claim_next_follow_up_def split: sum.splits if_splits)
  from claim_turns_run [OF c(4)] show thesis using that [OF c(1,2,3)] by blast
qed

lemma claim_next_moves:
  assumes "claim_next_follow_up E zones locked w lease now s = Some (Inr (s', k))"
  shows "task_moves s s'"
  using assms by (cases rule: claim_next_cases) (blast intro: task_moves_trans retries_moves claim_step_moves)

section \<open>Enqueueing, errors and reconciliation\<close>

lemma owned_claimD: "owned_claim s k = Some t \<Longrightarrow> t \<in> set (follow_up_tasks s) \<and> ft_id t = fc_task_id k \<and>
    ft_status t = FuInProgress \<and> ft_state_version t = fc_state_version k \<and> ft_lease_owner t = Some (fc_worker_id k)"
  by (auto simp: owned_claim_def dest: find_SomeD)

lemma enqueue_frame:
  assumes "enqueue_outbound E s cmd = Inr (s', m, d)"
  shows "follow_up_tasks s' = follow_up_tasks s" "follow_up_events s' = follow_up_events s"
  using assms by (auto simp: enqueue_outbound_def bindE_eq_Inr Let_def fresh_def put_conversation_def insert_outbound_def
      add_delivery_event_def split: option.splits if_splits)

lemma review_result_moves:
  assumes "review_result E t w code at s = Inr (s', r)" "t \<in> set (follow_up_tasks s)"
    "ft_status t \<in> {FuScheduled, FuInProgress, FuDispatchQueued}"
  shows "task_moves s s'"
  using assms review_moves by (auto simp: review_result_def bindE_eq_Inr)

lemma try_enqueue_frame:
  assumes "try_enqueue E C t now s = Inr (Inr (s1, g, m, d))"
  shows "task_moves s s1 \<and> follow_up_tasks s1 = follow_up_tasks s"
  using assms enqueue_frame
  by (auto simp: try_enqueue_def intro!: task_moves_frame split: sum.splits execution_stop.splits outbound_error.splits)

lemma enqueue_cases:
  assumes "enqueue_claim E C k at s = Inr (s', r)"
  obtains (gone) "owned_claim s k = None" "s' = s" "r = (False, None)"
  | (reviewed) t code now s1 where "owned_claim s k = Some t" "task_moves s s1" "follow_up_tasks s1 = follow_up_tasks s"
      "review_result E t (fc_worker_id k) code now s1 = Inr (s', r)"
  | (queued) t now s1 g m d where "owned_claim s k = Some t" "run_utc (given_or_now E at) = Inr now"
      "case ft_lease_expires_at t of None \<Rightarrow> False | Some x \<Rightarrow> now < x"
      "try_enqueue E C t now s = Inr (Inr (s1, g, m, d))" "d \<longrightarrow> ft_outbound_message_id t \<in> {None, Some (om_id m)}"
      "flush_task (queued_task E (om_id m) t) (worker_event E (queued_task E (om_id m) t) FuEvTransitioned (ft_status t)
         FuDispatchQueued (fc_worker_id k) (Some (cv_agent_id (xg_source g))) None now True) s1 = Inr s'" "r = (True, None)"
proof (cases "owned_claim s k")
  case None
  show thesis by (rule gone) (use assms None in \<open>auto simp: enqueue_claim_def bindE_eq_Inr\<close>)
next
  case (Some t)
  note t = Some
  from assms obtain now where now: "run_utc (given_or_now E at) = Inr now"
    by (auto simp: enqueue_claim_def bindE_eq_Inr)
  show thesis
  proof (cases "case ft_lease_expires_at t of None \<Rightarrow> True | Some x \<Rightarrow> x \<le> now")
    case True
    with assms t now have "review_result E t (fc_worker_id k) ''follow_up_lease_expired'' now s = Inr (s', r)"
      by (simp add: enqueue_claim_def)
    then show thesis by (intro reviewed [OF t]) auto
  next
    case False
    with assms t now obtain q where q: "try_enqueue E C t now s = Inr q"
      by (auto simp: enqueue_claim_def bindE_eq_Inr)
    show thesis
    proof (cases q)
      case (Inl code)
      with assms t now False q have "review_result E t (fc_worker_id k) code now s = Inr (s', r)"
        by (simp add: enqueue_claim_def)
      then show thesis by (intro reviewed [OF t]) auto
    next
      case (Inr x)
      obtain s1 g m d where x: "x = (s1, g, m, d)" by (cases x)
      with assms t now False q Inr have rest: "queue_delivery E k t now (s1, g, m, d) = Inr (s', r)"
        by (simp add: enqueue_claim_def)
      show thesis
      proof (cases "d \<and> ft_outbound_message_id t \<notin> {None, Some (om_id m)}")
        case True
        have "review_result E t (fc_worker_id k) ''follow_up_outbound_conflict'' now s1 = Inr (s', r)"
          using rest by (simp only: queue_delivery_def split if_P [OF True])
        with try_enqueue_frame q Inr x show thesis by (intro reviewed [OF t]) auto
      next
        case no: False
        with rest have "(let t1 = queued_task E (om_id m) t
          in bindE (save_task t1 (worker_event E t1 FuEvTransitioned (ft_status t) FuDispatchQueued (fc_worker_id k)
                 (Some (cv_agent_id (xg_source g))) None now True) s1) (\<lambda>s2. Inr (s2, True, None))) = Inr (s', r)"
          unfolding queue_delivery_def by (simp only: split if_False)
        then show thesis
          by (intro queued [OF t now _ q [unfolded Inr x]])
            (use no False in \<open>auto simp: Let_def bindE_eq_Inr save_task_Inr not_le split: option.splits\<close>)
      qed
    qed
  qed
qed

lemma enqueue_claim_moves:
  assumes "enqueue_claim E C k at s = Inr (s', r)"
  shows "task_moves s s'"
  using assms
proof (cases rule: enqueue_cases)
  case (reviewed t code now s1)
  with owned_claimD [OF reviewed(1)] have "task_moves s1 s'" by (intro review_result_moves [OF reviewed(4)]) auto
  with reviewed(2) show ?thesis by (rule task_moves_trans)
next
  case (queued t now s1 g m d)
  note t = owned_claimD [OF queued(1)] and f = try_enqueue_frame [OF queued(4)]
  let ?t = "queued_task E (om_id m) t"
  have q: "ft_status ?t = FuDispatchQueued" "ft_id ?t = ft_id t" "task_part ?t = task_part t"
    "ft_state_version ?t = ft_state_version t + 1"
    by (simp_all add: queued_task_def task_part_def)
  from flush_moves [OF queued(6) _ q(2,3,4)] worker_event_tells [of "ft_status t" ?t] q t f have "task_moves s1 s'" by simp
  with f show ?thesis by (blast intro: task_moves_trans)
qed simp

lemma mark_moves:
  assumes "mark_claim_error E k at s = Inr (s', b)"
  shows "task_moves s s'"
  using assms review_moves owned_claimD
  by (fastforce simp: mark_claim_error_def bindE_eq_Inr split: option.splits)

lemma reconcilableD:
  assumes "reconcilable locked s = Some t"
  shows "t \<in> set (follow_up_tasks s)" "ft_status t = FuDispatchQueued"
  using first_by_Some(1) [OF assms [unfolded reconcilable_def]] by auto

lemma reconcile_cases:
  assumes "reconcile_next E locked w at s = Inr (s', r)"
  obtains (nothing) "reconcilable locked s = None" "s' = s" "r = (False, None)"
  | (reviewed) t worker code now where "reconcilable locked s = Some t"
      "review_result E t worker code now s = Inr (s', r)"
  | (completed) t worker m c now where "reconcilable locked s = Some t" "task_message s t = Some m" "delivered_status (om_status m)"
      "ft_executed_consent_record_id t \<noteq> None" "r = (True, None)"
      "flush_task (completed_task E now t) (worker_event E (completed_task E now t) FuEvTransitioned (ft_status t) FuCompleted
         worker (Some (cv_agent_id (c::conversation))) None now False) s = Inr s'"
proof (cases "reconcilable locked s")
  case None
  show thesis by (rule nothing) (use assms None in \<open>auto simp: reconcile_next_def bindE_eq_Inr\<close>)
next
  case (Some t)
  note t = Some
  from assms obtain worker now where body: "run_worker w = Inr worker" "run_utc (given_or_now E at) = Inr now"
    by (auto simp: reconcile_next_def bindE_eq_Inr)
  show thesis
  proof (cases "(case task_message s t of None \<Rightarrow> False | Some m \<Rightarrow> delivered_status (om_status m)) \<and>
      ft_executed_consent_record_id t \<noteq> None")
    case True
    then obtain m where m: "task_message s t = Some m" "delivered_status (om_status m)" "ft_executed_consent_record_id t \<noteq> None"
      by (auto split: option.splits)
    show thesis
    proof (cases "task_conversation s t")
      case None
      show thesis
        by (rule reviewed [OF t, of worker "''legacy_follow_up_context_unknown''" now])
          (use assms t body m None in \<open>auto simp: reconcile_next_def Let_def\<close>)
    next
      case (Some c)
      with assms t body m show thesis
        by (intro completed [OF t m]) (auto simp: reconcile_next_def Let_def bindE_eq_Inr save_task_Inr)
    qed
  next
    case False
    show thesis
      by (rule reviewed [OF t, of worker "reconcile_code (task_message s t)" now])
        (use assms t body False in \<open>auto simp: reconcile_next_def Let_def split: option.splits\<close>)
  qed
qed

lemma reconcile_moves:
  assumes "reconcile_next E locked w at s = Inr (s', r)"
  shows "task_moves s s'"
  using assms
proof (cases rule: reconcile_cases)
  case (reviewed t worker code now)
  with reconcilableD show ?thesis by (intro review_result_moves [OF reviewed(2)]) auto
next
  case (completed t worker m c now)
  let ?t = "completed_task E now t"
  have q: "ft_status ?t = FuCompleted" "ft_id ?t = ft_id t" "task_part ?t = task_part t" "ft_state_version ?t = ft_state_version t + 1"
    by (simp_all add: completed_task_def task_part_def)
  from flush_moves [OF completed(6) reconcilableD(1) [OF completed(1)] q(2,3,4)] reconcilableD(2) [OF completed(1)]
    worker_event_tells [of "ft_status t" ?t] q show ?thesis by simp
qed simp

section \<open>The service\<close>

lemma fu_utc_now [simp]: "fu_utc (given_or_now E None) what = Inr (clock E)"
  by (simp add: fu_utc_def given_or_now_def policy_aware_utc_def to_utc_def)

lemma ensure_policy_frame:
  assumes "ensure_policy E aid s = Inr (s', p)"
  shows "follow_up_tasks s' = follow_up_tasks s" "follow_up_events s' = follow_up_events s"
  using assms by (auto simp: ensure_policy_def Let_def split: option.splits if_splits)

lemma insert_task_Some: "insert_follow_up_task t s = Some s' \<longleftrightarrow> follow_up_task_checks t \<and>
    (\<forall>x\<in>set (follow_up_tasks s). ft_id x \<noteq> ft_id t \<and> \<not> task_message_clash t x \<and>
       \<not> (ft_opportunity_id x = ft_opportunity_id t \<and> ft_idempotency_key x = ft_idempotency_key t)) \<and>
    s' = s\<lparr>follow_up_tasks := follow_up_tasks s @ [t]\<rparr>"
  by (auto simp: insert_follow_up_task_def list_ex_iff)

lemma schedule_cases:
  assumes "schedule_follow_up E cmd s = Inr (s', t, b)"
  obtains (replay) n where "prepare_schedule E s cmd = Inr n" "\<not> b" "s' = s"
      "schedule_receipt s (op_id (pz_opportunity n)) (pz_key n) = Some t" "fu_assert_hash (ft_command_hash t) (pz_hash n) = Inr ()"
  | (first) n g s1 pol e where "prepare_schedule E s cmd = Inr n" b
      "schedule_receipt s (op_id (pz_opportunity n)) (pz_key n) = None" "schedule_grounds_of E s cmd n = Inr g"
      "ensure_policy E (op_assigned_agent_id (pz_opportunity n)) s = Inr (s1, pol)"
      "pending_tasks s1 (op_assigned_agent_id (pz_opportunity n)) < ap_max_pending_tasks pol"
      "t = scheduled_task E n g pol" "follow_up_task_checks t" "ft_id t \<notin> ft_id ` set (follow_up_tasks s)"
      "event_tells task_ledger None t e"
      "s' = s1\<lparr>follow_up_tasks := follow_up_tasks s @ [t], follow_up_events := follow_up_events s @ [e]\<rparr>"
proof -
  from assms obtain n where n: "prepare_schedule E s cmd = Inr n" by (auto simp: schedule_follow_up_def bindE_eq_Inr)
  show thesis
  proof (cases "schedule_receipt s (op_id (pz_opportunity n)) (pz_key n)")
    case (Some x)
    show thesis by (rule replay [OF n]) (use assms n Some in \<open>auto simp: schedule_follow_up_def bindE_eq_Inr\<close>)
  next
    case None
    from assms n None obtain g s1 pol where g: "schedule_grounds_of E s cmd n = Inr g"
      "ensure_policy E (op_assigned_agent_id (pz_opportunity n)) s = Inr (s1, pol)"
      "pending_tasks s1 (op_assigned_agent_id (pz_opportunity n)) < ap_max_pending_tasks pol"
      by (auto simp: schedule_follow_up_def bindE_eq_Inr not_le split: if_splits)
    let ?t = "scheduled_task E n g pol"
    let ?e = "task_event E ?t FuEvScheduled None FuScheduled (Some (sd_actor_agent_id cmd)) (sd_actor_operator_id cmd)
        None (Some (cv_agent_id (gr_conversation g))) (pz_correlation n) (pz_key n) (pz_hash n) None None"
    from assms n None g have t: b "t = ?t" "Option.bind (insert_follow_up_task ?t s1) (insert_follow_up_event ?e) = Some s'"
      by (auto simp: schedule_follow_up_def Let_def split: option.splits)
    have "ft_status ?t = FuScheduled" by (simp add: scheduled_task_def Let_def)
    then have e: "event_tells task_ledger None ?t ?e" using task_event_tells [of None ?t] by metis
    show thesis
      by (rule first [OF n t(1) None g t(2)])
        (use t e ensure_policy_frame [OF g(2)] in \<open>auto simp: bind_eq_Some_conv insert_task_Some insert_follow_up_event_Some\<close>)
  qed
qed

lemma schedule_future: "prepare_schedule E s cmd = Inr n \<Longrightarrow> sd_now cmd = None \<Longrightarrow> clock E < pz_due n \<and> pz_effective_at n = clock E"
  by (auto simp: prepare_schedule_def bindE_eq_Inr)

lemma schedule_moves:
  assumes "schedule_follow_up E cmd s = Inr (s', t, b)" "sd_now cmd = None"
    "\<forall>r\<in>set (follow_up_tasks s). task_running r \<longrightarrow> ft_due_at r \<le> clock E"
  shows "task_moves s s'"
  using assms(1)
proof (cases rule: schedule_cases)
  case (first n g s1 pol e)
  have t: "ft_status t = FuScheduled" "ft_state_version t = 0" "ft_due_at t = pz_due n"
    by (simp_all add: first scheduled_task_def Let_def)
  have "task_pos r \<le> task_pos t" if "r \<in> set (follow_up_tasks s)" "task_running r" for r
    using that assms(3) schedule_future [OF first(1) assms(2)] t(3) by (fastforce simp: task_pos_def)
  then have "ledger_step task_ledger (ft_id t) (task_tables s) (task_tables s')"
    using ledger_step.registered [of task_ledger t "follow_up_tasks s" e "follow_up_events s"] first t
    by (simp add: task_tables_def)
  then show ?thesis unfolding task_moves_def by (rule ledger_moves_step)
qed simp

lemma settled_fields [simp]: "ft_id (settled_task E st t) = ft_id t" "task_part (settled_task E st t) = task_part t"
  "ft_state_version (settled_task E st t) = ft_state_version t + 1" "ft_status (settled_task E st t) = st"
  by (simp_all add: settled_task_def task_part_def)

lemma ex_unit: "(\<exists>x::unit. P x) \<longleftrightarrow> P ()"
  by (auto intro: exI [of _ "()"])

lemma reschedule_cases:
  assumes "reschedule E C readiness p at t s = Inr (s', t')"
  obtains c contact point consent pol where "assert_opportunity_open p = Inr ()" "task_conversation s t = Some c"
    "assert_dispatchable c p = Inr ()" "fu_contact s (op_contact_id p) = Inr contact"
    "fu_contact_point s contact (ft_contact_point_id t) = Inr point" "assert_point_matches point (ft_target_channel t) = Inr ()"
    "require_consent E (follow_up_query (cv_agent_id c) (ct_principal_id contact) (cp_id point) (cv_id c)
       (ft_target_channel t) (Some (Aware at 0))) s = Inr consent"
    "ensure_policy E (op_assigned_agent_id p) s = Inr (s', pol)"
    "readiness \<longrightarrow> ap_is_enabled pol \<and> follow_up_kind_value (ft_kind t) \<in> set (ap_allowed_kinds pol) \<and>
       assert_delivery_route C s' t c (ct_principal_id contact) point (op_assigned_agent_id p) = Inr ()"
    "t' = t\<lparr>ft_consent_record_id := cr_id consent, ft_scheduled_control_version := Some (cv_control_version c),
       ft_scheduled_automation_version := Some (cv_automation_version c), ft_assigned_agent_id := op_assigned_agent_id p,
       ft_assigned_operator_id := op_assigned_operator_id p, ft_scheduled_policy_version := Some (ap_version pol),
       ft_executed_policy_version := None, ft_available_at := max (ft_due_at t) at, ft_review_required_at := None,
       ft_last_safe_code := None\<rparr>"
proof -
  from assms obtain c where c: "task_conversation s t = Some c"
    by (cases "task_conversation s t") (auto simp: reschedule_def bindE_eq_Inr)
  let ?q = "\<lambda>contact point. follow_up_query (cv_agent_id c) (ct_principal_id contact) (cp_id point) (cv_id c)
       (ft_target_channel t) (Some (Aware at 0))"
  from assms c obtain contact point consent pol where "assert_opportunity_open p = Inr ()" "assert_dispatchable c p = Inr ()"
    "fu_contact s (op_contact_id p) = Inr contact" "fu_contact_point s contact (ft_contact_point_id t) = Inr point"
    "assert_point_matches point (ft_target_channel t) = Inr ()" "require_consent E (?q contact point) s = Inr consent"
    and pol: "ensure_policy E (op_assigned_agent_id p) s = Inr (s', pol)"
    and ready: "(if readiness then bindE (require (ap_is_enabled pol \<and> follow_up_kind_value (ft_kind t) \<in> set (ap_allowed_kinds pol))
        (FuInvalid ''commercial automation policy does not allow this follow-up'')) (\<lambda>_.
          assert_delivery_route C s' t c (ct_principal_id contact) point (op_assigned_agent_id p)) else Inr ()) = Inr ()"
    and t': "t' = t\<lparr>ft_consent_record_id := cr_id consent, ft_scheduled_control_version := Some (cv_control_version c),
       ft_scheduled_automation_version := Some (cv_automation_version c), ft_assigned_agent_id := op_assigned_agent_id p,
       ft_assigned_operator_id := op_assigned_operator_id p, ft_scheduled_policy_version := Some (ap_version pol),
       ft_executed_policy_version := None, ft_available_at := max (ft_due_at t) at, ft_review_required_at := None,
       ft_last_safe_code := None\<rparr>"
    by (simp only: reschedule_def c option.case bindE_eq_Inr split_paired_Ex ex_unit split sum.inject prod.inject)
      blast
  moreover from ready have "readiness \<longrightarrow> ap_is_enabled pol \<and> follow_up_kind_value (ft_kind t) \<in> set (ap_allowed_kinds pol) \<and>
       assert_delivery_route C s' t c (ct_principal_id contact) point (op_assigned_agent_id p) = Inr ()"
    by (auto simp: bindE_eq_Inr)
  ultimately show thesis using that c by blast
qed

lemma transition_body_frame:
  assumes "transition_body E C cmd n p t s = Inr (s', t')"
  shows "follow_up_tasks s' = follow_up_tasks s \<and> follow_up_events s' = follow_up_events s \<and> ft_id t' = ft_id t \<and>
    task_part t' = task_part t \<and> ft_state_version t' = ft_state_version t \<and> ft_outbound_message_id t' = ft_outbound_message_id t"
proof (cases "pt_target n = FuScheduled")
  case True
  with assms have "reschedule E C (tn_require_readiness cmd) p (pt_event_time n) t s = Inr (s', t')"
    by (simp add: transition_body_def)
  then show ?thesis
    by (cases rule: reschedule_cases) (simp add: task_part_def ensure_policy_frame)
next
  case False
  with assms show ?thesis
    by (auto simp: transition_body_def task_part_def split: follow_up_status.splits)
qed

lemma task_transition_cases:
  assumes "transition_task E C cmd s = Inr (s', t')"
  obtains (replay) n e where "prepare_task_transition E cmd = Inr n" "s' = s" "get_task s (tn_task_id cmd) = Some t'"
      "task_receipt s (ft_id t') (pt_key n) = Some e"
  | (first) n t p s1 t1 e where "prepare_task_transition E cmd = Inr n" "get_task s (tn_task_id cmd) = Some t"
      "lock_owned s (ft_opportunity_id t) (tn_actor_agent_id cmd) (tn_actor_operator_id cmd) = Inr p"
      "ft_state_version t = tn_expected_version cmd" "pt_target n \<in> set (allowed_targets (ft_status t))"
      "transition_body E C cmd n p t s = Inr (s1, t1)" "t' = settled_task E (pt_target n) t1"
      "event_tells task_ledger (Some (ft_status t)) t' e" "flush_task t' e s1 = Inr s'"
      "case tn_allowed_sources cmd of None \<Rightarrow> True | Some sources \<Rightarrow> ft_status t \<in> set sources"
proof -
  from assms obtain n where "prepare_task_transition E cmd = Inr n" by (auto simp: transition_task_def bindE_eq_Inr)
  moreover from assms obtain t where "get_task s (tn_task_id cmd) = Some t"
    by (cases "get_task s (tn_task_id cmd)") (auto simp: transition_task_def bindE_eq_Inr)
  moreover from assms calculation obtain p where
    "lock_owned s (ft_opportunity_id t) (tn_actor_agent_id cmd) (tn_actor_operator_id cmd) = Inr p"
    by (auto simp: transition_task_def bindE_eq_Inr)
  ultimately have n: "prepare_task_transition E cmd = Inr n" "get_task s (tn_task_id cmd) = Some t"
    "lock_owned s (ft_opportunity_id t) (tn_actor_agent_id cmd) (tn_actor_operator_id cmd) = Inr p" by simp_all
  show thesis
  proof (cases "task_receipt s (ft_id t) (pt_key n)")
    case (Some e)
    show thesis
      by (rule replay [OF n(1), of e]) (use assms n Some in \<open>auto simp: transition_task_def bindE_eq_Inr\<close>)
  next
    case None
    let ?e = "\<lambda>t2. task_event E t2 FuEvTransitioned (Some (ft_status t)) (pt_target n) (Some (tn_actor_agent_id cmd))
        (tn_actor_operator_id cmd) None (map_option cv_agent_id (task_conversation s t)) (pt_correlation n)
        (pt_key n) (pt_hash n) (ft_last_safe_code t2) None"
    from assms n None obtain s1 t1 where f: "ft_state_version t = tn_expected_version cmd"
      "pt_target n \<in> set (allowed_targets (ft_status t))" "transition_body E C cmd n p t s = Inr (s1, t1)"
      "t' = settled_task E (pt_target n) t1" "flush_task t' (?e t') s1 = Inr s'"
      "case tn_allowed_sources cmd of None \<Rightarrow> True | Some sources \<Rightarrow> ft_status t \<in> set sources"
      by (auto simp: transition_task_def bindE_eq_Inr Let_def)
    have "event_tells task_ledger (Some (ft_status t)) t' (?e t')"
      using task_event_tells [of "Some (ft_status t)" t'] f(4) by simp
    with n f show thesis by (intro first)
  qed
qed

lemma allowed_edge: "b \<in> set (allowed_targets a) \<Longrightarrow> task_edge a b \<and> \<not> (a = FuScheduled \<and> b = FuInProgress)"
  by (cases a) auto

lemma transition_task_moves:
  assumes "transition_task E C cmd s = Inr (s', t')"
  shows "task_moves s s'"
  using assms
proof (cases rule: task_transition_cases)
  case (first n t p s1 t1 e)
  note b = transition_body_frame [OF first(6)] and t = get_taskD [OF first(2)] and edge = allowed_edge [OF first(5)]
  have "task_moves s1 s'"
    by (rule flush_moves [OF first(9), of t]) (use b t edge first(7,8) in auto)
  moreover have "task_moves s s1" using b by (intro task_moves_frame) simp_all
  ultimately show ?thesis by (blast intro: task_moves_trans)
qed simp

lemma operator_moves:
  "cancel_task E C cmd s = Inr (s', t) \<Longrightarrow> task_moves s s'"
  "requeue_task E C cmd s = Inr (s', t) \<Longrightarrow> task_moves s s'"
  "resolve_review E C cmd resolution s = Inr (s', t) \<Longrightarrow> task_moves s s'"
  by (auto simp: cancel_task_def requeue_task_def resolve_review_def split: if_splits intro: transition_task_moves)

lemma defer_scheduled_moves:
  assumes "defer_scheduled E cmd s = Inr (s', t')"
  shows "task_moves s s'"
proof -
  from assms obtain t where t: "get_task s (dc_task_id cmd) = Some t"
    by (cases "get_task s (dc_task_id cmd)") (auto simp: defer_scheduled_def bindE_eq_Inr Let_def)
  from assms t obtain worker code key av correlation hash where rest: "s' = s \<or> (\<exists>s1 pol c. ft_status t = FuScheduled \<and>
      ensure_policy E (ft_assigned_agent_id t) s = Inr (s1, pol) \<and>
      t' = t\<lparr>ft_available_at := av, ft_executed_policy_version := Some (ap_version pol), ft_last_safe_code := Some code,
        ft_state_version := ft_state_version t + 1, ft_updated_at := tx_now E\<rparr> \<and>
      flush_task t' (task_event E t' FuEvDeferred (Some FuScheduled) FuScheduled None None (Some worker)
        (Some (cv_agent_id (c::conversation))) correlation key hash (Some code) None) s1 = Inr s')"
    unfolding defer_scheduled_def
    by (auto simp: bindE_eq_Inr Let_def split: option.splits) blast+
  from rest show ?thesis
  proof (elim disjE exE conjE)
    fix s1 pol c assume st: "ft_status t = FuScheduled" and pol: "ensure_policy E (ft_assigned_agent_id t) s = Inr (s1, pol)"
      and t': "t' = t\<lparr>ft_available_at := av, ft_executed_policy_version := Some (ap_version pol), ft_last_safe_code := Some code,
        ft_state_version := ft_state_version t + 1, ft_updated_at := tx_now E\<rparr>"
      and fl: "flush_task t' (task_event E t' FuEvDeferred (Some FuScheduled) FuScheduled None None (Some worker)
        (Some (cv_agent_id (c::conversation))) correlation key hash (Some code) None) s1 = Inr s'"
    have f: "ft_status t' = FuScheduled" "ft_id t' = ft_id t" "task_part t' = task_part t" "ft_state_version t' = ft_state_version t + 1"
      using st by (simp_all add: t' task_part_def)
    have "task_moves s1 s'"
      by (rule flush_moves [OF fl _ f(2,3,4)])
        (use get_taskD [OF t] ensure_policy_frame [OF pol] st f task_event_tells [of "Some FuScheduled" t'] in auto)
    moreover have "task_moves s s1" using ensure_policy_frame [OF pol] by (intro task_moves_frame) simp_all
    ultimately show ?thesis by (blast intro: task_moves_trans)
  qed simp
qed

section \<open>Revocation, reassignment and dispatch\<close>

lemma map_filter_pairs: "map fst (List.map_filter (\<lambda>t. map_option (Pair t) (g t)) ts) = filter (\<lambda>t. g t \<noteq> None) ts"
  by (induction ts) (auto simp: List.map_filter_def)

lemma sorted_rows: "task_rows s \<Longrightarrow> distinct (map ft_id (filter P (sort_key ft_id (filter Q (follow_up_tasks s)))))"
  by (simp add: distinct_map inj_on_subset [of ft_id "set (follow_up_tasks s)"] subset_iff)

lemma quarantined_fields [simp]: "ft_id (quarantined_task E x at t) = ft_id t" "task_part (quarantined_task E x at t) = task_part t"
  "ft_state_version (quarantined_task E x at t) = ft_state_version t + 1"
  "ft_status (quarantined_task E x at t) = quarantine_target x (ft_status t)"
  "ft_outbound_message_id (quarantined_task E x at t) = ft_outbound_message_id t"
  by (simp_all add: quarantined_task_def task_part_def Let_def)

lemma quarantine_tells:
  "event_tells task_ledger (Some (ft_status t)) (quarantined_task E x at t) (quarantine_event E x at aid admin rid co t)"
  using task_event_tells [of "Some (ft_status t)" "quarantined_task E x at t"] by (simp add: quarantine_event_def Let_def)

lemma quarantine_moves:
  assumes "quarantine_work E exact at aid admin rid co rows s = Inr (s', n)" "task_rows s" "distinct (map (ft_id \<circ> fst) rows)"
    "\<forall>tr\<in>set rows. fst tr \<in> set (follow_up_tasks s) \<and> active_status (ft_status (fst tr))"
  shows "task_moves s s'"
  using assms
proof (induction rows arbitrary: s n)
  case (Cons tr rows)
  from Cons.prems(1) obtain s1 n1 where s1: "flush_task (quarantined_task E (exact tr) at (fst tr))
      (quarantine_event E (exact tr) at aid admin rid co (fst tr)) s = Inr s1"
    "quarantine_work E exact at aid admin rid co rows s1 = Inr (s', n1)"
    by (auto simp: bindE_eq_Inr split: if_splits)
  have "task_moves s s1"
    by (rule flush_moves [OF s1(1), of "fst tr"])
      (use Cons.prems(4) quarantine_tells in \<open>auto simp: quarantine_target_def active_status_def split: if_splits\<close>)
  moreover have "task_moves s1 s'"
  proof (rule Cons.IH [OF s1(2) flush_others(1) [OF s1(1) Cons.prems(2)]])
    show "\<forall>x\<in>set rows. fst x \<in> set (follow_up_tasks s1) \<and> active_status (ft_status (fst x))"
    proof
      fix x assume x: "x \<in> set rows"
      then have "ft_id (fst x) \<noteq> ft_id (fst tr)" using Cons.prems(3) by (auto simp: image_iff)
      with x Cons.prems(4) flush_others(2) [OF s1(1) Cons.prems(2), of "fst x"]
      show "fst x \<in> set (follow_up_tasks s1) \<and> active_status (ft_status (fst x))" by simp
    qed
  qed (use Cons.prems in auto)
  ultimately show ?case by (rule task_moves_trans)
qed simp

lemma revoked_work_rows:
  "map fst (revoked_work s aid pid cid point target) = filter (\<lambda>t. find (\<lambda>r. cr_id r = ft_consent_record_id t \<and>
     relies_on_scope aid pid cid point target r) (consent_records s) \<noteq> None)
     (sort_key ft_id (filter (\<lambda>t. active_status (ft_status t)) (follow_up_tasks s)))"
  unfolding revoked_work_def by (rule map_filter_pairs)

lemma revoked_workD: "tr \<in> set (revoked_work s aid pid cid point target) \<Longrightarrow>
    fst tr \<in> set (follow_up_tasks s) \<and> active_status (ft_status (fst tr))"
proof -
  assume "tr \<in> set (revoked_work s aid pid cid point target)"
  then have "fst tr \<in> set (map fst (revoked_work s aid pid cid point target))" by simp
  then show ?thesis unfolding revoked_work_rows by simp
qed

lemma record_frame: "record_consent E cmd s = Inr (s', r, b) \<Longrightarrow>
    follow_up_tasks s' = follow_up_tasks s \<and> follow_up_events s' = follow_up_events s"
  by (erule record_cases) auto

lemma revoke_cases:
  assumes "revoke_follow_up_consent E cmd s = Inr (s', out)"
  obtains at target c contact point current s1 correlation key where
    "fu_utc (given_or_now E (rv_occurred_at cmd)) ''occurred_at'' = Inr at" "fu_target_channel (rv_target_channel cmd) = Inr target"
    "get_conversation s (rv_source_conversation_id cmd) = Some c" "cv_agent_id c = rv_routing_agent_id cmd"
    "principal_contact_point s (cv_principal_id c) (rv_contact_point_id cmd) = Inr (contact, point)"
    "record_consent E (revocation_command cmd c point contact current target correlation key at) s =
       Inr (s1, ro_record out, ro_created out)"
    "quarantine_work E (exact_scope (cv_id c) (cp_id point) target) at (rv_routing_agent_id cmd) (rv_actor_admin_id cmd)
       (cr_id (ro_record out)) correlation
       (revoked_work s1 (rv_routing_agent_id cmd) (cv_principal_id c) (cv_id c) (cp_id point) target) s1 =
       Inr (s', ro_cancelled out, ro_review_required out)"
proof -
  from assms obtain c where c: "get_conversation s (rv_source_conversation_id cmd) = Some c" "cv_agent_id c = rv_routing_agent_id cmd"
    by (cases "get_conversation s (rv_source_conversation_id cmd)")
      (auto simp: revoke_follow_up_consent_def bindE_eq_Inr split: if_splits)
  from assms c obtain at target correlation key contact point current s1 rev created n m where
    p: "fu_utc (given_or_now E (rv_occurred_at cmd)) ''occurred_at'' = Inr at" "fu_target_channel (rv_target_channel cmd) = Inr target"
    "principal_contact_point s (cv_principal_id c) (rv_contact_point_id cmd) = Inr (contact, point)"
    and q: "record_consent E (revocation_command cmd c point contact current target correlation key at) s = Inr (s1, rev, created)"
    "quarantine_work E (exact_scope (cv_id c) (cp_id point) target) at (rv_routing_agent_id cmd) (rv_actor_admin_id cmd)
       (cr_id rev) correlation
       (revoked_work s1 (rv_routing_agent_id cmd) (cv_principal_id c) (cv_id c) (cp_id point) target) s1 = Inr (s', n, m)"
    "out = \<lparr>ro_record = rev, ro_created = created, ro_cancelled = n, ro_review_required = m\<rparr>"
    by (auto simp: revoke_follow_up_consent_def bindE_eq_Inr split: option.splits)
  show thesis by (rule that [OF p(1,2) c p(3)]) (use q in simp_all)
qed

lemma revoke_moves:
  assumes "revoke_follow_up_consent E cmd s = Inr (s', out)" "task_rows s"
  shows "task_moves s s'"
  using assms(1)
proof (cases rule: revoke_cases)
  case (1 at target c contact point current s1 correlation key)
  note f = record_frame [OF 1(6)]
  have "task_moves s1 s'"
  proof (rule quarantine_moves [OF 1(7)])
    show "task_rows s1" using assms(2) f by simp
    show "distinct (map (ft_id \<circ> fst) (revoked_work s1 (rv_routing_agent_id cmd) (cv_principal_id c) (cv_id c) (cp_id point) target))"
      using sorted_rows [of s1] assms(2) f by (simp add: revoked_work_rows map_map [symmetric] del: map_map)
  qed (use revoked_workD in blast)
  moreover have "task_moves s s1" using f by (intro task_moves_frame) simp_all
  ultimately show ?thesis by (blast intro: task_moves_trans)
qed

lemma suspended_part [simp]: "task_part (suspended_task E t) = task_part t"
  by (simp add: suspended_task_def task_part_def)

lemma suspension_tells: "event_tells task_ledger (Some (ft_status (fst tc))) (suspended_task E (fst tc))
    (suspension_event E cmd co oid wid tc)"
  by (simp add: event_tells_def suspension_event_def Let_def)

lemma suspend_moves:
  assumes "suspend_follow_ups E cmd co oid wid tcs s = Inr s'" "task_rows s" "distinct (map (ft_id \<circ> fst) tcs)"
    "\<forall>tc\<in>set tcs. fst tc \<in> set (follow_up_tasks s) \<and> reassignable (ft_status (fst tc))"
  shows "task_moves s s'"
  using assms
proof (induction tcs arbitrary: s)
  case (Cons tc tcs)
  from Cons.prems(1) obtain s1 where s1: "flush_task (suspended_task E (fst tc)) (suspension_event E cmd co oid wid tc) s = Inr s1"
    "suspend_follow_ups E cmd co oid wid tcs s1 = Inr s'"
    by (auto simp: flush_task_def split: option.splits)
  have "task_moves s s1"
    by (rule flush_moves [OF s1(1), of "fst tc"])
      (use Cons.prems(4) suspension_tells in \<open>auto simp: reassignable_def\<close>)
  moreover have "task_moves s1 s'"
  proof (rule Cons.IH [OF s1(2) flush_others(1) [OF s1(1) Cons.prems(2)]])
    show "\<forall>x\<in>set tcs. fst x \<in> set (follow_up_tasks s1) \<and> reassignable (ft_status (fst x))"
    proof
      fix x assume x: "x \<in> set tcs"
      then have "ft_id (fst x) \<noteq> ft_id (fst tc)" using Cons.prems(3) by (auto simp: image_iff)
      with x Cons.prems(4) flush_others(2) [OF s1(1) Cons.prems(2), of "fst x"]
      show "fst x \<in> set (follow_up_tasks s1) \<and> reassignable (ft_status (fst x))" by simp
    qed
  qed (use Cons.prems in auto)
  ultimately show ?case by (rule task_moves_trans)
qed simp

lemma active_rows:
  "map fst (active_follow_ups s oid) = filter (\<lambda>t. Option.bind (ft_conversation_id t) (get_conversation s) \<noteq> None)
     (sort_key ft_id (filter (\<lambda>t. ft_opportunity_id t = oid \<and> reassignable (ft_status t)) (follow_up_tasks s)))"
proof -
  have eq: "(\<lambda>t. Option.bind (ft_conversation_id t) (\<lambda>cid. map_option (Pair t) (get_conversation s cid))) =
      (\<lambda>t. map_option (Pair t) (Option.bind (ft_conversation_id t) (get_conversation s)))"
    by (auto simp: fun_eq_iff split: Option.bind_split)
  show ?thesis unfolding active_follow_ups_def eq by (rule map_filter_pairs)
qed

lemma reassign_moves:
  assumes "reassign E cmd s = Inr (s', x, b)" "task_rows s"
  shows "task_moves s s'"
  using assms(1)
proof (cases rule: reassign_cases)
  case (first pr o1 s1)
  have mem: "fst tc \<in> set (follow_up_tasks s) \<and> reassignable (ft_status (fst tc))"
    if "tc \<in> set (active_follow_ups s (op_id o1))" for tc
  proof -
    have "fst tc \<in> set (map fst (active_follow_ups s (op_id o1)))" using that by simp
    then show ?thesis unfolding active_rows by simp
  qed
  have "task_moves s s1"
    by (rule suspend_moves [OF first(8) assms(2)])
      (use sorted_rows [OF assms(2)] mem in \<open>simp_all add: active_rows map_map [symmetric] del: map_map\<close>)
  moreover have "task_moves s1 s'" unfolding first by (intro task_moves_frame) simp_all
  ultimately show ?thesis by (rule task_moves_trans)
qed simp

lemma revalidate_moves:
  assumes "revalidate_follow_up E C m s = Inr s'"
  shows "task_moves s s'"
proof (cases "find_linked_task s (om_id m)")
  case None
  with assms show ?thesis by (simp add: revalidate_follow_up_def)
next
  case (Some t)
  from revalidate_follow_up_Inr [OF assms Some] obtain r where
    s': "s' = s\<lparr>follow_up_tasks := put_row ft_id
      (t\<lparr>ft_executed_consent_record_id := Some (cr_id (r::consent_record)), ft_updated_at := tx_now E\<rparr>) (follow_up_tasks s)\<rparr>"
    by blast
  have "t \<in> set (follow_up_tasks s)" using Some by (auto simp: find_linked_task_def dest: find_SomeD)
  then have "ledger_note task_ledger (task_tables s) (task_tables s')"
    using ledger_note.noted [where L = task_ledger and r = t and rs = "follow_up_tasks s" and es = "follow_up_events s" and
      r' = "t\<lparr>ft_executed_consent_record_id := Some (cr_id r), ft_updated_at := tx_now E\<rparr>"]
    by (simp add: s' task_tables_def task_part_def)
  then show ?thesis unfolding task_moves_def by (rule ledger_moves_note)
qed

end
