(* ===== verification/FollowUpPromises.thy ===== *)
theory FollowUpPromises
  imports FollowUpOps OpportunityRetries
begin

text \<open>
  What the follow-ups promise. Under any interleaving of the service, the workers, the dispatcher, the
  operators and the rest of the platform, the tasks of a conversation run one at a time and in order, their
  events are complete histories, and a closed task stays closed.
\<close>

section \<open>All operations\<close>

inductive follow_up_op :: "store \<Rightarrow> store \<Rightarrow> bool" where
  fo_schedule: "schedule_follow_up E cmd1 s = Inr (s', r1) \<Longrightarrow> sd_now cmd1 = None \<Longrightarrow>
     \<forall>t\<in>set (follow_up_tasks s). task_running t \<longrightarrow> ft_due_at t \<le> clock E \<Longrightarrow> follow_up_op s s'"
| fo_transition: "transition_task E C cmd2 s = Inr (s', r2) \<Longrightarrow> follow_up_op s s'"
| fo_defer: "defer_scheduled E cmd3 s = Inr (s', r3) \<Longrightarrow> follow_up_op s s'"
| fo_revoke: "revoke_follow_up_consent E cmd4 s = Inr (s', r4) \<Longrightarrow> follow_up_op s s'"
| fo_reassign: "reassign E cmd5 s = Inr (s', r5) \<Longrightarrow> follow_up_op s s'"
| fo_recover: "recover_expired_leases E locked w now s = Inr (s', r6) \<Longrightarrow> follow_up_op s s'"
| fo_claim: "claim_next_follow_up E zones locked w lease now s = Some (Inr (s', r7)) \<Longrightarrow> follow_up_op s s'"
| fo_enqueue: "enqueue_claim E C k now s = Inr (s', r8) \<Longrightarrow> follow_up_op s s'"
| fo_error: "mark_claim_error E k now s = Inr (s', r9) \<Longrightarrow> follow_up_op s s'"
| fo_reconcile: "reconcile_next E locked w now s = Inr (s', r10) \<Longrightarrow> follow_up_op s s'"
| fo_dispatch: "revalidate_follow_up E C m s = Inr s' \<Longrightarrow> follow_up_op s s'"
| fo_elsewhere: "follow_up_tasks s' = follow_up_tasks s \<Longrightarrow> follow_up_events s' = follow_up_events s \<Longrightarrow> follow_up_op s s'"

lemma follow_up_op_moves: "follow_up_op s s' \<Longrightarrow> task_rows s \<Longrightarrow> task_moves s s'"
proof (induction rule: follow_up_op.induct)
  case (fo_schedule E cmd s s' r)
  then show ?case by (cases r) (auto intro: schedule_moves)
next
  case (fo_reassign E cmd s s' r)
  then show ?case by (cases r) (auto intro: reassign_moves)
next
  case (fo_recover E locked w now s s' r)
  then show ?case by (auto intro: recover_moves)
next
  case (fo_revoke E cmd s s' r)
  then show ?case by (auto intro: revoke_moves)
qed (auto intro: transition_task_moves defer_scheduled_moves claim_next_moves enqueue_claim_moves mark_moves
    reconcile_moves revalidate_moves task_moves_frame)

interpretation follow_ups: ledger_service task_ledger task_tables follow_up_op
  by unfold_locales (use follow_up_op_moves in \<open>auto simp: task_rows_iff task_moves_def\<close>)

interpretation follow_up_lanes: fifo_lanes follow_up_tasks ft_id ft_fifo_key task_pos task_running task_open task_rows follow_up_op
proof
  fix s s' t
  assume op: "follow_up_op s s'" and wf: "task_rows s"
  have m: "ledger_moves task_ledger (task_tables s) (task_tables s')"
    using follow_up_op_moves [OF op wf] by (simp add: task_moves_def)
  show "(lane_step ft_id ft_fifo_key task_pos task_running task_open)\<^sup>*\<^sup>* (follow_up_tasks s) (follow_up_tasks s')"
    using task_moves_lane [OF m] by (simp add: task_tables_def)
  show "task_rows s'" using ledger_moves_rows [OF m] wf by (simp add: task_rows_iff)
qed (auto simp: task_running_def task_open_def)

definition task_inv :: "store \<Rightarrow> bool" where
  "task_inv s \<longleftrightarrow> ledger_inv task_ledger (task_tables s) \<and>
     lanes_ok ft_fifo_key task_pos task_running task_open (follow_up_tasks s)"

lemma task_inv_rows: "task_inv s \<Longrightarrow> task_rows s"
  by (simp add: task_inv_def ledger_inv_def task_rows_iff)

lemma task_inv_empty: "follow_up_tasks s = [] \<Longrightarrow> follow_up_events s = [] \<Longrightarrow> task_inv s"
  by (simp add: task_inv_def task_tables_def ledger_inv_empty lanes_ok_def)


text \<open>C29: the events of a task tell its whole life: they carry the versions 0 up to the current one, once
  each, and lead from nothing to its status; and whatever runs later, no task is lost, the command it was
  registered with is not rewritten, and a completed or cancelled task keeps status and version.\<close>

theorem follow_up_trail:
  assumes "task_inv s" "follow_up_op\<^sup>*\<^sup>* s s'"
  shows "(\<forall>t\<in>set (follow_up_tasks s').
      event_versions task_ledger (task_tables s') (ft_id t) = [0 .. ft_state_version t] \<and>
      event_path task_ledger None (row_events task_ledger (task_tables s') (ft_id t)) (Some (ft_status t))) \<and>
    (\<forall>r\<in>set (follow_up_tasks s). \<exists>r'\<in>set (follow_up_tasks s'). ft_id r' = ft_id r \<and> task_part r' = task_part r \<and>
      (ft_status r \<in> {FuCompleted, FuCancelled} \<longrightarrow> ft_status r' = ft_status r \<and> ft_state_version r' = ft_state_version r))"
proof -
  have inv: "ledger_inv task_ledger (task_tables s)" using assms(1) by (simp add: task_inv_def)
  have "event_versions task_ledger (task_tables s') (ft_id t) = [0 .. ft_state_version t] \<and>
      event_path task_ledger None (row_events task_ledger (task_tables s') (ft_id t)) (Some (ft_status t))"
    if "t \<in> set (follow_up_tasks s')" for t
    using follow_ups.ops_trail [OF assms(2) inv, of t] that by (simp add: task_tables_def)
  moreover have "\<exists>r'\<in>set (follow_up_tasks s'). ft_id r' = ft_id r \<and> task_part r' = task_part r \<and>
      (ft_status r \<in> {FuCompleted, FuCancelled} \<longrightarrow> ft_status r' = ft_status r \<and> ft_state_version r' = ft_state_version r)"
    if "r \<in> set (follow_up_tasks s)" for r
    using follow_ups.ops_keep [OF assms(2) inv, of r] that task_final by (auto simp: task_tables_def)
  ultimately show ?thesis by blast
qed

section \<open>Idempotency\<close>

lemma prepare_schedule_cong: "opportunities s' = opportunities s \<Longrightarrow> prepare_schedule E s' cmd = prepare_schedule E s cmd"
  by (simp add: prepare_schedule_def lock_owned_def load_opportunity_def)

definition schedule_valid :: "env \<Rightarrow> store \<Rightarrow> schedule_command \<Rightarrow> bool" where
  "schedule_valid E s cmd \<longleftrightarrow> (case prepare_schedule E s cmd of Inl _ \<Rightarrow> False | Inr n \<Rightarrow> sha256_hex (pz_hash n))"

definition schedule_digest :: "env \<Rightarrow> store \<Rightarrow> schedule_command \<Rightarrow> string" where
  "schedule_digest E s cmd = (case prepare_schedule E s cmd of Inl _ \<Rightarrow> [] | Inr n \<Rightarrow> pz_hash n)"

definition schedule_filed :: "env \<Rightarrow> store \<Rightarrow> schedule_command \<Rightarrow> (string \<times> follow_up_task) option" where
  "schedule_filed E s cmd =
     (case prepare_schedule E s cmd of
        Inl _ \<Rightarrow> None
      | Inr n \<Rightarrow> map_option (\<lambda>t. (ft_command_hash t, t)) (schedule_receipt s (op_id (pz_opportunity n)) (pz_key n)))"

lemma fu_assert_hash_iff: "fu_assert_hash a b = Inr u \<longleftrightarrow> sha256_hex a \<and> a = b"
  by (auto simp: fu_assert_hash_def policy_assert_hash_def)

interpretation schedules: idempotent_command "\<lambda>s c. forget (schedule_follow_up E c s)" "schedule_valid E" "schedule_filed E"
  "schedule_digest E" FuIdempotency for E
proof
  fix s cmd x
  assume "schedule_valid E s cmd" "schedule_filed E s cmd = Some (schedule_digest E s cmd, x)"
  then show "forget (schedule_follow_up E cmd s) = Inr (s, x)"
    by (auto simp: schedule_valid_def schedule_filed_def schedule_digest_def schedule_follow_up_def forget_def
        fu_assert_hash_def policy_assert_hash_def split: sum.splits)
next
  fix s cmd h x
  assume "schedule_valid E s cmd" "schedule_filed E s cmd = Some (h, x)" "h \<noteq> schedule_digest E s cmd"
  then show "forget (schedule_follow_up E cmd s) = Inl FuIdempotency"
    by (auto simp: schedule_valid_def schedule_filed_def schedule_digest_def schedule_follow_up_def forget_def
        fu_assert_hash_def policy_assert_hash_def split: sum.splits)
next
  fix s cmd s' x assume "forget (schedule_follow_up E cmd s) = Inr (s', x)"
  then obtain b where "schedule_follow_up E cmd s = Inr (s', x, b)" by (auto simp: forget_Inr)
  then show "schedule_valid E s cmd \<and> schedule_valid E s' cmd \<and> schedule_digest E s' cmd = schedule_digest E s cmd \<and>
      schedule_filed E s' cmd = Some (schedule_digest E s cmd, x)"
  proof (cases rule: schedule_cases)
    case (replay n)
    then show ?thesis by (auto simp: schedule_valid_def schedule_digest_def schedule_filed_def fu_assert_hash_iff)
  next
    case (first n g s1 pol e)
    have "opportunities s' = opportunities s"
      using first(5) by (auto simp: first(11) ensure_policy_def Let_def split: option.splits if_splits)
    then have prep: "prepare_schedule E s' cmd = Inr n" using prepare_schedule_cong [of s' s E cmd] first(1) by simp
    have x: "ft_opportunity_id x = op_id (pz_opportunity n)" "ft_idempotency_key x = pz_key n" "ft_command_hash x = pz_hash n"
      by (simp_all add: first(7) scheduled_task_def Let_def)
    have "schedule_receipt s' (op_id (pz_opportunity n)) (pz_key n) = Some x"
      using first(3) x by (simp add: schedule_receipt_def first(11) find_append)
    moreover have "sha256_hex (pz_hash n)" using first(8) x by (simp add: follow_up_task_checks_def)
    ultimately show ?thesis using prep first(1) x by (simp add: schedule_valid_def schedule_digest_def schedule_filed_def)
  qed
qed

end
