(* ===== verification/FollowUpTiming.thy ===== *)
theory FollowUpTiming
  imports FollowUpOps
begin

text \<open>
  What a claim depends on: the turns of the loop change neither the policies nor the claims that are counted,
  so the task it returns was within the policy of its agent; the loop ends at every instant that no zone
  repeats, and does not end for a deferral that lies in the past.
\<close>

section \<open>What the turns keep\<close>

definition started_events :: "store \<Rightarrow> follow_up_event list" where
  "started_events s = filter (\<lambda>e. fe_to_status e = FuInProgress) (follow_up_events s)"

definition same_terms :: "store \<Rightarrow> store \<Rightarrow> bool" where
  "same_terms s u \<longleftrightarrow> automation_policies u = automation_policies s \<and> conversations u = conversations s \<and>
     started_events u = started_events s \<and>
     map (\<lambda>t. (ft_id t, ft_fifo_key t)) (follow_up_tasks u) = map (\<lambda>t. (ft_id t, ft_fifo_key t)) (follow_up_tasks s)"

lemma same_terms_refl [simp]: "same_terms s s"
  by (simp add: same_terms_def)

lemma same_terms_trans: "same_terms s u \<Longrightarrow> same_terms u v \<Longrightarrow> same_terms s v"
  by (simp add: same_terms_def)

lemma map_put_row:
  assumes "distinct (map k rs)" "r \<in> set rs" "k r' = k r" "f r' = f r"
  shows "map f (put_row k r' rs) = map f rs"
proof -
  have "f (if k x = k r' then r' else x) = f x" if "x \<in> set rs" for x
    using that assms same_key [OF assms(1,2), of x] by auto
  then show ?thesis by (simp add: put_row_def)
qed

lemma flush_terms:
  assumes "flush_task t' e s = Inr s'" "task_rows s" "t \<in> set (follow_up_tasks s)" "ft_id t' = ft_id t"
    "ft_fifo_key t' = ft_fifo_key t" "fe_to_status e \<noteq> FuInProgress"
  shows "same_terms s s' \<and> task_rows s'"
  using assms map_put_row [of ft_id "follow_up_tasks s" t t' "\<lambda>t. (ft_id t, ft_fifo_key t)"]
  by (auto simp: same_terms_def started_events_def flush_task_Inr table_simps)

lemma review_flush:
  assumes "move_to_review E t w code at r s = Inr s'"
  obtains e where "flush_task (reviewed_task E code at t) e s = Inr s'" "fe_to_status e = FuReviewRequired"
  using review_Inr [OF assms] by (auto simp: event_tells_def)

lemma defer_flush:
  assumes "defer_task E t w av code at r s = Inr s'"
  obtains e where "flush_task (deferred_task E av code t) e s = Inr s'" "fe_to_status e = FuScheduled"
  using assms by (auto simp: defer_task_def Let_def save_task_Inr worker_event_def)

lemma fifo_same [simp]: "ft_fifo_key (reviewed_task E code at t) = ft_fifo_key t" "ft_fifo_key (deferred_task E av code t) = ft_fifo_key t"
  "ft_id (deferred_task E av code t) = ft_id t" "ft_fifo_key (claimed_task E p w x t) = ft_fifo_key t"
  "ft_id (claimed_task E p w x t) = ft_id t"
  by (simp_all add: reviewed_task_def deferred_task_def claimed_task_def)

lemma turn_terms:
  assumes "retries E zones locked w lease at s u" "task_rows s"
  shows "same_terms s u \<and> task_rows u"
  using assms(1) unfolding retries_def
proof (cases rule: claim_step_cases)
  case (reviewed t code r)
  from reviewed(3) obtain e where "flush_task (reviewed_task E code at t) e s = Inr u" "fe_to_status e = FuReviewRequired"
    by (rule review_flush)
  with flush_terms assms(2) eligibleD(1) [OF reviewed(1)] show ?thesis by simp
next
  case (deferred t c p av code)
  from deferred(7) obtain e where "flush_task (deferred_task E av code t) e s = Inr u" "fe_to_status e = FuScheduled"
    by (rule defer_flush)
  with flush_terms assms(2) eligibleD(1) [OF deferred(1)] show ?thesis by simp
qed simp_all

lemma turns_terms: "(retries E zones locked w lease at)\<^sup>*\<^sup>* s u \<Longrightarrow> task_rows s \<Longrightarrow> same_terms s u \<and> task_rows u"
  by (induction rule: rtranclp_induct) (auto dest: turn_terms intro: same_terms_trans)


section \<open>Within the policy\<close>

lemma lane_claims_started: "lane_claims s fifo =
    filter (\<lambda>e. list_ex (\<lambda>p. fst p = fe_task_id e \<and> snd p \<noteq> None \<and> snd p = fifo)
      (map (\<lambda>t. (ft_id t, ft_fifo_key t)) (follow_up_tasks s))) (started_events s)"
  by (simp add: lane_claims_def started_events_def list_ex_iff conj_commute)

lemma lane_claims_same: "same_terms s u \<Longrightarrow> lane_claims u fifo = lane_claims s fifo"
  by (simp add: lane_claims_started same_terms_def)

lemma claimed_today_started: "claimed_today s aid d0 d1 =
    int (length (filter (\<lambda>e. fe_automation_agent_id e = Some aid \<and> d0 \<le> fe_created_at e \<and> fe_created_at e < d1) (started_events s)))"
  by (simp add: claimed_today_def started_events_def conj_ac)

lemma fold_max_ge: "x \<in> set (y # ys) \<Longrightarrow> x \<le> fold max ys (y::instant)"
proof -
  have "fold max ys y = Max (set (y # ys))" by (simp only: Max.set_eq_fold)
  then show "x \<in> set (y # ys) \<Longrightarrow> x \<le> fold max ys y" by (simp only: Max_ge List.finite_set)
qed

lemma last_claim: "last_claim_at s f = None \<Longrightarrow> lane_claims s f = []"
  "last_claim_at s f = Some x \<Longrightarrow> e \<in> set (lane_claims s f) \<Longrightarrow> fe_created_at e \<le> x"
proof -
  show "last_claim_at s f = None \<Longrightarrow> lane_claims s f = []"
    by (auto simp: last_claim_at_def split: list.splits)
  assume x: "last_claim_at s f = Some x" and e: "e \<in> set (lane_claims s f)"
  then obtain y ys where y: "map fe_created_at (lane_claims s f) = y # ys" "x = fold max ys y"
    by (auto simp: last_claim_at_def split: list.splits)
  have "fe_created_at e \<in> set (y # ys)" using e by (metis y(1) image_eqI set_map)
  with fold_max_ge y(2) show "fe_created_at e \<le> x" by simp
qed

text \<open>No deferral: outside the quiet hours, the interval has passed and the day has room.\<close>

lemma undeferredD:
  assumes "deferred_until zones s t p at = Inr None"
  shows "quiet_hours_end zones p at = Inr None"
    "\<forall>e\<in>set (lane_claims s (ft_fifo_key t)). fe_created_at e + ap_min_interval_seconds p * 1000000 \<le> at"
    "\<exists>d0 d1. local_day_bounds zones p at = Inr (d0, d1) \<and>
       claimed_today s (ft_assigned_agent_id t) d0 d1 < ap_max_daily_tasks p"
proof -
  from assms show quiet: "quiet_hours_end zones p at = Inr None"
    by (auto simp: deferred_until_def bindE_eq_Inr split: option.splits)
  have daily: "daily_deferral zones s t p at = Inr None \<and>
      (\<forall>e\<in>set (lane_claims s (ft_fifo_key t)). fe_created_at e + ap_min_interval_seconds p * 1000000 \<le> at)"
  proof (cases "last_claim_at s (ft_fifo_key t)")
    case None
    with assms quiet last_claim(1) [OF None] show ?thesis by (simp add: deferred_until_def)
  next
    case (Some x)
    with assms quiet have "x + ap_min_interval_seconds p * 1000000 \<le> at" "daily_deferral zones s t p at = Inr None"
      by (simp_all add: deferred_until_def Let_def not_less split: if_splits)
    with last_claim(2) [OF Some] show ?thesis by (meson add_right_mono order_trans)
  qed
  then show "\<forall>e\<in>set (lane_claims s (ft_fifo_key t)). fe_created_at e + ap_min_interval_seconds p * 1000000 \<le> at" by simp
  from daily show "\<exists>d0 d1. local_day_bounds zones p at = Inr (d0, d1) \<and>
       claimed_today s (ft_assigned_agent_id t) d0 d1 < ap_max_daily_tasks p"
    by (auto simp: daily_deferral_def bindE_eq_Inr not_le split: if_splits)
qed

lemma start_flush:
  assumes "start_task E p w lease at r t s = Inr (s', k)"
  obtains e where "flush_task (claimed_task E p w (at + lease) t) e s = Inr s'" "fc_task_id k = ft_id t"
  using assms by (auto simp: start_task_def Let_def bindE_eq_Inr save_task_Inr)

lemma blocking_claimed: "blocking_task q (claimed_task E p w x t) = blocking_task q t"
  "\<not> blocking_task (claimed_task E p w x t) t"
  by (auto simp: blocking_task_def claimed_task_def)

definition within_policy :: "(string \<Rightarrow> zone option) \<Rightarrow> store \<Rightarrow> store \<Rightarrow> instant \<Rightarrow> follow_up_task \<Rightarrow> automation_policy \<Rightarrow> bool" where
  "within_policy zones s s' at t p \<longleftrightarrow>
     policy_failure t (Some p) = None \<and> ft_attempts t \<le> min (ft_max_attempts t) (ap_max_attempts p) \<and>
     quiet_hours_end zones p at = Inr None \<and>
     (\<forall>e\<in>set (lane_claims s (ft_fifo_key t)). fe_created_at e + ap_min_interval_seconds p * 1000000 \<le> at) \<and>
     (\<exists>d0 d1. local_day_bounds zones p at = Inr (d0, d1) \<and>
        claimed_today s' (ft_assigned_agent_id t) d0 d1 \<le> ap_max_daily_tasks p)"

text \<open>C24: the task a worker claims is due, is the first open one of its conversation, and was started within
  the policy its agent has now: enabled, of the version it was scheduled under and allowing its kind, outside
  the quiet hours, not before the interval since the last start in the conversation has passed, and within the
  limits of attempts and of tasks per local day.\<close>

theorem claim_within_policy:
  assumes "claim_next_follow_up E zones locked w lease now s = Some (Inr (s', Some k))" "task_rows s"
  shows "\<exists>t\<in>set (follow_up_tasks s'). ft_id t = fc_task_id k \<and> ft_status t = FuInProgress \<and>
    (\<forall>q\<in>set (follow_up_tasks s'). \<not> blocking_task q t) \<and>
    (\<exists>at p. run_utc (given_or_now E now) = Inr at \<and> ft_due_at t \<le> at \<and>
       stored_policy s' (ft_assigned_agent_id t) = Some p \<and> within_policy zones s s' at t p)"
  using assms(1)
proof (cases rule: claim_next_cases)
  case (1 worker at u)
  from turns_terms [OF 1(4) assms(2)] have u: "same_terms s u" "task_rows u" by simp_all
  from 1(5) show ?thesis
  proof (cases rule: claim_step_cases)
    case (claimed t c p k')
    let ?t = "claimed_task E p worker (at + lease) t"
    from claimed obtain e where e: "flush_task ?t e u = Inr s'" "fc_task_id k = ft_id t"
      by (auto elim: start_flush)
    note t = eligibleD [OF claimed(1)] and no = undeferredD [OF claimed(6)]
    have s': "follow_up_tasks s' = put_row ft_id ?t (follow_up_tasks u)" "follow_up_events s' = follow_up_events u @ [e]"
      "automation_policies s' = automation_policies u"
      using e(1) by (auto simp: flush_task_Inr)
    have "?t \<in> set (follow_up_tasks s')" using t(1) by (auto simp: s' set_put_row)
    moreover have "\<forall>q\<in>set (follow_up_tasks s'). \<not> blocking_task q ?t"
      using t(5) by (auto simp: s' set_put_row blocking_claimed)
    moreover have "stored_policy s' (ft_assigned_agent_id ?t) = Some p"
      using claimed(4) by (simp add: stored_policy_def s' claimed_task_def)
    moreover have "within_policy zones s s' at ?t p"
    proof -
      from no(3) obtain d0 d1 where d: "local_day_bounds zones p at = Inr (d0, d1)"
        "claimed_today u (ft_assigned_agent_id t) d0 d1 < ap_max_daily_tasks p" by blast
      have "claimed_today s' (ft_assigned_agent_id t) d0 d1 \<le> claimed_today u (ft_assigned_agent_id t) d0 d1 + 1"
        by (simp add: claimed_today_def s')
      with d have "\<exists>d0 d1. local_day_bounds zones p at = Inr (d0, d1) \<and>
          claimed_today s' (ft_assigned_agent_id ?t) d0 d1 \<le> ap_max_daily_tasks p"
        by (intro exI [of _ d0] exI [of _ d1]) (simp add: claimed_task_def)
      moreover have "policy_failure ?t (Some p) = None" "ft_attempts ?t \<le> min (ft_max_attempts ?t) (ap_max_attempts p)"
        using claimed(5,7) by (auto simp: policy_failure_def claimed_task_def split: if_splits)
      ultimately show ?thesis using no(1,2) by (simp add: within_policy_def lane_claims_same [OF u(1)])
    qed
    moreover have "ft_id ?t = fc_task_id k \<and> ft_status ?t = FuInProgress \<and> ft_due_at ?t \<le> at"
      using e(2) t(3) by (simp add: claimed_task_def)
    ultimately show ?thesis using 1(2) by blast
  qed simp_all
qed


section \<open>The loop ends\<close>

text \<open>At the instant the zone does not repeat: a later wall time is a later instant.\<close>

definition unrepeated :: "zone \<Rightarrow> instant \<Rightarrow> bool" where
  "unrepeated z at \<longleftrightarrow> (\<forall>x. to_local z at < x \<longrightarrow> at < from_local z x)"

definition clock_policies :: "store \<Rightarrow> bool" where
  "clock_policies s \<longleftrightarrow> (\<forall>p\<in>set (automation_policies s). \<forall>x. ap_quiet_hours_end p = Some x \<longrightarrow> 0 \<le> x)"

definition waiting_tasks :: "instant \<Rightarrow> store \<Rightarrow> nat" where
  "waiting_tasks at s =
     length (filter (\<lambda>t. ft_status t = FuScheduled \<and> ft_due_at t \<le> at \<and> ft_available_at t \<le> at) (follow_up_tasks s))"

lemma div_mod_day: "(x::int) = x div day_length * day_length + x mod day_length" "0 \<le> x mod day_length" "x mod day_length < day_length"
  by (simp_all add: day_length_def)

lemma quiet_end_future:
  assumes "quiet_hours_end zones p at = Inr (Some stop)" "\<forall>key z. zones key = Some z \<longrightarrow> unrepeated z at"
    "\<forall>x. ap_quiet_hours_end p = Some x \<longrightarrow> 0 \<le> x"
  shows "at < stop"
proof -
  obtain start end_time z where q: "ap_quiet_hours_start p = Some start" "ap_quiet_hours_end p = Some end_time"
    "zones (ap_timezone p) = Some z"
    using assms(1) by (auto simp: quiet_hours_end_def split: option.splits)
  let ?l = "to_local z at"
  have "unrepeated z at" using assms(2) q(3) by blast
  then have later: "?l < x \<Longrightarrow> at < from_local z x" for x by (simp add: unrepeated_def)
  have pos: "0 \<le> end_time" using assms(3) q(2) by blast
  have today: "?l mod day_length < end_time \<Longrightarrow> ?l < ?l div day_length * day_length + end_time"
    using div_mod_day(1) [of ?l] by linarith
  have tomorrow: "?l < (?l div day_length + 1) * day_length + end_time"
    using div_mod_day(1,3) [of ?l] pos unfolding distrib_right by linarith
  have "stop = from_local z (?l div day_length * day_length + end_time) \<and> ?l mod day_length < end_time \<or>
      stop = from_local z ((?l div day_length + 1) * day_length + end_time)"
    using assms(1) q by (auto simp: quiet_hours_end_def Let_def not_le split: if_splits)
  with later [OF today] later [OF tomorrow] show ?thesis by blast
qed

lemma deferral_future:
  assumes "deferred_until zones s t p at = Inr (Some (av, code))" "\<forall>key z. zones key = Some z \<longrightarrow> unrepeated z at"
    "\<forall>x. ap_quiet_hours_end p = Some x \<longrightarrow> 0 \<le> x"
  shows "at < av"
proof -
  have day: "at < av" if daily: "daily_deferral zones s t p at = Inr (Some (av, code))"
  proof -
    obtain z where z: "zones (ap_timezone p) = Some z" "av = from_local z ((to_local z at div day_length + 1) * day_length)"
      using daily by (cases "zones (ap_timezone p)") (auto simp: daily_deferral_def local_day_bounds_def Let_def split: if_splits)
    have "to_local z at < (to_local z at div day_length + 1) * day_length"
      using div_mod_day(1,3) [of "to_local z at"] unfolding distrib_right by linarith
    with assms(2) z show ?thesis by (simp add: unrepeated_def)
  qed
  obtain q where q: "quiet_hours_end zones p at = Inr q" using assms(1) by (auto simp: deferred_until_def bindE_eq_Inr)
  show ?thesis
  proof (cases q)
    case (Some stop)
    with assms(1) q have "av = stop" by (simp add: deferred_until_def)
    with quiet_end_future [OF _ assms(2,3)] q Some show ?thesis by simp
  next
    case None
    show ?thesis
    proof (cases "last_claim_at s (ft_fifo_key t)")
      case (Some x)
      with assms(1) q None day show ?thesis by (auto simp: deferred_until_def Let_def split: if_splits)
    next
      case None
      with assms(1) q \<open>q = None\<close> day show ?thesis by (simp add: deferred_until_def)
    qed
  qed
qed

lemma length_filter_map_less:
  "\<forall>x\<in>set xs. P (f x) \<longrightarrow> P x \<Longrightarrow> y \<in> set xs \<Longrightarrow> P y \<Longrightarrow> \<not> P (f y) \<Longrightarrow>
   length (filter P (map f xs)) < length (filter P xs)"
proof (induction xs)
  case (Cons x xs)
  have le: "length (filter P (map f xs)) \<le> length (filter P xs)"
    using Cons.prems(1) by (induction xs) auto
  show ?case
  proof (cases "y = x")
    case True
    with Cons.prems le show ?thesis by simp
  next
    case False
    with Cons have "length (filter P (map f xs)) < length (filter P xs)" by simp
    with Cons.prems(1) show ?thesis by auto
  qed
qed simp

lemma flush_waits:
  assumes "flush_task t' e s = Inr s'" "t \<in> set (follow_up_tasks s)" "ft_id t' = ft_id t" "ft_status t = FuScheduled"
    "ft_due_at t \<le> at" "ft_available_at t \<le> at" "ft_status t' \<noteq> FuScheduled \<or> at < ft_available_at t'"
  shows "waiting_tasks at s' < waiting_tasks at s"
proof -
  let ?P = "\<lambda>t. ft_status t = FuScheduled \<and> ft_due_at t \<le> at \<and> ft_available_at t \<le> at"
  let ?f = "\<lambda>x. if ft_id x = ft_id t' then t' else x"
  have s': "follow_up_tasks s' = map ?f (follow_up_tasks s)"
    using assms(1) by (auto simp: flush_task_Inr put_row_def)
  have no: "\<not> ?P t'" using assms(7) by auto
  have keep: "\<forall>x\<in>set (follow_up_tasks s). ?P (?f x) \<longrightarrow> ?P x" using no by auto
  have P: "?P t" using assms(4-6) by simp
  have "?f t = t'" using assms(3) by simp
  with no have not: "\<not> ?P (?f t)" by (simp only: simp_thms)
  show ?thesis
    unfolding waiting_tasks_def s' by (rule length_filter_map_less [where P = ?P and f = ?f, OF keep assms(2) P not])
qed

lemma turn_waits:
  assumes "retries E zones locked w lease at s u" "\<forall>key z. zones key = Some z \<longrightarrow> unrepeated z at" "clock_policies s"
  shows "waiting_tasks at u < waiting_tasks at s"
  using assms(1) unfolding retries_def
proof (cases rule: claim_step_cases)
  case (reviewed t code r)
  from reviewed(3) obtain e where "flush_task (reviewed_task E code at t) e s = Inr u" by (rule review_flush)
  from flush_waits [OF this] eligibleD [OF reviewed(1)] show ?thesis by simp
next
  case (deferred t c p av code)
  from deferred(7) obtain e where e: "flush_task (deferred_task E av code t) e s = Inr u" by (rule defer_flush)
  have "p \<in> set (automation_policies s)" using deferred(4) by (auto simp: stored_policy_def dest: find_SomeD)
  then have "at < av" using assms(3) by (intro deferral_future [OF deferred(6) assms(2)]) (auto simp: clock_policies_def)
  with flush_waits [OF e] eligibleD [OF deferred(1)] show ?thesis by (simp add: deferred_task_def)
qed simp_all

lemma claim_turns_return:
  assumes "\<forall>key z. zones key = Some z \<longrightarrow> unrepeated z at"
  shows "task_rows s \<Longrightarrow> clock_policies s \<Longrightarrow> \<exists>r. claim_turns E zones locked w lease at s = Some r"
proof (induction "waiting_tasks at s" arbitrary: s rule: less_induct)
  case less
  show ?case
  proof (cases "claim_step E zones locked w lease at s")
    case (Inl e)
    then show ?thesis by (simp add: claim_turns.simps)
  next
    case (Inr r)
    obtain u turn where r: "r = (u, turn)" by (cases r)
    show ?thesis
    proof (cases turn)
      case (TurnDone k)
      with Inr r show ?thesis by (simp add: claim_turns.simps)
    next
      case TurnAgain
      with Inr r have turn: "retries E zones locked w lease at s u" by (simp add: retries_def)
      from turn_terms [OF this less.prems(1)] less.prems(2) have u: "task_rows u" "clock_policies u"
        by (simp_all add: same_terms_def clock_policies_def)
      from less.hyps [OF turn_waits [OF turn assms less.prems(2)] u] Inr r TurnAgain show ?thesis
        by (simp add: claim_turns.simps [of E zones locked w lease at s])
    qed
  qed
qed

text \<open>C38: at an instant that no zone repeats the claim loop ends, with a claimed task, with none, or with an
  exception, whatever tasks are due: every turn takes one due task out of those it can meet again.\<close>

theorem claim_returns:
  assumes "task_rows s" "clock_policies s"
    "\<forall>at key z. run_utc (given_or_now E now) = Inr at \<and> zones key = Some z \<longrightarrow> unrepeated z at"
  shows "\<exists>r. claim_next_follow_up E zones locked w lease now s = Some r"
  using claim_turns_return [OF _ assms(1,2)] assms(3)
  by (auto simp: claim_next_follow_up_def split: sum.splits)

section \<open>The loop that does not end\<close>

definition stuck_on :: "(string \<Rightarrow> zone option) \<Rightarrow> (uuid \<Rightarrow> bool) \<Rightarrow> instant \<Rightarrow> store \<Rightarrow> bool" where
  "stuck_on zones locked at s \<longleftrightarrow> (\<exists>t c p stop. eligible_task locked at s = Some t \<and> task_conversation s t = Some c \<and>
     stored_policy s (ft_assigned_agent_id t) = Some p \<and> policy_failure t (Some p) = None \<and>
     quiet_hours_end zones p at = Inr (Some stop) \<and> stop \<le> at)"

lemma eligible_unique:
  assumes "task_rows s" "t \<in> set (follow_up_tasks s)" "ft_status t = FuScheduled" "ft_due_at t \<le> at" "ft_available_at t \<le> at"
    "\<forall>q\<in>set (follow_up_tasks s). \<not> blocking_task q t" "\<not> locked (ft_id t)"
    "\<And>x. x \<in> set (follow_up_tasks s) \<Longrightarrow> ft_status x = FuScheduled \<Longrightarrow> ft_due_at x \<le> at \<Longrightarrow> ft_available_at x \<le> at \<Longrightarrow>
       \<forall>q\<in>set (follow_up_tasks s). \<not> blocking_task q x \<Longrightarrow> \<not> locked (ft_id x) \<Longrightarrow> task_pos t \<le> task_pos x"
  shows "eligible_task locked at s = Some t"
proof -
  obtain x where x: "eligible_task locked at s = Some x"
    using assms(2-7) by (cases "eligible_task locked at s") (auto simp: eligible_task_def filter_empty_conv list_ex_iff)
  note d = eligibleD [OF x]
  have "task_pos x \<le> task_pos t"
    using first_by_Some(2) [OF x [unfolded eligible_task_def]] assms(2-7) by (auto simp: list_ex_iff)
  moreover have "task_pos t \<le> task_pos x" using assms(8) d by blast
  ultimately have "task_pos x = task_pos t" by (rule order_antisym)
  then have "ft_id x = ft_id t" by (simp add: task_pos_def)
  then have "x = t" using same_key [OF assms(1) d(1) assms(2)] by simp
  with x show ?thesis by simp
qed


lemma deferred_blocking: "ft_status t = FuScheduled \<Longrightarrow> blocking_task (deferred_task E av code t) x = blocking_task t x"
  "blocking_task q (deferred_task E av code t) = blocking_task q t" "\<not> blocking_task t t"
  by (simp_all add: blocking_task_def deferred_task_def)

lemma eligible_again:
  assumes "eligible_task locked at s = Some t" "task_rows s" "av \<le> at"
    "follow_up_tasks u = put_row ft_id (deferred_task E av code t) (follow_up_tasks s)"
  shows "eligible_task locked at u = Some (deferred_task E av code t)"
proof -
  let ?t = "deferred_task E av code t"
  note t = eligibleD [OF assms(1)]
  have rows: "task_rows u" using assms(2) by (simp add: assms(4) table_simps)
  have mem: "x \<in> set (follow_up_tasks u) \<longleftrightarrow> x = ?t \<or> x \<in> set (follow_up_tasks s) \<and> ft_id x \<noteq> ft_id t" for x
    using t(1) by (auto simp: assms(4) set_put_row)
  have blocked: "(\<forall>q\<in>set (follow_up_tasks u). \<not> blocking_task q x) \<longleftrightarrow> (\<forall>q\<in>set (follow_up_tasks s). \<not> blocking_task q x)" for x
  proof -
    have "blocking_task ?t x = blocking_task t x" using deferred_blocking(1) t(2) .
    moreover have "q = t" if "q \<in> set (follow_up_tasks s)" "ft_id q = ft_id t" for q
      using same_key [OF assms(2) that(1) t(1) that(2)] .
    ultimately show ?thesis using mem t(1) by metis
  qed
  show ?thesis
  proof (rule eligible_unique [OF rows])
    show "?t \<in> set (follow_up_tasks u)" by (simp add: mem)
    show "ft_status ?t = FuScheduled" "ft_due_at ?t \<le> at" "ft_available_at ?t \<le> at" "\<not> locked (ft_id ?t)"
      using t assms(3) by (simp_all add: deferred_task_def)
    show "\<forall>q\<in>set (follow_up_tasks u). \<not> blocking_task q ?t" using t(5) by (simp add: blocked deferred_blocking)
    fix x assume x: "x \<in> set (follow_up_tasks u)" "ft_status x = FuScheduled" "ft_due_at x \<le> at" "ft_available_at x \<le> at"
      "\<forall>q\<in>set (follow_up_tasks u). \<not> blocking_task q x" "\<not> locked (ft_id x)"
    have pos: "task_pos ?t = task_pos t" by (simp add: task_pos_def deferred_task_def)
    show "task_pos ?t \<le> task_pos x"
    proof (cases "x = ?t")
      case False
      with x(1) mem have "x \<in> set (follow_up_tasks s)" by blast
      with first_by_Some(2) [OF assms(1) [unfolded eligible_task_def]] x blocked show ?thesis by (auto simp: pos list_ex_iff)
    qed simp
  qed
qed

lemma stuck_turn:
  assumes "stuck_on zones locked at s" "task_rows s" "claim_step E zones locked w lease at s = Inr (u, turn)"
  shows "turn = TurnAgain \<and> stuck_on zones locked at u \<and> task_rows u"
proof -
  from assms(1) obtain t c p stop where t: "eligible_task locked at s = Some t" "task_conversation s t = Some c"
    "stored_policy s (ft_assigned_agent_id t) = Some p" "policy_failure t (Some p) = None"
    "quiet_hours_end zones p at = Inr (Some stop)" "stop \<le> at" by (auto simp: stuck_on_def)
  let ?t = "deferred_task E stop ''follow_up_quiet_hours'' t"
  have "deferred_until zones s t p at = Inr (Some (stop, ''follow_up_quiet_hours''))" using t(5) by (simp add: deferred_until_def)
  with assms(3) t have u: "turn = TurnAgain" "defer_task E t w stop ''follow_up_quiet_hours'' at (cv_agent_id c) s = Inr u"
    by (auto simp: claim_step_def again_Inr)
  from u(2) obtain e where e: "flush_task ?t e s = Inr u" by (rule defer_flush)
  then have tables: "follow_up_tasks u = put_row ft_id ?t (follow_up_tasks s)" "conversations u = conversations s"
    "automation_policies u = automation_policies s" by (auto simp: flush_task_Inr)
  have same: "ft_assigned_agent_id ?t = ft_assigned_agent_id t" "ft_conversation_id ?t = ft_conversation_id t"
    "ft_scheduled_policy_version ?t = ft_scheduled_policy_version t" "ft_kind ?t = ft_kind t" by (simp_all add: deferred_task_def)
  have "get_conversation u = get_conversation s" by (simp add: fun_eq_iff get_conversation_def tables(2))
  then have "task_conversation u ?t = Some c" "stored_policy u (ft_assigned_agent_id ?t) = Some p"
    using t(2,3) by (simp_all add: task_conversation_def stored_policy_def tables same)
  moreover have "policy_failure ?t (Some p) = None" using t(4) by (simp only: policy_failure_def same)
  ultimately have "stuck_on zones locked at u"
    using eligible_again [OF t(1) assms(2) t(6) tables(1)] t(5,6) unfolding stuck_on_def by blast
  moreover have "task_rows u" using assms(2) by (simp add: tables table_simps)
  ultimately show ?thesis using u(1) by simp
qed


end
