(* ===== verification/FollowUpGuards.thy ===== *)
theory FollowUpGuards
  imports FollowUpOps ConsentPromises
begin

text \<open>
  What guards a delivery and what a revocation does: a delivery is queued only for a task whose whole context
  still stands, in the words and to the number of that context; a revocation stops the work that relied on
  the scope; and two situations in which the platform's own constraints refuse an operator's command.
\<close>

section \<open>Queueing a delivery\<close>

lemma digits_of_strip [simp]: "digits_of (strip t) = digits_of t"
proof -
  have drop: "filter is_digit (dropWhile is_space t) = filter is_digit t" for t
  proof -
    have "filter is_digit (takeWhile is_space t) = []"
      by (auto simp: filter_empty_conv is_digit_def is_space_def dest!: set_takeWhileD)
    then have "filter is_digit (takeWhile is_space t @ dropWhile is_space t) = filter is_digit (dropWhile is_space t)"
      by (simp del: takeWhile_dropWhile_id)
    then show ?thesis by simp
  qed
  have "filter is_digit (rev (dropWhile is_space (rev u))) = filter is_digit u" for u
    using drop [of "rev u"] by (simp add: rev_filter [symmetric])
  then show ?thesis by (simp add: digits_of_def strip_def drop)
qed

lemma strip_delivery_key [simp]: "strip (delivery_key tid) = delivery_key tid"
  by (simp add: delivery_key_def strip_def is_space_def)

lemma enqueue_fresh:
  assumes "enqueue_outbound E s cmd = Inr (s', m, d)"
    "\<forall>x\<in>set (outbounds s). om_idempotency_key x \<noteq> strip (oc_idempotency_key cmd)"
  shows "\<not> d"
proof -
  from assms(1) obtain payload c rid destination where p: "prepare_enqueue s cmd = Inr (payload, c, rid, destination)"
    by (auto simp: enqueue_outbound_def bindE_eq_Inr)
  have "outbound_receipt s (cv_id c) (strip (oc_idempotency_key cmd)) = None"
    using assms(2) by (auto simp: outbound_receipt_def find_None_iff)
  with assms(1) p show ?thesis by (auto simp: enqueue_outbound_def Let_def bindE_eq_Inr fresh_def)
qed

lemma composed_payload: "normalize_outbound KText (PDict [(KStr ''text'', PStr (compose_message k))]) = Inr p \<Longrightarrow>
    p = [(''text'', JStr (compose_message k))]"
  by (drule normalize_outboundD) (simp add: sorted_items_def str_keys_def)

lemma try_enqueue_cases:
  assumes "try_enqueue E C t now s = Inr (Inr (s1, g, m, d))"
  obtains c where "load_execution_graph s t = Inr g" "assert_execution_allowed E s g now = Inr ()"
    "resolve_delivery_conversation C s g = Inr c" "enqueue_outbound E s (delivery_command t c) = Inr (s1, m, d)"
proof -
  obtain gc where gc: "bindE (load_execution_graph s t) (\<lambda>g. bindE (assert_execution_allowed E s g now) (\<lambda>_.
      bindE (resolve_delivery_conversation C s g) (\<lambda>c. Inr (g, c)))) = Inr gc"
    using assms by (auto simp: try_enqueue_def split: sum.splits execution_stop.splits)
  obtain g' c where "gc = (g', c)" by (cases gc)
  with gc have parts: "load_execution_graph s t = Inr g'" "assert_execution_allowed E s g' now = Inr ()"
    "resolve_delivery_conversation C s g' = Inr c" by (auto simp: bindE_eq_Inr)
  with assms have "g' = g" "enqueue_outbound E s (delivery_command t c) = Inr (s1, m, d)"
    by (auto simp: try_enqueue_def split: sum.splits outbound_error.splits)
  with parts that show thesis by blast
qed

lemma resolved_target:
  assumes "resolve_delivery_conversation C s g = Inr c"
  shows "\<exists>target. decrypt_point C (cp_ciphertext (xg_point g)) = Inr target \<and> digits_of target \<noteq> [] \<and>
    delivery_conversations s g ''whatsapp'' (digits_of target) = [c]"
proof -
  obtain target where target: "decrypt_point C (cp_ciphertext (xg_point g)) = Inr target" "digits_of target \<noteq> []"
    using assms by (auto simp: resolve_delivery_conversation_def split: if_splits sum.splits)
  then obtain v where v: "delivery_conversations s g ''whatsapp'' (digits_of target) = [v]"
    using assms by (auto simp: resolve_delivery_conversation_def split: if_splits list.splits)
  with assms target obtain k where "(case require_implemented_adapter ''whatsapp'' (Some (cn_adapter_key (k::channel_connection))) of
      Inl x \<Rightarrow> Inl (StopBlocked ''follow_up_channel_not_implemented'') | Inr y \<Rightarrow> Inr v) = Inr c"
    by (auto simp: resolve_delivery_conversation_def bindE_eq_Inr split: if_splits)
  then have "v = c" by (cases "require_implemented_adapter ''whatsapp'' (Some (cn_adapter_key k))") simp_all
  with target v show ?thesis by blast
qed



section \<open>Revocation\<close>

lemma quarantine_stops:
  assumes "quarantine_work E exact at aid admin rid co rows s = Inr (s', n)"
  shows "consent_records s' = consent_records s \<and> (\<forall>x\<in>set (follow_up_tasks s'). active_status (ft_status x) \<longrightarrow>
      x \<in> set (follow_up_tasks s) \<and> ft_id x \<notin> ft_id ` fst ` set rows)"
  using assms
proof (induction rows arbitrary: s n)
  case (Cons tr rows)
  let ?q = "quarantined_task E (exact tr) at (fst tr)"
  from Cons.prems(1) obtain s1 n1 where s1: "flush_task ?q (quarantine_event E (exact tr) at aid admin rid co (fst tr)) s = Inr s1"
    "quarantine_work E exact at aid admin rid co rows s1 = Inr (s', n1)"
    by (auto simp: bindE_eq_Inr split: if_splits)
  have dead: "\<not> active_status (ft_status ?q)" by (simp add: quarantine_target_def active_status_def)
  have tables: "follow_up_tasks s1 = put_row ft_id ?q (follow_up_tasks s)" "consent_records s1 = consent_records s"
    using s1(1) by (auto simp: flush_task_Inr)
  have "y \<in> set (follow_up_tasks s) \<and> ft_id y \<noteq> ft_id (fst tr)"
    if "y \<in> set (follow_up_tasks s1)" "active_status (ft_status y)" for y
    using that dead by (auto simp: tables put_row_def split: if_splits)
  with Cons.IH [OF s1(2)] show ?case by (auto simp: tables)
qed simp

lemma principal_pointD: "principal_contact_point s pid pt = Inr (contact, point) \<Longrightarrow> cp_id point = pt"
  by (auto simp: principal_contact_point_def bind_eq_Some_conv dest: find_SomeD split: option.splits)

lemma revoked_work_mem: "ft_id ` fst ` set (revoked_work s aid pid cid pt target) = ft_id ` {t \<in> set (follow_up_tasks s).
    active_status (ft_status t) \<and> (\<exists>r\<in>set (consent_records s). cr_id r = ft_consent_record_id t \<and> relies_on_scope aid pid cid pt target r)}"
proof -
  have "fst ` set (revoked_work s aid pid cid pt target) = set (map fst (revoked_work s aid pid cid pt target))" by simp
  also have "\<dots> = {t \<in> set (follow_up_tasks s). active_status (ft_status t) \<and>
      (\<exists>r\<in>set (consent_records s). cr_id r = ft_consent_record_id t \<and> relies_on_scope aid pid cid pt target r)}"
    unfolding revoked_work_rows by (auto simp: find_None_iff)
  finally show ?thesis by simp
qed

text \<open>C22: once a follow-up consent is revoked no scheduled, running or queued task relies on a record of its
  scope, neither on the exact one nor on a channel-free one.\<close>

theorem revocation_stops_work:
  assumes "revoke_follow_up_consent E cmd s = Inr (s', out)" "get_conversation s (rv_source_conversation_id cmd) = Some c"
    "fu_target_channel (rv_target_channel cmd) = Inr target" "t \<in> set (follow_up_tasks s')" "active_status (ft_status t)"
    "r \<in> set (consent_records s')" "cr_id r = ft_consent_record_id t"
  shows "\<not> relies_on_scope (rv_routing_agent_id cmd) (cv_principal_id c) (rv_source_conversation_id cmd)
    (rv_contact_point_id cmd) target r"
proof
  assume rel: "relies_on_scope (rv_routing_agent_id cmd) (cv_principal_id c) (rv_source_conversation_id cmd)
    (rv_contact_point_id cmd) target r"
  from assms(1) show False
  proof (cases rule: revoke_cases)
    case (1 at target' c' contact point current s1 correlation key)
    have same: "c' = c" "target' = target" "cv_id c = rv_source_conversation_id cmd" "cp_id point = rv_contact_point_id cmd"
      using 1 assms(2,3) principal_pointD [OF 1(5)] by (auto simp: get_conversation_def dest: find_SomeD)
    note stop = quarantine_stops [OF 1(7)]
    from stop assms(4,5) have t: "t \<in> set (follow_up_tasks s1)" "ft_id t \<notin> ft_id ` fst ` set (revoked_work s1
        (rv_routing_agent_id cmd) (cv_principal_id c') (cv_id c') (cp_id point) target')" by blast+
    have "r \<in> set (consent_records s1)" using stop assms(6) by simp
    with t(1) assms(5,7) rel have "ft_id t \<in> ft_id ` fst ` set (revoked_work s1
        (rv_routing_agent_id cmd) (cv_principal_id c') (cv_id c') (cp_id point) target')"
      unfolding revoked_work_mem by (auto simp: same)
    with t(2) show False by contradiction
  qed
qed

section \<open>Commands the constraints refuse\<close>

lemma flush_keeps_events: "flush_task t e s = Inr s' \<Longrightarrow> set (follow_up_events s) \<subseteq> set (follow_up_events s')"
  by (auto simp: flush_task_Inr)

lemma quarantine_refused:
  assumes "tr \<in> set rows" "x \<in> set (follow_up_events s)" "fe_outbound_message_id x = ft_outbound_message_id (fst tr)"
    "ft_outbound_message_id (fst tr) \<noteq> None"
  shows "quarantine_work E exact at aid admin rid co rows s \<noteq> Inr q"
  using assms(1,2)
proof (induction rows arbitrary: s q)
  case (Cons y rows)
  show ?case
  proof
    assume "quarantine_work E exact at aid admin rid co (y # rows) s = Inr q"
    then obtain s1 q1 where s1: "flush_task (quarantined_task E (exact y) at (fst y)) (quarantine_event E (exact y) at aid admin rid co (fst y)) s = Inr s1"
      "quarantine_work E exact at aid admin rid co rows s1 = Inr q1"
      by (auto simp: bindE_eq_Inr)
    show False
    proof (cases "tr = y")
      case True
      have "fe_outbound_message_id (quarantine_event E (exact y) at aid admin rid co (fst y)) = ft_outbound_message_id (fst y)"
        by (simp add: quarantine_event_def task_event_def Let_def)
      with True Cons.prems(2) assms(3,4) have "follow_up_event_clash (quarantine_event E (exact y) at aid admin rid co (fst y)) x"
        by (simp add: follow_up_event_clash_def)
      with s1(1) Cons.prems(2) show False by (auto simp: flush_task_Inr)
    next
      case False
      with Cons.prems s1 flush_keeps_events [OF s1(1)] Cons.IH [of s1 q1] show False by auto
    qed
  qed
qed simp

text \<open>C40: a consent cannot be revoked while the delivery of a task that relies on it is under way. The event
  of the quarantine copies the message of the task, the event that queued the delivery names it already, and
  the column is unique: the whole revocation fails and is rolled back.\<close>

theorem revocation_blocked_by_delivery:
  assumes "t \<in> set (follow_up_tasks s)" "active_status (ft_status t)" "ft_outbound_message_id t = Some mid"
    "e \<in> set (follow_up_events s)" "fe_outbound_message_id e = Some mid"
    "r \<in> set (consent_records s)" "cr_id r = ft_consent_record_id t" "task_rows s"
    "get_conversation s (rv_source_conversation_id cmd) = Some c" "fu_target_channel (rv_target_channel cmd) = Inr target"
    "relies_on_scope (rv_routing_agent_id cmd) (cv_principal_id c) (rv_source_conversation_id cmd) (rv_contact_point_id cmd) target r"
  shows "revoke_follow_up_consent E cmd s \<noteq> Inr q"
proof
  assume "revoke_follow_up_consent E cmd s = Inr q"
  moreover obtain s' out where "q = (s', out)" by (cases q)
  ultimately have "revoke_follow_up_consent E cmd s = Inr (s', out)" by simp
  then show False
  proof (cases rule: revoke_cases)
    case (1 at target' c' contact point current s1 correlation key)
    have same: "c' = c" "target' = target" "cv_id c = rv_source_conversation_id cmd" "cp_id point = rv_contact_point_id cmd"
      using 1 assms(9,10) principal_pointD [OF 1(5)] by (auto simp: get_conversation_def dest: find_SomeD)
    note f = record_frame [OF 1(6)]
    have "r \<in> set (consent_records s1)" using 1(6) assms(6) by (cases rule: record_cases) auto
    with assms f have "ft_id t \<in> ft_id ` fst ` set (revoked_work s1
        (rv_routing_agent_id cmd) (cv_principal_id c') (cv_id c') (cp_id point) target')"
      unfolding revoked_work_mem by (auto simp: same)
    then obtain tr where tr: "tr \<in> set (revoked_work s1 (rv_routing_agent_id cmd) (cv_principal_id c') (cv_id c') (cp_id point) target')"
      "ft_id (fst tr) = ft_id t" by auto
    have "fst tr = t" using same_key [OF assms(8) _ assms(1) tr(2)] revoked_workD [OF tr(1)] f by simp
    with quarantine_refused [OF tr(1), of e] assms(3-5) f 1(7) show False by simp
  qed
qed

text \<open>A task that waits for review cannot be cancelled: the transition keeps the time of the review, which
  the table allows on a task in review only, so the database refuses every cancellation.\<close>

theorem review_never_cancelled:
  assumes "get_task s (vc_task_id cmd) = Some t" "ft_status t = FuReviewRequired" "follow_up_task_checks t"
    "fu_text (vc_idempotency_key cmd) ''idempotency_key'' 220 = Inr key" "task_receipt s (vc_task_id cmd) key = None"
  shows "cancel_task E C cmd s \<noteq> Inr q \<and> resolve_review E C cmd ''cancel'' s \<noteq> Inr q"
proof -
  have no: "transition_task E C (operator_transition cmd ''cancelled'' sources ready) s \<noteq> Inr q" for sources ready
  proof
    assume "transition_task E C (operator_transition cmd ''cancelled'' sources ready) s = Inr q"
    moreover obtain s' t' where "q = (s', t')" by (cases q)
    ultimately have "transition_task E C (operator_transition cmd ''cancelled'' sources ready) s = Inr (s', t')" by simp
    then show False
    proof (cases rule: task_transition_cases)
      case (replay n e)
      have "pt_key n = key" using replay(1) assms(4)
        by (auto simp: prepare_task_transition_def bindE_eq_Inr operator_transition_def)
      with replay assms(1,5) get_taskD [OF replay(3)] show False by (simp add: operator_transition_def)
    next
      case (first n u p s1 t1 e)
      have u: "u = t" using first(2) assms(1) by (simp add: operator_transition_def)
      have target: "pt_target n = FuCancelled"
        using first(1) by (auto simp: prepare_task_transition_def bindE_eq_Inr operator_transition_def policy_enum_value_def
            follow_up_statuses_def)
      have "ft_review_required_at t1 = ft_review_required_at t"
        using first(6) by (auto simp: transition_body_def target u)
      moreover have "ft_review_required_at t \<noteq> None" using assms(2,3) by (simp add: follow_up_task_checks_def)
      ultimately have "\<not> follow_up_task_checks t'"
        by (simp add: first(7) target follow_up_task_checks_def settled_task_def)
      with first(9) show False by (simp add: flush_task_Inr)
    qed
  qed
  then show ?thesis by (simp add: cancel_task_def resolve_review_def)
qed

end
