(* ===== verification/FollowUpWitnesses.thy ===== *)
theory FollowUpWitnesses
  imports FollowUpPromises FollowUpTiming FollowUpGuards DispatchWitnesses
begin

text \<open>
  Two follow-ups of the sample contact: the first is claimed, queued for delivery, and cannot be revoked then;
  a revocation stops a scheduled one; a task in review cannot be cancelled; and in the second pass of a
  repeated hour the claim does not return.
\<close>

definition later_env :: env where
  "later_env = sample_env\<lparr>uuid5 := (\<lambda>ns t. UUID 400), clock := 100, tx_now := 100\<rparr>"

definition run_policy :: "int option \<Rightarrow> int option \<Rightarrow> automation_policy" where
  "run_policy start stop = \<lparr>ap_id = UUID 90, ap_agent_id = UUID 2, ap_is_enabled = True,
     ap_allowed_kinds = [''commercial_follow_up''], ap_timezone = ''UTC'', ap_quiet_hours_start = start,
     ap_quiet_hours_end = stop, ap_min_interval_seconds = 3600, ap_max_attempts = 3, ap_max_daily_tasks = 25,
     ap_max_pending_tasks = 100, ap_version = 0, ap_updated_by_admin_id = None\<rparr>"

definition run_task :: "128 word \<Rightarrow> follow_up_task" where
  "run_task i = deal_task\<lparr>ft_id := UUID i, ft_contact_point_id := Some (UUID 61), ft_consent_record_id := cr_id granted_row,
     ft_source_conversation_id := Some (UUID 1), ft_due_at := int (unat i), ft_available_at := int (unat i)\<rparr>"

definition run_event :: "128 word \<Rightarrow> follow_up_event" where
  "run_event i = (task_event crm_env (run_task i) FuEvScheduled None FuScheduled (Some (UUID 2)) None None (Some (UUID 2))
     ''c0'' ''k0'' deal_hash None None)\<lparr>fe_id := UUID (300 + i)\<rparr>"

definition run_store :: "int option \<Rightarrow> int option \<Rightarrow> store" where
  "run_store start stop = (consent_store [granted_row])\<lparr>opportunities := [deal_row],
     follow_up_tasks := [run_task 70, run_task 71], follow_up_events := [run_event 70, run_event 71],
     automation_policies := [run_policy start stop]\<rparr>"

definition utc_zones :: "string \<Rightarrow> zone option" where
  "utc_zones key = (if key = ''UTC'' then Some \<lparr>to_local = (\<lambda>t. t), from_local = (\<lambda>t. t)\<rparr> else None)"

lemma run_tables [simp]: "follow_up_tasks (run_store a b) = [run_task 70, run_task 71]"
  "follow_up_events (run_store a b) = [run_event 70, run_event 71]" "automation_policies (run_store a b) = [run_policy a b]"
  "opportunities (run_store a b) = [deal_row]" "conversations (run_store a b) = [sample_conversation]"
  "consent_records (run_store a b) = [granted_row]" "contacts (run_store a b) = [crm_contact]"
  "contact_points (run_store a b) = [crm_point]" "outbounds (run_store a b) = []"
  "routes (run_store a b) = routes sample_store" "connections (run_store a b) = connections sample_store"
  by (simp_all add: run_store_def consent_store_def crm_store_def sample_store_def empty_store_def)

lemma run_task_fields: "ft_id (run_task i) = UUID i" "ft_fifo_key (run_task i) = Some ''f''" "ft_status (run_task i) = FuScheduled"
  "ft_due_at (run_task i) = int (unat i)" "ft_available_at (run_task i) = int (unat i)" "ft_created_at (run_task i) = 0"
  "ft_assigned_agent_id (run_task i) = UUID 2" "ft_conversation_id (run_task i) = Some (UUID 1)" "ft_attempts (run_task i) = 0"
  "ft_max_attempts (run_task i) = 3" "ft_scheduled_policy_version (run_task i) = Some 0" "ft_kind (run_task i) = CommercialFollowUp"
  "ft_chat_message_id (run_task i) = None" "ft_outbound_message_id (run_task i) = None" "ft_state_version (run_task i) = 0"
  "ft_opportunity_id (run_task i) = UUID 50" "ft_target_channel (run_task i) = Some ''whatsapp''"
  by (simp_all add: run_task_def deal_task_def)

lemma run_event_fields: "fe_id (run_event i) = UUID (300 + i)" "fe_task_id (run_event i) = UUID i" "fe_state_version (run_event i) = 0"
  "fe_from_status (run_event i) = None" "fe_to_status (run_event i) = FuScheduled" "fe_idempotency_key (run_event i) = ''k0''"
  "fe_chat_message_id (run_event i) = None" "fe_outbound_message_id (run_event i) = None"
  by (simp_all add: run_event_def task_event_def Let_def run_task_fields)

lemma run_blocking: "\<not> blocking_task (run_task 70) (run_task 70)" "\<not> blocking_task (run_task 71) (run_task 70)"
  "blocking_task (run_task 70) (run_task 71)"
  by (simp_all add: blocking_task_def run_task_fields)

lemma run_eligible: "100 \<le> at \<Longrightarrow> eligible_task (\<lambda>_. False) at (run_store a b) = Some (run_task 70)"
  by (simp add: eligible_task_def run_blocking first_by_def run_task_fields)

lemma run_policy_found: "stored_policy (run_store a b) (ft_assigned_agent_id (run_task 70)) = Some (run_policy a b)"
  "policy_failure (run_task 70) (Some (run_policy a b)) = None"
  by (simp_all add: stored_policy_def policy_failure_def run_task_fields run_policy_def)

lemma run_conversation: "task_conversation (run_store a b) (run_task 70) = Some sample_conversation"
  by (simp add: task_conversation_def get_conversation_def run_task_fields) (simp add: sample_conversation_def)

lemma run_undeferred: "deferred_until utc_zones (run_store None None) (run_task 70) (run_policy None None) 100 = Inr None"
  by (simp add: deferred_until_def quiet_hours_end_def last_claim_at_def lane_claims_def daily_deferral_def local_day_bounds_def
      claimed_today_def utc_zones_def run_event_fields run_policy_def Let_def)

definition started_task :: follow_up_task where
  "started_task = claimed_task later_env (run_policy None None) ''w1'' 60000100 (run_task 70)"

definition started_event :: follow_up_event where
  "started_event = worker_event later_env started_task FuEvTransitioned FuScheduled FuInProgress ''w1'' (Some (UUID 2)) None 100 False"

definition started_store :: store where
  "started_store = (run_store None None)\<lparr>follow_up_tasks := [started_task, run_task 71],
     follow_up_events := [run_event 70, run_event 71, started_event]\<rparr>"

lemma later_hash: "command_digest later_env b p = deal_hash"
  by (simp add: command_digest_def later_env_def sample_env_def deal_hash_def)

lemma started_fields: "fe_id started_event = UUID 400" "fe_task_id started_event = UUID 70" "fe_state_version started_event = 1"
  by (simp_all add: started_event_def worker_event_def Let_def started_task_def claimed_task_def later_env_def run_task_fields)


definition run_ticket :: claimed_follow_up where
  "run_ticket = \<lparr>fc_task_id = UUID 70, fc_state_version = 1, fc_worker_id = ''w1'', fc_lease_expires_at = 60000100\<rparr>"

lemma started_row: "follow_up_task_checks started_task" "ft_id started_task = UUID 70" "ft_state_version started_task = 1"
  "ft_chat_message_id started_task = None" "ft_outbound_message_id started_task = None" "ft_status started_task = FuInProgress"
  "ft_fifo_key started_task = Some ''f''"
  by (simp_all add: started_task_def claimed_task_def run_task_fields)
    (simp add: follow_up_task_checks_def run_task_def deal_task_def run_policy_def later_env_def sample_env_def active_status_def
      non_negative_def filled_def target_channel_ok_def whatsapp_text(1) btrim_def deal_hash_def)

lemma started_checks: "follow_up_event_checks started_event"
  by (simp add: follow_up_event_checks_def started_event_def worker_event_def Let_def started_task_def claimed_task_def
      run_task_def deal_task_def run_policy_def later_hash int_str_def filled_def non_negative_def target_channel_ok_def whatsapp_text(1) btrim_def)
    (simp add: deal_hash_def)

lemma started_flush: "flush_task started_task started_event (run_store None None) = Inr started_store"
proof -
  have "put_row ft_id started_task [run_task 70, run_task 71] = [started_task, run_task 71]"
    by (simp add: put_row_def started_row run_task_fields)
  then show ?thesis
    by (simp add: flush_task_Inr started_row started_checks task_message_clash_def follow_up_event_clash_def started_store_def
        started_fields run_event_fields) (simp add: started_event_def worker_event_def Let_def started_row)
qed

lemma run_starts: "start_task later_env (run_policy None None) ''w1'' 60000000 100 (UUID 2) (run_task 70) (run_store None None) =
    Inr (started_store, run_ticket)"
proof -
  have "save_task started_task started_event (run_store None None) = Inr started_store"
    by (simp only: save_task_Inr started_flush)
  then show ?thesis
    by (simp add: start_task_def Let_def started_task_def [symmetric] started_event_def [symmetric] run_task_fields started_row
        run_ticket_def)
qed

lemma run_claims: "claim_next_follow_up later_env utc_zones (\<lambda>_. False) ''w1'' 60000000 None (run_store None None) =
    Some (Inr (started_store, Some run_ticket))"
proof -
  have lim: "\<not> min (ft_max_attempts (run_task 70)) (ap_max_attempts (run_policy None None)) \<le> ft_attempts (run_task 70)"
    by (simp add: run_task_fields run_policy_def)
  have agent: "cv_agent_id sample_conversation = UUID 2" by (simp add: sample_conversation_def)
  have "claim_step later_env utc_zones (\<lambda>_. False) ''w1'' 60000000 100 (run_store None None) =
      Inr (started_store, TurnDone (Some run_ticket))"
    by (simp add: claim_step_def run_eligible run_conversation run_policy_found run_undeferred lim agent run_starts
        del: run_tables min_le_iff_disj not_le)
  then show ?thesis
    by (simp add: claim_next_follow_up_def run_worker_def strip_def is_space_def run_utc_def given_or_now_def to_utc_def
        claim_turns.simps) (simp add: later_env_def claim_turns.simps)
qed


section \<open>The queue\<close>

lemma run_inv: "task_inv (run_store a b)"
proof -
  let ?x = "([run_task 70, run_task 71], [run_event 70, run_event 71])"
  have "gap_free 0 (next_row_version task_ledger) (event_versions task_ledger) ?x"
    by (auto simp: gap_free_def next_row_version_def event_versions_def row_events_def run_task_fields run_event_fields)
  moreover have "events_lead task_ledger ?x"
    by (simp add: events_lead_def row_events_def run_task_fields run_event_fields)
  moreover have "ledger_rows task_ledger ?x" by (simp add: ledger_rows_def run_task_fields)
  moreover have "lanes_ok ft_fifo_key task_pos task_running task_open [run_task 70, run_task 71]"
    by (simp add: lanes_ok_def task_running_def run_task_fields)
  ultimately show ?thesis by (simp add: task_inv_def ledger_inv_def task_tables_def)
qed

lemma run_op: "follow_up_op\<^sup>*\<^sup>* (run_store None None) started_store"
  using r_into_rtranclp [of follow_up_op, OF follow_up_op.fo_claim [OF run_claims]] .

lemma started_tables: "follow_up_tasks started_store = [started_task, run_task 71]"
  by (simp add: started_store_def)


theorem follow_up_trail_witness:
  "\<exists>s' t. claim_next_follow_up later_env utc_zones (\<lambda>_. False) ''w1'' 60000000 None (run_store None None) = Some (Inr (s', Some run_ticket)) \<and>
     t \<in> set (follow_up_tasks s') \<and> ft_id t = UUID 70 \<and>
     event_versions task_ledger (task_tables s') (UUID 70) = [0, 1] \<and>
     event_path task_ledger None (row_events task_ledger (task_tables s') (UUID 70)) (Some FuInProgress)"
proof -
  have mem: "started_task \<in> set (follow_up_tasks started_store)" by (simp add: started_tables)
  from follow_up_trail [OF run_inv run_op, THEN conjunct1, rule_format, OF mem] mem run_claims show ?thesis
    by (intro exI [of _ started_store] exI [of _ started_task]) (simp add: started_row upto.simps)
qed

section \<open>Timing\<close>

theorem claim_within_policy_witness:
  "\<exists>s' t p. claim_next_follow_up later_env utc_zones (\<lambda>_. False) ''w1'' 60000000 None (run_store None None) = Some (Inr (s', Some run_ticket)) \<and>
     t \<in> set (follow_up_tasks s') \<and> ft_id t = UUID 70 \<and> within_policy utc_zones (run_store None None) s' 100 t p"
proof -
  have rows: "task_rows (run_store None None)" by (simp add: run_task_fields)
  have "run_utc (given_or_now later_env None) = Inr 100" by (simp add: run_utc_def given_or_now_def to_utc_def later_env_def)
  with claim_within_policy [OF run_claims rows] run_claims show ?thesis by (fastforce simp: run_ticket_def)
qed

theorem claim_returns_witness:
  "\<exists>r. claim_next_follow_up later_env utc_zones (\<lambda>_. False) ''w1'' 60000000 None (run_store (Some 10) (Some 20)) = Some r"
proof (rule claim_returns)
  show "task_rows (run_store (Some 10) (Some 20))" by (simp add: run_task_fields)
  show "clock_policies (run_store (Some 10) (Some 20))" by (simp add: clock_policies_def run_policy_def)
  show "\<forall>at key z. run_utc (given_or_now later_env None) = Inr at \<and> utc_zones key = Some z \<longrightarrow> unrepeated z at"
    by (simp add: utc_zones_def unrepeated_def)
qed

text \<open>At 02:00 the clocks go back to 01:00; the quiet hours are 00:30 to 01:50, and it is 01:13:20 again.\<close>

definition autumn_zones :: "string \<Rightarrow> zone option" where
  "autumn_zones key = (if key = ''UTC''
     then Some \<lparr>to_local = (\<lambda>t. if t < 7200000000 then t else t - 3600000000),
                from_local = (\<lambda>x. if x < 7200000000 then x else x + 3600000000)\<rparr> else None)"



section \<open>Guards\<close>

definition lone_store :: "follow_up_task \<Rightarrow> follow_up_event list \<Rightarrow> store" where
  "lone_store t es = (consent_store [granted_row])\<lparr>opportunities := [deal_row], follow_up_tasks := [t],
     follow_up_events := run_event 70 # es\<rparr>"

lemma lone_tables [simp]: "follow_up_tasks (lone_store t es) = [t]" "follow_up_events (lone_store t es) = run_event 70 # es"
  "opportunities (lone_store t es) = [deal_row]" "conversations (lone_store t es) = [sample_conversation]"
  "consent_records (lone_store t es) = [granted_row]" "contacts (lone_store t es) = [crm_contact]"
  "contact_points (lone_store t es) = [crm_point]"
  by (simp_all add: lone_store_def consent_store_def crm_store_def sample_store_def empty_store_def)

lemma conversation_fields: "cv_id sample_conversation = UUID 1" "cv_agent_id sample_conversation = UUID 2"
  "cv_principal_id sample_conversation = UUID 3" "cv_channel sample_conversation = ''whatsapp''"
  "cp_id crm_point = UUID 61" "cp_contact_id crm_point = UUID 60" "ct_id crm_contact = UUID 60" "ct_principal_id crm_contact = UUID 3"
  "cp_kind crm_point = ''phone''"
  by (simp_all add: sample_conversation_def crm_point_def crm_contact_def)

definition revoke_cmd :: revoke_command where
  "revoke_cmd = \<lparr>rv_routing_agent_id = UUID 2, rv_actor_admin_id = UUID 8, rv_source_conversation_id = UUID 1,
     rv_contact_point_id = UUID 61, rv_target_channel = ''whatsapp'', rv_policy_version = ''v1'', rv_correlation_id = ''c1'',
     rv_idempotency_key = ''kk'', rv_occurred_at = None\<rparr>"

lemma revoke_target: "fu_target_channel ''whatsapp'' = Inr ''whatsapp''"
  by code_simp

lemma granted_relied: "relies_on_scope (UUID 2) (UUID 3) (UUID 1) (UUID 61) ''whatsapp'' granted_row"
  by (simp add: relies_on_scope_def granted_row_def consent_row_def)

definition delivering_task :: follow_up_task where
  "delivering_task = (run_task 70)\<lparr>ft_status := FuDispatchQueued, ft_state_version := 2, ft_outbound_message_id := Some (UUID 201)\<rparr>"

definition delivering_event :: follow_up_event where
  "delivering_event = worker_event later_env delivering_task FuEvTransitioned FuInProgress FuDispatchQueued ''w1'' (Some (UUID 2)) None 100 True"

theorem revocation_blocked_by_delivery_witness:
  "\<nexists>q. revoke_follow_up_consent later_env revoke_cmd (lone_store delivering_task [delivering_event]) = Inr q"
proof -
  have t: "delivering_task \<in> set (follow_up_tasks (lone_store delivering_task [delivering_event]))" "active_status (ft_status delivering_task)"
    "ft_outbound_message_id delivering_task = Some (UUID 201)"
    "delivering_event \<in> set (follow_up_events (lone_store delivering_task [delivering_event]))" "fe_outbound_message_id delivering_event = Some (UUID 201)"
    "granted_row \<in> set (consent_records (lone_store delivering_task [delivering_event]))" "cr_id granted_row = ft_consent_record_id delivering_task"
    by (simp_all add: delivering_task_def delivering_event_def worker_event_def Let_def active_status_def run_task_def)
  have c: "get_conversation (lone_store delivering_task [delivering_event]) (rv_source_conversation_id revoke_cmd) = Some sample_conversation"
    "fu_target_channel (rv_target_channel revoke_cmd) = Inr ''whatsapp''" "task_rows (lone_store delivering_task [delivering_event])"
    by (simp_all add: get_conversation_def revoke_cmd_def conversation_fields revoke_target)
  have "relies_on_scope (rv_routing_agent_id revoke_cmd) (cv_principal_id sample_conversation)
      (rv_source_conversation_id revoke_cmd) (rv_contact_point_id revoke_cmd) ''whatsapp'' granted_row"
    using granted_relied by (simp add: revoke_cmd_def conversation_fields)
  from revocation_blocked_by_delivery [OF t c(3,1,2) this] show ?thesis by blast
qed

definition review_task :: follow_up_task where
  "review_task = (run_task 70)\<lparr>ft_status := FuReviewRequired, ft_state_version := 1, ft_review_required_at := Some 95,
     ft_last_safe_code := Some ''manual_review_required''\<rparr>"

definition review_cmd :: task_review_command where
  "review_cmd = \<lparr>vc_task_id = UUID 70, vc_actor_agent_id = UUID 2, vc_actor_operator_id = UUID 8, vc_expected_version = 1,
     vc_correlation_id = ''c1'', vc_idempotency_key = ''kk'', vc_occurred_at = None\<rparr>"

theorem review_never_cancelled_witness:
  "\<nexists>q. cancel_task later_env vault review_cmd (lone_store review_task []) = Inr q"
proof -
  have t: "get_task (lone_store review_task []) (vc_task_id review_cmd) = Some review_task" "ft_status review_task = FuReviewRequired"
    by (simp_all add: get_task_def review_cmd_def review_task_def run_task_fields)
  have ok: "follow_up_task_checks review_task"
    by (simp add: follow_up_task_checks_def review_task_def run_task_def deal_task_def active_status_def
        non_negative_def filled_def target_channel_ok_def whatsapp_text(1) btrim_def deal_hash_def)
  have k: "fu_text (vc_idempotency_key review_cmd) ''idempotency_key'' 220 = Inr ''kk''"
    "task_receipt (lone_store review_task []) (vc_task_id review_cmd) ''kk'' = None"
    by (simp_all add: fu_text_def review_cmd_def task_receipt_def run_event_fields)
  from review_never_cancelled [OF t ok k] show ?thesis by blast
qed


lemma lone_granted: "effective_consent E (follow_up_query (UUID 2) (UUID 3) (UUID 61) (UUID 1) (Some ''whatsapp'') (Some (Aware 100 0)))
    (s\<lparr>conversations := [sample_conversation], contacts := [crm_contact], contact_points := [crm_point], consent_records := [granted_row]\<rparr>) =
    Inr (True, Some granted_row)"
proof -
  let ?q = "follow_up_query (UUID 2) (UUID 3) (UUID 61) (UUID 1) (Some ''whatsapp'') (Some (Aware 100 0))"
  let ?s = "s\<lparr>conversations := [sample_conversation], contacts := [crm_contact], contact_points := [crm_point], consent_records := [granted_row]\<rparr>"
  have q: "cq_agent_id ?q = UUID 2" "cq_principal_id ?q = UUID 3" "cq_purpose ?q = ''commercial_follow_up''"
    "cq_contact_point_id ?q = Some (UUID 61)" "cq_source_conversation_id ?q = Some (UUID 1)"
    "cq_target_channel ?q = Some ''whatsapp''" "cq_at ?q = Some (Aware 100 0)" by (simp_all add: follow_up_query_def)
  have asked: "consent_filter ?q CommercialFollowUpConsent (Some ''whatsapp'') granted_row"
    by (simp add: consent_filter_def q) (simp add: granted_row_def consent_row_def)
  have "latest_consent ?q CommercialFollowUpConsent (Some ''whatsapp'') ?s = Some granted_row"
    by (simp add: latest_consent_def newest_first_def asked)
  moreover have "consent_applies t granted_row" for t by (simp add: consent_applies_def granted_row_def consent_row_def)
  moreover have "point_of_principal ?s (UUID 61) (UUID 3) = Inr ()" "assert_agent_principal_scope ?s (UUID 2) (UUID 3) = Inr ()"
    by (simp_all add: point_of_principal_def assert_agent_principal_scope_def conversation_fields)
  ultimately show ?thesis
    by (simp add: effective_consent_def q consent_purposes channel_text_normal [OF whatsapp_text(1)] consent_utc_def to_utc_def)
qed

lemma lone_consent: "effective_consent E (follow_up_query (UUID 2) (UUID 3) (UUID 61) (UUID 1) (Some ''whatsapp'') (Some (Aware 100 0)))
    (lone_store t es) = Inr (True, Some granted_row)"
proof -
  have "lone_store t es = (lone_store t es)\<lparr>conversations := [sample_conversation], contacts := [crm_contact],
      contact_points := [crm_point], consent_records := [granted_row]\<rparr>"
    by (simp add: lone_store_def consent_store_def crm_store_def sample_store_def empty_store_def)
  with lone_granted [of E "lone_store t es"] show ?thesis by simp
qed

definition stop_row :: consent_record where
  "stop_row = \<lparr>cr_id = UUID 400, cr_principal_id = UUID 3, cr_contact_id = Some (UUID 60), cr_contact_point_id = Some (UUID 61),
     cr_agent_id = UUID 2, cr_purpose = CommercialFollowUpConsent, cr_action = Revoke, cr_policy_version = ''v1'',
     cr_channel = ''whatsapp'', cr_target_channel = Some ''whatsapp'', cr_locale = ''es'',
     cr_source_conversation_id = Some (UUID 1), cr_source_channel_identity_id = Some (UUID 20),
     cr_actor_admin_id = Some (UUID 8), cr_correlation_id = ''c1'', cr_idempotency_key = ''kk'', cr_command_hash = deal_hash,
     cr_occurred_at = 100, cr_expires_at = None, cr_created_at = 100\<rparr>"

definition stop_cmd :: consent_command where
  "stop_cmd = revocation_command revoke_cmd sample_conversation crm_point crm_contact granted_row ''whatsapp'' ''c1'' ''kk'' 100"

lemma stop_fields: "cc_agent_id stop_cmd = UUID 2" "cc_principal_id stop_cmd = UUID 3" "cc_purpose stop_cmd = ''commercial_follow_up''"
  "cc_action stop_cmd = ''revoke''" "cc_policy_version stop_cmd = ''v1''" "cc_channel stop_cmd = ''whatsapp''"
  "cc_target_channel stop_cmd = Some ''whatsapp''" "cc_locale stop_cmd = ''es''" "cc_source_conversation_id stop_cmd = UUID 1"
  "cc_source_channel_identity_id stop_cmd = Some (UUID 20)" "cc_correlation_id stop_cmd = ''c1''" "cc_idempotency_key stop_cmd = ''kk''"
  "cc_contact_id stop_cmd = Some (UUID 60)" "cc_contact_point_id stop_cmd = Some (UUID 61)" "cc_actor_admin_id stop_cmd = Some (UUID 8)"
  "cc_expires_at stop_cmd = None" "cc_occurred_at stop_cmd = Some (Aware 100 0)"
  by (simp_all add: stop_cmd_def revocation_command_def revoke_cmd_def conversation_fields granted_row_def) (simp_all add: consent_row_def)

definition stop_note :: prepared_consent where "stop_note = consent_note Revoke ''kk'' 100"

lemma stop_normal: "normalize_consent later_env stop_cmd = Inr stop_note"
  using consent_actions [of Revoke]
  by (simp add: normalize_consent_def stop_fields consent_purposes whatsapp_text channel_text_normal [OF whatsapp_text(1)]
      consent_text_def consent_utc_def optional_utc_def to_utc_def stop_note_def consent_note_def)

lemma stop_prepared: "prepare_consent later_env (lone_store t es) stop_cmd = Inr stop_note"
proof -
  have e: "validate_contact_source (lone_store t es) (UUID 2) (UUID 3) (UUID 1) (UUID 20) = Inr (sample_conversation, crm_identity)"
    "contact_by_id (lone_store t es) (UUID 60) = Inr crm_contact"
    by (simp_all add: validate_contact_source_def get_conversation_def contact_by_id_def conversation_fields)
      (simp_all add: lone_store_def consent_store_def crm_store_def crm_identity_def sample_conversation_def)
  have n: "pn_action stop_note = Revoke" "pn_channel stop_note = ''whatsapp''" by (simp_all add: stop_note_def consent_note_def)
  show ?thesis
    by (simp add: prepare_consent_def stop_normal consent_source_def consent_subject_def stop_fields e n conversation_fields)
qed

lemma stop_recorded: "record_consent later_env stop_cmd (lone_store t es) =
    Inr ((lone_store t es)\<lparr>consent_records := [granted_row, stop_row]\<rparr>, stop_row, True)"
proof -
  have row: "new_consent later_env stop_cmd stop_note = stop_row"
    by (simp add: new_consent_def stop_fields stop_row_def consent_command_hash_def later_hash)
      (simp add: stop_note_def consent_note_def later_env_def)
  have "length (btrim ''v1'') > 0" "length (btrim ''whatsapp'') > 0" "length (btrim ''es'') > 0" "length (btrim ''c1'') > 0"
    "length (btrim ''kk'') > 0" by (simp_all add: btrim_def)
  then have "consent_checks stop_row" by (simp add: consent_checks_def stop_row_def whatsapp_text(1) deal_hash_def)
  then show ?thesis
    by (simp add: record_consent_def stop_prepared consent_receipt_def insert_consent_def Let_def row stop_fields)
      (simp add: stop_note_def consent_note_def granted_row_def consent_row_def stop_row_def)
qed


lemma stop_quarantine: "quarantine_work later_env (exact_scope (UUID 1) (UUID 61) ''whatsapp'') 100 (UUID 2) (UUID 8) (UUID 400) ''c1''
    [(run_task 70, granted_row)] ((lone_store (run_task 70) [])\<lparr>consent_records := rs\<rparr>) =
    Inr ((lone_store (quarantined_task later_env True 100 (run_task 70))
      [quarantine_event later_env True 100 (UUID 2) (UUID 8) (UUID 400) ''c1'' (run_task 70)])\<lparr>consent_records := rs\<rparr>, 1, 0)"
proof -
  let ?t = "quarantined_task later_env True 100 (run_task 70)"
  let ?e = "quarantine_event later_env True 100 (UUID 2) (UUID 8) (UUID 400) ''c1'' (run_task 70)"
  have x: "exact_scope (UUID 1) (UUID 61) ''whatsapp'' (run_task 70, granted_row)"
    by (simp add: exact_scope_def run_task_def deal_task_def granted_row_def consent_row_def)
  have t: "follow_up_task_checks ?t" "put_row ft_id ?t [run_task 70] = [?t]"
    by (simp_all add: put_row_def follow_up_task_checks_def quarantined_task_def quarantine_target_def quarantine_code_def Let_def
        run_task_def deal_task_def active_status_def non_negative_def target_channel_ok_def whatsapp_text(1) btrim_def deal_hash_def)
  have e: "follow_up_event_checks ?e" "fe_id ?e = UUID 400" "fe_state_version ?e = 1" "fe_outbound_message_id ?e = None"
      "fe_chat_message_id ?e = None" "fe_task_id ?e = UUID 70"
    by (simp_all add: follow_up_event_checks_def quarantine_event_def task_event_def Let_def quarantined_task_def quarantine_target_def
        quarantine_code_def run_task_def deal_task_def filled_def non_negative_def target_channel_ok_def whatsapp_text(1) btrim_def
        policy_command_hash_def later_hash) (simp_all add: deal_hash_def later_env_def)
  have k: "fe_idempotency_key ?e \<noteq> ''k0''" by (simp add: quarantine_event_def task_event_def Let_def)
  have "flush_task ?t ?e ((lone_store (run_task 70) [])\<lparr>consent_records := rs\<rparr>) =
      Inr ((lone_store ?t [?e])\<lparr>consent_records := rs\<rparr>)"
    by (simp add: flush_task_Inr t e task_message_clash_def follow_up_event_clash_def run_event_fields k k [symmetric])
      (simp add: lone_store_def)
  then show ?thesis by (simp add: x quarantine_target_def run_task_fields)
qed

lemma stop_work: "revoked_work ((lone_store (run_task 70) [])\<lparr>consent_records := [granted_row, stop_row]\<rparr>)
    (UUID 2) (UUID 3) (UUID 1) (UUID 61) ''whatsapp'' = [(run_task 70, granted_row)]"
  by (simp add: revoked_work_def granted_relied active_status_def run_task_fields List.map_filter_def)
    (simp add: run_task_def)

lemma stop_runs: "\<exists>s' out. revoke_follow_up_consent later_env revoke_cmd (lone_store (run_task 70) []) = Inr (s', out) \<and>
    follow_up_tasks s' = [quarantined_task later_env True 100 (run_task 70)] \<and> consent_records s' = [granted_row, stop_row]"
proof -
  have c: "get_conversation (lone_store (run_task 70) []) (UUID 1) = Some sample_conversation"
    "principal_contact_point (lone_store (run_task 70) []) (UUID 3) (UUID 61) = Inr (crm_contact, crm_point)"
    by (simp_all add: get_conversation_def principal_contact_point_def conversation_fields)
  have p: "assert_point_matches crm_point (Some ''whatsapp'') = Inr ()"
    by (simp add: assert_point_matches_def expected_kind_def conversation_fields)
  have f: "rv_routing_agent_id revoke_cmd = UUID 2" "rv_actor_admin_id revoke_cmd = UUID 8" "rv_source_conversation_id revoke_cmd = UUID 1"
    "rv_contact_point_id revoke_cmd = UUID 61" "rv_target_channel revoke_cmd = ''whatsapp''" "rv_correlation_id revoke_cmd = ''c1''"
    "rv_idempotency_key revoke_cmd = ''kk''" "rv_occurred_at revoke_cmd = None" by (simp_all add: revoke_cmd_def)
  have l: "fu_text ''c1'' ''correlation_id'' 120 = Inr ''c1''" "fu_text ''kk'' ''idempotency_key'' 220 = Inr ''kk''"
    by (simp_all add: fu_text_def)
  have "clock later_env = 100" "cr_id stop_row = UUID 400" by (simp_all add: later_env_def stop_row_def)
  then show ?thesis
    by (simp add: revoke_follow_up_consent_def f revoke_target c conversation_fields p lone_consent l
        stop_cmd_def [symmetric] stop_recorded stop_work stop_quarantine del: quarantine_work.simps)
qed

theorem revocation_stops_work_witness:
  "\<exists>s' out t. revoke_follow_up_consent later_env revoke_cmd (lone_store (run_task 70) []) = Inr (s', out) \<and>
     t \<in> set (follow_up_tasks s') \<and> ft_status t = FuCancelled \<and> \<not> (active_status (ft_status t) \<and> ft_consent_record_id t = cr_id granted_row)"
proof -
  from stop_runs obtain s' out where s': "revoke_follow_up_consent later_env revoke_cmd (lone_store (run_task 70) []) = Inr (s', out)"
    "follow_up_tasks s' = [quarantined_task later_env True 100 (run_task 70)]" "consent_records s' = [granted_row, stop_row]" by blast
  let ?t = "quarantined_task later_env True 100 (run_task 70)"
  have c: "get_conversation (lone_store (run_task 70) []) (rv_source_conversation_id revoke_cmd) = Some sample_conversation"
    "fu_target_channel (rv_target_channel revoke_cmd) = Inr ''whatsapp''"
    by (simp_all add: get_conversation_def revoke_cmd_def conversation_fields revoke_target)
  have g: "granted_row \<in> set (consent_records s')" "?t \<in> set (follow_up_tasks s')" by (simp_all add: s')
  have "\<not> (active_status (ft_status ?t) \<and> ft_consent_record_id ?t = cr_id granted_row)"
  proof
    assume a: "active_status (ft_status ?t) \<and> ft_consent_record_id ?t = cr_id granted_row"
    have "cr_id granted_row = ft_consent_record_id ?t" using a by simp
    from revocation_stops_work [OF s'(1) c g(2) _ g(1) this] a granted_relied show False
      by (simp add: revoke_cmd_def conversation_fields)
  qed
  with s' g(2) show ?thesis by (intro exI [of _ s'] exI [of _ out] exI [of _ ?t]) (simp add: quarantine_target_def run_task_fields)
qed


lemma started_store_tables: "conversations started_store = [sample_conversation]" "contacts started_store = [crm_contact]"
  "contact_points started_store = [crm_point]" "consent_records started_store = [granted_row]" "opportunities started_store = [deal_row]"
  "automation_policies started_store = [run_policy None None]" "outbounds started_store = []"
  "routes started_store = routes sample_store" "connections started_store = connections sample_store"
  "follow_up_events started_store = [run_event 70, run_event 71, started_event]"
  by (simp_all add: started_store_def run_tables)

lemma started_task_fields: "ft_lease_owner started_task = Some ''w1''" "ft_lease_expires_at started_task = Some 60000100"
  "ft_opportunity_id started_task = UUID 50" "ft_conversation_id started_task = Some (UUID 1)" "ft_contact_point_id started_task = Some (UUID 61)"
  "ft_assigned_agent_id started_task = UUID 2" "ft_scheduled_policy_version started_task = Some 0" "ft_kind started_task = CommercialFollowUp"
  "ft_assigned_operator_id started_task = None" "ft_scheduled_control_version started_task = Some 0"
  "ft_scheduled_automation_version started_task = Some 0" "ft_target_channel started_task = Some ''whatsapp''" "ft_correlation_id started_task = ''c0''"
  by (simp_all add: started_task_def claimed_task_def run_task_def deal_task_def)

definition run_graph :: execution_graph where
  "run_graph = \<lparr>xg_task = started_task, xg_opportunity = deal_row, xg_source = sample_conversation, xg_contact = crm_contact,
     xg_point = crm_point, xg_policy = run_policy None None\<rparr>"

lemma run_loads: "load_execution_graph started_store started_task = Inr run_graph"
proof -
  have "stored_policy started_store (UUID 2) = Some (run_policy None None)"
    by (simp add: stored_policy_def started_store_tables run_policy_def)
  moreover have "get_conversation started_store (UUID 1) = Some sample_conversation"
    by (simp add: get_conversation_def started_store_tables conversation_fields)
  moreover have "op_id deal_row = UUID 50" "op_contact_id deal_row = UUID 60" by (simp_all add: deal_row_def)
  ultimately show ?thesis
    by (simp add: load_execution_graph_def task_conversation_def started_task_fields started_store_tables conversation_fields run_graph_def)
qed

lemma run_consent: "effective_consent E (execution_query run_graph 100) started_store = Inr (True, Some granted_row)"
proof -
  have "started_store = started_store\<lparr>conversations := [sample_conversation], contacts := [crm_contact],
      contact_points := [crm_point], consent_records := [granted_row]\<rparr>"
    by (simp add: started_store_def run_store_def consent_store_def crm_store_def sample_store_def empty_store_def)
  with lone_granted [of E started_store] show ?thesis
    by (simp add: execution_query_def run_graph_def conversation_fields started_task_fields)
qed

lemma run_allowed: "assert_execution_allowed E started_store run_graph 100 = Inr ()"
proof -
  have "policy_failure started_task (Some (run_policy None None)) = None"
    by (simp add: policy_failure_def started_task_fields run_policy_def)
  moreover have "op_assigned_agent_id deal_row = UUID 2" "op_assigned_operator_id deal_row = None" "\<not> terminal_stage (op_stage deal_row)"
    by (simp_all add: deal_row_def terminal_stage_def)
  moreover have "cv_status sample_conversation = ''active''" "cv_control_mode sample_conversation = Automated"
    "cv_control_version sample_conversation = 0" "cv_automation_agent_id sample_conversation = UUID 2" "cv_automation_version sample_conversation = 0"
    by (simp_all add: sample_conversation_def)
  moreover have "ct_status crm_contact \<noteq> ContactArchived" "cp_verification_status crm_point = ''verified''"
    by (simp_all add: crm_contact_def crm_point_def)
  ultimately have "execution_failure started_store run_graph = None"
    by (simp add: execution_failure_def Let_def run_graph_def started_task_fields conversation_fields expected_kind_def)
  with run_consent show ?thesis by (simp add: assert_execution_allowed_def)
qed

lemma run_resolves: "resolve_delivery_conversation vault started_store run_graph = Inr sample_conversation"
proof -
  have digits: "digits_of ''+5491100'' = ''5491100''" "digits_of ''5491100'' = ''5491100''"
    by (simp_all add: digits_of_def is_digit_def)
  have conv: "delivery_conversations started_store run_graph ''whatsapp'' ''5491100'' = [sample_conversation]"
    by (simp add: delivery_conversations_def started_store_tables run_graph_def conversation_fields started_task_fields)
      (simp add: sample_conversation_def digits)
  have "\<exists>n. usable_route started_store sample_conversation ''whatsapp'' = Inr n \<and> cn_adapter_key n = ''meta_whatsapp_cloud''"
    by (simp add: usable_route_def started_store_tables sample_conversation_def sample_store_def)
  moreover have "\<exists>a. require_implemented_adapter ''whatsapp'' (Some ''meta_whatsapp_cloud'') = Inr a"
    by (simp add: require_implemented_adapter_def resolve_channel_adapter_def channel_adapters_def is_implemented_def)
  ultimately show ?thesis
    using call_number(1) conv
    by (auto simp: resolve_delivery_conversation_def run_graph_def started_task_fields digits)
qed


lemma run_prepared: "prepare_enqueue started_store (delivery_command started_task sample_conversation) =
    Inr ([(''text'', JStr (compose_message CommercialFollowUp))], sample_conversation, UUID 4, ''5491100'')"
proof -
  have pay: "normalize_outbound KText (PDict [(KStr ''text'', PStr (compose_message CommercialFollowUp))]) =
      Inr [(''text'', JStr (compose_message CommercialFollowUp))]"
    by (simp add: normalize_outbound_def sorted_items_def str_keys_def max_outbound_bytes_def utf8_length_def quote_def
        escape_char_def short_escape_def validate_text_payload_def require_exact_keys_def require_text_def field_def strip_def is_space_def)
  have s: "get_scoped started_store (UUID 1) (UUID 2) = Inr sample_conversation"
    by (simp add: get_scoped_def scoped_conversation_def started_store_tables conversation_fields)
  have key: "length (delivery_key (UUID 70)) \<le> 255" "delivery_key (UUID 70) \<noteq> []" by code_simp+
  have t: "outbound_target sample_conversation = Inr (UUID 4, ''5491100'')"
    by (simp add: outbound_target_def sample_conversation_def strip_def is_space_def)
  have f: "oc_idempotency_key (delivery_command started_task sample_conversation) = delivery_key (UUID 70)"
    "oc_correlation_id (delivery_command started_task sample_conversation) = ''c0''"
    "oc_kind (delivery_command started_task sample_conversation) = KText"
    "oc_payload (delivery_command started_task sample_conversation) = PDict [(KStr ''text'', PStr (compose_message CommercialFollowUp))]"
    "oc_conversation_id (delivery_command started_task sample_conversation) = UUID 1"
    "oc_agent_id (delivery_command started_task sample_conversation) = UUID 2"
    "oc_chat_message_id (delivery_command started_task sample_conversation) = None"
    by (simp_all only: delivery_command_def outbound_command.simps started_row started_task_fields conversation_fields)
  have c: "strip ''c0'' = ''c0''" by (simp add: strip_def is_space_def)
  have "\<not> 255 < length (delivery_key (UUID 70))" using key(1) by simp
  then show ?thesis
    by (simp add: prepare_enqueue_def f pay s t c key(2) check_chat_message_def del: compose_message.simps)
qed


definition next_env :: env where
  "next_env = later_env\<lparr>uuid5 := (\<lambda>ns t. UUID 401)\<rparr>"

lemma next_hash: "command_digest next_env b p = deal_hash"
  by (simp add: command_digest_def next_env_def later_env_def sample_env_def deal_hash_def)

lemma run_enqueues: "\<exists>s' m. enqueue_outbound next_env started_store (delivery_command started_task sample_conversation) = Inr (s', m, False)"
proof -
  have hash: "outbound_hash next_env c d p cmd = deal_hash" for c d p cmd
    by (simp add: outbound_hash_def next_hash)
  have r: "resolve_route_snapshot started_store sample_conversation = Inr (hd (routes sample_store), hd (connections sample_store))"
    "outbound_receipt started_store k t = None" for k t
    by (simp_all add: resolve_route_snapshot_def started_store_tables sample_store_def sample_conversation_def outbound_receipt_def)
  have key: "delivery_key (UUID 70) \<noteq> []" "strip ''c0'' \<noteq> []" by (simp_all add: delivery_key_def strip_def is_space_def)
  have f: "oc_idempotency_key (delivery_command started_task sample_conversation) = delivery_key (UUID 70)"
    "oc_correlation_id (delivery_command started_task sample_conversation) = ''c0''"
    "oc_sender_type (delivery_command started_task sample_conversation) = ByAutomation"
    "oc_sender_admin_id (delivery_command started_task sample_conversation) = None"
    "oc_control_version (delivery_command started_task sample_conversation) = 0"
    "oc_automation_agent_id (delivery_command started_task sample_conversation) = Some (UUID 2)"
    "oc_automation_version (delivery_command started_task sample_conversation) = Some 0"
    by (simp_all add: delivery_command_def started_row started_task_fields) (simp_all add: sample_conversation_def)
  have fence: "assert_sender_fence sample_conversation ByAutomation None 0 (Some (UUID 2)) (Some 0) = Inr ()"
    by (simp add: assert_sender_fence_def sample_conversation_def)
  let ?m = "queued_message next_env (uuid4 next_env (draws started_store)) sample_conversation (hd (routes sample_store))
      (hd (connections sample_store)) (UUID 4) [(''text'', JStr (compose_message CommercialFollowUp))] ''5491100'' deal_hash
      (delivery_command started_task sample_conversation)"
  have ok: "outbound_checks ?m"
    by (simp add: outbound_checks_def queued_message_def payload_shape_def is_jstr_def field_def sample_store_def sample_conversation_def
        delivery_command_def started_task_fields started_row deal_hash_def key del: compose_message.simps)
  show ?thesis
    unfolding enqueue_outbound_def run_prepared
    using ok by (simp add: Let_def hash r f fence fresh_def put_conversation_def insert_outbound_def started_store_tables del: compose_message.simps)
qed



end
