(* ===== verification/Quotes.thy ===== *)
theory Quotes
  imports OpportunityOps InboundPayload
begin

text \<open>
  \<open>services/commercial/quotes.py\<close>: quote requests and the versions an external authority issues for
  them. The service never makes a price up: a request starts unavailable or in review, and a version enters
  only with the name, release, reference and content digest of the authority that issued it.
\<close>

section \<open>Commands and their normalisation\<close>

datatype quote_error =
    QuoteNotFound
  | QuoteVersionConflict
  | QuoteIdempotency
  | InvalidQuote string
  | QuoteOpportunity opportunity_error
  | QuoteIntegrity

fun quote_status_value :: "quote_status \<Rightarrow> string" where
  "quote_status_value QuoteUnavailable = ''unavailable''"
| "quote_status_value QuoteReviewRequired = ''review_required''"
| "quote_status_value QuoteIssued = ''issued''"
| "quote_status_value QuoteCancelled = ''cancelled''"

definition quote_enum :: "string \<Rightarrow> quote_error + quote_status" where
  "quote_enum v =
     (case find (\<lambda>m. quote_status_value m = v) [QuoteUnavailable, QuoteReviewRequired, QuoteIssued, QuoteCancelled] of
        None \<Rightarrow> Inl (InvalidQuote ''invalid quote request status'') | Some m \<Rightarrow> Inr m)"

definition quote_text :: "string \<Rightarrow> string \<Rightarrow> nat \<Rightarrow> quote_error + string" where
  "quote_text v name max_length =
     (let t = strip v in
      if t = [] \<or> max_length < length t then Inl (InvalidQuote (''invalid '' @ name)) else Inr t)"

definition quote_code :: "string \<Rightarrow> quote_error + string" where
  "quote_code v =
     (let t = strip v in
      if \<not> safe_code_pattern t then Inl (InvalidQuote ''invalid quote failure code'') else Inr t)"

definition quote_utc :: "datetime \<Rightarrow> string \<Rightarrow> quote_error + instant" where
  "quote_utc d name =
     (case to_utc d of None \<Rightarrow> Inl (InvalidQuote (name @ '' must include a timezone'')) | Some t \<Rightarrow> Inr t)"

text \<open>\<open>_requirements\<close>: the canonical text and its re-reading, which is the value with sorted keys. (A NaN
  or an infinity, which \<open>json.dumps\<close> writes and the JSONB column refuses, is refused here already.)\<close>

definition max_requirements_bytes :: nat where "max_requirements_bytes = 65536"

definition quote_requirements :: "pyval \<Rightarrow> quote_error + json" where
  "quote_requirements v =
     (case v of
        PDict _ \<Rightarrow>
          (case to_json v of
             None \<Rightarrow> Inl (InvalidQuote ''requirements must be JSON serializable'')
           | Some j \<Rightarrow>
               if max_requirements_bytes < utf8_length (dumps True j)
               then Inl (InvalidQuote ''requirements payload is too large'') else Inr j)
      | _ \<Rightarrow> Inl (InvalidQuote ''requirements must be an object''))"

definition quote_command_hash :: "env \<Rightarrow> (string \<times> json) list \<Rightarrow> string" where
  "quote_command_hash E payload = command_digest E True payload"

definition quote_assert_hash :: "string \<Rightarrow> string \<Rightarrow> quote_error + unit" where
  "quote_assert_hash actual expected =
     (if \<not> sha256_hex actual \<or> actual \<noteq> expected then Inl QuoteIdempotency else Inr ())"

definition assert_quote_open :: "opportunity \<Rightarrow> quote_error + unit" where
  "assert_quote_open p =
     (if op_stage p \<in> {StWon, StLost} then Inl (InvalidQuote ''commercial opportunity is closed'') else Inr ())"

definition assert_contact_available :: "store \<Rightarrow> uuid \<Rightarrow> quote_error + unit" where
  "assert_contact_available s cid =
     (case find (\<lambda>c. ct_id c = cid) (contacts s) of
        None \<Rightarrow> Inl (InvalidQuote ''commercial contact is unavailable'')
      | Some c \<Rightarrow>
          if ct_status c = ContactArchived then Inl (InvalidQuote ''commercial contact is unavailable'') else Inr ())"

section \<open>Rows\<close>

text \<open>The insertions and the update under the constraints of \<open>models/quote.py\<close>.\<close>

definition insert_quote_request :: "quote_request \<Rightarrow> store \<Rightarrow> quote_error + store" where
  "insert_quote_request r s =
     (if \<not> quote_request_checks r \<or>
         list_ex (\<lambda>x. qr_id x = qr_id r \<or>
           (qr_opportunity_id x = qr_opportunity_id r \<and> qr_idempotency_key x = qr_idempotency_key r)) (quote_requests s)
      then Inl QuoteIntegrity else Inr (s\<lparr>quote_requests := quote_requests s @ [r]\<rparr>))"

definition update_quote_request :: "quote_request \<Rightarrow> store \<Rightarrow> quote_error + store" where
  "update_quote_request r s =
     (if \<not> quote_request_checks r then Inl QuoteIntegrity
      else Inr (s\<lparr>quote_requests := put_row qr_id r (quote_requests s)\<rparr>))"

definition quote_version_clash :: "quote_version \<Rightarrow> quote_version \<Rightarrow> bool" where
  "quote_version_clash v x \<longleftrightarrow> qv_id x = qv_id v \<or>
     (qv_quote_request_id x = qv_quote_request_id v \<and>
      (qv_version x = qv_version v \<or> qv_idempotency_key x = qv_idempotency_key v)) \<or>
     (qv_authority_name x = qv_authority_name v \<and> qv_external_reference x = qv_external_reference v)"

definition insert_quote_version :: "quote_version \<Rightarrow> store \<Rightarrow> quote_error + store" where
  "insert_quote_version v s =
     (if \<not> quote_version_checks v \<or> list_ex (quote_version_clash v) (quote_versions s)
      then Inl QuoteIntegrity else Inr (s\<lparr>quote_versions := quote_versions s @ [v]\<rparr>))"

section \<open>Requesting a quote\<close>

record quote_command =
  qc_opportunity_id :: uuid
  qc_actor_agent_id :: uuid
  qc_actor_operator_id :: "uuid option"
  qc_requirements :: pyval
  qc_correlation_id :: string
  qc_idempotency_key :: string
  qc_status :: string
  qc_failure_code :: string

record prepared_quote =
  pq_status :: quote_status
  pq_requirements :: json
  pq_failure :: string
  pq_correlation :: string
  pq_key :: string
  pq_opportunity :: opportunity
  pq_command_hash :: string

definition quote_literal :: "opportunity \<Rightarrow> quote_status \<Rightarrow> json \<Rightarrow> string \<Rightarrow> (string \<times> json) list" where
  "quote_literal p st requirements failure =
     [(''failure_code'', JStr failure), (''opportunity_id'', uuid_json (op_id p)), (''requirements'', requirements),
      (''status'', JStr (quote_status_value st))]"

text \<open>Everything before the lookup of the receipt.\<close>

definition prepare_quote :: "env \<Rightarrow> store \<Rightarrow> quote_command \<Rightarrow> quote_error + prepared_quote" where
  "prepare_quote E s cmd =
     bindE (quote_enum (qc_status cmd)) (\<lambda>st.
     bindE (require (st \<in> {QuoteUnavailable, QuoteReviewRequired})
              (InvalidQuote ''a quote request starts unavailable or review_required'')) (\<lambda>_.
     bindE (quote_requirements (qc_requirements cmd)) (\<lambda>requirements.
     bindE (quote_code (qc_failure_code cmd)) (\<lambda>failure.
     bindE (quote_text (qc_correlation_id cmd) ''correlation_id'' 120) (\<lambda>correlation.
     bindE (quote_text (qc_idempotency_key cmd) ''idempotency_key'' 220) (\<lambda>key.
     bindE (mapErr QuoteOpportunity
              (lock_owned s (qc_opportunity_id cmd) (qc_actor_agent_id cmd) (qc_actor_operator_id cmd))) (\<lambda>p.
     bindE (assert_quote_open p) (\<lambda>_.
     bindE (assert_contact_available s (op_contact_id p)) (\<lambda>_.
       Inr \<lparr>pq_status = st, pq_requirements = requirements, pq_failure = failure, pq_correlation = correlation,
            pq_key = key, pq_opportunity = p,
            pq_command_hash = quote_command_hash E (quote_literal p st requirements failure)\<rparr>)))))))))"

definition quote_receipt :: "store \<Rightarrow> uuid \<Rightarrow> string \<Rightarrow> quote_request option" where
  "quote_receipt s oid key = find (\<lambda>r. qr_opportunity_id r = oid \<and> qr_idempotency_key r = key) (quote_requests s)"

definition new_quote_request :: "env \<Rightarrow> quote_command \<Rightarrow> prepared_quote \<Rightarrow> quote_request" where
  "new_quote_request E cmd n =
     \<lparr>qr_id = uuid5 E (op_id (pq_opportunity n)) (''quote-request:'' @ pq_key n),
      qr_opportunity_id = op_id (pq_opportunity n), qr_requested_by_agent_id = qc_actor_agent_id cmd,
      qr_requested_by_operator_id = qc_actor_operator_id cmd, qr_status = pq_status n, qr_state_version = 0,
      qr_requirements = pq_requirements n, qr_failure_code = Some (pq_failure n),
      qr_correlation_id = pq_correlation n, qr_idempotency_key = pq_key n, qr_command_hash = pq_command_hash n\<rparr>"

definition request_quote ::
  "env \<Rightarrow> quote_command \<Rightarrow> store \<Rightarrow> quote_error + (store \<times> quote_request \<times> bool)" where
  "request_quote E cmd s =
     bindE (prepare_quote E s cmd) (\<lambda>n.
     case quote_receipt s (op_id (pq_opportunity n)) (pq_key n) of
       Some x \<Rightarrow> bindE (quote_assert_hash (qr_command_hash x) (pq_command_hash n)) (\<lambda>_. Inr (s, x, False))
     | None \<Rightarrow>
         let r = new_quote_request E cmd n in bindE (insert_quote_request r s) (\<lambda>s1. Inr (s1, r, True)))"

section \<open>Issuing a version\<close>

record issue_command =
  is_quote_request_id :: uuid
  is_actor_agent_id :: uuid
  is_actor_operator_id :: "uuid option"
  is_expected_version :: int
  is_authority_name :: string
  is_authority_version :: string
  is_external_reference :: string
  is_content_hash :: string
  is_issued_at :: datetime
  is_correlation_id :: string
  is_idempotency_key :: string
  is_recorded_at :: "datetime option"

record prepared_issue =
  pu_authority :: string
  pu_release :: string
  pu_reference :: string
  pu_content_hash :: string
  pu_issued_at :: instant
  pu_recorded_at :: instant
  pu_correlation :: string
  pu_key :: string
  pu_command_hash :: string

definition issue_literal ::
  "issue_command \<Rightarrow> string \<Rightarrow> string \<Rightarrow> string \<Rightarrow> string \<Rightarrow> instant \<Rightarrow> (string \<times> json) list" where
  "issue_literal cmd authority release reference content issued =
     [(''authority_name'', JStr authority), (''authority_version'', JStr release), (''content_hash'', JStr content),
      (''expected_version'', JInt (is_expected_version cmd)), (''external_reference'', JStr reference),
      (''issued_at'', JStr (isoformat_utc issued)), (''quote_request_id'', uuid_json (is_quote_request_id cmd))]"

definition prepare_issue :: "env \<Rightarrow> issue_command \<Rightarrow> quote_error + prepared_issue" where
  "prepare_issue E cmd =
     bindE (quote_text (is_authority_name cmd) ''authority_name'' 120) (\<lambda>authority.
     bindE (quote_text (is_authority_version cmd) ''authority_version'' 80) (\<lambda>release.
     bindE (quote_text (is_external_reference cmd) ''external_reference'' 255) (\<lambda>reference.
     let content = strip (is_content_hash cmd) in
     bindE (require (sha256_hex content) (InvalidQuote ''content_hash must be lowercase SHA-256 hex'')) (\<lambda>_.
     bindE (quote_utc (is_issued_at cmd) ''issued_at'') (\<lambda>issued.
     bindE (quote_utc (case is_recorded_at cmd of Some d \<Rightarrow> d | None \<Rightarrow> Aware (clock E) 0) ''recorded_at'') (\<lambda>recorded.
     bindE (require (issued \<le> recorded) (InvalidQuote ''issued_at cannot be in the future'')) (\<lambda>_.
     bindE (quote_text (is_correlation_id cmd) ''correlation_id'' 120) (\<lambda>correlation.
     bindE (quote_text (is_idempotency_key cmd) ''idempotency_key'' 220) (\<lambda>key.
     bindE (require (0 \<le> is_expected_version cmd) QuoteVersionConflict) (\<lambda>_.
       Inr \<lparr>pu_authority = authority, pu_release = release, pu_reference = reference, pu_content_hash = content,
            pu_issued_at = issued, pu_recorded_at = recorded, pu_correlation = correlation, pu_key = key,
            pu_command_hash =
              quote_command_hash E (issue_literal cmd authority release reference content issued)\<rparr>))))))))))"

definition load_quote_request :: "store \<Rightarrow> uuid \<Rightarrow> quote_error + quote_request" where
  "load_quote_request s qid =
     (case find (\<lambda>r. qr_id r = qid) (quote_requests s) of None \<Rightarrow> Inl QuoteNotFound | Some r \<Rightarrow> Inr r)"

text \<open>The checks of the request and its opportunity that a retry repeats.\<close>

definition issue_target :: "store \<Rightarrow> issue_command \<Rightarrow> quote_error + quote_request" where
  "issue_target s cmd =
     bindE (load_quote_request s (is_quote_request_id cmd)) (\<lambda>r.
     bindE (mapErr (\<lambda>e. if e = OppNotFound then QuoteNotFound else QuoteOpportunity e)
              (lock_owned s (qr_opportunity_id r) (is_actor_agent_id cmd) (is_actor_operator_id cmd))) (\<lambda>p.
     bindE (assert_quote_open p) (\<lambda>_.
     bindE (assert_contact_available s (op_contact_id p)) (\<lambda>_. Inr r))))"

definition issue_receipt :: "store \<Rightarrow> uuid \<Rightarrow> string \<Rightarrow> quote_version option" where
  "issue_receipt s qid key = find (\<lambda>v. qv_quote_request_id v = qid \<and> qv_idempotency_key v = key) (quote_versions s)"

text \<open>\<open>select(func.max(version))\<close>, \<open>None\<close> counted as zero.\<close>

definition request_versions :: "store \<Rightarrow> uuid \<Rightarrow> int list" where
  "request_versions s qid = map qv_version (filter (\<lambda>v. qv_quote_request_id v = qid) (quote_versions s))"

definition next_quote_version :: "store \<Rightarrow> uuid \<Rightarrow> int" where
  "next_quote_version s qid = (case request_versions s qid of [] \<Rightarrow> 0 | v # vs \<Rightarrow> foldr max vs v) + 1"

definition new_quote_version :: "env \<Rightarrow> store \<Rightarrow> prepared_issue \<Rightarrow> quote_request \<Rightarrow> quote_version" where
  "new_quote_version E s n r =
     \<lparr>qv_id = uuid5 E (qr_id r) (''quote-version:'' @ pu_key n), qv_quote_request_id = qr_id r,
      qv_version = next_quote_version s (qr_id r), qv_status = QuoteIssued, qv_authority_name = pu_authority n,
      qv_authority_version = pu_release n, qv_external_reference = pu_reference n, qv_content_hash = pu_content_hash n,
      qv_correlation_id = pu_correlation n, qv_idempotency_key = pu_key n, qv_command_hash = pu_command_hash n,
      qv_issued_at = pu_issued_at n, qv_created_at = pu_recorded_at n\<rparr>"

definition issued_request :: "quote_request \<Rightarrow> quote_request" where
  "issued_request r =
     r\<lparr>qr_status := QuoteIssued, qr_failure_code := None, qr_state_version := qr_state_version r + 1\<rparr>"

definition issue_authoritative_version ::
  "env \<Rightarrow> issue_command \<Rightarrow> store \<Rightarrow> quote_error + (store \<times> (quote_request \<times> quote_version) \<times> bool)" where
  "issue_authoritative_version E cmd s =
     bindE (prepare_issue E cmd) (\<lambda>n.
     bindE (issue_target s cmd) (\<lambda>r.
     case issue_receipt s (qr_id r) (pu_key n) of
       Some v \<Rightarrow> bindE (quote_assert_hash (qv_command_hash v) (pu_command_hash n)) (\<lambda>_. Inr (s, (r, v), False))
     | None \<Rightarrow>
         bindE (require (qr_status r \<noteq> QuoteCancelled)
                  (InvalidQuote ''a cancelled quote request cannot be issued'')) (\<lambda>_.
         bindE (require (qr_state_version r = is_expected_version cmd) QuoteVersionConflict) (\<lambda>_.
         let v = new_quote_version E s n r; r1 = issued_request r in
         bindE (update_quote_request r1 s) (\<lambda>s1.
         bindE (insert_quote_version v s1) (\<lambda>s2. Inr (s2, (r1, v), True)))))))"

section \<open>The operations by cases\<close>

lemma quote_assert_hash_Inr [simp]: "quote_assert_hash a b = Inr u \<longleftrightarrow> sha256_hex a \<and> a = b"
  by (auto simp: quote_assert_hash_def)

lemma insert_quote_request_Inr: "insert_quote_request r s = Inr s' \<longleftrightarrow> quote_request_checks r \<and>
    (\<forall>x\<in>set (quote_requests s). qr_id x \<noteq> qr_id r \<and>
       \<not> (qr_opportunity_id x = qr_opportunity_id r \<and> qr_idempotency_key x = qr_idempotency_key r)) \<and>
    s' = s\<lparr>quote_requests := quote_requests s @ [r]\<rparr>"
  by (auto simp: insert_quote_request_def list_ex_iff)

lemma update_quote_request_Inr: "update_quote_request r s = Inr s' \<longleftrightarrow> quote_request_checks r \<and>
    s' = s\<lparr>quote_requests := put_row qr_id r (quote_requests s)\<rparr>"
  by (auto simp: update_quote_request_def)

lemma insert_quote_version_Inr: "insert_quote_version v s = Inr s' \<longleftrightarrow> quote_version_checks v \<and>
    (\<forall>x\<in>set (quote_versions s). \<not> quote_version_clash v x) \<and> s' = s\<lparr>quote_versions := quote_versions s @ [v]\<rparr>"
  by (auto simp: insert_quote_version_def list_ex_iff)

lemma quote_cases:
  assumes "request_quote E cmd s = Inr (s', x, b)"
  obtains (replay) n where "prepare_quote E s cmd = Inr n" "\<not> b" "s' = s"
      "quote_receipt s (op_id (pq_opportunity n)) (pq_key n) = Some x" "sha256_hex (qr_command_hash x)"
      "qr_command_hash x = pq_command_hash n"
  | (first) n where "prepare_quote E s cmd = Inr n" b "quote_receipt s (op_id (pq_opportunity n)) (pq_key n) = None"
      "x = new_quote_request E cmd n" "quote_request_checks x" "qr_id x \<notin> qr_id ` set (quote_requests s)"
      "s' = s\<lparr>quote_requests := quote_requests s @ [x]\<rparr>"
proof -
  from assms obtain n where n: "prepare_quote E s cmd = Inr n" by (auto simp: request_quote_def bindE_eq_Inr)
  show thesis
  proof (cases "quote_receipt s (op_id (pq_opportunity n)) (pq_key n)")
    case (Some y)
    with assms n show thesis by (intro replay [OF n]) (auto simp: request_quote_def bindE_eq_Inr)
  next
    case None
    with assms n have f: b "x = new_quote_request E cmd n" "quote_request_checks x"
      "\<forall>y\<in>set (quote_requests s). qr_id y \<noteq> qr_id x" "s' = s\<lparr>quote_requests := quote_requests s @ [x]\<rparr>"
      by (auto simp: request_quote_def bindE_eq_Inr Let_def insert_quote_request_Inr)
    from f(4) have "qr_id x \<notin> qr_id ` set (quote_requests s)" by (metis imageE)
    with f show thesis by (intro first [OF n f(1) None])
  qed
qed

lemma issue_cases:
  assumes "issue_authoritative_version E cmd s = Inr (s', (r1, v), b)"
  obtains (replay) n where "prepare_issue E cmd = Inr n" "\<not> b" "s' = s" "issue_target s cmd = Inr r1"
      "issue_receipt s (qr_id r1) (pu_key n) = Some v" "sha256_hex (qv_command_hash v)" "qv_command_hash v = pu_command_hash n"
  | (first) n r where "prepare_issue E cmd = Inr n" b "issue_target s cmd = Inr r"
      "issue_receipt s (qr_id r) (pu_key n) = None" "qr_status r \<noteq> QuoteCancelled"
      "qr_state_version r = is_expected_version cmd" "r1 = issued_request r" "v = new_quote_version E s n r"
      "quote_request_checks r1" "quote_version_checks v" "\<forall>x\<in>set (quote_versions s). \<not> quote_version_clash v x"
      "s' = s\<lparr>quote_requests := put_row qr_id r1 (quote_requests s), quote_versions := quote_versions s @ [v]\<rparr>"
proof -
  from assms obtain n r where n: "prepare_issue E cmd = Inr n" "issue_target s cmd = Inr r"
    by (auto simp: issue_authoritative_version_def bindE_eq_Inr)
  show thesis
  proof (cases "issue_receipt s (qr_id r) (pu_key n)")
    case (Some y)
    with assms n show thesis by (intro replay [OF n(1)]) (auto simp: issue_authoritative_version_def bindE_eq_Inr)
  next
    case None
    with assms n show thesis
      by (intro first [OF n(1) _ n(2) None])
        (auto simp: issue_authoritative_version_def bindE_eq_Inr Let_def update_quote_request_Inr insert_quote_version_Inr)
  qed
qed

lemma issue_targetD: "issue_target s cmd = Inr r \<Longrightarrow> r \<in> set (quote_requests s) \<and> qr_id r = is_quote_request_id cmd"
  by (auto simp: issue_target_def bindE_eq_Inr load_quote_request_def split: option.splits dest: find_SomeD)

end
