(* ===== verification/QuotePromises.thy ===== *)
theory QuotePromises
  imports Quotes OpportunityRetries OpportunityWitnesses
begin

text \<open>
  What the quotes promise: the versions of a request are numbered from one without a gap and never change,
  a request is issued exactly when it has a version, an external reference backs one version at most, and
  the commands are idempotent.
\<close>

section \<open>All operations\<close>

inductive quote_op :: "store \<Rightarrow> store \<Rightarrow> bool" where
  qo_request: "request_quote E cmd1 s = Inr (s', r1) \<Longrightarrow> quote_op s s'"
| qo_issue: "issue_authoritative_version E cmd2 s = Inr (s', r2) \<Longrightarrow> quote_op s s'"
| qo_elsewhere: "quote_requests s' = quote_requests s \<Longrightarrow> quote_versions s' = quote_versions s \<Longrightarrow> quote_op s s'"

definition evidence_of :: "quote_version \<Rightarrow> string \<times> string" where
  "evidence_of v = (qv_authority_name v, qv_external_reference v)"

definition numbered :: "store \<Rightarrow> quote_request \<Rightarrow> bool" where
  "numbered s r \<longleftrightarrow> 0 \<le> qr_state_version r \<and> request_versions s (qr_id r) = [1 .. qr_state_version r] \<and>
     (qr_status r = QuoteIssued \<longleftrightarrow> 0 < qr_state_version r)"

definition quote_inv :: "store \<Rightarrow> bool" where
  "quote_inv s \<longleftrightarrow> distinct (map qr_id (quote_requests s)) \<and> (\<forall>r\<in>set (quote_requests s). numbered s r) \<and>
     (\<forall>v\<in>set (quote_versions s). qv_quote_request_id v \<in> qr_id ` set (quote_requests s)) \<and>
     distinct (map evidence_of (quote_versions s))"

lemma foldr_max: "foldr max xs v = Max (insert v (set xs))" for v :: int
  by (induction xs) (simp_all add: insert_commute [of v])

lemma keys_put_row: "key ` set (put_row key r t) = key ` set t"
  by (metis map_key_put_row list.set_map)

lemma next_numbered: "numbered s r \<Longrightarrow> next_quote_version s (qr_id r) = qr_state_version r + 1"
proof -
  assume n: "numbered s r"
  show ?thesis
  proof (cases "qr_state_version r = 0")
    case True
    with n show ?thesis by (simp add: numbered_def next_quote_version_def)
  next
    case False
    with n have "[1 .. qr_state_version r] = 1 # [2 .. qr_state_version r]"
      by (simp add: numbered_def upto_rec1)
    moreover from this have "insert 1 (set [2 .. qr_state_version r]) = {1 .. qr_state_version r}"
      by (metis set_upto list.simps(15))
    moreover have "Max {1 .. qr_state_version r} = qr_state_version r"
      using n False by (intro Max_eqI) (auto simp: numbered_def)
    ultimately show ?thesis using n
      by (simp only: numbered_def next_quote_version_def list.case foldr_max)
  qed
qed

lemma request_versions_append:
  "request_versions (s\<lparr>quote_requests := rs, quote_versions := quote_versions s @ [v]\<rparr>) qid =
     request_versions s qid @ (if qv_quote_request_id v = qid then [qv_version v] else [])"
  by (simp add: request_versions_def)

lemma request_step:
  assumes "request_quote E cmd s = Inr (s', x, b)" "quote_inv s"
  shows "quote_inv s'"
  using assms(1)
proof (cases rule: quote_cases)
  case (first n)
  have "qv_quote_request_id v \<noteq> qr_id x" if "v \<in> set (quote_versions s)" for v
    using that first(6) assms(2) unfolding quote_inv_def by metis
  then have fresh_row: "request_versions s (qr_id x) = []" by (simp add: request_versions_def filter_empty_conv)
  have "pq_status n \<noteq> QuoteIssued" using first(1) by (auto simp: prepare_quote_def bindE_eq_Inr)
  then have row: "numbered s' x"
    using fresh_row by (simp add: numbered_def first(4,7) new_quote_request_def request_versions_def)
  have "numbered s' r" if "r \<in> set (quote_requests s)" for r
    using that assms(2) by (simp add: numbered_def first(7) quote_inv_def request_versions_def)
  with row first(6) assms(2) show ?thesis by (auto simp: quote_inv_def first(7))
qed (use assms(2) in simp)

lemma issue_step:
  assumes "issue_authoritative_version E cmd s = Inr (s', (r1, v), b)" "quote_inv s"
  shows "quote_inv s'"
  using assms(1)
proof (cases rule: issue_cases)
  case (first n r)
  have r: "r \<in> set (quote_requests s)" "qr_id r1 = qr_id r" "qr_state_version r1 = qr_state_version r + 1"
    "qr_status r1 = QuoteIssued" using issue_targetD [OF first(3)] by (simp_all add: first(7) issued_request_def)
  have old: "numbered s r" using r(1) assms(2) by (simp add: quote_inv_def)
  have v: "qv_quote_request_id v = qr_id r" "qv_version v = qr_state_version r + 1"
    using next_numbered [OF old] by (simp_all add: first(8) new_quote_version_def)
  have "evidence_of v \<notin> evidence_of ` set (quote_versions s)"
    using first(11) by (auto simp: evidence_of_def quote_version_clash_def)
  moreover have "numbered s' r1"
    using old r v upto_rec2 [of 1 "qr_state_version r + 1"]
    by (simp add: numbered_def first(12) request_versions_append)
  moreover have "numbered s' q" if "q \<in> set (quote_requests s)" "qr_id q \<noteq> qr_id r" for q
    using that assms(2) v by (simp add: numbered_def first(12) request_versions_append quote_inv_def)
  ultimately have "\<forall>q\<in>set (quote_requests s'). numbered s' q"
    using r(2) by (auto simp: first(12) set_put_row)
  then show ?thesis
    using assms(2) r v \<open>evidence_of v \<notin> evidence_of ` set (quote_versions s)\<close>
    by (simp add: quote_inv_def first(12) table_simps keys_put_row)
qed (use assms(2) in simp)

lemma quote_op_step:
  assumes "quote_op s s'" "quote_inv s"
  shows "quote_inv s' \<and> set (quote_versions s) \<subseteq> set (quote_versions s')"
  using assms
proof (induction rule: quote_op.induct)
  case (qo_request E cmd s s' r)
  moreover obtain x b where r: "r = (x, b)" by (cases r)
  ultimately have run: "request_quote E cmd s = Inr (s', x, b)" by simp
  have "quote_versions s' = quote_versions s" using run by (cases rule: quote_cases) simp_all
  with request_step [OF run] qo_request(2) show ?case by simp
next
  case (qo_issue E cmd s s' r)
  moreover obtain q v b where r: "r = ((q, v), b)" by (metis surj_pair)
  ultimately have run: "issue_authoritative_version E cmd s = Inr (s', (q, v), b)" by simp
  have "set (quote_versions s) \<subseteq> set (quote_versions s')" using run by (cases rule: issue_cases) auto
  with issue_step [OF run] qo_issue(2) show ?case by simp
next
  case (qo_elsewhere s' s)
  then show ?case by (simp add: quote_inv_def numbered_def request_versions_def)
qed

lemma quote_ops_step:
  assumes "quote_op\<^sup>*\<^sup>* s s'" "quote_inv s"
  shows "quote_inv s' \<and> set (quote_versions s) \<subseteq> set (quote_versions s')"
  using assms by (induction rule: rtranclp_induct) (auto dest: quote_op_step)

text \<open>C16: whatever commands run, the versions of a request carry the numbers one up to its state version,
  once each and in order of issue; a request is issued exactly when it has a version; a version once issued
  is never changed or removed; and no two versions rest on the same reference of the same authority.\<close>

theorem quote_versions_gapless:
  assumes "quote_inv s" "quote_op\<^sup>*\<^sup>* s s'"
  shows "(\<forall>r\<in>set (quote_requests s'). request_versions s' (qr_id r) = [1 .. qr_state_version r] \<and>
      (qr_status r = QuoteIssued \<longleftrightarrow> request_versions s' (qr_id r) \<noteq> [])) \<and>
    set (quote_versions s) \<subseteq> set (quote_versions s') \<and> distinct (map evidence_of (quote_versions s'))"
proof -
  from quote_ops_step [OF assms(2,1)] have inv: "quote_inv s'" and kept: "set (quote_versions s) \<subseteq> set (quote_versions s')"
    by simp_all
  from inv have "\<forall>r\<in>set (quote_requests s'). numbered s' r" "distinct (map evidence_of (quote_versions s'))"
    by (simp_all add: quote_inv_def)
  with kept show ?thesis by (auto simp: numbered_def)
qed

section \<open>Idempotency\<close>

definition quote_valid :: "env \<Rightarrow> store \<Rightarrow> quote_command \<Rightarrow> bool" where
  "quote_valid E s cmd \<longleftrightarrow> (case prepare_quote E s cmd of Inl _ \<Rightarrow> False | Inr n \<Rightarrow> sha256_hex (pq_command_hash n))"

definition quote_digest :: "env \<Rightarrow> store \<Rightarrow> quote_command \<Rightarrow> string" where
  "quote_digest E s cmd = (case prepare_quote E s cmd of Inl _ \<Rightarrow> [] | Inr n \<Rightarrow> pq_command_hash n)"

definition quote_filed :: "env \<Rightarrow> store \<Rightarrow> quote_command \<Rightarrow> (string \<times> quote_request) option" where
  "quote_filed E s cmd =
     (case prepare_quote E s cmd of
        Inl _ \<Rightarrow> None
      | Inr n \<Rightarrow> map_option (\<lambda>x. (qr_command_hash x, x)) (quote_receipt s (op_id (pq_opportunity n)) (pq_key n)))"

lemmas quote_filing = quote_valid_def quote_digest_def quote_filed_def

interpretation quote_requests: idempotent_command "\<lambda>s c. forget (request_quote E c s)" "quote_valid E" "quote_filed E"
  "quote_digest E" QuoteIdempotency for E
proof
  fix s cmd x
  assume "quote_valid E s cmd" "quote_filed E s cmd = Some (quote_digest E s cmd, x)"
  then show "forget (request_quote E cmd s) = Inr (s, x)"
    by (auto simp: quote_filing request_quote_def forget_def quote_assert_hash_def split: sum.splits)
next
  fix s cmd h x
  assume "quote_valid E s cmd" "quote_filed E s cmd = Some (h, x)" "h \<noteq> quote_digest E s cmd"
  then show "forget (request_quote E cmd s) = Inl QuoteIdempotency"
    by (auto simp: quote_filing request_quote_def forget_def quote_assert_hash_def split: sum.splits)
next
  fix s cmd s' x assume "forget (request_quote E cmd s) = Inr (s', x)"
  then obtain b where "request_quote E cmd s = Inr (s', x, b)" by (auto simp: forget_Inr)
  then show "quote_valid E s cmd \<and> quote_valid E s' cmd \<and> quote_digest E s' cmd = quote_digest E s cmd \<and>
      quote_filed E s' cmd = Some (quote_digest E s cmd, x)"
  proof (cases rule: quote_cases)
    case (replay n)
    then show ?thesis by (simp add: quote_filing)
  next
    case (first n)
    have prep: "prepare_quote E s' cmd = Inr n"
      using first(1)
      by (simp add: first(7) prepare_quote_def lock_owned_def load_opportunity_def assert_contact_available_def)
    have x: "qr_opportunity_id x = op_id (pq_opportunity n)" "qr_idempotency_key x = pq_key n"
      "qr_command_hash x = pq_command_hash n" by (simp_all add: first(4) new_quote_request_def)
    have "quote_receipt s' (op_id (pq_opportunity n)) (pq_key n) = Some x"
      using first(3) x by (simp add: quote_receipt_def first(7) find_append)
    moreover have "sha256_hex (pq_command_hash n)" using first(5) x by (simp add: quote_request_checks_def)
    ultimately show ?thesis using prep first(1) x by (simp add: quote_filing)
  qed
qed

text \<open>A quote of the sample dossier: the request has no version yet, an authority issues the first one.\<close>

definition quote_contact :: contact where
  "quote_contact = \<lparr>ct_id = UUID 60, ct_principal_id = UUID 3, ct_created_by_agent_id = UUID 2,
     ct_status = ContactProvisional, ct_company_name = None, ct_job_title = None\<rparr>"

definition quote_row :: quote_request where
  "quote_row = \<lparr>qr_id = UUID 90, qr_opportunity_id = UUID 50, qr_requested_by_agent_id = UUID 2,
     qr_requested_by_operator_id = None, qr_status = QuoteUnavailable, qr_state_version = 0, qr_requirements = JObj [],
     qr_failure_code = Some ''quote_provider_unavailable'', qr_correlation_id = ''c1'', qr_idempotency_key = ''k1'',
     qr_command_hash = deal_hash\<rparr>"

definition quote_store :: store where
  "quote_store = (deal_store [] [])\<lparr>contacts := [quote_contact], quote_requests := [quote_row]\<rparr>"

definition issue_quote :: issue_command where
  "issue_quote = \<lparr>is_quote_request_id = UUID 90, is_actor_agent_id = UUID 2, is_actor_operator_id = None,
     is_expected_version = 0, is_authority_name = ''erp'', is_authority_version = ''7'', is_external_reference = ''Q-1'',
     is_content_hash = deal_hash, is_issued_at = Aware 30 0, is_correlation_id = ''c2'', is_idempotency_key = ''k2'',
     is_recorded_at = Some (Aware 40 0)\<rparr>"

definition quote_issue :: prepared_issue where
  "quote_issue = \<lparr>pu_authority = ''erp'', pu_release = ''7'', pu_reference = ''Q-1'', pu_content_hash = deal_hash,
     pu_issued_at = 30, pu_recorded_at = 40, pu_correlation = ''c2'', pu_key = ''k2'', pu_command_hash = deal_hash\<rparr>"

lemma sample_quote_hash: "quote_command_hash sample_env payload = deal_hash"
  by (simp add: quote_command_hash_def command_digest_def sample_env_def deal_hash_def)

lemma deal_hash_plain: "strip deal_hash = deal_hash" "sha256_hex deal_hash"
  by (simp_all add: deal_hash_def strip_def is_space_def)

lemma quote_prepared: "prepare_issue sample_env issue_quote = Inr quote_issue"
  by (simp add: prepare_issue_def issue_quote_def quote_text_def Let_def strip_def [of "''erp''"] strip_def [of "''7''"]
      strip_def [of "''Q-1''"] strip_def [of "''c2''"] strip_def [of "''k2''"] is_space_def deal_hash_plain quote_utc_def
      to_utc_def sample_quote_hash quote_issue_def)

lemma quote_tables [simp]: "quote_requests quote_store = [quote_row]" "quote_versions quote_store = []"
  "contacts quote_store = [quote_contact]" "opportunities quote_store = [deal_row]"
  by (simp_all add: quote_store_def) (simp add: deal_store_def sample_store_def empty_store_def)

lemma quote_target: "issue_target quote_store issue_quote = Inr quote_row"
  by (simp add: issue_target_def load_quote_request_def lock_owned_def load_opportunity_def assert_owner_def
      assert_quote_open_def assert_contact_available_def issue_quote_def quote_row_def deal_row_def quote_contact_def
      del: assert_owner_Inr)

lemma quote_issued: "\<exists>s' v. issue_authoritative_version sample_env issue_quote quote_store =
     Inr (s', (issued_request quote_row, v), True) \<and> quote_requests s' = [issued_request quote_row] \<and> quote_versions s' = [v]"
proof -
  let ?v = "new_quote_version sample_env quote_store quote_issue quote_row"
  have none: "issue_receipt quote_store (qr_id quote_row) ''k2'' = None" by (simp add: issue_receipt_def)
  have row: "quote_request_checks (issued_request quote_row)"
    by (simp add: quote_request_checks_def issued_request_def quote_row_def deal_hash_plain btrim_def)
  have version: "quote_version_checks ?v"
    by (simp add: quote_version_checks_def new_quote_version_def quote_issue_def deal_hash_plain btrim_def
        next_quote_version_def request_versions_def)
  have put: "put_row qr_id (issued_request quote_row) [quote_row] = [issued_request quote_row]"
    by (simp add: put_row_def issued_request_def)
  have fields: "pu_key quote_issue = ''k2''" "qr_status quote_row \<noteq> QuoteCancelled"
    "qr_state_version quote_row = is_expected_version issue_quote"
    by (simp_all add: quote_issue_def quote_row_def issue_quote_def)
  show ?thesis
    by (simp add: issue_authoritative_version_def quote_prepared quote_target none fields Let_def update_quote_request_def
        row insert_quote_version_def version put)
qed

theorem quote_versions_gapless_witness:
  "\<exists>s'. quote_op quote_store s' \<and> quote_requests s' = [issued_request quote_row] \<and>
     request_versions s' (UUID 90) = [1] \<and> qr_status (issued_request quote_row) = QuoteIssued"
proof -
  from quote_issued obtain s' v where s': "issue_authoritative_version sample_env issue_quote quote_store =
     Inr (s', (issued_request quote_row, v), True)" "quote_requests s' = [issued_request quote_row]" by blast
  have op: "quote_op quote_store s'" using s'(1) by (rule qo_issue)
  have inv: "quote_inv quote_store"
    by (simp add: quote_inv_def numbered_def request_versions_def) (simp add: quote_row_def)
  have "qr_id (issued_request quote_row) = UUID 90" "qr_state_version (issued_request quote_row) = 1"
    "qr_status (issued_request quote_row) = QuoteIssued"
    by (simp_all add: issued_request_def quote_row_def)
  with quote_versions_gapless [OF inv r_into_rtranclp [of quote_op, OF op]] op s'(2) show ?thesis
    by (intro exI [of _ s']) simp
qed

end
