(* ===== verification/AgentAccess.thy ===== *)
theory AgentAccess
  imports ConversationControl
begin

text \<open>
  \<open>services/admin_agent_access.py\<close>: what an administrator may do on one agent. A permission is effective
  when the role of the administrator has it and the active grant of the administrator on that agent has it;
  a grant is only set within the permissions of the role. (The listings joined with the names of the agents
  are not modelled.)
\<close>

section \<open>Permissions\<close>

definition meetings_manage :: string where "meetings_manage = ''meetings.manage''"

definition agent_scoped_permissions :: "string list" where
  "agent_scoped_permissions =
     [''dashboard.read'', ''profiles.read'', ''knowledge.read'', ''tools.read'', ''tools.manage'', ''sources.read'',
      ''sources.manage'', ''users.read'', ''conversations.read'', ''conversations.manage'', ''opportunities.read'',
      ''opportunities.manage'', ''follow_ups.read'', ''follow_ups.manage'', ''follow_ups.review'', ''meetings.read'',
      ''meetings.manage'', ''inbound.read'', ''inbound.review'', ''quotes.approve'', ''deliveries.read'',
      ''deliveries.review'', ''audit.read'', ''promptlab.use'', ''documents.read'', ''documents.manage'',
      ''documents.taxonomy'', ''documents.settings'', ''runtime.read'', ''runtime.manage'']"

definition json_texts :: "json \<Rightarrow> string list" where
  "json_texts v =
     (case v of JArr values \<Rightarrow> List.map_filter (\<lambda>x. case x of JStr t \<Rightarrow> Some t | _ \<Rightarrow> None) values | _ \<Rightarrow> [])"

definition allows :: "string list \<Rightarrow> string \<Rightarrow> bool" where
  "allows values permission \<longleftrightarrow> permission_all \<in> set values \<or> permission \<in> set values"

definition permissions_for_agent :: "store \<Rightarrow> uuid \<Rightarrow> uuid \<Rightarrow> string list" where
  "permissions_for_agent s admin agent =
     (case find (\<lambda>g. aa_admin_user_id g = admin \<and> aa_agent_id g = agent \<and> aa_is_active g) (admin_agent_grants s) of
        None \<Rightarrow> [] | Some g \<Rightarrow> json_texts (aa_permissions g))"

definition has_agent_permission :: "store \<Rightarrow> uuid \<Rightarrow> string \<Rightarrow> uuid \<Rightarrow> string \<Rightarrow> bool" where
  "has_agent_permission s admin role_key agent permission =
     (if \<not> has_permission s role_key permission then False
      else allows (permissions_for_agent s admin agent) permission)"

section \<open>Grants\<close>

datatype access_error = GrantOutsideRole | GrantWildcardCombined | GrantIntegrity

definition grant_of :: "store \<Rightarrow> uuid \<Rightarrow> uuid \<Rightarrow> admin_agent_grant option" where
  "grant_of s admin agent = find (\<lambda>g. aa_admin_user_id g = admin \<and> aa_agent_id g = agent) (admin_agent_grants s)"

text \<open>The insertion under the primary key, UNIQUE (administrator, agent) and the width of the names.\<close>

definition name_fits :: "string option \<Rightarrow> bool" where
  "name_fits v = (case v of None \<Rightarrow> True | Some t \<Rightarrow> length t \<le> 100)"

definition insert_grant :: "admin_agent_grant \<Rightarrow> store \<Rightarrow> access_error + store" where
  "insert_grant g s =
     (if \<not> name_fits (aa_created_by g) \<or> \<not> name_fits (aa_updated_by g) \<or>
         list_ex (\<lambda>x. aa_id x = aa_id g \<or>
           (aa_admin_user_id x = aa_admin_user_id g \<and> aa_agent_id x = aa_agent_id g)) (admin_agent_grants s)
      then Inl GrantIntegrity else Inr (s\<lparr>admin_agent_grants := admin_agent_grants s @ [g]\<rparr>))"

definition update_grant :: "admin_agent_grant \<Rightarrow> store \<Rightarrow> access_error + store" where
  "update_grant g s =
     (if \<not> name_fits (aa_updated_by g) then Inl GrantIntegrity
      else Inr (s\<lparr>admin_agent_grants := put_row aa_id g (admin_agent_grants s)\<rparr>))"

definition grant_json :: "string list \<Rightarrow> json" where "grant_json ps = JArr (map JStr ps)"

definition ensure_grant ::
  "env \<Rightarrow> uuid \<Rightarrow> uuid \<Rightarrow> string list \<Rightarrow> string \<Rightarrow> store \<Rightarrow> access_error + (store \<times> admin_agent_grant)" where
  "ensure_grant E admin agent permissions by_name s =
     (case grant_of s admin agent of
        Some g \<Rightarrow> Inr (s, g)
      | None \<Rightarrow>
          let (i, s1) = fresh E s;
              g = \<lparr>aa_id = i, aa_admin_user_id = admin, aa_agent_id = agent, aa_permissions = grant_json permissions,
                   aa_is_active = True, aa_created_by = Some by_name, aa_updated_by = Some by_name\<rparr>
          in bindE (insert_grant g s1) (\<lambda>s2. Inr (s2, g)))"

definition grantable_permissions :: "store \<Rightarrow> string \<Rightarrow> string list" where
  "grantable_permissions s role_key =
     (let role_permissions = permissions_for_role s role_key in
      if permission_all \<in> set role_permissions then permission_all # agent_scoped_permissions
      else filter (\<lambda>p. p \<in> set role_permissions) agent_scoped_permissions)"

text \<open>\<open>list(dict.fromkeys(permissions))\<close> keeps the first of equal elements.\<close>

definition deduplicated :: "string list \<Rightarrow> string list" where
  "deduplicated ps = rev (remdups (rev ps))"

definition normalized_grant :: "store \<Rightarrow> string \<Rightarrow> string list \<Rightarrow> access_error + string list" where
  "normalized_grant s role_key permissions =
     (let normalized = deduplicated permissions in
      if normalized = [] \<or> \<not> set normalized \<subseteq> set (grantable_permissions s role_key) then Inl GrantOutsideRole
      else if permission_all \<in> set normalized \<and> length normalized \<noteq> 1 then Inl GrantWildcardCombined
      else Inr normalized)"

definition set_grant ::
  "env \<Rightarrow> uuid \<Rightarrow> string \<Rightarrow> uuid \<Rightarrow> string list \<Rightarrow> string \<Rightarrow> store \<Rightarrow> access_error + (store \<times> admin_agent_grant)" where
  "set_grant E admin role_key agent permissions by_name s =
     bindE (normalized_grant s role_key permissions) (\<lambda>normalized.
     case grant_of s admin agent of
       None \<Rightarrow>
         let (i, s1) = fresh E s;
             g = \<lparr>aa_id = i, aa_admin_user_id = admin, aa_agent_id = agent, aa_permissions = grant_json normalized,
                  aa_is_active = True, aa_created_by = Some by_name, aa_updated_by = Some by_name\<rparr>
         in bindE (insert_grant g s1) (\<lambda>s2. Inr (s2, g))
     | Some g \<Rightarrow>
         let g1 = g\<lparr>aa_permissions := grant_json normalized, aa_is_active := True, aa_updated_by := Some by_name\<rparr>
         in bindE (update_grant g1 s) (\<lambda>s1. Inr (s1, g1)))"

definition revoke_grant :: "uuid \<Rightarrow> uuid \<Rightarrow> string \<Rightarrow> store \<Rightarrow> access_error + (store \<times> bool)" where
  "revoke_grant admin agent by_name s =
     (case grant_of s admin agent of
        None \<Rightarrow> Inr (s, False)
      | Some g \<Rightarrow>
          bindE (update_grant (g\<lparr>aa_is_active := False, aa_updated_by := Some by_name\<rparr>) s) (\<lambda>s1. Inr (s1, True)))"

section \<open>What a grant gives\<close>

definition grants_ok :: "store \<Rightarrow> bool" where
  "grants_ok s \<longleftrightarrow> distinct (map aa_id (admin_agent_grants s)) \<and>
     distinct (map (\<lambda>g. (aa_admin_user_id g, aa_agent_id g)) (admin_agent_grants s))"

lemma json_texts_grant [simp]: "json_texts (grant_json ps) = ps"
  by (induction ps) (simp_all add: json_texts_def grant_json_def List.map_filter_simps)

lemma set_deduplicated [simp]: "set (deduplicated ps) = set ps"
  by (simp add: deduplicated_def)

lemma grant_ofD: "grant_of s admin agent = Some g \<Longrightarrow>
    g \<in> set (admin_agent_grants s) \<and> aa_admin_user_id g = admin \<and> aa_agent_id g = agent"
  by (auto simp: grant_of_def dest: find_SomeD)

lemma permissions_of_grant:
  assumes "grants_ok s"
  shows "permissions_for_agent s a b =
    (case grant_of s a b of None \<Rightarrow> [] | Some g \<Rightarrow> if aa_is_active g then json_texts (aa_permissions g) else [])"
  using find_scope [where key = "\<lambda>g. (aa_admin_user_id g, aa_agent_id g)" and k = "(a, b)" and Q = aa_is_active
      and t = "admin_agent_grants s"] assms
  by (simp add: permissions_for_agent_def grant_of_def grants_ok_def conj_ac split: option.splits)

lemma grant_of_put:
  assumes "grants_ok s" "grant_of s admin agent = Some g"
    "aa_id g1 = aa_id g" "aa_admin_user_id g1 = admin" "aa_agent_id g1 = agent"
  shows "grant_of (s\<lparr>admin_agent_grants := put_row aa_id g1 (admin_agent_grants s)\<rparr>) a b =
    (if a = admin \<and> b = agent then Some g1 else grant_of s a b)"
proof (cases "a = admin \<and> b = agent")
  case True
  with assms show ?thesis by (simp add: grant_of_def find_put_row_hit)
next
  case False
  have "x = g" if "x \<in> set (admin_agent_grants s)" "aa_id x = aa_id g1" for x
    using that grant_ofD [OF assms(2)] assms(1,3) same_key [of aa_id "admin_agent_grants s" x g]
    by (simp add: grants_ok_def)
  with False grant_ofD [OF assms(2)] assms(4,5)
  have "find (\<lambda>g. aa_admin_user_id g = a \<and> aa_agent_id g = b) (put_row aa_id g1 (admin_agent_grants s)) =
      find (\<lambda>g. aa_admin_user_id g = a \<and> aa_agent_id g = b) (admin_agent_grants s)"
    by (intro find_put_row_other) auto
  with False show ?thesis by (auto simp: grant_of_def)
qed

lemma grants_ok_put:
  assumes "grants_ok s" "grant_of s admin agent = Some g"
    "aa_id g1 = aa_id g" "aa_admin_user_id g1 = admin" "aa_agent_id g1 = agent"
  shows "grants_ok (s\<lparr>admin_agent_grants := put_row aa_id g1 (admin_agent_grants s)\<rparr>)"
proof -
  have "x = g" if "x \<in> set (admin_agent_grants s)" "aa_id x = aa_id g1" for x
    using that grant_ofD [OF assms(2)] assms(1,3) same_key [of aa_id "admin_agent_grants s" x g]
    by (simp add: grants_ok_def)
  with grant_ofD [OF assms(2)] assms(4,5)
  have "map (\<lambda>g. (aa_admin_user_id g, aa_agent_id g)) (put_row aa_id g1 (admin_agent_grants s)) =
      map (\<lambda>g. (aa_admin_user_id g, aa_agent_id g)) (admin_agent_grants s)"
    by (intro map_put_row_same) auto
  with assms(1) show ?thesis by (simp add: grants_ok_def table_simps)
qed

lemma set_grant_cases:
  assumes "set_grant E admin role_key agent ps by_name s = Inr (s1, g)" "grants_ok s"
  shows "set ps \<subseteq> set (grantable_permissions s role_key)" "roles s1 = roles s" "grants_ok s1"
    "grant_of s1 a b = (if a = admin \<and> b = agent then Some g else grant_of s a b)"
    "aa_is_active g" "set (json_texts (aa_permissions g)) = set ps"
proof -
  from assms(1) obtain n where n: "normalized_grant s role_key ps = Inr n" by (auto simp: set_grant_def bindE_eq_Inr)
  then have within: "set n = set ps" "set ps \<subseteq> set (grantable_permissions s role_key)"
    by (auto simp: normalized_grant_def Let_def split: if_splits)
  have "roles s1 = roles s \<and> grants_ok s1 \<and> grant_of s1 a b = (if a = admin \<and> b = agent then Some g else grant_of s a b) \<and>
      aa_is_active g \<and> json_texts (aa_permissions g) = n"
  proof (cases "grant_of s admin agent")
    case None
    then have new: "\<forall>x\<in>set (admin_agent_grants s). \<not> (aa_admin_user_id x = admin \<and> aa_agent_id x = agent)"
      by (simp add: grant_of_def find_None_iff)
    from assms(1) n None have g: "aa_admin_user_id g = admin" "aa_agent_id g = agent" "aa_is_active g"
      "aa_permissions g = grant_json n" "\<forall>x\<in>set (admin_agent_grants s). aa_id x \<noteq> aa_id g"
      "admin_agent_grants s1 = admin_agent_grants s @ [g]" "roles s1 = roles s"
      by (auto simp: set_grant_def fresh_def Let_def insert_grant_def list_ex_iff split: if_splits)
    have "grants_ok s1" using g new assms(2) by (auto simp: grants_ok_def)
    moreover have "grant_of s1 a b = (if a = admin \<and> b = agent then Some g else grant_of s a b)"
      using g(1,2,6) None by (cases "a = admin \<and> b = agent") (auto simp: grant_of_def find_append split: option.splits)
    ultimately show ?thesis using g by simp
  next
    case (Some g0)
    with assms(1) n have g: "g = g0\<lparr>aa_permissions := grant_json n, aa_is_active := True, aa_updated_by := Some by_name\<rparr>"
      "s1 = s\<lparr>admin_agent_grants := put_row aa_id g (admin_agent_grants s)\<rparr>"
      by (auto simp: set_grant_def Let_def update_grant_def bindE_eq_Inr split: if_splits)
    have k: "aa_id g = aa_id g0" "aa_admin_user_id g = admin" "aa_agent_id g = agent"
      using grant_ofD [OF Some] by (simp_all add: g(1))
    from grant_of_put [OF assms(2) Some k] grants_ok_put [OF assms(2) Some k] show ?thesis
      by (simp add: g(2)) (simp add: g(1))
  qed
  with within show "set ps \<subseteq> set (grantable_permissions s role_key)" "roles s1 = roles s" "grants_ok s1"
    "grant_of s1 a b = (if a = admin \<and> b = agent then Some g else grant_of s a b)"
    "aa_is_active g" "set (json_texts (aa_permissions g)) = set ps" by simp_all
qed

lemma revoke_grant_cases:
  assumes "revoke_grant admin agent by_name s = Inr (s1, r)" "grants_ok s"
  shows "roles s1 = roles s" "grants_ok s1"
    "permissions_for_agent s1 a b = (if a = admin \<and> b = agent then [] else permissions_for_agent s a b)"
proof -
  have "roles s1 = roles s \<and> grants_ok s1 \<and>
      permissions_for_agent s1 a b = (if a = admin \<and> b = agent then [] else permissions_for_agent s a b)"
  proof (cases "grant_of s admin agent")
    case None
    with assms show ?thesis by (simp add: revoke_grant_def permissions_of_grant)
  next
    case (Some g)
    let ?g = "g\<lparr>aa_is_active := False, aa_updated_by := Some by_name\<rparr>"
    from assms(1) Some have s1: "s1 = s\<lparr>admin_agent_grants := put_row aa_id ?g (admin_agent_grants s)\<rparr>"
      by (auto simp: revoke_grant_def update_grant_def bindE_eq_Inr split: if_splits)
    have k: "aa_id ?g = aa_id g" "aa_admin_user_id ?g = admin" "aa_agent_id ?g = agent" using grant_ofD [OF Some] by simp_all
    note ok = grants_ok_put [OF assms(2) Some k]
    from grant_of_put [OF assms(2) Some k, of a b] show ?thesis
      using ok permissions_of_grant [OF ok, of a b] permissions_of_grant [OF assms(2), of a b] by (simp add: s1)
  qed
  then show "roles s1 = roles s" "grants_ok s1"
    "permissions_for_agent s1 a b = (if a = admin \<and> b = agent then [] else permissions_for_agent s a b)" by simp_all
qed

lemma has_agent_permission_iff: "has_agent_permission s a role b p \<longleftrightarrow>
    has_permission s role p \<and> allows (permissions_for_agent s a b) p"
  by (simp add: has_agent_permission_def)

lemma has_permission_cong: "roles s' = roles s \<Longrightarrow> has_permission s' role p = has_permission s role p"
  by (simp add: has_permission_def permissions_for_role_def)

text \<open>C17: a grant gives exactly what it lists: it stays within the grantable permissions of the role, the
  administrator may then do on that agent what the grant lists and a role allows, a revocation takes all of
  it away, and neither changes what anybody may do elsewhere.\<close>

theorem grant_exact:
  assumes "grants_ok s" "set_grant E admin role_key agent ps by_name s = Inr (s1, g)"
    "revoke_grant admin agent revoker s1 = Inr (s2, r)"
  shows "set ps \<subseteq> set (grantable_permissions s role_key) \<and>
    has_agent_permission s1 a role b p =
      (if a = admin \<and> b = agent then has_permission s role p \<and> allows ps p else has_agent_permission s a role b p) \<and>
    has_agent_permission s2 a role b p = (\<not> (a = admin \<and> b = agent) \<and> has_agent_permission s a role b p)"
proof -
  note set_g = set_grant_cases [OF assms(2,1)]
  note rev_g = revoke_grant_cases [OF assms(3) set_g(3)]
  have texts: "allows (json_texts (aa_permissions g)) p = allows ps p" using set_g(6) by (simp add: allows_def)
  have one: "permissions_for_agent s1 a b =
      (if a = admin \<and> b = agent then json_texts (aa_permissions g) else permissions_for_agent s a b)"
    using set_g(5) by (simp add: permissions_of_grant [OF set_g(3)] permissions_of_grant [OF assms(1)] set_g(4))
  have "\<not> allows [] p" by (simp add: allows_def)
  with one texts rev_g(3) [of a b] show ?thesis
    by (auto simp: has_agent_permission_iff has_permission_cong [OF set_g(2)] has_permission_cong [OF rev_g(1)] set_g(1))
qed

definition owner_role :: admin_role where
  "owner_role = \<lparr>ro_key = ''owner'', ro_permissions = JArr [JStr ''*''], ro_is_active = True\<rparr>"

definition access_store :: store where "access_store = empty_store\<lparr>roles := [owner_role]\<rparr>"

theorem grant_exact_witness:
  "\<exists>s1 g s2. set_grant sample_env (UUID 8) ''owner'' (UUID 2) [''meetings.manage''] ''root'' access_store = Inr (s1, g) \<and>
     revoke_grant (UUID 8) (UUID 2) ''root'' s1 = Inr (s2, True) \<and>
     has_agent_permission s1 (UUID 8) ''owner'' (UUID 2) ''meetings.manage'' \<and>
     \<not> has_agent_permission s1 (UUID 8) ''owner'' (UUID 2) ''meetings.read'' \<and>
     \<not> has_agent_permission s2 (UUID 8) ''owner'' (UUID 2) ''meetings.manage''"
proof -
  define g where "g = \<lparr>aa_id = uuid4 sample_env 0, aa_admin_user_id = UUID 8, aa_agent_id = UUID 2,
    aa_permissions = grant_json [''meetings.manage''], aa_is_active = True, aa_created_by = Some ''root'',
    aa_updated_by = Some ''root''\<rparr>"
  define s1 where "s1 = access_store\<lparr>draws := 1, admin_agent_grants := [g]\<rparr>"
  have ok: "grants_ok access_store" by (simp add: grants_ok_def access_store_def empty_store_def)
  have role: "permissions_for_role access_store ''owner'' = [''*'']"
    by (simp add: permissions_for_role_def access_store_def owner_role_def List.map_filter_simps)
  have norm: "normalized_grant access_store ''owner'' [''meetings.manage''] = Inr [''meetings.manage'']"
    by (simp add: normalized_grant_def deduplicated_def grantable_permissions_def role permission_all_def
        agent_scoped_permissions_def)
  have empty: "admin_agent_grants access_store = []" "draws access_store = 0"
    by (simp_all add: access_store_def empty_store_def)
  have set_g: "set_grant sample_env (UUID 8) ''owner'' (UUID 2) [''meetings.manage''] ''root'' access_store = Inr (s1, g)"
    by (simp add: set_grant_def norm grant_of_def empty fresh_def insert_grant_def name_fits_def s1_def g_def Let_def)
  define s2 where "s2 = s1\<lparr>admin_agent_grants := put_row aa_id (g\<lparr>aa_is_active := False, aa_updated_by := Some ''root''\<rparr>) [g]\<rparr>"
  have rev_g: "revoke_grant (UUID 8) (UUID 2) ''root'' s1 = Inr (s2, True)"
    by (simp add: revoke_grant_def grant_of_def s1_def g_def update_grant_def name_fits_def s2_def)
  have may: "has_permission access_store ''owner'' q" for q by (simp add: has_permission_def role permission_all_def)
  from grant_exact [OF ok set_g rev_g, of "UUID 8" "''owner''" "UUID 2"] show ?thesis
    by (intro exI [of _ s1] exI [of _ g] exI [of _ s2]) (simp add: set_g rev_g may allows_def permission_all_def)
qed

end
