(* ===== verification/Meetings.thy ===== *)
theory Meetings
  imports OpportunityOps AgentAccess InboundPayload
begin

text \<open>
  \<open>services/commercial/meetings.py\<close>: the coordination of a meeting of an opportunity. Slots are proposed,
  one is selected, and only an operator with evidence confirms the meeting, which also moves the opportunity
  to its meeting stage. Commands come from the acting agent, under the epochs of the opportunity and the
  conversation, or from an operator with the permission on the agent. The keys of the time-zone database are
  the parameter \<open>zones\<close> of the commands that read them.
\<close>

section \<open>Commands and their normalisation\<close>

datatype meeting_error =
    MeetingNotFound
  | MeetingVersionConflict
  | MeetingIdempotency
  | InvalidMeeting string
  | MeetingOpportunity opportunity_error
  | MeetingZoneKey string
  | MeetingIntegrity

text \<open>What \<open>ZoneInfo(key)\<close> does: it finds the zone, raises \<open>ZoneInfoNotFoundError\<close>, or raises the
  \<open>ValueError\<close> of a malformed key, which the service does not catch.\<close>

datatype zone_lookup = ZoneFound | ZoneMissing | ZoneMalformed

record meeting_actor =
  ma_agent_id :: "uuid option"
  ma_admin_id :: "uuid option"
  ma_opportunity_version :: "int option"
  ma_control_version :: "int option"
  ma_automation_version :: "int option"

record proposed_slot =
  pl_starts_at :: datetime
  pl_ends_at :: datetime
  pl_timezone :: string

record normal_slot =
  nl_starts_at :: instant
  nl_ends_at :: instant
  nl_timezone :: string

definition meeting_text :: "string \<Rightarrow> string \<Rightarrow> nat \<Rightarrow> meeting_error + string" where
  "meeting_text = policy_required_text InvalidMeeting"

definition meeting_optional :: "string option \<Rightarrow> nat \<Rightarrow> meeting_error + string option" where
  "meeting_optional = policy_optional_text InvalidMeeting"

definition meeting_assert_hash :: "string \<Rightarrow> string \<Rightarrow> meeting_error + unit" where
  "meeting_assert_hash = policy_assert_hash MeetingIdempotency"

definition validate_actor_shape :: "meeting_actor \<Rightarrow> meeting_error + unit" where
  "validate_actor_shape a =
     (let expected = [ma_opportunity_version a, ma_control_version a, ma_automation_version a] in
      if (ma_agent_id a = None) = (ma_admin_id a = None)
      then Inl (InvalidMeeting ''meeting command requires exactly one actor'')
      else if ma_agent_id a \<noteq> None \<and> None \<in> set expected
      then Inl (InvalidMeeting ''automation requires opportunity, control, and acting-agent epochs'')
      else if ma_admin_id a \<noteq> None \<and> list_ex (\<lambda>v. v \<noteq> None) expected
      then Inl (InvalidMeeting ''operator commands cannot claim automation epochs'')
      else Inr ())"

definition max_slot_duration :: int where "max_slot_duration = 86400000000"

definition normalize_slot :: "(string \<Rightarrow> zone_lookup) \<Rightarrow> proposed_slot \<Rightarrow> meeting_error + normal_slot" where
  "normalize_slot zones l =
     bindE (policy_aware_utc InvalidMeeting (pl_starts_at l) ''starts_at'') (\<lambda>starts.
     bindE (policy_aware_utc InvalidMeeting (pl_ends_at l) ''ends_at'') (\<lambda>ends.
     bindE (meeting_text (pl_timezone l) ''timezone'' 64) (\<lambda>zone.
     bindE (case zones zone of
              ZoneFound \<Rightarrow> Inr ()
            | ZoneMissing \<Rightarrow> Inl (InvalidMeeting ''invalid timezone'')
            | ZoneMalformed \<Rightarrow> Inl (MeetingZoneKey zone)) (\<lambda>_.
     if ends \<le> starts \<or> max_slot_duration < ends - starts then Inl (InvalidMeeting ''invalid meeting slot range'')
     else Inr \<lparr>nl_starts_at = starts, nl_ends_at = ends, nl_timezone = zone\<rparr>))))"

fun normalize_slots :: "(string \<Rightarrow> zone_lookup) \<Rightarrow> proposed_slot list \<Rightarrow> meeting_error + normal_slot list" where
  "normalize_slots zones [] = Inr []"
| "normalize_slots zones (l # ls) =
     bindE (normalize_slot zones l) (\<lambda>n. bindE (normalize_slots zones ls) (\<lambda>ns. Inr (n # ns)))"

section \<open>Authorisation and evidence\<close>

definition assert_actor_authorized :: "store \<Rightarrow> opportunity \<Rightarrow> meeting_actor \<Rightarrow> meeting_error + unit" where
  "assert_actor_authorized s p a =
     (case ma_agent_id a of
        Some agent \<Rightarrow>
          (case find (\<lambda>g. ag_id g = agent) (agents s) of
             None \<Rightarrow> Inl MeetingNotFound
           | Some g \<Rightarrow>
               if \<not> ag_is_active g \<or> agent \<noteq> op_assigned_agent_id p then Inl MeetingNotFound else Inr ())
      | None \<Rightarrow>
          (case Option.bind (ma_admin_id a) (\<lambda>i. find (\<lambda>u. ad_id u = i) (admins s)) of
             None \<Rightarrow> Inl (InvalidMeeting ''meeting operator is unavailable'')
           | Some u \<Rightarrow>
               if \<not> ad_is_active u then Inl (InvalidMeeting ''meeting operator is unavailable'')
               else if op_assigned_operator_id p \<noteq> None \<and> op_assigned_operator_id p \<noteq> Some (ad_id u)
               then Inl MeetingNotFound
               else if \<not> has_agent_permission s (ad_id u) (ad_role u) (op_assigned_agent_id p) meetings_manage
               then Inl (InvalidMeeting ''meeting operator is not authorized'')
               else Inr ()))"

definition lock_meeting_opportunity ::
  "store \<Rightarrow> uuid \<Rightarrow> uuid \<Rightarrow> meeting_actor \<Rightarrow> meeting_error + opportunity" where
  "lock_meeting_opportunity s oid agent a =
     (case find (\<lambda>p. op_id p = oid) (opportunities s) of
        None \<Rightarrow> Inl MeetingNotFound
      | Some p \<Rightarrow>
          if op_assigned_agent_id p \<noteq> agent then Inl MeetingNotFound
          else bindE (assert_actor_authorized s p a) (\<lambda>_. Inr p))"

definition assert_opportunity_epoch :: "opportunity \<Rightarrow> meeting_actor \<Rightarrow> meeting_error + unit" where
  "assert_opportunity_epoch p a =
     (if ma_agent_id a \<noteq> None \<and> ma_opportunity_version a \<noteq> Some (op_control_version p)
      then Inl (InvalidMeeting ''opportunity ownership epoch blocks automation'') else Inr ())"

text \<open>The conversation and its link to the opportunity, as the inner join reads them.\<close>

definition linked_meeting_conversation :: "store \<Rightarrow> opportunity \<Rightarrow> uuid \<Rightarrow> conversation option" where
  "linked_meeting_conversation s p cid =
     (if list_ex (\<lambda>l. ol_conversation_id l = Some cid \<and> ol_opportunity_id l = op_id p) (conversation_links s)
      then get_conversation s cid else None)"

definition epochs_hold :: "conversation \<Rightarrow> opportunity \<Rightarrow> uuid \<Rightarrow> meeting_actor \<Rightarrow> bool" where
  "epochs_hold c p agent a \<longleftrightarrow>
     cv_status c = ''active'' \<and> cv_control_mode c = Automated \<and> cv_automation_agent_id c = agent \<and>
     op_assigned_agent_id p = agent \<and> ma_control_version a = Some (cv_control_version c) \<and>
     ma_automation_version a = Some (cv_automation_version c)"

definition resolve_meeting_conversation ::
  "store \<Rightarrow> opportunity \<Rightarrow> uuid option \<Rightarrow> meeting_actor \<Rightarrow> bool \<Rightarrow> meeting_error + conversation option" where
  "resolve_meeting_conversation s p conv a allow_absent =
     (case conv of
        None \<Rightarrow>
          if ma_agent_id a \<noteq> None then Inl (InvalidMeeting ''automation requires a linked conversation'') else Inr None
      | Some cid \<Rightarrow>
          (case linked_meeting_conversation s p cid of
             None \<Rightarrow>
               if allow_absent \<and> ma_admin_id a \<noteq> None then Inr None
               else Inl (InvalidMeeting ''meeting conversation is unavailable or not linked'')
           | Some c \<Rightarrow>
               (case ma_agent_id a of
                  None \<Rightarrow> Inr (Some c)
                | Some agent \<Rightarrow>
                    if \<not> epochs_hold c p agent a
                    then Inl (InvalidMeeting ''conversation control or acting-agent epoch blocks automation'')
                    else Inr (Some c))))"

definition current_slot :: "store \<Rightarrow> meeting \<Rightarrow> uuid \<Rightarrow> meeting_error + meeting_slot" where
  "current_slot s m slot_id =
     (case find (\<lambda>l. ms_id l = slot_id) (meeting_slots s) of
        None \<Rightarrow> Inl (InvalidMeeting ''selected slot does not belong to the current proposal'')
      | Some l \<Rightarrow>
          if ms_meeting_id l \<noteq> mt_id m \<or> ms_proposal_version l \<noteq> mt_proposal_version m
          then Inl (InvalidMeeting ''selected slot does not belong to the current proposal'') else Inr l)"

section \<open>Rows\<close>

text \<open>The writes under the constraints of \<open>models/meeting.py\<close>.\<close>

definition insert_meeting :: "meeting \<Rightarrow> store \<Rightarrow> meeting_error + store" where
  "insert_meeting m s =
     (if \<not> meeting_checks m \<or>
         list_ex (\<lambda>x. mt_id x = mt_id m \<or> (mt_created_under_agent_id x = mt_created_under_agent_id m \<and>
           mt_idempotency_key x = mt_idempotency_key m)) (meetings s)
      then Inl MeetingIntegrity else Inr (s\<lparr>meetings := meetings s @ [m]\<rparr>))"

definition update_meeting :: "meeting \<Rightarrow> store \<Rightarrow> meeting_error + store" where
  "update_meeting m s =
     (if \<not> meeting_checks m then Inl MeetingIntegrity else Inr (s\<lparr>meetings := put_row mt_id m (meetings s)\<rparr>))"

definition insert_meeting_event :: "meeting_event \<Rightarrow> store \<Rightarrow> meeting_error + store" where
  "insert_meeting_event e s =
     (if \<not> meeting_event_checks e \<or>
         list_ex (\<lambda>x. me_id x = me_id e \<or> (me_meeting_id x = me_meeting_id e \<and>
           (me_state_version x = me_state_version e \<or> me_idempotency_key x = me_idempotency_key e))) (meeting_events s)
      then Inl MeetingIntegrity else Inr (s\<lparr>meeting_events := meeting_events s @ [e]\<rparr>))"

fun insert_meeting_slots :: "meeting_slot list \<Rightarrow> store \<Rightarrow> meeting_error + store" where
  "insert_meeting_slots [] s = Inr s"
| "insert_meeting_slots (l # ls) s =
     (if \<not> meeting_slot_checks l \<or>
         list_ex (\<lambda>x. ms_id x = ms_id l \<or> (ms_meeting_id x = ms_meeting_id l \<and>
           ms_proposal_version x = ms_proposal_version l \<and> ms_position x = ms_position l)) (meeting_slots s)
      then Inl MeetingIntegrity else insert_meeting_slots ls (s\<lparr>meeting_slots := meeting_slots s @ [l]\<rparr>))"

record event_details =
  ed_type :: meeting_event_type
  ed_from :: "meeting_status option"
  ed_slot :: "uuid option"
  ed_evidence_type :: "string option"
  ed_evidence_reference :: "string option"
  ed_reason :: "string option"

text \<open>\<open>_event\<close>; its \<open>to_status\<close> is the status the meeting has been given.\<close>

definition new_meeting_event ::
  "env \<Rightarrow> meeting \<Rightarrow> opportunity \<Rightarrow> conversation option \<Rightarrow> meeting_actor \<Rightarrow> event_details \<Rightarrow> string \<Rightarrow> string \<Rightarrow>
     string \<Rightarrow> meeting_event" where
  "new_meeting_event E m p c a d correlation key hash =
     \<lparr>me_id = uuid5 E (mt_id m) (''event:'' @ int_str (mt_state_version m)), me_meeting_id = mt_id m,
      me_opportunity_id = op_id p, me_conversation_id = map_option cv_id c, me_actor_agent_id = ma_agent_id a,
      me_actor_admin_id = ma_admin_id a, me_assigned_agent_id = op_assigned_agent_id p,
      me_assigned_operator_id = op_assigned_operator_id p, me_routing_agent_id = map_option cv_agent_id c,
      me_automation_agent_id = map_option cv_automation_agent_id c, me_event_type = ed_type d, me_from_status = ed_from d,
      me_to_status = mt_status m, me_state_version = mt_state_version m, me_proposal_version = mt_proposal_version m,
      me_opportunity_control_version = op_control_version p, me_slot_id = ed_slot d,
      me_conversation_control_version = map_option cv_control_version c,
      me_conversation_automation_version = map_option cv_automation_version c,
      me_source_channel = map_option cv_channel c, me_evidence_type = ed_evidence_type d,
      me_evidence_reference = ed_evidence_reference d, me_reason = ed_reason d, me_safe_code = None,
      me_correlation_id = correlation, me_idempotency_key = key, me_command_hash = hash, me_created_at = clock E\<rparr>"

section \<open>Creating a meeting\<close>

record meeting_command =
  mc_agent_id :: uuid
  mc_opportunity_id :: uuid
  mc_conversation_id :: "uuid option"
  mc_actor :: meeting_actor
  mc_correlation_id :: string
  mc_idempotency_key :: string

definition actor_literal :: "meeting_actor \<Rightarrow> (string \<times> json) list" where
  "actor_literal a =
     [(''actor_admin_id'', opt_json uuid_json (ma_admin_id a)),
      (''actor_agent_id'', opt_json uuid_json (ma_agent_id a)),
      (''actor_expected_automation_version'', opt_json JInt (ma_automation_version a)),
      (''actor_expected_control_version'', opt_json JInt (ma_control_version a)),
      (''actor_expected_opportunity_version'', opt_json JInt (ma_opportunity_version a))]"

definition create_meeting_literal :: "meeting_command \<Rightarrow> (string \<times> json) list" where
  "create_meeting_literal cmd =
     actor_literal (mc_actor cmd) @
     [(''conversation_id'', opt_json uuid_json (mc_conversation_id cmd)),
      (''opportunity_id'', uuid_json (mc_opportunity_id cmd))]"

definition meeting_receipt :: "store \<Rightarrow> uuid \<Rightarrow> string \<Rightarrow> meeting option" where
  "meeting_receipt s agent key =
     find (\<lambda>m. mt_created_under_agent_id m = agent \<and> mt_idempotency_key m = key) (meetings s)"

definition created_meeting ::
  "env \<Rightarrow> meeting_command \<Rightarrow> opportunity \<Rightarrow> conversation option \<Rightarrow> string \<Rightarrow> string \<Rightarrow> string \<Rightarrow> meeting" where
  "created_meeting E cmd p c correlation key hash =
     \<lparr>mt_id = uuid5 E (mc_agent_id cmd) (''meeting:'' @ key), mt_opportunity_id = op_id p,
      mt_conversation_id = map_option cv_id c, mt_created_under_agent_id = mc_agent_id cmd,
      mt_created_by_agent_id = ma_agent_id (mc_actor cmd), mt_created_by_admin_id = ma_admin_id (mc_actor cmd),
      mt_status = MtRequested, mt_state_version = 0, mt_proposal_version = 0, mt_selected_slot_id = None,
      mt_correlation_id = correlation, mt_idempotency_key = key, mt_command_hash = hash\<rparr>"

definition created_details :: event_details where
  "created_details = \<lparr>ed_type = MeCreated, ed_from = None, ed_slot = None, ed_evidence_type = None,
     ed_evidence_reference = None, ed_reason = None\<rparr>"

definition create_meeting ::
  "env \<Rightarrow> meeting_command \<Rightarrow> store \<Rightarrow> meeting_error + (store \<times> (meeting \<times> opportunity) \<times> bool)" where
  "create_meeting E cmd s =
     bindE (validate_actor_shape (mc_actor cmd)) (\<lambda>_.
     bindE (meeting_text (mc_correlation_id cmd) ''correlation_id'' 120) (\<lambda>correlation.
     bindE (meeting_text (mc_idempotency_key cmd) ''idempotency_key'' 220) (\<lambda>key.
     let hash = policy_command_hash E (create_meeting_literal cmd) in
     case meeting_receipt s (mc_agent_id cmd) key of
       Some m \<Rightarrow>
         bindE (meeting_assert_hash (mt_command_hash m) hash) (\<lambda>_.
         bindE (lock_meeting_opportunity s (mt_opportunity_id m) (mc_agent_id cmd) (mc_actor cmd)) (\<lambda>p.
           Inr (s, (m, p), False)))
     | None \<Rightarrow>
         bindE (lock_meeting_opportunity s (mc_opportunity_id cmd) (mc_agent_id cmd) (mc_actor cmd)) (\<lambda>p.
         bindE (assert_opportunity_epoch p (mc_actor cmd)) (\<lambda>_.
         bindE (resolve_meeting_conversation s p (mc_conversation_id cmd) (mc_actor cmd) False) (\<lambda>c.
         let m = created_meeting E cmd p c correlation key hash in
         bindE (insert_meeting m s) (\<lambda>s1.
         bindE (insert_meeting_event (new_meeting_event E m p c (mc_actor cmd) created_details correlation key hash) s1) (\<lambda>s2.
           Inr (s2, (m, p), True)))))))))"

section \<open>Commands on a meeting\<close>

record move_command =
  mv_agent_id :: uuid
  mv_meeting_id :: uuid
  mv_actor :: meeting_actor
  mv_expected_version :: int
  mv_reason :: "string option"
  mv_correlation_id :: string
  mv_idempotency_key :: string

record move_context =
  mk_meeting :: meeting
  mk_opportunity :: opportunity
  mk_conversation :: "conversation option"
  mk_correlation :: string
  mk_key :: string
  mk_hash :: string
  mk_reason :: "string option"
  mk_replayed :: bool

definition move_literal :: "move_command \<Rightarrow> (string \<times> json) list \<Rightarrow> (string \<times> json) list" where
  "move_literal cmd payload =
     actor_literal (mv_actor cmd) @
     [(''expected_version'', JInt (mv_expected_version cmd)), (''meeting_id'', uuid_json (mv_meeting_id cmd))] @ payload"

definition get_meeting :: "store \<Rightarrow> uuid \<Rightarrow> meeting option" where
  "get_meeting s mid = find (\<lambda>m. mt_id m = mid) (meetings s)"

definition move_receipt :: "store \<Rightarrow> uuid \<Rightarrow> string \<Rightarrow> meeting_event option" where
  "move_receipt s mid key = find (\<lambda>e. me_meeting_id e = mid \<and> me_idempotency_key e = key) (meeting_events s)"

text \<open>\<open>_command_context\<close>. Inside one transaction the second, locking read of the meeting returns the row of
  the first.\<close>

definition meeting_context ::
  "env \<Rightarrow> store \<Rightarrow> move_command \<Rightarrow> string option \<Rightarrow> (string \<times> json) list \<Rightarrow> meeting_error + move_context" where
  "meeting_context E s cmd reason payload =
     bindE (validate_actor_shape (mv_actor cmd)) (\<lambda>_.
     bindE (meeting_text (mv_correlation_id cmd) ''correlation_id'' 120) (\<lambda>correlation.
     bindE (meeting_text (mv_idempotency_key cmd) ''idempotency_key'' 220) (\<lambda>key.
     let hash = policy_command_hash E (move_literal cmd payload) in
     case get_meeting s (mv_meeting_id cmd) of
       None \<Rightarrow> Inl MeetingNotFound
     | Some m \<Rightarrow>
         bindE (lock_meeting_opportunity s (mt_opportunity_id m) (mv_agent_id cmd) (mv_actor cmd)) (\<lambda>p.
         let context = \<lparr>mk_meeting = m, mk_opportunity = p, mk_conversation = None, mk_correlation = correlation,
           mk_key = key, mk_hash = hash, mk_reason = reason, mk_replayed = True\<rparr> in
         case move_receipt s (mt_id m) key of
           Some e \<Rightarrow> bindE (meeting_assert_hash (me_command_hash e) hash) (\<lambda>_. Inr context)
         | None \<Rightarrow>
             bindE (assert_opportunity_epoch p (mv_actor cmd)) (\<lambda>_.
             bindE (resolve_meeting_conversation s p (mt_conversation_id m) (mv_actor cmd) True) (\<lambda>c.
             if mt_state_version m \<noteq> mv_expected_version cmd \<or> mv_expected_version cmd < 0
             then Inl MeetingVersionConflict
             else Inr (context\<lparr>mk_conversation := c, mk_replayed := False\<rparr>)))))))"

text \<open>The changed meeting and its event are flushed together.\<close>

definition save_meeting ::
  "env \<Rightarrow> move_context \<Rightarrow> meeting_actor \<Rightarrow> meeting \<Rightarrow> opportunity \<Rightarrow> event_details \<Rightarrow> store \<Rightarrow> meeting_error + store" where
  "save_meeting E k a m p d s =
     bindE (update_meeting m s) (\<lambda>s1.
       insert_meeting_event (new_meeting_event E m p (mk_conversation k) a d (mk_correlation k) (mk_key k) (mk_hash k)) s1)"

definition context_result :: "move_context \<Rightarrow> store \<Rightarrow> store \<times> (meeting \<times> opportunity) \<times> bool" where
  "context_result k s = (s, (mk_meeting k, mk_opportunity k), False)"

section \<open>Proposing slots\<close>

definition slot_json :: "normal_slot \<Rightarrow> json" where
  "slot_json n = JObj [(''ends_at'', JStr (isoformat_utc (nl_ends_at n))),
     (''starts_at'', JStr (isoformat_utc (nl_starts_at n))), (''timezone'', JStr (nl_timezone n))]"

definition proposable :: "meeting_status \<Rightarrow> bool" where
  "proposable st \<longleftrightarrow> st \<in> {MtRequested, MtSlotsProposed, MtAwaitingResponse, MtRescheduleRequested, MtReviewRequired}"

definition proposed_meeting :: "meeting \<Rightarrow> meeting" where
  "proposed_meeting m =
     m\<lparr>mt_state_version := mt_state_version m + 1, mt_proposal_version := mt_proposal_version m + 1,
       mt_status := MtSlotsProposed, mt_selected_slot_id := None\<rparr>"

definition new_slot :: "env \<Rightarrow> meeting \<Rightarrow> nat \<times> normal_slot \<Rightarrow> meeting_slot" where
  "new_slot E m x =
     \<lparr>ms_id = uuid5 E (mt_id m) (''slot:'' @ int_str (mt_proposal_version m) @ '':'' @ int_str (int (fst x))),
      ms_meeting_id = mt_id m, ms_proposal_version = mt_proposal_version m, ms_position = int (fst x),
      ms_starts_at = nl_starts_at (snd x), ms_ends_at = nl_ends_at (snd x), ms_timezone = nl_timezone (snd x),
      ms_created_at = tx_now E\<rparr>"

definition new_slots :: "env \<Rightarrow> meeting \<Rightarrow> normal_slot list \<Rightarrow> meeting_slot list" where
  "new_slots E m ns = map (new_slot E m) (List.enumerate 1 ns)"

definition proposal_details :: "move_context \<Rightarrow> event_details" where
  "proposal_details k = \<lparr>ed_type = MeSlotsProposed, ed_from = Some (mt_status (mk_meeting k)), ed_slot = None,
     ed_evidence_type = None, ed_evidence_reference = None, ed_reason = mk_reason k\<rparr>"

definition propose_slots ::
  "env \<Rightarrow> (string \<Rightarrow> zone_lookup) \<Rightarrow> move_command \<Rightarrow> proposed_slot list \<Rightarrow> store \<Rightarrow>
     meeting_error + (store \<times> (meeting \<times> opportunity) \<times> bool)" where
  "propose_slots E zones cmd slots s =
     bindE (normalize_slots zones slots) (\<lambda>ns.
     bindE (require (1 \<le> length ns \<and> length ns \<le> 10) (InvalidMeeting ''meeting proposal requires 1 to 10 slots'')) (\<lambda>_.
     bindE (meeting_optional (mv_reason cmd) 1000) (\<lambda>reason.
     bindE (meeting_context E s cmd reason
              [(''reason'', opt_json JStr reason), (''slots'', JArr (map slot_json ns))]) (\<lambda>k.
     if mk_replayed k then Inr (context_result k s)
     else if \<not> proposable (mt_status (mk_meeting k))
     then Inl (InvalidMeeting ''meeting cannot accept another slot proposal'')
     else
       let m = proposed_meeting (mk_meeting k) in
       bindE (insert_meeting_slots (new_slots E m ns) s) (\<lambda>s1.
       bindE (save_meeting E k (mv_actor cmd) m (mk_opportunity k) (proposal_details k) s1) (\<lambda>s2.
         Inr (s2, (m, mk_opportunity k), False)))))))"

section \<open>Transitions\<close>

definition moved_meeting :: "meeting_status \<Rightarrow> meeting_slot option \<Rightarrow> meeting \<Rightarrow> meeting" where
  "moved_meeting target slot m =
     (let m1 = m\<lparr>mt_state_version := mt_state_version m + 1, mt_status := target\<rparr>
      in case slot of None \<Rightarrow> m1 | Some l \<Rightarrow> m1\<lparr>mt_selected_slot_id := Some (ms_id l)\<rparr>)"

definition move_details ::
  "move_context \<Rightarrow> meeting_event_type \<Rightarrow> meeting_slot option \<Rightarrow> event_details" where
  "move_details k ty slot = \<lparr>ed_type = ty, ed_from = Some (mt_status (mk_meeting k)), ed_slot = map_option ms_id slot,
     ed_evidence_type = None, ed_evidence_reference = None, ed_reason = mk_reason k\<rparr>"

definition move_meeting ::
  "env \<Rightarrow> move_command \<Rightarrow> meeting_status \<Rightarrow> meeting_event_type \<Rightarrow> meeting_status set \<Rightarrow> uuid option \<Rightarrow> store \<Rightarrow>
     meeting_error + (store \<times> (meeting \<times> opportunity) \<times> bool)" where
  "move_meeting E cmd target ty allowed slot_id s =
     bindE (meeting_optional (mv_reason cmd) 1000) (\<lambda>reason.
     bindE (meeting_context E s cmd reason
              [(''reason'', opt_json JStr reason), (''slot_id'', opt_json uuid_json slot_id),
               (''target_status'', JStr (meeting_status_value target))]) (\<lambda>k.
     if mk_replayed k then Inr (context_result k s)
     else if mt_status (mk_meeting k) \<notin> allowed
     then Inl (InvalidMeeting (''meeting cannot transition from '' @ meeting_status_value (mt_status (mk_meeting k)) @
            '' to '' @ meeting_status_value target))
     else
       bindE (case slot_id of
                None \<Rightarrow> Inr None
              | Some i \<Rightarrow> bindE (current_slot s (mk_meeting k) i) (\<lambda>l. Inr (Some l))) (\<lambda>slot.
       let m = moved_meeting target slot (mk_meeting k) in
       bindE (save_meeting E k (mv_actor cmd) m (mk_opportunity k) (move_details k ty slot) s) (\<lambda>s1.
         Inr (s1, (m, mk_opportunity k), False)))))"

definition mark_awaiting_response ::
  "env \<Rightarrow> move_command \<Rightarrow> store \<Rightarrow> meeting_error + (store \<times> (meeting \<times> opportunity) \<times> bool)" where
  "mark_awaiting_response E cmd s = move_meeting E cmd MtAwaitingResponse MeAwaitingResponse {MtSlotsProposed} None s"

definition select_slot ::
  "env \<Rightarrow> move_command \<Rightarrow> uuid \<Rightarrow> store \<Rightarrow> meeting_error + (store \<times> (meeting \<times> opportunity) \<times> bool)" where
  "select_slot E cmd slot_id s =
     move_meeting E cmd MtSlotSelected MeSlotSelected {MtSlotsProposed, MtAwaitingResponse} (Some slot_id) s"

definition request_reschedule ::
  "env \<Rightarrow> move_command \<Rightarrow> store \<Rightarrow> meeting_error + (store \<times> (meeting \<times> opportunity) \<times> bool)" where
  "request_reschedule E cmd s = move_meeting E cmd MtRescheduleRequested MeRescheduleRequested {MtScheduled} None s"

definition cancel_meeting ::
  "env \<Rightarrow> move_command \<Rightarrow> store \<Rightarrow> meeting_error + (store \<times> (meeting \<times> opportunity) \<times> bool)" where
  "cancel_meeting E cmd s = move_meeting E cmd MtCancelled MeCancelled (- {MtCancelled, MtCalendarPending}) None s"

definition require_meeting_review ::
  "env \<Rightarrow> move_command \<Rightarrow> store \<Rightarrow> meeting_error + (store \<times> (meeting \<times> opportunity) \<times> bool)" where
  "require_meeting_review E cmd s =
     move_meeting E cmd MtReviewRequired MeReviewRequired (- {MtCancelled, MtCalendarPending, MtReviewRequired}) None s"

section \<open>Scheduling with evidence\<close>

record schedule_meeting_command =
  sm_agent_id :: uuid
  sm_meeting_id :: uuid
  sm_actor_admin_id :: uuid
  sm_expected_version :: int
  sm_expected_opportunity_version :: int
  sm_slot_id :: uuid
  sm_evidence_type :: string
  sm_evidence_reference :: string
  sm_reason :: "string option"
  sm_correlation_id :: string
  sm_idempotency_key :: string

definition operator_actor :: "uuid \<Rightarrow> meeting_actor" where
  "operator_actor admin = \<lparr>ma_agent_id = None, ma_admin_id = Some admin, ma_opportunity_version = None,
     ma_control_version = None, ma_automation_version = None\<rparr>"

definition schedule_move :: "schedule_meeting_command \<Rightarrow> move_command" where
  "schedule_move cmd =
     \<lparr>mv_agent_id = sm_agent_id cmd, mv_meeting_id = sm_meeting_id cmd, mv_actor = operator_actor (sm_actor_admin_id cmd),
      mv_expected_version = sm_expected_version cmd, mv_reason = sm_reason cmd, mv_correlation_id = sm_correlation_id cmd,
      mv_idempotency_key = sm_idempotency_key cmd\<rparr>"

definition schedulable :: "meeting_status \<Rightarrow> bool" where
  "schedulable st \<longleftrightarrow> st \<in> {MtSlotsProposed, MtAwaitingResponse, MtSlotSelected, MtRescheduleRequested, MtReviewRequired}"

definition blocked_schedule_stages :: "opportunity_stage set" where
  "blocked_schedule_stages = {StPaused, StWon, StLost}"

definition meeting_stage_key :: "env \<Rightarrow> uuid \<Rightarrow> string \<Rightarrow> string" where
  "meeting_stage_key E mid key = ''meeting-stage:'' @ uuid_str mid @ '':'' @ take 32 (sha256 E key)"

definition meeting_stage_command :: "env \<Rightarrow> schedule_meeting_command \<Rightarrow> move_context \<Rightarrow> stage_command" where
  "meeting_stage_command E cmd k =
     \<lparr>sg_opportunity_id = op_id (mk_opportunity k), sg_actor_agent_id = op_assigned_agent_id (mk_opportunity k),
      sg_actor_operator_id = Some (sm_actor_admin_id cmd), sg_target_stage = stage_value StMeetingScheduled,
      sg_expected_version = sm_expected_opportunity_version cmd,
      sg_reason = Some ''Meeting confirmed with operator evidence.'', sg_correlation_id = mk_correlation k,
      sg_idempotency_key = meeting_stage_key E (mt_id (mk_meeting k)) (mk_key k), sg_occurred_at = None\<rparr>"

text \<open>The opportunity moves to its meeting stage unless it is there already.\<close>

definition advance_meeting_stage ::
  "env \<Rightarrow> schedule_meeting_command \<Rightarrow> move_context \<Rightarrow> store \<Rightarrow> meeting_error + (store \<times> opportunity)" where
  "advance_meeting_stage E cmd k s =
     (if op_stage (mk_opportunity k) \<noteq> StMeetingScheduled
      then bindE (mapErr MeetingOpportunity (transition_stage E (meeting_stage_command E cmd k) s))
             (\<lambda>(s1, p, _). Inr (s1, p))
      else Inr (s, mk_opportunity k))"

definition schedule_details ::
  "move_context \<Rightarrow> meeting_slot \<Rightarrow> string \<Rightarrow> string \<Rightarrow> event_details" where
  "schedule_details k slot ety eref = \<lparr>ed_type = MeScheduledManual, ed_from = Some (mt_status (mk_meeting k)),
     ed_slot = Some (ms_id slot), ed_evidence_type = Some ety, ed_evidence_reference = Some eref, ed_reason = mk_reason k\<rparr>"

definition schedule_manual ::
  "env \<Rightarrow> schedule_meeting_command \<Rightarrow> store \<Rightarrow> meeting_error + (store \<times> (meeting \<times> opportunity) \<times> bool)" where
  "schedule_manual E cmd s =
     bindE (meeting_text (sm_evidence_type cmd) ''evidence_type'' 40) (\<lambda>ety.
     bindE (meeting_text (sm_evidence_reference cmd) ''evidence_reference'' 255) (\<lambda>eref.
     bindE (meeting_optional (sm_reason cmd) 1000) (\<lambda>reason.
     bindE (meeting_context E s (schedule_move cmd) reason
              [(''evidence_reference'', JStr eref), (''evidence_type'', JStr ety),
               (''expected_opportunity_version'', JInt (sm_expected_opportunity_version cmd)),
               (''reason'', opt_json JStr reason), (''slot_id'', uuid_json (sm_slot_id cmd))]) (\<lambda>k.
     if mk_replayed k then Inr (context_result k s)
     else if op_control_version (mk_opportunity k) \<noteq> sm_expected_opportunity_version cmd
     then Inl (MeetingOpportunity OppVersionConflict)
     else if op_stage (mk_opportunity k) \<in> blocked_schedule_stages
     then Inl (InvalidMeeting ''paused or closed opportunity cannot schedule a meeting'')
     else if \<not> schedulable (mt_status (mk_meeting k))
     then Inl (InvalidMeeting ''meeting cannot be scheduled manually'')
     else
       bindE (current_slot s (mk_meeting k) (sm_slot_id cmd)) (\<lambda>slot.
       let m = moved_meeting MtScheduled (Some slot) (mk_meeting k) in
       bindE (advance_meeting_stage E cmd k s) (\<lambda>(s1, p).
       bindE (save_meeting E k (operator_actor (sm_actor_admin_id cmd)) m p (schedule_details k slot ety eref) s1) (\<lambda>s2.
         Inr (s2, (m, p), False))))))))"

end
