(* ===== verification/MeetingLife.thy ===== *)
theory MeetingLife
  imports Ledger Meetings
begin

text \<open>
  The meetings and their events as a ledger: a meeting is registered as requested at version 0, and every
  command that is not a retry starts its next version, follows an edge of the life cycle and leaves the
  event of that version.
\<close>

section \<open>The ledger\<close>

definition meeting_tables :: "store \<Rightarrow> meeting list \<times> meeting_event list" where
  "meeting_tables s = (meetings s, meeting_events s)"

text \<open>The columns that no operation changes.\<close>

definition meeting_part where
  "meeting_part (m :: meeting) = (mt_opportunity_id m, mt_conversation_id m, mt_created_under_agent_id m, mt_created_by_agent_id m,
     mt_created_by_admin_id m, mt_correlation_id m, mt_idempotency_key m, mt_command_hash m)"

fun meeting_edge :: "meeting_status \<Rightarrow> meeting_status \<Rightarrow> bool" where
  "meeting_edge a MtSlotsProposed \<longleftrightarrow> proposable a"
| "meeting_edge a MtAwaitingResponse \<longleftrightarrow> a = MtSlotsProposed"
| "meeting_edge a MtSlotSelected \<longleftrightarrow> a \<in> {MtSlotsProposed, MtAwaitingResponse}"
| "meeting_edge a MtScheduled \<longleftrightarrow> schedulable a"
| "meeting_edge a MtRescheduleRequested \<longleftrightarrow> a = MtScheduled"
| "meeting_edge a MtCancelled \<longleftrightarrow> a \<notin> {MtCancelled, MtCalendarPending}"
| "meeting_edge a MtReviewRequired \<longleftrightarrow> a \<notin> {MtCancelled, MtCalendarPending, MtReviewRequired}"
| "meeting_edge a _ \<longleftrightarrow> False"

definition meeting_ledger where
  "meeting_ledger =
     \<lparr>row_key = mt_id, row_part = meeting_part, row_version = mt_state_version, row_status = mt_status,
      event_key = (me_meeting_id :: meeting_event \<Rightarrow> uuid), event_version = me_state_version,
      event_from = me_from_status, event_to = me_to_status, first_version = 0, admits = (\<lambda>_ m. mt_status m = MtRequested),
      edge = (\<lambda>_ m m'. meeting_edge (mt_status m) (mt_status m'))\<rparr>"

lemma meeting_ledger_simps [simp]: "row_key meeting_ledger = mt_id" "row_part meeting_ledger = meeting_part"
  "row_version meeting_ledger = mt_state_version" "row_status meeting_ledger = mt_status"
  "event_key meeting_ledger = me_meeting_id" "event_version meeting_ledger = me_state_version"
  "event_from meeting_ledger = me_from_status" "event_to meeting_ledger = me_to_status" "first_version meeting_ledger = 0"
  "admits meeting_ledger ms m \<longleftrightarrow> mt_status m = MtRequested"
  "edge meeting_ledger ms m m' \<longleftrightarrow> meeting_edge (mt_status m) (mt_status m')"
  by (simp_all add: meeting_ledger_def)

lemma meeting_final: "row_final meeting_ledger MtCancelled"
proof -
  have "meeting_edge a b \<Longrightarrow> a \<noteq> MtCancelled" for a b
    by (cases b) (auto simp: proposable_def schedulable_def)
  then show ?thesis by (auto simp: row_final_def)
qed

section \<open>The operations by cases\<close>

lemma insert_meeting_Inr: "insert_meeting m s = Inr s' \<longleftrightarrow> meeting_checks m \<and>
    (\<forall>x\<in>set (meetings s). mt_id x \<noteq> mt_id m \<and> \<not> (mt_created_under_agent_id x = mt_created_under_agent_id m \<and>
       mt_idempotency_key x = mt_idempotency_key m)) \<and> s' = s\<lparr>meetings := meetings s @ [m]\<rparr>"
  by (auto simp: insert_meeting_def list_ex_iff)

lemma insert_meeting_event_Inr: "insert_meeting_event e s = Inr s' \<longleftrightarrow> meeting_event_checks e \<and>
    (\<forall>x\<in>set (meeting_events s). me_id x \<noteq> me_id e \<and> \<not> (me_meeting_id x = me_meeting_id e \<and>
       (me_state_version x = me_state_version e \<or> me_idempotency_key x = me_idempotency_key e))) \<and>
    s' = s\<lparr>meeting_events := meeting_events s @ [e]\<rparr>"
  by (auto simp: insert_meeting_event_def list_ex_iff)

lemma save_meeting_Inr: "save_meeting E k a m p d s = Inr s' \<Longrightarrow>
    \<exists>e. e = new_meeting_event E m p (mk_conversation k) a d (mk_correlation k) (mk_key k) (mk_hash k) \<and>
      meeting_checks m \<and> meeting_event_checks e \<and>
      s' = s\<lparr>meetings := put_row mt_id m (meetings s), meeting_events := meeting_events s @ [e]\<rparr>"
  by (auto simp: save_meeting_def update_meeting_def bindE_eq_Inr insert_meeting_event_Inr split: if_splits)

lemma meeting_assert_hash_Inr [simp]: "meeting_assert_hash a b = Inr u \<longleftrightarrow> sha256_hex a \<and> a = b"
  by (simp add: meeting_assert_hash_def)

lemma meeting_text_Inr [simp]: "meeting_text v name n = Inr t \<longleftrightarrow> t = strip v \<and> t \<noteq> [] \<and> length t \<le> n"
  by (simp add: meeting_text_def)

lemma lock_meetingD: "lock_meeting_opportunity s oid agent a = Inr p \<Longrightarrow>
    p \<in> set (opportunities s) \<and> op_id p = oid \<and> op_assigned_agent_id p = agent \<and> assert_actor_authorized s p a = Inr ()"
  by (auto simp: lock_meeting_opportunity_def bindE_eq_Inr split: option.splits if_splits dest: find_SomeD)

lemma context_fresh:
  assumes "meeting_context E s cmd reason payload = Inr k" "\<not> mk_replayed k"
  shows "get_meeting s (mv_meeting_id cmd) = Some (mk_meeting k)" "mk_meeting k \<in> set (meetings s)"
    "mt_id (mk_meeting k) = mv_meeting_id cmd" "mt_state_version (mk_meeting k) = mv_expected_version cmd"
    "0 \<le> mv_expected_version cmd" "mk_key k = strip (mv_idempotency_key cmd)"
    "mk_hash k = policy_command_hash E (move_literal cmd payload)" "validate_actor_shape (mv_actor cmd) = Inr ()"
    "lock_meeting_opportunity s (mt_opportunity_id (mk_meeting k)) (mv_agent_id cmd) (mv_actor cmd) = Inr (mk_opportunity k)"
    "assert_opportunity_epoch (mk_opportunity k) (mv_actor cmd) = Inr ()"
    "resolve_meeting_conversation s (mk_opportunity k) (mt_conversation_id (mk_meeting k)) (mv_actor cmd) True =
       Inr (mk_conversation k)"
    "move_receipt s (mt_id (mk_meeting k)) (mk_key k) = None"
proof -
  have "get_meeting s (mv_meeting_id cmd) = Some (mk_meeting k) \<and> mt_state_version (mk_meeting k) = mv_expected_version cmd \<and>
    0 \<le> mv_expected_version cmd \<and> mk_key k = strip (mv_idempotency_key cmd) \<and>
    mk_hash k = policy_command_hash E (move_literal cmd payload) \<and> validate_actor_shape (mv_actor cmd) = Inr () \<and>
    lock_meeting_opportunity s (mt_opportunity_id (mk_meeting k)) (mv_agent_id cmd) (mv_actor cmd) = Inr (mk_opportunity k) \<and>
    assert_opportunity_epoch (mk_opportunity k) (mv_actor cmd) = Inr () \<and>
    resolve_meeting_conversation s (mk_opportunity k) (mt_conversation_id (mk_meeting k)) (mv_actor cmd) True =
      Inr (mk_conversation k) \<and> move_receipt s (mt_id (mk_meeting k)) (mk_key k) = None"
    using assms by (auto simp: meeting_context_def bindE_eq_Inr Let_def not_less split: option.splits if_splits)
  then show "get_meeting s (mv_meeting_id cmd) = Some (mk_meeting k)" "mk_meeting k \<in> set (meetings s)"
    "mt_id (mk_meeting k) = mv_meeting_id cmd" "mt_state_version (mk_meeting k) = mv_expected_version cmd"
    "0 \<le> mv_expected_version cmd" "mk_key k = strip (mv_idempotency_key cmd)"
    "mk_hash k = policy_command_hash E (move_literal cmd payload)" "validate_actor_shape (mv_actor cmd) = Inr ()"
    "lock_meeting_opportunity s (mt_opportunity_id (mk_meeting k)) (mv_agent_id cmd) (mv_actor cmd) = Inr (mk_opportunity k)"
    "assert_opportunity_epoch (mk_opportunity k) (mv_actor cmd) = Inr ()"
    "resolve_meeting_conversation s (mk_opportunity k) (mt_conversation_id (mk_meeting k)) (mv_actor cmd) True =
       Inr (mk_conversation k)"
    "move_receipt s (mt_id (mk_meeting k)) (mk_key k) = None"
    by (auto simp: get_meeting_def dest: find_SomeD)
qed

lemma create_meeting_cases:
  assumes "create_meeting E cmd s = Inr (s', (m, p), b)"
  obtains (replay) "\<not> b" "s' = s" "meeting_receipt s (mc_agent_id cmd) (strip (mc_idempotency_key cmd)) = Some m"
  | (first) c e where b "lock_meeting_opportunity s (mc_opportunity_id cmd) (mc_agent_id cmd) (mc_actor cmd) = Inr p"
      "assert_opportunity_epoch p (mc_actor cmd) = Inr ()"
      "resolve_meeting_conversation s p (mc_conversation_id cmd) (mc_actor cmd) False = Inr c"
      "mt_status m = MtRequested" "mt_state_version m = 0" "mt_id m \<notin> mt_id ` set (meetings s)"
      "event_tells meeting_ledger None m e"
      "s' = s\<lparr>meetings := meetings s @ [m], meeting_events := meeting_events s @ [e]\<rparr>"
      "meeting_receipt s (mc_agent_id cmd) (strip (mc_idempotency_key cmd)) = None" "meeting_checks m"
      "m = created_meeting E cmd p c (strip (mc_correlation_id cmd)) (strip (mc_idempotency_key cmd))
         (policy_command_hash E (create_meeting_literal cmd))"
proof (cases "meeting_receipt s (mc_agent_id cmd) (strip (mc_idempotency_key cmd))")
  case (Some x)
  with assms show thesis by (intro replay) (auto simp: create_meeting_def bindE_eq_Inr Let_def)
next
  case None
  let ?correlation = "strip (mc_correlation_id cmd)" and ?key = "strip (mc_idempotency_key cmd)"
  let ?hash = "policy_command_hash E (create_meeting_literal cmd)"
  let ?event = "\<lambda>m c. new_meeting_event E m p c (mc_actor cmd) created_details ?correlation ?key ?hash"
  from assms None obtain q where q: "lock_meeting_opportunity s (mc_opportunity_id cmd) (mc_agent_id cmd) (mc_actor cmd) = Inr q"
    by (auto simp: create_meeting_def bindE_eq_Inr Let_def)
  from assms None q obtain c where c: "resolve_meeting_conversation s q (mc_conversation_id cmd) (mc_actor cmd) False = Inr c"
    by (auto simp: create_meeting_def bindE_eq_Inr Let_def)
  from assms None q c obtain s1 where s1: "insert_meeting (created_meeting E cmd q c ?correlation ?key ?hash) s = Inr s1"
    by (auto simp: create_meeting_def bindE_eq_Inr Let_def)
  from assms None q c s1 have f: b "q = p" "assert_opportunity_epoch p (mc_actor cmd) = Inr ()"
    "m = created_meeting E cmd p c ?correlation ?key ?hash" "insert_meeting_event (?event m c) s1 = Inr s'"
    by (auto simp: create_meeting_def bindE_eq_Inr Let_def)
  have m: "mt_status m = MtRequested" "mt_state_version m = 0" by (simp_all add: f(4) created_meeting_def)
  have s': "\<forall>x\<in>set (meetings s). mt_id x \<noteq> mt_id m" "meeting_checks m"
    "s' = s\<lparr>meetings := meetings s @ [m], meeting_events := meeting_events s @ [?event m c]\<rparr>"
    using s1 f(2,4,5) by (auto simp: insert_meeting_Inr insert_meeting_event_Inr)
  have new: "mt_id m \<notin> mt_id ` set (meetings s)" using s'(1) by (metis imageE)
  have tells: "event_tells meeting_ledger None m (?event m c)"
    by (simp add: event_tells_def new_meeting_event_def created_details_def)
  show thesis by (rule first [OF f(1) q [unfolded f(2)] f(3) c [unfolded f(2)] m new tells s'(3) None s'(2) f(4)])
qed

lemma insert_slots_Inr: "insert_meeting_slots ls s = Inr s' \<Longrightarrow> s' = s\<lparr>meeting_slots := meeting_slots s @ ls\<rparr>"
proof (induction ls arbitrary: s)
  case (Cons l ls)
  then have "insert_meeting_slots ls (s\<lparr>meeting_slots := meeting_slots s @ [l]\<rparr>) = Inr s'" by (auto split: if_splits)
  from Cons.IH [OF this] show ?case by simp
qed simp

text \<open>A command that changed a meeting: the row before it, the row after it and the event it left.\<close>

definition changes :: "meeting \<Rightarrow> meeting \<Rightarrow> meeting_event \<Rightarrow> store \<Rightarrow> store \<Rightarrow> bool" where
  "changes m m' e s s' \<longleftrightarrow> m \<in> set (meetings s) \<and> mt_id m' = mt_id m \<and> meeting_part m' = meeting_part m \<and>
     mt_state_version m' = mt_state_version m + 1 \<and> meeting_edge (mt_status m) (mt_status m') \<and>
     event_tells meeting_ledger (Some (mt_status m)) m' e \<and> meeting_event_checks e \<and>
     meetings s' = put_row mt_id m' (meetings s) \<and> meeting_events s' = meeting_events s @ [e] \<and>
     set (meeting_slots s) \<subseteq> set (meeting_slots s')"

lemma changes_step: "changes m m' e s s' \<Longrightarrow>
    ledger_step meeting_ledger (mt_id m) (meeting_tables s) (meeting_tables s')"
  unfolding changes_def meeting_tables_def
  using ledger_step.moved [where L = meeting_ledger and r = m and r' = m' and rs = "meetings s" and e = e] by simp

lemma save_changes:
  assumes "save_meeting E k a m' p d s1 = Inr s2" "mk_meeting k \<in> set (meetings s)" "meetings s1 = meetings s"
    "meeting_events s1 = meeting_events s" "set (meeting_slots s) \<subseteq> set (meeting_slots s1)"
    "mt_id m' = mt_id (mk_meeting k)" "meeting_part m' = meeting_part (mk_meeting k)"
    "mt_state_version m' = mt_state_version (mk_meeting k) + 1"
    "meeting_edge (mt_status (mk_meeting k)) (mt_status m')" "ed_from d = Some (mt_status (mk_meeting k))"
  shows "changes (mk_meeting k) m'
    (new_meeting_event E m' p (mk_conversation k) a d (mk_correlation k) (mk_key k) (mk_hash k)) s s2"
  using save_meeting_Inr [OF assms(1)] assms(2-)
  by (auto simp: changes_def event_tells_def new_meeting_event_def)

lemma propose_cases:
  assumes "propose_slots E zones cmd slots s = Inr (s', (m', p), b)"
  obtains (replay) "s' = s"
  | (moved) m e where "changes m m' e s s'" "mt_status m' = MtSlotsProposed" "dossiers s' = dossiers s"
proof -
  from assms obtain ns reason k where ns: "normalize_slots zones slots = Inr ns"
    "meeting_optional (mv_reason cmd) 1000 = Inr reason" "1 \<le> length ns \<and> length ns \<le> 10"
    and k: "meeting_context E s cmd reason [(''reason'', opt_json JStr reason), (''slots'', JArr (map slot_json ns))] = Inr k"
    by (auto simp: propose_slots_def bindE_eq_Inr)
  show thesis
  proof (cases "mk_replayed k")
    case True
    with assms ns k have "s' = s" by (simp add: propose_slots_def context_result_def)
    then show thesis by (rule replay)
  next
    case False
    note f = context_fresh [OF k False]
    let ?m = "proposed_meeting (mk_meeting k)"
    from assms ns k False obtain s1 where s1: "proposable (mt_status (mk_meeting k))" "m' = ?m"
      "insert_meeting_slots (new_slots E ?m ns) s = Inr s1"
      "save_meeting E k (mv_actor cmd) ?m (mk_opportunity k) (proposal_details k) s1 = Inr s'"
      by (auto simp: propose_slots_def bindE_eq_Inr Let_def split: if_splits)
    note s1' = insert_slots_Inr [OF s1(3)]
    have c: "changes (mk_meeting k) ?m (new_meeting_event E ?m (mk_opportunity k) (mk_conversation k) (mv_actor cmd)
        (proposal_details k) (mk_correlation k) (mk_key k) (mk_hash k)) s s'"
      by (rule save_changes [OF s1(4) f(2)])
        (use s1(1) in \<open>simp_all add: s1' proposed_meeting_def meeting_part_def proposal_details_def\<close>)
    have d: "dossiers s' = dossiers s" using save_meeting_Inr [OF s1(4)] by (auto simp: s1' dossiers_def)
    show thesis by (rule moved [OF c [folded s1(2)] _ d]) (simp add: s1(2) proposed_meeting_def)
  qed
qed

lemma moved_fields [simp]: "mt_id (moved_meeting st l m) = mt_id m" "meeting_part (moved_meeting st l m) = meeting_part m"
  "mt_state_version (moved_meeting st l m) = mt_state_version m + 1" "mt_status (moved_meeting st l m) = st"
  "mt_proposal_version (moved_meeting st l m) = mt_proposal_version m"
  "mt_selected_slot_id (moved_meeting st (Some x) m) = Some (ms_id x)"
  by (simp_all add: moved_meeting_def meeting_part_def Let_def split: option.splits)

lemma current_slotD: "current_slot s m i = Inr l \<Longrightarrow> l \<in> set (meeting_slots s) \<and> ms_id l = i \<and> ms_meeting_id l = mt_id m \<and>
    ms_proposal_version l = mt_proposal_version m"
  by (auto simp: current_slot_def split: option.splits if_splits dest: find_SomeD)

lemma move_cases:
  assumes "move_meeting E cmd target ty allowed slot_id s = Inr (s', (m', p), b)"
    "\<forall>a\<in>allowed. meeting_edge a target"
  obtains (replay) "s' = s"
  | (moved) m e where "changes m m' e s s'" "mt_status m' = target" "dossiers s' = dossiers s"
      "\<forall>i. slot_id = Some i \<longrightarrow> (\<exists>l\<in>set (meeting_slots s). ms_id l = i \<and> ms_meeting_id l = mt_id m \<and>
         ms_proposal_version l = mt_proposal_version m' \<and> mt_selected_slot_id m' = Some i)"
proof -
  let ?payload = "\<lambda>reason. [(''reason'', opt_json JStr reason), (''slot_id'', opt_json uuid_json slot_id),
     (''target_status'', JStr (meeting_status_value target))]"
  from assms(1) obtain reason k where reason: "meeting_optional (mv_reason cmd) 1000 = Inr reason"
    and k: "meeting_context E s cmd reason (?payload reason) = Inr k"
    by (auto simp: move_meeting_def bindE_eq_Inr)
  show thesis
  proof (cases "mk_replayed k")
    case True
    with assms(1) reason k have "s' = s" by (simp add: move_meeting_def context_result_def)
    then show thesis by (rule replay)
  next
    case False
    note f = context_fresh [OF k False]
    from assms(1) reason k False obtain slot where s1: "mt_status (mk_meeting k) \<in> allowed"
      "m' = moved_meeting target slot (mk_meeting k)"
      "(case slot_id of None \<Rightarrow> Inr None | Some i \<Rightarrow> bindE (current_slot s (mk_meeting k) i) (\<lambda>l. Inr (Some l))) = Inr slot"
      "save_meeting E k (mv_actor cmd) (moved_meeting target slot (mk_meeting k)) (mk_opportunity k) (move_details k ty slot) s = Inr s'"
      by (auto simp: move_meeting_def bindE_eq_Inr Let_def split: if_splits)
    have c: "changes (mk_meeting k) m' (new_meeting_event E m' (mk_opportunity k) (mk_conversation k) (mv_actor cmd)
        (move_details k ty slot) (mk_correlation k) (mk_key k) (mk_hash k)) s s'"
      unfolding s1(2) by (rule save_changes [OF s1(4) f(2)]) (use s1(1) assms(2) in \<open>simp_all add: move_details_def\<close>)
    have d: "dossiers s' = dossiers s" using save_meeting_Inr [OF s1(4)] by (auto simp: dossiers_def)
    have slot: "\<forall>i. slot_id = Some i \<longrightarrow> (\<exists>l\<in>set (meeting_slots s). ms_id l = i \<and> ms_meeting_id l = mt_id (mk_meeting k) \<and>
         ms_proposal_version l = mt_proposal_version m' \<and> mt_selected_slot_id m' = Some i)"
      using s1(3) by (fastforce simp: s1(2) bindE_eq_Inr dest!: current_slotD)
    show thesis by (rule moved [OF c _ d slot]) (simp add: s1(2))
  qed
qed

lemma advance_frame:
  assumes "advance_meeting_stage E cmd k s = Inr (s1, p)" "mk_opportunity k \<in> set (opportunities s)"
  shows "meetings s1 = meetings s" "meeting_events s1 = meeting_events s" "meeting_slots s1 = meeting_slots s"
    "dossier_step\<^sup>=\<^sup>= (dossiers s) (dossiers s1)" "p \<in> set (opportunities s1)" "op_id p = op_id (mk_opportunity k)"
    "stage_receipt s (op_id p) (strip (meeting_stage_key E (mt_id (mk_meeting k)) (mk_key k))) = None \<Longrightarrow>
       op_stage p = StMeetingScheduled"
proof -
  let ?sc = "meeting_stage_command E cmd k"
  have key: "sg_idempotency_key ?sc = meeting_stage_key E (mt_id (mk_meeting k)) (mk_key k)"
    "sg_opportunity_id ?sc = op_id (mk_opportunity k)" "sg_target_stage ?sc = stage_value StMeetingScheduled"
    by (simp_all add: meeting_stage_command_def)
  have "meetings s1 = meetings s \<and> meeting_events s1 = meeting_events s \<and> meeting_slots s1 = meeting_slots s \<and>
    dossier_step\<^sup>=\<^sup>= (dossiers s) (dossiers s1) \<and> p \<in> set (opportunities s1) \<and> op_id p = op_id (mk_opportunity k) \<and>
    (stage_receipt s (op_id p) (strip (meeting_stage_key E (mt_id (mk_meeting k)) (mk_key k))) = None \<longrightarrow>
       op_stage p = StMeetingScheduled)"
  proof (cases "op_stage (mk_opportunity k) = StMeetingScheduled")
    case True
    with assms show ?thesis by (simp add: advance_meeting_stage_def)
  next
    case False
    with assms(1) obtain b where t: "transition_stage E ?sc s = Inr (s1, p, b)"
      by (auto simp: advance_meeting_stage_def bindE_eq_Inr)
    have "opportunity_op s s1" using t by (rule op_staged)
    then have d: "dossier_step\<^sup>=\<^sup>= (dossiers s) (dossiers s1)" using opportunity_op_step by blast
    show ?thesis
      using t
    proof (cases rule: transition_cases)
      case (replay pr e)
      from load_opportunityD [OF replay(4)] have "p \<in> set (opportunities s)" "op_id p = op_id (mk_opportunity k)"
        by (simp_all add: key)
      moreover have "ps_key pr = strip (sg_idempotency_key ?sc)"
        using replay(1) by (auto simp: prepare_stage_def bindE_eq_Inr opp_required_text_def)
      ultimately show ?thesis using replay(5) d by (auto simp: replay(3) key)
    next
      case (first pr o1)
      have target: "ps_target pr = StMeetingScheduled"
        using first(1) by (auto simp: prepare_stage_def bindE_eq_Inr key policy_enum_value_def opportunity_stages_def)
      have "op_id p = op_id o1" "op_stage p = ps_target pr" by (simp_all add: first(10) staged_opportunity_def Let_def)
      with load_opportunityD [OF first(3)] target d show ?thesis
        by (auto simp: first(13) key set_put_row)
    qed
  qed
  then show "meetings s1 = meetings s" "meeting_events s1 = meeting_events s" "meeting_slots s1 = meeting_slots s"
    "dossier_step\<^sup>=\<^sup>= (dossiers s) (dossiers s1)" "p \<in> set (opportunities s1)" "op_id p = op_id (mk_opportunity k)"
    "stage_receipt s (op_id p) (strip (meeting_stage_key E (mt_id (mk_meeting k)) (mk_key k))) = None \<Longrightarrow>
       op_stage p = StMeetingScheduled" by blast+
qed

lemma schedule_manual_cases:
  assumes "schedule_manual E cmd s = Inr (s', (m', p), b)"
  obtains (replay) "s' = s"
  | (moved) m e l where "changes m m' e s s'" "mt_status m' = MtScheduled" "dossier_step\<^sup>=\<^sup>= (dossiers s) (dossiers s')"
      "l \<in> set (meeting_slots s)" "ms_id l = sm_slot_id cmd" "ms_meeting_id l = mt_id m'"
      "ms_proposal_version l = mt_proposal_version m'" "mt_selected_slot_id m' = Some (sm_slot_id cmd)"
      "me_event_type e = MeScheduledManual" "me_slot_id e = Some (sm_slot_id cmd)"
      "me_actor_admin_id e = Some (sm_actor_admin_id cmd)"
      "me_evidence_reference e = Some (strip (sm_evidence_reference cmd))" "strip (sm_evidence_reference cmd) \<noteq> []"
      "me_opportunity_control_version e = op_control_version p" "p \<in> set (opportunities s')"
      "mt_opportunity_id m' = op_id p"
      "stage_receipt s (op_id p) (strip (meeting_stage_key E (mt_id m') (strip (sm_idempotency_key cmd)))) = None \<Longrightarrow>
         op_stage p = StMeetingScheduled"
proof -
  let ?ety = "strip (sm_evidence_type cmd)" and ?eref = "strip (sm_evidence_reference cmd)"
  let ?payload = "\<lambda>reason. [(''evidence_reference'', JStr ?eref), (''evidence_type'', JStr ?ety),
     (''expected_opportunity_version'', JInt (sm_expected_opportunity_version cmd)),
     (''reason'', opt_json JStr reason), (''slot_id'', uuid_json (sm_slot_id cmd))]"
  from assms obtain reason k where reason: "meeting_optional (sm_reason cmd) 1000 = Inr reason" "?eref \<noteq> []"
    and k: "meeting_context E s (schedule_move cmd) reason (?payload reason) = Inr k"
    by (auto simp: schedule_manual_def bindE_eq_Inr)
  show thesis
  proof (cases "mk_replayed k")
    case True
    with assms reason k have "s' = s" by (auto simp: schedule_manual_def context_result_def bindE_eq_Inr)
    then show thesis by (rule replay)
  next
    case False
    note f = context_fresh [OF k False]
    note opp = lock_meetingD [OF f(9)]
    have mk: "mk_opportunity k \<in> set (opportunities s)" using opp by simp
    from assms reason k False obtain slot s1 where s1: "schedulable (mt_status (mk_meeting k))"
      "current_slot s (mk_meeting k) (sm_slot_id cmd) = Inr slot" "m' = moved_meeting MtScheduled (Some slot) (mk_meeting k)"
      "advance_meeting_stage E cmd k s = Inr (s1, p)"
      "save_meeting E k (operator_actor (sm_actor_admin_id cmd)) (moved_meeting MtScheduled (Some slot) (mk_meeting k)) p
         (schedule_details k slot ?ety ?eref) s1 = Inr s'"
      by (auto simp: schedule_manual_def bindE_eq_Inr Let_def split: if_splits)
    note fr = advance_frame [OF s1(4) mk]
    note slot = current_slotD [OF s1(2)]
    let ?e = "new_meeting_event E m' p (mk_conversation k) (operator_actor (sm_actor_admin_id cmd))
        (schedule_details k slot ?ety ?eref) (mk_correlation k) (mk_key k) (mk_hash k)"
    have c: "changes (mk_meeting k) m' ?e s s'"
      unfolding s1(3) by (rule save_changes [OF s1(5) f(2)]) (use s1(1) in \<open>simp_all add: fr schedule_details_def\<close>)
    have same: "dossiers s' = dossiers s1" "opportunities s' = opportunities s1"
      using save_meeting_Inr [OF s1(5)] by (auto simp: dossiers_def)
    have e: "me_event_type ?e = MeScheduledManual" "me_slot_id ?e = Some (sm_slot_id cmd)"
      "me_actor_admin_id ?e = Some (sm_actor_admin_id cmd)" "me_evidence_reference ?e = Some ?eref"
      "me_opportunity_control_version ?e = op_control_version p"
      using slot by (simp_all add: new_meeting_event_def schedule_details_def operator_actor_def)
    have m': "mt_status m' = MtScheduled" "ms_meeting_id slot = mt_id m'" "ms_proposal_version slot = mt_proposal_version m'"
      "mt_selected_slot_id m' = Some (sm_slot_id cmd)" "mt_id m' = mt_id (mk_meeting k)"
      using slot by (simp_all add: s1(3))
    have "mt_opportunity_id m' = mt_opportunity_id (mk_meeting k)" by (simp add: s1(3) moved_meeting_def)
    then have owner: "mt_opportunity_id m' = op_id p" using opp fr(6) by simp
    have key: "mk_key k = strip (sm_idempotency_key cmd)" using f(6) by (simp add: schedule_move_def)
    show thesis
      by (rule moved [of _ ?e slot, OF c m'(1) _ _ _ m'(2-4) e(1-4) reason(2) e(5) _ owner])
        (use fr slot in \<open>simp_all add: same m'(5) key\<close>)
  qed
qed

end
