(* ===== verification/MeetingPromises.thy ===== *)
theory MeetingPromises
  imports MeetingLife
begin

text \<open>
  What the meetings promise: complete histories, finality of a cancellation, confirmation only with the
  evidence of an operator on a slot of the current proposal, epochs that fence the automation, and
  idempotent commands.
\<close>

section \<open>All operations\<close>

inductive meeting_op :: "store \<Rightarrow> store \<Rightarrow> bool" where
  mo_create: "create_meeting E cmd0 s = Inr (s', r0) \<Longrightarrow> meeting_op s s'"
| mo_propose: "propose_slots E zones cmd1 slots s = Inr (s', r1) \<Longrightarrow> meeting_op s s'"
| mo_await: "mark_awaiting_response E cmd2 s = Inr (s', r2) \<Longrightarrow> meeting_op s s'"
| mo_select: "select_slot E cmd3 slot s = Inr (s', r3) \<Longrightarrow> meeting_op s s'"
| mo_reschedule: "request_reschedule E cmd4 s = Inr (s', r4) \<Longrightarrow> meeting_op s s'"
| mo_cancel: "cancel_meeting E cmd5 s = Inr (s', r5) \<Longrightarrow> meeting_op s s'"
| mo_review: "require_meeting_review E cmd6 s = Inr (s', r6) \<Longrightarrow> meeting_op s s'"
| mo_schedule: "schedule_manual E cmd7 s = Inr (s', r7) \<Longrightarrow> meeting_op s s'"
| mo_elsewhere: "meetings s' = meetings s \<Longrightarrow> meeting_events s' = meeting_events s \<Longrightarrow>
     meeting_slots s' = meeting_slots s \<Longrightarrow> meeting_op s s'"

text \<open>What the slot and the evidence of a row have to say about its status.\<close>

definition slot_chosen :: "meeting_slot list \<Rightarrow> meeting \<Rightarrow> bool" where
  "slot_chosen ls m \<longleftrightarrow> (\<exists>l\<in>set ls. mt_selected_slot_id m = Some (ms_id l) \<and> ms_meeting_id l = mt_id m \<and>
     ms_proposal_version l = mt_proposal_version m)"

definition confirmed_by :: "meeting \<Rightarrow> meeting_event \<Rightarrow> bool" where
  "confirmed_by m e \<longleftrightarrow> me_meeting_id e = mt_id m \<and> me_state_version e = mt_state_version m \<and>
     me_event_type e = MeScheduledManual \<and> me_slot_id e = mt_selected_slot_id m \<and> me_actor_admin_id e \<noteq> None \<and>
     me_evidence_type e \<noteq> None \<and> me_evidence_reference e \<noteq> None"

definition backed :: "meeting_slot list \<Rightarrow> meeting_event list \<Rightarrow> meeting \<Rightarrow> bool" where
  "backed ls es m \<longleftrightarrow> (mt_status m \<in> {MtSlotSelected, MtScheduled} \<longrightarrow> slot_chosen ls m) \<and>
     (mt_status m = MtScheduled \<longrightarrow> (\<exists>e\<in>set es. confirmed_by m e))"

definition all_backed :: "store \<Rightarrow> bool" where
  "all_backed s \<longleftrightarrow> (\<forall>m\<in>set (meetings s). backed (meeting_slots s) (meeting_events s) m)"

lemma backed_mono: "backed ls es m \<Longrightarrow> set ls \<subseteq> set ls' \<Longrightarrow> set es \<subseteq> set es' \<Longrightarrow> backed ls' es' m"
  by (auto simp: backed_def slot_chosen_def)

text \<open>Every operation is a retry, a registration or a change that leaves the changed row backed.\<close>

inductive meeting_turn :: "store \<Rightarrow> store \<Rightarrow> bool" where
  turn_none: "meeting_tables s' = meeting_tables s \<Longrightarrow> set (meeting_slots s) \<subseteq> set (meeting_slots s') \<Longrightarrow> meeting_turn s s'"
| turn_new: "mt_status m = MtRequested \<Longrightarrow> mt_state_version m = 0 \<Longrightarrow> mt_id m \<notin> mt_id ` set (meetings s) \<Longrightarrow>
     event_tells meeting_ledger None m e \<Longrightarrow> meeting_tables s' = (meetings s @ [m], meeting_events s @ [e]) \<Longrightarrow>
     set (meeting_slots s) \<subseteq> set (meeting_slots s') \<Longrightarrow> meeting_turn s s'"
| turn_change: "changes m m' e s s' \<Longrightarrow> backed (meeting_slots s') [e] m' \<Longrightarrow> meeting_turn s s'"

lemma unchanged_turn: "meeting_turn s s"
  by (rule turn_none) simp_all

lemma move_turn:
  assumes "move_meeting E cmd target ty allowed slot_id s = Inr (s', r)" "\<forall>a\<in>allowed. meeting_edge a target"
    "target \<noteq> MtScheduled" "target = MtSlotSelected \<Longrightarrow> slot_id \<noteq> None"
  shows "meeting_turn s s'"
proof -
  obtain m' p b where "r = ((m', p), b)" by (metis surj_pair)
  with assms(1) have run: "move_meeting E cmd target ty allowed slot_id s = Inr (s', (m', p), b)" by simp
  show ?thesis
  proof (cases rule: move_cases [OF run assms(2), case_names replay moved])
    case replay
    then show ?thesis by (simp add: unchanged_turn)
  next
    case (moved m e)
    have "slot_chosen (meeting_slots s') m'" if "target = MtSlotSelected"
      using moved(1,4) assms(4) [OF that] by (fastforce simp: slot_chosen_def changes_def)
    then have "backed (meeting_slots s') [e] m'" using moved(2) assms(3) by (simp add: backed_def)
    with moved(1) show ?thesis by (rule turn_change)
  qed
qed

lemma schedule_turn:
  assumes "schedule_manual E cmd s = Inr (s', r)"
  shows "meeting_turn s s'"
proof -
  obtain m' p b where "r = ((m', p), b)" by (metis surj_pair)
  with assms have run: "schedule_manual E cmd s = Inr (s', (m', p), b)" by simp
  show ?thesis
    using run
  proof (cases rule: schedule_manual_cases)
    case replay
    then show ?thesis by (simp add: unchanged_turn)
  next
    case (moved m e l)
    have "slot_chosen (meeting_slots s') m'"
      using moved(1,4-8) unfolding slot_chosen_def changes_def by (intro bexI [of _ l]) auto
    moreover have "confirmed_by m' e"
      using moved(1,8-11) by (auto simp: confirmed_by_def changes_def event_tells_def meeting_event_checks_def)
    ultimately show ?thesis by (intro turn_change [OF moved(1)]) (simp add: backed_def)
  qed
qed

lemma create_turn:
  assumes "create_meeting E cmd s = Inr (s', r)"
  shows "meeting_turn s s'"
proof -
  obtain m p b where "r = ((m, p), b)" by (metis surj_pair)
  with assms have run: "create_meeting E cmd s = Inr (s', (m, p), b)" by simp
  show ?thesis
    using run
  proof (cases rule: create_meeting_cases)
    case replay
    then show ?thesis by (simp add: unchanged_turn)
  next
    case (first c e)
    show ?thesis by (rule turn_new [OF first(5-8)]) (simp_all add: first(9) meeting_tables_def)
  qed
qed

lemma propose_turn:
  assumes "propose_slots E zones cmd slots s = Inr (s', r)"
  shows "meeting_turn s s'"
proof -
  obtain m' p b where "r = ((m', p), b)" by (metis surj_pair)
  with assms have run: "propose_slots E zones cmd slots s = Inr (s', (m', p), b)" by simp
  show ?thesis
    using run by (cases rule: propose_cases) (auto simp: unchanged_turn backed_def intro: turn_change)
qed

lemma meeting_op_turn: "meeting_op s s' \<Longrightarrow> meeting_turn s s'"
proof (induction rule: meeting_op.induct)
  case (mo_elsewhere s' s)
  then show ?case by (intro turn_none) (simp_all add: meeting_tables_def)
next
  case (mo_await E cmd s s' r)
  then show ?case unfolding mark_awaiting_response_def by (rule move_turn) simp_all
next
  case (mo_select E cmd slot s s' r)
  then show ?case unfolding select_slot_def by (rule move_turn) simp_all
next
  case (mo_reschedule E cmd s s' r)
  then show ?case unfolding request_reschedule_def by (rule move_turn) simp_all
next
  case (mo_cancel E cmd s s' r)
  then show ?case unfolding cancel_meeting_def by (rule move_turn) simp_all
next
  case (mo_review E cmd s s' r)
  then show ?case unfolding require_meeting_review_def by (rule move_turn) simp_all
qed (rule create_turn propose_turn schedule_turn, assumption)+

lemma meeting_turn_moves: "meeting_turn s s' \<Longrightarrow> ledger_moves meeting_ledger (meeting_tables s) (meeting_tables s')"
proof (induction rule: meeting_turn.induct)
  case (turn_new m s e s')
  have "ledger_step meeting_ledger (mt_id m) (meetings s, meeting_events s) (meetings s @ [m], meeting_events s @ [e])"
    using ledger_step.registered [where L = meeting_ledger and r = m and rs = "meetings s" and es = "meeting_events s"
        and e = e] turn_new by simp
  then have "ledger_moves meeting_ledger (meetings s, meeting_events s) (meetings s @ [m], meeting_events s @ [e])"
    by (rule ledger_moves_step)
  with turn_new(5) show ?case by (simp add: meeting_tables_def)
next
  case (turn_change m m' e s s')
  from ledger_moves_step [OF changes_step [OF turn_change(1)]] show ?case .
qed simp

lemma meeting_turn_backed: "meeting_turn s s' \<Longrightarrow> all_backed s \<Longrightarrow> all_backed s'"
proof (induction rule: meeting_turn.induct)
  case (turn_none s' s)
  then show ?case by (auto simp: all_backed_def meeting_tables_def intro: backed_mono)
next
  case (turn_new m s e s')
  have "backed ls es m" for ls es using turn_new(1) by (simp add: backed_def)
  with turn_new show ?case by (auto simp: all_backed_def meeting_tables_def intro: backed_mono)
next
  case (turn_change m m' e s s')
  have row: "backed (meeting_slots s') (meeting_events s') m'"
    using turn_change(1) by (intro backed_mono [OF turn_change(2)]) (auto simp: changes_def)
  have sub: "set (meeting_slots s) \<subseteq> set (meeting_slots s')" "set (meeting_events s) \<subseteq> set (meeting_events s')"
    "meetings s' = put_row mt_id m' (meetings s)" using turn_change(1) by (simp_all add: changes_def subset_insertI)
  have "backed (meeting_slots s') (meeting_events s') x" if "x \<in> set (meetings s)" for x
    using that turn_change(3) by (intro backed_mono [OF _ sub(1,2)]) (simp add: all_backed_def)
  with row show ?case unfolding all_backed_def sub(3) by (blast dest: set_put_rowD)
qed

interpretation meetings: ledger_service meeting_ledger meeting_tables meeting_op
  by unfold_locales (rule meeting_turn_moves [OF meeting_op_turn])

section \<open>Histories\<close>

text \<open>The events of a meeting tell its whole life: they carry the versions 0 up to the current one, once
  each, and lead from nothing to its status; and whatever runs later, no meeting is lost, what it was
  registered with is not rewritten, and a cancelled meeting keeps status and version.\<close>

theorem meeting_trail:
  assumes "ledger_inv meeting_ledger (meeting_tables s)" "meeting_op\<^sup>*\<^sup>* s s'"
  shows "(\<forall>m\<in>set (meetings s').
      event_versions meeting_ledger (meeting_tables s') (mt_id m) = [0 .. mt_state_version m] \<and>
      event_path meeting_ledger None (row_events meeting_ledger (meeting_tables s') (mt_id m)) (Some (mt_status m))) \<and>
    (\<forall>m\<in>set (meetings s). \<exists>m'\<in>set (meetings s'). mt_id m' = mt_id m \<and> meeting_part m' = meeting_part m \<and>
      (mt_status m = MtCancelled \<longrightarrow> mt_status m' = MtCancelled \<and> mt_state_version m' = mt_state_version m))"
proof -
  have "event_versions meeting_ledger (meeting_tables s') (mt_id m) = [0 .. mt_state_version m] \<and>
      event_path meeting_ledger None (row_events meeting_ledger (meeting_tables s') (mt_id m)) (Some (mt_status m))"
    if "m \<in> set (meetings s')" for m
    using meetings.ops_trail [OF assms(2,1), of m] that by (simp add: meeting_tables_def)
  moreover have "\<exists>m'\<in>set (meetings s'). mt_id m' = mt_id m \<and> meeting_part m' = meeting_part m \<and>
      (mt_status m = MtCancelled \<longrightarrow> mt_status m' = MtCancelled \<and> mt_state_version m' = mt_state_version m)"
    if "m \<in> set (meetings s)" for m
    using meetings.ops_keep [OF assms(2,1), of m] that meeting_final by (auto simp: meeting_tables_def)
  ultimately show ?thesis by blast
qed

section \<open>Evidence\<close>

lemma meeting_ops_backed: "meeting_op\<^sup>*\<^sup>* s s' \<Longrightarrow> all_backed s \<Longrightarrow> all_backed s'"
  by (induction rule: rtranclp_induct) (auto dest: meeting_op_turn meeting_turn_backed)

text \<open>C15: whatever commands run, a meeting counts as scheduled only by the evidence of an operator: the event
  of its current version names the operator, the evidence and the slot the meeting has selected, and that
  slot belongs to its current proposal.\<close>

theorem scheduled_with_evidence:
  assumes "all_backed s" "meeting_op\<^sup>*\<^sup>* s s'" "m \<in> set (meetings s')" "mt_status m = MtScheduled"
  shows "(\<exists>e\<in>set (meeting_events s'). me_meeting_id e = mt_id m \<and> me_state_version e = mt_state_version m \<and>
      me_event_type e = MeScheduledManual \<and> me_slot_id e = mt_selected_slot_id m \<and> me_actor_admin_id e \<noteq> None \<and>
      me_evidence_reference e \<noteq> None) \<and>
    (\<exists>l\<in>set (meeting_slots s'). mt_selected_slot_id m = Some (ms_id l) \<and> ms_meeting_id l = mt_id m \<and>
      ms_proposal_version l = mt_proposal_version m)"
proof -
  have "backed (meeting_slots s') (meeting_events s') m"
    using meeting_ops_backed [OF assms(2,1)] assms(3) by (simp add: all_backed_def)
  then obtain e l where "e \<in> set (meeting_events s')" "confirmed_by m e" "slot_chosen (meeting_slots s') m"
    using assms(4) by (auto simp: backed_def)
  then show ?thesis unfolding confirmed_by_def slot_chosen_def by blast
qed

text \<open>C19: confirming a meeting moves its opportunity: a first \<open>schedule_manual\<close> is at most one step of the
  dossier machine, leaves the opportunity of the meeting in its meeting stage (unless the key derived for
  that stage change was used before), and its event carries the epoch the opportunity then has.\<close>

theorem schedule_advances_opportunity:
  assumes "schedule_manual E cmd s = Inr (s', (m, p), b)" "s' \<noteq> s"
    "stage_receipt s (op_id p) (strip (meeting_stage_key E (mt_id m) (strip (sm_idempotency_key cmd)))) = None"
  shows "op_stage p = StMeetingScheduled \<and> p \<in> set (opportunities s') \<and> mt_opportunity_id m = op_id p \<and>
    dossier_step\<^sup>=\<^sup>= (dossiers s) (dossiers s') \<and> mt_status m = MtScheduled \<and>
    (\<exists>e\<in>set (meeting_events s'). confirmed_by m e \<and> me_opportunity_control_version e = op_control_version p)"
  using assms(1)
proof (cases rule: schedule_manual_cases)
  case (moved m0 e l)
  have "confirmed_by m e"
    using moved(1,8-11) by (auto simp: confirmed_by_def changes_def event_tells_def meeting_event_checks_def)
  moreover have "e \<in> set (meeting_events s')" using moved(1) by (simp add: changes_def)
  ultimately show ?thesis using moved(2,3,14,15,16) moved(17) [OF assms(3)] by blast
qed (use assms(2) in simp)

section \<open>Fences\<close>

definition fenced_actor :: "store \<Rightarrow> meeting_actor \<Rightarrow> uuid \<Rightarrow> meeting \<Rightarrow> opportunity \<Rightarrow> conversation \<Rightarrow> bool" where
  "fenced_actor s a agent m p c \<longleftrightarrow> c \<in> set (conversations s) \<and> mt_conversation_id m = Some (cv_id c) \<and>
     (\<exists>l\<in>set (conversation_links s). ol_conversation_id l = Some (cv_id c) \<and> ol_opportunity_id l = op_id p) \<and>
     cv_status c = ''active'' \<and> cv_control_mode c = Automated \<and> cv_automation_agent_id c = agent \<and>
     op_assigned_agent_id p = agent \<and> ma_control_version a = Some (cv_control_version c) \<and>
     ma_automation_version a = Some (cv_automation_version c) \<and> ma_opportunity_version a = Some (op_control_version p) \<and>
     (\<exists>g\<in>set (agents s). ag_id g = agent \<and> ag_is_active g)"

lemma context_fenced:
  assumes "meeting_context E s cmd reason payload = Inr k" "\<not> mk_replayed k" "ma_agent_id (mv_actor cmd) = Some agent"
  shows "\<exists>c. mk_conversation k = Some c \<and>
    fenced_actor s (mv_actor cmd) agent (mk_meeting k) (mk_opportunity k) c"
proof -
  note f = context_fresh [OF assms(1,2)]
  have "ma_admin_id (mv_actor cmd) = None"
    using f(8) assms(3) by (simp add: validate_actor_shape_def Let_def split: if_splits)
  note res = f(11) [unfolded resolve_meeting_conversation_def] assms(3) this
  obtain cid where cid: "mt_conversation_id (mk_meeting k) = Some cid"
    using res by (cases "mt_conversation_id (mk_meeting k)") simp_all
  obtain c where linked: "linked_meeting_conversation s (mk_opportunity k) cid = Some c"
    using res cid by (cases "linked_meeting_conversation s (mk_opportunity k) cid") simp_all
  have held: "mk_conversation k = Some c" "epochs_hold c (mk_opportunity k) agent (mv_actor cmd)"
    using res cid linked by (simp_all split: if_splits)
  note c = cid linked held
  have conv: "c \<in> set (conversations s) \<and> cv_id c = cid \<and>
      (\<exists>l\<in>set (conversation_links s). ol_conversation_id l = Some cid \<and> ol_opportunity_id l = op_id (mk_opportunity k))"
    using c(2) by (auto simp: linked_meeting_conversation_def list_ex_iff split: if_splits dest: get_conversationD)
  have agent: "\<exists>g\<in>set (agents s). ag_id g = agent \<and> ag_is_active g"
    using lock_meetingD [OF f(9)] assms(3)
    by (auto simp: assert_actor_authorized_def split: option.splits if_splits dest: find_SomeD)
  have "ma_opportunity_version (mv_actor cmd) = Some (op_control_version (mk_opportunity k))"
    using f(10) assms(3) by (simp add: assert_opportunity_epoch_def split: if_splits)
  with c conv agent show ?thesis by (simp add: fenced_actor_def epochs_hold_def)
qed


section \<open>Idempotency\<close>

lemma has_permission_same:
  assumes "roles s' = roles s" "admin_agent_grants s' = admin_agent_grants s"
  shows "has_agent_permission s' a role b p = has_agent_permission s a role b p"
  unfolding has_agent_permission_def permissions_for_agent_def has_permission_cong [OF assms(1)] assms(2) by (rule refl)

lemma authorized_same:
  assumes "agents s' = agents s" "admins s' = admins s" "roles s' = roles s" "admin_agent_grants s' = admin_agent_grants s"
  shows "assert_actor_authorized s' p a = assert_actor_authorized s p a"
  unfolding assert_actor_authorized_def has_permission_same [OF assms(3,4)] assms(1,2) by (rule refl)

lemma lock_meeting_same:
  assumes "opportunities s' = opportunities s" "agents s' = agents s" "admins s' = admins s" "roles s' = roles s"
    "admin_agent_grants s' = admin_agent_grants s"
  shows "lock_meeting_opportunity s' oid agent a = lock_meeting_opportunity s oid agent a"
  unfolding lock_meeting_opportunity_def authorized_same [OF assms(2-5)] assms(1) by (rule refl)

definition booking_hash :: "env \<Rightarrow> meeting_command \<Rightarrow> string" where
  "booking_hash E cmd = policy_command_hash E (create_meeting_literal cmd)"

definition booking_valid :: "env \<Rightarrow> store \<Rightarrow> meeting_command \<Rightarrow> bool" where
  "booking_valid E s cmd \<longleftrightarrow> validate_actor_shape (mc_actor cmd) = Inr () \<and> sha256_hex (booking_hash E cmd) \<and>
     (\<exists>t. meeting_text (mc_correlation_id cmd) ''correlation_id'' 120 = Inr t) \<and>
     (\<exists>t. meeting_text (mc_idempotency_key cmd) ''idempotency_key'' 220 = Inr t)"

definition booking_filed :: "store \<Rightarrow> meeting_command \<Rightarrow> (string \<times> meeting \<times> opportunity) option" where
  "booking_filed s cmd =
     (case meeting_receipt s (mc_agent_id cmd) (strip (mc_idempotency_key cmd)) of
        None \<Rightarrow> None
      | Some m \<Rightarrow>
          (case lock_meeting_opportunity s (mt_opportunity_id m) (mc_agent_id cmd) (mc_actor cmd) of
             Inl _ \<Rightarrow> None | Inr p \<Rightarrow> Some (mt_command_hash m, m, p)))"

lemmas booking_filing = booking_valid_def booking_filed_def booking_hash_def

interpretation bookings: idempotent_command "\<lambda>s c. forget (create_meeting E c s)" "booking_valid E" booking_filed
  "\<lambda>s. booking_hash E" MeetingIdempotency for E
proof
  fix s cmd x
  assume "booking_valid E s cmd" "booking_filed s cmd = Some (booking_hash E cmd, x)"
  then show "forget (create_meeting E cmd s) = Inr (s, x)"
    by (auto simp: booking_filing create_meeting_def forget_def meeting_assert_hash_def policy_assert_hash_def Let_def
          meeting_text_def policy_required_text_def
        split: option.splits sum.splits if_splits)
next
  fix s cmd h x
  assume "booking_valid E s cmd" "booking_filed s cmd = Some (h, x)" "h \<noteq> booking_hash E cmd"
  then show "forget (create_meeting E cmd s) = Inl MeetingIdempotency"
    by (auto simp: booking_filing create_meeting_def forget_def meeting_assert_hash_def policy_assert_hash_def Let_def
          meeting_text_def policy_required_text_def
        split: option.splits sum.splits if_splits)
next
  fix s cmd s' x assume "forget (create_meeting E cmd s) = Inr (s', x)"
  then obtain m p b where run: "create_meeting E cmd s = Inr (s', (m, p), b)" and x: "x = (m, p)"
    by (metis forget_Inr surj_pair)
  have texts: "validate_actor_shape (mc_actor cmd) = Inr ()"
    "\<exists>t. meeting_text (mc_correlation_id cmd) ''correlation_id'' 120 = Inr t"
    "\<exists>t. meeting_text (mc_idempotency_key cmd) ''idempotency_key'' 220 = Inr t"
    using run by (auto simp: create_meeting_def bindE_eq_Inr)
  have "sha256_hex (booking_hash E cmd) \<and> booking_filed s' cmd = Some (booking_hash E cmd, x)"
    using run
  proof (cases rule: create_meeting_cases)
    case replay
    with run texts show ?thesis
      by (auto simp: x booking_filing create_meeting_def meeting_assert_hash_def policy_assert_hash_def bindE_eq_Inr Let_def
          split: if_splits)
  next
    case (first c e)
    have row: "mt_created_under_agent_id m = mc_agent_id cmd" "mt_idempotency_key m = strip (mc_idempotency_key cmd)"
      "mt_command_hash m = booking_hash E cmd" "mt_opportunity_id m = op_id p"
      by (simp_all add: first(12) created_meeting_def booking_hash_def)
    have "meeting_receipt s' (mc_agent_id cmd) (strip (mc_idempotency_key cmd)) = Some m"
      using first(10) row by (simp add: meeting_receipt_def first(9) find_append)
    moreover have "lock_meeting_opportunity s' (op_id p) (mc_agent_id cmd) (mc_actor cmd) = Inr p"
      using first(2) lock_meetingD [OF first(2)] lock_meeting_same [of s' s] by (simp add: first(9))
    ultimately show ?thesis using first(11) row by (simp add: x booking_filed_def meeting_checks_def)
  qed
  with texts show "booking_valid E s cmd \<and> booking_valid E s' cmd \<and> booking_hash E cmd = booking_hash E cmd \<and>
      booking_filed s' cmd = Some (booking_hash E cmd, x)"
    by (simp add: booking_valid_def)
qed

end
