(* ===== verification/MeetingWitnesses.thy ===== *)
theory MeetingWitnesses
  imports MeetingPromises OpportunityWitnesses
begin

text \<open>A meeting of the sample dossier with one proposed slot: an operator confirms it, the agent cancels it.\<close>

definition meet_row :: meeting where
  "meet_row = \<lparr>mt_id = UUID 30, mt_opportunity_id = UUID 50, mt_conversation_id = Some (UUID 1),
     mt_created_under_agent_id = UUID 2, mt_created_by_agent_id = Some (UUID 2), mt_created_by_admin_id = None,
     mt_status = MtSlotsProposed, mt_state_version = 1, mt_proposal_version = 1, mt_selected_slot_id = None,
     mt_correlation_id = ''c0'', mt_idempotency_key = ''k0'', mt_command_hash = deal_hash\<rparr>"

definition meet_slot :: meeting_slot where
  "meet_slot = \<lparr>ms_id = UUID 31, ms_meeting_id = UUID 30, ms_proposal_version = 1, ms_position = 1, ms_starts_at = 60,
     ms_ends_at = 70, ms_timezone = ''UTC'', ms_created_at = 1\<rparr>"

definition meet_link :: conversation_link where
  "meet_link = \<lparr>ol_id = UUID 53, ol_opportunity_id = UUID 50, ol_conversation_id = Some (UUID 1),
     ol_linked_by_agent_id = UUID 2, ol_linked_by_operator_id = None, ol_correlation_id = ''c0'',
     ol_idempotency_key = ''k0'', ol_command_hash = deal_hash, ol_created_at = 1\<rparr>"

definition meet_role :: admin_role where
  "meet_role = \<lparr>ro_key = ''admin'', ro_permissions = JArr [JStr ''*''], ro_is_active = True\<rparr>"

definition meet_grant :: admin_agent_grant where
  "meet_grant = \<lparr>aa_id = UUID 54, aa_admin_user_id = UUID 9, aa_agent_id = UUID 2,
     aa_permissions = grant_json [''meetings.manage''], aa_is_active = True, aa_created_by = None, aa_updated_by = None\<rparr>"

definition meet_store :: store where
  "meet_store = (deal_store [] [])\<lparr>roles := [meet_role], admin_agent_grants := [meet_grant],
     conversation_links := [meet_link], meetings := [meet_row], meeting_slots := [meet_slot]\<rparr>"

lemma meet_tables [simp]: "opportunities meet_store = [deal_row]" "stage_events meet_store = [deal_stage]"
  "meetings meet_store = [meet_row]" "meeting_slots meet_store = [meet_slot]" "meeting_events meet_store = []"
  "conversation_links meet_store = [meet_link]" "conversations meet_store = [sample_conversation]"
  "admins meet_store = admins sample_store" "agents meet_store = agents sample_store"
  "roles meet_store = [meet_role]" "admin_agent_grants meet_store = [meet_grant]"
  by (simp_all add: meet_store_def deal_store_def) (simp_all add: sample_store_def empty_store_def)

lemma meet_texts: "strip ''k1'' = ''k1''" "strip ''c1'' = ''c1''" "strip ''call'' = ''call''" "strip ''ref-1'' = ''ref-1''"
  by (simp_all add: strip_def is_space_def)

lemma sample_policy_hash: "policy_command_hash sample_env payload = deal_hash" "sha256_hex deal_hash"
  by (simp_all add: policy_command_hash_def command_digest_def sample_env_def deal_hash_def)

lemma meet_fields: "mt_id meet_row = UUID 30" "mt_opportunity_id meet_row = UUID 50" "mt_state_version meet_row = 1"
  "mt_status meet_row = MtSlotsProposed" "mt_conversation_id meet_row = Some (UUID 1)" "mt_proposal_version meet_row = 1"
  "ms_id meet_slot = UUID 31" "ms_meeting_id meet_slot = UUID 30" "ms_proposal_version meet_slot = 1"
  "op_id deal_row = UUID 50" "op_assigned_agent_id deal_row = UUID 2" "op_control_version deal_row = 0" "op_stage deal_row = StNew"
  "op_assigned_operator_id deal_row = None" "cv_id sample_conversation = UUID 1"
  by (simp_all add: meet_row_def meet_slot_def deal_row_def sample_conversation_def)

lemma meet_linked: "linked_meeting_conversation meet_store deal_row (UUID 1) = Some sample_conversation"
  by (simp add: linked_meeting_conversation_def get_conversation_def meet_fields) (simp add: meet_link_def)

lemma meet_saved: "meeting_checks (moved_meeting st l meet_row)"
  by (simp add: meeting_checks_def moved_meeting_def meet_row_def sample_policy_hash btrim_def Let_def split: option.split)

lemma meet_put: "put_row mt_id (moved_meeting st l meet_row) [meet_row] = [moved_meeting st l meet_row]"
  by (simp add: put_row_def)

section \<open>An operator confirms\<close>

definition confirm_command :: schedule_meeting_command where
  "confirm_command = \<lparr>sm_agent_id = UUID 2, sm_meeting_id = UUID 30, sm_actor_admin_id = UUID 9, sm_expected_version = 1,
     sm_expected_opportunity_version = 0, sm_slot_id = UUID 31, sm_evidence_type = ''call'',
     sm_evidence_reference = ''ref-1'', sm_reason = None, sm_correlation_id = ''c1'', sm_idempotency_key = ''k1''\<rparr>"

definition confirm_context :: move_context where
  "confirm_context = \<lparr>mk_meeting = meet_row, mk_opportunity = deal_row, mk_conversation = Some sample_conversation,
     mk_correlation = ''c1'', mk_key = ''k1'', mk_hash = deal_hash, mk_reason = None, mk_replayed = False\<rparr>"

definition staged_row :: opportunity where
  "staged_row = deal_row\<lparr>op_control_version := 1, op_stage := StMeetingScheduled\<rparr>"

lemma confirm_allowed: "lock_meeting_opportunity meet_store (UUID 50) (UUID 2) (operator_actor (UUID 9)) = Inr deal_row"
proof -
  have "has_agent_permission meet_store (UUID 9) ''admin'' (UUID 2) meetings_manage"
    by (simp add: has_agent_permission_def has_permission_def permissions_for_role_def permissions_for_agent_def meet_role_def
        meet_grant_def List.map_filter_simps permission_all_def allows_def grant_json_def json_texts_def meetings_manage_def)
  then show ?thesis
    by (simp add: lock_meeting_opportunity_def assert_actor_authorized_def operator_actor_def meet_fields sample_store_def)
qed

lemma confirm_in_context: "meeting_context sample_env meet_store (schedule_move confirm_command) None payload = Inr confirm_context"
  by (simp add: meeting_context_def schedule_move_def confirm_command_def validate_actor_shape_def operator_actor_def Let_def
      meeting_text_def policy_required_text_def meet_texts sample_policy_hash get_meeting_def meet_fields
      confirm_allowed [unfolded operator_actor_def] move_receipt_def assert_opportunity_epoch_def
      resolve_meeting_conversation_def meet_linked confirm_context_def del: meeting_text_Inr)

lemma stage_key_text: "meeting_stage_key sample_env (UUID 30) ''k1'' =
    ''meeting-stage:00000000-0000-0000-0000-00000000001e:'' @ replicate 32 (CHR ''a'')"
  unfolding meeting_stage_key_def by (simp add: sample_env_def) code_simp


lemma stage_key: "strip (meeting_stage_key sample_env (UUID 30) ''k1'') = meeting_stage_key sample_env (UUID 30) ''k1''"
  "length (meeting_stage_key sample_env (UUID 30) ''k1'') = 83" "meeting_stage_key sample_env (UUID 30) ''k1'' \<noteq> ''k0''"
  "meeting_stage_key sample_env (UUID 30) ''k1'' \<noteq> []" "0 < length (btrim (meeting_stage_key sample_env (UUID 30) ''k1''))"
  unfolding stage_key_text by (code_simp, simp, simp, simp, code_simp)

lemma confirm_advances: "\<exists>s1. advance_meeting_stage sample_env confirm_command confirm_context meet_store = Inr (s1, staged_row) \<and>
    s1 = meet_store\<lparr>opportunities := [staged_row], stage_events := stage_events s1\<rparr>"
proof -
  let ?c = "meeting_stage_command sample_env confirm_command confirm_context"
  let ?key = "meeting_stage_key sample_env (UUID 30) ''k1''"
  let ?p = "\<lparr>ps_target = StMeetingScheduled, ps_reason = Some ''Meeting confirmed with operator evidence.'',
      ps_correlation = ''c1'', ps_key = ?key, ps_event_time = 50, ps_command_hash = deal_hash\<rparr>"
  have c: "sg_opportunity_id ?c = UUID 50" "sg_actor_agent_id ?c = UUID 2" "sg_actor_operator_id ?c = Some (UUID 9)"
    "sg_target_stage ?c = stage_value StMeetingScheduled" "sg_expected_version ?c = 0"
    "sg_reason ?c = Some ''Meeting confirmed with operator evidence.''" "sg_correlation_id ?c = ''c1''"
    "sg_idempotency_key ?c = ?key" "sg_occurred_at ?c = None"
    by (simp_all add: meeting_stage_command_def confirm_command_def confirm_context_def meet_fields)
  have prep: "prepare_stage sample_env ?c = Inr ?p"
    by (simp add: prepare_stage_def c policy_enum_value_def opportunity_stages_def opp_optional_text_def
      policy_optional_text_def opp_required_text_def policy_required_text_def policy_aware_utc_def to_utc_def Let_def
      stage_key meet_texts sample_policy_hash) (simp add: strip_def is_space_def sample_env_def)
  have load: "load_opportunity meet_store (UUID 50) = Inr deal_row" by (simp add: load_opportunity_def meet_fields)
  have new: "stage_receipt meet_store (UUID 50) ?key = None"
    using stage_key(3) by (simp add: stage_receipt_def) (simp add: deal_stage_def)
  have own: "assert_owner deal_row (UUID 2) (Some (UUID 9)) = Inr ()" "assert_opportunity_version deal_row 0 = Inr ()"
    by (simp_all add: deal_row_def)
  have row: "staged_opportunity deal_row StMeetingScheduled 50 = staged_row"
    by (simp add: staged_opportunity_def terminal_stage_def staged_row_def deal_row_def)
  have ok: "opportunity_checks staged_row" "put_row op_id staged_row [deal_row] = [staged_row]"
    by (simp_all add: opportunity_checks_def staged_row_def deal_row_def sample_policy_hash btrim_def put_row_def)
  let ?e = "new_stage_event sample_env ?c ?p deal_row staged_row"
  have ev: "stage_event_checks ?e" "se_id ?e = UUID 7" "se_control_version ?e = 1" "se_idempotency_key ?e = ?key"
    using stage_key(5) sample_policy_hash
    by (simp_all add: stage_event_checks_def new_stage_event_def c btrim_def sample_env_def staged_row_def deal_row_def)
  have apart: "se_id deal_stage = UUID 51" "se_idempotency_key deal_stage = ''k0''" "se_control_version deal_stage = 0"
    by (simp_all add: deal_stage_def)
  have "transition_stage sample_env ?c meet_store =
      Inr (meet_store\<lparr>opportunities := [staged_row], stage_events := [deal_stage, ?e]\<rparr>, staged_row, True)"
    unfolding transition_stage_def prep
    using stage_key(3) by (simp add: c load new own meet_fields row Let_def update_opportunity_def ok insert_stage_event_def
        ev apart terminal_stage_def del: assert_owner_Inr assert_opportunity_version_Inr)
  then show ?thesis by (simp add: advance_meeting_stage_def) (simp add: confirm_context_def meet_fields)
qed

definition confirmed_row :: meeting where "confirmed_row = moved_meeting MtScheduled (Some meet_slot) meet_row"

lemma confirmed: "\<exists>s' e. schedule_manual sample_env confirm_command meet_store = Inr (s', (confirmed_row, staged_row), False) \<and>
    meetings s' = [confirmed_row] \<and> meeting_events s' = [e] \<and> opportunities s' = [staged_row]"
proof -
  obtain s1 where s1: "advance_meeting_stage sample_env confirm_command confirm_context meet_store = Inr (s1, staged_row)"
    "s1 = meet_store\<lparr>opportunities := [staged_row], stage_events := stage_events s1\<rparr>" using confirm_advances by blast
  have same: "meetings s1 = [meet_row]" "meeting_events s1 = []" "opportunities s1 = [staged_row]"
    by (subst s1(2), simp)+
  let ?e = "new_meeting_event sample_env confirmed_row staged_row (Some sample_conversation) (operator_actor (UUID 9))
      (schedule_details confirm_context meet_slot ''call'' ''ref-1'') ''c1'' ''k1'' deal_hash"
  have ev: "meeting_event_checks ?e"
    by (simp add: meeting_event_checks_def new_meeting_event_def confirmed_row_def schedule_details_def operator_actor_def
      moved_meeting_def meet_row_def staged_row_def sample_conversation_def sample_policy_hash btrim_def)
  have row: "meeting_checks confirmed_row" "put_row mt_id confirmed_row [meet_row] = [confirmed_row]"
    by (simp_all add: confirmed_row_def meet_saved meet_put)
  have cmd: "sm_evidence_type confirm_command = ''call''" "sm_evidence_reference confirm_command = ''ref-1''"
    "sm_reason confirm_command = None" "sm_expected_opportunity_version confirm_command = 0"
    "sm_slot_id confirm_command = UUID 31" "sm_actor_admin_id confirm_command = UUID 9"
    by (simp_all add: confirm_command_def)
  have ctx: "mk_meeting confirm_context = meet_row" "mk_opportunity confirm_context = deal_row"
    "mk_conversation confirm_context = Some sample_conversation" "mk_correlation confirm_context = ''c1''"
    "mk_key confirm_context = ''k1''" "mk_hash confirm_context = deal_hash" "\<not> mk_replayed confirm_context"
    by (simp_all add: confirm_context_def)
  have slot: "current_slot meet_store meet_row (UUID 31) = Inr meet_slot" by (simp add: current_slot_def meet_fields)
  show ?thesis
    by (simp add: schedule_manual_def cmd meeting_text_def policy_required_text_def meet_texts meeting_optional_def
      policy_optional_text_def confirm_in_context ctx meet_fields blocked_schedule_stages_def schedulable_def slot s1(1) Let_def
      save_meeting_def update_meeting_def same row insert_meeting_event_def ev confirmed_row_def [symmetric]
      del: meeting_text_Inr)
qed


theorem scheduled_with_evidence_witness:
  "\<exists>s'. meeting_op meet_store s' \<and> confirmed_row \<in> set (meetings s') \<and> mt_status confirmed_row = MtScheduled \<and>
     (\<exists>e\<in>set (meeting_events s'). me_event_type e = MeScheduledManual \<and> me_evidence_reference e \<noteq> None)"
proof -
  obtain s' where s': "schedule_manual sample_env confirm_command meet_store = Inr (s', (confirmed_row, staged_row), False)"
    "meetings s' = [confirmed_row]" using confirmed by blast
  have op: "meeting_op meet_store s'" using s'(1) by (rule mo_schedule)
  have backed: "all_backed meet_store" by (simp add: all_backed_def backed_def meet_fields)
  have row: "confirmed_row \<in> set (meetings s')" "mt_status confirmed_row = MtScheduled"
    by (simp_all add: s'(2) confirmed_row_def)
  from scheduled_with_evidence [OF backed r_into_rtranclp [of meeting_op, OF op] row] op row show ?thesis by blast
qed

theorem schedule_advances_opportunity_witness:
  "\<exists>s'. schedule_manual sample_env confirm_command meet_store = Inr (s', (confirmed_row, staged_row), False) \<and>
     op_stage deal_row = StNew \<and> op_stage staged_row = StMeetingScheduled \<and> staged_row \<in> set (opportunities s')"
proof -
  obtain s' where s': "schedule_manual sample_env confirm_command meet_store = Inr (s', (confirmed_row, staged_row), False)"
    "meetings s' = [confirmed_row]" using confirmed by blast
  have "confirmed_row \<noteq> meet_row" by (metis confirmed_row_def meet_fields(4) meeting_status.distinct moved_fields(4))
  then have moved: "s' \<noteq> meet_store" using s'(2) by auto
  have "op_id staged_row = UUID 50" "mt_id confirmed_row = UUID 30" "sm_idempotency_key confirm_command = ''k1''"
    by (simp_all add: staged_row_def meet_fields confirmed_row_def confirm_command_def)
  then have new: "stage_receipt meet_store (op_id staged_row) (strip (meeting_stage_key sample_env (mt_id confirmed_row)
      (strip (sm_idempotency_key confirm_command)))) = None"
    by (simp add: stage_receipt_def stage_key meet_texts) (simp add: deal_stage_def stage_key(3) [THEN not_sym])
  from schedule_advances_opportunity [OF s'(1) moved new] s'(1) show ?thesis by (simp add: meet_fields)
qed

section \<open>The agent cancels\<close>

definition agent_actor :: meeting_actor where
  "agent_actor = \<lparr>ma_agent_id = Some (UUID 2), ma_admin_id = None, ma_opportunity_version = Some 0,
     ma_control_version = Some 0, ma_automation_version = Some 0\<rparr>"

definition cancel_command :: move_command where
  "cancel_command = \<lparr>mv_agent_id = UUID 2, mv_meeting_id = UUID 30, mv_actor = agent_actor, mv_expected_version = 1,
     mv_reason = None, mv_correlation_id = ''c1'', mv_idempotency_key = ''k1''\<rparr>"

definition called_off_row :: meeting where "called_off_row = moved_meeting MtCancelled None meet_row"

lemma cancel_in_context: "meeting_context sample_env meet_store cancel_command None payload = Inr confirm_context"
proof -
  have "lock_meeting_opportunity meet_store (UUID 50) (UUID 2) agent_actor = Inr deal_row"
    by (simp add: lock_meeting_opportunity_def assert_actor_authorized_def agent_actor_def meet_fields sample_store_def)
  moreover have "epochs_hold sample_conversation deal_row (UUID 2) agent_actor"
    by (simp add: epochs_hold_def sample_conversation_def agent_actor_def meet_fields)
  moreover have "validate_actor_shape agent_actor = Inr ()" "ma_agent_id agent_actor = Some (UUID 2)"
    "ma_opportunity_version agent_actor = Some 0"
    by (simp_all add: validate_actor_shape_def agent_actor_def)
  ultimately show ?thesis
    by (simp add: meeting_context_def cancel_command_def Let_def meeting_text_def policy_required_text_def meet_texts
      sample_policy_hash get_meeting_def meet_fields move_receipt_def assert_opportunity_epoch_def
      resolve_meeting_conversation_def meet_linked confirm_context_def del: meeting_text_Inr)
qed


end
