(* ===== verification/LinkClaims.thy ===== *)
theory LinkClaims
  imports Ledger Store
begin

text \<open>
  \<open>services/identity_link_claims.py\<close>: the claim of an agent that two channel identities belong to one
  person. A claim is issued with an opaque one-time token of which only the digest is stored; it is verified
  by presenting the token in time, rejected, expired once its time is over, and revoked after it was
  verified. The token \<open>secrets.token_urlsafe(32)\<close> returns is a parameter of \<open>issue_claim\<close>.
\<close>

section \<open>Errors and normalisation\<close>

datatype link_error =
    LinkNotFound string
  | LinkInvalid string
  | LinkConflict string
  | LinkVersionConflict
  | LinkIdempotency
  | LinkProofRefused string
  | LinkIntegrity

definition link_text :: "string \<Rightarrow> string \<Rightarrow> nat \<Rightarrow> link_error + string" where
  "link_text v name max_length =
     (let t = strip v in
      if t = [] \<or> max_length < length t then Inl (LinkInvalid (''invalid '' @ name)) else Inr t)"

definition link_sha256 :: "string option \<Rightarrow> link_error + string option" where
  "link_sha256 v =
     (case v of
        None \<Rightarrow> Inr None
      | Some x \<Rightarrow>
          let t = ascii_lower (strip x) in
          if length t \<noteq> 64 \<or> \<not> list_all is_hex_lower t then Inl (LinkInvalid ''invalid evidence_sha256'')
          else Inr (Some t))"

definition link_reference :: "string option \<Rightarrow> link_error + string option" where
  "link_reference v =
     (case v of
        None \<Rightarrow> Inr None
      | Some x \<Rightarrow>
          let t = strip x in
          if t = [] \<or> 200 < length t \<or> list_ex (\<lambda>c. is_space c \<or> c \<in> set ''?#'') t
          then Inl (LinkInvalid ''invalid evidence_reference'') else Inr (Some t))"

definition link_utc :: "datetime \<Rightarrow> link_error + instant" where
  "link_utc d =
     (case to_utc d of None \<Rightarrow> Inl (LinkInvalid ''occurred_at must include a timezone'') | Some t \<Rightarrow> Inr t)"

definition link_time :: "env \<Rightarrow> datetime option \<Rightarrow> link_error + instant" where
  "link_time E d = link_utc (case d of Some x \<Rightarrow> x | None \<Rightarrow> Aware (clock E) 0)"

definition link_command_hash :: "env \<Rightarrow> (string \<times> json) list \<Rightarrow> string" where
  "link_command_hash E payload = command_digest E True payload"

definition link_assert_hash :: "string \<Rightarrow> string \<Rightarrow> link_error + unit" where
  "link_assert_hash actual expected = (if actual \<noteq> expected then Inl LinkIdempotency else Inr ())"

definition proof_digest :: "env \<Rightarrow> string \<Rightarrow> link_error + string" where
  "proof_digest E token =
     (if length token < 40 \<or> 256 < length token then Inl (LinkProofRefused ''opaque proof could not be verified'')
      else Inr (sha256 E token))"

definition link_status_of :: "string \<Rightarrow> link_error + link_status" where
  "link_status_of v =
     (case find (\<lambda>st. link_status_value st = v) [LinkPending, LinkVerified, LinkRejected, LinkRevoked, LinkExpired] of
        None \<Rightarrow> Inl (LinkInvalid ''invalid status'') | Some st \<Rightarrow> Inr st)"

section \<open>Reading claims\<close>

record link_view =
  lv_claim :: link_claim
  lv_source :: channel_identity
  lv_target :: channel_identity

definition get_identity :: "store \<Rightarrow> uuid \<Rightarrow> channel_identity option" where
  "get_identity s i = find (\<lambda>x. ci_id x = i) (channel_identities s)"

definition claim_view :: "store \<Rightarrow> link_claim \<Rightarrow> link_error + link_view" where
  "claim_view s c =
     (case (get_identity s (il_source_identity_id c), get_identity s (il_target_identity_id c)) of
        (Some x, Some y) \<Rightarrow> Inr \<lparr>lv_claim = c, lv_source = x, lv_target = y\<rparr>
      | _ \<Rightarrow> Inl (LinkNotFound ''channel identity not found''))"

definition load_claim :: "store \<Rightarrow> uuid \<Rightarrow> uuid \<Rightarrow> link_error + link_claim" where
  "load_claim s agent i =
     (case find (\<lambda>c. il_id c = i \<and> il_agent_id c = agent) (link_claims s) of
        None \<Rightarrow> Inl (LinkNotFound ''identity-link claim not found'') | Some c \<Rightarrow> Inr c)"

definition claim_by_issue_key :: "store \<Rightarrow> uuid \<Rightarrow> string \<Rightarrow> link_claim option" where
  "claim_by_issue_key s agent key =
     find (\<lambda>c. il_agent_id c = agent \<and> il_issue_idempotency_key c = key) (link_claims s)"

fun claim_views :: "store \<Rightarrow> link_claim list \<Rightarrow> link_error + link_view list" where
  "claim_views s [] = Inr []"
| "claim_views s (c # cs) = bindE (claim_view s c) (\<lambda>v. bindE (claim_views s cs) (\<lambda>vs. Inr (v # vs)))"

text \<open>Newest update first, then by id.\<close>

definition claim_order :: "link_claim list \<Rightarrow> link_claim list" where
  "claim_order cs = sort_key (\<lambda>c. - il_updated_at c) (sort_key il_id cs)"

definition list_claims :: "uuid \<Rightarrow> string option \<Rightarrow> nat \<Rightarrow> nat \<Rightarrow> store \<Rightarrow> link_error + link_view list" where
  "list_claims agent status limit offset s =
     bindE (case status of None \<Rightarrow> Inr None | Some v \<Rightarrow> bindE (link_status_of v) (\<lambda>st. Inr (Some st))) (\<lambda>wanted.
     claim_views s (take limit (drop offset (claim_order
       (filter (\<lambda>c. il_agent_id c = agent \<and> (wanted = None \<or> wanted = Some (il_status c))) (link_claims s))))))"

definition get_claim :: "uuid \<Rightarrow> uuid \<Rightarrow> store \<Rightarrow> link_error + link_view" where
  "get_claim agent i s = bindE (load_claim s agent i) (claim_view s)"

section \<open>Rows\<close>

definition link_event_type_of :: "link_status \<Rightarrow> link_event_type" where
  "link_event_type_of st =
     (case st of LinkPending \<Rightarrow> LeIssued | LinkVerified \<Rightarrow> LeVerified | LinkRejected \<Rightarrow> LeRejected
      | LinkRevoked \<Rightarrow> LeRevoked | LinkExpired \<Rightarrow> LeExpired)"

text \<open>The insertion of \<open>issue\<close>: a clash of the agent and its key inserts nothing, a clash of the primary key
  raises. The lookup before it has the same condition, so that within one transaction the first case does
  not arise; the branch for a concurrent insertion is kept.\<close>

definition insert_claim :: "link_claim \<Rightarrow> store \<Rightarrow> link_error + (store \<times> bool)" where
  "insert_claim c s =
     (if \<not> link_claim_checks c then Inl LinkIntegrity
      else if list_ex (\<lambda>x. il_agent_id x = il_agent_id c \<and> il_issue_idempotency_key x = il_issue_idempotency_key c)
                (link_claims s) then Inr (s, False)
      else if list_ex (\<lambda>x. il_id x = il_id c) (link_claims s) then Inl LinkIntegrity
      else Inr (s\<lparr>link_claims := link_claims s @ [c]\<rparr>, True))"

definition update_claim :: "link_claim \<Rightarrow> store \<Rightarrow> link_error + store" where
  "update_claim c s =
     (if \<not> link_claim_checks c then Inl LinkIntegrity
      else Inr (s\<lparr>link_claims := put_row il_id c (link_claims s)\<rparr>))"

definition insert_link_event :: "link_event \<Rightarrow> store \<Rightarrow> link_error + store" where
  "insert_link_event e s =
     (if \<not> link_event_checks e \<or>
         list_ex (\<lambda>x. le_id x = le_id e \<or>
           (le_claim_id x = le_claim_id e \<and> le_control_version x = le_control_version e) \<or>
           (le_agent_id x = le_agent_id e \<and> le_idempotency_key x = le_idempotency_key e)) (link_events s)
      then Inl LinkIntegrity else Inr (s\<lparr>link_events := link_events s @ [e]\<rparr>))"

section \<open>Issuing\<close>

record link_issue =
  li_agent_id :: uuid
  li_source_identity_id :: uuid
  li_target_identity_id :: uuid
  li_actor_admin_id :: uuid
  li_proof_method :: string
  li_proof_ttl_seconds :: int
  li_evidence_sha256 :: "string option"
  li_evidence_reference :: "string option"
  li_idempotency_key :: string
  li_occurred_at :: "datetime option"

record prepared_claim =
  kc_key :: string
  kc_method :: string
  kc_evidence_hash :: "string option"
  kc_evidence_reference :: "string option"
  kc_event_time :: instant
  kc_command_hash :: string

definition link_issue_literal ::
  "link_issue \<Rightarrow> string \<Rightarrow> string option \<Rightarrow> string option \<Rightarrow> (string \<times> json) list" where
  "link_issue_literal cmd method hash ref =
     [(''actor_admin_id'', uuid_json (li_actor_admin_id cmd)), (''evidence_reference'', opt_json JStr ref),
      (''evidence_sha256'', opt_json JStr hash), (''proof_method'', JStr method),
      (''proof_ttl_seconds'', JInt (li_proof_ttl_seconds cmd)),
      (''source_identity_id'', uuid_json (li_source_identity_id cmd)),
      (''target_identity_id'', uuid_json (li_target_identity_id cmd))]"

definition prepare_claim :: "env \<Rightarrow> link_issue \<Rightarrow> link_error + prepared_claim" where
  "prepare_claim E cmd =
     bindE (link_text (li_idempotency_key cmd) ''idempotency_key'' 220) (\<lambda>key.
     bindE (link_text (li_proof_method cmd) ''proof_method'' 40) (\<lambda>method.
     bindE (require (method = ''opaque_token'') (LinkInvalid ''unsupported proof_method'')) (\<lambda>_.
     bindE (require (60 \<le> li_proof_ttl_seconds cmd \<and> li_proof_ttl_seconds cmd \<le> 86400)
              (LinkInvalid ''invalid proof_ttl_seconds'')) (\<lambda>_.
     bindE (link_sha256 (li_evidence_sha256 cmd)) (\<lambda>hash.
     bindE (link_reference (li_evidence_reference cmd)) (\<lambda>ref.
     bindE (link_time E (li_occurred_at cmd)) (\<lambda>now.
       Inr \<lparr>kc_key = key, kc_method = method, kc_evidence_hash = hash, kc_evidence_reference = ref, kc_event_time = now,
            kc_command_hash = link_command_hash E (link_issue_literal cmd method hash ref)\<rparr>)))))))"

text \<open>An identity is visible to an agent that has a conversation with its principal on its channel and
  route.\<close>

definition identity_visible :: "store \<Rightarrow> uuid \<Rightarrow> channel_identity \<Rightarrow> bool" where
  "identity_visible s agent i \<longleftrightarrow>
     list_ex (\<lambda>c. cv_agent_id c = agent \<and> cv_principal_id c = ci_principal_id i \<and> cv_channel c = ci_channel i \<and>
       cv_route_key c = ci_route_key i) (conversations s)"

definition identity_pair ::
  "store \<Rightarrow> uuid \<Rightarrow> uuid \<Rightarrow> uuid \<Rightarrow> link_error + channel_identity \<times> channel_identity" where
  "identity_pair s agent source target =
     (if source = target then Inl (LinkInvalid ''identities must be distinct'')
      else case (get_identity s source, get_identity s target) of
        (Some x, Some y) \<Rightarrow>
          if \<not> identity_visible s agent x \<or> \<not> identity_visible s agent y
          then Inl (LinkNotFound ''channel identity not found'') else Inr (x, y)
      | _ \<Rightarrow> Inl (LinkNotFound ''channel identity not found''))"

definition issued_claim ::
  "env \<Rightarrow> link_issue \<Rightarrow> prepared_claim \<Rightarrow> channel_identity \<Rightarrow> channel_identity \<Rightarrow> string \<Rightarrow> link_claim" where
  "issued_claim E cmd p source target digest =
     \<lparr>il_id = uuid5 E (li_agent_id cmd) (''identity-link-claim:'' @ kc_key p), il_created_at = kc_event_time p,
      il_updated_at = kc_event_time p, il_agent_id = li_agent_id cmd, il_source_identity_id = ci_id source,
      il_target_identity_id = ci_id target, il_source_principal_id = ci_principal_id source,
      il_target_principal_id = ci_principal_id target, il_status = LinkPending, il_proof_method = kc_method p,
      il_proof_token_hash = Some digest,
      il_proof_expires_at = kc_event_time p + li_proof_ttl_seconds cmd * 1000000, il_proof_consumed_at = None,
      il_evidence_sha256 = kc_evidence_hash p, il_evidence_reference = kc_evidence_reference p,
      il_created_by_admin_id = li_actor_admin_id cmd, il_verified_by_admin_id = None, il_verified_at = None,
      il_rejected_at = None, il_revoked_at = None, il_expired_at = None, il_control_version = 0,
      il_issue_idempotency_key = kc_key p, il_issue_command_hash = kc_command_hash p\<rparr>"

definition issued_event :: "env \<Rightarrow> link_issue \<Rightarrow> prepared_claim \<Rightarrow> link_claim \<Rightarrow> link_event" where
  "issued_event E cmd p c =
     \<lparr>le_id = uuid5 E (il_id c) ''event:0'', le_claim_id = il_id c, le_agent_id = li_agent_id cmd,
      le_actor_admin_id = li_actor_admin_id cmd, le_event_type = LeIssued, le_from_status = None,
      le_to_status = LinkPending, le_control_version = 0, le_idempotency_key = kc_key p,
      le_command_hash = kc_command_hash p, le_created_at = kc_event_time p\<rparr>"

record link_result =
  lr_view :: link_view
  lr_proof_token :: "string option"
  lr_applied :: bool

definition known_claim :: "store \<Rightarrow> link_claim \<Rightarrow> string \<Rightarrow> link_error + (store \<times> link_result)" where
  "known_claim s c hash =
     bindE (link_assert_hash (il_issue_command_hash c) hash) (\<lambda>_.
     bindE (claim_view s c) (\<lambda>v. Inr (s, \<lparr>lr_view = v, lr_proof_token = None, lr_applied = False\<rparr>)))"

definition issue_claim :: "env \<Rightarrow> string \<Rightarrow> link_issue \<Rightarrow> store \<Rightarrow> link_error + (store \<times> link_result)" where
  "issue_claim E token cmd s =
     bindE (prepare_claim E cmd) (\<lambda>p.
     case claim_by_issue_key s (li_agent_id cmd) (kc_key p) of
       Some c \<Rightarrow> known_claim s c (kc_command_hash p)
     | None \<Rightarrow>
         bindE (identity_pair s (li_agent_id cmd) (li_source_identity_id cmd) (li_target_identity_id cmd)) (\<lambda>(x, y).
         if ci_principal_id x = ci_principal_id y
         then Inl (LinkInvalid ''identities already belong to the same principal'')
         else
           bindE (proof_digest E token) (\<lambda>digest.
           bindE (insert_claim (issued_claim E cmd p x y digest) s) (\<lambda>(s1, inserted).
           if \<not> inserted then
             (case claim_by_issue_key s1 (li_agent_id cmd) (kc_key p) of
                None \<Rightarrow> Inl (LinkConflict ''identity-link claim could not be created'')
              | Some c \<Rightarrow> known_claim s1 c (kc_command_hash p))
           else
             let c = issued_claim E cmd p x y digest in
             bindE (insert_link_event (issued_event E cmd p c) s1) (\<lambda>s2.
               Inr (s2, \<lparr>lr_view = \<lparr>lv_claim = c, lv_source = x, lv_target = y\<rparr>, lr_proof_token = Some token,
                         lr_applied = True\<rparr>))))))"


section \<open>Transitions\<close>

record claim_command =
  kl_agent_id :: uuid
  kl_claim_id :: uuid
  kl_actor_admin_id :: uuid
  kl_expected_version :: int
  kl_idempotency_key :: string
  kl_occurred_at :: "datetime option"

definition claim_receipt :: "store \<Rightarrow> uuid \<Rightarrow> string \<Rightarrow> link_event option" where
  "claim_receipt s agent key = find (\<lambda>e. le_agent_id e = agent \<and> le_idempotency_key e = key) (link_events s)"

definition prepare_link_transition ::
  "store \<Rightarrow> claim_command \<Rightarrow> string \<Rightarrow> link_event_type \<Rightarrow> link_error + link_claim \<times> bool" where
  "prepare_link_transition s cmd hash ty =
     bindE (link_text (kl_idempotency_key cmd) ''idempotency_key'' 220) (\<lambda>key.
     bindE (load_claim s (kl_agent_id cmd) (kl_claim_id cmd)) (\<lambda>c.
     case claim_receipt s (kl_agent_id cmd) key of
       None \<Rightarrow> Inr (c, False)
     | Some e \<Rightarrow>
         if le_claim_id e \<noteq> il_id c \<or> le_event_type e \<noteq> ty then Inl LinkIdempotency
         else bindE (link_assert_hash (le_command_hash e) hash) (\<lambda>_. Inr (c, True))))"

definition assert_link_version :: "link_claim \<Rightarrow> int \<Rightarrow> link_error + unit" where
  "assert_link_version c expected = (if il_control_version c \<noteq> expected then Inl LinkVersionConflict else Inr ())"

definition link_transition_event ::
  "env \<Rightarrow> claim_command \<Rightarrow> link_claim \<Rightarrow> link_event_type \<Rightarrow> link_status \<Rightarrow> string \<Rightarrow> instant \<Rightarrow> link_event" where
  "link_transition_event E cmd c ty from_status hash now =
     \<lparr>le_id = uuid5 E (il_id c) (''event:'' @ int_str (il_control_version c)), le_claim_id = il_id c,
      le_agent_id = il_agent_id c, le_actor_admin_id = kl_actor_admin_id cmd, le_event_type = ty,
      le_from_status = Some from_status, le_to_status = il_status c, le_control_version = il_control_version c,
      le_idempotency_key = strip (kl_idempotency_key cmd), le_command_hash = hash, le_created_at = now\<rparr>"

text \<open>\<open>_record_transition\<close> and the view of the refreshed row, whose \<open>updated_at\<close> the database has set.\<close>

definition record_link_transition ::
  "env \<Rightarrow> claim_command \<Rightarrow> link_claim \<Rightarrow> link_event_type \<Rightarrow> link_status \<Rightarrow> string \<Rightarrow> instant \<Rightarrow> store \<Rightarrow>
     link_error + (store \<times> link_result)" where
  "record_link_transition E cmd c ty from_status hash now s =
     (let c1 = c\<lparr>il_updated_at := tx_now E\<rparr> in
      bindE (update_claim c1 s) (\<lambda>s1.
      bindE (insert_link_event (link_transition_event E cmd c1 ty from_status hash now) s1) (\<lambda>s2.
      bindE (claim_view s2 c1) (\<lambda>v. Inr (s2, \<lparr>lr_view = v, lr_proof_token = None, lr_applied = True\<rparr>)))))"

definition link_duplicate :: "store \<Rightarrow> link_claim \<Rightarrow> link_error + (store \<times> link_result)" where
  "link_duplicate s c =
     bindE (claim_view s c) (\<lambda>v. Inr (s, \<lparr>lr_view = v, lr_proof_token = None, lr_applied = False\<rparr>))"

definition verify_literal :: "claim_command \<Rightarrow> string \<Rightarrow> (string \<times> json) list" where
  "verify_literal cmd digest =
     [(''actor_admin_id'', uuid_json (kl_actor_admin_id cmd)), (''claim_id'', uuid_json (kl_claim_id cmd)),
      (''expected_version'', JInt (kl_expected_version cmd)), (''proof_token_sha256'', JStr digest),
      (''transition'', JStr (link_status_value LinkVerified))]"

definition verified_claim :: "claim_command \<Rightarrow> instant \<Rightarrow> link_claim \<Rightarrow> link_claim" where
  "verified_claim cmd now c =
     c\<lparr>il_status := LinkVerified, il_control_version := il_control_version c + 1, il_proof_token_hash := None,
       il_proof_consumed_at := Some now, il_verified_by_admin_id := Some (kl_actor_admin_id cmd),
       il_verified_at := Some now\<rparr>"

definition verify_claim :: "env \<Rightarrow> string \<Rightarrow> claim_command \<Rightarrow> store \<Rightarrow> link_error + (store \<times> link_result)" where
  "verify_claim E token cmd s =
     bindE (proof_digest E token) (\<lambda>digest.
     bindE (link_time E (kl_occurred_at cmd)) (\<lambda>now.
     let hash = link_command_hash E (verify_literal cmd digest) in
     bindE (prepare_link_transition s cmd hash LeVerified) (\<lambda>(c, duplicate).
     if duplicate then link_duplicate s c
     else
       bindE (assert_link_version c (kl_expected_version cmd)) (\<lambda>_.
       if il_status c \<noteq> LinkPending then Inl (LinkConflict ''claim is not pending'')
       else if il_proof_expires_at c \<le> now then Inl (LinkProofRefused ''opaque proof has expired'')
       else if il_proof_token_hash c \<noteq> Some digest
       then Inl (LinkProofRefused ''opaque proof could not be verified'')
       else record_link_transition E cmd (verified_claim cmd now c) LeVerified LinkPending hash now s))))"

definition terminal_literal :: "claim_command \<Rightarrow> link_status \<Rightarrow> (string \<times> json) list" where
  "terminal_literal cmd target =
     [(''actor_admin_id'', uuid_json (kl_actor_admin_id cmd)), (''claim_id'', uuid_json (kl_claim_id cmd)),
      (''expected_version'', JInt (kl_expected_version cmd)), (''transition'', JStr (link_status_value target))]"

text \<open>\<open>setattr(claim, timestamp_field, event_time)\<close> with the field of each caller.\<close>

datatype timestamp_field = RejectedAt | RevokedAt | ExpiredAt

fun stamp_claim :: "timestamp_field \<Rightarrow> instant \<Rightarrow> link_claim \<Rightarrow> link_claim" where
  "stamp_claim RejectedAt now c = c\<lparr>il_rejected_at := Some now\<rparr>"
| "stamp_claim RevokedAt now c = c\<lparr>il_revoked_at := Some now\<rparr>"
| "stamp_claim ExpiredAt now c = c\<lparr>il_expired_at := Some now\<rparr>"

definition ended_claim :: "link_status \<Rightarrow> bool \<Rightarrow> timestamp_field \<Rightarrow> instant \<Rightarrow> link_claim \<Rightarrow> link_claim" where
  "ended_claim target clear_proof f now c =
     (let c1 = c\<lparr>il_status := target, il_control_version := il_control_version c + 1\<rparr>;
          c2 = if clear_proof then c1\<lparr>il_proof_token_hash := None\<rparr> else c1
      in stamp_claim f now c2)"

definition terminal_transition ::
  "env \<Rightarrow> link_status \<Rightarrow> link_status \<Rightarrow> timestamp_field \<Rightarrow> bool \<Rightarrow> bool \<Rightarrow> claim_command \<Rightarrow> store \<Rightarrow>
     link_error + (store \<times> link_result)" where
  "terminal_transition E target allowed_from f clear_proof require_due cmd s =
     bindE (link_time E (kl_occurred_at cmd)) (\<lambda>now.
     let hash = link_command_hash E (terminal_literal cmd target) in
     bindE (prepare_link_transition s cmd hash (link_event_type_of target)) (\<lambda>(c, duplicate).
     if duplicate then link_duplicate s c
     else
       bindE (assert_link_version c (kl_expected_version cmd)) (\<lambda>_.
       if il_status c \<noteq> allowed_from
       then Inl (LinkConflict (''claim must be '' @ link_status_value allowed_from @ '' before '' @ link_status_value target))
       else if require_due \<and> now < il_proof_expires_at c then Inl (LinkConflict ''opaque proof has not expired'')
       else record_link_transition E cmd (ended_claim target clear_proof f now c) (link_event_type_of target)
              (il_status c) hash now s)))"

definition reject_claim :: "env \<Rightarrow> claim_command \<Rightarrow> store \<Rightarrow> link_error + (store \<times> link_result)" where
  "reject_claim E = terminal_transition E LinkRejected LinkPending RejectedAt True False"

definition revoke_claim :: "env \<Rightarrow> claim_command \<Rightarrow> store \<Rightarrow> link_error + (store \<times> link_result)" where
  "revoke_claim E = terminal_transition E LinkRevoked LinkVerified RevokedAt False False"

definition expire_claim :: "env \<Rightarrow> claim_command \<Rightarrow> store \<Rightarrow> link_error + (store \<times> link_result)" where
  "expire_claim E = terminal_transition E LinkExpired LinkPending ExpiredAt True True"

end
