(* ===== verification/LinkPromises.thy ===== *)
theory LinkPromises
  imports LinkClaims
begin

text \<open>
  What identity-link claims promise: complete histories, final rejections, revocations and expiries, and
  verification only by the token that was issued, in time and once.
\<close>

section \<open>The ledger\<close>

definition link_tables :: "store \<Rightarrow> link_claim list \<times> link_event list" where
  "link_tables s = (link_claims s, link_events s)"

text \<open>The columns that no operation changes.\<close>

definition link_part where
  "link_part (c :: link_claim) = (il_agent_id c, il_source_identity_id c, il_target_identity_id c, il_source_principal_id c,
     il_target_principal_id c, il_proof_expires_at c, il_created_by_admin_id c, il_issue_idempotency_key c,
     il_issue_command_hash c)"

fun link_edge :: "link_status \<Rightarrow> link_status \<Rightarrow> bool" where
  "link_edge LinkPending st \<longleftrightarrow> st \<in> {LinkVerified, LinkRejected, LinkExpired}"
| "link_edge LinkVerified st \<longleftrightarrow> st = LinkRevoked"
| "link_edge _ _ \<longleftrightarrow> False"

definition link_ledger where
  "link_ledger =
     \<lparr>row_key = il_id, row_part = link_part, row_version = il_control_version, row_status = il_status,
      event_key = (le_claim_id :: link_event \<Rightarrow> uuid), event_version = le_control_version, event_from = le_from_status,
      event_to = le_to_status, first_version = 0, admits = (\<lambda>_ c. il_status c = LinkPending),
      edge = (\<lambda>_ c c'. link_edge (il_status c) (il_status c'))\<rparr>"

lemma link_ledger_simps [simp]: "row_key link_ledger = il_id" "row_part link_ledger = link_part"
  "row_version link_ledger = il_control_version" "row_status link_ledger = il_status"
  "event_key link_ledger = le_claim_id" "event_version link_ledger = le_control_version"
  "event_from link_ledger = le_from_status" "event_to link_ledger = le_to_status" "first_version link_ledger = 0"
  "admits link_ledger cs c \<longleftrightarrow> il_status c = LinkPending"
  "edge link_ledger cs c c' \<longleftrightarrow> link_edge (il_status c) (il_status c')"
  by (simp_all add: link_ledger_def)

lemma link_final: "st \<in> {LinkRejected, LinkRevoked, LinkExpired} \<Longrightarrow> row_final link_ledger st"
  by (auto simp: row_final_def)

section \<open>The operations by cases\<close>

lemma link_assert_hash_Inr [simp]: "link_assert_hash a b = Inr u \<longleftrightarrow> a = b"
  by (simp add: link_assert_hash_def)

lemma link_assert_version_Inr [simp]: "assert_link_version c n = Inr u \<longleftrightarrow> il_control_version c = n"
  by (simp add: assert_link_version_def)

lemma proof_digest_Inr [simp]: "proof_digest E t = Inr d \<longleftrightarrow> 40 \<le> length t \<and> length t \<le> 256 \<and> d = sha256 E t"
  by (auto simp: proof_digest_def)

lemma claim_view_Inr: "claim_view s c = Inr v \<Longrightarrow> lv_claim v = c"
  by (auto simp: claim_view_def split: option.splits)

lemma load_claimD: "load_claim s agent i = Inr c \<Longrightarrow> c \<in> set (link_claims s) \<and> il_id c = i \<and> il_agent_id c = agent"
  by (auto simp: load_claim_def split: option.splits dest: find_SomeD)

lemma prepare_link_cases:
  assumes "prepare_link_transition s cmd hash ty = Inr (c, d)"
  shows "load_claim s (kl_agent_id cmd) (kl_claim_id cmd) = Inr c"
    "\<not> d \<longleftrightarrow> claim_receipt s (kl_agent_id cmd) (strip (kl_idempotency_key cmd)) = None"
  using assms by (cases "claim_receipt s (kl_agent_id cmd) (strip (kl_idempotency_key cmd))";
    auto simp: prepare_link_transition_def bindE_eq_Inr link_text_def Let_def split: if_splits)+

lemma insert_link_event_Inr: "insert_link_event e s = Inr s' \<Longrightarrow> link_event_checks e \<and>
    claim_receipt s (le_agent_id e) (le_idempotency_key e) = None \<and> s' = s\<lparr>link_events := link_events s @ [e]\<rparr>"
  by (auto simp: insert_link_event_def claim_receipt_def find_None_iff list_ex_iff split: if_splits)

lemma link_duplicate_Inr: "link_duplicate s c = Inr (s', r) \<Longrightarrow> s' = s \<and> \<not> lr_applied r \<and> lr_proof_token r = None"
  by (auto simp: link_duplicate_def bindE_eq_Inr)

lemma known_claim_Inr: "known_claim s c h = Inr (s', r) \<Longrightarrow>
    s' = s \<and> \<not> lr_applied r \<and> lr_proof_token r = None \<and> lv_claim (lr_view r) = c"
  by (auto simp: known_claim_def bindE_eq_Inr dest: claim_view_Inr)

text \<open>A transition: the row before it, the row after it and its event.\<close>

definition link_change :: "link_claim \<Rightarrow> link_claim \<Rightarrow> link_event \<Rightarrow> store \<Rightarrow> store \<Rightarrow> bool" where
  "link_change c c' e s s' \<longleftrightarrow> c \<in> set (link_claims s) \<and> il_id c' = il_id c \<and> link_part c' = link_part c \<and>
     il_control_version c' = il_control_version c + 1 \<and> link_edge (il_status c) (il_status c') \<and>
     event_tells link_ledger (Some (il_status c)) c' e \<and>
     s' = s\<lparr>link_claims := put_row il_id c' (link_claims s), link_events := link_events s @ [e]\<rparr>"

lemma link_change_step: "link_change c c' e s s' \<Longrightarrow>
    ledger_step link_ledger (il_id c) (link_tables s) (link_tables s')"
  unfolding link_change_def link_tables_def
  using ledger_step.moved [where L = link_ledger and r = c and r' = c' and rs = "link_claims s" and e = e] by simp

lemma record_change:
  assumes "record_link_transition E cmd c' ty (il_status c) hash now s = Inr (s', r)" "c \<in> set (link_claims s)"
    "il_id c' = il_id c" "link_part c' = link_part c" "il_control_version c' = il_control_version c + 1"
    "link_edge (il_status c) (il_status c')"
  shows "\<exists>e. link_change c (c'\<lparr>il_updated_at := tx_now E\<rparr>) e s s'" "lr_applied r" "lr_proof_token r = None"
proof -
  let ?c = "c'\<lparr>il_updated_at := tx_now E\<rparr>"
  let ?e = "link_transition_event E cmd ?c ty (il_status c) hash now"
  from assms(1) obtain s1 where s1: "update_claim ?c s = Inr s1" "insert_link_event ?e s1 = Inr s'"
    and r: "lr_applied r" "lr_proof_token r = None"
    by (auto simp: record_link_transition_def bindE_eq_Inr Let_def)
  then show "lr_applied r" "lr_proof_token r = None" by simp_all
  have "s1 = s\<lparr>link_claims := put_row il_id ?c (link_claims s)\<rparr>" using s1(1) by (simp add: update_claim_def split: if_splits)
  then have "s' = s\<lparr>link_claims := put_row il_id ?c (link_claims s), link_events := link_events s @ [?e]\<rparr>"
    using insert_link_event_Inr [OF s1(2)] by simp
  moreover have "link_part ?c = link_part c'" by (simp add: link_part_def)
  ultimately have "link_change c ?c ?e s s'"
    using assms(2-) by (simp add: link_change_def event_tells_def link_transition_event_def)
  then show "\<exists>e. link_change c ?c e s s'" by blast
qed

lemma verify_cases:
  assumes "verify_claim E token cmd s = Inr (s', r)"
  obtains (replay) "s' = s" "\<not> lr_applied r"
  | (moved) c c' e now where "link_change c c' e s s'" "lr_applied r" "il_id c = kl_claim_id cmd"
      "il_status c = LinkPending" "il_status c' = LinkVerified" "link_time E (kl_occurred_at cmd) = Inr now"
      "now < il_proof_expires_at c" "il_proof_token_hash c = Some (sha256 E token)" "il_proof_token_hash c' = None"
      "il_agent_id c = kl_agent_id cmd"
proof -
  from assms obtain now c d where t: "link_time E (kl_occurred_at cmd) = Inr now" "40 \<le> length token" "length token \<le> 256"
    and p: "prepare_link_transition s cmd (link_command_hash E (verify_literal cmd (sha256 E token))) LeVerified = Inr (c, d)"
    by (auto simp: verify_claim_def bindE_eq_Inr Let_def)
  show thesis
  proof (cases d)
    case True
    with assms t p have "link_duplicate s c = Inr (s', r)" by (simp add: verify_claim_def proof_digest_def not_less)
    from link_duplicate_Inr [OF this] show thesis by (intro replay) simp_all
  next
    case False
    note c = load_claimD [OF prepare_link_cases(1) [OF p]]
    from assms t p False have run: "il_status c = LinkPending" "now < il_proof_expires_at c"
      "il_proof_token_hash c = Some (sha256 E token)"
      "record_link_transition E cmd (verified_claim cmd now c) LeVerified LinkPending
         (link_command_hash E (verify_literal cmd (sha256 E token))) now s = Inr (s', r)"
      by (auto simp: verify_claim_def proof_digest_def bindE_eq_Inr Let_def split: if_splits)
    let ?c = "verified_claim cmd now c"
    have new: "il_id ?c = il_id c" "link_part ?c = link_part c" "il_control_version ?c = il_control_version c + 1"
      "link_edge (il_status c) (il_status ?c)"
      by (simp_all add: verified_claim_def link_part_def run(1))
    note ch = record_change [OF run(4) [folded run(1)] _ new]
    from ch(1) c obtain e where e: "link_change c (?c\<lparr>il_updated_at := tx_now E\<rparr>) e s s'" by blast
    show thesis
      by (rule moved [OF e ch(2)]) (use c run t in \<open>simp_all add: verified_claim_def\<close>)
  qed
qed

lemma stamped [simp]: "il_id (stamp_claim f now c) = il_id c" "link_part (stamp_claim f now c) = link_part c"
  "il_control_version (stamp_claim f now c) = il_control_version c" "il_status (stamp_claim f now c) = il_status c"
  "il_proof_token_hash (stamp_claim f now c) = il_proof_token_hash c"
  by (cases f; simp add: link_part_def)+

lemma link_terminal_cases:
  assumes "terminal_transition E target allowed f clear due cmd s = Inr (s', r)" "link_edge allowed target"
  obtains (replay) "s' = s" "\<not> lr_applied r" "lr_proof_token r = None"
  | (moved) c c' e where "link_change c c' e s s'" "il_status c = allowed" "il_status c' = target" "lr_proof_token r = None"
proof -
  let ?hash = "link_command_hash E (terminal_literal cmd target)"
  from assms(1) obtain now c d where t: "link_time E (kl_occurred_at cmd) = Inr now"
    and p: "prepare_link_transition s cmd ?hash (link_event_type_of target) = Inr (c, d)"
    by (auto simp: terminal_transition_def bindE_eq_Inr Let_def)
  show thesis
  proof (cases d)
    case True
    with assms(1) t p have "link_duplicate s c = Inr (s', r)" by (simp add: terminal_transition_def)
    from link_duplicate_Inr [OF this] show thesis by (intro replay) simp_all
  next
    case False
    let ?c = "ended_claim target clear f now c"
    note c = load_claimD [OF prepare_link_cases(1) [OF p]]
    from assms(1) t p False have run: "il_status c = allowed"
      "record_link_transition E cmd ?c (link_event_type_of target) (il_status c) ?hash now s = Inr (s', r)"
      by (auto simp: terminal_transition_def bindE_eq_Inr Let_def split: if_splits)
    have new: "il_id ?c = il_id c" "link_part ?c = link_part c" "il_control_version ?c = il_control_version c + 1"
      "link_edge (il_status c) (il_status ?c)" "il_status ?c = target"
      using assms(2) by (simp_all add: ended_claim_def Let_def run(1)) (simp_all add: link_part_def)
    note ch = record_change [OF run(2) _ new(1-4)]
    from ch(1) c obtain e where e: "link_change c (?c\<lparr>il_updated_at := tx_now E\<rparr>) e s s'" by blast
    show thesis by (rule moved [OF e run(1) _ ch(3)]) (use c new in simp_all)
  qed
qed

lemma issue_cases_link:
  assumes "issue_claim E token cmd s = Inr (s', r)"
  obtains (replay) p c where "s' = s" "\<not> lr_applied r" "lr_proof_token r = None" "prepare_claim E cmd = Inr p"
      "claim_by_issue_key s (li_agent_id cmd) (kc_key p) = Some c" "known_claim s c (kc_command_hash p) = Inr (s', r)"
  | (first) c e p x y where "lr_applied r" "lr_proof_token r = Some token" "il_status c = LinkPending"
      "il_control_version c = 0" "il_id c \<notin> il_id ` set (link_claims s)" "event_tells link_ledger None c e"
      "s' = s\<lparr>link_claims := link_claims s @ [c], link_events := link_events s @ [e]\<rparr>"
      "il_proof_token_hash c = Some (sha256 E token)" "lr_view r = \<lparr>lv_claim = c, lv_source = x, lv_target = y\<rparr>"
      "prepare_claim E cmd = Inr p" "claim_by_issue_key s (li_agent_id cmd) (kc_key p) = None"
      "identity_pair s (li_agent_id cmd) (li_source_identity_id cmd) (li_target_identity_id cmd) = Inr (x, y)"
      "c = issued_claim E cmd p x y (sha256 E token)" "claim_receipt s (li_agent_id cmd) (kc_key p) = None"
proof -
  from assms obtain p where p: "prepare_claim E cmd = Inr p" by (auto simp: issue_claim_def bindE_eq_Inr)
  show thesis
  proof (cases "claim_by_issue_key s (li_agent_id cmd) (kc_key p)")
    case (Some c)
    with assms p have k: "known_claim s c (kc_command_hash p) = Inr (s', r)" by (simp add: issue_claim_def)
    from known_claim_Inr [OF k] show thesis by (intro replay [OF _ _ _ p Some k]) simp_all
  next
    case None
    with assms p obtain x y where xy: "identity_pair s (li_agent_id cmd) (li_source_identity_id cmd)
        (li_target_identity_id cmd) = Inr (x, y)"
      by (auto simp: issue_claim_def bindE_eq_Inr)
    let ?c = "issued_claim E cmd p x y (sha256 E token)" and ?e = "\<lambda>c. issued_event E cmd p c"
    from assms p None xy obtain s1 i where s1: "insert_claim ?c s = Inr (s1, i)"
      by (auto simp: issue_claim_def bindE_eq_Inr split: if_splits)
    have i: i
    proof (rule ccontr)
      assume "\<not> i"
      with s1 have "\<exists>k\<in>set (link_claims s). il_agent_id k = li_agent_id cmd \<and> il_issue_idempotency_key k = kc_key p"
        by (auto simp: insert_claim_def list_ex_iff issued_claim_def split: if_splits)
      with None show False by (auto simp: claim_by_issue_key_def find_None_iff)
    qed
    from s1 i have ins: "s1 = s\<lparr>link_claims := link_claims s @ [?c]\<rparr>" "\<forall>k\<in>set (link_claims s). il_id k \<noteq> il_id ?c"
      by (auto simp: insert_claim_def list_ex_iff split: if_splits)
    from assms p None xy s1 i have run: "insert_link_event (?e ?c) s1 = Inr s'" "lr_applied r" "lr_proof_token r = Some token"
      "lr_view r = \<lparr>lv_claim = ?c, lv_source = x, lv_target = y\<rparr>"
      by (auto simp: issue_claim_def bindE_eq_Inr Let_def split: if_splits)
    have new: "il_id ?c \<notin> il_id ` set (link_claims s)" using ins(2) by (metis imageE)
    have row: "il_status ?c = LinkPending" "il_control_version ?c = 0" "il_proof_token_hash ?c = Some (sha256 E token)"
      "event_tells link_ledger None ?c (?e ?c)"
      by (simp_all add: issued_claim_def event_tells_def issued_event_def)
    have s': "s' = s\<lparr>link_claims := link_claims s @ [?c], link_events := link_events s @ [?e ?c]\<rparr>"
      and free: "claim_receipt s (li_agent_id cmd) (kc_key p) = None"
      using insert_link_event_Inr [OF run(1)] by (simp_all add: ins(1) issued_event_def claim_receipt_def)
    show thesis by (rule first [OF run(2,3) row(1,2) new row(4) s' row(3) run(4) p None xy refl free])
  qed
qed


section \<open>All operations\<close>

inductive link_op :: "store \<Rightarrow> store \<Rightarrow> bool" where
  lo_issue: "issue_claim E token0 icmd s = Inr (s', r0) \<Longrightarrow> link_op s s'"
| lo_verify: "verify_claim E token1 vcmd s = Inr (s', r1) \<Longrightarrow> link_op s s'"
| lo_reject: "reject_claim E cmd2 s = Inr (s', r2) \<Longrightarrow> link_op s s'"
| lo_revoke: "revoke_claim E cmd3 s = Inr (s', r3) \<Longrightarrow> link_op s s'"
| lo_expire: "expire_claim E cmd4 s = Inr (s', r4) \<Longrightarrow> link_op s s'"
| lo_elsewhere: "link_claims s' = link_claims s \<Longrightarrow> link_events s' = link_events s \<Longrightarrow> link_op s s'"

text \<open>What an operation can do: nothing to the claims, enter a new one, open one with its token, or end one.\<close>

definition opens_claim :: "link_claim \<Rightarrow> store \<Rightarrow> store \<Rightarrow> bool" where
  "opens_claim c s s' \<longleftrightarrow> (\<exists>E token cmd r now. verify_claim E token cmd s = Inr (s', r) \<and> lr_applied r \<and>
     kl_claim_id cmd = il_id c \<and> il_proof_token_hash c = Some (sha256 E token) \<and>
     link_time E (kl_occurred_at cmd) = Inr now \<and> now < il_proof_expires_at c)"

inductive link_turn :: "store \<Rightarrow> store \<Rightarrow> bool" where
  lt_none: "link_tables s' = link_tables s \<Longrightarrow> link_turn s s'"
| lt_new: "il_status c = LinkPending \<Longrightarrow> il_control_version c = 0 \<Longrightarrow> il_id c \<notin> il_id ` set (link_claims s) \<Longrightarrow>
     event_tells link_ledger None c e \<Longrightarrow>
     s' = s\<lparr>link_claims := link_claims s @ [c], link_events := link_events s @ [e]\<rparr> \<Longrightarrow> link_turn s s'"
| lt_open: "link_change c c' e s s' \<Longrightarrow> il_status c = LinkPending \<Longrightarrow> il_status c' = LinkVerified \<Longrightarrow>
     opens_claim c s s' \<Longrightarrow> link_turn s s'"
| lt_end: "link_change c c' e s s' \<Longrightarrow> il_status c' \<in> {LinkRejected, LinkRevoked, LinkExpired} \<Longrightarrow> link_turn s s'"

lemma terminal_turn:
  assumes "terminal_transition E target allowed f clear due cmd s = Inr (s', r)" "link_edge allowed target"
    "target \<in> {LinkRejected, LinkRevoked, LinkExpired}"
  shows "link_turn s s'"
proof (cases rule: link_terminal_cases [OF assms(1,2), case_names replay moved])
  case replay
  then show ?thesis by (simp add: lt_none)
next
  case (moved c c' e)
  with assms(3) show ?thesis by (intro lt_end [OF moved(1)]) simp
qed

lemma link_op_turn: "link_op s s' \<Longrightarrow> link_turn s s'"
proof (induction rule: link_op.induct)
  case (lo_issue E token0 icmd s s' r0)
  show ?case
  proof (cases rule: issue_cases_link [OF lo_issue, case_names replay first])
    case (replay p c)
    then show ?thesis by (simp add: lt_none)
  next
    case (first c e p x y)
    show ?thesis by (rule lt_new [OF first(3-7)])
  qed
next
  case (lo_verify E token1 vcmd s s' r1)
  show ?case
  proof (cases rule: verify_cases [OF lo_verify, case_names replay moved])
    case replay
    then show ?thesis by (simp add: lt_none)
  next
    case (moved c c' e now)
    have "opens_claim c s s'" unfolding opens_claim_def using lo_verify moved by metis
    then show ?thesis by (rule lt_open [OF moved(1,4,5)])
  qed
next
  case (lo_reject E cmd s s' r)
  then show ?case unfolding reject_claim_def by (rule terminal_turn) simp_all
next
  case (lo_revoke E cmd s s' r)
  then show ?case unfolding revoke_claim_def by (rule terminal_turn) simp_all
next
  case (lo_expire E cmd s s' r)
  then show ?case unfolding expire_claim_def by (rule terminal_turn) simp_all
next
  case (lo_elsewhere s' s)
  then show ?case by (intro lt_none) (simp add: link_tables_def)
qed

lemma link_turn_moves: "link_turn s s' \<Longrightarrow> ledger_moves link_ledger (link_tables s) (link_tables s')"
proof (induction rule: link_turn.induct)
  case (lt_new c s e s')
  have "ledger_step link_ledger (il_id c) (link_claims s, link_events s) (link_claims s @ [c], link_events s @ [e])"
    using ledger_step.registered [where L = link_ledger and r = c and rs = "link_claims s" and es = "link_events s"
        and e = e] lt_new by simp
  from ledger_moves_step [OF this] show ?case by (simp add: link_tables_def lt_new(5))
next
  case (lt_open c c' e s s')
  from ledger_moves_step [OF link_change_step [OF lt_open(1)]] show ?case .
next
  case (lt_end c c' e s s')
  from ledger_moves_step [OF link_change_step [OF lt_end(1)]] show ?case .
qed simp

interpretation links: ledger_service link_ledger link_tables link_op
  by unfold_locales (rule link_turn_moves [OF link_op_turn])

text \<open>The events of a claim tell its whole life, no claim is lost or redirected to other identities,
  and a rejected, revoked or expired claim stays so.\<close>

theorem link_trail:
  assumes "ledger_inv link_ledger (link_tables s)" "link_op\<^sup>*\<^sup>* s s'"
  shows "(\<forall>c\<in>set (link_claims s').
      event_versions link_ledger (link_tables s') (il_id c) = [0 .. il_control_version c] \<and>
      event_path link_ledger None (row_events link_ledger (link_tables s') (il_id c)) (Some (il_status c))) \<and>
    (\<forall>c\<in>set (link_claims s). \<exists>c'\<in>set (link_claims s'). il_id c' = il_id c \<and> link_part c' = link_part c \<and>
      (il_status c \<in> {LinkRejected, LinkRevoked, LinkExpired} \<longrightarrow> il_status c' = il_status c))"
proof -
  have "event_versions link_ledger (link_tables s') (il_id c) = [0 .. il_control_version c] \<and>
      event_path link_ledger None (row_events link_ledger (link_tables s') (il_id c)) (Some (il_status c))"
    if "c \<in> set (link_claims s')" for c
    using links.ops_trail [OF assms(2,1), of c] that by (simp add: link_tables_def)
  moreover have "\<exists>c'\<in>set (link_claims s'). il_id c' = il_id c \<and> link_part c' = link_part c \<and>
      (il_status c \<in> {LinkRejected, LinkRevoked, LinkExpired} \<longrightarrow> il_status c' = il_status c)"
    if "c \<in> set (link_claims s)" for c
    using links.ops_keep [OF assms(2,1), of c] that link_final [of "il_status c"] by (auto simp: link_tables_def)
  ultimately show ?thesis by blast
qed

section \<open>Verification by the token\<close>

definition opened_between :: "store \<Rightarrow> link_claim \<Rightarrow> store \<Rightarrow> bool" where
  "opened_between s c s' \<longleftrightarrow> (\<exists>s1 s2. link_op\<^sup>*\<^sup>* s s1 \<and> opens_claim c s1 s2 \<and> link_op\<^sup>*\<^sup>* s2 s')"

text \<open>The row of the claim: still pending with its token, ended without it, or opened on the way.\<close>

definition claim_fate :: "store \<Rightarrow> link_claim \<Rightarrow> store \<Rightarrow> bool" where
  "claim_fate s c s' \<longleftrightarrow> il_id c \<in> il_id ` set (link_claims s') \<and>
     (\<forall>k\<in>set (link_claims s'). il_id k = il_id c \<longrightarrow>
        (il_status k = LinkPending \<and> il_proof_token_hash k = il_proof_token_hash c \<and>
          il_proof_expires_at k = il_proof_expires_at c) \<or>
        il_status k \<in> {LinkRejected, LinkExpired} \<or> opened_between s c s')"

lemma opened_between_step: "opened_between s c s' \<Longrightarrow> link_op s' s'' \<Longrightarrow> opened_between s c s''"
  unfolding opened_between_def by (metis rtranclp.rtrancl_into_rtrancl)

lemma link_change_ids: "link_change c c' e s s' \<Longrightarrow> il_id ` set (link_claims s') = il_id ` set (link_claims s)"
  by (simp add: link_change_def) (metis map_key_put_row list.set_map)

lemma link_change_rows: "link_change c c' e s s' \<Longrightarrow> k \<in> set (link_claims s') \<Longrightarrow> k = c' \<or> k \<in> set (link_claims s) \<and> il_id k \<noteq> il_id c"
  by (auto simp: link_change_def set_put_row)

lemma fate_step:
  assumes "link_op s' s''" "link_op\<^sup>*\<^sup>* s s'" "claim_fate s c s'"
  shows "claim_fate s c s''"
  using link_op_turn [OF assms(1)]
proof (cases rule: link_turn.cases)
  case lt_none
  then have "link_claims s'' = link_claims s'" by (simp add: link_tables_def)
  with assms opened_between_step show ?thesis by (auto simp: claim_fate_def)
next
  case (lt_new k e)
  with assms opened_between_step show ?thesis by (auto simp: claim_fate_def)
next
  case (lt_open k k' e)
  have old: "k \<in> set (link_claims s')" "il_id k' = il_id k" using lt_open(1) by (simp_all add: link_change_def)
  have "opened_between s c s''" if "il_id k = il_id c"
  proof -
    have "(il_proof_token_hash k = il_proof_token_hash c \<and> il_proof_expires_at k = il_proof_expires_at c) \<or>
        opened_between s c s'"
      using assms(3) old that lt_open(2) by (fastforce simp: claim_fate_def)
    then show ?thesis
    proof
      assume "il_proof_token_hash k = il_proof_token_hash c \<and> il_proof_expires_at k = il_proof_expires_at c"
      with lt_open(4) that have "opens_claim c s' s''" by (simp add: opens_claim_def)
      with assms(2) show ?thesis unfolding opened_between_def by blast
    qed (rule opened_between_step [OF _ assms(1)])
  qed
  with assms(3) opened_between_step [OF _ assms(1)] link_change_rows [OF lt_open(1)] old show ?thesis
    unfolding claim_fate_def link_change_ids [OF lt_open(1)] by metis
next
  case (lt_end k k' e)
  have old: "k \<in> set (link_claims s')" "il_id k' = il_id k" "link_edge (il_status k) (il_status k')"
    using lt_end(1) by (simp_all add: link_change_def)
  have "il_status k' \<in> {LinkRejected, LinkExpired} \<or> opened_between s c s''" if "il_id k = il_id c"
  proof (cases "il_status k' = LinkRevoked")
    case True
    then have "il_status k = LinkVerified" using old(3) by (cases "il_status k") simp_all
    with assms(3) old that have "opened_between s c s'" by (fastforce simp: claim_fate_def)
    then show ?thesis using opened_between_step [OF _ assms(1)] by blast
  next
    case False
    with lt_end(2) show ?thesis by simp
  qed
  with assms(3) opened_between_step [OF _ assms(1)] link_change_rows [OF lt_end(1)] old show ?thesis
    unfolding claim_fate_def link_change_ids [OF lt_end(1)] by metis
qed


text \<open>C9: a claim is opened only by its token: whatever operations run, a claim that was pending and is now
  verified (or was revoked after that) went through an applied \<open>verify_claim\<close> with a token whose digest is
  the stored one, before the token expired; and no later \<open>verify_claim\<close> has an effect on it.\<close>

theorem claim_opened_once_by_token:
  assumes "ledger_inv link_ledger (link_tables s)" "link_op\<^sup>*\<^sup>* s s'" "c \<in> set (link_claims s)"
    "il_status c = LinkPending" "c' \<in> set (link_claims s')" "il_id c' = il_id c"
    "il_status c' \<in> {LinkVerified, LinkRevoked}"
  shows "(\<exists>E token cmd s1 s2 r now. link_op\<^sup>*\<^sup>* s s1 \<and> verify_claim E token cmd s1 = Inr (s2, r) \<and> lr_applied r \<and>
      kl_claim_id cmd = il_id c \<and> il_proof_token_hash c = Some (sha256 E token) \<and>
      link_time E (kl_occurred_at cmd) = Inr now \<and> now < il_proof_expires_at c \<and> link_op\<^sup>*\<^sup>* s2 s') \<and>
    (\<forall>E token cmd s2 r. verify_claim E token cmd s' = Inr (s2, r) \<and> kl_claim_id cmd = il_id c \<longrightarrow>
      \<not> lr_applied r \<and> s2 = s')"
proof
  have rows: "distinct (map il_id (link_claims s))" using assms(1) by (simp add: ledger_inv_def ledger_rows_def link_tables_def)
  have start: "claim_fate s c s"
    using assms(3,4) same_key [OF rows _ assms(3)] by (auto simp: claim_fate_def)
  from assms(2) have "claim_fate s c s'"
    by (induction rule: rtranclp_induct) (use start fate_step in blast)+
  then have "opened_between s c s'" using assms(5-7) by (fastforce simp: claim_fate_def)
  then show "\<exists>E token cmd s1 s2 r now. link_op\<^sup>*\<^sup>* s s1 \<and> verify_claim E token cmd s1 = Inr (s2, r) \<and> lr_applied r \<and>
      kl_claim_id cmd = il_id c \<and> il_proof_token_hash c = Some (sha256 E token) \<and>
      link_time E (kl_occurred_at cmd) = Inr now \<and> now < il_proof_expires_at c \<and> link_op\<^sup>*\<^sup>* s2 s'"
    unfolding opened_between_def opens_claim_def by blast
  have rows': "distinct (map il_id (link_claims s'))"
    using ledger_moves_rows [OF links.ops_move [OF assms(2)]] rows by (simp add: ledger_rows_def link_tables_def)
  show "\<forall>E token cmd s2 r. verify_claim E token cmd s' = Inr (s2, r) \<and> kl_claim_id cmd = il_id c \<longrightarrow>
      \<not> lr_applied r \<and> s2 = s'"
  proof (intro allI impI, elim conjE)
    fix E token cmd s2 r assume run: "verify_claim E token cmd s' = Inr (s2, r)" "kl_claim_id cmd = il_id c"
    show "\<not> lr_applied r \<and> s2 = s'"
    proof (cases rule: verify_cases [OF run(1), case_names replay moved])
      case replay
      then show ?thesis by simp
    next
      case (moved k k' e now)
      then have "k \<in> set (link_claims s')" "il_id k = il_id c'" using run(2) assms(6) by (simp_all add: link_change_def)
      then have "k = c'" using same_key [OF rows' _ assms(5)] by blast
      with moved(4) assms(7) show ?thesis by simp
    qed
  qed
qed

section \<open>Idempotent issuing\<close>

definition issue_view :: "env \<Rightarrow> string \<Rightarrow> store \<Rightarrow> link_issue \<Rightarrow> link_error + (store \<times> link_view)" where
  "issue_view E token s cmd = bindE (issue_claim E token cmd s) (\<lambda>(s', r). Inr (s', lr_view r))"

definition issue_ready :: "env \<Rightarrow> link_issue \<Rightarrow> bool" where
  "issue_ready E cmd \<longleftrightarrow> (\<exists>p. prepare_claim E cmd = Inr p)"

definition issue_digest :: "env \<Rightarrow> link_issue \<Rightarrow> string" where
  "issue_digest E cmd = (case prepare_claim E cmd of Inl _ \<Rightarrow> [] | Inr p \<Rightarrow> kc_command_hash p)"

definition issue_filed :: "env \<Rightarrow> store \<Rightarrow> link_issue \<Rightarrow> (string \<times> link_view) option" where
  "issue_filed E s cmd =
     (case prepare_claim E cmd of
        Inl _ \<Rightarrow> None
      | Inr p \<Rightarrow>
          (case claim_by_issue_key s (li_agent_id cmd) (kc_key p) of
             None \<Rightarrow> None
           | Some c \<Rightarrow>
               (case claim_view s c of Inl _ \<Rightarrow> None | Inr v \<Rightarrow> Some (il_issue_command_hash c, v))))"

lemmas issue_filing = issue_view_def issue_ready_def issue_digest_def issue_filed_def

interpretation link_issues: idempotent_command "issue_view E token" "\<lambda>_. issue_ready E" "issue_filed E" "\<lambda>_. issue_digest E"
  LinkIdempotency for E token
proof
  fix s cmd v
  assume "issue_ready E cmd" "issue_filed E s cmd = Some (issue_digest E cmd, v)"
  then show "issue_view E token s cmd = Inr (s, v)"
    by (auto simp: issue_filing issue_claim_def known_claim_def link_assert_hash_def split: option.splits sum.splits)
next
  fix s cmd h v
  assume "issue_ready E cmd" "issue_filed E s cmd = Some (h, v)" "h \<noteq> issue_digest E cmd"
  then show "issue_view E token s cmd = Inl LinkIdempotency"
    by (auto simp: issue_filing issue_claim_def known_claim_def link_assert_hash_def split: option.splits sum.splits)
next
  fix s cmd s' v assume "issue_view E token s cmd = Inr (s', v)"
  then obtain r where r: "issue_claim E token cmd s = Inr (s', r)" "v = lr_view r"
    by (auto simp: issue_view_def bindE_eq_Inr)
  show "issue_ready E cmd \<and> issue_ready E cmd \<and> issue_digest E cmd = issue_digest E cmd \<and>
      issue_filed E s' cmd = Some (issue_digest E cmd, v)"
  proof (cases rule: issue_cases_link [OF r(1), case_names replay first])
    case (replay p c)
    then show ?thesis by (auto simp: issue_filing r(2) known_claim_def bindE_eq_Inr)
  next
    case (first c e p x y)
    have pair: "get_identity s (li_source_identity_id cmd) = Some x" "get_identity s (li_target_identity_id cmd) = Some y"
      using first(12) by (auto simp: identity_pair_def split: if_splits option.splits)
    then have ids: "ci_id x = li_source_identity_id cmd" "ci_id y = li_target_identity_id cmd"
      by (auto simp: get_identity_def dest: find_SomeD)
    have "claim_by_issue_key s' (li_agent_id cmd) (kc_key p) = Some c"
      using first(11) by (simp add: claim_by_issue_key_def first(7) find_append) (simp add: first(13) issued_claim_def)
    moreover have "claim_view s' c = Inr \<lparr>lv_claim = c, lv_source = x, lv_target = y\<rparr>"
      using pair ids by (simp add: claim_view_def first(7) get_identity_def) (simp add: first(13) issued_claim_def)
    moreover have "il_issue_command_hash c = kc_command_hash p" by (simp add: first(13) issued_claim_def)
    ultimately show ?thesis using first(9,10) by (simp add: issue_filing r(2))
  qed
qed


text \<open>The keys of an agent serve all its claims and transitions, but \<open>issue\<close> looks for its key among the
  claims only: under a key that a transition has used it never succeeds, whatever it is to issue.\<close>

lemma issue_key_taken:
  assumes "prepare_claim E cmd = Inr p" "claim_by_issue_key s (li_agent_id cmd) (kc_key p) = None"
    "claim_receipt s (li_agent_id cmd) (kc_key p) \<noteq> None"
  shows "\<nexists>x. issue_claim E token cmd s = Inr x"
proof
  assume "\<exists>x. issue_claim E token cmd s = Inr x"
  then obtain s' r where "issue_claim E token cmd s = Inr (s', r)" by (metis surj_pair)
  then show False
  proof (cases rule: issue_cases_link)
    case (replay q c)
    with assms show False by simp
  next
    case (first c e q x y)
    with assms show False by simp
  qed
qed

end
