(* ===== verification/LinkWitnesses.thy ===== *)
theory LinkWitnesses
  imports LinkPromises
begin

text \<open>A pending claim of two identities, verified by its token.\<close>

definition one_identity :: "uuid \<Rightarrow> uuid \<Rightarrow> channel_identity" where
  "one_identity i person = \<lparr>ci_id = i, ci_principal_id = person, ci_channel = ''whatsapp'', ci_route_key = ''main'',
     ci_external_subject = ''5491100'', ci_verified = False, ci_attributes = JObj []\<rparr>"

definition pending_claim :: link_claim where
  "pending_claim = \<lparr>il_id = UUID 20, il_created_at = 0, il_updated_at = 0, il_agent_id = UUID 2,
     il_source_identity_id = UUID 21, il_target_identity_id = UUID 22, il_source_principal_id = UUID 3,
     il_target_principal_id = UUID 4, il_status = LinkPending, il_proof_method = ''opaque_token'',
     il_proof_token_hash = Some (replicate 64 (CHR ''a'')), il_proof_expires_at = 100, il_proof_consumed_at = None,
     il_evidence_sha256 = None, il_evidence_reference = None, il_created_by_admin_id = UUID 9,
     il_verified_by_admin_id = None, il_verified_at = None, il_rejected_at = None, il_revoked_at = None,
     il_expired_at = None, il_control_version = 0, il_issue_idempotency_key = ''k0'',
     il_issue_command_hash = replicate 64 (CHR ''a'')\<rparr>"

definition pending_event :: link_event where
  "pending_event = \<lparr>le_id = UUID 23, le_claim_id = UUID 20, le_agent_id = UUID 2, le_actor_admin_id = UUID 9,
     le_event_type = LeIssued, le_from_status = None, le_to_status = LinkPending, le_control_version = 0,
     le_idempotency_key = ''k0'', le_command_hash = replicate 64 (CHR ''a''), le_created_at = 0\<rparr>"

definition link_store :: store where
  "link_store = empty_store\<lparr>channel_identities := [one_identity (UUID 21) (UUID 3), one_identity (UUID 22) (UUID 4)],
     link_claims := [pending_claim], link_events := [pending_event]\<rparr>"

definition show_token :: claim_command where
  "show_token = \<lparr>kl_agent_id = UUID 2, kl_claim_id = UUID 20, kl_actor_admin_id = UUID 9, kl_expected_version = 0,
     kl_idempotency_key = ''k1'', kl_occurred_at = Some (Aware 50 0)\<rparr>"

definition good_token :: string where "good_token = replicate 43 (CHR ''x'')"

lemma link_store_tables [simp]: "link_claims link_store = [pending_claim]" "link_events link_store = [pending_event]"
  "channel_identities link_store = [one_identity (UUID 21) (UUID 3), one_identity (UUID 22) (UUID 4)]"
  by (simp_all add: link_store_def)

lemma pending_fields: "il_id pending_claim = UUID 20" "il_agent_id pending_claim = UUID 2"
  "il_status pending_claim = LinkPending" "il_control_version pending_claim = 0" "le_claim_id pending_event = UUID 20"
  "il_proof_token_hash pending_claim = Some (replicate 64 (CHR ''a''))" "il_proof_expires_at pending_claim = 100"
  "le_control_version pending_event = 0" "le_from_status pending_event = None" "le_to_status pending_event = LinkPending"
  "le_id pending_event = UUID 23" "le_agent_id pending_event = UUID 2" "le_idempotency_key pending_event = ''k0''"
  by (simp_all add: pending_claim_def pending_event_def)

lemma link_store_inv: "ledger_inv link_ledger (link_tables link_store)"
  by (simp add: ledger_inv_def ledger_rows_def gap_free_def next_row_version_def event_versions_def row_events_def
      events_lead_def link_tables_def pending_fields)

definition opened_claim :: link_claim where
  "opened_claim = (verified_claim show_token 50 pending_claim)\<lparr>il_updated_at := 40\<rparr>"

lemma token_shown: "\<exists>s' r. verify_claim sample_env good_token show_token link_store = Inr (s', r) \<and>
    link_claims s' = [opened_claim]"
proof -
  let ?digest = "replicate 64 (CHR ''a'')"
  have digest: "proof_digest sample_env good_token = Inr ?digest"
    by (simp add: good_token_def sample_env_def del: replicate.simps) 
  have hash: "link_command_hash sample_env payload = ?digest" for payload
    by (simp add: link_command_hash_def command_digest_def sample_env_def)
  have time: "link_time sample_env (kl_occurred_at show_token) = Inr 50"
    by (simp add: link_time_def link_utc_def to_utc_def show_token_def)
  have key: "strip ''k1'' = ''k1''" by (simp add: strip_def is_space_def)
  have prep: "prepare_link_transition link_store show_token ?digest LeVerified = Inr (pending_claim, False)"
    by (simp add: prepare_link_transition_def show_token_def link_text_def key Let_def load_claim_def claim_receipt_def
        pending_fields)
  have version: "kl_expected_version show_token = 0" by (simp add: show_token_def)
  have row: "link_claim_checks opened_claim" "put_row il_id opened_claim [pending_claim] = [opened_claim]"
    by (simp_all add: link_claim_checks_def opened_claim_def verified_claim_def put_row_def) (simp_all add: pending_claim_def)
  let ?e = "link_transition_event sample_env show_token opened_claim LeVerified LinkPending ?digest 50"
  have ev: "link_event_checks ?e" "le_id ?e = UUID 7" "le_control_version ?e = 1" "le_idempotency_key ?e = ''k1''"
    by (simp_all add: link_event_checks_def link_transition_event_def opened_claim_def verified_claim_def pending_fields
        sample_env_def show_token_def key)
  let ?s = "link_store\<lparr>link_claims := [opened_claim], link_events := [pending_event, ?e]\<rparr>"
  have view: "claim_view ?s opened_claim = Inr \<lparr>lv_claim = opened_claim, lv_source = one_identity (UUID 21) (UUID 3),
      lv_target = one_identity (UUID 22) (UUID 4)\<rparr>"
    by (simp add: claim_view_def get_identity_def opened_claim_def verified_claim_def pending_claim_def one_identity_def)
  have now: "tx_now sample_env = 40" by (simp add: sample_env_def)
  show ?thesis
    by (simp add: verify_claim_def digest time hash prep version Let_def pending_fields record_link_transition_def now
        opened_claim_def [symmetric] update_claim_def row insert_link_event_def ev view assert_link_version_def del: proof_digest_Inr)
qed

theorem claim_opened_once_by_token_witness:
  "\<exists>s'. link_op link_store s' \<and> opened_claim \<in> set (link_claims s') \<and> il_status opened_claim = LinkVerified \<and>
     (\<exists>(E :: env) token. il_proof_token_hash pending_claim = Some (sha256 E token)) \<and>
     (\<forall>r. verify_claim sample_env good_token show_token s' = Inr r \<longrightarrow> fst r = s')"
proof -
  obtain s' r where s': "verify_claim sample_env good_token show_token link_store = Inr (s', r)"
    "link_claims s' = [opened_claim]" using token_shown by blast
  have op: "link_op link_store s'" using s'(1) by (rule lo_verify)
  have old: "pending_claim \<in> set (link_claims link_store)" by simp
  have row: "opened_claim \<in> set (link_claims s')" "il_id opened_claim = il_id pending_claim"
    "il_status opened_claim \<in> {LinkVerified, LinkRevoked}" "il_status opened_claim = LinkVerified"
    by (simp_all add: s'(2) opened_claim_def verified_claim_def)
  note both = claim_opened_once_by_token [OF link_store_inv r_into_rtranclp [of link_op, OF op] old pending_fields(3) row(1-3)]
  have "fst x = s'" if "verify_claim sample_env good_token show_token s' = Inr x" for x
  proof (cases x)
    case (Pair s2 r2)
    have "kl_claim_id show_token = il_id pending_claim" by (simp add: show_token_def pending_fields)
    with that Pair both show ?thesis by auto
  qed
  moreover have "\<exists>(E :: env) token. il_proof_token_hash pending_claim = Some (sha256 E token)"
    using both by (elim conjE exE) (intro exI, assumption)
  ultimately show ?thesis using op row by blast
qed

end
