(* ===== verification/HandoffRoutes.thy ===== *)
theory HandoffRoutes
  imports Ledger Store
begin

text \<open>
  \<open>services/agent_handoff_routes.py\<close>: to which agent a source agent hands a conversation on a trigger. A
  source has at most one route per trigger; every accepted command leaves a receipt, also one that changed
  nothing, and only a change starts the next version of the route. \<open>services/commercial/progression_policy.py\<close>:
  whether a requested quote stays with its agent or is handed off.
\<close>

section \<open>Errors and normalisation\<close>

datatype route_error =
    RouteNotFound
  | RouteInvalid string
  | RouteConflict string
  | RouteVersionConflict
  | RouteIdempotency
  | RouteIntegrity

fun handoff_trigger_value :: "handoff_trigger \<Rightarrow> string" where
  "handoff_trigger_value QuoteRequested = ''quote_requested''"
| "handoff_trigger_value ManualEscalation = ''manual_escalation''"

definition route_trigger :: "string \<Rightarrow> route_error + handoff_trigger" where
  "route_trigger v =
     (case find (\<lambda>t. handoff_trigger_value t = v) [QuoteRequested, ManualEscalation] of
        None \<Rightarrow> Inl (RouteInvalid ''unsupported handoff trigger'') | Some t \<Rightarrow> Inr t)"

definition route_key_text :: "string \<Rightarrow> route_error + string" where
  "route_key_text v =
     (let t = strip v in if t = [] \<or> 220 < length t then Inl (RouteInvalid ''invalid idempotency_key'') else Inr t)"

definition route_command_hash :: "env \<Rightarrow> (string \<times> json) list \<Rightarrow> string" where
  "route_command_hash E payload = command_digest E True payload"

definition route_assert_hash :: "string \<Rightarrow> string \<Rightarrow> route_error + unit" where
  "route_assert_hash existing requested = (if existing \<noteq> requested then Inl RouteIdempotency else Inr ())"

definition assert_route_version :: "handoff_route \<Rightarrow> int \<Rightarrow> route_error + unit" where
  "assert_route_version r expected = (if hr_control_version r \<noteq> expected then Inl RouteVersionConflict else Inr ())"

section \<open>Reading\<close>

text \<open>The order of the two trigger texts.\<close>

definition trigger_rank :: "handoff_trigger \<Rightarrow> int" where
  "trigger_rank t = (case t of ManualEscalation \<Rightarrow> 0 | QuoteRequested \<Rightarrow> 1)"

definition list_routes :: "uuid \<Rightarrow> store \<Rightarrow> handoff_route list" where
  "list_routes source s =
     sort_key (\<lambda>r. trigger_rank (hr_trigger r)) (sort_key hr_id
       (filter (\<lambda>r. hr_source_agent_id r = source) (handoff_routes s)))"

definition load_route :: "store \<Rightarrow> uuid \<Rightarrow> uuid \<Rightarrow> route_error + handoff_route" where
  "load_route s source i =
     (case find (\<lambda>r. hr_id r = i \<and> hr_source_agent_id r = source) (handoff_routes s) of
        None \<Rightarrow> Inl RouteNotFound | Some r \<Rightarrow> Inr r)"

definition get_route :: "uuid \<Rightarrow> uuid \<Rightarrow> store \<Rightarrow> route_error + handoff_route" where
  "get_route source i s = load_route s source i"

definition receipt_by_key :: "store \<Rightarrow> uuid \<Rightarrow> string \<Rightarrow> handoff_receipt option" where
  "receipt_by_key s source key =
     find (\<lambda>x. hc_source_agent_id x = source \<and> hc_idempotency_key x = key) (handoff_receipts s)"

definition validate_agents :: "store \<Rightarrow> uuid \<Rightarrow> uuid \<Rightarrow> route_error + unit" where
  "validate_agents s source target =
     (if source = target then Inl (RouteInvalid ''source and target agents must be different'')
      else if list_ex (\<lambda>g. ag_id g = target \<and> ag_is_active g) (agents s) then Inr ()
      else Inl (RouteInvalid ''target agent must exist and be active''))"

section \<open>Rows\<close>

definition handoff_route_checks :: "handoff_route \<Rightarrow> bool" where
  "handoff_route_checks r \<longleftrightarrow> hr_source_agent_id r \<noteq> hr_target_agent_id r \<and> hr_control_version r \<ge> 0"

text \<open>The insertion inserts nothing when the source has a route for the trigger, and raises on a clash of
  the primary key.\<close>

definition insert_route :: "handoff_route \<Rightarrow> store \<Rightarrow> route_error + (store \<times> bool)" where
  "insert_route r s =
     (if \<not> handoff_route_checks r then Inl RouteIntegrity
      else if list_ex (\<lambda>x. hr_source_agent_id x = hr_source_agent_id r \<and> hr_trigger x = hr_trigger r) (handoff_routes s)
      then Inr (s, False)
      else if list_ex (\<lambda>x. hr_id x = hr_id r) (handoff_routes s) then Inl RouteIntegrity
      else Inr (s\<lparr>handoff_routes := handoff_routes s @ [r]\<rparr>, True))"

definition update_route_row :: "handoff_route \<Rightarrow> store \<Rightarrow> route_error + store" where
  "update_route_row r s =
     (if \<not> handoff_route_checks r then Inl RouteIntegrity
      else Inr (s\<lparr>handoff_routes := put_row hr_id r (handoff_routes s)\<rparr>))"

record route_change =
  rg_command_type :: handoff_command
  rg_previous_target :: "uuid option"
  rg_previous_is_active :: "bool option"
  rg_applied :: bool

definition new_route_receipt ::
  "uuid \<Rightarrow> handoff_route \<Rightarrow> uuid \<Rightarrow> route_change \<Rightarrow> string \<Rightarrow> string \<Rightarrow> handoff_receipt" where
  "new_route_receipt i r admin g key hash =
     \<lparr>hc_id = i, hc_route_id = hr_id r, hc_source_agent_id = hr_source_agent_id r, hc_actor_admin_id = admin,
      hc_command_type = rg_command_type g, hc_trigger = hr_trigger r, hc_previous_target_agent_id = rg_previous_target g,
      hc_target_agent_id = hr_target_agent_id r, hc_previous_is_active = rg_previous_is_active g,
      hc_is_active = hr_is_active r, hc_control_version = hr_control_version r, hc_applied = rg_applied g,
      hc_idempotency_key = key, hc_command_hash = hash\<rparr>"

text \<open>\<open>_add_receipt\<close> and its flush; the identifier of the receipt is random. The
  time of a command only enters the columns \<open>created_at\<close> and \<open>updated_at\<close>, which are not modelled.\<close>

definition add_receipt ::
  "env \<Rightarrow> handoff_route \<Rightarrow> uuid \<Rightarrow> route_change \<Rightarrow> string \<Rightarrow> string \<Rightarrow> store \<Rightarrow> route_error + store" where
  "add_receipt E r admin g key hash s =
     (let (i, s1) = fresh E s;
          x = new_route_receipt i r admin g key hash
      in if \<not> handoff_receipt_checks x \<or>
            list_ex (\<lambda>y. hc_id y = hc_id x \<or>
              (hc_source_agent_id y = hc_source_agent_id x \<and> hc_idempotency_key y = hc_idempotency_key x))
              (handoff_receipts s1)
         then Inl RouteIntegrity else Inr (s1\<lparr>handoff_receipts := handoff_receipts s1 @ [x]\<rparr>))"

section \<open>Creating a route\<close>

record route_command =
  rk_source_agent_id :: uuid
  rk_target_agent_id :: uuid
  rk_trigger :: string
  rk_is_active :: bool
  rk_actor_admin_id :: uuid
  rk_idempotency_key :: string

definition create_route_literal :: "route_command \<Rightarrow> handoff_trigger \<Rightarrow> (string \<times> json) list" where
  "create_route_literal cmd trigger =
     [(''actor_admin_id'', uuid_json (rk_actor_admin_id cmd)), (''command_type'', JStr ''created''),
      (''is_active'', JBool (rk_is_active cmd)), (''source_agent_id'', uuid_json (rk_source_agent_id cmd)),
      (''target_agent_id'', uuid_json (rk_target_agent_id cmd)), (''trigger'', JStr (handoff_trigger_value trigger))]"

definition created_route :: "env \<Rightarrow> route_command \<Rightarrow> handoff_trigger \<Rightarrow> handoff_route" where
  "created_route E cmd trigger =
     \<lparr>hr_id = uuid5 E (rk_source_agent_id cmd) (''agent-handoff-route:'' @ handoff_trigger_value trigger),
      hr_source_agent_id = rk_source_agent_id cmd, hr_target_agent_id = rk_target_agent_id cmd, hr_trigger = trigger,
      hr_is_active = rk_is_active cmd, hr_control_version = 0, hr_created_by_admin_id = rk_actor_admin_id cmd,
      hr_updated_by_admin_id = rk_actor_admin_id cmd\<rparr>"

definition replay_route :: "store \<Rightarrow> uuid \<Rightarrow> handoff_receipt \<Rightarrow> string \<Rightarrow> route_error + handoff_route" where
  "replay_route s source x hash =
     bindE (route_assert_hash (hc_command_hash x) hash) (\<lambda>_. load_route s source (hc_route_id x))"

text \<open>The result is the route and whether the command was applied. After a lost insertion the receipt is
  looked up again; within one transaction it is absent.\<close>

definition create_route :: "env \<Rightarrow> route_command \<Rightarrow> store \<Rightarrow> route_error + (store \<times> handoff_route \<times> bool)" where
  "create_route E cmd s =
     bindE (route_key_text (rk_idempotency_key cmd)) (\<lambda>key.
     bindE (route_trigger (rk_trigger cmd)) (\<lambda>trigger.
     let hash = route_command_hash E (create_route_literal cmd trigger) in
     case receipt_by_key s (rk_source_agent_id cmd) key of
       Some x \<Rightarrow> bindE (replay_route s (rk_source_agent_id cmd) x hash) (\<lambda>r. Inr (s, r, False))
     | None \<Rightarrow>
         bindE (validate_agents s (rk_source_agent_id cmd) (rk_target_agent_id cmd)) (\<lambda>_.
         let r = created_route E cmd trigger in
         bindE (insert_route r s) (\<lambda>(s1, inserted).
         if \<not> inserted then
           (case receipt_by_key s1 (rk_source_agent_id cmd) key of
              Some x \<Rightarrow> bindE (replay_route s1 (rk_source_agent_id cmd) x hash) (\<lambda>y. Inr (s1, y, False))
            | None \<Rightarrow> Inl (RouteConflict ''a route already exists for this source agent and trigger''))
         else
           bindE (add_receipt E r (rk_actor_admin_id cmd)
                    \<lparr>rg_command_type = HandoffCreated, rg_previous_target = None, rg_previous_is_active = None,
                     rg_applied = True\<rparr> key hash s1) (\<lambda>s2.
             Inr (s2, r, True))))))"

section \<open>Changing a route\<close>

record route_update =
  ru_source_agent_id :: uuid
  ru_route_id :: uuid
  ru_target_agent_id :: "uuid option"
  ru_is_active :: "bool option"
  ru_actor_admin_id :: uuid
  ru_expected_version :: int
  ru_idempotency_key :: string

definition prepare_mutation ::
  "store \<Rightarrow> uuid \<Rightarrow> uuid \<Rightarrow> string \<Rightarrow> string \<Rightarrow> route_error + handoff_route \<times> bool" where
  "prepare_mutation s source i key hash =
     (case receipt_by_key s source key of
        Some x \<Rightarrow> bindE (replay_route s source x hash) (\<lambda>r. Inr (r, True))
      | None \<Rightarrow> bindE (load_route s source i) (\<lambda>r. Inr (r, False)))"

definition update_route_literal :: "route_update \<Rightarrow> (string \<times> json) list" where
  "update_route_literal cmd =
     [(''actor_admin_id'', uuid_json (ru_actor_admin_id cmd)), (''command_type'', JStr ''updated''),
      (''expected_version'', JInt (ru_expected_version cmd)), (''is_active'', opt_json JBool (ru_is_active cmd)),
      (''route_id'', uuid_json (ru_route_id cmd)), (''source_agent_id'', uuid_json (ru_source_agent_id cmd)),
      (''target_agent_id'', opt_json uuid_json (ru_target_agent_id cmd))]"

definition changed_route :: "uuid \<Rightarrow> bool \<Rightarrow> uuid \<Rightarrow> handoff_route \<Rightarrow> handoff_route" where
  "changed_route target active admin r =
     (if target \<noteq> hr_target_agent_id r \<or> active \<noteq> hr_is_active r
      then r\<lparr>hr_target_agent_id := target, hr_is_active := active, hr_control_version := hr_control_version r + 1,
             hr_updated_by_admin_id := admin\<rparr>
      else r)"

text \<open>The receipt of a changed or unchanged route: what it was before and whether it changed.\<close>

definition save_route ::
  "env \<Rightarrow> handoff_command \<Rightarrow> handoff_route \<Rightarrow> handoff_route \<Rightarrow> uuid \<Rightarrow> string \<Rightarrow> string \<Rightarrow> store \<Rightarrow>
     route_error + (store \<times> handoff_route \<times> bool)" where
  "save_route E ty r r' admin key hash s =
     (let applied = hr_target_agent_id r' \<noteq> hr_target_agent_id r \<or> hr_is_active r' \<noteq> hr_is_active r in
      bindE (if applied then update_route_row r' s else Inr s) (\<lambda>s1.
      bindE (add_receipt E r' admin
               \<lparr>rg_command_type = ty, rg_previous_target = Some (hr_target_agent_id r),
                rg_previous_is_active = Some (hr_is_active r), rg_applied = applied\<rparr> key hash s1) (\<lambda>s2.
        Inr (s2, r', applied))))"

definition update_route :: "env \<Rightarrow> route_update \<Rightarrow> store \<Rightarrow> route_error + (store \<times> handoff_route \<times> bool)" where
  "update_route E cmd s =
     (if ru_target_agent_id cmd = None \<and> ru_is_active cmd = None
      then Inl (RouteInvalid ''at least one route field must be provided'')
      else
        bindE (route_key_text (ru_idempotency_key cmd)) (\<lambda>key.
        let hash = route_command_hash E (update_route_literal cmd) in
        bindE (prepare_mutation s (ru_source_agent_id cmd) (ru_route_id cmd) key hash) (\<lambda>(r, duplicate).
        if duplicate then Inr (s, r, False)
        else
          bindE (assert_route_version r (ru_expected_version cmd)) (\<lambda>_.
          let target = (case ru_target_agent_id cmd of Some t \<Rightarrow> t | None \<Rightarrow> hr_target_agent_id r);
              active = (case ru_is_active cmd of Some b \<Rightarrow> b | None \<Rightarrow> hr_is_active r)
          in bindE (validate_agents s (ru_source_agent_id cmd) target) (\<lambda>_.
             save_route E HandoffUpdated r (changed_route target active (ru_actor_admin_id cmd) r)
               (ru_actor_admin_id cmd) key hash s)))))"

definition deactivate_literal :: "route_update \<Rightarrow> (string \<times> json) list" where
  "deactivate_literal cmd =
     [(''actor_admin_id'', uuid_json (ru_actor_admin_id cmd)), (''command_type'', JStr ''deactivated''),
      (''expected_version'', JInt (ru_expected_version cmd)), (''route_id'', uuid_json (ru_route_id cmd)),
      (''source_agent_id'', uuid_json (ru_source_agent_id cmd))]"

text \<open>The command of \<open>deactivate_route\<close> has neither a target nor a flag.\<close>

definition deactivate_route :: "env \<Rightarrow> route_update \<Rightarrow> store \<Rightarrow> route_error + (store \<times> handoff_route \<times> bool)" where
  "deactivate_route E cmd s =
     bindE (route_key_text (ru_idempotency_key cmd)) (\<lambda>key.
     let hash = route_command_hash E (deactivate_literal cmd) in
     bindE (prepare_mutation s (ru_source_agent_id cmd) (ru_route_id cmd) key hash) (\<lambda>(r, duplicate).
     if duplicate then Inr (s, r, False)
     else
       bindE (assert_route_version r (ru_expected_version cmd)) (\<lambda>_.
       save_route E HandoffDeactivated r (changed_route (hr_target_agent_id r) False (ru_actor_admin_id cmd) r)
         (ru_actor_admin_id cmd) key hash s)))"

text \<open>
  What handoff routes promise: one route per source and trigger, and receipts from which its whole
  configuration history can be read. The ledger of a route are its receipts that were applied.
\<close>

section \<open>The ledger\<close>

definition route_tables :: "store \<Rightarrow> handoff_route list \<times> handoff_receipt list" where
  "route_tables s = (handoff_routes s, filter hc_applied (handoff_receipts s))"

definition route_part where
  "route_part (r :: handoff_route) = (hr_source_agent_id r, hr_trigger r, hr_created_by_admin_id r)"

definition route_setting :: "handoff_route \<Rightarrow> uuid \<times> bool" where
  "route_setting r = (hr_target_agent_id r, hr_is_active r)"

definition setting_before :: "handoff_receipt \<Rightarrow> (uuid \<times> bool) option" where
  "setting_before x =
     (case (hc_previous_target_agent_id x, hc_previous_is_active x) of (Some t, Some b) \<Rightarrow> Some (t, b) | _ \<Rightarrow> None)"

definition setting_after :: "handoff_receipt \<Rightarrow> uuid \<times> bool" where
  "setting_after x = (hc_target_agent_id x, hc_is_active x)"

definition same_route :: "handoff_route \<Rightarrow> handoff_route \<Rightarrow> bool" where
  "same_route r x \<longleftrightarrow> hr_source_agent_id x = hr_source_agent_id r \<and> hr_trigger x = hr_trigger r"

definition route_ledger where
  "route_ledger =
     \<lparr>row_key = hr_id, row_part = route_part, row_version = hr_control_version, row_status = route_setting,
      event_key = (hc_route_id :: handoff_receipt \<Rightarrow> uuid), event_version = hc_control_version,
      event_from = setting_before, event_to = setting_after, first_version = 0,
      admits = (\<lambda>rs r. \<not> list_ex (same_route r) rs),
      edge = (\<lambda>_ r r'. route_setting r' \<noteq> route_setting r \<and> hr_target_agent_id r' \<noteq> hr_source_agent_id r)\<rparr>"

lemma route_ledger_simps [simp]: "row_key route_ledger = hr_id" "row_part route_ledger = route_part"
  "row_version route_ledger = hr_control_version" "row_status route_ledger = route_setting"
  "event_key route_ledger = hc_route_id" "event_version route_ledger = hc_control_version"
  "event_from route_ledger = setting_before" "event_to route_ledger = setting_after" "first_version route_ledger = 0"
  "admits route_ledger rs r \<longleftrightarrow> \<not> list_ex (same_route r) rs"
  "edge route_ledger rs r r' \<longleftrightarrow> route_setting r' \<noteq> route_setting r \<and> hr_target_agent_id r' \<noteq> hr_source_agent_id r"
  by (simp_all add: route_ledger_def)

section \<open>The operations by cases\<close>

lemma load_routeD: "load_route s source i = Inr r \<Longrightarrow> r \<in> set (handoff_routes s) \<and> hr_id r = i \<and> hr_source_agent_id r = source"
  by (auto simp: load_route_def split: option.splits dest: find_SomeD)

lemma add_receipt_Inr: "add_receipt E r admin g key hash s = Inr s' \<Longrightarrow>
    \<exists>x. x = new_route_receipt (uuid4 E (draws s)) r admin g key hash \<and> handoff_receipt_checks x \<and>
      s' = s\<lparr>draws := Suc (draws s), handoff_receipts := handoff_receipts s @ [x]\<rparr>"
  by (auto simp: add_receipt_def fresh_def Let_def split: if_splits)

inductive route_turn :: "store \<Rightarrow> store \<Rightarrow> bool" where
  rt_none: "route_tables s' = route_tables s \<Longrightarrow> route_turn s s'"
| rt_new: "hr_control_version r = 0 \<Longrightarrow> hr_id r \<notin> hr_id ` set (handoff_routes s) \<Longrightarrow>
     \<not> list_ex (same_route r) (handoff_routes s) \<Longrightarrow> event_tells route_ledger None r x \<Longrightarrow> hc_applied x \<Longrightarrow>
     route_tables s' = (handoff_routes s @ [r], snd (route_tables s) @ [x]) \<Longrightarrow> route_turn s s'"
| rt_change: "r \<in> set (handoff_routes s) \<Longrightarrow> hr_id r' = hr_id r \<Longrightarrow> route_part r' = route_part r \<Longrightarrow>
     hr_control_version r' = hr_control_version r + 1 \<Longrightarrow> route_setting r' \<noteq> route_setting r \<Longrightarrow>
     hr_target_agent_id r' \<noteq> hr_source_agent_id r \<Longrightarrow> event_tells route_ledger (Some (route_setting r)) r' x \<Longrightarrow>
     route_tables s' = (put_row hr_id r' (handoff_routes s), snd (route_tables s) @ [x]) \<Longrightarrow> route_turn s s'"

lemma save_turn:
  assumes "save_route E ty r (changed_route target active admin r) by_admin key hash s = Inr (s', y, b)"
    "r \<in> set (handoff_routes s)"
  shows "route_turn s s'"
proof -
  let ?r = "changed_route target active admin r"
  let ?applied = "hr_target_agent_id ?r \<noteq> hr_target_agent_id r \<or> hr_is_active ?r \<noteq> hr_is_active r"
  let ?g = "\<lparr>rg_command_type = ty, rg_previous_target = Some (hr_target_agent_id r),
     rg_previous_is_active = Some (hr_is_active r), rg_applied = ?applied\<rparr>"
  from assms(1) obtain s1 where s1: "(if ?applied then update_route_row ?r s else Inr s) = Inr s1"
    "add_receipt E ?r by_admin ?g key hash s1 = Inr s'"
    by (auto simp: save_route_def bindE_eq_Inr Let_def)
  let ?x = "new_route_receipt (uuid4 E (draws s1)) ?r by_admin ?g key hash"
  from add_receipt_Inr [OF s1(2)] have x: "handoff_receipt_checks ?x"
    "s' = s1\<lparr>draws := Suc (draws s1), handoff_receipts := handoff_receipts s1 @ [?x]\<rparr>" by simp_all
  show ?thesis
  proof (cases ?applied)
    case False
    with s1(1) x show ?thesis by (intro rt_none) (simp add: route_tables_def new_route_receipt_def)
  next
    case True
    with s1(1) have row: "s1 = s\<lparr>handoff_routes := put_row hr_id ?r (handoff_routes s)\<rparr>" "handoff_route_checks ?r"
      by (simp_all add: update_route_row_def split: if_splits)
    have r: "hr_id ?r = hr_id r" "route_part ?r = route_part r" "hr_source_agent_id ?r = hr_source_agent_id r"
      by (simp_all add: changed_route_def route_part_def)
    have "target \<noteq> hr_target_agent_id r \<or> active \<noteq> hr_is_active r"
      using True by (auto simp: changed_route_def split: if_splits)
    then have v: "hr_control_version ?r = hr_control_version r + 1" by (auto simp: changed_route_def)
    have "event_tells route_ledger (Some (route_setting r)) ?r ?x"
      by (simp add: event_tells_def new_route_receipt_def setting_before_def setting_after_def route_setting_def)
    moreover have "route_setting ?r \<noteq> route_setting r" using True by (auto simp: route_setting_def)
    moreover have "hr_target_agent_id ?r \<noteq> hr_source_agent_id r" using row(2) r(3) by (auto simp: handoff_route_checks_def)
    moreover have "route_tables s' = (put_row hr_id ?r (handoff_routes s), snd (route_tables s) @ [?x])"
      using True by (simp add: x(2) row(1) route_tables_def new_route_receipt_def)
    ultimately show ?thesis using assms(2) r(1,2) v by (intro rt_change [of r s ?r ?x])
  qed
qed

lemma create_route_turn:
  assumes "create_route E cmd s = Inr (s', y, b)"
  shows "route_turn s s'"
proof -
  let ?source = "rk_source_agent_id cmd"
  from assms obtain key trigger where k: "route_key_text (rk_idempotency_key cmd) = Inr key" "route_trigger (rk_trigger cmd) = Inr trigger"
    by (auto simp: create_route_def bindE_eq_Inr)
  let ?r = "created_route E cmd trigger" and ?hash = "route_command_hash E (create_route_literal cmd trigger)"
  let ?g = "\<lparr>rg_command_type = HandoffCreated, rg_previous_target = None, rg_previous_is_active = None, rg_applied = True\<rparr>"
  show ?thesis
  proof (cases "receipt_by_key s ?source key")
    case (Some x)
    with assms k have "s' = s" by (auto simp: create_route_def bindE_eq_Inr Let_def)
    then show ?thesis by (simp add: rt_none)
  next
    case None
    with assms k obtain s1 i where s1: "insert_route ?r s = Inr (s1, i)"
      by (auto simp: create_route_def bindE_eq_Inr Let_def)
    have i
    proof (rule ccontr)
      assume "\<not> i"
      with s1 have "s1 = s" by (auto simp: insert_route_def split: if_splits)
      with assms k None s1 \<open>\<not> i\<close> show False by (auto simp: create_route_def bindE_eq_Inr Let_def)
    qed
    with s1 have new: "\<not> list_ex (same_route ?r) (handoff_routes s)" "\<forall>x\<in>set (handoff_routes s). hr_id x \<noteq> hr_id ?r"
      "s1 = s\<lparr>handoff_routes := handoff_routes s @ [?r]\<rparr>"
      by (auto simp: insert_route_def list_ex_iff same_route_def split: if_splits)
    from assms k None s1 \<open>i\<close> have "add_receipt E ?r (rk_actor_admin_id cmd) ?g key ?hash s1 = Inr s'"
      by (auto simp: create_route_def bindE_eq_Inr Let_def)
    from add_receipt_Inr [OF this] obtain x where x: "x = new_route_receipt (uuid4 E (draws s1)) ?r (rk_actor_admin_id cmd) ?g key ?hash"
      "s' = s1\<lparr>draws := Suc (draws s1), handoff_receipts := handoff_receipts s1 @ [x]\<rparr>" by blast
    have tells: "event_tells route_ledger None ?r x" "hc_applied x"
      by (simp_all add: x(1) event_tells_def new_route_receipt_def setting_before_def setting_after_def route_setting_def)
    have fresh_id: "hr_id ?r \<notin> hr_id ` set (handoff_routes s)" using new(2) by (metis imageE)
    have zero: "hr_control_version ?r = 0" by (simp add: created_route_def)
    show ?thesis
      by (rule rt_new [OF zero fresh_id new(1) tells]) (simp add: route_tables_def x(2) new(3) tells(2))
  qed
qed

lemma update_route_turn:
  assumes "update_route E cmd s = Inr (s', y, b)"
  shows "route_turn s s'"
proof -
  let ?hash = "route_command_hash E (update_route_literal cmd)"
  from assms obtain key r d where k: "route_key_text (ru_idempotency_key cmd) = Inr key"
    "prepare_mutation s (ru_source_agent_id cmd) (ru_route_id cmd) key ?hash = Inr (r, d)"
    by (auto simp: update_route_def bindE_eq_Inr Let_def split: if_splits)
  show ?thesis
  proof (cases d)
    case True
    with assms k have "s' = s" by (auto simp: update_route_def Let_def split: if_splits)
    then show ?thesis by (simp add: rt_none)
  next
    case False
    with k(2) have "r \<in> set (handoff_routes s)"
      by (auto simp: prepare_mutation_def bindE_eq_Inr split: option.splits dest: load_routeD)
    moreover from assms k False obtain target active where
      "save_route E HandoffUpdated r (changed_route target active (ru_actor_admin_id cmd) r) (ru_actor_admin_id cmd) key ?hash s =
         Inr (s', y, b)"
      by (auto simp: update_route_def bindE_eq_Inr Let_def split: if_splits)
    ultimately show ?thesis by (blast intro: save_turn)
  qed
qed

lemma deactivate_route_turn:
  assumes "deactivate_route E cmd s = Inr (s', y, b)"
  shows "route_turn s s'"
proof -
  let ?hash = "route_command_hash E (deactivate_literal cmd)"
  from assms obtain key r d where k: "route_key_text (ru_idempotency_key cmd) = Inr key"
    "prepare_mutation s (ru_source_agent_id cmd) (ru_route_id cmd) key ?hash = Inr (r, d)"
    by (auto simp: deactivate_route_def bindE_eq_Inr Let_def)
  show ?thesis
  proof (cases d)
    case True
    with assms k have "s' = s" by (auto simp: deactivate_route_def Let_def)
    then show ?thesis by (simp add: rt_none)
  next
    case False
    with k(2) have "r \<in> set (handoff_routes s)"
      by (auto simp: prepare_mutation_def bindE_eq_Inr split: option.splits dest: load_routeD)
    moreover from assms k False have "save_route E HandoffDeactivated r (changed_route (hr_target_agent_id r) False
        (ru_actor_admin_id cmd) r) (ru_actor_admin_id cmd) key ?hash s = Inr (s', y, b)"
      by (auto simp: deactivate_route_def bindE_eq_Inr Let_def)
    ultimately show ?thesis by (blast intro: save_turn)
  qed
qed


inductive handoff_route_op :: "store \<Rightarrow> store \<Rightarrow> bool" where
  ro_create: "create_route E cmd0 s = Inr (s', r0) \<Longrightarrow> handoff_route_op s s'"
| ro_update: "update_route E cmd1 s = Inr (s', r1) \<Longrightarrow> handoff_route_op s s'"
| ro_deactivate: "deactivate_route E cmd2 s = Inr (s', r2) \<Longrightarrow> handoff_route_op s s'"
| ro_elsewhere: "handoff_routes s' = handoff_routes s \<Longrightarrow> handoff_receipts s' = handoff_receipts s \<Longrightarrow> handoff_route_op s s'"

lemma handoff_route_op_turn: "handoff_route_op s s' \<Longrightarrow> route_turn s s'"
proof (induction rule: handoff_route_op.induct)
  case (ro_create E cmd0 s s' r0)
  then show ?case using create_route_turn by (metis surj_pair)
next
  case (ro_update E cmd1 s s' r1)
  then show ?case using update_route_turn by (metis surj_pair)
next
  case (ro_deactivate E cmd2 s s' r2)
  then show ?case using deactivate_route_turn by (metis surj_pair)
next
  case (ro_elsewhere s' s)
  then show ?case by (intro rt_none) (simp add: route_tables_def)
qed

lemma route_turn_moves: "route_turn s s' \<Longrightarrow> ledger_moves route_ledger (route_tables s) (route_tables s')"
proof (induction rule: route_turn.induct)
  case (rt_new r s x s')
  have "ledger_step route_ledger (hr_id r) (handoff_routes s, snd (route_tables s))
      (handoff_routes s @ [r], snd (route_tables s) @ [x])"
    using ledger_step.registered [where L = route_ledger and r = r and rs = "handoff_routes s"
        and es = "snd (route_tables s)" and e = x] rt_new by simp
  from ledger_moves_step [OF this] show ?case unfolding rt_new(6) by (simp add: route_tables_def)
next
  case (rt_change r s r' x s')
  have "ledger_step route_ledger (hr_id r) (handoff_routes s, snd (route_tables s))
      (put_row hr_id r' (handoff_routes s), snd (route_tables s) @ [x])"
    using ledger_step.moved [where L = route_ledger and r = r and r' = r' and rs = "handoff_routes s"
        and es = "snd (route_tables s)" and e = x] rt_change by simp
  from ledger_moves_step [OF this] show ?case unfolding rt_change(8) by (simp add: route_tables_def)
qed simp

interpretation handoffs: ledger_service route_ledger route_tables handoff_route_op
  by unfold_locales (rule route_turn_moves [OF handoff_route_op_turn])

section \<open>One route per source and trigger\<close>

definition routes_distinct :: "store \<Rightarrow> bool" where
  "routes_distinct s \<longleftrightarrow> distinct (map hr_id (handoff_routes s)) \<and>
     distinct (map (\<lambda>r. (hr_source_agent_id r, hr_trigger r)) (handoff_routes s))"

lemma route_turn_distinct: "route_turn s s' \<Longrightarrow> routes_distinct s \<Longrightarrow> routes_distinct s'"
proof (induction rule: route_turn.induct)
  case (rt_none s' s)
  then show ?case by (simp add: routes_distinct_def route_tables_def)
next
  case (rt_new r s x s')
  then show ?case by (auto simp: routes_distinct_def route_tables_def list_ex_iff same_route_def)
next
  case (rt_change r s r' x s')
  have "map (\<lambda>r. (hr_source_agent_id r, hr_trigger r)) (put_row hr_id r' (handoff_routes s)) =
      map (\<lambda>r. (hr_source_agent_id r, hr_trigger r)) (handoff_routes s)"
    using rt_change(1-3) rt_change.prems
    by (intro map_put_row_same) (auto simp: routes_distinct_def route_part_def dest: same_key)
  with rt_change(8) rt_change.prems show ?case by (simp add: routes_distinct_def route_tables_def table_simps)
qed

text \<open>C11: whatever commands run, a source agent has at most one route per trigger, and a route keeps its source
  and trigger; the applied receipts of a route carry its versions once each and lead, each from the setting before
  it, from nothing to its current target and activity.\<close>

theorem route_history:
  assumes "ledger_inv route_ledger (route_tables s)" "routes_distinct s" "handoff_route_op\<^sup>*\<^sup>* s s'"
  shows "routes_distinct s' \<and>
    (\<forall>r\<in>set (handoff_routes s).
      \<exists>r'\<in>set (handoff_routes s'). hr_id r' = hr_id r \<and> hr_source_agent_id r' = hr_source_agent_id r \<and>
        hr_trigger r' = hr_trigger r) \<and>
    (\<forall>r\<in>set (handoff_routes s').
      event_versions route_ledger (route_tables s') (hr_id r) = [0 .. hr_control_version r] \<and>
      event_path route_ledger None (row_events route_ledger (route_tables s') (hr_id r))
        (Some (hr_target_agent_id r, hr_is_active r)))"
proof -
  have "routes_distinct s'"
    using assms(3,2) by (induction rule: rtranclp_induct) (auto dest: route_turn_distinct [OF handoff_route_op_turn])
  moreover have "\<exists>r'\<in>set (handoff_routes s'). hr_id r' = hr_id r \<and> hr_source_agent_id r' = hr_source_agent_id r \<and>
      hr_trigger r' = hr_trigger r" if "r \<in> set (handoff_routes s)" for r
    using handoffs.ops_keep [OF assms(3,1), of r] that by (auto simp: route_tables_def route_part_def)
  moreover have "event_versions route_ledger (route_tables s') (hr_id r) = [0 .. hr_control_version r] \<and>
      event_path route_ledger None (row_events route_ledger (route_tables s') (hr_id r))
        (Some (hr_target_agent_id r, hr_is_active r))" if "r \<in> set (handoff_routes s')" for r
    using handoffs.ops_trail [OF assms(3,1), of r] that by (simp add: route_tables_def route_setting_def)
  ultimately show ?thesis by blast
qed

end
