(* ===== verification/Handoffs.thy ===== *)
theory Handoffs
  imports OpportunityOps AutomationAssignment Consents HandoffRoutes
begin

text \<open>
  \<open>services/commercial/progression_policy.py\<close>: whether a requested quote stays with its agent or is handed
  off. \<open>services/commercial/handoffs.py\<close>: a quote requested in a conversation opens an opportunity and, unless
  the policy keeps the agent, hands the conversation to the target of the active route; both need a
  consent to quote delivery for the contact point. One transaction across the consents, the
  opportunities, the routes and the automation assignments.
\<close>

section \<open>Progression policies\<close>

datatype progression_error = ProgressionNotFound | ProgressionConflict | ProgressionIntegrity

record progression_view =
  vw_agent_id :: uuid
  vw_quote_request_action :: string
  vw_version :: int
  vw_is_configured :: bool

definition progression_of :: "store \<Rightarrow> uuid \<Rightarrow> progression_policy option" where
  "progression_of s agent = find (\<lambda>g. gp_agent_id g = agent) (progression_policies s)"

definition quote_action :: "progression_policy option \<Rightarrow> string" where
  "quote_action g = (case g of None \<Rightarrow> ''handoff'' | Some x \<Rightarrow> gp_quote_request_action x)"

definition get_progression :: "uuid \<Rightarrow> store \<Rightarrow> progression_view" where
  "get_progression agent s =
     (let g = progression_of s agent in
      \<lparr>vw_agent_id = agent, vw_quote_request_action = quote_action g,
       vw_version = (case g of None \<Rightarrow> 0 | Some x \<Rightarrow> gp_version x), vw_is_configured = (g \<noteq> None)\<rparr>)"

definition progression_policy_checks :: "progression_policy \<Rightarrow> bool" where
  "progression_policy_checks g \<longleftrightarrow> gp_quote_request_action g \<in> {''keep_agent'', ''handoff''} \<and> gp_version g \<ge> 1"

definition progression_audit ::
  "uuid \<Rightarrow> uuid \<Rightarrow> uuid \<Rightarrow> uuid \<Rightarrow> string \<Rightarrow> progression_policy \<Rightarrow> audit_log" where
  "progression_audit i request agent admin previous g =
     \<lparr>al_id = i, al_agent_id = Some agent, al_request_id = request, al_phone_number = ''admin'', al_channel = ''admin'',
      al_input_type = ''text'', al_intent = Some ''commercial.progression.configured'', al_status = ''success'',
      al_extra_metadata = JObj [(''actor_admin_id'', uuid_json admin), (''previous_action'', JStr previous),
        (''quote_request_action'', JStr (gp_quote_request_action g)), (''version'', JInt (gp_version g))]\<rparr>"

definition configure_progression ::
  "env \<Rightarrow> uuid \<Rightarrow> uuid \<Rightarrow> string \<Rightarrow> int \<Rightarrow> store \<Rightarrow> progression_error + (store \<times> progression_view)" where
  "configure_progression E agent admin action expected s =
     (if \<not> list_ex (\<lambda>g. ag_id g = agent) (agents s) then Inl ProgressionNotFound
      else
        let old = progression_of s agent;
            version = (case old of None \<Rightarrow> 0 | Some x \<Rightarrow> gp_version x)
        in if expected \<noteq> version then Inl ProgressionConflict
           else
             let g = \<lparr>gp_agent_id = agent, gp_quote_request_action = action, gp_version = version + 1,
                      gp_updated_by_admin_id = Some admin\<rparr>;
                 (request, s1) = fresh E s;
                 (i, s2) = fresh E s1;
                 s3 = s2\<lparr>progression_policies :=
                   (case old of None \<Rightarrow> progression_policies s2 @ [g]
                    | Some _ \<Rightarrow> put_row gp_agent_id g (progression_policies s2))\<rparr>
             in if \<not> progression_policy_checks g \<or> list_ex (\<lambda>x. al_id x = i) (audit_logs s3)
                then Inl ProgressionIntegrity
                else
                  let s4 = s3\<lparr>audit_logs := audit_logs s3 @ [progression_audit i request agent admin (quote_action old) g]\<rparr>
                  in Inr (s4, get_progression agent s4))"

section \<open>The request\<close>

datatype handoff_error =
    HandoffRouteRequired
  | HandoffContactEvidence string
  | HandoffConsentRequired
  | HandoffOpportunity opportunity_error
  | HandoffAssignment assignment_error

record handoff_request =
  hq_source_agent_id :: uuid
  hq_conversation_id :: uuid
  hq_contact_id :: uuid
  hq_contact_point_id :: "uuid option"
  hq_title :: string
  hq_summary :: "string option"
  hq_correlation_id :: string
  hq_idempotency_key :: string
  hq_at :: "datetime option"

definition handoff_text :: "string \<Rightarrow> string \<Rightarrow> nat \<Rightarrow> handoff_error + string" where
  "handoff_text = policy_required_text (\<lambda>m. HandoffOpportunity (OppInvalid m))"

definition handoff_optional :: "string option \<Rightarrow> nat \<Rightarrow> handoff_error + string option" where
  "handoff_optional = policy_optional_text (\<lambda>m. HandoffOpportunity (OppInvalid m))"

text \<open>\<open>_load_existing\<close>: the opportunity of an earlier request under the key, if it means the same.\<close>

definition existing_handoff ::
  "store \<Rightarrow> handoff_request \<Rightarrow> string \<Rightarrow> string option \<Rightarrow> string \<Rightarrow> handoff_error + opportunity option" where
  "existing_handoff s cmd title summary key =
     (case find (\<lambda>p. op_created_by_agent_id p = hq_source_agent_id cmd \<and> op_idempotency_key p = key) (opportunities s) of
        None \<Rightarrow> Inr None
      | Some p \<Rightarrow>
          if op_contact_id p \<noteq> hq_contact_id cmd \<or> op_title p \<noteq> title \<or> op_summary p \<noteq> summary \<or>
             \<not> list_ex (\<lambda>l. ol_opportunity_id l = op_id p \<and> ol_conversation_id l = Some (hq_conversation_id cmd))
                 (conversation_links s)
          then Inl (HandoffOpportunity OppIdempotency) else Inr (Some p))"

definition active_quote_route :: "store \<Rightarrow> uuid \<Rightarrow> handoff_error + handoff_route" where
  "active_quote_route s source =
     (case find (\<lambda>r. hr_source_agent_id r = source \<and> hr_trigger r = QuoteRequested \<and> hr_is_active r) (handoff_routes s) of
        None \<Rightarrow> Inl HandoffRouteRequired | Some r \<Rightarrow> Inr r)"

definition validate_contact_evidence ::
  "uuid \<Rightarrow> conversation option \<Rightarrow> contact option \<Rightarrow> contact_point option \<Rightarrow> handoff_error + conversation \<times> uuid" where
  "validate_contact_evidence source conv contact point =
     (case (conv, contact, point) of
        (Some c, Some x, Some y) \<Rightarrow>
          if cv_agent_id c \<noteq> source \<or> cv_principal_id c \<noteq> ct_principal_id x \<or> cp_contact_id y \<noteq> ct_id x \<or>
             cp_verification_status y = ''revoked''
          then Inl (HandoffContactEvidence ''quote handoff contact evidence is inconsistent'')
          else Inr (c, ct_principal_id x)
      | _ \<Rightarrow> Inl (HandoffContactEvidence ''quote handoff contact evidence was not found''))"

definition handoff_utc :: "datetime \<Rightarrow> handoff_error + instant" where
  "handoff_utc d =
     (case to_utc d of
        None \<Rightarrow> Inl (HandoffContactEvidence ''quote handoff timestamp must include a timezone'') | Some t \<Rightarrow> Inr t)"

definition quote_consent_query :: "handoff_request \<Rightarrow> uuid \<Rightarrow> uuid \<Rightarrow> instant \<Rightarrow> consent_query" where
  "quote_consent_query cmd person point at =
     \<lparr>cq_agent_id = hq_source_agent_id cmd, cq_principal_id = person, cq_purpose = purpose_value QuoteDelivery,
      cq_contact_point_id = Some point, cq_source_conversation_id = None, cq_target_channel = None, cq_at = Some (Aware at 0)\<rparr>"

definition require_quote_consent ::
  "env \<Rightarrow> handoff_request \<Rightarrow> uuid \<Rightarrow> uuid \<Rightarrow> instant \<Rightarrow> store \<Rightarrow> handoff_error + unit" where
  "require_quote_consent E cmd person point at s =
     (case effective_consent E (quote_consent_query cmd person point at) s of
        Inl _ \<Rightarrow> Inl (HandoffContactEvidence ''quote consent evidence does not match the contact'')
      | Inr (granted, record_opt) \<Rightarrow>
          (case record_opt of
             None \<Rightarrow> Inl HandoffConsentRequired
           | Some r \<Rightarrow>
               if \<not> granted then Inl HandoffConsentRequired
               else if cr_contact_id r \<noteq> Some (hq_contact_id cmd)
               then Inl (HandoffContactEvidence ''quote consent does not belong to the requested contact'')
               else Inr ()))"

definition handoff_create :: "handoff_request \<Rightarrow> uuid \<Rightarrow> string \<Rightarrow> string option \<Rightarrow> string \<Rightarrow> string \<Rightarrow> create_command" where
  "handoff_create cmd assigned title summary correlation key =
     \<lparr>co_contact_id = hq_contact_id cmd, co_source_conversation_id = hq_conversation_id cmd,
      co_created_by_agent_id = hq_source_agent_id cmd, co_assigned_agent_id = assigned, co_assigned_operator_id = None,
      co_title = title, co_summary = summary, co_correlation_id = correlation, co_idempotency_key = key\<rparr>"

definition handoff_assignment_key :: "env \<Rightarrow> uuid \<Rightarrow> string \<Rightarrow> string" where
  "handoff_assignment_key E cid key =
     ''quote-requested:'' @ uuid_str (uuid5 E cid (''quote-requested:'' @ key))"

definition handoff_assign ::
  "env \<Rightarrow> handoff_request \<Rightarrow> opportunity \<Rightarrow> int \<Rightarrow> string \<Rightarrow> string \<Rightarrow> assign_command" where
  "handoff_assign E cmd p expected correlation key =
     \<lparr>ac_conversation_id = hq_conversation_id cmd, ac_routing_agent_id = hq_source_agent_id cmd,
      ac_target_agent_id = op_assigned_agent_id p, ac_expected_version = expected,
      ac_actor_agent_id = Some (hq_source_agent_id cmd), ac_actor_admin_id = None,
      ac_trigger = handoff_trigger_value QuoteRequested, ac_opportunity_id = Some (op_id p),
      ac_correlation_id = correlation, ac_idempotency_key = handoff_assignment_key E (hq_conversation_id cmd) key,
      ac_reason = Some ''quote requested commercial handoff'', ac_occurred_at = None\<rparr>"

text \<open>The route of a hand-off, none when the policy keeps the agent.\<close>

definition keeps_agent :: "store \<Rightarrow> uuid \<Rightarrow> bool" where
  "keeps_agent s source \<longleftrightarrow> quote_action (progression_of s source) = ''keep_agent''"

definition handoff_conversation :: "store \<Rightarrow> handoff_request \<Rightarrow> handoff_error + conversation option" where
  "handoff_conversation s cmd =
     (case get_conversation s (hq_conversation_id cmd) of
        None \<Rightarrow> Inr None
      | Some c \<Rightarrow>
          if keeps_agent s (hq_source_agent_id cmd) \<and> (cv_status c \<noteq> ''active'' \<or> cv_control_mode c = Closed)
          then Inl (HandoffContactEvidence ''conversation is closed'') else Inr (Some c))"

definition open_handoff ::
  "env \<Rightarrow> handoff_request \<Rightarrow> string \<Rightarrow> string option \<Rightarrow> string \<Rightarrow> string \<Rightarrow> uuid \<Rightarrow> store \<Rightarrow>
     handoff_error + (store \<times> opportunity \<times> bool)" where
  "open_handoff E cmd title summary correlation key point s =
     bindE (if keeps_agent s (hq_source_agent_id cmd) then Inr None
            else bindE (active_quote_route s (hq_source_agent_id cmd)) (\<lambda>r. Inr (Some r))) (\<lambda>route.
     bindE (handoff_conversation s cmd) (\<lambda>conv.
     bindE (validate_contact_evidence (hq_source_agent_id cmd) conv
              (find (\<lambda>c. ct_id c = hq_contact_id cmd) (contacts s))
              (find (\<lambda>p. cp_id p = point) (contact_points s))) (\<lambda>(c, person).
     bindE (handoff_utc (case hq_at cmd of Some d \<Rightarrow> d | None \<Rightarrow> Aware (clock E) 0)) (\<lambda>at.
     bindE (require_quote_consent E cmd person point at s) (\<lambda>_.
     let assigned = (case route of None \<Rightarrow> cv_automation_agent_id c | Some r \<Rightarrow> hr_target_agent_id r) in
     bindE (mapErr HandoffOpportunity
              (create_opportunity E (handoff_create cmd assigned title summary correlation key) s)) (\<lambda>(s1, p, created).
     case route of
       None \<Rightarrow> Inr (s1, p, created)
     | Some _ \<Rightarrow>
         bindE (mapErr HandoffAssignment
                  (assign E s1 (handoff_assign E cmd p (cv_automation_version c) correlation key))) (\<lambda>(s2, _, _).
           Inr (s2, p, created))))))))"

definition quote_requested :: "env \<Rightarrow> handoff_request \<Rightarrow> store \<Rightarrow> handoff_error + (store \<times> opportunity \<times> bool)" where
  "quote_requested E cmd s =
     bindE (handoff_text (hq_title cmd) ''title'' 200) (\<lambda>title.
     bindE (handoff_optional (hq_summary cmd) 8000) (\<lambda>summary.
     bindE (handoff_text (hq_correlation_id cmd) ''correlation_id'' 120) (\<lambda>correlation.
     bindE (handoff_text (hq_idempotency_key cmd) ''idempotency_key'' 220) (\<lambda>key.
     bindE (existing_handoff s cmd title summary key) (\<lambda>existing.
     case existing of
       Some p \<Rightarrow> Inr (s, p, False)
     | None \<Rightarrow>
         (case hq_contact_point_id cmd of
            None \<Rightarrow> Inl (HandoffContactEvidence ''quote handoff requires an explicit contact point'')
          | Some point \<Rightarrow> open_handoff E cmd title summary correlation key point s))))))"

end
