(* ===== verification/HandoffPromises.thy ===== *)
theory HandoffPromises
  imports Handoffs ConsentPromises HandoffRoutes ConsentWitnesses
begin

text \<open>
  What a hand-off promises across the services it composes, and that a request is idempotent.
\<close>

lemma handoff_text_Inr [simp]: "handoff_text v name n = Inr t \<longleftrightarrow> t = strip v \<and> t \<noteq> [] \<and> length t \<le> n"
  by (simp add: handoff_text_def)

lemma existing_handoff_None: "existing_handoff s cmd title summary key = Inr None \<longleftrightarrow>
    create_receipt s (hq_source_agent_id cmd) key = None"
  by (auto simp: existing_handoff_def create_receipt_def split: option.splits)

lemma active_quote_routeD: "active_quote_route s source = Inr r \<Longrightarrow>
    r \<in> set (handoff_routes s) \<and> hr_source_agent_id r = source \<and> hr_trigger r = QuoteRequested \<and> hr_is_active r"
  by (auto simp: active_quote_route_def split: option.splits dest: find_SomeD)

lemma validate_evidenceD:
  assumes "validate_contact_evidence source conv contact point = Inr (c, person)"
  shows "conv = Some c \<and> cv_agent_id c = source \<and> person = cv_principal_id c"
  using assms by (auto simp: validate_contact_evidence_def split: option.splits if_splits)

lemma handoff_conversationD: "handoff_conversation s cmd = Inr (Some c) \<Longrightarrow> get_conversation s (hq_conversation_id cmd) = Some c"
  by (auto simp: handoff_conversation_def split: option.splits if_splits)

text \<open>The newest record for the contact point is a grant to this agent.\<close>

definition quote_consented :: "store \<Rightarrow> handoff_request \<Rightarrow> conversation \<Rightarrow> uuid \<Rightarrow> bool" where
  "quote_consented s cmd c point \<longleftrightarrow> (\<exists>r\<in>set (consent_records s). cr_action r = Grant \<and> cr_purpose r = QuoteDelivery \<and>
     cr_agent_id r = hq_source_agent_id cmd \<and> cr_principal_id r = cv_principal_id c \<and> cr_contact_point_id r = Some point \<and>
     cr_contact_id r = Some (hq_contact_id cmd) \<and>
     (\<forall>x\<in>set (consent_records s). cr_purpose x = QuoteDelivery \<and> cr_agent_id x = cr_agent_id r \<and>
        cr_principal_id x = cr_principal_id r \<and> cr_contact_point_id x = Some point \<longrightarrow>
        consent_order x \<le> consent_order r))"

lemma quote_consentD:
  assumes "require_quote_consent E cmd (cv_principal_id c) point at s = Inr ()"
  shows "quote_consented s cmd c point"
proof -
  let ?q = "quote_consent_query cmd (cv_principal_id c) point at"
  from assms obtain r where r: "effective_consent E ?q s = Inr (True, Some r)" "cr_contact_id r = Some (hq_contact_id cmd)"
    by (auto simp: require_quote_consent_def split: sum.splits option.splits if_splits)
  have q: "cq_agent_id ?q = hq_source_agent_id cmd" "cq_principal_id ?q = cv_principal_id c"
    "cq_purpose ?q = purpose_value QuoteDelivery" "cq_contact_point_id ?q = Some point"
    "cq_source_conversation_id ?q = None" "cq_target_channel ?q = None"
    by (simp_all add: quote_consent_query_def)
  have channel: "optional_channel None ''target_channel'' = Inr None" by (simp add: optional_channel_def)
  have covers: "query_covers ?q x \<longleftrightarrow> cr_agent_id x = hq_source_agent_id cmd \<and> cr_principal_id x = cv_principal_id c \<and>
      cr_purpose x = QuoteDelivery \<and> cr_contact_point_id x = Some point" for x
    by (cases "cr_purpose x") (auto simp: query_covers_def consent_filter_def q channel target_scope_def)
  from effective_granted [OF r(1)] r(2) show ?thesis
    by (auto simp: covers quote_consented_def)
qed

lemma open_handoff_cases:
  assumes "open_handoff E cmd title summary correlation key point s = Inr (s', p, b)"
  obtains (kept) c where "keeps_agent s (hq_source_agent_id cmd)" "get_conversation s (hq_conversation_id cmd) = Some c"
      "cv_status c = ''active''" "cv_control_mode c \<noteq> Closed" "quote_consented s cmd c point"
      "create_opportunity E (handoff_create cmd (cv_automation_agent_id c) title summary correlation key) s = Inr (s', p, b)"
  | (handed) c route s1 e d where "\<not> keeps_agent s (hq_source_agent_id cmd)"
      "get_conversation s (hq_conversation_id cmd) = Some c" "active_quote_route s (hq_source_agent_id cmd) = Inr route"
      "quote_consented s cmd c point"
      "create_opportunity E (handoff_create cmd (hr_target_agent_id route) title summary correlation key) s = Inr (s1, p, b)"
      "assign E s1 (handoff_assign E cmd p (cv_automation_version c) correlation key) = Inr (s', e, d)"
proof (cases "keeps_agent s (hq_source_agent_id cmd)")
  case True
  from assms True obtain conv c person at where conv: "handoff_conversation s cmd = Inr conv"
    "validate_contact_evidence (hq_source_agent_id cmd) conv (find (\<lambda>c. ct_id c = hq_contact_id cmd) (contacts s))
       (find (\<lambda>p. cp_id p = point) (contact_points s)) = Inr (c, person)"
    "require_quote_consent E cmd person point at s = Inr ()"
    "create_opportunity E (handoff_create cmd (cv_automation_agent_id c) title summary correlation key) s = Inr (s', p, b)"
    by (auto simp: open_handoff_def bindE_eq_Inr Let_def)
  from validate_evidenceD [OF conv(2)] conv(1,3) have c: "handoff_conversation s cmd = Inr (Some c)"
    "require_quote_consent E cmd (cv_principal_id c) point at s = Inr ()" by simp_all
  have "cv_status c = ''active'' \<and> cv_control_mode c \<noteq> Closed"
    using c(1) True by (auto simp: handoff_conversation_def split: option.splits if_splits)
  with kept [OF True handoff_conversationD [OF c(1)] _ _ quote_consentD [OF c(2)] conv(4)] show thesis by blast
next
  case False
  from assms False obtain route conv c person at s1 e d where conv: "active_quote_route s (hq_source_agent_id cmd) = Inr route"
    "handoff_conversation s cmd = Inr conv"
    "validate_contact_evidence (hq_source_agent_id cmd) conv (find (\<lambda>c. ct_id c = hq_contact_id cmd) (contacts s))
       (find (\<lambda>p. cp_id p = point) (contact_points s)) = Inr (c, person)"
    "require_quote_consent E cmd person point at s = Inr ()"
    "create_opportunity E (handoff_create cmd (hr_target_agent_id route) title summary correlation key) s = Inr (s1, p, b)"
    "assign E s1 (handoff_assign E cmd p (cv_automation_version c) correlation key) = Inr (s', e, d)"
    by (auto simp: open_handoff_def bindE_eq_Inr Let_def)
  from validate_evidenceD [OF conv(3)] conv(2,4) have c: "handoff_conversation s cmd = Inr (Some c)"
    "require_quote_consent E cmd (cv_principal_id c) point at s = Inr ()" by simp_all
  show thesis by (rule handed [OF False handoff_conversationD [OF c(1)] conv(1) quote_consentD [OF c(2)] conv(5,6)])
qed


lemma quote_requested_cases:
  assumes "quote_requested E cmd s = Inr (s', p, b)"
  obtains (replay) t where "\<not> b" "s' = s" "create_receipt s (hq_source_agent_id cmd) (strip (hq_idempotency_key cmd)) = Some p"
      "existing_handoff s cmd (strip (hq_title cmd)) t (strip (hq_idempotency_key cmd)) = Inr (Some p)"
      "handoff_optional (hq_summary cmd) 8000 = Inr t"
  | (first) t point where "create_receipt s (hq_source_agent_id cmd) (strip (hq_idempotency_key cmd)) = None"
      "hq_contact_point_id cmd = Some point" "handoff_optional (hq_summary cmd) 8000 = Inr t"
      "open_handoff E cmd (strip (hq_title cmd)) t (strip (hq_correlation_id cmd)) (strip (hq_idempotency_key cmd)) point s =
         Inr (s', p, b)"
proof -
  let ?title = "strip (hq_title cmd)" and ?key = "strip (hq_idempotency_key cmd)"
  from assms obtain t x where t: "handoff_optional (hq_summary cmd) 8000 = Inr t"
    "existing_handoff s cmd ?title t ?key = Inr x"
    by (auto simp: quote_requested_def bindE_eq_Inr)
  show thesis
  proof (cases x)
    case None
    with assms t obtain point where "hq_contact_point_id cmd = Some point"
      "open_handoff E cmd ?title t (strip (hq_correlation_id cmd)) ?key point s = Inr (s', p, b)"
      by (auto simp: quote_requested_def bindE_eq_Inr split: option.splits)
    with t None show thesis by (intro first) (simp_all add: existing_handoff_None)
  next
    case (Some y)
    with assms t have "\<not> b" "s' = s" "p = y" by (auto simp: quote_requested_def bindE_eq_Inr)
    moreover have "create_receipt s (hq_source_agent_id cmd) ?key = Some y"
      using t(2) Some by (auto simp: existing_handoff_def create_receipt_def split: option.splits if_splits)
    ultimately show thesis using t Some by (intro replay) simp_all
  qed
qed

lemma bindE_InrE: "bindE r k = Inr y \<Longrightarrow> (\<And>x. r = Inr x \<Longrightarrow> k x = Inr y \<Longrightarrow> P) \<Longrightarrow> P"
  by (auto simp: bindE_eq_Inr)

lemma prepare_createD:
  assumes "prepare_create E s cmd = Inr pr"
  shows "pc_key pr = strip (co_idempotency_key cmd)" "pc_title pr = strip (co_title cmd)"
    "opp_optional_text (co_summary cmd) 8000 = Inr (pc_summary pr)" "ct_id (pc_contact pr) = co_contact_id cmd"
    "cv_id (pc_conversation pr) = co_source_conversation_id cmd"
proof -
  have all: "pc_key pr = strip (co_idempotency_key cmd) \<and> pc_title pr = strip (co_title cmd) \<and>
    opp_optional_text (co_summary cmd) 8000 = Inr (pc_summary pr) \<and> load_contact s (co_contact_id cmd) = Inr (pc_contact pr) \<and>
    get_conversation s (co_source_conversation_id cmd) = Some (pc_conversation pr)"
  proof (cases "get_conversation s (co_source_conversation_id cmd)")
    case None
    with assms show ?thesis by (simp add: prepare_create_def bindE_eq_Inr)
  next
    case (Some c)
    show ?thesis
      using assms unfolding prepare_create_def Some option.case
      by (elim bindE_InrE) (auto simp: opp_required_text_def split: if_splits)
  qed
  have "load_contact s i = Inr c \<Longrightarrow> ct_id c = i" for i c
    by (auto simp: load_contact_def split: option.splits if_splits dest: find_SomeD)
  with all show "pc_key pr = strip (co_idempotency_key cmd)" "pc_title pr = strip (co_title cmd)"
    "opp_optional_text (co_summary cmd) 8000 = Inr (pc_summary pr)" "ct_id (pc_contact pr) = co_contact_id cmd"
    "cv_id (pc_conversation pr) = co_source_conversation_id cmd"
    using get_conversationD by blast+
qed

lemma handoff_creates:
  assumes "create_opportunity E (handoff_create cmd assigned title summary correlation key) s = Inr (s', p, b)"
    "create_receipt s (hq_source_agent_id cmd) (strip key) = None"
  shows "b" "op_stage p = StNew" "op_assigned_agent_id p = assigned" "op_contact_id p = hq_contact_id cmd"
    "op_created_by_agent_id p = hq_source_agent_id cmd" "op_idempotency_key p = strip key" "op_title p = strip title"
    "opp_optional_text summary 8000 = Inr (op_summary p)" "opportunities s' = opportunities s @ [p]"
    "conversations s' = conversations s" "assignment_events s' = assignment_events s"
    "\<exists>l. conversation_links s' = conversation_links s @ [l] \<and> ol_opportunity_id l = op_id p \<and>
       ol_conversation_id l = Some (hq_conversation_id cmd)"
    "dossier_step (dossiers s) (dossiers s')"
proof -
  let ?c = "handoff_create cmd assigned title summary correlation key"
  have fields: "co_created_by_agent_id ?c = hq_source_agent_id cmd" "co_assigned_agent_id ?c = assigned"
    "co_contact_id ?c = hq_contact_id cmd" "co_source_conversation_id ?c = hq_conversation_id cmd" "co_title ?c = title"
    "co_summary ?c = summary" "co_idempotency_key ?c = key"
    by (simp_all add: handoff_create_def)
  have "b \<and>
    op_stage p = StNew \<and>
    op_assigned_agent_id p = assigned \<and>
    op_contact_id p = hq_contact_id cmd \<and>
    op_created_by_agent_id p = hq_source_agent_id cmd \<and>
    op_idempotency_key p = strip key \<and>
    op_title p = strip title \<and>
    opp_optional_text summary 8000 = Inr (op_summary p) \<and>
    opportunities s' = opportunities s @ [p] \<and>
    conversations s' = conversations s \<and>
    assignment_events s' = assignment_events s \<and>
    (\<exists>l. conversation_links s' = conversation_links s @ [l] \<and> ol_opportunity_id l = op_id p \<and> ol_conversation_id l = Some (hq_conversation_id cmd)) \<and>
    dossier_step (dossiers s) (dossiers s')"
    using assms(1)
  proof (cases rule: create_cases)
    case (replay pr)
    then have "create_receipt s (hq_source_agent_id cmd) (strip key) = Some p"
      using prepare_createD(1) [OF replay(1)] by (simp add: fields)
    with assms(2) have False by simp
    then show ?thesis ..
  next
    case (first pr)
    have pr: "pc_key pr = strip key" "pc_title pr = strip title" "opp_optional_text summary 8000 = Inr (pc_summary pr)"
      "ct_id (pc_contact pr) = hq_contact_id cmd" "cv_id (pc_conversation pr) = hq_conversation_id cmd"
      using prepare_createD [OF first(1)] by (simp_all add: fields)
    have p: "op_stage p = StNew" "op_assigned_agent_id p = assigned" "op_contact_id p = hq_contact_id cmd"
      "op_created_by_agent_id p = hq_source_agent_id cmd" "op_idempotency_key p = strip key" "op_title p = strip title"
      "op_summary p = pc_summary pr"
      by (simp_all add: first(3) created_opportunity_def fields pr)
    have "dossiers s' \<noteq> dossiers s" by (simp add: first(7) dossiers_def)
    moreover have "opportunity_op s s'" using assms(1) by (rule op_created)
    ultimately have "dossier_step (dossiers s) (dossiers s')" using opportunity_op_step by fastforce
    with first(2) p pr show ?thesis by (simp add: first(7)) (simp add: new_conversation_link_def pr)
  qed
  then show "b" "op_stage p = StNew" "op_assigned_agent_id p = assigned" "op_contact_id p = hq_contact_id cmd"
    "op_created_by_agent_id p = hq_source_agent_id cmd" "op_idempotency_key p = strip key" "op_title p = strip title"
    "opp_optional_text summary 8000 = Inr (op_summary p)" "opportunities s' = opportunities s @ [p]"
    "conversations s' = conversations s" "assignment_events s' = assignment_events s"
    "\<exists>l. conversation_links s' = conversation_links s @ [l] \<and> ol_opportunity_id l = op_id p \<and>
       ol_conversation_id l = Some (hq_conversation_id cmd)"
    "dossier_step (dossiers s) (dossiers s')"
    by simp_all
qed


lemma optional_normal: "policy_optional_text f v n = Inr t \<Longrightarrow> policy_optional_text g t n = Inr u \<Longrightarrow> u = t"
  by (auto simp: policy_optional_text_def Let_def split: option.splits if_splits)

lemma assign_keeps_dossiers: "assign E s cmd = Inr (s', e, d) \<Longrightarrow>
    opportunities s' = opportunities s \<and> conversation_links s' = conversation_links s"
  by (erule assign_cases) simp_all

lemma open_handoff_links:
  assumes "open_handoff E cmd title summary correlation key point s = Inr (s', p, b)"
    "create_receipt s (hq_source_agent_id cmd) (strip key) = None"
  shows "opportunities s' = opportunities s @ [p] \<and> op_contact_id p = hq_contact_id cmd \<and>
    op_created_by_agent_id p = hq_source_agent_id cmd \<and> op_idempotency_key p = strip key \<and> op_title p = strip title \<and>
    opp_optional_text summary 8000 = Inr (op_summary p) \<and>
    (\<exists>l\<in>set (conversation_links s'). ol_opportunity_id l = op_id p \<and> ol_conversation_id l = Some (hq_conversation_id cmd))"
  using assms(1)
proof (cases rule: open_handoff_cases [case_names kept handed])
  case (kept c)
  from handoff_creates [OF kept(6) assms(2)] show ?thesis by auto
next
  case (handed c route s1 e d)
  from handoff_creates [OF handed(5) assms(2)] assign_keeps_dossiers [OF handed(6)] show ?thesis by auto
qed

text \<open>A repeated request finds the opportunity of the first and changes nothing.\<close>

theorem quote_request_retry:
  assumes "quote_requested E cmd s = Inr (s', p, b)"
  shows "quote_requested E' cmd s' = Inr (s', p, False)"
proof -
  let ?title = "strip (hq_title cmd)" and ?key = "strip (hq_idempotency_key cmd)"
  have texts: "handoff_text (hq_title cmd) ''title'' 200 = Inr ?title"
    "handoff_text (hq_correlation_id cmd) ''correlation_id'' 120 = Inr (strip (hq_correlation_id cmd))"
    "handoff_text (hq_idempotency_key cmd) ''idempotency_key'' 220 = Inr ?key"
    using assms by (auto simp: quote_requested_def bindE_eq_Inr)
  obtain t where t: "handoff_optional (hq_summary cmd) 8000 = Inr t" "existing_handoff s' cmd ?title t ?key = Inr (Some p)"
    using assms
  proof (cases rule: quote_requested_cases [case_names replay first])
    case (replay t)
    then show thesis by (intro that) simp_all
  next
    case (first t point)
    have "strip ?key = ?key" "strip ?title = ?title" by simp_all
    with open_handoff_links [OF first(4)] first(1) have new: "opportunities s' = opportunities s @ [p]"
      "op_contact_id p = hq_contact_id cmd" "op_created_by_agent_id p = hq_source_agent_id cmd" "op_idempotency_key p = ?key"
      "op_title p = ?title" "opp_optional_text t 8000 = Inr (op_summary p)"
      "list_ex (\<lambda>l. ol_opportunity_id l = op_id p \<and> ol_conversation_id l = Some (hq_conversation_id cmd)) (conversation_links s')"
      by (auto simp: list_ex_iff)
    have "op_summary p = t"
      using optional_normal first(3) new(6) unfolding handoff_optional_def opp_optional_text_def by blast
    with first(1) new have "existing_handoff s' cmd ?title t ?key = Inr (Some p)"
      by (simp add: existing_handoff_def create_receipt_def find_append)
    with first(3) show thesis by (rule that)
  qed
  then show ?thesis by (simp add: quote_requested_def texts)
qed

text \<open>C7: a first quote request opens one opportunity in the contact's name, only under a consent to quote
  delivery that is the newest record for the contact point; where the policy keeps the agent no conversation
  changes, otherwise the opportunity and the automation of the conversation both go to the target of the
  active route, in a new automation epoch when the agent changes, and who controls the conversation stays.\<close>

theorem quote_handoff_effect:
  assumes "conversations_ok s" "quote_requested E cmd s = Inr (s', p, b)" "s' \<noteq> s"
    "assignment_receipt s (hq_conversation_id cmd)
       (strip (handoff_assignment_key E (hq_conversation_id cmd) (strip (hq_idempotency_key cmd)))) = None"
  shows "\<exists>c point. get_conversation s (hq_conversation_id cmd) = Some c \<and> hq_contact_point_id cmd = Some point \<and>
    quote_consented s cmd c point \<and> b \<and> opportunities s' = opportunities s @ [p] \<and> op_stage p = StNew \<and>
    op_contact_id p = hq_contact_id cmd \<and> op_created_by_agent_id p = hq_source_agent_id cmd \<and>
    dossier_step (dossiers s) (dossiers s') \<and>
    (if keeps_agent s (hq_source_agent_id cmd)
     then op_assigned_agent_id p = cv_automation_agent_id c \<and> conversations s' = conversations s
     else \<exists>route\<in>set (handoff_routes s). \<exists>c'. hr_source_agent_id route = hq_source_agent_id cmd \<and>
       hr_trigger route = QuoteRequested \<and> hr_is_active route \<and> op_assigned_agent_id p = hr_target_agent_id route \<and>
       get_conversation s' (hq_conversation_id cmd) = Some c' \<and> cv_automation_agent_id c' = hr_target_agent_id route \<and>
       cv_automation_version c' = cv_automation_version c +
         (if cv_automation_agent_id c = hr_target_agent_id route then 0 else 1) \<and>
       cv_control_version c' = cv_control_version c \<and> cv_control_mode c' = cv_control_mode c)"
  using assms(2)
proof (cases rule: quote_requested_cases)
  case (replay t)
  with assms(3) show ?thesis by simp
next
  case (first t point)
  have key: "strip (strip (hq_idempotency_key cmd)) = strip (hq_idempotency_key cmd)" by simp
  note point = first(2)
  show ?thesis
  proof (cases rule: open_handoff_cases [OF first(4), case_names kept handed])
    case (kept c)
    note new = handoff_creates [OF kept(6), unfolded key, OF first(1)]
    from kept new first(2) show ?thesis by (intro exI [of _ c] exI [of _ point]) simp
  next
    case (handed c route s1 e d)
    note new = handoff_creates [OF handed(5), unfolded key, OF first(1)]
    let ?a = "handoff_assign E cmd p (cv_automation_version c) (strip (hq_correlation_id cmd)) (strip (hq_idempotency_key cmd))"
    have a: "ac_conversation_id ?a = hq_conversation_id cmd" "ac_target_agent_id ?a = hr_target_agent_id route"
      "ac_idempotency_key ?a = handoff_assignment_key E (hq_conversation_id cmd) (strip (hq_idempotency_key cmd))"
      "ac_routing_agent_id ?a = hq_source_agent_id cmd"
      using new(3) by (simp_all add: handoff_assign_def)
    have ok: "conversations_ok s1" using assms(1) new(10) by (simp add: conversations_ok_def)
    show ?thesis
      using handed(6)
    proof (cases rule: assign_cases)
      case (replay n)
      with assms(4) new(11) prepare_assign_Inr [OF replay(1)] have False by (simp add: a assignment_receipt_def)
      then show ?thesis ..
    next
      case (first n c1)
      have get: "get_conversation s1 k = get_conversation s k" for k using new(10) by (simp add: get_conversation_def)
      have c1: "c1 = c"
        using first(4) handed(2) by (auto simp: a scoped_get [OF ok] get split: if_splits)
      have d: "\<not> d" by (rule first(2))
      with handed(6) have "assign E s1 ?a = Inr (s', e, False)" by simp
      from assign_conversations [OF this ok] first(4) c1
      have conv: "get_conversation s' (hq_conversation_id cmd) = Some (assigned_row c (hr_target_agent_id route))"
        by (simp add: a)
      have same: "opportunities s' = opportunities s1" "dossiers s' = dossiers s1" by (simp_all add: first(13) dossiers_def)
      have row: "cv_automation_version (assigned_row c (hr_target_agent_id route)) = cv_automation_version c +
          (if cv_automation_agent_id c = hr_target_agent_id route then 0 else 1)"
        by (simp add: assigned_row_def)
      have r: "\<exists>route'\<in>set (handoff_routes s). \<exists>c'. hr_source_agent_id route' = hq_source_agent_id cmd \<and>
         hr_trigger route' = QuoteRequested \<and> hr_is_active route' \<and> op_assigned_agent_id p = hr_target_agent_id route' \<and>
         get_conversation s' (hq_conversation_id cmd) = Some c' \<and> cv_automation_agent_id c' = hr_target_agent_id route' \<and>
         cv_automation_version c' = cv_automation_version c +
           (if cv_automation_agent_id c = hr_target_agent_id route' then 0 else 1) \<and>
         cv_control_version c' = cv_control_version c \<and> cv_control_mode c' = cv_control_mode c"
        using active_quote_routeD [OF handed(3)] new(3) conv row by (intro bexI [of _ route]) auto
      have all: "get_conversation s (hq_conversation_id cmd) = Some c \<and> hq_contact_point_id cmd = Some point \<and>
        quote_consented s cmd c point \<and> b \<and> opportunities s' = opportunities s @ [p] \<and> op_stage p = StNew \<and>
        op_contact_id p = hq_contact_id cmd \<and> op_created_by_agent_id p = hq_source_agent_id cmd \<and>
        dossier_step (dossiers s) (dossiers s')"
        using handed(2,4) point new(1,2,4,5,9,13) same by simp
      show ?thesis by (rule exI [of _ c], rule exI [of _ point]) (use all r handed(1) in simp)
    qed
  qed
qed

text \<open>A concrete hand-off: an administrator routes requested quotes to another agent, and a quote requested
  under a consent opens an opportunity there and moves the automation of the conversation.\<close>

section \<open>The route\<close>

definition quote_route_command :: route_command where
  "quote_route_command = \<lparr>rk_source_agent_id = UUID 2, rk_target_agent_id = UUID 6, rk_trigger = ''quote_requested'',
     rk_is_active = True, rk_actor_admin_id = UUID 9, rk_idempotency_key = ''r1''\<rparr>"

definition quote_route :: handoff_route where
  "quote_route = \<lparr>hr_id = UUID 7, hr_source_agent_id = UUID 2, hr_target_agent_id = UUID 6, hr_trigger = QuoteRequested,
      hr_is_active = True, hr_control_version = 0, hr_created_by_admin_id = UUID 9, hr_updated_by_admin_id = UUID 9\<rparr>"

lemma quote_route_created: "\<exists>s'. create_route sample_env quote_route_command crm_store = Inr (s', quote_route, True) \<and>
    handoff_routes s' = [quote_route]"
  by (simp add: create_route_def quote_route_command_def route_key_text_def strip_def is_space_def route_trigger_def
      receipt_by_key_def crm_store_def sample_store_def empty_store_def validate_agents_def insert_route_def
      created_route_def sample_env_def Let_def handoff_route_checks_def add_receipt_def fresh_def
      handoff_receipt_checks_def new_route_receipt_def route_command_hash_def command_digest_def quote_route_def btrim_def)

theorem route_history_witness:
  "\<exists>s'. create_route sample_env quote_route_command crm_store = Inr (s', quote_route, True) \<and> routes_distinct s' \<and>
     event_versions route_ledger (route_tables s') (UUID 7) = [0 .. 0] \<and>
     event_path route_ledger None (row_events route_ledger (route_tables s') (UUID 7)) (Some (UUID 6, True))"
proof -
  from quote_route_created obtain s' where s': "create_route sample_env quote_route_command crm_store = Inr (s', quote_route, True)"
    "handoff_routes s' = [quote_route]" by blast
  have none: "route_tables crm_store = ([], [])" "handoff_routes crm_store = []"
    by (simp_all add: route_tables_def crm_store_def sample_store_def empty_store_def)
  have op: "handoff_route_op crm_store s'" using s'(1) by (rule ro_create)
  have "ledger_inv route_ledger (route_tables crm_store)" "routes_distinct crm_store"
    by (simp_all add: none ledger_inv_empty routes_distinct_def)
  from route_history [OF this r_into_rtranclp [of handoff_route_op, OF op]] s' show ?thesis
    by (intro exI [of _ s']) (simp add: quote_route_def)
qed

section \<open>The hand-off\<close>

definition quote_grant :: consent_record where
  "quote_grant = (consent_row Grant ''k'' 10)\<lparr>cr_purpose := QuoteDelivery, cr_target_channel := None\<rparr>"

definition handoff_store :: store where
  "handoff_store = (consent_store [quote_grant])\<lparr>handoff_routes := [quote_route]\<rparr>"

definition quote_ask :: handoff_request where
  "quote_ask = \<lparr>hq_source_agent_id = UUID 2, hq_conversation_id = UUID 1, hq_contact_id = UUID 60,
     hq_contact_point_id = Some (UUID 61), hq_title = ''Quote'', hq_summary = None, hq_correlation_id = ''c1'',
     hq_idempotency_key = ''k1'', hq_at = Some (Aware 45 0)\<rparr>"

lemma handoff_tables:
  "opportunities handoff_store = []" "handoff_routes handoff_store = [quote_route]" "progression_policies handoff_store = []"
  "get_conversation handoff_store (UUID 1) = Some sample_conversation"
  "find (\<lambda>c. ct_id c = UUID 60) (contacts handoff_store) = Some crm_contact"
  "find (\<lambda>p. cp_id p = UUID 61) (contact_points handoff_store) = Some crm_point"
  "consent_records handoff_store = [quote_grant]"
  by (simp_all add: handoff_store_def consent_store_def crm_store_def sample_store_def empty_store_def get_conversation_def
      sample_conversation_def crm_contact_def crm_point_def)

lemma quote_guards:
  "quote_action (progression_of handoff_store k) = ''handoff''"
  "active_quote_route handoff_store (UUID 2) = Inr quote_route"
  "validate_contact_evidence (UUID 2) (Some sample_conversation) (Some crm_contact) (Some crm_point) =
     Inr (sample_conversation, UUID 3)"
  by (simp_all add: quote_action_def progression_of_def handoff_tables active_quote_route_def quote_route_def
      validate_contact_evidence_def sample_conversation_def crm_contact_def crm_point_def)

lemma quote_evidence:
  "point_of_principal handoff_store (UUID 61) (UUID 3) = Inr ()"
  "assert_agent_principal_scope handoff_store (UUID 2) (UUID 3) = Inr ()"
  using crm_evidence(4,5) [of "[]"]
  by (simp_all add: point_of_principal_def assert_agent_principal_scope_def handoff_store_def consent_store_def)

lemma quote_consent: "require_quote_consent sample_env quote_ask (UUID 3) (UUID 61) 45 handoff_store = Inr ()"
proof -
  let ?q = "quote_consent_query quote_ask (UUID 3) (UUID 61) 45"
  have q: "cq_agent_id ?q = UUID 2" "cq_principal_id ?q = UUID 3" "cq_purpose ?q = ''quote_delivery''"
    "cq_contact_point_id ?q = Some (UUID 61)" "cq_source_conversation_id ?q = None" "cq_target_channel ?q = None"
    "cq_at ?q = Some (Aware 45 0)"
    by (simp_all add: quote_consent_query_def quote_ask_def)
  have purpose: "consent_enum purpose_value purposes ''quote_delivery'' ''purpose'' = Inr QuoteDelivery"
    by simp
  have row: "consent_filter ?q QuoteDelivery None quote_grant" "consent_applies 45 quote_grant"
    by (simp_all add: consent_filter_def target_scope_def q consent_applies_def quote_grant_def consent_row_def)
  have "latest_consent ?q QuoteDelivery None handoff_store = Some quote_grant"
    by (simp add: latest_consent_def handoff_tables row newest_first_def)
  then have "effective_consent sample_env ?q handoff_store = Inr (True, Some quote_grant)"
    by (simp add: effective_consent_def q purpose optional_channel_def quote_evidence consent_utc_def
        to_utc_def row)
  then show ?thesis by (simp add: require_quote_consent_def) (simp add: quote_grant_def consent_row_def quote_ask_def)
qed

definition quote_deal :: opportunity where
  "quote_deal = \<lparr>op_id = UUID 7, op_created_at = 40, op_contact_id = UUID 60, op_created_by_agent_id = UUID 2,
     op_assigned_agent_id = UUID 6, op_assigned_operator_id = None, op_stage = StNew, op_control_version = 0,
     op_title = ''Quote'', op_summary = None, op_correlation_id = ''c1'', op_idempotency_key = ''k1'',
     op_command_hash = replicate 64 (CHR ''a''), op_closed_at = None\<rparr>"

lemma quote_texts: "strip ''Quote'' = ''Quote''" "strip ''c1'' = ''c1''" "strip ''k1'' = ''k1''"
  by (simp_all add: strip_def is_space_def)

definition handoff_prepared :: prepared_create where
  "handoff_prepared = \<lparr>pc_title = ''Quote'', pc_summary = None, pc_correlation = ''c1'', pc_key = ''k1'',
     pc_contact = crm_contact, pc_conversation = sample_conversation, pc_command_hash = replicate 64 (CHR ''a'')\<rparr>"

definition quote_link :: conversation_link where
  "quote_link = new_conversation_link sample_env quote_deal sample_conversation (UUID 2) None ''c1'' ''k1''"

definition quote_opened :: store where
  "quote_opened = (let cmd = handoff_create quote_ask (UUID 6) ''Quote'' None ''c1'' ''k1'' in
     handoff_store\<lparr>opportunities := [quote_deal], stage_events := [first_stage_event sample_env cmd handoff_prepared quote_deal],
       ownership_events := [first_ownership_event sample_env cmd handoff_prepared quote_deal],
       conversation_links := [quote_link]\<rparr>)"

lemma quote_created: "create_opportunity sample_env (handoff_create quote_ask (UUID 6) ''Quote'' None ''c1'' ''k1'')
    handoff_store = Inr (quote_opened, quote_deal, True)"
proof -
  let ?cmd = "handoff_create quote_ask (UUID 6) ''Quote'' None ''c1'' ''k1''"
  have cmd: "co_title ?cmd = ''Quote''" "co_summary ?cmd = None" "co_correlation_id ?cmd = ''c1''"
    "co_idempotency_key ?cmd = ''k1''" "co_assigned_agent_id ?cmd = UUID 6" "co_assigned_operator_id ?cmd = None"
    "co_contact_id ?cmd = UUID 60" "co_source_conversation_id ?cmd = UUID 1" "co_created_by_agent_id ?cmd = UUID 2"
    by (simp_all add: handoff_create_def quote_ask_def)
  have pr: "prepare_create sample_env handoff_store ?cmd = Inr handoff_prepared"
    by (simp add: prepare_create_def cmd opp_required_text_def policy_required_text_def quote_texts opp_optional_text_def
        policy_optional_text_def handoff_tables load_contact_def) (simp add: handoff_prepared_def sample_conversation_def crm_contact_def
        policy_command_hash_def command_digest_def sample_env_def assert_active_assignment_def handoff_store_def
        consent_store_def crm_store_def sample_store_def)
  have row: "created_opportunity sample_env ?cmd handoff_prepared = quote_deal" "pc_key handoff_prepared = ''k1''"
    "pc_conversation handoff_prepared = sample_conversation" "pc_correlation handoff_prepared = ''c1''"
    by (simp_all add: created_opportunity_def cmd handoff_prepared_def quote_deal_def crm_contact_def sample_env_def)
  have checks: "opportunity_checks quote_deal"
    "stage_event_checks (first_stage_event sample_env ?cmd handoff_prepared quote_deal)"
    "ownership_event_checks (first_ownership_event sample_env ?cmd handoff_prepared quote_deal)" "link_checks quote_link"
    by (simp_all add: opportunity_checks_def quote_deal_def btrim_def stage_event_checks_def first_stage_event_def
        handoff_prepared_def ownership_event_checks_def first_ownership_event_def link_checks_def quote_link_def
        new_conversation_link_def policy_command_hash_def command_digest_def sample_env_def cmd)
  have empty: "stage_events handoff_store = []" "ownership_events handoff_store = []" "conversation_links handoff_store = []"
    by (simp_all add: handoff_store_def consent_store_def crm_store_def sample_store_def empty_store_def)
  show ?thesis
    unfolding create_opportunity_def pr
    by (simp add: create_receipt_def handoff_tables Let_def row cmd insert_opportunity_def checks insert_stage_event_def
        insert_ownership_event_def insert_link_def empty quote_link_def [symmetric] quote_opened_def)
qed

lemma quote_assign_key: "handoff_assignment_key sample_env (UUID 1) ''k1'' =
    ''quote-requested:00000000-0000-0000-0000-000000000007''"
  by code_simp

lemma quote_key_text: "strip ''quote-requested:00000000-0000-0000-0000-000000000007'' =
    ''quote-requested:00000000-0000-0000-0000-000000000007''"
  by (simp add: strip_def is_space_def)

lemma quote_assigned: "\<exists>s' e. assign sample_env quote_opened (handoff_assign sample_env quote_ask quote_deal 0 ''c1'' ''k1'') =
    Inr (s', e, False) \<and> opportunities s' = [quote_deal]"
proof -
  let ?cmd = "handoff_assign sample_env quote_ask quote_deal 0 ''c1'' ''k1''"
  have cmd: "ac_conversation_id ?cmd = UUID 1" "ac_routing_agent_id ?cmd = UUID 2" "ac_target_agent_id ?cmd = UUID 6"
    "ac_expected_version ?cmd = 0" "ac_actor_agent_id ?cmd = Some (UUID 2)" "ac_actor_admin_id ?cmd = None"
    "ac_trigger ?cmd = ''quote_requested''" "ac_opportunity_id ?cmd = Some (UUID 7)" "ac_correlation_id ?cmd = ''c1''"
    "ac_idempotency_key ?cmd = ''quote-requested:00000000-0000-0000-0000-000000000007''"
    "ac_reason ?cmd = Some ''quote requested commercial handoff''" "ac_occurred_at ?cmd = None"
    by (simp_all add: handoff_assign_def quote_ask_def quote_deal_def quote_assign_key)
  have n: "\<exists>n. prepare_assign sample_env ?cmd = Inr n \<and> an_key n = ''quote-requested:00000000-0000-0000-0000-000000000007'' \<and>
      an_trigger n = ''quote_requested'' \<and> an_correlation n = ''c1'' \<and> an_command_hash n = replicate 64 (CHR ''a'')"
    by (simp add: prepare_assign_def cmd validate_actor_def asg_required_text_def asg_optional_text_def
      asg_aware_utc_def to_utc_def Let_def quote_key_text) (simp add: strip_def is_space_def command_digest_def sample_env_def)
  then obtain n where n: "prepare_assign sample_env ?cmd = Inr n" "an_key n = ''quote-requested:00000000-0000-0000-0000-000000000007''"
      "an_trigger n = ''quote_requested''" "an_correlation n = ''c1''" "an_command_hash n = replicate 64 (CHR ''a'')" by blast
  have tables: "assignment_events quote_opened = []" "scoped_conversation quote_opened (UUID 1) (UUID 2) = Some sample_conversation"
    "active_agent quote_opened (UUID 2)" "active_agent quote_opened (UUID 6)" "opportunities quote_opened = [quote_deal]"
    "conversation_links quote_opened = [quote_link]"
    by (simp_all add: quote_opened_def Let_def handoff_store_def consent_store_def crm_store_def sample_store_def empty_store_def
        scoped_conversation_def sample_conversation_def active_agent_def)
  have link: "ol_opportunity_id quote_link = UUID 7" "ol_conversation_id quote_link = Some (UUID 1)"
    "op_id quote_deal = UUID 7" "op_assigned_agent_id quote_deal = UUID 6"
    by (simp_all add: quote_link_def new_conversation_link_def quote_deal_def sample_conversation_def)
  have c: "cv_id sample_conversation = UUID 1" "cv_status sample_conversation = ''active''"
    "cv_control_mode sample_conversation = Automated" "cv_automation_version sample_conversation = 0"
    by (simp_all add: sample_conversation_def)
  have row: "assigned_row sample_conversation (UUID 6) =
      sample_conversation\<lparr>cv_automation_agent_id := UUID 6, cv_automation_version := 1\<rparr>"
    by (simp add: assigned_row_def sample_conversation_def)
  have e: "assignment_event_checks (new_assignment_event sample_env sample_conversation ?cmd n)"
    by (simp add: assignment_event_checks_def new_assignment_event_def cmd n row c btrim_def)
  show ?thesis
    unfolding assign_def n(1)
    by (simp add: assignment_receipt_def tables cmd n c link assert_conversation_open_def assert_active_agents_def
        assert_opportunity_assignment_def assert_automation_version_def Let_def insert_assignment_event_def e
        put_conversation_def)
qed

lemma quote_runs: "\<exists>s'. quote_requested sample_env quote_ask handoff_store = Inr (s', quote_deal, True) \<and>
    opportunities s' = [quote_deal]"
proof -
  from quote_assigned obtain s' e where s': "assign sample_env quote_opened
      (handoff_assign sample_env quote_ask quote_deal 0 ''c1'' ''k1'') = Inr (s', e, False)"
    "opportunities s' = [quote_deal]" by blast
  have q: "hq_source_agent_id quote_ask = UUID 2" "hq_conversation_id quote_ask = UUID 1"
    "hq_contact_id quote_ask = UUID 60" "hq_contact_point_id quote_ask = Some (UUID 61)"
    "hq_title quote_ask = ''Quote''" "hq_summary quote_ask = None" "hq_correlation_id quote_ask = ''c1''"
    "hq_idempotency_key quote_ask = ''k1''" "hq_at quote_ask = Some (Aware 45 0)"
    by (simp_all add: quote_ask_def)
  have c: "cv_automation_version sample_conversation = 0" "hr_target_agent_id quote_route = UUID 6"
    by (simp_all add: sample_conversation_def quote_route_def)
  have "open_handoff sample_env quote_ask ''Quote'' None ''c1'' ''k1'' (UUID 61) handoff_store = Inr (s', quote_deal, True)"
    by (simp add: open_handoff_def keeps_agent_def q quote_guards handoff_conversation_def handoff_tables handoff_utc_def
        to_utc_def quote_consent Let_def c quote_created s')
  then have "quote_requested sample_env quote_ask handoff_store = Inr (s', quote_deal, True)"
    by (simp add: quote_requested_def q handoff_text_def policy_required_text_def handoff_optional_def
        policy_optional_text_def quote_texts existing_handoff_def handoff_tables)
  with s'(2) show ?thesis by blast
qed

theorem quote_handoff_effect_witness:
  "\<exists>s'. quote_requested sample_env quote_ask handoff_store = Inr (s', quote_deal, True) \<and>
     (\<exists>c'. get_conversation s' (UUID 1) = Some c' \<and> cv_automation_agent_id c' = UUID 6 \<and> cv_automation_version c' = 1)"
proof -
  from quote_runs obtain s' where s': "quote_requested sample_env quote_ask handoff_store = Inr (s', quote_deal, True)"
    "opportunities s' = [quote_deal]" by blast
  have ok: "conversations_ok handoff_store" and none: "assignment_events handoff_store = []"
    by (simp_all add: conversations_ok_def handoff_store_def consent_store_def crm_store_def sample_store_def empty_store_def)
  have new: "s' \<noteq> handoff_store" using s'(2) handoff_tables(1) by auto
  have q: "hq_source_agent_id quote_ask = UUID 2" "hq_conversation_id quote_ask = UUID 1"
    by (simp_all add: quote_ask_def)
  have "\<not> keeps_agent handoff_store (UUID 2)" by (simp add: keeps_agent_def quote_guards)
  moreover have "assignment_receipt handoff_store (hq_conversation_id quote_ask) k = None" for k
    by (simp add: assignment_receipt_def none)
  moreover have "cv_automation_version sample_conversation = 0" "cv_automation_agent_id sample_conversation = UUID 2"
    "hr_target_agent_id quote_route = UUID 6"
    by (simp_all add: sample_conversation_def quote_route_def)
  ultimately have "\<exists>c'. get_conversation s' (UUID 1) = Some c' \<and>
      cv_automation_agent_id c' = UUID 6 \<and> cv_automation_version c' = 1"
    using quote_handoff_effect [OF ok s'(1) new] by (simp add: q handoff_tables(2,4)) (elim exE conjE, intro exI conjI; assumption)
  with s'(1) show ?thesis by blast
qed

end
