(* ===== verification/ResourceAccess.thy ===== *)
theory ResourceAccess
  imports Json
begin

text \<open>
  Which resources an agent and its users reach. \<open>services/agent_resources.py\<close>: the resources bound to an
  agent and the users it answers; \<open>services/governance.py\<close>: the authorised telephone numbers;
  \<open>services/rag/access.py\<close>: the document areas a user may read; \<open>services/tool_policy.py\<close>: the tools a
  conversation may use. The tables are those of \<open>models/agent_resource_binding.py\<close>,
  \<open>models/authorized_user.py\<close>, \<open>models/rag.py\<close>, \<open>models/integration_source.py\<close>, \<open>models/tool_config.py\<close> and
  \<open>models/knowledge_block.py\<close>, without surrogate keys of bindings and times of change; the routers have
  checked that an agent or resource that is bound exists.
\<close>

section \<open>Tables\<close>

record organization_area =
  oa_id :: uuid
  oa_name :: string
  oa_is_general :: bool
  oa_is_active :: bool

record document_folder =
  df_id :: uuid
  df_area_id :: uuid

record rag_document =
  rdoc_id :: uuid
  rdoc_folder_id :: uuid
  rdoc_deleted_at :: "instant option"

record authorized_user =
  us_id :: uuid
  us_created_at :: instant
  us_phone_number :: string
  us_name :: "string option"
  us_is_active :: bool
  us_notes :: "string option"
  us_has_all_area_access :: bool

record user_area =
  uar_user_id :: uuid
  uar_area_id :: uuid

record resource_binding =
  bi_agent_id :: uuid
  bi_resource_id :: uuid

record agent_user =
  gu_agent_id :: uuid
  gu_user_id :: uuid
  gu_is_active :: bool
  gu_has_all_area_access :: bool

record agent_user_area =
  gx_agent_id :: uuid
  gx_user_id :: uuid
  gx_area_id :: uuid

record integration_source =
  isrc_id :: uuid
  isrc_name :: string
  isrc_slug :: string
  isrc_is_active :: bool
  isrc_is_public :: bool

record tool_config =
  tlc_id :: uuid
  tlc_tool_name :: string
  tlc_description :: "string option"
  tlc_source_system :: string
  tlc_source_id :: "uuid option"
  tlc_is_enabled :: bool
  tlc_handler_kind :: string
  tlc_allowed_channels :: "string list"
  tlc_risk_level :: string

record knowledge_block =
  kbl_id :: uuid
  kbl_key :: string
  kbl_is_enabled :: bool
  kbl_sort_order :: int

record resource_store =
  org_areas :: "organization_area list"
  doc_folders :: "document_folder list"
  rag_documents :: "rag_document list"
  authorized_users :: "authorized_user list"
  user_areas :: "user_area list"
  area_bindings :: "resource_binding list"
  source_bindings :: "resource_binding list"
  tool_bindings :: "resource_binding list"
  block_bindings :: "resource_binding list"
  agent_users :: "agent_user list"
  agent_user_areas :: "agent_user_area list"
  integration_sources :: "integration_source list"
  tool_configs :: "tool_config list"
  knowledge_blocks :: "knowledge_block list"

text \<open>The errors: a \<open>ValueError\<close> with its message, more than one row where one is expected, and a violated
  constraint.\<close>

datatype resource_error = ResourceInvalid string | ResourceAmbiguous | ResourceIntegrity

section \<open>Bindings\<close>

text \<open>\<open>_assign\<close> inserts nothing where the binding exists; \<open>_unassign\<close> deletes it.\<close>

definition bind_resource :: "uuid \<Rightarrow> uuid \<Rightarrow> resource_binding list \<Rightarrow> resource_binding list" where
  "bind_resource agent resource t =
     (if list_ex (\<lambda>b. bi_agent_id b = agent \<and> bi_resource_id b = resource) t then t
      else t @ [\<lparr>bi_agent_id = agent, bi_resource_id = resource\<rparr>])"

definition unbind_resource :: "uuid \<Rightarrow> uuid \<Rightarrow> resource_binding list \<Rightarrow> resource_binding list" where
  "unbind_resource agent resource t = filter (\<lambda>b. \<not> (bi_agent_id b = agent \<and> bi_resource_id b = resource)) t"

definition bound :: "resource_binding list \<Rightarrow> uuid \<Rightarrow> uuid \<Rightarrow> bool" where
  "bound t agent resource \<longleftrightarrow> list_ex (\<lambda>b. bi_agent_id b = agent \<and> bi_resource_id b = resource) t"

definition assign_source :: "uuid \<Rightarrow> uuid \<Rightarrow> resource_store \<Rightarrow> resource_store" where
  "assign_source agent i s = s\<lparr>source_bindings := bind_resource agent i (source_bindings s)\<rparr>"

definition assign_tool :: "uuid \<Rightarrow> uuid \<Rightarrow> resource_store \<Rightarrow> resource_store" where
  "assign_tool agent i s = s\<lparr>tool_bindings := bind_resource agent i (tool_bindings s)\<rparr>"

definition assign_knowledge_block :: "uuid \<Rightarrow> uuid \<Rightarrow> resource_store \<Rightarrow> resource_store" where
  "assign_knowledge_block agent i s = s\<lparr>block_bindings := bind_resource agent i (block_bindings s)\<rparr>"

definition assign_document_area :: "uuid \<Rightarrow> uuid \<Rightarrow> resource_store \<Rightarrow> resource_store" where
  "assign_document_area agent i s = s\<lparr>area_bindings := bind_resource agent i (area_bindings s)\<rparr>"

definition unassign_source :: "uuid \<Rightarrow> uuid \<Rightarrow> resource_store \<Rightarrow> resource_store" where
  "unassign_source agent i s = s\<lparr>source_bindings := unbind_resource agent i (source_bindings s)\<rparr>"

definition unassign_tool :: "uuid \<Rightarrow> uuid \<Rightarrow> resource_store \<Rightarrow> resource_store" where
  "unassign_tool agent i s = s\<lparr>tool_bindings := unbind_resource agent i (tool_bindings s)\<rparr>"

definition unassign_knowledge_block :: "uuid \<Rightarrow> uuid \<Rightarrow> resource_store \<Rightarrow> resource_store" where
  "unassign_knowledge_block agent i s = s\<lparr>block_bindings := unbind_resource agent i (block_bindings s)\<rparr>"

text \<open>The grants of the users of an agent refer to its area bindings and its users; both keys cascade.\<close>

definition unassign_document_area :: "uuid \<Rightarrow> uuid \<Rightarrow> resource_store \<Rightarrow> resource_store" where
  "unassign_document_area agent i s =
     s\<lparr>area_bindings := unbind_resource agent i (area_bindings s),
       agent_user_areas := filter (\<lambda>x. \<not> (gx_agent_id x = agent \<and> gx_area_id x = i)) (agent_user_areas s)\<rparr>"

definition unassign_authorized_user :: "uuid \<Rightarrow> uuid \<Rightarrow> resource_store \<Rightarrow> resource_store" where
  "unassign_authorized_user agent user s =
     s\<lparr>agent_users := filter (\<lambda>b. \<not> (gu_agent_id b = agent \<and> gu_user_id b = user)) (agent_users s),
       agent_user_areas := filter (\<lambda>x. \<not> (gx_agent_id x = agent \<and> gx_user_id x = user)) (agent_user_areas s)\<rparr>"

section \<open>Users of an agent\<close>

text \<open>\<open>scalar_one_or_none\<close>.\<close>

definition one_or_none :: "'a list \<Rightarrow> resource_error + 'a option" where
  "one_or_none xs = (case xs of [] \<Rightarrow> Inr None | [x] \<Rightarrow> Inr (Some x) | _ \<Rightarrow> Inl ResourceAmbiguous)"

text \<open>The identifiers of the texts; \<open>uuid.UUID\<close> reads several spellings and is the parameter \<open>read_uuid\<close>.\<close>

definition read_areas :: "(string \<Rightarrow> uuid option) \<Rightarrow> (string \<Rightarrow> string) \<Rightarrow> string list \<Rightarrow> resource_error + uuid list" where
  "read_areas read_uuid message raw =
     (case find (\<lambda>t. read_uuid t = None) raw of
        Some t \<Rightarrow> Inl (ResourceInvalid (message t))
      | None \<Rightarrow> Inr (List.map_filter read_uuid raw))"

definition active_area :: "resource_store \<Rightarrow> uuid \<Rightarrow> bool" where
  "active_area s i \<longleftrightarrow> list_ex (\<lambda>a. oa_id a = i \<and> oa_is_active a) (org_areas s)"

definition agent_general_area :: "resource_store \<Rightarrow> uuid \<Rightarrow> resource_error + uuid option" where
  "agent_general_area s agent =
     one_or_none (map oa_id (filter (\<lambda>a. bound (area_bindings s) agent (oa_id a) \<and> oa_is_general a \<and> oa_is_active a)
       (org_areas s)))"

text \<open>\<open>sorted(area_ids, key=str)\<close>: the order of the texts of UUIDs is their order.\<close>

definition area_set :: "uuid list \<Rightarrow> uuid option \<Rightarrow> uuid list" where
  "area_set ids general = sort (remdups (ids @ (case general of None \<Rightarrow> [] | Some g \<Rightarrow> [g])))"

definition sync_agent_areas ::
  "(string \<Rightarrow> uuid option) \<Rightarrow> uuid \<Rightarrow> uuid \<Rightarrow> string list \<Rightarrow> resource_store \<Rightarrow> resource_error + resource_store" where
  "sync_agent_areas read_uuid agent user raw s =
     bindE (read_areas read_uuid (\<lambda>_. ''One or more document areas are invalid'') raw) (\<lambda>ids.
     bindE (agent_general_area s agent) (\<lambda>general.
       let areas = area_set ids general in
       if \<not> list_all (\<lambda>i. bound (area_bindings s) agent i \<and> active_area s i) areas
       then Inl (ResourceInvalid ''One or more document areas are not assigned to this agent'')
       else Inr (s\<lparr>agent_user_areas :=
              filter (\<lambda>x. \<not> (gx_agent_id x = agent \<and> gx_user_id x = user)) (agent_user_areas s) @
              map (\<lambda>i. \<lparr>gx_agent_id = agent, gx_user_id = user, gx_area_id = i\<rparr>) areas\<rparr>)))"

definition agent_user_of :: "resource_store \<Rightarrow> uuid \<Rightarrow> uuid \<Rightarrow> agent_user option" where
  "agent_user_of s agent user = find (\<lambda>b. gu_agent_id b = agent \<and> gu_user_id b = user) (agent_users s)"

definition upsert_agent_user :: "agent_user \<Rightarrow> agent_user list \<Rightarrow> agent_user list" where
  "upsert_agent_user b t =
     (if list_ex (\<lambda>x. gu_agent_id x = gu_agent_id b \<and> gu_user_id x = gu_user_id b) t
      then put_row (\<lambda>x. (gu_agent_id x, gu_user_id x)) b t else t @ [b])"

definition assign_authorized_user ::
  "(string \<Rightarrow> uuid option) \<Rightarrow> uuid \<Rightarrow> uuid \<Rightarrow> bool \<Rightarrow> bool \<Rightarrow> string list \<Rightarrow> resource_store \<Rightarrow>
     resource_error + (resource_store \<times> agent_user)" where
  "assign_authorized_user read_uuid agent user active all_areas raw s =
     (let b = \<lparr>gu_agent_id = agent, gu_user_id = user, gu_is_active = active, gu_has_all_area_access = all_areas\<rparr>;
          s1 = s\<lparr>agent_users := upsert_agent_user b (agent_users s)\<rparr>
      in bindE (sync_agent_areas read_uuid agent user raw s1) (\<lambda>s2. Inr (s2, b)))"

section \<open>Listings\<close>

text \<open>Texts are ordered by the collation of the database, a sort key \<open>K\<close>.\<close>

definition list_sources :: "(string \<Rightarrow> nat) \<Rightarrow> uuid \<Rightarrow> resource_store \<Rightarrow> integration_source list" where
  "list_sources K agent s =
     sort_key (\<lambda>x. K (isrc_name x)) (sort_key (\<lambda>x. K (isrc_slug x))
       (filter (\<lambda>x. bound (source_bindings s) agent (isrc_id x)) (integration_sources s)))"

definition list_tools :: "(string \<Rightarrow> nat) \<Rightarrow> uuid \<Rightarrow> resource_store \<Rightarrow> tool_config list" where
  "list_tools K agent s =
     sort_key (\<lambda>x. K (tlc_tool_name x)) (filter (\<lambda>x. bound (tool_bindings s) agent (tlc_id x)) (tool_configs s))"

definition list_knowledge_blocks :: "(string \<Rightarrow> nat) \<Rightarrow> uuid \<Rightarrow> bool \<Rightarrow> resource_store \<Rightarrow> knowledge_block list" where
  "list_knowledge_blocks K agent enabled_only s =
     sort_key kbl_sort_order (sort_key (\<lambda>x. K (kbl_key x))
       (filter (\<lambda>x. bound (block_bindings s) agent (kbl_id x) \<and> (enabled_only \<longrightarrow> kbl_is_enabled x)) (knowledge_blocks s)))"

definition area_folder_count :: "resource_store \<Rightarrow> uuid \<Rightarrow> nat" where
  "area_folder_count s area = length (filter (\<lambda>f. df_area_id f = area) (doc_folders s))"

definition area_document_count :: "resource_store \<Rightarrow> uuid \<Rightarrow> nat" where
  "area_document_count s area =
     length (filter (\<lambda>d. rdoc_deleted_at d = None \<and>
       list_ex (\<lambda>f. df_id f = rdoc_folder_id d \<and> df_area_id f = area) (doc_folders s)) (rag_documents s))"

definition list_document_areas :: "(string \<Rightarrow> nat) \<Rightarrow> uuid \<Rightarrow> resource_store \<Rightarrow> (organization_area \<times> nat \<times> nat) list" where
  "list_document_areas K agent s =
     map (\<lambda>a. (a, area_folder_count s (oa_id a), area_document_count s (oa_id a)))
       (sort_key (\<lambda>a. K (oa_name a)) (filter (\<lambda>a. bound (area_bindings s) agent (oa_id a)) (org_areas s)))"

definition assigned_area_ids :: "uuid \<Rightarrow> resource_store \<Rightarrow> uuid set" where
  "assigned_area_ids agent s = set (map bi_resource_id (filter (\<lambda>b. bi_agent_id b = agent) (area_bindings s)))"

text \<open>PostgreSQL sorts a missing name after every other.\<close>

definition list_authorized_users ::
  "(string \<Rightarrow> nat) \<Rightarrow> uuid \<Rightarrow> resource_store \<Rightarrow> (authorized_user \<times> agent_user \<times> string list) list" where
  "list_authorized_users K agent s =
     map (\<lambda>(u, b). (u, b, map (\<lambda>x. uuid_str (gx_area_id x))
         (filter (\<lambda>x. gx_agent_id x = agent \<and> gx_user_id x = us_id u) (agent_user_areas s))))
       (sort_key (\<lambda>(u, b). us_name u = None) (sort_key (\<lambda>(u, b). case us_name u of None \<Rightarrow> 0 | Some n \<Rightarrow> K n)
         (sort_key (\<lambda>(u, b). K (us_phone_number u))
           (List.map_filter (\<lambda>u. map_option (Pair u) (agent_user_of s agent (us_id u))) (authorized_users s)))))"

end
