(* ===== verification/AccessScope.thy ===== *)
theory AccessScope
  imports ResourceAccess
begin

text \<open>
  What the bindings allow. \<open>services/governance.py\<close>: who may write to an agent, and the authorised users;
  \<open>services/rag/access.py\<close>: the document areas of a user; \<open>services/tool_policy.py\<close>: the tools of a
  conversation.
\<close>

section \<open>Who may write\<close>

definition user_by_phone :: "resource_store \<Rightarrow> string \<Rightarrow> authorized_user option" where
  "user_by_phone s phone = find (\<lambda>u. us_phone_number u = phone) (authorized_users s)"

definition get_agent_user :: "resource_store \<Rightarrow> uuid \<Rightarrow> string \<Rightarrow> (authorized_user \<times> agent_user) option" where
  "get_agent_user s agent phone =
     Option.bind (user_by_phone s phone) (\<lambda>u. map_option (Pair u) (agent_user_of s agent (us_id u)))"

record access_request =
  aq_phone_number :: string
  aq_agent_id :: "uuid option"

record access_user =
  av_user_id :: string
  av_name :: "string option"
  av_has_all_area_access :: "bool option"

record access_response =
  ax_allowed :: bool
  ax_user :: "access_user option"
  ax_reason :: "string option"

definition refused :: "string \<Rightarrow> access_response" where
  "refused reason = \<lparr>ax_allowed = False, ax_user = None, ax_reason = Some reason\<rparr>"

definition answer_access :: "authorized_user \<Rightarrow> bool \<Rightarrow> bool \<Rightarrow> access_response" where
  "answer_access u active all_areas =
     (if \<not> active
      then \<lparr>ax_allowed = False,
             ax_user = Some \<lparr>av_user_id = uuid_str (us_id u), av_name = us_name u, av_has_all_area_access = None\<rparr>,
             ax_reason = Some ''Usuario desactivado''\<rparr>
      else \<lparr>ax_allowed = True,
             ax_user = Some \<lparr>av_user_id = uuid_str (us_id u), av_name = us_name u, av_has_all_area_access = Some all_areas\<rparr>,
             ax_reason = None\<rparr>)"

definition check_access :: "resource_store \<Rightarrow> access_request \<Rightarrow> access_response" where
  "check_access s q =
     (case aq_agent_id q of
        None \<Rightarrow>
          (case user_by_phone s (aq_phone_number q) of
             None \<Rightarrow> refused (''N'' @ CHR 0xFA # ''mero no autorizado'')
           | Some u \<Rightarrow> answer_access u (us_is_active u) (us_has_all_area_access u))
      | Some agent \<Rightarrow>
          (case get_agent_user s agent (aq_phone_number q) of
             None \<Rightarrow> refused (''N'' @ CHR 0xFA # ''mero no autorizado para este agente'')
           | Some (u, b) \<Rightarrow> answer_access u (gu_is_active b) (gu_has_all_area_access b)))"

section \<open>Authorised users\<close>

definition list_users :: "resource_store \<Rightarrow> authorized_user list" where
  "list_users s = sort_key (\<lambda>u. - us_created_at u) (authorized_users s)"

record user_create =
  ux_phone_number :: string
  ux_name :: "string option"
  ux_is_active :: bool
  ux_notes :: "string option"
  ux_has_all_area_access :: bool
  ux_area_ids :: "string list"

record user_update =
  uy_name :: "string option"
  uy_is_active :: "bool option"
  uy_notes :: "string option"
  uy_has_all_area_access :: "bool option"
  uy_area_ids :: "string list option"

text \<open>\<open>_sync_user_areas\<close>: the general area is always added.\<close>

definition general_area :: "resource_store \<Rightarrow> resource_error + uuid option" where
  "general_area s = one_or_none (map oa_id (filter (\<lambda>a. oa_is_general a \<and> oa_is_active a) (org_areas s)))"

definition invalid_area :: "string \<Rightarrow> string" where
  "invalid_area raw = CHR 0xC1 # ''rea inv'' @ CHR 0xE1 # ''lida: '' @ raw"

definition missing_areas :: string where
  "missing_areas = ''Una o m'' @ CHR 0xE1 # ''s '' @ CHR 0xE1 # ''reas no existen o est'' @ CHR 0xE1 # ''n inactivas''"

definition sync_user_areas ::
  "(string \<Rightarrow> uuid option) \<Rightarrow> uuid \<Rightarrow> string list \<Rightarrow> resource_store \<Rightarrow> resource_error + resource_store" where
  "sync_user_areas read_uuid user raw s =
     bindE (read_areas read_uuid invalid_area raw) (\<lambda>ids.
     bindE (general_area s) (\<lambda>general.
       let areas = area_set ids general in
       if \<not> list_all (active_area s) areas then Inl (ResourceInvalid missing_areas)
       else Inr (s\<lparr>user_areas := filter (\<lambda>x. uar_user_id x \<noteq> user) (user_areas s) @
              map (\<lambda>i. \<lparr>uar_user_id = user, uar_area_id = i\<rparr>) areas\<rparr>)))"

text \<open>The identifier and the time of a new row come with the call.\<close>

definition create_user ::
  "(string \<Rightarrow> uuid option) \<Rightarrow> uuid \<Rightarrow> instant \<Rightarrow> user_create \<Rightarrow> resource_store \<Rightarrow>
     resource_error + (resource_store \<times> authorized_user)" where
  "create_user read_uuid i now c s =
     (let u = \<lparr>us_id = i, us_created_at = now, us_phone_number = ux_phone_number c, us_name = ux_name c,
               us_is_active = ux_is_active c, us_notes = ux_notes c, us_has_all_area_access = ux_has_all_area_access c\<rparr>
      in if list_ex (\<lambda>x. us_id x = i \<or> us_phone_number x = ux_phone_number c) (authorized_users s)
         then Inl ResourceIntegrity
         else bindE (sync_user_areas read_uuid i (ux_area_ids c) (s\<lparr>authorized_users := authorized_users s @ [u]\<rparr>))
           (\<lambda>s1. Inr (s1, u)))"

definition given :: "'a option \<Rightarrow> 'a \<Rightarrow> 'a" where
  "given v old = (case v of None \<Rightarrow> old | Some x \<Rightarrow> x)"

definition updated_user :: "user_update \<Rightarrow> authorized_user \<Rightarrow> authorized_user" where
  "updated_user c u =
     u\<lparr>us_name := (case uy_name c of None \<Rightarrow> us_name u | Some n \<Rightarrow> Some n), us_is_active := given (uy_is_active c) (us_is_active u),
       us_notes := (case uy_notes c of None \<Rightarrow> us_notes u | Some n \<Rightarrow> Some n),
       us_has_all_area_access := given (uy_has_all_area_access c) (us_has_all_area_access u)\<rparr>"

definition update_user ::
  "(string \<Rightarrow> uuid option) \<Rightarrow> string \<Rightarrow> user_update \<Rightarrow> resource_store \<Rightarrow>
     resource_error + (resource_store \<times> authorized_user option)" where
  "update_user read_uuid phone c s =
     (case user_by_phone s phone of
        None \<Rightarrow> Inr (s, None)
      | Some u \<Rightarrow>
          let u' = updated_user c u;
              s1 = s\<lparr>authorized_users := put_row us_id u' (authorized_users s)\<rparr>
          in (case uy_area_ids c of
                None \<Rightarrow> Inr (s1, Some u')
              | Some raw \<Rightarrow> bindE (sync_user_areas read_uuid (us_id u) raw s1) (\<lambda>s2. Inr (s2, Some u'))))"

definition get_user_area_id_strings :: "resource_store \<Rightarrow> uuid \<Rightarrow> string list" where
  "get_user_area_id_strings s user = map (\<lambda>x. uuid_str (uar_area_id x)) (filter (\<lambda>x. uar_user_id x = user) (user_areas s))"

section \<open>The documents of a user\<close>

definition areas_where :: "resource_store \<Rightarrow> (uuid \<Rightarrow> bool) \<Rightarrow> uuid set" where
  "areas_where s P = set (filter P (map oa_id (filter oa_is_active (org_areas s))))"

definition get_user_area_ids :: "resource_store \<Rightarrow> uuid option \<Rightarrow> uuid option \<Rightarrow> uuid set" where
  "get_user_area_ids s user agent =
     (case user of
        None \<Rightarrow> {}
      | Some u \<Rightarrow>
          (case agent of
             Some g \<Rightarrow>
               (case find (\<lambda>b. gu_agent_id b = g \<and> gu_user_id b = u \<and> gu_is_active b) (agent_users s) of
                  None \<Rightarrow> {}
                | Some b \<Rightarrow>
                    if gu_has_all_area_access b then areas_where s (bound (area_bindings s) g)
                    else areas_where s (\<lambda>i. list_ex (\<lambda>x. gx_agent_id x = g \<and> gx_user_id x = u \<and> gx_area_id x = i)
                           (agent_user_areas s)))
           | None \<Rightarrow>
               (case find (\<lambda>x. us_id x = u \<and> us_is_active x) (authorized_users s) of
                  None \<Rightarrow> {}
                | Some x \<Rightarrow>
                    if us_has_all_area_access x then areas_where s (\<lambda>_. True)
                    else areas_where s (\<lambda>i. list_ex (\<lambda>y. uar_user_id y = u \<and> uar_area_id y = i) (user_areas s)))))"

section \<open>The tools of a conversation\<close>

record tool_context =
  tc_channel :: string
  tc_agent_id :: "string option"
  tc_scopes :: "string list"
  tc_allowed_source_ids :: "string list"

record available_tool =
  avt_tool_name :: string
  avt_description :: string
  avt_source_system :: string
  avt_source_id :: "string option"
  avt_risk_level :: string

definition tool_source :: "resource_store \<Rightarrow> tool_config \<Rightarrow> integration_source option" where
  "tool_source s t = Option.bind (tlc_source_id t) (\<lambda>i. find (\<lambda>x. isrc_id x = i) (integration_sources s))"

text \<open>The rows of the query: the enabled tools, those bound to the agent if there is one, with their source.\<close>

definition tool_rows :: "resource_store \<Rightarrow> uuid option \<Rightarrow> (tool_config \<times> integration_source option) list" where
  "tool_rows s agent =
     map (\<lambda>t. (t, tool_source s t))
       (filter (\<lambda>t. tlc_is_enabled t \<and>
          (case agent of
             None \<Rightarrow> True
           | Some g \<Rightarrow> bound (tool_bindings s) g (tlc_id t) \<and>
               (case tlc_source_id t of None \<Rightarrow> True | Some i \<Rightarrow> bound (source_bindings s) g i))) (tool_configs s))"

definition source_admits :: "tool_context \<Rightarrow> integration_source option \<Rightarrow> bool" where
  "source_admits c src =
     (case src of
        None \<Rightarrow> False
      | Some x \<Rightarrow> isrc_is_active x \<and> (tc_channel c = ''web'' \<longrightarrow> isrc_is_public x) \<and>
          (tc_allowed_source_ids c \<noteq> [] \<longrightarrow> uuid_str (isrc_id x) \<in> set (tc_allowed_source_ids c)))"

definition tool_admitted :: "tool_context \<Rightarrow> string list \<Rightarrow> tool_config \<times> integration_source option \<Rightarrow> bool" where
  "tool_admitted c registered = (\<lambda>(t, src).
     tlc_tool_name t \<in> set registered \<and> tc_channel c \<in> set (tlc_allowed_channels t) \<and>
     (tlc_handler_kind t = ''http_api'' \<longrightarrow> source_admits c src) \<and>
     (tlc_risk_level t = ''write'' \<longrightarrow> ''tools:write'' \<in> set (tc_scopes c)))"

definition tool_entry :: "tool_config \<times> integration_source option \<Rightarrow> available_tool" where
  "tool_entry = (\<lambda>(t, src).
     \<lparr>avt_tool_name = tlc_tool_name t, avt_description = (case tlc_description t of None \<Rightarrow> [] | Some d \<Rightarrow> d),
      avt_source_system = (case src of None \<Rightarrow> tlc_source_system t | Some x \<Rightarrow> isrc_slug x),
      avt_source_id = map_option (\<lambda>x. uuid_str (isrc_id x)) src, avt_risk_level = tlc_risk_level t\<rparr>)"

definition available_tools ::
  "(string \<Rightarrow> uuid option) \<Rightarrow> resource_store \<Rightarrow> tool_context \<Rightarrow> string list \<Rightarrow> available_tool list" where
  "available_tools read_uuid s c registered =
     (case tc_agent_id c of
        None \<Rightarrow> map tool_entry (filter (tool_admitted c registered) (tool_rows s None))
      | Some t \<Rightarrow>
          (case read_uuid t of
             None \<Rightarrow> []
           | Some g \<Rightarrow> map tool_entry (filter (tool_admitted c registered) (tool_rows s (Some g)))))"

definition is_allowed ::
  "(string \<Rightarrow> uuid option) \<Rightarrow> resource_store \<Rightarrow> string \<Rightarrow> tool_context \<Rightarrow> string list \<Rightarrow> bool" where
  "is_allowed read_uuid s name c registered \<longleftrightarrow>
     list_ex (\<lambda>x. avt_tool_name x = name) (available_tools read_uuid s c registered)"

end
