(* ===== verification/AccessPromises.thy ===== *)
theory AccessPromises
  imports AccessScope
begin

text \<open>
  What the access rules promise: the documents a user reads through an agent stay within the areas of the
  agent, a grant gives exactly what it lists, and a tool is available only within the policy.
\<close>

section \<open>The invariant\<close>

text \<open>One row per user of an agent; a grant refers to a user of the agent and to an area of the agent.\<close>

abbreviation user_key :: "agent_user \<Rightarrow> uuid \<times> uuid" where
  "user_key b \<equiv> (gu_agent_id b, gu_user_id b)"

definition access_inv :: "resource_store \<Rightarrow> bool" where
  "access_inv s \<longleftrightarrow> distinct (map (\<lambda>b. (gu_agent_id b, gu_user_id b)) (agent_users s)) \<and>
     (\<forall>x\<in>set (agent_user_areas s). (gx_agent_id x, gx_user_id x) \<in> user_key ` set (agent_users s) \<and>
        bound (area_bindings s) (gx_agent_id x) (gx_area_id x))"

lemma bound_simps [simp]:
  "bound (bind_resource a r t) a' r' \<longleftrightarrow> bound t a' r' \<or> (a' = a \<and> r' = r)"
  "bound (unbind_resource a r t) a' r' \<longleftrightarrow> bound t a' r' \<and> \<not> (a' = a \<and> r' = r)"
  by (auto simp: bound_def bind_resource_def unbind_resource_def list_ex_iff)

lemma agent_user_of_Some: "agent_user_of s a u = Some b \<Longrightarrow> b \<in> set (agent_users s) \<and> gu_agent_id b = a \<and> gu_user_id b = u"
  by (auto simp: agent_user_of_def dest: find_SomeD)

lemma upsert_keys: "user_key ` set (upsert_agent_user b t) = insert (user_key b) (user_key ` set t)"
proof (cases "list_ex (\<lambda>x. gu_agent_id x = gu_agent_id b \<and> gu_user_id x = gu_user_id b) t")
  case True
  then have "user_key b \<in> user_key ` set t" by (auto simp: list_ex_iff intro: rev_image_eqI)
  moreover have "map user_key (put_row user_key b t) = map user_key t" by (rule map_key_put_row)
  then have "user_key ` set (put_row user_key b t) = user_key ` set t" by (metis list.set_map)
  ultimately show ?thesis using True by (simp add: upsert_agent_user_def insert_absorb)
qed (auto simp: upsert_agent_user_def)

lemma upsert_distinct: "distinct (map (\<lambda>b. (gu_agent_id b, gu_user_id b)) t) \<Longrightarrow>
    distinct (map (\<lambda>b. (gu_agent_id b, gu_user_id b)) (upsert_agent_user b t))"
  by (auto simp: upsert_agent_user_def table_simps list_ex_iff)

lemma upsert_find: "find (\<lambda>x. gu_agent_id x = a \<and> gu_user_id x = u) (upsert_agent_user b t) =
    (if gu_agent_id b = a \<and> gu_user_id b = u then Some b else find (\<lambda>x. gu_agent_id x = a \<and> gu_user_id x = u) t)"
proof -
  let ?key = "\<lambda>x. (gu_agent_id x, gu_user_id x)" and ?P = "\<lambda>x. gu_agent_id x = a \<and> gu_user_id x = u"
  show ?thesis
  proof (cases "list_ex (\<lambda>x. gu_agent_id x = gu_agent_id b \<and> gu_user_id x = gu_user_id b) t")
    case False
    then have "find ?P t = None" if "?P b" using that by (auto simp: find_None_iff list_ex_iff)
    with False show ?thesis by (auto simp: upsert_agent_user_def find_append split: option.splits)
  next
    case True
    then have put: "upsert_agent_user b t = put_row ?key b t" by (simp add: upsert_agent_user_def)
    show ?thesis
    proof (cases "?P b")
      case hit: True
      have "find ?P t \<noteq> None" using True hit by (auto simp: list_ex_iff find_None_iff)
      then obtain m where "find ?P t = Some m" by blast
      with hit find_put_row_hit [of ?P t m ?key b] show ?thesis by (auto simp: put dest: find_SomeD)
    next
      case False
      then show ?thesis unfolding put by (subst find_put_row_other) auto
    qed
  qed
qed

lemma sync_agent_areas_Inr:
  assumes "sync_agent_areas read_uuid agent user raw s = Inr s'"
  obtains ids general where "read_areas read_uuid (\<lambda>_. ''One or more document areas are invalid'') raw = Inr ids"
    "agent_general_area s agent = Inr general"
    "\<forall>i\<in>set (area_set ids general). bound (area_bindings s) agent i \<and> active_area s i"
    "s' = s\<lparr>agent_user_areas := filter (\<lambda>x. \<not> (gx_agent_id x = agent \<and> gx_user_id x = user)) (agent_user_areas s) @
       map (\<lambda>i. \<lparr>gx_agent_id = agent, gx_user_id = user, gx_area_id = i\<rparr>) (area_set ids general)\<rparr>"
  using assms by (auto simp: sync_agent_areas_def bindE_eq_Inr Let_def list_all_iff split: if_splits)

lemma assign_user_cases:
  assumes "assign_authorized_user read_uuid agent user act all_areas raw s = Inr (s', b)"
  obtains ids general where "read_areas read_uuid (\<lambda>_. ''One or more document areas are invalid'') raw = Inr ids"
    "agent_general_area s agent = Inr general"
    "\<forall>i\<in>set (area_set ids general). bound (area_bindings s) agent i \<and> active_area s i"
    "b = \<lparr>gu_agent_id = agent, gu_user_id = user, gu_is_active = act, gu_has_all_area_access = all_areas\<rparr>"
    "s' = s\<lparr>agent_users := upsert_agent_user b (agent_users s),
       agent_user_areas := filter (\<lambda>x. \<not> (gx_agent_id x = agent \<and> gx_user_id x = user)) (agent_user_areas s) @
       map (\<lambda>i. \<lparr>gx_agent_id = agent, gx_user_id = user, gx_area_id = i\<rparr>) (area_set ids general)\<rparr>"
proof -
  let ?b = "\<lparr>gu_agent_id = agent, gu_user_id = user, gu_is_active = act, gu_has_all_area_access = all_areas\<rparr>"
  let ?s = "s\<lparr>agent_users := upsert_agent_user ?b (agent_users s)\<rparr>"
  from assms have b: "b = ?b" and sync: "sync_agent_areas read_uuid agent user raw ?s = Inr s'"
    by (auto simp: assign_authorized_user_def bindE_eq_Inr Let_def)
  have same: "agent_general_area ?s agent = agent_general_area s agent" "active_area ?s i = active_area s i" for i
    by (simp_all add: agent_general_area_def active_area_def)
  from sync show thesis by (rule sync_agent_areas_Inr) (rule that, simp_all add: b same)
qed

lemma sync_user_areas_frame: "sync_user_areas read_uuid user raw s = Inr s' \<Longrightarrow> agent_users s' = agent_users s \<and>
    agent_user_areas s' = agent_user_areas s \<and> area_bindings s' = area_bindings s"
  by (auto simp: sync_user_areas_def bindE_eq_Inr Let_def split: if_splits)

inductive access_op :: "resource_store \<Rightarrow> resource_store \<Rightarrow> bool" where
  ao_source: "access_op s (assign_source a i s)"
| ao_tool: "access_op s (assign_tool a i s)"
| ao_block: "access_op s (assign_knowledge_block a i s)"
| ao_area: "access_op s (assign_document_area a i s)"
| ao_user: "assign_authorized_user rd a u act all_areas raw s = Inr (s', b) \<Longrightarrow> access_op s s'"
| ao_no_source: "access_op s (unassign_source a i s)"
| ao_no_tool: "access_op s (unassign_tool a i s)"
| ao_no_block: "access_op s (unassign_knowledge_block a i s)"
| ao_no_area: "access_op s (unassign_document_area a i s)"
| ao_no_user: "access_op s (unassign_authorized_user a u s)"
| ao_create: "create_user rd i now c s = Inr (s', x) \<Longrightarrow> access_op s s'"
| ao_update: "update_user rd phone d s = Inr (s', y) \<Longrightarrow> access_op s s'"
| ao_elsewhere: "agent_users s' = agent_users s \<Longrightarrow> agent_user_areas s' = agent_user_areas s \<Longrightarrow>
    area_bindings s' = area_bindings s \<Longrightarrow> access_op s s'"

lemma access_inv_frame: "agent_users s' = agent_users s \<Longrightarrow> agent_user_areas s' = agent_user_areas s \<Longrightarrow>
    area_bindings s' = area_bindings s \<Longrightarrow> access_inv s \<Longrightarrow> access_inv s'"
  by (simp add: access_inv_def)

lemma access_op_inv: "access_op s s' \<Longrightarrow> access_inv s \<Longrightarrow> access_inv s'"
proof (induction rule: access_op.induct)
  case (ao_area s a i)
  then show ?case by (auto simp: access_inv_def assign_document_area_def)
next
  case (ao_user rd a u act all_areas raw s s' b)
  from assign_user_cases [OF ao_user(1)] obtain ids general where s':
    "\<forall>i\<in>set (area_set ids general). bound (area_bindings s) a i \<and> active_area s i"
    "b = \<lparr>gu_agent_id = a, gu_user_id = u, gu_is_active = act, gu_has_all_area_access = all_areas\<rparr>"
    "s' = s\<lparr>agent_users := upsert_agent_user b (agent_users s),
       agent_user_areas := filter (\<lambda>x. \<not> (gx_agent_id x = a \<and> gx_user_id x = u)) (agent_user_areas s) @
       map (\<lambda>i. \<lparr>gx_agent_id = a, gx_user_id = u, gx_area_id = i\<rparr>) (area_set ids general)\<rparr>" by blast
  have "user_key b = (a, u)" by (simp add: s'(2))
  with ao_user(2) s'(1) show ?case
    unfolding s'(3) by (auto simp: access_inv_def upsert_distinct upsert_keys simp del: prod.inject)
next
  case (ao_no_area s a i)
  then show ?case by (auto simp: access_inv_def unassign_document_area_def)
next
  case (ao_no_user s a u)
  then show ?case
    by (auto simp: access_inv_def unassign_authorized_user_def intro: distinct_map_filter)
next
  case (ao_create rd i now c s s' x)
  then show ?case
    by (intro access_inv_frame [of s' s]) (auto simp: create_user_def Let_def bindE_eq_Inr split: if_splits dest: sync_user_areas_frame)
next
  case (ao_update rd phone d s s' y)
  then show ?case
    by (intro access_inv_frame [of s' s])
      (auto simp: update_user_def Let_def bindE_eq_Inr split: option.splits dest: sync_user_areas_frame)
next
  case (ao_elsewhere s' s)
  then show ?case by (rule access_inv_frame)
qed (auto intro: access_inv_frame simp: assign_source_def assign_tool_def assign_knowledge_block_def unassign_source_def
    unassign_tool_def unassign_knowledge_block_def)

lemma area_readable:
  assumes "access_inv s" "i \<in> get_user_area_ids s (Some user) (Some agent)"
  shows "active_area s i \<and> bound (area_bindings s) agent i \<and>
    (\<exists>b. agent_user_of s agent user = Some b \<and> gu_is_active b)"
proof -
  from assms(2) obtain b where b: "find (\<lambda>b. gu_agent_id b = agent \<and> gu_user_id b = user \<and> gu_is_active b) (agent_users s) = Some b"
    "i \<in> (if gu_has_all_area_access b then areas_where s (bound (area_bindings s) agent)
          else areas_where s (\<lambda>i. list_ex (\<lambda>x. gx_agent_id x = agent \<and> gx_user_id x = user \<and> gx_area_id x = i) (agent_user_areas s)))"
    by (auto simp: get_user_area_ids_def split: option.splits)
  from find_SomeD [OF b(1)] have row: "b \<in> set (agent_users s)" "gu_agent_id b = agent" "gu_user_id b = user" "gu_is_active b" by simp_all
  have "distinct (map (\<lambda>b. (gu_agent_id b, gu_user_id b)) (agent_users s))" using assms(1) by (simp add: access_inv_def)
  from find_key [OF this row(1)] row have "agent_user_of s agent user = Some b" by (simp add: agent_user_of_def)
  moreover have "active_area s i" using b(2) by (auto simp: areas_where_def active_area_def list_ex_iff split: if_splits)
  moreover have "bound (area_bindings s) agent i"
    using b(2) assms(1) by (auto simp: areas_where_def access_inv_def list_ex_iff split: if_splits)
  ultimately show ?thesis using row(4) by blast
qed

text \<open>C8: whatever operations run, the documents a user reads through an agent are in active areas bound to the
  agent, and only an active user of the agent reads any.\<close>

theorem documents_within_agent:
  assumes "access_inv s" "access_op\<^sup>*\<^sup>* s s'" "i \<in> get_user_area_ids s' (Some user) (Some agent)"
  shows "active_area s' i \<and> bound (area_bindings s') agent i \<and>
    (\<exists>b. agent_user_of s' agent user = Some b \<and> gu_is_active b)"
proof -
  have "access_inv s'" using assms(2,1) by (induction rule: rtranclp_induct) (auto intro: access_op_inv)
  from area_readable [OF this assms(3)] show ?thesis .
qed

section \<open>A grant\<close>

lemma one_or_none_set: "one_or_none xs = Inr x \<Longrightarrow> set_option x = set xs"
  by (auto simp: one_or_none_def split: list.splits)

lemma set_area_set: "set (area_set ids general) = set ids \<union> set_option general"
  by (cases general) (auto simp: area_set_def)

lemma areas_within: "areas_where s P = {i. active_area s i \<and> P i}"
  by (auto simp: areas_where_def active_area_def list_ex_iff)

lemma area_row: "gx_agent_id x = g \<and> gx_user_id x = u \<and> gx_area_id x = i \<longleftrightarrow>
    x = \<lparr>gx_agent_id = g, gx_user_id = u, gx_area_id = i\<rparr>"
  by (cases x) simp

lemma scope_of_agent:
  assumes "access_inv s"
  shows "get_user_area_ids s (Some user) (Some agent) =
    (case agent_user_of s agent user of
       None \<Rightarrow> {}
     | Some b \<Rightarrow>
         if \<not> gu_is_active b then {}
         else {i. active_area s i \<and> (if gu_has_all_area_access b then bound (area_bindings s) agent i
           else \<lparr>gx_agent_id = agent, gx_user_id = user, gx_area_id = i\<rparr> \<in> set (agent_user_areas s))})"
proof -
  have "distinct (map user_key (agent_users s))" using assms by (simp add: access_inv_def)
  from find_scope [OF this, of "(agent, user)" gu_is_active]
  have "find (\<lambda>b. gu_agent_id b = agent \<and> gu_user_id b = user \<and> gu_is_active b) (agent_users s) =
      (case agent_user_of s agent user of None \<Rightarrow> None | Some x \<Rightarrow> if gu_is_active x then Some x else None)"
    by (simp add: agent_user_of_def conj_assoc)
  moreover have "list_ex (\<lambda>x. gx_agent_id x = agent \<and> gx_user_id x = user \<and> gx_area_id x = i) (agent_user_areas s) \<longleftrightarrow>
      \<lparr>gx_agent_id = agent, gx_user_id = user, gx_area_id = i\<rparr> \<in> set (agent_user_areas s)" for i
    by (simp add: list_ex_iff area_row)
  ultimately show ?thesis by (auto simp: get_user_area_ids_def areas_within split: option.splits)
qed

text \<open>C10: a user granted areas of an agent reads, through that agent, exactly the areas listed and its general
  area, or every active area of the agent, or nothing when the grant is inactive; and what anybody else reads, or
  the user through another agent, stays.\<close>

theorem grant_gives_scope:
  assumes "access_inv s" "assign_authorized_user read_uuid agent user act all_areas raw s = Inr (s', b)"
  shows "get_user_area_ids s' (Some user) (Some agent) =
      (if \<not> act then {}
       else if all_areas then {i. active_area s i \<and> bound (area_bindings s) agent i}
       else {i. \<exists>t\<in>set raw. read_uuid t = Some i} \<union>
         {oa_id a |a. a \<in> set (org_areas s) \<and> bound (area_bindings s) agent (oa_id a) \<and> oa_is_general a \<and> oa_is_active a}) \<and>
    (\<forall>u g. (u, g) \<noteq> (user, agent) \<longrightarrow>
       get_user_area_ids s' (Some u) (Some g) = get_user_area_ids s (Some u) (Some g))"
proof -
  from assms(2) obtain ids general where s': "read_areas read_uuid (\<lambda>_. ''One or more document areas are invalid'') raw = Inr ids"
    "agent_general_area s agent = Inr general"
    "\<forall>i\<in>set (area_set ids general). bound (area_bindings s) agent i \<and> active_area s i"
    "b = \<lparr>gu_agent_id = agent, gu_user_id = user, gu_is_active = act, gu_has_all_area_access = all_areas\<rparr>"
    "s' = s\<lparr>agent_users := upsert_agent_user b (agent_users s),
       agent_user_areas := filter (\<lambda>x. \<not> (gx_agent_id x = agent \<and> gx_user_id x = user)) (agent_user_areas s) @
       map (\<lambda>i. \<lparr>gx_agent_id = agent, gx_user_id = user, gx_area_id = i\<rparr>) (area_set ids general)\<rparr>"
    by (rule assign_user_cases)
  have inv': "access_inv s'" using access_op_inv [OF ao_user [OF assms(2)] assms(1)] .
  have ids: "set ids = {i. \<exists>t\<in>set raw. read_uuid t = Some i}"
    using s'(1) by (force simp: read_areas_def List.map_filter_def find_None_iff split: option.splits)
  have general: "set_option general = {oa_id a |a. a \<in> set (org_areas s) \<and> bound (area_bindings s) agent (oa_id a) \<and>
      oa_is_general a \<and> oa_is_active a}"
  proof -
    let ?as = "filter (\<lambda>a. bound (area_bindings s) agent (oa_id a) \<and> oa_is_general a \<and> oa_is_active a) (org_areas s)"
    have "set_option general = set (map oa_id ?as)"
      using s'(2) unfolding agent_general_area_def by (rule one_or_none_set)
    then show ?thesis by auto
  qed
  have same: "active_area s' = active_area s" "area_bindings s' = area_bindings s"
    by (auto simp: s'(5) active_area_def fun_eq_iff)
  have user': "agent_user_of s' g u = (if (u, g) = (user, agent) then Some b else agent_user_of s g u)" for g u
    by (auto simp: agent_user_of_def s'(4,5) upsert_find)
  have rows: "\<lparr>gx_agent_id = g, gx_user_id = u, gx_area_id = i\<rparr> \<in> set (agent_user_areas s') \<longleftrightarrow>
      (if (u, g) = (user, agent) then i \<in> set (area_set ids general)
       else \<lparr>gx_agent_id = g, gx_user_id = u, gx_area_id = i\<rparr> \<in> set (agent_user_areas s))" for g u i
    by (auto simp: s'(5))
  have "get_user_area_ids s' (Some user) (Some agent) =
      (if \<not> act then {} else if all_areas then {i. active_area s i \<and> bound (area_bindings s) agent i}
       else set (area_set ids general))"
    using s'(3) by (auto simp: scope_of_agent [OF inv'] user' rows same s'(4))
  moreover have "get_user_area_ids s' (Some u) (Some g) = get_user_area_ids s (Some u) (Some g)" if "(u, g) \<noteq> (user, agent)" for u g
    using that by (cases "agent_user_of s g u")
      (auto simp: scope_of_agent [OF inv'] scope_of_agent [OF assms(1)] user' rows same)
  ultimately show ?thesis by (simp add: set_area_set ids general)
qed

section \<open>The tools\<close>

text \<open>A tool is available to an agent only when it is enabled, registered and bound to it and the channel
  admits it; a tool of a source only when the source is active and bound to the agent, and public on the web; a
  writing tool only with the scope to write.\<close>

theorem tools_within_policy:
  assumes "is_allowed read_uuid s name c registered" "tc_agent_id c = Some t"
  shows "\<exists>g x. read_uuid t = Some g \<and> x \<in> set (tool_configs s) \<and> tlc_tool_name x = name \<and> tlc_is_enabled x \<and>
    name \<in> set registered \<and> bound (tool_bindings s) g (tlc_id x) \<and> tc_channel c \<in> set (tlc_allowed_channels x) \<and>
    (\<forall>i. tlc_source_id x = Some i \<longrightarrow> bound (source_bindings s) g i) \<and>
    (tlc_handler_kind x = ''http_api'' \<longrightarrow>
       (\<exists>src\<in>set (integration_sources s). tlc_source_id x = Some (isrc_id src) \<and> isrc_is_active src \<and>
          (tc_channel c = ''web'' \<longrightarrow> isrc_is_public src))) \<and>
    (tlc_risk_level x = ''write'' \<longrightarrow> ''tools:write'' \<in> set (tc_scopes c))"
proof -
  from assms obtain g where g: "read_uuid t = Some g"
    by (auto simp: is_allowed_def available_tools_def split: option.splits)
  with assms obtain r where r: "r \<in> set (tool_rows s (Some g))" "tool_admitted c registered r" "avt_tool_name (tool_entry r) = name"
    by (auto simp: is_allowed_def available_tools_def list_ex_iff)
  then obtain x where x: "r = (x, tool_source s x)" "x \<in> set (tool_configs s)" "tlc_is_enabled x" "bound (tool_bindings s) g (tlc_id x)"
    "\<forall>i. tlc_source_id x = Some i \<longrightarrow> bound (source_bindings s) g i"
    by (auto simp: tool_rows_def split: option.splits)
  have src: "\<exists>src\<in>set (integration_sources s). tlc_source_id x = Some (isrc_id src) \<and> isrc_is_active src \<and>
      (tc_channel c = ''web'' \<longrightarrow> isrc_is_public src)" if "source_admits c (tool_source s x)"
    using that by (auto simp: source_admits_def tool_source_def bind_eq_Some_conv split: option.splits dest!: find_SomeD)
  from g x r(2,3) show ?thesis
    by (intro exI [of _ g] exI [of _ x]) (auto simp: tool_admitted_def tool_entry_def src)
qed

text \<open>A concrete agent: a user is granted one of its areas and reads that and the general one; a tool of its
  source is available on the web.\<close>

definition shop_area :: "128 word \<Rightarrow> bool \<Rightarrow> organization_area" where
  "shop_area n general = \<lparr>oa_id = UUID n, oa_name = ''area'', oa_is_general = general, oa_is_active = True\<rparr>"

definition shop_tool :: tool_config where
  "shop_tool = \<lparr>tlc_id = UUID 30, tlc_tool_name = ''stock'', tlc_description = None, tlc_source_system = ''http'',
     tlc_source_id = Some (UUID 40), tlc_is_enabled = True, tlc_handler_kind = ''http_api'',
     tlc_allowed_channels = [''web''], tlc_risk_level = ''read_only''\<rparr>"

definition shop_source :: integration_source where
  "shop_source = \<lparr>isrc_id = UUID 40, isrc_name = ''erp'', isrc_slug = ''erp'', isrc_is_active = True, isrc_is_public = True\<rparr>"

definition shop_store :: resource_store where
  "shop_store = \<lparr>org_areas = [shop_area 1 True, shop_area 2 False, shop_area 3 False], doc_folders = [], rag_documents = [],
     authorized_users = [], user_areas = [],
     area_bindings = [\<lparr>bi_agent_id = UUID 10, bi_resource_id = UUID 1\<rparr>, \<lparr>bi_agent_id = UUID 10, bi_resource_id = UUID 2\<rparr>],
     source_bindings = [\<lparr>bi_agent_id = UUID 10, bi_resource_id = UUID 40\<rparr>],
     tool_bindings = [\<lparr>bi_agent_id = UUID 10, bi_resource_id = UUID 30\<rparr>], block_bindings = [], agent_users = [],
     agent_user_areas = [], integration_sources = [shop_source], tool_configs = [shop_tool], knowledge_blocks = []\<rparr>"

definition read_shop :: "string \<Rightarrow> uuid option" where
  "read_shop t = (if t = ''ten'' then Some (UUID 10) else if t = ''two'' then Some (UUID 2) else None)"

definition shop_user :: agent_user where
  "shop_user = \<lparr>gu_agent_id = UUID 10, gu_user_id = UUID 20, gu_is_active = True, gu_has_all_area_access = False\<rparr>"

definition granted_store :: resource_store where
  "granted_store = shop_store\<lparr>agent_users := [shop_user],
     agent_user_areas := [\<lparr>gx_agent_id = UUID 10, gx_user_id = UUID 20, gx_area_id = UUID 1\<rparr>,
       \<lparr>gx_agent_id = UUID 10, gx_user_id = UUID 20, gx_area_id = UUID 2\<rparr>]\<rparr>"

lemma shop_inv: "access_inv shop_store"
  by (simp add: access_inv_def shop_store_def)

lemma shop_grant: "assign_authorized_user read_shop (UUID 10) (UUID 20) True False [''two''] shop_store = Inr (granted_store, shop_user)"
  by code_simp

theorem grant_gives_scope_witness:
  "get_user_area_ids granted_store (Some (UUID 20)) (Some (UUID 10)) = {UUID 1, UUID 2} \<and>
   get_user_area_ids granted_store (Some (UUID 21)) (Some (UUID 10)) = {}"
proof -
  have "{i. \<exists>t\<in>set [''two'']. read_shop t = Some i} = {UUID 2}" by (auto simp: read_shop_def)
  moreover have "{oa_id a |a. a \<in> set (org_areas shop_store) \<and> bound (area_bindings shop_store) (UUID 10) (oa_id a) \<and>
      oa_is_general a \<and> oa_is_active a} = {UUID 1}"
    by (auto simp: shop_store_def shop_area_def bound_def conj_disj_distribL conj_disj_distribR ex_disj_distrib)
  moreover have "get_user_area_ids shop_store (Some (UUID 21)) (Some (UUID 10)) = {}"
    by (simp add: get_user_area_ids_def shop_store_def)
  ultimately show ?thesis using grant_gives_scope [OF shop_inv shop_grant] by auto
qed

theorem documents_within_agent_witness:
  "UUID 2 \<in> get_user_area_ids granted_store (Some (UUID 20)) (Some (UUID 10)) \<and> active_area granted_store (UUID 2) \<and>
   bound (area_bindings granted_store) (UUID 10) (UUID 2)"
proof -
  have run: "access_op\<^sup>*\<^sup>* shop_store granted_store" using ao_user [OF shop_grant] by (rule r_into_rtranclp)
  have scope: "UUID 2 \<in> get_user_area_ids granted_store (Some (UUID 20)) (Some (UUID 10))" by code_simp
  from documents_within_agent [OF shop_inv run scope] scope show ?thesis by blast
qed

definition web_context :: tool_context where
  "web_context = \<lparr>tc_channel = ''web'', tc_agent_id = Some ''ten'', tc_scopes = [], tc_allowed_source_ids = []\<rparr>"

theorem tools_within_policy_witness:
  "is_allowed read_shop shop_store ''stock'' web_context [''stock''] \<and>
   (\<exists>src\<in>set (integration_sources shop_store). isrc_is_active src \<and> isrc_is_public src)"
proof -
  have allowed: "is_allowed read_shop shop_store ''stock'' web_context [''stock'']"
    by (simp add: is_allowed_def available_tools_def web_context_def read_shop_def tool_rows_def shop_store_def
        shop_tool_def shop_source_def bound_def tool_source_def tool_admitted_def source_admits_def tool_entry_def)
  have agent: "tc_agent_id web_context = Some ''ten''" by (simp add: web_context_def)
  from tools_within_policy [OF allowed agent] obtain x where x: "x \<in> set (tool_configs shop_store)"
    "tlc_handler_kind x = ''http_api'' \<longrightarrow> (\<exists>src\<in>set (integration_sources shop_store). tlc_source_id x = Some (isrc_id src) \<and>
       isrc_is_active src \<and> (tc_channel web_context = ''web'' \<longrightarrow> isrc_is_public src))"
    by blast
  from x(1) have "tlc_handler_kind x = ''http_api''" by (simp add: shop_store_def shop_tool_def)
  with x(2) allowed show ?thesis by (auto simp: web_context_def)
qed

end
