(* ===== verification/Chunking.thy ===== *)
theory Chunking
  imports Json "HOL-Library.Sublist"
begin

text \<open>
  \<open>services/rag/chunking.py\<close>: the text of a document is cut into overlapping chunks for retrieval. A part
  is cleaned line by line, cut into units (a word and the space after it, or pieces of a unit that is too
  long), and windows of units are filled up to the token budget; the next window starts a few units before
  the end of the last one. A token is estimated as 3.5 bytes; the estimate computed with floats is the
  integer one for every text shorter than 2^50 bytes.
\<close>

section \<open>Texts\<close>

definition is_break :: "char \<Rightarrow> bool" where
  "is_break c \<longleftrightarrow> codept c \<in> {10, 11, 12, 13, 28, 29, 30, 133}"

text \<open>\<open>str.splitlines\<close>: a carriage return and a line feed together end one line.\<close>

function splitlines :: "string \<Rightarrow> string list" where
  "splitlines s =
     (if s = [] then []
      else
        takeWhile (\<lambda>c. \<not> is_break c) s #
        (case dropWhile (\<lambda>c. \<not> is_break c) s of
           [] \<Rightarrow> []
         | b # r \<Rightarrow> splitlines (if codept b = 13 \<and> r \<noteq> [] \<and> codept (hd r) = 10 then tl r else r)))"
  by pat_completeness auto

lemma dropWhile_shorter: "dropWhile P s = b # r \<Longrightarrow> length r < length s"
  using length_dropWhile_le [of P s] by simp

termination splitlines
  by (relation "measure length") (auto dest!: dropWhile_shorter)

fun join_lines :: "string list \<Rightarrow> string" where
  "join_lines [] = []"
| "join_lines [l] = l"
| "join_lines (l # ls) = l @ CHR 0x0A # join_lines ls"

definition clean_text :: "string \<Rightarrow> string" where
  "clean_text s = strip (join_lines (filter (\<lambda>l. l \<noteq> []) (map strip (splitlines s))))"

text \<open>\<open>_UNIT_RE.findall\<close>: the matches of a word and the space after it, from the left.\<close>

function unit_matches :: "string \<Rightarrow> string list" where
  "unit_matches s =
     (let t = dropWhile is_space s;
          rest = dropWhile (\<lambda>c. \<not> is_space c) t
      in if t = [] then []
         else (takeWhile (\<lambda>c. \<not> is_space c) t @ takeWhile is_space rest) # unit_matches (dropWhile is_space rest))"
  by pat_completeness auto

lemma unit_shorter:
  assumes "dropWhile is_space s \<noteq> []"
  shows "length (dropWhile is_space (dropWhile (\<lambda>c. \<not> is_space c) (dropWhile is_space s))) < length s"
proof -
  from assms obtain c r where t: "dropWhile is_space s = c # r" by (cases "dropWhile is_space s") auto
  then have "\<not> is_space c" by (rule dropWhile_hd_False)
  then have "length (dropWhile (\<lambda>c. \<not> is_space c) (c # r)) \<le> length r" by (simp add: length_dropWhile_le)
  moreover have "length (c # r) \<le> length s" using length_dropWhile_le [of is_space s] t by simp
  ultimately show ?thesis
    unfolding t using length_dropWhile_le [of is_space "dropWhile (\<lambda>c. \<not> is_space c) (c # r)"] by simp
qed

termination unit_matches
  by (relation "measure length") (auto intro: unit_shorter)

text \<open>\<open>unit[index : index + k]\<close> for the indices in steps of \<open>k\<close>.\<close>

function pieces :: "nat \<Rightarrow> string \<Rightarrow> string list" where
  "pieces k s = (if s = [] \<or> k = 0 then [] else take k s # pieces k (drop k s))"
  by pat_completeness auto
termination by (relation "measure (\<lambda>(_, s). length s)") auto

declare splitlines.simps [simp del] unit_matches.simps [simp del] pieces.simps [simp del]

section \<open>Units and windows\<close>

text \<open>\<open>_estimated_tokens\<close>, \<open>max(1, math.ceil(bytes / 3.5))\<close>.\<close>

definition estimated_tokens :: "string \<Rightarrow> nat" where
  "estimated_tokens s = max 1 ((2 * utf8_length s + 6) div 7)"

definition text_units :: "nat \<Rightarrow> string \<Rightarrow> string list" where
  "text_units chunk clean =
     concat (map (\<lambda>u. if estimated_tokens u \<le> chunk then [u] else pieces (max 16 (3 * chunk div 4)) u) (unit_matches clean))"

text \<open>The first loop of a window: \<open>end\<close> advances while the budget lasts, by one unit at least.\<close>

function window_end :: "string list \<Rightarrow> nat \<Rightarrow> nat \<Rightarrow> nat \<Rightarrow> nat \<Rightarrow> nat" where
  "window_end us chunk start e count =
     (if e < length us \<and> \<not> (start < e \<and> chunk < count + estimated_tokens (us ! e))
      then window_end us chunk start (Suc e) (count + estimated_tokens (us ! e)) else e)"
  by pat_completeness auto
termination by (relation "measure (\<lambda>(us, _, _, e, _). length us - e)") auto

declare window_end.simps [simp del]

text \<open>The second loop: the next start moves back until the overlap is reached.\<close>

fun overlap_start :: "string list \<Rightarrow> nat \<Rightarrow> nat \<Rightarrow> nat \<Rightarrow> nat \<Rightarrow> nat" where
  "overlap_start us overlap start 0 acc = 0"
| "overlap_start us overlap start (Suc n) acc =
     (if start < Suc n \<and> acc < overlap then overlap_start us overlap start n (acc + estimated_tokens (us ! n)) else Suc n)"

definition window_text :: "string list \<Rightarrow> nat \<Rightarrow> nat \<Rightarrow> string" where
  "window_text us start e = strip (concat (drop start (take e us)))"

text \<open>\<open>while start < len(units)\<close>: the contents of the chunks of one part.\<close>

function chunk_texts :: "string list \<Rightarrow> nat \<Rightarrow> nat \<Rightarrow> nat \<Rightarrow> string list" where
  "chunk_texts us chunk overlap start =
     (if length us \<le> start then []
      else
        let e = window_end us chunk start start 0;
            content = window_text us start e
        in if content = [] then []
           else content #
             (if length us \<le> e then []
              else chunk_texts us chunk overlap (max (Suc start) (overlap_start us overlap start e 0))))"
  by pat_completeness auto
termination by (relation "measure (\<lambda>(us, _, _, start). length us - start)") auto

declare chunk_texts.simps [simp del]

section \<open>Documents\<close>

record text_part =
  xp_text :: string
  xp_page_number :: "int option"
  xp_location_label :: "string option"
  xp_section_title :: "string option"
  xp_metadata :: "(string \<times> json) list"

record chunk_draft =
  xd_ordinal :: nat
  xd_content :: string
  xd_token_count :: nat
  xd_page_number :: "int option"
  xd_location_label :: "string option"
  xd_section_title :: "string option"
  xd_metadata :: "(string \<times> json) list"

definition draft_of :: "text_part \<Rightarrow> nat \<Rightarrow> string \<Rightarrow> chunk_draft" where
  "draft_of p n content =
     \<lparr>xd_ordinal = n, xd_content = content, xd_token_count = estimated_tokens content, xd_page_number = xp_page_number p,
      xd_location_label = xp_location_label p, xd_section_title = xp_section_title p, xd_metadata = xp_metadata p\<rparr>"

text \<open>The chunks of a part; none when nothing is left of its text.\<close>

definition part_texts :: "nat \<Rightarrow> nat \<Rightarrow> text_part \<Rightarrow> string list" where
  "part_texts chunk overlap p =
     (let clean = clean_text (xp_text p) in
      if clean = [] then [] else chunk_texts (text_units chunk clean) chunk overlap 0)"

fun chunk_parts :: "nat \<Rightarrow> nat \<Rightarrow> nat \<Rightarrow> text_part list \<Rightarrow> chunk_draft list" where
  "chunk_parts chunk overlap n [] = []"
| "chunk_parts chunk overlap n (p # ps) =
     (let texts = part_texts chunk overlap p in
      map2 (draft_of p) [n ..< n + length texts] texts @ chunk_parts chunk overlap (n + length texts) ps)"

text \<open>The parts of the document; \<open>Inl\<close> the message of the \<open>ValueError\<close>.\<close>

definition build_chunks :: "text_part list \<Rightarrow> int \<Rightarrow> int \<Rightarrow> string + chunk_draft list" where
  "build_chunks parts chunk_tokens overlap_tokens =
     (if chunk_tokens < 100 then Inl ''chunk_tokens debe ser al menos 100''
      else if overlap_tokens < 0 \<or> chunk_tokens \<le> overlap_tokens
      then Inl ''chunk_overlap_tokens debe ser menor que chunk_tokens''
      else Inr (chunk_parts (nat chunk_tokens) (nat overlap_tokens) 0 parts))"

text \<open>
  What the chunks of a document promise: they stay within the token budget, are numbered in order, and keep
  every word of the text, unless a run of space is so long that a whole window of units is blank.
\<close>

section \<open>The estimate\<close>

lemma utf8_length_simps [simp]: "utf8_length (s @ t) = utf8_length s + utf8_length t" "utf8_length [] = 0"
  "utf8_length (rev s) = utf8_length s"
  by (simp_all add: utf8_length_def rev_map [symmetric] sum_list_rev)

lemma utf8_length_dropWhile: "utf8_length (dropWhile P s) \<le> utf8_length s"
  by (induction s) (auto simp: utf8_length_def)

lemma utf8_length_strip: "utf8_length (strip s) \<le> utf8_length s"
  unfolding strip_def using utf8_length_dropWhile [of is_space s]
    utf8_length_dropWhile [of is_space "rev (dropWhile is_space s)"] by simp

lemma utf8_length_le: "utf8_length s \<le> 2 * length s"
  by (induction s) (auto simp: utf8_length_def)

lemma estimated_strip: "estimated_tokens (strip s) \<le> estimated_tokens s"
  using utf8_length_strip [of s] unfolding estimated_tokens_def by (intro max.mono order_refl div_le_mono) simp

lemma estimated_append: "estimated_tokens (s @ t) \<le> estimated_tokens s + estimated_tokens t"
proof -
  have "(2 * (x + y) + 6) div 7 \<le> (2 * x + 6) div 7 + (2 * y + 6) div (7 :: nat)" for x y
    by presburger
  from this [of "utf8_length s" "utf8_length t"] show ?thesis by (simp add: estimated_tokens_def max_def)
qed

abbreviation token_sum :: "string list \<Rightarrow> nat" where
  "token_sum us \<equiv> sum_list (map estimated_tokens us)"

lemma estimated_concat: "us \<noteq> [] \<Longrightarrow> estimated_tokens (concat us) \<le> token_sum us"
proof (induction us)
  case (Cons u us)
  show ?case
  proof (cases "us = []")
    case False
    with Cons estimated_append [of u "concat us"] show ?thesis by simp
  qed simp
qed simp

section \<open>Units\<close>

lemma piecesD: "u \<in> set (pieces k s) \<Longrightarrow> u \<noteq> [] \<and> length u \<le> k"
proof (induction k s rule: pieces.induct)
  case (1 k s)
  show ?case
  proof (cases "s = [] \<or> k = 0")
    case True
    with 1(2) show ?thesis by (subst (asm) pieces.simps) simp
  next
    case False
    with 1(2) have "u = take k s \<or> u \<in> set (pieces k (drop k s))" by (subst (asm) pieces.simps) simp
    with 1(1) False show ?thesis by auto
  qed
qed

lemma unit_estimate:
  assumes "100 \<le> chunk" "u \<in> set (text_units chunk s)"
  shows "estimated_tokens u \<le> chunk"
proof -
  from assms(2) obtain w where "u \<in> set (if estimated_tokens w \<le> chunk then [w] else pieces (max 16 (3 * chunk div 4)) w)"
    unfolding text_units_def set_concat set_map by blast
  then consider "estimated_tokens u \<le> chunk" | "length u \<le> max 16 (3 * chunk div 4)"
    by (auto split: if_splits dest: piecesD)
  then show ?thesis
  proof cases
    case 2
    then have "length u \<le> 3 * chunk div 4" using assms(1) by simp
    with utf8_length_le [of u] have "2 * utf8_length u + 6 \<le> 3 * chunk + 6" by linarith
    then have "(2 * utf8_length u + 6) div 7 \<le> (3 * chunk + 6) div 7" by (rule div_le_mono)
    also have "\<dots> \<le> chunk" using assms(1) by simp
    finally show ?thesis using assms(1) by (simp add: estimated_tokens_def)
  qed simp
qed

section \<open>Windows\<close>

lemma slice_snoc: "start \<le> e \<Longrightarrow> e < length us \<Longrightarrow> drop start (take (Suc e) us) = drop start (take e us) @ [us ! e]"
  by (simp add: take_Suc_conv_app_nth)

lemma window_end_bounds:
  assumes "\<forall>u\<in>set us. estimated_tokens u \<le> chunk" "start \<le> e" "e \<le> length us"
    "n = token_sum (drop start (take e us))" "n \<le> chunk"
  shows "e \<le> window_end us chunk start e n \<and> window_end us chunk start e n \<le> length us \<and>
    token_sum (drop start (take (window_end us chunk start e n) us)) \<le> chunk \<and>
    (start < length us \<longrightarrow> start < window_end us chunk start e n)"
  using assms
proof (induction us chunk start e n rule: window_end.induct)
  case (1 us chunk start e n)
  show ?case
  proof (cases "e < length us \<and> \<not> (start < e \<and> chunk < n + estimated_tokens (us ! e))")
    case True
    have "n + estimated_tokens (us ! e) \<le> chunk"
    proof (cases "start < e")
      case False
      with 1(3,5) have "n = 0" by simp
      with 1(2) True show ?thesis by simp
    qed (use True in simp)
    with 1(1) [OF True] 1(2-5) True show ?thesis
      by (subst (1 2 3 4) window_end.simps) (simp add: slice_snoc)
  next
    case False
    with 1(3-6) show ?thesis by (subst (1 2 3 4) window_end.simps) auto
  qed
qed

lemma overlap_start_le: "overlap_start us overlap start n acc \<le> n"
proof (induction n arbitrary: acc)
  case (Suc n)
  then show ?case by (simp add: le_SucI)
qed simp

lemma chunk_texts_bounds:
  assumes "\<forall>u\<in>set us. estimated_tokens u \<le> chunk" "t \<in> set (chunk_texts us chunk overlap start)"
  shows "t \<noteq> [] \<and> strip t = t \<and> estimated_tokens t \<le> chunk"
  using assms
proof (induction us chunk overlap start rule: chunk_texts.induct)
  case (1 us chunk overlap start)
  let ?e = "window_end us chunk start start 0"
  let ?t = "window_text us start ?e" and ?next = "max (Suc start) (overlap_start us overlap start ?e 0)"
  from 1(3) have go: "\<not> length us \<le> start" by (subst (asm) chunk_texts.simps) (simp split: if_splits)
  from 1(3) go have ne: "?t \<noteq> []" by (subst (asm) chunk_texts.simps) (simp add: Let_def split: if_splits)
  from 1(3) go ne consider (here) "t = ?t" | (later) "\<not> length us \<le> ?e" "t \<in> set (chunk_texts us chunk overlap ?next)"
    by (subst (asm) chunk_texts.simps) (auto simp: Let_def split: if_splits)
  then show ?case
  proof cases
    case here
    have w: "start < ?e" "?e \<le> length us" "token_sum (drop start (take ?e us)) \<le> chunk"
      using window_end_bounds [of us chunk start start 0] 1(2) go by simp_all
    have "estimated_tokens ?t \<le> chunk"
      using estimated_concat [of "drop start (take ?e us)"] estimated_strip [of "concat (drop start (take ?e us))"] w
      by (simp add: window_text_def)
    with here ne show ?thesis by (simp add: window_text_def)
  next
    case later
    with 1(1) [OF go refl refl ne] 1(2) show ?thesis by blast
  qed
qed

section \<open>No word is lost\<close>

definition has_word :: "string \<Rightarrow> bool" where
  "has_word u \<longleftrightarrow> list_ex (\<lambda>c. \<not> is_space c) u"

lemma strip_split: "\<exists>a b. u = a @ strip u @ b \<and> list_all is_space a \<and> list_all is_space b"
proof -
  let ?v = "dropWhile is_space u"
  have "u = takeWhile is_space u @ ?v" by simp
  moreover have "?v = strip u @ rev (takeWhile is_space (rev ?v))"
    unfolding strip_def by (metis rev_append rev_rev_ident takeWhile_dropWhile_id)
  moreover have "list_all is_space (takeWhile is_space u)" "list_all is_space (rev (takeWhile is_space (rev ?v)))"
    by (auto simp: list_all_iff dest: set_takeWhileD)
  ultimately show ?thesis by (metis append.assoc)
qed

lemma strip_word: "has_word u \<longleftrightarrow> strip u \<noteq> []"
proof -
  obtain a b where u: "u = a @ strip u @ b" "list_all is_space a" "list_all is_space b" using strip_split by blast
  have "has_word u" if "strip u \<noteq> []"
  proof -
    have "strip u = strip (strip u)" by simp
    with that have "\<not> is_space (hd (strip u))"
      by (metis dropWhile_eq_Nil_conv hd_dropWhile hd_dropWhile_rev strip_def)
    with that u(1) show ?thesis unfolding has_word_def by (metis Un_iff hd_in_set list_ex_iff set_append)
  qed
  moreover have "\<not> has_word u" if "strip u = []"
    using u that by (auto simp: has_word_def list_ex_iff list_all_iff)
  ultimately show ?thesis by blast
qed

lemma dropWhile_keeps: "m \<noteq> [] \<Longrightarrow> \<not> P (hd m) \<Longrightarrow> \<exists>x'. dropWhile P (x @ m @ y) = x' @ m @ y"
proof (induction x)
  case Nil
  then show ?case by (cases m) auto
next
  case (Cons c x)
  then show ?case by (cases "P c") (auto intro: exI [of _ "c # x"])
qed

lemma strip_keeps:
  assumes "m \<noteq> []" "strip m = m"
  shows "sublist m (strip (x @ m @ y))"
proof -
  have ends: "\<not> is_space (hd m)" "\<not> is_space (hd (rev m))"
    using assms by (metis dropWhile_eq_Nil_conv hd_dropWhile hd_dropWhile_rev strip_def)
      (metis assms hd_dropWhile rev_is_Nil_conv rev_rev_ident strip_def)
  obtain x' where x': "dropWhile is_space (x @ m @ y) = x' @ m @ y" using dropWhile_keeps [of m is_space x y] assms(1) ends(1) by blast
  obtain y' where "dropWhile is_space (rev y @ rev m @ rev x') = y' @ rev m @ rev x'"
    using dropWhile_keeps [of "rev m" is_space "rev y" "rev x'"] assms(1) ends(2) by auto
  then have "strip (x @ m @ y) = x' @ m @ rev y'" by (simp add: strip_def x')
  then show ?thesis by simp
qed

lemma window_keeps:
  assumes "start \<le> i" "i < e" "e \<le> length us" "has_word (us ! i)"
  shows "sublist (strip (us ! i)) (window_text us start e)"
proof -
  have "us ! i \<in> set (drop start (take e us))"
    using assms by (auto simp: in_set_conv_nth intro!: exI [of _ "i - start"])
  then obtain p q where "drop start (take e us) = p @ us ! i # q" by (meson split_list)
  moreover obtain a b where u: "us ! i = a @ strip (us ! i) @ b" using strip_split by blast
  ultimately have "concat (drop start (take e us)) = (concat p @ a) @ strip (us ! i) @ (b @ concat q)" by simp
  with strip_keeps [of "strip (us ! i)" "concat p @ a" "b @ concat q"] assms(4) show ?thesis by (simp add: window_text_def strip_word)
qed

lemma chunk_texts_keep:
  assumes "\<forall>u\<in>set us. estimated_tokens u \<le> chunk \<and> has_word u" "start \<le> i" "i < length us"
  shows "\<exists>t\<in>set (chunk_texts us chunk overlap start). sublist (strip (us ! i)) t"
  using assms
proof (induction us chunk overlap start rule: chunk_texts.induct)
  case (1 us chunk overlap start)
  let ?e = "window_end us chunk start start 0"
  let ?t = "window_text us start ?e" and ?next = "max (Suc start) (overlap_start us overlap start ?e 0)"
  have go: "\<not> length us \<le> start" using 1(3,4) by simp
  have w: "start < ?e" "?e \<le> length us"
    using window_end_bounds [of us chunk start start 0] 1(2) go by auto
  have "sublist (strip (us ! start)) ?t" using window_keeps [of start start ?e us] w go 1(2) by simp
  moreover have "strip (us ! start) \<noteq> []" using 1(2) go strip_word [of "us ! start"] by simp
  ultimately have ne: "?t \<noteq> []" by auto
  have texts: "chunk_texts us chunk overlap start =
      ?t # (if length us \<le> ?e then [] else chunk_texts us chunk overlap ?next)"
    using go ne by (subst chunk_texts.simps) (simp add: Let_def)
  show ?case
  proof (cases "i < ?e")
    case True
    with window_keeps [of start i ?e us] w(2) 1(2-4) show ?thesis by (simp add: texts)
  next
    case False
    then have e: "\<not> length us \<le> ?e" using 1(4) by simp
    have "?next \<le> i" using False w(1) overlap_start_le [of us overlap start ?e 0] by simp
    with 1(1) [OF go refl refl ne e] 1(2,4) e show ?thesis by (auto simp: texts)
  qed
qed

section \<open>Documents\<close>

lemma chunk_parts_ordinals: "map xd_ordinal (chunk_parts chunk overlap n ps) = [n ..< n + length (chunk_parts chunk overlap n ps)]"
proof (induction ps arbitrary: n)
  case (Cons p ps)
  let ?texts = "part_texts chunk overlap p"
  let ?rest = "chunk_parts chunk overlap (n + length ?texts) ps"
  have "map xd_ordinal (map2 (draft_of p) [n ..< n + length ?texts] ?texts) = [n ..< n + length ?texts]"
    by (intro nth_equalityI) (simp_all add: draft_of_def)
  moreover have "[n ..< n + length ?texts + length ?rest] = [n ..< n + length ?texts] @ [n + length ?texts ..< n + length ?texts + length ?rest]"
    by (rule upt_add_eq_append) simp
  ultimately show ?case using Cons [of "n + length ?texts"] by (simp add: Let_def add.assoc)
qed simp

lemma chunk_parts_set: "xd_content ` set (chunk_parts chunk overlap n ps) = (\<Union>p\<in>set ps. set (part_texts chunk overlap p))"
proof (induction ps arbitrary: n)
  case (Cons p ps)
  let ?texts = "part_texts chunk overlap p"
  have "map xd_content (map2 (draft_of p) [n ..< n + length ?texts] ?texts) = ?texts"
    by (intro nth_equalityI) (simp_all add: draft_of_def)
  then have "xd_content ` set (map2 (draft_of p) [n ..< n + length ?texts] ?texts) = set ?texts"
    by (metis list.set_map)
  with Cons show ?case by (simp add: Let_def image_Un)
qed simp

lemma chunk_parts_draft:
  assumes "d \<in> set (chunk_parts chunk overlap n ps)"
  shows "\<exists>p\<in>set ps. \<exists>k. d = draft_of p k (xd_content d) \<and> xd_content d \<in> set (part_texts chunk overlap p)"
  using assms
proof (induction ps arbitrary: n)
  case (Cons p ps)
  let ?texts = "part_texts chunk overlap p"
  from Cons(2) consider "d \<in> set (map2 (draft_of p) [n ..< n + length ?texts] ?texts)"
    | "d \<in> set (chunk_parts chunk overlap (n + length ?texts) ps)"
    by (auto simp: Let_def)
  then show ?case
  proof cases
    case 1
    then obtain k t where "d = draft_of p k t" "t \<in> set ?texts" by (auto dest: set_zip_rightD)
    then show ?thesis by (auto simp: draft_of_def)
  qed (use Cons(1) in fastforce)
qed simp

text \<open>C13: the chunks of a document are numbered from zero in order; each holds stripped text, has its
  token count and keeps to the budget of tokens.\<close>

theorem chunks_within_budget:
  assumes "build_chunks parts chunk overlap = Inr ds"
  shows "map xd_ordinal ds = [0 ..< length ds] \<and>
    (\<forall>d\<in>set ds. xd_content d \<noteq> [] \<and> strip (xd_content d) = xd_content d \<and>
       xd_token_count d = estimated_tokens (xd_content d) \<and> int (xd_token_count d) \<le> chunk)"
proof -
  from assms have ds: "100 \<le> chunk" "ds = chunk_parts (nat chunk) (nat overlap) 0 parts"
    by (auto simp: build_chunks_def split: if_splits)
  have "xd_content d \<noteq> [] \<and> strip (xd_content d) = xd_content d \<and>
      xd_token_count d = estimated_tokens (xd_content d) \<and> int (xd_token_count d) \<le> chunk" if "d \<in> set ds" for d
  proof -
    from that chunk_parts_draft [of d "nat chunk" "nat overlap" 0 parts] obtain p k
      where d: "d = draft_of p k (xd_content d)" "xd_content d \<in> set (part_texts (nat chunk) (nat overlap) p)"
      by (auto simp: ds)
    have count: "xd_token_count d = estimated_tokens (xd_content d)" by (subst d(1)) (simp add: draft_of_def)
    have "\<forall>u\<in>set (text_units (nat chunk) s). estimated_tokens u \<le> nat chunk" for s
      using unit_estimate [of "nat chunk"] ds(1) by simp
    moreover have "xd_content d \<in> set (chunk_texts (text_units (nat chunk) (clean_text (xp_text p))) (nat chunk) (nat overlap) 0)"
      using d(2) by (simp add: part_texts_def Let_def split: if_splits)
    ultimately have "xd_content d \<noteq> [] \<and> strip (xd_content d) = xd_content d \<and> estimated_tokens (xd_content d) \<le> nat chunk"
      by (intro chunk_texts_bounds)
    with count ds(1) show ?thesis by (simp add: le_nat_iff)
  qed
  moreover have "map xd_ordinal ds = [0 ..< length ds]"
    using chunk_parts_ordinals [of "nat chunk" "nat overlap" 0 parts] by (simp add: ds(2))
  ultimately show ?thesis by blast
qed


section \<open>Concrete documents\<close>

definition part_of :: "string \<Rightarrow> text_part" where
  "part_of s = \<lparr>xp_text = s, xp_page_number = Some 1, xp_location_label = None, xp_section_title = None, xp_metadata = []\<rparr>"

lemma greeting_chunks: "build_chunks [part_of '' hola  mundo ''] 100 20 = Inr [draft_of (part_of '' hola  mundo '') 0 ''hola  mundo'']"
  by code_simp

theorem chunks_within_budget_witness:
  "map xd_ordinal [draft_of (part_of '' hola  mundo '') 0 ''hola  mundo''] = [0] \<and> strip ''hola  mundo'' = ''hola  mundo''"
  using chunks_within_budget [OF greeting_chunks] by (simp add: draft_of_def)


section \<open>A padded line\<close>

lemma splitlines_one: "s \<noteq> [] \<Longrightarrow> \<forall>c\<in>set s. \<not> is_break c \<Longrightarrow> splitlines s = [s]"
  by (subst splitlines.simps) (simp add: dropWhile_eq_Nil_conv [THEN iffD2])

lemma unit_matches_two:
  assumes "\<not> is_space a" "\<not> is_space b" "n \<noteq> 0"
  shows "unit_matches (a # replicate n (CHR '' '') @ [b]) = [a # replicate n (CHR '' ''), [b]]"
proof -
  have run: "takeWhile is_space (replicate n (CHR '' '') @ [b]) = replicate n (CHR '' '')"
    "dropWhile is_space (replicate n (CHR '' '') @ [b]) = [b]"
    using assms(2) is_space_blank by (simp_all add: takeWhile_append dropWhile_append)
  have stop: "takeWhile (\<lambda>c. \<not> is_space c) (replicate n (CHR '' '') @ [b]) = []"
    "dropWhile (\<lambda>c. \<not> is_space c) (replicate n (CHR '' '') @ [b]) = replicate n (CHR '' '') @ [b]"
    using assms(3) is_space_blank by (cases n; simp)+
  have single: "unit_matches [b] = [[b]]"
    using assms(2) by (subst unit_matches.simps) (simp add: unit_matches.simps [of "[]"])
  show ?thesis
    by (subst unit_matches.simps) (simp add: Let_def assms stop run single)
qed

definition padded_text :: string where
  "padded_text = CHR ''a'' # replicate 674 (CHR '' '') @ ''b''"

definition blank_piece :: string where
  "blank_piece = replicate 75 (CHR '' '')"

definition padded_units :: "string list" where
  "padded_units = (CHR ''a'' # replicate 74 (CHR '' '')) # replicate 8 blank_piece @ [''b'']"

lemma padded_words: "\<not> is_space (CHR ''a'')" "\<not> is_space (CHR ''b'')" "\<not> is_break (CHR ''a'')" "\<not> is_break (CHR ''b'')"
  "\<not> is_break (CHR '' '')"
  by code_simp+

lemma strip_ends: "\<not> is_space a \<Longrightarrow> \<not> is_space b \<Longrightarrow> strip (a # w @ [b]) = a # w @ [b]"
  by (simp add: strip_def)

lemma padded_clean: "clean_text padded_text = padded_text"
proof -
  have "splitlines padded_text = [padded_text]"
    by (rule splitlines_one) (auto simp: padded_text_def padded_words)
  moreover have "strip padded_text = padded_text"
    unfolding padded_text_def using strip_ends padded_words by simp
  ultimately show ?thesis by (simp add: clean_text_def padded_text_def)
qed

lemma utf8_length_blank: "utf8_length (replicate n (CHR '' '')) = n" "utf8_length (CHR ''a'' # s) = Suc (utf8_length s)"
  "utf8_length ''b'' = 1"
  by (simp_all add: utf8_length_def sum_list_replicate)

lemma padded_estimates: "estimated_tokens (CHR ''a'' # replicate 674 (CHR '' '')) = 193" "estimated_tokens ''b'' = 1"
  "estimated_tokens (CHR ''a'' # replicate 74 (CHR '' '')) = 22" "estimated_tokens blank_piece = 22"
  by (simp_all add: estimated_tokens_def utf8_length_blank blank_piece_def)

lemma blank_pieces: "pieces 75 (replicate (75 * k) (CHR '' '')) = replicate k blank_piece"
proof (induction k)
  case (Suc k)
  then show ?case by (subst pieces.simps) (simp add: blank_piece_def)
qed (simp add: pieces.simps [of _ "[]"])

lemma padded_text_units: "text_units 100 padded_text = padded_units"
proof -
  have matches: "unit_matches padded_text = [CHR ''a'' # replicate 674 (CHR '' ''), ''b'']"
    unfolding padded_text_def by (rule unit_matches_two) (simp_all add: padded_words)
  have "pieces 75 (CHR ''a'' # replicate 674 (CHR '' '')) = (CHR ''a'' # replicate 74 (CHR '' '')) # replicate 8 blank_piece"
    using blank_pieces [of 8] by (subst pieces.simps) (simp add: take_Cons' drop_Cons')
  then show ?thesis by (simp add: text_units_def matches padded_estimates padded_units_def)
qed

lemma padded_nth: "padded_units ! 0 = CHR ''a'' # replicate 74 (CHR '' '')" "length padded_units = 10"
  "0 < i \<Longrightarrow> i < 9 \<Longrightarrow> padded_units ! i = blank_piece"
  by (auto simp: padded_units_def nth_Cons' nth_append)

lemma padded_windows: "window_end padded_units 100 0 0 0 = 4" "window_end padded_units 100 4 4 0 = 8"
  by (simp add: window_end.simps padded_nth padded_estimates)+

lemma concat_blank: "concat (replicate k (replicate m x)) = replicate (k * m) x"
  by (induction k) (simp_all add: replicate_add)

lemma padded_window_texts: "window_text padded_units 0 4 = ''a''" "window_text padded_units 4 8 = []"
proof -
  have "concat (drop 0 (take 4 padded_units)) = CHR ''a'' # replicate 299 (CHR '' '')"
    by (simp add: padded_units_def blank_piece_def take_Cons' concat_blank replicate_add [symmetric])
  then show "window_text padded_units 0 4 = ''a''"
    by (simp add: window_text_def strip_def padded_words is_space_blank dropWhile_append)
  have "concat (drop 4 (take 8 padded_units)) = replicate 300 (CHR '' '')"
    by (simp add: padded_units_def blank_piece_def take_Cons' drop_Cons' concat_blank replicate_add [symmetric])
  then show "window_text padded_units 4 8 = []"
    by (simp add: window_text_def strip_def is_space_blank)
qed

lemma no_overlap: "overlap_start us 0 start n acc = n"
  by (cases n) simp_all

lemma padded_chunks: "chunk_texts padded_units 100 0 0 = [''a'']"
proof -
  have "chunk_texts padded_units 100 0 4 = []"
    by (subst chunk_texts.simps) (simp add: Let_def padded_nth padded_windows padded_window_texts)
  then show ?thesis
    by (subst chunk_texts.simps) (simp add: Let_def padded_nth padded_windows padded_window_texts no_overlap)
qed

text \<open>A line padded with more space than a window holds ends the part: the word after it is in no chunk.\<close>

theorem padding_loses_text:
  "build_chunks [part_of padded_text] 100 0 = Inr [draft_of (part_of padded_text) 0 ''a''] \<and>
   ''b'' \<in> set (text_units 100 (clean_text padded_text)) \<and> has_word ''b''"
proof -
  have "padded_text \<noteq> []" by (simp add: padded_text_def)
  then have "part_texts 100 0 (part_of padded_text) = [''a'']"
    by (simp add: part_texts_def part_of_def padded_clean padded_text_units padded_chunks)
  then show ?thesis
    by (simp add: build_chunks_def padded_clean padded_text_units) (simp add: padded_units_def has_word_def padded_words)
qed

end
