(* ===== verification/RateLimits.thy ===== *)
theory RateLimits
  imports Prelude Complex_Main
begin

text \<open>
  \<open>apps/web-bff/src/app/rate_limit.py\<close>: the fixed-window rate limiters in front of the web chat. The
  limiter in memory keeps a window per key; the one on Redis decides from the counter and the time to live
  its script returns. Seconds are rational numbers, without the rounding of floats.
\<close>

section \<open>In memory\<close>

record rate_limiter =
  rl_requests :: int
  rl_window_seconds :: int

record rate_window =
  rw_started_at :: rat
  rw_count :: int

record rate_decision =
  rd_allowed :: bool
  rd_remaining :: int
  rd_retry_after_seconds :: int

type_synonym rate_windows = "string \<Rightarrow> rate_window option"

definition current_window :: "rate_limiter \<Rightarrow> rat \<Rightarrow> rate_window option \<Rightarrow> rate_window" where
  "current_window L now w =
     (case w of
        None \<Rightarrow> \<lparr>rw_started_at = now, rw_count = 0\<rparr>
      | Some x \<Rightarrow>
          if now - rw_started_at x \<ge> of_int (rl_window_seconds L) then \<lparr>rw_started_at = now, rw_count = 0\<rparr> else x)"

definition memory_check :: "rate_limiter \<Rightarrow> rat \<Rightarrow> string \<Rightarrow> rate_windows \<Rightarrow> rate_windows \<times> rate_decision" where
  "memory_check L now key ws =
     (let w = current_window L now (ws key);
          w' = w\<lparr>rw_count := rw_count w + 1\<rparr>
      in (ws(key \<mapsto> w'),
          \<lparr>rd_allowed = (rw_count w' \<le> rl_requests L), rd_remaining = max 0 (rl_requests L - rw_count w'),
           rd_retry_after_seconds = max 1 \<lceil>of_int (rl_window_seconds L) - (now - rw_started_at w')\<rceil>\<rparr>))"

section \<open>On Redis\<close>

text \<open>The answer of the script, as far as the limiter looks at it: no answer when the client raises, the
  two integers of a well-formed answer otherwise.\<close>

datatype rate_error = RateLimitBackend

definition redis_check :: "rate_limiter \<Rightarrow> int list option \<Rightarrow> rate_error + rate_decision" where
  "redis_check L answer =
     (case answer of
        Some [count, ttl] \<Rightarrow>
          if count < 1 \<or> ttl < 1 then Inl RateLimitBackend
          else Inr \<lparr>rd_allowed = (count \<le> rl_requests L), rd_remaining = max 0 (rl_requests L - count),
                    rd_retry_after_seconds = max 1 (- (- ttl div 1000))\<rparr>
      | _ \<Rightarrow> Inl RateLimitBackend)"

section \<open>Many checks\<close>

text \<open>Checks in the order they take the lock, each with its time and key.\<close>

fun run_checks :: "rate_limiter \<Rightarrow> rate_windows \<Rightarrow> (rat \<times> string) list \<Rightarrow> rate_decision list" where
  "run_checks L ws [] = []"
| "run_checks L ws ((now, key) # cs) = (let (ws', d) = memory_check L now key ws in d # run_checks L ws' cs)"

text \<open>How many checks of a key are allowed in one interval as long as a window.\<close>

definition allowed_between :: "rate_limiter \<Rightarrow> string \<Rightarrow> rat \<Rightarrow> (rat \<times> string) list \<Rightarrow> rate_decision list \<Rightarrow> int" where
  "allowed_between L key t cs ds =
     int (length (filter (\<lambda>((now, k), d). k = key \<and> t \<le> now \<and> now < t + of_int (rl_window_seconds L) \<and> rd_allowed d)
       (zip cs ds)))"

lemma allowed_simps [simp]:
  "allowed_between L key t [] ds = 0"
  "allowed_between L key t ((now, k) # cs) (d # ds) =
     (if k = key \<and> t \<le> now \<and> now < t + of_int (rl_window_seconds L) \<and> rd_allowed d then 1 else 0) +
     allowed_between L key t cs ds"
  by (simp_all add: allowed_between_def)

abbreviation left :: "rate_limiter \<Rightarrow> rate_window \<Rightarrow> int" where
  "left L w \<equiv> max 0 (rl_requests L - rw_count w)"

lemma memory_check_other: "k \<noteq> key \<Longrightarrow> fst (memory_check L now k ws) key = ws key"
  by (simp add: memory_check_def Let_def)

lemma memory_check_key:
  "fst (memory_check L now key ws) key =
     Some ((current_window L now (ws key))\<lparr>rw_count := rw_count (current_window L now (ws key)) + 1\<rparr>)"
  "rd_allowed (snd (memory_check L now key ws)) \<longleftrightarrow> rw_count (current_window L now (ws key)) + 1 \<le> rl_requests L"
  by (simp_all add: memory_check_def Let_def)

lemma run_checks_Cons: "run_checks L ws ((now, key) # cs) =
    snd (memory_check L now key ws) # run_checks L (fst (memory_check L now key ws)) cs"
  by (simp add: case_prod_beta)

declare run_checks.simps(2) [simp del] run_checks_Cons [simp]

lemma allowed_late: "\<forall>c\<in>set cs. t + of_int (rl_window_seconds L) \<le> fst c \<Longrightarrow> allowed_between L key t cs ds = 0"
  by (auto simp: allowed_between_def filter_empty_conv dest!: set_zip_leftD)

text \<open>In a window that began in the interval, at most what the window has left.\<close>

lemma allowed_in_window:
  assumes "ws key = Some w" "t \<le> rw_started_at w" "sorted (map fst cs)"
  shows "allowed_between L key t cs (run_checks L ws cs) \<le> left L w"
  using assms
proof (induction cs arbitrary: ws w)
  case (Cons c cs)
  obtain now k where c: "c = (now, k)" by (cases c)
  let ?ws = "fst (memory_check L now k ws)"
  consider (late) "t + of_int (rl_window_seconds L) \<le> now" | (other) "k \<noteq> key"
    | (hit) "k = key" "now < t + of_int (rl_window_seconds L)" by force
  then show ?case
  proof cases
    case late
    with Cons(4) have "\<forall>x\<in>set (c # cs). t + of_int (rl_window_seconds L) \<le> fst x" by (auto simp: c)
    from allowed_late [OF this] show ?thesis by simp
  next
    case other
    with Cons(1) [of ?ws w] Cons(2-4) show ?thesis by (simp add: c memory_check_other)
  next
    case hit
    with Cons(2,3) have "current_window L now (ws key) = w" by (simp add: current_window_def)
    with Cons(1) [of ?ws "w\<lparr>rw_count := rw_count w + 1\<rparr>"] Cons(3,4) hit show ?thesis
      by (auto simp: c memory_check_key)
  qed
qed simp

text \<open>When every check is in the interval or after it: what an earlier window has left, and one window more.\<close>

lemma allowed_from:
  assumes "sorted (map fst cs)" "\<forall>c\<in>set cs. t \<le> fst c"
  shows "allowed_between L key t cs (run_checks L ws cs) \<le>
    (case ws key of None \<Rightarrow> 0 | Some w \<Rightarrow> left L w) + max 0 (rl_requests L)"
  using assms
proof (induction cs arbitrary: ws)
  case Nil
  then show ?case by (auto split: option.splits)
next
  case (Cons c cs)
  obtain now k where c: "c = (now, k)" by (cases c)
  let ?ws = "fst (memory_check L now k ws)" and ?w = "current_window L now (ws key)"
  show ?case
  proof (cases "k = key")
    case False
    with Cons(1) [of ?ws] Cons(2,3) show ?thesis by (simp add: c memory_check_other)
  next
    case True
    note key = memory_check_key [of L now key ws]
    show ?thesis
    proof (cases "?w = \<lparr>rw_started_at = now, rw_count = 0\<rparr>")
      case new: True
      have "allowed_between L key t cs (run_checks L ?ws cs) \<le> left L (?w\<lparr>rw_count := rw_count ?w + 1\<rparr>)"
        by (rule allowed_in_window) (use Cons(2,3) key True new in \<open>auto simp: c\<close>)
      with new True show ?thesis by (auto simp: c key split: option.splits)
    next
      case False
      then obtain x where w: "ws key = Some x" "?w = x" by (auto simp: current_window_def split: option.splits if_splits)
      have "allowed_between L key t cs (run_checks L ?ws cs) \<le> left L (?w\<lparr>rw_count := rw_count ?w + 1\<rparr>) + max 0 (rl_requests L)"
        using Cons(1) [of ?ws] Cons(2,3) key True by (simp add: c)
      with True w show ?thesis by (auto simp: c key)
    qed
  qed
qed

text \<open>Every stored window has counted a check; before the first check there is none.\<close>

definition counts_ok :: "rate_windows \<Rightarrow> bool" where
  "counts_ok ws \<longleftrightarrow> (\<forall>k w. ws k = Some w \<longrightarrow> 1 \<le> rw_count w)"

lemma counts_ok_check: "counts_ok ws \<Longrightarrow> counts_ok (fst (memory_check L now key ws))"
  by (auto simp: counts_ok_def memory_check_def Let_def current_window_def split: option.splits)
    (meson order_trans zero_le_one)

text \<open>C14: whatever is checked, in the order of time, the limiter in memory allows a key less than twice its
  requests in any interval as long as a window.\<close>

theorem rate_bounded:
  assumes "sorted (map fst cs)" "counts_ok ws"
  shows "allowed_between L key t cs (run_checks L ws cs) \<le> max 0 (2 * rl_requests L - 1)"
  using assms
proof (induction cs arbitrary: ws)
  case (Cons c cs)
  obtain now k where c: "c = (now, k)" by (cases c)
  show ?case
  proof (cases "now < t")
    case True
    with Cons(1) [of "fst (memory_check L now k ws)"] Cons(2,3) counts_ok_check show ?thesis by (simp add: c)
  next
    case False
    with Cons(2) have "\<forall>x\<in>set (c # cs). t \<le> fst x" by (auto simp: c)
    from allowed_from [OF Cons(2) this, of L key ws] have
      "allowed_between L key t (c # cs) (run_checks L ws (c # cs)) \<le>
         (case ws key of None \<Rightarrow> 0 | Some w \<Rightarrow> left L w) + max 0 (rl_requests L)" .
    also have "\<dots> \<le> max 0 (2 * rl_requests L - 1)"
    proof (cases "ws key")
      case (Some w)
      with Cons(3) have "1 \<le> rw_count w" by (simp add: counts_ok_def)
      with Some show ?thesis by simp
    qed simp
    finally show ?thesis by simp
  qed
qed simp

text \<open>The bound is met: two requests per ten seconds, three of them between the ninth and the nineteenth.\<close>

theorem rate_bounded_witness:
  "allowed_between \<lparr>rl_requests = 2, rl_window_seconds = 10\<rparr> ''a'' 9 [(0, ''a''), (9, ''a''), (10, ''a''), (11, ''a'')]
     (run_checks \<lparr>rl_requests = 2, rl_window_seconds = 10\<rparr> Map.empty [(0, ''a''), (9, ''a''), (10, ''a''), (11, ''a'')]) = 3 \<and>
   (3::int) \<le> 2 * 2 - 1"
proof -
  let ?L = "\<lparr>rl_requests = 2, rl_window_seconds = 10\<rparr>" and ?cs = "[(0, ''a''), (9, ''a''), (10, ''a''), (11, ''a'')]"
  have "allowed_between ?L ''a'' 9 ?cs (run_checks ?L Map.empty ?cs) \<le> max 0 (2 * rl_requests ?L - 1)"
    by (rule rate_bounded) (simp_all add: counts_ok_def)
  moreover have "allowed_between ?L ''a'' 9 ?cs (run_checks ?L Map.empty ?cs) = 3"
    by (simp add: memory_check_def Let_def current_window_def)
  ultimately show ?thesis by simp
qed

end
